(* ===== verification/Sc_Prelude.thy ===== *)
theory Sc_Prelude
  imports Main "HOL-Library.Word" "HOL-Library.Monad_Syntax"
begin

text \<open>
  Shared vocabulary of the development: the fact collections, the outcome of a C function
  that may leave its defined behaviour, and the generic list and option lemmas the
  components use.

  A C function is an Isabelle function into \<open>'a option\<close>. \<open>Some r\<close> is a run that stays
  inside the language's defined behaviour and returns \<open>r\<close>; \<open>None\<close> is a run that reads or
  writes outside an object (a string copied over the end of its buffer, a scan that passes
  the end of a heap block) or that never returns. Status codes the C code returns on
  purpose are ordinary values inside \<open>Some\<close>.
\<close>

named_theorems cfg_simps \<open>unfolding rules of the configuration operations\<close>
named_theorems cfg_keys \<open>facts about the names of NVRAM variables\<close>
named_theorems wf_intros \<open>preservation of the well-formedness invariants\<close>

type_synonym bytes = "char list"
type_synonym cstr = "char list"

abbreviation NUL :: char where
  "NUL \<equiv> CHR 0x00"

text \<open>A C string is given by its characters before the terminator.\<close>

definition cstr_ok :: "cstr \<Rightarrow> bool" where
  "cstr_ok s \<longleftrightarrow> NUL \<notin> set s"

lemma cstr_ok_Nil [simp]: "cstr_ok []"
  by (simp add: cstr_ok_def)

lemma cstr_ok_Cons [simp]: "cstr_ok (c # s) \<longleftrightarrow> c \<noteq> NUL \<and> cstr_ok s"
  by (auto simp: cstr_ok_def)

lemma cstr_ok_append [simp]: "cstr_ok (s @ t) \<longleftrightarrow> cstr_ok s \<and> cstr_ok t"
  by (auto simp: cstr_ok_def)

lemma cstr_ok_take: "cstr_ok s \<Longrightarrow> cstr_ok (take n s)"
  by (auto simp: cstr_ok_def dest: in_set_takeD)

text \<open>\<open>strcpy\<close> or \<open>sprintf\<close> into an array of \<open>n\<close> bytes: the terminator must fit as well.\<close>

definition into_buf :: "nat \<Rightarrow> cstr \<Rightarrow> cstr option" where
  "into_buf n s = (if length s < n then Some s else None)"

lemma into_buf_fits [simp]: "length s < n \<Longrightarrow> into_buf n s = Some s"
  by (simp add: into_buf_def)

lemma into_buf_overflow [simp]: "n \<le> length s \<Longrightarrow> into_buf n s = None"
  by (simp add: into_buf_def)

lemma into_buf_Some_iff: "into_buf n s = Some t \<longleftrightarrow> length s < n \<and> t = s"
  by (auto simp: into_buf_def)

subsection \<open>Lists split at a terminator\<close>

lemma takeWhile_append_stop:
  "x \<notin> set s \<Longrightarrow> takeWhile (\<lambda>c. c \<noteq> x) (s @ x # r) = s"
  by (induction s) auto

lemma dropWhile_append_stop:
  "x \<notin> set s \<Longrightarrow> dropWhile (\<lambda>c. c \<noteq> x) (s @ x # r) = x # r"
  by (induction s) auto

lemma takeWhile_not_in_id: "x \<notin> set s \<Longrightarrow> takeWhile (\<lambda>c. c \<noteq> x) s = s"
  by (induction s) auto

lemma append_Cons_stop_inj:
  assumes "x \<notin> set a" "x \<notin> set b" "a @ x # r = b @ x # r'"
  shows "a = b \<and> r = r'"
proof -
  have "takeWhile (\<lambda>c. c \<noteq> x) (a @ x # r) = a" "takeWhile (\<lambda>c. c \<noteq> x) (b @ x # r') = b"
    using assms(1,2) by (simp_all add: takeWhile_append_stop)
  then have "a = b" using assms(3) by metis
  then show ?thesis using assms(3) by simp
qed

subsection \<open>Option as the monad of partial C functions\<close>

lemma bind_Some_iff:
  "Option.bind m f = Some y \<longleftrightarrow> (\<exists>x. m = Some x \<and> f x = Some y)"
  by (cases m) auto

lemma bind_None_iff:
  "Option.bind m f = None \<longleftrightarrow> m = None \<or> (\<exists>x. m = Some x \<and> f x = None)"
  by (cases m) auto

end
