(* ===== verification/C_Lib.thy ===== *)
theory C_Lib
  imports Sc_Prelude
begin

text \<open>
  The parts of the C library (uClibc on big-endian MIPS) the sources use: character
  classes, decimal and hexadecimal formatting, \<open>atoi\<close>, and the \<open>sscanf\<close> conversions the sources use on
  unterminated buffers. None of it is code of the repository; each definition
  states the documented behaviour of the library function of the same name.
\<close>

subsection \<open>Characters\<close>

abbreviation code :: "char \<Rightarrow> nat" where
  "code c \<equiv> of_char c"

definition c_isdigit :: "char \<Rightarrow> bool" where
  "c_isdigit c \<longleftrightarrow> 48 \<le> code c \<and> code c \<le> 57"

definition c_isspace :: "char \<Rightarrow> bool" where
  "c_isspace c \<longleftrightarrow> code c = 32 \<or> (9 \<le> code c \<and> code c \<le> 13)"

definition digit_char :: "nat \<Rightarrow> char" where
  "digit_char d = char_of (48 + d)"

lemma code_digit_char [simp]: "d < 10 \<Longrightarrow> code (digit_char d) = 48 + d"
  by (simp add: digit_char_def)

lemma c_isdigit_digit_char [simp]: "d < 10 \<Longrightarrow> c_isdigit (digit_char d)"
  by (simp add: c_isdigit_def)

lemma c_isspace_digit_char [simp]: "d < 10 \<Longrightarrow> \<not> c_isspace (digit_char d)"
  by (simp add: c_isspace_def)

lemma c_isdigit_neq [simp]:
  "c_isdigit c \<Longrightarrow> c \<noteq> CHR ''-''" "c_isdigit c \<Longrightarrow> c \<noteq> CHR ''+''" "c_isdigit c \<Longrightarrow> c \<noteq> NUL"
  "c_isdigit c \<Longrightarrow> c \<noteq> CHR ''.''" "c_isdigit c \<Longrightarrow> c \<noteq> CHR '',''" "c_isdigit c \<Longrightarrow> c \<noteq> CHR ''_''"
  by (auto simp: c_isdigit_def)

lemma c_isdigit_not_space [simp]: "c_isdigit c \<Longrightarrow> \<not> c_isspace c"
  by (simp add: c_isdigit_def c_isspace_def)

subsection \<open>Decimal formatting and \<open>atoi\<close>\<close>

fun dec_digits :: "nat \<Rightarrow> cstr" where
  "dec_digits n = (if n < 10 then [digit_char n] else dec_digits (n div 10) @ [digit_char (n mod 10)])"

declare dec_digits.simps [simp del]

definition fmt_d :: "int \<Rightarrow> cstr" where
  "fmt_d v = (if v < 0 then CHR ''-'' # dec_digits (nat (- v)) else dec_digits (nat v))"

fun digits_val :: "nat \<Rightarrow> cstr \<Rightarrow> nat" where
  "digits_val acc [] = acc"
| "digits_val acc (c # s) = (if c_isdigit c then digits_val (acc * 10 + (code c - 48)) s else acc)"

definition INT_MAX :: int where "INT_MAX = 2147483647"
definition INT_MIN :: int where "INT_MIN = - 2147483648"

definition clamp_int :: "int \<Rightarrow> int" where
  "clamp_int v = max INT_MIN (min INT_MAX v)"

fun signed_val :: "cstr \<Rightarrow> int" where
  "signed_val [] = 0"
| "signed_val (c # s) =
     (if c = CHR ''-'' then - int (digits_val 0 s)
      else if c = CHR ''+'' then int (digits_val 0 s)
      else int (digits_val 0 (c # s)))"

text \<open>\<open>atoi\<close> is \<open>strtol (s, NULL, 10)\<close> with 32-bit \<open>long\<close>: it skips white space, takes an
  optional sign and the leading digits, and saturates.\<close>

definition atoi :: "cstr \<Rightarrow> int" where
  "atoi s = clamp_int (signed_val (dropWhile c_isspace s))"

lemma dec_digits_not_Nil [simp]: "dec_digits n \<noteq> []"
  by (subst dec_digits.simps) simp

lemma dec_digits_isdigit: "c \<in> set (dec_digits n) \<Longrightarrow> c_isdigit c"
proof (induction n rule: dec_digits.induct)
  case (1 n)
  then show ?case by (auto simp: dec_digits.simps [of n] split: if_splits)
qed

lemma digits_val_append:
  "(\<And>c. c \<in> set s \<Longrightarrow> c_isdigit c) \<Longrightarrow> digits_val acc (s @ t) = digits_val (digits_val acc s) t"
  by (induction s arbitrary: acc) auto

lemma digits_val_dec_digits: "digits_val 0 (dec_digits n) = n"
proof (induction n rule: dec_digits.induct)
  case (1 n)
  show ?case
  proof (cases "n < 10")
    case True
    then show ?thesis by (simp add: dec_digits.simps [of n])
  next
    case False
    then show ?thesis using 1 False
      by (simp add: dec_digits.simps [of n] digits_val_append dec_digits_isdigit)
  qed
qed

lemma digits_val_dec_digits_stop:
  "(\<And>c r. t = c # r \<Longrightarrow> \<not> c_isdigit c) \<Longrightarrow> digits_val 0 (dec_digits n @ t) = n"
  by (cases t) (auto simp: digits_val_append dec_digits_isdigit digits_val_dec_digits)

lemma dropWhile_space_digits: "dropWhile c_isspace (dec_digits n @ t) = dec_digits n @ t"
  using dec_digits_isdigit [of "hd (dec_digits n)" n]
  by (cases "dec_digits n") auto

lemma signed_val_digits: "c_isdigit c \<Longrightarrow> signed_val (c # s) = int (digits_val 0 (c # s))"
  by (auto simp: c_isdigit_def)

lemma signed_val_fmt_d_stop:
  assumes "\<And>c r. t = c # r \<Longrightarrow> \<not> c_isdigit c"
  shows "signed_val (dropWhile c_isspace (fmt_d v @ t)) = v"
proof (cases "v < 0")
  case True
  moreover have "\<not> c_isspace (CHR ''-'')" by (simp add: c_isspace_def)
  ultimately show ?thesis
    using assms by (simp add: fmt_d_def digits_val_dec_digits_stop)
next
  case False
  obtain c r where cr: "dec_digits (nat v) = c # r" by (cases "dec_digits (nat v)") auto
  then have "c_isdigit c" using dec_digits_isdigit [of c "nat v"] by simp
  then have "signed_val (dec_digits (nat v) @ t) = int (digits_val 0 (dec_digits (nat v) @ t))"
    by (simp add: cr signed_val_digits)
  also have "\<dots> = v" using False assms by (simp add: digits_val_dec_digits_stop)
  finally show ?thesis using False by (simp add: fmt_d_def dropWhile_space_digits)
qed

definition int_range :: "int \<Rightarrow> bool" where
  "int_range v \<longleftrightarrow> INT_MIN \<le> v \<and> v \<le> INT_MAX"

lemma clamp_int_id: "int_range v \<Longrightarrow> clamp_int v = v"
  by (simp add: clamp_int_def int_range_def)

lemma int_range_clamp [simp]: "int_range (clamp_int v)"
  by (simp add: clamp_int_def int_range_def INT_MAX_def INT_MIN_def)

lemma int_range_atoi [simp]: "int_range (atoi s)"
  by (simp add: atoi_def)

lemma atoi_fmt_d_stop:
  "int_range v \<Longrightarrow> (\<And>c r. t = c # r \<Longrightarrow> \<not> c_isdigit c) \<Longrightarrow> atoi (fmt_d v @ t) = v"
  by (simp add: atoi_def signed_val_fmt_d_stop clamp_int_id)

lemma atoi_fmt_d [simp]: "int_range v \<Longrightarrow> atoi (fmt_d v) = v"
  using atoi_fmt_d_stop [of v "[]"] by simp

lemma fmt_d_inj: "fmt_d v = fmt_d w \<Longrightarrow> v = w"
  using signed_val_fmt_d_stop [of "[]" v] signed_val_fmt_d_stop [of "[]" w] by simp

lemma fmt_d_eq_iff [simp]: "fmt_d v = fmt_d w \<longleftrightarrow> v = w"
  using fmt_d_inj by blast

lemma fmt_d_set: "c \<in> set (fmt_d v) \<Longrightarrow> c_isdigit c \<or> c = CHR ''-''"
  by (auto simp: fmt_d_def dest: dec_digits_isdigit split: if_splits)

lemma cstr_ok_fmt_d [simp]: "cstr_ok (fmt_d v)"
  using fmt_d_set [of NUL v] by (auto simp: cstr_ok_def c_isdigit_def)

lemma fmt_d_not_Nil [simp]: "fmt_d v \<noteq> []"
  by (simp add: fmt_d_def)

lemma length_dec_digits_less: "n < 10 ^ k \<Longrightarrow> 0 < k \<Longrightarrow> length (dec_digits n) \<le> k"
proof (induction k arbitrary: n)
  case 0
  then show ?case by simp
next
  case (Suc k)
  show ?case
  proof (cases "n < 10")
    case True
    then show ?thesis by (simp add: dec_digits.simps [of n])
  next
    case False
    with Suc.prems have "0 < k" by (cases k) auto
    moreover have "n div 10 < 10 ^ k" using Suc.prems by simp
    ultimately have "length (dec_digits (n div 10)) \<le> k" by (rule Suc.IH [rotated])
    with False show ?thesis by (simp add: dec_digits.simps [of n])
  qed
qed

lemma length_fmt_d_nonneg: "0 \<le> v \<Longrightarrow> v < 10 ^ k \<Longrightarrow> 0 < k \<Longrightarrow> length (fmt_d v) \<le> k"
proof -
  assume a: "0 \<le> v" "v < 10 ^ k" "0 < k"
  have "nat v < 10 ^ k" using a by (simp add: nat_less_iff)
  then show ?thesis using a by (simp add: fmt_d_def length_dec_digits_less)
qed

subsection \<open>Hexadecimal formatting\<close>

definition hex_char :: "bool \<Rightarrow> nat \<Rightarrow> char" where
  "hex_char upper d = (if d < 10 then char_of (48 + d) else char_of ((if upper then 55 else 87) + d))"

fun hex_digits :: "bool \<Rightarrow> nat \<Rightarrow> cstr" where
  "hex_digits u n = (if n < 16 then [hex_char u n] else hex_digits u (n div 16) @ [hex_char u (n mod 16)])"

declare hex_digits.simps [simp del]

text \<open>\<open>%x\<close> and \<open>%02x\<close>, of a value read as unsigned.\<close>

definition fmt_x :: "nat \<Rightarrow> cstr" where
  "fmt_x n = hex_digits False n"

definition fmt_02x :: "bool \<Rightarrow> nat \<Rightarrow> cstr" where
  "fmt_02x u n = (if n < 16 then CHR ''0'' # hex_digits u n else hex_digits u n)"

subsection \<open>Scanning a buffer that may have no terminator\<close>

text \<open>
  \<open>sscanf\<close> conversions on a buffer that was filled by \<open>read\<close>: \<open>None\<close> when the scan would pass the
  last byte read, \<open>Some None\<close> when the input does not match.
\<close>

definition raw_skip_ws :: "bytes \<Rightarrow> bytes option" where
  "raw_skip_ws b = (let r = dropWhile c_isspace b in if r = [] then None else Some r)"

definition raw_int :: "bytes \<Rightarrow> (int \<times> bytes) option option" where
  "raw_int b = do {
     r \<leftarrow> raw_skip_ws b;
     let signed = hd r \<in> {CHR ''-'', CHR ''+''};
     let t = (if signed then tl r else r);
     let rest = dropWhile c_isdigit t;
     if rest = [] then None
     else if takeWhile c_isdigit t = [] then Some None
     else Some (Some (clamp_int (if hd r = CHR ''-'' then - int (digits_val 0 t) else int (digits_val 0 t)), rest))
   }"

text \<open>\<open>%*[^:]:\<close>, a non-empty run of other characters and the colon. A zero byte ends the input.\<close>

definition raw_to_colon :: "bytes \<Rightarrow> bytes option option" where
  "raw_to_colon b =
     (let r = dropWhile (\<lambda>c. c \<noteq> CHR '':'' \<and> c \<noteq> NUL) b in
      if r = [] then None
      else if hd b = CHR '':'' \<or> hd r = NUL then Some None
      else Some (Some (tl r)))"

text \<open>\<open>strstr\<close>: the search ends at a zero byte.\<close>

fun raw_strstr :: "bytes \<Rightarrow> cstr \<Rightarrow> bytes option option" where
  "raw_strstr [] pat = None"
| "raw_strstr (c # b) pat =
     (if take (length pat) (c # b) = pat then Some (Some (c # b))
      else if c = NUL then Some None
      else raw_strstr b pat)"

subsection \<open>Searching and splitting strings\<close>

text \<open>\<open>strstr (s, pat)\<close>: the offset of the first occurrence.\<close>

fun c_strstr :: "cstr \<Rightarrow> cstr \<Rightarrow> nat option" where
  "c_strstr [] pat = (if pat = [] then Some 0 else None)"
| "c_strstr (c # s) pat =
     (if take (length pat) (c # s) = pat then Some 0 else map_option Suc (c_strstr s pat))"

text \<open>The tokens of \<open>strtok\<close> with one delimiter.\<close>

function strtok_all :: "char \<Rightarrow> cstr \<Rightarrow> cstr list" where
  "strtok_all d s =
     (let r = dropWhile (\<lambda>c. c = d) s in
      if r = [] then []
      else takeWhile (\<lambda>c. c \<noteq> d) r # strtok_all d (dropWhile (\<lambda>c. c \<noteq> d) r))"
  by pat_completeness auto
termination
proof (relation "measure (length o snd)")
  fix d :: char and s r :: cstr
  assume r: "r = dropWhile (\<lambda>c. c = d) s" "r \<noteq> []"
  from r(2) obtain c t where ct: "r = c # t" by (auto simp: neq_Nil_conv)
  have "hd r \<noteq> d" using r hd_dropWhile [of "\<lambda>c. c = d" s] by metis
  then have "length (dropWhile (\<lambda>c. c \<noteq> d) r) < length r"
    using length_dropWhile_le [of "\<lambda>c. c \<noteq> d" t] by (simp add: ct)
  moreover have "length r \<le> length s" using r(1) by (simp add: length_dropWhile_le)
  ultimately show "((d, dropWhile (\<lambda>c. c \<noteq> d) r), d, s) \<in> measure (length o snd)" by simp
qed simp

declare strtok_all.simps [simp del]

end
