(* ===== verification/Host.thy ===== *)
theory Host
  imports C_Lib
begin

text \<open>
  The system the user-space code runs on, as far as the code sees it: the files by their
  path, and the shell commands handed to \<open>system()\<close> in the order they were issued. Opening a
  file for reading fails when it does not exist; opening it for writing, and allocating
  memory for it, is taken to succeed. What the code observes of its surroundings is part of the
  record as well: whether the configuration daemon accepts connections, the output of a shell
  command, the working directory after a change to a given path, the word left on the stack
  in an uninitialised field, what the kernel answers about a network interface, what a command
  the code waits for does to the files, for which files the daemon's \<open>read\<close> fails, and the bytes its
  uninitialised buffer holds. Components
  extend the record with their own state.
\<close>

text \<open>The answers of the \<open>SIOCGIF\<close> requests for one interface; a request may fail.\<close>

record iface =
  if_addr :: "32 word option"
  if_hwaddr :: "8 word list option"
  if_netmask :: "32 word option"
  if_mtu :: "int option"

record host =
  files :: "string \<Rightarrow> bytes option"
  cmds :: "cstr list"
  scfgd :: bool
  sh_out :: "cstr \<Rightarrow> cstr"
  sh_cwd :: "cstr \<Rightarrow> cstr"
  stack_word :: "32 word"
  ifaces :: "cstr \<Rightarrow> iface"
  sh_fx :: "cstr \<Rightarrow> (string \<Rightarrow> bytes option) \<Rightarrow> string \<Rightarrow> bytes option"
  rd_fails :: "string \<Rightarrow> bool"
  stack_bytes :: "nat \<Rightarrow> char"

definition ex_host :: "(string \<Rightarrow> bytes option) \<Rightarrow> host" where
  "ex_host f = \<lparr>files = f, cmds = [], scfgd = True, sh_out = (\<lambda>_. []), sh_cwd = id, stack_word = 0,
     ifaces = (\<lambda>_. \<lparr>if_addr = None, if_hwaddr = None, if_netmask = None, if_mtu = None\<rparr>), sh_fx = (\<lambda>_ f. f),
     rd_fails = (\<lambda>_. False), stack_bytes = (\<lambda>_. NUL)\<rparr>"

lemma ex_host_simps [simp]: "files (ex_host f) = f" "cmds (ex_host f) = []" "scfgd (ex_host f)"
  by (simp_all add: ex_host_def)

text \<open>\<open>access (path, F_OK) == 0\<close>.\<close>

definition f_exists :: "string \<Rightarrow> 'a host_scheme \<Rightarrow> bool" where
  "f_exists path s \<longleftrightarrow> files s path \<noteq> None"

definition f_write :: "string \<Rightarrow> bytes \<Rightarrow> 'a host_scheme \<Rightarrow> 'a host_scheme" where
  "f_write path b s = s\<lparr>files := (files s)(path \<mapsto> b)\<rparr>"

definition f_append :: "string \<Rightarrow> bytes \<Rightarrow> 'a host_scheme \<Rightarrow> 'a host_scheme" where
  "f_append path b s = f_write path (case files s path of None \<Rightarrow> b | Some old \<Rightarrow> old @ b) s"

definition f_unlink :: "string \<Rightarrow> 'a host_scheme \<Rightarrow> 'a host_scheme" where
  "f_unlink path s = s\<lparr>files := (files s)(path := None)\<rparr>"

text \<open>\<open>system (cmd)\<close>: the command is recorded.\<close>

definition c_system :: "cstr \<Rightarrow> 'a host_scheme \<Rightarrow> 'a host_scheme" where
  "c_system cmd s = s\<lparr>cmds := cmds s @ [cmd]\<rparr>"

text \<open>A command whose effect on the files matters afterwards.\<close>

definition sh_run :: "cstr \<Rightarrow> 'a host_scheme \<Rightarrow> 'a host_scheme" where
  "sh_run cmd s = (c_system cmd s)\<lparr>files := sh_fx s cmd (files s)\<rparr>"

lemma sh_run_simps [simp]:
  "files (sh_run c s) = sh_fx s c (files s)" "cmds (sh_run c s) = cmds s @ [c]"
  "sh_fx (sh_run c s) = sh_fx s" "scfgd (sh_run c s) = scfgd s"
  by (simp_all add: sh_run_def c_system_def)

lemma sh_fx_simps [simp]: "sh_fx (f_append p b s) = sh_fx s" "sh_fx (f_unlink p s) = sh_fx s" "sh_fx (c_system c s) = sh_fx s"
  by (simp_all add: f_append_def f_write_def f_unlink_def c_system_def)

lemma files_f_write [simp]: "files (f_write p b s) = (files s)(p \<mapsto> b)"
  by (simp add: f_write_def)

lemma files_f_unlink [simp]: "files (f_unlink p s) = (files s)(p := None)"
  by (simp add: f_unlink_def)

lemma files_c_system [simp]: "files (c_system c s) = files s"
  by (simp add: c_system_def)

lemma host_frame_f_write [simp]:
  "scfgd (f_write p b s) = scfgd s" "sh_out (f_write p b s) = sh_out s"
  "sh_cwd (f_write p b s) = sh_cwd s" "stack_word (f_write p b s) = stack_word s"
  "ifaces (f_write p b s) = ifaces s" "sh_fx (f_write p b s) = sh_fx s"
  by (simp_all add: f_write_def)

lemma scfgd_simps [simp]:
  "scfgd (f_append p b s) = scfgd s" "scfgd (f_unlink p s) = scfgd s" "scfgd (c_system c s) = scfgd s"
  by (simp_all add: f_append_def f_unlink_def c_system_def)

lemma files_f_append_other [simp]: "p \<noteq> q \<Longrightarrow> files (f_append p b s) q = files s q"
  by (simp add: f_append_def)

lemma cmds_f_write [simp]: "cmds (f_write p b s) = cmds s"
  by (simp add: f_write_def)

lemma cmds_f_append [simp]: "cmds (f_append p b s) = cmds s"
  by (simp add: f_append_def)

lemma cmds_f_unlink [simp]: "cmds (f_unlink p s) = cmds s"
  by (simp add: f_unlink_def)

lemma cmds_c_system [simp]: "cmds (c_system c s) = cmds s @ [c]"
  by (simp add: c_system_def)

lemma f_exists_f_write [simp]: "f_exists q (f_write p b s) \<longleftrightarrow> q = p \<or> f_exists q s"
  by (auto simp: f_exists_def)

lemma f_exists_f_unlink [simp]: "f_exists q (f_unlink p s) \<longleftrightarrow> q \<noteq> p \<and> f_exists q s"
  by (auto simp: f_exists_def)

lemma f_exists_c_system [simp]: "f_exists q (c_system c s) \<longleftrightarrow> f_exists q s"
  by (auto simp: f_exists_def)

end
