(* ===== verification/Nvram_Crc.thy ===== *)
theory Nvram_Crc
  imports C_Lib
begin

text \<open>
  The checksum of libnv (\<open>crc32\<close> in \<open>src/src/apps/apps_sc/libs/libnv/nvram.c\<close>): the
  table-driven loop as the code has it, the bitwise CRC-32 it is meant to compute, the proof
  that the two agree, and that the checksum separates any two messages of one length that
  differ in a single byte.
\<close>

unbundle bit_operations_syntax

subsection \<open>The code\<close>

definition crc_poly :: "32 word" where "crc_poly = 0xEDB88320"

text \<open>One round of the inner loop that fills the table.\<close>

definition crc_shift :: "32 word \<Rightarrow> 32 word" where
  "crc_shift crc = (if crc AND 1 \<noteq> 0 then drop_bit 1 crc XOR crc_poly else drop_bit 1 crc)"

definition crcTable :: "32 word list" where
  "crcTable = map (\<lambda>i. (crc_shift ^^ 8) (of_nat i)) [0..<256]"

text \<open>A \<open>char\<close> is signed: it is sign-extended before the exclusive or.\<close>

definition char_word :: "char \<Rightarrow> 32 word" where
  "char_word c = signed_take_bit 7 (of_nat (code c))"

definition crc_step :: "32 word \<Rightarrow> char \<Rightarrow> 32 word" where
  "crc_step crc c =
     (drop_bit 8 crc AND 0x00FFFFFF) XOR crcTable ! unat ((crc XOR char_word c) AND 0xFF)"

text \<open>\<open>crc32 (data, len)\<close> for \<open>data\<close> of at least \<open>len\<close> bytes.\<close>

definition crc32 :: "bytes \<Rightarrow> nat \<Rightarrow> 32 word" where
  "crc32 data len = foldl crc_step 0xFFFFFFFF (take len data) XOR 0xFFFFFFFF"


subsection \<open>Bitwise reference\<close>

text \<open>The reflected CRC-32: the byte is added to the low end and shifted out bit by bit.\<close>

definition crc_ref_step :: "32 word \<Rightarrow> char \<Rightarrow> 32 word" where
  "crc_ref_step crc c = (crc_shift ^^ 8) (crc XOR of_nat (code c))"

definition crc32_ref :: "bytes \<Rightarrow> 32 word" where
  "crc32_ref m = foldl crc_ref_step 0xFFFFFFFF m XOR 0xFFFFFFFF"

lemma and_1_bit_0: "(a AND 1 \<noteq> 0) = bit (a :: 32 word) 0"
  by (simp add: and_one_eq bit_0 odd_iff_mod_2_eq_one)

lemma crc_shift_bit: "crc_shift a = (if bit a 0 then drop_bit 1 a XOR crc_poly else drop_bit 1 a)"
  by (simp add: crc_shift_def and_1_bit_0)

lemma crc_shift_xor: "crc_shift (a XOR b) = crc_shift a XOR crc_shift b"
  by (simp add: crc_shift_bit bit_xor_iff drop_bit_xor ac_simps)

lemma crc_shift_pow_xor: "(crc_shift ^^ n) (a XOR b) = (crc_shift ^^ n) a XOR (crc_shift ^^ n) b"
  by (induction n) (simp_all add: crc_shift_xor)

lemma crc_shift_pow_high: "take_bit n x = 0 \<Longrightarrow> (crc_shift ^^ n) x = drop_bit n x"
proof (induction n arbitrary: x)
  case 0
  then show ?case by simp
next
  case (Suc n)
  have bits: "\<not> bit x k" if "k < Suc n" for k
    using that Suc.prems by (metis bit_0_eq bit_take_bit_iff bot_apply bot_bool_def)
  have "crc_shift x = drop_bit 1 x" using bits [of 0] by (simp add: crc_shift_bit)
  moreover have "take_bit n (drop_bit 1 x) = 0"
    by (rule bit_eqI) (simp add: bit_take_bit_iff bit_drop_bit_eq bits)
  ultimately show ?case by (simp add: funpow_swap1 Suc.IH del: drop_bit_eq_div)
qed

lemma char_word_low: "(crc XOR char_word c) AND 0xFF = (crc XOR of_nat (code c)) AND 0xFF"
proof (rule bit_eqI)
  fix k
  show "bit ((crc XOR char_word c) AND 0xFF) k = bit ((crc XOR of_nat (code c)) AND 0xFF) k"
  proof (cases "k < 8")
    case True
    then have "min 7 k = k" by simp
    then show ?thesis
      by (simp add: char_word_def bit_and_iff bit_xor_iff bit_signed_take_bit_iff min.commute)
        (use True in auto)
  next
    case False
    moreover have "bit (0xFF :: 32 word) k \<Longrightarrow> k < 8"
      using bit_mask_iff [where 'a = "32 word", of 8 k] by (simp add: mask_eq_exp_minus_1)
    ultimately show ?thesis by (auto simp: bit_and_iff)
  qed
qed

lemma crcTable_nth: "i < 256 \<Longrightarrow> crcTable ! i = (crc_shift ^^ 8) (of_nat i)"
  by (simp add: crcTable_def del: funpow.simps)

lemma low_byte_mask: "(x :: 32 word) AND 0xFF = take_bit 8 x"
  by (simp add: take_bit_eq_mask mask_eq_exp_minus_1)

lemma unat_low_byte: "unat ((x :: 32 word) AND 0xFF) < 256"
proof -
  have "unat (x AND 0xFF) \<le> unat (0xFF :: 32 word)"
    by (rule word_and_le1 [THEN word_le_nat_alt [THEN iffD1]])
  then show ?thesis by simp
qed

lemma drop_bit_8_code: "drop_bit 8 (of_nat (code c) :: 32 word) = 0"
proof (rule bit_eqI)
  fix k
  have "code c < 2 ^ 8" by simp
  then have "take_bit 8 (code c) = code c" by (simp add: take_bit_nat_eq_self)
  then have "\<not> bit (code c) (8 + k)" by (metis bit_take_bit_iff not_add_less1)
  then show "bit (drop_bit 8 (of_nat (code c) :: 32 word)) k = bit (0 :: 32 word) k"
    by (simp add: bit_drop_bit_eq bit_of_nat_iff)
qed

lemma drop_bit_8_masked: "drop_bit 8 (crc :: 32 word) AND 0x00FFFFFF = drop_bit 8 crc"
proof -
  have "take_bit 24 (drop_bit 8 crc) = drop_bit 8 crc"
    by (rule bit_eqI) (auto simp: bit_take_bit_iff bit_drop_bit_eq dest: bit_imp_le_length)
  then show ?thesis by (simp add: take_bit_eq_mask mask_eq_exp_minus_1)
qed

lemma crc_shift8_split: "(crc_shift ^^ 8) x = drop_bit 8 x XOR (crc_shift ^^ 8) (take_bit 8 x)"
proof -
  let ?hi = "x XOR take_bit 8 x"
  have "take_bit 8 ?hi = 0" by (simp add: take_bit_xor)
  then have "(crc_shift ^^ 8) ?hi = drop_bit 8 ?hi" by (rule crc_shift_pow_high)
  moreover have "drop_bit 8 ?hi = drop_bit 8 x"
    by (rule bit_eqI) (simp add: bit_drop_bit_eq bit_xor_iff bit_take_bit_iff)
  moreover have "x = ?hi XOR take_bit 8 x"
    by (rule bit_eqI) (auto simp: bit_xor_iff)
  ultimately show ?thesis by (metis crc_shift_pow_xor)
qed

lemma crc_step_ref: "crc_step crc c = crc_ref_step crc c"
proof -
  let ?x = "crc XOR of_nat (code c)"
  have "(of_nat (unat (take_bit 8 ?x)) :: 32 word) = take_bit 8 ?x" by simp
  moreover have "unat (take_bit 8 ?x) < 256" using unat_low_byte [of ?x] by (simp only: low_byte_mask)
  ultimately have "crcTable ! unat (?x AND 0xFF) = (crc_shift ^^ 8) (take_bit 8 ?x)"
    by (simp only: crcTable_nth low_byte_mask)
  then have "crc_step crc c = drop_bit 8 crc XOR (crc_shift ^^ 8) (take_bit 8 ?x)"
    by (simp only: crc_step_def char_word_low drop_bit_8_masked)
  also have "drop_bit 8 crc = drop_bit 8 ?x" by (simp add: drop_bit_xor drop_bit_8_code)
  finally show ?thesis by (simp only: crc_ref_step_def crc_shift8_split [of ?x])
qed

subsection \<open>Single-byte errors\<close>

lemma crc_poly_msb: "bit crc_poly 31"
  by (simp add: crc_poly_def)

lemma crc_shift_msb: "bit (crc_shift a) 31 = bit a 0"
proof -
  have "\<not> bit (drop_bit 1 a) 31" by (auto simp: bit_drop_bit_eq dest: bit_imp_le_length)
  then show ?thesis by (simp add: crc_shift_bit bit_xor_iff crc_poly_msb)
qed

lemma crc_shift_inj: "crc_shift a = crc_shift b \<Longrightarrow> a = b"
proof -
  assume eq: "crc_shift a = crc_shift b"
  then have b0: "bit a 0 = bit b 0" by (metis crc_shift_msb)
  have "drop_bit 1 a = drop_bit 1 b"
    using eq b0 by (auto simp: crc_shift_bit xor.assoc split: if_splits dest: arg_cong [of _ _ "\<lambda>w. w XOR crc_poly"])
  then have "bit a (Suc k) = bit b (Suc k)" for k
    by (metis bit_drop_bit_eq plus_1_eq_Suc comp_apply)
  then show "a = b" using b0 by (intro bit_eqI) (metis not0_implies_Suc)
qed

lemma crc_shift_pow_inj: "(crc_shift ^^ n) a = (crc_shift ^^ n) b \<Longrightarrow> a = b"
  by (induction n) (auto dest: crc_shift_inj)

lemma word_of_code_inj: "(of_nat (code c) :: 32 word) = of_nat (code d) \<Longrightarrow> c = d"
proof -
  assume "(of_nat (code c) :: 32 word) = of_nat (code d)"
  moreover have "code c < 2 ^ 32" "code d < 2 ^ 32"
    using nat_of_char_less_256 [of c] nat_of_char_less_256 [of d] by (auto simp del: nat_of_char_less_256)
  ultimately have "code c = code d"
    by (simp add: word_of_nat_eq_iff take_bit_nat_eq_self)
  then show "c = d" by simp
qed

lemma crc_ref_step_inj_crc: "crc_ref_step a c = crc_ref_step b c \<Longrightarrow> a = b"
  unfolding crc_ref_step_def
  by (drule crc_shift_pow_inj, drule arg_cong [of _ _ "\<lambda>w. w XOR of_nat (code c)"]) (simp add: xor.assoc)

lemma crc_ref_step_inj_char: "crc_ref_step a c = crc_ref_step a d \<Longrightarrow> c = d"
  unfolding crc_ref_step_def
  by (drule crc_shift_pow_inj, drule arg_cong [of _ _ "\<lambda>w. a XOR w"], rule word_of_code_inj)
    (simp flip: xor.assoc)

lemma foldl_crc_inj: "foldl crc_ref_step a m = foldl crc_ref_step b m \<Longrightarrow> a = b"
  by (induction m arbitrary: a b) (auto dest: crc_ref_step_inj_crc)

lemma crc32_ref_one_byte: "c \<noteq> d \<Longrightarrow> crc32_ref (p @ c # q) \<noteq> crc32_ref (p @ d # q)"
proof
  assume "c \<noteq> d" and "crc32_ref (p @ c # q) = crc32_ref (p @ d # q)"
  then have "foldl crc_ref_step 0xFFFFFFFF (p @ c # q) = foldl crc_ref_step 0xFFFFFFFF (p @ d # q)"
    unfolding crc32_ref_def by (drule_tac arg_cong [of _ _ "\<lambda>w. w XOR 0xFFFFFFFF"]) (simp only: xor.assoc xor_self_eq xor.right_neutral)
  then show False using \<open>c \<noteq> d\<close>
    by (auto dest: foldl_crc_inj crc_ref_step_inj_char)
qed

lemma crc32_eq_ref: "crc32 data len = crc32_ref (take len data)"
proof -
  have "crc_step = crc_ref_step" by (intro ext) (rule crc_step_ref)
  then show ?thesis by (simp add: crc32_def crc32_ref_def)
qed

text \<open>C40. The table-driven checksum loop, with its sign-extended bytes and masks, computes the bitwise
  reflected CRC-32 of the first \<open>len\<close> bytes, for every message.\<close>

theorem crc32_is_reflected_crc: "crc32 data len = foldl crc_ref_step 0xFFFFFFFF (take len data) XOR 0xFFFFFFFF"
  by (simp only: crc32_eq_ref crc32_ref_def)

end
