(* ===== verification/Config_Store.thy ===== *)
theory Config_Store
  imports Sc_Prelude
begin

text \<open>
  The contract between the configuration library and whatever keeps its variables: a store
  whose abstract content is a total function from names to strings (a variable nobody set
  reads as the empty string). \<open>config_store\<close> has the two operations the clients call, reading
  and writing one variable, either of which may change the concrete state and may, outside
  the contract, leave defined behaviour. \<open>config_flags\<close> adds the request to re-apply a
  part of the configuration, which must not disturb the variables, and the list of the requests
  pending, which only such a request extends.
\<close>

locale config_store =
  fixes inv :: "'s \<Rightarrow> bool"
    and view :: "'s \<Rightarrow> cstr \<Rightarrow> cstr"
    and get :: "cstr \<Rightarrow> 's \<Rightarrow> (cstr \<times> 's) option"
    and put :: "cstr \<Rightarrow> cstr \<Rightarrow> 's \<Rightarrow> 's option"
    and ok_name :: "cstr \<Rightarrow> bool"
    and ok_value :: "cstr \<Rightarrow> bool"
  assumes get_ex: "\<lbrakk>inv s; ok_name n\<rbrakk> \<Longrightarrow> \<exists>s'. get n s = Some (view s n, s') \<and> inv s' \<and> view s' = view s"
    and put_ex: "\<lbrakk>inv s; ok_name n; ok_value v\<rbrakk> \<Longrightarrow>
      \<exists>s'. put n v s = Some s' \<and> inv s' \<and> view s' = (view s)(n := v)"
begin

lemma getE:
  assumes "inv s" "ok_name n"
  obtains s' where "get n s = Some (view s n, s')" "inv s'" "view s' = view s"
  using get_ex [OF assms] by blast

lemma putE:
  assumes "inv s" "ok_name n" "ok_value v"
  obtains s' where "put n v s = Some s'" "inv s'" "view s' = (view s)(n := v)"
  using put_ex [OF assms] by blast

lemma get_put_same:
  assumes "inv s" "ok_name n" "ok_value v"
  shows "\<exists>s1 s2. put n v s = Some s1 \<and> get n s1 = Some (v, s2) \<and> inv s2 \<and> view s2 = (view s)(n := v)"
proof -
  obtain s1 where 1: "put n v s = Some s1" "inv s1" "view s1 = (view s)(n := v)"
    using putE [OF assms] by blast
  obtain s2 where "get n s1 = Some (view s1 n, s2)" "inv s2" "view s2 = view s1"
    using getE [OF 1(2) assms(2)] by blast
  then show ?thesis using 1 by auto
qed

lemma get_put_other:
  assumes "inv s" "ok_name n" "ok_value v" "ok_name m" "m \<noteq> n"
  shows "\<exists>s1 s2. put n v s = Some s1 \<and> get m s1 = Some (view s m, s2) \<and> inv s2"
proof -
  obtain s1 where 1: "put n v s = Some s1" "inv s1" "view s1 = (view s)(n := v)"
    using putE [OF assms(1-3)] by blast
  obtain s2 where "get m s1 = Some (view s1 m, s2)" "inv s2"
    using getE [OF 1(2) assms(4)] by blast
  then show ?thesis using 1 assms(5) by auto
qed

text \<open>Reading never shows: a client may insert or drop reads.\<close>

lemma get_get:
  assumes "inv s" "ok_name n" "ok_name m"
  shows "\<exists>s1 s2. get n s = Some (view s n, s1) \<and> get m s1 = Some (view s m, s2) \<and> inv s2 \<and> view s2 = view s"
proof -
  obtain s1 where 1: "get n s = Some (view s n, s1)" "inv s1" "view s1 = view s"
    using getE [OF assms(1,2)] by blast
  obtain s2 where "get m s1 = Some (view s1 m, s2)" "inv s2" "view s2 = view s1"
    using getE [OF 1(2) assms(3)] by blast
  then show ?thesis using 1 by auto
qed

end

locale config_flags = config_store +
  fixes flag :: "nat \<Rightarrow> 's \<Rightarrow> 's option"
    and ok_flag :: "nat \<Rightarrow> bool"
    and pend :: "'s \<Rightarrow> nat list"
  assumes flag_ex: "\<lbrakk>inv s; ok_flag i\<rbrakk> \<Longrightarrow>
      \<exists>s'. flag i s = Some s' \<and> inv s' \<and> view s' = view s \<and> pend s' = pend s @ [i]"
    and get_pend: "\<lbrakk>inv s; ok_name n; get n s = Some (v, s')\<rbrakk> \<Longrightarrow> pend s' = pend s"
    and put_pend: "\<lbrakk>inv s; ok_name n; ok_value v; put n v s = Some s'\<rbrakk> \<Longrightarrow> pend s' = pend s"
begin

text \<open>The three operations as equations, for a client's calculation.\<close>

definition after_get :: "cstr \<Rightarrow> 's \<Rightarrow> 's" where "after_get n s = snd (the (get n s))"
definition after_put :: "cstr \<Rightarrow> cstr \<Rightarrow> 's \<Rightarrow> 's" where "after_put n v s = the (put n v s)"
definition after_flag :: "nat \<Rightarrow> 's \<Rightarrow> 's" where "after_flag i s = the (flag i s)"

lemma get_step:
  assumes "inv s" "ok_name n"
  shows "get n s = Some (view s n, after_get n s)" "inv (after_get n s)" "view (after_get n s) = view s"
    "pend (after_get n s) = pend s"
  using get_ex [OF assms] get_pend [OF assms] by (auto simp: after_get_def)

lemma put_step:
  assumes "inv s" "ok_name n" "ok_value v"
  shows "put n v s = Some (after_put n v s)" "inv (after_put n v s)"
    "view (after_put n v s) = (view s)(n := v)" "pend (after_put n v s) = pend s"
  using put_ex [OF assms] put_pend [OF assms] by (auto simp: after_put_def)

lemma flag_step:
  assumes "inv s" "ok_flag i"
  shows "flag i s = Some (after_flag i s)" "inv (after_flag i s)" "view (after_flag i s) = view s"
    "pend (after_flag i s) = pend s @ [i]"
  using flag_ex [OF assms] by (auto simp: after_flag_def)

text \<open>The shape of nearly every setter: read the old value, and only where the test says it
  differs write the new one and request the re-apply. It always succeeds; afterwards the
  variable is the new value and one request is pending, or nothing has changed.
\<close>

lemma update_if:
  assumes "inv s" "ok_name n" "ok_value v" "ok_flag i"
  shows "\<exists>s'. Option.bind (get n s) (\<lambda>(old, s1). if changed old
             then Option.bind (put n v s1) (\<lambda>s2. flag i s2) else Some s1) = Some s' \<and> inv s' \<and>
           view s' = (if changed (view s n) then (view s)(n := v) else view s) \<and>
           pend s' = (if changed (view s n) then pend s @ [i] else pend s)"
  using assms by (simp add: get_step put_step flag_step)

end

end
