(* ===== verification/Nvram.thy ===== *)
theory Nvram
  imports Host Nvram_Crc Config_Store
begin

text \<open>
  libnv (\<open>src/src/apps/apps_sc/libs/libnv/nvram.c\<close>): the configuration variables of the
  access point. The running copy is the file \<open>/tmp/nvram\<close>, a sequence of entries
  \<open>name=value\<close>, each ended by a zero byte, with one more zero byte at the end; factory
  values are in \<open>/etc/default\<close> in the same format; the flash partition holds a header
  (magic, length, CRC-32) and a copy of the file.

  The theory has the CRC and its bitwise reference, the byte-level scan and rewrite of the
  file with every heap bound written out, the flash image with \<open>nvram_load\<close> and
  \<open>nvram_commit\<close>, and the refinement of the byte-level operations to updates of a map.
\<close>

unbundle bit_operations_syntax

subsection \<open>Constants\<close>

definition NVRAM_PATH :: string where "NVRAM_PATH = ''/dev/mtdblock4''"
definition NVRAM_TMP_PATH :: string where "NVRAM_TMP_PATH = ''/tmp/nvram''"
definition NVRAM_DEFAULT :: string where "NVRAM_DEFAULT = ''/etc/default''"
definition NVRAM_MAGIC :: "32 word" where "NVRAM_MAGIC = 0x004E4F52"
definition NVRAM_HEADER_SIZE :: nat where "NVRAM_HEADER_SIZE = 40"

datatype nvram_err =
  NVRAM_SUCCESS | NVRAM_FLASH_ERR | NVRAM_MAGIC_ERR | NVRAM_LEN_ERR | NVRAM_CRC_ERR | NVRAM_SHADOW_ERR

text \<open>The integer each code is \<open>#define\<close>d to.\<close>

definition nvram_errno :: "nvram_err \<Rightarrow> int" where
  "nvram_errno e = (case e of NVRAM_SUCCESS \<Rightarrow> 0 | NVRAM_FLASH_ERR \<Rightarrow> 1 | NVRAM_MAGIC_ERR \<Rightarrow> 2
     | NVRAM_LEN_ERR \<Rightarrow> 3 | NVRAM_CRC_ERR \<Rightarrow> 4 | NVRAM_SHADOW_ERR \<Rightarrow> 5)"

lemmas nvram_paths = NVRAM_PATH_def NVRAM_TMP_PATH_def NVRAM_DEFAULT_def

lemma nvram_paths_distinct [simp]:
  "NVRAM_PATH \<noteq> NVRAM_TMP_PATH" "NVRAM_TMP_PATH \<noteq> NVRAM_PATH"
  "NVRAM_PATH \<noteq> NVRAM_DEFAULT" "NVRAM_DEFAULT \<noteq> NVRAM_PATH"
  "NVRAM_TMP_PATH \<noteq> NVRAM_DEFAULT" "NVRAM_DEFAULT \<noteq> NVRAM_TMP_PATH"
  by (simp_all add: nvram_paths)

subsection \<open>Whole files\<close>

text \<open>\<open>readFileBin\<close>: \<open>None\<close> stands for the return value -1.\<close>

definition readFileBin :: "string \<Rightarrow> 'a host_scheme \<Rightarrow> bytes option" where
  "readFileBin path s = files s path"

definition writeFileBin :: "string \<Rightarrow> bytes \<Rightarrow> nat \<Rightarrow> 'a host_scheme \<Rightarrow> 'a host_scheme" where
  "writeFileBin path data len s = f_write path (take len data) s"

subsection \<open>Scanning the entries\<close>

text \<open>
  A pointer into a heap block is the list of bytes from there to the end of the block; the
  empty list is one past the end, where no byte may be read.
\<close>

text \<open>\<open>!strncmp (s, name, strlen (name)) && *(s + strlen (name)) == '='\<close>\<close>

fun c_match :: "bytes \<Rightarrow> cstr \<Rightarrow> bool option" where
  "c_match [] _ = None"
| "c_match (c # s) [] = Some (c = CHR ''='')"
| "c_match (c # s) (x # n) = (if c = x then c_match s n else Some False)"

text \<open>Advance to the next zero byte.\<close>

fun scan_nul :: "bytes \<Rightarrow> bytes option" where
  "scan_nul [] = None"
| "scan_nul (c # s) = (if c = NUL then Some (c # s) else scan_nul s)"

text \<open>The C string a pointer points to.\<close>

definition c_str :: "bytes \<Rightarrow> cstr option" where
  "c_str s = (if NUL \<in> set s then Some (takeWhile (\<lambda>c. c \<noteq> NUL) s) else None)"

lemma scan_nul_length: "scan_nul s = Some r \<Longrightarrow> length r \<le> length s"
  by (induction s) (auto split: if_splits)

lemma scan_nul_not_Nil: "scan_nul s = Some r \<Longrightarrow> r \<noteq> []"
  by (induction s) (auto split: if_splits)

text \<open>
  The loop of \<open>nvram_get_fun\<close>: \<open>Some None\<close> is the null pointer, \<open>Some (Some v)\<close> a fresh copy
  of the value.
\<close>

function nvram_find :: "cstr \<Rightarrow> bytes \<Rightarrow> cstr option option" where
  "nvram_find name [] = None"
| "nvram_find name (c # s) =
     (if c = NUL then Some None
      else do {
        m \<leftarrow> c_match (c # s) name;
        if m then do { e \<leftarrow> c_str (c # s); Some (Some (drop (length name + 1) e)) }
        else do { r \<leftarrow> scan_nul s; nvram_find name (tl r) }
      })"
  by pat_completeness auto
termination
  by (relation "measure (\<lambda>(n, b). length b)") (auto dest!: scan_nul_length)

definition nvram_get_fun :: "cstr \<Rightarrow> string \<Rightarrow> 'a host_scheme \<Rightarrow> cstr option option" where
  "nvram_get_fun name path s =
     (case readFileBin path s of None \<Rightarrow> Some None | Some b \<Rightarrow> nvram_find name b)"

subsection \<open>Rewriting the entries\<close>

text \<open>Append bytes to a heap block of \<open>cap\<close> bytes of which \<open>t\<close> is the part written so far.\<close>

definition put :: "nat \<Rightarrow> bytes \<Rightarrow> bytes \<Rightarrow> bytes option" where
  "put cap t cs = (if length t + length cs \<le> cap then Some (t @ cs) else None)"

text \<open>\<open>strcpy\<close> writes the terminator too; the cursor stays on it.\<close>

definition put_str :: "nat \<Rightarrow> bytes \<Rightarrow> cstr \<Rightarrow> bytes option" where
  "put_str cap t cs = (if length t + length cs + 1 \<le> cap then Some (t @ cs) else None)"

text \<open>\<open>name = value\<close>, as \<open>nvram_set\<close> writes it: two \<open>strcpy\<close> with an equals sign between.\<close>

definition put_entry :: "nat \<Rightarrow> bytes \<Rightarrow> cstr \<Rightarrow> cstr \<Rightarrow> bytes option" where
  "put_entry cap t name value = do {
     t \<leftarrow> put_str cap t name;
     t \<leftarrow> put cap t ''='';
     put_str cap t value
   }"

text \<open>The loop of \<open>nvram_set\<close> over the old contents.\<close>

function nvram_copy :: "cstr \<Rightarrow> cstr \<Rightarrow> nat \<Rightarrow> bytes \<Rightarrow> bytes \<Rightarrow> bool \<Rightarrow> (bytes \<times> bool) option" where
  "nvram_copy name value cap [] t found = None"
| "nvram_copy name value cap (c # s) t found =
     (if c = NUL then Some (t, found)
      else do {
        m \<leftarrow> c_match (c # s) name;
        if m then do {
          t \<leftarrow> put_entry cap t name value;
          r \<leftarrow> scan_nul s;
          t \<leftarrow> put cap t [NUL];
          nvram_copy name value cap (tl r) t True
        } else do {
          e \<leftarrow> c_str (c # s);
          t \<leftarrow> put cap t e;
          t \<leftarrow> put cap t [NUL];
          r \<leftarrow> scan_nul s;
          nvram_copy name value cap (tl r) t found
        }
      })"
  by pat_completeness auto
termination
  by (relation "measure (\<lambda>(n, v, cap, b, t, f). length b)") (auto dest!: scan_nul_length)

definition nvram_set :: "cstr \<Rightarrow> cstr \<Rightarrow> 'a host_scheme \<Rightarrow> (nvram_err \<times> 'a host_scheme) option" where
  "nvram_set name value s =
     (let b = (case readFileBin NVRAM_TMP_PATH s of None \<Rightarrow> [] | Some b \<Rightarrow> b);
          cap = (if b \<noteq> [] then length b + length name + length value + 2
                 else length name + length value + 2)
      in do {
        (t, found) \<leftarrow> (if b \<noteq> [] then nvram_copy name value cap b [] False else Some ([], False));
        t \<leftarrow> (if \<not> found then do { t \<leftarrow> put_entry cap t name value; put cap t [NUL] } else Some t);
        t \<leftarrow> put cap t [NUL];
        Some (NVRAM_SUCCESS, writeFileBin NVRAM_TMP_PATH t (length t) s)
      })"

subsection \<open>Reading with the factory value as fall-back\<close>

definition nvram_getall :: "nat \<Rightarrow> 'a host_scheme \<Rightarrow> bytes option" where
  "nvram_getall bytes s = map_option (take bytes) (readFileBin NVRAM_TMP_PATH s)"

definition nvram_get :: "cstr \<Rightarrow> 'a host_scheme \<Rightarrow> (cstr option \<times> 'a host_scheme) option" where
  "nvram_get name s = do {
     pt \<leftarrow> nvram_get_fun name NVRAM_TMP_PATH s;
     case pt of
       Some v \<Rightarrow> Some (Some v, s)
     | None \<Rightarrow> do {
         pt \<leftarrow> nvram_get_fun name NVRAM_DEFAULT s;
         case pt of
           Some v \<Rightarrow> do { (_, s) \<leftarrow> nvram_set name v s; Some (Some v, s) }
         | None \<Rightarrow> Some (None, s)
       }
   }"

definition nvram_safe_get :: "cstr \<Rightarrow> 'a host_scheme \<Rightarrow> (cstr \<times> 'a host_scheme) option" where
  "nvram_safe_get name s = do {
     pt \<leftarrow> nvram_get_fun name NVRAM_TMP_PATH s;
     case pt of
       Some v \<Rightarrow> Some (v, s)
     | None \<Rightarrow> do {
         pt \<leftarrow> nvram_get_fun name NVRAM_DEFAULT s;
         case pt of
           Some v \<Rightarrow> do { (_, s) \<leftarrow> nvram_set name v s; Some (v, s) }
         | None \<Rightarrow> Some ([], s)
       }
   }"

definition nvram_match :: "cstr \<Rightarrow> cstr \<Rightarrow> 'a host_scheme \<Rightarrow> (bool \<times> 'a host_scheme) option" where
  "nvram_match name match s = do {
     (value, s) \<leftarrow> nvram_get name s;
     Some ((case value of None \<Rightarrow> False | Some v \<Rightarrow> v = match), s)
   }"

definition nvram_invmatch :: "cstr \<Rightarrow> cstr \<Rightarrow> 'a host_scheme \<Rightarrow> (bool \<times> 'a host_scheme) option" where
  "nvram_invmatch name invmatch s = do {
     (value, s) \<leftarrow> nvram_get name s;
     Some ((case value of None \<Rightarrow> False | Some v \<Rightarrow> v \<noteq> invmatch), s)
   }"

subsection \<open>The file format and its abstraction\<close>

text \<open>
  The abstract content of the file is a list of name/value pairs with distinct names; \<open>enc\<close> is
  the format the header comment of \<open>nvram.h\<close> describes.
\<close>

type_synonym kvs = "(cstr \<times> cstr) list"

definition body :: "kvs \<Rightarrow> bytes" where
  "body kvs = concat (map (\<lambda>(n, v). n @ ''='' @ v @ [NUL]) kvs)"

definition enc :: "kvs \<Rightarrow> bytes" where
  "enc kvs = body kvs @ [NUL]"

definition wf_name :: "cstr \<Rightarrow> bool" where
  "wf_name n \<longleftrightarrow> n \<noteq> [] \<and> cstr_ok n \<and> CHR ''='' \<notin> set n"

definition wf_kvs :: "kvs \<Rightarrow> bool" where
  "wf_kvs kvs \<longleftrightarrow> distinct (map fst kvs) \<and> (\<forall>(n, v) \<in> set kvs. wf_name n \<and> cstr_ok v)"

definition kv_replace :: "cstr \<Rightarrow> cstr \<Rightarrow> kvs \<Rightarrow> kvs" where
  "kv_replace name value = map (\<lambda>(n, v). (n, if n = name then value else v))"

definition kv_set :: "cstr \<Rightarrow> cstr \<Rightarrow> kvs \<Rightarrow> kvs" where
  "kv_set name value kvs =
     (if name \<in> fst ` set kvs then kv_replace name value kvs else kvs @ [(name, value)])"

lemma body_simps [simp]:
  "body [] = []" "body ((n, v) # kvs) = n @ ''='' @ v @ NUL # body kvs"
  "body (kvs @ kvs') = body kvs @ body kvs'"
  by (simp_all add: body_def)

lemma enc_simps: "enc [] = [NUL]" "enc ((n, v) # kvs) = n @ ''='' @ v @ NUL # enc kvs"
  by (simp_all add: enc_def)

lemma enc_not_Nil [simp]: "enc kvs \<noteq> []"
  by (simp add: enc_def)

lemma wf_kvs_Cons [simp]:
  "wf_kvs ((n, v) # kvs) \<longleftrightarrow> wf_name n \<and> cstr_ok v \<and> n \<notin> fst ` set kvs \<and> wf_kvs kvs"
  by (auto simp: wf_kvs_def)

lemma wf_kvs_Nil [simp]: "wf_kvs []"
  by (simp add: wf_kvs_def)

lemma kv_replace_simps [simp]:
  "kv_replace name value [] = []"
  "kv_replace name value ((n, v) # kvs) =
     (n, if n = name then value else v) # kv_replace name value kvs"
  by (simp_all add: kv_replace_def)

lemma kv_replace_keys [simp]: "map fst (kv_replace name value kvs) = map fst kvs"
  by (induction kvs) auto

lemma kv_replace_fst_set [simp]: "fst ` set (kv_replace name value kvs) = fst ` set kvs"
  by (metis kv_replace_keys set_map)

lemma kv_replace_id: "name \<notin> fst ` set kvs \<Longrightarrow> kv_replace name value kvs = kvs"
  by (induction kvs) auto

lemma map_of_kv_replace:
  "map_of (kv_replace name value kvs) k =
     (if k = name \<and> k \<in> fst ` set kvs then Some value else map_of kvs k)"
  by (induction kvs) (auto simp: rev_image_eqI)

lemma map_of_snoc:
  "name \<notin> fst ` set kvs \<Longrightarrow> map_of (kvs @ [(name, value)]) = (map_of kvs)(name \<mapsto> value)"
  by (induction kvs) (auto simp: fun_eq_iff)

lemma map_of_kv_set: "map_of (kv_set name value kvs) = (map_of kvs)(name \<mapsto> value)"
  by (auto simp: kv_set_def map_of_kv_replace map_of_snoc fun_eq_iff simp del: map_of_append)

lemma wf_kvs_replace: "wf_kvs kvs \<Longrightarrow> cstr_ok value \<Longrightarrow> wf_kvs (kv_replace name value kvs)"
  by (induction kvs) auto

lemma wf_kvs_snoc:
  "wf_kvs kvs \<Longrightarrow> wf_name name \<Longrightarrow> cstr_ok value \<Longrightarrow> name \<notin> fst ` set kvs \<Longrightarrow>
   wf_kvs (kvs @ [(name, value)])"
  by (induction kvs) auto

lemma wf_kv_set [wf_intros]:
  "wf_kvs kvs \<Longrightarrow> wf_name name \<Longrightarrow> cstr_ok value \<Longrightarrow> wf_kvs (kv_set name value kvs)"
  by (auto simp: kv_set_def wf_kvs_replace intro: wf_kvs_snoc)

subsection \<open>The byte-level loops on an encoded file\<close>

lemma c_match_entry:
  "CHR ''='' \<notin> set n \<Longrightarrow> CHR ''='' \<notin> set name \<Longrightarrow> c_match (n @ CHR ''='' # r) name = Some (n = name)"
proof (induction n arbitrary: name)
  case Nil
  then show ?case by (cases name) auto
next
  case (Cons c n)
  then show ?case by (cases name) auto
qed

lemma scan_nul_stop: "cstr_ok s \<Longrightarrow> scan_nul (s @ NUL # r) = Some (NUL # r)"
  by (induction s) auto

lemma c_str_stop: "cstr_ok s \<Longrightarrow> c_str (s @ NUL # r) = Some s"
  by (simp add: c_str_def cstr_ok_def takeWhile_append_stop)

text \<open>One entry of a well-formed file, seen from the pointer to its first byte.\<close>

lemma entry_facts:
  assumes "wf_name n" "cstr_ok v" "CHR ''='' \<notin> set name" "n @ ''='' @ v @ NUL # r = c # s"
  shows "c \<noteq> NUL" "c_match (c # s) name = Some (n = name)"
    "c_str (c # s) = Some (n @ ''='' @ v)" "scan_nul s = Some (NUL # r)"
proof -
  from assms(1,4) obtain n' where n: "n = c # n'" "s = n' @ ''='' @ v @ NUL # r"
    by (cases n) (auto simp: wf_name_def)
  show "c \<noteq> NUL" using assms(1) n by (auto simp: wf_name_def)
  show "c_match (c # s) name = Some (n = name)"
    using c_match_entry [of n name "v @ NUL # r"] assms by (simp add: wf_name_def)
  have "cstr_ok (n @ ''='' @ v)" "cstr_ok (n' @ ''='' @ v)"
    using assms(1,2) n by (simp_all add: wf_name_def)
  then show "c_str (c # s) = Some (n @ ''='' @ v)" "scan_nul s = Some (NUL # r)"
    using c_str_stop [of "n @ ''='' @ v" r] scan_nul_stop [of "n' @ ''='' @ v" r] assms(4) n
    by simp_all
qed

lemma nvram_find_enc:
  "wf_kvs kvs \<Longrightarrow> CHR ''='' \<notin> set name \<Longrightarrow> nvram_find name (enc kvs) = Some (map_of kvs name)"
proof (induction kvs)
  case Nil
  then show ?case by (simp add: enc_simps)
next
  case (Cons e kvs)
  obtain n v where e: "e = (n, v)" by (cases e)
  obtain c s where cs: "n @ ''='' @ v @ NUL # enc kvs = c # s"
    using Cons.prems e by (cases n) (auto simp: wf_name_def)
  have "wf_name n" "cstr_ok v" using Cons.prems e by auto
  note F = entry_facts [OF this Cons.prems(2) cs]
  have "nvram_find name (c # s) = Some (if n = name then Some v else map_of kvs name)"
    using Cons F e by simp
  then show ?case using cs e by (simp add: enc_simps)
qed

lemma put_entry_fits:
  "length t + length name + length value + 2 \<le> cap \<Longrightarrow>
   put_entry cap t name value = Some (t @ name @ ''='' @ value)"
  by (simp add: put_entry_def put_str_def put_def)

lemma put_fits: "length t + length cs \<le> cap \<Longrightarrow> put cap t cs = Some (t @ cs)"
  by (simp add: put_def)

lemma nvram_copy_enc:
  assumes "wf_kvs kvs" "CHR ''='' \<notin> set name"
    and "length t + length (body (kv_replace name value kvs)) \<le> cap"
  shows "nvram_copy name value cap (enc kvs) t found =
    Some (t @ body (kv_replace name value kvs), found \<or> name \<in> fst ` set kvs)"
  using assms
proof (induction kvs arbitrary: t found)
  case Nil
  then show ?case by (simp add: enc_simps)
next
  case (Cons e kvs)
  obtain n v where e: "e = (n, v)" by (cases e)
  obtain c s where cs: "n @ ''='' @ v @ NUL # enc kvs = c # s"
    using Cons.prems e by (cases n) (auto simp: wf_name_def)
  have "wf_name n" "cstr_ok v" using Cons.prems e by auto
  note F = entry_facts [OF this Cons.prems(2) cs]
  have IH: "nvram_copy name value cap (enc kvs) t' f =
      Some (t' @ body (kv_replace name value kvs), f \<or> name \<in> fst ` set kvs)"
    if "length t' + length (body (kv_replace name value kvs)) \<le> cap" for t' f
    using Cons.IH [of t' f] Cons.prems e that by simp
  have cap: "length t + length n + length (if n = name then value else v) + 2 +
      length (body (kv_replace name value kvs)) \<le> cap"
    using Cons.prems(3) e by (simp split: if_splits)
  have "nvram_copy name value cap (c # s) t found =
      Some (t @ body (kv_replace name value (e # kvs)), found \<or> name \<in> fst ` set (e # kvs))"
  proof (cases "n = name")
    case True
    have "put_entry cap t name value = Some (t @ name @ ''='' @ value)"
      using cap True by (intro put_entry_fits) simp
    then show ?thesis using F IH cap e True by (simp add: put_fits)
  next
    case False
    then show ?thesis using F IH cap e by (simp add: put_fits)
  qed
  then show ?case using cs e by (simp add: enc_simps)
qed

lemma length_body_replace:
  "wf_kvs kvs \<Longrightarrow> length (body (kv_replace name value kvs)) \<le> length (body kvs) + length value"
proof (induction kvs)
  case Nil
  then show ?case by simp
next
  case (Cons e kvs)
  then show ?case by (cases e) (auto simp: kv_replace_id)
qed

lemma nvram_set_enc:
  assumes f: "files s NVRAM_TMP_PATH = Some (enc kvs)" and wf: "wf_kvs kvs"
    and name: "CHR ''='' \<notin> set name"
  shows "nvram_set name value s =
    Some (NVRAM_SUCCESS, f_write NVRAM_TMP_PATH (enc (kv_set name value kvs)) s)"
proof -
  let ?cap = "length (enc kvs) + length name + length value + 2"
  let ?B = "body (kv_replace name value kvs)"
  have len: "length ?B \<le> length (body kvs) + length value"
    by (rule length_body_replace [OF wf])
  have copy: "nvram_copy name value ?cap (enc kvs) [] False =
      Some (?B, name \<in> fst ` set kvs)"
    using nvram_copy_enc [OF wf name, of "[]" "value" ?cap False] len by (simp add: enc_def)
  show ?thesis
  proof (cases "name \<in> fst ` set kvs")
    case True
    then show ?thesis using copy f len
      by (simp add: nvram_set_def readFileBin_def Let_def put_fits writeFileBin_def kv_set_def enc_def)
  next
    case False
    then have "?B = body kvs" by (simp add: kv_replace_id)
    then show ?thesis using copy f False
      by (simp add: nvram_set_def readFileBin_def Let_def put_fits put_entry_fits writeFileBin_def
          kv_set_def enc_def)
  qed
qed

subsection \<open>The variables a client sees\<close>

definition file_kvs :: "bytes option \<Rightarrow> kvs \<Rightarrow> bool" where
  "file_kvs f kvs \<longleftrightarrow> f = Some (enc kvs) \<and> wf_kvs kvs"

definition nvram_inv :: "'a host_scheme \<Rightarrow> bool" where
  "nvram_inv s \<longleftrightarrow> (\<exists>kvs. file_kvs (files s NVRAM_TMP_PATH) kvs) \<and>
     (files s NVRAM_DEFAULT = None \<or> (\<exists>kvs. file_kvs (files s NVRAM_DEFAULT) kvs))"

text \<open>The value a name has in a file, by the loop of \<open>nvram_get_fun\<close>.\<close>

definition file_lookup :: "bytes option \<Rightarrow> cstr \<Rightarrow> cstr option" where
  "file_lookup f name = (case f of None \<Rightarrow> None
     | Some b \<Rightarrow> (case nvram_find name b of None \<Rightarrow> None | Some r \<Rightarrow> r))"

text \<open>The running value, else the factory value, else the empty string. A name with an equals
  sign is no variable.\<close>

definition nvram_view :: "'a host_scheme \<Rightarrow> cstr \<Rightarrow> cstr" where
  "nvram_view s name =
     (if CHR ''='' \<in> set name then []
      else case file_lookup (files s NVRAM_TMP_PATH) name of
        Some v \<Rightarrow> v
      | None \<Rightarrow> (case file_lookup (files s NVRAM_DEFAULT) name of Some v \<Rightarrow> v | None \<Rightarrow> []))"

lemma file_lookup_kvs:
  "file_kvs f kvs \<Longrightarrow> CHR ''='' \<notin> set name \<Longrightarrow> file_lookup f name = map_of kvs name"
  by (simp add: file_lookup_def file_kvs_def nvram_find_enc)

lemma nvram_get_fun_kvs:
  "file_kvs (files s path) kvs \<Longrightarrow> CHR ''='' \<notin> set name \<Longrightarrow>
   nvram_get_fun name path s = Some (file_lookup (files s path) name)"
  by (simp add: nvram_get_fun_def readFileBin_def file_kvs_def file_lookup_def nvram_find_enc)

lemma nvram_get_fun_inv:
  assumes "nvram_inv s" "CHR ''='' \<notin> set name"
  shows "nvram_get_fun name NVRAM_TMP_PATH s = Some (file_lookup (files s NVRAM_TMP_PATH) name)"
    and "nvram_get_fun name NVRAM_DEFAULT s = Some (file_lookup (files s NVRAM_DEFAULT) name)"
proof -
  show "nvram_get_fun name NVRAM_TMP_PATH s = Some (file_lookup (files s NVRAM_TMP_PATH) name)"
    using assms by (auto simp: nvram_inv_def intro: nvram_get_fun_kvs)
  have "files s NVRAM_DEFAULT = None \<Longrightarrow>
      nvram_get_fun name NVRAM_DEFAULT s = Some (file_lookup (files s NVRAM_DEFAULT) name)"
    by (simp add: nvram_get_fun_def readFileBin_def file_lookup_def)
  then show "nvram_get_fun name NVRAM_DEFAULT s = Some (file_lookup (files s NVRAM_DEFAULT) name)"
    using assms by (auto simp: nvram_inv_def intro: nvram_get_fun_kvs)
qed

lemma map_of_cstr_ok: "wf_kvs kvs \<Longrightarrow> map_of kvs name = Some v \<Longrightarrow> cstr_ok v"
  by (induction kvs) (auto split: if_splits)

lemma file_lookup_cstr_ok:
  "nvram_inv s \<Longrightarrow> CHR ''='' \<notin> set name \<Longrightarrow> file_lookup (files s NVRAM_DEFAULT) name = Some v \<Longrightarrow> cstr_ok v"
  using file_lookup_kvs map_of_cstr_ok
  by (auto simp: nvram_inv_def file_kvs_def) (simp add: file_lookup_def)

lemma nvram_view_cstr_ok: "nvram_inv s \<Longrightarrow> cstr_ok (nvram_view s name)"
proof (cases "CHR ''='' \<in> set name")
  case False
  assume inv: "nvram_inv s"
  then obtain kvs where k: "file_kvs (files s NVRAM_TMP_PATH) kvs" by (auto simp: nvram_inv_def)
  then have "file_lookup (files s NVRAM_TMP_PATH) name = map_of kvs name" "wf_kvs kvs"
    using False by (simp_all add: file_lookup_kvs file_kvs_def)
  then show ?thesis
    using file_lookup_cstr_ok [OF inv False] map_of_cstr_ok
    by (auto simp: nvram_view_def split: option.split)
qed (simp add: nvram_view_def)

text \<open>Setting a variable succeeds, stays within the heap block it allocates, keeps the format, and
  changes exactly that variable.
\<close>

lemma nvram_set_refines:
  assumes "nvram_inv s" "wf_name name" "cstr_ok v"
  shows "\<exists>s'. nvram_set name v s = Some (NVRAM_SUCCESS, s') \<and> nvram_inv s' \<and>
    nvram_view s' = (nvram_view s)(name := v) \<and>
    (\<forall>p. p \<noteq> NVRAM_TMP_PATH \<longrightarrow> files s' p = files s p) \<and> cmds s' = cmds s \<and> scfgd s' = scfgd s \<and> sh_fx s' = sh_fx s"
proof -
  obtain kvs where k: "files s NVRAM_TMP_PATH = Some (enc kvs)" "wf_kvs kvs"
    using assms(1) by (auto simp: nvram_inv_def file_kvs_def)
  let ?s' = "f_write NVRAM_TMP_PATH (enc (kv_set name v kvs)) s"
  have set: "nvram_set name v s = Some (NVRAM_SUCCESS, ?s')"
    using nvram_set_enc [OF k] assms(2) by (simp add: wf_name_def)
  have wf': "wf_kvs (kv_set name v kvs)" using k assms by (intro wf_kv_set)
  then have fk: "file_kvs (files ?s' NVRAM_TMP_PATH) (kv_set name v kvs)"
    by (simp add: file_kvs_def)
  then have inv': "nvram_inv ?s'" using assms(1) by (auto simp: nvram_inv_def)
  have "nvram_view ?s' n = ((nvram_view s)(name := v)) n" for n
    using file_lookup_kvs [OF fk, of n] file_lookup_kvs [of "files s NVRAM_TMP_PATH" kvs n] k assms(2)
    by (auto simp: nvram_view_def map_of_kv_set file_kvs_def wf_name_def split: option.split)
  then have "nvram_view ?s' = (nvram_view s)(name := v)" by (rule ext)
  then show ?thesis using set inv' by simp
qed

text \<open>Reading returns the abstract value. Where the factory value had to be used, it is written
  back to the running copy, which no reader can tell.
\<close>

lemma nvram_safe_get_refines:
  assumes "nvram_inv s" "wf_name name"
  shows "\<exists>s'. nvram_safe_get name s = Some (nvram_view s name, s') \<and> nvram_inv s' \<and>
    nvram_view s' = nvram_view s \<and>
    (\<forall>p. p \<noteq> NVRAM_TMP_PATH \<longrightarrow> files s' p = files s p) \<and> cmds s' = cmds s \<and> scfgd s' = scfgd s \<and> sh_fx s' = sh_fx s"
proof -
  have eq: "CHR ''='' \<notin> set name" using assms(2) by (simp add: wf_name_def)
  note G = nvram_get_fun_inv [OF assms(1) eq]
  show ?thesis
  proof (cases "file_lookup (files s NVRAM_TMP_PATH) name")
    case (Some v)
    then show ?thesis using G assms(1) by (simp add: nvram_safe_get_def nvram_view_def eq)
  next
    case tmp: None
    show ?thesis
    proof (cases "file_lookup (files s NVRAM_DEFAULT) name")
      case None
      then show ?thesis using G tmp assms(1) by (simp add: nvram_safe_get_def nvram_view_def eq)
    next
      case (Some v)
      then have v: "nvram_view s name = v" "cstr_ok v"
        using tmp eq file_lookup_cstr_ok [OF assms(1) eq] by (simp_all add: nvram_view_def)
      obtain s' where "nvram_set name v s = Some (NVRAM_SUCCESS, s')" "nvram_inv s'"
        "nvram_view s' = (nvram_view s)(name := v)"
        "\<forall>p. p \<noteq> NVRAM_TMP_PATH \<longrightarrow> files s' p = files s p" "cmds s' = cmds s" "scfgd s' = scfgd s" "sh_fx s' = sh_fx s"
        using nvram_set_refines [OF assms v(2)] by blast
      then show ?thesis using G tmp Some v by (auto simp: nvram_safe_get_def fun_eq_iff)
    qed
  qed
qed

text \<open>\<open>nvram_get\<close> differs from \<open>nvram_safe_get\<close> only in returning the null pointer where the
  latter returns the empty string.\<close>

lemma nvram_get_safe_get:
  "nvram_safe_get name s = map_option (\<lambda>(v, s'). (case v of None \<Rightarrow> [] | Some v \<Rightarrow> v, s')) (nvram_get name s)"
  by (auto simp: nvram_safe_get_def nvram_get_def split: option.splits bind_splits)

interpretation nv: config_store nvram_inv nvram_view nvram_safe_get
  "\<lambda>n v s. map_option snd (nvram_set n v s)" wf_name cstr_ok
proof unfold_locales
  fix s :: "'a host_scheme" and n
  assume "nvram_inv s" "wf_name n"
  then show "\<exists>s'. nvram_safe_get n s = Some (nvram_view s n, s') \<and> nvram_inv s' \<and> nvram_view s' = nvram_view s"
    using nvram_safe_get_refines [of s n] by blast
next
  fix s :: "'a host_scheme" and n v
  assume "nvram_inv s" "wf_name n" "cstr_ok v"
  then show "\<exists>s'. map_option snd (nvram_set n v s) = Some s' \<and> nvram_inv s' \<and>
      nvram_view s' = (nvram_view s)(n := v)"
    using nvram_set_refines [of s n v] by force
qed

subsection \<open>Properties\<close>

text \<open>C1. \<open>nvram_set\<close> refines the update of one variable: on a well-formed file it returns success without
  leaving its heap block, keeps the file well-formed, changes the value of that variable only,
  and touches no other file.\<close>

theorem nvram_set_correct:
  assumes "nvram_inv s" "wf_name name" "cstr_ok v"
  shows "\<exists>s'. nvram_set name v s = Some (NVRAM_SUCCESS, s') \<and> nvram_inv s' \<and>
    nvram_view s' = (nvram_view s)(name := v) \<and>
    (\<forall>p. p \<noteq> NVRAM_TMP_PATH \<longrightarrow> files s' p = files s p)"
  using nvram_set_refines [OF assms] by blast

text \<open>A variable reads back the value it was last set to, and reading (which may copy a factory value
  into the running file) changes no variable.\<close>

theorem nvram_get_after_set:
  assumes "nvram_inv s" "wf_name name" "cstr_ok v"
  shows "\<exists>s1 s2. nvram_set name v s = Some (NVRAM_SUCCESS, s1) \<and> nvram_safe_get name s1 = Some (v, s2) \<and>
    nvram_inv s2 \<and> nvram_view s2 = (nvram_view s)(name := v)"
proof -
  obtain s1 where 1: "nvram_set name v s = Some (NVRAM_SUCCESS, s1)" "nvram_inv s1"
    "nvram_view s1 = (nvram_view s)(name := v)"
    using nvram_set_refines [OF assms] by blast
  then show ?thesis using nv.getE [OF 1(2) assms(2)] by auto
qed

text \<open>The block \<open>nvram_set\<close> allocates is never too small for a well-formed file, and when the variable
  is new the rewritten file fills it to the last byte.\<close>

theorem nvram_set_block_bound:
  assumes "files s NVRAM_TMP_PATH = Some (enc kvs)" "wf_kvs kvs" "wf_name name" "cstr_ok v"
  shows "\<exists>s' b'. nvram_set name v s = Some (NVRAM_SUCCESS, s') \<and> files s' NVRAM_TMP_PATH = Some b' \<and>
    length b' \<le> length (enc kvs) + length name + length v + 2 \<and>
    (map_of kvs name = None \<longrightarrow> length b' = length (enc kvs) + length name + length v + 2)"
proof -
  have "nvram_set name v s = Some (NVRAM_SUCCESS, f_write NVRAM_TMP_PATH (enc (kv_set name v kvs)) s)"
    using nvram_set_enc [OF assms(1,2)] assms(3) by (simp add: wf_name_def)
  moreover have "length (enc (kv_set name v kvs)) \<le> length (enc kvs) + length name + length v + 2"
    using length_body_replace [OF assms(2), of name v] by (simp add: kv_set_def enc_def)
  moreover have "map_of kvs name = None \<longrightarrow>
      length (enc (kv_set name v kvs)) = length (enc kvs) + length name + length v + 2"
    by (simp add: map_of_eq_None_iff kv_set_def enc_def)
  ultimately show ?thesis by auto
qed

text \<open>With no running file, or an empty one, \<open>nvram_set\<close> writes one byte past the block it allocated:
  \<open>name=value\<close> with its terminator fills the block, and the closing zero byte has no room.\<close>

theorem nvram_set_overflows_without_file:
  assumes "files s NVRAM_TMP_PATH = None \<or> files s NVRAM_TMP_PATH = Some []"
  shows "nvram_set name v s = None"
  using assms by (auto simp: nvram_set_def readFileBin_def put_entry_def put_str_def put_def)

subsection \<open>Concrete files\<close>

definition ex_nvram :: host where
  "ex_nvram = ex_host [NVRAM_TMP_PATH \<mapsto> enc [(''sys_name'', ''wap'')],
     NVRAM_DEFAULT \<mapsto> enc [(''sys_name'', ''wap''), (''lan_dhcpc'', ''1'')]]"

lemma ex_nvram_inv [simp]: "nvram_inv ex_nvram"
  unfolding nvram_inv_def file_kvs_def ex_nvram_def
  by (rule conjI, rule exI [of _ "[(''sys_name'', ''wap'')]"], simp add: wf_name_def, rule disjI2,
      rule exI [of _ "[(''sys_name'', ''wap''), (''lan_dhcpc'', ''1'')]"], simp add: wf_name_def)

lemma nvram_set_correct_witness:
  "\<exists>s'. nvram_set ''stp'' ''1'' ex_nvram = Some (NVRAM_SUCCESS, s') \<and> nvram_view s' ''stp'' = ''1''"
  using nvram_set_correct [of ex_nvram "''stp''" "''1''"] by (auto simp: wf_name_def)

lemma nvram_get_after_set_witness:
  "\<exists>s1 s2. nvram_set ''lan_dhcpc'' ''0'' ex_nvram = Some (NVRAM_SUCCESS, s1) \<and>
     nvram_safe_get ''lan_dhcpc'' s1 = Some (''0'', s2)"
  using nvram_get_after_set [of ex_nvram "''lan_dhcpc''" "''0''"] by (auto simp: wf_name_def)

lemma nvram_set_block_bound_witness:
  "\<exists>s' b'. nvram_set ''stp'' ''1'' ex_nvram = Some (NVRAM_SUCCESS, s') \<and> files s' NVRAM_TMP_PATH = Some b' \<and>
     length b' = length (enc [(''sys_name'', ''wap'')]) + 6"
  using nvram_set_block_bound [of ex_nvram "[(''sys_name'', ''wap'')]" "''stp''" "''1''"]
  by (auto simp: wf_name_def ex_nvram_def)

lemma nvram_set_overflows_without_file_witness:
  "nvram_set ''stp'' ''1'' (ex_host Map.empty) = None"
  by (rule nvram_set_overflows_without_file) simp

end
