(* ===== verification/Nvram_Flash.thy ===== *)
theory Nvram_Flash
  imports Nvram
begin

text \<open>
  The flash copy of the configuration (\<open>nvram_load\<close> and \<open>nvram_commit\<close> of
  \<open>src/src/apps/apps_sc/libs/libnv/nvram.c\<close>): a 40-byte header area that starts with four
  big-endian words, then the bytes of the running file. The partition is a block device, a
  byte list whose length never changes.
\<close>

subsection \<open>The header\<close>

record nvram_header =
  h_magic :: "32 word"
  h_len :: "32 word"
  h_crc :: "32 word"
  h_reserved :: "32 word"

definition be32 :: "32 word \<Rightarrow> bytes" where
  "be32 w = [char_of (unat w div 2 ^ 24), char_of (unat w div 2 ^ 16), char_of (unat w div 2 ^ 8), char_of (unat w)]"

fun rd_be32 :: "bytes \<Rightarrow> 32 word" where
  "rd_be32 (a # b # c # d # _) =
     of_nat (code a * 2 ^ 24 + code b * 2 ^ 16 + code c * 2 ^ 8 + code d)"
| "rd_be32 _ = 0"

definition wr_header :: "nvram_header \<Rightarrow> bytes" where
  "wr_header h = be32 (h_magic h) @ be32 (h_len h) @ be32 (h_crc h) @ be32 (h_reserved h)"

definition rd_header :: "bytes \<Rightarrow> nvram_header" where
  "rd_header b = \<lparr>h_magic = rd_be32 b, h_len = rd_be32 (drop 4 b), h_crc = rd_be32 (drop 8 b),
     h_reserved = rd_be32 (drop 12 b)\<rparr>"

definition sizeof_nvram_header :: nat where
  "sizeof_nvram_header = 16"

subsection \<open>Descriptors on the block device\<close>

datatype o_mode = O_RDONLY | O_WRONLY

text \<open>\<open>read\<close> of \<open>n\<close> bytes at \<open>off\<close> into \<open>buf\<close>: on a descriptor opened for writing only it fails and
  leaves the buffer as it was.\<close>

definition fd_read :: "o_mode \<Rightarrow> bytes \<Rightarrow> nat \<Rightarrow> nat \<Rightarrow> bytes \<Rightarrow> bytes" where
  "fd_read mode dev off n buf =
     (if mode = O_WRONLY then buf
      else let got = take n (drop off dev) in got @ drop (length got) buf)"

text \<open>\<open>write\<close> at \<open>off\<close>: bytes past the end of the device are dropped (a short write).\<close>

definition dev_write :: "bytes \<Rightarrow> nat \<Rightarrow> bytes \<Rightarrow> bytes" where
  "dev_write dev off data = take off dev @ take (length dev - off) data @ drop (off + length data) dev"

text \<open>
  \<open>nvram_load\<close>. A device shorter than the header, or shorter than the length the header
  claims, makes the code use bytes it never read, and a length of \<open>2^31\<close> or more asks for a
  block no allocation can give: both are outside defined behaviour.
\<close>

definition nvram_load :: "'a host_scheme \<Rightarrow> (nvram_err \<times> 'a host_scheme) option" where
  "nvram_load s =
     (case files s NVRAM_PATH of
        None \<Rightarrow> Some (NVRAM_FLASH_ERR, s)
      | Some dev \<Rightarrow>
          if length dev < sizeof_nvram_header then None
          else let header = rd_header dev in
            if h_magic header \<noteq> NVRAM_MAGIC then Some (NVRAM_MAGIC_ERR, s)
            else let len = unat (h_len header);
                     data = take (len + 1) (drop NVRAM_HEADER_SIZE dev) in
              if 2 ^ 31 \<le> len \<or> length data < len then None
              else if crc32 data len \<noteq> h_crc header then Some (NVRAM_CRC_ERR, s)
              else Some (NVRAM_SUCCESS, writeFileBin NVRAM_TMP_PATH data len s))"

text \<open>
  \<open>nvram_commit\<close>; \<open>resv\<close> is the header word the code leaves uninitialised. The device is opened
  with \<open>O_WRONLY\<close>, and the read-back before the second checksum uses the same descriptor.
\<close>

definition nvram_commit :: "32 word \<Rightarrow> 'a host_scheme \<Rightarrow> nvram_err \<times> 'a host_scheme" where
  "nvram_commit resv s =
     (case files s NVRAM_PATH of
        None \<Rightarrow> (NVRAM_FLASH_ERR, s)
      | Some dev \<Rightarrow>
          (case readFileBin NVRAM_TMP_PATH s of
             None \<Rightarrow> (NVRAM_SHADOW_ERR, s)
           | Some data \<Rightarrow>
               if length data \<le> 0 then (NVRAM_SHADOW_ERR, s)
               else let len = length data;
                        s = c_system ''/bin/echo w1>/proc/led'' s;
                        header = \<lparr>h_magic = NVRAM_MAGIC, h_len = of_nat len, h_crc = crc32 data len,
                                  h_reserved = resv\<rparr>;
                        dev = dev_write dev 0 (wr_header header);
                        dev = dev_write dev NVRAM_HEADER_SIZE data;
                        data = fd_read O_WRONLY dev NVRAM_HEADER_SIZE len data;
                        s = f_write NVRAM_PATH dev s;
                        s = c_system ''/bin/echo w0>/proc/led'' s
                    in if h_crc header \<noteq> crc32 data len then (NVRAM_FLASH_ERR, s)
                       else (NVRAM_SUCCESS, s)))"

subsection \<open>Big-endian words\<close>

lemma horner_256:
  "(n :: nat) = a * 256 + d0 \<Longrightarrow> a = b * 256 + d1 \<Longrightarrow> b = c * 256 + d2 \<Longrightarrow>
   c * 2 ^ 24 + d2 * 2 ^ 16 + d1 * 2 ^ 8 + d0 = n"
  by simp

lemma base256_digits:
  assumes "(n :: nat) < 2 ^ 32"
  shows "(n div 2 ^ 24) mod 256 * 2 ^ 24 + (n div 2 ^ 16) mod 256 * 2 ^ 16 + (n div 2 ^ 8) mod 256 * 2 ^ 8 +
    n mod 256 = n"
proof -
  have d: "n div 2 ^ 16 = n div 2 ^ 8 div 256" "n div 2 ^ 24 = n div 2 ^ 16 div 256"
    by (simp_all flip: div_mult2_eq)
  have "n div 2 ^ 24 < 256" using assms by (simp add: less_mult_imp_div_less)
  then have top: "(n div 2 ^ 24) mod 256 = n div 2 ^ 24" by simp
  have "n = n div 2 ^ 8 * 256 + n mod 256" by simp
  moreover have "n div 2 ^ 8 = n div 2 ^ 16 * 256 + n div 2 ^ 8 mod 256"
    unfolding d(1) by (rule div_mult_mod_eq [symmetric])
  moreover have "n div 2 ^ 16 = n div 2 ^ 24 * 256 + n div 2 ^ 16 mod 256"
    unfolding d(2) by (rule div_mult_mod_eq [symmetric])
  ultimately show ?thesis unfolding top by (rule horner_256)
qed

lemma rd_be32_be32 [simp]: "rd_be32 (be32 w @ r) = w"
proof -
  have "unat w < 2 ^ 32" using unsigned_less [of w] by simp
  note base256_digits [OF this]
  moreover have "rd_be32 (be32 w @ r) = of_nat ((unat w div 2 ^ 24) mod 256 * 2 ^ 24 +
      (unat w div 2 ^ 16) mod 256 * 2 ^ 16 + (unat w div 2 ^ 8) mod 256 * 2 ^ 8 + unat w mod 256)"
    by (simp only: be32_def append.simps rd_be32.simps of_char_of)
  ultimately show ?thesis by (simp only:) simp
qed

lemma length_be32 [simp]: "length (be32 w) = 4"
  by (simp add: be32_def)

lemma length_wr_header [simp]: "length (wr_header h) = 16"
  by (simp add: wr_header_def)

lemma rd_wr_header: "rd_header (wr_header h @ r) = h"
  by (simp add: rd_header_def wr_header_def)

subsection \<open>What a commit leaves on the device\<close>

lemma dev_write_length [simp]: "length (dev_write dev off b) = length dev"
  by (simp add: dev_write_def)

lemma flash_image:
  assumes "length H = 16" "NVRAM_HEADER_SIZE + length b \<le> length dev"
  shows "dev_write (dev_write dev 0 H) NVRAM_HEADER_SIZE b =
    H @ drop 16 (take 40 dev) @ b @ drop (NVRAM_HEADER_SIZE + length b) dev"
  using assms by (simp add: dev_write_def NVRAM_HEADER_SIZE_def take_drop drop_drop add.commute)

text \<open>\<open>nvram_load\<close> once the header is known to be a good one.\<close>

lemma nvram_load_good_header:
  assumes "files s NVRAM_PATH = Some dev" "16 \<le> length dev" "h_magic (rd_header dev) = NVRAM_MAGIC"
    and "unat (h_len (rd_header dev)) = n" "n < 2 ^ 31"
  shows "nvram_load s =
    (if length dev - NVRAM_HEADER_SIZE < n then None
     else Some (if crc32_ref (take n (drop NVRAM_HEADER_SIZE dev)) = h_crc (rd_header dev)
       then (NVRAM_SUCCESS, f_write NVRAM_TMP_PATH (take n (drop NVRAM_HEADER_SIZE dev)) s)
       else (NVRAM_CRC_ERR, s)))"
proof -
  have "\<not> length dev < sizeof_nvram_header" "\<not> 2 ^ 31 \<le> n"
    using assms(2,5) by (simp_all add: sizeof_nvram_header_def)
  moreover have "length (take (n + 1) (drop NVRAM_HEADER_SIZE dev)) < n \<longleftrightarrow> length dev - NVRAM_HEADER_SIZE < n"
    by auto
  moreover have "take n (take (n + 1) (drop NVRAM_HEADER_SIZE dev)) = take n (drop NVRAM_HEADER_SIZE dev)"
    by (simp add: min_def)
  ultimately show ?thesis
    by (cases "length dev - NVRAM_HEADER_SIZE < n";
        cases "crc32_ref (take n (drop NVRAM_HEADER_SIZE dev)) = h_crc (rd_header dev)")
      (simp_all only: nvram_load_def assms(1,3,4) option.case Let_def if_False if_True simp_thms
        writeFileBin_def crc32_eq_ref)
qed

text \<open>Loading an image with a good header succeeds exactly when the checksum agrees.\<close>

lemma nvram_load_image:
  assumes dev: "files s NVRAM_PATH = Some (wr_header h @ pad @ b @ rest)" and pad: "length pad = 24"
    and h: "h_magic h = NVRAM_MAGIC" "h_len h = of_nat (length b)" and len: "length b < 2 ^ 31"
  shows "nvram_load s = Some (if crc32_ref b = h_crc h
      then (NVRAM_SUCCESS, f_write NVRAM_TMP_PATH b s) else (NVRAM_CRC_ERR, s))"
proof -
  let ?dev = "wr_header h @ pad @ b @ rest"
  have "unat (h_len (rd_header ?dev)) = length b"
    using len by (simp add: rd_wr_header h unat_of_nat)
  moreover have "drop NVRAM_HEADER_SIZE ?dev = b @ rest"
    using pad by (simp add: NVRAM_HEADER_SIZE_def)
  moreover have "\<not> length ?dev - NVRAM_HEADER_SIZE < length b"
    using pad by (simp add: NVRAM_HEADER_SIZE_def)
  ultimately show ?thesis
    using nvram_load_good_header [OF dev _ _ _ len] h by (simp add: rd_wr_header)
qed

lemma nvram_commit_device:
  assumes "files s NVRAM_PATH = Some dev" "files s NVRAM_TMP_PATH = Some b" "b \<noteq> []"
    and "NVRAM_HEADER_SIZE + length b \<le> length dev" and "nvram_commit resv s = (r, s1)"
  obtains pad rest where "length pad = 24" "r = NVRAM_SUCCESS"
    "files s1 NVRAM_PATH = Some (wr_header \<lparr>h_magic = NVRAM_MAGIC, h_len = of_nat (length b),
       h_crc = crc32_ref b, h_reserved = resv\<rparr> @ pad @ b @ rest)"
proof
  show "length (drop 16 (take 40 dev)) = 24"
    using assms(4) by (simp add: NVRAM_HEADER_SIZE_def)
  show "r = NVRAM_SUCCESS"
    using assms by (simp add: nvram_commit_def readFileBin_def Let_def fd_read_def)
  show "files s1 NVRAM_PATH = Some (wr_header \<lparr>h_magic = NVRAM_MAGIC, h_len = of_nat (length b),
       h_crc = crc32_ref b, h_reserved = resv\<rparr> @ drop 16 (take 40 dev) @ b @ drop (NVRAM_HEADER_SIZE + length b) dev)"
    using assms by (auto simp: nvram_commit_def readFileBin_def Let_def fd_read_def flash_image crc32_eq_ref)
qed

subsection \<open>Properties\<close>

text \<open>C7. A committed configuration survives a reboot: when the partition has room for it, \<open>nvram_commit\<close>
  reports success, and \<open>nvram_load\<close> in any later state with the same flash contents rebuilds
  \<open>/tmp/nvram\<close> byte for byte.\<close>

theorem commit_then_load:
  assumes "files s NVRAM_PATH = Some dev" "files s NVRAM_TMP_PATH = Some b" "b \<noteq> []"
    and "NVRAM_HEADER_SIZE + length b \<le> length dev" "length b < 2 ^ 31"
    and "nvram_commit resv s = (r, s1)" and "files s2 NVRAM_PATH = files s1 NVRAM_PATH"
  shows "r = NVRAM_SUCCESS \<and> nvram_load s2 = Some (NVRAM_SUCCESS, f_write NVRAM_TMP_PATH b s2)"
proof -
  obtain pad rest where i: "length pad = 24" "r = NVRAM_SUCCESS"
    "files s2 NVRAM_PATH = Some (wr_header \<lparr>h_magic = NVRAM_MAGIC, h_len = of_nat (length b),
       h_crc = crc32_ref b, h_reserved = resv\<rparr> @ pad @ b @ rest)"
    using nvram_commit_device [OF assms(1-4,6)] assms(7) by metis
  show ?thesis using nvram_load_image [OF i(3,1)] assms(5) i(2) by simp
qed

text \<open>C8. Every single-byte corruption of the stored configuration is detected: if after a commit one byte
  of the payload on the flash changes, \<open>nvram_load\<close> returns \<open>NVRAM_CRC_ERR\<close> and leaves the
  running files alone.\<close>

theorem load_detects_byte_error:
  assumes "files s NVRAM_PATH = Some dev" "files s NVRAM_TMP_PATH = Some b"
    and "NVRAM_HEADER_SIZE + length b \<le> length dev" "length b < 2 ^ 31"
    and "nvram_commit resv s = (r, s1)" and "files s1 NVRAM_PATH = Some img"
    and "i < length b" "d \<noteq> b ! i"
    and "files s2 NVRAM_PATH = Some (img[NVRAM_HEADER_SIZE + i := d])"
  shows "nvram_load s2 = Some (NVRAM_CRC_ERR, s2)"
proof -
  let ?h = "\<lparr>h_magic = NVRAM_MAGIC, h_len = of_nat (length b), h_crc = crc32_ref b, h_reserved = resv\<rparr>"
  have "b \<noteq> []" using assms(7) by auto
  then obtain pad rest where i: "length pad = 24" "img = wr_header ?h @ pad @ b @ rest"
    using nvram_commit_device [OF assms(1,2) _ assms(3,5)] assms(6) by (metis option.inject)
  have b: "b = take i b @ b ! i # drop (Suc i) b" using assms(7) by (rule id_take_nth_drop)
  have bd: "b[i := d] = take i b @ d # drop (Suc i) b" using assms(7) by (rule upd_conv_take_nth_drop)
  have "img[NVRAM_HEADER_SIZE + i := d] = wr_header ?h @ pad @ b[i := d] @ rest"
    using i assms(7) by (simp add: NVRAM_HEADER_SIZE_def list_update_append)
  then have "files s2 NVRAM_PATH = Some (wr_header ?h @ pad @ b[i := d] @ rest)"
    using assms(9) by simp
  from nvram_load_image [OF this i(1)]
  have "nvram_load s2 = Some (if crc32_ref (b[i := d]) = crc32_ref b
      then (NVRAM_SUCCESS, f_write NVRAM_TMP_PATH (b[i := d]) s2) else (NVRAM_CRC_ERR, s2))"
    using assms(4) by simp
  moreover have "crc32_ref (b[i := d]) \<noteq> crc32_ref b"
    using crc32_ref_one_byte [OF assms(8), of "take i b" "drop (Suc i) b"] b bd by simp
  ultimately show ?thesis by simp
qed

text \<open>The check after the write is ineffective. The device is opened write-only, so the read-back
  leaves the buffer as it was: \<open>nvram_commit\<close> reports success whenever the device opens and there
  is something to write, even on a partition too small for the configuration, where the
  following \<open>nvram_load\<close> cannot succeed.\<close>

theorem commit_check_is_vacuous:
  assumes "files s NVRAM_PATH = Some dev" "files s NVRAM_TMP_PATH = Some b" "b \<noteq> []"
    and "NVRAM_HEADER_SIZE \<le> length dev" "length dev < NVRAM_HEADER_SIZE + length b" "length b < 2 ^ 31"
  shows "fst (nvram_commit resv s) = NVRAM_SUCCESS \<and>
    (\<nexists>s2. nvram_load (snd (nvram_commit resv s)) = Some (NVRAM_SUCCESS, s2))"
proof -
  let ?h = "\<lparr>h_magic = NVRAM_MAGIC, h_len = of_nat (length b), h_crc = crc32 b (length b), h_reserved = resv\<rparr>"
  let ?img = "dev_write (dev_write dev 0 (wr_header ?h)) NVRAM_HEADER_SIZE b"
  have un: "unat (of_nat (length b) :: 32 word) = length b"
    using assms(6) by (simp add: unat_of_nat)
  have "take 16 ?img = wr_header ?h"
    using assms(4) by (simp add: dev_write_def NVRAM_HEADER_SIZE_def min_def)
  then have "?img = wr_header ?h @ drop 16 ?img" by (metis append_take_drop_id)
  then have rd: "rd_header ?img = ?h" by (metis rd_wr_header)
  have "nvram_load t = None" if "files t NVRAM_PATH = Some ?img" for t :: "'a host_scheme"
    using nvram_load_good_header [OF that _ _ _ assms(6)] assms(4,5) un rd
    by (simp add: NVRAM_HEADER_SIZE_def)
  then show ?thesis
    using assms by (simp add: nvram_commit_def readFileBin_def Let_def fd_read_def)
qed

subsection \<open>A concrete device\<close>

definition ex_vars :: kvs where
  "ex_vars = [(''sys_name'', ''wap''), (''lan_dhcpc'', ''1'')]"

definition ex_flash :: host where
  "ex_flash = ex_host [NVRAM_PATH \<mapsto> replicate 100 NUL, NVRAM_TMP_PATH \<mapsto> enc ex_vars]"

definition ex_small_flash :: host where
  "ex_small_flash = ex_host [NVRAM_PATH \<mapsto> replicate 50 NUL, NVRAM_TMP_PATH \<mapsto> enc ex_vars]"

lemma ex_flash_files:
  "files ex_flash NVRAM_PATH = Some (replicate 100 NUL)" "files ex_flash NVRAM_TMP_PATH = Some (enc ex_vars)"
  "files ex_small_flash NVRAM_PATH = Some (replicate 50 NUL)"
  "files ex_small_flash NVRAM_TMP_PATH = Some (enc ex_vars)" "length (enc ex_vars) = 26"
  by (simp_all add: ex_flash_def ex_small_flash_def ex_vars_def enc_def)

lemma commit_then_load_witness:
  "\<exists>s1 :: host. nvram_commit 0 ex_flash = (NVRAM_SUCCESS, s1) \<and>
     nvram_load s1 = Some (NVRAM_SUCCESS, f_write NVRAM_TMP_PATH (enc ex_vars) s1)"
proof -
  obtain r s1 where c: "nvram_commit 0 ex_flash = (r, s1)" by fastforce
  have "r = NVRAM_SUCCESS \<and> nvram_load s1 = Some (NVRAM_SUCCESS, f_write NVRAM_TMP_PATH (enc ex_vars) s1)"
    by (rule commit_then_load [OF ex_flash_files(1,2) _ _ _ c]) (simp_all add: ex_flash_files NVRAM_HEADER_SIZE_def)
  then show ?thesis using c by simp
qed

lemma load_detects_byte_error_witness:
  "\<exists>s2 :: host. files s2 NVRAM_PATH \<noteq> None \<and> nvram_load s2 = Some (NVRAM_CRC_ERR, s2)"
proof -
  obtain r s1 where c: "nvram_commit 0 ex_flash = (r, s1)" by fastforce
  obtain img where img: "files s1 NVRAM_PATH = Some img"
    by (rule nvram_commit_device [OF ex_flash_files(1,2) _ _ c]) (simp_all add: ex_flash_files NVRAM_HEADER_SIZE_def)
  let ?s2 = "f_write NVRAM_PATH (img[NVRAM_HEADER_SIZE + 0 := CHR ''x'']) s1"
  have "nvram_load ?s2 = Some (NVRAM_CRC_ERR, ?s2)"
    by (rule load_detects_byte_error [where i = 0 and d = "CHR ''x''", OF ex_flash_files(1,2) _ _ c img])
      (simp_all add: ex_flash_files NVRAM_HEADER_SIZE_def ex_vars_def enc_def)
  then show ?thesis by (intro exI [of _ ?s2]) simp
qed

lemma commit_check_is_vacuous_witness:
  "fst (nvram_commit 0 ex_small_flash) = NVRAM_SUCCESS \<and>
    (\<nexists>s2. nvram_load (snd (nvram_commit 0 ex_small_flash)) = Some (NVRAM_SUCCESS, s2))"
  by (rule commit_check_is_vacuous [OF ex_flash_files(3,4)])
    (simp_all add: ex_flash_files NVRAM_HEADER_SIZE_def)

end
