(* ===== verification/Scfg.thy ===== *)
theory Scfg
  imports Nvram_Flash
begin

text \<open>
  libscfg: the message format and the socket helpers (\<open>socket_header.h\<close>, \<open>socket_tools.c\<close>) and
  the configuration daemon (\<open>scfg_run\<close> of \<open>scfgmgr.c\<close>), under
  \<open>src/src/apps/apps_sc/libs/libscfg/\<close>. A message is a header of three big-endian words and a
  payload. The bytes a peer sends arrive as segments; one \<open>read\<close> returns bytes of one segment.

  The client calls are the daemon run on the bytes the client wrote, on the same files.
\<close>

subsection \<open>Messages\<close>

definition SCM_MAGIC :: "32 word" where "SCM_MAGIC = 0x53634d4d"

abbreviation (input) SCFG_WARNING :: int where "SCFG_WARNING \<equiv> - 2"
abbreviation (input) SCFG_ERR :: int where "SCFG_ERR \<equiv> - 1"
abbreviation (input) SCFG_OK :: int where "SCFG_OK \<equiv> 0"
abbreviation (input) SCFG_GETALL :: int where "SCFG_GETALL \<equiv> 1"
abbreviation (input) SCFG_GET :: int where "SCFG_GET \<equiv> 2"
abbreviation (input) SCFG_SET :: int where "SCFG_SET \<equiv> 3"
abbreviation (input) SCFG_COMMIT :: int where "SCFG_COMMIT \<equiv> 4"
abbreviation (input) SCFG_TEST :: int where "SCFG_TEST \<equiv> 5"
abbreviation (input) SCFG_ADSL_STATUS :: int where "SCFG_ADSL_STATUS \<equiv> 6"
abbreviation (input) SCFG_CONSOLE :: int where "SCFG_CONSOLE \<equiv> 7"
abbreviation (input) SCFG_RECEIVE :: int where "SCFG_RECEIVE \<equiv> 8"
abbreviation (input) SCFG_VERSION :: int where "SCFG_VERSION \<equiv> 9"
abbreviation (input) SCFG_LOCAL_IP :: int where "SCFG_LOCAL_IP \<equiv> 10"
abbreviation (input) SCFG_RESTORE :: int where "SCFG_RESTORE \<equiv> 11"
abbreviation (input) SCFG_CHECKSUM :: int where "SCFG_CHECKSUM \<equiv> 12"
abbreviation (input) SCFG_CFG_INIT :: int where "SCFG_CFG_INIT \<equiv> 13"

record scfgmgr_header =
  m_magic :: "32 word"
  m_cmd :: int
  m_len :: "32 word"

definition wr_scfg_header :: "scfgmgr_header \<Rightarrow> bytes" where
  "wr_scfg_header h = be32 (m_magic h) @ be32 (of_int (m_cmd h)) @ be32 (m_len h)"

definition rd_scfg_header :: "bytes \<Rightarrow> scfgmgr_header" where
  "rd_scfg_header b =
     \<lparr>m_magic = rd_be32 b, m_cmd = sint (rd_be32 (drop 4 b)), m_len = rd_be32 (drop 8 b)\<rparr>"

lemma length_wr_scfg_header [simp]: "length (wr_scfg_header h) = 12"
  by (simp add: wr_scfg_header_def)

lemma sint_of_int_int [simp]: "int_range x \<Longrightarrow> sint (of_int x :: 32 word) = x"
  by (simp add: sint_sbintrunc' int_range_def INT_MIN_def INT_MAX_def signed_take_bit_int_eq_self)

lemma rd_wr_scfg_header:
  "int_range (m_cmd h) \<Longrightarrow> rd_scfg_header (wr_scfg_header h @ r) = h"
  by (simp add: rd_scfg_header_def wr_scfg_header_def)

subsection \<open>\<open>socket_read\<close> and \<open>socket_write\<close>\<close>

text \<open>One \<open>read\<close> of at most \<open>n\<close> bytes: the bytes and what is left to arrive. At the end of the
  stream \<open>read\<close> returns nothing.\<close>

fun sock_recv :: "nat \<Rightarrow> bytes list \<Rightarrow> bytes \<times> bytes list" where
  "sock_recv n [] = ([], [])"
| "sock_recv n (seg # segs) = (take n seg, if n < length seg then drop n seg # segs else segs)"

text \<open>
  The payload loop. Every \<open>read\<close> asks for the whole payload length \<open>want\<close>, not for what is still
  missing: bytes beyond the block are written past its end (\<open>None\<close>). At the end of the stream
  the loop makes no progress and never ends (\<open>None\<close>).
\<close>

fun read_payload :: "nat \<Rightarrow> bytes \<Rightarrow> bytes list \<Rightarrow> (bytes \<times> bytes list) option" where
  "read_payload want acc [] = (if want \<le> length acc then Some (acc, []) else None)"
| "read_payload want acc (seg # segs) =
     (if want \<le> length acc then Some (acc, seg # segs)
      else let got = take want seg in
        if want < length acc + length got then None
        else if want < length seg then Some (acc @ got, drop want seg # segs)
        else read_payload want (acc @ got) segs)"

text \<open>
  A block of 2 GiB or more, half of the address space and all that belongs to a process, is never given: \<open>malloc\<close> fails.
  Smaller ones are taken to be given, the 12 bytes of the header too (without them \<open>scfg_run\<close> would store its
  answer through the null pointer). A connection may be closed by the peer, but its \<open>read\<close> does not fail.

  \<open>Inl\<close> is the return value -1, with the header already read; the payload is \<open>None\<close> when the
  length is zero and the pointer keeps its initial null.\<close>

definition malloc_fails :: "nat \<Rightarrow> bool" where
  "malloc_fails n \<longleftrightarrow> 2 ^ 31 \<le> n"

definition socket_read ::
  "bytes list \<Rightarrow> (scfgmgr_header + scfgmgr_header \<times> bytes option) option" where
  "socket_read segs =
     (let (hb, segs) = sock_recv 12 segs in
      if length hb < 12 then None
      else let header = rd_scfg_header hb in
        if m_magic header \<noteq> SCM_MAGIC then Some (Inl header)
        else if 0 < m_len header then
          (if malloc_fails (unat (m_len header)) then Some (Inl header)
           else do {
             (p, _) \<leftarrow> read_payload (unat (m_len header)) [] segs;
             Some (Inr (header, Some p))
           })
        else Some (Inr (header, None)))"

text \<open>Two \<open>write\<close>s; the second reads \<open>len\<close> bytes at \<open>data\<close>, and more than \<open>INT_MAX\<close> bytes are refused by the kernel
  (\<open>rw_verify_area\<close>). What is sent when both succeed and 0 is returned:\<close>

definition write_refused :: "scfgmgr_header \<Rightarrow> bool" where
  "write_refused header \<longleftrightarrow> 2 ^ 31 \<le> unat (m_len header)"

definition socket_write :: "scfgmgr_header \<Rightarrow> bytes \<Rightarrow> bytes list option" where
  "socket_write header data =
     (if 0 < m_len header then
        if unat (m_len header) \<le> length data \<and> \<not> write_refused header
        then Some [wr_scfg_header header, take (unat (m_len header)) data] else None
      else Some [wr_scfg_header header])"

text \<open>The same for a caller that does not look at the result: a refused payload leaves the header sent.\<close>

definition socket_put :: "scfgmgr_header \<Rightarrow> bytes \<Rightarrow> bytes list option" where
  "socket_put header data = (if write_refused header then Some [wr_scfg_header header] else socket_write header data)"

subsection \<open>The requests\<close>

definition NVRAM_SIZE :: nat where "NVRAM_SIZE = 65536"

text \<open>The output of a handler: the reply code, \<open>buf_len\<close>, the bytes of \<open>buf\<close> up to it, \<open>console_mode\<close>.\<close>

record scfg_out =
  r_cmd :: int
  r_len :: "32 word"
  r_buf :: bytes
  r_console :: bool

abbreviation reply_error :: scfg_out where
  "reply_error \<equiv> \<lparr>r_cmd = SCFG_ERR, r_len = 0, r_buf = [], r_console = False\<rparr>"

abbreviation reply_ok :: "bytes \<Rightarrow> scfg_out" where
  "reply_ok b \<equiv> \<lparr>r_cmd = SCFG_OK, r_len = of_nat (length b), r_buf = b, r_console = False\<rparr>"

text \<open>A string in \<open>buf\<close>, sent with its terminator.\<close>

definition buf_str :: "cstr \<Rightarrow> bytes option" where
  "buf_str t = do { t \<leftarrow> into_buf NVRAM_SIZE t; Some (t @ [NUL]) }"

text \<open>The C string a payload holds: the pointer may be null, the block may lack a terminator.\<close>

definition payload_str :: "bytes option \<Rightarrow> cstr option" where
  "payload_str p = (case p of None \<Rightarrow> None | Some b \<Rightarrow> c_str b)"

text \<open>
  \<open>buf_len = lseek (fd, 0, SEEK_END); lseek (fd, 0, 0); read (fd, buf, buf_len)\<close>: the value of \<open>buf_len\<close>, and the bytes
  unless \<open>read\<close> fails. Seeking to the end is refused on \<open>/proc\<close> (\<open>proc_file_lseek\<close> in \<open>fs/proc/generic.c\<close> of the
  kernel) and for files of 2 GiB; \<open>buf_len\<close> then is -1 and \<open>read\<close>, asked for more than \<open>INT_MAX\<close> bytes, fails. A file larger than the buffer overruns it.
\<close>

definition lseek_end :: "string \<Rightarrow> bytes \<Rightarrow> 32 word" where
  "lseek_end path b = (if take 6 path = ''/proc/'' \<or> 2 ^ 31 \<le> length b then - 1 else of_nat (length b))"

definition read_all :: "string \<Rightarrow> bytes \<Rightarrow> 'a host_scheme \<Rightarrow> (32 word \<times> bytes option) option" where
  "read_all path b s =
     (let buf_len = lseek_end path b in
      if 2 ^ 31 \<le> unat buf_len \<or> rd_fails s path then Some (buf_len, None)
      else if NVRAM_SIZE < length b then None
      else Some (buf_len, Some b))"

text \<open>\<open>error\<close> with \<open>buf_len\<close> set: the uninitialised buffer is sent with it.\<close>

definition failed_read :: "32 word \<Rightarrow> bool \<Rightarrow> 'a host_scheme \<Rightarrow> scfg_out" where
  "failed_read buf_len console s =
     \<lparr>r_cmd = SCFG_ERR, r_len = buf_len,
      r_buf = (if unat buf_len \<le> NVRAM_SIZE then map (stack_bytes s) [0..<unat buf_len] else []), r_console = console\<rparr>"

definition run_getall :: "'a host_scheme \<Rightarrow> (scfg_out \<times> 'a host_scheme) option" where
  "run_getall s =
     (case files s NVRAM_TMP_PATH of
        None \<Rightarrow> Some (reply_error, s)
      | Some b \<Rightarrow> do {
          (buf_len, got) \<leftarrow> read_all NVRAM_TMP_PATH b s;
          Some (case got of None \<Rightarrow> failed_read buf_len False s | Some b \<Rightarrow> reply_ok b, s)
        })"

definition run_get :: "bytes option \<Rightarrow> 'a host_scheme \<Rightarrow> (scfg_out \<times> 'a host_scheme) option" where
  "run_get p s = do {
     pt \<leftarrow> payload_str p;
     (v, s) \<leftarrow> nvram_get pt s;
     case v of
       None \<Rightarrow> Some (reply_error, s)
     | Some v \<Rightarrow> do { b \<leftarrow> buf_str v; Some (reply_ok b, s) }
   }"

text \<open>\<open>strtok (buf, "=")\<close> and then \<open>strtok (NULL, "")\<close>; \<open>None\<close> is the null pointer.\<close>

definition strtok_assign :: "cstr \<Rightarrow> (cstr \<times> cstr) option" where
  "strtok_assign t =
     (let r = dropWhile (\<lambda>c. c = CHR ''='') t; name = takeWhile (\<lambda>c. c \<noteq> CHR ''='') r in
      if r = [] then None else Some (name, drop (length name + 1) r))"

definition run_set :: "bytes option \<Rightarrow> 'a host_scheme \<Rightarrow> (scfg_out \<times> 'a host_scheme) option" where
  "run_set p s = do {
     pt \<leftarrow> payload_str p;
     if CHR ''='' \<notin> set pt then Some (reply_error, s)
     else do {
       buf \<leftarrow> into_buf NVRAM_SIZE pt;
       case strtok_assign buf of
         None \<Rightarrow> Some (reply_error, s)
       | Some (name, v) \<Rightarrow> do { (_, s) \<leftarrow> nvram_set name v s; Some (reply_ok [], s) }
     }
   }"

definition run_commit :: "'a host_scheme \<Rightarrow> (scfg_out \<times> 'a host_scheme) option" where
  "run_commit s =
     (let (e, s) = nvram_commit (stack_word s) s in
      Some (if nvram_errno e < 0 then reply_error else reply_ok [], s))"

definition run_test :: "'a host_scheme \<Rightarrow> (scfg_out \<times> 'a host_scheme) option" where
  "run_test s = do {
     (_, s) \<leftarrow> nvram_set ''wan_mode'' ''bridgedonly'' s;
     (_, s) \<leftarrow> nvram_set ''wan_encap'' ''0'' s;
     (_, s) \<leftarrow> nvram_set ''wan_vpi'' ''8'' s;
     (_, s) \<leftarrow> nvram_set ''wan_vci'' ''81'' s;
     let s = c_system ''/usr/bin/killall br2684ctl'' s;
     let s = c_system ''/usr/sbin/rc wan restart&'' s;
     let s = c_system ''/usr/bin/killall udhcpd'' s;
     Some (reply_ok [], s)
   }"

text \<open>\<open>sscanf (pt, "%*[^:]: %d %*[^:]: %d", &upstream, &downstream)\<close>, both 0 before.\<close>

definition adsl_rates :: "bytes \<Rightarrow> (int \<times> int) option" where
  "adsl_rates pt = do {
     a \<leftarrow> raw_to_colon pt;
     case a of None \<Rightarrow> Some (0, 0) | Some r \<Rightarrow> do {
       u \<leftarrow> raw_int r;
       case u of None \<Rightarrow> Some (0, 0) | Some (upstream, r) \<Rightarrow> do {
         r \<leftarrow> raw_skip_ws r;
         a \<leftarrow> raw_to_colon r;
         case a of None \<Rightarrow> Some (upstream, 0) | Some r \<Rightarrow> do {
           d \<leftarrow> raw_int r;
           case d of None \<Rightarrow> Some (upstream, 0) | Some (downstream, r) \<Rightarrow> Some (upstream, downstream)
         }
       }
     }
   }"

definition run_adsl_status :: "'a host_scheme \<Rightarrow> (scfg_out \<times> 'a host_scheme) option" where
  "run_adsl_status s =
     (case files s ''/proc/avalanche/avsar_modem_stats'' of
        None \<Rightarrow> Some (reply_error\<lparr>r_console := True\<rparr>, s)
      | Some b \<Rightarrow> do {
          (buf_len, got) \<leftarrow> read_all ''/proc/avalanche/avsar_modem_stats'' b s;
          (case got of
             None \<Rightarrow> Some (failed_read buf_len True s, s)
           | Some b \<Rightarrow> do {
               pt \<leftarrow> raw_strstr b ''US'';
               (upstream, downstream) \<leftarrow> (case pt of None \<Rightarrow> Some (0, 0) | Some pt \<Rightarrow> adsl_rates pt);
               b \<leftarrow> buf_str (fmt_d downstream @ ''Kbps/'' @ fmt_d upstream @ ''Kbps'');
               Some ((reply_ok b)\<lparr>r_console := True\<rparr>, s)
             })
        })"

text \<open>The whole payload is handed to \<open>popen\<close>, and its output sent back.\<close>

definition run_console :: "bytes option \<Rightarrow> 'a host_scheme \<Rightarrow> (scfg_out \<times> 'a host_scheme) option" where
  "run_console p s = do {
     pt \<leftarrow> payload_str p;
     if pt = ''exit'' \<or> pt = ''quit'' \<or> pt = ''bye'' then Some (reply_ok [], s)
     else if take 3 pt = ''cd '' then do {
       mytmp \<leftarrow> into_buf 1024 (sh_cwd s (drop 3 pt));
       b \<leftarrow> buf_str (''cd '' @ mytmp);
       Some ((reply_ok b)\<lparr>r_console := True\<rparr>, s)
     }
     else do {
       b \<leftarrow> buf_str (sh_out s pt);
       Some ((reply_ok b)\<lparr>r_console := True\<rparr>, c_system pt s)
     }
   }"

text \<open>The name loop of \<open>SCFG_RECEIVE\<close> and its two arrays of 128 bytes. Opening a path that ends in a
  slash for writing fails.\<close>

definition run_receive :: "scfgmgr_header \<Rightarrow> bytes option \<Rightarrow> 'a host_scheme \<Rightarrow> (scfg_out \<times> 'a host_scheme) option" where
  "run_receive header p s =
     (case p of None \<Rightarrow> None | Some b \<Rightarrow> do {
        pt \<leftarrow> c_str b;
        tmp \<leftarrow> into_buf 128 pt;
        filename \<leftarrow> into_buf 128 (''/tmp/'' @ tmp);
        if last filename = CHR ''/'' then Some (reply_error, s)
        else Some (reply_ok [],
          f_write filename (take (unat (m_len header) - length tmp - 1) (drop (length tmp + 1) b)) s)
      })"

text \<open>\<open>sscanf (buf, "%c%d.%d.%d", &annex, &a, &b, &c)\<close>; what \<open>fread\<close> did not fill is indeterminate.\<close>

definition version_fields :: "bytes \<Rightarrow> (int \<times> int \<times> int) option" where
  "version_fields b = do {
     x \<leftarrow> raw_int b;
     case x of None \<Rightarrow> Some (0, 0, 0) | Some (a, r) \<Rightarrow>
       if hd r \<noteq> CHR ''.'' then Some (a, 0, 0)
       else do {
         x \<leftarrow> raw_int (tl r);
         case x of None \<Rightarrow> Some (a, 0, 0) | Some (b, r) \<Rightarrow>
           if hd r \<noteq> CHR ''.'' then Some (a, b, 0)
           else do {
             x \<leftarrow> raw_int (tl r);
             case x of None \<Rightarrow> Some (a, b, 0) | Some (c, r) \<Rightarrow> Some (a, b, c)
           }
       }
   }"

definition fmt_02x_int :: "int \<Rightarrow> cstr" where
  "fmt_02x_int v = fmt_02x False (nat (v mod 2 ^ 32))"

definition run_version :: "'a host_scheme \<Rightarrow> (scfg_out \<times> 'a host_scheme) option" where
  "run_version s =
     (case files s ''/etc/version'' of None \<Rightarrow> None | Some f \<Rightarrow>
        (case take 128 f of [] \<Rightarrow> None | annex # r \<Rightarrow> do {
           (a, b, c) \<leftarrow> version_fields r;
           let out = annex # ''.'' @ fmt_02x_int a @ fmt_02x_int b @ fmt_02x_int c;
           b \<leftarrow> buf_str (takeWhile (\<lambda>c. c \<noteq> NUL) out);
           Some ((reply_ok b)\<lparr>r_console := True\<rparr>, s)
         }))"

definition run_local_ip :: "'a host_scheme \<Rightarrow> (scfg_out \<times> 'a host_scheme) option" where
  "run_local_ip s = do {
     (v, s) \<leftarrow> nvram_get ''lan_ipaddr'' s;
     case v of None \<Rightarrow> None | Some v \<Rightarrow> do {
       b \<leftarrow> buf_str v;
       Some ((reply_ok b)\<lparr>r_console := True\<rparr>, s)
     }
   }"

definition run_restore :: "'a host_scheme \<Rightarrow> (scfg_out \<times> 'a host_scheme) option" where
  "run_restore s = do {
     (_, s) \<leftarrow> nvram_set ''restore_defaults'' ''1'' s;
     let (_, s) = nvram_commit (stack_word s) s;
     Some ((reply_ok [])\<lparr>r_console := True\<rparr>, s)
   }"

text \<open>On a file shorter than four bytes the \<open>fseek\<close> fails and the read starts at the beginning.\<close>

definition run_checksum :: "'a host_scheme \<Rightarrow> (scfg_out \<times> 'a host_scheme) option" where
  "run_checksum s =
     (case files s ''/dev/mtdblock/0'' of
        None \<Rightarrow> Some (reply_error, s)
      | Some f \<Rightarrow>
          (case drop (if length f < 4 then 0 else length f - 4) f of
             x # y # _ \<Rightarrow> do {
               b \<leftarrow> buf_str (fmt_x (code x * 256 + code y));
               Some ((reply_ok b)\<lparr>r_console := True\<rparr>, s)
             }
           | _ \<Rightarrow> None))"

definition run_cfg_init :: "'a host_scheme \<Rightarrow> (scfg_out \<times> 'a host_scheme) option" where
  "run_cfg_init s = do {
     (_, s) \<leftarrow> nvram_load s;
     let (_, s) = nvram_commit (stack_word s) s;
     Some (reply_ok [], s)
   }"

subsection \<open>The daemon\<close>

definition scfg_init :: "'a host_scheme \<Rightarrow> int" where
  "scfg_init s = (if f_exists NVRAM_TMP_PATH s then 0 else - 1)"

definition scfg_dispatch ::
  "scfgmgr_header \<Rightarrow> bytes option \<Rightarrow> 'a host_scheme \<Rightarrow> (scfg_out \<times> 'a host_scheme) option" where
  "scfg_dispatch header payload s =
     (let cmd = m_cmd header in
      if cmd = SCFG_GETALL then run_getall s
      else if cmd = SCFG_GET then run_get payload s
      else if cmd = SCFG_SET then run_set payload s
      else if cmd = SCFG_COMMIT then run_commit s
      else if cmd = SCFG_TEST then run_test s
      else if cmd = SCFG_ADSL_STATUS then run_adsl_status s
      else if cmd = SCFG_CONSOLE then run_console payload s
      else if cmd = SCFG_RECEIVE then run_receive header payload s
      else if cmd = SCFG_VERSION then run_version s
      else if cmd = SCFG_LOCAL_IP then run_local_ip s
      else if cmd = SCFG_RESTORE then run_restore s
      else if cmd = SCFG_CHECKSUM then run_checksum s
      else if cmd = SCFG_CFG_INIT then run_cfg_init s
      else Some (reply_error, s))"

text \<open>One request: the bytes written back, \<open>console_mode\<close>, the new state.\<close>

definition scfg_run :: "bytes list \<Rightarrow> 'a host_scheme \<Rightarrow> (bytes list \<times> bool \<times> 'a host_scheme) option" where
  "scfg_run segs s = do {
     r \<leftarrow> socket_read segs;
     (out, s) \<leftarrow> (case r of
        Inl header \<Rightarrow> Some (reply_error, s)
      | Inr (header, payload) \<Rightarrow> scfg_dispatch header payload s);
     reply \<leftarrow> socket_put \<lparr>m_magic = SCM_MAGIC, m_cmd = r_cmd out, m_len = r_len out\<rparr> (r_buf out);
     Some (reply, r_console out, s)
   }"

subsection \<open>The client\<close>

text \<open>\<open>Inl\<close> is the return value -1; otherwise the header and the data received. A request whose payload is refused has
  sent its header, which the daemon answers before the client has read anything.\<close>

definition scfgmgr_connect :: "scfgmgr_header \<Rightarrow> bytes \<Rightarrow> 'a host_scheme \<Rightarrow>
    ((unit + scfgmgr_header \<times> bytes option) \<times> 'a host_scheme) option" where
  "scfgmgr_connect shd sdata s =
     (if \<not> scfgd s then Some (Inl (), s)
      else if write_refused shd then do { (_, _, s) \<leftarrow> scfg_run [wr_scfg_header shd] s; Some (Inl (), s) }
      else do {
        req \<leftarrow> socket_write shd sdata;
        (reply, _, s) \<leftarrow> scfg_run req s;
        r \<leftarrow> socket_read reply;
        case r of
          Inl _ \<Rightarrow> Some (Inl (), s)
        | Inr (rhd, rdata) \<Rightarrow> Some (Inr (rhd, rdata), s)
      })"

text \<open>A call that passes a null \<open>rdata\<close>: a reply with a payload is stored through it.\<close>

definition connect_no_data :: "scfgmgr_header \<Rightarrow> bytes \<Rightarrow> 'a host_scheme \<Rightarrow> (int \<times> 'a host_scheme) option" where
  "connect_no_data shd sdata s = do {
     (r, s) \<leftarrow> scfgmgr_connect shd sdata s;
     case r of
       Inl _ \<Rightarrow> Some (- 1, s)
     | Inr (rhd, Some _) \<Rightarrow> None
     | Inr (rhd, None) \<Rightarrow> Some (if m_cmd rhd = SCFG_ERR then - 1 else 0, s)
   }"

definition scfgmgr_cmd :: "int \<Rightarrow> 'a host_scheme \<Rightarrow> (int \<times> bytes option \<times> 'a host_scheme) option" where
  "scfgmgr_cmd cmd s = do {
     (r, s) \<leftarrow> scfgmgr_connect \<lparr>m_magic = SCM_MAGIC, m_cmd = cmd, m_len = 0\<rparr> [] s;
     case r of
       Inl _ \<Rightarrow> Some (- 1, None, s)
     | Inr (rhd, rdata) \<Rightarrow> Some (if m_cmd rhd = SCFG_ERR then - 1 else 0, rdata, s)
   }"

definition scfgmgr_set :: "cstr \<Rightarrow> cstr \<Rightarrow> 'a host_scheme \<Rightarrow> (int \<times> 'a host_scheme) option" where
  "scfgmgr_set name data s = do {
     tmp \<leftarrow> into_buf 4500 (name @ ''='' @ data);
     connect_no_data \<lparr>m_magic = SCM_MAGIC, m_cmd = SCFG_SET, m_len = of_nat (length tmp + 1)\<rparr> (tmp @ [NUL]) s
   }"

definition scfgmgr_sendfile :: "bytes \<Rightarrow> nat \<Rightarrow> 'a host_scheme \<Rightarrow> (int \<times> 'a host_scheme) option" where
  "scfgmgr_sendfile data len s =
     connect_no_data \<lparr>m_magic = SCM_MAGIC, m_cmd = SCFG_RECEIVE, m_len = of_nat len\<rparr> data s"

text \<open>
  The last three keep their status in a variable that stays 0: whatever the daemon answers, they
  return 0, and the data is what came with the answer (\<open>None\<close> leaves the caller's pointer alone).
\<close>

definition call_status_lost :: "scfgmgr_header \<Rightarrow> bytes \<Rightarrow> 'a host_scheme \<Rightarrow> (int \<times> bytes option \<times> 'a host_scheme) option" where
  "call_status_lost shd sdata s = do {
     (r, s) \<leftarrow> scfgmgr_connect shd sdata s;
     case r of Inl _ \<Rightarrow> Some (- 1, None, s) | Inr (rhd, rdata) \<Rightarrow> Some (0, rdata, s)
   }"

definition scfgmgr_getall :: "'a host_scheme \<Rightarrow> (int \<times> bytes option \<times> 'a host_scheme) option" where
  "scfgmgr_getall s = call_status_lost \<lparr>m_magic = SCM_MAGIC, m_cmd = SCFG_GETALL, m_len = 0\<rparr> [] s"

definition scfgmgr_get :: "cstr \<Rightarrow> 'a host_scheme \<Rightarrow> (int \<times> bytes option \<times> 'a host_scheme) option" where
  "scfgmgr_get data s = call_status_lost
     \<lparr>m_magic = SCM_MAGIC, m_cmd = SCFG_GET, m_len = of_nat (length data + 1)\<rparr> (data @ [NUL]) s"

definition scfgmgr_console :: "cstr \<Rightarrow> 'a host_scheme \<Rightarrow> (int \<times> bytes option \<times> 'a host_scheme) option" where
  "scfgmgr_console data s = call_status_lost
     \<lparr>m_magic = SCM_MAGIC, m_cmd = SCFG_CONSOLE, m_len = of_nat (length data + 1)\<rparr> (data @ [NUL]) s"

subsection \<open>Reading what was written\<close>

lemma read_payload_all:
  "length acc + length (concat segs) = want \<Longrightarrow>
   \<exists>r. read_payload want acc segs = Some (acc @ concat segs, r)"
proof (induction segs arbitrary: acc)
  case Nil
  then show ?case by simp
next
  case (Cons seg segs)
  show ?case
  proof (cases "want \<le> length acc")
    case True
    then have "length (concat (seg # segs)) = 0" using Cons.prems by linarith
    then have "concat (seg # segs) = []" by (simp only: length_0_conv)
    then show ?thesis using True by simp
  next
    case False
    then have "\<exists>r. read_payload want (acc @ seg) segs = Some ((acc @ seg) @ concat segs, r)"
      using Cons.prems by (intro Cons.IH) simp
    then show ?thesis using False Cons.prems by simp
  qed
qed

lemma socket_read_msg:
  assumes "int_range (m_cmd h)" "m_magic h = SCM_MAGIC" "length (concat segs) = unat (m_len h)"
    and "0 < m_len h" "\<not> write_refused h"
  shows "socket_read (wr_scfg_header h # segs) = Some (Inr (h, Some (concat segs)))"
proof -
  obtain r where "read_payload (unat (m_len h)) [] segs = Some (concat segs, r)"
    using read_payload_all [of "[]" segs] assms(3) by auto
  then show ?thesis
    using assms rd_wr_scfg_header [of h "[]"] by (simp add: socket_read_def malloc_fails_def write_refused_def)
qed

lemma socket_read_empty:
  assumes "int_range (m_cmd h)" "m_magic h = SCM_MAGIC" "m_len h = 0"
  shows "socket_read (wr_scfg_header h # segs) = Some (Inr (h, None))"
  using assms rd_wr_scfg_header [of h "[]"] by (simp add: socket_read_def)

lemma socket_read_write:
  assumes "int_range (m_cmd h)" "m_magic h = SCM_MAGIC" "socket_write h d = Some segs"
  shows "socket_read segs = Some (Inr (h, if 0 < m_len h then Some (take (unat (m_len h)) d) else None))"
proof (cases "0 < m_len h")
  case True
  then have "segs = wr_scfg_header h # [take (unat (m_len h)) d]" "unat (m_len h) \<le> length d" "\<not> write_refused h"
    using assms(3) by (auto simp: socket_write_def split: if_splits)
  then show ?thesis using socket_read_msg [OF assms(1,2), of "[take (unat (m_len h)) d]"] True by simp
next
  case False
  then have "m_len h = 0" by (simp add: word_gt_0)
  moreover have "segs = [wr_scfg_header h]" using assms(3) False by (simp add: socket_write_def)
  ultimately show ?thesis using socket_read_empty [OF assms(1,2)] by simp
qed

subsection \<open>Replies\<close>

text \<open>A reply whose length is that of its payload, and the one of a failed seek.\<close>

definition sized :: "scfg_out \<Rightarrow> bool" where
  "sized out \<longleftrightarrow> (r_cmd out = SCFG_OK \<or> r_cmd out = SCFG_ERR) \<and> length (r_buf out) \<le> NVRAM_SIZE \<and>
     r_len out = of_nat (length (r_buf out))"

definition good_out :: "scfg_out \<Rightarrow> bool" where
  "good_out out \<longleftrightarrow> sized out \<and> (r_cmd out = SCFG_OK \<or> r_buf out = [])"

lemma buf_str_length: "buf_str t = Some b \<Longrightarrow> length b \<le> NVRAM_SIZE"
  by (auto simp: buf_str_def into_buf_def split: if_splits)

lemmas run_defs = run_getall_def run_get_def run_set_def run_commit_def run_test_def
  run_adsl_status_def run_console_def run_receive_def run_version_def run_local_ip_def
  run_restore_def run_checksum_def run_cfg_init_def

lemma run_good:
  "run_get p s = Some (out, s') \<Longrightarrow> good_out out"
  "run_set p s = Some (out, s') \<Longrightarrow> good_out out"
  "run_commit s = Some (out, s') \<Longrightarrow> good_out out"
  "run_test s = Some (out, s') \<Longrightarrow> good_out out"
  "run_console p s = Some (out, s') \<Longrightarrow> good_out out"
  "run_receive h p s = Some (out, s') \<Longrightarrow> good_out out"
  "run_version s = Some (out, s') \<Longrightarrow> good_out out"
  "run_local_ip s = Some (out, s') \<Longrightarrow> good_out out"
  "run_restore s = Some (out, s') \<Longrightarrow> good_out out"
  "run_checksum s = Some (out, s') \<Longrightarrow> good_out out"
  "run_cfg_init s = Some (out, s') \<Longrightarrow> good_out out"
  unfolding run_defs
  by (auto simp: good_out_def sized_def Let_def bind_Some_iff case_prod_beta elim!: buf_str_length
      split: option.splits if_splits list.splits)

text \<open>The two requests that read a whole file.\<close>

lemma word_of_nat_unat_32: "word_of_nat (unat w) = (w :: 32 word)"
  by simp

lemma unat_minus_one_32: "unat (- 1 :: 32 word) = 4294967295"
  by (simp add: unsigned_minus_1_eq_mask mask_eq_exp_minus_1)

lemma lseek_end_unat: "unat (lseek_end path b) < 2 ^ 31 \<Longrightarrow> unat (lseek_end path b) = length b"
  by (auto simp: lseek_end_def unat_of_nat unat_minus_one_32 split: if_splits)

definition failed_out :: "scfg_out \<Rightarrow> bool" where
  "failed_out out \<longleftrightarrow> r_cmd out = SCFG_ERR \<and> r_buf out = [] \<and> (r_len out = - 1 \<or> unat (r_len out) < 2 ^ 31 \<and> NVRAM_SIZE < unat (r_len out))"

lemma run_getall_out:
  assumes "run_getall s = Some (out, s')"
  shows "good_out out \<or> sized out \<and> r_cmd out = SCFG_ERR \<and> rd_fails s NVRAM_TMP_PATH \<and>
      r_buf out = map (stack_bytes s) [0..<length (r_buf out)] \<or>
    failed_out out \<and> (\<exists>b. files s NVRAM_TMP_PATH = Some b \<and> NVRAM_SIZE < length b)"
proof (cases "files s NVRAM_TMP_PATH")
  case None
  then show ?thesis using assms by (auto simp: run_getall_def good_out_def sized_def)
next
  case (Some b)
  let ?n = "lseek_end NVRAM_TMP_PATH b"
  have p: "take 6 NVRAM_TMP_PATH \<noteq> ''/proc/''" by (simp add: nvram_paths)
  obtain got where g: "read_all NVRAM_TMP_PATH b s = Some (?n, got)"
    "out = (case got of None \<Rightarrow> failed_read ?n False s | Some b \<Rightarrow> reply_ok b)"
    using assms Some by (auto simp: run_getall_def read_all_def Let_def bind_Some_iff split: if_splits)
  show ?thesis
  proof (cases got)
    case (Some c)
    then show ?thesis using g by (auto simp: read_all_def Let_def good_out_def sized_def split: if_splits)
  next
    case None
    show ?thesis
    proof (cases "2 ^ 31 \<le> unat ?n")
      case True
      then have l: "2 ^ 31 \<le> length b" "?n = - 1" using p by (auto simp: lseek_end_def unat_of_nat split: if_splits)
      then have "failed_out out" using g(2) None by (simp add: failed_read_def failed_out_def NVRAM_SIZE_def unat_minus_one_32)
      then show ?thesis using l(1) \<open>files s NVRAM_TMP_PATH = Some b\<close> by (auto simp: NVRAM_SIZE_def)
    next
      case False
      then have f: "rd_fails s NVRAM_TMP_PATH" "unat ?n = length b" "unat ?n < 2 ^ 31"
        using g(1) None lseek_end_unat [of NVRAM_TMP_PATH b] by (auto simp: read_all_def Let_def split: if_splits)
      have n: "?n = of_nat (length b)" using f(2) by (metis word_of_nat_unat_32)
      show ?thesis
      proof (cases "length b \<le> NVRAM_SIZE")
        case True
        then show ?thesis using g(2) None f n by (simp add: failed_read_def sized_def)
      next
        case False
        then have "failed_out out" using g(2) None f by (simp add: failed_read_def failed_out_def)
        then show ?thesis using False \<open>files s NVRAM_TMP_PATH = Some b\<close> by auto
      qed
    qed
  qed
qed

lemma run_adsl_out:
  assumes "run_adsl_status s = Some (out, s')"
  shows "if f_exists ''/proc/avalanche/avsar_modem_stats'' s then failed_out out else out = reply_error\<lparr>r_console := True\<rparr>"
proof (cases "files s ''/proc/avalanche/avsar_modem_stats''")
  case (Some b)
  have "lseek_end ''/proc/avalanche/avsar_modem_stats'' b = - 1" by (simp add: lseek_end_def)
  then have "read_all ''/proc/avalanche/avsar_modem_stats'' b s = Some (- 1, None)" by (simp add: read_all_def unat_minus_one_32)
  then have "out = failed_read (- 1) True s" using assms Some by (auto simp: run_adsl_status_def)
  then show ?thesis using Some by (simp add: failed_read_def failed_out_def NVRAM_SIZE_def f_exists_def unat_minus_one_32)
qed (use assms in \<open>simp add: run_adsl_status_def f_exists_def\<close>)

lemma good_out_error: "good_out reply_error" "good_out (reply_error\<lparr>r_console := c\<rparr>)"
  by (simp_all add: good_out_def sized_def)

lemma sized_reply [simp]:
  "sized \<lparr>r_cmd = c, r_len = l, r_buf = b, r_console = k\<rparr> \<longleftrightarrow>
     (c = SCFG_OK \<or> c = SCFG_ERR) \<and> length b \<le> NVRAM_SIZE \<and> l = of_nat (length b)"
  by (simp add: sized_def)

lemma if_Some_cases:
  "(if b then x else y) = Some r \<Longrightarrow> (x = Some r \<Longrightarrow> P) \<Longrightarrow> (y = Some r \<Longrightarrow> P) \<Longrightarrow> P"
  by (cases b) simp_all

lemma scfg_dispatch_good:
  assumes "scfg_dispatch h p s = Some (out, s')" "m_cmd h \<noteq> SCFG_GETALL" "m_cmd h \<noteq> SCFG_ADSL_STATUS"
  shows "good_out out"
  using assms(1) unfolding scfg_dispatch_def Let_def if_not_P [OF assms(2)] if_not_P [OF assms(3)]
  by (elim if_Some_cases) (erule run_good | clarsimp simp: good_out_def)+

lemma scfg_dispatch_out:
  assumes "scfg_dispatch h p s = Some (out, s')"
  shows "good_out out \<or> m_cmd h = SCFG_GETALL \<and> run_getall s = Some (out, s') \<or>
    m_cmd h = SCFG_ADSL_STATUS \<and> run_adsl_status s = Some (out, s')"
proof -
  have "m_cmd h = SCFG_GETALL \<Longrightarrow> run_getall s = Some (out, s')"
    and "m_cmd h = SCFG_ADSL_STATUS \<Longrightarrow> run_adsl_status s = Some (out, s')"
    using assms by (simp_all add: scfg_dispatch_def)
  then show ?thesis using scfg_dispatch_good [OF assms] by blast
qed

text \<open>The header of a reply is exact: the length in it is the number of bytes that follow.\<close>

lemma unat_of_nat_small: "n < 2 ^ 32 \<Longrightarrow> unat (of_nat n :: 32 word) = n"
  by (simp add: unat_of_nat)

lemma reply_len:
  assumes "sized out"
  shows "unat (of_nat (length (r_buf out)) :: 32 word) = length (r_buf out)"
proof (rule unat_of_nat_small)
  have "length (r_buf out) \<le> 65536" using assms by (simp add: sized_def NVRAM_SIZE_def)
  then show "length (r_buf out) < 2 ^ 32" by simp
qed

lemma reply_len_pos:
  assumes "sized out"
  shows "(0 :: 32 word) < of_nat (length (r_buf out)) \<longleftrightarrow> r_buf out \<noteq> []"
proof -
  have "(0 :: 32 word) < w \<longleftrightarrow> unat w \<noteq> 0" for w :: "32 word"
    by (simp add: word_gt_0 unat_eq_zero)
  then show ?thesis using reply_len [OF assms] by simp
qed

lemma reply_write:
  assumes "sized out"
  shows "socket_write \<lparr>m_magic = SCM_MAGIC, m_cmd = r_cmd out, m_len = of_nat (length (r_buf out))\<rparr> (r_buf out) =
    Some (wr_scfg_header \<lparr>m_magic = SCM_MAGIC, m_cmd = r_cmd out, m_len = of_nat (length (r_buf out))\<rparr> #
      (if r_buf out = [] then [] else [r_buf out]))"
    and "\<not> write_refused \<lparr>m_magic = SCM_MAGIC, m_cmd = r_cmd out, m_len = of_nat (length (r_buf out))\<rparr>"
proof -
  show r: "\<not> write_refused \<lparr>m_magic = SCM_MAGIC, m_cmd = r_cmd out, m_len = of_nat (length (r_buf out))\<rparr>"
    using reply_len [OF assms] assms by (simp add: write_refused_def sized_def NVRAM_SIZE_def)
  show "socket_write \<lparr>m_magic = SCM_MAGIC, m_cmd = r_cmd out, m_len = of_nat (length (r_buf out))\<rparr> (r_buf out) =
    Some (wr_scfg_header \<lparr>m_magic = SCM_MAGIC, m_cmd = r_cmd out, m_len = of_nat (length (r_buf out))\<rparr> #
      (if r_buf out = [] then [] else [r_buf out]))"
    using reply_len [OF assms] reply_len_pos [OF assms] r by (simp add: socket_write_def)
qed

lemma reply_put:
  assumes "sized out"
  shows "socket_put \<lparr>m_magic = SCM_MAGIC, m_cmd = r_cmd out, m_len = r_len out\<rparr> (r_buf out) =
    Some (wr_scfg_header \<lparr>m_magic = SCM_MAGIC, m_cmd = r_cmd out, m_len = of_nat (length (r_buf out))\<rparr> #
      (if r_buf out = [] then [] else [r_buf out]))"
  using reply_write [OF assms] assms by (simp add: socket_put_def sized_def)

lemma sized_range: "sized out \<Longrightarrow> int_range (r_cmd out)"
  by (auto simp: sized_def int_range_def INT_MIN_def INT_MAX_def)

text \<open>A whole client call, seen from above the two sockets.\<close>

lemma scfg_run_request:
  assumes "int_range (m_cmd h)" "m_magic h = SCM_MAGIC" "socket_write h d = Some segs"
    and "scfg_dispatch h (if 0 < m_len h then Some (take (unat (m_len h)) d) else None) s = Some (out, s')" "sized out"
  shows "scfg_run segs s =
      Some (wr_scfg_header \<lparr>m_magic = SCM_MAGIC, m_cmd = r_cmd out, m_len = of_nat (length (r_buf out))\<rparr> #
        (if r_buf out = [] then [] else [r_buf out]), r_console out, s')"
  using socket_read_write [OF assms(1-3)] assms(4) reply_put [OF assms(5)] by (simp add: scfg_run_def)

lemma scfgmgr_connect_eq:
  assumes "scfgd s" "int_range (m_cmd h)" "m_magic h = SCM_MAGIC" "socket_write h d = Some segs"
    and "scfg_dispatch h (if 0 < m_len h then Some (take (unat (m_len h)) d) else None) s = Some (out, s')" "sized out"
  shows "scfgmgr_connect h d s =
      Some (Inr (\<lparr>m_magic = SCM_MAGIC, m_cmd = r_cmd out, m_len = of_nat (length (r_buf out))\<rparr>,
        if r_buf out = [] then None else Some (r_buf out)), s')"
proof -
  let ?h = "\<lparr>m_magic = SCM_MAGIC, m_cmd = r_cmd out, m_len = of_nat (length (r_buf out))\<rparr>"
  have "socket_read (wr_scfg_header ?h # (if r_buf out = [] then [] else [r_buf out])) =
      Some (Inr (?h, if r_buf out = [] then None else Some (r_buf out)))"
    using socket_read_write [OF _ _ reply_write(1) [OF assms(6)]] reply_len [OF assms(6)] reply_len_pos [OF assms(6)]
      sized_range [OF assms(6)] by simp
  moreover have "\<not> write_refused h"
    using assms(4) by (auto simp: socket_write_def write_refused_def word_gt_0 split: if_splits)
  ultimately show ?thesis using scfg_run_request [OF assms(2-6)] assms(1,4) by (simp add: scfgmgr_connect_def)
qed

subsection \<open>Setting a variable through the daemon\<close>

definition client_inv :: "'a host_scheme \<Rightarrow> bool" where
  "client_inv s \<longleftrightarrow> nvram_inv s \<and> scfgd s"

definition client_name :: "cstr \<Rightarrow> bool" where
  "client_name n \<longleftrightarrow> wf_name n \<and> length n \<le> 100"

definition client_value :: "cstr \<Rightarrow> bool" where
  "client_value v \<longleftrightarrow> cstr_ok v \<and> length v \<le> 4300"

lemma strtok_assign_entry:
  "wf_name name \<Longrightarrow> strtok_assign (name @ ''='' @ v) = Some (name, v)"
proof -
  assume w: "wf_name name"
  then have "dropWhile (\<lambda>c. c = CHR ''='') (name @ ''='' @ v) = name @ ''='' @ v"
    by (cases name) (auto simp: wf_name_def)
  moreover have "takeWhile (\<lambda>c. c \<noteq> CHR ''='') (name @ ''='' @ v) = name"
    using w by (simp add: wf_name_def takeWhile_append_stop)
  ultimately show ?thesis by (simp add: strtok_assign_def)
qed

lemma run_set_entry:
  assumes "wf_name name" "cstr_ok v" "length name + length v < 4000 + 600"
    and "nvram_set name v s = Some (e, s')"
  shows "run_set (Some ((name @ ''='' @ v) @ [NUL])) s = Some (reply_ok [], s')"
proof -
  have "c_str ((name @ ''='' @ v) @ [NUL]) = Some (name @ ''='' @ v)"
    using assms(1,2) by (intro c_str_stop) (simp add: wf_name_def)
  then have "payload_str (Some ((name @ ''='' @ v) @ [NUL])) = Some (name @ ''='' @ v)"
    by (simp add: payload_str_def)
  moreover have "into_buf NVRAM_SIZE (name @ ''='' @ v) = Some (name @ ''='' @ v)"
    using assms(3) by (simp add: NVRAM_SIZE_def)
  ultimately show ?thesis
    using strtok_assign_entry [OF assms(1), of v] assms(4) by (simp add: run_set_def)
qed

text \<open>The message of a string payload: its terminator is sent with it.\<close>

lemma str_message:
  assumes "length t + 1 < 2 ^ 31" and h: "h = \<lparr>m_magic = SCM_MAGIC, m_cmd = c, m_len = of_nat (length t + 1)\<rparr>"
  shows "0 < m_len h" "unat (m_len h) = length t + 1" "\<exists>segs. socket_write h (t @ [NUL]) = Some segs"
proof -
  have "unat (of_nat (length t + 1) :: 32 word) = length t + 1"
    using assms(1) by (intro unat_of_nat_small) simp
  then show u: "unat (m_len h) = length t + 1" by (simp only: h scfgmgr_header.simps)
  have "unat (m_len h) \<noteq> 0" using u by simp
  then show "0 < m_len h" by (simp add: word_gt_0 unat_eq_zero)
  then show "\<exists>segs. socket_write h (t @ [NUL]) = Some segs" using u assms(1) by (simp add: socket_write_def write_refused_def)
qed

lemma connect_str:
  assumes "scfgd s" "length t + 1 < 2 ^ 31" "int_range c"
    and d: "scfg_dispatch \<lparr>m_magic = SCM_MAGIC, m_cmd = c, m_len = of_nat (length t + 1)\<rparr> (Some (t @ [NUL])) s = Some (out, s')"
    and "sized out"
  shows "scfgmgr_connect \<lparr>m_magic = SCM_MAGIC, m_cmd = c, m_len = of_nat (length t + 1)\<rparr> (t @ [NUL]) s =
    Some (Inr (\<lparr>m_magic = SCM_MAGIC, m_cmd = r_cmd out, m_len = of_nat (length (r_buf out))\<rparr>,
      if r_buf out = [] then None else Some (r_buf out)), s')"
proof -
  let ?h = "\<lparr>m_magic = SCM_MAGIC, m_cmd = c, m_len = of_nat (length t + 1)\<rparr>"
  note m = str_message [OF assms(2) refl, of c]
  obtain segs where "socket_write ?h (t @ [NUL]) = Some segs" using m(3) by blast
  moreover have "(if 0 < m_len ?h then Some (take (unat (m_len ?h)) (t @ [NUL])) else None) = Some (t @ [NUL])"
    using m(1,2) by simp
  ultimately show ?thesis
    using scfgmgr_connect_eq [of s ?h "t @ [NUL]" segs out s'] assms by (simp only: scfgmgr_header.simps)
qed

lemma scfgmgr_set_eq:
  assumes "scfgd s" "wf_name name" "cstr_ok v" "length name + length v < 4499"
    and "nvram_set name v s = Some (e, s')"
  shows "scfgmgr_set name v s = Some (0, s')"
proof -
  let ?t = "name @ ''='' @ v"
  have d: "scfg_dispatch \<lparr>m_magic = SCM_MAGIC, m_cmd = SCFG_SET, m_len = of_nat (length ?t + 1)\<rparr>
      (Some (?t @ [NUL])) s = Some (reply_ok [], s')"
    using run_set_entry [OF assms(2,3) _ assms(5)] assms(4) by (simp add: scfg_dispatch_def)
  have "into_buf 4500 ?t = Some ?t" using assms(4) by simp
  moreover have "length ?t + 1 < 2 ^ 31" using assms(4) by simp
  ultimately show ?thesis
    using connect_str [OF assms(1) _ _ d]
    by (simp add: scfgmgr_set_def connect_no_data_def int_range_def INT_MIN_def INT_MAX_def)
qed

lemma scfgmgr_set_refines:
  assumes "client_inv s" "client_name name" "client_value v"
  shows "\<exists>s'. scfgmgr_set name v s = Some (0, s') \<and> client_inv s' \<and>
    nvram_view s' = (nvram_view s)(name := v) \<and>
    (\<forall>p. p \<noteq> NVRAM_TMP_PATH \<longrightarrow> files s' p = files s p) \<and> cmds s' = cmds s \<and> sh_fx s' = sh_fx s"
proof -
  obtain s' where s': "nvram_set name v s = Some (NVRAM_SUCCESS, s')" "nvram_inv s'"
    "nvram_view s' = (nvram_view s)(name := v)"
    "\<forall>p. p \<noteq> NVRAM_TMP_PATH \<longrightarrow> files s' p = files s p" "cmds s' = cmds s" "scfgd s' = scfgd s"
    "sh_fx s' = sh_fx s"
    using nvram_set_refines [of s name v] assms
    unfolding client_inv_def client_name_def client_value_def by blast
  have "scfgmgr_set name v s = Some (0, s')"
    using s'(1) assms
    by (intro scfgmgr_set_eq) (auto simp: client_inv_def client_name_def client_value_def)
  then show ?thesis using s' assms by (auto simp: client_inv_def)
qed

interpretation sc: config_store client_inv nvram_view nvram_safe_get
  "\<lambda>n v s. map_option snd (scfgmgr_set n v s)" client_name client_value
proof unfold_locales
  fix s :: "'a host_scheme" and n
  assume "client_inv s" "client_name n"
  then show "\<exists>s'. nvram_safe_get n s = Some (nvram_view s n, s') \<and> client_inv s' \<and> nvram_view s' = nvram_view s"
    using nvram_safe_get_refines [of s n] by (auto simp: client_inv_def client_name_def)
next
  fix s :: "'a host_scheme" and n v
  assume "client_inv s" "client_name n" "client_value v"
  then show "\<exists>s'. map_option snd (scfgmgr_set n v s) = Some s' \<and> client_inv s' \<and>
      nvram_view s' = (nvram_view s)(n := v)"
    using scfgmgr_set_refines [of s n v] by force
qed

subsection \<open>Properties\<close>

text \<open>C2. A client that sets a variable through the daemon gets 0 back; the variable then reads as the
  new value, every other variable as before, and no file but the running configuration and no
  command is touched: the byte-level message, the daemon's parsing and the rewrite of the file
  together implement the update of one variable.\<close>

theorem scfgmgr_set_correct:
  assumes "client_inv s" "client_name name" "client_value v" "client_name other"
  shows "\<exists>s1 s2. scfgmgr_set name v s = Some (0, s1) \<and>
    nvram_safe_get other s1 = Some (if other = name then v else nvram_view s other, s2) \<and>
    client_inv s2 \<and> cmds s1 = cmds s \<and> (\<forall>p. p \<noteq> NVRAM_TMP_PATH \<longrightarrow> files s1 p = files s p)"
proof -
  obtain s1 where 1: "scfgmgr_set name v s = Some (0, s1)" "client_inv s1"
    "nvram_view s1 = (nvram_view s)(name := v)" "cmds s1 = cmds s"
    "\<forall>p. p \<noteq> NVRAM_TMP_PATH \<longrightarrow> files s1 p = files s p"
    using scfgmgr_set_refines [OF assms(1-3)] by blast
  obtain s2 where "nvram_safe_get other s1 = Some (nvram_view s1 other, s2)" "client_inv s2"
    using sc.getE [OF 1(2) assms(4)] by blast
  then show ?thesis using 1 by (intro exI [of _ s1] exI [of _ s2]) simp
qed

text \<open>C38. However the network splits the payload of a message, \<open>socket_read\<close> returns the header and the
  payload that \<open>socket_write\<close> was given, when nothing follows it on the connection.\<close>

theorem socket_read_fragments:
  assumes "int_range (m_cmd h)" "m_magic h = SCM_MAGIC" "0 < m_len h"
    and "socket_write h d = Some segs" "concat frags = concat (tl segs)"
  shows "hd segs = wr_scfg_header h \<and>
    socket_read (hd segs # frags) = Some (Inr (h, Some (take (unat (m_len h)) d)))"
proof -
  have s: "segs = [wr_scfg_header h, take (unat (m_len h)) d]" "unat (m_len h) \<le> length d" "\<not> write_refused h"
    using assms(3,4) by (auto simp: socket_write_def split: if_splits)
  then have c: "concat frags = take (unat (m_len h)) d" using assms(5) by simp
  then have "socket_read (wr_scfg_header h # frags) = Some (Inr (h, Some (concat frags)))"
    using s(2,3) by (intro socket_read_msg [OF assms(1,2) _ assms(3)]) simp_all
  then show ?thesis using s c by simp
qed

text \<open>A sender that splits its payload and sends more makes \<open>socket_read\<close> write past the heap block:
  every \<open>read\<close> asks for the whole payload length again, not for what is still missing. A sender
  that closes the connection early makes it loop forever. Both are undefined outcomes.\<close>

theorem socket_read_overflow:
  assumes "int_range (m_cmd h)" "m_magic h = SCM_MAGIC" "unat (m_len h) < 2 ^ 31"
    and "p1 \<noteq> []" "length p1 < unat (m_len h)" "unat (m_len h) < length p1 + length p2"
  shows "socket_read [wr_scfg_header h, p1, p2] = None \<and> socket_read [wr_scfg_header h, p1] = None"
proof -
  have "0 < m_len h" using assms(5) by (simp add: word_gt_0 unat_eq_zero flip: unat_0_iff)
  then have r: "socket_read (wr_scfg_header h # segs) = do {
      (p, _) \<leftarrow> read_payload (unat (m_len h)) [] segs; Some (Inr (h, Some p)) }" for segs
    using assms(1-3) rd_wr_scfg_header [of h "[]"] by (simp add: socket_read_def malloc_fails_def)
  have pos: "0 < unat (m_len h)" using assms(5) by linarith
  have "socket_read [wr_scfg_header h, p1] = None"
    using assms(5) pos by (simp add: r)
  moreover have "socket_read [wr_scfg_header h, p1, p2] = None"
    using assms(4-6) pos by (auto simp: r min_def)
  ultimately show ?thesis by (rule conjI [rotated])
qed

lemma socket_put_len:
  assumes "socket_put \<lparr>m_magic = SCM_MAGIC, m_cmd = c, m_len = l\<rparr> [] = Some reply" "l \<noteq> 0" "unat l < 2 ^ 31"
  shows False
proof -
  have "unat l \<noteq> 0" using assms(2) by (simp add: unat_eq_zero)
  then show ?thesis
    using assms by (auto simp: socket_put_def socket_write_def write_refused_def word_gt_0 split: if_splits)
qed

lemma failed_reply:
  assumes "failed_out out"
    and "socket_put \<lparr>m_magic = SCM_MAGIC, m_cmd = r_cmd out, m_len = r_len out\<rparr> (r_buf out) = Some reply"
  shows "reply = [wr_scfg_header \<lparr>m_magic = SCM_MAGIC, m_cmd = SCFG_ERR, m_len = - 1\<rparr>]"
proof -
  have "r_len out = - 1"
  proof (rule ccontr)
    assume "r_len out \<noteq> - 1"
    then have "unat (r_len out) < 2 ^ 31" "r_len out \<noteq> 0" "r_buf out = []"
      using assms(1) by (auto simp: failed_out_def)
    then show False using assms(2) socket_put_len by metis
  qed
  then show ?thesis
    using assms by (simp add: failed_out_def socket_put_def write_refused_def unat_minus_one_32)
qed

lemma sized_reply_bytes:
  assumes "sized out"
    and "socket_put \<lparr>m_magic = SCM_MAGIC, m_cmd = r_cmd out, m_len = r_len out\<rparr> (r_buf out) = Some reply"
  shows "concat reply =
    wr_scfg_header \<lparr>m_magic = SCM_MAGIC, m_cmd = r_cmd out, m_len = of_nat (length (r_buf out))\<rparr> @ r_buf out"
  using reply_put [OF assms(1)] assms(2) by auto

text \<open>What the daemon answered, and to which request.\<close>

lemma scfg_run_out:
  assumes "scfg_run segs s = Some (reply, console, s')"
  shows "\<exists>out. socket_put \<lparr>m_magic = SCM_MAGIC, m_cmd = r_cmd out, m_len = r_len out\<rparr> (r_buf out) = Some reply \<and>
    (good_out out \<or> (\<exists>h p. socket_read segs = Some (Inr (h, p)) \<and>
      (m_cmd h = SCFG_GETALL \<and> run_getall s = Some (out, s') \<or>
       m_cmd h = SCFG_ADSL_STATUS \<and> run_adsl_status s = Some (out, s'))))"
proof -
  obtain r where sr: "socket_read segs = Some r"
    using assms by (cases "socket_read segs") (simp_all add: scfg_run_def)
  let ?D = "case r of Inl header \<Rightarrow> Some (reply_error, s) | Inr (header, payload) \<Rightarrow> scfg_dispatch header payload s"
  obtain out s'' where r: "?D = Some (out, s'')"
    using assms sr by (cases ?D) (auto simp: scfg_run_def)
  have w: "socket_put \<lparr>m_magic = SCM_MAGIC, m_cmd = r_cmd out, m_len = r_len out\<rparr> (r_buf out) = Some reply" "s'' = s'"
    using assms sr r by (auto simp: scfg_run_def bind_Some_iff)
  show ?thesis
  proof (cases r)
    case (Inl h)
    then have "out = reply_error" using r by simp
    then show ?thesis using w(1) good_out_error(1) by blast
  next
    case (Inr hp)
    obtain h p where hp: "hp = (h, p)" by (cases hp)
    then have "scfg_dispatch h p s = Some (out, s')" using r Inr w(2) by simp
    note scfg_dispatch_out [OF this]
    then show ?thesis using w(1) sr Inr hp by blast
  qed
qed

text \<open>C39. Whatever a client sends, an answer of the daemon begins with one header: the magic word, the code \<open>SCFG_OK\<close> or
  \<open>SCFG_ERR\<close>, a length. For every request but \<open>SCFG_GETALL\<close> and \<open>SCFG_ADSL_STATUS\<close> the length is exactly the number of payload
  bytes that follow, at most 65536, and an error has none. \<open>SCFG_ADSL_STATUS\<close> never succeeds: seeking to the end of
  its \<open>/proc\<close> file is refused and the error carries the length 0xFFFFFFFF with no payload at all, unless the file does not
  exist. \<open>SCFG_GETALL\<close> has two such errors: when reading the configuration fails, the answer
  has its length and that many bytes of the daemon's uninitialised stack buffer; and with a configuration file of 2 GiB the length
  is 0xFFFFFFFF again.\<close>

theorem scfg_run_reply:
  assumes "scfg_run segs s = Some (reply, console, s')"
  shows "\<exists>code len b. concat reply = wr_scfg_header \<lparr>m_magic = SCM_MAGIC, m_cmd = code, m_len = len\<rparr> @ b \<and>
    (len = of_nat (length b) \<and> length b \<le> NVRAM_SIZE \<and> (code = SCFG_OK \<or> code = SCFG_ERR \<and> b = []) \<or>
     code = SCFG_ERR \<and> (\<exists>h p. socket_read segs = Some (Inr (h, p)) \<and>
       (m_cmd h = SCFG_GETALL \<and> rd_fails s NVRAM_TMP_PATH \<and> len = of_nat (length b) \<and> length b \<le> NVRAM_SIZE \<and>
          b = map (stack_bytes s) [0..<length b] \<or>
        m_cmd h = SCFG_GETALL \<and> len = - 1 \<and> b = [] \<and>
          (\<exists>f. files s NVRAM_TMP_PATH = Some f \<and> NVRAM_SIZE < length f) \<or>
        m_cmd h = SCFG_ADSL_STATUS \<and> len = - 1 \<and> b = [] \<and> f_exists ''/proc/avalanche/avsar_modem_stats'' s)))"
proof -
  obtain out where put: "socket_put \<lparr>m_magic = SCM_MAGIC, m_cmd = r_cmd out, m_len = r_len out\<rparr> (r_buf out) = Some reply"
    and out: "good_out out \<or> (\<exists>h p. socket_read segs = Some (Inr (h, p)) \<and>
      (m_cmd h = SCFG_GETALL \<and> run_getall s = Some (out, s') \<or>
       m_cmd h = SCFG_ADSL_STATUS \<and> run_adsl_status s = Some (out, s')))"
    using scfg_run_out [OF assms] by blast
  note failed = failed_reply [OF _ put] and bytes = sized_reply_bytes [OF _ put]
  show ?thesis
    using out
  proof (elim disjE exE conjE)
    assume "good_out out"
    then show ?thesis using bytes
      by (intro exI [of _ "r_cmd out"] exI [of _ "of_nat (length (r_buf out))"] exI [of _ "r_buf out"])
        (auto simp: good_out_def sized_def)
  next
    fix h p assume hp: "socket_read segs = Some (Inr (h, p))" "m_cmd h = SCFG_GETALL" "run_getall s = Some (out, s')"
    show ?thesis
      using run_getall_out [OF hp(3)]
    proof (elim disjE conjE)
      assume "good_out out"
      then show ?thesis using bytes
        by (intro exI [of _ "r_cmd out"] exI [of _ "of_nat (length (r_buf out))"] exI [of _ "r_buf out"])
          (auto simp: good_out_def sized_def)
    next
      assume "sized out" "r_cmd out = SCFG_ERR" "rd_fails s NVRAM_TMP_PATH"
        "r_buf out = map (stack_bytes s) [0..<length (r_buf out)]"
      then show ?thesis using bytes hp(1,2)
        by (intro exI [of _ "r_cmd out"] exI [of _ "of_nat (length (r_buf out))"] exI [of _ "r_buf out"])
          (simp add: sized_def)
    next
      assume "failed_out out" "\<exists>b. files s NVRAM_TMP_PATH = Some b \<and> NVRAM_SIZE < length b"
      then show ?thesis using failed hp(1,2)
        by (intro exI [of _ SCFG_ERR] exI [of _ "- 1"] exI [of _ "[]"]) simp
    qed
  next
    fix h p assume hp: "socket_read segs = Some (Inr (h, p))" "m_cmd h = SCFG_ADSL_STATUS" "run_adsl_status s = Some (out, s')"
    show ?thesis
    proof (cases "f_exists ''/proc/avalanche/avsar_modem_stats'' s")
      case True
      then show ?thesis using run_adsl_out [OF hp(3)] failed hp(1,2)
        by (intro exI [of _ SCFG_ERR] exI [of _ "- 1"] exI [of _ "[]"]) simp
    next
      case False
      then have "good_out out" using run_adsl_out [OF hp(3)] good_out_error(2) by simp
      then show ?thesis using bytes
        by (intro exI [of _ "r_cmd out"] exI [of _ "of_nat (length (r_buf out))"] exI [of _ "r_buf out"])
          (auto simp: good_out_def sized_def)
    qed
  qed
qed

text \<open>The commit request always reports success: the daemon tests for a negative result, and every error
  code of \<open>nvram_commit\<close> is positive. So a client that commits on a device without the flash
  partition, or without a running configuration, is told that all is well.\<close>

theorem commit_request_always_ok:
  assumes "scfgd s"
  shows "\<exists>s'. scfgmgr_cmd SCFG_COMMIT s = Some (0, None, s') \<and> s' = snd (nvram_commit (stack_word s) s)"
proof -
  let ?h = "\<lparr>m_magic = SCM_MAGIC, m_cmd = SCFG_COMMIT, m_len = 0\<rparr>"
  have "nvram_errno e < 0 \<longleftrightarrow> False" for e
    by (cases e) (simp_all add: nvram_errno_def)
  then have "scfg_dispatch ?h None s = Some (reply_ok [], snd (nvram_commit (stack_word s) s))"
    by (simp add: scfg_dispatch_def run_commit_def case_prod_beta)
  moreover have "socket_write ?h [] = Some [wr_scfg_header ?h]"
    by (simp add: socket_write_def)
  ultimately show ?thesis
    using scfgmgr_connect_eq [of s ?h "[]" "[wr_scfg_header ?h]" "reply_ok []" "snd (nvram_commit (stack_word s) s)"] assms
    by (simp add: scfgmgr_cmd_def int_range_def INT_MIN_def INT_MAX_def)
qed

text \<open>Any peer that can reach the port runs shell commands: a console request is executed as it is, with
  no authentication step before it, and its output is the answer.\<close>

theorem console_runs_any_command:
  assumes "scfgd s" "cstr_ok c" "length c + 1 < 2 ^ 31" "c \<notin> {''exit'', ''quit'', ''bye''}" "take 3 c \<noteq> ''cd ''"
    and "length (sh_out s c) < NVRAM_SIZE"
  shows "scfgmgr_console c s = Some (0, Some (sh_out s c @ [NUL]), c_system c s)"
proof -
  have "payload_str (Some (c @ [NUL])) = Some c"
    using assms(2) c_str_stop [of c "[]"] by (simp add: payload_str_def)
  then have d: "scfg_dispatch \<lparr>m_magic = SCM_MAGIC, m_cmd = SCFG_CONSOLE, m_len = of_nat (length c + 1)\<rparr>
      (Some (c @ [NUL])) s = Some ((reply_ok (sh_out s c @ [NUL]))\<lparr>r_console := True\<rparr>, c_system c s)"
    using assms(4-6) by (simp add: scfg_dispatch_def run_console_def buf_str_def)
  show ?thesis
    using connect_str [OF assms(1,3) _ d] assms(6)
    by (simp add: scfgmgr_console_def call_status_lost_def int_range_def INT_MIN_def INT_MAX_def)
qed

text \<open>A missing variable is not reported: the daemon answers \<open>SCFG_ERR\<close>, but \<open>scfgmgr_get\<close> drops the code and
  returns 0 with the caller's pointer untouched.\<close>

theorem scfgmgr_get_hides_error:
  assumes "scfgd s" "cstr_ok n" "length n + 1 < 2 ^ 31" "nvram_get n s = Some (None, s')"
  shows "scfgmgr_get n s = Some (0, None, s')"
proof -
  have "payload_str (Some (n @ [NUL])) = Some n"
    using assms(2) c_str_stop [of n "[]"] by (simp add: payload_str_def)
  then have d: "scfg_dispatch \<lparr>m_magic = SCM_MAGIC, m_cmd = SCFG_GET, m_len = of_nat (length n + 1)\<rparr>
      (Some (n @ [NUL])) s = Some (reply_error, s')"
    using assms(4) by (simp add: scfg_dispatch_def run_get_def)
  show ?thesis
    using connect_str [OF assms(1,3) _ d]
    by (simp add: scfgmgr_get_def call_status_lost_def int_range_def INT_MIN_def INT_MAX_def)
qed

subsection \<open>Concrete requests\<close>

lemma ex_client_inv [simp]: "client_inv ex_nvram"
proof -
  have "scfgd ex_nvram" by (simp add: ex_nvram_def)
  then show ?thesis by (simp add: client_inv_def)
qed

lemma scfgmgr_set_correct_witness:
  "\<exists>s1 s2. scfgmgr_set ''stp'' ''1'' ex_nvram = Some (0, s1) \<and> nvram_safe_get ''stp'' s1 = Some (''1'', s2)"
  using scfgmgr_set_correct [of ex_nvram "''stp''" "''1''" "''stp''"]
  by (auto simp: client_name_def client_value_def wf_name_def)

definition ex_hdr :: scfgmgr_header where
  "ex_hdr = \<lparr>m_magic = SCM_MAGIC, m_cmd = SCFG_GET, m_len = 4\<rparr>"

lemma ex_hdr_simps [simp]: "int_range (m_cmd ex_hdr)" "m_magic ex_hdr = SCM_MAGIC" "m_len ex_hdr = 4"
  by (simp_all add: ex_hdr_def int_range_def INT_MIN_def INT_MAX_def)

lemma socket_read_fragments_witness:
  "socket_read [wr_scfg_header ex_hdr, ''s'', ''tp'', [NUL]] = Some (Inr (ex_hdr, Some (''stp'' @ [NUL])))"
  using socket_read_fragments [of ex_hdr "''stp'' @ [NUL]"
      "[wr_scfg_header ex_hdr, ''stp'' @ [NUL]]" "[''s'', ''tp'', [NUL]]"]
  by (simp add: socket_write_def write_refused_def)

lemma socket_read_overflow_witness:
  "socket_read [wr_scfg_header ex_hdr, ''s'', ''tpppp''] = None"
  using socket_read_overflow [of ex_hdr "''s''" "''tpppp''"] by simp

lemma ex_unknown_request:
  "scfg_run [wr_scfg_header (ex_hdr\<lparr>m_cmd := 99, m_len := 0\<rparr>)] ex_nvram =
     Some ([wr_scfg_header \<lparr>m_magic = SCM_MAGIC, m_cmd = SCFG_ERR, m_len = 0\<rparr>], False, ex_nvram)"
proof -
  have "int_range 99" by (simp add: int_range_def INT_MIN_def INT_MAX_def)
  then show ?thesis
    using scfg_run_request [of "ex_hdr\<lparr>m_cmd := 99, m_len := 0\<rparr>" "[]"
        "[wr_scfg_header (ex_hdr\<lparr>m_cmd := 99, m_len := 0\<rparr>)]" ex_nvram reply_error ex_nvram]
    by (simp add: socket_write_def scfg_dispatch_def)
qed

lemma scfg_run_reply_witness:
  "\<exists>code b. (code = SCFG_OK \<or> code = SCFG_ERR \<and> b = []) \<and>
    concat (fst (the (scfg_run [wr_scfg_header (ex_hdr\<lparr>m_cmd := 99, m_len := 0\<rparr>)] ex_nvram))) =
      wr_scfg_header \<lparr>m_magic = SCM_MAGIC, m_cmd = code, m_len = of_nat (length b)\<rparr> @ b"
proof -
  have r: "socket_read [wr_scfg_header (ex_hdr\<lparr>m_cmd := 99, m_len := 0\<rparr>)] = Some (Inr (ex_hdr\<lparr>m_cmd := 99, m_len := 0\<rparr>, None))"
    by (rule socket_read_empty) (simp_all add: int_range_def INT_MIN_def INT_MAX_def)
  show ?thesis using scfg_run_reply [OF ex_unknown_request] unfolding ex_unknown_request r by auto
qed

lemma commit_request_always_ok_witness:
  "\<exists>s'. scfgmgr_cmd SCFG_COMMIT ex_nvram = Some (0, None, s') \<and> fst (nvram_commit 0 ex_nvram) = NVRAM_FLASH_ERR"
proof -
  have "scfgd ex_nvram" "fst (nvram_commit 0 ex_nvram) = NVRAM_FLASH_ERR"
    by (simp_all add: ex_nvram_def nvram_commit_def)
  then show ?thesis using commit_request_always_ok [of ex_nvram] by auto
qed

lemma console_runs_any_command_witness:
  "scfgmgr_console ''reboot'' ex_nvram = Some (0, Some [NUL], c_system ''reboot'' ex_nvram)"
  using console_runs_any_command [of ex_nvram "''reboot''"]
  by (simp add: ex_nvram_def ex_host_def NVRAM_SIZE_def)

lemma scfgmgr_get_hides_error_witness:
  "scfgmgr_get ''none'' ex_nvram = Some (0, None, ex_nvram)"
proof -
  have "scfgd ex_nvram" by (simp add: ex_nvram_def)
  moreover have "nvram_get ''none'' ex_nvram = Some (None, ex_nvram)"
    by (simp add: nvram_get_def nvram_get_fun_def readFileBin_def ex_nvram_def enc_def scan_nul_length)
  ultimately show ?thesis by (intro scfgmgr_get_hides_error) simp_all
qed

end
