(* ===== verification/Apl_Flags.thy ===== *)
theory Apl_Flags
  imports Scfg
begin

text \<open>
  The requests to re-apply a part of the configuration (\<open>apl_set_flag\<close>, \<open>apl_close\<close> and the readers
  of the request file in \<open>src/src/apps/apps_sc/libs/libapcfg/apply.c\<close>). A request is a line with
  the decimal identifier in \<open>/tmp/apl_flag\<close>. The theory ends with the contract
  between the settings library and its store: variables set through the daemon, read from
  the running file, and requests appended to the file.

  The lines the code writes to its debug log are not part of the model; the table of names they
  index is.
\<close>

subsection \<open>\<open>SYSTEM\<close>\<close>

text \<open>\<open>SYSTEM\<close> formats at most 1023 characters of its command.\<close>

definition SYSTEM :: "cstr \<Rightarrow> 'a host_scheme \<Rightarrow> 'a host_scheme" where
  "SYSTEM cmd s = c_system (take 1023 cmd) s"

text \<open>The shell command \<open>echo 1 > path\<close>, by \<open>system\<close> or \<open>SYSTEM\<close>, with what the shell does.\<close>

definition sh_echo_1 :: "string \<Rightarrow> 'a host_scheme \<Rightarrow> 'a host_scheme" where
  "sh_echo_1 path s = f_write path (''1'' @ [CHR 0x0A]) (c_system (''echo 1 > '' @ path) s)"

subsection \<open>The items\<close>

definition APL_ROOT :: nat where "APL_ROOT = 0"
definition APL_REBOOT :: nat where "APL_REBOOT = 1"
definition APL_SYSNAME :: nat where "APL_SYSNAME = 2"
definition APL_LOGIN :: nat where "APL_LOGIN = 3"
definition APL_TELNET :: nat where "APL_TELNET = 4"
definition APL_SSH :: nat where "APL_SSH = 5"
definition APL_HTTPD :: nat where "APL_HTTPD = 6"
definition APL_VLAN :: nat where "APL_VLAN = 7"
definition APL_STP :: nat where "APL_STP = 8"
definition APL_LLTD :: nat where "APL_LLTD = 9"
definition APL_IPv4 :: nat where "APL_IPv4 = 10"
definition APL_IPv6 :: nat where "APL_IPv6 = 11"
definition APL_ETHSUP :: nat where "APL_ETHSUP = 12"
definition APL_BALANCE :: nat where "APL_BALANCE = 13"
definition APL_WLAN0 :: nat where "APL_WLAN0 = 14"
definition APL_WLAN0_VAP0 :: nat where "APL_WLAN0_VAP0 = 15"
definition APL_WLAN0_VAP1 :: nat where "APL_WLAN0_VAP1 = 16"
definition APL_WLAN0_VAP2 :: nat where "APL_WLAN0_VAP2 = 17"
definition APL_WLAN0_VAP3 :: nat where "APL_WLAN0_VAP3 = 18"
definition APL_WLAN1 :: nat where "APL_WLAN1 = 19"
definition APL_WLAN1_VAP0 :: nat where "APL_WLAN1_VAP0 = 20"
definition APL_WLAN1_VAP1 :: nat where "APL_WLAN1_VAP1 = 21"
definition APL_WLAN1_VAP2 :: nat where "APL_WLAN1_VAP2 = 22"
definition APL_WLAN1_VAP3 :: nat where "APL_WLAN1_VAP3 = 23"
definition APL_NTP :: nat where "APL_NTP = 24"
definition APL_SNMP :: nat where "APL_SNMP = 25"
definition APL_LOG :: nat where "APL_LOG = 26"
definition APL_FTP :: nat where "APL_FTP = 27"
definition APL_ETH_DATARATE :: nat where "APL_ETH_DATARATE = 28"
definition APL_FORCE100M :: nat where "APL_FORCE100M = 29"
definition APL_HTTPREDIRECT :: nat where "APL_HTTPREDIRECT = 30"
definition APL_ROGUEAP :: nat where "APL_ROGUEAP = 31"
definition APL_BONJOUR :: nat where "APL_BONJOUR = 32"
definition APL_AUTOREBOOT :: nat where "APL_AUTOREBOOT = 33"

lemmas apl_ids = APL_ROOT_def APL_REBOOT_def APL_SYSNAME_def APL_LOGIN_def APL_TELNET_def APL_SSH_def
  APL_HTTPD_def APL_VLAN_def APL_STP_def APL_LLTD_def APL_IPv4_def APL_IPv6_def APL_ETHSUP_def
  APL_BALANCE_def APL_WLAN0_def APL_WLAN0_VAP0_def APL_WLAN0_VAP1_def APL_WLAN0_VAP2_def
  APL_WLAN0_VAP3_def APL_WLAN1_def APL_WLAN1_VAP0_def APL_WLAN1_VAP1_def APL_WLAN1_VAP2_def
  APL_WLAN1_VAP3_def APL_NTP_def APL_SNMP_def APL_LOG_def APL_FTP_def APL_ETH_DATARATE_def
  APL_FORCE100M_def APL_HTTPREDIRECT_def APL_ROGUEAP_def APL_BONJOUR_def APL_AUTOREBOOT_def

definition idString :: "cstr list" where
  "idString = [''APL_ROOT'', ''APL_REBOOT'', ''APL_SYSNAME'', ''APL_LOGIN'', ''APL_TELNET'', ''APL_SSH'',
     ''APL_HTTPD'', ''APL_VLAN'', ''APL_STP'', ''APL_LLTD'', ''APL_IPv4'', ''APL_IPv6'', ''APL_ETHSUP'',
     ''APL_BALANCE'', ''APL_WLAN0'', ''APL_WLAN0_VAP0'', ''APL_WLAN0_VAP1'', ''APL_WLAN0_VAP2'',
     ''APL_WLAN0_VAP3'', ''APL_WLAN1'', ''APL_WLAN1_VAP0'', ''APL_WLAN1_VAP1'', ''APL_WLAN1_VAP2'',
     ''APL_WLAN1_VAP3'', ''APL_NTP'', ''APL_SNMP'', ''APL_LOG'', ''APL_FTP'', ''APL_ETH_DATARATE'',
     ''APL_FORCE100M'', ''APL_HTTPREDIRECT'', ''APL_ROGUEAP'', ''APL_BONJOUR'']"

text \<open>\<open>idString[id]\<close>, an argument of the debug log; past the table the read is out of bounds.\<close>

definition id_string :: "nat \<Rightarrow> cstr option" where
  "id_string i = (if i < length idString then Some (idString ! i) else None)"

definition APL_CLOSED :: string where "APL_CLOSED = ''/tmp/apl_closed''"
definition APL_FLAG :: string where "APL_FLAG = ''/tmp/apl_flag''"
definition APL_RUNNING :: string where "APL_RUNNING = ''/tmp/apl_running''"
definition APL_PARSING :: string where "APL_PARSING = ''/tmp/apl_parsing''"

lemmas apl_paths = APL_CLOSED_def APL_FLAG_def APL_RUNNING_def APL_PARSING_def

lemma apl_paths_distinct [simp]:
  "APL_FLAG \<noteq> APL_CLOSED" "APL_CLOSED \<noteq> APL_FLAG" "APL_FLAG \<noteq> APL_RUNNING" "APL_RUNNING \<noteq> APL_FLAG"
  "APL_FLAG \<noteq> APL_PARSING" "APL_PARSING \<noteq> APL_FLAG" "APL_PARSING \<noteq> APL_RUNNING"
  "APL_RUNNING \<noteq> APL_PARSING" "APL_PARSING \<noteq> APL_CLOSED" "APL_CLOSED \<noteq> APL_PARSING"
  "APL_RUNNING \<noteq> APL_CLOSED" "APL_CLOSED \<noteq> APL_RUNNING"
  "APL_FLAG \<noteq> NVRAM_TMP_PATH" "APL_FLAG \<noteq> NVRAM_DEFAULT" "APL_PARSING \<noteq> NVRAM_TMP_PATH"
  "APL_PARSING \<noteq> NVRAM_DEFAULT" "APL_CLOSED \<noteq> NVRAM_TMP_PATH" "APL_CLOSED \<noteq> NVRAM_DEFAULT"
  "APL_RUNNING \<noteq> NVRAM_TMP_PATH" "APL_RUNNING \<noteq> NVRAM_DEFAULT"
  "NVRAM_TMP_PATH \<noteq> APL_FLAG" "NVRAM_DEFAULT \<noteq> APL_FLAG" "NVRAM_TMP_PATH \<noteq> APL_PARSING"
  "NVRAM_DEFAULT \<noteq> APL_PARSING" "NVRAM_TMP_PATH \<noteq> APL_CLOSED" "NVRAM_DEFAULT \<noteq> APL_CLOSED"
  "NVRAM_TMP_PATH \<noteq> APL_RUNNING" "NVRAM_DEFAULT \<noteq> APL_RUNNING"
  by (simp_all add: apl_paths nvram_paths)

subsection \<open>Raising a request\<close>

text \<open>While the request file is being parsed the code waits for the other process; alone it would
  wait forever.\<close>

definition apl_set_flag :: "nat \<Rightarrow> 'a host_scheme \<Rightarrow> 'a host_scheme option" where
  "apl_set_flag i s =
     (if f_exists APL_CLOSED s then Some s
      else if f_exists APL_PARSING s then None
      else do {
        _ \<leftarrow> id_string i;
        Some (f_append APL_FLAG (fmt_d (int i) @ [CHR 0x0A]) s)
      })"

definition apl_close :: "bool \<Rightarrow> 'a host_scheme \<Rightarrow> 'a host_scheme" where
  "apl_close close s = (if close then sh_echo_1 APL_CLOSED s else f_unlink APL_CLOSED s)"

subsection \<open>Reading the requests\<close>

text \<open>\<open>fgets (buffer, n + 1, fp)\<close>: at most \<open>n\<close> characters, up to and including a newline.\<close>

fun c_fgets :: "nat \<Rightarrow> bytes \<Rightarrow> bytes \<times> bytes" where
  "c_fgets 0 b = ([], b)"
| "c_fgets (Suc n) [] = ([], [])"
| "c_fgets (Suc n) (c # b) =
     (if c = CHR 0x0A then ([c], b) else let (l, r) = c_fgets n b in (c # l, r))"

lemma c_fgets_append: "c_fgets n b = (l, r) \<Longrightarrow> b = l @ r"
  by (induction n b arbitrary: l r rule: c_fgets.induct) (auto split: if_splits prod.splits)

lemma c_fgets_progress: "c_fgets (Suc n) (c # b) = (l, r) \<Longrightarrow> length r < Suc (length b)"
  by (auto split: if_splits prod.splits dest: c_fgets_append)

text \<open>
  The loop \<open>while (!feof (fp)) { fgets (buffer, 8, fp); id = atoi (buffer); ... }\<close>: the identifiers in
  the order they are read. The read that meets the end of the file leaves the cleared buffer, whose
  \<open>atoi\<close> is 0.
\<close>

function flag_ids :: "bytes \<Rightarrow> int list" where
  "flag_ids [] = [0]"
| "flag_ids (c # b) =
     (let (l, r) = c_fgets 7 (c # b); i = atoi (takeWhile (\<lambda>c. c \<noteq> NUL) l) in
      if r = [] \<and> length l < 7 \<and> last l \<noteq> CHR 0x0A then [i] else i # flag_ids r)"
  by pat_completeness auto
termination
  by (relation "measure length") (auto simp: numeral_eq_Suc split: if_splits prod.splits dest!: c_fgets_append)

definition read_flags :: "'a host_scheme \<Rightarrow> int list" where
  "read_flags s = (case files s APL_FLAG of None \<Rightarrow> [] | Some b \<Rightarrow> flag_ids b)"

definition apcfgReboot :: "'a host_scheme \<Rightarrow> bool" where
  "apcfgReboot s \<longleftrightarrow> int APL_REBOOT \<in> set (read_flags s)"

definition apcfgisIphander :: "'a host_scheme \<Rightarrow> bool" where
  "apcfgisIphander s \<longleftrightarrow> int APL_IPv4 \<in> set (read_flags s) \<or> int APL_IPv6 \<in> set (read_flags s)"

definition apcfgHaveChanged :: "'a host_scheme \<Rightarrow> int" where
  "apcfgHaveChanged s = (if f_exists APL_FLAG s then 15 else 0)"

subsection \<open>The request file as a list of identifiers\<close>

definition flag_line :: "nat \<Rightarrow> bytes" where
  "flag_line i = fmt_d (int i) @ [CHR 0x0A]"

definition flag_file :: "nat list \<Rightarrow> bytes" where
  "flag_file ids = concat (map flag_line ids)"

lemma flag_file_simps [simp]: "flag_file [] = []" "flag_file (i # ids) = flag_line i @ flag_file ids"
  by (simp_all add: flag_file_def)

lemma flag_file_snoc: "flag_file (ids @ [i]) = flag_file ids @ flag_line i"
  by (simp add: flag_file_def)

lemma c_fgets_line:
  "CHR 0x0A \<notin> set l \<Longrightarrow> length l < n \<Longrightarrow> c_fgets n (l @ CHR 0x0A # b) = (l @ [CHR 0x0A], b)"
proof (induction l arbitrary: n)
  case Nil
  then show ?case by (cases n) auto
next
  case (Cons c l)
  then show ?case by (cases n) auto
qed

lemma fmt_d_no_newline [simp]: "CHR 0x0A \<notin> set (fmt_d v)"
  using fmt_d_set [of "CHR 0x0A" v] by (auto simp: c_isdigit_def)

lemma flag_ids_line:
  assumes "i < 100"
  shows "flag_ids (flag_line i @ b) = int i # flag_ids b"
proof -
  obtain c l where cl: "fmt_d (int i) = c # l" by (cases "fmt_d (int i)") auto
  have "length (fmt_d (int i)) \<le> 2" using assms by (intro length_fmt_d_nonneg) auto
  then have f: "c_fgets 7 (c # l @ CHR 0x0A # b) = (c # l @ [CHR 0x0A], b)"
    using c_fgets_line [OF fmt_d_no_newline, of "int i" 7 b] cl by simp
  have nul: "NUL \<notin> set (fmt_d (int i))" using cstr_ok_fmt_d [of "int i"] by (simp add: cstr_ok_def)
  have "takeWhile (\<lambda>c. c \<noteq> NUL) (c # l @ [CHR 0x0A]) = fmt_d (int i) @ [CHR 0x0A]"
    using nul takeWhile_not_in_id [of NUL "fmt_d (int i) @ [CHR 0x0A]"] by (simp add: cl)
  moreover have "atoi (fmt_d (int i) @ [CHR 0x0A]) = int i"
    using assms by (intro atoi_fmt_d_stop) (auto simp: int_range_def INT_MIN_def INT_MAX_def c_isdigit_def)
  ultimately show ?thesis using f by (simp add: flag_line_def cl)
qed

lemma flag_ids_file: "(\<forall>i \<in> set ids. i < 100) \<Longrightarrow> flag_ids (flag_file ids) = map int ids @ [0]"
  by (induction ids) (simp_all add: flag_ids_line)

subsection \<open>The contract of the settings\<close>

definition cfg_flag :: "nat \<Rightarrow> bool" where
  "cfg_flag i \<longleftrightarrow> 0 < i \<and> i < 33"

definition flags_wf :: "'a host_scheme \<Rightarrow> nat list \<Rightarrow> bool" where
  "flags_wf s ids \<longleftrightarrow> (\<forall>i \<in> set ids. 0 < i \<and> i < 34) \<and>
     (files s APL_FLAG = Some (flag_file ids) \<or> files s APL_FLAG = None \<and> ids = [])"

definition cfg_inv :: "'a host_scheme \<Rightarrow> bool" where
  "cfg_inv s \<longleftrightarrow> client_inv s \<and> \<not> f_exists APL_CLOSED s \<and> \<not> f_exists APL_PARSING s \<and> (\<exists>ids. flags_wf s ids)"

text \<open>The items a following apply will find.\<close>

definition pending :: "'a host_scheme \<Rightarrow> nat list" where
  "pending s = map nat (filter (\<lambda>i. 0 < i) (read_flags s))"

lemma pending_wf: "flags_wf s ids \<Longrightarrow> pending s = ids"
proof -
  assume wf: "flags_wf s ids"
  then have "flag_ids (flag_file ids) = map int ids @ [0]"
    by (intro flag_ids_file) (force simp: flags_wf_def)
  moreover have "filter (\<lambda>i. 0 < i) (map int ids) = map int ids"
    using wf by (auto simp: flags_wf_def intro: filter_True)
  ultimately show ?thesis
    using wf by (auto simp: flags_wf_def pending_def read_flags_def comp_def)
qed

lemma pending_cong: "files s' APL_FLAG = files s APL_FLAG \<Longrightarrow> pending s' = pending s"
  by (simp add: pending_def read_flags_def)

lemma nvram_view_cong:
  "files s' NVRAM_TMP_PATH = files s NVRAM_TMP_PATH \<Longrightarrow> files s' NVRAM_DEFAULT = files s NVRAM_DEFAULT \<Longrightarrow>
   nvram_view s' = nvram_view s"
  by (simp add: nvram_view_def fun_eq_iff cong: option.case_cong)

lemma client_inv_cong:
  "files s' NVRAM_TMP_PATH = files s NVRAM_TMP_PATH \<Longrightarrow> files s' NVRAM_DEFAULT = files s NVRAM_DEFAULT \<Longrightarrow>
   scfgd s' = scfgd s \<Longrightarrow> client_inv s' \<longleftrightarrow> client_inv s"
  by (simp add: client_inv_def nvram_inv_def)

text \<open>The apply side only looks at files the store does not touch.\<close>

lemma cfg_inv_store:
  assumes "cfg_inv s" "client_inv s'" "\<forall>p. p \<noteq> NVRAM_TMP_PATH \<longrightarrow> files s' p = files s p"
  shows "cfg_inv s'" "pending s' = pending s"
proof -
  have eq: "files s' APL_FLAG = files s APL_FLAG" "files s' APL_CLOSED = files s APL_CLOSED"
    "files s' APL_PARSING = files s APL_PARSING"
    using assms(3) by simp_all
  then show "cfg_inv s'" using assms(1,2) by (simp add: cfg_inv_def f_exists_def flags_wf_def)
  show "pending s' = pending s" using eq(1) by (rule pending_cong)
qed

lemma apl_set_flag_open:
  assumes "cfg_inv s" "cfg_flag i"
  shows "\<exists>s'. apl_set_flag i s = Some s' \<and> cfg_inv s' \<and> nvram_view s' = nvram_view s \<and>
    pending s' = pending s @ [i] \<and> cmds s' = cmds s"
proof -
  obtain ids where ids: "flags_wf s ids" using assms(1) by (auto simp: cfg_inv_def)
  let ?s' = "f_append APL_FLAG (flag_line i) s"
  have set: "apl_set_flag i s = Some ?s'"
    using assms by (simp add: apl_set_flag_def cfg_inv_def id_string_def idString_def cfg_flag_def flag_line_def)
  have fl: "files ?s' APL_FLAG = Some (flag_file (ids @ [i]))"
    using ids by (auto simp: flags_wf_def f_append_def flag_file_snoc)
  then have wf: "flags_wf ?s' (ids @ [i])"
    using ids assms(2) by (auto simp: flags_wf_def cfg_flag_def)
  have "files ?s' NVRAM_TMP_PATH = files s NVRAM_TMP_PATH" "files ?s' NVRAM_DEFAULT = files s NVRAM_DEFAULT"
    by (simp_all add: f_append_def)
  then have "client_inv ?s'" "nvram_view ?s' = nvram_view s"
    using assms(1) client_inv_cong [of ?s' s] nvram_view_cong [of ?s' s] by (simp_all add: cfg_inv_def)
  then have "cfg_inv ?s'"
    using assms(1) wf by (auto simp: cfg_inv_def f_exists_def f_append_def)
  then show ?thesis
    using set wf ids \<open>nvram_view ?s' = nvram_view s\<close> by (simp add: pending_wf)
qed

text \<open>The settings ignore the status \<open>scfgmgr_set\<close> returns.\<close>

definition set_var :: "cstr \<Rightarrow> cstr \<Rightarrow> 'a host_scheme \<Rightarrow> 'a host_scheme option" where
  "set_var n v s = map_option snd (scfgmgr_set n v s)"

interpretation cfg: config_flags cfg_inv nvram_view nvram_safe_get
  set_var client_name client_value apl_set_flag cfg_flag pending
proof unfold_locales
  fix s :: "'a host_scheme" and n
  assume a: "cfg_inv s" "client_name n"
  obtain s' where s': "nvram_safe_get n s = Some (nvram_view s n, s')" "nvram_inv s'" "nvram_view s' = nvram_view s"
    "\<forall>p. p \<noteq> NVRAM_TMP_PATH \<longrightarrow> files s' p = files s p" "scfgd s' = scfgd s"
    using nvram_safe_get_refines [of s n] a unfolding cfg_inv_def client_inv_def client_name_def by blast
  have "client_inv s'" using s' a(1) by (simp add: client_inv_def cfg_inv_def)
  then have "cfg_inv s'" "pending s' = pending s" using cfg_inv_store [OF a(1) _ s'(4)] by blast+
  then show "\<exists>s'. nvram_safe_get n s = Some (nvram_view s n, s') \<and> cfg_inv s' \<and> nvram_view s' = nvram_view s"
    using s' by blast
  show "pending t = pending s" if "nvram_safe_get n s = Some (v, t)" for v t
    using that s'(1) \<open>pending s' = pending s\<close> by simp
next
  fix s :: "'a host_scheme" and n v
  assume a: "cfg_inv s" "client_name n" "client_value v"
  obtain s' where s': "scfgmgr_set n v s = Some (0, s')" "client_inv s'" "nvram_view s' = (nvram_view s)(n := v)"
    "\<forall>p. p \<noteq> NVRAM_TMP_PATH \<longrightarrow> files s' p = files s p"
    using scfgmgr_set_refines [of s n v] a unfolding cfg_inv_def by blast
  have "cfg_inv s'" "pending s' = pending s" using cfg_inv_store [OF a(1) s'(2,4)] by blast+
  then show "\<exists>s'. set_var n v s = Some s' \<and> cfg_inv s' \<and> nvram_view s' = (nvram_view s)(n := v)"
    using s' by (simp add: set_var_def)
  show "pending t = pending s" if "set_var n v s = Some t" for t
    using that s'(1) \<open>pending s' = pending s\<close> by (simp add: set_var_def)
next
  fix s :: "'a host_scheme" and i
  assume "cfg_inv s" "cfg_flag i"
  then show "\<exists>s'. apl_set_flag i s = Some s' \<and> cfg_inv s' \<and> nvram_view s' = nvram_view s \<and> pending s' = pending s @ [i]"
    using apl_set_flag_open by blast
qed

subsection \<open>Concrete configurations\<close>

text \<open>A host whose running and factory files hold given variables, with no request pending.\<close>

definition ex_cfg :: "kvs \<Rightarrow> kvs \<Rightarrow> host" where
  "ex_cfg run def = ex_host [NVRAM_TMP_PATH \<mapsto> enc run, NVRAM_DEFAULT \<mapsto> enc def]"

lemma ex_cfg_files [simp]:
  "files (ex_cfg run def) NVRAM_TMP_PATH = Some (enc run)" "files (ex_cfg run def) NVRAM_DEFAULT = Some (enc def)"
  "files (ex_cfg run def) APL_FLAG = None" "files (ex_cfg run def) APL_CLOSED = None"
  "files (ex_cfg run def) APL_PARSING = None" "scfgd (ex_cfg run def)"
  by (simp_all add: ex_cfg_def ex_host_def nvram_paths apl_paths)

lemma ex_cfg_inv: "wf_kvs run \<Longrightarrow> wf_kvs def \<Longrightarrow> cfg_inv (ex_cfg run def)"
  by (auto simp: cfg_inv_def client_inv_def nvram_inv_def file_kvs_def f_exists_def flags_wf_def)

lemma ex_view:
  "wf_kvs run \<Longrightarrow> wf_kvs def \<Longrightarrow> CHR ''='' \<notin> set n \<Longrightarrow>
   nvram_view (ex_cfg run def) n =
     (case map_of run n of Some v \<Rightarrow> v | None \<Rightarrow> (case map_of def n of Some v \<Rightarrow> v | None \<Rightarrow> []))"
  by (simp add: nvram_view_def file_lookup_def nvram_find_enc cong: option.case_cong)

lemma ex_pending [simp]: "pending (ex_cfg run def) = []"
  by (simp add: pending_def read_flags_def)

definition ex_ap :: host where
  "ex_ap = ex_cfg [(''sys_name'', ''wap'')] [(''sys_name'', ''wap''), (''lan_dhcpc'', ''1'')]"

lemma ex_ap_inv [simp]: "cfg_inv ex_ap"
  by (simp add: ex_ap_def ex_cfg_inv wf_name_def)

lemma ex_ap_view:
  "CHR ''='' \<notin> set n \<Longrightarrow> nvram_view ex_ap n =
     (if n = ''sys_name'' then ''wap'' else if n = ''lan_dhcpc'' then ''1'' else [])"
  by (simp add: ex_ap_def ex_view wf_name_def)

end
