(* ===== verification/C_Inet.thy ===== *)
theory C_Inet
  imports Nvram_Flash
begin

text \<open>
  \<open>inet_ntoa\<close> and \<open>inet_addr\<close> of the C library (uClibc, big-endian). An IPv4 address is a
  32-bit word in network order, which on this machine is the value of \<open>s_addr\<close>. The scanner accepts
  exactly four decimal parts up to 255, ended by a white-space character or the end of the string.
\<close>

definition octet :: "nat \<Rightarrow> 32 word \<Rightarrow> nat" where
  "octet k w = unat w div 256 ^ k mod 256"

definition inet_ntoa :: "32 word \<Rightarrow> cstr" where
  "inet_ntoa w = fmt_d (int (octet 3 w)) @ ''.'' @ fmt_d (int (octet 2 w)) @ ''.'' @
     fmt_d (int (octet 1 w)) @ ''.'' @ fmt_d (int (octet 0 w))"

fun inet_parts :: "nat \<Rightarrow> cstr \<Rightarrow> nat list option" where
  "inet_parts 0 s = (if s = [] \<or> c_isspace (hd s) then Some [] else None)"
| "inet_parts (Suc n) s =
     (let d = takeWhile c_isdigit s; r = dropWhile c_isdigit s in
      if d = [] \<or> 255 < digits_val 0 d then None
      else if n = 0 then map_option (Cons (digits_val 0 d)) (inet_parts 0 r)
      else if r \<noteq> [] \<and> hd r = CHR ''.'' then map_option (Cons (digits_val 0 d)) (inet_parts n (tl r))
      else None)"

text \<open>The result of a string that is no address is \<open>INADDR_NONE\<close>.\<close>

definition inet_addr :: "cstr \<Rightarrow> 32 word" where
  "inet_addr s = (case inet_parts 4 s of
     Some [a, b, c, d] \<Rightarrow> of_nat (a * 2 ^ 24 + b * 2 ^ 16 + c * 2 ^ 8 + d) | _ \<Rightarrow> - 1)"

lemma octet_less [simp]: "octet k w < 256"
  by (simp add: octet_def)

lemma fmt_d_nat: "fmt_d (int n) = dec_digits n"
  by (simp add: fmt_d_def)

lemma takeWhile_dec_digits [simp]:
  "takeWhile c_isdigit (dec_digits n @ CHR ''.'' # r) = dec_digits n"
  "dropWhile c_isdigit (dec_digits n @ CHR ''.'' # r) = CHR ''.'' # r"
  "takeWhile c_isdigit (dec_digits n) = dec_digits n" "dropWhile c_isdigit (dec_digits n) = []"
proof -
  have d: "\<And>c. c \<in> set (dec_digits n) \<Longrightarrow> c_isdigit c" by (rule dec_digits_isdigit)
  have dot: "\<not> c_isdigit (CHR ''.'')" by (simp add: c_isdigit_def)
  show "takeWhile c_isdigit (dec_digits n @ CHR ''.'' # r) = dec_digits n"
    "dropWhile c_isdigit (dec_digits n @ CHR ''.'' # r) = CHR ''.'' # r"
    using d dot by (simp_all add: takeWhile_append2 dropWhile_append2)
  show "takeWhile c_isdigit (dec_digits n) = dec_digits n" "dropWhile c_isdigit (dec_digits n) = []"
    using d by (simp_all add: takeWhile_eq_all_conv)
qed

lemma inet_parts_digits:
  "n < 256 \<Longrightarrow> inet_parts (Suc (Suc k)) (dec_digits n @ CHR ''.'' # r) =
     map_option (Cons n) (inet_parts (Suc k) r)"
  "n < 256 \<Longrightarrow> inet_parts (Suc 0) (dec_digits n) = Some [n]"
  by (simp_all add: digits_val_dec_digits)

lemma octets_val:
  "octet 3 w * 2 ^ 24 + octet 2 w * 2 ^ 16 + octet 1 w * 2 ^ 8 + octet 0 w = unat w"
proof -
  have "unat w < 2 ^ 32" using unsigned_less [of w] by simp
  note base256_digits [OF this]
  moreover have "(256 :: nat) ^ 3 = 2 ^ 24" "(256 :: nat) ^ 2 = 2 ^ 16" "(256 :: nat) ^ 1 = 2 ^ 8" by simp_all
  ultimately show ?thesis by (simp only: octet_def power_0 div_by_1)
qed

lemma inet_addr_ntoa [simp]: "inet_addr (inet_ntoa w) = w"
proof -
  have "inet_parts 4 (inet_ntoa w) = Some [octet 3 w, octet 2 w, octet 1 w, octet 0 w]"
  proof -
    have four: "(4 :: nat) = Suc (Suc (Suc (Suc 0)))" by simp
    show ?thesis unfolding inet_ntoa_def fmt_d_nat four
      by (simp add: inet_parts_digits del: inet_parts.simps)
  qed
  then show ?thesis by (simp only: inet_addr_def option.case list.case octets_val) simp
qed

lemma inet_ntoa_chars: "c \<in> set (inet_ntoa w) \<Longrightarrow> c_isdigit c \<or> c = CHR ''.''"
  unfolding inet_ntoa_def fmt_d_nat by (auto dest: dec_digits_isdigit)

lemma cstr_ok_inet_ntoa [simp]: "cstr_ok (inet_ntoa w)"
  using inet_ntoa_chars [of NUL w] by (auto simp: cstr_ok_def c_isdigit_def)

lemma length_inet_ntoa: "length (inet_ntoa w) \<le> 15"
proof -
  have "length (dec_digits (octet k w)) \<le> 3" for k
  proof (rule length_dec_digits_less)
    have "octet k w < 256" by simp
    then have "octet k w < 1000" by (rule less_trans) simp
    then show "octet k w < 10 ^ 3" by simp
  qed simp
  from this [of 3] this [of 2] this [of 1] this [of 0] show ?thesis
    by (simp add: inet_ntoa_def fmt_d_nat)
qed

end
