(* ===== verification/Apcfg_Base.thy ===== *)
theory Apcfg_Base
  imports Apl_Flags C_Inet
begin

text \<open>
  The vocabulary of the settings library (\<open>src/src/apps/apps_sc/libs/libapcfg/apcfg.c\<close>): the five
  ways a getter turns a variable into a value, the two steps a setter is made of (compare with the
  old value; write the variable and request the re-apply), and the rules by which the lemmas about
  the settings are calculated.

  Every getter copies into, and every setter formats in, arrays of fixed size: the model takes the
  size as a parameter and has no result when the array is too small. The names of the variables
  are formatted into \<open>char name[60]\<close>.
\<close>

datatype a_status = A_OK | A_ERROR | A_EINVAL | A_NO_MEMORY | A_ENOENT

abbreviation (input) ENABLE :: cstr where "ENABLE \<equiv> ''1''"
abbreviation (input) DISABLE :: cstr where "DISABLE \<equiv> ''0''"

type_synonym ('v, 'a) getter = "'a host_scheme \<Rightarrow> ('v \<times> 'a host_scheme) option"
type_synonym 'a setter = "'a host_scheme \<Rightarrow> (a_status \<times> 'a host_scheme) option"

subsection \<open>Constants of \<open>apcfg.h\<close>\<close>

abbreviation (input) APCFG_ACL_ALLOW :: int where "APCFG_ACL_ALLOW \<equiv> 0"
abbreviation (input) APCFG_ACL_PREVENT :: int where "APCFG_ACL_PREVENT \<equiv> 1"
abbreviation (input) APCFG_ACL_DISABLED :: int where "APCFG_ACL_DISABLED \<equiv> 0"
abbreviation (input) APCFG_ACL_LOCAL :: int where "APCFG_ACL_LOCAL \<equiv> 1"
abbreviation (input) APCFG_ACL_RADIUS :: int where "APCFG_ACL_RADIUS \<equiv> 2"
abbreviation (input) APCFG_AUTH_AUTO :: int where "APCFG_AUTH_AUTO \<equiv> 3"
abbreviation (input) APCFG_AUTH_DOT1X :: int where "APCFG_AUTH_DOT1X \<equiv> 10"
abbreviation (input) APCFG_AUTH_NONE :: int where "APCFG_AUTH_NONE \<equiv> 0"
abbreviation (input) APCFG_AUTH_OPEN_SYSTEM :: int where "APCFG_AUTH_OPEN_SYSTEM \<equiv> 1"
abbreviation (input) APCFG_AUTH_SHARED_KEY :: int where "APCFG_AUTH_SHARED_KEY \<equiv> 2"
abbreviation (input) APCFG_AUTH_WPA :: int where "APCFG_AUTH_WPA \<equiv> 4"
abbreviation (input) APCFG_AUTH_WPA2 :: int where "APCFG_AUTH_WPA2 \<equiv> 6"
abbreviation (input) APCFG_AUTH_WPA2PSK :: int where "APCFG_AUTH_WPA2PSK \<equiv> 7"
abbreviation (input) APCFG_AUTH_WPAPSK :: int where "APCFG_AUTH_WPAPSK \<equiv> 5"
abbreviation (input) APCFG_AUTH_WPA_AUTO :: int where "APCFG_AUTH_WPA_AUTO \<equiv> 8"
abbreviation (input) APCFG_AUTH_WPA_AUTO_PSK :: int where "APCFG_AUTH_WPA_AUTO_PSK \<equiv> 9"
abbreviation (input) CFG_MAX_DOMAINNMLEN :: nat where "CFG_MAX_DOMAINNMLEN \<equiv> 64"
abbreviation (input) CFG_MAX_FTP_LOGINNAME :: nat where "CFG_MAX_FTP_LOGINNAME \<equiv> 16"
abbreviation (input) CFG_MAX_FTP_PASSWORD :: nat where "CFG_MAX_FTP_PASSWORD \<equiv> 16"
abbreviation (input) CFG_MAX_PASSPHRASE :: nat where "CFG_MAX_PASSPHRASE \<equiv> 64"
abbreviation (input) CFG_MAX_PASSWORD :: nat where "CFG_MAX_PASSWORD \<equiv> 63"
abbreviation (input) CFG_MAX_RADIUSNAME :: nat where "CFG_MAX_RADIUSNAME \<equiv> 64"
abbreviation (input) CFG_MAX_REBOOT_TIME :: int where "CFG_MAX_REBOOT_TIME \<equiv> 720"
abbreviation (input) CFG_MAX_SECRETLEN :: nat where "CFG_MAX_SECRETLEN \<equiv> 128"
abbreviation (input) CFG_MAX_SHARED_KEY :: int where "CFG_MAX_SHARED_KEY \<equiv> 4"
abbreviation (input) CFG_MAX_USERNAME :: nat where "CFG_MAX_USERNAME \<equiv> 63"
abbreviation (input) CFG_MIN_REBOOT_TIME :: int where "CFG_MIN_REBOOT_TIME \<equiv> 1"
abbreviation (input) CFG_MIN_SHARED_KEY :: int where "CFG_MIN_SHARED_KEY \<equiv> 1"
abbreviation (input) CFG_OP_MODE_AP :: int where "CFG_OP_MODE_AP \<equiv> 0"
abbreviation (input) CFG_OP_MODE_AP_PTMP :: int where "CFG_OP_MODE_AP_PTMP \<equiv> 6"
abbreviation (input) CFG_OP_MODE_AP_PTP :: int where "CFG_OP_MODE_AP_PTP \<equiv> 5"
abbreviation (input) CFG_OP_MODE_MPT :: int where "CFG_OP_MODE_MPT \<equiv> 3"
abbreviation (input) CFG_OP_MODE_PPT :: int where "CFG_OP_MODE_PPT \<equiv> 2"
abbreviation (input) CFG_OP_MODE_REPEATER :: int where "CFG_OP_MODE_REPEATER \<equiv> 4"
abbreviation (input) CFG_OP_MODE_ROGAP :: int where "CFG_OP_MODE_ROGAP \<equiv> 9"
abbreviation (input) CFG_OP_MODE_STA :: int where "CFG_OP_MODE_STA \<equiv> 1"
abbreviation (input) CFG_OP_MODE_UC :: int where "CFG_OP_MODE_UC \<equiv> 7"
abbreviation (input) CFG_OP_MODE_UR :: int where "CFG_OP_MODE_UR \<equiv> 8"
abbreviation (input) CFG_TIME_ZONE_LEN :: nat where "CFG_TIME_ZONE_LEN \<equiv> 12"
abbreviation (input) CWM_MODE_20M :: int where "CWM_MODE_20M \<equiv> 0"
abbreviation (input) CWM_MODE_20M_40M :: int where "CWM_MODE_20M_40M \<equiv> 1"
abbreviation (input) CWM_MODE_40M :: int where "CWM_MODE_40M \<equiv> 2"
abbreviation (input) INET6_ADDRSTRLEN :: nat where "INET6_ADDRSTRLEN \<equiv> 46"
abbreviation (input) INVALID_SHARED_KEY :: int where "INVALID_SHARED_KEY \<equiv> 5"
abbreviation (input) MAX_ALERT_INTERVAL :: int where "MAX_ALERT_INTERVAL \<equiv> 600"
abbreviation (input) MAX_ALERT_QLEN :: int where "MAX_ALERT_QLEN \<equiv> 500"
abbreviation (input) MAX_BALANCE :: int where "MAX_BALANCE \<equiv> 10000"
abbreviation (input) MAX_BEACON_PERIOD :: int where "MAX_BEACON_PERIOD \<equiv> 1000"
abbreviation (input) MAX_CERT_CONTENT :: nat where "MAX_CERT_CONTENT \<equiv> 8192"
abbreviation (input) MAX_CERT_TIME :: nat where "MAX_CERT_TIME \<equiv> 32"
abbreviation (input) MAX_DESC :: nat where "MAX_DESC \<equiv> 39"
abbreviation (input) MAX_DOT1XSUPP_NAME :: nat where "MAX_DOT1XSUPP_NAME \<equiv> 63"
abbreviation (input) MAX_DOT1XSUPP_PASSWD :: nat where "MAX_DOT1XSUPP_PASSWD \<equiv> 63"
abbreviation (input) MAX_FRAG_THRESHOLD :: int where "MAX_FRAG_THRESHOLD \<equiv> 2346"
abbreviation (input) MAX_FTP_SERVER :: nat where "MAX_FTP_SERVER \<equiv> 32"
abbreviation (input) MAX_GROUP_KEY_UPDATE_INTERVAL :: int where "MAX_GROUP_KEY_UPDATE_INTERVAL \<equiv> 36000"
abbreviation (input) MAX_LEGALAPLIST :: nat where "MAX_LEGALAPLIST \<equiv> 417"
abbreviation (input) MAX_MAIL_SERVER :: nat where "MAX_MAIL_SERVER \<equiv> 64"
abbreviation (input) MAX_NAME_SERVER :: nat where "MAX_NAME_SERVER \<equiv> 32"
abbreviation (input) MAX_NTP_SERVER :: nat where "MAX_NTP_SERVER \<equiv> 32"
abbreviation (input) MAX_RTS_THRESHOLD :: int where "MAX_RTS_THRESHOLD \<equiv> 2347"
abbreviation (input) MAX_SMTP_SERVER :: nat where "MAX_SMTP_SERVER \<equiv> 64"
abbreviation (input) MAX_SNMPV3_AUTHKEY :: nat where "MAX_SNMPV3_AUTHKEY \<equiv> 63"
abbreviation (input) MAX_SNMPV3_PRIVKEY :: nat where "MAX_SNMPV3_PRIVKEY \<equiv> 32"
abbreviation (input) MAX_SNMPV3_USERNAME :: nat where "MAX_SNMPV3_USERNAME \<equiv> 63"
abbreviation (input) MAX_SNMP_COMMUNITY :: nat where "MAX_SNMP_COMMUNITY \<equiv> 32"
abbreviation (input) MAX_SNMP_CONTACT :: nat where "MAX_SNMP_CONTACT \<equiv> 32"
abbreviation (input) MAX_SNMP_DEVNAME :: nat where "MAX_SNMP_DEVNAME \<equiv> 32"
abbreviation (input) MAX_SNMP_LOCATION :: nat where "MAX_SNMP_LOCATION \<equiv> 32"
abbreviation (input) MAX_SSID :: nat where "MAX_SSID \<equiv> 32"
abbreviation (input) MAX_SYSLOG_SERVER :: nat where "MAX_SYSLOG_SERVER \<equiv> 32"
abbreviation (input) MAX_SYSNAME :: nat where "MAX_SYSNAME \<equiv> 39"
abbreviation (input) MAX_TELNET_TIMEOUT :: int where "MAX_TELNET_TIMEOUT \<equiv> 600"
abbreviation (input) MAX_VAPNAME :: nat where "MAX_VAPNAME \<equiv> 32"
abbreviation (input) MAX_VLAN_LIST :: nat where "MAX_VLAN_LIST \<equiv> 8"
abbreviation (input) MAX_WINS_SERVER :: nat where "MAX_WINS_SERVER \<equiv> 32"
abbreviation (input) MIN_ALERT_INTERVAL :: int where "MIN_ALERT_INTERVAL \<equiv> 1"
abbreviation (input) MIN_ALERT_QLEN :: int where "MIN_ALERT_QLEN \<equiv> 1"
abbreviation (input) MIN_BALANCE :: int where "MIN_BALANCE \<equiv> 0"
abbreviation (input) MIN_BEACON_PERIOD :: int where "MIN_BEACON_PERIOD \<equiv> 20"
abbreviation (input) MIN_FRAG_THRESHOLD :: int where "MIN_FRAG_THRESHOLD \<equiv> 256"
abbreviation (input) MIN_GROUP_KEY_UPDATE_INTERVAL :: int where "MIN_GROUP_KEY_UPDATE_INTERVAL \<equiv> 600"
abbreviation (input) MIN_RTS_THRESHOLD :: int where "MIN_RTS_THRESHOLD \<equiv> 1"
abbreviation (input) MIN_SNMPV3_AUTHKEY :: nat where "MIN_SNMPV3_AUTHKEY \<equiv> 8"
abbreviation (input) MIN_SNMPV3_PRIVKEY :: nat where "MIN_SNMPV3_PRIVKEY \<equiv> 8"
abbreviation (input) MIN_TELENT_TIMEOUT :: int where "MIN_TELENT_TIMEOUT \<equiv> 1"
abbreviation (input) MODE_SELECT_11A :: int where "MODE_SELECT_11A \<equiv> 1"
abbreviation (input) MODE_SELECT_11B :: int where "MODE_SELECT_11B \<equiv> 2"
abbreviation (input) MODE_SELECT_11BG :: int where "MODE_SELECT_11BG \<equiv> 10"
abbreviation (input) MODE_SELECT_11BGN :: int where "MODE_SELECT_11BGN \<equiv> 11"
abbreviation (input) MODE_SELECT_11G :: int where "MODE_SELECT_11G \<equiv> 3"
abbreviation (input) MODE_SELECT_11N :: int where "MODE_SELECT_11N \<equiv> 9"
abbreviation (input) MODE_SELECT_11NA :: int where "MODE_SELECT_11NA \<equiv> 7"
abbreviation (input) MODE_SELECT_11NG :: int where "MODE_SELECT_11NG \<equiv> 8"
abbreviation (input) MODE_SELECT_AUTO :: int where "MODE_SELECT_AUTO \<equiv> 0"
abbreviation (input) MODE_SELECT_FH :: int where "MODE_SELECT_FH \<equiv> 4"
abbreviation (input) MODE_SELECT_TURBOA :: int where "MODE_SELECT_TURBOA \<equiv> 5"
abbreviation (input) MODE_SELECT_TURBOG :: int where "MODE_SELECT_TURBOG \<equiv> 6"
abbreviation (input) SC_MAX_DTIM_INTERVAL :: int where "SC_MAX_DTIM_INTERVAL \<equiv> 255"
abbreviation (input) SC_MAX_IDLETIMEOUT_INTERVAL :: int where "SC_MAX_IDLETIMEOUT_INTERVAL \<equiv> 99"
abbreviation (input) SC_MIN_DTIM_INTERVAL :: int where "SC_MIN_DTIM_INTERVAL \<equiv> 1"
abbreviation (input) SC_MIN_IDLETIMEOUT_INTERVAL :: int where "SC_MIN_IDLETIMEOUT_INTERVAL \<equiv> 0"
abbreviation (input) SHORTGI_AUTO :: int where "SHORTGI_AUTO \<equiv> 1"
abbreviation (input) SHORTGI_LONG :: int where "SHORTGI_LONG \<equiv> 2"
abbreviation (input) SHORTGI_SHORT :: int where "SHORTGI_SHORT \<equiv> 0"
abbreviation (input) SNMP_AUTH_MD5 :: int where "SNMP_AUTH_MD5 \<equiv> 1"
abbreviation (input) SNMP_AUTH_NONE :: int where "SNMP_AUTH_NONE \<equiv> 0"
abbreviation (input) SNMP_PRIV_DES :: int where "SNMP_PRIV_DES \<equiv> 1"
abbreviation (input) SNMP_PRIV_NONE :: int where "SNMP_PRIV_NONE \<equiv> 0"
abbreviation (input) VLAN_TAG_MAX :: int where "VLAN_TAG_MAX \<equiv> 4094"
abbreviation (input) VLAN_TAG_MIN :: int where "VLAN_TAG_MIN \<equiv> 1"
abbreviation (input) WPA_CIPHER_AES :: int where "WPA_CIPHER_AES \<equiv> 1"
abbreviation (input) WPA_CIPHER_AUTO :: int where "WPA_CIPHER_AUTO \<equiv> 2"
abbreviation (input) WPA_CIPHER_TKIP :: int where "WPA_CIPHER_TKIP \<equiv> 0"
abbreviation (input) WPS_PIN_LEN :: nat where "WPS_PIN_LEN \<equiv> 8"

subsection \<open>Getters\<close>

definition get_bool :: "cstr \<Rightarrow> (int, 'a) getter" where
  "get_bool name s = do {
     name \<leftarrow> into_buf 60 name;
     (p, s) \<leftarrow> nvram_safe_get name s;
     Some (if p = ENABLE then 1 else 0, s)
   }"

definition get_atoi :: "cstr \<Rightarrow> (int, 'a) getter" where
  "get_atoi name s = do {
     name \<leftarrow> into_buf 60 name;
     (p, s) \<leftarrow> nvram_safe_get name s;
     Some (atoi p, s)
   }"

definition get_ip :: "cstr \<Rightarrow> (32 word, 'a) getter" where
  "get_ip name s = do {
     name \<leftarrow> into_buf 60 name;
     (p, s) \<leftarrow> nvram_safe_get name s;
     Some (inet_addr p, s)
   }"

text \<open>\<open>strcpy\<close> into \<open>char value[n]\<close>, which is returned, or read with \<open>atoi\<close>.\<close>

definition get_str :: "nat \<Rightarrow> cstr \<Rightarrow> (cstr, 'a) getter" where
  "get_str n name s = do {
     name \<leftarrow> into_buf 60 name;
     (p, s) \<leftarrow> nvram_safe_get name s;
     r \<leftarrow> into_buf n p;
     Some (r, s)
   }"

definition get_buf_atoi :: "nat \<Rightarrow> cstr \<Rightarrow> (int, 'a) getter" where
  "get_buf_atoi n name s = do {
     (p, s) \<leftarrow> get_str n name s;
     Some (atoi p, s)
   }"

text \<open>The string is compared with the words of a table, in order.\<close>

definition get_word :: "(cstr \<times> int) list \<Rightarrow> int \<Rightarrow> cstr \<Rightarrow> (int, 'a) getter" where
  "get_word words d name s = do {
     name \<leftarrow> into_buf 60 name;
     (p, s) \<leftarrow> nvram_safe_get name s;
     Some (case map_of words p of Some a \<Rightarrow> a | None \<Rightarrow> d, s)
   }"

subsection \<open>Setters\<close>

primrec apl_set_flags :: "nat list \<Rightarrow> 'a host_scheme \<Rightarrow> 'a host_scheme option" where
  "apl_set_flags [] s = Some s"
| "apl_set_flags (i # is) s = do { s \<leftarrow> apl_set_flag i s; apl_set_flags is s }"

definition write_var :: "cstr \<Rightarrow> cstr \<Rightarrow> nat list \<Rightarrow> 'a setter" where
  "write_var name v is s = do {
     name \<leftarrow> into_buf 60 name;
     s \<leftarrow> set_var name v s;
     s \<leftarrow> apl_set_flags is s;
     Some (A_OK, s)
   }"

definition if_changed :: "('v, 'a) getter \<Rightarrow> 'v \<Rightarrow>
    'a setter \<Rightarrow> 'a setter" where
  "if_changed get v k s = do {
     (old, s) \<leftarrow> get s;
     if v \<noteq> old then k s else Some (A_OK, s)
   }"

text \<open>\<open>if (guard) return A_ERROR;\<close>\<close>

definition reject_if :: "bool \<Rightarrow> 'a setter \<Rightarrow> 'a setter" where
  "reject_if b k s = (if b then Some (A_ERROR, s) else k s)"

text \<open>A second setter called at the end, whose status is ignored.\<close>

definition and_then :: "'a setter \<Rightarrow>
    'a setter \<Rightarrow> 'a setter" where
  "and_then m k s = do { (_, s) \<leftarrow> m s; (_, s) \<leftarrow> k s; Some (A_OK, s) }"

text \<open>A request raised, or a marker file created, after the write.\<close>

definition and_flag :: "'a setter \<Rightarrow> nat \<Rightarrow> 'a setter" where
  "and_flag m i s = do { (_, s) \<leftarrow> m s; s \<leftarrow> apl_set_flag i s; Some (A_OK, s) }"

definition and_echo :: "'a setter \<Rightarrow> string \<Rightarrow> 'a setter" where
  "and_echo m path s = do { (_, s) \<leftarrow> m s; Some (A_OK, sh_echo_1 path s) }"

text \<open>A loop over access points, \<open>for (vap = 0; vap < WLAN_MAX_VAP; vap++)\<close> unless the list says
  otherwise.\<close>

primrec for_each :: "int list \<Rightarrow> (int \<Rightarrow> 'a setter) \<Rightarrow> 'a setter" where
  "for_each [] f s = Some (A_OK, s)"
| "for_each (i # is) f s = do { (_, s) \<leftarrow> f i s; for_each is f s }"

definition for_vaps :: "(int \<Rightarrow> 'a setter) \<Rightarrow> 'a setter" where
  "for_vaps f = for_each [0, 1, 2, 3] f"

text \<open>\<open>scfgmgr_set (name, &val)\<close> with \<open>char val = '0' + v\<close>: the string that starts in a single character.\<close>

definition write_char :: "cstr \<Rightarrow> int \<Rightarrow> nat list \<Rightarrow> 'a setter" where
  "write_char name v is s = do {
     data \<leftarrow> c_str [char_of (nat ((48 + v) mod 256))];
     write_var name data is s
   }"

definition onoff :: "int \<Rightarrow> cstr" where
  "onoff v = (if v = 1 then ENABLE else DISABLE)"

text \<open>\<open>sprintf (string, "%d", v)\<close> into \<open>char string[n]\<close>, then the write.\<close>

definition write_int :: "nat \<Rightarrow> cstr \<Rightarrow> int \<Rightarrow> nat list \<Rightarrow> 'a setter" where
  "write_int n name v is s = do {
     string \<leftarrow> into_buf n (fmt_d v);
     write_var name string is s
   }"

text \<open>\<open>APL_WLAN0 + unit * (WLAN_MAX_VAP + 1)\<close> and \<open>APL_WLAN0_VAP0 + bss + unit * (WLAN_MAX_VAP + 1)\<close>,
  as the unsigned argument of \<open>apl_set_flag\<close>.\<close>

abbreviation (input) WLAN_MAX_VAP :: int where "WLAN_MAX_VAP \<equiv> 4"

definition wlan_item :: "int \<Rightarrow> nat" where
  "wlan_item unit = nat ((int APL_WLAN0 + unit * (WLAN_MAX_VAP + 1)) mod 2 ^ 32)"

definition vap_item :: "int \<Rightarrow> int \<Rightarrow> nat" where
  "vap_item unit bss = nat ((int APL_WLAN0_VAP0 + bss + unit * (WLAN_MAX_VAP + 1)) mod 2 ^ 32)"

text \<open>The names \<open>wlan%d_...\<close> and \<open>wlan%d_ssid%d_...\<close>.\<close>

definition wlan_name :: "int \<Rightarrow> cstr \<Rightarrow> cstr" where
  "wlan_name unit suf = ''wlan'' @ fmt_d unit @ suf"

definition ssid_name :: "int \<Rightarrow> int \<Rightarrow> cstr \<Rightarrow> cstr" where
  "ssid_name unit bss suf = ''wlan'' @ fmt_d unit @ ''_ssid'' @ fmt_d bss @ suf"

subsection \<open>Calculating with getters and setters\<close>

text \<open>A getter that answers \<open>v\<close> and shows no effect; a setter that returns \<open>r\<close>, makes the variables
  \<open>vw\<close> and appends the requests \<open>is\<close>.\<close>

definition reads :: "('v, 'a) getter \<Rightarrow> 'a host_scheme \<Rightarrow> 'v \<Rightarrow> bool" where
  "reads g s v \<longleftrightarrow> (\<exists>s'. g s = Some (v, s') \<and> cfg_inv s' \<and> nvram_view s' = nvram_view s \<and> pending s' = pending s)"

definition updates :: "'a setter \<Rightarrow> 'a host_scheme \<Rightarrow>
    a_status \<Rightarrow> (cstr \<Rightarrow> cstr) \<Rightarrow> nat list \<Rightarrow> bool" where
  "updates m s r vw is \<longleftrightarrow>
     (\<exists>s'. m s = Some (r, s') \<and> cfg_inv s' \<and> nvram_view s' = vw \<and> pending s' = pending s @ is)"

text \<open>The names the settings use.\<close>

definition var_name :: "cstr \<Rightarrow> bool" where
  "var_name n \<longleftrightarrow> wf_name n \<and> length n < 60"

lemma var_name_client: "var_name n \<Longrightarrow> client_name n"
  by (simp add: var_name_def client_name_def)

lemma nvram_safe_get_var:
  assumes "cfg_inv s" "var_name n"
  obtains s' where "nvram_safe_get n s = Some (nvram_view s n, s')" "cfg_inv s'"
    "nvram_view s' = nvram_view s" "pending s' = pending s"
  using cfg.get_step [OF assms(1) var_name_client [OF assms(2)]] by blast

lemma reads_str:
  assumes "cfg_inv s" "var_name n" "length (nvram_view s n) < k"
  shows "reads (get_str k n) s (nvram_view s n)"
proof -
  obtain s' where "nvram_safe_get n s = Some (nvram_view s n, s')" "cfg_inv s'"
    "nvram_view s' = nvram_view s" "pending s' = pending s"
    using assms(1,2) by (rule nvram_safe_get_var)
  then show ?thesis using assms by (simp add: reads_def get_str_def var_name_def)
qed

lemma reads_buf_atoi:
  assumes "cfg_inv s" "var_name n" "length (nvram_view s n) < k"
  shows "reads (get_buf_atoi k n) s (atoi (nvram_view s n))"
  using reads_str [OF assms] by (auto simp: reads_def get_buf_atoi_def)

lemma reads_simple:
  assumes "cfg_inv s" "var_name n"
  shows "reads (get_bool n) s (if nvram_view s n = ENABLE then 1 else 0)"
    and "reads (get_atoi n) s (atoi (nvram_view s n))"
    and "reads (get_ip n) s (inet_addr (nvram_view s n))"
    and "reads (get_word words d n) s (case map_of words (nvram_view s n) of Some a \<Rightarrow> a | None \<Rightarrow> d)"
proof -
  obtain s' where "nvram_safe_get n s = Some (nvram_view s n, s')" "cfg_inv s'"
    "nvram_view s' = nvram_view s" "pending s' = pending s"
    using assms(1,2) by (rule nvram_safe_get_var)
  then show "reads (get_bool n) s (if nvram_view s n = ENABLE then 1 else 0)"
    "reads (get_atoi n) s (atoi (nvram_view s n))" "reads (get_ip n) s (inet_addr (nvram_view s n))"
    "reads (get_word words d n) s (case map_of words (nvram_view s n) of Some a \<Rightarrow> a | None \<Rightarrow> d)"
    using assms
    by (simp_all add: reads_def get_bool_def get_atoi_def get_ip_def get_word_def var_name_def split: option.split)
qed

lemma apl_set_flags_step:
  assumes "cfg_inv s" "\<forall>i \<in> set is. cfg_flag i"
  shows "\<exists>s'. apl_set_flags is s = Some s' \<and> cfg_inv s' \<and> nvram_view s' = nvram_view s \<and> pending s' = pending s @ is"
  using assms
proof (induction "is" arbitrary: s)
  case Nil
  then show ?case by simp
next
  case (Cons i "is")
  then have "cfg_inv s" "cfg_flag i" by simp_all
  from cfg.flag_step [OF this] Cons.IH [of "cfg.after_flag i s"] Cons.prems show ?case by auto
qed

lemma updates_write_var:
  assumes "cfg_inv s" "var_name n" "client_value v" "\<forall>i \<in> set is. cfg_flag i"
  shows "updates (write_var n v is) s A_OK ((nvram_view s)(n := v)) is"
proof -
  note p = cfg.put_step [OF assms(1) var_name_client [OF assms(2)] assms(3)]
  obtain s' where "apl_set_flags is (cfg.after_put n v s) = Some s'" "cfg_inv s'"
    "nvram_view s' = (nvram_view s)(n := v)" "pending s' = pending s @ is"
    using apl_set_flags_step [OF p(2) assms(4)] p(3,4) by auto
  then show ?thesis using p(1) assms(2) by (simp add: updates_def write_var_def var_name_def)
qed

lemma updates_write_int:
  assumes "cfg_inv s" "var_name n" "\<forall>i \<in> set is. cfg_flag i" "length (fmt_d v) < k" "k \<le> 100"
  shows "updates (write_int k n v is) s A_OK ((nvram_view s)(n := fmt_d v)) is"
proof -
  have "client_value (fmt_d v)" using assms(4,5) by (simp add: client_value_def)
  from updates_write_var [OF assms(1,2) this assms(3)] show ?thesis
    using assms(4) by (simp add: updates_def write_int_def)
qed

lemma updates_if_changed:
  assumes "reads g s old" and "\<And>s'. cfg_inv s' \<Longrightarrow> v \<noteq> old \<Longrightarrow> nvram_view s' = nvram_view s \<Longrightarrow> updates k s' A_OK vw is"
  shows "updates (if_changed g v k) s A_OK (if v \<noteq> old then vw else nvram_view s) (if v \<noteq> old then is else [])"
proof -
  obtain s' where s': "g s = Some (old, s')" "cfg_inv s'" "nvram_view s' = nvram_view s" "pending s' = pending s"
    using assms(1) by (auto simp: reads_def)
  show ?thesis
  proof (cases "v = old")
    case True
    then show ?thesis using s' by (simp add: updates_def if_changed_def)
  next
    case False
    then show ?thesis using s' assms(2) [OF s'(2) False s'(3)] by (simp add: updates_def if_changed_def)
  qed
qed

lemma updates_reject:
  assumes "cfg_inv s" "\<not> b \<Longrightarrow> updates k s A_OK vw is"
  shows "updates (reject_if b k) s (if b then A_ERROR else A_OK) (if b then nvram_view s else vw) (if b then [] else is)"
  using assms by (simp add: updates_def reject_if_def)

lemma updates_and_then:
  assumes "updates m s r vw is" and "\<And>s'. cfg_inv s' \<Longrightarrow> nvram_view s' = vw \<Longrightarrow> updates k s' r' vw' is'"
  shows "updates (and_then m k) s A_OK vw' (is @ is')"
proof -
  obtain s1 where 1: "m s = Some (r, s1)" "cfg_inv s1" "nvram_view s1 = vw" "pending s1 = pending s @ is"
    using assms(1) by (auto simp: updates_def)
  then show ?thesis using assms(2) [OF 1(2,3)] by (auto simp: updates_def and_then_def)
qed

lemma client_value_onoff [simp]: "client_value (onoff v)"
  by (simp add: onoff_def client_value_def)

lemma client_value_ntoa [simp]: "client_value (inet_ntoa w)"
  using length_inet_ntoa [of w] by (simp add: client_value_def)

subsection \<open>The common setters\<close>

text \<open>Each is stated for any name and any requests; a setting's own lemma is an instance.\<close>

lemma updates_onoff:
  assumes "cfg_inv s" "var_name n" "\<forall>i \<in> set is. cfg_flag i"
  shows "updates (if_changed (get_bool n) v (write_var n (onoff v) is)) s A_OK
    (if v \<noteq> (if nvram_view s n = ENABLE then 1 else 0) then (nvram_view s)(n := onoff v) else nvram_view s)
    (if v \<noteq> (if nvram_view s n = ENABLE then 1 else 0) then is else [])"
  by (rule updates_if_changed [OF reads_simple(1) [OF assms(1,2)]])
    (metis updates_write_var [OF _ assms(2) client_value_onoff assms(3)])

lemma updates_int:
  assumes "cfg_inv s" "var_name n" "\<forall>i \<in> set is. cfg_flag i" "length (fmt_d v) < k" "k \<le> 100"
    and "reads g s old"
  shows "updates (if_changed g v (write_int k n v is)) s A_OK
    (if v \<noteq> old then (nvram_view s)(n := fmt_d v) else nvram_view s) (if v \<noteq> old then is else [])"
  by (rule updates_if_changed [OF assms(6)]) (metis updates_write_int [OF _ assms(2-5)])

lemma updates_ip:
  assumes "cfg_inv s" "var_name n" "\<forall>i \<in> set is. cfg_flag i"
  shows "updates (if_changed (get_ip n) w (write_var n (inet_ntoa w) is)) s A_OK
    (if w \<noteq> inet_addr (nvram_view s n) then (nvram_view s)(n := inet_ntoa w) else nvram_view s)
    (if w \<noteq> inet_addr (nvram_view s n) then is else [])"
  by (rule updates_if_changed [OF reads_simple(3) [OF assms(1,2)]])
    (metis updates_write_var [OF _ assms(2) client_value_ntoa assms(3)])

lemma updates_str:
  assumes "cfg_inv s" "var_name n" "\<forall>i \<in> set is. cfg_flag i" "client_value v" "length (nvram_view s n) < k"
  shows "updates (if_changed (get_str k n) v (write_var n v is)) s A_OK
    (if v \<noteq> nvram_view s n then (nvram_view s)(n := v) else nvram_view s) (if v \<noteq> nvram_view s n then is else [])"
  by (rule updates_if_changed [OF reads_str [OF assms(1,2,5)]])
    (metis updates_write_var [OF _ assms(2,4,3)])

subsection \<open>Names and small numbers\<close>

lemma fmt_d_no_eq [simp]: "CHR ''='' \<notin> set (fmt_d v)"
  using fmt_d_set [of "CHR ''=''" v] by (auto simp: c_isdigit_def)

lemma length_fmt_d_digit: "0 \<le> v \<Longrightarrow> v < 10 \<Longrightarrow> length (fmt_d v) = 1"
  by (simp add: fmt_d_def dec_digits.simps [of "nat v"])

lemma length_fmt_d_5: "0 \<le> v \<Longrightarrow> v < 100000 \<Longrightarrow> length (fmt_d v) \<le> 5"
  using length_fmt_d_nonneg [of v 5] by simp

lemma length_fmt_d_9: "0 \<le> v \<Longrightarrow> v < 1000000000 \<Longrightarrow> length (fmt_d v) \<le> 9"
  using length_fmt_d_nonneg [of v 9] by simp

text \<open>The one radio and its four access points.\<close>

definition vap_ok :: "int \<Rightarrow> int \<Rightarrow> bool" where
  "vap_ok unit bss \<longleftrightarrow> unit = 0 \<and> 0 \<le> bss \<and> bss < WLAN_MAX_VAP"

lemma vap_item_0: "0 \<le> bss \<Longrightarrow> bss < WLAN_MAX_VAP \<Longrightarrow> vap_item 0 bss = APL_WLAN0_VAP0 + nat bss"
  by (simp add: vap_item_def APL_WLAN0_VAP0_def nat_add_distrib)

lemma vap_item_ok: "vap_ok unit bss \<Longrightarrow> cfg_flag (vap_item unit bss)"
  by (auto simp: vap_ok_def vap_item_0 cfg_flag_def APL_WLAN0_VAP0_def)

lemma wlan_item_0 [simp]: "wlan_item 0 = APL_WLAN0"
  by (simp add: wlan_item_def APL_WLAN0_def)

lemma cfg_flag_ids [simp]:
  "cfg_flag APL_REBOOT" "cfg_flag APL_SYSNAME" "cfg_flag APL_LOGIN" "cfg_flag APL_TELNET" "cfg_flag APL_SSH"
  "cfg_flag APL_HTTPD" "cfg_flag APL_VLAN" "cfg_flag APL_STP" "cfg_flag APL_LLTD" "cfg_flag APL_IPv4"
  "cfg_flag APL_IPv6" "cfg_flag APL_ETHSUP" "cfg_flag APL_BALANCE" "cfg_flag APL_WLAN0" "cfg_flag APL_NTP"
  "cfg_flag APL_SNMP" "cfg_flag APL_LOG" "cfg_flag APL_FTP" "cfg_flag APL_ETH_DATARATE"
  "cfg_flag APL_FORCE100M" "cfg_flag APL_HTTPREDIRECT" "cfg_flag APL_ROGUEAP" "cfg_flag APL_BONJOUR"
  by (simp_all add: cfg_flag_def apl_ids)

lemma var_name_ssid:
  assumes "vap_ok unit bss" "cstr_ok suf" "CHR ''='' \<notin> set suf" "length suf < 40"
  shows "var_name (ssid_name unit bss suf)"
  using assms length_fmt_d_digit [of unit] length_fmt_d_digit [of bss]
  by (simp add: var_name_def ssid_name_def wf_name_def vap_ok_def)

lemma var_name_wlan:
  assumes "cstr_ok suf" "CHR ''='' \<notin> set suf" "length suf < 40"
  shows "var_name (wlan_name 0 suf)"
  using assms length_fmt_d_digit [of 0]
  by (simp add: var_name_def wlan_name_def wf_name_def)

end
