(* ===== verification/Apcfg_Lan.thy ===== *)
theory Apcfg_Lan
  imports Apcfg_Base
begin

text \<open>
  Settings of the system and the LAN interface: name, login, VLAN list, addresses, DHCP
  (\<open>src/src/apps/apps_sc/libs/libapcfg/apcfg.c\<close>, in the order of the file).
\<close>

subsection \<open>Names and the login\<close>

definition apCfgSysNameGet :: "(cstr, 'a) getter" where
  "apCfgSysNameGet = get_str (MAX_SYSNAME + 1) ''sys_name''"

definition apCfgSysNameSet :: "cstr \<Rightarrow> 'a setter" where
  "apCfgSysNameSet p = reject_if (length p < 1 \<or> MAX_SYSNAME < length p) (if_changed apCfgSysNameGet p
     (write_var ''sys_name'' p [APL_SYSNAME, APL_BONJOUR]))"

definition apCfgSysLangGet :: "(cstr, 'a) getter" where
  "apCfgSysLangGet = get_str (MAX_DESC + 1) ''sys_lang''"

definition apCfgSysLangSet :: "cstr \<Rightarrow> 'a setter" where
  "apCfgSysLangSet p = reject_if (length p < 0 \<or> MAX_DESC < length p) (if_changed apCfgSysLangGet p
     (write_var ''sys_lang'' p []))"

definition apCfgDescGet :: "(cstr, 'a) getter" where
  "apCfgDescGet = get_str (MAX_DESC + 1) ''sys_desc''"

definition apCfgDescSet :: "cstr \<Rightarrow> 'a setter" where
  "apCfgDescSet p = reject_if (length p < 0 \<or> MAX_DESC < length p) (if_changed apCfgDescGet p (write_var
     ''sys_desc'' p []))"

definition apCfgLoginGet :: "(cstr, 'a) getter" where
  "apCfgLoginGet = get_str (CFG_MAX_USERNAME + 1) ''login_username''"

definition apCfgLoginSet :: "cstr \<Rightarrow> 'a setter" where
  "apCfgLoginSet p = reject_if (length p < 1 \<or> CFG_MAX_USERNAME < length p) (if_changed apCfgLoginGet p
     (write_var ''login_username'' p [APL_LOGIN]))"

definition apCfgPasswordGet :: "(cstr, 'a) getter" where
  "apCfgPasswordGet = get_str (CFG_MAX_PASSWORD + 1) ''login_password''"

definition apCfgPasswordSet :: "cstr \<Rightarrow> 'a setter" where
  "apCfgPasswordSet p = reject_if (length p < 4 \<or> CFG_MAX_PASSWORD < length p) (if_changed
     apCfgPasswordGet p (write_var ''login_password'' p [APL_LOGIN]))"

subsection \<open>The list of VLANs\<close>

definition apCfgVlanListGet :: "(cstr, 'a) getter" where
  "apCfgVlanListGet = get_str (64 + 1) ''vlan_list''"

definition apCfgVlanListSet :: "cstr \<Rightarrow> 'a setter" where
  "apCfgVlanListSet p = if_changed apCfgVlanListGet p (write_var ''vlan_list'' p [APL_VLAN])"

text \<open>\<open>strtok\<close> writes into the static buffer of the getter; the second call of the getter refills it.\<close>

definition apCfgVlanListAdd :: "int \<Rightarrow> 'a setter" where
  "apCfgVlanListAdd v s =
     (if v < VLAN_TAG_MIN \<or> VLAN_TAG_MAX < v then Some (A_ERROR, s)
      else do {
        (vlanList, s) \<leftarrow> apCfgVlanListGet s;
        if v \<in> atoi ` set (strtok_all (CHR '','') vlanList) then Some (A_ERROR, s)
        else do {
          (vlanList, s) \<leftarrow> apCfgVlanListGet s;
          vlan \<leftarrow> into_buf MAX_VLAN_LIST (vlanList @ fmt_d v @ '','');
          (_, s) \<leftarrow> apCfgVlanListSet vlan s;
          Some (A_OK, s)
        }
      })"

text \<open>
  The scan of \<open>apCfgVlanListDel\<close>: the offset of the first entry that starts with \<open>vlan\<close>. On an
  entry without a comma \<open>strchr\<close> returns null and the next read is through an invalid pointer.
\<close>

function vlan_del_find :: "cstr \<Rightarrow> nat \<Rightarrow> cstr \<Rightarrow> nat option option" where
  "vlan_del_find vlan off [] = Some None"
| "vlan_del_find vlan off (c # p) =
     (if take (length vlan) (c # p) = vlan then Some (Some off)
      else if CHR '','' \<notin> set (c # p) then None
      else let skip = length (takeWhile (\<lambda>x. x \<noteq> CHR '','') (c # p)) + 1 in
        vlan_del_find vlan (off + skip) (drop skip (c # p)))"
  by pat_completeness auto
termination
  by (relation "measure (\<lambda>(v, off, p). length p)") auto

text \<open>
  \<open>apCfgVlanListSet\<close> on a pointer \<open>off\<close> bytes into the static buffer \<open>value\<close> of \<open>apCfgVlanListGet\<close>: the
  call inside it refills the buffer before the comparison, so the pointer sees the stored list.
\<close>

definition apCfgVlanListSet_static :: "nat \<Rightarrow> 'a setter" where
  "apCfgVlanListSet_static off s = do {
     (list, s) \<leftarrow> apCfgVlanListGet s;
     if drop off list \<noteq> list then write_var ''vlan_list'' (drop off list) [APL_VLAN] s
     else Some (A_OK, s)
   }"

text \<open>
  Where the entry is not the first, the code edits the static buffer (a zero byte, or a
  \<open>memmove\<close>) and passes its start on: the edit is lost when the buffer is refilled.
\<close>

definition apCfgVlanListDel :: "int \<Rightarrow> 'a setter" where
  "apCfgVlanListDel v s = do {
     vlan \<leftarrow> into_buf 5 (fmt_d v @ '','');
     (vlanList, s) \<leftarrow> apCfgVlanListGet s;
     pos \<leftarrow> vlan_del_find vlan 0 vlanList;
     (_, s) \<leftarrow> apCfgVlanListSet_static (if pos = Some 0 then length vlan else 0) s;
     Some (A_OK, s)
   }"

definition apCfgVlanListClear :: "'a setter" where
  "apCfgVlanListClear = write_var ''vlan_list'' [] []"

subsection \<open>IPv6 and DHCP switches\<close>

definition apCfgipv6modeGet :: "(int, 'a) getter" where
  "apCfgipv6modeGet = get_bool ''lan_ipv6''"

definition apCfgipv6modeSet :: "int \<Rightarrow> 'a setter" where
  "apCfgipv6modeSet v = if_changed apCfgipv6modeGet v
     (write_var ''lan_ipv6'' (onoff v) [if v = 0 then APL_REBOOT else APL_IPv6])"

definition apCfgDhcpEnableGet :: "(int, 'a) getter" where
  "apCfgDhcpEnableGet = get_bool ''lan_dhcpc''"

definition apCfgDhcpEnableSet :: "int \<Rightarrow> 'a setter" where
  "apCfgDhcpEnableSet v = if_changed apCfgDhcpEnableGet v (write_var ''lan_dhcpc'' (onoff v) [APL_IPv4])"

definition apCfgDhcp6EnableGet :: "(int, 'a) getter" where
  "apCfgDhcp6EnableGet = get_bool ''lan_dhcp6c''"

definition apCfgDhcp6EnableSet :: "int \<Rightarrow> 'a setter" where
  "apCfgDhcp6EnableSet v = if_changed apCfgDhcp6EnableGet v (write_var ''lan_dhcp6c'' (onoff v) [APL_IPv6])"

definition apCfgRadvdEnableGet :: "(int, 'a) getter" where
  "apCfgRadvdEnableGet = get_bool ''lan_radvd''"

definition apCfgRadvdEnableSet :: "int \<Rightarrow> 'a setter" where
  "apCfgRadvdEnableSet v = if_changed apCfgRadvdEnableGet v (write_var ''lan_radvd'' (onoff v) [APL_IPv6])"

definition apCfgDhcpServerEnableGet :: "(int, 'a) getter" where
  "apCfgDhcpServerEnableGet = get_bool ''lan_dhcps''"

definition apCfgDhcpServerEnableSet :: "int \<Rightarrow> 'a setter" where
  "apCfgDhcpServerEnableSet v = if_changed apCfgDhcpServerEnableGet v (write_var ''lan_dhcps'' (onoff v)
     [APL_IPv4])"

subsection \<open>Addresses\<close>

definition apCfgIpv6AddrGet :: "(cstr, 'a) getter" where
  "apCfgIpv6AddrGet = get_str (INET6_ADDRSTRLEN + 1) ''lan_ipaddrv6''"

definition apCfgGatewayv6AddrGet :: "(cstr, 'a) getter" where
  "apCfgGatewayv6AddrGet = get_str (INET6_ADDRSTRLEN + 1) ''lan_gatewayv6''"

definition apCfgNameSrv61Get :: "(cstr, 'a) getter" where
  "apCfgNameSrv61Get = get_str (INET6_ADDRSTRLEN + 1) ''lan_dnsv61''"

definition apCfgNameSrv62Get :: "(cstr, 'a) getter" where
  "apCfgNameSrv62Get = get_str (INET6_ADDRSTRLEN + 1) ''lan_dnsv62''"

definition apCfgIpAddrGet :: "(32 word, 'a) getter" where
  "apCfgIpAddrGet = get_ip ''lan_ipaddr''"

definition apCfgIpAddrSet :: "32 word \<Rightarrow> 'a setter" where
  "apCfgIpAddrSet v = if_changed apCfgIpAddrGet v (write_var ''lan_ipaddr'' (inet_ntoa v) [APL_IPv4,
     APL_BONJOUR])"

definition apCfgIpMaskGet :: "(32 word, 'a) getter" where
  "apCfgIpMaskGet = get_ip ''lan_netmask''"

definition apCfgIpMaskSet :: "32 word \<Rightarrow> 'a setter" where
  "apCfgIpMaskSet v = if_changed apCfgIpMaskGet v (write_var ''lan_netmask'' (inet_ntoa v) [APL_IPv4])"

definition apCfgGatewayAddrGet :: "(32 word, 'a) getter" where
  "apCfgGatewayAddrGet = get_ip ''lan_gateway''"

definition apCfgGatewayAddrSet :: "32 word \<Rightarrow> 'a setter" where
  "apCfgGatewayAddrSet v = if_changed apCfgGatewayAddrGet v (write_var ''lan_gateway'' (inet_ntoa v)
     [APL_IPv4])"

definition apCfgNameSrvGet :: "(cstr, 'a) getter" where
  "apCfgNameSrvGet = get_str (MAX_NAME_SERVER + 1) ''lan_dns1''"

definition apCfgNameSrvSet :: "cstr \<Rightarrow> 'a setter" where
  "apCfgNameSrvSet p = reject_if (length p < 0 \<or> MAX_NAME_SERVER < length p) (if_changed apCfgNameSrvGet
     p (write_var ''lan_dns1'' p [APL_IPv4]))"

definition apCfgNameSrv2Get :: "(cstr, 'a) getter" where
  "apCfgNameSrv2Get = get_str (MAX_NAME_SERVER + 1) ''lan_dns2''"

definition apCfgNameSrv2Set :: "cstr \<Rightarrow> 'a setter" where
  "apCfgNameSrv2Set p = reject_if (length p < 0 \<or> MAX_NAME_SERVER < length p) (if_changed
     apCfgNameSrv2Get p (write_var ''lan_dns2'' p [APL_IPv4]))"

subsection \<open>The DHCP server, domain and WINS\<close>

definition apCfgDhcpServerStartGet :: "(cstr, 'a) getter" where
  "apCfgDhcpServerStartGet = get_str (32 + 1) ''lan_dhcps_start''"

definition apCfgDhcpServerStartSet :: "cstr \<Rightarrow> 'a setter" where
  "apCfgDhcpServerStartSet p = if_changed apCfgDhcpServerStartGet p (write_var ''lan_dhcps_start'' p
     [APL_IPv4])"

definition apCfgDhcpServerEndGet :: "(cstr, 'a) getter" where
  "apCfgDhcpServerEndGet = get_str (32 + 1) ''lan_dhcps_end''"

definition apCfgDhcpServerEndSet :: "cstr \<Rightarrow> 'a setter" where
  "apCfgDhcpServerEndSet p = if_changed apCfgDhcpServerEndGet p (write_var ''lan_dhcps_end'' p [APL_IPv4])"

definition apCfgNameDomainSet :: "cstr \<Rightarrow> 'a setter" where
  "apCfgNameDomainSet p = reject_if (length p \<le> 0 \<or> CFG_MAX_DOMAINNMLEN < length p) (write_var
     ''sys_domain_suffix'' p [])"

definition apCfgNameDomainGet :: "(cstr, 'a) getter" where
  "apCfgNameDomainGet = get_str (CFG_MAX_DOMAINNMLEN + 1) ''sys_domain_suffix''"

definition apCfgCountryCodeGet :: "(int, 'a) getter" where
  "apCfgCountryCodeGet = get_atoi ''sys_domain''"

definition apCfgSecMaskGet :: "(int, 'a) getter" where
  "apCfgSecMaskGet = get_atoi ''secret_mask''"

definition apCfgSecMaskSet :: "int \<Rightarrow> 'a setter" where
  "apCfgSecMaskSet v = if_changed apCfgSecMaskGet v (write_int 10 ''secret_mask'' v [])"

definition apCfgWinsServerGet :: "(cstr, 'a) getter" where
  "apCfgWinsServerGet = get_str (MAX_WINS_SERVER + 1) ''wins_server''"

definition apCfgWinsServerSet :: "cstr \<Rightarrow> 'a setter" where
  "apCfgWinsServerSet p = reject_if (length p < 0 \<or> MAX_WINS_SERVER < length p) (if_changed
     apCfgWinsServerGet p (write_var ''wins_server'' p []))"

end
