(* ===== verification/Vlan_List.thy ===== *)
theory Vlan_List
  imports Apcfg_Lan
begin

text \<open>
  The list of VLANs (\<open>apCfgVlanListAdd\<close>, \<open>apCfgVlanListDel\<close>, \<open>apCfgVlanListGet\<close> of \<open>apcfg.c\<close>) against the
  list of identifiers it stands for: the variable \<open>vlan_list\<close> holds each identifier followed by a comma.
\<close>

subsection \<open>The text of a list of identifiers\<close>

definition vlan_entry :: "int \<Rightarrow> cstr" where
  "vlan_entry v = fmt_d v @ '',''"

definition enc_vlans :: "int list \<Rightarrow> cstr" where
  "enc_vlans vs = concat (map vlan_entry vs)"

lemma enc_vlans_simps [simp]: "enc_vlans [] = []" "enc_vlans (v # vs) = vlan_entry v @ enc_vlans vs"
  by (simp_all add: enc_vlans_def)

lemma enc_vlans_snoc: "enc_vlans (vs @ [v]) = enc_vlans vs @ vlan_entry v"
  by (simp add: enc_vlans_def)

lemma cstr_ok_vlans [simp]: "cstr_ok (enc_vlans vs)"
  by (induction vs) (simp_all add: vlan_entry_def)

lemma fmt_d_no_comma [simp]: "CHR '','' \<notin> set (fmt_d v)"
  using fmt_d_set [of "CHR '',''" v] by (auto simp: c_isdigit_def)

lemma takeWhile_entry [simp]:
  "takeWhile (\<lambda>c. c \<noteq> CHR '','') (vlan_entry v @ t) = fmt_d v"
  "dropWhile (\<lambda>c. c \<noteq> CHR '','') (vlan_entry v @ t) = CHR '','' # t"
proof -
  have "c \<noteq> CHR '',''" if "c \<in> set (fmt_d v)" for c using that fmt_d_no_comma by auto
  then show "takeWhile (\<lambda>c. c \<noteq> CHR '','') (vlan_entry v @ t) = fmt_d v"
    "dropWhile (\<lambda>c. c \<noteq> CHR '','') (vlan_entry v @ t) = CHR '','' # t"
    by (simp_all add: vlan_entry_def takeWhile_append2 dropWhile_append2)
qed

lemma take_entry: "take (length (vlan_entry v)) (vlan_entry w @ t) = vlan_entry v \<longleftrightarrow> w = v"
proof
  assume "take (length (vlan_entry v)) (vlan_entry w @ t) = vlan_entry v"
  then have "\<exists>r. vlan_entry w @ t = vlan_entry v @ r" by (metis append_take_drop_id)
  then obtain r where "vlan_entry w @ t = vlan_entry v @ r" by blast
  then have "takeWhile (\<lambda>c. c \<noteq> CHR '','') (vlan_entry w @ t) = takeWhile (\<lambda>c. c \<noteq> CHR '','') (vlan_entry v @ r)"
    by simp
  then show "w = v" by simp
qed simp

text \<open>\<open>strtok\<close> gives back the numbers.\<close>

lemma strtok_vlans: "strtok_all (CHR '','') (enc_vlans vs) = map fmt_d vs"
  "strtok_all (CHR '','') (CHR '','' # enc_vlans vs) = map fmt_d vs"
proof (induction vs)
  case (Cons v vs)
  have d: "dropWhile (\<lambda>c. c = CHR '','') (vlan_entry v @ enc_vlans vs) = vlan_entry v @ enc_vlans vs"
  proof -
    obtain c t where c: "fmt_d v = c # t" by (cases "fmt_d v") auto
    then have "c \<noteq> CHR '',''" using fmt_d_no_comma [of v] by auto
    then show ?thesis by (simp add: vlan_entry_def c)
  qed
  have ne: "vlan_entry v @ enc_vlans vs \<noteq> []" by (simp add: vlan_entry_def)
  {
    case 1
    show ?case using Cons.IH(2) d ne by (subst strtok_all.simps) (simp add: Let_def)
  next
    case 2
    show ?case using Cons.IH(2) d ne by (subst strtok_all.simps) (simp add: Let_def)
  }
qed (simp_all add: strtok_all.simps)

text \<open>The scan of the deletion stops at the first equal entry.\<close>

lemma vlan_del_find_enc:
  "vlan_del_find (vlan_entry v) off (enc_vlans vs) =
     Some (if v \<in> set vs then Some (off + length (enc_vlans (takeWhile (\<lambda>w. w \<noteq> v) vs))) else None)"
proof (induction vs arbitrary: off)
  case (Cons w vs)
  obtain c t where ct: "vlan_entry w @ enc_vlans vs = c # t" by (cases "vlan_entry w @ enc_vlans vs") (auto simp: vlan_entry_def)
  have "CHR '','' \<in> set (vlan_entry w @ enc_vlans vs)" by (simp add: vlan_entry_def)
  moreover have "length (takeWhile (\<lambda>x. x \<noteq> CHR '','') (vlan_entry w @ enc_vlans vs)) + 1 = length (vlan_entry w)"
    unfolding takeWhile_entry by (simp add: vlan_entry_def)
  ultimately have "vlan_del_find (vlan_entry v) off (vlan_entry w @ enc_vlans vs) =
      (if w = v then Some (Some off) else vlan_del_find (vlan_entry v) (off + length (vlan_entry w)) (enc_vlans vs))"
    using vlan_del_find.simps(2) [of "vlan_entry v" off c t, folded ct] take_entry [of v w "enc_vlans vs"]
    by (simp add: Let_def)
  then show ?case using Cons.IH by (simp add: algebra_simps)
qed simp

subsection \<open>The operations\<close>

lemma vlan_list_name [simp]: "var_name ''vlan_list''"
  by (simp add: var_name_def wf_name_def)

lemma reads_vlans:
  "cfg_inv s \<Longrightarrow> nvram_view s ''vlan_list'' = l \<Longrightarrow> length l \<le> 64 \<Longrightarrow> reads apCfgVlanListGet s l"
  unfolding apCfgVlanListGet_def by (metis reads_str vlan_list_name add.commute less_Suc_eq_le plus_1_eq_Suc)

lemma updates_vlans:
  assumes "cfg_inv s" "cstr_ok l" "length l < 4300" "length (nvram_view s ''vlan_list'') \<le> 64"
  shows "updates (apCfgVlanListSet l) s A_OK
     (if l \<noteq> nvram_view s ''vlan_list'' then (nvram_view s)(''vlan_list'' := l) else nvram_view s)
     (if l \<noteq> nvram_view s ''vlan_list'' then [APL_VLAN] else [])"
  unfolding apCfgVlanListSet_def apCfgVlanListGet_def
  by (rule updates_str) (use assms in \<open>simp_all add: client_value_def\<close>)

lemma vlan_numbers:
  "\<forall>v \<in> set vs. int_range v \<Longrightarrow> atoi ` set (strtok_all (CHR '','') (enc_vlans vs)) = set vs"
  by (force simp: strtok_vlans image_image)

text \<open>Adding an identifier to the list: outside 1 to 4094, or present, it is refused with nothing changed; a
  new one is appended and the VLANs are re-applied, when the text of the new list has at most 7
  characters; any longer list overflows the array of \<open>MAX_VLAN_LIST\<close> (8) bytes it is formatted in.
\<close>

theorem vlan_list_add:
  assumes "cfg_inv s" and "nvram_view s ''vlan_list'' = enc_vlans vs" and "length (enc_vlans vs) \<le> 64"
    and "\<forall>v \<in> set vs. int_range v"
  shows "if v < 1 \<or> 4094 < v then apCfgVlanListAdd v s = Some (A_ERROR, s)
    else if v \<in> set vs then \<exists>s'. apCfgVlanListAdd v s = Some (A_ERROR, s') \<and> nvram_view s' = nvram_view s \<and> pending s' = pending s
    else if length (enc_vlans (vs @ [v])) < 8
    then \<exists>s'. apCfgVlanListAdd v s = Some (A_OK, s') \<and>
      nvram_view s' = (nvram_view s)(''vlan_list'' := enc_vlans (vs @ [v])) \<and> pending s' = pending s @ [APL_VLAN]
    else apCfgVlanListAdd v s = None"
proof -
  obtain s1 where s1: "apCfgVlanListGet s = Some (enc_vlans vs, s1)" "cfg_inv s1" "nvram_view s1 = nvram_view s"
    "pending s1 = pending s"
    using reads_vlans [OF assms(1,2,3)] unfolding reads_def by blast
  have "nvram_view s1 ''vlan_list'' = enc_vlans vs" using s1(3) assms(2) by simp
  then obtain s2 where s2: "apCfgVlanListGet s1 = Some (enc_vlans vs, s2)" "cfg_inv s2" "nvram_view s2 = nvram_view s"
    "pending s2 = pending s"
    using reads_vlans [OF s1(2) _ assms(3)] s1(3,4) unfolding reads_def by auto
  have new: "enc_vlans (vs @ [v]) \<noteq> enc_vlans vs" by (simp add: enc_vlans_snoc vlan_entry_def)
  show ?thesis
  proof (cases "length (enc_vlans (vs @ [v])) < 8")
    case True
    then obtain s3 where "apCfgVlanListSet (enc_vlans (vs @ [v])) s2 = Some (A_OK, s3)"
      "nvram_view s3 = (nvram_view s)(''vlan_list'' := enc_vlans (vs @ [v]))" "pending s3 = pending s @ [APL_VLAN]"
      using updates_vlans [OF s2(2), of "enc_vlans (vs @ [v])"] s2(3,4) assms(2,3) new
      unfolding updates_def by auto
    then show ?thesis
      using True s1 s2 vlan_numbers [OF assms(4)]
      by (simp add: apCfgVlanListAdd_def enc_vlans_snoc vlan_entry_def)
  next
    case False
    then show ?thesis
      using s1 s2 vlan_numbers [OF assms(4)]
      by (simp add: apCfgVlanListAdd_def enc_vlans_snoc vlan_entry_def)
  qed
qed

text \<open>Deleting an identifier of at most three digits always succeeds, but removes it only where it is the
  first of the list: any other deletion is made in the static buffer of the getter, which the comparison
  inside \<open>apCfgVlanListSet\<close> refills, and nothing is stored. An identifier of four digits overflows the
  array the entry is formatted in.
\<close>

theorem vlan_list_del:
  assumes "cfg_inv s" and "nvram_view s ''vlan_list'' = enc_vlans vs" and "length (enc_vlans vs) \<le> 64"
  shows "if length (fmt_d v) \<le> 3
    then \<exists>s'. apCfgVlanListDel v s = Some (A_OK, s') \<and> nvram_view s' = (nvram_view s)(''vlan_list'' :=
      enc_vlans (case vs of w # ws \<Rightarrow> if w = v then ws else vs | [] \<Rightarrow> []))
    else apCfgVlanListDel v s = None"
proof (cases "length (fmt_d v) \<le> 3")
  case True
  obtain s1 where s1: "apCfgVlanListGet s = Some (enc_vlans vs, s1)" "cfg_inv s1" "nvram_view s1 = nvram_view s"
    using reads_vlans [OF assms(1,2,3)] unfolding reads_def by blast
  then obtain s2 where s2: "apCfgVlanListGet s1 = Some (enc_vlans vs, s2)" "cfg_inv s2" "nvram_view s2 = nvram_view s"
    using reads_vlans [OF s1(2) _ assms(3)] assms(2) unfolding reads_def by auto
  have find: "vlan_del_find (fmt_d v @ '','') 0 (enc_vlans vs) =
      Some (if v \<in> set vs then Some (length (enc_vlans (takeWhile (\<lambda>w. w \<noteq> v) vs))) else None)"
    using vlan_del_find_enc [of v 0 vs] by (simp add: vlan_entry_def)
  show ?thesis
  proof (cases vs)
    case Nil
    then show ?thesis using True s1 s2 find assms(2)
      by (auto simp: apCfgVlanListDel_def apCfgVlanListSet_static_def fun_upd_idem)
  next
    case (Cons w ws)
    show ?thesis
    proof (cases "w = v")
      case False
      then have "length (enc_vlans (takeWhile (\<lambda>w. w \<noteq> v) vs)) \<noteq> 0" by (simp add: Cons vlan_entry_def)
      then show ?thesis using True s1 s2 find assms(2) False
        by (auto simp: apCfgVlanListDel_def apCfgVlanListSet_static_def Cons fun_upd_idem)
    next
      case eq: True
      have ok: "client_value (enc_vlans ws)" using assms(3) by (simp add: client_value_def Cons)
      obtain s3 where s3: "write_var ''vlan_list'' (enc_vlans ws) [APL_VLAN] s2 = Some (A_OK, s3)"
        "nvram_view s3 = (nvram_view s)(''vlan_list'' := enc_vlans ws)"
        using updates_write_var [OF s2(2) vlan_list_name ok, of "[APL_VLAN]"] s2(3) unfolding updates_def by auto
      have "enc_vlans ws \<noteq> vlan_entry v @ enc_vlans ws" by (simp add: vlan_entry_def)
      moreover have "drop (Suc (length (fmt_d v))) (vlan_entry v @ enc_vlans ws) = enc_vlans ws"
        by (simp add: vlan_entry_def)
      ultimately show ?thesis using True s1 s2 s3 find eq
        by (simp add: apCfgVlanListDel_def apCfgVlanListSet_static_def Cons)
    qed
  qed
qed (simp add: apCfgVlanListDel_def)

lemma ex_vlans_text: "enc_vlans [10, 20] = ''10,20,''" "length (fmt_d 20) = 2"
  by code_simp+

lemma ex_vlans:
  "cfg_inv (ex_cfg [(''vlan_list'', ''10,20,'')] [])"
  "nvram_view (ex_cfg [(''vlan_list'', ''10,20,'')] []) ''vlan_list'' = enc_vlans [10, 20]"
  by (simp_all add: ex_cfg_inv ex_view wf_name_def ex_vlans_text del: enc_vlans_simps)

lemma vlan_list_add_witness:
  "apCfgVlanListAdd 30 (ex_cfg [(''vlan_list'', ''10,20,'')] []) = None"
  using vlan_list_add [OF ex_vlans, of 30]
  by (simp add: vlan_entry_def fmt_d_def dec_digits.simps int_range_def INT_MIN_def INT_MAX_def)

lemma vlan_list_del_witness:
  "\<exists>s'. apCfgVlanListDel 20 (ex_cfg [(''vlan_list'', ''10,20,'')] []) = Some (A_OK, s') \<and>
     nvram_view s' ''vlan_list'' = ''10,20,''"
  using vlan_list_del [OF ex_vlans, of 20]
  by (auto simp: ex_vlans_text simp del: enc_vlans_simps)

end
