(* ===== verification/Apcfg_Services.thy ===== *)
theory Apcfg_Services
  imports Apcfg_Base
begin

text \<open>
  Settings of the services: time, FTP, spanning tree, the Ethernet port, rogue detection, logging, mail, 802.1X
  supplicant, web, SSH, telnet, SNMP (\<open>src/src/apps/apps_sc/libs/libapcfg/apcfg.c\<close>, in the order of the
  file).
\<close>

subsection \<open>Time\<close>

definition apCfgTimeModeGet :: "(int, 'a) getter" where
  "apCfgTimeModeGet = get_bool ''tod_enable''"

definition apCfgTimeModeSet :: "int \<Rightarrow> 'a setter" where
  "apCfgTimeModeSet v = if_changed apCfgTimeModeGet v (write_int 10 ''tod_enable'' v [APL_NTP])"

definition apCfgTimeGet :: "(int, 'a) getter" where
  "apCfgTimeGet s = Some (0, s)"

text \<open>The value is only formatted; the body of the assignment is commented out.\<close>

definition apCfgTimeSet :: "int \<Rightarrow> 'a setter" where
  "apCfgTimeSet v = if_changed apCfgTimeGet v (\<lambda>s. do { _ \<leftarrow> into_buf 10 (fmt_d v); Some (A_OK, s) })"

definition apCfgTimeMonGet :: "(int, 'a) getter" where
  "apCfgTimeMonGet = get_atoi ''tod_mon''"

definition apCfgTimeMonSet :: "int \<Rightarrow> 'a setter" where
  "apCfgTimeMonSet v = if_changed apCfgTimeMonGet v (write_int 10 ''tod_mon'' v [APL_NTP])"

definition apCfgTimeDayGet :: "(int, 'a) getter" where
  "apCfgTimeDayGet = get_atoi ''tod_day''"

definition apCfgTimeDaySet :: "int \<Rightarrow> 'a setter" where
  "apCfgTimeDaySet v = if_changed apCfgTimeDayGet v (write_int 10 ''tod_day'' v [APL_NTP])"

definition apCfgTimeYearGet :: "(int, 'a) getter" where
  "apCfgTimeYearGet = get_atoi ''tod_year''"

definition apCfgTimeYearSet :: "int \<Rightarrow> 'a setter" where
  "apCfgTimeYearSet v = if_changed apCfgTimeYearGet v (write_int 10 ''tod_year'' v [APL_NTP])"

definition apCfgTimeHourGet :: "(int, 'a) getter" where
  "apCfgTimeHourGet = get_atoi ''tod_hour''"

definition apCfgTimeHourSet :: "int \<Rightarrow> 'a setter" where
  "apCfgTimeHourSet v = if_changed apCfgTimeHourGet v (write_int 10 ''tod_hour'' v [APL_NTP])"

definition apCfgTimeMinGet :: "(int, 'a) getter" where
  "apCfgTimeMinGet = get_atoi ''tod_min''"

definition apCfgTimeMinSet :: "int \<Rightarrow> 'a setter" where
  "apCfgTimeMinSet v = if_changed apCfgTimeMinGet v (write_int 10 ''tod_min'' v [APL_NTP])"

subsection \<open>File transfer and the bridge\<close>

definition apCfgTimeSecGet :: "(int, 'a) getter" where
  "apCfgTimeSecGet = get_atoi ''tod_sec''"

definition apCfgTimeSecSet :: "int \<Rightarrow> 'a setter" where
  "apCfgTimeSecSet v = if_changed apCfgTimeSecGet v (write_int 10 ''tod_sec'' v [APL_NTP])"

definition apCfgNtpModeGet :: "(int, 'a) getter" where
  "apCfgNtpModeGet = get_atoi ''ntp_mode''"

definition apCfgNtpModeSet :: "int \<Rightarrow> 'a setter" where
  "apCfgNtpModeSet v = if_changed apCfgNtpModeGet v (write_int 10 ''ntp_mode'' v [APL_NTP])"

definition apCfgNtpServerGet :: "(cstr, 'a) getter" where
  "apCfgNtpServerGet = get_str (MAX_NTP_SERVER + 1) ''ntp_server''"

definition apCfgNtpServerSet :: "cstr \<Rightarrow> 'a setter" where
  "apCfgNtpServerSet p = reject_if (length p < 0 \<or> MAX_NTP_SERVER < length p) (if_changed
     apCfgNtpServerGet p (write_var ''ntp_server'' p [APL_NTP]))"

definition apCfgTimezoneOffsetGet :: "(cstr, 'a) getter" where
  "apCfgTimezoneOffsetGet = get_str (CFG_TIME_ZONE_LEN + 1) ''timezone_diff''"

definition apCfgTimezoneOffsetSet :: "cstr \<Rightarrow> 'a setter" where
  "apCfgTimezoneOffsetSet p = reject_if (length p < 0 \<or> CFG_TIME_ZONE_LEN < length p) (if_changed
     apCfgTimezoneOffsetGet p (write_var ''timezone_diff'' p [APL_NTP]))"

definition apCfgDaylightSavingGet :: "(int, 'a) getter" where
  "apCfgDaylightSavingGet = get_bool ''timezone_daylightsaving''"

definition apCfgDaylightSavingSet :: "int \<Rightarrow> 'a setter" where
  "apCfgDaylightSavingSet v = if_changed apCfgDaylightSavingGet v (write_var ''timezone_daylightsaving''
     (onoff v) [APL_NTP])"

definition apCfgFtpServerGet :: "(cstr, 'a) getter" where
  "apCfgFtpServerGet = get_str (MAX_FTP_SERVER + 1) ''ftp_server''"

definition apCfgFtpServerSet :: "cstr \<Rightarrow> 'a setter" where
  "apCfgFtpServerSet p = reject_if (length p < 0 \<or> MAX_FTP_SERVER < length p) (if_changed
     apCfgFtpServerGet p (write_var ''ftp_server'' p [APL_FTP]))"

definition apCfgFtpPathGet :: "(cstr, 'a) getter" where
  "apCfgFtpPathGet = get_str (128 + 1) ''ftp_path''"

definition apCfgFtpPathSet :: "cstr \<Rightarrow> 'a setter" where
  "apCfgFtpPathSet p = if_changed apCfgFtpPathGet p (write_var ''ftp_path'' p [APL_FTP])"

definition apCfgFtpLoginGet :: "(cstr, 'a) getter" where
  "apCfgFtpLoginGet = get_str (CFG_MAX_FTP_LOGINNAME + 1) ''ftp_login_name''"

definition apCfgFtpLoginSet :: "cstr \<Rightarrow> 'a setter" where
  "apCfgFtpLoginSet p = reject_if (CFG_MAX_FTP_LOGINNAME < length p) (if_changed apCfgFtpLoginGet p
     (write_var ''ftp_login_name'' p [APL_FTP]))"

definition apCfgFtpPasswdGet :: "(cstr, 'a) getter" where
  "apCfgFtpPasswdGet = get_str (CFG_MAX_FTP_PASSWORD + 1) ''ftp_password''"

definition apCfgFtpPasswdSet :: "cstr \<Rightarrow> 'a setter" where
  "apCfgFtpPasswdSet p = reject_if (CFG_MAX_FTP_PASSWORD < length p) (if_changed apCfgFtpPasswdGet p
     (write_var ''ftp_password'' p [APL_FTP]))"

definition apCfglltdGet :: "(int, 'a) getter" where
  "apCfglltdGet = get_bool ''lltd''"

definition apCfglltdSet :: "int \<Rightarrow> 'a setter" where
  "apCfglltdSet v = if_changed apCfglltdGet v (write_var ''lltd'' (onoff v) [APL_LLTD])"

definition apCfgStpGet :: "(int, 'a) getter" where
  "apCfgStpGet = get_bool ''stp''"

definition apCfgStpSet :: "int \<Rightarrow> 'a setter" where
  "apCfgStpSet v = if_changed apCfgStpGet v (write_var ''stp'' (onoff v) [APL_STP])"

subsection \<open>The Ethernet port\<close>

definition apCfgBonjourGet :: "(int, 'a) getter" where
  "apCfgBonjourGet = get_bool ''bonjour_enable''"

definition apCfgBonjourSet :: "int \<Rightarrow> 'a setter" where
  "apCfgBonjourSet v = if_changed apCfgBonjourGet v (write_var ''bonjour_enable'' (onoff v) [APL_BONJOUR])"

definition apCfgForce100mGet :: "(int, 'a) getter" where
  "apCfgForce100mGet = get_bool ''lan_force100m''"

definition apCfgForce100mSet :: "int \<Rightarrow> 'a setter" where
  "apCfgForce100mSet v s = do {
     (_, s) \<leftarrow> if_changed apCfgForce100mGet v (write_var ''lan_force100m'' (onoff v) []) s;
     s \<leftarrow> apl_set_flag APL_FORCE100M s;
     Some (A_OK, s)
   }"

definition apCfgAutonegoGet :: "(int, 'a) getter" where
  "apCfgAutonegoGet s = do {
     (a, s) \<leftarrow> get_atoi ''lan_autonego'' s;
     Some (if a = 1 then 1 else 0, s)
   }"

definition apCfgAutonegoSet :: "int \<Rightarrow> 'a setter" where
  "apCfgAutonegoSet v = if_changed apCfgAutonegoGet v
     (write_var ''lan_autonego'' (if v = 0 then ''0'' else ''1'') [APL_FORCE100M])"

definition apCfgPortspeedGet :: "(int, 'a) getter" where
  "apCfgPortspeedGet s = do {
     (a, s) \<leftarrow> get_atoi ''lan_portspeed_define'' s;
     Some (if a = 1 then 1 else if a = 2 then 2 else 0, s)
   }"

definition apCfgPortspeedSet :: "int \<Rightarrow> 'a setter" where
  "apCfgPortspeedSet v = if_changed apCfgPortspeedGet v
     (if v = 0 then and_then (write_var ''lan_portspeed_define'' ''0'' []) (write_var ''eth_data_rate'' ''10Mbps'' [APL_FORCE100M])
      else if v = 1 then and_then (write_var ''lan_portspeed_define'' ''1'' []) (write_var ''eth_data_rate'' ''100Mbps'' [APL_FORCE100M])
      else and_then (write_var ''eth_data_rate'' ''1000Mbps'' []) (write_var ''lan_portspeed_define'' ''2'' [APL_FORCE100M]))"

definition apCfgDuplexmodeGet :: "(int, 'a) getter" where
  "apCfgDuplexmodeGet s = do {
     (a, s) \<leftarrow> get_atoi ''lan_duplexmode'' s;
     Some (if a = 1 then 1 else 0, s)
   }"

definition apCfgDuplexmodeSet :: "int \<Rightarrow> 'a setter" where
  "apCfgDuplexmodeSet v = if_changed apCfgDuplexmodeGet v
     (if v = 0 then write_var ''lan_duplexmode'' ''0'' [APL_FORCE100M]
      else if v = 1 then write_var ''lan_duplexmode'' ''1'' [APL_FORCE100M]
      else (\<lambda>s. do { s \<leftarrow> apl_set_flag APL_FORCE100M s; Some (A_OK, s) }))"

subsection \<open>Redirection and rogue access points\<close>

definition apCfgRedirectModeGet :: "(int, 'a) getter" where
  "apCfgRedirectModeGet = get_bool ''rediret_mode''"

definition apCfgRedirectModeSet :: "int \<Rightarrow> 'a setter" where
  "apCfgRedirectModeSet v = if_changed apCfgRedirectModeGet v (write_var ''rediret_mode'' (onoff v)
     [APL_HTTPREDIRECT])"

definition apCfgRedirectUrlGet :: "(cstr, 'a) getter" where
  "apCfgRedirectUrlGet = get_str (128 + 1) ''rediret_url''"

definition apCfgRedirectUrlSet :: "cstr \<Rightarrow> 'a setter" where
  "apCfgRedirectUrlSet url = reject_if (128 < length url) (if_changed apCfgRedirectUrlGet url (write_var
     ''rediret_url'' url [APL_HTTPREDIRECT]))"

definition apCfgFactoryRestore :: "'a setter" where
  "apCfgFactoryRestore = write_var ''restore_defaults'' ''1'' []"

definition scApCfgRogueDetectGet :: "(int, 'a) getter" where
  "scApCfgRogueDetectGet = get_bool ''rogue_mode''"

definition scApCfgRogueDetectSet :: "int \<Rightarrow> 'a setter" where
  "scApCfgRogueDetectSet v = if_changed scApCfgRogueDetectGet v (write_var ''rogue_mode'' (onoff v)
     [APL_ROGUEAP])"

definition scApCfgRogueDetectIntGet :: "(int, 'a) getter" where
  "scApCfgRogueDetectIntGet = get_atoi ''rogue_interval''"

definition scApCfgRogueDetectIntSet :: "int \<Rightarrow> 'a setter" where
  "scApCfgRogueDetectIntSet v s =
     (if 3 \<le> v \<and> v \<le> 99 then if_changed scApCfgRogueDetectIntGet v (write_int 10 ''rogue_interval'' v [APL_ROGUEAP]) s
      else Some (A_EINVAL, s))"

definition scApCfgRogueApTypeGet :: "(int, 'a) getter" where
  "scApCfgRogueApTypeGet = get_atoi ''rogue_type''"

definition scApCfgRogueApTypeSet :: "int \<Rightarrow> 'a setter" where
  "scApCfgRogueApTypeSet v s =
     (if 0 \<le> v \<and> v \<le> 3 then if_changed scApCfgRogueApTypeGet v (write_int 10 ''rogue_type'' v [APL_ROGUEAP]) s
      else Some (A_EINVAL, s))"

definition scApCfgRogueSendLogGet :: "(int, 'a) getter" where
  "scApCfgRogueSendLogGet = get_atoi ''rogue_sendLog''"

definition scApCfgRogueSendLogSet :: "int \<Rightarrow> 'a setter" where
  "scApCfgRogueSendLogSet v s =
     (if 0 \<le> v \<and> v \<le> 7 then if_changed scApCfgRogueSendLogGet v (write_int 10 ''rogue_sendLog'' v [APL_ROGUEAP]) s
      else Some (A_EINVAL, s))"

definition scApCfgLegalApListGet :: "(cstr, 'a) getter" where
  "scApCfgLegalApListGet = get_str (MAX_LEGALAPLIST + 1) ''legal_ap_list''"

definition scApCfgLegalApListSet :: "cstr \<Rightarrow> 'a setter" where
  "scApCfgLegalApListSet p = reject_if (length p < 0 \<or> MAX_LEGALAPLIST < length p) (if_changed
     scApCfgLegalApListGet p (write_var ''legal_ap_list'' p [APL_ROGUEAP]))"

text \<open>The array is filled before its size is tested.\<close>

definition scApCfgLegalApListAdd :: "cstr \<Rightarrow> 'a setter" where
  "scApCfgLegalApListAdd pAddr s = do {
     (pList, s) \<leftarrow> scApCfgLegalApListGet s;
     if c_strstr pList pAddr \<noteq> None then Some (A_ERROR, s)
     else do {
       newList \<leftarrow> into_buf MAX_LEGALAPLIST (pList @ pAddr @ '','');
       if length newList < MAX_LEGALAPLIST then do {
         (_, s) \<leftarrow> scApCfgLegalApListSet newList s;
         Some (A_OK, s)
       } else Some (A_ERROR, s)
     }
   }"

definition scApCfgLegalApListDel :: "cstr \<Rightarrow> 'a setter" where
  "scApCfgLegalApListDel pAddr s = do {
     (pList, s) \<leftarrow> scApCfgLegalApListGet s;
     case c_strstr pList pAddr of
       None \<Rightarrow> Some (A_ERROR, s)
     | Some off \<Rightarrow> do {
         let pValue = drop off pList;
         newList \<leftarrow>
           (if off + 13 < length pList then
              if CHR '','' \<in> set pValue
              then into_buf MAX_LEGALAPLIST (take off pList @ tl (dropWhile (\<lambda>c. c \<noteq> CHR '','') pValue))
              else None
            else into_buf MAX_LEGALAPLIST (take off pList));
         (_, s) \<leftarrow> scApCfgLegalApListSet newList s;
         Some (A_OK, s)
       }
   }"

definition scApCfgLegalApListClear :: "'a setter" where
  "scApCfgLegalApListClear = write_var ''legal_ap_list'' [] [APL_ROGUEAP]"

definition apCfgNativeVlanIdGet :: "(int, 'a) getter" where
  "apCfgNativeVlanIdGet = get_atoi ''vlan_default''"

definition apCfgNativeVlanIdSet :: "int \<Rightarrow> 'a setter" where
  "apCfgNativeVlanIdSet v = reject_if (v < VLAN_TAG_MIN \<or> VLAN_TAG_MAX < v) (if_changed
     apCfgNativeVlanIdGet v (write_int 10 ''vlan_default'' v [APL_VLAN]))"

subsection \<open>Logging and mail\<close>

definition apCfgNativeVlanTagGet :: "(int, 'a) getter" where
  "apCfgNativeVlanTagGet = get_bool ''vlan_default_tag''"

definition apCfgNativeVlanTagSet :: "int \<Rightarrow> 'a setter" where
  "apCfgNativeVlanTagSet v = if_changed apCfgNativeVlanTagGet v (write_var ''vlan_default_tag'' (onoff v)
     [APL_VLAN])"

definition apCfgWdsVlanTagGet :: "(int, 'a) getter" where
  "apCfgWdsVlanTagGet = get_bool ''vlan_wds_tag''"

definition apCfgWdsVlanTagSet :: "int \<Rightarrow> 'a setter" where
  "apCfgWdsVlanTagSet v = if_changed apCfgWdsVlanTagGet v (write_var ''vlan_wds_tag'' (onoff v) [APL_VLAN])"

definition apCfgManagementVlanIdGet :: "(int, 'a) getter" where
  "apCfgManagementVlanIdGet = get_atoi ''vlan_management''"

definition apCfgManagementVlanIdSet :: "int \<Rightarrow> 'a setter" where
  "apCfgManagementVlanIdSet v = reject_if (v < VLAN_TAG_MIN \<or> VLAN_TAG_MAX < v) (if_changed
     apCfgManagementVlanIdGet v (write_int 10 ''vlan_management'' v [APL_VLAN]))"

definition apCfgsysLogEnabledGet :: "(int, 'a) getter" where
  "apCfgsysLogEnabledGet = get_bool ''syslog_mode''"

definition apCfgsysLogEnabledSet :: "int \<Rightarrow> 'a setter" where
  "apCfgsysLogEnabledSet v = if_changed apCfgsysLogEnabledGet v (write_var ''syslog_mode'' (onoff v)
     [APL_LOG])"

definition apCfgsysLogBroadcastGet :: "(int, 'a) getter" where
  "apCfgsysLogBroadcastGet = get_bool ''syslog_broadcast''"

definition apCfgsysLogBroadcastSet :: "int \<Rightarrow> 'a setter" where
  "apCfgsysLogBroadcastSet v = if_changed apCfgsysLogBroadcastGet v (write_var ''syslog_broadcast'' (onoff
     v) [APL_LOG])"

definition apCfgsysLogSeverityGet :: "(int, 'a) getter" where
  "apCfgsysLogSeverityGet = get_atoi ''syslog_severity''"

definition apCfgsysLogSeveritySet :: "int \<Rightarrow> 'a setter" where
  "apCfgsysLogSeveritySet v = reject_if (v < 1 \<or> 6 < v) (if_changed apCfgsysLogSeverityGet v (write_int
     2 ''syslog_severity'' v [APL_LOG]))"

definition apCfgsysLogServerGet :: "(cstr, 'a) getter" where
  "apCfgsysLogServerGet = get_str (MAX_SYSLOG_SERVER + 1) ''syslog_server''"

definition apCfgsysLogServerSet :: "cstr \<Rightarrow> 'a setter" where
  "apCfgsysLogServerSet p = reject_if (length p < 0 \<or> MAX_SYSLOG_SERVER < length p) (if_changed
     apCfgsysLogServerGet p (write_var ''syslog_server'' p [APL_LOG]))"

definition apCfgsysLogServerPortGet :: "(int, 'a) getter" where
  "apCfgsysLogServerPortGet = get_atoi ''syslog_port''"

definition apCfgsysLogServerPortSet :: "int \<Rightarrow> 'a setter" where
  "apCfgsysLogServerPortSet v = reject_if (v < 1 \<or> 65534 < v) (write_int 6 ''syslog_port'' v [])"

definition apCfgDeauthGet :: "(int, 'a) getter" where
  "apCfgDeauthGet = get_bool ''log_login_fail''"

definition apCfgDeauthSet :: "int \<Rightarrow> 'a setter" where
  "apCfgDeauthSet v = if_changed apCfgDeauthGet v (write_var ''log_login_fail'' (onoff v) [APL_LOG])"

definition apCfgAuthLoginGet :: "(int, 'a) getter" where
  "apCfgAuthLoginGet = get_bool ''log_login_success''"

definition apCfgAuthLoginSet :: "int \<Rightarrow> 'a setter" where
  "apCfgAuthLoginSet v = if_changed apCfgAuthLoginGet v (write_var ''log_login_success'' (onoff v)
     [APL_LOG])"

definition apCfgChangeSysFucGet :: "(int, 'a) getter" where
  "apCfgChangeSysFucGet = get_bool ''log_system_errors''"

definition apCfgChangeSysFucSet :: "int \<Rightarrow> 'a setter" where
  "apCfgChangeSysFucSet v = if_changed apCfgChangeSysFucGet v (write_var ''log_system_errors'' (onoff v)
     [APL_LOG])"

definition apCfgChangeCfgGet :: "(int, 'a) getter" where
  "apCfgChangeCfgGet = get_bool ''log_conf_change''"

definition apCfgChangeCfgSet :: "int \<Rightarrow> 'a setter" where
  "apCfgChangeCfgSet v = if_changed apCfgChangeCfgGet v (write_var ''log_conf_change'' (onoff v) [APL_LOG])"

definition apCfgemailAlertsEnabledGet :: "(int, 'a) getter" where
  "apCfgemailAlertsEnabledGet = get_bool ''email_alert''"

definition apCfgemailAlertsEnabledSet :: "int \<Rightarrow> 'a setter" where
  "apCfgemailAlertsEnabledSet v = if_changed apCfgemailAlertsEnabledGet v (write_var ''email_alert'' (onoff
     v) [APL_LOG])"

definition apCfgemailAlertsQlenGet :: "(int, 'a) getter" where
  "apCfgemailAlertsQlenGet = get_atoi ''email_queue_length''"

definition scApCfgemailAlertsQlenSet :: "int \<Rightarrow> 'a setter" where
  "scApCfgemailAlertsQlenSet v = reject_if (v < MIN_ALERT_QLEN \<or> MAX_ALERT_QLEN < v) (if_changed
     apCfgemailAlertsQlenGet v (write_int 6 ''email_queue_length'' v [APL_LOG]))"

definition scApCfgemailAlertsIntervalGet :: "(int, 'a) getter" where
  "scApCfgemailAlertsIntervalGet = get_atoi ''email_send_period''"

definition scApCfgemailAlertsIntervalSet :: "int \<Rightarrow> 'a setter" where
  "scApCfgemailAlertsIntervalSet v = reject_if (v < MIN_ALERT_INTERVAL \<or> MAX_ALERT_INTERVAL < v)
     (if_changed scApCfgemailAlertsIntervalGet v (write_int 6 ''email_send_period'' v [APL_LOG]))"

definition apCfgsmtpMailServerGet :: "(cstr, 'a) getter" where
  "apCfgsmtpMailServerGet = get_str (MAX_SMTP_SERVER + 1) ''email_alert_server''"

subsection \<open>The 802.1X supplicant\<close>

definition apCfgsmtpMailServerSet :: "cstr \<Rightarrow> 'a setter" where
  "apCfgsmtpMailServerSet p = reject_if (length p < 0 \<or> MAX_SMTP_SERVER < length p) (if_changed
     apCfgsmtpMailServerGet p (write_var ''email_alert_server'' p [APL_LOG]))"

definition apCfgemailAddrForLogGet :: "(cstr, 'a) getter" where
  "apCfgemailAddrForLogGet = get_str (MAX_MAIL_SERVER + 1) ''email_addr''"

definition apCfgemailAddrForLogSet :: "cstr \<Rightarrow> 'a setter" where
  "apCfgemailAddrForLogSet p = reject_if (length p < 0 \<or> MAX_MAIL_SERVER < length p) (if_changed
     apCfgemailAddrForLogGet p (write_var ''email_addr'' p [APL_LOG]))"

definition apCfgemailAddrReturnGet :: "(cstr, 'a) getter" where
  "apCfgemailAddrReturnGet = get_str (MAX_MAIL_SERVER + 1) ''emailAddrReturn''"

definition apCfgemailAddrReturnSet :: "cstr \<Rightarrow> 'a setter" where
  "apCfgemailAddrReturnSet p = reject_if (length p < 0 \<or> MAX_MAIL_SERVER < length p) (if_changed
     apCfgemailAddrReturnGet p (write_var ''emailAddrReturn'' p [APL_LOG]))"

definition scApCfgDot1xSuppEnableGet :: "(int, 'a) getter" where
  "scApCfgDot1xSuppEnableGet = get_bool ''eth_supp_mode''"

definition scApCfgDot1xSuppEnableSet :: "int \<Rightarrow> 'a setter" where
  "scApCfgDot1xSuppEnableSet v = if_changed scApCfgDot1xSuppEnableGet v (write_var ''eth_supp_mode'' (onoff
     v) [APL_ETHSUP])"

definition scApCfgDot1xSuppMacEnableGet :: "(int, 'a) getter" where
  "scApCfgDot1xSuppMacEnableGet = get_bool ''eth_supp_mac''"

definition scApCfgDot1xSuppMacEnableSet :: "int \<Rightarrow> 'a setter" where
  "scApCfgDot1xSuppMacEnableSet v = if_changed scApCfgDot1xSuppMacEnableGet v (write_var ''eth_supp_mac''
     (onoff v) [APL_ETHSUP])"

definition scApCfgDot1xSuppUsernameGet :: "(cstr, 'a) getter" where
  "scApCfgDot1xSuppUsernameGet = get_str (MAX_DOT1XSUPP_NAME + 1) ''eth_supp_user''"

definition scApCfgDot1xSuppUsernameSet :: "cstr \<Rightarrow> 'a setter" where
  "scApCfgDot1xSuppUsernameSet p = reject_if (length p < 0 \<or> MAX_DOT1XSUPP_NAME < length p) (if_changed
     scApCfgDot1xSuppUsernameGet p (write_var ''eth_supp_user'' p [APL_ETHSUP]))"

definition scApCfgDot1xSuppPasswordGet :: "(cstr, 'a) getter" where
  "scApCfgDot1xSuppPasswordGet = get_str (MAX_DOT1XSUPP_PASSWD + 1) ''eth_supp_pwd''"

definition scApCfgDot1xSuppPasswordSet :: "cstr \<Rightarrow> 'a setter" where
  "scApCfgDot1xSuppPasswordSet p = reject_if (length p < 4 \<or> MAX_DOT1XSUPP_PASSWD < length p)
     (if_changed scApCfgDot1xSuppPasswordGet p (write_var ''eth_supp_pwd'' p [APL_ETHSUP]))"

subsection \<open>Web, SSH and telnet\<close>

definition apCfgHttpModeGet :: "(int, 'a) getter" where
  "apCfgHttpModeGet = get_bool ''http_mode''"

definition apCfgHttpModeSet :: "int \<Rightarrow> 'a setter" where
  "apCfgHttpModeSet v = if_changed apCfgHttpModeGet v (write_var ''http_mode'' (onoff v) [APL_HTTPD])"

definition apCfgAutohttpsModeGet :: "(int, 'a) getter" where
  "apCfgAutohttpsModeGet = get_bool ''autohttps''"

definition apCfgAutohttpsModeSet :: "int \<Rightarrow> 'a setter" where
  "apCfgAutohttpsModeSet v = if_changed apCfgAutohttpsModeGet v (write_var ''autohttps'' (onoff v)
     [APL_HTTPD, APL_BONJOUR])"

definition apCfgHttpPortGet :: "(int, 'a) getter" where
  "apCfgHttpPortGet = get_atoi ''http_port''"

definition apCfgHttpPortSet :: "int \<Rightarrow> 'a setter" where
  "apCfgHttpPortSet v = reject_if (v < 1 \<or> 65534 < v) (if_changed apCfgHttpPortGet v (write_int 6
     ''http_port'' v [APL_HTTPD]))"

definition apCfgHttpsModeGet :: "(int, 'a) getter" where
  "apCfgHttpsModeGet = get_bool ''https_mode''"

definition apCfgHttpsModeSet :: "int \<Rightarrow> 'a setter" where
  "apCfgHttpsModeSet v = if_changed apCfgHttpsModeGet v (write_var ''https_mode'' (onoff v) [APL_HTTPD])"

definition apCfgHttpsPortGet :: "(int, 'a) getter" where
  "apCfgHttpsPortGet = get_atoi ''https_port''"

definition apCfgHttpsPortSet :: "int \<Rightarrow> 'a setter" where
  "apCfgHttpsPortSet v = reject_if (v < 1 \<or> 65534 < v) (if_changed apCfgHttpsPortGet v (write_int 6
     ''https_port'' v [APL_HTTPD]))"

definition apCfgWlanAccessGet :: "(int, 'a) getter" where
  "apCfgWlanAccessGet = get_bool ''wlan_manage''"

definition apCfgWlanAccessSet :: "int \<Rightarrow> 'a setter" where
  "apCfgWlanAccessSet v = if_changed apCfgWlanAccessGet v (write_var ''wlan_manage'' (onoff v) [APL_HTTPD])"

definition apCfgSSHGet :: "(int, 'a) getter" where
  "apCfgSSHGet = get_bool ''SSH''"

definition apCfgSSHSet :: "int \<Rightarrow> 'a setter" where
  "apCfgSSHSet v = if_changed apCfgSSHGet v (write_var ''SSH'' (onoff v) [APL_SSH, APL_BONJOUR])"

definition apCfgTelnetModeGet :: "(int, 'a) getter" where
  "apCfgTelnetModeGet = get_bool ''telnet_mode''"

definition apCfgTelnetModeSet :: "int \<Rightarrow> 'a setter" where
  "apCfgTelnetModeSet v = if_changed apCfgTelnetModeGet v (write_var ''telnet_mode'' (onoff v) [APL_HTTPD])"

definition apCfgTelnetTimeoutSet :: "int \<Rightarrow> 'a setter" where
  "apCfgTelnetTimeoutSet v = reject_if (v < MIN_TELENT_TIMEOUT \<or> MAX_TELNET_TIMEOUT < v) (write_int 6
     ''telnet_timeout'' v [])"

definition apCfgTelnetTimeoutGet :: "(int, 'a) getter" where
  "apCfgTelnetTimeoutGet = get_atoi ''telnet_timeout''"

subsection \<open>SNMP\<close>

definition apCfgSnmpModeGet :: "(int, 'a) getter" where
  "apCfgSnmpModeGet = get_bool ''snmp_mode''"

definition apCfgSnmpModeSet :: "int \<Rightarrow> 'a setter" where
  "apCfgSnmpModeSet v = if_changed apCfgSnmpModeGet v (write_var ''snmp_mode'' (onoff v) [APL_SNMP])"

definition apCfgSnmpContactGet :: "(cstr, 'a) getter" where
  "apCfgSnmpContactGet = get_str (MAX_SNMP_CONTACT + 1) ''snmp_contact''"

definition apCfgSnmpContactSet :: "cstr \<Rightarrow> 'a setter" where
  "apCfgSnmpContactSet p = reject_if (length p < 1 \<or> MAX_SNMP_CONTACT < length p) (if_changed
     apCfgSnmpContactGet p (write_var ''snmp_contact'' p [APL_SNMP]))"

definition apCfgSnmpDviceNameGet :: "(cstr, 'a) getter" where
  "apCfgSnmpDviceNameGet = get_str (MAX_SNMP_DEVNAME + 1) ''snmp_device''"

definition apCfgSnmpDviceNameSet :: "cstr \<Rightarrow> 'a setter" where
  "apCfgSnmpDviceNameSet p = reject_if (length p < 1 \<or> MAX_SNMP_DEVNAME < length p) (if_changed
     apCfgSnmpDviceNameGet p (write_var ''snmp_device'' p [APL_SNMP]))"

definition apCfgSnmpLocationGet :: "(cstr, 'a) getter" where
  "apCfgSnmpLocationGet = get_str (MAX_SNMP_LOCATION + 1) ''snmp_location''"

definition apCfgSnmpLocationSet :: "cstr \<Rightarrow> 'a setter" where
  "apCfgSnmpLocationSet p = reject_if (length p < 1 \<or> MAX_SNMP_LOCATION < length p) (if_changed
     apCfgSnmpLocationGet p (write_var ''snmp_location'' p [APL_SNMP]))"

definition apCfgSnmpTrapCommunityGet :: "(cstr, 'a) getter" where
  "apCfgSnmpTrapCommunityGet = get_str (MAX_SNMP_COMMUNITY + 1) ''snmp_trap_community''"

definition apCfgSnmpTrapCommunitySet :: "cstr \<Rightarrow> 'a setter" where
  "apCfgSnmpTrapCommunitySet p = reject_if (length p < 1 \<or> MAX_SNMP_COMMUNITY < length p) (if_changed
     apCfgSnmpTrapCommunityGet p (write_var ''snmp_trap_community'' p [APL_SNMP]))"

definition apCfgSnmpReadCommGet :: "(cstr, 'a) getter" where
  "apCfgSnmpReadCommGet = get_str (MAX_SNMP_COMMUNITY + 1) ''snmp_community_get''"

definition apCfgSnmpReadCommSet :: "cstr \<Rightarrow> 'a setter" where
  "apCfgSnmpReadCommSet p = reject_if (length p < 1 \<or> MAX_SNMP_COMMUNITY < length p) (if_changed
     apCfgSnmpReadCommGet p (write_var ''snmp_community_get'' p [APL_SNMP]))"

definition apCfgSnmpWriteCommGet :: "(cstr, 'a) getter" where
  "apCfgSnmpWriteCommGet = get_str (MAX_SNMP_COMMUNITY + 1) ''snmp_community_set''"

definition apCfgSnmpWriteCommSet :: "cstr \<Rightarrow> 'a setter" where
  "apCfgSnmpWriteCommSet p = reject_if (length p < 1 \<or> MAX_SNMP_COMMUNITY < length p) (if_changed
     apCfgSnmpWriteCommGet p (write_var ''snmp_community_set'' p [APL_SNMP]))"

definition apCfgSnmpUserNameGet :: "(cstr, 'a) getter" where
  "apCfgSnmpUserNameGet = get_str (MAX_SNMPV3_USERNAME + 1) ''snmp_user''"

definition apCfgSnmpUserNameSet :: "cstr \<Rightarrow> 'a setter" where
  "apCfgSnmpUserNameSet p = reject_if (length p < 0 \<or> MAX_SNMPV3_USERNAME < length p) (if_changed
     apCfgSnmpUserNameGet p (write_var ''snmp_user'' p [APL_SNMP]))"

definition apCfgSnmpAuthProtocolGet :: "(int, 'a) getter" where
  "apCfgSnmpAuthProtocolGet = get_word [(''NONE'', APCFG_AUTH_NONE), (''HMAC-MD5'', SNMP_AUTH_MD5)] SNMP_AUTH_NONE
     ''snmp_auth_protocol''"

definition apCfgSnmpAuthProtocolSet :: "int \<Rightarrow> 'a setter" where
  "apCfgSnmpAuthProtocolSet v = if_changed apCfgSnmpAuthProtocolGet v (write_var ''snmp_auth_protocol''
     (case map_of [(SNMP_AUTH_NONE, ''NONE''), (SNMP_AUTH_MD5, ''HMAC-MD5'')] v of Some w \<Rightarrow> w |
     None \<Rightarrow> ''NONE'') [APL_SNMP])"

definition apCfgSnmpAuthKeyGet :: "(cstr, 'a) getter" where
  "apCfgSnmpAuthKeyGet = get_str 32 ''snmp_auth_key''"

definition apCfgSnmpAuthKeySet :: "cstr \<Rightarrow> 'a setter" where
  "apCfgSnmpAuthKeySet p = reject_if (length p < MIN_SNMPV3_AUTHKEY \<or> MAX_SNMPV3_AUTHKEY < length p)
     (if_changed apCfgSnmpAuthKeyGet p (write_var ''snmp_auth_key'' p [APL_SNMP]))"

definition apCfgSnmpPrivProtocolGet :: "(int, 'a) getter" where
  "apCfgSnmpPrivProtocolGet = get_word [(''NONE'', SNMP_PRIV_NONE), (''CBC-DES'', SNMP_PRIV_DES)] SNMP_PRIV_NONE
     ''snmp_priv_protocol''"

definition apCfgSnmpPrivProtocolSet :: "int \<Rightarrow> 'a setter" where
  "apCfgSnmpPrivProtocolSet v = if_changed apCfgSnmpPrivProtocolGet v
     (write_var ''snmp_priv_protocol'' (case map_of [(SNMP_PRIV_NONE, ''NONE''), (SNMP_PRIV_DES, ''CBC-DES'')] v of
        Some w \<Rightarrow> w | None \<Rightarrow> ''NONE'') [APL_SNMP])"

definition apCfgSnmpPrivKeyGet :: "(cstr, 'a) getter" where
  "apCfgSnmpPrivKeyGet = get_str 32 ''snmp_priv_key''"

definition apCfgSnmpPrivKeySet :: "cstr \<Rightarrow> 'a setter" where
  "apCfgSnmpPrivKeySet p = reject_if (length p < MIN_SNMPV3_PRIVKEY \<or> MAX_SNMPV3_PRIVKEY < length p)
     (if_changed apCfgSnmpPrivKeyGet p (write_var ''snmp_priv_key'' p [APL_SNMP]))"

definition apCfgSnmpAnyManagerGet :: "(int, 'a) getter" where
  "apCfgSnmpAnyManagerGet = get_bool ''snmp_trusted_any''"

definition apCfgSnmpAnyManagerSet :: "int \<Rightarrow> 'a setter" where
  "apCfgSnmpAnyManagerSet v = if_changed apCfgSnmpAnyManagerGet v (write_var ''snmp_trusted_any'' (onoff v)
     [APL_SNMP])"

definition apCfgSnmpManagerIpGet :: "(32 word, 'a) getter" where
  "apCfgSnmpManagerIpGet = get_ip ''snmp_trusted_host_start''"

definition apCfgSnmpManagerIpSet :: "32 word \<Rightarrow> 'a setter" where
  "apCfgSnmpManagerIpSet v = if_changed apCfgSnmpManagerIpGet v (write_var ''snmp_trusted_host_start''
     (inet_ntoa v) [APL_SNMP])"

definition apCfgSnmpManagerIpEndGet :: "(32 word, 'a) getter" where
  "apCfgSnmpManagerIpEndGet = get_ip ''snmp_trusted_host_end''"

definition apCfgSnmpManagerIpEndSet :: "32 word \<Rightarrow> 'a setter" where
  "apCfgSnmpManagerIpEndSet v = if_changed apCfgSnmpManagerIpEndGet v (write_var ''snmp_trusted_host_end''
     (inet_ntoa v) [APL_SNMP])"

definition apCfgSnmpTrapVersionGet :: "(int, 'a) getter" where
  "apCfgSnmpTrapVersionGet = get_atoi ''snmp_trap_version''"

definition apCfgSnmpTrapVersionSet :: "int \<Rightarrow> 'a setter" where
  "apCfgSnmpTrapVersionSet v = reject_if (v < 1 \<or> 3 < v) (if_changed apCfgSnmpTrapVersionGet v
     (write_int 6 ''snmp_trap_version'' v [APL_SNMP]))"

definition apCfgSnmpTrapRecvIpGet :: "(32 word, 'a) getter" where
  "apCfgSnmpTrapRecvIpGet = get_ip ''snmp_trap_dest''"

definition apCfgSnmpTrapRecvIpSet :: "32 word \<Rightarrow> 'a setter" where
  "apCfgSnmpTrapRecvIpSet v = if_changed apCfgSnmpTrapRecvIpGet v (write_var ''snmp_trap_dest'' (inet_ntoa
     v) [APL_SNMP])"

definition isInvalidSnmpTrapPort :: "int \<Rightarrow> bool" where
  "isInvalidSnmpTrapPort v \<longleftrightarrow> v \<in> set [1, 2, 3, 5, 7, 9, 20, 21, 22, 23, 25, 31, 53, 67, 68, 69, 79, 80, 81, 82,
     123, 137, 138, 139, 161, 168, 169, 443]"

end
