(* ===== verification/Apcfg_Wlan.thy ===== *)
theory Apcfg_Wlan
  imports Apcfg_Base
begin

text \<open>
  Settings of the radio and of its access points, with the certificate and auto-reboot settings that follow them
  in the file (\<open>src/src/apps/apps_sc/libs/libapcfg/apcfg.c\<close>).
\<close>

subsection \<open>Names and switches of the access points\<close>

definition apCfgSsidModeGet :: "int \<Rightarrow> int \<Rightarrow> (int, 'a) getter" where
  "apCfgSsidModeGet unit bss = get_bool (ssid_name unit bss ''_broabcast'')"

definition apCfgSsidModeSet :: "int \<Rightarrow> int \<Rightarrow> int \<Rightarrow> 'a setter" where
  "apCfgSsidModeSet unit bss v = if_changed (apCfgSsidModeGet unit bss) v (write_var (ssid_name unit bss
     ''_broabcast'') (onoff v) [vap_item unit bss])"

definition apCfgSsidGet :: "int \<Rightarrow> int \<Rightarrow> (cstr, 'a) getter" where
  "apCfgSsidGet unit bss = get_str 64 (ssid_name unit bss '''')"

definition apCfgWscConfiguredGet :: "(int, 'a) getter" where
  "apCfgWscConfiguredGet = get_atoi ''wifi_wsc_configured''"

definition apCfgWscConfiguredSet :: "int \<Rightarrow> 'a setter" where
  "apCfgWscConfiguredSet v s =
     (if v \<noteq> 1 \<and> v \<noteq> 0 then Some (A_ERROR, s)
      else do {
        (p, s) \<leftarrow> nvram_safe_get ''restore_defaults'' s;
        if p \<noteq> [] \<and> hd p = CHR ''1'' then Some (A_ERROR, s)
        else if_changed apCfgWscConfiguredGet v (write_var ''wifi_wsc_configured'' (if v = 0 then ''0'' else ''1'') []) s
      })"

definition apCfgSsidSet :: "int \<Rightarrow> int \<Rightarrow> cstr \<Rightarrow> 'a setter" where
  "apCfgSsidSet unit bss p = reject_if (MAX_SSID < length p) (if_changed (apCfgSsidGet unit bss) p (and_then
     (write_var (ssid_name unit bss '''') p [vap_item unit bss]) (apCfgWscConfiguredSet 1)))"

definition apCfgDevicePinGet :: "int \<Rightarrow> int \<Rightarrow> (cstr, 'a) getter" where
  "apCfgDevicePinGet unit bss = get_str (8 + 1) (ssid_name unit bss ''_pin'')"

definition apCfgDevicePinSet :: "int \<Rightarrow> int \<Rightarrow> cstr \<Rightarrow> 'a setter" where
  "apCfgDevicePinSet unit bss p = reject_if (length p \<noteq> WPS_PIN_LEN) (if_changed (apCfgDevicePinGet
     unit bss) p (write_var (ssid_name unit bss ''_pin'') p [wlan_item unit]))"

definition apCfgVapNameGet :: "int \<Rightarrow> int \<Rightarrow> (cstr, 'a) getter" where
  "apCfgVapNameGet unit bss = get_str (MAX_VAPNAME + 1) (''wlan'' @ fmt_d unit @ ''_vap'' @ fmt_d bss)"

definition apCfgVapNameSet :: "int \<Rightarrow> int \<Rightarrow> cstr \<Rightarrow> 'a setter" where
  "apCfgVapNameSet unit bss p = reject_if (MAX_VAPNAME < length p) (write_var (''wlan'' @ fmt_d unit @
     ''_vap'' @ fmt_d bss) p [])"

definition apCfgOpModeGet :: "int \<Rightarrow> (int, 'a) getter" where
  "apCfgOpModeGet unit = get_word [(''AccessPoint'', CFG_OP_MODE_AP), (''WirelessClient'', CFG_OP_MODE_STA),
     (''WirelessBridge'', CFG_OP_MODE_PPT), (''MultiPointBridge'', CFG_OP_MODE_MPT), (''WirelessRepeater'',
     CFG_OP_MODE_REPEATER), (''AccessPointAndPTP'', CFG_OP_MODE_AP_PTP), (''AccessPointAndPTMP'',
     CFG_OP_MODE_AP_PTMP), (''UnversalClient'', CFG_OP_MODE_UC), (''UnversalRepeater'', CFG_OP_MODE_UR),
     (''WirelessMonitor'', CFG_OP_MODE_ROGAP)] CFG_OP_MODE_AP (wlan_name unit ''_op_mode'')"

definition apCfgActiveModeGet :: "int \<Rightarrow> int \<Rightarrow> (int, 'a) getter" where
  "apCfgActiveModeGet unit bss = get_bool (ssid_name unit bss ''_state'')"

definition apCfgActiveModeSet :: "int \<Rightarrow> int \<Rightarrow> int \<Rightarrow> 'a setter" where
  "apCfgActiveModeSet unit bss v s =
     (if bss = 0 \<and> v = 0 then Some (A_ERROR, s)
      else do {
        (mode, s) \<leftarrow> apCfgOpModeGet unit s;
        if mode \<noteq> CFG_OP_MODE_AP \<and> bss \<noteq> 0 \<and> v = 1 then Some (A_ERROR, s)
        else if_changed (apCfgActiveModeGet unit bss) v
          (write_var (ssid_name unit bss ''_state'') (onoff v) [vap_item unit bss]) s
      })"

definition apCfgCTSModeGet :: "int \<Rightarrow> (int, 'a) getter" where
  "apCfgCTSModeGet unit = get_atoi (wlan_name unit ''_cts'')"

definition apCfgCTSModeSet :: "int \<Rightarrow> int \<Rightarrow> 'a setter" where
  "apCfgCTSModeSet unit v = if_changed (apCfgCTSModeGet unit) v (write_int 10 (wlan_name unit ''_cts'') v
     [wlan_item unit])"

definition apCfgBeaconIntervalGet :: "int \<Rightarrow> (int, 'a) getter" where
  "apCfgBeaconIntervalGet unit = get_atoi (wlan_name unit ''_bcn'')"

definition apCfgBeaconIntervalSet :: "int \<Rightarrow> int \<Rightarrow> 'a setter" where
  "apCfgBeaconIntervalSet unit v = reject_if (v < MIN_BEACON_PERIOD \<or> MAX_BEACON_PERIOD < v) (if_changed
     (apCfgBeaconIntervalGet unit) v (write_int 10 (wlan_name unit ''_bcn'') v [wlan_item unit]))"

subsection \<open>The radio\<close>

definition apCfgNumVapsGet :: "int \<Rightarrow> (int, 'a) getter" where
  "apCfgNumVapsGet unit = get_buf_atoi 60 (wlan_name unit ''_vaps'')"

definition apCfgNumVapsSet :: "int \<Rightarrow> int \<Rightarrow> 'a setter" where
  "apCfgNumVapsSet unit v = write_char (wlan_name unit ''_vaps'') v []"

definition apCfgWlanStateGet :: "int \<Rightarrow> (int, 'a) getter" where
  "apCfgWlanStateGet unit = get_bool (wlan_name unit ''_state'')"

definition apCfgWlanStateSet :: "int \<Rightarrow> int \<Rightarrow> 'a setter" where
  "apCfgWlanStateSet unit v = if_changed (apCfgWlanStateGet unit) v (write_var (wlan_name unit ''_state'')
     (onoff v) [wlan_item unit])"

definition apCfgAuthTypeGet :: "int \<Rightarrow> int \<Rightarrow> (int, 'a) getter" where
  "apCfgAuthTypeGet unit bss = get_word [(''NONE'', APCFG_AUTH_NONE), (''OPEN_SYSTEM'', APCFG_AUTH_OPEN_SYSTEM),
      (''SHARED_KEY'', APCFG_AUTH_SHARED_KEY), (''AUTH_AUTO'', APCFG_AUTH_AUTO), (''AUTH_WPA'', APCFG_AUTH_WPA),
      (''AUTH_WPAPSK'', APCFG_AUTH_WPAPSK), (''AUTH_WPA2'', APCFG_AUTH_WPA2), (''AUTH_WPA2PSK'', APCFG_AUTH_WPA2PSK),
      (''WPA_AUTO'', APCFG_AUTH_WPA_AUTO), (''WPA_AUTO_PSK'', APCFG_AUTH_WPA_AUTO_PSK),
      (''AUTH_DOT1X'', APCFG_AUTH_DOT1X)] APCFG_AUTH_NONE (ssid_name unit bss ''_auth_mode'')"

text \<open>The test of the operation mode that guards \<open>apCfgAuthTypeSet\<close>.\<close>

definition auth_word :: "int \<Rightarrow> cstr" where
  "auth_word v = (case map_of [(APCFG_AUTH_NONE, ''NONE''), (APCFG_AUTH_OPEN_SYSTEM, ''OPEN_SYSTEM''),
      (APCFG_AUTH_SHARED_KEY, ''SHARED_KEY''), (APCFG_AUTH_AUTO, ''AUTH_AUTO''), (APCFG_AUTH_WPA, ''AUTH_WPA''),
      (APCFG_AUTH_WPAPSK, ''AUTH_WPAPSK''), (APCFG_AUTH_WPA2, ''AUTH_WPA2''), (APCFG_AUTH_WPA2PSK, ''AUTH_WPA2PSK''),
      (APCFG_AUTH_WPA_AUTO, ''WPA_AUTO''), (APCFG_AUTH_WPA_AUTO_PSK, ''WPA_AUTO_PSK''),
      (APCFG_AUTH_DOT1X, ''AUTH_DOT1X'')] v of Some w \<Rightarrow> w | None \<Rightarrow> ''NONE'')"

definition not_client_auth :: "int \<Rightarrow> bool" where
  "not_client_auth v \<longleftrightarrow> APCFG_AUTH_AUTO < v \<and> v \<noteq> APCFG_AUTH_WPAPSK \<and> v \<noteq> APCFG_AUTH_WPA2PSK \<and> v \<noteq> APCFG_AUTH_WPA_AUTO_PSK"

definition apCfgAuthTypeSet :: "int \<Rightarrow> int \<Rightarrow> int \<Rightarrow> 'a setter" where
  "apCfgAuthTypeSet unit bss v = if_changed (apCfgAuthTypeGet unit bss) v (\<lambda>s. do {
     (mode, s) \<leftarrow> apCfgOpModeGet unit s;
     if (mode = CFG_OP_MODE_UC \<or> mode = CFG_OP_MODE_UR) \<and> bss = 0 \<and> not_client_auth v then Some (A_ERROR, s)
     else and_then (write_var (ssid_name unit bss ''_auth_mode'') (auth_word v) [vap_item unit bss])
       (apCfgWscConfiguredSet 1) s
   })"

definition apCfgChannelWidthModeGet :: "int \<Rightarrow> (int, 'a) getter" where
  "apCfgChannelWidthModeGet unit = get_word [(''CWM_MODE_20M'', CWM_MODE_20M), (''CWM_MODE_20M_40M'', CWM_MODE_20M_40M),
      (''CWM_MODE_40M'', CWM_MODE_40M)] CWM_MODE_20M_40M (wlan_name unit ''_channel_width'')"

definition apCfgChannelWidthModeSet :: "int \<Rightarrow> int \<Rightarrow> 'a setter" where
  "apCfgChannelWidthModeSet unit v s = do {
     (mode, s) \<leftarrow> apCfgOpModeGet unit s;
     let v = (if mode = CFG_OP_MODE_ROGAP \<or> mode = CFG_OP_MODE_UC \<or> mode = CFG_OP_MODE_UR then CWM_MODE_20M else v);
     if_changed (apCfgChannelWidthModeGet unit) v
       (and_echo (write_var (wlan_name unit ''_channel_width'')
          (case map_of [(CWM_MODE_20M, ''CWM_MODE_20M''), (CWM_MODE_40M, ''CWM_MODE_40M'')] v of
             Some w \<Rightarrow> w | None \<Rightarrow> ''CWM_MODE_20M_40M'') [wlan_item unit]) ''/tmp/apl_reload_mod'') s
   }"

definition apCfgInterVapForwardingGet :: "int \<Rightarrow> (int, 'a) getter" where
  "apCfgInterVapForwardingGet unit = get_bool (wlan_name unit ''_isolation'')"

definition apCfgInterVapForwardingSet :: "int \<Rightarrow> int \<Rightarrow> 'a setter" where
  "apCfgInterVapForwardingSet unit v s = do {
     (mode, s) \<leftarrow> apCfgOpModeGet unit s;
     let v = (if mode = CFG_OP_MODE_UR then 0 else v);
     if_changed (apCfgInterVapForwardingGet unit) v
       (write_var (wlan_name unit ''_isolation'') (onoff v) [wlan_item unit]) s
   }"

definition op_word :: "int \<Rightarrow> cstr" where
  "op_word v = (case map_of [(CFG_OP_MODE_AP, ''AccessPoint''), (CFG_OP_MODE_STA, ''WirelessClient''),
      (CFG_OP_MODE_PPT, ''WirelessBridge''), (CFG_OP_MODE_MPT, ''MultiPointBridge''),
      (CFG_OP_MODE_REPEATER, ''WirelessRepeater''), (CFG_OP_MODE_AP_PTP, ''AccessPointAndPTP''),
      (CFG_OP_MODE_AP_PTMP, ''AccessPointAndPTMP''), (CFG_OP_MODE_UC, ''UnversalClient''),
      (CFG_OP_MODE_UR, ''UnversalRepeater''), (CFG_OP_MODE_ROGAP, ''WirelessMonitor'')] v of
    Some w \<Rightarrow> w | None \<Rightarrow> ''AccessPoint'')"

text \<open>The corrections before the new mode is written, for any mode but the access point's.\<close>

definition op_mode_correct :: "int \<Rightarrow> int \<Rightarrow> 'a setter" where
  "op_mode_correct unit v s = do {
     (_, s) \<leftarrow> for_each [1, 2, 3] (\<lambda>vap. apCfgActiveModeSet unit vap 0) s;
     (_, s) \<leftarrow>
       (if v = CFG_OP_MODE_UC \<or> v = CFG_OP_MODE_UR then do {
          (authType, s) \<leftarrow> apCfgAuthTypeGet unit 0 s;
          if not_client_auth authType then apCfgAuthTypeSet unit 0 APCFG_AUTH_NONE s else Some (A_OK, s)
        } else Some (A_OK, s));
     (_, s) \<leftarrow>
       (if v = CFG_OP_MODE_ROGAP \<or> v = CFG_OP_MODE_UC \<or> v = CFG_OP_MODE_UR
        then apCfgChannelWidthModeSet unit 0 s else Some (A_OK, s));
     if v = CFG_OP_MODE_UR then apCfgInterVapForwardingSet unit 0 s else Some (A_OK, s)
   }"

text \<open>Back in access-point mode every access point with a name is enabled again.\<close>

definition op_mode_reactivate :: "int \<Rightarrow> 'a setter" where
  "op_mode_reactivate unit = for_each [1, 2, 3] (\<lambda>vap s. do {
     (ssid, s) \<leftarrow> apCfgSsidGet unit vap s;
     if length ssid \<noteq> 0 then apCfgActiveModeSet unit vap 1 s else Some (A_OK, s)
   })"

definition apCfgOpModeSet :: "int \<Rightarrow> int \<Rightarrow> 'a setter" where
  "apCfgOpModeSet unit v = if_changed (apCfgOpModeGet unit) v (\<lambda>s. do {
     (_, s) \<leftarrow> (if v \<noteq> CFG_OP_MODE_AP then op_mode_correct unit v s else Some (A_OK, s));
     (_, s) \<leftarrow> write_var (wlan_name unit ''_op_mode'') (op_word v) [APL_REBOOT] s;
     (_, s) \<leftarrow> (if v = CFG_OP_MODE_AP then op_mode_reactivate unit s else Some (A_OK, s));
     Some (A_OK, s)
   })"

definition apCfgAutoChannelGet :: "int \<Rightarrow> (int, 'a) getter" where
  "apCfgAutoChannelGet unit = get_bool (wlan_name unit ''_auto_channel'')"

definition apCfgAutoChannelSet :: "int \<Rightarrow> int \<Rightarrow> 'a setter" where
  "apCfgAutoChannelSet unit v = if_changed (apCfgAutoChannelGet unit) v
     (and_echo (write_var (wlan_name unit ''_auto_channel'') (onoff v) [wlan_item unit]) ''/tmp/chan_config'')"

definition apCfgWpsModeGet :: "int \<Rightarrow> (int, 'a) getter" where
  "apCfgWpsModeGet unit = get_bool (wlan_name unit ''_wps'')"

definition apCfgWpsModeSet :: "int \<Rightarrow> int \<Rightarrow> 'a setter" where
  "apCfgWpsModeSet unit v = if_changed (apCfgWpsModeGet unit) v (write_var (wlan_name unit ''_wps'') (onoff
     v) [wlan_item unit])"

definition apCfgWpsPinERGet :: "int \<Rightarrow> (int, 'a) getter" where
  "apCfgWpsPinERGet unit s = do {
     name \<leftarrow> into_buf 60 (wlan_name unit ''_wps_pin_er'');
     (p, s) \<leftarrow> nvram_safe_get name s;
     Some (if p = [] then 1 else if p = ENABLE then 1 else 0, s)
   }"

definition apCfgWpsPinERSet :: "int \<Rightarrow> int \<Rightarrow> 'a setter" where
  "apCfgWpsPinERSet unit v = if_changed (apCfgWpsPinERGet unit) v (write_var (wlan_name unit
     ''_wps_pin_er'') (onoff v) [wlan_item unit])"

definition apCfgRadioChannelGet :: "int \<Rightarrow> (int, 'a) getter" where
  "apCfgRadioChannelGet unit = get_buf_atoi 60 (wlan_name unit ''_channel'')"

definition apCfgChannelOffsetGet :: "int \<Rightarrow> (cstr, 'a) getter" where
  "apCfgChannelOffsetGet unit = get_str 32 (wlan_name unit ''_channel_offset'')"

definition apCfgChannelOffsetSet :: "int \<Rightarrow> cstr \<Rightarrow> 'a setter" where
  "apCfgChannelOffsetSet unit p = reject_if (p \<noteq> ''1'' \<and> p \<noteq> ''-1'') (if_changed (apCfgChannelOffsetGet unit) p
     (and_echo (write_var (wlan_name unit ''_channel_offset'') p [wlan_item unit]) ''/tmp/apl_reload_mod''))"

definition apCfgRadioChannelSet :: "int \<Rightarrow> int \<Rightarrow> 'a setter" where
  "apCfgRadioChannelSet unit v = reject_if (v < 0 \<or> 14 < v) (if_changed (apCfgRadioChannelGet unit) v
     (and_then (and_echo (write_int 10 (wlan_name unit ''_channel'') v [wlan_item unit]) ''/tmp/chan_config'')
       (apCfgChannelOffsetSet unit (if 5 \<le> v then ''-1'' else ''1''))))"

definition scApCfgAmpduGet :: "int \<Rightarrow> (int, 'a) getter" where
  "scApCfgAmpduGet unit = get_bool (wlan_name unit ''_ampdu'')"

definition scApCfgAmpduSet :: "int \<Rightarrow> int \<Rightarrow> 'a setter" where
  "scApCfgAmpduSet unit v = if_changed (scApCfgAmpduGet unit) v (write_var (wlan_name unit ''_ampdu'')
     (onoff v) [wlan_item unit])"

definition scApCfgAmsduGet :: "int \<Rightarrow> (int, 'a) getter" where
  "scApCfgAmsduGet unit = get_bool (wlan_name unit ''_amsdu'')"

definition scApCfgAmsduSet :: "int \<Rightarrow> int \<Rightarrow> 'a setter" where
  "scApCfgAmsduSet unit v = if_changed (scApCfgAmsduGet unit) v (write_var (wlan_name unit ''_amsdu'')
     (onoff v) [wlan_item unit])"

definition scApCfgShortGIGet :: "int \<Rightarrow> (int, 'a) getter" where
  "scApCfgShortGIGet unit = get_word [(''SHORTGI_LONG'', SHORTGI_LONG), (''SHORTGI_SHORT'', SHORTGI_SHORT)] SHORTGI_AUTO
     (wlan_name unit ''_short_GI'')"

definition scApCfgShortGISet :: "int \<Rightarrow> int \<Rightarrow> 'a setter" where
  "scApCfgShortGISet unit v = if_changed (scApCfgShortGIGet unit) v
     (and_echo (write_var (wlan_name unit ''_short_GI'')
        (case map_of [(SHORTGI_SHORT, ''SHORTGI_SHORT''), (SHORTGI_LONG, ''SHORTGI_LONG'')] v of
           Some w \<Rightarrow> w | None \<Rightarrow> ''SHORTGI_AUTO'') [wlan_item unit]) ''/tmp/apl_reload_mod'')"

definition scApCfg80211dEnabledGet :: "int \<Rightarrow> (int, 'a) getter" where
  "scApCfg80211dEnabledGet unit = get_bool (wlan_name unit ''_80211d'')"

definition scApCfg80211dEnabledSet :: "int \<Rightarrow> int \<Rightarrow> 'a setter" where
  "scApCfg80211dEnabledSet unit v = if_changed (scApCfg80211dEnabledGet unit) v (write_var (wlan_name unit
     ''_80211d'') (onoff v) [wlan_item unit])"

definition apCfgPriorityGet :: "int \<Rightarrow> int \<Rightarrow> (int, 'a) getter" where
  "apCfgPriorityGet unit bss = get_buf_atoi 60 (ssid_name unit bss ''_pri'')"

definition apCfgPrioritySet :: "int \<Rightarrow> int \<Rightarrow> int \<Rightarrow> 'a setter" where
  "apCfgPrioritySet unit bss v = if_changed (apCfgPriorityGet unit bss) v (write_int 5 (ssid_name unit bss
     ''_pri'') v [vap_item unit bss])"

subsection \<open>Priorities, thresholds and rates\<close>

definition apCfgWmeGet :: "int \<Rightarrow> int \<Rightarrow> (int, 'a) getter" where
  "apCfgWmeGet unit bss = get_bool (ssid_name unit bss ''_wmm'')"

definition apCfgWmeSet :: "int \<Rightarrow> int \<Rightarrow> int \<Rightarrow> 'a setter" where
  "apCfgWmeSet unit bss v = if_changed (apCfgWmeGet unit bss) v (write_var (ssid_name unit bss ''_wmm'')
     (onoff v) [vap_item unit bss])"

definition apCfgWmmpsGet :: "int \<Rightarrow> int \<Rightarrow> (int, 'a) getter" where
  "apCfgWmmpsGet unit bss = get_bool (ssid_name unit bss ''_wmmps'')"

definition apCfgWmmpsSet :: "int \<Rightarrow> int \<Rightarrow> int \<Rightarrow> 'a setter" where
  "apCfgWmmpsSet unit bss v = if_changed (apCfgWmmpsGet unit bss) v (write_var (ssid_name unit bss
     ''_wmmps'') (onoff v) [vap_item unit bss])"

definition apCfgNoAckGet :: "int \<Rightarrow> int \<Rightarrow> (int, 'a) getter" where
  "apCfgNoAckGet unit bss = get_bool (ssid_name unit bss ''_no_ack'')"

definition apCfgNoAckSet :: "int \<Rightarrow> int \<Rightarrow> int \<Rightarrow> 'a setter" where
  "apCfgNoAckSet unit bss v = if_changed (apCfgNoAckGet unit bss) v (write_var (ssid_name unit bss
     ''_no_ack'') (onoff v) [vap_item unit bss])"

definition scApCfgIdleTimeoutIntervalGet :: "int \<Rightarrow> (int, 'a) getter" where
  "scApCfgIdleTimeoutIntervalGet unit = get_buf_atoi 60 (wlan_name unit ''_idle_timeout'')"

definition scApCfgIdleTimeoutIntervalSet :: "int \<Rightarrow> int \<Rightarrow> 'a setter" where
  "scApCfgIdleTimeoutIntervalSet unit v = reject_if (v < SC_MIN_IDLETIMEOUT_INTERVAL \<or>
     SC_MAX_IDLETIMEOUT_INTERVAL < v) (if_changed (scApCfgIdleTimeoutIntervalGet unit) v (write_int 10
     (wlan_name unit ''_idle_timeout'') v [wlan_item unit]))"

definition scApCfgDtimIntervalGet :: "int \<Rightarrow> (int, 'a) getter" where
  "scApCfgDtimIntervalGet unit = get_buf_atoi 60 (wlan_name unit ''_dtim'')"

definition scApCfgDtimIntervalSet :: "int \<Rightarrow> int \<Rightarrow> 'a setter" where
  "scApCfgDtimIntervalSet unit v = reject_if (v < SC_MIN_DTIM_INTERVAL \<or> SC_MAX_DTIM_INTERVAL < v)
     (if_changed (scApCfgDtimIntervalGet unit) v (write_int 10 (wlan_name unit ''_dtim'') v [wlan_item
     unit]))"

definition apCfgFragThresholdGet :: "int \<Rightarrow> (int, 'a) getter" where
  "apCfgFragThresholdGet unit = get_buf_atoi 60 (wlan_name unit ''_frag'')"

definition apCfgFragThresholdSet :: "int \<Rightarrow> int \<Rightarrow> 'a setter" where
  "apCfgFragThresholdSet unit v = reject_if (v < MIN_FRAG_THRESHOLD \<or> MAX_FRAG_THRESHOLD < v)
     (if_changed (apCfgFragThresholdGet unit) v (write_int 10 (wlan_name unit ''_frag'') v [wlan_item
     unit]))"

definition apCfgRtsThresholdGet :: "int \<Rightarrow> (int, 'a) getter" where
  "apCfgRtsThresholdGet unit = get_buf_atoi 60 (wlan_name unit ''_rts'')"

definition apCfgRtsThresholdSet :: "int \<Rightarrow> int \<Rightarrow> 'a setter" where
  "apCfgRtsThresholdSet unit v = reject_if (v < MIN_RTS_THRESHOLD \<or> MAX_RTS_THRESHOLD < v) (if_changed
     (apCfgRtsThresholdGet unit) v (write_int 10 (wlan_name unit ''_rts'') v [wlan_item unit]))"

definition apCfgShortPreambleGet :: "int \<Rightarrow> (int, 'a) getter" where
  "apCfgShortPreambleGet unit = get_bool (wlan_name unit ''_prb_type'')"

definition apCfgShortPreambleSet :: "int \<Rightarrow> int \<Rightarrow> 'a setter" where
  "apCfgShortPreambleSet unit v = if_changed (apCfgShortPreambleGet unit) v (write_var (wlan_name unit
     ''_prb_type'') (onoff v) [wlan_item unit])"

definition apCfgPowerGet :: "int \<Rightarrow> (int, 'a) getter" where
  "apCfgPowerGet unit = get_buf_atoi 60 (wlan_name unit ''_transmit_power'')"

definition apCfgPowerSet :: "int \<Rightarrow> int \<Rightarrow> 'a setter" where
  "apCfgPowerSet unit v = if_changed (apCfgPowerGet unit) v (write_int 10 (wlan_name unit
     ''_transmit_power'') v [wlan_item unit])"

definition apCfgAntennaSet :: "int \<Rightarrow> int \<Rightarrow> 'a setter" where
  "apCfgAntennaSet unit v = write_int 10 (wlan_name unit ''_antenna'') v []"

definition apCfgAntennaGet :: "int \<Rightarrow> (int, 'a) getter" where
  "apCfgAntennaGet unit = get_buf_atoi 60 (wlan_name unit ''_antenna'')"

definition apCfgRateGet :: "int \<Rightarrow> (cstr, 'a) getter" where
  "apCfgRateGet unit = get_str 32 (wlan_name unit ''_data_rate'')"

definition apCfgRateSet :: "int \<Rightarrow> cstr \<Rightarrow> 'a setter" where
  "apCfgRateSet unit p = if_changed (apCfgRateGet unit) p (write_var (wlan_name unit ''_data_rate'') p
     [wlan_item unit])"

subsection \<open>Load balancing and forwarding\<close>

definition apCfgBalanceModeGet :: "int \<Rightarrow> (int, 'a) getter" where
  "apCfgBalanceModeGet unit = get_bool (wlan_name unit ''_balance'')"

definition apCfgBalanceModeSet :: "int \<Rightarrow> int \<Rightarrow> 'a setter" where
  "apCfgBalanceModeSet unit v = if_changed (apCfgBalanceModeGet unit) v (write_var (wlan_name unit
     ''_balance'') (onoff v) [APL_BALANCE])"

definition apCfgLoadBalanceGet :: "int \<Rightarrow> int \<Rightarrow> (int, 'a) getter" where
  "apCfgLoadBalanceGet unit vap = get_buf_atoi 60 (ssid_name unit vap ''_loadbalance'')"

definition apCfgLoadBalanceSet :: "int \<Rightarrow> int \<Rightarrow> int \<Rightarrow> 'a setter" where
  "apCfgLoadBalanceSet unit vap v = reject_if (v < MIN_BALANCE \<or> MAX_BALANCE < v)
     (if_changed (apCfgLoadBalanceGet unit vap) v (write_int 10 (ssid_name unit vap ''_loadbalance'') v [APL_BALANCE]))"

subsection \<open>Peers\<close>

definition apCfgRemoteApMacAddrGet :: "int \<Rightarrow> (cstr, 'a) getter" where
  "apCfgRemoteApMacAddrGet unit s = do {
     name \<leftarrow> into_buf 50 (wlan_name unit ''_remote_mac'');
     nvram_safe_get name s
   }"

definition apCfgRemoteApMacAddrSet :: "int \<Rightarrow> cstr \<Rightarrow> 'a setter" where
  "apCfgRemoteApMacAddrSet unit pRemoteApMacAddr s = do {
     (p, s) \<leftarrow> apCfgRemoteApMacAddrGet unit s;
     tmpMac \<leftarrow> into_buf 18 p;
     if pRemoteApMacAddr \<noteq> tmpMac then write_var (wlan_name unit ''_remote_mac'') pRemoteApMacAddr [wlan_item unit] s
     else Some (A_OK, s)
   }"

text \<open>\<open>memcpy\<close> of 144 bytes from the value, whatever its length; then the entry with a zero byte put at
  its end.\<close>

definition apCfgRemoteWbrMacAddrGet :: "int \<Rightarrow> nat \<Rightarrow> (cstr, 'a) getter" where
  "apCfgRemoteWbrMacAddrGet unit index s = do {
     name \<leftarrow> into_buf 50 (wlan_name unit ''_remote_bridge_mac'');
     (pFullValue, s) \<leftarrow> nvram_safe_get name s;
     if length pFullValue + 1 < 8 * 18 \<or> 8 \<le> index then None
     else Some (takeWhile (\<lambda>c. c \<noteq> NUL) (take 17 (drop (18 * index) (pFullValue @ [NUL]))), s)
   }"

definition apCfgRemoteWbrMacAddrSet :: "int \<Rightarrow> nat \<Rightarrow> cstr \<Rightarrow> 'a setter" where
  "apCfgRemoteWbrMacAddrSet unit index pMac s = do {
     name \<leftarrow> into_buf 50 (wlan_name unit ''_remote_bridge_mac'');
     (pFullValue, s) \<leftarrow> nvram_safe_get name s;
     if length pFullValue + 1 < 8 * 18 \<or> 8 \<le> index \<or> length pMac + 1 < 17 then None
     else do {
       let finalValue = take (8 * 18) (pFullValue @ [NUL]);
       let finalValue = take (18 * index) finalValue @ take 17 (pMac @ [NUL]) @ '','' @ drop (18 * index + 18) finalValue;
       let valueToSet = takeWhile (\<lambda>c. c \<noteq> NUL) finalValue;
       if valueToSet \<noteq> pFullValue then write_var name valueToSet [wlan_item unit] s else Some (A_OK, s)
     }
   }"

definition apCfgUcrRemoteApMacAddrGet :: "int \<Rightarrow> (cstr, 'a) getter" where
  "apCfgUcrRemoteApMacAddrGet unit s = do {
     name \<leftarrow> into_buf 50 (wlan_name unit ''_remote_mac'');
     nvram_safe_get name s
   }"

definition apCfgUcrRemoteApMacAddrSet :: "int \<Rightarrow> cstr \<Rightarrow> 'a setter" where
  "apCfgUcrRemoteApMacAddrSet unit pRemoteApMacAddr s = do {
     (p, s) \<leftarrow> apCfgUcrRemoteApMacAddrGet unit s;
     tmpMac \<leftarrow> into_buf 18 p;
     if pRemoteApMacAddr \<noteq> tmpMac then write_var (wlan_name unit ''_remote_mac'') pRemoteApMacAddr [wlan_item unit] s
     else Some (A_OK, s)
   }"

subsection \<open>Authentication and keys\<close>

definition apCfgWPACipherGet :: "int \<Rightarrow> int \<Rightarrow> (int, 'a) getter" where
  "apCfgWPACipherGet unit bss = get_word [(''TKIP'', WPA_CIPHER_TKIP), (''AES'', WPA_CIPHER_AES), (''AUTO'',
     WPA_CIPHER_AUTO)] WPA_CIPHER_AUTO (ssid_name unit bss ''_wpa_cipher'')"

definition apCfgWPACipherSet :: "int \<Rightarrow> int \<Rightarrow> int \<Rightarrow> 'a setter" where
  "apCfgWPACipherSet unit bss v = if_changed (apCfgWPACipherGet unit bss) v (and_then (write_var (ssid_name
     unit bss ''_wpa_cipher'') (case map_of [(WPA_CIPHER_TKIP, ''TKIP''), (WPA_CIPHER_AES, ''AES''),
     (WPA_CIPHER_AUTO, ''AUTO'')] v of Some w \<Rightarrow> w | None \<Rightarrow> ''AUTO'') [vap_item unit
     bss]) (apCfgWscConfiguredSet 1))"

definition apCfgDefKeyGet :: "int \<Rightarrow> int \<Rightarrow> (int, 'a) getter" where
  "apCfgDefKeyGet unit bss = get_buf_atoi 60 (ssid_name unit bss ''_default_key'')"

definition apCfgDefKeySet :: "int \<Rightarrow> int \<Rightarrow> int \<Rightarrow> 'a setter" where
  "apCfgDefKeySet unit bss v s =
     (if CFG_MIN_SHARED_KEY \<le> v \<and> v \<le> CFG_MAX_SHARED_KEY \<or> v = INVALID_SHARED_KEY
      then if_changed (apCfgDefKeyGet unit bss) v
        (and_then (write_int 10 (ssid_name unit bss ''_default_key'') v [vap_item unit bss]) (apCfgWscConfiguredSet 1)) s
      else Some (A_EINVAL, s))"

definition wep_key_length :: "nat \<Rightarrow> bool" where
  "wep_key_length n \<longleftrightarrow> n \<in> set [0, 5, 10, 13, 26, 16, 32]"

definition apCfgKey1ValSet :: "int \<Rightarrow> int \<Rightarrow> cstr \<Rightarrow> 'a setter" where
  "apCfgKey1ValSet unit bss p = reject_if (\<not> wep_key_length (length p))
     (and_then (write_var (ssid_name unit bss ''_key1'') p []) (apCfgWscConfiguredSet 1))"

definition apCfgKey1ValGet :: "int \<Rightarrow> int \<Rightarrow> (cstr, 'a) getter" where
  "apCfgKey1ValGet unit bss = get_str 32 (ssid_name unit bss ''_key1'')"

definition apCfgKey2ValSet :: "int \<Rightarrow> int \<Rightarrow> cstr \<Rightarrow> 'a setter" where
  "apCfgKey2ValSet unit bss p = reject_if (\<not> wep_key_length (length p))
     (and_then (write_var (ssid_name unit bss ''_key2'') p []) (apCfgWscConfiguredSet 1))"

definition apCfgKey2ValGet :: "int \<Rightarrow> int \<Rightarrow> (cstr, 'a) getter" where
  "apCfgKey2ValGet unit bss = get_str 32 (ssid_name unit bss ''_key2'')"

definition apCfgKey3ValSet :: "int \<Rightarrow> int \<Rightarrow> cstr \<Rightarrow> 'a setter" where
  "apCfgKey3ValSet unit bss p = reject_if (\<not> wep_key_length (length p))
     (and_then (write_var (ssid_name unit bss ''_key3'') p []) (apCfgWscConfiguredSet 1))"

definition apCfgKey3ValGet :: "int \<Rightarrow> int \<Rightarrow> (cstr, 'a) getter" where
  "apCfgKey3ValGet unit bss = get_str 32 (ssid_name unit bss ''_key3'')"

definition apCfgKey4ValSet :: "int \<Rightarrow> int \<Rightarrow> cstr \<Rightarrow> 'a setter" where
  "apCfgKey4ValSet unit bss p = reject_if (\<not> wep_key_length (length p))
     (and_then (write_var (ssid_name unit bss ''_key4'') p []) (apCfgWscConfiguredSet 1))"

definition apCfgKey4ValGet :: "int \<Rightarrow> int \<Rightarrow> (cstr, 'a) getter" where
  "apCfgKey4ValGet unit bss = get_str 32 (ssid_name unit bss ''_key4'')"

definition apCfgKeyValGet :: "int \<Rightarrow> int \<Rightarrow> int \<Rightarrow> (cstr, 'a) getter" where
  "apCfgKeyValGet unit bss keyId = get_str 32 (ssid_name unit bss (''_key'' @ fmt_d keyId))"

definition apCfgKeyValSet :: "int \<Rightarrow> int \<Rightarrow> int \<Rightarrow> cstr \<Rightarrow> 'a setter" where
  "apCfgKeyValSet unit bss keyId p = reject_if (\<not> wep_key_length (length p)) (if_changed (apCfgKeyValGet unit bss keyId) p
     (for_vaps (\<lambda>i. write_var (ssid_name unit i (''_key'' @ fmt_d keyId)) p [vap_item unit bss])))"

definition apCfgPassphraseGet :: "int \<Rightarrow> int \<Rightarrow> (cstr, 'a) getter" where
  "apCfgPassphraseGet unit bss = get_str 32 (ssid_name unit bss ''_passphrase'')"

definition apCfgPassphraseSet :: "int \<Rightarrow> int \<Rightarrow> cstr \<Rightarrow> 'a setter" where
  "apCfgPassphraseSet unit bss p = reject_if (length p < 0 \<or> CFG_MAX_PASSPHRASE < length p)
     (if_changed (apCfgPassphraseGet unit bss) p
       (and_then (and_then (write_var (ssid_name unit bss ''_passphrase'') p []) (apCfgWscConfiguredSet 1))
         (\<lambda>s. do { s \<leftarrow> apl_set_flag (vap_item unit bss) s; Some (A_OK, s) })))"

subsection \<open>RADIUS and accounting servers\<close>

definition apCfgRadiusServerGet :: "int \<Rightarrow> int \<Rightarrow> (cstr, 'a) getter" where
  "apCfgRadiusServerGet unit bss = get_str 32 (ssid_name unit bss ''_radius_server'')"

definition apCfgRadiusServerSet :: "int \<Rightarrow> int \<Rightarrow> cstr \<Rightarrow> 'a setter" where
  "apCfgRadiusServerSet unit bss p = reject_if (length p < 0 \<or> CFG_MAX_RADIUSNAME < length p) (if_changed (apCfgRadiusServerGet unit bss) p
     (and_then (and_flag (for_vaps (\<lambda>vap. write_var (ssid_name unit vap ''_radius_server'') p [])) (vap_item unit bss))
       (apCfgWscConfiguredSet 1)))"

definition apCfgBackupRadiusServerGet :: "int \<Rightarrow> int \<Rightarrow> (cstr, 'a) getter" where
  "apCfgBackupRadiusServerGet unit bss = get_str 32 (ssid_name unit bss ''_backup_radius_server'')"

definition apCfgBackupRadiusServerSet :: "int \<Rightarrow> int \<Rightarrow> cstr \<Rightarrow> 'a setter" where
  "apCfgBackupRadiusServerSet unit bss p = reject_if (length p < 0 \<or> CFG_MAX_RADIUSNAME < length p) (if_changed (apCfgBackupRadiusServerGet unit bss) p
     (and_then (and_flag (for_vaps (\<lambda>vap. write_var (ssid_name unit vap ''_backup_radius_server'') p [])) (vap_item unit bss))
       (apCfgWscConfiguredSet 1)))"

definition apCfgRadiusPortGet :: "int \<Rightarrow> int \<Rightarrow> (int, 'a) getter" where
  "apCfgRadiusPortGet unit bss = get_buf_atoi 60 (ssid_name unit bss ''_radius_port'')"

definition apCfgRadiusPortSet :: "int \<Rightarrow> int \<Rightarrow> int \<Rightarrow> 'a setter" where
  "apCfgRadiusPortSet unit bss v = reject_if (v < 1 \<or> 65534 < v) (if_changed (apCfgRadiusPortGet unit bss) v
     (and_then (and_flag (for_vaps (\<lambda>vap. write_int 10 (ssid_name unit vap ''_radius_port'') v [])) (vap_item unit bss))
       (apCfgWscConfiguredSet 1)))"

definition apCfgBackupRadiusPortGet :: "int \<Rightarrow> int \<Rightarrow> (int, 'a) getter" where
  "apCfgBackupRadiusPortGet unit bss = get_buf_atoi 60 (ssid_name unit bss ''_backup_radius_port'')"

definition apCfgBackupRadiusPortSet :: "int \<Rightarrow> int \<Rightarrow> int \<Rightarrow> 'a setter" where
  "apCfgBackupRadiusPortSet unit bss v = reject_if (v < 1 \<or> 65534 < v) (if_changed (apCfgBackupRadiusPortGet unit bss) v
     (and_then (and_flag (for_vaps (\<lambda>vap. write_int 10 (ssid_name unit vap ''_backup_radius_port'') v [])) (vap_item unit bss))
       (apCfgWscConfiguredSet 1)))"

definition apCfgRadiusSecretGet :: "int \<Rightarrow> int \<Rightarrow> (cstr, 'a) getter" where
  "apCfgRadiusSecretGet unit bss = get_str 32 (ssid_name unit bss ''_radius_key'')"

definition apCfgRadiusSecretSet :: "int \<Rightarrow> int \<Rightarrow> cstr \<Rightarrow> 'a setter" where
  "apCfgRadiusSecretSet unit bss p = reject_if (length p < 0 \<or> CFG_MAX_SECRETLEN < length p) (if_changed (apCfgRadiusSecretGet unit bss) p
     (and_then (and_flag (for_vaps (\<lambda>vap. write_var (ssid_name unit vap ''_radius_key'') p [])) (vap_item unit bss))
       (apCfgWscConfiguredSet 1)))"

definition apCfgBackupRadiusSecretGet :: "int \<Rightarrow> int \<Rightarrow> (cstr, 'a) getter" where
  "apCfgBackupRadiusSecretGet unit bss = get_str 32 (ssid_name unit bss ''_backup_radius_key'')"

definition apCfgBackupRadiusSecretSet :: "int \<Rightarrow> int \<Rightarrow> cstr \<Rightarrow> 'a setter" where
  "apCfgBackupRadiusSecretSet unit bss p = reject_if (length p < 0 \<or> CFG_MAX_SECRETLEN < length p) (if_changed (apCfgBackupRadiusSecretGet unit bss) p
     (and_then (and_flag (for_vaps (\<lambda>vap. write_var (ssid_name unit vap ''_backup_radius_key'') p [])) (vap_item unit bss))
       (apCfgWscConfiguredSet 1)))"

definition apCfgGroupKeyUpdateIntervalGet :: "int \<Rightarrow> int \<Rightarrow> (int, 'a) getter" where
  "apCfgGroupKeyUpdateIntervalGet unit bss = get_buf_atoi 60 (ssid_name unit bss ''_rekey_interval'')"

definition apCfgGroupKeyUpdateIntervalSet :: "int \<Rightarrow> int \<Rightarrow> int \<Rightarrow> 'a setter" where
  "apCfgGroupKeyUpdateIntervalSet unit bss v = reject_if (v < MIN_GROUP_KEY_UPDATE_INTERVAL \<or>
     MAX_GROUP_KEY_UPDATE_INTERVAL < v) (if_changed (apCfgGroupKeyUpdateIntervalGet unit bss) v (and_then
     (write_int 10 (ssid_name unit bss ''_rekey_interval'') v [vap_item unit bss]) (apCfgWscConfiguredSet
     1)))"

definition apCfgDot1xKeyModeGet :: "int \<Rightarrow> int \<Rightarrow> (int, 'a) getter" where
  "apCfgDot1xKeyModeGet unit bss = get_buf_atoi 60 (ssid_name unit bss ''_dot1x_key_mode'')"

definition apCfgDot1xKeyModeSet :: "int \<Rightarrow> int \<Rightarrow> int \<Rightarrow> 'a setter" where
  "apCfgDot1xKeyModeSet unit bss v = reject_if (v < 1 \<or> 3 < v) (if_changed (apCfgDot1xKeyModeGet unit bss) v
     (and_then (write_char (ssid_name unit bss ''_dot1x_key_mode'') v [vap_item unit bss]) (apCfgWscConfiguredSet 1)))"

definition apCfgDot1xKeyLenGet :: "int \<Rightarrow> int \<Rightarrow> (int, 'a) getter" where
  "apCfgDot1xKeyLenGet unit bss = get_buf_atoi 60 (ssid_name unit bss ''_dot1x_key_length'')"

definition apCfgDot1xKeyLenSet :: "int \<Rightarrow> int \<Rightarrow> int \<Rightarrow> 'a setter" where
  "apCfgDot1xKeyLenSet unit bss v = reject_if (v \<noteq> 5 \<and> v \<noteq> 13 \<and> v \<noteq> 16)
     (if_changed (apCfgDot1xKeyLenGet unit bss) v (and_then (write_int 10 (ssid_name unit bss
     ''_dot1x_key_length'') v [vap_item unit bss]) (apCfgWscConfiguredSet 1)))"

definition scApCfgGroupKeyUpdateEnabledGet :: "int \<Rightarrow> int \<Rightarrow> (int, 'a) getter" where
  "scApCfgGroupKeyUpdateEnabledGet unit bss = get_bool (ssid_name unit bss ''_rekey_mode'')"

definition scApCfgGroupKeyUpdateEnabledSet :: "int \<Rightarrow> int \<Rightarrow> int \<Rightarrow> 'a setter" where
  "scApCfgGroupKeyUpdateEnabledSet unit bss v = if_changed (scApCfgGroupKeyUpdateEnabledGet unit bss) v
     (and_then (write_var (ssid_name unit bss ''_rekey_mode'') (onoff v) [vap_item unit bss])
     (apCfgWscConfiguredSet 1))"

definition scApCfgGroupKeyUpdateTerminatedGet :: "int \<Rightarrow> int \<Rightarrow> (int, 'a) getter" where
  "scApCfgGroupKeyUpdateTerminatedGet unit bss = get_buf_atoi 60 (ssid_name unit bss ''_rekey_terminated'')"

definition scApCfgGroupKeyUpdateTerminatedSet :: "int \<Rightarrow> int \<Rightarrow> int \<Rightarrow> 'a setter" where
  "scApCfgGroupKeyUpdateTerminatedSet unit bss v = if_changed (scApCfgGroupKeyUpdateTerminatedGet unit bss) v
     (and_then (write_char (ssid_name unit bss ''_rekey_terminated'') v [vap_item unit bss]) (apCfgWscConfiguredSet 1))"

definition scApCfgAcctServerGet :: "int \<Rightarrow> int \<Rightarrow> (cstr, 'a) getter" where
  "scApCfgAcctServerGet unit bss = get_str 32 (ssid_name unit bss ''_acct_server'')"

definition scApCfgAcctServerSet :: "int \<Rightarrow> int \<Rightarrow> cstr \<Rightarrow> 'a setter" where
  "scApCfgAcctServerSet unit bss p = reject_if (length p < 1 \<or> CFG_MAX_SECRETLEN < length p) (if_changed (scApCfgAcctServerGet unit bss) p
     (and_then (and_flag (for_vaps (\<lambda>vap. write_var (ssid_name unit bss ''_acct_server'') p [])) (vap_item unit bss))
       (apCfgWscConfiguredSet 1)))"

definition scApCfgBackupAcctServerGet :: "int \<Rightarrow> int \<Rightarrow> (cstr, 'a) getter" where
  "scApCfgBackupAcctServerGet unit bss = get_str 32 (ssid_name unit bss ''_backup_acct_server'')"

definition scApCfgBackupAcctServerSet :: "int \<Rightarrow> int \<Rightarrow> cstr \<Rightarrow> 'a setter" where
  "scApCfgBackupAcctServerSet unit bss p = reject_if (length p < 1 \<or> CFG_MAX_SECRETLEN < length p) (if_changed (scApCfgBackupAcctServerGet unit bss) p
     (and_then (and_flag (for_vaps (\<lambda>vap. write_var (ssid_name unit bss ''_backup_acct_server'') p [])) (vap_item unit bss))
       (apCfgWscConfiguredSet 1)))"

definition scApCfgAcctSecretGet :: "int \<Rightarrow> int \<Rightarrow> (cstr, 'a) getter" where
  "scApCfgAcctSecretGet unit bss = get_str 128 (ssid_name unit bss ''_acct_key'')"

definition scApCfgAcctSecretSet :: "int \<Rightarrow> int \<Rightarrow> cstr \<Rightarrow> 'a setter" where
  "scApCfgAcctSecretSet unit bss p = reject_if (length p < 0 \<or> CFG_MAX_SECRETLEN < length p) (if_changed (scApCfgAcctSecretGet unit bss) p
     (and_then (and_flag (for_vaps (\<lambda>vap. write_var (ssid_name unit vap ''_acct_key'') p [])) (vap_item unit bss))
       (apCfgWscConfiguredSet 1)))"

definition scApCfgBackupAcctSecretGet :: "int \<Rightarrow> int \<Rightarrow> (cstr, 'a) getter" where
  "scApCfgBackupAcctSecretGet unit bss = get_str 128 (ssid_name unit bss ''_backup_acct_key'')"

definition scApCfgBackupAcctSecretSet :: "int \<Rightarrow> int \<Rightarrow> cstr \<Rightarrow> 'a setter" where
  "scApCfgBackupAcctSecretSet unit bss p = reject_if (length p < 0 \<or> CFG_MAX_SECRETLEN < length p) (if_changed (scApCfgBackupAcctSecretGet unit bss) p
     (and_then (and_flag (for_vaps (\<lambda>vap. write_var (ssid_name unit vap ''_backup_acct_key'') p [])) (vap_item unit bss))
       (apCfgWscConfiguredSet 1)))"

definition scApCfgAcctPortGet :: "int \<Rightarrow> int \<Rightarrow> (int, 'a) getter" where
  "scApCfgAcctPortGet unit bss = get_buf_atoi 60 (ssid_name unit bss ''_acct_port'')"

definition scApCfgAcctPortSet :: "int \<Rightarrow> int \<Rightarrow> int \<Rightarrow> 'a setter" where
  "scApCfgAcctPortSet unit bss v = reject_if (v < 1 \<or> 65534 < v) (if_changed (scApCfgAcctPortGet unit bss) v
     (and_then (and_flag (for_vaps (\<lambda>vap. write_int 10 (ssid_name unit vap ''_acct_port'') v [])) (vap_item unit bss))
       (apCfgWscConfiguredSet 1)))"

definition scApCfgBackupAcctPortGet :: "int \<Rightarrow> int \<Rightarrow> (int, 'a) getter" where
  "scApCfgBackupAcctPortGet unit bss = get_buf_atoi 60 (ssid_name unit bss ''_backup_acct_port'')"

definition scApCfgBackupAcctPortSet :: "int \<Rightarrow> int \<Rightarrow> int \<Rightarrow> 'a setter" where
  "scApCfgBackupAcctPortSet unit bss v = reject_if (v < 1 \<or> 65534 < v) (if_changed (scApCfgBackupAcctPortGet unit bss) v
     (and_then (and_flag (for_vaps (\<lambda>vap. write_int 10 (ssid_name unit vap ''_backup_acct_port'') v [])) (vap_item unit bss))
       (apCfgWscConfiguredSet 1)))"

subsection \<open>Key lengths and VLANs of the access points\<close>

definition apCfgKeyBitLenGet :: "int \<Rightarrow> int \<Rightarrow> (int, 'a) getter" where
  "apCfgKeyBitLenGet unit bss = get_buf_atoi 60 (ssid_name unit bss ''_key_length'')"

definition apCfgKeyBitLenSet :: "int \<Rightarrow> int \<Rightarrow> int \<Rightarrow> 'a setter" where
  "apCfgKeyBitLenSet unit bss v = reject_if (v \<noteq> 40 \<and> v \<noteq> 104 \<and> v \<noteq> 128) (if_changed (apCfgKeyBitLenGet unit bss) v
     (and_then (for_vaps (\<lambda>i. write_int 10 (ssid_name unit i ''_key_length'') v [vap_item unit bss]))
       (apCfgWscConfiguredSet 1)))"

definition apCfgKeyEntryMethodGet :: "int \<Rightarrow> int \<Rightarrow> (int, 'a) getter" where
  "apCfgKeyEntryMethodGet unit bss = get_buf_atoi 60 (ssid_name unit bss ''_key_method'')"

definition apCfgKeyEntryMethodSet :: "int \<Rightarrow> int \<Rightarrow> int \<Rightarrow> 'a setter" where
  "apCfgKeyEntryMethodSet unit bss v = if_changed (apCfgKeyEntryMethodGet unit bss) v
     (and_then (for_vaps (\<lambda>i. write_int 10 (ssid_name unit i ''_key_method'') v [vap_item unit bss]))
       (apCfgWscConfiguredSet 1))"

definition apCfgVlanPvidGet :: "int \<Rightarrow> int \<Rightarrow> (int, 'a) getter" where
  "apCfgVlanPvidGet unit bss = get_buf_atoi 32 (ssid_name unit bss ''_vid'')"

definition apCfgVlanPvidSet :: "int \<Rightarrow> int \<Rightarrow> int \<Rightarrow> 'a setter" where
  "apCfgVlanPvidSet unit bss v = reject_if (v < VLAN_TAG_MIN \<or> VLAN_TAG_MAX < v) (if_changed
     (apCfgVlanPvidGet unit bss) v (write_int 10 (ssid_name unit bss ''_vid'') v [APL_VLAN]))"

definition apCfgIntraVapForwardingGet :: "int \<Rightarrow> int \<Rightarrow> (int, 'a) getter" where
  "apCfgIntraVapForwardingGet unit bss = get_bool (ssid_name unit bss ''_isolation'')"

definition apCfgIntraVapForwardingSet :: "int \<Rightarrow> int \<Rightarrow> int \<Rightarrow> 'a setter" where
  "apCfgIntraVapForwardingSet unit bss v = if_changed (apCfgIntraVapForwardingGet unit bss) v (write_var
     (ssid_name unit bss ''_isolation'') (onoff v) [vap_item unit bss])"

subsection \<open>Access control\<close>

definition apCfgAclModeGet :: "int \<Rightarrow> int \<Rightarrow> (int, 'a) getter" where
  "apCfgAclModeGet unit bss = get_word [(''Disable'', APCFG_ACL_DISABLED), (''Local'', APCFG_ACL_LOCAL),
     (''Radius'', APCFG_ACL_RADIUS)] APCFG_ACL_DISABLED (ssid_name unit bss ''_access_control'')"

definition apCfgAclModeSet :: "int \<Rightarrow> int \<Rightarrow> int \<Rightarrow> 'a setter" where
  "apCfgAclModeSet unit bss v = if_changed (apCfgAclModeGet unit bss) v (write_var (ssid_name unit bss
     ''_access_control'') (case map_of [(APCFG_ACL_DISABLED, ''Disable''), (APCFG_ACL_LOCAL, ''Local''),
     (APCFG_ACL_RADIUS, ''Radius'')] v of Some w \<Rightarrow> w | None \<Rightarrow> ''Disable'') [vap_item
     unit bss])"

definition apCfgAclTypeGet :: "int \<Rightarrow> int \<Rightarrow> (int, 'a) getter" where
  "apCfgAclTypeGet unit bss = get_word [(ENABLE, APCFG_ACL_ALLOW)] APCFG_ACL_PREVENT (ssid_name unit bss ''_acl_type'')"

definition apCfgAclTypeSet :: "int \<Rightarrow> int \<Rightarrow> int \<Rightarrow> 'a setter" where
  "apCfgAclTypeSet unit bss v = if_changed (apCfgAclTypeGet unit bss) v
     (write_var (ssid_name unit bss ''_acl_type'') (if v = APCFG_ACL_ALLOW then ENABLE else DISABLE) [vap_item unit bss])"

definition apCfgAclClear :: "int \<Rightarrow> int \<Rightarrow> 'a setter" where
  "apCfgAclClear unit bss = write_var (ssid_name unit bss ''_acl_list'') [] [vap_item unit bss]"

subsection \<open>Mode and channel width\<close>

text \<open>On an unknown word the function returns -1.\<close>

definition apCfgFreqSpecGet :: "int \<Rightarrow> (int, 'a) getter" where
  "apCfgFreqSpecGet unit = get_word [(''MODE_SELECT_AUTO'', MODE_SELECT_AUTO), (''MODE_SELECT_11A'', MODE_SELECT_11A),
      (''MODE_SELECT_11B'', MODE_SELECT_11B), (''MODE_SELECT_11G'', MODE_SELECT_11G), (''MODE_SELECT_FH'', MODE_SELECT_FH),
      (''MODE_SELECT_TURBOA'', MODE_SELECT_TURBOA), (''MODE_SELECT_TURBOG'', MODE_SELECT_TURBOG),
      (''MODE_SELECT_11NA'', MODE_SELECT_11NA), (''MODE_SELECT_11NG'', MODE_SELECT_11NG),
      (''MODE_SELECT_11N'', MODE_SELECT_11N), (''MODE_SELECT_11BG'', MODE_SELECT_11BG),
      (''MODE_SELECT_11BGN'', MODE_SELECT_11BGN)] (- 1) (wlan_name unit ''_mode'')"

definition freq_word :: "int \<Rightarrow> cstr" where
  "freq_word v = (case map_of [(MODE_SELECT_AUTO, ''MODE_SELECT_AUTO''), (MODE_SELECT_11A, ''MODE_SELECT_11A''),
      (MODE_SELECT_11B, ''MODE_SELECT_11B''), (MODE_SELECT_11G, ''MODE_SELECT_11G''), (MODE_SELECT_FH, ''MODE_SELECT_FH''),
      (MODE_SELECT_TURBOA, ''MODE_SELECT_TURBOA''), (MODE_SELECT_TURBOG, ''MODE_SELECT_TURBOG''),
      (MODE_SELECT_11NA, ''MODE_SELECT_11NA''), (MODE_SELECT_11NG, ''MODE_SELECT_11NG''),
      (MODE_SELECT_11N, ''MODE_SELECT_11N''), (MODE_SELECT_11BG, ''MODE_SELECT_11BG''),
      (MODE_SELECT_11BGN, ''MODE_SELECT_11BGN'')] v of Some w \<Rightarrow> w | None \<Rightarrow> ''MODE_SELECT_AUTO'')"

definition apCfgFreqSpecSet :: "int \<Rightarrow> int \<Rightarrow> 'a setter" where
  "apCfgFreqSpecSet unit v = if_changed (apCfgFreqSpecGet unit) v
     (and_echo (write_var (wlan_name unit ''_mode'') (freq_word v) [wlan_item unit]) ''/tmp/apl_reload_mod'')"

definition apCfgVlanModeGet :: "(int, 'a) getter" where
  "apCfgVlanModeGet = get_bool ''vlan_mode''"

definition apCfgVlanModeSet :: "int \<Rightarrow> 'a setter" where
  "apCfgVlanModeSet v = if_changed apCfgVlanModeGet v (write_var ''vlan_mode'' (onoff v) [APL_VLAN])"

subsection \<open>The rest\<close>

definition apCfgwdsVlanListGet :: "(cstr, 'a) getter" where
  "apCfgwdsVlanListGet = get_str 21 ''wds_vlan_list''"

definition apCfgMultiEnhanceGet :: "(int, 'a) getter" where
  "apCfgMultiEnhanceGet s = do {
     (p, s) \<leftarrow> nvram_get ''multicast_enbance'' s;
     Some (case p of Some p \<Rightarrow> atoi p | None \<Rightarrow> 0, s)
   }"

definition apCfgMultiEnhanceSet :: "int \<Rightarrow> 'a setter" where
  "apCfgMultiEnhanceSet v = if_changed apCfgMultiEnhanceGet v (write_var ''multicast_enbance'' (onoff v)
     [APL_WLAN0])"

definition apCfgEthDataRateGet :: "(int, 'a) getter" where
  "apCfgEthDataRateGet s = do {
     (p, s) \<leftarrow> nvram_get ''eth_data_rate'' s;
     p \<leftarrow> p;
     Some (case map_of [(''auto'', 0), (''10Mbps'', 10), (''100Mbps'', 100), (''1000Mbps'', 1000)] p of
       Some a \<Rightarrow> a | None \<Rightarrow> 0, s)
   }"

definition apCfgEthDataRateSet :: "int \<Rightarrow> 'a setter" where
  "apCfgEthDataRateSet v = if_changed apCfgEthDataRateGet v
     (and_then (write_var ''eth_data_rate'' (if v = 1000 then ''1000Mbps'' else if v = 100 then ''100Mbps''
         else if v = 10 then ''10Mbps'' else ''auto'') [])
       (write_var ''lan_portspeed_define'' (if v = 1000 then ''2'' else if v = 100 then ''1'' else ''0'') [APL_ETH_DATARATE]))"

definition apCfgCertGet :: "(cstr, 'a) getter" where
  "apCfgCertGet = get_str (MAX_CERT_CONTENT + 1) ''cert_content''"

definition apCfgCertSet :: "cstr \<Rightarrow> 'a setter" where
  "apCfgCertSet p = reject_if (length p < 0 \<or> MAX_CERT_CONTENT < length p) (if_changed apCfgCertGet p
     (write_var ''cert_content'' p [APL_HTTPD]))"

definition apCfgCertTimeGet :: "(cstr, 'a) getter" where
  "apCfgCertTimeGet = get_str (MAX_CERT_TIME + 1) ''cert_time''"

definition apCfgCertTimeSet :: "cstr \<Rightarrow> 'a setter" where
  "apCfgCertTimeSet p = reject_if (length p < 0 \<or> MAX_CERT_TIME < length p) (if_changed apCfgCertTimeGet
     p (write_var ''cert_time'' p []))"

definition apcfg_submit :: "'a host_scheme \<Rightarrow> 'a host_scheme" where
  "apcfg_submit s = snd (nvram_commit (stack_word s) s)"

definition apCfgAutoRebootModeGet :: "(int, 'a) getter" where
  "apCfgAutoRebootModeGet s = do {
     (p, s) \<leftarrow> nvram_safe_get ''auto_reboot'' s;
     Some (if p = [] then 1 else if p = ENABLE then 1 else 0, s)
   }"

definition apCfgAutoRebootModeSet :: "int \<Rightarrow> 'a setter" where
  "apCfgAutoRebootModeSet v = if_changed apCfgAutoRebootModeGet v (write_var ''auto_reboot'' (onoff v)
     [APL_AUTOREBOOT])"

definition apCfgAutoRebootIntervalGet :: "(int, 'a) getter" where
  "apCfgAutoRebootIntervalGet = get_atoi ''auto_reboot_interval''"

definition scApCfgAutoRebootIntervalSet :: "int \<Rightarrow> 'a setter" where
  "scApCfgAutoRebootIntervalSet v = reject_if (v < CFG_MIN_REBOOT_TIME \<or> CFG_MAX_REBOOT_TIME < v)
     (if_changed apCfgAutoRebootIntervalGet v (write_int 6 ''auto_reboot_interval'' v [APL_AUTOREBOOT]))"

end
