(* ===== verification/Apcfg_Laws.thy ===== *)
theory Apcfg_Laws
  imports Apcfg_Lan Apcfg_Services Apcfg_Wlan
begin

text \<open>
  What the settings promise: a setter that accepts a value makes its getter return it, changes no
  other variable, and requests the re-apply of the right items exactly when the value differs from
  the old one; a value outside the range is refused with nothing changed. The settings that keep
  this contract are collected in tables, one per kind of value, each entry with the name of its
  variable, its range, its setter, its getter and the items it re-applies. The theory then has the
  settings that break the contract, and the rule that ties the operation mode to the access points.
\<close>

subsection \<open>The contract\<close>

definition set_get :: "'a setter \<Rightarrow> ('v, 'a) getter \<Rightarrow> 'v \<Rightarrow> cstr \<Rightarrow> nat list \<Rightarrow> 'a host_scheme \<Rightarrow> bool" where
  "set_get m get v n is s \<longleftrightarrow>
     (\<exists>old s0 s1 s2. get s = Some (old, s0) \<and> m s = Some (A_OK, s1) \<and> get s1 = Some (v, s2) \<and> cfg_inv s2 \<and>
        (\<forall>n'. n' \<noteq> n \<longrightarrow> nvram_view s2 n' = nvram_view s n') \<and>
        pending s2 = pending s @ (if old = v then [] else is))"

definition refuses :: "'a setter \<Rightarrow> 'a host_scheme \<Rightarrow> bool" where
  "refuses m s \<longleftrightarrow> m s = Some (A_ERROR, s)"

text \<open>The rule every table rests on: the getter decodes the variable, the setter writes a code of the
  value that the getter's buffer can hold.
\<close>

lemma set_get_if_changed:
  assumes inv: "cfg_inv s" and n: "var_name n" and flags: "\<forall>i \<in> set is. cfg_flag i"
    and reads: "\<And>s :: 'a host_scheme. cfg_inv s \<Longrightarrow> fits (nvram_view s n) \<Longrightarrow> reads get s (dec (nvram_view s n))"
    and old: "fits (nvram_view s n)" and w: "client_value w" "fits w" "dec w = v"
  shows "set_get (if_changed get v (write_var n w is)) get v n is s"
proof -
  have old_reads: "reads get s (dec (nvram_view s n))" by (rule reads [OF inv old])
  have "updates (if_changed get v (write_var n w is)) s A_OK
      (if v \<noteq> dec (nvram_view s n) then (nvram_view s)(n := w) else nvram_view s)
      (if v \<noteq> dec (nvram_view s n) then is else [])"
    by (rule updates_if_changed [OF old_reads]) (metis updates_write_var [OF _ n w(1) flags])
  then obtain s1 where s1: "if_changed get v (write_var n w is) s = Some (A_OK, s1)" "cfg_inv s1"
    "nvram_view s1 = (if v \<noteq> dec (nvram_view s n) then (nvram_view s)(n := w) else nvram_view s)"
    "pending s1 = pending s @ (if v \<noteq> dec (nvram_view s n) then is else [])"
    unfolding updates_def by blast
  have "dec (nvram_view s1 n) = v" "fits (nvram_view s1 n)"
    using s1(3) old w by auto
  then have "reads get s1 v" using reads [OF s1(2)] by simp
  then obtain s2 where "get s1 = Some (v, s2)" "cfg_inv s2" "nvram_view s2 = nvram_view s1" "pending s2 = pending s1"
    unfolding reads_def by blast
  moreover obtain s0 where "get s = Some (dec (nvram_view s n), s0)" using old_reads unfolding reads_def by blast
  ultimately show ?thesis using s1 unfolding set_get_def by auto
qed

lemma write_int_eq: "length (fmt_d v) < k \<Longrightarrow> write_int k n v is = write_var n (fmt_d v) is"
  by (simp add: write_int_def fun_eq_iff)

lemma set_get_onoff:
  assumes "cfg_inv s" "var_name n" "\<forall>i \<in> set is. cfg_flag i" "v \<in> {0, 1}"
  shows "set_get (if_changed (get_bool n) v (write_var n (onoff v) is)) (get_bool n) v n is s"
proof (rule set_get_if_changed [where fits = "\<lambda>_. True" and dec = "\<lambda>x. if x = ENABLE then 1 else 0"])
  show "(if onoff v = ENABLE then 1 else 0) = v" using assms(4) by (auto simp: onoff_def)
qed (use assms in \<open>simp_all add: reads_simple(1)\<close>)

lemma set_get_ip:
  assumes "cfg_inv s" "var_name n" "\<forall>i \<in> set is. cfg_flag i"
  shows "set_get (if_changed (get_ip n) v (write_var n (inet_ntoa v) is)) (get_ip n) v n is s"
  by (rule set_get_if_changed [where fits = "\<lambda>_. True" and dec = inet_addr])
    (use assms in \<open>auto intro: reads_simple(3)\<close>)

lemma set_get_str:
  assumes "cfg_inv s" "var_name n" "\<forall>i \<in> set is. cfg_flag i" "cstr_ok p" "length p < k" "k \<le> 4300"
    and "length (nvram_view s n) < k"
  shows "set_get (if_changed (get_str k n) p (write_var n p is)) (get_str k n) p n is s"
  by (rule set_get_if_changed [where fits = "\<lambda>x. length x < k" and dec = "\<lambda>x. x"])
    (use assms in \<open>auto simp: client_value_def intro: reads_str\<close>)

lemma client_value_fmt_d: "length (fmt_d v) < 4300 \<Longrightarrow> client_value (fmt_d v)"
  by (simp add: client_value_def)

lemma set_get_atoi:
  assumes "cfg_inv s" "var_name n" "\<forall>i \<in> set is. cfg_flag i" "0 \<le> v" "v < 100000" "length (fmt_d v) < k"
  shows "set_get (if_changed (get_atoi n) v (write_int k n v is)) (get_atoi n) v n is s"
  unfolding write_int_eq [OF assms(6)]
  by (rule set_get_if_changed [where fits = "\<lambda>_. True" and dec = atoi])
    (use assms length_fmt_d_5 [of v] in \<open>auto simp: int_range_def INT_MIN_def INT_MAX_def
      intro: reads_simple(2) client_value_fmt_d\<close>)

lemma set_get_buf_atoi:
  assumes "cfg_inv s" "var_name n" "\<forall>i \<in> set is. cfg_flag i" "0 \<le> v" "v < 100000" "length (fmt_d v) < k"
    and "length (nvram_view s n) < b" "5 < b"
  shows "set_get (if_changed (get_buf_atoi b n) v (write_int k n v is)) (get_buf_atoi b n) v n is s"
  unfolding write_int_eq [OF assms(6)]
  by (rule set_get_if_changed [where fits = "\<lambda>x. length x < b" and dec = atoi])
    (use assms length_fmt_d_5 [of v] in \<open>auto simp: int_range_def INT_MIN_def INT_MAX_def
      intro: reads_buf_atoi client_value_fmt_d\<close>)

subsection \<open>The tables\<close>

definition onoff_settings :: "(cstr \<times> (int \<Rightarrow> 'a setter) \<times> (int, 'a) getter \<times> nat list) list" where
  "onoff_settings =
     [(''lan_dhcpc'', apCfgDhcpEnableSet, apCfgDhcpEnableGet, [APL_IPv4]),
      (''lan_dhcp6c'', apCfgDhcp6EnableSet, apCfgDhcp6EnableGet, [APL_IPv6]),
      (''lan_radvd'', apCfgRadvdEnableSet, apCfgRadvdEnableGet, [APL_IPv6]),
      (''lan_dhcps'', apCfgDhcpServerEnableSet, apCfgDhcpServerEnableGet, [APL_IPv4]),
      (''timezone_daylightsaving'', apCfgDaylightSavingSet, apCfgDaylightSavingGet, [APL_NTP]),
      (''lltd'', apCfglltdSet, apCfglltdGet, [APL_LLTD]),
      (''stp'', apCfgStpSet, apCfgStpGet, [APL_STP]),
      (''bonjour_enable'', apCfgBonjourSet, apCfgBonjourGet, [APL_BONJOUR]),
      (''rediret_mode'', apCfgRedirectModeSet, apCfgRedirectModeGet, [APL_HTTPREDIRECT]),
      (''rogue_mode'', scApCfgRogueDetectSet, scApCfgRogueDetectGet, [APL_ROGUEAP]),
      (''vlan_default_tag'', apCfgNativeVlanTagSet, apCfgNativeVlanTagGet, [APL_VLAN]),
      (''vlan_wds_tag'', apCfgWdsVlanTagSet, apCfgWdsVlanTagGet, [APL_VLAN]),
      (''syslog_mode'', apCfgsysLogEnabledSet, apCfgsysLogEnabledGet, [APL_LOG]),
      (''syslog_broadcast'', apCfgsysLogBroadcastSet, apCfgsysLogBroadcastGet, [APL_LOG]),
      (''log_login_fail'', apCfgDeauthSet, apCfgDeauthGet, [APL_LOG]),
      (''log_login_success'', apCfgAuthLoginSet, apCfgAuthLoginGet, [APL_LOG]),
      (''log_system_errors'', apCfgChangeSysFucSet, apCfgChangeSysFucGet, [APL_LOG]),
      (''log_conf_change'', apCfgChangeCfgSet, apCfgChangeCfgGet, [APL_LOG]),
      (''email_alert'', apCfgemailAlertsEnabledSet, apCfgemailAlertsEnabledGet, [APL_LOG]),
      (''eth_supp_mode'', scApCfgDot1xSuppEnableSet, scApCfgDot1xSuppEnableGet, [APL_ETHSUP]),
      (''eth_supp_mac'', scApCfgDot1xSuppMacEnableSet, scApCfgDot1xSuppMacEnableGet, [APL_ETHSUP]),
      (''http_mode'', apCfgHttpModeSet, apCfgHttpModeGet, [APL_HTTPD]),
      (''autohttps'', apCfgAutohttpsModeSet, apCfgAutohttpsModeGet, [APL_HTTPD, APL_BONJOUR]),
      (''https_mode'', apCfgHttpsModeSet, apCfgHttpsModeGet, [APL_HTTPD]),
      (''wlan_manage'', apCfgWlanAccessSet, apCfgWlanAccessGet, [APL_HTTPD]),
      (''SSH'', apCfgSSHSet, apCfgSSHGet, [APL_SSH, APL_BONJOUR]),
      (''telnet_mode'', apCfgTelnetModeSet, apCfgTelnetModeGet, [APL_HTTPD]),
      (''snmp_mode'', apCfgSnmpModeSet, apCfgSnmpModeGet, [APL_SNMP]),
      (''snmp_trusted_any'', apCfgSnmpAnyManagerSet, apCfgSnmpAnyManagerGet, [APL_SNMP]),
      (wlan_name 0 ''_state'', (apCfgWlanStateSet 0), (apCfgWlanStateGet 0), [APL_WLAN0]),
      (wlan_name 0 ''_wps'', (apCfgWpsModeSet 0), (apCfgWpsModeGet 0), [APL_WLAN0]),
      (wlan_name 0 ''_ampdu'', (scApCfgAmpduSet 0), (scApCfgAmpduGet 0), [APL_WLAN0]),
      (wlan_name 0 ''_amsdu'', (scApCfgAmsduSet 0), (scApCfgAmsduGet 0), [APL_WLAN0]),
      (wlan_name 0 ''_80211d'', (scApCfg80211dEnabledSet 0), (scApCfg80211dEnabledGet 0), [APL_WLAN0]),
      (wlan_name 0 ''_prb_type'', (apCfgShortPreambleSet 0), (apCfgShortPreambleGet 0), [APL_WLAN0]),
      (wlan_name 0 ''_balance'', (apCfgBalanceModeSet 0), (apCfgBalanceModeGet 0), [APL_BALANCE]),
      (''vlan_mode'', apCfgVlanModeSet, apCfgVlanModeGet, [APL_VLAN])]"

definition vap_onoff_settings :: "int \<Rightarrow> (cstr \<times> (int \<Rightarrow> 'a setter) \<times> (int, 'a) getter \<times> nat list) list" where
  "vap_onoff_settings bss =
     [(ssid_name 0 bss ''_broabcast'', (apCfgSsidModeSet 0 bss), (apCfgSsidModeGet 0 bss), [vap_item 0 bss]),
      (ssid_name 0 bss ''_wmm'', (apCfgWmeSet 0 bss), (apCfgWmeGet 0 bss), [vap_item 0 bss]),
      (ssid_name 0 bss ''_wmmps'', (apCfgWmmpsSet 0 bss), (apCfgWmmpsGet 0 bss), [vap_item 0 bss]),
      (ssid_name 0 bss ''_no_ack'', (apCfgNoAckSet 0 bss), (apCfgNoAckGet 0 bss), [vap_item 0 bss]),
      (ssid_name 0 bss ''_isolation'', (apCfgIntraVapForwardingSet 0 bss), (apCfgIntraVapForwardingGet 0 bss), [vap_item 0 bss])]"

definition ip_settings :: "(cstr \<times> (32 word \<Rightarrow> 'a setter) \<times> (32 word, 'a) getter \<times> nat list) list" where
  "ip_settings =
     [(''lan_ipaddr'', apCfgIpAddrSet, apCfgIpAddrGet, [APL_IPv4, APL_BONJOUR]),
      (''lan_netmask'', apCfgIpMaskSet, apCfgIpMaskGet, [APL_IPv4]),
      (''lan_gateway'', apCfgGatewayAddrSet, apCfgGatewayAddrGet, [APL_IPv4]),
      (''snmp_trusted_host_start'', apCfgSnmpManagerIpSet, apCfgSnmpManagerIpGet, [APL_SNMP]),
      (''snmp_trusted_host_end'', apCfgSnmpManagerIpEndSet, apCfgSnmpManagerIpEndGet, [APL_SNMP]),
      (''snmp_trap_dest'', apCfgSnmpTrapRecvIpSet, apCfgSnmpTrapRecvIpGet, [APL_SNMP])]"

definition int_settings :: "(cstr \<times> int \<times> int \<times> nat \<times> (int \<Rightarrow> 'a setter) \<times> (int, 'a) getter \<times> nat list) list" where
  "int_settings =
     [(wlan_name 0 ''_bcn'', MIN_BEACON_PERIOD, MAX_BEACON_PERIOD, 5000, (apCfgBeaconIntervalSet 0), (apCfgBeaconIntervalGet 0), [APL_WLAN0]),
      (''vlan_default'', VLAN_TAG_MIN, VLAN_TAG_MAX, 5000, apCfgNativeVlanIdSet, apCfgNativeVlanIdGet, [APL_VLAN]),
      (''vlan_management'', VLAN_TAG_MIN, VLAN_TAG_MAX, 5000, apCfgManagementVlanIdSet, apCfgManagementVlanIdGet, [APL_VLAN]),
      (''syslog_severity'', 1, 6, 5000, apCfgsysLogSeveritySet, apCfgsysLogSeverityGet, [APL_LOG]),
      (''email_queue_length'', MIN_ALERT_QLEN, MAX_ALERT_QLEN, 5000, scApCfgemailAlertsQlenSet, apCfgemailAlertsQlenGet, [APL_LOG]),
      (''email_send_period'', MIN_ALERT_INTERVAL, MAX_ALERT_INTERVAL, 5000, scApCfgemailAlertsIntervalSet, scApCfgemailAlertsIntervalGet, [APL_LOG]),
      (''http_port'', 1, 65534, 5000, apCfgHttpPortSet, apCfgHttpPortGet, [APL_HTTPD]),
      (''https_port'', 1, 65534, 5000, apCfgHttpsPortSet, apCfgHttpsPortGet, [APL_HTTPD]),
      (''snmp_trap_version'', 1, 3, 5000, apCfgSnmpTrapVersionSet, apCfgSnmpTrapVersionGet, [APL_SNMP]),
      (wlan_name 0 ''_idle_timeout'', SC_MIN_IDLETIMEOUT_INTERVAL, SC_MAX_IDLETIMEOUT_INTERVAL, 60, (scApCfgIdleTimeoutIntervalSet 0), (scApCfgIdleTimeoutIntervalGet 0), [APL_WLAN0]),
      (wlan_name 0 ''_dtim'', SC_MIN_DTIM_INTERVAL, SC_MAX_DTIM_INTERVAL, 60, (scApCfgDtimIntervalSet 0), (scApCfgDtimIntervalGet 0), [APL_WLAN0]),
      (wlan_name 0 ''_frag'', MIN_FRAG_THRESHOLD, MAX_FRAG_THRESHOLD, 60, (apCfgFragThresholdSet 0), (apCfgFragThresholdGet 0), [APL_WLAN0]),
      (wlan_name 0 ''_rts'', MIN_RTS_THRESHOLD, MAX_RTS_THRESHOLD, 60, (apCfgRtsThresholdSet 0), (apCfgRtsThresholdGet 0), [APL_WLAN0])]"

definition vap_int_settings :: "int \<Rightarrow> (cstr \<times> int \<times> int \<times> nat \<times> (int \<Rightarrow> 'a setter) \<times> (int, 'a) getter \<times> nat list) list" where
  "vap_int_settings bss =
     [(ssid_name 0 bss ''_vid'', VLAN_TAG_MIN, VLAN_TAG_MAX, 32, (apCfgVlanPvidSet 0 bss), (apCfgVlanPvidGet 0 bss), [APL_VLAN])]"

definition free_int_settings :: "(cstr \<times> int \<times> int \<times> nat \<times> (int \<Rightarrow> 'a setter) \<times> (int, 'a) getter \<times> nat list) list" where
  "free_int_settings =
     [(wlan_name 0 ''_cts'', 0, 99999, 5000, (apCfgCTSModeSet 0), (apCfgCTSModeGet 0), [APL_WLAN0]),
      (''secret_mask'', 0, 99999, 5000, apCfgSecMaskSet, apCfgSecMaskGet, []),
      (''tod_mon'', 0, 99999, 5000, apCfgTimeMonSet, apCfgTimeMonGet, [APL_NTP]),
      (''tod_day'', 0, 99999, 5000, apCfgTimeDaySet, apCfgTimeDayGet, [APL_NTP]),
      (''tod_year'', 0, 99999, 5000, apCfgTimeYearSet, apCfgTimeYearGet, [APL_NTP]),
      (''tod_hour'', 0, 99999, 5000, apCfgTimeHourSet, apCfgTimeHourGet, [APL_NTP]),
      (''tod_min'', 0, 99999, 5000, apCfgTimeMinSet, apCfgTimeMinGet, [APL_NTP]),
      (''tod_sec'', 0, 99999, 5000, apCfgTimeSecSet, apCfgTimeSecGet, [APL_NTP]),
      (''ntp_mode'', 0, 99999, 5000, apCfgNtpModeSet, apCfgNtpModeGet, [APL_NTP]),
      (wlan_name 0 ''_transmit_power'', 0, 99999, 60, (apCfgPowerSet 0), (apCfgPowerGet 0), [APL_WLAN0])]"

definition str_settings :: "(cstr \<times> nat \<times> nat \<times> (cstr \<Rightarrow> 'a setter) \<times> (cstr, 'a) getter \<times> nat list) list" where
  "str_settings =
     [(''sys_name'', 1, MAX_SYSNAME, apCfgSysNameSet, apCfgSysNameGet, [APL_SYSNAME, APL_BONJOUR]),
      (''sys_lang'', 0, MAX_DESC, apCfgSysLangSet, apCfgSysLangGet, []),
      (''sys_desc'', 0, MAX_DESC, apCfgDescSet, apCfgDescGet, []),
      (''login_username'', 1, CFG_MAX_USERNAME, apCfgLoginSet, apCfgLoginGet, [APL_LOGIN]),
      (''login_password'', 4, CFG_MAX_PASSWORD, apCfgPasswordSet, apCfgPasswordGet, [APL_LOGIN]),
      (''lan_dns1'', 0, MAX_NAME_SERVER, apCfgNameSrvSet, apCfgNameSrvGet, [APL_IPv4]),
      (''lan_dns2'', 0, MAX_NAME_SERVER, apCfgNameSrv2Set, apCfgNameSrv2Get, [APL_IPv4]),
      (''wins_server'', 0, MAX_WINS_SERVER, apCfgWinsServerSet, apCfgWinsServerGet, []),
      (''ntp_server'', 0, MAX_NTP_SERVER, apCfgNtpServerSet, apCfgNtpServerGet, [APL_NTP]),
      (''timezone_diff'', 0, CFG_TIME_ZONE_LEN, apCfgTimezoneOffsetSet, apCfgTimezoneOffsetGet, [APL_NTP]),
      (''ftp_server'', 0, MAX_FTP_SERVER, apCfgFtpServerSet, apCfgFtpServerGet, [APL_FTP]),
      (''ftp_login_name'', 0, CFG_MAX_FTP_LOGINNAME, apCfgFtpLoginSet, apCfgFtpLoginGet, [APL_FTP]),
      (''ftp_password'', 0, CFG_MAX_FTP_PASSWORD, apCfgFtpPasswdSet, apCfgFtpPasswdGet, [APL_FTP]),
      (''rediret_url'', 0, 128, apCfgRedirectUrlSet, apCfgRedirectUrlGet, [APL_HTTPREDIRECT]),
      (''legal_ap_list'', 0, MAX_LEGALAPLIST, scApCfgLegalApListSet, scApCfgLegalApListGet, [APL_ROGUEAP]),
      (''syslog_server'', 0, MAX_SYSLOG_SERVER, apCfgsysLogServerSet, apCfgsysLogServerGet, [APL_LOG]),
      (''email_alert_server'', 0, MAX_SMTP_SERVER, apCfgsmtpMailServerSet, apCfgsmtpMailServerGet, [APL_LOG]),
      (''email_addr'', 0, MAX_MAIL_SERVER, apCfgemailAddrForLogSet, apCfgemailAddrForLogGet, [APL_LOG]),
      (''emailAddrReturn'', 0, MAX_MAIL_SERVER, apCfgemailAddrReturnSet, apCfgemailAddrReturnGet, [APL_LOG]),
      (''eth_supp_user'', 0, MAX_DOT1XSUPP_NAME, scApCfgDot1xSuppUsernameSet, scApCfgDot1xSuppUsernameGet, [APL_ETHSUP]),
      (''eth_supp_pwd'', 4, MAX_DOT1XSUPP_PASSWD, scApCfgDot1xSuppPasswordSet, scApCfgDot1xSuppPasswordGet, [APL_ETHSUP]),
      (''snmp_contact'', 1, MAX_SNMP_CONTACT, apCfgSnmpContactSet, apCfgSnmpContactGet, [APL_SNMP]),
      (''snmp_device'', 1, MAX_SNMP_DEVNAME, apCfgSnmpDviceNameSet, apCfgSnmpDviceNameGet, [APL_SNMP]),
      (''snmp_location'', 1, MAX_SNMP_LOCATION, apCfgSnmpLocationSet, apCfgSnmpLocationGet, [APL_SNMP]),
      (''snmp_trap_community'', 1, MAX_SNMP_COMMUNITY, apCfgSnmpTrapCommunitySet, apCfgSnmpTrapCommunityGet, [APL_SNMP]),
      (''snmp_community_get'', 1, MAX_SNMP_COMMUNITY, apCfgSnmpReadCommSet, apCfgSnmpReadCommGet, [APL_SNMP]),
      (''snmp_community_set'', 1, MAX_SNMP_COMMUNITY, apCfgSnmpWriteCommSet, apCfgSnmpWriteCommGet, [APL_SNMP]),
      (''snmp_user'', 0, MAX_SNMPV3_USERNAME, apCfgSnmpUserNameSet, apCfgSnmpUserNameGet, [APL_SNMP]),
      (''cert_time'', 0, MAX_CERT_TIME, apCfgCertTimeSet, apCfgCertTimeGet, [])]"

lemmas onoff_defs =
  apCfgSsidModeSet_def apCfgSsidModeGet_def apCfgDhcpEnableSet_def apCfgDhcpEnableGet_def
  apCfgDhcp6EnableSet_def apCfgDhcp6EnableGet_def apCfgRadvdEnableSet_def apCfgRadvdEnableGet_def
  apCfgDhcpServerEnableSet_def apCfgDhcpServerEnableGet_def apCfgDaylightSavingSet_def
  apCfgDaylightSavingGet_def apCfglltdSet_def apCfglltdGet_def apCfgStpSet_def apCfgStpGet_def
  apCfgBonjourSet_def apCfgBonjourGet_def apCfgRedirectModeSet_def apCfgRedirectModeGet_def
  scApCfgRogueDetectSet_def scApCfgRogueDetectGet_def apCfgNativeVlanTagSet_def
  apCfgNativeVlanTagGet_def apCfgWdsVlanTagSet_def apCfgWdsVlanTagGet_def apCfgsysLogEnabledSet_def
  apCfgsysLogEnabledGet_def apCfgsysLogBroadcastSet_def apCfgsysLogBroadcastGet_def
  apCfgDeauthSet_def apCfgDeauthGet_def apCfgAuthLoginSet_def apCfgAuthLoginGet_def
  apCfgChangeSysFucSet_def apCfgChangeSysFucGet_def apCfgChangeCfgSet_def apCfgChangeCfgGet_def
  apCfgemailAlertsEnabledSet_def apCfgemailAlertsEnabledGet_def scApCfgDot1xSuppEnableSet_def
  scApCfgDot1xSuppEnableGet_def scApCfgDot1xSuppMacEnableSet_def scApCfgDot1xSuppMacEnableGet_def
  apCfgHttpModeSet_def apCfgHttpModeGet_def apCfgAutohttpsModeSet_def apCfgAutohttpsModeGet_def
  apCfgHttpsModeSet_def apCfgHttpsModeGet_def apCfgWlanAccessSet_def apCfgWlanAccessGet_def
  apCfgSSHSet_def apCfgSSHGet_def apCfgTelnetModeSet_def apCfgTelnetModeGet_def apCfgSnmpModeSet_def
  apCfgSnmpModeGet_def apCfgSnmpAnyManagerSet_def apCfgSnmpAnyManagerGet_def apCfgWlanStateSet_def
  apCfgWlanStateGet_def apCfgWpsModeSet_def apCfgWpsModeGet_def scApCfgAmpduSet_def
  scApCfgAmpduGet_def scApCfgAmsduSet_def scApCfgAmsduGet_def scApCfg80211dEnabledSet_def
  scApCfg80211dEnabledGet_def apCfgWmeSet_def apCfgWmeGet_def apCfgWmmpsSet_def apCfgWmmpsGet_def
  apCfgNoAckSet_def apCfgNoAckGet_def apCfgShortPreambleSet_def apCfgShortPreambleGet_def
  apCfgBalanceModeSet_def apCfgBalanceModeGet_def apCfgIntraVapForwardingSet_def
  apCfgIntraVapForwardingGet_def apCfgVlanModeSet_def apCfgVlanModeGet_def

lemmas ip_defs =
  apCfgIpAddrSet_def apCfgIpAddrGet_def apCfgIpMaskSet_def apCfgIpMaskGet_def
  apCfgGatewayAddrSet_def apCfgGatewayAddrGet_def apCfgSnmpManagerIpSet_def
  apCfgSnmpManagerIpGet_def apCfgSnmpManagerIpEndSet_def apCfgSnmpManagerIpEndGet_def
  apCfgSnmpTrapRecvIpSet_def apCfgSnmpTrapRecvIpGet_def

lemmas int_defs =
  apCfgCTSModeSet_def apCfgCTSModeGet_def apCfgBeaconIntervalSet_def apCfgBeaconIntervalGet_def
  apCfgSecMaskSet_def apCfgSecMaskGet_def apCfgTimeMonSet_def apCfgTimeMonGet_def
  apCfgTimeDaySet_def apCfgTimeDayGet_def apCfgTimeYearSet_def apCfgTimeYearGet_def
  apCfgTimeHourSet_def apCfgTimeHourGet_def apCfgTimeMinSet_def apCfgTimeMinGet_def
  apCfgTimeSecSet_def apCfgTimeSecGet_def apCfgNtpModeSet_def apCfgNtpModeGet_def
  apCfgNativeVlanIdSet_def apCfgNativeVlanIdGet_def apCfgManagementVlanIdSet_def
  apCfgManagementVlanIdGet_def apCfgsysLogSeveritySet_def apCfgsysLogSeverityGet_def
  scApCfgemailAlertsQlenSet_def apCfgemailAlertsQlenGet_def scApCfgemailAlertsIntervalSet_def
  scApCfgemailAlertsIntervalGet_def apCfgHttpPortSet_def apCfgHttpPortGet_def apCfgHttpsPortSet_def
  apCfgHttpsPortGet_def apCfgSnmpTrapVersionSet_def apCfgSnmpTrapVersionGet_def
  scApCfgIdleTimeoutIntervalSet_def scApCfgIdleTimeoutIntervalGet_def scApCfgDtimIntervalSet_def
  scApCfgDtimIntervalGet_def apCfgFragThresholdSet_def apCfgFragThresholdGet_def
  apCfgRtsThresholdSet_def apCfgRtsThresholdGet_def apCfgPowerSet_def apCfgPowerGet_def
  apCfgVlanPvidSet_def apCfgVlanPvidGet_def

lemmas str_defs =
  apCfgSysNameSet_def apCfgSysNameGet_def apCfgSysLangSet_def apCfgSysLangGet_def apCfgDescSet_def
  apCfgDescGet_def apCfgLoginSet_def apCfgLoginGet_def apCfgPasswordSet_def apCfgPasswordGet_def
  apCfgNameSrvSet_def apCfgNameSrvGet_def apCfgNameSrv2Set_def apCfgNameSrv2Get_def
  apCfgWinsServerSet_def apCfgWinsServerGet_def apCfgNtpServerSet_def apCfgNtpServerGet_def
  apCfgTimezoneOffsetSet_def apCfgTimezoneOffsetGet_def apCfgFtpServerSet_def apCfgFtpServerGet_def
  apCfgFtpLoginSet_def apCfgFtpLoginGet_def apCfgFtpPasswdSet_def apCfgFtpPasswdGet_def
  apCfgRedirectUrlSet_def apCfgRedirectUrlGet_def scApCfgLegalApListSet_def
  scApCfgLegalApListGet_def apCfgsysLogServerSet_def apCfgsysLogServerGet_def
  apCfgsmtpMailServerSet_def apCfgsmtpMailServerGet_def apCfgemailAddrForLogSet_def
  apCfgemailAddrForLogGet_def apCfgemailAddrReturnSet_def apCfgemailAddrReturnGet_def
  scApCfgDot1xSuppUsernameSet_def scApCfgDot1xSuppUsernameGet_def scApCfgDot1xSuppPasswordSet_def
  scApCfgDot1xSuppPasswordGet_def apCfgSnmpContactSet_def apCfgSnmpContactGet_def
  apCfgSnmpDviceNameSet_def apCfgSnmpDviceNameGet_def apCfgSnmpLocationSet_def
  apCfgSnmpLocationGet_def apCfgSnmpTrapCommunitySet_def apCfgSnmpTrapCommunityGet_def
  apCfgSnmpReadCommSet_def apCfgSnmpReadCommGet_def apCfgSnmpWriteCommSet_def
  apCfgSnmpWriteCommGet_def apCfgSnmpUserNameSet_def apCfgSnmpUserNameGet_def apCfgCertTimeSet_def
  apCfgCertTimeGet_def

subsection \<open>The entries of the tables\<close>

text \<open>The names of the tables, literal or of an access point.\<close>

lemma var_name_ssid_0:
  "0 \<le> bss \<Longrightarrow> bss < 4 \<Longrightarrow> wf_name (''x'' @ suf) \<Longrightarrow> length suf < 40 \<Longrightarrow> var_name (ssid_name 0 bss suf)"
  by (rule var_name_ssid) (simp_all add: vap_ok_def wf_name_def)

lemma var_name_wlan_0: "wf_name (''x'' @ suf) \<Longrightarrow> length suf < 40 \<Longrightarrow> var_name (wlan_name 0 suf)"
  by (rule var_name_wlan) (simp_all add: wf_name_def)

lemma cfg_flag_vap: "0 \<le> bss \<Longrightarrow> bss < 4 \<Longrightarrow> cfg_flag (vap_item 0 bss)"
  by (rule vap_item_ok) (simp add: vap_ok_def)

lemmas entry_simps = var_name_ssid_0 var_name_wlan_0 cfg_flag_vap var_name_def [of "_ # _"] wf_name_def

definition onoff_entry :: "cstr \<times> (int \<Rightarrow> 'a setter) \<times> (int, 'a) getter \<times> nat list \<Rightarrow> bool" where
  "onoff_entry = (\<lambda>(n, sf, gf, is). sf = (\<lambda>v. if_changed (get_bool n) v (write_var n (onoff v) is)) \<and>
     gf = get_bool n \<and> var_name n \<and> (\<forall>i \<in> set is. cfg_flag i))"

lemma onoff_entries: "list_all onoff_entry onoff_settings"
  by (simp add: onoff_settings_def onoff_entry_def onoff_defs fun_eq_iff entry_simps apCfgBalanceModeGet_def apCfgDhcpEnableGet_def)

lemma vap_onoff_entries: "0 \<le> bss \<Longrightarrow> bss < 4 \<Longrightarrow> list_all onoff_entry (vap_onoff_settings bss)"
  by (simp add: vap_onoff_settings_def onoff_entry_def onoff_defs fun_eq_iff entry_simps)

definition ip_entry :: "cstr \<times> (32 word \<Rightarrow> 'a setter) \<times> (32 word, 'a) getter \<times> nat list \<Rightarrow> bool" where
  "ip_entry = (\<lambda>(n, sf, gf, is). sf = (\<lambda>v. if_changed (get_ip n) v (write_var n (inet_ntoa v) is)) \<and>
     gf = get_ip n \<and> var_name n \<and> (\<forall>i \<in> set is. cfg_flag i))"

lemma ip_entries: "list_all ip_entry ip_settings"
  by (simp add: ip_settings_def ip_entry_def ip_defs fun_eq_iff entry_simps)

definition str_entry :: "cstr \<times> nat \<times> nat \<times> (cstr \<Rightarrow> 'a setter) \<times> (cstr, 'a) getter \<times> nat list \<Rightarrow> bool" where
  "str_entry = (\<lambda>(n, lo, hi, sf, gf, is).
     sf = (\<lambda>p. reject_if (length p < lo \<or> hi < length p) (if_changed (get_str (hi + 1) n) p (write_var n p is))) \<and>
     gf = get_str (hi + 1) n \<and> var_name n \<and> (\<forall>i \<in> set is. cfg_flag i) \<and> hi \<le> 4000)"

lemma str_entries: "list_all str_entry str_settings"
  by (simp add: str_settings_def str_entry_def str_defs fun_eq_iff entry_simps)

text \<open>The getter of an integer reads the variable directly, or through a local array of \<open>b\<close> bytes; \<open>w\<close> is
  the size of the array the setter formats in.\<close>

definition int_entry :: "cstr \<times> int \<times> int \<times> nat \<times> (int \<Rightarrow> 'a setter) \<times> (int, 'a) getter \<times> nat list \<Rightarrow> bool" where
  "int_entry = (\<lambda>(n, lo, hi, b, sf, gf, is). (\<exists>w \<in> {2, 6, 10}.
     sf = (\<lambda>v. reject_if (v < lo \<or> hi < v) (if_changed gf v (write_int w n v is))) \<and>
     (gf = get_atoi n \<or> gf = get_buf_atoi b n \<and> 5 < b) \<and> var_name n \<and> (\<forall>i \<in> set is. cfg_flag i) \<and>
     0 \<le> lo \<and> hi < 100000 \<and> (w = 2 \<longrightarrow> hi < 10)))"

lemma int_entries: "list_all int_entry int_settings"
  by (simp add: int_settings_def int_entry_def int_defs fun_eq_iff entry_simps)

lemma vap_int_entries: "0 \<le> bss \<Longrightarrow> bss < 4 \<Longrightarrow> list_all int_entry (vap_int_settings bss)"
  by (simp add: vap_int_settings_def int_entry_def int_defs fun_eq_iff entry_simps)

subsection \<open>The contract of every table\<close>

definition all_onoff_settings :: "(cstr \<times> (int \<Rightarrow> 'a setter) \<times> (int, 'a) getter \<times> nat list) list" where
  "all_onoff_settings = onoff_settings @ concat (map vap_onoff_settings [0, 1, 2, 3])"

definition all_int_settings :: "(cstr \<times> int \<times> int \<times> nat \<times> (int \<Rightarrow> 'a setter) \<times> (int, 'a) getter \<times> nat list) list" where
  "all_int_settings = int_settings @ concat (map vap_int_settings [0, 1, 2, 3])"

lemma all_onoff_entries: "list_all onoff_entry all_onoff_settings"
  by (simp add: all_onoff_settings_def onoff_entries vap_onoff_entries)

lemma all_int_entries: "list_all int_entry all_int_settings"
  by (simp add: all_int_settings_def int_entries vap_int_entries)

lemma length_fmt_d_fits:
  assumes "0 \<le> v" "v < 100000" "w \<in> {2, 6, 10}" "w = 2 \<longrightarrow> v < 10"
  shows "length (fmt_d v) < w"
  using assms length_fmt_d_5 [of v] length_fmt_d_digit [of v] by auto

lemma set_get_reject: "\<not> b \<Longrightarrow> set_get (reject_if b m) get v n is s = set_get m get v n is s"
  by (simp add: set_get_def reject_if_def)

lemma refuses_reject: "b \<Longrightarrow> refuses (reject_if b m) s"
  by (simp add: refuses_def reject_if_def)


text \<open>C30. Every IPv4 address setting of the table keeps the contract for every address, through the dotted text
  in which the address is stored.
\<close>

theorem ip_settings_correct:
  assumes "cfg_inv s" and "(n, sf, gf, is) \<in> set ip_settings"
  shows "set_get (sf v) gf v n is s"
proof -
  have "ip_entry (n, sf, gf, is)" using ip_entries assms(2) by (auto simp: list_all_iff)
  then show ?thesis using set_get_ip [OF assms(1)] by (simp add: ip_entry_def)
qed



subsection \<open>Examples\<close>


lemma ip_settings_correct_witness:
  "set_get (apCfgIpAddrSet 0xC0A801F5) apCfgIpAddrGet 0xC0A801F5 ''lan_ipaddr'' [APL_IPv4, APL_BONJOUR] ex_ap"
  by (rule ip_settings_correct) (simp_all add: ip_settings_def)



end
