(* ===== verification/Apcfg_Steps.thy ===== *)
theory Apcfg_Steps
  imports Apcfg_Laws
begin

text \<open>
  Sequences of calls of the setters of the tables, by any of the programs that link the library, in any
  order and with any arguments. \<open>config_ok\<close> is the invariant such sequences keep: the store is well
  formed, and every stored text fits the array its getter copies it to, so that every getter is defined.
\<close>

subsection \<open>The calls\<close>

inductive set_call :: "'a host_scheme \<Rightarrow> 'a host_scheme \<Rightarrow> bool" where
  set_onoff: "\<lbrakk>(n, sf, gf, is) \<in> set all_onoff_settings; sf v s = Some (r, s')\<rbrakk> \<Longrightarrow> set_call s s'"
| set_ip: "\<lbrakk>(n, sf, gf, is) \<in> set ip_settings; sf w s = Some (r, s')\<rbrakk> \<Longrightarrow> set_call s s'"
| set_int: "\<lbrakk>(n, lo, hi, b, sf, gf, is) \<in> set all_int_settings; sf v s = Some (r, s')\<rbrakk> \<Longrightarrow> set_call s s'"
| set_str: "\<lbrakk>(n, lo, hi, sf, gf, is) \<in> set str_settings; cstr_ok p; sf p s = Some (r, s')\<rbrakk> \<Longrightarrow> set_call s s'"

inductive_cases set_callE: "set_call s s'"

text \<open>The longest text each variable may hold, for the variables a getter copies.\<close>

definition text_limits :: "(cstr \<times> nat) list" where
  "text_limits =
     [(''wlan0_bcn'', 4999), (''vlan_default'', 4999), (''vlan_management'', 4999),
      (''syslog_severity'', 4999), (''email_queue_length'', 4999), (''email_send_period'', 4999),
      (''http_port'', 4999), (''https_port'', 4999), (''snmp_trap_version'', 4999),
      (''wlan0_idle_timeout'', 59), (''wlan0_dtim'', 59), (''wlan0_frag'', 59), (''wlan0_rts'', 59),
      (''wlan0_ssid0_vid'', 31), (''wlan0_ssid1_vid'', 31), (''wlan0_ssid2_vid'', 31), (''wlan0_ssid3_vid'', 31),
      (''sys_name'', 39), (''sys_lang'', 39), (''sys_desc'', 39), (''login_username'', 63),
      (''login_password'', 63), (''lan_dns1'', 32), (''lan_dns2'', 32), (''wins_server'', 32),
      (''ntp_server'', 32), (''timezone_diff'', 12), (''ftp_server'', 32), (''ftp_login_name'', 16),
      (''ftp_password'', 16), (''rediret_url'', 128), (''legal_ap_list'', 417), (''syslog_server'', 32),
      (''email_alert_server'', 64), (''email_addr'', 64), (''emailAddrReturn'', 64), (''eth_supp_user'', 63),
      (''eth_supp_pwd'', 63), (''snmp_contact'', 32), (''snmp_device'', 32), (''snmp_location'', 32),
      (''snmp_trap_community'', 32), (''snmp_community_get'', 32), (''snmp_community_set'', 32),
      (''snmp_user'', 63), (''cert_time'', 32)]"

definition texts_fit :: "(cstr \<Rightarrow> cstr) \<Rightarrow> bool" where
  "texts_fit vw \<longleftrightarrow> (\<forall>(n, k) \<in> set text_limits. length (vw n) \<le> k)"

definition config_ok :: "'a host_scheme \<Rightarrow> bool" where
  "config_ok s \<longleftrightarrow> cfg_inv s \<and> texts_fit (nvram_view s)"

subsection \<open>The names of the tables\<close>

lemma fmt_d_literals:
  "fmt_d 0 = ''0''" "fmt_d 1 = ''1''" "fmt_d 2 = ''2''" "fmt_d 3 = ''3''"
  by code_simp+

lemmas name_simps = ssid_name_def wlan_name_def fmt_d_literals

lemma distinct_limits: "distinct (map fst text_limits)"
  by (simp add: text_limits_def)

lemma limits_min: "(n, k) \<in> set text_limits \<Longrightarrow> 12 \<le> k"
proof -
  have "list_all (\<lambda>(n, k). 12 \<le> k) text_limits" by (simp add: text_limits_def)
  then show "(n, k) \<in> set text_limits \<Longrightarrow> 12 \<le> k" by (auto simp: list_all_iff)
qed

lemma limits_unique: "(n, k) \<in> set text_limits \<Longrightarrow> (n, k') \<in> set text_limits \<Longrightarrow> k' = k"
  using distinct_limits by (metis map_of_is_SomeI option.inject)

lemma int_limits:
  assumes "(n, lo, hi, b, sf, gf, is) \<in> set (all_int_settings :: (_ \<times> _ \<times> _ \<times> _ \<times> (_ \<Rightarrow> 'a setter) \<times> _ \<times> _) list)"
  shows "(n, b - 1) \<in> set text_limits"
proof -
  have "list_all (\<lambda>(n, lo, hi, b, e). (n, b - 1) \<in> set text_limits)
      (all_int_settings :: (_ \<times> _ \<times> _ \<times> _ \<times> (_ \<Rightarrow> 'a setter) \<times> _ \<times> _) list)"
    by (simp add: all_int_settings_def int_settings_def vap_int_settings_def name_simps text_limits_def)
  then show ?thesis using assms by (auto simp: list_all_iff)
qed

lemma str_limits:
  assumes "(n, lo, hi, sf, gf, is) \<in> set (str_settings :: (_ \<times> _ \<times> _ \<times> (_ \<Rightarrow> 'a setter) \<times> _ \<times> _) list)"
  shows "(n, hi) \<in> set text_limits"
proof -
  have "list_all (\<lambda>(n, lo, hi, e). (n, hi) \<in> set text_limits)
      (str_settings :: (_ \<times> _ \<times> _ \<times> (_ \<Rightarrow> 'a setter) \<times> _ \<times> _) list)"
    by (simp add: str_settings_def text_limits_def)
  then show ?thesis using assms by (auto simp: list_all_iff)
qed

lemma ip_limits:
  assumes "(n, sf, gf, is) \<in> set (ip_settings :: (_ \<times> (_ \<Rightarrow> 'a setter) \<times> _ \<times> _) list)"
  shows "(n, k) \<notin> set text_limits"
proof -
  have "list_all (\<lambda>(n, e). n \<notin> set (map fst text_limits))
      (ip_settings :: (_ \<times> (_ \<Rightarrow> 'a setter) \<times> _ \<times> _) list)"
    by (simp add: ip_settings_def text_limits_def)
  then show ?thesis using assms by (force simp: list_all_iff)
qed

subsection \<open>Every call keeps the invariant\<close>

definition keeps :: "'a setter \<Rightarrow> 'a host_scheme \<Rightarrow> bool" where
  "keeps m s \<longleftrightarrow> (\<exists>r s'. m s = Some (r, s') \<and> config_ok s')"

lemma texts_fit_upd:
  "texts_fit vw \<Longrightarrow> (\<And>k. (n, k) \<in> set text_limits \<Longrightarrow> length w \<le> k) \<Longrightarrow> texts_fit (vw(n := w))"
  by (auto simp: texts_fit_def)

lemma keeps_updates:
  "updates m s r (if c then vw else vw') is \<Longrightarrow> texts_fit vw \<Longrightarrow> texts_fit vw' \<Longrightarrow> keeps m s"
  by (auto simp: updates_def keeps_def config_ok_def)

lemma keepsD: "keeps m s \<Longrightarrow> m s = Some (r, s') \<Longrightarrow> config_ok s'"
  by (auto simp: keeps_def)

lemma keeps_reject: "config_ok s \<Longrightarrow> (\<not> b \<Longrightarrow> keeps m s) \<Longrightarrow> keeps (reject_if b m) s"
  by (simp add: keeps_def reject_if_def)

lemma keeps_onoff:
  assumes "config_ok s" "(n, sf, gf, is) \<in> set all_onoff_settings"
  shows "keeps (sf v) s"
proof -
  have "onoff_entry (n, sf, gf, is)" using all_onoff_entries assms(2) by (auto simp: list_all_iff)
  then have e: "sf v = if_changed (get_bool n) v (write_var n (onoff v) is)" "var_name n" "\<forall>i \<in> set is. cfg_flag i"
    by (simp_all add: onoff_entry_def)
  have inv: "cfg_inv s" "texts_fit (nvram_view s)" using assms(1) by (simp_all add: config_ok_def)
  have "length (onoff v) \<le> k" if "(n, k) \<in> set text_limits" for k
    using limits_min [OF that] by (simp add: onoff_def)
  then have "texts_fit ((nvram_view s)(n := onoff v))" by (rule texts_fit_upd [OF inv(2)])
  from keeps_updates [OF updates_onoff [OF inv(1) e(2,3)] this inv(2)] show ?thesis unfolding e(1) .
qed

lemma keeps_ip:
  assumes "config_ok s" "(n, sf, gf, is) \<in> set ip_settings"
  shows "keeps (sf v) s"
proof -
  have "ip_entry (n, sf, gf, is)" using ip_entries assms(2) by (auto simp: list_all_iff)
  then have e: "sf v = if_changed (get_ip n) v (write_var n (inet_ntoa v) is)" "var_name n" "\<forall>i \<in> set is. cfg_flag i"
    by (simp_all add: ip_entry_def)
  have inv: "cfg_inv s" "texts_fit (nvram_view s)" using assms(1) by (simp_all add: config_ok_def)
  then have "texts_fit ((nvram_view s)(n := inet_ntoa v))"
    using ip_limits [OF assms(2)] by (intro texts_fit_upd) auto
  from keeps_updates [OF updates_ip [OF inv(1) e(2,3)] this inv(2)] show ?thesis unfolding e(1) .
qed

lemma keeps_int:
  assumes "config_ok s" "(n, lo, hi, b, sf, gf, is) \<in> set all_int_settings"
  shows "keeps (sf v) s"
proof -
  have "int_entry (n, lo, hi, b, sf, gf, is)" using all_int_entries assms(2) by (auto simp: list_all_iff)
  then obtain w where w: "w \<in> {2, 6, 10}"
    "sf = (\<lambda>v. reject_if (v < lo \<or> hi < v) (if_changed gf v (write_int w n v is)))"
    "gf = get_atoi n \<or> gf = get_buf_atoi b n \<and> 5 < b" "var_name n" "\<forall>i \<in> set is. cfg_flag i"
    "0 \<le> lo" "hi < 100000" "w = 2 \<longrightarrow> hi < 10"
    unfolding int_entry_def prod.case by blast
  have inv: "cfg_inv s" "texts_fit (nvram_view s)" using assms(1) by (simp_all add: config_ok_def)
  have "length (nvram_view s n) < b \<or> b = 0"
    using inv(2) int_limits [OF assms(2)] by (auto simp: texts_fit_def)
  then obtain old where old: "reads gf s old"
    using w(3) reads_simple(2) [OF inv(1) w(4)] reads_buf_atoi [OF inv(1) w(4)] by auto
  show ?thesis unfolding w(2)
  proof (rule keeps_reject [OF assms(1)])
    assume v: "\<not> (v < lo \<or> hi < v)"
    then have fits: "length (fmt_d v) < w" "length (fmt_d v) \<le> 5"
      using w length_fmt_d_fits [of v w] length_fmt_d_5 [of v] by auto
    have "length (fmt_d v) \<le> k" if "(n, k) \<in> set text_limits" for k
      using limits_min [OF that] fits by simp
    then have fit: "texts_fit ((nvram_view s)(n := fmt_d v))" by (rule texts_fit_upd [OF inv(2)])
    have "w \<le> 100" using w(1) by auto
    from keeps_updates [OF updates_int [OF inv(1) w(4,5) fits(1) this old] fit inv(2)]
    show "keeps (if_changed gf v (write_int w n v is)) s" .
  qed
qed

lemma keeps_str:
  assumes "config_ok s" "(n, lo, hi, sf, gf, is) \<in> set str_settings" "cstr_ok p"
  shows "keeps (sf p) s"
proof -
  have "str_entry (n, lo, hi, sf, gf, is)" using str_entries assms(2) by (auto simp: list_all_iff)
  then have e: "sf = (\<lambda>p. reject_if (length p < lo \<or> hi < length p) (if_changed (get_str (hi + 1) n) p (write_var n p is)))"
    "gf = get_str (hi + 1) n" "var_name n" "\<forall>i \<in> set is. cfg_flag i" "hi \<le> 4000"
    unfolding str_entry_def by auto
  have inv: "cfg_inv s" "texts_fit (nvram_view s)" using assms(1) by (simp_all add: config_ok_def)
  have lim: "(n, hi) \<in> set text_limits" by (rule str_limits [OF assms(2)])
  then have old: "length (nvram_view s n) < hi + 1" using inv(2) by (auto simp: texts_fit_def)
  show ?thesis unfolding e(1)
  proof (rule keeps_reject [OF assms(1)])
    assume p: "\<not> (length p < lo \<or> hi < length p)"
    then have "client_value p" using assms(3) e(5) by (simp add: client_value_def)
    note u = updates_str [OF inv(1) e(3,4) this old]
    have "length p \<le> k" if "(n, k) \<in> set text_limits" for k
      using limits_unique [OF lim that] p by simp
    then have "texts_fit ((nvram_view s)(n := p))" by (rule texts_fit_upd [OF inv(2)])
    from keeps_updates [OF u this inv(2)]
    show "keeps (if_changed (get_str (hi + 1) n) p (write_var n p is)) s" .
  qed
qed

lemma set_call_ok:
  assumes "set_call s s'" "config_ok s"
  shows "config_ok s'"
  using assms(1)
  by (cases rule: set_callE)
    (blast intro: keepsD [OF keeps_onoff [OF assms(2)]] keepsD [OF keeps_ip [OF assms(2)]]
      keepsD [OF keeps_int [OF assms(2)]] keepsD [OF keeps_str [OF assms(2)]])+

lemma set_calls_ok: "set_call\<^sup>*\<^sup>* s s' \<Longrightarrow> config_ok s \<Longrightarrow> config_ok s'"
  by (induction rule: rtranclp_induct) (auto dest: set_call_ok)

lemma int_getter:
  assumes "config_ok s" "(n, lo, hi, b, sf, gf, is) \<in> set all_int_settings"
  shows "reads gf s (atoi (nvram_view s n))"
proof -
  have "int_entry (n, lo, hi, b, sf, gf, is)" using all_int_entries assms(2) by (auto simp: list_all_iff)
  then have g: "gf = get_atoi n \<or> gf = get_buf_atoi b n \<and> 5 < b" "var_name n"
    unfolding int_entry_def prod.case by blast+
  have inv: "cfg_inv s" "texts_fit (nvram_view s)" using assms(1) by (simp_all add: config_ok_def)
  have "length (nvram_view s n) < b \<or> b = 0"
    using inv(2) int_limits [OF assms(2)] by (auto simp: texts_fit_def)
  then show ?thesis using g(1) reads_simple(2) [OF inv(1) g(2)] reads_buf_atoi [OF inv(1) g(2)] by auto
qed

lemma str_getter:
  assumes "config_ok s" "(n, lo, hi, sf, gf, is) \<in> set str_settings"
  shows "reads gf s (nvram_view s n)"
proof -
  have "str_entry (n, lo, hi, sf, gf, is)" using str_entries assms(2) by (auto simp: list_all_iff)
  then have e: "gf = get_str (hi + 1) n" "var_name n" unfolding str_entry_def by auto
  have "length (nvram_view s n) < hi + 1"
    using assms str_limits [OF assms(2)] by (auto simp: config_ok_def texts_fit_def)
  then show ?thesis using assms(1) unfolding e(1) by (intro reads_str e(2)) (simp_all add: config_ok_def)
qed

text \<open>C20. No sequence of calls of the setters of the tables, with any arguments, leads to a state in which a
  getter would overflow its array: each text getter returns the stored text and each numeric getter its
  number.
\<close>

theorem settings_never_overflow:
  assumes "config_ok s" and "set_call\<^sup>*\<^sup>* s s'"
  shows "(\<forall>(n, lo, hi, sf, gf, is) \<in> set str_settings. \<exists>s''. gf s' = Some (nvram_view s' n, s'')) \<and>
    (\<forall>(n, lo, hi, b, sf, gf, is) \<in> set all_int_settings. \<exists>s''. gf s' = Some (atoi (nvram_view s' n), s''))"
  using int_getter [OF set_calls_ok [OF assms(2,1)]] str_getter [OF set_calls_ok [OF assms(2,1)]]
  unfolding reads_def by blast

text \<open>No such sequence gets stuck: after it every setter of the tables, with any argument, returns, and the
  sequence can go on from its result.
\<close>

theorem settings_progress:
  assumes "config_ok s" and "set_call\<^sup>*\<^sup>* s s'"
  shows "(\<forall>(n, sf, gf, is) \<in> set all_onoff_settings. \<forall>v. \<exists>r t. sf v s' = Some (r, t) \<and> set_call s' t) \<and>
    (\<forall>(n, sf, gf, is) \<in> set ip_settings. \<forall>v. \<exists>r t. sf v s' = Some (r, t) \<and> set_call s' t) \<and>
    (\<forall>(n, lo, hi, b, sf, gf, is) \<in> set all_int_settings. \<forall>v. \<exists>r t. sf v s' = Some (r, t) \<and> set_call s' t) \<and>
    (\<forall>(n, lo, hi, sf, gf, is) \<in> set str_settings. \<forall>p. cstr_ok p \<longrightarrow> (\<exists>r t. sf p s' = Some (r, t) \<and> set_call s' t))"
proof -
  have ok: "config_ok s'" by (rule set_calls_ok [OF assms(2,1)])
  have "\<exists>r t. sf v s' = Some (r, t) \<and> set_call s' t" if "(n, sf, gf, is) \<in> set all_onoff_settings" for n sf gf "is" v
    using keeps_onoff [OF ok that, of v] set_onoff [OF that] unfolding keeps_def by blast
  moreover have "\<exists>r t. sf v s' = Some (r, t) \<and> set_call s' t" if "(n, sf, gf, is) \<in> set ip_settings" for n sf gf "is" v
    using keeps_ip [OF ok that, of v] set_ip [OF that] unfolding keeps_def by blast
  moreover have "\<exists>r t. sf v s' = Some (r, t) \<and> set_call s' t"
    if "(n, lo, hi, b, sf, gf, is) \<in> set all_int_settings" for n lo hi b sf gf "is" v
    using keeps_int [OF ok that, of v] set_int [OF that] unfolding keeps_def by blast
  moreover have "\<exists>r t. sf p s' = Some (r, t) \<and> set_call s' t"
    if "(n, lo, hi, sf, gf, is) \<in> set str_settings" "cstr_ok p" for n lo hi sf gf "is" p
    using keeps_str [OF ok that] set_str [OF that] unfolding keeps_def by blast
  ultimately show ?thesis by fast
qed

lemma ex_ap_ok: "config_ok ex_ap"
  by (simp add: config_ok_def texts_fit_def text_limits_def ex_ap_view)

lemma ex_set_call: "\<exists>s'. set_call ex_ap s'"
proof -
  have e: "(''stp'', apCfgStpSet, apCfgStpGet, [APL_STP]) \<in> set all_onoff_settings"
    by (simp add: all_onoff_settings_def onoff_settings_def)
  then obtain r s' where "apCfgStpSet 1 ex_ap = Some (r, s')"
    using keeps_onoff [OF ex_ap_ok e, of 1] unfolding keeps_def by blast
  then show ?thesis using set_onoff [OF e] by blast
qed

lemma settings_never_overflow_witness:
  "\<exists>s' s''. set_call ex_ap s' \<and> apCfgSysNameGet s' = Some (nvram_view s' ''sys_name'', s'')"
proof -
  obtain s' where s': "set_call ex_ap s'" using ex_set_call by blast
  then have "set_call\<^sup>*\<^sup>* ex_ap s'" by (rule r_into_rtranclp)
  from settings_never_overflow [OF ex_ap_ok this] s' show ?thesis by (auto simp: str_settings_def)
qed

lemma settings_progress_witness:
  "\<exists>s' r t. set_call ex_ap s' \<and> apCfgHttpPortSet 8080 s' = Some (r, t) \<and> set_call s' t"
proof -
  obtain s' where s': "set_call ex_ap s'" using ex_set_call by blast
  then have "set_call\<^sup>*\<^sup>* ex_ap s'" by (rule r_into_rtranclp)
  moreover have "(''http_port'', 1, 65534, 5000, apCfgHttpPortSet, apCfgHttpPortGet, [APL_HTTPD])
      \<in> set (all_int_settings :: (_ \<times> _ \<times> _ \<times> _ \<times> (_ \<Rightarrow> unit setter) \<times> _ \<times> _) list)"
    by (simp add: all_int_settings_def int_settings_def)
  ultimately have "\<exists>r t. apCfgHttpPortSet 8080 s' = Some (r, t) \<and> set_call s' t"
    using settings_progress [OF ex_ap_ok] by blast
  then show ?thesis using s' by blast
qed

end
