(* ===== verification/Apcfg_Hoare.thy ===== *)
theory Apcfg_Hoare
  imports Apcfg_Base
begin

text \<open>
  A total-correctness Hoare logic for the setters, on the variables: \<open>hoare P m Q\<close> says that from a
  well-formed state whose variables satisfy \<open>P\<close> the setter returns, in a well-formed state whose variables
  satisfy \<open>Q\<close>; \<open>decodes g D f\<close> that the getter answers \<open>f\<close> of the variables where \<open>D\<close> holds. The rules are
  applied backwards.
\<close>

type_synonym vars = "cstr \<Rightarrow> cstr"

definition hoare :: "(vars \<Rightarrow> bool) \<Rightarrow> 'a setter \<Rightarrow> (vars \<Rightarrow> bool) \<Rightarrow> bool" where
  "hoare P m Q \<longleftrightarrow> (\<forall>s. cfg_inv s \<longrightarrow> P (nvram_view s) \<longrightarrow> (\<exists>r s'. m s = Some (r, s') \<and> cfg_inv s' \<and> Q (nvram_view s')))"

text \<open>A getter that decodes the variables with \<open>f\<close>, where \<open>D\<close> holds.\<close>

definition decodes :: "('v, 'a) getter \<Rightarrow> (vars \<Rightarrow> bool) \<Rightarrow> (vars \<Rightarrow> 'v) \<Rightarrow> bool" where
  "decodes g D f \<longleftrightarrow> (\<forall>s. cfg_inv s \<longrightarrow> D (nvram_view s) \<longrightarrow> reads g s (f (nvram_view s)))"

named_theorems hoare_rules \<open>the rules of the triples, applied backwards\<close>

lemma hoareD:
  "hoare P m Q \<Longrightarrow> cfg_inv s \<Longrightarrow> P (nvram_view s) \<Longrightarrow> \<exists>r s'. m s = Some (r, s') \<and> cfg_inv s' \<and> Q (nvram_view s')"
  by (auto simp: hoare_def)

lemma hoare_pre: "hoare P m Q \<Longrightarrow> (\<And>vw. P' vw \<Longrightarrow> P vw) \<Longrightarrow> hoare P' m Q"
  by (auto simp: hoare_def)

lemma hoare_post: "hoare P m Q \<Longrightarrow> (\<And>vw. Q vw \<Longrightarrow> Q' vw) \<Longrightarrow> hoare P m Q'"
  unfolding hoare_def by blast

lemma hoare_return [hoare_rules]: "hoare Q (\<lambda>s. Some (r, s)) Q"
  by (simp add: hoare_def)

lemma hoare_if [hoare_rules]:
  "hoare P m Q \<Longrightarrow> hoare P' k Q \<Longrightarrow> hoare (\<lambda>vw. if b then P vw else P' vw) (\<lambda>s. if b then m s else k s) Q"
  by (simp add: hoare_def)

lemma hoare_if_setter [hoare_rules]:
  "hoare P m Q \<Longrightarrow> hoare P' k Q \<Longrightarrow> hoare (\<lambda>vw. if b then P vw else P' vw) (if b then m else k) Q"
  by (simp add: hoare_def)

lemma hoare_seq [hoare_rules]:
  assumes "hoare R k Q" "hoare P m R"
  shows "hoare P (\<lambda>s. do { (_, s) \<leftarrow> m s; k s }) Q"
  using assms by (fastforce simp: hoare_def)

lemma hoare_get [hoare_rules]:
  assumes "decodes g D f" "\<And>x. hoare (P x) (k x) Q"
  shows "hoare (\<lambda>vw. D vw \<and> P (f vw) vw) (\<lambda>s. do { (x, s) \<leftarrow> g s; k x s }) Q"
  using assms unfolding hoare_def decodes_def reads_def by fastforce

lemma hoare_write_var [hoare_rules]:
  assumes "var_name n" "client_value v" "\<forall>i \<in> set is. cfg_flag i"
  shows "hoare (\<lambda>vw. Q (vw(n := v))) (write_var n v is) Q"
  using updates_write_var [OF _ assms] by (fastforce simp: hoare_def updates_def)

lemma hoare_if_changed [hoare_rules]:
  assumes "decodes g D f" "hoare P k Q"
  shows "hoare (\<lambda>vw. D vw \<and> (if v \<noteq> f vw then P vw else Q vw)) (if_changed g v k) Q"
  using assms unfolding hoare_def decodes_def reads_def if_changed_def by fastforce

lemma hoare_reject_if [hoare_rules]: "hoare P m Q \<Longrightarrow> hoare (\<lambda>vw. if b then Q vw else P vw) (reject_if b m) Q"
  by (simp add: hoare_def reject_if_def)

lemma hoare_and_then [hoare_rules]: "hoare R k Q \<Longrightarrow> hoare P m R \<Longrightarrow> hoare P (and_then m k) Q"
  by (fastforce simp: hoare_def and_then_def)

lemma cfg_inv_echo:
  assumes "cfg_inv s" "path \<notin> {NVRAM_TMP_PATH, NVRAM_DEFAULT, APL_FLAG, APL_CLOSED, APL_PARSING}"
  shows "cfg_inv (sh_echo_1 path s)" "nvram_view (sh_echo_1 path s) = nvram_view s"
    "pending (sh_echo_1 path s) = pending s"
proof -
  let ?s = "sh_echo_1 path s"
  have f: "files ?s NVRAM_TMP_PATH = files s NVRAM_TMP_PATH" "files ?s NVRAM_DEFAULT = files s NVRAM_DEFAULT"
    "files ?s APL_FLAG = files s APL_FLAG" "files ?s APL_CLOSED = files s APL_CLOSED"
    "files ?s APL_PARSING = files s APL_PARSING"
    using assms(2) by (auto simp: sh_echo_1_def)
  have "scfgd ?s = scfgd s" by (simp add: sh_echo_1_def)
  then have "client_inv ?s" using assms f by (simp add: cfg_inv_def client_inv_cong [of ?s s])
  then show "cfg_inv ?s" using assms f by (auto simp: cfg_inv_def f_exists_def flags_wf_def)
  show "nvram_view ?s = nvram_view s" using assms f by (intro nvram_view_cong) auto
  show "pending ?s = pending s" using assms f by (intro pending_cong) auto
qed

lemma hoare_and_echo [hoare_rules]:
  assumes "hoare P m Q" "path \<notin> {NVRAM_TMP_PATH, NVRAM_DEFAULT, APL_FLAG, APL_CLOSED, APL_PARSING}"
  shows "hoare P (and_echo m path) Q"
  using assms(1) cfg_inv_echo [OF _ assms(2)] unfolding hoare_def and_echo_def by fastforce

lemma hoare_for_each: "(\<And>i. i \<in> set is \<Longrightarrow> hoare P (f i) P) \<Longrightarrow> hoare P (for_each is f) P"
proof (induction "is")
  case Nil
  then show ?case by (simp add: hoare_def)
next
  case (Cons i "is")
  have "hoare P (\<lambda>s. do { (_, s) \<leftarrow> f i s; for_each is f s }) P"
    by (rule hoare_seq) (use Cons in auto)
  then show ?case by (simp add: hoare_def)
qed

lemma decodes_simple:
  assumes "var_name n"
  shows "decodes (get_bool n) (\<lambda>_. True) (\<lambda>vw. if vw n = ENABLE then 1 else 0)"
    and "decodes (get_atoi n) (\<lambda>_. True) (\<lambda>vw. atoi (vw n))"
    and "decodes (get_word words d n) (\<lambda>_. True) (\<lambda>vw. case map_of words (vw n) of Some a \<Rightarrow> a | None \<Rightarrow> d)"
    and "decodes (get_str k n) (\<lambda>vw. length (vw n) < k) (\<lambda>vw. vw n)"
  using assms by (simp_all only: decodes_def) (blast intro: reads_simple reads_str)+

lemma decodes_step:
  "decodes g D f \<Longrightarrow> D vw \<Longrightarrow> cfg_inv t \<Longrightarrow> nvram_view t = vw \<Longrightarrow>
    \<exists>s'. g t = Some (f vw, s') \<and> cfg_inv s' \<and> nvram_view s' = vw"
  unfolding decodes_def reads_def by metis

lemma decodesD: "decodes g D f \<Longrightarrow> cfg_inv s \<Longrightarrow> D (nvram_view s) \<Longrightarrow> \<exists>t. g s = Some (f (nvram_view s), t)"
  unfolding decodes_def reads_def by blast

lemma hoare_flag [hoare_rules]: "cfg_flag i \<Longrightarrow> hoare Q (\<lambda>s. do { s \<leftarrow> apl_set_flag i s; Some (A_OK, s) }) Q"
  by (simp add: hoare_def cfg.flag_step)

lemma hoare_and_flag [hoare_rules]:
  assumes "hoare P m Q" "cfg_flag i"
  shows "hoare P (and_flag m i) Q"
  using hoare_seq [OF hoare_flag [OF assms(2)] assms(1)] by (simp add: and_flag_def [abs_def])

lemma decodes_str:
  "vap_ok 0 bss \<Longrightarrow> cstr_ok suf \<Longrightarrow> CHR ''='' \<notin> set suf \<Longrightarrow> length suf < 40 \<Longrightarrow>
   decodes (get_str k (ssid_name 0 bss suf)) (\<lambda>vw. length (vw (ssid_name 0 bss suf)) < k) (\<lambda>vw. vw (ssid_name 0 bss suf))"
  by (rule decodes_simple, rule var_name_ssid)

lemma get_str_overflow:
  assumes "cfg_inv s" "var_name n" "k \<le> length (nvram_view s n)"
  shows "get_str k n s = None"
proof -
  obtain s' where "nvram_safe_get n s = Some (nvram_view s n, s')" using nvram_safe_get_var [OF assms(1,2)] by blast
  then show ?thesis using assms(2,3) by (simp add: get_str_def var_name_def into_buf_def)
qed

end
