(* ===== verification/Apcfg_Modes.thy ===== *)
theory Apcfg_Modes
  imports Apcfg_Steps Apcfg_Hoare
begin

text \<open>
  The operation mode of the radio and the settings it constrains. A radio that is not an access point
  runs its first SSID only; a universal client or repeater cannot use the RADIUS modes of security and
  runs in 20 MHz, as a monitor does; a universal repeater does not isolate its SSIDs. The setters of
  \<open>apcfg.c\<close> keep these rules together: \<open>apCfgOpModeSet\<close> corrects the other settings before it writes the
  mode, and each other setter looks at the mode first.

  The proofs are in the Hoare logic of the setters.
\<close>

subsection \<open>The settings involved, as functions of the variables\<close>

definition op_mode :: "vars \<Rightarrow> int" where
  "op_mode vw = (case map_of [(''AccessPoint'', CFG_OP_MODE_AP), (''WirelessClient'', CFG_OP_MODE_STA),
     (''WirelessBridge'', CFG_OP_MODE_PPT), (''MultiPointBridge'', CFG_OP_MODE_MPT), (''WirelessRepeater'',
     CFG_OP_MODE_REPEATER), (''AccessPointAndPTP'', CFG_OP_MODE_AP_PTP), (''AccessPointAndPTMP'',
     CFG_OP_MODE_AP_PTMP), (''UnversalClient'', CFG_OP_MODE_UC), (''UnversalRepeater'', CFG_OP_MODE_UR),
     (''WirelessMonitor'', CFG_OP_MODE_ROGAP)] (vw ''wlan0_op_mode'') of Some m \<Rightarrow> m | None \<Rightarrow> CFG_OP_MODE_AP)"

definition auth_type :: "int \<Rightarrow> vars \<Rightarrow> int" where
  "auth_type bss vw = (case map_of [(''NONE'', APCFG_AUTH_NONE), (''OPEN_SYSTEM'', APCFG_AUTH_OPEN_SYSTEM),
      (''SHARED_KEY'', APCFG_AUTH_SHARED_KEY), (''AUTH_AUTO'', APCFG_AUTH_AUTO), (''AUTH_WPA'', APCFG_AUTH_WPA),
      (''AUTH_WPAPSK'', APCFG_AUTH_WPAPSK), (''AUTH_WPA2'', APCFG_AUTH_WPA2), (''AUTH_WPA2PSK'', APCFG_AUTH_WPA2PSK),
      (''WPA_AUTO'', APCFG_AUTH_WPA_AUTO), (''WPA_AUTO_PSK'', APCFG_AUTH_WPA_AUTO_PSK),
      (''AUTH_DOT1X'', APCFG_AUTH_DOT1X)] (vw (ssid_name 0 bss ''_auth_mode'')) of Some a \<Rightarrow> a | None \<Rightarrow> APCFG_AUTH_NONE)"

definition channel_width :: "vars \<Rightarrow> int" where
  "channel_width vw = (case map_of [(''CWM_MODE_20M'', CWM_MODE_20M), (''CWM_MODE_20M_40M'', CWM_MODE_20M_40M),
      (''CWM_MODE_40M'', CWM_MODE_40M)] (vw ''wlan0_channel_width'') of Some w \<Rightarrow> w | None \<Rightarrow> CWM_MODE_20M_40M)"

definition mode_rules :: "int \<Rightarrow> vars \<Rightarrow> bool" where
  "mode_rules m vw \<longleftrightarrow>
     (m \<noteq> CFG_OP_MODE_AP \<longrightarrow> vw ''wlan0_ssid1_state'' \<noteq> ENABLE \<and> vw ''wlan0_ssid2_state'' \<noteq> ENABLE \<and>
        vw ''wlan0_ssid3_state'' \<noteq> ENABLE) \<and>
     (m = CFG_OP_MODE_UC \<or> m = CFG_OP_MODE_UR \<longrightarrow> \<not> not_client_auth (auth_type 0 vw)) \<and>
     (m = CFG_OP_MODE_ROGAP \<or> m = CFG_OP_MODE_UC \<or> m = CFG_OP_MODE_UR \<longrightarrow> channel_width vw = CWM_MODE_20M) \<and>
     (m = CFG_OP_MODE_UR \<longrightarrow> vw ''wlan0_isolation'' \<noteq> ENABLE)"

text \<open>The stored names of the access points fit the array of \<open>apCfgSsidGet\<close>.\<close>

definition ssids_fit :: "vars \<Rightarrow> bool" where
  "ssids_fit vw \<longleftrightarrow> (\<forall>bss \<in> {0, 1, 2, 3}. length (vw (ssid_name 0 bss [])) \<le> MAX_SSID)"

definition mode_wf :: "vars \<Rightarrow> bool" where
  "mode_wf vw \<longleftrightarrow> ssids_fit vw \<and> mode_rules (op_mode vw) vw"

lemma bss_cases: "0 \<le> bss \<Longrightarrow> bss < 4 \<Longrightarrow> bss = 0 \<or> bss = 1 \<or> bss = 2 \<or> bss = (3::int)"
  by auto

lemma vap_ok_0 [simp]: "vap_ok 0 bss \<longleftrightarrow> bss = 0 \<or> bss = 1 \<or> bss = 2 \<or> bss = 3"
  by (auto simp: vap_ok_def)

lemma mode_names [simp]:
  "var_name ''wlan0_op_mode''" "var_name ''wlan0_channel_width''" "var_name ''wlan0_isolation''"
  "var_name ''wifi_wsc_configured''" "var_name ''restore_defaults''"
  by (simp_all add: var_name_def wf_name_def)

lemma wlan_name_0: "wlan_name 0 suf = ''wlan0'' @ suf"
  by (simp add: wlan_name_def fmt_d_literals)

lemma decodes_op_mode: "decodes (apCfgOpModeGet 0) (\<lambda>_. True) op_mode"
  unfolding apCfgOpModeGet_def op_mode_def [abs_def] wlan_name_0 append.simps by (rule decodes_simple) simp

lemma decodes_channel_width: "decodes (apCfgChannelWidthModeGet 0) (\<lambda>_. True) channel_width"
  unfolding apCfgChannelWidthModeGet_def channel_width_def [abs_def] wlan_name_0 append.simps by (rule decodes_simple) simp

lemma decodes_auth: "vap_ok 0 bss \<Longrightarrow> decodes (apCfgAuthTypeGet 0 bss) (\<lambda>_. True) (auth_type bss)"
  unfolding apCfgAuthTypeGet_def auth_type_def [abs_def]
  by (rule decodes_simple, rule var_name_ssid) simp_all

lemma decodes_active: "vap_ok 0 bss \<Longrightarrow> decodes (apCfgActiveModeGet 0 bss) (\<lambda>_. True)
    (\<lambda>vw. if vw (ssid_name 0 bss ''_state'') = ENABLE then 1 else 0)"
  unfolding apCfgActiveModeGet_def by (rule decodes_simple, rule var_name_ssid) simp_all

lemma decodes_ssid: "vap_ok 0 bss \<Longrightarrow> decodes (apCfgSsidGet 0 bss) (\<lambda>vw. length (vw (ssid_name 0 bss [])) < 64)
    (\<lambda>vw. vw (ssid_name 0 bss []))"
  unfolding apCfgSsidGet_def by (rule decodes_simple, rule var_name_ssid) simp_all

lemma decodes_isolation: "decodes (apCfgInterVapForwardingGet 0) (\<lambda>_. True) (\<lambda>vw. if vw ''wlan0_isolation'' = ENABLE then 1 else 0)"
  unfolding apCfgInterVapForwardingGet_def wlan_name_0 append.simps by (rule decodes_simple) simp

lemma decodes_wsc: "decodes apCfgWscConfiguredGet (\<lambda>_. True) (\<lambda>vw. atoi (vw ''wifi_wsc_configured''))"
  unfolding apCfgWscConfiguredGet_def by (rule decodes_simple) simp

lemma decodes_restore: "decodes (nvram_safe_get ''restore_defaults'') (\<lambda>_. True) (\<lambda>vw. vw ''restore_defaults'')"
  unfolding decodes_def reads_def using nvram_safe_get_var [of _ "''restore_defaults''"] by (metis mode_names(5))

lemmas mode_decodes = decodes_op_mode decodes_channel_width decodes_auth decodes_active decodes_ssid
  decodes_isolation decodes_wsc decodes_restore

subsection \<open>Each setter, from the end of its body backwards\<close>

lemma client_value_words [simp]:
  "client_value (op_word v)" "client_value (auth_word v)"
  "client_value (case map_of [(CWM_MODE_20M, ''CWM_MODE_20M''), (CWM_MODE_40M, ''CWM_MODE_40M'')] v of
     Some w \<Rightarrow> w | None \<Rightarrow> ''CWM_MODE_20M_40M'')"
  by (simp_all add: client_value_def op_word_def auth_word_def)

lemma hoare_wsc: "hoare (\<lambda>vw. Q vw \<and> Q (vw(''wifi_wsc_configured'' := ''1''))) (apCfgWscConfiguredSet 1) Q"
  unfolding apCfgWscConfiguredSet_def
  by (rule hoare_pre, (rule hoare_rules mode_decodes | simp add: client_value_def)+)

lemma hoare_active:
  assumes "vap_ok 0 bss"
  shows "hoare (\<lambda>vw. if bss = 0 \<and> v = 0 \<or> op_mode vw \<noteq> CFG_OP_MODE_AP \<and> bss \<noteq> 0 \<and> v = 1 then Q vw
      else if v \<noteq> (if vw (ssid_name 0 bss ''_state'') = ENABLE then 1 else 0)
        then Q (vw(ssid_name 0 bss ''_state'' := onoff v)) else Q vw) (apCfgActiveModeSet 0 bss v) Q"
  unfolding apCfgActiveModeSet_def
  by (rule hoare_pre, (rule hoare_rules mode_decodes assms var_name_ssid vap_item_ok | simp)+) auto

lemma marker_paths [simp]:
  "''/tmp/apl_reload_mod'' \<notin> {NVRAM_TMP_PATH, NVRAM_DEFAULT, APL_FLAG, APL_CLOSED, APL_PARSING}"
  by (simp add: nvram_paths apl_paths)

lemma hoare_auth:
  assumes "vap_ok 0 bss"
  shows "hoare (\<lambda>vw. if v \<noteq> auth_type bss vw \<and>
        \<not> ((op_mode vw = CFG_OP_MODE_UC \<or> op_mode vw = CFG_OP_MODE_UR) \<and> bss = 0 \<and> not_client_auth v)
      then Q (vw(ssid_name 0 bss ''_auth_mode'' := auth_word v)) \<and>
        Q (vw(ssid_name 0 bss ''_auth_mode'' := auth_word v, ''wifi_wsc_configured'' := ''1''))
      else Q vw) (apCfgAuthTypeSet 0 bss v) Q"
  unfolding apCfgAuthTypeSet_def
  by (rule hoare_pre, (rule hoare_rules mode_decodes hoare_wsc assms var_name_ssid vap_item_ok | simp)+)

lemma hoare_width:
  "hoare (\<lambda>vw. let w = (if op_mode vw = CFG_OP_MODE_ROGAP \<or> op_mode vw = CFG_OP_MODE_UC \<or> op_mode vw = CFG_OP_MODE_UR
        then CWM_MODE_20M else v) in
      if w \<noteq> channel_width vw then Q (vw(''wlan0_channel_width'' :=
        case map_of [(CWM_MODE_20M, ''CWM_MODE_20M''), (CWM_MODE_40M, ''CWM_MODE_40M'')] w of
          Some x \<Rightarrow> x | None \<Rightarrow> ''CWM_MODE_20M_40M''))
      else Q vw) (apCfgChannelWidthModeSet 0 v) Q"
  unfolding apCfgChannelWidthModeSet_def wlan_name_0 append.simps Let_def
  by (rule hoare_pre, (rule hoare_rules mode_decodes mode_names marker_paths client_value_words | simp only: wlan_item_0 cfg_flag_ids list.set ball_simps)+)

lemma hoare_isolation:
  "hoare (\<lambda>vw. let w = (if op_mode vw = CFG_OP_MODE_UR then 0 else v) in
      if w \<noteq> (if vw ''wlan0_isolation'' = ENABLE then 1 else 0) then Q (vw(''wlan0_isolation'' := onoff w)) else Q vw)
    (apCfgInterVapForwardingSet 0 v) Q"
  unfolding apCfgInterVapForwardingSet_def wlan_name_0 append.simps Let_def
  by (rule hoare_pre, (rule hoare_rules mode_decodes mode_names client_value_onoff | simp only: wlan_item_0 cfg_flag_ids list.set ball_simps)+)

lemma hoare_ssid:
  assumes "vap_ok 0 bss" "cstr_ok p"
  shows "hoare (\<lambda>vw. ssids_fit vw \<and> (if MAX_SSID < length p \<or> p = vw (ssid_name 0 bss []) then Q vw
      else Q (vw(ssid_name 0 bss [] := p)) \<and> Q (vw(ssid_name 0 bss [] := p, ''wifi_wsc_configured'' := ''1''))))
    (apCfgSsidSet 0 bss p) Q"
proof (cases "MAX_SSID < length p")
  case False
  then have "client_value p" using assms(2) by (simp add: client_value_def)
  moreover have "cfg_flag (vap_item 0 bss)" by (rule vap_item_ok [OF assms(1)])
  moreover note False
  ultimately show ?thesis unfolding apCfgSsidSet_def
    by - (rule hoare_pre, (rule hoare_rules mode_decodes hoare_wsc assms var_name_ssid | simp)+,
      use assms(1) in \<open>auto simp: ssids_fit_def\<close>)
qed (simp add: apCfgSsidSet_def hoare_def reject_if_def)

subsection \<open>The rules are kept\<close>

lemma frame_upd [simp]:
  "n \<noteq> ''wlan0_op_mode'' \<Longrightarrow> op_mode (vw(n := x)) = op_mode vw"
  "n \<noteq> ssid_name 0 bss ''_auth_mode'' \<Longrightarrow> auth_type bss (vw(n := x)) = auth_type bss vw"
  "n \<noteq> ''wlan0_channel_width'' \<Longrightarrow> channel_width (vw(n := x)) = channel_width vw"
  by (simp_all add: op_mode_def auth_type_def channel_width_def)

lemma words_decode:
  "op_mode (vw(''wlan0_op_mode'' := op_word v)) = (if 0 \<le> v \<and> v \<le> 9 then v else CFG_OP_MODE_AP)"
  "auth_type 0 (vw(''wlan0_ssid0_auth_mode'' := auth_word v)) = (if 0 \<le> v \<and> v \<le> 10 then v else APCFG_AUTH_NONE)"
  "channel_width (vw(''wlan0_channel_width'' :=
        case map_of [(CWM_MODE_20M, ''CWM_MODE_20M''), (CWM_MODE_40M, ''CWM_MODE_40M'')] w of
          Some x \<Rightarrow> x | None \<Rightarrow> ''CWM_MODE_20M_40M'')) = CWM_MODE_20M \<longleftrightarrow> w = CWM_MODE_20M"
  by (simp_all add: op_mode_def op_word_def auth_type_def auth_word_def channel_width_def name_simps) presburger+

lemma ssids_fit_upd [simp]:
  "n \<notin> {ssid_name 0 0 [], ssid_name 0 1 [], ssid_name 0 2 [], ssid_name 0 3 []} \<Longrightarrow> ssids_fit (vw(n := x)) = ssids_fit vw"
  by (auto simp: ssids_fit_def)

text \<open>One variable at a time.\<close>

definition rule_vars :: "cstr list" where
  "rule_vars = [''wlan0_ssid1_state'', ''wlan0_ssid2_state'', ''wlan0_ssid3_state'', ''wlan0_ssid0_auth_mode'',
     ''wlan0_channel_width'', ''wlan0_isolation'']"

lemma rules_frame:
  assumes "n \<notin> set rule_vars" "mode_rules m vw"
  shows "mode_rules m (vw(n := x))"
proof -
  let ?vw = "vw(n := x)"
  have same: "?vw a = vw a" if "a \<in> set rule_vars" for a using assms(1) that by auto
  have eqs: "?vw ''wlan0_ssid1_state'' = vw ''wlan0_ssid1_state''" "?vw ''wlan0_ssid2_state'' = vw ''wlan0_ssid2_state''"
    "?vw ''wlan0_ssid3_state'' = vw ''wlan0_ssid3_state''" "?vw ''wlan0_isolation'' = vw ''wlan0_isolation''"
    by (rule same, simp add: rule_vars_def)+
  have "auth_type 0 ?vw = auth_type 0 vw" "channel_width ?vw = channel_width vw"
    using assms(1) by (simp_all add: rule_vars_def name_simps)
  with assms(2) show ?thesis unfolding mode_rules_def eqs by simp
qed

lemma rules_state:
  assumes "mode_rules m vw" "n \<in> {''wlan0_ssid1_state'', ''wlan0_ssid2_state'', ''wlan0_ssid3_state''}"
    "x \<noteq> ENABLE \<or> m = CFG_OP_MODE_AP"
  shows "mode_rules m (vw(n := x))"
proof -
  have "auth_type 0 (vw(n := x)) = auth_type 0 vw" "channel_width (vw(n := x)) = channel_width vw"
    "(vw(n := x)) ''wlan0_isolation'' = vw ''wlan0_isolation''"
    using assms(2) by (auto simp: name_simps)
  then show ?thesis using assms(1,3) unfolding mode_rules_def by (auto simp: fun_upd_def)
qed

lemma rules_auth:
  assumes "mode_rules m vw" "m = CFG_OP_MODE_UC \<or> m = CFG_OP_MODE_UR \<Longrightarrow> \<not> not_client_auth v"
  shows "mode_rules m (vw(''wlan0_ssid0_auth_mode'' := auth_word v))"
  using assms by (auto simp add: mode_rules_def name_simps words_decode not_client_auth_def)

lemma rules_width:
  assumes "mode_rules m vw" "m = CFG_OP_MODE_ROGAP \<or> m = CFG_OP_MODE_UC \<or> m = CFG_OP_MODE_UR \<Longrightarrow> w = CWM_MODE_20M"
  shows "mode_rules m (vw(''wlan0_channel_width'' :=
        case map_of [(CWM_MODE_20M, ''CWM_MODE_20M''), (CWM_MODE_40M, ''CWM_MODE_40M'')] w of
          Some x \<Rightarrow> x | None \<Rightarrow> ''CWM_MODE_20M_40M''))"
  using assms unfolding mode_rules_def words_decode by (simp add: name_simps)

lemma rules_isolation:
  assumes "mode_rules m vw" "m = CFG_OP_MODE_UR \<Longrightarrow> x \<noteq> ENABLE"
  shows "mode_rules m (vw(''wlan0_isolation'' := x))"
  using assms by (simp add: mode_rules_def name_simps)

lemma mode_wf_upd:
  assumes "mode_wf vw" "n \<notin> {ssid_name 0 0 [], ssid_name 0 1 [], ssid_name 0 2 [], ssid_name 0 3 []}" "n \<noteq> ''wlan0_op_mode''"
    and "mode_rules (op_mode vw) vw \<Longrightarrow> mode_rules (op_mode vw) (vw(n := x))"
  shows "mode_wf (vw(n := x))"
  using assms by (simp add: mode_wf_def)

lemma mode_wf_frame:
  assumes "mode_wf vw" "n \<notin> {ssid_name 0 0 [], ssid_name 0 1 [], ssid_name 0 2 [], ssid_name 0 3 []}" "n \<noteq> ''wlan0_op_mode''"
    and "n \<notin> set rule_vars"
  shows "mode_wf (vw(n := x))"
  using mode_wf_upd [OF assms(1-3)] rules_frame [OF assms(4)] by blast

lemma mode_wf_wsc: "mode_wf vw \<Longrightarrow> mode_wf (vw(''wifi_wsc_configured'' := x))"
  by (rule mode_wf_frame) (simp_all add: rule_vars_def name_simps)

lemma mode_wf_state:
  assumes "mode_wf vw" "vap_ok 0 bss" "x \<noteq> ENABLE \<or> bss = 0 \<or> op_mode vw = CFG_OP_MODE_AP"
  shows "mode_wf (vw(ssid_name 0 bss ''_state'' := x))"
proof (cases "bss = 0")
  case True
  with assms(1) show ?thesis by (intro mode_wf_frame) (simp_all add: rule_vars_def name_simps)
next
  case False
  then have n: "ssid_name 0 bss ''_state'' \<in> {''wlan0_ssid1_state'', ''wlan0_ssid2_state'', ''wlan0_ssid3_state''}"
    using assms(2) by (auto simp: name_simps)
  then have "ssid_name 0 bss ''_state'' \<notin> {ssid_name 0 0 [], ssid_name 0 1 [], ssid_name 0 2 [], ssid_name 0 3 []}"
    "ssid_name 0 bss ''_state'' \<noteq> ''wlan0_op_mode''"
    by (auto simp: name_simps)
  then show ?thesis using assms False rules_state [OF _ n] by (intro mode_wf_upd) blast+
qed

lemma mode_wf_auth:
  assumes "mode_wf vw" "vap_ok 0 bss"
    "\<not> ((op_mode vw = CFG_OP_MODE_UC \<or> op_mode vw = CFG_OP_MODE_UR) \<and> bss = 0 \<and> not_client_auth v)"
  shows "mode_wf (vw(ssid_name 0 bss ''_auth_mode'' := auth_word v))"
proof (cases "bss = 0")
  case True
  have "mode_wf (vw(''wlan0_ssid0_auth_mode'' := auth_word v))"
    by (rule mode_wf_upd [OF assms(1)])
      (use assms(3) True in \<open>auto simp: name_simps intro: rules_auth\<close>)
  then show ?thesis using True by (simp add: name_simps)
next
  case False
  with assms(1,2) show ?thesis by (intro mode_wf_frame) (auto simp: rule_vars_def name_simps)
qed

lemma mode_wf_width:
  assumes "mode_wf vw" "op_mode vw = CFG_OP_MODE_ROGAP \<or> op_mode vw = CFG_OP_MODE_UC \<or> op_mode vw = CFG_OP_MODE_UR \<Longrightarrow> w = CWM_MODE_20M"
  shows "mode_wf (vw(''wlan0_channel_width'' :=
        case map_of [(CWM_MODE_20M, ''CWM_MODE_20M''), (CWM_MODE_40M, ''CWM_MODE_40M'')] w of
          Some x \<Rightarrow> x | None \<Rightarrow> ''CWM_MODE_20M_40M''))"
  by (rule mode_wf_upd [OF assms(1) _ _ rules_width [OF _ assms(2)]]) (simp_all add: name_simps)

lemma mode_wf_isolation:
  assumes "mode_wf vw" "op_mode vw = CFG_OP_MODE_UR \<Longrightarrow> x \<noteq> ENABLE"
  shows "mode_wf (vw(''wlan0_isolation'' := x))"
  by (rule mode_wf_upd [OF assms(1) _ _ rules_isolation [OF _ assms(2)]]) (simp_all add: name_simps)

lemma mode_wf_ssid:
  assumes "mode_wf vw" "vap_ok 0 bss" "length p \<le> MAX_SSID"
  shows "mode_wf (vw(ssid_name 0 bss [] := p))"
proof -
  have "ssid_name 0 bss [] \<notin> set rule_vars" "ssid_name 0 bss [] \<noteq> ''wlan0_op_mode''"
    using assms(2) by (auto simp: rule_vars_def name_simps)
  moreover have "ssids_fit (vw(ssid_name 0 bss [] := p))"
    using assms by (auto simp: mode_wf_def ssids_fit_def)
  ultimately show ?thesis using assms(1) rules_frame by (auto simp: mode_wf_def)
qed

lemma mode_wf_ssids: "mode_wf vw \<Longrightarrow> ssids_fit vw"
  by (simp add: mode_wf_def)

lemma keep_active: "vap_ok 0 bss \<Longrightarrow> hoare mode_wf (apCfgActiveModeSet 0 bss v) mode_wf"
  by (rule hoare_pre [OF hoare_active]) (auto intro: mode_wf_state simp: onoff_def simp del: vap_ok_0)

lemma keep_auth: "vap_ok 0 bss \<Longrightarrow> hoare mode_wf (apCfgAuthTypeSet 0 bss v) mode_wf"
  by (rule hoare_pre [OF hoare_auth]) (auto simp del: vap_ok_0 intro!: mode_wf_auth mode_wf_wsc)

lemma keep_width: "hoare mode_wf (apCfgChannelWidthModeSet 0 v) mode_wf"
  by (rule hoare_pre [OF hoare_width]) (simp only: Let_def mode_wf_width simp_thms if_True if_False split: if_split)

lemma keep_isolation: "hoare mode_wf (apCfgInterVapForwardingSet 0 v) mode_wf"
  by (rule hoare_pre [OF hoare_isolation]) (auto simp: Let_def onoff_def intro!: mode_wf_isolation)

lemma keep_ssid: "vap_ok 0 bss \<Longrightarrow> cstr_ok p \<Longrightarrow> hoare mode_wf (apCfgSsidSet 0 bss p) mode_wf"
  by (rule hoare_pre [OF hoare_ssid]) (auto simp: mode_wf_ssids simp del: vap_ok_0 intro!: mode_wf_wsc mode_wf_ssid)

subsection \<open>Changing the mode\<close>

lemma op_mode_other_names [simp]:
  "ssid_name 0 bss suf \<noteq> ''wlan0_op_mode''" "''wlan0_op_mode'' \<noteq> ssid_name 0 bss suf"
  by (simp_all add: name_simps)

lemma keep_active_mode:
  "vap_ok 0 bss \<Longrightarrow> hoare (\<lambda>vw. mode_wf vw \<and> op_mode vw = m) (apCfgActiveModeSet 0 bss v) (\<lambda>vw. mode_wf vw \<and> op_mode vw = m)"
  by (rule hoare_pre [OF hoare_active]) (auto intro: mode_wf_state simp: onoff_def simp del: vap_ok_0)

definition vaps_off :: "vars \<Rightarrow> bool" where
  "vaps_off vw \<longleftrightarrow> (\<forall>b \<in> {1, 2, 3}. vw (ssid_name 0 b ''_state'') \<noteq> ENABLE)"

definition auth_fits :: "int \<Rightarrow> vars \<Rightarrow> bool" where
  "auth_fits v vw \<longleftrightarrow> (v = CFG_OP_MODE_UC \<or> v = CFG_OP_MODE_UR \<longrightarrow> \<not> not_client_auth (auth_type 0 vw))"

definition width_fits :: "int \<Rightarrow> vars \<Rightarrow> bool" where
  "width_fits v vw \<longleftrightarrow> (v = CFG_OP_MODE_ROGAP \<or> v = CFG_OP_MODE_UC \<or> v = CFG_OP_MODE_UR \<longrightarrow> channel_width vw = CWM_MODE_20M)"

lemma mode_rules_parts:
  "ssids_fit vw \<Longrightarrow> vaps_off vw \<Longrightarrow> auth_fits v vw \<Longrightarrow> width_fits v vw \<Longrightarrow>
   (v = CFG_OP_MODE_UR \<longrightarrow> vw ''wlan0_isolation'' \<noteq> ENABLE) \<Longrightarrow> mode_rules v vw"
  by (simp add: mode_rules_def vaps_off_def auth_fits_def width_fits_def name_simps)

lemma correct_vaps:
  "hoare ssids_fit (for_each [1, 2, 3] (\<lambda>vap. apCfgActiveModeSet 0 vap 0)) (\<lambda>vw. ssids_fit vw \<and> vaps_off vw)"
  unfolding for_each.simps
  by (rule hoare_pre, (rule hoare_rules hoare_active | simp)+)
    (auto simp: vaps_off_def onoff_def name_simps)

lemma correct_auth:
  "hoare (\<lambda>vw. ssids_fit vw \<and> vaps_off vw)
     (\<lambda>s. if v = CFG_OP_MODE_UC \<or> v = CFG_OP_MODE_UR then do {
          (authType, s) \<leftarrow> apCfgAuthTypeGet 0 0 s;
          if not_client_auth authType then apCfgAuthTypeSet 0 0 APCFG_AUTH_NONE s else Some (A_OK, s)
        } else Some (A_OK, s))
     (\<lambda>vw. ssids_fit vw \<and> vaps_off vw \<and> auth_fits v vw)"
  by (rule hoare_pre, (rule hoare_rules hoare_auth mode_decodes | simp)+)
    (auto simp: vaps_off_def auth_fits_def not_client_auth_def name_simps words_decode)

lemma correct_width:
  "hoare (\<lambda>vw. ssids_fit vw \<and> vaps_off vw \<and> auth_fits v vw)
     (\<lambda>s. if v = CFG_OP_MODE_ROGAP \<or> v = CFG_OP_MODE_UC \<or> v = CFG_OP_MODE_UR
        then apCfgChannelWidthModeSet 0 0 s else Some (A_OK, s))
     (\<lambda>vw. ssids_fit vw \<and> vaps_off vw \<and> auth_fits v vw \<and> width_fits v vw)"
proof -
  have upd: "channel_width (vw(''wlan0_channel_width'' := ''CWM_MODE_20M'')) = CWM_MODE_20M" for vw
    by (simp add: channel_width_def)
  show ?thesis
    by (rule hoare_pre, (rule hoare_rules hoare_width)+)
      (auto simp: vaps_off_def auth_fits_def width_fits_def name_simps upd Let_def)
qed

lemma correct_isolation:
  "hoare (\<lambda>vw. ssids_fit vw \<and> vaps_off vw \<and> auth_fits v vw \<and> width_fits v vw)
     (\<lambda>s. if v = CFG_OP_MODE_UR then apCfgInterVapForwardingSet 0 0 s else Some (A_OK, s))
     (\<lambda>vw. ssids_fit vw \<and> mode_rules v vw)"
proof -
  have upd: "ssids_fit (vw(''wlan0_isolation'' := DISABLE)) \<and> mode_rules v (vw(''wlan0_isolation'' := DISABLE))"
    if "ssids_fit vw" "vaps_off vw" "auth_fits v vw" "width_fits v vw" for vw v
  proof (intro conjI mode_rules_parts)
    show "ssids_fit (vw(''wlan0_isolation'' := DISABLE))" using that(1) by (simp add: name_simps)
  qed (use that in \<open>simp_all add: vaps_off_def auth_fits_def width_fits_def name_simps\<close>)
  show ?thesis
    by (rule hoare_pre, (rule hoare_rules hoare_isolation)+)
      (auto simp: Let_def onoff_def upd intro: mode_rules_parts)
qed

lemma hoare_correct: "hoare ssids_fit (op_mode_correct 0 v) (\<lambda>vw. ssids_fit vw \<and> mode_rules v vw)"
  unfolding op_mode_correct_def
  by (rule hoare_seq [OF _ correct_vaps], rule hoare_seq [OF _ correct_auth], rule hoare_seq [OF correct_isolation correct_width])

lemma hoare_reactivate:
  "hoare (\<lambda>vw. mode_wf vw \<and> op_mode vw = m) (op_mode_reactivate 0) (\<lambda>vw. mode_wf vw \<and> op_mode vw = m)"
  unfolding op_mode_reactivate_def
proof (rule hoare_for_each)
  fix vap :: int
  assume "vap \<in> set [1, 2, 3]"
  then have v: "vap_ok 0 vap" by auto
  show "hoare (\<lambda>vw. mode_wf vw \<and> op_mode vw = m) (\<lambda>s. do {
      (ssid, s) \<leftarrow> apCfgSsidGet 0 vap s;
      if length ssid \<noteq> 0 then apCfgActiveModeSet 0 vap 1 s else Some (A_OK, s)
    }) (\<lambda>vw. mode_wf vw \<and> op_mode vw = m)"
    by (rule hoare_pre, (rule hoare_rules keep_active_mode decodes_ssid v)+)
      (use v in \<open>auto simp: mode_wf_def ssids_fit_def\<close>)
qed

definition mode_after :: "int \<Rightarrow> int" where
  "mode_after v = (if 0 \<le> v \<and> v \<le> 9 then v else CFG_OP_MODE_AP)"

lemma op_mode_range: "0 \<le> op_mode vw" "op_mode vw \<le> 9"
  by (simp_all add: op_mode_def)

lemma write_mode:
  assumes "v = CFG_OP_MODE_AP \<or> mode_rules v vw" "ssids_fit vw"
  shows "mode_wf (vw(''wlan0_op_mode'' := op_word v)) \<and> op_mode (vw(''wlan0_op_mode'' := op_word v)) = mode_after v"
proof -
  let ?vw = "vw(''wlan0_op_mode'' := op_word v)"
  have m: "op_mode ?vw = mode_after v" by (simp add: words_decode mode_after_def)
  have "mode_rules (mode_after v) vw"
    using assms(1) by (auto simp: mode_after_def) (simp_all add: mode_rules_def)
  then have "mode_rules (mode_after v) ?vw" by (intro rules_frame) (simp_all add: rule_vars_def)
  moreover have "ssids_fit ?vw" using assms(2) by simp
  ultimately show ?thesis using m by (simp add: mode_wf_def)
qed

lemma hoare_op_mode:
  "hoare mode_wf (apCfgOpModeSet 0 v) (\<lambda>vw. mode_wf vw \<and> op_mode vw = mode_after v)"
proof -
  let ?Q = "\<lambda>vw. mode_wf vw \<and> op_mode vw = mode_after v"
  have corr: "hoare ssids_fit (\<lambda>s. if v \<noteq> CFG_OP_MODE_AP then op_mode_correct 0 v s else Some (A_OK, s))
      (\<lambda>vw. ssids_fit vw \<and> (v = CFG_OP_MODE_AP \<or> mode_rules v vw))"
    using hoare_correct [of v] by (cases "v = CFG_OP_MODE_AP") (auto simp: hoare_def)
  have react: "hoare ?Q (\<lambda>s. if v = CFG_OP_MODE_AP then op_mode_reactivate 0 s else Some (A_OK, s)) ?Q"
    by (rule hoare_pre, (rule hoare_rules hoare_reactivate)+) auto
  have "hoare ssids_fit (\<lambda>s. do {
      (_, s) \<leftarrow> (if v \<noteq> CFG_OP_MODE_AP then op_mode_correct 0 v s else Some (A_OK, s));
      (_, s) \<leftarrow> write_var (wlan_name 0 ''_op_mode'') (op_word v) [APL_REBOOT] s;
      (_, s) \<leftarrow> (if v = CFG_OP_MODE_AP then op_mode_reactivate 0 s else Some (A_OK, s));
      Some (A_OK, s)
    }) ?Q"
    unfolding wlan_name_0 append.simps
    by (rule hoare_seq [OF _ corr], rule hoare_seq [OF hoare_seq [OF hoare_return react]],
      rule hoare_pre, rule hoare_write_var) (auto intro!: write_mode)
  then show ?thesis unfolding apCfgOpModeSet_def
    by - (rule hoare_pre, rule hoare_if_changed [OF decodes_op_mode], assumption,
      auto simp: mode_wf_def mode_after_def op_mode_range)
qed

subsection \<open>Any sequence of calls\<close>

definition mode_ok :: "'a host_scheme \<Rightarrow> bool" where
  "mode_ok s \<longleftrightarrow> cfg_inv s \<and> mode_wf (nvram_view s)"

inductive mode_call :: "'a host_scheme \<Rightarrow> 'a host_scheme \<Rightarrow> bool" where
  call_mode: "apCfgOpModeSet 0 v s = Some (r, s') \<Longrightarrow> mode_call s s'"
| call_active: "vap_ok 0 bss \<Longrightarrow> apCfgActiveModeSet 0 bss v s = Some (r, s') \<Longrightarrow> mode_call s s'"
| call_auth: "vap_ok 0 bss \<Longrightarrow> apCfgAuthTypeSet 0 bss v s = Some (r, s') \<Longrightarrow> mode_call s s'"
| call_width: "apCfgChannelWidthModeSet 0 v s = Some (r, s') \<Longrightarrow> mode_call s s'"
| call_isolation: "apCfgInterVapForwardingSet 0 v s = Some (r, s') \<Longrightarrow> mode_call s s'"
| call_ssid: "vap_ok 0 bss \<Longrightarrow> cstr_ok p \<Longrightarrow> apCfgSsidSet 0 bss p s = Some (r, s') \<Longrightarrow> mode_call s s'"

lemma keep_op_mode: "hoare mode_wf (apCfgOpModeSet 0 v) mode_wf"
  by (rule hoare_post [OF hoare_op_mode]) simp

lemma hoare_ok: "hoare mode_wf m mode_wf \<Longrightarrow> mode_ok s \<Longrightarrow> m s = Some (r, s') \<Longrightarrow> mode_ok s'"
  unfolding hoare_def mode_ok_def by fastforce

lemma mode_call_ok: "mode_call s s' \<Longrightarrow> mode_ok s \<Longrightarrow> mode_ok s'"
  by (induction rule: mode_call.induct)
    (blast intro: hoare_ok [OF keep_op_mode] hoare_ok [OF keep_active] hoare_ok [OF keep_auth]
      hoare_ok [OF keep_width] hoare_ok [OF keep_isolation] hoare_ok [OF keep_ssid])+

lemma mode_calls_ok: "mode_call\<^sup>*\<^sup>* s s' \<Longrightarrow> mode_ok s \<Longrightarrow> mode_ok s'"
  by (induction rule: rtranclp_induct) (blast intro: mode_call_ok)+

text \<open>C5. Whatever sequence of these setters is called, with any arguments, the settings agree with the operation
  mode: when it is not the access point's, the SSIDs 1 to 3 are off; for a universal client or repeater
  the security of SSID 0 is none of the RADIUS modes; for these and the monitor the channel is 20 MHz
  wide; and a universal repeater does not isolate its SSIDs.
\<close>

theorem settings_agree_with_mode:
  assumes "mode_ok s" and "mode_call\<^sup>*\<^sup>* s s'"
  shows "\<exists>m t. apCfgOpModeGet 0 s' = Some (m, t) \<and>
    (m \<noteq> CFG_OP_MODE_AP \<longrightarrow> (\<forall>b \<in> {1, 2, 3}. \<exists>t. apCfgActiveModeGet 0 b s' = Some (0, t))) \<and>
    (m = CFG_OP_MODE_UC \<or> m = CFG_OP_MODE_UR \<longrightarrow> (\<exists>a t. apCfgAuthTypeGet 0 0 s' = Some (a, t) \<and>
       a \<notin> {APCFG_AUTH_WPA, APCFG_AUTH_WPA2, APCFG_AUTH_WPA_AUTO, APCFG_AUTH_DOT1X})) \<and>
    (m = CFG_OP_MODE_ROGAP \<or> m = CFG_OP_MODE_UC \<or> m = CFG_OP_MODE_UR \<longrightarrow>
       (\<exists>t. apCfgChannelWidthModeGet 0 s' = Some (CWM_MODE_20M, t))) \<and>
    (m = CFG_OP_MODE_UR \<longrightarrow> (\<exists>t. apCfgInterVapForwardingGet 0 s' = Some (0, t)))"
proof -
  let ?vw = "nvram_view s'" and ?m = "op_mode (nvram_view s')"
  have "mode_ok s'" by (rule mode_calls_ok [OF assms(2,1)])
  then have inv: "cfg_inv s'" and rules: "mode_rules ?m ?vw" by (simp_all add: mode_ok_def mode_wf_def)
  have off: "\<exists>t. apCfgActiveModeGet 0 b s' = Some (0, t)" if "?m \<noteq> CFG_OP_MODE_AP" "b \<in> {1, 2, 3}" for b
    using decodesD [OF decodes_active inv, of b] that rules by (auto simp: mode_rules_def name_simps)
  have auth: "\<exists>a t. apCfgAuthTypeGet 0 0 s' = Some (a, t) \<and>
      a \<notin> {APCFG_AUTH_WPA, APCFG_AUTH_WPA2, APCFG_AUTH_WPA_AUTO, APCFG_AUTH_DOT1X}"
    if "?m = CFG_OP_MODE_UC \<or> ?m = CFG_OP_MODE_UR"
    using decodesD [OF decodes_auth inv, of 0] that rules by (auto simp: mode_rules_def not_client_auth_def)
  have width: "\<exists>t. apCfgChannelWidthModeGet 0 s' = Some (CWM_MODE_20M, t)"
    if "?m = CFG_OP_MODE_ROGAP \<or> ?m = CFG_OP_MODE_UC \<or> ?m = CFG_OP_MODE_UR"
    using decodesD [OF decodes_channel_width inv] that rules by (auto simp: mode_rules_def)
  have iso: "\<exists>t. apCfgInterVapForwardingGet 0 s' = Some (0, t)" if "?m = CFG_OP_MODE_UR"
    using decodesD [OF decodes_isolation inv] that rules by (auto simp: mode_rules_def)
  obtain t where "apCfgOpModeGet 0 s' = Some (?m, t)" using decodesD [OF decodes_op_mode inv] by auto
  then show ?thesis using off auth width iso by blast
qed

text \<open>C31. Changing the operation mode always returns; the mode then reads as requested (a number that is no mode
  selects the access point's) and the other settings agree with it.
\<close>

theorem op_mode_set_correct:
  assumes "mode_ok s"
  shows "\<exists>r s'. apCfgOpModeSet 0 v s = Some (r, s') \<and> mode_ok s' \<and>
    (\<exists>t. apCfgOpModeGet 0 s' = Some (if 0 \<le> v \<and> v \<le> 9 then v else CFG_OP_MODE_AP, t))"
proof -
  obtain r s' where s': "apCfgOpModeSet 0 v s = Some (r, s')" "cfg_inv s'" "mode_wf (nvram_view s')"
    "op_mode (nvram_view s') = mode_after v"
    using hoareD [OF hoare_op_mode] assms unfolding mode_ok_def by blast
  then show ?thesis using decodesD [OF decodes_op_mode s'(2)] by (simp add: mode_ok_def mode_after_def)
qed

lemma ex_ap_mode: "mode_ok ex_ap"
  by (simp add: mode_ok_def mode_wf_def ssids_fit_def mode_rules_def op_mode_def name_simps ex_ap_view)

lemma op_mode_set_correct_witness:
  "\<exists>r s'. apCfgOpModeSet 0 CFG_OP_MODE_UR ex_ap = Some (r, s') \<and> mode_ok s'"
  using op_mode_set_correct [OF ex_ap_mode, of CFG_OP_MODE_UR] by blast

lemma settings_agree_with_mode_witness:
  "\<exists>s' t. mode_call ex_ap s' \<and> apCfgOpModeGet 0 s' = Some (CFG_OP_MODE_UR, t) \<and>
     (\<exists>t. apCfgActiveModeGet 0 3 s' = Some (0, t))"
proof -
  obtain r s' t where s': "apCfgOpModeSet 0 CFG_OP_MODE_UR ex_ap = Some (r, s')"
    "apCfgOpModeGet 0 s' = Some (CFG_OP_MODE_UR, t)"
    using hoareD [OF hoare_op_mode [of CFG_OP_MODE_UR], of ex_ap] decodesD [OF decodes_op_mode] ex_ap_mode
    by (fastforce simp: mode_ok_def mode_after_def)
  then have "mode_call ex_ap s'" by (blast intro: call_mode)
  moreover from this have "mode_call\<^sup>*\<^sup>* ex_ap s'" by (rule r_into_rtranclp)
  from settings_agree_with_mode [OF ex_ap_mode this] s'(2) have "\<exists>t. apCfgActiveModeGet 0 3 s' = Some (0, t)" by auto
  ultimately show ?thesis using s'(2) by blast
qed

end
