(* ===== verification/Apcfg_Limits.thy ===== *)
theory Apcfg_Limits
  imports Apcfg_Modes
begin

text \<open>
  Where the settings library does not keep the contract: values a setter accepts and its getter's array
  cannot hold, setters that read or write past an array, settings whose loop writes one access point four
  times, and the deletion from the VLAN list, lost in the buffer it edits.
\<close>

subsection \<open>The passphrase\<close>

lemma hoare_passphrase:
  assumes "vap_ok 0 bss" "cstr_ok p" "length p \<le> CFG_MAX_PASSPHRASE"
  shows "hoare (\<lambda>vw. length (vw (ssid_name 0 bss ''_passphrase'')) < 32)
    (apCfgPassphraseSet 0 bss p) (\<lambda>vw. vw (ssid_name 0 bss ''_passphrase'') = p)"
proof -
  have "client_value p" using assms(2,3) by (simp add: client_value_def)
  moreover have "cfg_flag (vap_item 0 bss)" by (rule vap_item_ok [OF assms(1)])
  ultimately show ?thesis
    unfolding apCfgPassphraseSet_def apCfgPassphraseGet_def
    by - (rule hoare_pre, (rule hoare_rules hoare_wsc decodes_str var_name_ssid assms | simp)+,
      use assms(3) in \<open>auto simp: ssid_name_def\<close>)
qed

text \<open>A passphrase of 32 to 64 characters, which \<open>apCfgPassphraseSet\<close> accepts and stores, overflows the array
  of 32 bytes of \<open>apCfgPassphraseGet\<close> from then on.
\<close>

theorem passphrase_overflows_getter:
  assumes "cfg_inv s" "vap_ok 0 bss" "cstr_ok p" "32 \<le> length p" "length p \<le> 64"
    and "length (nvram_view s (ssid_name 0 bss ''_passphrase'')) < 32"
  shows "\<exists>r s'. apCfgPassphraseSet 0 bss p s = Some (r, s') \<and> apCfgPassphraseGet 0 bss s' = None"
proof -
  obtain r s' where s': "apCfgPassphraseSet 0 bss p s = Some (r, s')" "cfg_inv s'"
    "nvram_view s' (ssid_name 0 bss ''_passphrase'') = p"
    using hoareD [OF hoare_passphrase] assms by blast
  have "var_name (ssid_name 0 bss ''_passphrase'')" by (rule var_name_ssid [OF assms(2)]) simp_all
  then have "apCfgPassphraseGet 0 bss s' = None"
    unfolding apCfgPassphraseGet_def using s' assms(4) by (intro get_str_overflow) simp_all
  then show ?thesis using s'(1) by blast
qed

subsection \<open>Settings of all access points\<close>

lemma ssid_name_eq_iff:
  "vap_ok 0 a \<Longrightarrow> vap_ok 0 b \<Longrightarrow> ssid_name 0 a suf = ssid_name 0 b suf \<longleftrightarrow> a = b"
  by (simp add: ssid_name_def)

lemma upd_ssid:
  assumes "vap_ok 0 bss"
  shows "\<forall>b \<in> {0, 1, 2, 3}. (vw(ssid_name 0 bss suf := p)) (ssid_name 0 b suf) = (if b = bss then p else vw (ssid_name 0 b suf))"
  using assms by (auto simp: ssid_name_def)

lemma wsc_not_ssid [simp]: "''wifi_wsc_configured'' \<noteq> ssid_name 0 b suf" "ssid_name 0 b suf \<noteq> ''wifi_wsc_configured''"
  by (simp_all add: ssid_name_def)

lemma wsc_upd: "(vw(''wifi_wsc_configured'' := x)) (ssid_name 0 b suf) = vw (ssid_name 0 b suf)"
  by simp

text \<open>The RADIUS server is one for all access points: setting it at any of them sets it at each.
\<close>

theorem radius_server_everywhere:
  assumes "cfg_inv s" "vap_ok 0 bss" "cstr_ok p" "length p \<le> 64"
    and "length (nvram_view s (ssid_name 0 bss ''_radius_server'')) < 32"
    and "p \<noteq> nvram_view s (ssid_name 0 bss ''_radius_server'')"
  shows "\<exists>r s'. apCfgRadiusServerSet 0 bss p s = Some (r, s') \<and> cfg_inv s' \<and>
    (\<forall>b \<in> {0, 1, 2, 3}. nvram_view s' (ssid_name 0 b ''_radius_server'') = p)"
proof -
  let ?n = "\<lambda>b. ssid_name 0 b ''_radius_server''"
  have p: "client_value p" using assms(3,4) by (simp add: client_value_def)
  have i: "cfg_flag (vap_item 0 bss)" by (rule vap_item_ok [OF assms(2)])
  have "hoare (\<lambda>vw. length (vw (?n bss)) < 32 \<and> p \<noteq> vw (?n bss)) (apCfgRadiusServerSet 0 bss p)
      (\<lambda>vw. \<forall>b \<in> {0, 1, 2, 3}. vw (?n b) = p)"
    unfolding apCfgRadiusServerSet_def apCfgRadiusServerGet_def for_vaps_def for_each.simps
    by (rule hoare_pre, (rule hoare_rules hoare_wsc decodes_str var_name_ssid i p assms(2) | simp)+)
      (use assms(4) in \<open>auto simp: ssid_name_eq_iff\<close>)
  from hoareD [OF this assms(1)] assms(5,6) show ?thesis by blast
qed

text \<open>The accounting server is meant to be the same way, but the loop of \<open>scApCfgAcctServerSet\<close> writes the
  one access point four times: the others keep theirs.
\<close>

theorem acct_server_only_here:
  assumes "cfg_inv s" "vap_ok 0 bss" "cstr_ok p" "1 \<le> length p" "length p \<le> 128"
    and "length (nvram_view s (ssid_name 0 bss ''_acct_server'')) < 32"
  shows "\<exists>r s'. scApCfgAcctServerSet 0 bss p s = Some (r, s') \<and> cfg_inv s' \<and>
    (\<forall>b \<in> {0, 1, 2, 3}. nvram_view s' (ssid_name 0 b ''_acct_server'') =
       (if b = bss then p else nvram_view s (ssid_name 0 b ''_acct_server'')))"
proof -
  let ?n = "\<lambda>b. ssid_name 0 b ''_acct_server''"
  have p: "client_value p" using assms(3,5) by (simp add: client_value_def)
  have i: "cfg_flag (vap_item 0 bss)" by (rule vap_item_ok [OF assms(2)])
  have n: "var_name (?n bss)" by (rule var_name_ssid [OF assms(2)]) simp_all
  have d: "decodes (get_str 32 (?n bss)) (\<lambda>vw. length (vw (?n bss)) < 32) (\<lambda>vw. vw (?n bss))"
    by (rule decodes_str [OF assms(2)]) simp_all
  have e: "\<forall>i \<in> set []. cfg_flag i" by simp
  have "hoare (\<lambda>vw. vw = nvram_view s) (scApCfgAcctServerSet 0 bss p)
      (\<lambda>vw. \<forall>b \<in> {0, 1, 2, 3}. vw (?n b) = (if b = bss then p else nvram_view s (?n b)))"
    unfolding scApCfgAcctServerSet_def scApCfgAcctServerGet_def for_vaps_def for_each.simps
    by (rule hoare_pre, (rule hoare_rules hoare_wsc d n i p e)+)
      (use assms(4,5,6) upd_ssid [OF assms(2), of "nvram_view s" "''_acct_server''" p] in \<open>auto simp: wsc_upd\<close>)
  from hoareD [OF this assms(1)] show ?thesis by blast
qed

subsection \<open>Reads past a character, past a table and past a message\<close>

text \<open>The number of access points cannot be stored with \<open>apCfgNumVapsSet\<close>: it passes the address of a single
  character as a string, which is read on into whatever follows it.
\<close>

theorem num_vaps_set_undefined:
  assumes "0 \<le> v" "v < 10"
  shows "apCfgNumVapsSet unit v s = None"
proof -
  have "char_of (nat ((48 + v) mod 256)) \<noteq> NUL"
  proof
    assume "char_of (nat ((48 + v) mod 256)) = NUL"
    then have "of_char (char_of (nat ((48 + v) mod 256))) = (0 :: nat)" by simp
    then show False using assms by simp
  qed
  then show ?thesis by (simp add: apCfgNumVapsSet_def write_char_def c_str_def)
qed

text \<open>Requesting the item \<open>APL_AUTOREBOOT\<close> reads past the table of the names of the items, for the debug log,
  so that changing the automatic reboot, on or off, is undefined.
\<close>

theorem auto_reboot_set_undefined:
  assumes "cfg_inv s" and "v \<noteq> (if nvram_view s ''auto_reboot'' \<in> {[], ENABLE} then 1 else 0)"
  shows "apCfgAutoRebootModeSet v s = None"
proof -
  have n: "var_name ''auto_reboot''" by (simp add: var_name_def wf_name_def)
  obtain s1 where s1: "nvram_safe_get ''auto_reboot'' s = Some (nvram_view s ''auto_reboot'', s1)" "cfg_inv s1"
    using nvram_safe_get_var [OF assms(1) n] by blast
  have get: "apCfgAutoRebootModeGet s = Some (if nvram_view s ''auto_reboot'' \<in> {[], ENABLE} then 1 else 0, s1)"
    using s1(1) by (auto simp: apCfgAutoRebootModeGet_def)
  note put = cfg.put_step [OF s1(2) var_name_client [OF n] client_value_onoff [of v]]
  have "apl_set_flag APL_AUTOREBOOT (cfg.after_put ''auto_reboot'' (onoff v) s1) = None"
    using put(2) by (simp add: apl_set_flag_def cfg_inv_def id_string_def idString_def APL_AUTOREBOOT_def)
  then show ?thesis
    using get put(1) assms(2) by (simp add: apCfgAutoRebootModeSet_def if_changed_def write_var_def)
qed

text \<open>A certificate of 4487 characters or more, which \<open>apCfgCertSet\<close> accepts up to 8192, overflows the array
  \<open>scfgmgr_set\<close> formats its request in.
\<close>

theorem cert_set_overflow:
  assumes "cfg_inv s" "4487 \<le> length p" "length p \<le> 8192"
    and "length (nvram_view s ''cert_content'') \<le> 8192" "p \<noteq> nvram_view s ''cert_content''"
  shows "apCfgCertSet p s = None"
proof -
  have n: "var_name ''cert_content''" by (simp add: var_name_def wf_name_def)
  have "length (nvram_view s ''cert_content'') < 8193" using assms(4) by simp
  from reads_str [OF assms(1) n this]
  obtain s1 where "apCfgCertGet s = Some (nvram_view s ''cert_content'', s1)"
    by (auto simp: reads_def apCfgCertGet_def)
  moreover have "set_var ''cert_content'' p s1 = None"
    using assms(2) by (simp add: set_var_def scfgmgr_set_def)
  ultimately show ?thesis
    using assms(3,5) by (simp add: apCfgCertSet_def reject_if_def if_changed_def write_var_def)
qed

subsection \<open>Concrete cases\<close>

lemma passphrase_overflows_getter_witness:
  "\<exists>r s'. apCfgPassphraseSet 0 1 (replicate 40 (CHR ''x'')) ex_ap = Some (r, s') \<and> apCfgPassphraseGet 0 1 s' = None"
  using passphrase_overflows_getter [OF ex_ap_inv, of 1 "replicate 40 (CHR ''x'')"]
  by (simp add: ex_ap_view name_simps cstr_ok_def)

lemma radius_server_everywhere_witness:
  "\<exists>r s'. apCfgRadiusServerSet 0 2 ''10.0.0.1'' ex_ap = Some (r, s') \<and> nvram_view s' ''wlan0_ssid3_radius_server'' = ''10.0.0.1''"
  using radius_server_everywhere [OF ex_ap_inv, of 2 "''10.0.0.1''"]
  by (auto simp: ex_ap_view name_simps)

lemma acct_server_only_here_witness:
  "\<exists>r s'. scApCfgAcctServerSet 0 2 ''10.0.0.1'' ex_ap = Some (r, s') \<and> nvram_view s' ''wlan0_ssid3_acct_server'' = []"
  using acct_server_only_here [OF ex_ap_inv, of 2 "''10.0.0.1''"]
  by (auto simp: ex_ap_view name_simps)

lemma num_vaps_set_undefined_witness: "apCfgNumVapsSet 0 4 ex_ap = None"
  using num_vaps_set_undefined [of 4] by simp

lemma auto_reboot_set_undefined_witness: "apCfgAutoRebootModeSet 0 ex_ap = None"
  using auto_reboot_set_undefined [OF ex_ap_inv, of 0] by (simp add: ex_ap_view)

lemma cert_set_overflow_witness: "apCfgCertSet (replicate 5000 (CHR ''A'')) ex_ap = None"
proof (rule cert_set_overflow [OF ex_ap_inv])
  show "replicate 5000 CHR ''A'' \<noteq> nvram_view ex_ap ''cert_content''"
    by (simp add: ex_ap_view)
qed (simp_all add: ex_ap_view)

end
