(* ===== verification/Util_Conv.thy ===== *)
theory Util_Conv
  imports C_Inet
begin

text \<open>
  Conversions of \<open>src/src/apps/apps_sc/libs/libutility/utility.c\<close>: MAC addresses and hexadecimal
  strings, the escaping of SSIDs for the shell and of texts for the web pages, the hiding of
  secrets, and the sorting of integer arrays. A buffer the caller owns is written through
  \<open>buf_put\<close>, with its size.
\<close>

subsection \<open>Letters and secrets\<close>

definition low_char :: "char \<Rightarrow> char" where
  "low_char c = (if code (CHR ''A'') \<le> code c \<and> code c \<le> code (CHR ''Z'')
     then char_of (code c + (code (CHR ''a'') - code (CHR ''A''))) else c)"

definition scToLows :: "cstr \<Rightarrow> cstr" where
  "scToLows s = map low_char s"

definition up_char :: "char \<Rightarrow> char" where
  "up_char c = (if code (CHR ''a'') \<le> code c \<and> code c \<le> code (CHR ''z'')
     then char_of (code c - (code (CHR ''a'') - code (CHR ''A''))) else c)"

definition scToUppers :: "cstr \<Rightarrow> cstr" where
  "scToUppers s = map up_char s"

definition scSecretHide :: "cstr \<Rightarrow> cstr" where
  "scSecretHide secret = map (\<lambda>_. CHR ''*'') secret"

definition scSecretHidden :: "cstr \<Rightarrow> bool" where
  "scSecretHidden secret \<longleftrightarrow> secret \<noteq> [] \<and> (\<forall>c \<in> set secret. c = CHR ''*'')"

lemma scSecretHidden_hide: "scSecretHidden (scSecretHide s) \<longleftrightarrow> s \<noteq> []"
  by (auto simp: scSecretHidden_def scSecretHide_def)

subsection \<open>Incrementing a MAC address\<close>

text \<open>\<open>for (i = 5; i >= 0 && !++mac1[i]; i--);\<close>, with \<open>i + 1\<close> as the argument.\<close>

primrec mac_carry :: "nat \<Rightarrow> 8 word list \<Rightarrow> 8 word list" where
  "mac_carry 0 m = m"
| "mac_carry (Suc i) m =
     (let m = m[i := m ! i + 1] in if m ! i = 0 then mac_carry i m else m)"

definition mac_plus_one :: "8 word list \<Rightarrow> 8 word list option" where
  "mac_plus_one mac = (if length mac < 6 then None else Some (mac_carry 6 (take 6 mac)))"

text \<open>The bytes as a big-endian number.\<close>

definition mac_val :: "8 word list \<Rightarrow> nat" where
  "mac_val m = foldl (\<lambda>a b. a * 256 + unat b) 0 m"

lemma mac_val_snoc [simp]: "mac_val (m @ [b]) = mac_val m * 256 + unat b"
  by (simp add: mac_val_def)

lemma mac_val_Nil [simp]: "mac_val [] = 0"
  by (simp add: mac_val_def)

lemma mac_val_less: "mac_val m < 256 ^ length m"
proof (induction m rule: rev_induct)
  case Nil
  then show ?case by simp
next
  case (snoc b m)
  have "unat b < 256" using unsigned_less [of b] by simp
  with snoc show ?case by simp
qed

lemma length_mac_carry [simp]: "length (mac_carry i m) = length m"
  by (induction i arbitrary: m) (simp_all add: Let_def)

lemma mac_carry_append: "i \<le> length m \<Longrightarrow> mac_carry i (m @ r) = mac_carry i m @ r"
  by (induction i arbitrary: m) (simp_all add: Let_def nth_append list_update_append)

lemma unat_plus_one_byte: "unat (b + 1 :: 8 word) = (unat b + 1) mod 256"
  by (simp add: unat_word_ariths)

lemma mac_val_carry: "mac_val (mac_carry (length m) m) = (mac_val m + 1) mod 256 ^ length m"
proof (induction m rule: rev_induct)
  case Nil
  then show ?case by simp
next
  case (snoc b m)
  let ?M = "256 ^ length m :: nat"
  have b: "unat b < 256" using unsigned_less [of b] by simp
  show ?case
  proof (cases "b + 1 = 0")
    case True
    then have "(unat b + 1) mod 256 = 0" using unat_plus_one_byte [of b] by simp
    then have "unat b + 1 = 256" using b by (cases "unat b + 1 = 256") simp_all
    then have "(mac_val (m @ [b]) + 1) mod 256 ^ length (m @ [b]) = (mac_val m + 1) * 256 mod (?M * 256)"
      by (simp add: algebra_simps)
    also have "\<dots> = ((mac_val m + 1) mod ?M) * 256" by (simp only: mult_mod_left)
    finally show ?thesis using True snoc
      by (simp add: nth_append mac_carry_append list_update_append)
  next
    case False
    then have "(unat b + 1) mod 256 \<noteq> 0" using unat_plus_one_byte [of b] by (metis unat_eq_zero)
    then have "unat b + 1 < 256" using b by (cases "unat b + 1 = 256") simp_all
    moreover from this have "unat (b + 1) = unat b + 1" by (simp add: unat_plus_one_byte)
    moreover have "mac_val m * 256 + unat b + 1 < ?M * 256"
    proof -
      have "mac_val m + 1 \<le> ?M" using mac_val_less [of m] by simp
      then have "(mac_val m + 1) * 256 \<le> ?M * 256" by (rule mult_le_mono1)
      with \<open>unat b + 1 < 256\<close> show ?thesis by simp
    qed
    ultimately show ?thesis using False by (simp add: nth_append list_update_append)
  qed
qed


subsection \<open>Hexadecimal strings\<close>

text \<open>Writing bytes into a buffer of the caller; \<open>sprintf\<close> also writes the terminator.\<close>

definition buf_put :: "nat \<Rightarrow> bytes \<Rightarrow> bytes \<Rightarrow> bytes option" where
  "buf_put p s buf =
     (if p + length s \<le> length buf then Some (take p buf @ s @ drop (p + length s) buf) else None)"

definition c_read :: "bytes \<Rightarrow> cstr" where
  "c_read buf = takeWhile (\<lambda>c. c \<noteq> NUL) buf"

text \<open>The loop, with the position of \<open>p\<close> in \<open>hexBuf\<close>.\<close>

fun chars2hexs_loop :: "8 word list \<Rightarrow> cstr option \<Rightarrow> nat \<Rightarrow> int \<Rightarrow> bytes \<Rightarrow> (nat \<times> int \<times> bytes) option" where
  "chars2hexs_loop [] sep p cnt buf = Some (p, cnt, buf)"
| "chars2hexs_loop (c # cs) sep p cnt buf =
     (case sep of
        Some t \<Rightarrow> do {
          let s = fmt_02x True (unat c) @ t;
          buf \<leftarrow> buf_put p (s @ [NUL]) buf;
          chars2hexs_loop cs sep (p + 3) (cnt + int (length s)) buf
        }
      | None \<Rightarrow> do {
          let s = fmt_02x True (unat c);
          buf \<leftarrow> buf_put p (s @ [NUL]) buf;
          chars2hexs_loop cs sep (p + 2) (cnt + int (length s)) buf
        })"

definition scChars2Hexs :: "8 word list \<Rightarrow> nat \<Rightarrow> bytes \<Rightarrow> cstr option \<Rightarrow> (int \<times> bytes) option" where
  "scChars2Hexs charStr strLen hexBuf separator =
     (if length charStr < strLen then None
      else do {
        (p, cnt, buf) \<leftarrow> chars2hexs_loop (take strLen charStr) separator 0 0 hexBuf;
        if separator \<noteq> None then
          (if p = 0 then None else do { buf \<leftarrow> buf_put (p - 1) [NUL] buf; Some (cnt - 1, buf) })
        else do { buf \<leftarrow> buf_put p [NUL] buf; Some (cnt, buf) }
      })"

definition macAddrToString :: "8 word list \<Rightarrow> bytes \<Rightarrow> cstr option \<Rightarrow> (int \<times> bytes) option" where
  "macAddrToString macAddress buf separator = scChars2Hexs macAddress 6 buf separator"

text \<open>One digit, as the chain of comparisons decodes it.\<close>

definition hex_digit_val :: "char \<Rightarrow> int option" where
  "hex_digit_val ch =
     (if code ch \<le> code (CHR ''9'') \<and> code (CHR ''0'') \<le> code ch then Some (int (code ch) - 48)
      else if code ch \<le> code (CHR ''F'') \<and> code (CHR ''A'') \<le> code ch then Some (int (code ch) - 65 + 10)
      else if code ch \<le> code (CHR ''f'') \<and> code (CHR ''a'') \<le> code ch then Some (int (code ch) - 97 + 10)
      else None)"

text \<open>Signed arithmetic of type \<open>A_INT32\<close>; overflow is undefined.\<close>

definition c_int :: "int \<Rightarrow> int option" where
  "c_int v = (if int_range v then Some v else None)"

text \<open>\<open>scHex2Char\<close> returns \<open>Some v\<close> inside the model's option for status 0 and \<open>None\<close> for -1.\<close>

fun hex2char_loop :: "nat \<Rightarrow> cstr \<Rightarrow> int \<Rightarrow> int option option" where
  "hex2char_loop 0 str result = Some (Some result)"
| "hex2char_loop (Suc n) [] result = Some (Some result)"
| "hex2char_loop (Suc n) (ch # str) result =
     (if ch = CHR '' '' then hex2char_loop n str result
      else do {
        result \<leftarrow> c_int (result * 16);
        case hex_digit_val ch of
          None \<Rightarrow> Some None
        | Some d \<Rightarrow> do { result \<leftarrow> c_int (result + d); hex2char_loop n str result }
      })"

definition scHex2Char :: "cstr \<Rightarrow> nat \<Rightarrow> int option option" where
  "scHex2Char str len = hex2char_loop len str 0"

text \<open>The loop of \<open>scHexs2Chars\<close>: \<open>lTemp\<close> keeps its value when two characters are no number, and is
  not initialised before the first.\<close>

fun hexs2chars_loop :: "nat \<Rightarrow> cstr \<Rightarrow> bool \<Rightarrow> int option \<Rightarrow> 8 word list option" where
  "hexs2chars_loop 0 p interval lTemp = Some []"
| "hexs2chars_loop (Suc n) p interval lTemp = do {
     r \<leftarrow> scHex2Char p 2;
     lTemp \<leftarrow> (case r of Some v \<Rightarrow> Some v | None \<Rightarrow> lTemp);
     let k = (if interval then 3 else 2);
     rest \<leftarrow> (if 0 < n \<and> length p < k then None else hexs2chars_loop n (drop k p) interval (Some lTemp));
     Some (word_of_int lTemp # rest)
   }"

definition scHexs2Chars :: "cstr \<Rightarrow> nat \<Rightarrow> bool \<Rightarrow> 8 word list option" where
  "scHexs2Chars hexs len interval = hexs2chars_loop len hexs interval None"

text \<open>The index runs over the 17 characters; the terminator may be among them.\<close>

definition scMacStr17ToStr12 :: "cstr \<Rightarrow> cstr option" where
  "scMacStr17ToStr12 str17 =
     (if length str17 < 16 then None
      else Some (c_read (map (\<lambda>i. (str17 @ [NUL]) ! i) (filter (\<lambda>i. (i + 1) mod 3 \<noteq> 0) [0..<17]))))"

definition scMacStr12ToStr17 :: "cstr \<Rightarrow> char \<Rightarrow> cstr option" where
  "scMacStr12ToStr17 str12 separator =
     (if length str12 < 11 then None
      else Some (c_read (map (\<lambda>i. if (i + 1) mod 3 = 0 then separator else (str12 @ [NUL]) ! (i - i div 3)) [0..<17])))"

subsection \<open>The hexadecimal round trips\<close>

definition hex2 :: "8 word \<Rightarrow> cstr" where
  "hex2 b = [hex_char True (unat b div 16), hex_char True (unat b mod 16)]"

lemma unat_byte_less: "unat (b :: 8 word) < 256"
  using unsigned_less [of b] by simp

lemma code_hex_char: "d < 16 \<Longrightarrow> code (hex_char u d) = (if d < 10 then 48 + d else if u then 55 + d else 87 + d)"
  by (simp add: hex_char_def)

lemma fmt_02x_hex2: "fmt_02x True (unat (b :: 8 word)) = hex2 b"
proof -
  have "unat b div 16 < 16" using unat_byte_less [of b] by (simp add: less_mult_imp_div_less)
  moreover have "hex_char True 0 = CHR ''0''" 
    using code_hex_char [of 0 True] of_char_eq_iff [of "hex_char True 0" "CHR ''0''", where 'a = nat] by simp
  ultimately show ?thesis
    by (simp add: fmt_02x_def hex2_def hex_digits.simps [of True "unat b"] hex_digits.simps [of True "unat b div 16"])
qed

lemma length_hex2 [simp]: "length (hex2 b) = 2"
  by (simp add: hex2_def)

lemma hex_char_neq: "d < 16 \<Longrightarrow> code c < 48 \<or> code c = 58 \<Longrightarrow> hex_char u d \<noteq> c"
  using code_hex_char [of d u] by (auto split: if_splits)

lemma hex_char_cases:
  assumes "d < 16"
  shows "hex_digit_val (hex_char u d) = Some (int d)" "hex_char u d \<noteq> CHR '' ''" "hex_char u d \<noteq> NUL"
    "hex_char u d \<noteq> CHR '':''"
proof -
  show "hex_digit_val (hex_char u d) = Some (int d)"
    using assms code_hex_char [OF assms, of u] by (auto simp: hex_digit_val_def)
qed (rule hex_char_neq [OF assms]; simp)+

lemma hex2_no_NUL [simp]: "NUL \<notin> set (hex2 b)"
  using hex_char_cases(3) [of "unat b div 16" True] hex_char_cases(3) [of "unat b mod 16" True] unat_byte_less [of b]
  by (auto simp: hex2_def less_mult_imp_div_less)

lemma int_range_small: "0 \<le> v \<Longrightarrow> v < 65536 \<Longrightarrow> int_range v"
  by (simp add: int_range_def INT_MAX_def INT_MIN_def)

lemma scHex2Char_hex2: "scHex2Char (hex2 b @ r) 2 = Some (Some (uint b))"
proof -
  have d: "unat b div 16 < 16" "unat b mod 16 < 16" using unat_byte_less [of b] by (simp_all add: less_mult_imp_div_less)
  have "int (unat b div 16 * 16 + unat b mod 16) = int (unat b)" by (simp only: div_mult_mod_eq)
  then have "int (unat b div 16) * 16 + int (unat b mod 16) = uint b"
    by (simp only: of_nat_add of_nat_mult of_nat_numeral uint_nat)
  moreover have "int_range (int (unat b div 16))" "int_range (int (unat b div 16) * 16)" "int_range (uint b)"
    using d uint_lt2p [of b] by (auto intro!: int_range_small)
  ultimately show ?thesis using d
    by (simp add: scHex2Char_def hex2_def numeral_2_eq_2 hex_char_cases c_int_def int_range_small)
qed

lemma hexs2chars_hex2:
  "hexs2chars_loop (length m) (concat (map hex2 m)) False t = Some m"
  by (induction m arbitrary: t) (simp_all add: scHex2Char_hex2)

fun mac_join :: "char \<Rightarrow> 8 word list \<Rightarrow> cstr" where
  "mac_join c [] = []"
| "mac_join c [b] = hex2 b"
| "mac_join c (b # m) = hex2 b @ c # mac_join c m"

lemma hexs2chars_join:
  "hexs2chars_loop (length m) (mac_join c m) True t = Some m"
proof (induction c m arbitrary: t rule: mac_join.induct)
  case (2 c b)
  show ?case using scHex2Char_hex2 [of b "[]"] by simp
next
  case (3 c b b' m)
  have "drop 3 (mac_join c (b # b' # m)) = mac_join c (b' # m)" by (simp add: hex2_def numeral_3_eq_3)
  with 3 show ?case by (simp add: scHex2Char_hex2)
qed simp


lemma buf_put_Some: "p + length s \<le> length buf \<Longrightarrow> buf_put p s buf = Some (take p buf @ s @ drop (p + length s) buf)"
  by (simp add: buf_put_def)

lemma buf_put_eq_None: "buf_put p s buf = None \<longleftrightarrow> length buf < p + length s"
  by (simp add: buf_put_def not_le)

lemma buf_put_string:
  assumes "buf_put p (t @ [NUL]) buf = Some buf'"
  shows "length buf' = length buf" "p + length t < length buf \<and> buf' = take p buf @ t @ NUL # drop (p + length t + 1) buf"
    "take (p + length t) buf' = take p buf @ t" "drop (p + length t + k + 1) buf' = drop (p + length t + k + 1) buf"
proof -
  have l: "p + length t + 1 \<le> length buf" and b: "buf' = take p buf @ t @ NUL # drop (p + length t + 1) buf"
    using assms by (auto simp: buf_put_def split: if_splits)
  from l show "length buf' = length buf" by (simp add: b)
  from l b show "p + length t < length buf \<and> buf' = take p buf @ t @ NUL # drop (p + length t + 1) buf" by simp
  have p: "length (take p buf) = p" using l by simp
  show "take (p + length t) buf' = take p buf @ t" using p by (simp add: b)
  have "drop (p + length t + k + 1) buf' = drop k (drop (p + length t + 1) buf)"
    using p by (simp add: b)
  then show "drop (p + length t + k + 1) buf' = drop (p + length t + k + 1) buf" by (simp add: add_ac)
qed

lemma chars2hexs_loop_sep:
  assumes "cs \<noteq> []"
  shows "chars2hexs_loop cs (Some [c]) p cnt buf =
    (if p + 3 * length cs + 1 \<le> length buf
     then Some (p + 3 * length cs, cnt + 3 * int (length cs),
       take p buf @ concat (map (\<lambda>b. hex2 b @ [c]) cs) @ NUL # drop (p + 3 * length cs + 1) buf)
     else None)"
  using assms
proof (induction cs arbitrary: p cnt buf)
  case (Cons b cs)
  let ?t = "hex2 b @ [c]"
  have t: "length ?t = 3" by simp
  show ?case
  proof (cases "buf_put p (?t @ [NUL]) buf")
    case None
    then show ?thesis by (simp add: fmt_02x_hex2 buf_put_def split: if_splits)
  next
    case (Some buf')
    note put = buf_put_string [OF Some, unfolded t]
    have step: "chars2hexs_loop (b # cs) (Some [c]) p cnt buf = chars2hexs_loop cs (Some [c]) (p + 3) (cnt + 3) buf'"
      using Some by (simp add: fmt_02x_hex2)
    show ?thesis
    proof (cases "cs = []")
      case True
      show ?thesis unfolding step using put(2) True by simp
    next
      case False
      have "drop (p + 3 + 3 * length cs + 1) buf' = drop (p + 3 * length (b # cs) + 1) buf"
        using put(4) [of "3 * length cs"] by (simp add: add_ac)
      then show ?thesis
        unfolding step Cons.IH [OF False] put(1,3) by (simp add: add_ac)
    qed
  qed
qed simp

lemma chars2hexs_loop_plain:
  assumes "cs \<noteq> []"
  shows "chars2hexs_loop cs None p cnt buf =
    (if p + 2 * length cs + 1 \<le> length buf
     then Some (p + 2 * length cs, cnt + 2 * int (length cs),
       take p buf @ concat (map (\<lambda>b. hex2 b) cs) @ NUL # drop (p + 2 * length cs + 1) buf)
     else None)"
  using assms
proof (induction cs arbitrary: p cnt buf)
  case (Cons b cs)
  let ?t = "hex2 b"
  have t: "length ?t = 2" by simp
  show ?case
  proof (cases "buf_put p (?t @ [NUL]) buf")
    case None
    then show ?thesis by (simp add: fmt_02x_hex2 buf_put_def split: if_splits)
  next
    case (Some buf')
    note put = buf_put_string [OF Some, unfolded t]
    have step: "chars2hexs_loop (b # cs) None p cnt buf = chars2hexs_loop cs None (p + 2) (cnt + 2) buf'"
      using Some by (simp add: fmt_02x_hex2)
    show ?thesis
    proof (cases "cs = []")
      case True
      show ?thesis unfolding step using put(2) True by simp
    next
      case False
      have "drop (p + 2 + 2 * length cs + 1) buf' = drop (p + 2 * length (b # cs) + 1) buf"
        using put(4) [of "2 * length cs"] by (simp add: add_ac)
      then show ?thesis
        unfolding step Cons.IH [OF False] put(1,3) by (simp add: add_ac)
    qed
  qed
qed simp

lemma mac_join_snoc: "m \<noteq> [] \<Longrightarrow> concat (map (\<lambda>b. hex2 b @ [c]) m) = mac_join c m @ [c]"
  by (induction c m rule: mac_join.induct) simp_all

lemma length_mac_join: "m \<noteq> [] \<Longrightarrow> length (mac_join c m) = 3 * length m - 1"
  by (induction c m rule: mac_join.induct) simp_all

lemma mac_join_no_NUL: "c \<noteq> NUL \<Longrightarrow> NUL \<notin> set (mac_join c m)"
  by (induction c m rule: mac_join.induct) auto

lemma c_read_stop: "NUL \<notin> set s \<Longrightarrow> c_read (s @ NUL # r) = s"
  by (simp add: c_read_def takeWhile_append_stop)

lemma macAddrToString_plain:
  assumes "length m = 6"
  shows "macAddrToString m buf None =
    (if 13 \<le> length buf then Some (12, concat (map hex2 m) @ NUL # drop 13 buf) else None)"
proof -
  have "m \<noteq> []" using assms by auto
  have l: "length (concat (map hex2 m)) = 12" using assms by (simp add: length_concat comp_def sum_list_triv)
  show ?thesis
    using chars2hexs_loop_plain [OF \<open>m \<noteq> []\<close>, of 0 0 buf] assms l
    by (auto simp: macAddrToString_def scChars2Hexs_def buf_put_def)
qed

text \<open>With a separator the last \<open>sprintf\<close> writes one byte more than the finished string occupies.\<close>

lemma macAddrToString_sep:
  assumes "length m = 6"
  shows "macAddrToString m buf (Some [c]) =
    (if 19 \<le> length buf then Some (17, mac_join c m @ NUL # NUL # drop 19 buf) else None)"
proof -
  have "m \<noteq> []" using assms by auto
  have l: "length (mac_join c m) = 17" using length_mac_join [OF \<open>m \<noteq> []\<close>] assms by simp
  show ?thesis
    using chars2hexs_loop_sep [OF \<open>m \<noteq> []\<close>, of c 0 0 buf] assms l
    by (auto simp: macAddrToString_def scChars2Hexs_def buf_put_def mac_join_snoc [OF \<open>m \<noteq> []\<close>])
qed


subsection \<open>Escaping\<close>

definition scConversionSSID :: "cstr \<Rightarrow> cstr" where
  "scConversionSSID src =
     concat (map (\<lambda>c. if c = CHR 0x22 \<or> c = CHR 0x5C \<or> c = CHR 0x60 then [CHR 0x5C, c] else [c]) src)"

text \<open>
  What a POSIX shell reads between double quotes: a backslash keeps its meaning only before
  \<open>$\<close>, \<open>`\<close>, \<open>"\<close>, another backslash and a newline (which it removes). The result is \<open>None\<close> when the
  string would end the quotation or contains an expansion.
\<close>

fun dq_read :: "cstr \<Rightarrow> cstr option" where
  "dq_read [] = Some []"
| "dq_read (c # s) =
     (if c = CHR 0x5C then
        (case s of
           [] \<Rightarrow> None
         | d # r \<Rightarrow>
             if d \<in> {CHR ''$'', CHR 0x60, CHR 0x22, CHR 0x5C} then map_option (Cons d) (dq_read r)
             else if d = CHR 0x0A then dq_read r
             else map_option (\<lambda>t. c # d # t) (dq_read r))
      else if c \<in> {CHR 0x22, CHR 0x60, CHR ''$''} then None
      else map_option (Cons c) (dq_read s))"

lemma scConversionSSID_Cons:
  "scConversionSSID (c # s) = (if c = CHR 0x22 \<or> c = CHR 0x5C \<or> c = CHR 0x60 then CHR 0x5C # c # scConversionSSID s
     else c # scConversionSSID s)"
  by (simp add: scConversionSSID_def)

lemma scConversionSSID_Nil [simp]: "scConversionSSID [] = []"
  by (simp add: scConversionSSID_def)

lemma length_scConversionSSID: "length (scConversionSSID s) \<le> 2 * length s"
  by (induction s) (simp_all add: scConversionSSID_Cons)

lemma dq_read_conversion:
  "dq_read (scConversionSSID s) = (if CHR ''$'' \<in> set s then None else Some s)"
  by (induction s) (auto simp: scConversionSSID_Cons)

text \<open>The escapes of \<open>sgml_encode\<close>; the destination is an array of \<open>n\<close> bytes.\<close>

definition sgml_char :: "bool \<Rightarrow> char \<Rightarrow> cstr" where
  "sgml_char readOnly c =
     (if c = CHR ''&'' then ''&#38;''
      else if c = CHR 0x22 then ''&#34;''
      else if c = CHR ''<'' then ''&#60;''
      else if c = CHR ''>'' then ''&#62;''
      else if c = CHR ''('' then ''&#40;''
      else if c = CHR '')'' then ''&#41;''
      else if c = CHR 0x27 then ''&#39;''
      else if c = CHR '' '' then (if readOnly then ''&nbsp;'' else ''&#32;'')
      else [c])"

definition sgml_encode :: "nat \<Rightarrow> cstr \<Rightarrow> bool \<Rightarrow> cstr option" where
  "sgml_encode n src readOnly = into_buf n (concat (map (sgml_char readOnly) src))"

text \<open>The characters the encoder's references stand for.\<close>

function sgml_decode :: "cstr \<Rightarrow> cstr" where
  "sgml_decode [] = []"
| "sgml_decode (c # s) =
     (if c \<noteq> CHR ''&'' then c # sgml_decode s
      else if take 5 s = ''nbsp;'' then CHR '' '' # sgml_decode (drop 5 s)
      else case map_of [(''#38;'', CHR ''&''), (''#34;'', CHR 0x22), (''#60;'', CHR ''<''), (''#62;'', CHR ''>''),
          (''#40;'', CHR ''(''), (''#41;'', CHR '')''), (''#39;'', CHR 0x27), (''#32;'', CHR '' '')] (take 4 s) of
        Some d \<Rightarrow> d # sgml_decode (drop 4 s)
      | None \<Rightarrow> c # sgml_decode s)"
  by pat_completeness auto
termination by (relation "measure length") auto

lemma sgml_decode_char: "sgml_decode (sgml_char ro c @ s) = c # sgml_decode s"
  by (simp add: sgml_char_def)

lemma sgml_decode_encode: "sgml_decode (concat (map (sgml_char ro) s)) = s"
  by (induction s) (simp_all add: sgml_decode_char)

definition sgml_special :: "char set" where
  "sgml_special = {CHR 0x22, CHR ''<'', CHR ''>'', CHR ''('', CHR '')'', CHR 0x27, CHR '' ''}"

lemma sgml_char_clean: "set (sgml_char ro c) \<inter> sgml_special = {}"
  by (simp add: sgml_char_def sgml_special_def)

lemma sgml_encode_clean: "set (concat (map (sgml_char ro) s)) \<inter> sgml_special = {}"
proof (induction s)
  case (Cons c s)
  then show ?case using sgml_char_clean [of ro c] by auto
qed simp

lemma length_sgml_char: "length (sgml_char ro c) \<le> 6"
  by (simp add: sgml_char_def)

lemma length_sgml: "length (concat (map (sgml_char ro) s)) \<le> 6 * length s"
proof (induction s)
  case (Cons c s)
  then show ?case using length_sgml_char [of ro c] by simp
qed simp

subsection \<open>Keys in hexadecimal\<close>

datatype key_status = Key_OK | Key_EINVAL

text \<open>The state is \<open>keyIndex\<close>, counted down from \<open>encryptedKeyLen\<close>, \<open>count\<close> and \<open>tval\<close>; the result the
  status and the bytes stored.\<close>

fun ascii_key_loop :: "cstr \<Rightarrow> nat \<Rightarrow> nat \<Rightarrow> 8 word \<Rightarrow> key_status \<times> 8 word list" where
  "ascii_key_loop [] k count tval = (Key_OK, [])"
| "ascii_key_loop (c # s) 0 count tval = (Key_OK, [])"
| "ascii_key_loop (c # s) (Suc k) count tval =
     (case hex_digit_val c of
        None \<Rightarrow> (Key_EINVAL, [])
      | Some d \<Rightarrow>
          let tval = push_bit 4 tval OR word_of_int d; count = count + 1 in
          if count = 2 then (let (st, key) = ascii_key_loop s k 0 0 in (st, tval # key))
          else ascii_key_loop s (Suc k) count tval)"

definition asciiToPassphraseKey :: "cstr \<Rightarrow> nat \<Rightarrow> key_status \<times> 8 word list" where
  "asciiToPassphraseKey str encryptedKeyLen = ascii_key_loop str encryptedKeyLen 0 0"

text \<open>\<open>memcpy\<close> between bytes and integers of the big-endian machine.\<close>

definition be16 :: "16 word \<Rightarrow> bytes" where
  "be16 w = [char_of (unat w div 2 ^ 8), char_of (unat w)]"

fun rd_be16 :: "bytes \<Rightarrow> 16 word" where
  "rd_be16 (a # b # _) = of_nat (code a * 2 ^ 8 + code b)"
| "rd_be16 _ = 0"

definition scGetWord :: "bytes \<Rightarrow> 16 word option" where
  "scGetWord buf = (if length buf < 2 then None else Some (rd_be16 buf))"

definition scSetWord :: "bytes \<Rightarrow> 16 word \<Rightarrow> bytes option" where
  "scSetWord buf v = (if length buf < 2 then None else Some (be16 v @ drop 2 buf))"

definition scGetDword :: "bytes \<Rightarrow> 32 word option" where
  "scGetDword buf = (if length buf < 4 then None else Some (rd_be32 buf))"

definition scSetDword :: "bytes \<Rightarrow> 32 word \<Rightarrow> bytes option" where
  "scSetDword buf v = (if length buf < 4 then None else Some (be32 v @ drop 4 buf))"

lemma length_be16 [simp]: "length (be16 w) = 2"
  by (simp add: be16_def)

lemma rd_be16_be16: "rd_be16 (be16 w @ r) = w"
proof -
  have "unat w < 65536" using unsigned_less [of w] by simp
  then have "unat w div 256 < 256" by (simp add: less_mult_imp_div_less)
  then have "rd_be16 (be16 w @ r) = of_nat (unat w div 256 * 256 + unat w mod 256)" by (simp add: be16_def)
  then show ?thesis by (simp only: div_mult_mod_eq) simp
qed

lemma scGetWord_set: "2 \<le> length buf \<Longrightarrow> Option.bind (scSetWord buf v) scGetWord = Some v"
  by (simp add: scSetWord_def scGetWord_def rd_be16_be16 del: rd_be16.simps)

lemma scGetDword_set: "4 \<le> length buf \<Longrightarrow> Option.bind (scSetDword buf v) scGetDword = Some v"
  by (simp add: scSetDword_def scGetDword_def)

end
