(* ===== verification/Util_Sort.thy ===== *)
theory Util_Sort
  imports Util_Conv "HOL-Library.Multiset"
begin

text \<open>
  \<open>scCompositor\<close> of \<open>src/src/apps/apps_sc/libs/libutility/utility.c\<close>, a recursive quicksort of an array of
  integers. Indices are C integers; an access outside the array has no result. The last
  part proves that it sorts the range it is given, permutes it and leaves the rest alone.
\<close>

definition a_get :: "int list \<Rightarrow> int \<Rightarrow> int option" where
  "a_get v i = (if 0 \<le> i \<and> i < int (length v) then Some (v ! nat i) else None)"

definition sc_swap :: "int list \<Rightarrow> int \<Rightarrow> int \<Rightarrow> int list option" where
  "sc_swap v i j = do {
     temp \<leftarrow> a_get v i;
     x \<leftarrow> a_get v j;
     Some (v[nat i := x, nat j := temp])
   }"

text \<open>\<open>for (i = left + 1; i <= right; i++) if (v[i] < v[left]) sc_swap (v, ++last, i);\<close>\<close>

function sc_partition :: "int list \<Rightarrow> int \<Rightarrow> int \<Rightarrow> int \<Rightarrow> int \<Rightarrow> (int list \<times> int) option" where
  "sc_partition v left right lst i =
     (if i \<le> right then do {
        x \<leftarrow> a_get v i;
        y \<leftarrow> a_get v left;
        if x < y then do { v \<leftarrow> sc_swap v (lst + 1) i; sc_partition v left right (lst + 1) (i + 1) }
        else sc_partition v left right lst (i + 1)
      }
      else Some (v, lst))"
  by pat_completeness auto
termination by (relation "measure (\<lambda>(v, left, right, lst, i). nat (right + 1 - i))") auto

declare sc_partition.simps [simp del]

lemma sc_partition_last:
  "sc_partition v left right lst i = Some (v', l) \<Longrightarrow> lst < i \<Longrightarrow> i \<le> right + 1 \<Longrightarrow> lst \<le> l \<and> l \<le> right"
proof (induction v left right lst i rule: sc_partition.induct)
  case (1 v left right lst i)
  show ?case
  proof (cases "i \<le> right")
    case False
    then show ?thesis using "1.prems" by (simp add: sc_partition.simps [of v])
  next
    case True
    then obtain x y where xy: "a_get v i = Some x" "a_get v left = Some y"
      using "1.prems" by (auto simp: sc_partition.simps [of v] bind_Some_iff)
    show ?thesis
    proof (cases "x < y")
      case True
      then obtain w where w: "sc_swap v (lst + 1) i = Some w" "sc_partition w left right (lst + 1) (i + 1) = Some (v', l)"
        using "1.prems" \<open>i \<le> right\<close> xy by (auto simp: sc_partition.simps [of v] bind_Some_iff)
      show ?thesis using "1.IH"(1) [OF \<open>i \<le> right\<close> xy True w] "1.prems"(2) \<open>i \<le> right\<close> by simp
    next
      case False
      then have "sc_partition v left right lst (i + 1) = Some (v', l)"
        using "1.prems" \<open>i \<le> right\<close> xy by (simp add: sc_partition.simps [of v])
      from "1.IH"(2) [OF \<open>i \<le> right\<close> xy False this] "1.prems"(2) \<open>i \<le> right\<close> show ?thesis by simp
    qed
  qed
qed

text \<open>The recursive calls come after the last swap; the range of each is a part of the range given.\<close>

function scCompositor :: "int list \<Rightarrow> int \<Rightarrow> int \<Rightarrow> int list option" where
  "scCompositor v left right =
     (if left \<ge> right then Some v
      else do {
        v \<leftarrow> sc_swap v left ((left + right) div 2);
        (v, lst) \<leftarrow> sc_partition v left right left (left + 1);
        v \<leftarrow> sc_swap v left lst;
        v \<leftarrow> scCompositor v left (lst - 1);
        scCompositor v (lst + 1) right
      })"
  by pat_completeness auto
termination
proof (relation "measure (\<lambda>(v, left, right). nat (right + 1 - left))", goal_cases)
  case (2 v left right v1 vl v2 lst v3)
  then have "left \<le> lst \<and> lst \<le> right" using sc_partition_last [of v1 left right left "left + 1" v2 lst] by simp
  then show ?case using 2 by auto
next
  case (3 v left right v1 vl v2 lst v3 v4)
  then have "left \<le> lst \<and> lst \<le> right" using sc_partition_last [of v1 left right left "left + 1" v2 lst] by simp
  then show ?case using 3 by auto
qed simp

declare scCompositor.simps [simp del]

subsection \<open>Correctness\<close>

abbreviation at :: "int list \<Rightarrow> int \<Rightarrow> int" where
  "at v k \<equiv> v ! nat k"

text \<open>The same elements, in the same places outside the range.\<close>

definition permuted_in :: "int \<Rightarrow> int \<Rightarrow> int list \<Rightarrow> int list \<Rightarrow> bool" where
  "permuted_in l r v w \<longleftrightarrow> length w = length v \<and> mset w = mset v \<and>
     (\<forall>k. 0 \<le> k \<longrightarrow> k < int (length v) \<longrightarrow> k < l \<or> r < k \<longrightarrow> at w k = at v k)"

definition sorted_in :: "int \<Rightarrow> int \<Rightarrow> int list \<Rightarrow> bool" where
  "sorted_in l r v \<longleftrightarrow> (\<forall>i j. l \<le> i \<longrightarrow> i \<le> j \<longrightarrow> j \<le> r \<longrightarrow> at v i \<le> at v j)"

lemma permuted_in_refl [simp]: "permuted_in l r v v"
  by (simp add: permuted_in_def)

lemma permuted_in_trans:
  "permuted_in l r u v \<Longrightarrow> permuted_in l' r' v w \<Longrightarrow> L \<le> l \<Longrightarrow> L \<le> l' \<Longrightarrow> r \<le> R \<Longrightarrow> r' \<le> R \<Longrightarrow> permuted_in L R u w"
  by (simp add: permuted_in_def)

lemma permuted_in_at: "permuted_in l r v w \<Longrightarrow> 0 \<le> k \<Longrightarrow> k < int (length v) \<Longrightarrow> k < l \<or> r < k \<Longrightarrow> at w k = at v k"
  unfolding permuted_in_def by blast

definition slice :: "int list \<Rightarrow> int \<Rightarrow> int \<Rightarrow> int list" where
  "slice v l r = drop (nat l) (take (nat (r + 1)) v)"

lemma slice_all:
  assumes "0 \<le> l" "r < int (length v)"
  shows "(\<forall>x \<in> set (slice v l r). P x) \<longleftrightarrow> (\<forall>k. l \<le> k \<longrightarrow> k \<le> r \<longrightarrow> P (at v k))"
proof -
  let ?S = "slice v l r"
  have len: "length ?S = nat (r + 1 - l)" using assms by (auto simp: slice_def)
  have nth: "?S ! i = at v (l + int i)" if "i < length ?S" for i
    using that assms by (simp add: len) (simp add: slice_def nat_add_distrib)
  have "(\<forall>x \<in> set ?S. P x) \<longleftrightarrow> (\<forall>i < length ?S. P (at v (l + int i)))"
    using nth by (auto simp: all_set_conv_all_nth)
  also have "\<dots> \<longleftrightarrow> (\<forall>k. l \<le> k \<longrightarrow> k \<le> r \<longrightarrow> P (at v k))"
  proof (intro iffI allI impI)
    fix k assume a: "\<forall>i < length ?S. P (at v (l + int i))" "l \<le> k" "k \<le> r"
    then show "P (at v k)" using spec [OF a(1), of "nat (k - l)"] by (simp add: len)
  next
    fix i assume "\<forall>k. l \<le> k \<longrightarrow> k \<le> r \<longrightarrow> P (at v k)" "i < length ?S"
    then show "P (at v (l + int i))" by (simp add: len)
  qed
  finally show ?thesis .
qed

lemma permuted_in_slice:
  assumes "permuted_in l r v w" "0 \<le> l" "l \<le> r" "r < int (length v)"
  shows "mset (slice w l r) = mset (slice v l r)"
proof -
  have len: "length w = length v" and m: "mset w = mset v" using assms(1) by (simp_all add: permuted_in_def)
  have t: "take (nat l) w = take (nat l) v"
  proof (rule nth_equalityI)
    fix i assume "i < length (take (nat l) w)"
    then have "i < nat l" "int i < l" "int i < int (length v)" using assms(2-4) len by auto
    then show "take (nat l) w ! i = take (nat l) v ! i"
      using permuted_in_at [OF assms(1), of "int i"] by simp
  qed (simp add: len)
  have d: "drop (nat (r + 1)) w = drop (nat (r + 1)) v"
  proof (rule nth_equalityI)
    fix i assume "i < length (drop (nat (r + 1)) w)"
    then show "drop (nat (r + 1)) w ! i = drop (nat (r + 1)) v ! i"
      using permuted_in_at [OF assms(1), of "r + 1 + int i"] assms(2-4) len by (simp add: nat_add_distrib)
  qed (simp add: len)
  have split: "u = take (nat l) u @ slice u l r @ drop (nat (r + 1)) u" if "length u = length v" for u
  proof -
    have "take (nat l) u @ slice u l r = take (nat (r + 1)) u"
      using append_take_drop_id [of "nat l" "take (nat (r + 1)) u"] that assms(2-4) by (simp add: slice_def min_def nat_le_iff)
    then show ?thesis using append_take_drop_id [of "nat (r + 1)" u] by (metis append_assoc)
  qed
  from m have "mset (take (nat l) w @ slice w l r @ drop (nat (r + 1)) w) = mset (take (nat l) v @ slice v l r @ drop (nat (r + 1)) v)"
    using split [OF len] split [OF refl] by simp
  then show ?thesis by (simp add: t d)
qed

lemma permuted_in_all:
  assumes "permuted_in l r v w" "0 \<le> l" "r < int (length v)" "\<And>k. l \<le> k \<Longrightarrow> k \<le> r \<Longrightarrow> P (at v k)" "l \<le> k" "k \<le> r"
  shows "P (at w k)"
proof -
  have "l \<le> r" using assms(5,6) by simp
  then have "set (slice w l r) = set (slice v l r)"
    using permuted_in_slice [OF assms(1,2) _ assms(3)] by (metis set_mset_mset)
  moreover have "r < int (length w)" using assms(1,3) by (simp add: permuted_in_def)
  ultimately show ?thesis
    using slice_all [OF assms(2,3), of P] slice_all [OF assms(2), of r w P] assms(4-6) by simp
qed

lemma sc_swap_ok:
  assumes "0 \<le> i" "i < int (length v)" "0 \<le> j" "j < int (length v)"
  shows "\<exists>w. sc_swap v i j = Some w \<and> length w = length v \<and> mset w = mset v \<and> at w i = at v j \<and> at w j = at v i \<and>
    (\<forall>k. 0 \<le> k \<longrightarrow> k \<noteq> i \<longrightarrow> k \<noteq> j \<longrightarrow> at w k = at v k)"
proof -
  let ?w = "v[nat i := at v j, nat j := at v i]"
  have "sc_swap v i j = Some ?w" using assms by (simp add: sc_swap_def a_get_def)
  moreover have "mset ?w = mset v" using assms by (intro mset_swap) (simp_all add: nat_less_iff)
  ultimately show ?thesis using assms by (auto simp: nth_list_update)
qed

lemma permuted_in_swap:
  "length w = length v \<Longrightarrow> mset w = mset v \<Longrightarrow> (\<And>k. 0 \<le> k \<Longrightarrow> k \<noteq> i \<Longrightarrow> k \<noteq> j \<Longrightarrow> at w k = at v k) \<Longrightarrow>
    l \<le> i \<Longrightarrow> i \<le> r \<Longrightarrow> l \<le> j \<Longrightarrow> j \<le> r \<Longrightarrow> permuted_in l r v w"
  by (auto simp: permuted_in_def)

text \<open>The loop: below \<open>last\<close> the elements are smaller than the pivot, from there to \<open>i\<close> they are not.\<close>

lemma sc_partition_ok:
  assumes "0 \<le> left" "right < int (length v)" "left \<le> lst" "lst < i" "i \<le> right + 1"
    and "\<And>k. left < k \<Longrightarrow> k \<le> lst \<Longrightarrow> at v k < at v left" "\<And>k. lst < k \<Longrightarrow> k < i \<Longrightarrow> at v left \<le> at v k"
  shows "\<exists>w l. sc_partition v left right lst i = Some (w, l) \<and> permuted_in (left + 1) right v w \<and>
    left \<le> l \<and> l \<le> right \<and> (\<forall>k. left < k \<longrightarrow> k \<le> l \<longrightarrow> at w k < at w left) \<and>
    (\<forall>k. l < k \<longrightarrow> k \<le> right \<longrightarrow> at w left \<le> at w k)"
  using assms
proof (induction v left right lst i rule: sc_partition.induct)
  case (1 v left right lst i)
  show ?case
  proof (cases "i \<le> right")
    case False
    then have "i = right + 1" using "1.prems" by simp
    then show ?thesis using "1.prems" by (auto simp: sc_partition.simps [of v])
  next
    case True
    have get: "a_get v i = Some (at v i)" "a_get v left = Some (at v left)"
      using "1.prems" True by (simp_all add: a_get_def)
    show ?thesis
    proof (cases "at v i < at v left")
      case less: True
      have bound: "0 \<le> lst + 1" "lst + 1 < int (length v)" "0 \<le> i" "i < int (length v)" using "1.prems" True by simp_all
      obtain u where u: "sc_swap v (lst + 1) i = Some u" "length u = length v" "mset u = mset v"
        "at u (lst + 1) = at v i" "at u i = at v (lst + 1)"
        "\<And>k. 0 \<le> k \<Longrightarrow> k \<noteq> lst + 1 \<Longrightarrow> k \<noteq> i \<Longrightarrow> at u k = at v k"
        using sc_swap_ok [OF bound] by auto
      have p: "at u left = at v left" using "1.prems" by (intro u(6)) simp_all
      have lo: "at u k < at u left" if "left < k" "k \<le> lst + 1" for k
        using that "1.prems" u less p by (cases "k = lst + 1") simp_all
      have hi: "at u left \<le> at u k" if "lst + 1 < k" "k < i + 1" for k
        using that "1.prems" u p by (cases "k = i") simp_all
      obtain w l where w: "sc_partition u left right (lst + 1) (i + 1) = Some (w, l)"
        "permuted_in (left + 1) right u w" "left \<le> l" "l \<le> right"
        "\<forall>k. left < k \<longrightarrow> k \<le> l \<longrightarrow> at w k < at w left" "\<forall>k. l < k \<longrightarrow> k \<le> right \<longrightarrow> at w left \<le> at w k"
        using "1.IH"(1) [OF True get less u(1)] "1.prems" True u(2) lo hi by auto
      have "permuted_in (left + 1) right v u"
        using "1.prems" True by (intro permuted_in_swap [of u v "lst + 1" i]) (simp_all add: u(2,3,6))
      then have "permuted_in (left + 1) right v w" by (rule permuted_in_trans [OF _ w(2)]) simp_all
      then show ?thesis using w True get less u(1) by (simp add: sc_partition.simps [of v])
    next
      case False
      have "at v left \<le> at v k" if "lst < k" "k < i + 1" for k
        using that "1.prems" False by (cases "k = i") simp_all
      then show ?thesis
        using "1.IH"(2) [OF True get False] "1.prems" True get False by (simp add: sc_partition.simps [of v])
    qed
  qed
qed

lemma scCompositor_ok:
  assumes "0 \<le> left" "right < int (length v)"
  shows "\<exists>w. scCompositor v left right = Some w \<and> permuted_in left right v w \<and> sorted_in left right w"
  using assms
proof (induction v left right rule: scCompositor.induct)
  case (1 v left right)
  show ?case
  proof (cases "left \<ge> right")
    case True
    then have "i = j" if "left \<le> i" "i \<le> j" "j \<le> right" for i j using that by simp
    then have "sorted_in left right v" unfolding sorted_in_def by (metis order_refl)
    then show ?thesis using True by (simp add: scCompositor.simps [of v])
  next
    case False
    let ?m = "(left + right) div 2"
    have b: "0 \<le> left" "left < int (length v)" "0 \<le> ?m" "?m < int (length v)" and m: "left \<le> ?m" "?m \<le> right"
      using "1.prems" False by auto
    obtain v1 where v1: "sc_swap v left ?m = Some v1" "length v1 = length v" "mset v1 = mset v"
      "\<And>k. 0 \<le> k \<Longrightarrow> k \<noteq> left \<Longrightarrow> k \<noteq> ?m \<Longrightarrow> at v1 k = at v k"
      using sc_swap_ok [OF b] by auto
    have p1: "permuted_in left right v v1"
      using False m by (intro permuted_in_swap [of v1 v left ?m]) (simp_all add: v1(2,3,4))
    obtain v2 l where v2: "sc_partition v1 left right left (left + 1) = Some (v2, l)"
      "permuted_in (left + 1) right v1 v2" "left \<le> l" "l \<le> right"
      "\<And>k. left < k \<Longrightarrow> k \<le> l \<Longrightarrow> at v2 k < at v2 left" "\<And>k. l < k \<Longrightarrow> k \<le> right \<Longrightarrow> at v2 left \<le> at v2 k"
      using sc_partition_ok [of left right v1 left "left + 1"] "1.prems" False v1(2) by auto
    have len2: "length v2 = length v" using v2(2) v1(2) by (simp add: permuted_in_def)
    have b3: "0 \<le> left" "left < int (length v2)" "0 \<le> l" "l < int (length v2)"
      using "1.prems" False v2(3,4) len2 by simp_all
    obtain v3 where v3: "sc_swap v2 left l = Some v3" "length v3 = length v2" "mset v3 = mset v2"
      "at v3 left = at v2 l" "at v3 l = at v2 left"
      "\<And>k. 0 \<le> k \<Longrightarrow> k \<noteq> left \<Longrightarrow> k \<noteq> l \<Longrightarrow> at v3 k = at v2 k"
      using sc_swap_ok [OF b3] by auto
    have p3: "permuted_in left right v2 v3"
      using False v2(3,4) by (intro permuted_in_swap [of v3 v2 left l]) (simp_all add: v3(2,3,6))
    have lo: "at v3 k < at v3 l" if "left \<le> k" "k \<le> l - 1" for k
      using that v2(3) v2(5) [of k] v2(5) [of l] v3(4-6) b3 by (cases "k = left") simp_all
    have hi: "at v3 l \<le> at v3 k" if "l + 1 \<le> k" "k \<le> right" for k
      using that v2(3) v2(6) [of k] v3(5,6) b3 by simp
    obtain v4 where v4: "scCompositor v3 left (l - 1) = Some v4" "permuted_in left (l - 1) v3 v4" "sorted_in left (l - 1) v4"
      using "1.IH"(1) [OF False v1(1) v2(1) refl v3(1)] "1.prems" v2(4) len2 v3(2) by auto
    have len4: "length v4 = length v" using v4(2) v3(2) len2 by (simp add: permuted_in_def)
    obtain v5 where v5: "scCompositor v4 (l + 1) right = Some v5" "permuted_in (l + 1) right v4 v5" "sorted_in (l + 1) right v5"
      using "1.IH"(2) [OF False v1(1) v2(1) refl v3(1) v4(1)] "1.prems" v2(3) len4 by auto
    have same: "at v5 k = at v4 k" if "0 \<le> k" "k \<le> l" for k
      using permuted_in_at [OF v5(2), of k] that v2(4) "1.prems" len4 by simp
    have pivot: "at v5 l = at v3 l"
      using same [of l] permuted_in_at [OF v4(2), of l] b3 v3(2) by simp
    have lo5: "at v5 k < at v5 l" if "left \<le> k" "k \<le> l - 1" for k
    proof -
      have "at v4 k < at v3 l"
        using permuted_in_all [OF v4(2), of "\<lambda>x. x < at v3 l" k] lo that "1.prems" v2(4) len2 v3(2) by simp
      then show ?thesis using same [of k] that "1.prems" pivot by simp
    qed
    have hi5: "at v5 l \<le> at v5 k" if "l + 1 \<le> k" "k \<le> right" for k
    proof -
      have "at v3 l \<le> at v4 k" if "l + 1 \<le> k" "k \<le> right" for k
        using permuted_in_at [OF v4(2), of k] hi [OF that] that "1.prems" v2(3) len2 v3(2) by simp
      from permuted_in_all [OF v5(2), of "\<lambda>x. at v3 l \<le> x" k, OF _ _ this] that "1.prems" v2(3) len4
      show ?thesis by (simp add: pivot)
    qed
    have "sorted_in left right v5"
      unfolding sorted_in_def
    proof (intro allI impI)
      fix i j assume ij: "left \<le> i" "i \<le> j" "j \<le> right"
      consider "j \<le> l - 1" | "i \<le> l - 1" "l \<le> j" | "i = l" | "l + 1 \<le> i" using ij by linarith
      then show "at v5 i \<le> at v5 j"
      proof cases
        case 1
        then show ?thesis using v4(3) same [of i] same [of j] ij "1.prems" by (simp add: sorted_in_def)
      next
        case 2
        then show ?thesis using lo5 [of i] hi5 [of j] ij by (cases "j = l") force+
      next
        case 3
        then show ?thesis using hi5 [of j] ij by (cases "j = l") simp_all
      next
        case 4
        then show ?thesis using v5(3) ij by (simp add: sorted_in_def)
      qed
    qed
    moreover have "permuted_in left right v v5"
    proof -
      have "permuted_in left right v v2" by (rule permuted_in_trans [OF p1 v2(2)]) simp_all
      then have "permuted_in left right v v3" by (rule permuted_in_trans [OF _ p3]) simp_all
      then have "permuted_in left right v v4" by (rule permuted_in_trans [OF _ v4(2)]) (use v2(4) in simp_all)
      then show ?thesis by (rule permuted_in_trans [OF _ v5(2)]) (use v2(3) in simp_all)
    qed
    moreover have "scCompositor v left right = Some v5"
      using False v1(1) v2(1) v3(1) v4(1) v5(1) by (simp add: scCompositor.simps [of v left right])
    ultimately show ?thesis by blast
  qed
qed

end
