(* ===== verification/Util_Valid.thy ===== *)
theory Util_Valid
  imports Util_Conv
begin

unbundle bit_operations_syntax

text \<open>
  Validators of \<open>src/src/apps/apps_sc/libs/libutility/utility.c\<close>: characters, host and NetBIOS names,
  URLs and mail addresses, IPv4 addresses, masks and gateways, IPv6 addresses, ports and VLAN lists.
  \<open>strchr (set, c)\<close> is a search in the set with its terminator.
\<close>

definition c_strchr :: "cstr \<Rightarrow> char \<Rightarrow> bool" where
  "c_strchr s c \<longleftrightarrow> c \<in> set s \<or> c = NUL"

subsection \<open>Characters and names\<close>

definition scIsAllnumber :: "cstr \<Rightarrow> bool" where
  "scIsAllnumber str \<longleftrightarrow> (\<forall>c \<in> set str. c_strchr ''0123456789.'' c)"

definition scValidStr :: "cstr \<Rightarrow> bool" where
  "scValidStr str \<longleftrightarrow>
     (\<forall>c \<in> set str. c_strchr ''abcdefghijklmnopqrstuvwxyzABCDEFGHIJKLMNOPQRSTUVWXYZ0123456789_.'' c)"

text \<open>The character as a string of length one; the character 0 is the empty string.\<close>

definition char_str :: "char \<Rightarrow> cstr" where
  "char_str ch = c_read [ch, NUL]"

definition scValidHex :: "char \<Rightarrow> bool" where
  "scValidHex ch \<longleftrightarrow> c_strstr ''0123456789ABCDEFabcdef'' (char_str ch) \<noteq> None"

text \<open>The first \<open>len\<close> bytes of an array.\<close>

definition scValidHexs :: "bytes \<Rightarrow> nat \<Rightarrow> bool option" where
  "scValidHexs str len = (if length str < len then None else Some (\<forall>c \<in> set (take len str). scValidHex c))"

definition scHostnameIsAllNumber :: "cstr \<Rightarrow> bool" where
  "scHostnameIsAllNumber str \<longleftrightarrow> (\<forall>c \<in> set str. c_strchr ''0123456789'' c)"

definition scValidHostnameStr :: "cstr \<Rightarrow> bool" where
  "scValidHostnameStr str \<longleftrightarrow>
     (\<forall>c \<in> set str. c_strchr ''abcdefghijklmnopqrstuvwxyzABCDEFGHIJKLMNOPQRSTUVWXYZ0123456789-'' c)"

text \<open>\<open>pName[i]\<close>: the terminator can be read as well.\<close>

definition c_index :: "cstr \<Rightarrow> nat \<Rightarrow> char option" where
  "c_index s i = (if i < length s then Some (s ! i) else if i = length s then Some NUL else None)"

definition scValidHostName :: "cstr \<Rightarrow> nat \<Rightarrow> bool option" where
  "scValidHostName pName len =
     (if len < 1 then Some False
      else do {
        first \<leftarrow> c_index pName 0;
        final \<leftarrow> (if first = CHR ''-'' then Some first else c_index pName (len - 1));
        Some (first \<noteq> CHR ''-'' \<and> final \<noteq> CHR ''-'' \<and> scValidHostnameStr pName \<and> \<not> scHostnameIsAllNumber pName)
      })"

definition scValidNetbiosName :: "cstr \<Rightarrow> nat \<Rightarrow> bool option" where
  "scValidNetbiosName pName len =
     (if len < 1 then Some False
      else do {
        first \<leftarrow> c_index pName 0;
        final \<leftarrow> (if first = CHR ''-'' then Some first else c_index pName (len - 1));
        let name = take len (pName @ [NUL]);
        Some (first \<noteq> CHR ''-'' \<and> final \<noteq> CHR ''-'' \<and>
          (\<forall>c \<in> set name. c_strstr (CHR 0x22 # ''/'' @ CHR 0x5C # ''[<]>.:;,|=+*? '' @ [CHR 0x60]) (char_str c) = None) \<and>
          (\<exists>c \<in> set name. \<not> c_isdigit c))
      })"

definition scIsIpAddress :: "cstr \<Rightarrow> bool" where
  "scIsIpAddress ipAddr \<longleftrightarrow>
     (let ip = inet_addr ipAddr in \<not> (ip < inet_addr ''1.0.0.1'' \<or> inet_addr ''254.255.255.254'' < ip))"

definition validstr :: cstr where
  "validstr = CHR 0x22 # CHR 0x5C # ''[<]>:;,|=+*? ~!@#$%^&()'' @ CHR 0x60 # ''{}''"

text \<open>\<open>strncasecmp (p, prefix, n) == 0\<close> with a lower-case prefix of \<open>n\<close> characters.\<close>

definition case_prefix :: "cstr \<Rightarrow> cstr \<Rightarrow> bool" where
  "case_prefix pre s \<longleftrightarrow> map low_char (take (length pre) s) = pre"

definition scValidUrl :: "cstr \<Rightarrow> bool option" where
  "scValidUrl charStr = do {
     tempUrl \<leftarrow> into_buf 129 charStr;
     let p = (if case_prefix ''http://'' tempUrl then drop 7 tempUrl
              else if case_prefix ''https://'' tempUrl then drop 8 tempUrl else tempUrl);
     let cnt = length (filter (\<lambda>c. c = CHR ''.'') p);
     Some (if cnt = 0 then False
       else if cnt = 3 \<and> scIsIpAddress tempUrl then True
       else if \<exists>c \<in> set p. c_strchr validstr c then False
       else \<not> scIsAllnumber p)
   }"

text \<open>The pointers are offsets into \<open>email\<close>; \<open>end\<close> is at offset \<open>len\<close>, and the last loop stops at the
  terminator, which every set of characters contains.\<close>

fun last_dot :: "cstr \<Rightarrow> nat \<Rightarrow> nat option" where
  "last_dot [] i = None"
| "last_dot (c # s) i = (case last_dot s (i + 1) of Some j \<Rightarrow> Some j | None \<Rightarrow> if c = CHR ''.'' then Some i else None)"

definition scValidEmailAddr :: "cstr \<Rightarrow> nat \<Rightarrow> bool" where
  "scValidEmailAddr email len =
     (if CHR ''@'' \<notin> set email then False
      else if hd email = CHR ''.'' then False
      else case last_dot (tl email) 1 of
        None \<Rightarrow> False
      | Some lastdot \<Rightarrow>
          let sign = length (takeWhile (\<lambda>c. c \<noteq> CHR ''@'') email) in
          if int len - int lastdot \<noteq> 3 \<and> int len - int lastdot \<noteq> 4 then False
          else \<forall>i \<in> set [0..<len]. i \<le> length email \<longrightarrow> i = sign \<or>
            \<not> c_strchr (CHR 0x60 # ''~!@#$%^&*-+='' @ CHR 0x5C # CHR 0x22 # CHR 0x27 # ''()[]{};:,<>?/ '')
               ((email @ [NUL]) ! i))"

definition scInvalidHttpPort :: "32 word \<Rightarrow> 32 word \<Rightarrow> bool" where
  "scInvalidHttpPort port flag \<longleftrightarrow>
     port \<in> set [1, 2, 3, 5, 7, 9, 20, 21, 22, 23, 25, 31, 53, 67, 68, 69,
        79, 81, 82, 123, 137, 138, 139, 161, 168, 169, 80, 443] \<and>
     \<not> (flag = 1 \<and> port = 80) \<and> \<not> (flag = 2 \<and> port = 443)"

subsection \<open>IPv4 addresses\<close>

text \<open>\<open>sscanf (s, "%d.%d.%d.%d", ...)\<close>: the numbers converted.\<close>

fun scan_dotted :: "nat \<Rightarrow> cstr \<Rightarrow> int list" where
  "scan_dotted 0 s = []"
| "scan_dotted (Suc n) s =
     (let t = dropWhile c_isspace s; u = (if t \<noteq> [] \<and> hd t \<in> {CHR ''-'', CHR ''+''} then tl t else t);
          r = dropWhile c_isdigit u in
      if takeWhile c_isdigit u = [] then []
      else atoi t # (if r \<noteq> [] \<and> hd r = CHR ''.'' then scan_dotted n (tl r) else []))"

definition scIpSeparateTo4 :: "32 word \<Rightarrow> (bool \<times> int list) option" where
  "scIpSeparateTo4 ipAddress = do {
     netstr \<leftarrow> into_buf 20 (inet_ntoa ipAddress);
     let ip = scan_dotted 4 netstr;
     Some (length ip = 4, ip)
   }"

definition scValidIpAddress :: "32 word \<Rightarrow> bool option" where
  "scValidIpAddress ipAddress = do {
     (ok, ip) \<leftarrow> scIpSeparateTo4 ipAddress;
     Some (if \<not> ok then False
       else if ip ! 0 < 1 \<or> 223 < ip ! 0 \<or> 127 = ip ! 0 then False
       else if ip ! 1 < 0 \<or> 255 < ip ! 1 then False
       else if ip ! 2 < 0 \<or> 255 < ip ! 2 then False
       else if ip ! 3 < 1 \<or> 254 < ip ! 3 then False
       else True)
   }"

definition scIpMaskTable :: "int list" where
  "scIpMaskTable = [0, 128, 192, 224, 240, 248, 252, 254, 255]"

definition scIpMaskRange :: "(nat \<times> nat) list" where
  "scIpMaskRange = [(2, 8), (0, 8), (0, 8), (0, 7)]"

definition mask_found :: "nat \<Rightarrow> int \<Rightarrow> bool" where
  "mask_found i m \<longleftrightarrow> (let (start, stop) = scIpMaskRange ! i in
     \<exists>j \<in> set [start..<Suc stop]. (m \<noteq> 0 \<or> i = 3) \<and> m = scIpMaskTable ! j)"

text \<open>The outer loop: the index of the first octet that is not found.\<close>

definition mask_stop :: "int list \<Rightarrow> nat" where
  "mask_stop octets = (case filter (\<lambda>i. \<not> mask_found i (octets ! i)) [0..<4] of [] \<Rightarrow> 4 | i # _ \<Rightarrow> i)"

text \<open>\<open>sprintf (netstr, "%d.%d.%d.%d", ...)\<close>.\<close>

definition dotted :: "int \<Rightarrow> int \<Rightarrow> int \<Rightarrow> int \<Rightarrow> cstr" where
  "dotted a b c d = fmt_d a @ ''.'' @ fmt_d b @ ''.'' @ fmt_d c @ ''.'' @ fmt_d d"

text \<open>The result is the status and what would be stored through \<open>pValidIpMask\<close> if it is not NULL.\<close>

definition scValidIpMask :: "32 word \<Rightarrow> (bool \<times> 32 word option) option" where
  "scValidIpMask ipMask = do {
     (ok, octets) \<leftarrow> scIpSeparateTo4 ipMask;
     Some (if \<not> ok then (False, None)
       else
         let i = mask_stop octets in
         if i < 4 then
           let kept = take i octets @ replicate (4 - i) 0 in
           (\<forall>m \<in> set (drop i octets). m = 0,
            Some (inet_addr (dotted (kept ! 0) (kept ! 1) (kept ! 2) (kept ! 3))))
         else (True, Some ipMask))
   }"

definition scValidIpGateWay :: "32 word \<Rightarrow> bool option" where
  "scValidIpGateWay gateway = (if gateway = 0 then Some True else scValidIpAddress gateway)"

definition scValidIpMaskGateWay :: "32 word \<Rightarrow> 32 word \<Rightarrow> 32 word \<Rightarrow> bool" where
  "scValidIpMaskGateWay ipaddr netmask gateway =
     (if 0 = (ipaddr AND NOT netmask) \<or> 0 = NOT (ipaddr OR netmask) then False
      else if 0 = gateway then True
      else if 0 = (gateway AND NOT netmask) \<or> 0 = NOT (gateway OR netmask) then False
      else if (ipaddr AND netmask) \<noteq> (gateway AND netmask) then False
      else True)"

text \<open>The addresses are separated into their octets.\<close>

lemma atoi_dec_stop: "n < 256 \<Longrightarrow> atoi (dec_digits n @ CHR ''.'' # r) = int n" "n < 256 \<Longrightarrow> atoi (dec_digits n) = int n"
  using atoi_fmt_d_stop [of "int n" "CHR ''.'' # r"] atoi_fmt_d [of "int n"]
  by (simp_all add: fmt_d_nat int_range_small c_isdigit_def)

lemma dec_digits_hd: "dec_digits n \<noteq> []" "hd (dec_digits n @ r) \<notin> {CHR ''-'', CHR ''+''}"
  using dec_digits_isdigit [of "hd (dec_digits n)" n] by (cases "dec_digits n"; auto)+

lemma scan_dotted_digits:
  "n < 256 \<Longrightarrow> scan_dotted (Suc k) (dec_digits n @ CHR ''.'' # r) = int n # scan_dotted k r"
  "n < 256 \<Longrightarrow> scan_dotted (Suc k) (dec_digits n) = [int n]"
  using dec_digits_hd(1) [of n] dec_digits_hd(2) [of n "CHR ''.'' # r"] dec_digits_hd(2) [of n "[]"]
    dropWhile_space_digits [of n "CHR ''.'' # r"] dropWhile_space_digits [of n "[]"]
  by (simp_all add: Let_def atoi_dec_stop)

lemma scIpSeparateTo4_octets:
  "scIpSeparateTo4 w = Some (True, [int (octet 3 w), int (octet 2 w), int (octet 1 w), int (octet 0 w)])"
proof -
  have "length (inet_ntoa w) < 20" using length_inet_ntoa [of w] by simp
  moreover have "scan_dotted (Suc (Suc (Suc (Suc 0)))) (inet_ntoa w) =
      [int (octet 3 w), int (octet 2 w), int (octet 1 w), int (octet 0 w)]"
    unfolding inet_ntoa_def fmt_d_nat by (simp add: scan_dotted_digits del: scan_dotted.simps)
  ultimately show ?thesis by (simp add: scIpSeparateTo4_def numeral_eq_Suc del: scan_dotted.simps)
qed


lemma octet_not_above [simp]: "\<not> 255 < octet k w"
  using octet_less [of k w] by linarith

lemma scValidIpAddress_iff:
  "scValidIpAddress w = Some (1 \<le> octet 3 w \<and> octet 3 w \<le> 223 \<and> octet 3 w \<noteq> 127 \<and> 1 \<le> octet 0 w \<and> octet 0 w \<le> 254)"
  by (auto simp add: scValidIpAddress_def scIpSeparateTo4_octets)

text \<open>The word with given octets.\<close>

definition of_octets :: "nat \<Rightarrow> nat \<Rightarrow> nat \<Rightarrow> nat \<Rightarrow> 32 word" where
  "of_octets a b c d = of_nat (((a * 256 + b) * 256 + c) * 256 + d)"

lemma octet_of_octets:
  assumes "a < 256" "b < 256" "c < 256" "d < 256"
  shows "octet 3 (of_octets a b c d) = a" "octet 2 (of_octets a b c d) = b"
    "octet 1 (of_octets a b c d) = c" "octet 0 (of_octets a b c d) = d"
proof -
  let ?N = "((a * 256 + b) * 256 + c) * 256 + d"
  have u: "unat (of_octets a b c d) = ?N"
  proof -
    have "?N < 2 ^ LENGTH(32)" using assms by simp
    then show ?thesis unfolding of_octets_def by (simp only: unsigned_of_nat take_bit_nat_eq_self of_nat_id)
  qed
  have h: "(x * 256 + y) div 256 = x" "(x * 256 + y) mod 256 = y" if "y < 256" for x y :: nat
    using that by simp_all
  have 1: "?N div 256 ^ 1 = (a * 256 + b) * 256 + c" by (simp only: power_one_right h(1) [OF assms(4)])
  have 2: "?N div 256 ^ 2 = a * 256 + b"
    by (simp only: power2_eq_square div_mult2_eq h(1) [OF assms(4)] h(1) [OF assms(3)])
  have 3: "?N div 256 ^ 3 = a"
    by (simp only: power3_eq_cube div_mult2_eq h(1) [OF assms(4)] h(1) [OF assms(3)] h(1) [OF assms(2)])
  show "octet 3 (of_octets a b c d) = a" unfolding octet_def u 3 using assms(1) by simp
  show "octet 2 (of_octets a b c d) = b" unfolding octet_def u 2 by (rule h(2) [OF assms(2)])
  show "octet 1 (of_octets a b c d) = c" unfolding octet_def u 1 by (rule h(2) [OF assms(3)])
  show "octet 0 (of_octets a b c d) = d" unfolding octet_def u using h(2) [OF assms(4)] by (simp only: power_0 div_by_1)
qed

lemma of_octets_octet: "of_octets (octet 3 w) (octet 2 w) (octet 1 w) (octet 0 w) = w"
proof -
  have "((octet 3 w * 256 + octet 2 w) * 256 + octet 1 w) * 256 + octet 0 w = unat w"
    using octets_val [of w] by simp
  then show ?thesis by (simp add: of_octets_def)
qed

lemma inet_addr_octets:
  assumes "a < 256" "b < 256" "c < 256" "d < 256"
  shows "inet_addr (dotted (int a) (int b) (int c) (int d)) = of_octets a b c d"
proof -
  have "dotted (int a) (int b) (int c) (int d) = inet_ntoa (of_octets a b c d)"
    using octet_of_octets [OF assms] by (simp add: inet_ntoa_def dotted_def)
  then show ?thesis by simp
qed

subsection \<open>Masks\<close>

lemma mask_found_values:
  "mask_found 0 m \<longleftrightarrow> m \<in> {192, 224, 240, 248, 252, 254, 255}"
  "mask_found 1 m \<longleftrightarrow> m \<in> {128, 192, 224, 240, 248, 252, 254, 255}"
  "mask_found 2 m \<longleftrightarrow> m \<in> {128, 192, 224, 240, 248, 252, 254, 255}"
  "mask_found 3 m \<longleftrightarrow> m \<in> {0, 128, 192, 224, 240, 248, 252, 254}"
proof -
  have f: "mask_found i m \<longleftrightarrow> (m \<noteq> 0 \<or> i = 3) \<and>
      m \<in> set (map ((!) scIpMaskTable) [fst (scIpMaskRange ! i)..<Suc (snd (scIpMaskRange ! i))])" for i
    by (cases "scIpMaskRange ! i") (auto simp: mask_found_def image_iff simp del: upt_Suc)
  have t: "map ((!) scIpMaskTable) [2..<Suc 8] = [192, 224, 240, 248, 252, 254, 255]"
    "map ((!) scIpMaskTable) [0..<Suc 8] = [0, 128, 192, 224, 240, 248, 252, 254, 255]"
    "map ((!) scIpMaskTable) [0..<Suc 7] = [0, 128, 192, 224, 240, 248, 252, 254]"
    by (simp_all add: scIpMaskTable_def upt_rec)
  have r: "scIpMaskRange ! 0 = (2, 8)" "scIpMaskRange ! 1 = (0, 8)" "scIpMaskRange ! 2 = (0, 8)" "scIpMaskRange ! 3 = (0, 7)"
    by (simp_all add: scIpMaskRange_def)
  show "mask_found 0 m \<longleftrightarrow> m \<in> {192, 224, 240, 248, 252, 254, 255}" unfolding f r fst_conv snd_conv t by auto
  show "mask_found 1 m \<longleftrightarrow> m \<in> {128, 192, 224, 240, 248, 252, 254, 255}" unfolding f r fst_conv snd_conv t by auto
  show "mask_found 2 m \<longleftrightarrow> m \<in> {128, 192, 224, 240, 248, 252, 254, 255}" unfolding f r fst_conv snd_conv t by auto
  show "mask_found 3 m \<longleftrightarrow> m \<in> {0, 128, 192, 224, 240, 248, 252, 254}" unfolding f r fst_conv snd_conv t by auto
qed

text \<open>What the loop computes, octet by octet.\<close>

lemma mask_stop_octets:
  "mask_stop [a, b, c, d] = (if \<not> mask_found 0 a then 0 else if \<not> mask_found 1 b then 1
     else if \<not> mask_found 2 c then 2 else if \<not> mask_found 3 d then 3 else 4)"
proof -
  have "[0..<4] = [0, 1, 2, 3]" by (simp add: upt_rec)
  then show ?thesis by (simp add: mask_stop_def)
qed

lemma scValidIpMask_octets:
  assumes "a < 256" "b < 256" "c < 256" "d < 256"
  shows "scValidIpMask (of_octets a b c d) = Some (
    if \<not> mask_found 0 (int a) then (a = 0 \<and> b = 0 \<and> c = 0 \<and> d = 0, Some (of_octets 0 0 0 0))
    else if \<not> mask_found 1 (int b) then (b = 0 \<and> c = 0 \<and> d = 0, Some (of_octets a 0 0 0))
    else if \<not> mask_found 2 (int c) then (c = 0 \<and> d = 0, Some (of_octets a b 0 0))
    else if \<not> mask_found 3 (int d) then (d = 0, Some (of_octets a b c 0))
    else (True, Some (of_octets a b c d)))"
proof -
  let ?m = "[int a, int b, int c, int d]"
  have o: "scIpSeparateTo4 (of_octets a b c d) = Some (True, ?m)"
    by (simp only: scIpSeparateTo4_octets octet_of_octets [OF assms])
  have i: "inet_addr (dotted 0 0 0 0) = of_octets 0 0 0 0"
    "inet_addr (dotted (int a) 0 0 0) = of_octets a 0 0 0"
    "inet_addr (dotted (int a) (int b) 0 0) = of_octets a b 0 0"
    "inet_addr (dotted (int a) (int b) (int c) 0) = of_octets a b c 0"
    using inet_addr_octets [of 0 0 0 0] inet_addr_octets [of a 0 0 0] inet_addr_octets [of a b 0 0]
      inet_addr_octets [of a b c 0] assms by simp_all
  have step: "scValidIpMask (of_octets a b c d) = Some (let i = mask_stop ?m in
      if i < 4 then let kept = take i ?m @ replicate (4 - i) 0 in (\<forall>m \<in> set (drop i ?m). m = 0,
        Some (inet_addr (dotted (kept ! 0) (kept ! 1) (kept ! 2) (kept ! 3))))
      else (True, Some (of_octets a b c d)))"
    by (simp add: scValidIpMask_def o)
  consider "mask_stop ?m = 0" "\<not> mask_found 0 (int a)"
    | "mask_stop ?m = 1" "mask_found 0 (int a)" "\<not> mask_found 1 (int b)"
    | "mask_stop ?m = 2" "mask_found 0 (int a)" "mask_found 1 (int b)" "\<not> mask_found 2 (int c)"
    | "mask_stop ?m = 3" "mask_found 0 (int a)" "mask_found 1 (int b)" "mask_found 2 (int c)" "\<not> mask_found 3 (int d)"
    | "mask_stop ?m = 4" "mask_found 0 (int a)" "mask_found 1 (int b)" "mask_found 2 (int c)" "mask_found 3 (int d)"
    unfolding mask_stop_octets by argo
  then show ?thesis
    by cases (simp_all add: step i Let_def)
qed

text \<open>C34. \<open>scValidIpMask\<close> always stores a mask it accepts itself, and stores the mask it was given when it
  accepts that: the first octet that is not in the table ends the mask, the octets from there on are cleared.
\<close>

theorem ip_mask_repaired:
  "\<exists>ok v. scValidIpMask m = Some (ok, Some v) \<and> (ok \<longrightarrow> v = m) \<and> scValidIpMask v = Some (True, Some v)"
proof -
  let ?a = "octet 3 m" and ?b = "octet 2 m" and ?c = "octet 1 m" and ?d = "octet 0 m"
  have z: "\<not> mask_found 0 0" "\<not> mask_found 1 0" "\<not> mask_found 2 0" "mask_found 3 0"
    unfolding mask_found_values by simp_all
  have m: "m = of_octets ?a ?b ?c ?d" by (rule of_octets_octet [symmetric])
  have "\<exists>ok v. scValidIpMask (of_octets ?a ?b ?c ?d) = Some (ok, Some v) \<and> (ok \<longrightarrow> v = of_octets ?a ?b ?c ?d) \<and>
      scValidIpMask v = Some (True, Some v)"
    using z by (auto simp: scValidIpMask_octets simp del: One_nat_def)
  then show ?thesis by (simp only: of_octets_octet)
qed

definition prefix_mask :: "nat \<Rightarrow> 32 word" where
  "prefix_mask n = of_nat (2 ^ 32 - 2 ^ (32 - n))"

definition mask_octets :: "nat \<Rightarrow> nat \<times> nat \<times> nat \<times> nat" where
  "mask_octets n = (if n < 8 then (256 - 2 ^ (8 - n), 0, 0, 0) else if n < 16 then (255, 256 - 2 ^ (16 - n), 0, 0)
     else if n < 24 then (255, 255, 256 - 2 ^ (24 - n), 0) else (255, 255, 255, 256 - 2 ^ (32 - n)))"

lemma prefix_mask_table:
  "list_all (\<lambda>n. case mask_octets n of (a, b, c, d) \<Rightarrow> prefix_mask n = of_octets a b c d) [2..<32]"
  by (simp add: upt_rec mask_octets_def prefix_mask_def of_octets_def)

lemma mask_octets_table:
  "list_all (\<lambda>n. case mask_octets n of (a, b, c, d) \<Rightarrow> scValidIpMask (of_octets a b c d) = Some (True, Some (of_octets a b c d))) [2..<32]"
  by (simp add: upt_rec mask_octets_def scValidIpMask_octets mask_found_values mask_found_values [unfolded One_nat_def])

text \<open>Every contiguous netmask with 2 to 31 leading ones is accepted and stored unchanged.
\<close>

theorem contiguous_mask_accepted:
  assumes "2 \<le> n" "n < 32"
  shows "scValidIpMask (prefix_mask n) = Some (True, Some (prefix_mask n))"
proof -
  have n: "n \<in> set [2..<32]" unfolding set_upt using assms by simp
  obtain a b c d where m: "mask_octets n = (a, b, c, d)" by (cases "mask_octets n")
  have "prefix_mask n = of_octets a b c d"
    using bspec [OF prefix_mask_table [unfolded list_all_iff] n] by (simp only: m prod.case)
  moreover have "scValidIpMask (of_octets a b c d) = Some (True, Some (of_octets a b c d))"
    using bspec [OF mask_octets_table [unfolded list_all_iff] n] by (simp only: m prod.case)
  ultimately show ?thesis by (simp only:)
qed

theorem contiguous_mask_accepted_witness: "scValidIpMask (prefix_mask 24) = Some (True, Some (prefix_mask 24))"
  using contiguous_mask_accepted [of 24] by simp

lemma ip_mask_repaired_witness:
  "\<exists>v. scValidIpMask (prefix_mask 24) = Some (True, Some v) \<and> v = prefix_mask 24 \<and> scValidIpMask v = Some (True, Some v)"
  using ip_mask_repaired [of "prefix_mask 24"] contiguous_mask_accepted [of 24] by auto

text \<open>The octets are checked one by one, so that a mask with a hole is accepted: \<open>a.b.0.0\<close> for any two
  octets of the table, 192.128.0.0 for example.
\<close>

theorem mask_with_hole_accepted:
  assumes "a \<in> {192, 224, 240, 248, 252, 254, 255}" "b \<in> {128, 192, 224, 240, 248, 252, 254, 255}"
  shows "scValidIpMask (of_octets a b 0 0) = Some (True, Some (of_octets a b 0 0))"
proof -
  have "a < 256" "b < 256" using assms by auto
  moreover have "mask_found 0 (int a)" "mask_found 1 (int b)" "\<not> mask_found 2 (int 0)"
    unfolding mask_found_values using assms by auto
  ultimately show ?thesis using scValidIpMask_octets [of a b 0 0] by simp
qed

theorem mask_with_hole_accepted_witness:
  "scValidIpMask (of_octets 192 128 0 0) = Some (True, Some (of_octets 192 128 0 0)) \<and>
   (\<forall>n \<in> set [0..<33]. of_octets 192 128 0 0 \<noteq> prefix_mask n)"
proof
  show "scValidIpMask (of_octets 192 128 0 0) = Some (True, Some (of_octets 192 128 0 0))"
    by (rule mask_with_hole_accepted) simp_all
  show "\<forall>n \<in> set [0..<33]. of_octets 192 128 0 0 \<noteq> prefix_mask n"
    by (simp add: upt_rec prefix_mask_def of_octets_def)
qed

subsection \<open>IPv6 addresses\<close>

text \<open>The counters of \<open>scValidIPv6\<close>; \<open>p\<close> is always \<open>ipStr + i\<close>, and \<open>start_p\<close> is an offset.\<close>

record v6 =
  flagdotNo :: nat
  flagcolNo :: nat
  flagcolCo :: nat
  flaghex :: nat
  flagdec :: nat
  flagslash :: nat
  start_p :: nat

datatype v6_step = V6_Bad | V6_Break v6 | V6_Next nat v6

abbreviation c_at :: "cstr \<Rightarrow> nat \<Rightarrow> char" where
  "c_at s i \<equiv> (s @ [NUL]) ! i"

definition v6_slash :: "cstr \<Rightarrow> bool \<Rightarrow> nat \<Rightarrow> v6 \<Rightarrow> v6_step" where
  "v6_slash s flag i st =
     (let st = st\<lparr>flagslash := flagslash st + 1\<rparr>; r = drop (i + 1) s in
      if \<not> flag then V6_Bad
      else if CHR ''/'' \<in> set r then V6_Bad
      else if atoi r < 0 \<or> 128 < atoi r then V6_Bad
      else V6_Break st)"

definition v6_colon :: "cstr \<Rightarrow> bool \<Rightarrow> nat \<Rightarrow> v6 \<Rightarrow> v6_step" where
  "v6_colon s flag i st =
     (if take 3 (drop i s) = '':::'' then V6_Bad
      else
        let two = take 2 (drop i s) = ''::'' in
        if two \<and> flagcolCo st \<ge> 1 then V6_Bad
        else if \<not> two \<and> i = 0 then V6_Bad
        else if \<not> two \<and> (if flag then c_at s (i + 1) = CHR ''/'' else i = length s - 1) then V6_Bad
        else
          let i = (if two then i + 1 else i);
              st = (if two then st\<lparr>flagcolCo := flagcolCo st + 1, flaghex := 0, flagdec := 0, start_p := i + 1\<rparr> else st) in
          if take 2 (drop (i - 1) s) \<noteq> ''::'' \<and> c_at s (i + 1) = CHR ''.'' then V6_Bad
          else if flagdotNo st = 0 \<and> flagcolNo st < 7 then
            V6_Next (i + 1) (st\<lparr>flagcolNo := flagcolNo st + 1, flaghex := 0, flagdec := 0, start_p := i + 1\<rparr>)
          else V6_Bad)"

definition v6_digit :: "cstr \<Rightarrow> nat \<Rightarrow> v6 \<Rightarrow> v6_step" where
  "v6_digit s i st =
     (let st = st\<lparr>flaghex := flaghex st + 1, flagdec := (if c_isdigit (c_at s i) then flagdec st + 1 else 0)\<rparr> in
      if 4 < flaghex st then V6_Bad else V6_Next (i + 1) st)"

definition v6_dot :: "cstr \<Rightarrow> nat \<Rightarrow> v6 \<Rightarrow> v6_step" where
  "v6_dot s i st =
     (if 1 \<le> flaghex st \<and> flaghex st \<le> 3 \<and> flagdec st = flaghex st then
        (if \<not> c_isdigit (c_at s (i + 1)) then V6_Bad
         else
           let st = st\<lparr>flagdotNo := flagdotNo st + 1, flagdec := 0, flaghex := 0\<rparr> in
           if flagdotNo st = 1 \<and> inet_addr (drop (start_p st) s) = - 1 then V6_Bad
           else if 3 < flagdotNo st then V6_Bad
           else V6_Next (i + 1) st)
      else V6_Bad)"

definition v6_char :: "cstr \<Rightarrow> bool \<Rightarrow> nat \<Rightarrow> v6 \<Rightarrow> v6_step" where
  "v6_char s flag i st =
     (let c = c_at s i in
      if c = CHR ''/'' then v6_slash s flag i st
      else if c = CHR '':'' then v6_colon s flag i st
      else if scValidHex c then v6_digit s i st
      else if c = CHR ''.'' then v6_dot s i st
      else V6_Bad)"

lemma v6_char_next: "v6_char s flag i st = V6_Next j st' \<Longrightarrow> i < j"
  by (auto simp: v6_char_def v6_slash_def v6_colon_def v6_digit_def v6_dot_def Let_def split: if_splits)

function v6_loop :: "cstr \<Rightarrow> bool \<Rightarrow> nat \<Rightarrow> v6 \<Rightarrow> v6 option" where
  "v6_loop s flag i st =
     (if i < length s then
        (case v6_char s flag i st of
           V6_Bad \<Rightarrow> None
         | V6_Break st \<Rightarrow> Some st
         | V6_Next j st \<Rightarrow> v6_loop s flag j st)
      else Some st)"
  by pat_completeness auto
termination by (relation "measure (\<lambda>(s, flag, i, st). length s - i)") (auto dest: v6_char_next)

declare v6_loop.simps [simp del]

definition scValidIPv6 :: "cstr \<Rightarrow> bool \<Rightarrow> bool" where
  "scValidIPv6 ipStr flag =
     (if length ipStr > (if flag then 46 else 40) then False
      else case v6_loop ipStr flag 0 \<lparr>flagdotNo = 0, flagcolNo = 0, flagcolCo = 0, flaghex = 0, flagdec = 0,
          flagslash = 0, start_p = 0\<rparr> of
        None \<Rightarrow> False
      | Some st \<Rightarrow>
          \<not> (flagcolNo st = 1 \<and> flagcolCo st > 7 \<or> flagcolCo st = 0 \<and> flagcolNo st \<noteq> 7 \<or>
             flagdotNo st \<noteq> 0 \<and> flagdotNo st \<noteq> 3 \<or> (flag \<and> flagslash st \<noteq> 1)))"

text \<open>The scan of \<open>scValidGWv6\<close>; \<open>before\<close> is the character in front of the token, if there is one.\<close>

function gw6_loop :: "cstr \<Rightarrow> char option \<Rightarrow> nat \<Rightarrow> nat \<Rightarrow> nat \<Rightarrow> nat \<Rightarrow> bool option" where
  "gw6_loop t before i colCo hex colNo =
     (if i < length t then
        if t ! i = CHR '':'' then
          (if take 3 (drop i t) = '':::'' then Some False
           else
             let two = take 2 (drop i t) = ''::'' in
             if two \<and> colCo \<ge> 1 then Some False
             else
               let j = (if two then i + 1 else i); colCo = (if two then colCo + 1 else colCo) in do {
                 prev \<leftarrow> (if c_at t (j + 1) \<noteq> NUL then Some (CHR '':'') else if j = 0 then before else Some (t ! (j - 1)));
                 if prev \<noteq> CHR '':'' then Some False
                 else if colNo < 7 then gw6_loop t before (j + 1) colCo 0 (colNo + 1)
                 else Some False
               })
        else if scValidHex (t ! i) then
          (if 4 < hex + 1 then Some False else gw6_loop t before (i + 1) colCo (hex + 1) colNo)
        else Some False
      else Some True)"
  by pat_completeness auto
termination
  by (relation "measure (\<lambda>(t, before, i, colCo, hex, colNo). length t - i)") (auto split: if_splits)

declare gw6_loop.simps [simp del]

definition scValidGWv6 :: "cstr \<Rightarrow> bool option" where
  "scValidGWv6 ipStr = do {
     buff \<leftarrow> into_buf 46 ipStr;
     let toks = strtok_all (CHR ''/'') buff;
     let p = (if toks = [] then buff else hd toks);
     let before = (if toks = [] \<or> hd buff \<noteq> CHR ''/'' then None else Some (CHR ''/''));
     if p = [] then None
     else do {
       ok \<leftarrow> (if hd p \<noteq> CHR '':'' \<and> last p \<noteq> CHR '':'' then Some (scValidIPv6 p False)
              else gw6_loop p before 0 0 0 0);
       if \<not> ok then Some False
       else if toks = [] then Some True
       else case tl toks of
         [] \<Rightarrow> None
       | q # _ \<Rightarrow> Some (\<not> (atoi q < 0 \<or> 128 < atoi q))
     }
   }"

subsection \<open>VLAN lists\<close>

fun wds_chars_ok :: "cstr \<Rightarrow> nat \<Rightarrow> bool" where
  "wds_chars_ok [] cnt = True"
| "wds_chars_ok (c # s) cnt =
     (if c_isdigit c then wds_chars_ok s 0
      else if c \<noteq> CHR '','' then False
      else if cnt + 1 > 1 then False
      else wds_chars_ok s (cnt + 1))"

text \<open>\<open>int value[5]\<close> holds the numbers so far, \<open>i + 1\<close> of them.\<close>

fun wds_values_ok :: "cstr list \<Rightarrow> int list \<Rightarrow> bool option" where
  "wds_values_ok [] vals = Some True"
| "wds_values_ok (pa # toks) vals =
     (if 5 \<le> length vals then None
      else
        let v = atoi pa in
        if v < 1 \<or> v > 4094 then Some False
        else if v \<in> set vals then Some False
        else if length vals > 3 then Some False
        else wds_values_ok toks (vals @ [v]))"

definition scValidwdsVlanList :: "cstr \<Rightarrow> bool option" where
  "scValidwdsVlanList list =
     (if \<not> length list < 21 then Some False
      else if \<not> wds_chars_ok list 1 then Some False
      else if list = [] then Some True
      else wds_values_ok (strtok_all (CHR '','') list) [])"

lemma wds_values_ok_iff:
  "length vals \<le> 4 \<Longrightarrow> distinct vals \<Longrightarrow>
    wds_values_ok toks vals = Some (length vals + length toks \<le> 4 \<and> distinct (vals @ map atoi toks) \<and>
      (\<forall>t \<in> set toks. 1 \<le> atoi t \<and> atoi t \<le> 4094))"
proof (induction toks arbitrary: vals)
  case (Cons t toks)
  show ?case
  proof (cases "atoi t < 1 \<or> 4094 < atoi t \<or> atoi t \<in> set vals \<or> 3 < length vals")
    case True
    then show ?thesis using Cons.prems by (auto simp: Let_def)
  next
    case False
    then show ?thesis using Cons.IH [of "vals @ [atoi t]"] Cons.prems by (auto simp: Let_def)
  qed
qed simp

end
