(* ===== verification/Apcfg_Checked.thy ===== *)
theory Apcfg_Checked
  imports Vlan_List Apcfg_Hoare Apcfg_Wlan Apcfg_Services Util_Sort Util_Valid
begin

text \<open>
  The setters of \<open>src/src/apps/apps_sc/libs/libapcfg/apcfg.c\<close> that rely on the validators and the sort of
  the utility library: IPv6 addresses, the VLANs of WDS links, the list of all VLANs in use, and the time
  of the automatic reboot.
\<close>

subsection \<open>IPv6 addresses\<close>

definition apCfgIpv6AddrSet :: "cstr \<Rightarrow> 'a setter" where
  "apCfgIpv6AddrSet addr = reject_if (\<not> scValidIPv6 addr True)
     (if_changed apCfgIpv6AddrGet addr (write_var ''lan_ipaddrv6'' addr [APL_IPv6]))"

text \<open>The validator of gateways may leave its buffers.\<close>

definition apCfgGatewayv6AddrSet :: "cstr \<Rightarrow> 'a setter" where
  "apCfgGatewayv6AddrSet gw s = do {
     ok \<leftarrow> (if gw \<noteq> [] then scValidGWv6 gw else Some True);
     reject_if (\<not> ok) (if_changed apCfgGatewayv6AddrGet gw (write_var ''lan_gatewayv6'' gw [APL_IPv6])) s
   }"

definition apCfgNameSrv61Set :: "cstr \<Rightarrow> 'a setter" where
  "apCfgNameSrv61Set dns = reject_if (dns \<noteq> [] \<and> \<not> scValidIPv6 dns False)
     (if_changed apCfgNameSrv61Get dns (write_var ''lan_dnsv61'' dns [APL_IPv6]))"

definition apCfgNameSrv62Set :: "cstr \<Rightarrow> 'a setter" where
  "apCfgNameSrv62Set dns = reject_if (dns \<noteq> [] \<and> \<not> scValidIPv6 dns False)
     (if_changed apCfgNameSrv62Get dns (write_var ''lan_dnsv62'' dns [APL_IPv6]))"

subsection \<open>VLANs\<close>

definition apCfgwdsVlanListSet :: "cstr \<Rightarrow> 'a setter" where
  "apCfgwdsVlanListSet list s = do {
     ok \<leftarrow> scValidwdsVlanList list;
     if ok then write_var ''wds_vlan_list'' list [APL_VLAN] s else Some (A_ERROR, s)
   }"

text \<open>The printing loop: equal neighbours are printed once.\<close>

fun vlan_print :: "int option \<Rightarrow> int list \<Rightarrow> cstr" where
  "vlan_print prev [] = []"
| "vlan_print prev (v # vs) =
     (if prev = Some v then vlan_print (Some v) vs else fmt_d v @ '','' @ vlan_print (Some v) vs)"

definition apCfgVlanListApply :: "int \<Rightarrow> 'a setter" where
  "apCfgVlanListApply unit s = do {
     (v0, s) \<leftarrow> apCfgNativeVlanIdGet s;
     (v1, s) \<leftarrow> apCfgManagementVlanIdGet s;
     (v2, s) \<leftarrow> apCfgVlanPvidGet unit 0 s;
     (v3, s) \<leftarrow> apCfgVlanPvidGet unit 1 s;
     (v4, s) \<leftarrow> apCfgVlanPvidGet unit 2 s;
     (v5, s) \<leftarrow> apCfgVlanPvidGet unit 3 s;
     vlanList \<leftarrow> scCompositor [v0, v1, v2, v3, v4, v5] 0 5;
     vlanStr \<leftarrow> into_buf 60 (vlan_print None vlanList);
     (_, s) \<leftarrow> apCfgVlanListSet vlanStr s;
     Some (A_OK, s)
   }"

subsection \<open>The time of the reboot\<close>

text \<open>A conversion \<open>%2d\<close>: the value, if there is one, and the rest.\<close>

definition scan_2d :: "cstr \<Rightarrow> (int \<times> cstr) option" where
  "scan_2d s =
     (let t = dropWhile c_isspace s;
          k = (if t \<noteq> [] \<and> hd t \<in> {CHR ''-'', CHR ''+''} then 1 else 0);
          d = takeWhile c_isdigit (take (2 - k) (drop k t)) in
      if d = [] then None else Some (atoi (take k t @ d), drop (k + length d) t))"

text \<open>The assignments in the branch of the empty string change the parameters, not what they point to.\<close>

definition apCfgAutoRebootTimeGet :: "(int \<times> int, 'a) getter" where
  "apCfgAutoRebootTimeGet s = do {
     (p, s) \<leftarrow> nvram_safe_get ''auto_reboot_time'' s;
     Some (case scan_2d p of
         None \<Rightarrow> (0, 0)
       | Some (h, r) \<Rightarrow>
           (if r \<noteq> [] \<and> hd r = CHR '':'' then (case scan_2d (tl r) of None \<Rightarrow> (h, 0) | Some (m, _) \<Rightarrow> (h, m)) else (h, 0)), s)
   }"

definition fmt_02d :: "int \<Rightarrow> cstr" where
  "fmt_02d v = (if 0 \<le> v \<and> v < 10 then CHR ''0'' # fmt_d v else fmt_d v)"

definition scApCfgAutoRebootTimeSet :: "int \<Rightarrow> int \<Rightarrow> 'a setter" where
  "scApCfgAutoRebootTimeSet hour mins = reject_if (hour < 0 \<or> 23 < hour \<or> mins < 0 \<or> 59 < mins)
     (if_changed apCfgAutoRebootTimeGet (hour, mins) (\<lambda>s. do {
        string \<leftarrow> into_buf 12 (fmt_02d hour @ '':'' @ fmt_02d mins);
        write_var ''auto_reboot_time'' string [APL_AUTOREBOOT] s
      }))"

subsection \<open>The list of VLANs in use\<close>

lemma vlan_print_remdups:
  "vlan_print prev vs = enc_vlans (case prev of None \<Rightarrow> remdups_adj vs | Some p \<Rightarrow> tl (remdups_adj (p # vs)))"
proof (induction prev vs rule: vlan_print.induct)
  case (2 prev v vs)
  show ?case
  proof (cases prev)
    case None
    then show ?thesis using 2 by (cases vs) (auto simp: vlan_entry_def remdups_adj_Cons split: list.splits)
  next
    case (Some p)
    then show ?thesis using 2 by (cases vs) (auto simp: vlan_entry_def remdups_adj_Cons split: list.splits)
  qed
qed (simp split: option.split)

lemma remdups_adj_strict: "sorted (xs :: int list) \<Longrightarrow> sorted_wrt (<) (remdups_adj xs)"
proof (induction xs rule: remdups_adj.induct)
  case (3 x y xs)
  then show ?case by (auto simp: less_le order.strict_trans1)
qed simp_all

lemma remdups_adj_sorted_list_of_set: "sorted (xs :: int list) \<Longrightarrow> remdups_adj xs = sorted_list_of_set (set xs)"
  using remdups_adj_strict [of xs] by (metis remdups_adj_set sorted_list_of_set.idem_if_sorted_distinct strict_sorted_iff)

lemma sorted_in_all: "sorted_in 0 (int (length v) - 1) v \<Longrightarrow> sorted v"
proof -
  assume a: "sorted_in 0 (int (length v) - 1) v"
  have "v ! i \<le> v ! j" if "i \<le> j" "j < length v" for i j
    using a [unfolded sorted_in_def, rule_format, of "int i" "int j"] that by simp
  then show ?thesis by (simp add: sorted_iff_nth_mono)
qed

lemma scCompositor_array:
  "\<exists>w. scCompositor v 0 (int (length v) - 1) = Some w \<and> sorted w \<and> mset w = mset v"
  using scCompositor_ok [of 0 "int (length v) - 1" v] sorted_in_all by (fastforce simp: permuted_in_def)

text \<open>The six VLANs in use, and the list the variable is to hold.\<close>

definition vlans_in_use :: "(cstr \<Rightarrow> cstr) \<Rightarrow> int list" where
  "vlans_in_use vw = [atoi (vw ''vlan_default''), atoi (vw ''vlan_management'')] @
     map (\<lambda>bss. atoi (vw (ssid_name 0 bss ''_vid''))) [0, 1, 2, 3]"

lemma decodes_vlans:
  "decodes apCfgNativeVlanIdGet (\<lambda>_. True) (\<lambda>vw. atoi (vw ''vlan_default''))"
  "decodes apCfgManagementVlanIdGet (\<lambda>_. True) (\<lambda>vw. atoi (vw ''vlan_management''))"
  unfolding apCfgNativeVlanIdGet_def apCfgManagementVlanIdGet_def
  by (rule decodes_simple; simp add: var_name_def wf_name_def)+

lemma decodes_buf_atoi:
  "var_name n \<Longrightarrow> decodes (get_buf_atoi k n) (\<lambda>vw. length (vw n) < k) (\<lambda>vw. atoi (vw n))"
  unfolding decodes_def by (blast intro: reads_buf_atoi)

lemma decodes_pvid:
  "bss \<in> {0, 1, 2, 3} \<Longrightarrow> decodes (apCfgVlanPvidGet 0 bss) (\<lambda>vw. length (vw (ssid_name 0 bss ''_vid'')) < 32)
     (\<lambda>vw. atoi (vw (ssid_name 0 bss ''_vid'')))"
  unfolding apCfgVlanPvidGet_def by (intro decodes_buf_atoi var_name_ssid) (auto simp: vap_ok_def)

lemma length_enc_vlans: "\<forall>v \<in> set vs. 0 \<le> v \<and> v < 10000 \<Longrightarrow> length (enc_vlans vs) \<le> 5 * length vs"
proof (induction vs)
  case (Cons v vs)
  then have "length (fmt_d v) \<le> 4" by (intro length_fmt_d_nonneg) auto
  with Cons show ?case by (simp add: vlan_entry_def)
qed simp

text \<open>C22. \<open>apCfgVlanListApply\<close> stores each VLAN in use once, in ascending order, in the list of VLANs.
\<close>

theorem vlan_list_apply:
  fixes s :: "'a host_scheme"
  assumes "cfg_inv s" "\<forall>bss \<in> {0, 1, 2, 3}. length (nvram_view s (ssid_name 0 bss ''_vid'')) < 32"
    and "\<forall>v \<in> set (vlans_in_use (nvram_view s)). 0 \<le> v \<and> v < 10000" "length (nvram_view s ''vlan_list'') \<le> 64"
  shows "\<exists>s'. apCfgVlanListApply 0 s = Some (A_OK, s') \<and> cfg_inv s' \<and>
    nvram_view s' = (nvram_view s)(''vlan_list'' := enc_vlans (sorted_list_of_set (set (vlans_in_use (nvram_view s)))))"
proof -
  let ?vw = "nvram_view s" and ?vs = "vlans_in_use (nvram_view s)"
  let ?str = "enc_vlans (sorted_list_of_set (set ?vs))"
  have pvid: "\<exists>s'. apCfgVlanPvidGet 0 bss t = Some (atoi (?vw (ssid_name 0 bss ''_vid'')), s') \<and> cfg_inv s' \<and> nvram_view s' = ?vw"
    if "cfg_inv t" "nvram_view t = ?vw" "bss \<in> {0, 1, 2, 3}" for t :: "'a host_scheme" and bss
    using decodes_step [OF decodes_pvid [OF that(3)] _ that(1,2)] assms(2) that(3) by blast
  obtain s0 where s0: "apCfgNativeVlanIdGet s = Some (?vs ! 0, s0)" "cfg_inv s0" "nvram_view s0 = ?vw"
    using decodes_step [OF decodes_vlans(1) TrueI assms(1) refl] by (auto simp: vlans_in_use_def)
  obtain s1 where s1: "apCfgManagementVlanIdGet s0 = Some (?vs ! 1, s1)" "cfg_inv s1" "nvram_view s1 = ?vw"
    using decodes_step [OF decodes_vlans(2) TrueI s0(2,3)] by (auto simp: vlans_in_use_def)
  obtain s2 where s2: "apCfgVlanPvidGet 0 0 s1 = Some (?vs ! 2, s2)" "cfg_inv s2" "nvram_view s2 = ?vw"
    using pvid [OF s1(2,3), of 0] by (auto simp: vlans_in_use_def)
  obtain s3 where s3: "apCfgVlanPvidGet 0 1 s2 = Some (?vs ! 3, s3)" "cfg_inv s3" "nvram_view s3 = ?vw"
    using pvid [OF s2(2,3), of 1] by (auto simp: vlans_in_use_def)
  obtain s4 where s4: "apCfgVlanPvidGet 0 2 s3 = Some (?vs ! 4, s4)" "cfg_inv s4" "nvram_view s4 = ?vw"
    using pvid [OF s3(2,3), of 2] by (auto simp: vlans_in_use_def)
  obtain s5 where s5: "apCfgVlanPvidGet 0 3 s4 = Some (?vs ! 5, s5)" "cfg_inv s5" "nvram_view s5 = ?vw"
    using pvid [OF s4(2,3), of 3] by (auto simp: vlans_in_use_def)
  have six: "[?vs ! 0, ?vs ! 1, ?vs ! 2, ?vs ! 3, ?vs ! 4, ?vs ! 5] = ?vs" and l6: "length ?vs = 6"
    by (simp_all add: vlans_in_use_def)
  obtain w where w: "scCompositor ?vs 0 5 = Some w" "sorted w" "mset w = mset ?vs"
    using scCompositor_array [of ?vs] l6 by auto
  have printed: "vlan_print None w = ?str"
    using remdups_adj_sorted_list_of_set [OF w(2)] mset_eq_setD [OF w(3)] by (simp add: vlan_print_remdups)
  have "length (enc_vlans (sorted_list_of_set (set ?vs))) \<le> 5 * card (set ?vs)"
    using length_enc_vlans [of "sorted_list_of_set (set ?vs)"] assms(3) by simp
  also have "\<dots> \<le> 30" using card_length [of ?vs] l6 by simp
  finally have len: "length ?str \<le> 30" .
  have "length ?str < 4300" "length (nvram_view s5 ''vlan_list'') \<le> 64" using len assms(4) s5(3) by simp_all
  from updates_vlans [OF s5(2) cstr_ok_vlans this] obtain s6 where s6: "apCfgVlanListSet ?str s5 = Some (A_OK, s6)" "cfg_inv s6"
    and "nvram_view s6 = (if ?str \<noteq> ?vw ''vlan_list'' then ?vw(''vlan_list'' := ?str) else ?vw)"
    unfolding updates_def s5(3) by blast
  then have view6: "nvram_view s6 = ?vw(''vlan_list'' := ?str)" by (metis fun_upd_triv)
  have "apCfgVlanListApply 0 s = Some (A_OK, s6)"
    using s0(1) s1(1) s2(1) s3(1) s4(1) s5(1) w(1) s6(1) printed len
    by (simp add: apCfgVlanListApply_def six del: One_nat_def)
  then show ?thesis using s6 view6 by blast
qed

definition ex_vlan_cfg :: host where
  "ex_vlan_cfg = ex_cfg [(''vlan_default'', ''1''), (''vlan_management'', ''1''), (''wlan0_ssid0_vid'', ''20''),
     (''wlan0_ssid1_vid'', ''10''), (''wlan0_ssid2_vid'', ''1''), (''wlan0_ssid3_vid'', ''20'')] []"

lemma ex_vlans_used:
  "cfg_inv ex_vlan_cfg" "vlans_in_use (nvram_view ex_vlan_cfg) = [1, 1, 20, 10, 1, 20]"
  "\<forall>bss \<in> {0, 1, 2, 3}. length (nvram_view ex_vlan_cfg (ssid_name 0 bss ''_vid'')) < 32"
  "nvram_view ex_vlan_cfg ''vlan_list'' = []" "enc_vlans (sorted_list_of_set (set [1, 1, 20, 10, 1, 20])) = ''1,10,20,''"
proof -
  have n: "ssid_name 0 0 ''_vid'' = ''wlan0_ssid0_vid''" "ssid_name 0 1 ''_vid'' = ''wlan0_ssid1_vid''"
    "ssid_name 0 2 ''_vid'' = ''wlan0_ssid2_vid''" "ssid_name 0 3 ''_vid'' = ''wlan0_ssid3_vid''"
    "atoi ''1'' = 1" "atoi ''10'' = 10" "atoi ''20'' = 20" "enc_vlans [1, 10, 20] = ''1,10,20,''" by code_simp+
  have w: "wf_kvs [(''vlan_default'', ''1''), (''vlan_management'', ''1''), (''wlan0_ssid0_vid'', ''20''),
     (''wlan0_ssid1_vid'', ''10''), (''wlan0_ssid2_vid'', ''1''), (''wlan0_ssid3_vid'', ''20'')]" "wf_kvs []"
    by (simp_all add: wf_name_def)
  show "cfg_inv ex_vlan_cfg" unfolding ex_vlan_cfg_def by (rule ex_cfg_inv [OF w])
  note v = ex_view [OF w, folded ex_vlan_cfg_def]
  show "vlans_in_use (nvram_view ex_vlan_cfg) = [1, 1, 20, 10, 1, 20]"
    unfolding vlans_in_use_def list.map n by (simp add: v n)
  show "\<forall>bss \<in> {0, 1, 2, 3}. length (nvram_view ex_vlan_cfg (ssid_name 0 bss ''_vid'')) < 32"
    unfolding ball_simps n by (simp add: v)
  show "nvram_view ex_vlan_cfg ''vlan_list'' = []" by (simp add: v)
  have "sorted_list_of_set {1, 10, 20 :: int} = [1, 10, 20]" by simp
  then show "enc_vlans (sorted_list_of_set (set [1, 1, 20, 10, 1, 20])) = ''1,10,20,''"
    using n(8) by (simp add: insert_commute del: enc_vlans_simps)
qed

theorem vlan_list_apply_witness:
  "\<exists>s'. apCfgVlanListApply 0 ex_vlan_cfg = Some (A_OK, s') \<and> nvram_view s' ''vlan_list'' = ''1,10,20,''"
proof -
  have "\<forall>v \<in> set (vlans_in_use (nvram_view ex_vlan_cfg)). 0 \<le> v \<and> v < 10000" by (simp add: ex_vlans_used(2))
  moreover have "length (nvram_view ex_vlan_cfg ''vlan_list'') \<le> 64" by (simp add: ex_vlans_used(4))
  ultimately obtain s' where "apCfgVlanListApply 0 ex_vlan_cfg = Some (A_OK, s')"
    "nvram_view s' = (nvram_view ex_vlan_cfg)(''vlan_list'' := ''1,10,20,'')"
    using vlan_list_apply [OF ex_vlans_used(1,3)] unfolding ex_vlans_used(2,5) by blast
  then show ?thesis by simp
qed

end
