(* ===== verification/Util_Country.thy ===== *)
theory Util_Country
  imports Apcfg_Wlan Apcfg_Lan
begin

text \<open>
  The country list of the hardware's regulatory domain and the check of the configured country against it
  (\<open>country_list_generate\<close>, \<open>check_country_domain\<close>, \<open>set_default_country\<close>, \<open>sc_get_default_country\<close> of
  \<open>src/src/apps/apps_sc/libs/libutility/utility.c\<close>), with the setter that relies on it.
\<close>

subsection \<open>Codes\<close>

abbreviation (input) SKU_US :: nat where "SKU_US \<equiv> 0x10"
abbreviation (input) SKU_AU :: nat where "SKU_AU \<equiv> 0x35"
abbreviation (input) SKU_JP :: nat where "SKU_JP \<equiv> 0x40"
abbreviation (input) SKU_LA :: nat where "SKU_LA \<equiv> 0x50"
abbreviation (input) SKU_BR :: nat where "SKU_BR \<equiv> 0x51"
abbreviation (input) SKU_CN :: nat where "SKU_CN \<equiv> 0x70"
abbreviation (input) SKU_KR :: nat where "SKU_KR \<equiv> 0x75"
abbreviation (input) SKU_G5 :: nat where "SKU_G5 \<equiv> 0x80"

abbreviation (input) CTRY_AUSTRALIA :: int where "CTRY_AUSTRALIA \<equiv> 36"
abbreviation (input) CTRY_BRAZIL :: int where "CTRY_BRAZIL \<equiv> 76"
abbreviation (input) CTRY_CHINA :: int where "CTRY_CHINA \<equiv> 156"
abbreviation (input) CTRY_DENMARK :: int where "CTRY_DENMARK \<equiv> 208"
abbreviation (input) CTRY_FINLAND :: int where "CTRY_FINLAND \<equiv> 246"
abbreviation (input) CTRY_FRANCE :: int where "CTRY_FRANCE \<equiv> 250"
abbreviation (input) CTRY_GERMANY :: int where "CTRY_GERMANY \<equiv> 276"
abbreviation (input) CTRY_IRELAND :: int where "CTRY_IRELAND \<equiv> 372"
abbreviation (input) CTRY_ITALY :: int where "CTRY_ITALY \<equiv> 380"
abbreviation (input) CTRY_JAPAN :: int where "CTRY_JAPAN \<equiv> 392"
abbreviation (input) CTRY_KOREA_ROC :: int where "CTRY_KOREA_ROC \<equiv> 410"
abbreviation (input) CTRY_MEXICO :: int where "CTRY_MEXICO \<equiv> 484"
abbreviation (input) CTRY_NETHERLANDS :: int where "CTRY_NETHERLANDS \<equiv> 528"
abbreviation (input) CTRY_NEW_ZEALAND :: int where "CTRY_NEW_ZEALAND \<equiv> 554"
abbreviation (input) CTRY_NORWAY :: int where "CTRY_NORWAY \<equiv> 578"
abbreviation (input) CTRY_PUERTO_RICO :: int where "CTRY_PUERTO_RICO \<equiv> 630"
abbreviation (input) CTRY_SINGAPORE :: int where "CTRY_SINGAPORE \<equiv> 702"
abbreviation (input) CTRY_SPAIN :: int where "CTRY_SPAIN \<equiv> 724"
abbreviation (input) CTRY_SWEDEN :: int where "CTRY_SWEDEN \<equiv> 752"
abbreviation (input) CTRY_SWITZERLAND :: int where "CTRY_SWITZERLAND \<equiv> 756"
abbreviation (input) CTRY_UNITED_KINGDOM :: int where "CTRY_UNITED_KINGDOM \<equiv> 826"
abbreviation (input) CTRY_UNITED_STATES :: int where "CTRY_UNITED_STATES \<equiv> 840"

subsection \<open>The hardware's domain\<close>

text \<open>\<open>sscanf (line, "%x", &domain)\<close> with an unsigned destination: the value assigned, if there is one.\<close>

definition c_isxdigit :: "char \<Rightarrow> bool" where
  "c_isxdigit c \<longleftrightarrow> c_isdigit c \<or> 65 \<le> code c \<and> code c \<le> 70 \<or> 97 \<le> code c \<and> code c \<le> 102"

fun hex_val :: "nat \<Rightarrow> cstr \<Rightarrow> nat" where
  "hex_val acc [] = acc"
| "hex_val acc (c # s) =
     (if c_isdigit c then hex_val (acc * 16 + (code c - 48)) s
      else if 65 \<le> code c \<and> code c \<le> 70 then hex_val (acc * 16 + (code c - 55)) s
      else if 97 \<le> code c \<and> code c \<le> 102 then hex_val (acc * 16 + (code c - 87)) s
      else acc)"

definition scan_x :: "cstr \<Rightarrow> nat option" where
  "scan_x s =
     (let t = dropWhile c_isspace s; neg = (t \<noteq> [] \<and> hd t = CHR ''-'');
          u = (if t \<noteq> [] \<and> hd t \<in> {CHR ''-'', CHR ''+''} then tl t else t);
          v = (if take 2 u \<in> {''0x'', ''0X''} then drop 2 u else u);
          n = min (2 ^ 32 - 1) (hex_val 0 v) in
      if v = [] \<or> \<not> c_isxdigit (hd v) then None
      else Some (if neg then (2 ^ 32 - n) mod 2 ^ 32 else n))"

definition hw_domain :: string where "hw_domain = ''/tmp/hw_info/domain''"
definition country_list :: string where "country_list = ''/tmp/country_list''"

text \<open>\<open>fgets\<close> from a file that has just been opened; nothing is stored when it is empty.\<close>

definition first_line :: "nat \<Rightarrow> bytes \<Rightarrow> cstr option" where
  "first_line n b = (if b = [] then None else Some (takeWhile (\<lambda>c. c \<noteq> NUL) (fst (c_fgets n b))))"

text \<open>\<open>line\<close> is not initialised: an empty file leaves the scan reading it undefined.\<close>

definition read_domain :: "'a host_scheme \<Rightarrow> nat option" where
  "read_domain s =
     (case files s hw_domain of
        None \<Rightarrow> Some 0
      | Some b \<Rightarrow> do { line \<leftarrow> first_line 63 b; Some (case scan_x line of Some d \<Rightarrow> d | None \<Rightarrow> 0) })"

definition sc_get_default_country :: "'a host_scheme \<Rightarrow> int option" where
  "sc_get_default_country s = do {
     domain \<leftarrow> read_domain s;
     Some (if domain = SKU_AU then CTRY_AUSTRALIA
       else if domain = SKU_BR then CTRY_BRAZIL
       else if domain = SKU_CN then CTRY_CHINA
       else if domain = SKU_G5 then CTRY_GERMANY
       else if domain = SKU_LA then CTRY_MEXICO
       else if domain = SKU_JP then CTRY_JAPAN
       else if domain = SKU_KR then CTRY_KOREA_ROC
       else CTRY_UNITED_STATES)
   }"

subsection \<open>The list\<close>

definition country_entries :: "nat \<Rightarrow> (cstr \<times> int) list" where
  "country_entries domain =
     (if domain = SKU_AU then [(''Australia'', CTRY_AUSTRALIA)]
      else if domain = SKU_BR then [(''Brazil'', CTRY_BRAZIL)]
      else if domain = SKU_CN then [(''China'', CTRY_CHINA)]
      else if domain = SKU_G5 then
        [(''Asia'', CTRY_SINGAPORE + 1000), (''Denmark'', CTRY_DENMARK), (''Europe'', CTRY_GERMANY + 1000),
         (''Finland'', CTRY_FINLAND), (''France'', CTRY_FRANCE), (''Germany'', CTRY_GERMANY),
         (''Ireland'', CTRY_IRELAND), (''Italy'', CTRY_ITALY), (''Netherlands'', CTRY_NETHERLANDS),
         (''New Zealand'', CTRY_NEW_ZEALAND), (''Norway'', CTRY_NORWAY), (''Spain'', CTRY_SPAIN),
         (''Sweden'', CTRY_SWEDEN), (''Switzerland'', CTRY_SWITZERLAND), (''United Kingdom'', CTRY_UNITED_KINGDOM)]
      else if domain = SKU_LA then
        [(''Mexico'', CTRY_MEXICO), (''Puerto Rico'', CTRY_PUERTO_RICO), (''South America'', CTRY_BRAZIL + 1000)]
      else if domain = SKU_KR then [(''South Korea'', CTRY_KOREA_ROC)]
      else if domain = SKU_JP then [(''Japan'', CTRY_JAPAN)]
      else [(''United States'', CTRY_UNITED_STATES)])"

text \<open>\<open>SYSTEM ("echo %s-%d >> /tmp/country_list", ...)\<close>, with what the shell does.\<close>

definition sh_echo_country :: "cstr \<times> int \<Rightarrow> 'a host_scheme \<Rightarrow> 'a host_scheme" where
  "sh_echo_country e s =
     (let line = fst e @ ''-'' @ fmt_d (snd e) in
      f_append country_list (line @ [CHR 0x0A]) (SYSTEM (''echo '' @ line @ '' >> /tmp/country_list'') s))"

text \<open>The lines of a file as \<open>fgets (buffer, n + 1, fp)\<close> returns them.\<close>

function fgets_all :: "nat \<Rightarrow> bytes \<Rightarrow> cstr list" where
  "fgets_all n b = (if b = [] \<or> n = 0 then [] else let (l, r) = c_fgets n b in takeWhile (\<lambda>c. c \<noteq> NUL) l # fgets_all n r)"
  by pat_completeness auto
termination
proof (relation "measure (length o snd)")
  fix n :: nat and b l r :: bytes and x
  assume "\<not> (b = [] \<or> n = 0)" "x = c_fgets n b" "(l, r) = x"
  moreover obtain c b' where "b = c # b'" using calculation by (cases b) auto
  moreover obtain m where "n = Suc m" using calculation by (cases n) auto
  ultimately have "length r < length b" using c_fgets_progress [of m c b' l r] by simp
  then show "((n, r), n, b) \<in> measure (length o snd)" by simp
qed simp

declare fgets_all.simps [simp del]

definition check_country_domain :: "int \<Rightarrow> 'a host_scheme \<Rightarrow> bool" where
  "check_country_domain countryCode s =
     (case files s country_list of
        None \<Rightarrow> False
      | Some b \<Rightarrow> \<exists>line \<in> set (fgets_all 127 b).
          (case strtok_all (CHR ''-'') line of _ # p # _ \<Rightarrow> atoi p = countryCode | _ \<Rightarrow> False))"

definition set_default_country :: "'a host_scheme \<Rightarrow> 'a host_scheme option" where
  "set_default_country s = do {
     domain \<leftarrow> sc_get_default_country s;
     str_domain \<leftarrow> into_buf 32 (fmt_d domain);
     (_, s) \<leftarrow> nvram_set ''sys_domain'' str_domain s;
     if domain = CTRY_JAPAN then do { (_, s) \<leftarrow> nvram_set ''sys_lang'' ''jp'' s; Some s } else Some s
   }"

definition country_list_generate :: "'a host_scheme \<Rightarrow> 'a host_scheme option" where
  "country_list_generate s = do {
     let s = f_unlink country_list s;
     domain \<leftarrow> read_domain s;
     let s = fold sh_echo_country (country_entries domain) s;
     (code, s) \<leftarrow> apCfgCountryCodeGet s;
     if \<not> check_country_domain code s then set_default_country s else Some s
   }"

definition apCfgCountryCodeSet :: "int \<Rightarrow> 'a setter" where
  "apCfgCountryCodeSet v s =
     (if \<not> check_country_domain v s then Some (A_ERROR, s)
      else if_changed apCfgCountryCodeGet v (\<lambda>s. do {
        (st, s) \<leftarrow> write_int 10 ''sys_domain'' v [APL_REBOOT] s;
        (_, s) \<leftarrow> (if CTRY_JAPAN = v then apCfgChannelWidthModeSet 0 CWM_MODE_20M s else Some (st, s));
        Some (A_OK, s)
      }) s)"

subsection \<open>The list as pairs\<close>

definition country_line :: "cstr \<times> int \<Rightarrow> cstr" where
  "country_line e = fst e @ ''-'' @ fmt_d (snd e)"

definition country_text :: "(cstr \<times> int) list \<Rightarrow> bytes" where
  "country_text es = concat (map (\<lambda>e. country_line e @ [CHR 0x0A]) es)"

definition country_ok :: "cstr \<times> int \<Rightarrow> bool" where
  "country_ok e \<longleftrightarrow> fst e \<noteq> [] \<and> set (fst e) \<inter> {CHR ''-'', CHR 0x0A, NUL} = {} \<and> length (fst e) < 100 \<and>
     0 \<le> snd e \<and> snd e < 100000"

lemma country_text_simps [simp]:
  "country_text [] = []" "country_text (e # es) = country_line e @ CHR 0x0A # country_text es"
  by (simp_all add: country_text_def)

lemma fmt_d_nonneg_digits: "0 \<le> v \<Longrightarrow> c \<in> set (fmt_d v) \<Longrightarrow> c_isdigit c"
  by (auto simp: fmt_d_def dest: dec_digits_isdigit)

lemma country_line_facts:
  assumes "country_ok e"
  shows "CHR 0x0A \<notin> set (country_line e)" "NUL \<notin> set (country_line e)" "length (country_line e) < 127"
    "country_line e \<noteq> []"
  using assms cstr_ok_fmt_d [of "snd e"] length_fmt_d_5 [of "snd e"]
  by (auto simp: country_ok_def country_line_def cstr_ok_def)

lemma fgets_country:
  "\<forall>e \<in> set es. country_ok e \<Longrightarrow> fgets_all 127 (country_text es) = map (\<lambda>e. country_line e @ [CHR 0x0A]) es"
proof (induction es)
  case Nil
  then show ?case by (simp add: fgets_all.simps)
next
  case (Cons e es)
  then have e: "country_ok e" by simp
  have "c_fgets 127 (country_line e @ CHR 0x0A # country_text es) = (country_line e @ [CHR 0x0A], country_text es)"
    using country_line_facts [OF e] by (intro c_fgets_line) simp_all
  moreover have "takeWhile (\<lambda>c. c \<noteq> NUL) (country_line e @ [CHR 0x0A]) = country_line e @ [CHR 0x0A]"
    using country_line_facts(2) [OF e] by (intro takeWhile_not_in_id) simp
  ultimately show ?case using Cons by (subst fgets_all.simps) simp
qed

lemma strtok_country:
  assumes "country_ok e"
  shows "strtok_all (CHR ''-'') (country_line e @ [CHR 0x0A]) = [fst e, fmt_d (snd e) @ [CHR 0x0A]]"
proof -
  have n: "CHR ''-'' \<notin> set (fst e)" "fst e \<noteq> []" using assms by (auto simp: country_ok_def)
  have m: "CHR ''-'' \<notin> set (fmt_d (snd e) @ [CHR 0x0A])"
    using assms fmt_d_nonneg_digits [of "snd e" "CHR ''-''"] by (auto simp: country_ok_def c_isdigit_def)
  have d: "dropWhile (\<lambda>c. c = CHR ''-'') (t @ r) = t @ r" if "CHR ''-'' \<notin> set t" "t \<noteq> []" for t r
    using that by (cases t) auto
  have "strtok_all (CHR ''-'') (fmt_d (snd e) @ [CHR 0x0A]) = [fmt_d (snd e) @ [CHR 0x0A]]"
    using d [OF m, of "[]"] takeWhile_not_in_id [OF m] m
    by (subst strtok_all.simps) (simp add: Let_def strtok_all.simps [of _ "[]"] dropWhile_eq_Nil_conv)
  then have "strtok_all (CHR ''-'') (CHR ''-'' # fmt_d (snd e) @ [CHR 0x0A]) = [fmt_d (snd e) @ [CHR 0x0A]]"
    by (subst strtok_all.simps) (subst (asm) strtok_all.simps, simp)
  then show ?thesis
    using d [OF n, of "CHR ''-'' # fmt_d (snd e) @ [CHR 0x0A]"] takeWhile_append_stop [OF n(1)] dropWhile_append_stop [OF n(1)]
    by (subst strtok_all.simps) (simp add: Let_def country_line_def n(2))
qed

lemma check_country_text:
  assumes "files s country_list = Some (country_text es)" "\<forall>e \<in> set es. country_ok e"
  shows "check_country_domain v s \<longleftrightarrow> v \<in> snd ` set es"
proof -
  have "atoi (fmt_d (snd e) @ [CHR 0x0A]) = snd e" if "e \<in> set es" for e
    using that assms(2) by (intro atoi_fmt_d_stop) (auto simp: country_ok_def int_range_def INT_MIN_def INT_MAX_def c_isdigit_def)
  then show ?thesis
    using assms by (auto simp: check_country_domain_def fgets_country strtok_country)
qed

lemma country_entries_ok: "\<forall>e \<in> set (country_entries d). country_ok e"
  by (simp add: country_entries_def country_ok_def)

lemma files_sh_echo_country:
  "files (sh_echo_country e s) = (files s)(country_list \<mapsto>
     (case files s country_list of None \<Rightarrow> [] | Some b \<Rightarrow> b) @ country_line e @ [CHR 0x0A])"
  by (simp add: sh_echo_country_def f_append_def SYSTEM_def country_line_def Let_def split: option.split)

lemma files_sh_echo_countries:
  "es \<noteq> [] \<Longrightarrow> files (fold sh_echo_country es s) = (files s)(country_list \<mapsto>
     (case files s country_list of None \<Rightarrow> [] | Some b \<Rightarrow> b) @ country_text es)"
proof (induction es arbitrary: s)
  case (Cons e es)
  show ?case
  proof (cases es)
    case Nil
    then show ?thesis by (simp add: files_sh_echo_country)
  next
    case (Cons a list)
    then show ?thesis using Cons.IH [of "sh_echo_country e s"] by (auto simp: files_sh_echo_country)
  qed
qed simp

lemma country_list_other [simp]:
  "country_list \<noteq> NVRAM_TMP_PATH" "country_list \<noteq> NVRAM_DEFAULT" "country_list \<noteq> hw_domain" "country_list \<noteq> APL_FLAG"
  "country_list \<noteq> APL_CLOSED" "country_list \<noteq> APL_PARSING"
  "NVRAM_TMP_PATH \<noteq> country_list" "NVRAM_DEFAULT \<noteq> country_list" "hw_domain \<noteq> country_list"
  "hw_domain \<noteq> NVRAM_TMP_PATH"
  by (simp_all add: country_list_def nvram_paths apl_paths hw_domain_def)

lemma default_country_listed:
  "read_domain s = Some d \<Longrightarrow> \<exists>c. sc_get_default_country s = Some c \<and> c \<in> snd ` set (country_entries d)"
  by (auto simp: sc_get_default_country_def country_entries_def)

lemma sys_domain_name: "wf_name ''sys_domain''" "wf_name ''sys_lang''" "length ''sys_domain'' < 60"
  by (simp_all add: wf_name_def)

lemma set_default_country_ok:
  assumes "nvram_inv s" "sc_get_default_country s = Some c"
  shows "\<exists>s'. set_default_country s = Some s' \<and> nvram_inv s' \<and> nvram_view s' ''sys_domain'' = fmt_d c \<and>
    (\<forall>p. p \<noteq> NVRAM_TMP_PATH \<longrightarrow> files s' p = files s p)"
proof -
  have "c \<in> {36, 76, 156, 276, 484, 392, 410, 840}"
    using assms(2) by (auto simp: sc_get_default_country_def bind_Some_iff split: if_splits)
  then have "length (fmt_d c) < 32" using length_fmt_d_5 [of c] by auto
  moreover obtain s1 where s1: "nvram_set ''sys_domain'' (fmt_d c) s = Some (NVRAM_SUCCESS, s1)" "nvram_inv s1"
    "nvram_view s1 = (nvram_view s)(''sys_domain'' := fmt_d c)" "\<forall>p. p \<noteq> NVRAM_TMP_PATH \<longrightarrow> files s1 p = files s p"
    using nvram_set_refines [OF assms(1) sys_domain_name(1)] cstr_ok_fmt_d by blast
  moreover have "cstr_ok ''jp''" by simp
  then obtain s2 where "nvram_set ''sys_lang'' ''jp'' s1 = Some (NVRAM_SUCCESS, s2)" "nvram_inv s2"
    "nvram_view s2 = (nvram_view s1)(''sys_lang'' := ''jp'')" "\<forall>p. p \<noteq> NVRAM_TMP_PATH \<longrightarrow> files s2 p = files s1 p"
    using nvram_set_refines [OF s1(2) sys_domain_name(2)] by blast
  ultimately show ?thesis using assms(2) by (simp add: set_default_country_def)
qed

text \<open>C21. \<open>country_list_generate\<close> leaves the country list of the hardware's domain and a configured country
  that is in it: a country that is not is replaced by the domain's default, and otherwise no variable changes.
\<close>

theorem country_configured_allowed:
  assumes "nvram_inv s" "read_domain s = Some d"
  shows "\<exists>s'. country_list_generate s = Some s' \<and> nvram_inv s' \<and>
    files s' country_list = Some (country_text (country_entries d)) \<and>
    check_country_domain (atoi (nvram_view s' ''sys_domain'')) s' \<and>
    (atoi (nvram_view s ''sys_domain'') \<in> snd ` set (country_entries d) \<longrightarrow> nvram_view s' = nvram_view s)"
proof -
  let ?es = "country_entries d"
  let ?s0 = "f_unlink country_list s" and ?s1 = "fold sh_echo_country ?es (f_unlink country_list s)"
  have "?es \<noteq> []" by (simp add: country_entries_def)
  note f1 = files_sh_echo_countries [OF this, of ?s0]
  have dom: "read_domain ?s0 = Some d"
    using assms(2) by (simp add: read_domain_def cong: option.case_cong)
  have list1: "files ?s1 country_list = Some (country_text ?es)" by (simp add: f1)
  have same1: "files ?s1 NVRAM_TMP_PATH = files s NVRAM_TMP_PATH" "files ?s1 NVRAM_DEFAULT = files s NVRAM_DEFAULT"
    by (simp_all add: f1)
  then have inv1: "nvram_inv ?s1" and view1: "nvram_view ?s1 = nvram_view s"
    using assms(1) nvram_view_cong [OF same1] by (simp_all add: nvram_inv_def)
  obtain s2 where s2: "nvram_safe_get ''sys_domain'' ?s1 = Some (nvram_view s ''sys_domain'', s2)" "nvram_inv s2"
    "nvram_view s2 = nvram_view s" "\<forall>p. p \<noteq> NVRAM_TMP_PATH \<longrightarrow> files s2 p = files ?s1 p"
    using nvram_safe_get_refines [OF inv1 sys_domain_name(1)] view1 by auto
  let ?code = "atoi (nvram_view s ''sys_domain'')"
  have get: "apCfgCountryCodeGet ?s1 = Some (?code, s2)"
    using s2(1) by (simp add: apCfgCountryCodeGet_def get_atoi_def)
  have list2: "files s2 country_list = Some (country_text ?es)" using s2(4) list1 by simp
  note check2 = check_country_text [OF list2 country_entries_ok]
  show ?thesis
  proof (cases "?code \<in> snd ` set ?es")
    case True
    then have "country_list_generate s = Some s2"
      using dom get check2 by (simp add: country_list_generate_def Let_def)
    then show ?thesis using True s2 list2 check2 by auto
  next
    case False
    have "read_domain s2 = Some d"
      using assms(2) s2(4) by (simp add: read_domain_def f1 cong: option.case_cong)
    from default_country_listed [OF this] obtain c where c: "sc_get_default_country s2 = Some c" "c \<in> snd ` set ?es" by blast
    obtain s3 where s3: "set_default_country s2 = Some s3" "nvram_inv s3" "nvram_view s3 ''sys_domain'' = fmt_d c"
      "\<forall>p. p \<noteq> NVRAM_TMP_PATH \<longrightarrow> files s3 p = files s2 p"
      using set_default_country_ok [OF s2(2) c(1)] by blast
    have list3: "files s3 country_list = Some (country_text ?es)" using s3(4) list2 by simp
    have "country_list_generate s = Some s3"
      using False dom get check2 s3(1) by (simp add: country_list_generate_def Let_def)
    moreover have "int_range c"
      using c(2) country_entries_ok [of d] by (force simp: country_ok_def int_range_def INT_MIN_def INT_MAX_def)
    then have "atoi (nvram_view s3 ''sys_domain'') = c" by (simp add: s3(3))
    moreover have "check_country_domain c s3" using check_country_text [OF list3 country_entries_ok] c(2) by blast
    ultimately show ?thesis using False s3(2) list3 by auto
  qed
qed

theorem country_configured_allowed_witness:
  "\<exists>s'. country_list_generate (ex_cfg [(''sys_domain'', ''392'')] []) = Some s' \<and>
     check_country_domain (atoi (nvram_view s' ''sys_domain'')) s'"
proof -
  have "nvram_inv (ex_cfg [(''sys_domain'', ''392'')] [])"
    using ex_cfg_inv [of "[(''sys_domain'', ''392'')]" "[]"] by (simp add: cfg_inv_def client_inv_def wf_name_def)
  moreover have "read_domain (ex_cfg [(''sys_domain'', ''392'')] []) = Some 0"
    by (simp add: read_domain_def ex_cfg_def hw_domain_def nvram_paths)
  ultimately show ?thesis using country_configured_allowed by blast
qed

end
