(* ===== verification/Util_Defaults.thy ===== *)
theory Util_Defaults
  imports Apcfg_Hoare Apcfg_Wlan
begin

text \<open>
  The reset of one access point to its defaults (\<open>scSetDefaultVap\<close> and \<open>scSetDefaultSecurity\<close> in
  \<open>src/src/apps/apps_sc/libs/libutility/utility.c\<close>). The status of every setter is ignored.
\<close>

text \<open>A sequence of setters.\<close>

primrec in_turn :: "'a setter list \<Rightarrow> 'a setter" where
  "in_turn [] s = Some (A_OK, s)"
| "in_turn (m # ms) s = do { (_, s) \<leftarrow> m s; in_turn ms s }"

lemma in_turn_append: "in_turn (ms @ ns) s = do { (_, s) \<leftarrow> in_turn ms s; in_turn ns s }"
proof (induction ms arbitrary: s)
  case (Cons m ms)
  then show ?case by (cases "m s") (auto split: prod.splits)
qed simp

text \<open>The search for an access point that uses WEP; the code leaves the loop at the first.\<close>

fun any_wep :: "int \<Rightarrow> int list \<Rightarrow> (bool, 'a) getter" where
  "any_wep unit [] s = Some (False, s)"
| "any_wep unit (i # is) s = do {
     (a, s) \<leftarrow> apCfgAuthTypeGet unit i s;
     if a = APCFG_AUTH_OPEN_SYSTEM \<or> a = APCFG_AUTH_SHARED_KEY then Some (True, s) else any_wep unit is s
   }"

definition scSetDefaultSecurity :: "int \<Rightarrow> int \<Rightarrow> 'a setter" where
  "scSetDefaultSecurity unit bss s = do {
     (_, s) \<leftarrow> in_turn [apCfgIntraVapForwardingSet unit bss 1, apCfgAuthTypeSet unit bss APCFG_AUTH_NONE,
       apCfgDefKeySet unit bss 0, apCfgWPACipherSet unit bss WPA_CIPHER_AUTO, apCfgPassphraseSet unit bss [],
       apCfgGroupKeyUpdateIntervalSet unit bss (60 * 60)] s;
     (wep, s) \<leftarrow> any_wep unit [0, 1, 2, 3] s;
     if wep then Some (A_OK, s)
     else in_turn [apCfgKeyBitLenSet unit bss 40, apCfgKeyValSet unit bss 1 [], apCfgKeyValSet unit bss 2 [],
       apCfgKeyValSet unit bss 3 [], apCfgKeyValSet unit bss 4 []] s
   }"

definition scSetDefaultVap :: "int \<Rightarrow> int \<Rightarrow> 'a setter" where
  "scSetDefaultVap unit bss = in_turn [apCfgActiveModeSet unit bss 0, apCfgSsidSet unit bss [], apCfgSsidModeSet unit bss 0,
     scSetDefaultSecurity unit bss, apCfgAclModeSet unit bss APCFG_ACL_DISABLED, apCfgAclTypeSet unit bss APCFG_ACL_ALLOW,
     apCfgAclClear unit bss, apCfgVlanPvidSet unit bss VLAN_TAG_MIN, apCfgWmeSet unit bss 1, apCfgWmmpsSet unit bss 1,
     apCfgPrioritySet unit bss 0, apCfgLoadBalanceSet unit bss MIN_BALANCE]"

text \<open>The reset of the security settings does not reset the default key: its default is 0, which the setter refuses,
  so the reset is the same without that call.
\<close>

theorem default_key_not_reset:
  "apCfgDefKeySet unit bss 0 s = Some (A_EINVAL, s) \<and>
   scSetDefaultSecurity unit bss s = do {
     (_, s) \<leftarrow> in_turn [apCfgIntraVapForwardingSet unit bss 1, apCfgAuthTypeSet unit bss APCFG_AUTH_NONE,
       apCfgWPACipherSet unit bss WPA_CIPHER_AUTO, apCfgPassphraseSet unit bss [],
       apCfgGroupKeyUpdateIntervalSet unit bss (60 * 60)] s;
     (wep, s) \<leftarrow> any_wep unit [0, 1, 2, 3] s;
     if wep then Some (A_OK, s)
     else in_turn [apCfgKeyBitLenSet unit bss 40, apCfgKeyValSet unit bss 1 [], apCfgKeyValSet unit bss 2 [],
       apCfgKeyValSet unit bss 3 [], apCfgKeyValSet unit bss 4 []] s
   }"
  by (simp add: scSetDefaultSecurity_def apCfgDefKeySet_def cong: option.case_cong)

end
