(* ===== verification/Apcfg_Acl.thy ===== *)
theory Apcfg_Acl
  imports Apcfg_Wlan Util_Conv
begin

text \<open>
  The access-control list of an access point (\<open>apCfgAclAdd\<close>, \<open>apCfgAclDel\<close>, \<open>scAclBufGet\<close> and
  \<open>scAclBufFree\<close> of \<open>src/src/apps/apps_sc/libs/libapcfg/apcfg.c\<close>). The variable holds, for each station, its
  address, its name and whether the entry is in use, separated by commas and ended by a semicolon. The
  second half proves the operations against the list of entries the text stands for.
\<close>

subsection \<open>The operations\<close>

text \<open>\<open>CFG_ACL_ENTRY\<close>: 40 bytes, without the link of the list it is kept in.\<close>

record acl_entry =
  acl_name :: cstr
  acl_mac :: cstr
  acl_used :: bool

abbreviation (input) CFG_MAX_ACL :: nat where "CFG_MAX_ACL \<equiv> 256"
abbreviation (input) CFG_MAX_ACL_LINKSYS :: nat where "CFG_MAX_ACL_LINKSYS \<equiv> 20"
abbreviation (input) ACL_ENTRY_SIZE :: nat where "ACL_ENTRY_SIZE \<equiv> 40"

text \<open>\<open>memcmp (p, q, 17) == 0\<close> on strings: a terminator is compared as well.\<close>

definition mac_eq :: "cstr \<Rightarrow> cstr \<Rightarrow> bool" where
  "mac_eq p q \<longleftrightarrow> take 17 (p @ [NUL]) = take 17 (q @ [NUL])"

text \<open>The loop over the units: the offset of the one with the address and the text from its semicolon on,
  or the number of units. A unit without a semicolon is read through a null pointer.\<close>

function acl_scan :: "cstr \<Rightarrow> nat \<Rightarrow> nat \<Rightarrow> cstr \<Rightarrow> ((nat \<times> cstr) option \<times> nat) option" where
  "acl_scan mac off cnt [] = Some (None, cnt)"
| "acl_scan mac off cnt (c # p) =
     (let unit_end = dropWhile (\<lambda>c. c \<noteq> CHR '';'') (c # p) in
      if unit_end = [] then None
      else if mac_eq (c # p) mac then Some (Some (off, unit_end), cnt)
      else acl_scan mac (off + (length (c # p) - length unit_end) + 1) (cnt + 1) (tl unit_end))"
  by pat_completeness auto
termination
proof (relation "measure (\<lambda>(mac, off, cnt, p). length p)")
  fix mac p unit_end :: cstr and off cnt :: nat and c :: char
  assume "unit_end = dropWhile (\<lambda>c. c \<noteq> CHR '';'') (c # p)" "unit_end \<noteq> []"
  then show "((mac, off + (length (c # p) - length unit_end) + 1, cnt + 1, tl unit_end), mac, off, cnt, c # p)
      \<in> measure (\<lambda>(mac, off, cnt, p). length p)"
    using length_dropWhile_le [of "\<lambda>c. c \<noteq> CHR '';''" "c # p"] by (cases unit_end) auto
qed simp

text \<open>The address is compared, and stored, in upper case; the caller's string is changed with it.\<close>

definition apCfgAclAdd :: "int \<Rightarrow> int \<Rightarrow> cstr \<Rightarrow> cstr \<Rightarrow> int \<Rightarrow> 'a setter" where
  "apCfgAclAdd unit bss mac name used s =
     (if take 17 mac = ''00:00:00:00:00:00'' then Some (A_ERROR, s)
      else do {
        var \<leftarrow> into_buf 60 (ssid_name unit bss ''_acl_list'');
        (full, s) \<leftarrow> nvram_safe_get var s;
        let mac = scToUppers mac;
        (found, cnt) \<leftarrow> acl_scan mac 0 0 full;
        (case found of
           Some (off, rest) \<Rightarrow> do {
             unit_value \<leftarrow> into_buf ACL_ENTRY_SIZE (mac @ '','' @ name @ '','' @ fmt_d used);
             final \<leftarrow> into_buf (CFG_MAX_ACL * ACL_ENTRY_SIZE) (take off full @ unit_value @ rest);
             write_var var final [vap_item unit bss] s
           }
         | None \<Rightarrow>
             if cnt \<ge> CFG_MAX_ACL_LINKSYS then Some (A_NO_MEMORY, s)
             else do {
               unit_value \<leftarrow> into_buf ACL_ENTRY_SIZE (mac @ '','' @ name @ '','' @ fmt_d used);
               final \<leftarrow> into_buf (CFG_MAX_ACL * ACL_ENTRY_SIZE) (full @ unit_value @ '';'');
               write_var var final [vap_item unit bss] s
             })
      })"

text \<open>The deletion stops at a unit without a semicolon.\<close>

function acl_del_scan :: "cstr \<Rightarrow> nat \<Rightarrow> cstr \<Rightarrow> (nat \<times> cstr) option" where
  "acl_del_scan mac off [] = None"
| "acl_del_scan mac off (c # p) =
     (let unit_end = dropWhile (\<lambda>c. c \<noteq> CHR '';'') (c # p) in
      if unit_end = [] then None
      else if mac_eq (c # p) mac then Some (off, tl unit_end)
      else acl_del_scan mac (off + (length (c # p) - length unit_end) + 1) (tl unit_end))"
  by pat_completeness auto
termination
proof (relation "measure (\<lambda>(mac, off, p). length p)")
  fix mac p unit_end :: cstr and off :: nat and c :: char
  assume "unit_end = dropWhile (\<lambda>c. c \<noteq> CHR '';'') (c # p)" "unit_end \<noteq> []"
  then show "((mac, off + (length (c # p) - length unit_end) + 1, tl unit_end), mac, off, c # p)
      \<in> measure (\<lambda>(mac, off, p). length p)"
    using length_dropWhile_le [of "\<lambda>c. c \<noteq> CHR '';''" "c # p"] by (cases unit_end) auto
qed simp

definition apCfgAclDel :: "int \<Rightarrow> int \<Rightarrow> cstr \<Rightarrow> 'a setter" where
  "apCfgAclDel unit bss mac s = do {
     var \<leftarrow> into_buf 60 (ssid_name unit bss ''_acl_list'');
     (full, s) \<leftarrow> nvram_safe_get var s;
     (case acl_del_scan (scToUppers mac) 0 full of
        None \<Rightarrow> Some (A_ENOENT, s)
      | Some (off, rest) \<Rightarrow> do {
          final \<leftarrow> into_buf (CFG_MAX_ACL * ACL_ENTRY_SIZE) (take off full @ rest);
          write_var var final [vap_item unit bss] s
        })
   }"

text \<open>The pointers advance by fixed steps, past the end of a text that is no list of entries.\<close>

function acl_parse :: "cstr \<Rightarrow> acl_entry list option" where
  "acl_parse p =
     (if p = [] then Some []
      else if length p < 18 then None
      else
        let r = drop 18 p; sep = dropWhile (\<lambda>c. c \<noteq> CHR '','') r; nm = takeWhile (\<lambda>c. c \<noteq> CHR '','') r in
        if sep = [] \<or> 16 < length nm \<or> length (tl sep) < 2 then None
        else do {
          es \<leftarrow> acl_parse (drop 2 (tl sep));
          Some (\<lparr>acl_name = nm, acl_mac = take 17 p, acl_used = (hd (tl sep) = CHR ''1'')\<rparr> # es)
        })"
  by pat_completeness auto
termination
proof (relation "measure length")
  fix p r sep nm :: cstr
  assume "\<not> length p < 18" "r = drop 18 p" "sep = dropWhile (\<lambda>c. c \<noteq> CHR '','') r"
  then show "(drop 2 (tl sep), p) \<in> measure length"
    using length_dropWhile_le [of "\<lambda>c. c \<noteq> CHR '',''" r] by simp
qed simp

declare acl_parse.simps [simp del]

text \<open>The library's flags of the buffers in use, \<open>static A_BOOL scAclBufUsed[1][4]\<close>.\<close>

record lib = host +
  scAclBufUsed :: "int \<Rightarrow> int \<Rightarrow> bool"

definition scAclBufGet :: "int \<Rightarrow> int \<Rightarrow> 'a lib_scheme \<Rightarrow> ((bool \<times> acl_entry list) \<times> 'a lib_scheme) option" where
  "scAclBufGet unit bss s =
     (if unit < 0 \<or> 1 < unit then Some ((False, []), s)
      else if unit \<noteq> 0 \<or> bss < 0 \<or> WLAN_MAX_VAP \<le> bss then None
      else if scAclBufUsed s unit bss then Some ((False, []), s)
      else do {
        let s = s\<lparr>scAclBufUsed := (scAclBufUsed s)(unit := (scAclBufUsed s unit)(bss := True))\<rparr>;
        var \<leftarrow> into_buf 60 (ssid_name unit bss ''_acl_list'');
        (full, s) \<leftarrow> nvram_safe_get var s;
        es \<leftarrow> acl_parse full;
        Some ((True, es), s)
      })"

definition scAclBufFree :: "int \<Rightarrow> int \<Rightarrow> 'a lib_scheme \<Rightarrow> 'a lib_scheme option" where
  "scAclBufFree unit bss s =
     (if unit \<noteq> 0 \<or> bss < 0 \<or> WLAN_MAX_VAP \<le> bss then None
      else Some (s\<lparr>scAclBufUsed := (scAclBufUsed s)(unit := (scAclBufUsed s unit)(bss := False))\<rparr>))"

text \<open>\<open>while (!scAclBufGet (unit, vap, &pScAcl));\<close> waits forever for a buffer in use.\<close>

definition acl_wait :: "int \<Rightarrow> int \<Rightarrow> 'a lib_scheme \<Rightarrow> (acl_entry list \<times> 'a lib_scheme) option" where
  "acl_wait unit bss s = do {
     ((ok, es), s) \<leftarrow> scAclBufGet unit bss s;
     if ok then Some (es, s) else None
   }"

subsection \<open>The list of entries\<close>

definition acl_unit :: "acl_entry \<Rightarrow> cstr" where
  "acl_unit e = acl_mac e @ '','' @ acl_name e @ '','' @ (if acl_used e then ''1'' else ''0'')"

definition acl_text :: "acl_entry list \<Rightarrow> cstr" where
  "acl_text es = concat (map (\<lambda>e. acl_unit e @ '';'') es)"

definition acl_ok :: "acl_entry \<Rightarrow> bool" where
  "acl_ok e \<longleftrightarrow> length (acl_mac e) = 17 \<and> length (acl_name e) \<le> 16 \<and>
     set (acl_mac e) \<inter> {NUL, CHR '','', CHR '';''} = {} \<and> set (acl_name e) \<inter> {NUL, CHR '','', CHR '';''} = {}"

lemma acl_text_simps [simp]: "acl_text [] = []" "acl_text (e # es) = acl_unit e @ CHR '';'' # acl_text es"
  by (simp_all add: acl_text_def)

lemma acl_text_append [simp]: "acl_text (es @ fs) = acl_text es @ acl_text fs"
  by (simp add: acl_text_def)

lemma acl_unit_not_Nil [simp]: "acl_unit e \<noteq> []"
  by (simp add: acl_unit_def)

lemma length_acl_unit: "acl_ok e \<Longrightarrow> length (acl_unit e) \<le> 36"
  by (simp add: acl_unit_def acl_ok_def)

lemma acl_unit_no_semicolon: "acl_ok e \<Longrightarrow> CHR '';'' \<notin> set (acl_unit e)"
  by (auto simp: acl_unit_def acl_ok_def)

lemma cstr_ok_acl_unit: "acl_ok e \<Longrightarrow> cstr_ok (acl_unit e)"
  by (auto simp: acl_unit_def acl_ok_def cstr_ok_def)

lemma acl_text_ok:
  "\<forall>e \<in> set es. acl_ok e \<Longrightarrow> cstr_ok (acl_text es) \<and> length (acl_text es) \<le> 37 * length es"
proof (induction es)
  case (Cons e es)
  then show ?case using length_acl_unit [of e] cstr_ok_acl_unit [of e] by simp
qed simp

lemma mac_eq_unit:
  assumes "acl_ok e" "length mac = 17"
  shows "mac_eq (acl_unit e @ t) mac \<longleftrightarrow> acl_mac e = mac"
  using assms by (simp add: mac_eq_def acl_unit_def acl_ok_def)

lemma acl_unit_end:
  "acl_ok e \<Longrightarrow> dropWhile (\<lambda>c. c \<noteq> CHR '';'') (acl_unit e @ CHR '';'' # t) = CHR '';'' # t"
  using acl_unit_no_semicolon by (rule dropWhile_append_stop)

text \<open>The text up to the entry with an address, and from the semicolon after it.\<close>

lemma acl_scan_text:
  assumes "\<forall>e \<in> set es. acl_ok e" "length mac = 17"
  shows "\<exists>n. acl_scan mac off cnt (acl_text es) = Some
    (if \<exists>e \<in> set es. acl_mac e = mac
     then (Some (off + length (acl_text (takeWhile (\<lambda>e. acl_mac e \<noteq> mac) es)),
             CHR '';'' # acl_text (tl (dropWhile (\<lambda>e. acl_mac e \<noteq> mac) es))), n)
     else (None, cnt + length es))"
  using assms(1)
proof (induction es arbitrary: off cnt)
  case (Cons e es)
  then have e: "acl_ok e" by simp
  obtain c t where ct: "acl_unit e @ CHR '';'' # acl_text es = c # t" by (cases "acl_unit e") auto
  have "acl_scan mac off cnt (acl_text (e # es)) =
    (if acl_mac e = mac then Some (Some (off, CHR '';'' # acl_text es), cnt)
     else acl_scan mac (off + length (acl_unit e) + 1) (cnt + 1) (acl_text es))"
    using acl_scan.simps(2) [of mac off cnt c t, folded ct] acl_unit_end [OF e] mac_eq_unit [OF e assms(2)]
    by (simp add: Let_def)
  then show ?case using Cons.IH [of "off + length (acl_unit e) + 1" "cnt + 1"] Cons.prems by (auto simp: add_ac)
qed simp

lemma acl_del_scan_text:
  assumes "\<forall>e \<in> set es. acl_ok e" "length mac = 17"
  shows "acl_del_scan mac off (acl_text es) =
    (if \<exists>e \<in> set es. acl_mac e = mac
     then Some (off + length (acl_text (takeWhile (\<lambda>e. acl_mac e \<noteq> mac) es)),
             acl_text (tl (dropWhile (\<lambda>e. acl_mac e \<noteq> mac) es)))
     else None)"
  using assms(1)
proof (induction es arbitrary: off)
  case (Cons e es)
  then have e: "acl_ok e" by simp
  obtain c t where ct: "acl_unit e @ CHR '';'' # acl_text es = c # t" by (cases "acl_unit e") auto
  have "acl_del_scan mac off (acl_text (e # es)) =
    (if acl_mac e = mac then Some (off, acl_text es)
     else acl_del_scan mac (off + length (acl_unit e) + 1) (acl_text es))"
    using acl_del_scan.simps(2) [of mac off c t, folded ct] acl_unit_end [OF e] mac_eq_unit [OF e assms(2)]
    by (simp add: Let_def)
  then show ?case using Cons.IH [of "off + length (acl_unit e) + 1"] Cons.prems by (auto simp: add_ac)
qed simp

lemma acl_split:
  assumes "\<exists>e \<in> set es. acl_mac e = mac"
  obtains pre e post where "es = pre @ e # post" "acl_mac e = mac"
    "takeWhile (\<lambda>e. acl_mac e \<noteq> mac) es = pre" "tl (dropWhile (\<lambda>e. acl_mac e \<noteq> mac) es) = post"
proof -
  obtain pre e post where s: "es = pre @ e # post" "acl_mac e = mac" "\<forall>x \<in> set pre. acl_mac x \<noteq> mac"
    using split_list_first_prop [of es "\<lambda>e. acl_mac e = mac"] assms by blast
  then show ?thesis using that by (simp add: takeWhile_append2 dropWhile_append2)
qed

text \<open>The list can be read back.\<close>

lemma acl_parse_text: "\<forall>e \<in> set es. acl_ok e \<Longrightarrow> acl_parse (acl_text es) = Some es"
proof (induction es)
  case Nil
  then show ?case by (simp add: acl_parse.simps)
next
  case (Cons e es)
  then have e: "length (acl_mac e) = 17" "length (acl_name e) \<le> 16" "CHR '','' \<notin> set (acl_name e)"
    by (auto simp: acl_ok_def)
  let ?u = "if acl_used e then ''1'' else ''0''"
  have shape: "acl_text (e # es) = acl_mac e @ CHR '','' # acl_name e @ CHR '','' # ?u @ CHR '';'' # acl_text es"
    by (simp add: acl_unit_def)
  have "acl_parse (acl_mac e @ CHR '','' # acl_name e @ CHR '','' # ?u @ CHR '';'' # acl_text es) = Some (e # es)"
    using e Cons.IH Cons.prems takeWhile_append_stop [OF e(3)] dropWhile_append_stop [OF e(3)]
    by (subst acl_parse.simps) (simp add: Let_def)
  then show ?case by (simp only: shape)
qed

text \<open>What adding and deleting mean for the list.\<close>

definition acl_put :: "acl_entry \<Rightarrow> acl_entry list \<Rightarrow> acl_entry list option" where
  "acl_put e es =
     (if \<exists>x \<in> set es. acl_mac x = acl_mac e
      then Some (takeWhile (\<lambda>x. acl_mac x \<noteq> acl_mac e) es @ e # tl (dropWhile (\<lambda>x. acl_mac x \<noteq> acl_mac e) es))
      else if length es \<ge> 20 then None else Some (es @ [e]))"

definition acl_remove :: "cstr \<Rightarrow> acl_entry list \<Rightarrow> acl_entry list option" where
  "acl_remove mac es =
     (if \<exists>x \<in> set es. acl_mac x = mac
      then Some (takeWhile (\<lambda>x. acl_mac x \<noteq> mac) es @ tl (dropWhile (\<lambda>x. acl_mac x \<noteq> mac) es))
      else None)"

lemma acl_name_ok: "vap_ok unit bss \<Longrightarrow> var_name (ssid_name unit bss ''_acl_list'')"
  by (rule var_name_ssid) simp_all

lemma acl_put_ok:
  "acl_put e es = Some fs \<Longrightarrow> acl_ok e \<Longrightarrow> \<forall>x \<in> set es. acl_ok x \<Longrightarrow> length es \<le> 20 \<Longrightarrow>
    (\<forall>x \<in> set fs. acl_ok x) \<and> length fs \<le> 20"
  by (auto simp: acl_put_def split: if_splits elim!: acl_split [of es "acl_mac e"])

text \<open>C19. Adding a station to an access point's list replaces the entry with its address, in upper case, or appends
  a new one; a list of twenty entries is not extended. The list stored is read back by
  \<open>scAclBufGet\<close> entry by entry.
\<close>

theorem acl_add_correct:
  assumes "cfg_inv s" "vap_ok unit bss" "nvram_view s (ssid_name unit bss ''_acl_list'') = acl_text es"
    and "\<forall>x \<in> set es. acl_ok x" "length es \<le> 20" "acl_ok e" "scToUppers mac = acl_mac e" "mac \<noteq> ''00:00:00:00:00:00''"
  shows "case acl_put e es of
      None \<Rightarrow> \<exists>s'. apCfgAclAdd unit bss mac (acl_name e) (if acl_used e then 1 else 0) s = Some (A_NO_MEMORY, s') \<and>
        nvram_view s' = nvram_view s \<and> pending s' = pending s
    | Some fs \<Rightarrow> \<exists>s'. apCfgAclAdd unit bss mac (acl_name e) (if acl_used e then 1 else 0) s = Some (A_OK, s') \<and>
        nvram_view s' = (nvram_view s)(ssid_name unit bss ''_acl_list'' := acl_text fs) \<and>
        pending s' = pending s @ [vap_item unit bss] \<and> acl_parse (acl_text fs) = Some fs"
proof -
  let ?var = "ssid_name unit bss ''_acl_list''" and ?u = "if acl_used e then 1 else 0 :: int"
  note var = acl_name_ok [OF assms(2)]
  obtain s1 where s1: "nvram_safe_get ?var s = Some (acl_text es, s1)" "cfg_inv s1"
    "nvram_view s1 = nvram_view s" "pending s1 = pending s"
    using nvram_safe_get_var [OF assms(1) var] assms(3) by metis
  have len: "length (acl_mac e) = 17" "length mac = 17" and v60: "length ?var < 60"
    using assms(6) var arg_cong [OF assms(7), of length] by (auto simp: acl_ok_def scToUppers_def var_name_def)
  have nz: "take 17 mac \<noteq> ''00:00:00:00:00:00''" using len assms(8) by simp
  have lit: "fmt_d 0 = ''0''" "fmt_d 1 = ''1''" by code_simp+
  have unit: "acl_mac e @ '','' @ acl_name e @ '','' @ fmt_d ?u = acl_unit e"
    by (simp add: acl_unit_def lit)
  have unit40: "length (acl_unit e) < 40" using length_acl_unit [OF assms(6)] by simp
  obtain n where scan: "acl_scan (acl_mac e) 0 0 (acl_text es) = Some
    (if \<exists>x \<in> set es. acl_mac x = acl_mac e
     then (Some (length (acl_text (takeWhile (\<lambda>x. acl_mac x \<noteq> acl_mac e) es)),
             CHR '';'' # acl_text (tl (dropWhile (\<lambda>x. acl_mac x \<noteq> acl_mac e) es))), n)
     else (None, length es))"
    using acl_scan_text [OF assms(4) len(1), of 0 0] unfolding add_0 by blast
  show ?thesis
  proof (cases "acl_put e es")
    case None
    then have "\<not> (\<exists>x \<in> set es. acl_mac x = acl_mac e)" "20 \<le> length es" by (auto simp: acl_put_def split: if_splits)
    then show ?thesis using None s1 scan v60 nz assms(7) by (simp add: apCfgAclAdd_def)
  next
    case (Some fs)
    have fs: "\<forall>x \<in> set fs. acl_ok x" "length fs \<le> 20" using acl_put_ok [OF Some assms(6,4,5)] by simp_all
    then have shape: "cstr_ok (acl_text fs)" "length (acl_text fs) \<le> 740" using acl_text_ok [of fs] by auto
    then have "client_value (acl_text fs)" by (simp add: client_value_def)
    from updates_write_var [OF s1(2) var this, of "[vap_item unit bss]"] obtain s2 where
      s2: "write_var ?var (acl_text fs) [vap_item unit bss] s1 = Some (A_OK, s2)"
      "nvram_view s2 = (nvram_view s)(?var := acl_text fs)" "pending s2 = pending s @ [vap_item unit bss]"
      using vap_item_ok [OF assms(2)] s1(3,4) unfolding updates_def by auto
    have "apCfgAclAdd unit bss mac (acl_name e) ?u s = Some (A_OK, s2)"
    proof (cases "\<exists>x \<in> set es. acl_mac x = acl_mac e")
      case True
      from acl_split [OF True] obtain pre x post where sp: "es = pre @ x # post"
        "takeWhile (\<lambda>x. acl_mac x \<noteq> acl_mac e) es = pre" "tl (dropWhile (\<lambda>x. acl_mac x \<noteq> acl_mac e) es) = post"
        by metis
      have "fs = pre @ e # post" using Some True unfolding acl_put_def sp(2,3) by simp
      then have final: "take (length (acl_text pre)) (acl_text es) @ acl_unit e @ CHR '';'' # acl_text post = acl_text fs"
        by (simp add: sp(1))
      have "length (acl_text fs) < 256 * 40" using shape(2) by simp
      then show ?thesis
        using s1(1) s2(1) scan True v60 nz unit40 unit sp(2,3) final
        by (simp add: apCfgAclAdd_def assms(7))
    next
      case False
      then have "acl_text fs = acl_text es @ acl_unit e @ '';''" "length es < 20"
        using Some by (auto simp: acl_put_def split: if_splits)
      moreover have "length (acl_text fs) < 256 * 40" using shape(2) by simp
      ultimately show ?thesis
        using s1(1) s2(1) scan False v60 nz unit40 unit by (simp add: apCfgAclAdd_def assms(7))
    qed
    then show ?thesis using Some s2 acl_parse_text [OF fs(1)] by simp
  qed
qed

text \<open>C26. Deleting a station removes its first entry, or reports that there is none and changes nothing.
\<close>

theorem acl_del_correct:
  assumes "cfg_inv s" "vap_ok unit bss" "nvram_view s (ssid_name unit bss ''_acl_list'') = acl_text es"
    and "\<forall>x \<in> set es. acl_ok x" "length es \<le> 20" "length mac = 17"
  shows "case acl_remove (scToUppers mac) es of
      None \<Rightarrow> \<exists>s'. apCfgAclDel unit bss mac s = Some (A_ENOENT, s') \<and> nvram_view s' = nvram_view s \<and> pending s' = pending s
    | Some fs \<Rightarrow> \<exists>s'. apCfgAclDel unit bss mac s = Some (A_OK, s') \<and>
        nvram_view s' = (nvram_view s)(ssid_name unit bss ''_acl_list'' := acl_text fs) \<and>
        pending s' = pending s @ [vap_item unit bss] \<and> acl_parse (acl_text fs) = Some fs"
proof -
  let ?var = "ssid_name unit bss ''_acl_list''" and ?mac = "scToUppers mac"
  note var = acl_name_ok [OF assms(2)]
  obtain s1 where s1: "nvram_safe_get ?var s = Some (acl_text es, s1)" "cfg_inv s1"
    "nvram_view s1 = nvram_view s" "pending s1 = pending s"
    using nvram_safe_get_var [OF assms(1) var] assms(3) by metis
  have v60: "length ?var < 60" using var by (simp add: var_name_def)
  have "length ?mac = 17" using assms(6) by (simp add: scToUppers_def)
  note scan = acl_del_scan_text [OF assms(4) this, of 0]
  show ?thesis
  proof (cases "\<exists>x \<in> set es. acl_mac x = ?mac")
    case False
    then show ?thesis using s1 scan v60 by (auto simp: apCfgAclDel_def acl_remove_def)
  next
    case True
    from acl_split [OF True] obtain pre x post where sp: "es = pre @ x # post"
      "takeWhile (\<lambda>x. acl_mac x \<noteq> ?mac) es = pre" "tl (dropWhile (\<lambda>x. acl_mac x \<noteq> ?mac) es) = post"
      by metis
    let ?fs = "pre @ post"
    have fs: "\<forall>x \<in> set ?fs. acl_ok x" "length ?fs \<le> 20" using assms(4,5) sp(1) by auto
    then have shape: "cstr_ok (acl_text ?fs)" "length (acl_text ?fs) \<le> 740" using acl_text_ok [of ?fs] by auto
    then have "client_value (acl_text ?fs)" by (simp add: client_value_def)
    from updates_write_var [OF s1(2) var this, of "[vap_item unit bss]"] obtain s2 where
      s2: "write_var ?var (acl_text ?fs) [vap_item unit bss] s1 = Some (A_OK, s2)"
      "nvram_view s2 = (nvram_view s)(?var := acl_text ?fs)" "pending s2 = pending s @ [vap_item unit bss]"
      using vap_item_ok [OF assms(2)] s1(3,4) unfolding updates_def by auto
    have "length (acl_text ?fs) < 256 * 40" using shape(2) by simp
    moreover have "take (length (acl_text pre)) (acl_text es) @ acl_text post = acl_text ?fs" using sp(1) by simp
    ultimately have "apCfgAclDel unit bss mac s = Some (A_OK, s2)"
      using s1(1) s2(1) scan True v60 sp(2,3) by (simp add: apCfgAclDel_def)
    then show ?thesis
      using True s2 acl_parse_text [OF fs(1)] sp(2,3) by (simp add: acl_remove_def)
  qed
qed

definition ex_station :: acl_entry where
  "ex_station = \<lparr>acl_name = ''pc'', acl_mac = ''00:11:22:AA:BB:CC'', acl_used = True\<rparr>"

lemma ex_station_ok: "acl_ok ex_station" "scToUppers ''00:11:22:aa:bb:cc'' = acl_mac ex_station"
  "length ''00:11:22:aa:bb:cc'' = 17" "''00:11:22:aa:bb:cc'' \<noteq> ''00:00:00:00:00:00''"
  by (simp_all add: acl_ok_def ex_station_def) (code_simp)

lemma ex_acl: "vap_ok 0 1" "nvram_view ex_ap (ssid_name 0 1 ''_acl_list'') = acl_text []"
  using fmt_d_no_eq [of 1] fmt_d_no_eq [of 0] by (simp_all add: vap_ok_def ex_ap_view ssid_name_def)

theorem acl_add_correct_witness:
  "\<exists>s'. apCfgAclAdd 0 1 ''00:11:22:aa:bb:cc'' ''pc'' 1 ex_ap = Some (A_OK, s') \<and>
     nvram_view s' (ssid_name 0 1 ''_acl_list'') = acl_text [ex_station]"
  using acl_add_correct [OF ex_ap_inv ex_acl _ _ ex_station_ok(1,2,4)] by (auto simp: acl_put_def ex_station_def)

theorem acl_del_correct_witness:
  "\<exists>s'. apCfgAclDel 0 1 ''00:11:22:aa:bb:cc'' ex_ap = Some (A_ENOENT, s') \<and> nvram_view s' = nvram_view ex_ap"
  using acl_del_correct [OF ex_ap_inv ex_acl _ _ ex_station_ok(3)] by (auto simp: acl_remove_def)

end
