(* ===== verification/Util_Sys.thy ===== *)
theory Util_Sys
  imports Util_Country Apcfg_Services Util_Conv
begin

text \<open>
  What the library reads from the system (\<open>src/src/apps/apps_sc/libs/libutility/utility.c\<close>): the product's
  name and versions, the state of the Ethernet port and of the interfaces, the transmit power, and the
  message file of the command agent. Every one of them reads a file the firmware or the kernel provides.
\<close>

subsection \<open>Names and versions\<close>

definition COMMAND :: "cstr \<Rightarrow> 'a host_scheme \<Rightarrow> 'a host_scheme" where
  "COMMAND cmd s = (let buf = take 1023 cmd in f_write ''/tmp/cmd_agent'' (buf @ replicate (1024 - length buf) NUL) s)"

definition getProductName :: cstr where "getProductName = ''WAP4410N''"
definition getProductDesc :: cstr where "getProductDesc = ''Wireless-N Access Point with PoE''"

text \<open>\<open>line\<close> is cleared before the file is read.\<close>

definition read_hex_file :: "string \<Rightarrow> 'a host_scheme \<Rightarrow> nat" where
  "read_hex_file path s =
     (case files s path of
        None \<Rightarrow> 0
      | Some b \<Rightarrow> (case scan_x (takeWhile (\<lambda>c. c \<noteq> NUL) (fst (c_fgets 15 b))) of Some d \<Rightarrow> d | None \<Rightarrow> 0))"

text \<open>\<open>sprintf (buffer, "%s%s", buffer, t)\<close> is taken to append.\<close>

definition getPid :: "'a host_scheme \<Rightarrow> cstr" where
  "getPid s = ''WAP4410N-'' @ (if read_hex_file hw_domain s = SKU_US then ''A'' else ''E'')"

definition getHwVersion :: "'a host_scheme \<Rightarrow> cstr" where
  "getHwVersion s = getPid s @ (if read_hex_file ''/tmp/hw_info/hwv'' s = 0x13 then '' V02'' else '' V01'')"

text \<open>The destination has \<open>n\<close> bytes and is left alone, \<open>Some None\<close>, when there is no version file. A
  version of less than three characters leaves \<open>buf[3]\<close> uninitialised; without an extra version
  \<open>ext[len - 1]\<close> is read in front of the array.\<close>

definition getVersion :: "nat \<Rightarrow> 'a host_scheme \<Rightarrow> cstr option option" where
  "getVersion n s =
     (case files s ''/etc/fwversion'' of
        None \<Rightarrow> Some None
      | Some b \<Rightarrow> do {
          buf \<leftarrow> first_line 15 b;
          let buf = buf @ [NUL];
          if length buf < 4 then None
          else do {
            let ext = (case files s ''/etc/extra_version'' of None \<Rightarrow> [] | Some e \<Rightarrow> c_read (take 31 e @ [NUL]));
            if ext = [] then None
            else do {
              let ext = (if last ext = CHR 0x0A then butlast ext else ext);
              let v = c_read ([buf ! 0] @ ''.'' @ [buf ! 1]) @ ''.'' @
                (if buf ! 2 = CHR ''0'' then c_read [buf ! 3] else c_read (take 2 (drop 2 buf)));
              v \<leftarrow> into_buf n (if ext \<noteq> [] then v @ ''.'' @ ext else v);
              Some (Some v)
            }
          }
        })"

definition getVersion2 :: "'a host_scheme \<Rightarrow> 16 word option" where
  "getVersion2 s =
     (case files s ''/etc/fwversion'' of
        None \<Rightarrow> Some 0
      | Some b \<Rightarrow> do {
          buf \<leftarrow> first_line 15 b;
          Some (case scan_x (take 4 buf) of Some v \<Rightarrow> of_nat v | None \<Rightarrow> 0)
        })"

text \<open>2: failed, 1: connected, 0: disconnected.\<close>

definition getEthernetStatus :: "'a host_scheme \<Rightarrow> int option" where
  "getEthernetStatus s =
     (case files s ''/proc/ethernet_status_cfb'' of
        None \<Rightarrow> Some 2
      | Some b \<Rightarrow> do {
          buf \<leftarrow> first_line 15 b;
          Some (if c_strstr buf ''Status=0'' = None then (if c_strstr buf ''Status=1'' = None then 2 else 1) else 0)
        })"

text \<open>\<open>fscanf (fp, "%d dBm", ...)\<close>.\<close>

definition scMaxTxPowerGet :: "'a host_scheme \<Rightarrow> int" where
  "scMaxTxPowerGet s =
     (case files s ''/tmp/maxpwr_curr'' of None \<Rightarrow> 0 | Some b \<Rightarrow> atoi (takeWhile (\<lambda>c. c \<noteq> NUL) b))"

subsection \<open>Interfaces\<close>

text \<open>\<open>if_info_t\<close>; a field that no request has filled has no value.\<close>

record if_info =
  ii_ifname :: cstr
  ii_ipaddr :: "cstr option"
  ii_mac :: "cstr option"
  ii_mask :: "cstr option"
  ii_gw :: "32 word"
  ii_mtu :: "int option"

text \<open>\<open>"%02hhX:..."\<close> of the six bytes of the hardware address.\<close>

definition mac_format :: "8 word list \<Rightarrow> cstr option" where
  "mac_format m = (if length m < 6 then None else Some (mac_join (CHR '':'') (take 6 m)))"

text \<open>\<open>sscanf (line, "%*s\t00000000\t%lx", &gw)\<close>: whether it stops the loop, and the value.\<close>

definition scan_route :: "cstr \<Rightarrow> bool \<times> nat option" where
  "scan_route line =
     (let a = dropWhile (\<lambda>c. \<not> c_isspace c) (dropWhile c_isspace line);
          b = dropWhile c_isspace a in
      if b = [] then (True, None)
      else if take 8 b \<noteq> ''00000000'' then (False, None)
      else (case scan_x (drop 8 b) of
          Some v \<Rightarrow> (True, Some v)
        | None \<Rightarrow> (dropWhile c_isspace (drop 8 b) = [], None)))"

fun route_gw :: "cstr \<Rightarrow> cstr list \<Rightarrow> 32 word" where
  "route_gw if_name [] = 0"
| "route_gw if_name (line # lines) =
     (if c_strstr line if_name = None then route_gw if_name lines
      else case scan_route line of
        (True, Some v) \<Rightarrow> of_nat v
      | (True, None) \<Rightarrow> 0
      | (False, _) \<Rightarrow> route_gw if_name lines)"

definition getIFInfo :: "cstr \<Rightarrow> 'a host_scheme \<Rightarrow> ((int \<times> if_info) \<times> 'a host_scheme) option" where
  "getIFInfo if_name s = do {
     ifname \<leftarrow> into_buf 16 if_name;
     let i = ifaces s ifname;
     let ip = map_option inet_ntoa (if_addr i);
     mac \<leftarrow> (case if_hwaddr i of None \<Rightarrow> Some None | Some m \<Rightarrow> map_option Some (mac_format m));
     let mask = map_option inet_ntoa (if_netmask i);
     let ret = (if ip = None \<or> mac = None \<or> mask = None \<or> if_mtu i = None then -1
                else if ip = Some ''10.64.64.64'' then -2 else 0 :: int);
     (dhcp, s) \<leftarrow> apCfgDhcpEnableGet s;
     (gw, s) \<leftarrow> (if dhcp = 0 then apCfgGatewayAddrGet s else Some (1, s));
     let gw = (if dhcp = 0 \<and> gw = 0 then 0
               else case files s ''/proc/net/route'' of None \<Rightarrow> 0 | Some b \<Rightarrow> route_gw if_name (fgets_all 255 b));
     Some ((ret, \<lparr>ii_ifname = ifname, ii_ipaddr = ip, ii_mac = mac, ii_mask = mask, ii_gw = gw, ii_mtu = if_mtu i\<rparr>), s)
   }"

text \<open>The bridge of the management VLAN, by the second line of the file.\<close>

definition mgt_bridge :: "'a host_scheme \<Rightarrow> cstr option" where
  "mgt_bridge s =
     (case files s ''/tmp/vlan.conf'' of
        None \<Rightarrow> Some ''br0''
      | Some b \<Rightarrow>
          (case fgets_all 63 b of
             [] \<Rightarrow> None
           | [l] \<Rightarrow> Some (''br'' @ fmt_d (atoi l))
           | _ # l # _ \<Rightarrow> Some (''br'' @ fmt_d (atoi l))))"

definition getMgtBrInfo :: "'a host_scheme \<Rightarrow> ((int \<times> if_info) \<times> 'a host_scheme) option" where
  "getMgtBrInfo s = do {
     name \<leftarrow> mgt_bridge s;
     ifName \<leftarrow> into_buf 16 name;
     getIFInfo ifName s
   }"

definition libGetAPMacAddress :: "'a host_scheme \<Rightarrow> cstr option option" where
  "libGetAPMacAddress s =
     (case if_hwaddr (ifaces s ''wifi0'') of None \<Rightarrow> Some None | Some m \<Rightarrow> map_option Some (mac_format m))"

text \<open>The counters of one line of \<open>/proc/net/dev\<close>, by their position.\<close>

record if_adv_info =
  ia_ifname :: cstr
  ia_rx_packets :: nat
  ia_tx_packets :: nat
  ia_rx_bytes :: nat
  ia_tx_bytes :: nat
  ia_errors :: nat
  ia_dropped :: nat

function scan_nums :: "nat \<Rightarrow> cstr \<Rightarrow> nat list" where
  "scan_nums 0 s = []"
| "scan_nums (Suc n) s =
     (let t = dropWhile c_isspace s; d = takeWhile c_isdigit t in
      if d = [] then [] else digits_val 0 d # scan_nums n (dropWhile c_isdigit t))"
  by pat_completeness auto
termination by (relation "measure fst") auto

definition dev_field :: "nat list \<Rightarrow> nat \<Rightarrow> nat \<Rightarrow> nat" where
  "dev_field v w i = (if i < length v then v ! i mod 2 ^ w else 0)"

fun dev_scan :: "cstr \<Rightarrow> cstr list \<Rightarrow> (int \<times> if_adv_info option) option" where
  "dev_scan if_name [] = Some (1, None)"
| "dev_scan if_name (line # lines) =
     (if CHR '':'' \<notin> set line then None
      else do {
        name \<leftarrow> into_buf 128 (filter (\<lambda>c. \<not> c_isspace c) (takeWhile (\<lambda>c. c \<noteq> CHR '':'') line));
        if name = if_name then do {
          ifname \<leftarrow> into_buf 16 name;
          let v = scan_nums 16 (tl (dropWhile (\<lambda>c. c \<noteq> CHR '':'') line));
          Some (0, Some \<lparr>ia_ifname = ifname, ia_rx_packets = dev_field v 64 1, ia_tx_packets = dev_field v 64 9,
            ia_rx_bytes = dev_field v 64 0, ia_tx_bytes = dev_field v 64 8, ia_errors = dev_field v 32 2,
            ia_dropped = dev_field v 32 3\<rparr>)
        } else dev_scan if_name lines
      })"

definition getIFAdvInfo :: "cstr \<Rightarrow> 'a host_scheme \<Rightarrow> (int \<times> if_adv_info option) option" where
  "getIFAdvInfo if_name s =
     (case files s ''/proc/net/dev'' of None \<Rightarrow> Some (- 1, None) | Some b \<Rightarrow> dev_scan if_name (drop 2 (fgets_all 1023 b)))"

end
