(* ===== verification/Wifi_Script.thy ===== *)
theory Wifi_Script
  imports Apcfg_Acl Util_Sys
begin

text \<open>
  The wireless configuration scripts of \<open>src/src/apps/apps_sc/libs/libapcfg/wifiuti.c\<close>, first part: the
  script file itself, the file for the Wi-Fi setup daemon, the correction of the channel, and the basic,
  advanced, access-list and bridge-link (WDS) parts of an access point's script.

  A script file is a name, or none: with \<open>NULL\<close> for a name \<open>fopen\<close> fails and the line is lost. A setting the code
  reads several times without writing in between is read once. What a command that the code waits
  for does to the files is the parameter \<open>sh_fx\<close> of the host.
\<close>

subsection \<open>Script files\<close>

definition ATH_SCRIPT_DEL :: "string \<Rightarrow> 'a host_scheme \<Rightarrow> 'a host_scheme" where
  "ATH_SCRIPT_DEL scriptFile s = f_unlink scriptFile s"

definition ATH_SCRIPT_ADD :: "string option \<Rightarrow> cstr \<Rightarrow> 'a host_scheme \<Rightarrow> 'a host_scheme" where
  "ATH_SCRIPT_ADD scriptFile line s =
     (case scriptFile of None \<Rightarrow> s | Some f \<Rightarrow> f_append f (line @ [CHR 0x0A]) s)"

text \<open>Consecutive calls.\<close>

definition script :: "string option \<Rightarrow> cstr list \<Rightarrow> 'a host_scheme \<Rightarrow> 'a host_scheme" where
  "script scriptFile = fold (ATH_SCRIPT_ADD scriptFile)"

text \<open>The mode given to \<open>chmod\<close> is not part of the model: the command is taken to run.\<close>

definition ATH_SCRIPT_RUN :: "string \<Rightarrow> 'a host_scheme \<Rightarrow> 'a host_scheme" where
  "ATH_SCRIPT_RUN scriptFile s = sh_run scriptFile s"

definition vap_str :: "int \<Rightarrow> int \<Rightarrow> cstr" where
  "vap_str unit vap = ''ath'' @ fmt_d unit @ fmt_d vap"

definition quiet :: "cstr \<Rightarrow> cstr" where
  "quiet cmd = cmd @ '' > /dev/null 2>&1''"

definition iwpriv :: "cstr \<Rightarrow> cstr \<Rightarrow> cstr" where
  "iwpriv vapStr arg = quiet (''iwpriv '' @ vapStr @ '' '' @ arg)"

definition c_bool :: "bool \<Rightarrow> cstr" where
  "c_bool b = (if b then ''1'' else ''0'')"

definition quoted :: "cstr \<Rightarrow> cstr" where
  "quoted t = [CHR 0x22] @ t @ [CHR 0x22]"

subsection \<open>The Wi-Fi setup file\<close>

record userconfig =
  uc_ssid :: cstr
  uc_authtype :: int
  uc_encrytype :: int
  uc_keyindex :: int
  uc_networkkey :: cstr

definition u_char :: "int \<Rightarrow> char" where
  "u_char v = char_of (nat (v mod 256))"

text \<open>The bytes of the structure, cleared before it is filled.\<close>

definition wr_userconfig :: "userconfig \<Rightarrow> bytes" where
  "wr_userconfig u =
     uc_ssid u @ replicate (33 - length (uc_ssid u)) NUL @
     [u_char (uc_authtype u), u_char (uc_encrytype u), u_char (uc_keyindex u)] @
     uc_networkkey u @ replicate (128 - length (uc_networkkey u)) NUL"

definition wsc_cipher :: "int \<Rightarrow> int" where
  "wsc_cipher c = (if c = WPA_CIPHER_AES then 8 else 4)"

definition wlanCreatWscConfig :: "int \<Rightarrow> int \<Rightarrow> 'a host_scheme \<Rightarrow> 'a host_scheme option" where
  "wlanCreatWscConfig unit vap s = do {
     (ssid, s) \<leftarrow> apCfgSsidGet unit vap s;
     ssid \<leftarrow> into_buf 33 ssid;
     (authType, s) \<leftarrow> apCfgAuthTypeGet unit vap s;
     (u, s) \<leftarrow>
       (if authType \<in> {APCFG_AUTH_OPEN_SYSTEM, APCFG_AUTH_SHARED_KEY, APCFG_AUTH_AUTO} then do {
          (k, s) \<leftarrow> apCfgDefKeyGet unit vap s;
          (key, s) \<leftarrow> apCfgKeyValGet unit vap k s;
          key \<leftarrow> into_buf 128 key;
          Some (\<lparr>uc_ssid = ssid,
            uc_authtype = (if authType = APCFG_AUTH_OPEN_SYSTEM then 1 else if authType = APCFG_AUTH_SHARED_KEY then 4 else 5),
            uc_encrytype = 2, uc_keyindex = k, uc_networkkey = key\<rparr>, s)
        }
        else if authType \<in> {APCFG_AUTH_WPAPSK, APCFG_AUTH_WPA2PSK, APCFG_AUTH_WPA_AUTO_PSK} then do {
          (c, s) \<leftarrow> apCfgWPACipherGet unit vap s;
          (key, s) \<leftarrow> apCfgPassphraseGet unit vap s;
          key \<leftarrow> into_buf 128 key;
          Some (\<lparr>uc_ssid = ssid, uc_authtype = (if authType = APCFG_AUTH_WPA2PSK then 32 else 2),
            uc_encrytype = wsc_cipher c, uc_keyindex = 1, uc_networkkey = key\<rparr>, s)
        }
        else if authType \<in> {APCFG_AUTH_WPA, APCFG_AUTH_WPA2, APCFG_AUTH_WPA_AUTO, APCFG_AUTH_DOT1X} then do {
          (c, s) \<leftarrow> apCfgWPACipherGet unit vap s;
          Some (\<lparr>uc_ssid = ssid,
            uc_authtype = (if authType = APCFG_AUTH_WPA2 then 16 else if authType = APCFG_AUTH_DOT1X then 64 else 8),
            uc_encrytype = wsc_cipher c, uc_keyindex = 1, uc_networkkey = []\<rparr>, s)
        }
        else Some (\<lparr>uc_ssid = ssid, uc_authtype = 1, uc_encrytype = 1, uc_keyindex = 1, uc_networkkey = []\<rparr>, s));
     fileName \<leftarrow> into_buf 32 (''/tmp/wscdata_'' @ fmt_d unit @ fmt_d vap @ ''.bin'');
     Some (f_write fileName (wr_userconfig u) s)
   }"

subsection \<open>The channel\<close>

definition CHAN_LIST :: string where "CHAN_LIST = ''/tmp/chan_list''"
definition CHAN_CURR :: string where "CHAN_CURR = ''/tmp/chan_curr''"

text \<open>The current channel and the last one before it in the driver's list.\<close>

fun chan_scan :: "cstr list \<Rightarrow> int \<Rightarrow> int \<times> int" where
  "chan_scan [] maxChan = (0, maxChan)"
| "chan_scan (l # ls) maxChan =
     (if l = ''available frequencies :'' @ [CHR 0x0A] then chan_scan ls maxChan
      else if l = ''current:'' @ [CHR 0x0A] then (case ls of [] \<Rightarrow> (atoi l, maxChan) | c # _ \<Rightarrow> (atoi c, maxChan))
      else chan_scan ls (atoi l))"

definition fix_channel :: "int \<Rightarrow> int \<Rightarrow> 'a host_scheme \<Rightarrow> 'a host_scheme option" where
  "fix_channel unit curChan s = do {
     (auto, s) \<leftarrow> apCfgAutoChannelGet unit s;
     if auto \<noteq> 0 then Some s
     else do {
       (chan, s) \<leftarrow> apCfgRadioChannelGet unit s;
       if chan = curChan then Some s
       else do {
         let s = sh_run ''scapply close'' s;
         (_, s) \<leftarrow> apCfgRadioChannelSet unit curChan s;
         Some (sh_run ''scapply open'' s)
       }
     }
   }"

definition fix_offset :: "int \<Rightarrow> bool \<Rightarrow> cstr \<Rightarrow> cstr \<Rightarrow> 'a host_scheme \<Rightarrow> 'a host_scheme option" where
  "fix_offset unit b old new s =
     (if b then do {
        (off, s) \<leftarrow> apCfgChannelOffsetGet unit s;
        if off = old then map_option snd (apCfgChannelOffsetSet unit new s) else Some s
      } else Some s)"

definition wlanCorrectChannelApply :: "int \<Rightarrow> 'a host_scheme \<Rightarrow> 'a host_scheme option" where
  "wlanCorrectChannelApply unit s = do {
     (width, s) \<leftarrow> apCfgChannelWidthModeGet unit s;
     if width = 0 then Some s
     else if \<not> f_exists CHAN_CURR s then Some s
     else case files s CHAN_LIST of
       None \<Rightarrow> Some s
     | Some b \<Rightarrow> do {
         let (curChan, maxChan) = chan_scan (fgets_all 31 b) 0;
         s \<leftarrow> fix_channel unit curChan s;
         (width, s) \<leftarrow> apCfgChannelWidthModeGet unit s;
         if width = 0 then Some s
         else do {
           s \<leftarrow> fix_offset unit (curChan - 1 < 4) ''-1'' ''1'' (sh_run ''scapply close'' s);
           s \<leftarrow> fix_offset unit (maxChan - curChan < 4) ''1'' ''-1'' s;
           Some (sh_run ''scapply open'' s)
         }
       }
   }"

subsection \<open>The basic part\<close>

text \<open>The interface at index \<open>WLAN_MAX_VAP\<close> is the station's, with the settings of the first access point.\<close>

definition cfg_vap :: "int \<Rightarrow> int" where
  "cfg_vap bss = (if bss = WLAN_MAX_VAP then 0 else bss)"

text \<open>The radio's mode and channel width.\<close>

definition basic_mode :: "string option \<Rightarrow> int \<Rightarrow> cstr \<Rightarrow> int \<Rightarrow> 'a host_scheme \<Rightarrow> 'a host_scheme option" where
  "basic_mode f unit v wirelessMode s =
     (if wirelessMode = MODE_SELECT_11B then Some (ATH_SCRIPT_ADD f (iwpriv v ''mode 11B'') s)
      else if wirelessMode = MODE_SELECT_11G \<or> wirelessMode = MODE_SELECT_11BG then
        Some (script f [iwpriv v ''mode 11G'', iwpriv v (''pureg '' @ c_bool (wirelessMode = MODE_SELECT_11G))] s)
      else do {
        (width, s) \<leftarrow> apCfgChannelWidthModeGet unit s;
        s \<leftarrow> (if width = 0 then
             Some (script f [iwpriv v ''mode 11NGHT20'', ''/usr/sbin/iwpriv '' @ v @ '' cwmmode 0''] s)
           else do {
             (off, s) \<leftarrow> apCfgChannelOffsetGet unit s;
             Some (script f [iwpriv v (''extoffset '' @ off),
               iwpriv v (if off = ''1'' then ''mode 11NGHT40PLUS'' else ''mode 11NGHT40MINUS''),
               ''/usr/sbin/iwpriv '' @ v @ '' cwmmode '' @ fmt_d width] s)
           });
        Some (script f [''iwpriv wifi'' @ fmt_d unit @ '' ForBiasAuto 1'',
          iwpriv v (''puren '' @ c_bool (wirelessMode = MODE_SELECT_11N)), iwpriv v ''pureg 0''] s)
      })"

definition wlanBasicApply :: "string option \<Rightarrow> int \<Rightarrow> int \<Rightarrow> bool \<Rightarrow> int \<Rightarrow> 'a host_scheme \<Rightarrow> 'a host_scheme option" where
  "wlanBasicApply f unit bss all sta s = do {
     (wirelessMode, s) \<leftarrow> apCfgFreqSpecGet unit s;
     let v = vap_str unit bss;
     let wifi = ''/usr/sbin/iwpriv wifi'' @ fmt_d unit;
     let s = script f [iwpriv v ''bgscan 0'', iwpriv v ''doth 0'', iwpriv v ''ff 0''] s;
     s \<leftarrow> (if cfg_vap bss = 0 \<or> all then do {
         let s = ATH_SCRIPT_ADD f (''/sbin/ifconfig '' @ v @ '' txqueuelen 1000'') s;
         (gi, s) \<leftarrow> scApCfgShortGIGet unit s;
         let s = script f [quiet (''/usr/sbin/iwpriv '' @ v @ '' shortgi '' @ c_bool (gi \<noteq> SHORTGI_LONG)),
           ''/usr/sbin/iwconfig '' @ v @ '' channel 0''] s;
         s \<leftarrow> basic_mode f unit v wirelessMode s;
         let s = ATH_SCRIPT_ADD f (wifi @ '' HALDbg 0'') s;
         (ampdu, s) \<leftarrow> scApCfgAmpduGet unit s;
         Some (script f [wifi @ '' AMPDU '' @ fmt_d ampdu, wifi @ '' AMPDUFrames 32'', wifi @ '' AMPDULim 50000'',
           wifi @ '' ANIEna 0'', wifi @ '' txchainmask 7'', wifi @ '' rxchainmask 7'',
           ''echo 1 > /proc/sys/dev/ath/htdupieenable''] s)
       }
       else Some (script f [iwpriv v (''pureg '' @ c_bool (wirelessMode = MODE_SELECT_11G)),
         iwpriv v (''puren '' @ c_bool (wirelessMode = MODE_SELECT_11N))] s));
     if sta = 1 then do {
       let s = ATH_SCRIPT_ADD f (''/usr/sbin/iwconfig '' @ v @ '' mode managed'') s;
       (mac, s) \<leftarrow> apCfgUcrRemoteApMacAddrGet 0 s;
       ucr_tmp \<leftarrow> into_buf 20 mac;
       Some (if ucr_tmp \<noteq> ''00:00:00:00:00:00'' then ATH_SCRIPT_ADD f (''/usr/sbin/iwconfig '' @ v @ '' ap '' @ ucr_tmp) s else s)
     }
     else if sta \<noteq> 0 then Some s
     else Some (case files s CHAN_CURR of
         None \<Rightarrow> s
       | Some b \<Rightarrow> (case fgets_all 128 b of
             [] \<Rightarrow> s
           | buffer # _ \<Rightarrow> ATH_SCRIPT_ADD f (''/usr/sbin/iwconfig '' @ v @ '' channel '' @ buffer) s))
   }"

subsection \<open>The advanced part\<close>

text \<open>The product of the number of access points and the beacon interval, an \<open>int\<close>.\<close>

definition wlanAdvanceApply :: "string option \<Rightarrow> int \<Rightarrow> int \<Rightarrow> bool \<Rightarrow> 'a host_scheme \<Rightarrow> 'a host_scheme option" where
  "wlanAdvanceApply f unit bss all s = do {
     let v = vap_str unit bss;
     (wme, s) \<leftarrow> apCfgWmeGet unit (if all then 0 else cfg_vap bss) s;
     let s = ATH_SCRIPT_ADD f (iwpriv v (''wmm '' @ c_bool (wme \<noteq> 0))) s;
     (ps, s) \<leftarrow> apCfgWmmpsGet unit (if all then 0 else cfg_vap bss) s;
     let s = ATH_SCRIPT_ADD f (iwpriv v (''uapsd '' @ c_bool (ps \<noteq> 0))) s;
     s \<leftarrow> (if cfg_vap bss = 0 \<or> all then do {
         (d, s) \<leftarrow> scApCfg80211dEnabledGet unit s;
         let s = ATH_SCRIPT_ADD f (iwpriv v (''countryie '' @ c_bool (d \<noteq> 0))) s;
         (a1, s) \<leftarrow> apCfgActiveModeGet unit 1 s;
         (a2, s) \<leftarrow> apCfgActiveModeGet unit 2 s;
         (a3, s) \<leftarrow> apCfgActiveModeGet unit 3 s;
         let vap_num = 1 + int (length (filter (\<lambda>a. a \<noteq> 0) [a1, a2, a3]));
         (bint, s) \<leftarrow> apCfgBeaconIntervalGet unit s;
         bintval \<leftarrow> c_int (vap_num * bint);
         let s = ATH_SCRIPT_ADD f (iwpriv v (''bintval '' @ fmt_d bintval)) s;
         (dtim, s) \<leftarrow> scApCfgDtimIntervalGet unit s;
         let s = ATH_SCRIPT_ADD f (iwpriv v (''dtim_period '' @ fmt_d dtim)) s;
         (me, s) \<leftarrow> apCfgMultiEnhanceGet s;
         Some (if me = 1 then ATH_SCRIPT_ADD f (iwpriv v ''mcastenhance 2'') s else s)
       } else Some s);
     (rts, s) \<leftarrow> apCfgRtsThresholdGet unit s;
     let s = ATH_SCRIPT_ADD f (quiet (''iwconfig '' @ v @ '' rts '' @ fmt_d rts)) s;
     (frag, s) \<leftarrow> apCfgFragThresholdGet unit s;
     let s = ATH_SCRIPT_ADD f (quiet (''iwconfig '' @ v @ '' frag '' @ fmt_d frag)) s;
     (cts, s) \<leftarrow> apCfgCTSModeGet unit s;
     Some (ATH_SCRIPT_ADD f (iwpriv v (''protmode '' @ fmt_d cts)) s)
   }"

subsection \<open>The access lists\<close>

definition acl_lines :: "cstr \<Rightarrow> acl_entry list \<Rightarrow> cstr list" where
  "acl_lines v es = map (\<lambda>e. iwpriv v (''addmac '' @ acl_mac e @ '' '')) (filter acl_used es)"

definition wlanAclApply :: "string option \<Rightarrow> int \<Rightarrow> int \<Rightarrow> 'a lib_scheme \<Rightarrow> 'a lib_scheme option" where
  "wlanAclApply f unit vap s = do {
     let v = vap_str unit vap;
     (m, s) \<leftarrow> apCfgAclModeGet unit vap s;
     if m = APCFG_ACL_LOCAL then do {
       let s = ATH_SCRIPT_ADD f (iwpriv v ''maccmd 3 '') s;
       (t, s) \<leftarrow> apCfgAclTypeGet unit vap s;
       let s = script f [iwpriv v (if t = 0 then ''maccmd 1 '' else ''maccmd 2 ''), iwpriv v ''maccmd 6 ''] s;
       (es, s) \<leftarrow> acl_wait unit vap s;
       scAclBufFree unit vap (script f (acl_lines v es) s)
     }
     else Some (script f [iwpriv v ''maccmd 3 '', iwpriv v ''maccmd 0 '',
       iwpriv v (if m = APCFG_ACL_RADIUS then ''maccmd 5 '' else ''maccmd 6 '')] s)
   }"

text \<open>One line of the list of interfaces, cut after five characters; a shorter one leaves the number of the
  access point on the stack.\<close>

definition acl_list_line :: "string option \<Rightarrow> cstr \<Rightarrow> 'a lib_scheme \<Rightarrow> 'a lib_scheme option" where
  "acl_list_line f l s =
     (if length l < 5 then None
      else do {
        let v = take 5 l;
        let vap = int (of_char (l ! 4)) - 48;
        let s = script f [iwpriv v ''maccmd 3 '', iwpriv v ''maccmd 1 '', iwpriv v ''maccmd 6 ''] s;
        (es, s) \<leftarrow> acl_wait 0 vap s;
        scAclBufFree 0 vap (script f (acl_lines v es) s)
      })"

primrec fold_opt :: "('x \<Rightarrow> 's \<Rightarrow> 's option) \<Rightarrow> 'x list \<Rightarrow> 's \<Rightarrow> 's option" where
  "fold_opt g [] s = Some s"
| "fold_opt g (x # xs) s = do { s \<leftarrow> g x s; fold_opt g xs s }"

definition wlanAclListApply :: "string option \<Rightarrow> 'a lib_scheme \<Rightarrow> 'a lib_scheme option" where
  "wlanAclListApply f s = do {
     (m, s) \<leftarrow> apCfgAclModeGet 0 0 s;
     if m \<noteq> APCFG_ACL_LOCAL then Some s
     else do {
       let s = sh_run ''iwconfig | grep ath | cut -b 1-5 > /tmp/vaplistx.tmp'' s;
       b \<leftarrow> files s ''/tmp/vaplistx.tmp'';
       s \<leftarrow> fold_opt (acl_list_line f) (fgets_all 63 b) s;
       Some (f_unlink ''/tmp/vaplistx.tmp'' s)
     }
   }"

subsection \<open>Bridge links\<close>

definition wds_peer :: "string option \<Rightarrow> int \<Rightarrow> cstr \<Rightarrow> nat \<Rightarrow> 'a host_scheme \<Rightarrow> 'a host_scheme option" where
  "wds_peer f unit v i s = do {
     (mac, s) \<leftarrow> apCfgRemoteWbrMacAddrGet unit i s;
     Some (if mac \<noteq> ''00:00:00:00:00:00'' then ATH_SCRIPT_ADD f (iwpriv v (''wds_add '' @ mac)) s else s)
   }"

definition wlanWdsApply :: "string option \<Rightarrow> int \<Rightarrow> int \<Rightarrow> 'a host_scheme \<Rightarrow> 'a host_scheme option" where
  "wlanWdsApply f unit vap_id s = do {
     let v = vap_str unit vap_id;
     let s = script f [iwpriv v ''wdstype 0'', iwpriv v ''wds_del FF:FF:FF:FF:FF:FF''] s;
     (m, s) \<leftarrow> apCfgOpModeGet unit s;
     let s = (if m = CFG_OP_MODE_PPT \<or> m = CFG_OP_MODE_MPT then ATH_SCRIPT_ADD f (iwpriv v ''wdstype 1'') s
              else if m = CFG_OP_MODE_AP_PTP \<or> m = CFG_OP_MODE_AP_PTMP then ATH_SCRIPT_ADD f (iwpriv v ''wdstype 2'') s
              else s);
     s \<leftarrow> (if m = CFG_OP_MODE_PPT \<or> m = CFG_OP_MODE_AP_PTP then do {
         (mac, s) \<leftarrow> apCfgRemoteApMacAddrGet unit s;
         mac \<leftarrow> into_buf 18 mac;
         Some (ATH_SCRIPT_ADD f (iwpriv v (''wds_add '' @ mac)) s)
       } else fold_opt (wds_peer f unit v) [0..<8] s);
     Some (ATH_SCRIPT_ADD f (iwpriv v ''wds 1'') s)
   }"

end
