(* ===== verification/Wifi_Channel.thy ===== *)
theory Wifi_Channel
  imports Wifi_Script
begin

text \<open>
  The correction of the channel settings after the driver has reported its channels. The settings are written
  while the apply is closed (\<open>scapply close\<close>), so the contract of the store is needed without the
  part about pending requests: \<open>steady\<close> is the invariant that holds whether or not the apply is closed.
\<close>

subsection \<open>The store, open or closed\<close>

definition steady :: "'a host_scheme \<Rightarrow> bool" where
  "steady s \<longleftrightarrow> client_inv s \<and> \<not> f_exists APL_PARSING s \<and>
     (\<forall>c f. \<forall>p \<in> {NVRAM_TMP_PATH, NVRAM_DEFAULT, APL_PARSING}. sh_fx s c f p = f p)"

lemma steady_files:
  assumes "steady s" "\<forall>p \<in> {NVRAM_TMP_PATH, NVRAM_DEFAULT, APL_PARSING}. files s' p = files s p"
    and "scfgd s' = scfgd s" "sh_fx s' = sh_fx s"
  shows "steady s'" "nvram_view s' = nvram_view s"
proof -
  have f: "files s' NVRAM_TMP_PATH = files s NVRAM_TMP_PATH" "files s' NVRAM_DEFAULT = files s NVRAM_DEFAULT"
    "files s' APL_PARSING = files s APL_PARSING"
    using assms(2) by simp_all
  then have "client_inv s'" using assms(1,3) client_inv_cong [of s' s] by (simp add: steady_def)
  then show "steady s'" using assms(1,4) f by (simp add: steady_def f_exists_def)
  show "nvram_view s' = nvram_view s" using f by (intro nvram_view_cong) auto
qed

lemma steady_get:
  assumes "steady s" "var_name n"
  obtains s' where "nvram_safe_get n s = Some (nvram_view s n, s')" "steady s'" "nvram_view s' = nvram_view s"
proof -
  obtain s' where s': "nvram_safe_get n s = Some (nvram_view s n, s')" "nvram_inv s'" "nvram_view s' = nvram_view s"
    "\<forall>p. p \<noteq> NVRAM_TMP_PATH \<longrightarrow> files s' p = files s p" "scfgd s' = scfgd s" "sh_fx s' = sh_fx s"
    using nvram_safe_get_refines [of s n] assms by (auto simp: steady_def client_inv_def var_name_def)
  then have "steady s'" using assms(1) by (simp add: steady_def client_inv_def f_exists_def)
  then show ?thesis using that s' by blast
qed

lemma steady_flags:
  "steady s \<Longrightarrow> \<forall>i \<in> set is. cfg_flag i \<Longrightarrow> \<exists>s'. apl_set_flags is s = Some s' \<and> steady s' \<and> nvram_view s' = nvram_view s"
proof (induction "is" arbitrary: s)
  case Nil
  then show ?case by simp
next
  case (Cons i "is")
  let ?t = "if f_exists APL_CLOSED s then s else f_append APL_FLAG (fmt_d (int i) @ [CHR 0x0A]) s"
  have "apl_set_flag i s = Some ?t"
    using Cons.prems by (simp add: apl_set_flag_def steady_def id_string_def idString_def cfg_flag_def)
  moreover have "steady ?t" "nvram_view ?t = nvram_view s"
    using steady_files [OF Cons.prems(1), of ?t] by (auto simp: f_append_def)
  ultimately show ?case using Cons.IH [of ?t] Cons.prems(2) by simp
qed

lemma steady_write:
  assumes "steady s" "var_name n" "client_value v" "\<forall>i \<in> set is. cfg_flag i"
  shows "\<exists>s'. write_var n v is s = Some (A_OK, s') \<and> steady s' \<and> nvram_view s' = (nvram_view s)(n := v)"
proof -
  obtain t where t: "scfgmgr_set n v s = Some (0, t)" "client_inv t" "nvram_view t = (nvram_view s)(n := v)"
    "\<forall>p. p \<noteq> NVRAM_TMP_PATH \<longrightarrow> files t p = files s p" "sh_fx t = sh_fx s"
    using scfgmgr_set_refines [of s n v] assms by (auto simp: steady_def var_name_client)
  then have "steady t" using assms(1) by (simp add: steady_def f_exists_def)
  then show ?thesis
    using steady_flags [OF _ assms(4), of t] t assms(2) by (auto simp: write_var_def set_var_def var_name_def)
qed

lemma steady_echo:
  "steady s \<Longrightarrow> path \<notin> {NVRAM_TMP_PATH, NVRAM_DEFAULT, APL_PARSING} \<Longrightarrow>
    steady (sh_echo_1 path s) \<and> nvram_view (sh_echo_1 path s) = nvram_view s"
  using steady_files [of s "sh_echo_1 path s"] by (auto simp: sh_echo_1_def)

lemma steady_run: "steady s \<Longrightarrow> steady (sh_run c s) \<and> nvram_view (sh_run c s) = nvram_view s"
  using steady_files [of s "sh_run c s"] by (simp add: steady_def)

subsection \<open>The two settings\<close>

definition chan_var :: cstr where "chan_var = wlan_name 0 ''_channel''"
definition off_var :: cstr where "off_var = wlan_name 0 ''_channel_offset''"

lemma chan_names: "var_name chan_var" "var_name off_var"
  "var_name (wlan_name 0 ''_channel_width'')" "var_name (wlan_name 0 ''_auto_channel'')"
  unfolding chan_var_def off_var_def by (rule var_name_wlan; simp)+

lemma chan_var_neq: "chan_var \<noteq> off_var"
  by (simp add: chan_var_def off_var_def wlan_name_def)

text \<open>The arrays of the two getters are large enough.\<close>

definition chan_fits :: "(cstr \<Rightarrow> cstr) \<Rightarrow> bool" where
  "chan_fits vw \<longleftrightarrow> length (vw chan_var) < 60 \<and> length (vw off_var) < 32"

lemma offset_get:
  assumes "steady s" "chan_fits (nvram_view s)"
  shows "\<exists>s'. apCfgChannelOffsetGet 0 s = Some (nvram_view s off_var, s') \<and> steady s' \<and> nvram_view s' = nvram_view s"
proof -
  obtain t where "nvram_safe_get off_var s = Some (nvram_view s off_var, t)" "steady t" "nvram_view t = nvram_view s"
    using steady_get [OF assms(1) chan_names(2)] .
  then show ?thesis using assms(2) chan_names(2)
    by (auto simp: apCfgChannelOffsetGet_def get_str_def off_var_def [symmetric] var_name_def chan_fits_def)
qed

lemma offset_set:
  assumes "steady s" "chan_fits (nvram_view s)" "p \<in> {''1'', ''-1''}"
  shows "\<exists>r s'. apCfgChannelOffsetSet 0 p s = Some (r, s') \<and> steady s' \<and> nvram_view s' = (nvram_view s)(off_var := p)"
proof -
  obtain t where t: "apCfgChannelOffsetGet 0 s = Some (nvram_view s off_var, t)" "steady t" "nvram_view t = nvram_view s"
    using offset_get [OF assms(1,2)] by blast
  have "client_value p" using assms(3) by (auto simp: client_value_def)
  from steady_write [OF t(2) chan_names(2) this, of "[APL_WLAN0]"] obtain u where
    u: "write_var off_var p [APL_WLAN0] t = Some (A_OK, u)" "steady u" "nvram_view u = (nvram_view s)(off_var := p)"
    using t(3) by auto
  have "steady (sh_echo_1 ''/tmp/apl_reload_mod'' u)" "nvram_view (sh_echo_1 ''/tmp/apl_reload_mod'' u) = nvram_view u"
    using steady_echo [OF u(2), of "''/tmp/apl_reload_mod''"] by (auto simp: nvram_paths apl_paths)
  then show ?thesis
    using t u assms(3)
    by (auto simp: apCfgChannelOffsetSet_def reject_if_def if_changed_def and_echo_def off_var_def [symmetric] fun_upd_idem)
qed

lemma channel_set:
  assumes "steady s" "chan_fits (nvram_view s)" "0 \<le> v" "v \<le> 14" "atoi (nvram_view s chan_var) \<noteq> v"
  shows "\<exists>r s'. apCfgRadioChannelSet 0 v s = Some (r, s') \<and> steady s' \<and>
    nvram_view s' = (nvram_view s)(chan_var := fmt_d v, off_var := if 5 \<le> v then ''-1'' else ''1'')"
proof -
  obtain t where t: "nvram_safe_get chan_var s = Some (nvram_view s chan_var, t)" "steady t" "nvram_view t = nvram_view s"
    using steady_get [OF assms(1) chan_names(1)] .
  have g: "apCfgRadioChannelGet 0 s = Some (atoi (nvram_view s chan_var), t)"
    using t(1) assms(2) chan_names(1)
    by (simp add: apCfgRadioChannelGet_def get_buf_atoi_def get_str_def chan_var_def [symmetric] var_name_def chan_fits_def)
  have len: "length (fmt_d v) \<le> 5" using assms(3,4) by (intro length_fmt_d_5) auto
  then have "client_value (fmt_d v)" by (simp add: client_value_def)
  from steady_write [OF t(2) chan_names(1) this, of "[APL_WLAN0]"] obtain u where
    u: "write_var chan_var (fmt_d v) [APL_WLAN0] t = Some (A_OK, u)" "steady u" "nvram_view u = (nvram_view s)(chan_var := fmt_d v)"
    using t(3) by auto
  let ?e = "sh_echo_1 ''/tmp/chan_config'' u"
  have e: "steady ?e" "nvram_view ?e = nvram_view u"
    using steady_echo [OF u(2), of "''/tmp/chan_config''"] by (auto simp: nvram_paths apl_paths)
  have "chan_fits (nvram_view ?e)" using assms(2) len e(2) u(3) chan_var_neq by (simp add: chan_fits_def)
  moreover have "(if 5 \<le> v then ''-1'' else ''1'') \<in> {''1'', ''-1''}" by simp
  ultimately obtain r w where
    w: "apCfgChannelOffsetSet 0 (if 5 \<le> v then ''-1'' else ''1'') ?e = Some (r, w)" "steady w"
      "nvram_view w = (nvram_view ?e)(off_var := if 5 \<le> v then ''-1'' else ''1'')"
    using offset_set [OF e(1)] by blast
  have "apCfgRadioChannelSet 0 v s = Some (A_OK, w)"
    using assms(3-5) g u(1) w(1) len
    by (simp add: apCfgRadioChannelSet_def reject_if_def if_changed_def and_then_def and_echo_def write_int_def
        chan_var_def [symmetric])
  then show ?thesis using w(2,3) e(2) u(3) by auto
qed

subsection \<open>The correction\<close>

lemma fix_offset_steady:
  assumes "steady s" "chan_fits (nvram_view s)" "new \<in> {''1'', ''-1''}"
  shows "\<exists>s'. fix_offset 0 b old new s = Some s' \<and> steady s' \<and>
    nvram_view s' = (if b \<and> nvram_view s off_var = old then (nvram_view s)(off_var := new) else nvram_view s)"
proof (cases b)
  case True
  obtain t where t: "apCfgChannelOffsetGet 0 s = Some (nvram_view s off_var, t)" "steady t" "nvram_view t = nvram_view s"
    using offset_get [OF assms(1,2)] by blast
  obtain r u where "apCfgChannelOffsetSet 0 new t = Some (r, u)" "steady u" "nvram_view u = (nvram_view s)(off_var := new)"
    using offset_set [OF t(2) _ assms(3)] assms(2) t(3) by auto
  then show ?thesis using t True by (auto simp: fix_offset_def)
qed (use assms(1) in \<open>simp add: fix_offset_def\<close>)

text \<open>The settings after the channel itself has been corrected.\<close>

definition set_channel :: "int \<Rightarrow> (cstr \<Rightarrow> cstr) \<Rightarrow> cstr \<Rightarrow> cstr" where
  "set_channel cur vw =
     (if vw (wlan_name 0 ''_auto_channel'') \<noteq> ENABLE \<and> atoi (vw chan_var) \<noteq> cur
      then vw(chan_var := fmt_d cur, off_var := if 5 \<le> cur then ''-1'' else ''1'') else vw)"

lemma fix_channel_steady:
  assumes "steady s" "chan_fits (nvram_view s)" "0 \<le> cur" "cur \<le> 14"
  shows "\<exists>s'. fix_channel 0 cur s = Some s' \<and> steady s' \<and> nvram_view s' = set_channel cur (nvram_view s)"
proof -
  let ?auto = "wlan_name 0 ''_auto_channel''"
  obtain t where t: "nvram_safe_get ?auto s = Some (nvram_view s ?auto, t)" "steady t" "nvram_view t = nvram_view s"
    using steady_get [OF assms(1) chan_names(4)] .
  have g: "apCfgAutoChannelGet 0 s = Some (if nvram_view s ?auto = ENABLE then 1 else 0, t)"
    using t(1) chan_names(4) by (simp add: apCfgAutoChannelGet_def get_bool_def var_name_def)
  obtain u where u: "nvram_safe_get chan_var t = Some (nvram_view s chan_var, u)" "steady u" "nvram_view u = nvram_view s"
    using steady_get [OF t(2) chan_names(1)] unfolding t(3) .
  have h: "apCfgRadioChannelGet 0 t = Some (atoi (nvram_view s chan_var), u)"
    using u(1) assms(2) chan_names(1)
    by (simp add: apCfgRadioChannelGet_def get_buf_atoi_def get_str_def chan_var_def [symmetric] var_name_def chan_fits_def)
  show ?thesis
  proof (cases "nvram_view s ?auto \<noteq> ENABLE \<and> atoi (nvram_view s chan_var) \<noteq> cur")
    case False
    then show ?thesis using g h t(2,3) u(2,3) by (auto simp: fix_channel_def set_channel_def)
  next
    case True
    let ?c = "sh_run ''scapply close'' u"
    have c: "steady ?c" "nvram_view ?c = nvram_view s" using steady_run [OF u(2)] u(3) by auto
    obtain r w where "apCfgRadioChannelSet 0 cur ?c = Some (r, w)" "steady w" "nvram_view w = set_channel cur (nvram_view s)"
      using channel_set [OF c(1) _ assms(3,4)] assms(2) True unfolding c(2) set_channel_def by auto
    then show ?thesis using g h True steady_run [of w "''scapply open''"] by (auto simp: fix_channel_def)
  qed
qed

text \<open>A channel width other than 20 MHz.\<close>

definition wide :: "(cstr \<Rightarrow> cstr) \<Rightarrow> bool" where
  "wide vw \<longleftrightarrow> vw (wlan_name 0 ''_channel_width'') \<noteq> ''CWM_MODE_20M''"

lemma width_get:
  assumes "steady s"
  shows "\<exists>w s'. apCfgChannelWidthModeGet 0 s = Some (w, s') \<and> (w \<noteq> 0 \<longleftrightarrow> wide (nvram_view s)) \<and> steady s' \<and>
    nvram_view s' = nvram_view s \<and> (\<forall>p. p \<noteq> NVRAM_TMP_PATH \<longrightarrow> files s' p = files s p)"
proof -
  let ?n = "wlan_name 0 ''_channel_width''"
  obtain t where t: "nvram_safe_get ?n s = Some (nvram_view s ?n, t)" "nvram_inv t" "nvram_view t = nvram_view s"
    "\<forall>p. p \<noteq> NVRAM_TMP_PATH \<longrightarrow> files t p = files s p" "scfgd t = scfgd s" "sh_fx t = sh_fx s"
    using nvram_safe_get_refines [of s ?n] assms chan_names(3) by (auto simp: steady_def client_inv_def var_name_def)
  then have "steady t" using assms by (simp add: steady_def client_inv_def f_exists_def)
  then show ?thesis using t chan_names(3)
    by (auto simp: apCfgChannelWidthModeGet_def get_word_def var_name_def wide_def)
qed


definition ex_chan_list :: bytes where
  "ex_chan_list = ''available frequencies :'' @ [CHR 0x0A] @ ''1'' @ [CHR 0x0A] @ ''11'' @ [CHR 0x0A] @ ''current:'' @
     [CHR 0x0A] @ ''3'' @ [CHR 0x0A]"

definition ex_radio :: host where
  "ex_radio = f_write CHAN_CURR ''3'' (f_write CHAN_LIST ex_chan_list ex_ap)"

lemma ex_chan_scan: "chan_scan (fgets_all 31 ex_chan_list) 0 = (3, 11)"
  by code_simp

lemma ex_radio_steady: "steady ex_radio" "nvram_view ex_radio = nvram_view ex_ap"
proof -
  have "steady ex_ap" using ex_ap_inv by (simp add: steady_def cfg_inv_def ex_ap_def ex_cfg_def ex_host_def)
  then show "steady ex_radio" "nvram_view ex_radio = nvram_view ex_ap"
    using steady_files [of ex_ap ex_radio] by (auto simp: ex_radio_def CHAN_LIST_def CHAN_CURR_def nvram_paths apl_paths)
qed


end
