(* ===== verification/Wifi_Security.thy ===== *)
theory Wifi_Security
  imports Wifi_Script
begin

text \<open>
  The security part of an access point's script and the configuration it writes for the authenticator
  \<open>hostapd\<close> (\<open>wlanSecurityApply\<close> and \<open>wlanNoApSecurityApply\<close> in
  \<open>src/src/apps/apps_sc/libs/libapcfg/wifiuti.c\<close>). The two branches of \<open>wlanSecurityApply\<close> repeat the same
  statements; they are given once each here. Messages to the system log are not part of the model.
\<close>

subsection \<open>The network's name and its WEP key\<close>

text \<open>The name is converted into \<open>char vapSsid[64 + 1]\<close>.\<close>

definition sec_ssid :: "string option \<Rightarrow> int \<Rightarrow> int \<Rightarrow> cstr \<Rightarrow> 'a host_scheme \<Rightarrow> 'a host_scheme option" where
  "sec_ssid f unit vap v s = do {
     (ssid, s) \<leftarrow> apCfgSsidGet unit vap s;
     vapSsid \<leftarrow> into_buf 65 (scConversionSSID ssid);
     let s = ATH_SCRIPT_ADD f (quiet (''iwconfig '' @ v @ '' essid '' @ quoted vapSsid)) s;
     (m, s) \<leftarrow> apCfgSsidModeGet unit vap s;
     Some (ATH_SCRIPT_ADD f (iwpriv v (''hide_ssid '' @ fmt_d m)) s)
   }"

definition sec_none :: "string option \<Rightarrow> cstr \<Rightarrow> 'a host_scheme \<Rightarrow> 'a host_scheme" where
  "sec_none f v s =
     script f [''/usr/sbin/iwconfig '' @ v @ '' key off'', iwpriv v ''authmode 1'', iwpriv v ''privacy 0''] s"

definition wep_key :: "string option \<Rightarrow> int \<Rightarrow> int \<Rightarrow> cstr \<Rightarrow> cstr \<Rightarrow> 'a host_scheme \<Rightarrow> 'a host_scheme option" where
  "wep_key f unit vap v prefix s = do {
     (k, s) \<leftarrow> apCfgDefKeyGet unit vap s;
     (key, s) \<leftarrow> apCfgKeyValGet unit vap k s;
     let slot = ''iwconfig '' @ v @ '' key '' @ quoted (''['' @ fmt_d k @ '']'');
     Some (script f [quiet (slot @ '' '' @ prefix @ key), quiet slot] s)
   }"

definition sec_wep :: "string option \<Rightarrow> int \<Rightarrow> int \<Rightarrow> cstr \<Rightarrow> int \<Rightarrow> 'a host_scheme \<Rightarrow> 'a host_scheme option" where
  "sec_wep f unit vap v authType s = do {
     let authmode = (if authType = APCFG_AUTH_AUTO then 4 else authType);
     let s = script f [iwpriv v (''authmode '' @ fmt_d authmode), iwpriv v ''privacy 1''] s;
     (m, s) \<leftarrow> apCfgKeyEntryMethodGet unit vap s;
     wep_key f unit vap v (if m = 0 then [] else ''s:'') s
   }"

subsection \<open>The topology of the authenticator\<close>

definition topology_lines :: "cstr \<Rightarrow> cstr \<Rightarrow> cstr list" where
  "topology_lines br v =
     [''bridge none'', ''{'', ''}'', ''bridge '' @ br, ''{'', ''    interface '' @ v, ''    interface eth0'', ''}'',
      ''radio wifi0'', ''{'', ''    ap '', replicate 4 (CHR 0x09) @ ''{'', ''        config /etc/wpa2/80211g.ap_radio'',
      ''        bss '' @ v, ''        {'', ''        config /var/hostap.cfg.'' @ v, ''        }'',
      ''            #couldbe# sta ath1'', ''        {'', ''        config /etc/wpa2/config1.sta'', ''        }'', ''}'']"

definition vap_bridge :: "int \<Rightarrow> int \<Rightarrow> 'a host_scheme \<Rightarrow> (cstr \<times> 'a host_scheme) option" where
  "vap_bridge unit vap s = do {
     (m, s) \<leftarrow> apCfgVlanModeGet s;
     if m \<noteq> 0 then do { (pvid, s) \<leftarrow> apCfgVlanPvidGet unit vap s; Some (''br'' @ fmt_d pvid, s) } else Some (''br0'', s)
   }"

definition mgt_vlan_bridge :: "'a host_scheme \<Rightarrow> (cstr \<times> 'a host_scheme) option" where
  "mgt_vlan_bridge s = do {
     (m, s) \<leftarrow> apCfgVlanModeGet s;
     if m \<noteq> 0 then do { (vid, s) \<leftarrow> apCfgManagementVlanIdGet s; Some (''br'' @ fmt_d vid, s) } else Some (''br0'', s)
   }"

definition write_topology :: "int \<Rightarrow> int \<Rightarrow> cstr \<Rightarrow> 'a host_scheme \<Rightarrow> 'a host_scheme option" where
  "write_topology unit vap v s = do {
     topology_file \<leftarrow> into_buf 32 (''/var/topology.conf.'' @ v);
     (br, s) \<leftarrow> vap_bridge unit vap (f_write topology_file [] s);
     Some (script (Some topology_file) (topology_lines br v) s)
   }"

subsection \<open>Sections of the authenticator's configuration\<close>

definition logger_lines :: "cstr list" where
  "logger_lines = [''logger_syslog=0'', ''logger_syslog_level=4'', ''logger_stdout=0'', ''logger_stdout_level=4'', ''debug=0'']"

definition hostap_iface :: "string \<Rightarrow> cstr \<Rightarrow> 'a host_scheme \<Rightarrow> 'a host_scheme option" where
  "hostap_iface h v s = do {
     let s = script (Some h) (logger_lines @ [''ctrl_interface=/var/run/hostapd.'' @ v, ''ctrl_interface_group=0'']) s;
     (br, s) \<leftarrow> mgt_vlan_bridge s;
     Some (script (Some h) [''iapp_interface='' @ br] s)
   }"

definition hostap_ssid :: "string \<Rightarrow> int \<Rightarrow> int \<Rightarrow> 'a host_scheme \<Rightarrow> 'a host_scheme option" where
  "hostap_ssid h unit vap s = do {
     (ssid, s) \<leftarrow> apCfgSsidGet unit vap s;
     Some (script (Some h) [''ssid='' @ ssid] s)
   }"

text \<open>Whether a RADIUS server is needed, the WPA version and whether the key is pre-shared.\<close>

definition wpa_modes :: "int \<Rightarrow> bool \<times> int \<times> bool" where
  "wpa_modes authType =
     (if authType = APCFG_AUTH_WPA then (True, 1, False)
      else if authType = APCFG_AUTH_WPAPSK then (False, 1, True)
      else if authType = APCFG_AUTH_WPA2 then (True, 2, False)
      else if authType = APCFG_AUTH_WPA2PSK then (False, 2, True)
      else if authType = APCFG_AUTH_WPA_AUTO then (True, 3, False)
      else if authType = APCFG_AUTH_WPA_AUTO_PSK then (False, 3, True)
      else if authType = APCFG_AUTH_DOT1X then (True, - 1, False)
      else (False, - 1, False))"

definition hostap_wpa :: "string \<Rightarrow> int \<Rightarrow> int \<Rightarrow> int \<Rightarrow> bool \<Rightarrow> 'a host_scheme \<Rightarrow> 'a host_scheme option" where
  "hostap_wpa h unit vap wpaMode psk s = do {
     let s = script (Some h) [''wpa='' @ fmt_d wpaMode] s;
     s \<leftarrow> (if psk then do {
         (key, s) \<leftarrow> apCfgPassphraseGet unit vap s;
         Some (script (Some h) [(if length key < 64 then ''wpa_passphrase='' else ''wpa_psk='') @ key, ''wpa_key_mgmt=WPA-PSK''] s)
       } else Some (script (Some h) [''wpa_key_mgmt=WPA-EAP''] s));
     (c, s) \<leftarrow> apCfgWPACipherGet unit vap s;
     let s = script (Some h) [''wpa_pairwise='' @
       (if c = WPA_CIPHER_TKIP then ''TKIP'' else if c = WPA_CIPHER_AES then ''CCMP'' else ''TKIP CCMP'')] s;
     (upd, s) \<leftarrow> scApCfgGroupKeyUpdateEnabledGet unit vap s;
     s \<leftarrow> (if upd \<noteq> 0 then do {
         (iv, s) \<leftarrow> apCfgGroupKeyUpdateIntervalGet unit vap s;
         Some (script (Some h) [''wpa_group_rekey='' @ fmt_d iv] s)
       } else Some (script (Some h) [''wpa_group_rekey=0''] s));
     (term, s) \<leftarrow> scApCfgGroupKeyUpdateTerminatedGet unit vap s;
     let s = script (Some h) [''wpa_strict_rekey='' @ c_bool (term \<noteq> 0), ''wpa_gmk_rekey=0''] s;
     if wpaMode > 1 then do {
       (br, s) \<leftarrow> mgt_vlan_bridge (script (Some h) [''rsn_preauth=1''] s);
       Some (script (Some h) [''rsn_preauth_interfaces='' @ br] s)
     } else Some s
   }"

text \<open>The three lines of one server, when it is configured.\<close>

definition hostap_server :: "string \<Rightarrow> cstr \<Rightarrow> (cstr, 'a) getter \<Rightarrow> (int, 'a) getter \<Rightarrow> (cstr, 'a) getter \<Rightarrow>
    'a host_scheme \<Rightarrow> 'a host_scheme option" where
  "hostap_server h pre server port secret s = do {
     (a, s) \<leftarrow> server s;
     if a = [] \<or> a = ''0.0.0.0'' then Some s
     else do {
       (p, s) \<leftarrow> port s;
       (k, s) \<leftarrow> secret s;
       Some (script (Some h) [pre @ ''_server_addr='' @ a, pre @ ''_server_port='' @ fmt_d p, pre @ ''_server_shared_secret='' @ k] s)
     }
   }"

definition hostap_radius :: "string \<Rightarrow> int \<Rightarrow> int \<Rightarrow> 'a host_scheme \<Rightarrow> 'a host_scheme option" where
  "hostap_radius h unit vap s = do {
     (ipAddr, s) \<leftarrow> apCfgIpAddrGet s;
     let s = script (Some h) [''own_ip_addr='' @ inet_ntoa ipAddr] s;
     s \<leftarrow> hostap_server h ''auth'' (apCfgRadiusServerGet unit vap) (apCfgRadiusPortGet unit vap) (apCfgRadiusSecretGet unit vap) s;
     s \<leftarrow> hostap_server h ''acct'' (scApCfgAcctServerGet unit vap) (scApCfgAcctPortGet unit vap) (scApCfgAcctSecretGet unit vap) s;
     s \<leftarrow> hostap_server h ''auth'' (apCfgBackupRadiusServerGet unit vap) (apCfgBackupRadiusPortGet unit vap)
       (apCfgBackupRadiusSecretGet unit vap) s;
     hostap_server h ''acct'' (scApCfgBackupAcctServerGet unit vap) (scApCfgBackupAcctPortGet unit vap)
       (scApCfgBackupAcctSecretGet unit vap) s
   }"

definition eap_lines :: "cstr list" where
  "eap_lines = [''eapol_version=2'', ''eapol_key_index_workaround=0'', ''eap_server=1'', ''eap_user_file=/etc/wpa2/hostapd.eap_user'']"

definition wps_off :: "cstr list" where
  "wps_off = [''wps_disable=1'', ''wps_upnp_disable=1'']"

definition wps_on :: "cstr list" where
  "wps_on = [''wps_disable=0'', ''wps_upnp_disable=0'']"

text \<open>The version is read into \<open>char wps_model_number[32]\<close> at the start; it stays uninitialised when
  \<open>getVersion\<close> finds no file.\<close>

definition wps_lines :: "string \<Rightarrow> int \<Rightarrow> int \<Rightarrow> cstr option \<Rightarrow> 'a host_scheme \<Rightarrow> 'a host_scheme option" where
  "wps_lines h unit vap wps_model_number s = do {
     let s = script (Some h) [''wps_version=0x10'', ''wps_auth_type_flags=0x0023'', ''wps_encr_type_flags=0x000f'',
       ''wps_conn_type_flags=0x01''] s;
     (er, s) \<leftarrow> apCfgWpsPinERGet unit s;
     let s = script (Some h) [if er \<noteq> 0 then ''wps_config_methods=0x0086'' else ''wps_config_methods=0x0082''] s;
     (c, s) \<leftarrow> apCfgWscConfiguredGet s;
     model \<leftarrow> wps_model_number;
     let s = script (Some h) [''wps_configured='' @ c_bool (c \<noteq> 0), ''wps_rf_bands=0x03'',
       ''wps_manufacturer=Cisco Small Business'', ''wps_model_name=WAP4410N'', ''wps_model_number='' @ model,
       ''wps_serial_number=123456789012'', ''wps_friendly_name=Wireless-N Access Point with PoE'',
       ''wps_manufacturer_url=http://www.cisco.com/en/US/products/ps10047/index.html'',
       ''wps_model_description=Wireless-N Access Point with PoE''] s;
     (ip, s) \<leftarrow> nvram_safe_get ''lan_ipaddr'' s;
     let s = script (Some h) [''wps_model_url=http://'' @ ip @ ''/index.htm'', ''wps_upc_string=upc string here''] s;
     (pin, s) \<leftarrow> apCfgDevicePinGet unit vap s;
     Some (script (Some h) [''wps_default_pin='' @ pin, ''wps_dev_category=6'', ''wps_dev_sub_category=1'',
       ''wps_dev_oui=0050f204'', ''wps_dev_name=WAP4410N'', ''wps_os_version=0x00000001'', ''wps_atheros_extension=1''] s)
   }"

text \<open>The authenticator is restarted.\<close>

definition launch :: "string option \<Rightarrow> int \<Rightarrow> int \<Rightarrow> cstr \<Rightarrow> 'a host_scheme \<Rightarrow> 'a host_scheme" where
  "launch f unit vap v s =
     (let conf = '' /var/topology.conf.'' @ v @ '' -B -P /var/run/hostapd_pid.'' @ v @ '' &'' in
      script f ((if unit = 0 \<and> vap = 0
        then [''/usr/bin/killall hostapd'', ''sleep 2'', ''/sbin/hostapd'' @ conf]
        else [''/usr/bin/killall hostapd.'' @ v, ''sleep 2'', ''/bin/ln -sf /sbin/hostapd /tmp/hostapd.'' @ v,
              ''/tmp/hostapd.'' @ v @ conf]) @ [''sleep 1'']) s)"

subsection \<open>WPA and 802.1X\<close>

definition dot1x_keys :: "string option \<Rightarrow> string \<Rightarrow> int \<Rightarrow> int \<Rightarrow> cstr \<Rightarrow> 'a host_scheme \<Rightarrow> 'a host_scheme option" where
  "dot1x_keys f h unit vap v s = do {
     (m, s) \<leftarrow> apCfgDot1xKeyModeGet unit vap s;
     if m = 2 then do {
       (len, s) \<leftarrow> apCfgDot1xKeyLenGet unit vap s;
       Some (script (Some h) [''wep_key_len_unicast='' @ fmt_d len, ''wep_key_len_broadcast='' @ fmt_d len, ''wep_rekey_period=0''] s)
     }
     else if m = 1 then do {
       s \<leftarrow> wep_key f unit vap v [] s;
       Some (script (Some h) [''wep_key_len_unicast=0'', ''wep_key_len_broadcast=0'', ''wep_rekey_period=0''] s)
     }
     else Some s
   }"

definition sec_wpa :: "string option \<Rightarrow> int \<Rightarrow> int \<Rightarrow> cstr \<Rightarrow> string \<Rightarrow> cstr option \<Rightarrow> int \<Rightarrow> 'a host_scheme \<Rightarrow> 'a host_scheme option" where
  "sec_wpa f unit vap v h wps_model_number authType s = do {
     s \<leftarrow> write_topology unit vap v s;
     s \<leftarrow> hostap_ssid h unit vap (f_write h [] s);
     s \<leftarrow> hostap_iface h v s;
     let (needRadius, wpaMode, psk) = wpa_modes authType;
     s \<leftarrow> (if wpaMode \<noteq> - 1 then hostap_wpa h unit vap wpaMode psk s else Some s);
     (acl, s) \<leftarrow> apCfgAclModeGet unit vap s;
     let s = (if acl = APCFG_ACL_RADIUS then script (Some h) [''macaddr_acl=2''] s else s);
     let needRadius = (needRadius \<or> acl = APCFG_ACL_RADIUS);
     s \<leftarrow> (if needRadius then do {
         s \<leftarrow> hostap_radius h unit vap s;
         let s = script (Some h) [''ieee8021x=1''] s;
         s \<leftarrow> (if wpaMode = - 1 then dot1x_keys f h unit vap v s else Some s);
         Some (script (Some h) [''eap_reauth_period=0''] s)
       } else Some (script (Some h) eap_lines s));
     s \<leftarrow> (if unit = 0 \<and> vap = 0 \<and> \<not> needRadius then do {
         (wps, s) \<leftarrow> apCfgWpsModeGet unit s;
         wps_lines h unit vap wps_model_number (script (Some h) (if wps = 0 then wps_off else wps_on) s)
       } else Some (script (Some h) wps_off s));
     Some (launch f unit vap v s)
   }"

subsection \<open>No WPA\<close>

definition sec_open :: "string option \<Rightarrow> int \<Rightarrow> int \<Rightarrow> cstr \<Rightarrow> string \<Rightarrow> cstr option \<Rightarrow> int \<Rightarrow> 'a host_scheme \<Rightarrow> 'a host_scheme option" where
  "sec_open f unit vap v h wps_model_number authType s = do {
     s \<leftarrow> write_topology unit vap v s;
     s \<leftarrow> hostap_iface h v (f_write h [] s);
     s \<leftarrow> hostap_ssid h unit vap s;
     (acl, s) \<leftarrow> apCfgAclModeGet unit vap s;
     s \<leftarrow> (if acl = APCFG_ACL_RADIUS then hostap_radius h unit vap (script (Some h) [''macaddr_acl=2''] s) else Some s);
     let s = script (Some h) [''auth_algs='' @
       (if authType = APCFG_AUTH_SHARED_KEY then ''2'' else if authType = APCFG_AUTH_AUTO then ''3'' else ''1''), ''wpa=0''] s;
     let s = script (Some h) (if acl = APCFG_ACL_RADIUS then [''ieee8021x=1''] else eap_lines) s;
     s \<leftarrow> (if unit = 0 \<and> vap = 0 then
         (if acl = APCFG_ACL_RADIUS then Some (script (Some h) wps_off s)
          else do {
            (wps, s) \<leftarrow> apCfgWpsModeGet unit s;
            if wps = 0 then Some (script (Some h) wps_off s)
            else wps_lines h unit vap wps_model_number (script (Some h) wps_on s)
          })
       else Some (script (Some h) wps_off s));
     let s = launch f unit vap v s;
     if authType \<noteq> APCFG_AUTH_NONE then sec_wep f unit vap v authType s else Some s
   }"

definition wlanSecurityApply :: "string option \<Rightarrow> int \<Rightarrow> int \<Rightarrow> 'a host_scheme \<Rightarrow> 'a host_scheme option" where
  "wlanSecurityApply f unit vap s = do {
     wps_model_number \<leftarrow> getVersion 32 s;
     let v = vap_str unit vap;
     h \<leftarrow> into_buf 32 (''/var/hostap.cfg.'' @ v);
     (authType, s) \<leftarrow> apCfgAuthTypeGet unit vap s;
     s \<leftarrow> sec_ssid f unit vap v s;
     (fwd, s) \<leftarrow> apCfgIntraVapForwardingGet unit vap s;
     let s = ATH_SCRIPT_ADD f (iwpriv v (''ap_bridge '' @ c_bool (fwd = 0))) s;
     s \<leftarrow> (if authType \<in> {APCFG_AUTH_OPEN_SYSTEM, APCFG_AUTH_SHARED_KEY, APCFG_AUTH_AUTO} then sec_wep f unit vap v authType s
          else if authType \<in> {APCFG_AUTH_WPA, APCFG_AUTH_WPAPSK, APCFG_AUTH_WPA2, APCFG_AUTH_WPA2PSK, APCFG_AUTH_WPA_AUTO,
            APCFG_AUTH_WPA_AUTO_PSK, APCFG_AUTH_DOT1X} then sec_wpa f unit vap v h wps_model_number authType s
          else Some (sec_none f v s));
     s \<leftarrow> (if authType \<le> APCFG_AUTH_AUTO then
         (if vap = 0 then sec_open f unit vap v h wps_model_number authType s
          else do {
            (acl, s) \<leftarrow> apCfgAclModeGet unit vap s;
            if acl = APCFG_ACL_RADIUS then sec_open f unit vap v h wps_model_number authType s else Some s
          })
       else Some s);
     Some (ATH_SCRIPT_ADD f (quiet (''ifconfig '' @ v @ '' up'')) s)
   }"

text \<open>The connection of a station or a bridge link uses the security of the first access point, without WPA.\<close>

definition wlanNoApSecurityApply :: "string option \<Rightarrow> int \<Rightarrow> int \<Rightarrow> 'a host_scheme \<Rightarrow> 'a host_scheme option" where
  "wlanNoApSecurityApply f unit vap_id s = do {
     let v = vap_str unit vap_id;
     s \<leftarrow> sec_ssid f unit 0 v s;
     (authType, s) \<leftarrow> apCfgAuthTypeGet unit 0 s;
     s \<leftarrow> (if authType \<in> {APCFG_AUTH_OPEN_SYSTEM, APCFG_AUTH_SHARED_KEY, APCFG_AUTH_AUTO} then sec_wep f unit 0 v authType s
          else Some (sec_none f v s));
     Some (ATH_SCRIPT_ADD f (quiet (''ifconfig '' @ v @ '' up'')) s)
   }"

end
