(* ===== verification/Wifi_Start.thy ===== *)
theory Wifi_Start
  imports Wifi_Security
begin

text \<open>
  Starting and stopping the wireless interfaces (\<open>src/src/apps/apps_sc/libs/libapcfg/wifiuti.c\<close>): the
  removal of access points, their bridges, the loading of the driver, and \<open>wlanStart\<close> and \<open>wlanStop\<close>, which
  write one script for each phase and run them, or add them to a script of the caller.
\<close>

subsection \<open>Removing access points\<close>

text \<open>The script that takes an interface out of its bridges, when there is one.\<close>

definition delif_file :: "cstr \<Rightarrow> cstr" where
  "delif_file v = ''/tmp/wlan_delif.'' @ v"

definition run_delif :: "string option \<Rightarrow> cstr \<Rightarrow> 'a host_scheme \<Rightarrow> 'a host_scheme option" where
  "run_delif f v s = do {
     fileName \<leftarrow> into_buf 32 (delif_file v);
     Some (if f_exists fileName s
       then script f [''chmod +x '' @ fileName, fileName, ''rm -f '' @ fileName, ''sleep 1''] s else s)
   }"

definition kill_upnp :: "string option \<Rightarrow> 'a host_scheme \<Rightarrow> 'a host_scheme" where
  "kill_upnp f s = script f [quiet ''/usr/bin/killall wscupnpd'', quiet ''/usr/bin/killall -9 wscupnpd''] s"

definition wlanKillVap :: "string option \<Rightarrow> int \<Rightarrow> int \<Rightarrow> 'a host_scheme \<Rightarrow> 'a host_scheme option" where
  "wlanKillVap f unit vap s = do {
     let v = vap_str unit vap;
     s \<leftarrow> run_delif f v s;
     let s = script f [quiet (''ifconfig '' @ v @ '' down''), ''sleep 1'', quiet (''wlanconfig '' @ v @ '' destroy''), ''sleep 3''] s;
     hostApCfgName \<leftarrow> into_buf 32 (''/var/hostap.cfg.'' @ v);
     hostPidFileName \<leftarrow> into_buf 32 (''/tmp/hostapd'' @ v);
     let s = sh_run (take 1023 (''ps | grep '' @ hostApCfgName @ '' | cut -b 1-5 > '' @ hostPidFileName)) s;
     b \<leftarrow> files s hostPidFileName;
     let s = script f (map (\<lambda>l. quiet (''kill -9 '' @ take 5 l)) (fgets_all 63 b)) s;
     let s = f_unlink hostPidFileName s;
     Some (if vap = 0 then kill_upnp f s else s)
   }"

definition kill_line :: "string option \<Rightarrow> cstr \<Rightarrow> 'a host_scheme \<Rightarrow> 'a host_scheme option" where
  "kill_line f l s = do {
     let v = take 5 l;
     s \<leftarrow> run_delif f v s;
     Some (script f [quiet (''ifconfig '' @ v @ '' down''), ''sleep 2'', quiet (''wlanconfig '' @ v @ '' destroy'')] s)
   }"

definition wlanKillAllVap :: "string option \<Rightarrow> 'a host_scheme \<Rightarrow> 'a host_scheme option" where
  "wlanKillAllVap f s = do {
     let s = sh_run ''iwconfig | grep ath | cut -b 1-5 > /tmp/vaplist.tmp'' s;
     b \<leftarrow> files s ''/tmp/vaplist.tmp'';
     s \<leftarrow> fold_opt (kill_line f) (fgets_all 63 b) s;
     let s = f_unlink ''/tmp/vaplist.tmp'' s;
     Some (kill_upnp f (script f (map quiet
       [''killall hostapd'', ''killall hostapd.ath01'', ''killall hostapd.ath02'', ''killall hostapd.ath03'',
        ''killall -9 hostapd'', ''killall -9 hostapd.ath01'', ''killall -9 hostapd.ath02'', ''killall -9 hostapd.ath03'']) s))
   }"

subsection \<open>Bridges\<close>

text \<open>The lines that put the interface's VLAN into the VLAN's bridge, and those that will take it out.\<close>

definition vlan_iface :: "cstr \<Rightarrow> int \<Rightarrow> cstr" where
  "vlan_iface v vid = v @ ''.'' @ fmt_d vid"

definition prio_maps :: "cstr \<Rightarrow> int \<Rightarrow> cstr list" where
  "prio_maps v vid = concat (map (\<lambda>pri. let p = fmt_d (int pri) @ '' '' @ fmt_d (int pri) in
     [''vconfig set_ingress_map '' @ vlan_iface v vid @ '' '' @ p, ''vconfig set_egress_map '' @ vlan_iface v vid @ '' '' @ p]) [0..<8])"

definition join_bridge :: "cstr \<Rightarrow> int \<Rightarrow> cstr list" where
  "join_bridge v vid =
     (let br = ''br'' @ fmt_d vid; i = vlan_iface v vid in
      [''ifconfig '' @ i @ '' up'', ''brctl addif '' @ br @ '' '' @ i,
       ''echo brctl delif '' @ br @ '' '' @ i @ '' >> '' @ delif_file v, ''echo vconfig rem '' @ i @ '' >> '' @ delif_file v,
       quiet (''brctl setpathcost '' @ br @ '' '' @ i @ '' 50''), quiet (''brctl setportprio '' @ br @ '' '' @ i @ '' 100'')])"

definition inter_vap :: "string option \<Rightarrow> cstr \<Rightarrow> 'a host_scheme \<Rightarrow> 'a host_scheme option" where
  "inter_vap f br s = do {
     (fwd, s) \<leftarrow> apCfgInterVapForwardingGet 0 s;
     Some (ATH_SCRIPT_ADD f (''brctl intervf '' @ br @ (if fwd \<noteq> 0 then '' enable'' else '' disable'')) s)
   }"

text \<open>One tagged VLAN on a bridge link.\<close>

definition wds_vlan :: "string option \<Rightarrow> int \<Rightarrow> int \<Rightarrow> cstr \<Rightarrow> int \<Rightarrow> cstr \<Rightarrow> 'a host_scheme \<Rightarrow> 'a host_scheme option" where
  "wds_vlan f unit vap v wds l s = do {
     let vlanId = atoi l;
     (skip, s) \<leftarrow> (if wds = 2 then do { (pvid, s) \<leftarrow> apCfgVlanPvidGet unit vap s; Some (pvid = vlanId, s) } else Some (False, s));
     if skip then Some s
     else inter_vap f (''br'' @ fmt_d vlanId)
       (script f ([''vconfig add '' @ v @ '' '' @ fmt_d vlanId] @ prio_maps v vlanId @ join_bridge v vlanId) s)
   }"

text \<open>The first line of the file is the native VLAN and the second the management VLAN; an empty file leaves
  \<open>line\<close> uninitialised.\<close>

definition wlanBridgeApply :: "string option \<Rightarrow> int \<Rightarrow> int \<Rightarrow> int \<Rightarrow> 'a host_scheme \<Rightarrow> 'a host_scheme option" where
  "wlanBridgeApply f unit bss wds s = do {
     let vap = cfg_vap bss;
     let v = vap_str unit bss;
     (case files s ''/tmp/vlan.conf'' of
        None \<Rightarrow> inter_vap f ''br0'' (script f [quiet (''brctl addif br0 '' @ v),
          ''echo brctl delif br0 '' @ v @ '' >> '' @ delif_file v,
          quiet (''brctl setpathcost br0 '' @ v @ '' 50''), quiet (''brctl setportprio br0 '' @ v @ '' 100'')] s)
      | Some b \<Rightarrow> do {
          let ls = fgets_all 63 b;
          s \<leftarrow> (if wds = 0 then Some s
            else case ls of
              [] \<Rightarrow> None
            | native # rest \<Rightarrow> do {
                (tag, s) \<leftarrow> apCfgWdsVlanTagGet s;
                (pvid, s) \<leftarrow> apCfgVlanPvidGet unit vap s;
                let s = ATH_SCRIPT_ADD f (''echo 1 '' @ fmt_d (atoi native) @ '' '' @ fmt_d tag @ '' '' @ fmt_d pvid @
                  '' > /proc/wds_vlan_cfb'') s;
                if tag \<noteq> 0 then fold_opt (wds_vlan f unit vap v wds) (drop 1 rest) s else Some s
              });
          (own, s) \<leftarrow> (if wds = 0 \<or> wds = 2 then Some (True, s) else do { (tag, s) \<leftarrow> apCfgWdsVlanTagGet s; Some (tag = 0, s) });
          if own then do {
            (pvid, s) \<leftarrow> apCfgVlanPvidGet unit vap s;
            let s = ATH_SCRIPT_ADD f (''vconfig add '' @ v @ '' '' @ fmt_d pvid) s;
            (pri, s) \<leftarrow> apCfgPriorityGet unit vap s;
            let s = script f ([''iwpriv '' @ v @ '' priority '' @ fmt_d pri] @ prio_maps v pvid @ join_bridge v pvid) s;
            inter_vap f (''br'' @ fmt_d pvid) s
          } else Some s
        })
   }"

subsection \<open>The driver\<close>

text \<open>
  \<open>countryid\<close> is unsigned. The radio's hardware address is the bridge's plus one; without an address of the bridge
  \<open>if_info.mac\<close> is uninitialised. \<open>scHexs2Chars\<close> stores six bytes at \<open>macStr\<close>.
\<close>

definition wlanModuleLoad :: "string option \<Rightarrow> int \<Rightarrow> 'a host_scheme \<Rightarrow> 'a host_scheme option" where
  "wlanModuleLoad f unit s = do {
     (c, s) \<leftarrow> apCfgCountryCodeGet s;
     let countryid = c mod 2 ^ 32;
     let countryid = (if countryid > 1000 then countryid - 1000 else countryid);
     let s = ATH_SCRIPT_ADD f (if countryid = 392 then ''/etc/ath/ath_MOD_load_JP'' else ''/etc/ath/ath_MOD_load'') s;
     let s = (if countryid \<noteq> 0
       then ATH_SCRIPT_ADD f (''iwpriv wifi'' @ fmt_d unit @ '' setCountryID '' @
         fmt_d (if countryid < 2 ^ 31 then countryid else countryid - 2 ^ 32)) s else s);
     ((_, info), s) \<leftarrow> getMgtBrInfo s;
     mac \<leftarrow> ii_mac info;
     mac12 \<leftarrow> scMacStr17ToStr12 mac;
     let s = sh_run (take 1023 (''echo '' @ mac12 @ '' > /tmp/wsc_mac'')) s;
     bs \<leftarrow> scHexs2Chars mac 6 True;
     bs \<leftarrow> mac_plus_one bs;
     (_, buf) \<leftarrow> macAddrToString bs (replicate 18 NUL) None;
     let mac = c_read buf;
     Some (script f [''/sbin/ifconfig wifi0 hw ether '' @ mac, ''/sbin/ifconfig wifi0 txqueuelen 1000'',
       ''/usr/sbin/rc balance restart&''] s)
   }"

subsection \<open>Starting\<close>

text \<open>The script of one phase of the start: 0 before, 1 make, 2 station, 3 access point, 4 after, 5 last.\<close>

definition wlan_up :: "int \<Rightarrow> nat \<Rightarrow> string" where
  "wlan_up unit step = ''/tmp/wlan'' @ fmt_d unit @ ''_up'' @ fmt_d (int step)"

definition sh_head :: cstr where
  "sh_head = ''#!/bin/sh'' @ [CHR 0x0A]"

definition init_up :: "int \<Rightarrow> nat \<Rightarrow> 'a host_scheme \<Rightarrow> 'a host_scheme" where
  "init_up unit step s = ATH_SCRIPT_ADD (Some (wlan_up unit step)) sh_head (ATH_SCRIPT_DEL (wlan_up unit step) s)"

definition run_up :: "string option \<Rightarrow> string \<Rightarrow> 'a host_scheme \<Rightarrow> 'a host_scheme" where
  "run_up f path s = (if f = None then ATH_SCRIPT_RUN path s else script f [''chmod 777 '' @ path, path] s)"

definition create_vap :: "int \<Rightarrow> cstr \<Rightarrow> cstr \<Rightarrow> cstr" where
  "create_vap unit v mode = quiet (''wlanconfig '' @ v @ '' create wlandev wifi'' @ fmt_d unit @ '' wlanmode '' @ mode)"

text \<open>The radio's mode for the interface that finds the channel.\<close>

definition chan_mode :: "string option \<Rightarrow> int \<Rightarrow> cstr \<Rightarrow> int \<Rightarrow> 'a host_scheme \<Rightarrow> 'a host_scheme option" where
  "chan_mode f unit v wirelessMode s =
     (if wirelessMode = MODE_SELECT_11B then Some (ATH_SCRIPT_ADD f (iwpriv v ''mode 11b'') s)
      else if wirelessMode = MODE_SELECT_11G \<or> wirelessMode = MODE_SELECT_11BG then
        Some (script f [iwpriv v ''mode 11g'', iwpriv v (''pureg '' @ c_bool (wirelessMode = MODE_SELECT_11G))] s)
      else do {
        (width, s) \<leftarrow> apCfgChannelWidthModeGet unit s;
        s \<leftarrow> (if width = 0 then
             Some (script f [iwpriv v ''mode 11NGHT20'', ''/usr/sbin/iwpriv '' @ v @ '' cwmmode 0''] s)
           else do {
             (auto, s) \<leftarrow> apCfgAutoChannelGet unit s;
             s \<leftarrow> (if auto = 0 then do {
                 (off, s) \<leftarrow> apCfgChannelOffsetGet unit s;
                 Some (script f [iwpriv v (''extoffset '' @ off),
                   iwpriv v (if off = ''1'' then ''mode 11NGHT40PLUS'' else ''mode 11NGHT40MINUS'')] s)
               } else Some (ATH_SCRIPT_ADD f (iwpriv v ''mode 11NGHT40'') s));
             Some (ATH_SCRIPT_ADD f (''/usr/sbin/iwpriv '' @ v @ '' cwmmode '' @ fmt_d width) s)
           });
        Some (script f [''iwpriv wifi'' @ fmt_d unit @ '' ForBiasAuto 1'',
          iwpriv v (''puren '' @ c_bool (wirelessMode = MODE_SELECT_11N)), iwpriv v ''pureg 0''] s)
      })"

text \<open>
  \<open>vapStr\<close> is declared with \<open>VAP_STR_LEN\<close> bytes. \<open>room\<close> is the number of bytes that can be stored there: 5 by the
  declaration, more when the compiler pads the array.
\<close>

definition VAP_STR_LEN :: nat where "VAP_STR_LEN = 5"

definition find_channel :: "nat \<Rightarrow> int \<Rightarrow> 'a host_scheme \<Rightarrow> 'a host_scheme option" where
  "find_channel room unit s = do {
     let f = Some (wlan_up unit 0);
     (wirelessMode, s) \<leftarrow> apCfgFreqSpecGet unit s;
     let s = f_unlink ''/tmp/chan_config'' (c_system ''rm -f /tmp/chan_config'' s);
     v \<leftarrow> into_buf room ''ath09'';
     (m, s) \<leftarrow> apCfgOpModeGet unit s;
     let s = script f [create_vap unit v (if m = CFG_OP_MODE_PPT \<or> m = CFG_OP_MODE_MPT then ''ap nosbeacon'' else ''ap''),
       ''/usr/sbin/iwconfig '' @ v @ '' channel 0''] s;
     s \<leftarrow> chan_mode f unit v wirelessMode s;
     let s = script f [quiet (''iwconfig '' @ v @ '' essid '' @ quoted ''........''), iwpriv v ''hide_ssid 1''] s;
     (auto, s) \<leftarrow> apCfgAutoChannelGet unit s;
     s \<leftarrow> (if auto = 0 then do {
         (chan, s) \<leftarrow> apCfgRadioChannelGet unit s;
         Some (script f [''/usr/sbin/iwconfig '' @ v @ '' channel 6'', ''/usr/sbin/iwconfig '' @ v @ '' channel '' @ fmt_d chan] s)
       } else Some s);
     Some (script f [quiet (''ifconfig '' @ v @ '' up''), ''sleep '' @ (if auto \<noteq> 0 then ''6'' else ''2''),
       ''/usr/sbin/iwconfig '' @ v @ '' getCurrentChannel > /tmp/chan_list'',
       ''/usr/sbin/iwconfig '' @ v @ '' getChannel > /tmp/chan_curr'',
       ''/usr/sbin/iwconfig '' @ v @ '' getCurrTxPower > /tmp/maxpwr_curr'',
       quiet (''ifconfig '' @ v @ '' down''), ''sleep 1'', quiet (''wlanconfig '' @ v @ '' destroy'')] s)
   }"

definition start_rogue :: "nat \<Rightarrow> int \<Rightarrow> 'a host_scheme \<Rightarrow> 'a host_scheme option" where
  "start_rogue room unit s = do {
     v \<leftarrow> into_buf room ''ath00'';
     let s = script (Some (wlan_up unit 1)) [create_vap unit v ''sta nosbeacon'',
       iwpriv v ''bgscan 0'', iwpriv v ''doth 0'', iwpriv v ''ff 0'',
       quiet (''iwconfig '' @ v @ '' essid '' @ quoted ''.......  ........  ......''), quiet (''ifconfig '' @ v @ '' up'')] s;
     Some (ATH_SCRIPT_ADD (Some (wlan_up unit 5)) ''/usr/sbin/rc rogueap start&'' s)
   }"

text \<open>One access point of the plain and the repeater modes.\<close>

definition start_vap :: "nat \<Rightarrow> int \<Rightarrow> int \<Rightarrow> 'a lib_scheme \<Rightarrow> 'a lib_scheme option" where
  "start_vap room unit vap s = do {
     (act, s) \<leftarrow> apCfgActiveModeGet unit vap s;
     if act = 0 then Some s
     else do {
       v \<leftarrow> into_buf room (vap_str unit vap);
       let make = Some (wlan_up unit 1);
       let s = ATH_SCRIPT_ADD make (create_vap unit v ''ap'') s;
       (m, s) \<leftarrow> apCfgOpModeGet unit s;
       s \<leftarrow> wlanBasicApply make unit vap False (if m = CFG_OP_MODE_UR then 2 else 0) s;
       s \<leftarrow> wlanAdvanceApply make unit vap False s;
       s \<leftarrow> wlanAclApply make unit vap s;
       s \<leftarrow> wlanBridgeApply (Some (wlan_up unit 4)) unit vap 0 s;
       s \<leftarrow> wlanSecurityApply (Some (wlan_up unit 3)) unit vap s;
       if vap = 0 then do {
         s \<leftarrow> wlanCreatWscConfig unit vap s;
         Some (ATH_SCRIPT_ADD (Some (wlan_up unit 5)) ''/usr/sbin/rc wscupnp restart&'' s)
       } else Some s
     }
   }"

text \<open>An access point with bridge links.\<close>

definition start_ap_wds :: "nat \<Rightarrow> int \<Rightarrow> 'a lib_scheme \<Rightarrow> 'a lib_scheme option" where
  "start_ap_wds room unit s = do {
     v \<leftarrow> into_buf room (vap_str unit 0);
     let make = Some (wlan_up unit 1);
     let s = script make [''echo 1 > /proc/wds_cfb'', create_vap unit v ''ap''] s;
     s \<leftarrow> wlanBasicApply make unit 0 False 0 s;
     s \<leftarrow> wlanAdvanceApply make unit 0 False s;
     s \<leftarrow> wlanAclApply make unit 0 s;
     s \<leftarrow> wlanBridgeApply (Some (wlan_up unit 4)) unit 0 2 s;
     s \<leftarrow> wlanWdsApply (Some (wlan_up unit 3)) unit 0 s;
     s \<leftarrow> wlanSecurityApply (Some (wlan_up unit 3)) unit 0 s;
     s \<leftarrow> wlanCreatWscConfig unit 0 s;
     Some (script (Some (wlan_up unit 5)) [''/usr/sbin/rc wscupnp restart&'', ''/usr/sbin/rc wdspsk start&''] s)
   }"

text \<open>Bridge links alone.\<close>

definition start_wds :: "nat \<Rightarrow> int \<Rightarrow> 'a host_scheme \<Rightarrow> 'a host_scheme option" where
  "start_wds room unit s = do {
     v \<leftarrow> into_buf room (vap_str unit 0);
     let make = Some (wlan_up unit 1);
     let s = script make [''echo 1 > /proc/wds_cfb'', create_vap unit v ''ap nosbeacon''] s;
     s \<leftarrow> wlanBasicApply make unit 0 True 0 s;
     s \<leftarrow> wlanAdvanceApply make unit 0 True s;
     s \<leftarrow> wlanBridgeApply (Some (wlan_up unit 4)) unit 0 1 s;
     s \<leftarrow> wlanWdsApply (Some (wlan_up unit 3)) unit 0 s;
     s \<leftarrow> wlanNoApSecurityApply (Some (wlan_up unit 3)) unit 0 s;
     let s = ATH_SCRIPT_ADD (Some (wlan_up unit 3)) ''sleep 2'' s;
     Some (ATH_SCRIPT_ADD (Some (wlan_up unit 5)) ''/usr/sbin/rc wdspsk start&'' s)
   }"

text \<open>The station of a client or a repeater.\<close>

definition start_sta :: "nat \<Rightarrow> int \<Rightarrow> 'a host_scheme \<Rightarrow> 'a host_scheme option" where
  "start_sta room unit s = do {
     v \<leftarrow> into_buf room (vap_str unit WLAN_MAX_VAP);
     let make = Some (wlan_up unit 1);
     let s = script make [''echo 1 > /proc/us_cfb'', create_vap unit v ''sta nosbeacon''] s;
     s \<leftarrow> wlanBasicApply make unit WLAN_MAX_VAP True 1 s;
     s \<leftarrow> wlanAdvanceApply make unit WLAN_MAX_VAP True s;
     s \<leftarrow> wlanBridgeApply (Some (wlan_up unit 4)) unit WLAN_MAX_VAP 0 s;
     s \<leftarrow> wlanNoApSecurityApply (Some (wlan_up unit 2)) unit WLAN_MAX_VAP s;
     let s = ATH_SCRIPT_ADD (Some (wlan_up unit 2)) ''sleep 2'' s;
     Some (ATH_SCRIPT_ADD (Some (wlan_up unit 5)) ''/usr/sbin/rc wpasupplicant start&'' s)
   }"

definition start_modes :: "nat \<Rightarrow> int \<Rightarrow> 'a lib_scheme \<Rightarrow> 'a lib_scheme option" where
  "start_modes room unit s = do {
     (m, s) \<leftarrow> apCfgOpModeGet unit s;
     if m = CFG_OP_MODE_ROGAP then start_rogue room unit s
     else do {
       (st, s) \<leftarrow> apCfgWlanStateGet unit s;
       if st \<noteq> 1 then Some s
       else do {
         s \<leftarrow> (if m = CFG_OP_MODE_AP \<or> m = CFG_OP_MODE_UR then fold_opt (start_vap room unit) [0, 1, 2, 3] s else Some s);
         s \<leftarrow> (if m = CFG_OP_MODE_AP_PTP \<or> m = CFG_OP_MODE_AP_PTMP then start_ap_wds room unit s else Some s);
         s \<leftarrow> (if m = CFG_OP_MODE_PPT \<or> m = CFG_OP_MODE_MPT then start_wds room unit s else Some s);
         s \<leftarrow> (if m = CFG_OP_MODE_UC \<or> m = CFG_OP_MODE_UR then start_sta room unit s else Some s);
         Some (ATH_SCRIPT_ADD (Some (wlan_up unit 5)) ''/usr/sbin/snmptrap -t 3'' s)
       }
     }
   }"

definition wlanStart :: "nat \<Rightarrow> string option \<Rightarrow> int \<Rightarrow> 'a lib_scheme \<Rightarrow> 'a lib_scheme option" where
  "wlanStart room scriptfile unit s = do {
     let s = fold (init_up unit) [0..<6] s;
     let s = ATH_SCRIPT_ADD (Some (wlan_up unit 5)) ''sleep 1'' s;
     s \<leftarrow> wlanModuleLoad (Some (wlan_up unit 0)) unit s;
     s \<leftarrow> (if f_exists ''/tmp/chan_config'' s \<or> \<not> f_exists CHAN_LIST s then find_channel room unit s else Some s);
     let s = run_up scriptfile (wlan_up unit 0) s;
     s \<leftarrow> wlanCorrectChannelApply unit s;
     s \<leftarrow> start_modes room unit s;
     Some (fold (\<lambda>step. run_up scriptfile (wlan_up unit step)) [1..<6] s)
   }"

subsection \<open>Stopping\<close>

definition wlan_down :: "int \<Rightarrow> string" where
  "wlan_down unit = ''/tmp/wlan'' @ fmt_d unit @ ''_down''"

text \<open>The three lines for the further access points go to the caller's script, which may be none.\<close>

definition wlanStop :: "string option \<Rightarrow> int \<Rightarrow> bool \<Rightarrow> 'a host_scheme \<Rightarrow> 'a host_scheme" where
  "wlanStop scriptfile unit unload_module s = (
     let d = wlan_down unit;
         s = ATH_SCRIPT_ADD (Some d) sh_head (ATH_SCRIPT_DEL d s);
         s = script (Some d) [''/etc/ath/ath_WLAN_stop '' @ fmt_d unit @ '' '' @ (if unload_module then ''unload'' else []),
           ''/usr/sbin/snmptrap -t 2'', ''/usr/bin/killall -9 hostapd''] s;
         s = script scriptfile (map quiet [''killall -9 hostapd.ath01'', ''killall -9 hostapd.ath02'', ''killall -9 hostapd.ath03'']) s
     in run_up scriptfile d s)"

end
