(* ===== verification/Wifi_Laws.thy ===== *)
theory Wifi_Laws
  imports Wifi_Start
begin

text \<open>
  Properties of the wireless scripts: the network's name in the shell, the hardware address of the
  radio, the room for the interfaces' names, and the scripts of the stop.
\<close>

subsection \<open>Scripts\<close>

lemma script_simps [simp]:
  "script f [] s = s" "script f (l # ls) s = script f ls (ATH_SCRIPT_ADD f l s)" "script None ls s = s"
  by (simp_all add: script_def, induction ls, simp_all add: ATH_SCRIPT_ADD_def)

lemma script_append: "script f (ls @ ms) s = script f ms (script f ls s)"
  by (simp add: script_def)

definition script_text :: "cstr list \<Rightarrow> bytes" where
  "script_text ls = concat (map (\<lambda>l. l @ [CHR 0x0A]) ls)"

lemma script_file:
  "files s p = Some b \<Longrightarrow> files (script (Some p) ls s) = (files s)(p \<mapsto> b @ script_text ls)"
proof (induction ls arbitrary: s b)
  case (Cons l ls)
  let ?s = "ATH_SCRIPT_ADD (Some p) l s"
  have f: "files ?s = (files s)(p \<mapsto> b @ l @ [CHR 0x0A])" using Cons.prems by (simp add: ATH_SCRIPT_ADD_def f_append_def)
  then show ?case using Cons.IH [of ?s "b @ l @ [CHR 0x0A]"] by (auto simp: script_text_def fun_eq_iff)
qed (simp add: script_text_def fun_upd_idem)

lemma script_frame [simp]: "cmds (script f ls s) = cmds s" "sh_fx (script f ls s) = sh_fx s"
  by (induction ls arbitrary: s) (simp_all add: ATH_SCRIPT_ADD_def split: option.split)

subsection \<open>The network's name\<close>

text \<open>C37. The name in the \<open>iwconfig\<close> line is quoted so that the shell reads it back exactly, unless it contains a dollar
  sign: then the shell expands it. A name within the limit of the setting fits the buffer.
\<close>

theorem ssid_quoting:
  "dq_read (scConversionSSID ssid) = (if CHR ''$'' \<in> set ssid then None else Some ssid) \<and>
   length (scConversionSSID ssid) \<le> 2 * length ssid"
  by (simp add: dq_read_conversion length_scConversionSSID)

subsection \<open>The hardware address\<close>

text \<open>C32. The radio gets the address of the management bridge plus one, modulo \<open>2 ^ 48\<close>: the text of the bridge's
  address is read back to its six bytes, and the twelve digits given to \<open>ifconfig\<close> are those of the sum.
\<close>

theorem radio_mac:
  assumes "length m = 6"
  shows "\<exists>m'. scHexs2Chars (mac_join (CHR '':'') m) 6 True = Some m \<and> mac_plus_one m = Some m' \<and>
    mac_val m' = (mac_val m + 1) mod 2 ^ 48 \<and>
    macAddrToString m' (replicate 18 NUL) None = Some (12, concat (map hex2 m') @ NUL # replicate 5 NUL)"
proof -
  have "scHexs2Chars (mac_join (CHR '':'') m) 6 True = Some m"
    using hexs2chars_join [of m "CHR '':''" None] assms by (simp add: scHexs2Chars_def)
  moreover have "mac_plus_one m = Some (mac_carry 6 m)" using assms by (simp add: mac_plus_one_def)
  moreover have "mac_val (mac_carry 6 m) = (mac_val m + 1) mod 2 ^ 48" using mac_val_carry [of m] assms by simp
  ultimately show ?thesis using macAddrToString_plain [of "mac_carry 6 m"] assms by simp
qed

theorem radio_mac_witness:
  "\<exists>m'. mac_plus_one [0, 0x11, 0x22, 0x33, 0xFF, 0xFF] = Some m' \<and> mac_val m' = 0x112234 * 0x10000"
  using radio_mac [of "[0, 0x11, 0x22, 0x33, 0xFF, 0xFF]"] by (auto simp: mac_val_def)

subsection \<open>Room for the interfaces' names\<close>

lemma vap_str_5: "0 \<le> unit \<Longrightarrow> unit < 10 \<Longrightarrow> 0 \<le> vap \<Longrightarrow> vap < 10 \<Longrightarrow> length (vap_str unit vap) = 5"
  by (simp add: vap_str_def length_fmt_d_digit)

lemma length_vap_str: "5 \<le> length (vap_str unit vap)"
proof -
  have "Suc 0 \<le> length (fmt_d v)" for v by (simp add: Suc_le_eq)
  from add_mono [OF this [of unit] this [of vap]] show ?thesis by (simp add: vap_str_def)
qed

text \<open>The array \<open>vapStr\<close> of \<open>wlanStart\<close>, as declared, is one byte short for every interface name: each way of
  creating an interface writes past it.
\<close>

theorem start_overflows:
  "find_channel VAP_STR_LEN unit s = None \<and> start_rogue VAP_STR_LEN unit s = None \<and>
   start_ap_wds VAP_STR_LEN unit s = None \<and> start_wds VAP_STR_LEN unit s = None \<and> start_sta VAP_STR_LEN unit s = None"
proof -
  have v: "into_buf VAP_STR_LEN (vap_str unit vap) = None" for vap
    using length_vap_str by (simp add: VAP_STR_LEN_def)
  have "into_buf VAP_STR_LEN ''ath09'' = None" "into_buf VAP_STR_LEN ''ath00'' = None" by (simp_all add: VAP_STR_LEN_def)
  then show ?thesis
    by (cases "apCfgFreqSpecGet unit s")
      (auto simp: find_channel_def start_rogue_def start_ap_wds_def start_wds_def start_sta_def v)
qed

subsection \<open>Stopping\<close>

text \<open>Stopping without a script of the caller, as the handlers do, runs one script, which stops the
  interfaces and the first authenticator; the commands that stop the authenticators of the further access points are lost.
\<close>

theorem stop_script:
  "cmds (wlanStop None unit unload s) = cmds s @ [wlan_down unit] \<and>
   files (wlanStop None unit unload s) = sh_fx s (wlan_down unit) ((files s)(wlan_down unit \<mapsto> script_text
     [sh_head, ''/etc/ath/ath_WLAN_stop '' @ fmt_d unit @ '' '' @ (if unload then ''unload'' else []),
      ''/usr/sbin/snmptrap -t 2'', ''/usr/bin/killall -9 hostapd'']))"
proof -
  let ?d = "wlan_down unit"
  let ?s = "ATH_SCRIPT_ADD (Some ?d) sh_head (ATH_SCRIPT_DEL ?d s)"
  let ?ls = "[''/etc/ath/ath_WLAN_stop '' @ fmt_d unit @ '' '' @ (if unload then ''unload'' else []),
      ''/usr/sbin/snmptrap -t 2'', ''/usr/bin/killall -9 hostapd'']"
  have f: "files ?s = (files s)(?d \<mapsto> sh_head @ [CHR 0x0A])"
    by (auto simp: ATH_SCRIPT_ADD_def ATH_SCRIPT_DEL_def f_append_def)
  then have "files (script (Some ?d) ?ls ?s) = (files s)(?d \<mapsto> script_text (sh_head # ?ls))"
    using script_file [of ?s ?d "sh_head @ [CHR 0x0A]" ?ls] by (auto simp: script_text_def fun_eq_iff)
  moreover have "cmds ?s = cmds s" "sh_fx ?s = sh_fx s"
    by (simp_all add: ATH_SCRIPT_ADD_def ATH_SCRIPT_DEL_def f_append_def)
  moreover have "wlanStop None unit unload s = sh_run ?d (script (Some ?d) ?ls ?s)"
    by (simp add: wlanStop_def Let_def run_up_def ATH_SCRIPT_RUN_def del: script_simps(1,2))
  ultimately show ?thesis by (simp del: script_simps(2))
qed

end
