(* ===== verification/Apply.thy ===== *)
theory Apply
  imports Wifi_Start
begin

text \<open>
  Applying changed settings (\<open>src/src/apps/apps_sc/libs/libapcfg/apply.c\<close>): the table of items, which form a
  tree, the handler of each item, the walk over the tree and \<open>apl_do_apply\<close>, which collects the requests and
  walks. A flagged item stands for everything below it.

  \<open>room\<close> is the size of the array \<open>wlanStart\<close> writes interface names into. The lines of the debug log
  are not part of the model; the reads of the table of names for them are.
\<close>

subsection \<open>The table\<close>

datatype handler = reboot_handler | sysname_handler | login_handler | telnet_handler | ssh_handler | httpd_handler
  | vlan_handler | stp_handler | lltd_handler | ipv4_handler | ipv6_handler | ethsup_handler | balance_handler
  | wlan_handler | vap_handler | ntp_handler | snmp_handler | log_handler | ftp_handler | eth_datarate_handler
  | force100m_handler | redirect_handler | rogueap_handler | bonjour_handler | autoreboot_handler

text \<open>A row of the table, without the identifier, which is the row's index, and without the flag, which is
  state. \<open>NO_ACC\<close> is \<open>None\<close>.\<close>

record apply_table =
  t_handler :: "handler option"
  t_unit :: int
  t_vap :: int
  t_parent :: "nat option"
  t_child :: "nat option"
  t_rbrother :: "nat option"

abbreviation (input) row :: "handler option \<Rightarrow> int \<Rightarrow> int \<Rightarrow> nat option \<Rightarrow> nat option \<Rightarrow> nat option \<Rightarrow> apply_table" where
  "row h u v p c b \<equiv> \<lparr>t_handler = h, t_unit = u, t_vap = v, t_parent = p, t_child = c, t_rbrother = b\<rparr>"

definition applyTable :: "apply_table list" where
  "applyTable = [
     row None (- 1) (- 1) None (Some 1) None,
     row (Some reboot_handler) (- 1) (- 1) (Some 0) (Some 2) None,
     row (Some sysname_handler) (- 1) (- 1) (Some 1) None (Some 3),
     row (Some login_handler) (- 1) (- 1) (Some 1) (Some 4) (Some 7),
     row (Some telnet_handler) (- 1) (- 1) (Some 3) None (Some 5),
     row (Some ssh_handler) (- 1) (- 1) (Some 3) None (Some 6),
     row (Some httpd_handler) (- 1) (- 1) (Some 3) None None,
     row (Some vlan_handler) (- 1) (- 1) (Some 1) (Some 8) (Some 24),
     row (Some stp_handler) (- 1) (- 1) (Some 7) None (Some 9),
     row (Some lltd_handler) (- 1) (- 1) (Some 7) None (Some 10),
     row (Some ipv4_handler) (- 1) (- 1) (Some 7) None (Some 11),
     row (Some ipv6_handler) (- 1) (- 1) (Some 7) None (Some 12),
     row (Some ethsup_handler) (- 1) (- 1) (Some 7) None (Some 13),
     row (Some balance_handler) 0 (- 1) (Some 7) None (Some 14),
     row (Some wlan_handler) 0 (- 1) (Some 7) (Some 15) (Some 19),
     row (Some vap_handler) 0 0 (Some 14) None (Some 16),
     row (Some vap_handler) 0 1 (Some 14) None (Some 17),
     row (Some vap_handler) 0 2 (Some 14) None (Some 18),
     row (Some vap_handler) 0 3 (Some 14) None None,
     row (Some wlan_handler) 1 (- 1) (Some 7) (Some 20) None,
     row (Some vap_handler) 1 0 (Some 19) None (Some 21),
     row (Some vap_handler) 1 1 (Some 19) None (Some 22),
     row (Some vap_handler) 1 2 (Some 19) None (Some 23),
     row (Some vap_handler) 1 3 (Some 19) None None,
     row (Some ntp_handler) (- 1) (- 1) (Some 1) None (Some 25),
     row (Some snmp_handler) (- 1) (- 1) (Some 1) None (Some 26),
     row (Some log_handler) (- 1) (- 1) (Some 1) None (Some 27),
     row (Some ftp_handler) (- 1) (- 1) (Some 1) None (Some 28),
     row (Some eth_datarate_handler) (- 1) (- 1) (Some 1) None (Some 29),
     row (Some force100m_handler) (- 1) (- 1) (Some 1) None (Some 30),
     row (Some redirect_handler) (- 1) (- 1) (Some 1) None (Some 31),
     row (Some rogueap_handler) (- 1) (- 1) (Some 1) None (Some 32),
     row (Some bonjour_handler) (- 1) (- 1) (Some 1) None (Some 33),
     row (Some autoreboot_handler) (- 1) (- 1) (Some 1) None None]"

subsection \<open>The handlers that restart services\<close>

text \<open>\<open>APPLYRUN\<close> is \<open>SYSTEM\<close> from the first apply on.\<close>

definition APPLYRUN :: "cstr \<Rightarrow> 'a host_scheme \<Rightarrow> 'a host_scheme" where
  "APPLYRUN cmd s = sh_run (take 1023 cmd) s"

definition applyrun :: "cstr list \<Rightarrow> 'a host_scheme \<Rightarrow> 'a host_scheme" where
  "applyrun = fold APPLYRUN"

definition rc_reboot :: "cstr list" where "rc_reboot = [''reboot'']"
definition rc_sysname :: "cstr list" where "rc_sysname = [''rc syslogd restart'']"
definition rc_balance :: "cstr list" where "rc_balance = [''rc balance restart'']"
definition rc_ntp :: "cstr list" where "rc_ntp = [''rc ntp restart'']"
definition rc_snmp :: "cstr list" where "rc_snmp = [''rc snmp restart'']"
definition rc_log :: "cstr list" where "rc_log = [''rc syslogd restart'']"
definition rc_ftp :: "cstr list" where "rc_ftp = [''rc ftp restart'']"
definition rc_redirect :: "cstr list" where "rc_redirect = [''rc httpredirect restart'']"
definition rc_rogueap :: "cstr list" where "rc_rogueap = [''rc rogueap restart'']"
definition rc_bonjour :: "cstr list" where "rc_bonjour = [''rc mdns restart'']"
definition rc_autoreboot :: "cstr list" where "rc_autoreboot = [''rc autoreboot restart'']"
definition rc_httpd :: "cstr list" where "rc_httpd = [''rc httpd restart'']"
definition rc_telnet :: "cstr list" where "rc_telnet = [''rc telnetd restart'']"
definition rc_ssh :: "cstr list" where "rc_ssh = [''rc sshd restart'']"
definition rc_login :: "cstr list" where "rc_login = rc_httpd @ rc_telnet @ rc_ssh"
definition rc_stp :: "cstr list" where "rc_stp = [''rc stp restart'']"
definition rc_lltd :: "cstr list" where "rc_lltd = [''rc lld2 restart'']"
definition rc_ethsup :: "cstr list" where "rc_ethsup = [''rc lanDot1xSupp restart'']"
definition rc_ipv6 :: "cstr list" where "rc_ipv6 = [''rc ipv6 restart''] @ rc_httpd"
definition rc_ipv4 :: "cstr list" where
  "rc_ipv4 = [''rc ip restart'', ''rc wins restart'', ''rc wscupnp restart&'', ''rc httpredirect restart'']"

definition eth_datarate :: "'a host_scheme \<Rightarrow> 'a host_scheme option" where
  "eth_datarate s = do {
     (datarate, s) \<leftarrow> apCfgEthDataRateGet s;
     (force100m, s) \<leftarrow> apCfgForce100mGet s;
     (auto_nego, s) \<leftarrow> apCfgAutonegoGet s;
     (duplex_mode, s) \<leftarrow> apCfgDuplexmodeGet s;
     Some (if force100m \<noteq> 0 then APPLYRUN ''echo 1 1 1 > /proc/ethernet_status_cfb'' s
       else
         let s = APPLYRUN (if datarate \<noteq> 0 \<and> auto_nego = 0
             then ''echo 1 '' @ (if datarate = 10 then ''0'' else if datarate = 100 then ''1'' else ''2'') @ '' '' @
               fmt_d duplex_mode @ '' > /proc/ethernet_status_cfb''
             else ''echo 0 0 0 > /proc/ethernet_status_cfb'') s
         in if datarate = 1000 then sh_run ''ifconfig eth0 up'' (sh_run ''ifconfig eth0 down'' s) else s)
   }"

definition force100m_restart :: "'a host_scheme \<Rightarrow> 'a host_scheme option" where
  "force100m_restart s = do {
     (force100m, s) \<leftarrow> apCfgForce100mGet s;
     (port_speed, s) \<leftarrow> apCfgPortspeedGet s;
     (auto_nego, s) \<leftarrow> apCfgAutonegoGet s;
     (duplex_mode, s) \<leftarrow> apCfgDuplexmodeGet s;
     if force100m \<noteq> 0 then Some (APPLYRUN ''echo 1 1 1 > /proc/ethernet_status_cfb'' s)
     else if auto_nego = 0 then
       Some (APPLYRUN (''echo 1 '' @ fmt_d port_speed @ '' '' @ fmt_d duplex_mode @ '' > /proc/ethernet_status_cfb'') s)
     else eth_datarate s
   }"

subsection \<open>The wireless handlers\<close>

definition WLAN_MAX_DEV :: int where "WLAN_MAX_DEV = 1"

definition wlan_restart :: "nat \<Rightarrow> int \<Rightarrow> 'a lib_scheme \<Rightarrow> (int \<times> 'a lib_scheme) option" where
  "wlan_restart room unit s =
     (if unit = - 1 \<or> unit \<ge> WLAN_MAX_DEV then Some (1, s)
      else
        let s = (if f_exists ''/tmp/apl_reload_mod'' s then f_unlink ''/tmp/apl_reload_mod'' (wlanStop None unit True s)
                 else wlanStop None unit False s)
        in map_option (\<lambda>s. (0, s)) (wlanStart room None unit s))"

text \<open>The first step of an access point's script: take down what the mode no longer needs.\<close>

definition vap_make :: "string \<Rightarrow> cstr \<Rightarrow> int \<Rightarrow> bool \<Rightarrow> bool \<Rightarrow> 'a host_scheme \<Rightarrow> 'a host_scheme" where
  "vap_make f v unit apmode sta s =
     (let stop = (\<lambda>w. ''/etc/ath/ath_VAP_stop '' @ w @ '' destroy''); sta_vap = vap_str unit WLAN_MAX_VAP in
      script (Some f)
       (if apmode then [stop v, ''/etc/ath/ath_VAP_make '' @ v @ '' ap''] @ (if sta then [stop sta_vap] else [])
        else if sta then [stop sta_vap] else [stop v]) s)"

definition vap_sta :: "string \<Rightarrow> int \<Rightarrow> 'a host_scheme \<Rightarrow> 'a host_scheme option" where
  "vap_sta f unit s = do {
     v \<leftarrow> into_buf 6 (vap_str unit WLAN_MAX_VAP);
     let s = script (Some f) [''echo 1 > /proc/us_cfb'', ''/etc/ath/ath_VAP_make '' @ v @ '' sta''] s;
     s \<leftarrow> wlanBasicApply (Some f) unit WLAN_MAX_VAP True 1 s;
     s \<leftarrow> wlanAdvanceApply (Some f) unit WLAN_MAX_VAP True s;
     s \<leftarrow> wlanNoApSecurityApply (Some f) unit WLAN_MAX_VAP s;
     s \<leftarrow> wlanBridgeApply (Some f) unit WLAN_MAX_VAP 0 (script (Some f) [''sleep 2''] s);
     Some (script (Some f) [''/usr/sbin/rc wpasupplicant restart&''] s)
   }"

definition vap_wds :: "string \<Rightarrow> int \<Rightarrow> int \<Rightarrow> 'a host_scheme \<Rightarrow> 'a host_scheme option" where
  "vap_wds f unit vap s = do {
     v \<leftarrow> into_buf 6 (vap_str unit vap);
     let s = script (Some f) [''echo 1 > /proc/wds_cfb'', ''/etc/ath/ath_VAP_make '' @ v @ '' wds''] s;
     s \<leftarrow> wlanBasicApply (Some f) unit vap True 0 s;
     s \<leftarrow> wlanAdvanceApply (Some f) unit vap True s;
     s \<leftarrow> wlanWdsApply (Some f) unit vap s;
     s \<leftarrow> wlanNoApSecurityApply (Some f) unit vap s;
     s \<leftarrow> wlanBridgeApply (Some f) unit vap 1 (script (Some f) [''sleep 2''] s);
     Some (script (Some f) [''/usr/sbin/rc wdspsk start&''] s)
   }"

definition vap_ap :: "string \<Rightarrow> int \<Rightarrow> int \<Rightarrow> bool \<Rightarrow> 'a lib_scheme \<Rightarrow> 'a lib_scheme option" where
  "vap_ap f unit vap wds s = do {
     let wds = (wds \<and> vap = 0);
     let s = (if wds then script (Some f) [''echo 1 > /proc/wds_cfb''] s else s);
     s \<leftarrow> wlanBasicApply (Some f) unit vap False 0 s;
     s \<leftarrow> wlanAdvanceApply (Some f) unit vap False s;
     s \<leftarrow> wlanAclApply (Some f) unit vap s;
     s \<leftarrow> (if wds then wlanWdsApply (Some f) unit vap s else Some s);
     s \<leftarrow> wlanSecurityApply (Some f) unit vap s;
     s \<leftarrow> wlanBridgeApply (Some f) unit vap (if wds then 2 else 0) s;
     if vap = 0 then do {
       s \<leftarrow> wlanCreatWscConfig unit vap s;
       Some (script (Some f) ([''/usr/sbin/rc wscupnp restart&''] @ (if wds then [''/usr/sbin/rc wdspsk start&''] else [])) s)
     } else Some s
   }"

definition vap_restart :: "int \<Rightarrow> int \<Rightarrow> 'a lib_scheme \<Rightarrow> (int \<times> 'a lib_scheme) option" where
  "vap_restart unit vap s =
     (if unit = - 1 \<or> unit \<ge> WLAN_MAX_DEV \<or> vap = - 1 \<or> vap \<ge> WLAN_MAX_VAP then Some (1, s)
      else do {
        f \<leftarrow> into_buf 64 (''/tmp/vap_handler_'' @ fmt_d unit @ fmt_d vap);
        if f_exists f s then Some (0, s)
        else do {
          v \<leftarrow> into_buf 6 (vap_str unit vap);
          let s = script (Some f) [sh_head, ''/etc/ath/ath_VAP_down '' @ fmt_d unit] s;
          (st, s) \<leftarrow> apCfgWlanStateGet unit s;
          (act, s) \<leftarrow> (if st = 0 then Some (0, s) else apCfgActiveModeGet unit vap s);
          s \<leftarrow> (if st = 0 \<or> act = 0 then Some (script (Some f) [''/etc/ath/ath_VAP_stop '' @ v @ '' destroy''] s)
            else do {
              (m, s) \<leftarrow> apCfgOpModeGet unit s;
              if m = CFG_OP_MODE_ROGAP then Some s
              else do {
                let apmode = (m \<noteq> CFG_OP_MODE_PPT \<and> m \<noteq> CFG_OP_MODE_MPT \<and> m \<noteq> CFG_OP_MODE_UC);
                let wds = (m = CFG_OP_MODE_PPT \<or> m = CFG_OP_MODE_MPT \<or> m = CFG_OP_MODE_AP_PTP \<or> m = CFG_OP_MODE_AP_PTMP);
                let sta = (m = CFG_OP_MODE_UC \<or> m = CFG_OP_MODE_UR);
                let s = vap_make f v unit apmode sta s;
                s \<leftarrow> (if vap = 0 \<and> sta then vap_sta f unit s else Some s);
                s \<leftarrow> (if vap = 0 \<and> wds \<and> \<not> apmode then vap_wds f unit vap s else Some s);
                if apmode then vap_ap f unit vap wds s else Some s
              }
            });
          let s = script (Some f) [''/etc/ath/ath_VAP_up '' @ fmt_d unit] s;
          Some (0, ATH_SCRIPT_DEL f (ATH_SCRIPT_RUN f s))
        }
      })"

definition vlan_restart :: "nat \<Rightarrow> 'a lib_scheme \<Rightarrow> 'a lib_scheme option" where
  "vlan_restart room s = do {
     (ipv6, s) \<leftarrow> apCfgipv6modeGet s;
     if ipv6 = 1 then Some (sh_run ''/bin/sleep 3 && /sbin/reboot&'' s)
     else do {
       let s = wlanStop None 0 False s;
       let s = applyrun [''rc ip stop'', ''rc ipv6 stop'', ''rc bridge restart'', ''rc lan restart''] s;
       (_, s) \<leftarrow> wlan_restart room 0 s;
       Some (applyrun (rc_stp @ rc_ipv4 @ rc_ipv6 @ rc_lltd @ rc_ethsup) s)
     }
   }"

subsection \<open>Running a handler\<close>

text \<open>The handlers that only restart services.\<close>

fun service :: "handler \<Rightarrow> cstr list option" where
  "service reboot_handler = Some rc_reboot"
| "service sysname_handler = Some rc_sysname"
| "service login_handler = Some rc_login"
| "service telnet_handler = Some rc_telnet"
| "service ssh_handler = Some rc_ssh"
| "service httpd_handler = Some rc_httpd"
| "service stp_handler = Some rc_stp"
| "service lltd_handler = Some rc_lltd"
| "service ipv4_handler = Some rc_ipv4"
| "service ipv6_handler = Some rc_ipv6"
| "service ethsup_handler = Some rc_ethsup"
| "service balance_handler = Some rc_balance"
| "service ntp_handler = Some rc_ntp"
| "service snmp_handler = Some rc_snmp"
| "service log_handler = Some rc_log"
| "service ftp_handler = Some rc_ftp"
| "service redirect_handler = Some rc_redirect"
| "service rogueap_handler = Some rc_rogueap"
| "service bonjour_handler = Some rc_bonjour"
| "service autoreboot_handler = Some rc_autoreboot"
| "service vlan_handler = None"
| "service wlan_handler = None"
| "service vap_handler = None"
| "service eth_datarate_handler = None"
| "service force100m_handler = None"

definition handle :: "nat \<Rightarrow> handler \<Rightarrow> int \<Rightarrow> int \<Rightarrow> 'a lib_scheme \<Rightarrow> (int \<times> 'a lib_scheme) option" where
  "handle room h unit vap s =
     (case service h of
        Some cs \<Rightarrow> Some (0, applyrun cs s)
      | None \<Rightarrow>
          if h = vlan_handler then map_option (\<lambda>s. (0, s)) (vlan_restart room s)
          else if h = wlan_handler then wlan_restart room unit s
          else if h = vap_handler then vap_restart unit vap s
          else if h = eth_datarate_handler then map_option (\<lambda>s. (0, s)) (eth_datarate s)
          else map_option (\<lambda>s. (0, s)) (force100m_restart s))"

end
