(* ===== verification/Apply_Tree.thy ===== *)
theory Apply_Tree
  imports Apply
begin

text \<open>
  The walk over the tree of items and \<open>apl_do_apply\<close> (\<open>src/src/apps/apps_sc/libs/libapcfg/apply.c\<close>), the
  order in which a set of requests is applied, and that applying consumes the requests.

  The static variables of \<open>apply.c\<close>, the flags in the table and \<open>mdns_stopped\<close>, are touched by nothing
  else, and are passed beside the host.
\<close>

subsection \<open>The walk\<close>

lemma applyTable_length [simp]: "length applyTable = 34"
  by (simp add: applyTable_def)

lemma applyTable_forward:
  "list_all (\<lambda>(i, r). (case t_child r of None \<Rightarrow> True | Some c \<Rightarrow> i < c \<and> c < 34) \<and>
     (case t_rbrother r of None \<Rightarrow> True | Some b \<Rightarrow> i < b \<and> b < 34)) (enumerate 0 applyTable)"
  by (simp add: applyTable_def)

lemma applyTable_next:
  assumes "i < 34"
  shows "t_child (applyTable ! i) = Some c \<Longrightarrow> i < c \<and> c < 34"
    and "t_rbrother (applyTable ! i) = Some b \<Longrightarrow> i < b \<and> b < 34"
proof -
  have "(i, applyTable ! i) \<in> set (enumerate 0 applyTable)"
    using assms by (force simp: in_set_enumerate_eq)
  then have n: "(case t_child (applyTable ! i) of None \<Rightarrow> True | Some c \<Rightarrow> i < c \<and> c < 34) \<and>
     (case t_rbrother (applyTable ! i) of None \<Rightarrow> True | Some b \<Rightarrow> i < b \<and> b < 34)"
    using applyTable_forward unfolding list_all_iff by blast
  then show "t_child (applyTable ! i) = Some c \<Longrightarrow> i < c \<and> c < 34" by simp
  show "t_rbrother (applyTable ! i) = Some b \<Longrightarrow> i < b \<and> b < 34" using n by simp
qed

lemma applyTable_measure:
  assumes "\<not> 34 \<le> i"
  shows "t_child (applyTable ! i) = Some c \<Longrightarrow> Suc (2 * (34 - c)) < 2 * (34 - i)"
    and "t_rbrother (applyTable ! i) = Some b \<Longrightarrow> 34 - b < 34 - i"
  using applyTable_next(1) [of i c] applyTable_next(2) [of i b] assms by linarith+

text \<open>Bonjour is stopped once, before its own restart and before a dynamic address changes.\<close>

definition stop_mdns :: "(nat \<Rightarrow> bool) \<Rightarrow> bool \<times> 'a lib_scheme \<Rightarrow> (bool \<times> 'a lib_scheme) option" where
  "stop_mdns fl = (\<lambda>(mdns_stopped, s).
     if mdns_stopped then Some (True, s)
     else if fl APL_BONJOUR then Some (True, APPLYRUN ''rc mdns stop'' s)
     else do {
       (dhcp, s) \<leftarrow> apCfgDhcpEnableGet s;
       Some (if dhcp \<noteq> 0 \<and> fl APL_IPv4 then (True, APPLYRUN ''rc mdns stop'' s) else (False, s))
     })"

text \<open>A flagged row: the result, and the status that ends the walk when it is not 0.\<close>

definition run_row :: "nat \<Rightarrow> nat \<Rightarrow> int \<Rightarrow> 'a lib_scheme \<Rightarrow> (int \<times> bool \<times> 'a lib_scheme) option" where
  "run_row room i ret s = do {
     _ \<leftarrow> id_string i;
     (case t_handler (applyTable ! i) of
        None \<Rightarrow> Some (ret, False, s)
      | Some h \<Rightarrow> do {
          (ret, s) \<leftarrow> handle room h (t_unit (applyTable ! i)) (t_vap (applyTable ! i)) s;
          Some (ret, ret \<noteq> 0, s)
        })
   }"

function (sequential)
  apl_handleApplyTree :: "nat \<Rightarrow> (nat \<Rightarrow> bool) \<Rightarrow> nat \<Rightarrow> bool \<times> 'a lib_scheme \<Rightarrow> (int \<times> bool \<times> 'a lib_scheme) option" and
  tree_loop :: "nat \<Rightarrow> (nat \<Rightarrow> bool) \<Rightarrow> nat \<Rightarrow> int \<Rightarrow> bool \<times> 'a lib_scheme \<Rightarrow> (int \<times> bool \<times> 'a lib_scheme) option"
where
  "apl_handleApplyTree room fl i w = do { w \<leftarrow> stop_mdns fl w; tree_loop room fl i 0 w }"
| "tree_loop room fl i ret w =
     (if 34 \<le> i then None
      else do {
        (ret, stop, w) \<leftarrow>
          (if fl i then map_option (\<lambda>(ret, stop, s). (ret, stop, fst w, s)) (run_row room i ret (snd w))
           else case t_child (applyTable ! i) of
               None \<Rightarrow> Some (ret, False, w)
             | Some c \<Rightarrow> map_option (\<lambda>(ret, w). (ret, False, w)) (apl_handleApplyTree room fl c w));
        if stop then Some (ret, w)
        else case t_rbrother (applyTable ! i) of None \<Rightarrow> Some (ret, w) | Some b \<Rightarrow> tree_loop room fl b ret w
      })"
  by pat_completeness auto
termination
  by (relation "measure (case_sum (\<lambda>(_, _, i, _). 2 * (34 - i) + 1) (\<lambda>(_, _, i, _, _). 2 * (34 - i)))")
    (auto dest: applyTable_measure)

declare apl_handleApplyTree.simps [simp del] tree_loop.simps [simp del]

subsection \<open>\<open>apl_do_apply\<close>\<close>

text \<open>One line of the request file: 0 is ignored, an identifier past the table is written out of bounds.\<close>

definition flag_item :: "int \<Rightarrow> (nat \<Rightarrow> bool) \<Rightarrow> (nat \<Rightarrow> bool) option" where
  "flag_item i fl =
     (if i \<le> 0 then Some fl
      else if 34 \<le> i then None
      else do { _ \<leftarrow> id_string (nat i); Some (fl(nat i := True)) })"

definition apl_clear_flag :: "(nat \<Rightarrow> bool) \<Rightarrow> nat \<Rightarrow> bool" where
  "apl_clear_flag fl = (\<lambda>i. if i < 34 then False else fl i)"

definition apl_do_apply :: "nat \<Rightarrow> (nat \<Rightarrow> bool) \<times> bool \<times> 'a lib_scheme \<Rightarrow> ((nat \<Rightarrow> bool) \<times> bool \<times> 'a lib_scheme) option" where
  "apl_do_apply room = (\<lambda>(fl, m, s).
     if \<not> f_exists APL_FLAG s \<or> f_exists APL_RUNNING s then Some (fl, m, s)
     else do {
       let s = sh_echo_1 APL_RUNNING (sh_echo_1 APL_PARSING s);
       fl \<leftarrow> fold_opt flag_item (read_flags s) fl;
       let s = f_unlink APL_PARSING (f_unlink APL_FLAG s);
       (_, m, s) \<leftarrow> apl_handleApplyTree room fl APL_ROOT (m, s);
       Some (fl, m, f_unlink APL_RUNNING s)
     })"

subsection \<open>The order of application\<close>

text \<open>What a walk does: enter a subtree, or apply an item.\<close>

datatype ev = Enter | Item nat

function (sequential) schedule :: "(nat \<Rightarrow> bool) \<Rightarrow> nat \<Rightarrow> ev list" and brothers :: "(nat \<Rightarrow> bool) \<Rightarrow> nat \<Rightarrow> ev list" where
  "schedule fl i = Enter # brothers fl i"
| "brothers fl i =
     (if 34 \<le> i then []
      else (if fl i then [Item i] else case t_child (applyTable ! i) of None \<Rightarrow> [] | Some c \<Rightarrow> schedule fl c) @
        (case t_rbrother (applyTable ! i) of None \<Rightarrow> [] | Some b \<Rightarrow> brothers fl b))"
  by pat_completeness auto
termination
  by (relation "measure (case_sum (\<lambda>(_, i). 2 * (34 - i) + 1) (\<lambda>(_, i). 2 * (34 - i)))") (auto dest: applyTable_measure)

declare schedule.simps [simp del] brothers.simps [simp del]

definition exec :: "nat \<Rightarrow> (nat \<Rightarrow> bool) \<Rightarrow> ev \<Rightarrow> bool \<times> 'a lib_scheme \<Rightarrow> (bool \<times> 'a lib_scheme) option" where
  "exec room fl e w =
     (case e of Enter \<Rightarrow> stop_mdns fl w | Item i \<Rightarrow> map_option (\<lambda>(ret, stop, s). (fst w, s)) (run_row room i 0 (snd w)))"

lemma fold_opt_append: "fold_opt g (xs @ ys) s = Option.bind (fold_opt g xs s) (fold_opt g ys)"
proof (induction xs arbitrary: s)
  case (Cons x xs)
  then show ?case by (cases "g x s") simp_all
qed simp

text \<open>Which handler fails: those of the second radio, which this product does not have, and they do nothing.\<close>

lemma applyTable_wlan:
  "list_all (\<lambda>(i, r). t_handler r = Some wlan_handler \<longrightarrow> i = 14 \<and> t_unit r = 0 \<or> i = 19 \<and> t_unit r = 1)
     (enumerate 0 applyTable)"
  "list_all (\<lambda>(i, r). t_handler r = Some vap_handler \<longrightarrow>
       t_unit r = 0 \<and> 0 \<le> t_vap r \<and> t_vap r < 4 \<or> t_unit r = 1 \<and> 20 \<le> i \<and> i \<le> 23) (enumerate 0 applyTable)"
  by (simp_all add: applyTable_def)

lemma wlan_restart_status: "wlan_restart room unit s = Some (r, s') \<Longrightarrow> r \<noteq> 0 \<Longrightarrow> s' = s \<and> unit \<noteq> 0"
  by (auto simp: wlan_restart_def WLAN_MAX_DEV_def Let_def split: if_splits)

lemma vap_restart_status:
  "vap_restart unit vap s = Some (r, s') \<Longrightarrow> r \<noteq> 0 \<Longrightarrow> s' = s \<and> \<not> (unit = 0 \<and> 0 \<le> vap \<and> vap < 4)"
  by (auto simp: vap_restart_def WLAN_MAX_DEV_def Let_def bind_Some_iff split: if_splits)

lemma handle_status:
  assumes "handle room h unit vap s = Some (r, s')" "r \<noteq> 0"
  shows "s' = s \<and> (h = wlan_handler \<and> unit \<noteq> 0 \<or> h = vap_handler \<and> \<not> (unit = 0 \<and> 0 \<le> vap \<and> vap < 4))"
proof (cases h)
  case wlan_handler
  then show ?thesis using assms wlan_restart_status [of room unit s r s'] by (simp add: handle_def)
next
  case vap_handler
  then show ?thesis using assms vap_restart_status [of unit vap s r s'] by (simp add: handle_def)
qed (use assms in \<open>auto simp: handle_def\<close>)

lemma run_row_status:
  assumes "run_row room i ret s = Some (r, True, s')" "i < 34"
  shows "s' = s \<and> 19 \<le> i \<and> i \<le> 23"
proof -
  obtain h where h: "t_handler (applyTable ! i) = Some h"
    "handle room h (t_unit (applyTable ! i)) (t_vap (applyTable ! i)) s = Some (r, s')" "r \<noteq> 0"
    using assms(1) by (auto simp: run_row_def bind_Some_iff split: option.splits)
  have "(i, applyTable ! i) \<in> set (enumerate 0 applyTable)" using assms(2) by (force simp: in_set_enumerate_eq)
  then have "(h = wlan_handler \<longrightarrow> i = 14 \<and> t_unit (applyTable ! i) = 0 \<or> i = 19)"
    "(h = vap_handler \<longrightarrow> t_unit (applyTable ! i) = 0 \<and> 0 \<le> t_vap (applyTable ! i) \<and> t_vap (applyTable ! i) < 4 \<or> 20 \<le> i \<and> i \<le> 23)"
    using applyTable_wlan h(1) unfolding list_all_iff by fastforce+
  then show ?thesis using handle_status [OF h(2,3)] by auto
qed

lemma run_row_state: "map_option (snd \<circ> snd) (run_row room i ret s) = map_option (snd \<circ> snd) (run_row room i ret' s)"
  by (simp add: run_row_def split: option.splits Option.bind_split)

lemma brothers_wlan1:
  "brothers fl 23 = (if fl 23 then [Item 23] else [])"
  "brothers fl 22 = (if fl 22 then [Item 22] else []) @ brothers fl 23"
  "brothers fl 21 = (if fl 21 then [Item 21] else []) @ brothers fl 22"
  "brothers fl 20 = (if fl 20 then [Item 20] else []) @ brothers fl 21"
  by (subst brothers.simps, simp add: applyTable_def)+

lemma exec_wlan1: "i \<in> {20, 21, 22, 23} \<Longrightarrow> exec room fl (Item i) w = Some w"
  by (cases w) (auto simp: exec_def run_row_def id_string_def idString_def applyTable_def handle_def vap_restart_def WLAN_MAX_DEV_def)

lemma skip_wlan1: "i \<in> {20, 21, 22, 23} \<Longrightarrow> fold_opt (exec room fl) (brothers fl i) w = Some w"
  by (elim insertE emptyE; simp add: brothers_wlan1 exec_wlan1)

lemma wlan1_brother:
  "list_all (\<lambda>(i, r). 19 \<le> i \<and> i \<le> 23 \<longrightarrow> (case t_rbrother r of None \<Rightarrow> True | Some b \<Rightarrow> b \<in> {20, 21, 22, 23})) (enumerate 0 applyTable)"
  by (simp add: applyTable_def)

lemma wlan1_rest:
  assumes "19 \<le> i" "i \<le> 23"
  shows "fold_opt (exec room fl) (case t_rbrother (applyTable ! i) of None \<Rightarrow> [] | Some b \<Rightarrow> brothers fl b) w = Some w"
proof -
  have "(i, applyTable ! i) \<in> set (enumerate 0 applyTable)" using assms by (force simp: in_set_enumerate_eq)
  then have "case t_rbrother (applyTable ! i) of None \<Rightarrow> True | Some b \<Rightarrow> b \<in> {20, 21, 22, 23}"
    using wlan1_brother assms unfolding list_all_iff by fastforce
  then show ?thesis by (auto split: option.splits simp: skip_wlan1)
qed

text \<open>The walk, item by item: one step, and the rest of its row.\<close>

lemma exec_item: "exec room fl (Item i) (m, s) = map_option (\<lambda>(ret, stop, s). (m, s)) (run_row room i ret s)"
  using run_row_state [of room i 0 s ret]
  by (cases "run_row room i 0 s"; cases "run_row room i ret s") (auto simp: exec_def)

lemma walk_schedule:
  shows "i < 34 \<Longrightarrow> map_option snd (apl_handleApplyTree room fl i w) = fold_opt (exec room fl) (schedule fl i) w"
    and "i < 34 \<Longrightarrow> map_option snd (tree_loop room fl i ret w) = fold_opt (exec room fl) (brothers fl i) w"
proof (induction room fl i w and room fl i ret w rule: apl_handleApplyTree_tree_loop.induct)
  case (1 room fl i w)
  then show ?case
    by (cases "stop_mdns fl w") (simp_all add: apl_handleApplyTree.simps schedule.simps exec_def)
next
  case (2 room fl i ret w)
  then have i: "\<not> 34 \<le> i" by simp
  obtain m s where w: "w = (m, s)" by (cases w)
  let ?rest = "case t_rbrother (applyTable ! i) of None \<Rightarrow> [] | Some b \<Rightarrow> brothers fl b"
  let ?next = "\<lambda>r w. case t_rbrother (applyTable ! i) of None \<Rightarrow> Some (r, w) | Some b \<Rightarrow> tree_loop room fl b r w"
  have bro: "brothers fl i = (if fl i then [Item i] else case t_child (applyTable ! i) of None \<Rightarrow> [] | Some c \<Rightarrow> schedule fl c) @ ?rest"
    using i by (simp add: brothers.simps [of fl i])
  show ?case
  proof (cases "fl i")
    case True
    show ?thesis
    proof (cases "run_row room i ret s")
      case None
      then show ?thesis using True i w bro exec_item [of room fl i m s ret] by (simp add: tree_loop.simps [of room fl i])
    next
      case (Some x)
      obtain r stop s' where x: "x = (r, stop, s')" by (cases x) auto
      show ?thesis
      proof (cases stop)
        case True
        then have "s' = s \<and> 19 \<le> i \<and> i \<le> 23" using Some x run_row_status [of room i ret s r s'] 2(3) by simp
        then show ?thesis using True Some x w bro \<open>fl i\<close> exec_item [of room fl i m s ret] wlan1_rest [of i room fl "(m, s)"] i
          by (simp add: tree_loop.simps [of room fl i])
      next
        case False
        have "map_option snd (?next r (m, s')) = fold_opt (exec room fl) ?rest (m, s')"
          using 2(2) [OF i _ _ _ False] Some x \<open>fl i\<close> w applyTable_next(2) [OF 2(3)] by (auto split: option.splits)
        then show ?thesis using False Some x w bro \<open>fl i\<close> exec_item [of room fl i m s ret] i
          by (simp add: tree_loop.simps [of room fl i])
      qed
    qed
  next
    case False
    show ?thesis
    proof (cases "t_child (applyTable ! i)")
      case None
      have "map_option snd (?next ret w) = fold_opt (exec room fl) ?rest w"
        using 2(2) [OF i, of "(ret, False, w)" ret "(False, w)" False w] None False applyTable_next(2) [OF 2(3)]
        by (auto split: option.splits)
      then show ?thesis using None False bro i by (simp add: tree_loop.simps [of room fl i])
    next
      case (Some c)
      have child: "map_option snd (apl_handleApplyTree room fl c w) = fold_opt (exec room fl) (schedule fl c) w"
        using 2(1) [OF i False Some] applyTable_next(1) [OF 2(3) Some] by blast
      show ?thesis
      proof (cases "apl_handleApplyTree room fl c w")
        case None
        then show ?thesis using Some False bro i child by (simp add: tree_loop.simps [of room fl i] fold_opt_append)
      next
        case (Some x)
        obtain r w' where x: "x = (r, w')" by (cases x)
        have "map_option snd (?next r w') = fold_opt (exec room fl) ?rest w'"
          using 2(2) [OF i, of "(r, False, w')" r "(False, w')" False w'] \<open>t_child (applyTable ! i) = Some c\<close> Some x False
            applyTable_next(2) [OF 2(3)] by (auto split: option.splits)
        moreover have "fold_opt (exec room fl) (schedule fl c) w = Some w'" using child Some x by simp
        ultimately show ?thesis using Some x \<open>t_child (applyTable ! i) = Some c\<close> False bro i
          by (simp add: tree_loop.simps [of room fl i] fold_opt_append)
      qed
    qed
  qed
qed

subsection \<open>Which items are applied\<close>

text \<open>An item is applied when it is flagged and nothing above it is.\<close>

function covered :: "(nat \<Rightarrow> bool) \<Rightarrow> nat \<Rightarrow> bool" where
  "covered fl i =
     (case (if i < 34 then t_parent (applyTable ! i) else None) of
        None \<Rightarrow> False
      | Some p \<Rightarrow> if p < i then fl p \<or> covered fl p else False)"
  by pat_completeness auto
termination by (relation "measure snd") auto

declare covered.simps [simp del]

definition items :: "ev list \<Rightarrow> nat list" where
  "items evs = concat (map (\<lambda>e. case e of Enter \<Rightarrow> [] | Item i \<Rightarrow> [i]) evs)"

lemma items_simps [simp]:
  "items [] = []" "items (Enter # es) = items es" "items (Item i # es) = i # items es" "items (es @ fs) = items es @ items fs"
  by (simp_all add: items_def)

text \<open>The rows, from the last to the first.\<close>

lemma brothers_last:
  "items (brothers fl 33) = filter fl [33]"
  "items (brothers fl 32) = filter fl [32] @ items (brothers fl 33)"
  "items (brothers fl 31) = filter fl [31] @ items (brothers fl 32)"
  "items (brothers fl 30) = filter fl [30] @ items (brothers fl 31)"
  "items (brothers fl 29) = filter fl [29] @ items (brothers fl 30)"
  "items (brothers fl 28) = filter fl [28] @ items (brothers fl 29)"
  "items (brothers fl 27) = filter fl [27] @ items (brothers fl 28)"
  "items (brothers fl 26) = filter fl [26] @ items (brothers fl 27)"
  "items (brothers fl 25) = filter fl [25] @ items (brothers fl 26)"
  "items (brothers fl 24) = filter fl [24] @ items (brothers fl 25)"
  by (subst brothers.simps, simp add: applyTable_def)+

lemma brothers_vlan:
  "items (brothers fl 19) = (if fl 19 then [19] else items (brothers fl 20))"
  "items (brothers fl 18) = filter fl [18]"
  "items (brothers fl 17) = filter fl [17] @ items (brothers fl 18)"
  "items (brothers fl 16) = filter fl [16] @ items (brothers fl 17)"
  "items (brothers fl 15) = filter fl [15] @ items (brothers fl 16)"
  "items (brothers fl 14) = (if fl 14 then [14] else items (brothers fl 15)) @ items (brothers fl 19)"
  "items (brothers fl 13) = filter fl [13] @ items (brothers fl 14)"
  "items (brothers fl 12) = filter fl [12] @ items (brothers fl 13)"
  "items (brothers fl 11) = filter fl [11] @ items (brothers fl 12)"
  "items (brothers fl 10) = filter fl [10] @ items (brothers fl 11)"
  "items (brothers fl 9) = filter fl [9] @ items (brothers fl 10)"
  "items (brothers fl 8) = filter fl [8] @ items (brothers fl 9)"
  by (subst brothers.simps, simp add: applyTable_def schedule.simps)+

lemma brothers_top:
  "items (brothers fl 7) = (if fl 7 then [7] else items (brothers fl 8)) @ items (brothers fl 24)"
  "items (brothers fl 6) = filter fl [6]"
  "items (brothers fl 5) = filter fl [5] @ items (brothers fl 6)"
  "items (brothers fl 4) = filter fl [4] @ items (brothers fl 5)"
  "items (brothers fl 3) = (if fl 3 then [3] else items (brothers fl 4)) @ items (brothers fl 7)"
  "items (brothers fl 2) = filter fl [2] @ items (brothers fl 3)"
  "items (brothers fl 1) = (if fl 1 then [1] else items (brothers fl 2))"
  "items (brothers fl 0) = (if fl 0 then [0] else items (brothers fl 1))"
  by (subst brothers.simps, simp add: applyTable_def schedule.simps)+

lemma covered_top: "covered fl 0 = False" "covered fl 1 = fl 0"
  by (subst covered.simps, simp add: applyTable_def)+

lemma covered_reboot: "i \<in> {2, 3, 7} \<union> {24..<34} \<Longrightarrow> covered fl i = (fl 1 \<or> fl 0)"
proof -
  assume i: "i \<in> {2, 3, 7} \<union> {24..<34}"
  have p: "\<forall>i \<in> {2, 3, 7} \<union> {24..<34}. t_parent (applyTable ! i) = Some 1"
    by (simp add: applyTable_def atLeastLessThan_upt upt_conv_Cons)
  have "covered fl 1 = fl 0" by (rule covered_top)
  then show ?thesis using i bspec [OF p i] covered.simps [of fl i] by auto
qed

lemma covered_login: "i \<in> {4, 5, 6} \<Longrightarrow> covered fl i = (fl 3 \<or> fl 1 \<or> fl 0)"
  using covered_reboot [of 3 fl] by (subst covered.simps) (auto simp: applyTable_def)

lemma covered_vlan: "i \<in> {8..14} \<union> {19} \<Longrightarrow> covered fl i = (fl 7 \<or> fl 1 \<or> fl 0)"
proof -
  assume i: "i \<in> {8..14} \<union> {19}"
  have p: "\<forall>i \<in> {8..<15} \<union> {19}. t_parent (applyTable ! i) = Some 7"
    by (simp add: applyTable_def atLeastLessThan_upt upt_conv_Cons)
  have "covered fl 7 = (fl 1 \<or> fl 0)" by (rule covered_reboot) simp
  moreover have "t_parent (applyTable ! i) = Some 7" using p i by auto
  ultimately show ?thesis using i covered.simps [of fl i] by auto
qed

lemma covered_vap:
  "i \<in> {15..<19} \<Longrightarrow> covered fl i = (fl 14 \<or> fl 7 \<or> fl 1 \<or> fl 0)"
  "i \<in> {20..<24} \<Longrightarrow> covered fl i = (fl 19 \<or> fl 7 \<or> fl 1 \<or> fl 0)"
proof -
  have p: "\<forall>i \<in> {15..<19}. t_parent (applyTable ! i) = Some 14" "\<forall>i \<in> {20..<24}. t_parent (applyTable ! i) = Some 19"
    by (simp_all add: applyTable_def atLeastLessThan_upt upt_conv_Cons)
  have "covered fl 14 = (fl 7 \<or> fl 1 \<or> fl 0)" "covered fl 19 = (fl 7 \<or> fl 1 \<or> fl 0)"
    by (simp_all add: covered_vlan)
  then show "i \<in> {15..<19} \<Longrightarrow> covered fl i = (fl 14 \<or> fl 7 \<or> fl 1 \<or> fl 0)"
    "i \<in> {20..<24} \<Longrightarrow> covered fl i = (fl 19 \<or> fl 7 \<or> fl 1 \<or> fl 0)"
    using p covered.simps [of fl i] by auto
qed

lemma filter_covered:
  assumes "\<And>i. i \<in> set xs \<Longrightarrow> covered fl i = b"
  shows "filter (\<lambda>i. fl i \<and> \<not> covered fl i) xs = (if b then [] else filter fl xs)"
  using assms by (cases b) (auto simp: filter_empty_conv intro: filter_cong)

lemma filter_rows:
  "filter (\<lambda>i. fl i \<and> \<not> covered fl i) [4, 5, 6] = (if fl 3 \<or> fl 1 \<or> fl 0 then [] else filter fl [4, 5, 6])"
  "filter (\<lambda>i. fl i \<and> \<not> covered fl i) [8..<14] = (if fl 7 \<or> fl 1 \<or> fl 0 then [] else filter fl [8..<14])"
  "filter (\<lambda>i. fl i \<and> \<not> covered fl i) [15..<19] = (if fl 14 \<or> fl 7 \<or> fl 1 \<or> fl 0 then [] else filter fl [15..<19])"
  "filter (\<lambda>i. fl i \<and> \<not> covered fl i) [20..<24] = (if fl 19 \<or> fl 7 \<or> fl 1 \<or> fl 0 then [] else filter fl [20..<24])"
  "filter (\<lambda>i. fl i \<and> \<not> covered fl i) [24..<34] = (if fl 1 \<or> fl 0 then [] else filter fl [24..<34])"
  by - (rule filter_covered, (unfold set_upt)?, force simp: covered_login covered_vlan covered_vap covered_reboot)+

lemma rows_split:
  "[0..<34] = [0, 1, 2, 3] @ [4, 5, 6] @ [7] @ [8..<14] @ [14] @ [15..<19] @ [19] @ [20..<24] @ [24..<34]"
  by (simp add: upt_conv_Cons)

lemma upt_rows:
  "[8..<14] = [8] @ [9] @ [10] @ [11] @ [12] @ [13]" "[15..<19] = [15] @ [16] @ [17] @ [18]"
  "[20..<24] = [20] @ [21] @ [22] @ [23]"
  "[24..<34] = [24] @ [25] @ [26] @ [27] @ [28] @ [29] @ [30] @ [31] @ [32] @ [33]"
  "[4, 5, 6 :: nat] = [4] @ [5] @ [6]"
  by (simp_all add: upt_conv_Cons)

lemma brothers_closed:
  "items (brothers fl 4) = filter fl [4, 5, 6]" "items (brothers fl 15) = filter fl [15..<19]"
  "items (brothers fl 24) = filter fl [24..<34]"
  "items (brothers fl 8) = filter fl [8..<14] @ items (brothers fl 14)"
  by (simp_all only: upt_rows filter_append append_assoc brothers_top(2-4) brothers_vlan(2-5,7-12) brothers_last)

lemma brothers_closed_wlan1: "items (brothers fl 20) = filter fl [20..<24]"
  unfolding upt_rows filter_append by (simp add: brothers_wlan1)

lemma items_schedule_nested:
  "items (schedule fl 0) =
     (if fl 0 then [0] else if fl 1 then [1]
      else filter fl [2] @ (if fl 3 then [3] else filter fl [4, 5, 6]) @
        (if fl 7 then [7]
         else filter fl [8..<14] @ (if fl 14 then [14] else filter fl [15..<19]) @
           (if fl 19 then [19] else filter fl [20..<24])) @ filter fl [24..<34])"
  by (simp only: schedule.simps items_simps brothers_top(1,5-8) brothers_closed brothers_closed_wlan1 brothers_vlan(1,6) append_assoc)

lemma items_schedule: "items (schedule fl 0) = filter (\<lambda>i. fl i \<and> \<not> covered fl i) [0..<34]"
proof -
  have c: "covered fl 7 = (fl 1 \<or> fl 0)" "covered fl 2 = (fl 1 \<or> fl 0)" "covered fl 3 = (fl 1 \<or> fl 0)"
    "covered fl 14 = (fl 7 \<or> fl 1 \<or> fl 0)" "covered fl 19 = (fl 7 \<or> fl 1 \<or> fl 0)"
    by (simp_all add: covered_reboot covered_vlan)
  show ?thesis
    unfolding rows_split filter_append filter_rows items_schedule_nested
    by (cases "fl 0"; cases "fl 1"; cases "fl 2"; cases "fl 3"; cases "fl 7"; cases "fl 14"; cases "fl 19")
      (simp_all only: filter.simps c covered_top if_True if_False simp_thms append.simps append_Nil2 append_assoc)
qed

text \<open>C12. An apply runs the flagged items that have no flagged item above them, each once, in the order of
  the table, and nothing else; the failing items of the absent second radio hold up nothing. The Bonjour check is
  made at every subtree that is entered.
\<close>

theorem apply_order:
  "map_option snd (apl_handleApplyTree room fl APL_ROOT w) = fold_opt (exec room fl) (schedule fl APL_ROOT) w \<and>
   items (schedule fl APL_ROOT) = filter (\<lambda>i. fl i \<and> \<not> covered fl i) [0..<34]"
  using walk_schedule(1) [of 0 room fl w] items_schedule [of fl] by (simp add: APL_ROOT_def)

subsection \<open>Applying consumes the requests\<close>

text \<open>Commands that leave the two files of the store alone, whatever else they write.\<close>

definition config_kept :: "cstr list \<Rightarrow> 'a host_scheme \<Rightarrow> bool" where
  "config_kept cs s \<longleftrightarrow> (\<forall>c \<in> set cs. \<forall>f. sh_fx s c f NVRAM_TMP_PATH = f NVRAM_TMP_PATH \<and> sh_fx s c f NVRAM_DEFAULT = f NVRAM_DEFAULT)"

lemma config_kept_append [simp]: "config_kept (xs @ ys) s \<longleftrightarrow> config_kept xs s \<and> config_kept ys s"
  by (auto simp: config_kept_def)

lemma config_kept_cong: "sh_fx t = sh_fx s \<Longrightarrow> config_kept cs t = config_kept cs s"
  by (simp add: config_kept_def)

lemma APPLYRUN_simps [simp]:
  "cmds (APPLYRUN c s) = cmds s @ [take 1023 c]" "sh_fx (APPLYRUN c s) = sh_fx s" "scfgd (APPLYRUN c s) = scfgd s"
  by (simp_all add: APPLYRUN_def)

lemma applyrun_simps: "cmds (applyrun cs s) = cmds s @ map (take 1023) cs" "sh_fx (applyrun cs s) = sh_fx s"
  by (induction cs arbitrary: s) (simp_all add: applyrun_def)

lemma applyrun_config:
  "client_inv s \<Longrightarrow> config_kept cs s \<Longrightarrow> map (take 1023) cs = cs \<Longrightarrow>
   client_inv (applyrun cs s) \<and> nvram_view (applyrun cs s) = nvram_view s"
proof (induction cs arbitrary: s)
  case (Cons c cs)
  let ?t = "APPLYRUN c s"
  have "files ?t NVRAM_TMP_PATH = files s NVRAM_TMP_PATH" "files ?t NVRAM_DEFAULT = files s NVRAM_DEFAULT"
    using Cons.prems(2,3) by (simp_all add: APPLYRUN_def config_kept_def)
  then have "client_inv ?t" "nvram_view ?t = nvram_view s" using Cons.prems(1) client_inv_cong [of ?t s] nvram_view_cong [of ?t s]
    by simp_all
  moreover have "config_kept cs ?t" using Cons.prems(2) by (simp add: config_kept_def)
  ultimately show ?case using Cons.IH [of ?t] Cons.prems(3) by (simp add: applyrun_def)
qed (simp add: applyrun_def)

lemma dhcp_read:
  fixes s :: "'a host_scheme"
  assumes "client_inv s"
  shows "\<exists>s'. apCfgDhcpEnableGet s = Some (if nvram_view s ''lan_dhcpc'' = ENABLE then 1 else 0, s') \<and> client_inv s' \<and>
    nvram_view s' = nvram_view s \<and> cmds s' = cmds s \<and> sh_fx s' = sh_fx s"
proof -
  have n: "wf_name ''lan_dhcpc''" by (simp add: wf_name_def)
  have inv: "nvram_inv s" "scfgd s" using assms by (simp_all add: client_inv_def)
  obtain s' where "nvram_safe_get ''lan_dhcpc'' s = Some (nvram_view s ''lan_dhcpc'', s')" "nvram_inv s'"
    "nvram_view s' = nvram_view s" "cmds s' = cmds s" "scfgd s' = scfgd s" "sh_fx s' = sh_fx s"
    using nvram_safe_get_refines [OF inv(1) n] by blast
  then show ?thesis using inv(2) by (simp add: apCfgDhcpEnableGet_def get_bool_def client_inv_def)
qed

text \<open>Whether Bonjour has to be stopped.\<close>

definition mdns_due :: "(nat \<Rightarrow> bool) \<Rightarrow> (cstr \<Rightarrow> cstr) \<Rightarrow> bool" where
  "mdns_due fl vw \<longleftrightarrow> fl APL_BONJOUR \<or> vw ''lan_dhcpc'' = ENABLE \<and> fl APL_IPv4"

lemma stop_mdns_first:
  assumes "client_inv s"
  shows "\<exists>s'. stop_mdns fl (m, s) = Some (m \<or> mdns_due fl (nvram_view s), s') \<and> sh_fx s' = sh_fx s \<and>
    cmds s' = cmds s @ (if \<not> m \<and> mdns_due fl (nvram_view s) then [''rc mdns stop''] else []) \<and>
    (\<not> mdns_due fl (nvram_view s) \<longrightarrow> client_inv s' \<and> nvram_view s' = nvram_view s)"
  using dhcp_read [OF assms] assms by (auto simp: stop_mdns_def mdns_due_def)

text \<open>The items that restart services, and their commands.\<close>

definition item_cmds :: "nat \<Rightarrow> cstr list" where
  "item_cmds i = (case t_handler (applyTable ! i) of None \<Rightarrow> [] | Some h \<Rightarrow> (case service h of None \<Rightarrow> [] | Some cs \<Rightarrow> cs))"

definition service_item :: "nat \<Rightarrow> bool" where
  "service_item i \<longleftrightarrow> i < 33 \<and> (case t_handler (applyTable ! i) of None \<Rightarrow> True | Some h \<Rightarrow> service h \<noteq> None)"

lemmas rc_defs = rc_reboot_def rc_sysname_def rc_balance_def rc_ntp_def rc_snmp_def rc_log_def rc_ftp_def rc_redirect_def
  rc_rogueap_def rc_bonjour_def rc_autoreboot_def rc_httpd_def rc_telnet_def rc_ssh_def rc_login_def rc_stp_def
  rc_lltd_def rc_ethsup_def rc_ipv6_def rc_ipv4_def

lemma service_short: "service h = Some cs \<Longrightarrow> map (take 1023) cs = cs"
  by (cases h) (auto simp: rc_defs)

lemma item_cmds_short: "map (take 1023) (item_cmds i) = item_cmds i"
  by (auto simp: item_cmds_def service_short split: option.split)

lemma exec_service: "service_item i \<Longrightarrow> exec room fl (Item i) (m, s) = Some (m, applyrun (item_cmds i) s)"
  by (auto simp: service_item_def exec_def run_row_def id_string_def idString_def item_cmds_def handle_def applyrun_def
      split: option.splits)

text \<open>Behind the first Bonjour check: either Bonjour is stopped and no setting is read any more, or it was not
  due and the commands in between have to leave the settings alone.\<close>

lemma exec_services:
  assumes "\<forall>i \<in> set (items es). service_item i"
    and "m \<or> client_inv s \<and> \<not> mdns_due fl (nvram_view s) \<and> config_kept (concat (map item_cmds (items es))) s"
  shows "\<exists>s'. fold_opt (exec room fl) es (m, s) = Some (m, s') \<and> cmds s' = cmds s @ concat (map item_cmds (items es))"
  using assms
proof (induction es arbitrary: s)
  case Nil
  then show ?case by simp
next
  case (Cons e es)
  have split: "items (e # es) = items [e] @ items es" by (cases e) simp_all
  have p: "\<forall>i \<in> set (items es). service_item i" using Cons.prems(1) by (cases e) simp_all
  obtain t where t: "exec room fl e (m, s) = Some (m, t)" "cmds t = cmds s @ concat (map item_cmds (items [e]))"
    "m \<or> client_inv t \<and> \<not> mdns_due fl (nvram_view t) \<and> config_kept (concat (map item_cmds (items es))) t"
  proof (cases e)
    case Enter
    show ?thesis
    proof (cases m)
      case True
      then show ?thesis using that Enter by (auto simp: exec_def stop_mdns_def)
    next
      case False
      then have c: "client_inv s" "\<not> mdns_due fl (nvram_view s)" "config_kept (concat (map item_cmds (items es))) s"
        using Cons.prems(2) Enter by simp_all
      obtain t where "stop_mdns fl (m, s) = Some (False, t)" "sh_fx t = sh_fx s" "cmds t = cmds s" "client_inv t"
        "nvram_view t = nvram_view s"
        using stop_mdns_first [OF c(1), of fl m] c(2) False by auto
      then show ?thesis using that [of t] Enter c(2,3) False config_kept_cong [of t s] by (simp add: exec_def)
    qed
  next
    case (Item i)
    let ?t = "applyrun (item_cmds i) s"
    have "m \<or> client_inv ?t \<and> \<not> mdns_due fl (nvram_view ?t) \<and> config_kept (concat (map item_cmds (items es))) ?t"
      using Cons.prems(2) Item applyrun_config [of s "item_cmds i"] item_cmds_short [of i]
        config_kept_cong [of ?t s] by (auto simp: applyrun_simps)
    then show ?thesis using that Item Cons.prems(1) item_cmds_short [of i] exec_service [of i room fl m s]
      by (simp add: applyrun_simps)
  qed
  obtain u where "fold_opt (exec room fl) es (m, t) = Some (m, u)" "cmds u = cmds t @ concat (map item_cmds (items es))"
    using Cons.IH [OF p t(3)] by blast
  then show ?case using t(1,2) by (simp add: split)
qed

lemma flag_items:
  "\<forall>i \<in> set ids. 0 < i \<and> i < 33 \<Longrightarrow> fold_opt flag_item (map int ids @ [0]) fl = Some (\<lambda>i. fl i \<or> i \<in> set ids)"
proof (induction ids arbitrary: fl)
  case Nil
  then show ?case by (simp add: flag_item_def)
next
  case (Cons i ids)
  then have "flag_item (int i) fl = Some (fl(i := True))" by (simp add: flag_item_def id_string_def idString_def)
  then show ?case using Cons by (auto simp: fun_eq_iff)
qed

text \<open>The host between the reading of the requests and the walk.\<close>

definition applying :: "'a host_scheme \<Rightarrow> 'a host_scheme" where
  "applying s = f_unlink APL_PARSING (f_unlink APL_FLAG (sh_echo_1 APL_RUNNING (sh_echo_1 APL_PARSING s)))"

lemma applying_files:
  "p \<notin> {APL_PARSING, APL_FLAG, APL_RUNNING} \<Longrightarrow> files (applying s) p = files s p"
  "files (applying s) APL_PARSING = None" "files (applying s) APL_FLAG = None" "f_exists APL_RUNNING (applying s)"
  "sh_fx (applying s) = sh_fx s" "scfgd (applying s) = scfgd s"
  "cmds (applying s) = cmds s @ [''echo 1 > '' @ APL_PARSING, ''echo 1 > '' @ APL_RUNNING]"
  by (simp_all add: applying_def sh_echo_1_def f_exists_def f_unlink_def f_write_def c_system_def)

lemma applying_config:
  assumes "cfg_inv s"
  shows "client_inv (applying s)" "nvram_view (applying s) = nvram_view s" "pending (applying s) = []"
proof -
  have f: "files (applying s) p = files s p" if "p \<in> {NVRAM_TMP_PATH, NVRAM_DEFAULT}" for p
    using that by (auto intro!: applying_files(1))
  then show "client_inv (applying s)"
    using assms(1) client_inv_cong [of "applying s" s] by (simp add: cfg_inv_def applying_files)
  show "nvram_view (applying s) = nvram_view s" using f by (intro nvram_view_cong) auto
  show "pending (applying s) = []" by (simp add: pending_def read_flags_def applying_files)
qed

lemma walk_services:
  assumes "\<forall>i \<in> set (items (schedule fl 0)). service_item i" "client_inv s"
    and "m \<or> mdns_due fl (nvram_view s) \<or> config_kept (concat (map item_cmds (items (schedule fl 0)))) s"
  shows "\<exists>s'. fold_opt (exec room fl) (schedule fl 0) (m, s) = Some (m \<or> mdns_due fl (nvram_view s), s') \<and>
    cmds s' = cmds s @ (if \<not> m \<and> mdns_due fl (nvram_view s) then [''rc mdns stop''] else []) @
      concat (map item_cmds (items (schedule fl 0)))"
proof -
  let ?m = "m \<or> mdns_due fl (nvram_view s)"
  obtain t where t: "stop_mdns fl (m, s) = Some (?m, t)" "sh_fx t = sh_fx s"
    "cmds t = cmds s @ (if \<not> m \<and> mdns_due fl (nvram_view s) then [''rc mdns stop''] else [])"
    "\<not> mdns_due fl (nvram_view s) \<longrightarrow> client_inv t \<and> nvram_view t = nvram_view s"
    using stop_mdns_first [OF assms(2)] by blast
  have sch: "schedule fl 0 = Enter # brothers fl 0" by (simp add: schedule.simps)
  have "?m \<or> client_inv t \<and> \<not> mdns_due fl (nvram_view t) \<and> config_kept (concat (map item_cmds (items (brothers fl 0)))) t"
    using assms(3) t(4) config_kept_cong [OF t(2)] by (auto simp: sch)
  then obtain u where "fold_opt (exec room fl) (brothers fl 0) (?m, t) = Some (?m, u)"
    "cmds u = cmds t @ concat (map item_cmds (items (brothers fl 0)))"
    using exec_services [of "brothers fl 0" ?m t fl room] assms(1) by (auto simp: sch)
  then show ?thesis using t(1,3) by (simp add: sch exec_def)
qed

lemma apl_do_apply_schedule:
  assumes "cfg_inv s" "\<not> f_exists APL_RUNNING s" "pending s \<noteq> []" "\<forall>i \<in> set (pending s). i < 33"
    and "fl' = (\<lambda>i. fl i \<or> i \<in> set (pending s))"
  shows "apl_do_apply room (fl, m, s) = do {
    (m', u) \<leftarrow> fold_opt (exec room fl') (schedule fl' APL_ROOT) (m, applying s);
    Some (fl', m', f_unlink APL_RUNNING u)
  }"
proof -
  obtain ids where ids: "flags_wf s ids" "pending s = ids" using assms(1) pending_wf by (auto simp: cfg_inv_def)
  then have flag_file: "files s APL_FLAG = Some (flag_file ids)" using assms(3) by (auto simp: flags_wf_def)
  have small: "\<forall>i \<in> set ids. 0 < i \<and> i < 33" using ids assms(4) by (auto simp: flags_wf_def)
  then have "flag_ids (flag_file ids) = map int ids @ [0]" by (intro flag_ids_file) auto
  moreover have "read_flags (sh_echo_1 APL_RUNNING (sh_echo_1 APL_PARSING s)) = read_flags s"
    by (simp add: read_flags_def sh_echo_1_def)
  ultimately have fl: "fold_opt flag_item (read_flags (sh_echo_1 APL_RUNNING (sh_echo_1 APL_PARSING s))) fl = Some fl'"
    using flag_items [OF small, of fl] flag_file ids(2) assms(5) by (simp add: read_flags_def)
  have "map_option snd (apl_handleApplyTree room fl' APL_ROOT (m, applying s)) = fold_opt (exec room fl') (schedule fl' APL_ROOT) (m, applying s)"
    using walk_schedule(1) [of APL_ROOT room fl' "(m, applying s)"] by (simp add: APL_ROOT_def)
  then show ?thesis using assms(2) flag_file fl
    by (cases "apl_handleApplyTree room fl' APL_ROOT (m, applying s)"; cases "fold_opt (exec room fl') (schedule fl' APL_ROOT) (m, applying s)")
      (auto simp: apl_do_apply_def f_exists_def applying_def [symmetric])
qed

text \<open>C3. Applying consumes the requests. When requests are pending and no apply is running, \<open>apl_do_apply\<close> adds the
  requested items to the flags and removes the request file before the first command is run: the host the items
  start on (\<open>applying s\<close>) has no request pending, the mark of a running apply, the settings of before and no command
  but the two that set the marks. It then does what the flagged items with no flagged item above them do, in the order of the
  table, whatever these items are (the wireless ones included, and undefined where one of them overruns an array), and takes the mark away. What the commands do to the files is
  left open: a request that is pending afterwards was written by one of them.

  When all the items due only restart services, it returns, and the commands are those of the items in that order,
  after Bonjour has been stopped where that is due. For this the shell need not be restricted when Bonjour is stopped
  already or has to be stopped; otherwise the DHCP setting is read again between the commands, and the statement
  is for commands of these items that leave the files of the settings alone. The flags stay set for the next apply of the same process. The identifier
  33 (automatic reboot) is left out: reading its name runs past the table of names.
\<close>

theorem apply_consumes_requests:
  assumes "cfg_inv s" "\<not> f_exists APL_RUNNING s" "pending s \<noteq> []" "\<forall>i \<in> set (pending s). i < 33"
    and "fl' = (\<lambda>i. fl i \<or> i \<in> set (pending s))" "due = filter (\<lambda>i. fl' i \<and> \<not> covered fl' i) [0..<34]"
  shows "pending (applying s) = [] \<and> f_exists APL_RUNNING (applying s) \<and> nvram_view (applying s) = nvram_view s \<and>
    cmds (applying s) = cmds s @ [''echo 1 > '' @ APL_PARSING, ''echo 1 > '' @ APL_RUNNING] \<and>
    items (schedule fl' APL_ROOT) = due \<and>
    apl_do_apply room (fl, m, s) = do {
      (m', u) \<leftarrow> fold_opt (exec room fl') (schedule fl' APL_ROOT) (m, applying s);
      Some (fl', m', f_unlink APL_RUNNING u)
    } \<and>
    ((\<forall>i \<in> set due. service_item i) \<and>
       (m \<or> mdns_due fl' (nvram_view s) \<or> config_kept (concat (map item_cmds due)) s) \<longrightarrow>
     (\<exists>s'. apl_do_apply room (fl, m, s) = Some (fl', m \<or> mdns_due fl' (nvram_view s), s') \<and> \<not> f_exists APL_RUNNING s' \<and>
       cmds s' = cmds s @ [''echo 1 > '' @ APL_PARSING, ''echo 1 > '' @ APL_RUNNING] @
         (if \<not> m \<and> mdns_due fl' (nvram_view s) then [''rc mdns stop''] else []) @ concat (map item_cmds due)))"
proof -
  note do_apply = apl_do_apply_schedule [OF assms(1-5), of room m]
  have due: "items (schedule fl' 0) = due" using items_schedule assms(6) by simp
  have serv: "\<exists>s'. apl_do_apply room (fl, m, s) = Some (fl', m \<or> mdns_due fl' (nvram_view s), s') \<and> \<not> f_exists APL_RUNNING s' \<and>
       cmds s' = cmds s @ [''echo 1 > '' @ APL_PARSING, ''echo 1 > '' @ APL_RUNNING] @
         (if \<not> m \<and> mdns_due fl' (nvram_view s) then [''rc mdns stop''] else []) @ concat (map item_cmds due)"
    if s: "\<forall>i \<in> set due. service_item i" "m \<or> mdns_due fl' (nvram_view s) \<or> config_kept (concat (map item_cmds due)) s"
  proof -
    note c = applying_config [OF assms(1)]
    have "m \<or> mdns_due fl' (nvram_view (applying s)) \<or> config_kept (concat (map item_cmds (items (schedule fl' 0)))) (applying s)"
      using s(2) config_kept_cong [OF applying_files(5)] by (auto simp: due c(2))
    from walk_services [OF _ c(1) this, of room] s(1) show ?thesis
      by (auto simp: do_apply due c(2) APL_ROOT_def applying_files f_exists_def f_unlink_def)
  qed
  show ?thesis
    using applying_config [OF assms(1)] serv do_apply due by (auto simp: applying_files APL_ROOT_def)
qed

definition ex_requests :: "nat list \<Rightarrow> lib" where
  "ex_requests ids = host.extend (f_write APL_FLAG (flag_file ids) ex_ap) (lib.fields (\<lambda>_ _. False))"

lemma ex_requests_files:
  "files (ex_requests ids) = (files ex_ap)(APL_FLAG \<mapsto> flag_file ids)" "cmds (ex_requests ids) = []"
  "scfgd (ex_requests ids)" "sh_fx (ex_requests ids) c f = f"
  by (simp_all add: ex_requests_def host.defs lib.defs f_write_def ex_ap_def ex_cfg_def ex_host_def)

lemma ex_requests_inv:
  assumes "\<forall>i \<in> set ids. 0 < i \<and> i < 34"
  shows "cfg_inv (ex_requests ids)" "pending (ex_requests ids) = ids"
    "\<not> f_exists APL_RUNNING (ex_requests ids)" "nvram_view (ex_requests ids) ''lan_dhcpc'' = ''1''"
proof -
  let ?s = "ex_requests ids"
  have f: "files ?s NVRAM_TMP_PATH = files ex_ap NVRAM_TMP_PATH" "files ?s NVRAM_DEFAULT = files ex_ap NVRAM_DEFAULT"
    "files ?s APL_FLAG = Some (flag_file ids)" "files ?s APL_CLOSED = None" "files ?s APL_PARSING = None" "files ?s APL_RUNNING = None"
    by (simp_all add: ex_requests_files ex_ap_def ex_cfg_def apl_paths nvram_paths)
  have wf: "flags_wf ?s ids" using f assms by (simp add: flags_wf_def)
  then show "pending ?s = ids" by (rule pending_wf)
  have "client_inv ex_ap" using ex_ap_inv by (simp add: cfg_inv_def)
  then have "client_inv ?s" using f ex_requests_files(3) by (simp add: client_inv_def nvram_inv_def)
  then show "cfg_inv ?s" using f wf by (auto simp: cfg_inv_def f_exists_def)
  show "\<not> f_exists APL_RUNNING ?s" using f by (simp add: f_exists_def)
  have "nvram_view ?s n = nvram_view ex_ap n" for n using f by (simp add: nvram_view_def cong: option.case_cong)
  then show "nvram_view ?s ''lan_dhcpc'' = ''1''" by (simp add: ex_ap_view)
qed

lemma ex_requests_items:
  "filter (\<lambda>i. i \<in> set [3, 6, 10] \<and> \<not> covered (\<lambda>i. i \<in> set [3, 6, 10]) i) [0..<34] = [3, 10]"
  "service_item 3" "service_item 10"
  "item_cmds 3 = [''rc httpd restart'', ''rc telnetd restart'', ''rc sshd restart'']"
  "item_cmds 10 = [''rc ip restart'', ''rc wins restart'', ''rc wscupnp restart&'', ''rc httpredirect restart'']"
  by code_simp+

text \<open>Login, the web server and the address are due: the first stands for the second, and the address needs Bonjour
  stopped.\<close>

theorem apply_consumes_requests_witness:
  "\<exists>fl' s'. apl_do_apply 8 (\<lambda>_. False, False, ex_requests [3, 6, 10]) = Some (fl', True, s') \<and>
     pending (applying (ex_requests [3, 6, 10])) = [] \<and> \<not> f_exists APL_RUNNING s' \<and>
     cmds s' = [''echo 1 > /tmp/apl_parsing'', ''echo 1 > /tmp/apl_running'', ''rc mdns stop'', ''rc httpd restart'',
       ''rc telnetd restart'', ''rc sshd restart'', ''rc ip restart'', ''rc wins restart'', ''rc wscupnp restart&'',
       ''rc httpredirect restart'']"
proof -
  let ?ids = "[3, 6, 10] :: nat list" and ?fl = "\<lambda>i. i \<in> set [3, 6, 10 :: nat]"
  note inv = ex_requests_inv [of ?ids]
  have due: "mdns_due ?fl (nvram_view (ex_requests ?ids))" using inv by (simp add: mdns_due_def apl_ids)
  have inst: "cfg_inv (ex_requests ?ids)" "\<not> f_exists APL_RUNNING (ex_requests ?ids)" "pending (ex_requests ?ids) \<noteq> []"
    "\<forall>i \<in> set (pending (ex_requests ?ids)). i < 33" "?fl = (\<lambda>i. False \<or> i \<in> set (pending (ex_requests ?ids)))"
    "[3, 10] = filter (\<lambda>i. ?fl i \<and> \<not> covered ?fl i) [0..<34]"
    using inv ex_requests_items(1) by simp_all
  note all = apply_consumes_requests [OF inst, of 8 False]
  have serv: "\<forall>i \<in> set [3, 10]. service_item i" using ex_requests_items(2,3) by simp
  have "\<exists>s'. apl_do_apply 8 (\<lambda>_. False, False, ex_requests ?ids) = Some (?fl, True, s') \<and> \<not> f_exists APL_RUNNING s' \<and>
    cmds s' = cmds (ex_requests ?ids) @ [''echo 1 > '' @ APL_PARSING, ''echo 1 > '' @ APL_RUNNING] @ [''rc mdns stop''] @
      concat (map item_cmds [3, 10])"
    using mp [OF all [THEN conjunct2, THEN conjunct2, THEN conjunct2, THEN conjunct2, THEN conjunct2, THEN conjunct2]
        conjI [OF serv disjI2 [OF disjI1 [OF due]]]]
    unfolding eqTrueI [OF due] by simp
  moreover have "pending (applying (ex_requests ?ids)) = []" using all by (rule conjunct1)
  ultimately show ?thesis by (auto simp: ex_requests_items(4,5) ex_requests_files apl_paths)
qed

end
