(* ===== verification/Led.thy ===== *)
theory Led
  imports C_Lib
begin

unbundle bit_operations_syntax

text \<open>
  The LED driver (\<open>src/src/apps/apps_sc/led/led.c\<close>, \<open>led.h\<close>), a kernel module: the GPIO registers, the table
  of LEDs, the two timers that make them blink, and the commands written to \<open>/proc/led\<close>. The code under
  \<open>#ifndef WAP4410N\<close>, for the WPS LED of another product, is not part of it.

  A timer is pending or not; adding a pending timer stops the kernel (\<open>BUG_ON\<close> in \<open>add_timer\<close>) and is
  \<open>None\<close>. \<open>hz\<close> is the kernel's tick rate. A write to the file runs with interrupts off and a timer's function is not
  preempted by one on this single processor, so each is one step.
\<close>

subsection \<open>The registers\<close>

definition gpio_bit :: "nat \<Rightarrow> 32 word" where
  "gpio_bit gpio = push_bit gpio 1"

definition reg_set :: "nat \<Rightarrow> 32 word \<Rightarrow> 32 word" where
  "reg_set gpio r = r OR gpio_bit gpio"

definition reg_clear :: "nat \<Rightarrow> 32 word \<Rightarrow> 32 word" where
  "reg_clear gpio r = r AND NOT (gpio_bit gpio)"

definition ar7100_gpio_out_val :: "nat \<Rightarrow> int \<Rightarrow> 32 word \<Rightarrow> 32 word" where
  "ar7100_gpio_out_val gpio val r = (if odd val then reg_set gpio r else reg_clear gpio r)"

definition ar7100_gpio_out_add :: "nat \<Rightarrow> 32 word \<Rightarrow> 32 word" where
  "ar7100_gpio_out_add gpio r = gpio_bit gpio AND r"

definition led_on :: "nat \<Rightarrow> int \<Rightarrow> 32 word \<Rightarrow> 32 word" where
  "led_on gpio lg = ar7100_gpio_out_val gpio (if lg > 0 then 1 else 0)"

definition led_off :: "nat \<Rightarrow> int \<Rightarrow> 32 word \<Rightarrow> 32 word" where
  "led_off gpio lg = ar7100_gpio_out_val gpio (if lg > 0 then 0 else 1)"

definition led_reverse :: "nat \<Rightarrow> 32 word \<Rightarrow> 32 word" where
  "led_reverse gpio r = ar7100_gpio_out_val gpio (if ar7100_gpio_out_add gpio r \<noteq> 0 then 0 else 1) r"

lemma bit_gpio_bit: "bit (gpio_bit g) n \<longleftrightarrow> n = g \<and> g < 32"
  by (auto simp: gpio_bit_def bit_simps)

lemma bit_out_val: "g < 32 \<Longrightarrow> bit (ar7100_gpio_out_val g v r) n \<longleftrightarrow> (if n = g then odd v else bit r n)"
  using bit_imp_le_length [of r n]
  by (auto simp: ar7100_gpio_out_val_def reg_set_def reg_clear_def bit_or_iff bit_and_iff bit_not_iff bit_gpio_bit)

lemma out_add_nonzero: "g < 32 \<Longrightarrow> ar7100_gpio_out_add g r \<noteq> 0 \<longleftrightarrow> bit r g"
  using bit_eq_iff [of "gpio_bit g AND r" 0] by (auto simp: ar7100_gpio_out_add_def bit_and_iff bit_gpio_bit)

lemma bit_led_on: "g < 32 \<Longrightarrow> bit (led_on g lg r) n \<longleftrightarrow> (if n = g then lg > 0 else bit r n)"
  by (simp add: led_on_def bit_out_val)

lemma bit_led_off: "g < 32 \<Longrightarrow> bit (led_off g lg r) n \<longleftrightarrow> (if n = g then \<not> lg > 0 else bit r n)"
  by (simp add: led_off_def bit_out_val)

lemma bit_led_reverse: "g < 32 \<Longrightarrow> bit (led_reverse g r) n \<longleftrightarrow> (if n = g then \<not> bit r g else bit r n)"
  by (simp add: led_reverse_def bit_out_val out_add_nonzero)

lemmas led_bits = bit_led_on bit_led_off bit_led_reverse

subsection \<open>The table and the timers\<close>

definition LED_FAST :: int where "LED_FAST = 1"
definition LED_SLOW :: int where "LED_SLOW = 0"
definition GPIO_WIRELESS :: nat where "GPIO_WIRELESS = 0"
definition GPIO_POWER_GREEN :: nat where "GPIO_POWER_GREEN = 1"
definition GPIO_POE :: nat where "GPIO_POE = 3"
definition GPIO_NULL :: nat where "GPIO_NULL = 255"

record led_data_s =
  gpio_pin :: nat
  l_count :: nat
  logic :: int
  l_speed :: int
  last_stat :: int
  l_init :: bool

definition led_data :: "led_data_s list" where
  "led_data = [
     \<lparr>gpio_pin = GPIO_POE, l_count = 0, logic = - 1, l_speed = 0, last_stat = 2, l_init = True\<rparr>,
     \<lparr>gpio_pin = GPIO_WIRELESS, l_count = 0, logic = - 1, l_speed = 0, last_stat = 2, l_init = False\<rparr>,
     \<lparr>gpio_pin = GPIO_POWER_GREEN, l_count = 0, logic = - 1, l_speed = 0, last_stat = 2, l_init = True\<rparr>,
     \<lparr>gpio_pin = GPIO_NULL, l_count = 0, logic = 0, l_speed = 0, last_stat = 0, l_init = False\<rparr>,
     \<lparr>gpio_pin = 11, l_count = 0, logic = - 1, l_speed = 0, last_stat = 0, l_init = False\<rparr>,
     \<lparr>gpio_pin = 2, l_count = 0, logic = - 1, l_speed = 0, last_stat = 0, l_init = False\<rparr>,
     \<lparr>gpio_pin = GPIO_NULL, l_count = 0, logic = 0, l_speed = 0, last_stat = 0, l_init = False\<rparr>]"

text \<open>A pending timer, with the argument of its function and the time it expires.\<close>

record timer_list =
  t_data :: int
  t_expires :: nat

record led_state =
  r_oe :: "32 word"
  r_out :: "32 word"
  r_int :: "32 word"
  led_tab :: "led_data_s list"
  fast_timer :: "timer_list option"
  slow_timer :: "timer_list option"
  fast_running :: bool
  slow_running :: bool
  jiffies :: nat
  hz :: nat

definition FAST_INTERVAL :: "led_state \<Rightarrow> nat" where "FAST_INTERVAL s = 10 * hz s div 100"
definition SLOW_INTERVAL :: "led_state \<Rightarrow> nat" where "SLOW_INTERVAL s = 50 * hz s div 100"

definition add_fast_timer :: "int \<Rightarrow> led_state \<Rightarrow> led_state option" where
  "add_fast_timer speed s =
     (if fast_timer s \<noteq> None then None
      else Some (s\<lparr>fast_timer := Some \<lparr>t_data = speed, t_expires = jiffies s + FAST_INTERVAL s\<rparr>\<rparr>))"

definition add_slow_timer :: "int \<Rightarrow> led_state \<Rightarrow> led_state option" where
  "add_slow_timer speed s =
     (if slow_timer s \<noteq> None then None
      else Some (s\<lparr>slow_timer := Some \<lparr>t_data = speed, t_expires = jiffies s + SLOW_INTERVAL s\<rparr>\<rparr>))"

text \<open>The loop of the timer's function, which stops at the first \<open>GPIO_NULL\<close>: the table, the output register, and
  whether the timer is needed again.\<close>

fun blink_scan :: "int \<Rightarrow> led_data_s list \<Rightarrow> 32 word \<Rightarrow> led_data_s list \<times> 32 word \<times> bool" where
  "blink_scan speed [] r = ([], r, False)"
| "blink_scan speed (led # leds) r =
     (if gpio_pin led = GPIO_NULL then (led # leds, r, False)
      else if l_count led > 0 \<and> l_speed led = speed then
        (let r1 = led_reverse (gpio_pin led) r;
             led1 = led\<lparr>l_count := l_count led - 1\<rparr>;
             r2 = (if l_count led1 > 0 then r1
               else if last_stat led = 0 then led_off (gpio_pin led) (logic led) r1
               else if last_stat led = 1 then led_on (gpio_pin led) (logic led) r1
               else r1);
             (leds', r', need) = blink_scan speed leds r2
         in (led1 # leds', r', l_count led1 > 0 \<or> need))
      else
        (let (leds', r', need) = blink_scan speed leds r in (led # leds', r', need)))"

definition led_blink_timer :: "int \<Rightarrow> led_state \<Rightarrow> led_state option" where
  "led_blink_timer speed s =
     (let (tab, r, need_timer) = blink_scan speed (led_tab s) (r_out s);
          s = s\<lparr>led_tab := tab, r_out := r\<rparr>
      in if need_timer then (if speed = LED_FAST then add_fast_timer speed s else add_slow_timer speed s)
         else if speed = LED_FAST then Some (s\<lparr>fast_running := False\<rparr>)
         else Some (s\<lparr>slow_running := False\<rparr>))"

fun blink_set :: "nat \<Rightarrow> nat \<Rightarrow> int \<Rightarrow> int \<Rightarrow> led_data_s list \<Rightarrow> led_data_s list" where
  "blink_set gpio count speed lst [] = []"
| "blink_set gpio count speed lst (led # leds) =
     (if gpio_pin led = GPIO_NULL then led # leds
      else (if gpio_pin led = gpio then led\<lparr>l_speed := speed, l_count := 2 * count, last_stat := lst\<rparr> else led)
        # blink_set gpio count speed lst leds)"

definition led_blink :: "nat \<Rightarrow> nat \<Rightarrow> int \<Rightarrow> int \<Rightarrow> led_state \<Rightarrow> led_state option" where
  "led_blink gpio count speed lst s =
     (let s = s\<lparr>led_tab := blink_set gpio count speed lst (led_tab s)\<rparr>
      in if speed = LED_FAST \<and> \<not> fast_running s then add_fast_timer speed (s\<lparr>fast_running := True\<rparr>)
         else if speed = LED_SLOW \<and> \<not> slow_running s then add_slow_timer speed (s\<lparr>slow_running := True\<rparr>)
         else Some s)"

subsection \<open>Start and commands\<close>

text \<open>The loop of \<open>led_init_module\<close> stops at the first row without a logic level.\<close>

definition led_init :: "led_data_s \<Rightarrow> led_state \<Rightarrow> led_state" where
  "led_init led s = s\<lparr>r_int := reg_set (gpio_pin led) (r_int s), r_oe := reg_set (gpio_pin led) (r_oe s),
     r_out := (if l_init led then led_on (gpio_pin led) (logic led) (r_out s)
               else led_off (gpio_pin led) (logic led) (r_out s))\<rparr>"

definition led_init_module :: "32 word \<Rightarrow> 32 word \<Rightarrow> 32 word \<Rightarrow> nat \<Rightarrow> nat \<Rightarrow> led_state" where
  "led_init_module oe r i now rate =
     fold led_init (takeWhile (\<lambda>led. logic led \<noteq> 0) led_data)
       \<lparr>r_oe = oe, r_out = r, r_int = i, led_tab = led_data, fast_timer = None, slow_timer = None,
        fast_running = False, slow_running = False, jiffies = now, hz = rate\<rparr>"

text \<open>The digits a command starts with; at most eight of them fit, so that the value does not overflow.\<close>

definition led_atoi :: "bytes \<Rightarrow> nat" where
  "led_atoi name = digits_val 0 name"

text \<open>The switch over the first character; \<open>line\<close> is the rest. \<open>mdelay\<close> only takes time.\<close>

definition led_command :: "char \<Rightarrow> bytes \<Rightarrow> led_state \<Rightarrow> led_state option" where
  "led_command c line s =
     (let n = led_atoi line in
      if c \<in> {CHR ''u'', CHR ''b'', CHR ''r''} then
        led_blink GPIO_POWER_GREEN n LED_SLOW 1 (s\<lparr>r_out := led_on GPIO_POWER_GREEN (- 1) (r_out s)\<rparr>)
      else if c = CHR ''w'' then
        (if hd line = CHR ''0'' then Some (s\<lparr>r_out := led_off GPIO_WIRELESS (- 1) (r_out s)\<rparr>)
         else led_blink GPIO_WIRELESS n LED_FAST 1 s)
      else if c = CHR ''t'' then led_blink GPIO_POWER_GREEN n LED_SLOW 0 s
      else if c = CHR ''d'' then led_blink GPIO_POWER_GREEN n LED_SLOW 1 s
      else Some s)"

text \<open>\<open>line\<close> has ten bytes, one of them for the terminator; a longer write runs over the stack.\<close>

definition proc_write_led_fops :: "bytes \<Rightarrow> led_state \<Rightarrow> (nat \<times> led_state) option" where
  "proc_write_led_fops buffer s =
     (if 10 \<le> length buffer then None
      else if buffer = [] then Some (0, s)
      else map_option (Pair (length buffer)) (led_command (hd buffer) (tl buffer @ [NUL]) s))"

text \<open>The line that filled \<open>tmp\<close> is compiled out: a read from the start takes the length of an uninitialised array.\<close>

definition proc_read_led_fops :: "nat \<Rightarrow> nat option" where
  "proc_read_led_fops offp = (if offp \<noteq> 0 then Some 0 else None)"

subsection \<open>The steps of the module\<close>

definition fire_fast :: "led_state \<Rightarrow> led_state option" where
  "fire_fast s =
     (case fast_timer s of None \<Rightarrow> Some s
      | Some t \<Rightarrow> if t_expires t \<le> jiffies s then led_blink_timer (t_data t) (s\<lparr>fast_timer := None\<rparr>) else Some s)"

definition fire_slow :: "led_state \<Rightarrow> led_state option" where
  "fire_slow s =
     (case slow_timer s of None \<Rightarrow> Some s
      | Some t \<Rightarrow> if t_expires t \<le> jiffies s then led_blink_timer (t_data t) (s\<lparr>slow_timer := None\<rparr>) else Some s)"

text \<open>One tick of the clock: the timers that are due run.\<close>

definition tick :: "led_state \<Rightarrow> led_state option" where
  "tick s = Option.bind (fire_fast (s\<lparr>jiffies := jiffies s + 1\<rparr>)) fire_slow"

inductive led_reach :: "led_state \<Rightarrow> bool" where
  start: "led_reach (led_init_module oe r i now rate)"
| written: "led_reach s \<Longrightarrow> proc_write_led_fops buffer s = Some (n, s') \<Longrightarrow> led_reach s'"
| ticked: "led_reach s \<Longrightarrow> tick s = Some s' \<Longrightarrow> led_reach s'"

primrec ticks :: "nat \<Rightarrow> led_state \<Rightarrow> led_state option" where
  "ticks 0 s = Some s"
| "ticks (Suc n) s = Option.bind (tick s) (ticks n)"

end
