(* ===== verification/Led_Laws.thy ===== *)
theory Led_Laws
  imports Led
begin

text \<open>
  The LED driver: its invariant, that no sequence of writes and ticks adds a timer twice, that every blinking ends in
  the state asked for, and the request to switch off that a blinking LED ignores.
\<close>

subsection \<open>The rows of the table in use\<close>

definition active :: "led_data_s list \<Rightarrow> led_data_s list" where
  "active = takeWhile (\<lambda>led. gpio_pin led \<noteq> GPIO_NULL)"

lemma active_simps [simp]:
  "active [] = []"
  "active (l # ls) = (if gpio_pin l = GPIO_NULL then [] else l # active ls)"
  by (simp_all add: active_def)

definition row_step :: "int \<Rightarrow> led_data_s \<Rightarrow> led_data_s" where
  "row_step speed l = (if l_count l > 0 \<and> l_speed l = speed then l\<lparr>l_count := l_count l - 1\<rparr> else l)"

lemma row_step_simps [simp]:
  "gpio_pin (row_step sp l) = gpio_pin l" "logic (row_step sp l) = logic l" "l_speed (row_step sp l) = l_speed l"
  "last_stat (row_step sp l) = last_stat l"
  by (simp_all add: row_step_def)

lemma row_step_count: "l_count (row_step sp l) = l_count l - (if l_speed l = sp then 1 else 0)"
  by (simp add: row_step_def)

lemma blink_scan_rows:
  "map gpio_pin (fst (blink_scan sp ls r)) = map gpio_pin ls"
  "map logic (fst (blink_scan sp ls r)) = map logic ls"
  "active (fst (blink_scan sp ls r)) = map (row_step sp) (active ls)"
  "snd (snd (blink_scan sp ls r)) \<longleftrightarrow> (\<exists>l \<in> set (active ls). l_speed l = sp \<and> l_count l > 1)"
  by (induction sp ls r rule: blink_scan.induct) (auto simp: Let_def row_step_def split: prod.splits)

text \<open>Whether a LED is lit, which is a cleared bit, and whether it will be when its blinking is over.\<close>

definition lit :: "led_data_s \<Rightarrow> 32 word \<Rightarrow> bool" where
  "lit l r \<longleftrightarrow> \<not> bit r (gpio_pin l)"

definition settles :: "led_data_s \<Rightarrow> 32 word \<Rightarrow> bool" where
  "settles l r \<longleftrightarrow> (if l_count l > 0 then last_stat l = 1 else lit l r)"

definition row_ok :: "led_data_s \<Rightarrow> bool" where
  "row_ok l \<longleftrightarrow> gpio_pin l < 32 \<and> logic l = - 1 \<and> (l_count l > 0 \<longrightarrow> last_stat l \<in> {0, 1} \<and> l_speed l \<in> {0, 1})"

lemma blink_scan_other:
  "\<forall>l \<in> set (active ls). gpio_pin l < 32 \<Longrightarrow> n \<notin> gpio_pin ` set (active ls) \<Longrightarrow>
   bit (fst (snd (blink_scan sp ls r))) n = bit r n"
  by (induction sp ls r rule: blink_scan.induct) (auto simp: Let_def led_bits split: prod.splits)

lemma blink_scan_settles:
  assumes "\<forall>l \<in> set (active ls). row_ok l" "distinct (map gpio_pin (active ls))" "l \<in> set (active ls)"
  shows "settles (row_step sp l) (fst (snd (blink_scan sp ls r))) = settles l r"
  using assms
proof (induction sp ls r rule: blink_scan.induct)
  case (2 sp k ks r)
  let ?n = "GPIO_NULL"
  have k: "gpio_pin k \<noteq> ?n" "row_ok k" "distinct (map gpio_pin (active ks))" "gpio_pin k \<notin> gpio_pin ` set (active ks)"
    and ks: "\<forall>l \<in> set (active ks). row_ok l" and l: "l = k \<or> l \<in> set (active ks)"
    using "2.prems" by (auto split: if_splits)
  have pins: "\<forall>l \<in> set (active ks). gpio_pin l < 32" using ks by (auto simp: row_ok_def)
  show ?case
  proof (cases "l_count k > 0 \<and> l_speed k = sp")
    case True
    let ?r1 = "led_reverse (gpio_pin k) r" and ?k = "k\<lparr>l_count := l_count k - 1\<rparr>"
    let ?r2 = "if l_count ?k > 0 then ?r1 else if last_stat k = 0 then led_off (gpio_pin k) (logic k) ?r1
      else if last_stat k = 1 then led_on (gpio_pin k) (logic k) ?r1 else ?r1"
    have scan: "fst (snd (blink_scan sp (k # ks) r)) = fst (snd (blink_scan sp ks ?r2))"
      using True k(1) by (simp add: Let_def split: prod.splits)
    have other: "bit ?r2 n = bit r n" if "n \<noteq> gpio_pin k" for n
      using that k(2) by (simp add: row_ok_def led_bits)
    show ?thesis
    proof (cases "l = k")
      case True2: True
      have "bit (fst (snd (blink_scan sp ks ?r2))) (gpio_pin k) = bit ?r2 (gpio_pin k)"
        by (rule blink_scan_other [OF pins k(4)])
      then show ?thesis using True True2 k(2) scan
        by (auto simp: row_step_def settles_def lit_def row_ok_def led_bits)
    next
      case False
      then have "l \<in> set (active ks)" using l by simp
      moreover from this have "gpio_pin l \<noteq> gpio_pin k" using k(4) by (metis imageI)
      moreover have "settles l ?r2 = settles l r" if "gpio_pin l \<noteq> gpio_pin k" for l
        using other [OF that] by (simp add: settles_def lit_def)
      ultimately show ?thesis
        using "2.IH"(1) [OF k(1) True refl refl refl ks k(3)] scan by simp
    qed
  next
    case False
    have scan: "fst (snd (blink_scan sp (k # ks) r)) = fst (snd (blink_scan sp ks r))"
      using False k(1) by (auto simp: Let_def split: prod.splits)
    show ?thesis
    proof (cases "l = k")
      case True
      have "row_step sp k = k" using False by (auto simp: row_step_def)
      then show ?thesis unfolding scan True using blink_scan_other [OF pins k(4), of sp r]
        by (simp add: settles_def lit_def)
    next
      case l2: False
      then have "l \<in> set (active ks)" using l by simp
      then show ?thesis using "2.IH"(2) [OF k(1) False ks k(3)] scan by simp
    qed
  qed
qed simp

subsection \<open>The invariant\<close>

definition led_inv :: "led_state \<Rightarrow> bool" where
  "led_inv s \<longleftrightarrow> map gpio_pin (led_tab s) = map gpio_pin led_data \<and>
     (\<forall>l \<in> set (active (led_tab s)). row_ok l \<and> (l_count l > 0 \<longrightarrow> (if l_speed l = 1 then fast_running s else slow_running s))) \<and>
     (fast_running s \<longleftrightarrow> fast_timer s \<noteq> None) \<and> (slow_running s \<longleftrightarrow> slow_timer s \<noteq> None) \<and>
     (\<forall>t. fast_timer s = Some t \<longrightarrow> t_data t = 1 \<and> t_expires t \<le> jiffies s + FAST_INTERVAL s) \<and>
     (\<forall>t. slow_timer s = Some t \<longrightarrow> t_data t = 0 \<and> t_expires t \<le> jiffies s + SLOW_INTERVAL s)"

lemma led_inv_rows:
  assumes "led_inv s" "l \<in> set (active (led_tab s))"
  shows "row_ok l" "l_count l > 0 \<Longrightarrow> l_speed l = 1 \<Longrightarrow> fast_running s" "l_count l > 0 \<Longrightarrow> l_speed l \<noteq> 1 \<Longrightarrow> slow_running s"
proof -
  have "row_ok l \<and> (l_count l > 0 \<longrightarrow> (if l_speed l = 1 then fast_running s else slow_running s))"
    using assms unfolding led_inv_def by blast
  then show "row_ok l" "l_count l > 0 \<Longrightarrow> l_speed l = 1 \<Longrightarrow> fast_running s"
    "l_count l > 0 \<Longrightarrow> l_speed l \<noteq> 1 \<Longrightarrow> slow_running s" by simp_all
qed

lemma led_invI:
  assumes "map gpio_pin (led_tab s) = map gpio_pin led_data" "\<And>l. l \<in> set (active (led_tab s)) \<Longrightarrow> row_ok l"
    and "\<And>l. l \<in> set (active (led_tab s)) \<Longrightarrow> l_count l > 0 \<Longrightarrow> l_speed l = 1 \<Longrightarrow> fast_running s"
    and "\<And>l. l \<in> set (active (led_tab s)) \<Longrightarrow> l_count l > 0 \<Longrightarrow> l_speed l \<noteq> 1 \<Longrightarrow> slow_running s"
    and "fast_running s \<longleftrightarrow> fast_timer s \<noteq> None" "slow_running s \<longleftrightarrow> slow_timer s \<noteq> None"
    and "\<And>t. fast_timer s = Some t \<Longrightarrow> t_data t = 1 \<and> t_expires t \<le> jiffies s + FAST_INTERVAL s"
    and "\<And>t. slow_timer s = Some t \<Longrightarrow> t_data t = 0 \<and> t_expires t \<le> jiffies s + SLOW_INTERVAL s"
  shows "led_inv s"
  unfolding led_inv_def using assms by (intro conjI ballI allI impI) simp_all

definition outcome :: "led_state \<Rightarrow> (nat \<times> bool) list" where
  "outcome s = map (\<lambda>l. (gpio_pin l, settles l (r_out s))) (active (led_tab s))"

definition load :: "led_state \<Rightarrow> nat" where
  "load s = sum_list (map l_count (active (led_tab s))) + of_bool (fast_running s) + of_bool (slow_running s)"

lemma active_pins:
  assumes "map gpio_pin tab = map gpio_pin led_data"
  shows "map gpio_pin (active tab) = [GPIO_POE, GPIO_WIRELESS, GPIO_POWER_GREEN]"
proof -
  have "map gpio_pin (active tab) = takeWhile (\<lambda>g. g \<noteq> GPIO_NULL) (map gpio_pin tab)"
    by (simp add: active_def takeWhile_map o_def)
  then show ?thesis
    by (simp add: assms) (simp add: led_data_def GPIO_NULL_def GPIO_POE_def GPIO_WIRELESS_def GPIO_POWER_GREEN_def)
qed

lemma led_inv_pins:
  assumes "led_inv s"
  shows "map gpio_pin (active (led_tab s)) = [GPIO_POE, GPIO_WIRELESS, GPIO_POWER_GREEN]"
    "distinct (map gpio_pin (active (led_tab s)))"
proof -
  show "map gpio_pin (active (led_tab s)) = [GPIO_POE, GPIO_WIRELESS, GPIO_POWER_GREEN]"
    using assms active_pins by (simp add: led_inv_def)
  then show "distinct (map gpio_pin (active (led_tab s)))"
    by (simp only:) (simp add: GPIO_POE_def GPIO_WIRELESS_def GPIO_POWER_GREEN_def)
qed

lemma sum_row_step:
  "sum_list (map (\<lambda>l. l_count (row_step sp l)) ls) \<le> sum_list (map l_count ls)"
  "\<exists>l \<in> set ls. l_speed l = sp \<and> l_count l > 1 \<Longrightarrow>
     sum_list (map (\<lambda>l. l_count (row_step sp l)) ls) < sum_list (map l_count ls)"
proof -
  show le: "sum_list (map (\<lambda>l. l_count (row_step sp l)) ls) \<le> sum_list (map l_count ls)" for ls
    by (rule sum_list_mono) (simp add: row_step_count)
  assume "\<exists>l \<in> set ls. l_speed l = sp \<and> l_count l > 1"
  then show "sum_list (map (\<lambda>l. l_count (row_step sp l)) ls) < sum_list (map l_count ls)"
  proof (induction ls)
    case (Cons l ls)
    have head: "l_count (row_step sp l) \<le> l_count l" by (simp add: row_step_count)
    show ?case
    proof (cases "\<exists>l \<in> set ls. l_speed l = sp \<and> l_count l > 1")
      case True
      then show ?thesis using Cons.IH head by simp
    next
      case False
      then have "l_count (row_step sp l) < l_count l" using Cons.prems by (auto simp: row_step_count)
      then show ?thesis using le [of ls] by simp
    qed
  qed simp
qed

text \<open>What a timer's function does, before it arms the timer again.\<close>

lemma blink_scan_state:
  assumes "led_inv s" "blink_scan sp (led_tab s) (r_out s) = (tab, r, need)"
  shows "map gpio_pin tab = map gpio_pin led_data" "active tab = map (row_step sp) (active (led_tab s))"
    "need \<longleftrightarrow> (\<exists>l \<in> set (active (led_tab s)). l_speed l = sp \<and> l_count l > 1)"
    "map (\<lambda>l. (gpio_pin l, settles l r)) (active tab) = outcome s"
    "\<forall>l \<in> set (active tab). row_ok l"
proof -
  note rows = blink_scan_rows [of sp "led_tab s" "r_out s", unfolded assms(2) fst_conv snd_conv]
  show "map gpio_pin tab = map gpio_pin led_data" using rows(1) assms(1) by (simp add: led_inv_def)
  show tab: "active tab = map (row_step sp) (active (led_tab s))" by (rule rows(3))
  show "need \<longleftrightarrow> (\<exists>l \<in> set (active (led_tab s)). l_speed l = sp \<and> l_count l > 1)" by (rule rows(4))
  have ok: "\<forall>l \<in> set (active (led_tab s)). row_ok l" using assms(1) by (simp add: led_inv_def)
  show "map (\<lambda>l. (gpio_pin l, settles l r)) (active tab) = outcome s"
    using blink_scan_settles [OF ok led_inv_pins(2) [OF assms(1)], of _ sp "r_out s"]
    by (simp add: tab outcome_def assms(2))
  show "\<forall>l \<in> set (active tab). row_ok l" using ok by (auto simp: tab row_ok_def row_step_def)
qed

definition due :: "timer_list option \<Rightarrow> nat \<Rightarrow> bool" where
  "due t now \<longleftrightarrow> (case t of None \<Rightarrow> False | Some t \<Rightarrow> t_expires t \<le> now)"

text \<open>What is left of a running timer of the other kind.\<close>

lemma fire_fast_step:
  assumes "led_inv s"
  shows "\<exists>s'. fire_fast s = Some s' \<and> led_inv s' \<and> jiffies s' = jiffies s \<and> hz s' = hz s \<and> slow_timer s' = slow_timer s \<and>
    outcome s' = outcome s \<and> (due (fast_timer s) (jiffies s) \<longrightarrow> load s' < load s) \<and> (\<not> due (fast_timer s) (jiffies s) \<longrightarrow> s' = s)"
proof (cases "due (fast_timer s) (jiffies s)")
  case True
  then obtain t where t: "fast_timer s = Some t" "t_expires t \<le> jiffies s" "t_data t = 1" "fast_running s"
    using assms by (auto simp: due_def led_inv_def split: option.splits)
  obtain tab r need where scan: "blink_scan 1 (led_tab s) (r_out s) = (tab, r, need)" by (metis prod_cases3)
  note st = blink_scan_state [OF assms scan]
  let ?s = "s\<lparr>fast_timer := None, led_tab := tab, r_out := r\<rparr>"
  let ?t = "\<lparr>t_data = 1, t_expires = jiffies s + FAST_INTERVAL s\<rparr>"
  let ?s' = "if need then ?s\<lparr>fast_timer := Some ?t\<rparr> else ?s\<lparr>fast_running := False\<rparr>"
  have "fire_fast s = Some ?s'"
    using t by (simp add: fire_fast_def led_blink_timer_def scan LED_FAST_def add_fast_timer_def FAST_INTERVAL_def)
  moreover have "led_inv ?s'"
    using assms st(1,3,5) t by (auto simp: led_inv_def st(2) row_step_count FAST_INTERVAL_def SLOW_INTERVAL_def split: if_splits)
  moreover have "outcome ?s' = outcome s" using st(4) by (simp add: outcome_def)
  moreover have "load ?s' < load s"
    using sum_row_step [where sp = 1 and ls = "active (led_tab s)"] st(3) t(4) by (auto simp: load_def st(2) o_def)
  ultimately show ?thesis using True by auto
next
  case False
  then show ?thesis using assms by (auto simp: fire_fast_def due_def split: option.splits)
qed

lemma fire_slow_step:
  assumes "led_inv s"
  shows "\<exists>s'. fire_slow s = Some s' \<and> led_inv s' \<and> jiffies s' = jiffies s \<and> hz s' = hz s \<and> fast_timer s' = fast_timer s \<and>
    outcome s' = outcome s \<and> (due (slow_timer s) (jiffies s) \<longrightarrow> load s' < load s) \<and> (\<not> due (slow_timer s) (jiffies s) \<longrightarrow> s' = s)"
proof (cases "due (slow_timer s) (jiffies s)")
  case True
  then obtain t where t: "slow_timer s = Some t" "t_expires t \<le> jiffies s" "t_data t = 0" "slow_running s"
    using assms by (auto simp: due_def led_inv_def split: option.splits)
  obtain tab r need where scan: "blink_scan 0 (led_tab s) (r_out s) = (tab, r, need)" by (metis prod_cases3)
  note st = blink_scan_state [OF assms scan]
  let ?s = "s\<lparr>slow_timer := None, led_tab := tab, r_out := r\<rparr>"
  let ?t = "\<lparr>t_data = 0, t_expires = jiffies s + SLOW_INTERVAL s\<rparr>"
  let ?s' = "if need then ?s\<lparr>slow_timer := Some ?t\<rparr> else ?s\<lparr>slow_running := False\<rparr>"
  have "fire_slow s = Some ?s'"
    using t by (simp add: fire_slow_def led_blink_timer_def scan LED_FAST_def add_slow_timer_def SLOW_INTERVAL_def)
  moreover have "led_inv ?s'"
    using assms st(1,3,5) t
    by (auto simp: led_inv_def st(2) row_step_count FAST_INTERVAL_def SLOW_INTERVAL_def row_ok_def split: if_splits)
  moreover have "outcome ?s' = outcome s" using st(4) by (simp add: outcome_def)
  moreover have "load ?s' < load s"
    using sum_row_step [where sp = 0 and ls = "active (led_tab s)"] st(3) t(4) by (auto simp: load_def st(2) o_def)
  ultimately show ?thesis using True by auto
next
  case False
  then show ?thesis using assms by (auto simp: fire_slow_def due_def split: option.splits)
qed

subsection \<open>Ticks and writes\<close>

text \<open>The time left, in ticks: what the counters and the running timers can still cost, and the distance to the
  next expiry.\<close>

definition left :: "timer_list option \<Rightarrow> nat \<Rightarrow> nat" where
  "left t now = (case t of None \<Rightarrow> 0 | Some t \<Rightarrow> t_expires t - now)"

definition time_left :: "led_state \<Rightarrow> nat" where
  "time_left s = load s * (FAST_INTERVAL s + SLOW_INTERVAL s + 1) + left (fast_timer s) (jiffies s) + left (slow_timer s) (jiffies s)"

definition idle :: "led_state \<Rightarrow> bool" where
  "idle s \<longleftrightarrow> fast_timer s = None \<and> slow_timer s = None"

lemma interval_cong: "hz s' = hz s \<Longrightarrow> FAST_INTERVAL s' = FAST_INTERVAL s \<and> SLOW_INTERVAL s' = SLOW_INTERVAL s"
  by (simp add: FAST_INTERVAL_def SLOW_INTERVAL_def)

lemma left_bound:
  assumes "led_inv s"
  shows "left (fast_timer s) (jiffies s) \<le> FAST_INTERVAL s" "left (slow_timer s) (jiffies s) \<le> SLOW_INTERVAL s"
  using assms by (auto simp: led_inv_def left_def split: option.splits)

lemma left_next:
  "\<not> due t (now + 1) \<Longrightarrow> t \<noteq> None \<Longrightarrow> left t (now + 1) < left t now" "left t (now + 1) \<le> left t now"
  by (auto simp: due_def left_def split: option.splits)

lemma tick_step:
  assumes "led_inv s"
  shows "\<exists>s'. tick s = Some s' \<and> led_inv s' \<and> outcome s' = outcome s \<and> hz s' = hz s \<and> (\<not> idle s \<longrightarrow> time_left s' < time_left s)"
proof -
  let ?s = "s\<lparr>jiffies := jiffies s + 1\<rparr>"
  have inv: "led_inv ?s" using assms by (auto simp: led_inv_def FAST_INTERVAL_def SLOW_INTERVAL_def)
  obtain s1 where s1: "fire_fast ?s = Some s1" "led_inv s1" "jiffies s1 = jiffies s + 1" "hz s1 = hz s"
    "slow_timer s1 = slow_timer s" "outcome s1 = outcome s"
    "due (fast_timer s) (jiffies s + 1) \<longrightarrow> load s1 < load s" "\<not> due (fast_timer s) (jiffies s + 1) \<longrightarrow> s1 = ?s"
    using fire_fast_step [OF inv] by (auto simp: outcome_def load_def)
  obtain s2 where s2: "fire_slow s1 = Some s2" "led_inv s2" "jiffies s2 = jiffies s + 1" "hz s2 = hz s"
    "fast_timer s2 = fast_timer s1" "outcome s2 = outcome s"
    "due (slow_timer s) (jiffies s + 1) \<longrightarrow> load s2 < load s1" "\<not> due (slow_timer s) (jiffies s + 1) \<longrightarrow> s2 = s1"
    using fire_slow_step [OF s1(2)] s1(3-6) by auto
  let ?F = "FAST_INTERVAL s" and ?S = "SLOW_INTERVAL s"
  have int: "FAST_INTERVAL s2 = ?F" "SLOW_INTERVAL s2 = ?S" using interval_cong [OF s2(4)] by simp_all
  have "time_left s2 < time_left s" if "\<not> idle s"
  proof (cases "due (fast_timer s) (jiffies s + 1) \<or> due (slow_timer s) (jiffies s + 1)")
    case True
    have "load ?s = load s" by (simp add: load_def)
    then have "load s2 < load s" using True s1(7,8) s2(7,8) by fastforce
    then have "load s2 * (?F + ?S + 1) + (?F + ?S + 1) \<le> load s * (?F + ?S + 1)"
      using mult_le_mono1 [of "load s2 + 1" "load s" "?F + ?S + 1"] by simp
    then show ?thesis using left_bound [OF s2(2)] int by (simp add: time_left_def)
  next
    case False
    then have "s2 = ?s" using s1(8) s2(8) by simp
    then show ?thesis
      using False that left_next(1) [of "fast_timer s" "jiffies s"] left_next(1) [of "slow_timer s" "jiffies s"]
        left_next(2) [of "fast_timer s" "jiffies s"] left_next(2) [of "slow_timer s" "jiffies s"]
      by (auto simp: time_left_def idle_def load_def FAST_INTERVAL_def SLOW_INTERVAL_def)
  qed
  then show ?thesis using s1(1) s2 by (auto simp: tick_def)
qed

lemma ticks_until_idle:
  "led_inv s \<Longrightarrow> \<exists>k s'. k \<le> time_left s \<and> ticks k s = Some s' \<and> led_inv s' \<and> idle s' \<and> outcome s' = outcome s"
proof (induction "time_left s" arbitrary: s rule: less_induct)
  case less
  show ?case
  proof (cases "idle s")
    case True
    then have "ticks 0 s = Some s \<and> led_inv s \<and> idle s \<and> outcome s = outcome s" using less.prems by simp
    then show ?thesis by blast
  next
    case False
    obtain s1 where s1: "tick s = Some s1" "led_inv s1" "outcome s1 = outcome s" "time_left s1 < time_left s"
      using tick_step [OF less.prems] False by blast
    then obtain k s' where "k \<le> time_left s1" "ticks k s1 = Some s'" "led_inv s'" "idle s'" "outcome s' = outcome s"
      using less.hyps [OF s1(4,2)] by auto
    then have "Suc k \<le> time_left s \<and> ticks (Suc k) s = Some s' \<and> led_inv s' \<and> idle s' \<and> outcome s' = outcome s"
      using s1 by simp
    then show ?thesis by blast
  qed
qed

lemma blink_set_rows:
  "map gpio_pin (blink_set g n sp lst ls) = map gpio_pin ls"
  "active (blink_set g n sp lst ls) =
     map (\<lambda>l. if gpio_pin l = g then l\<lparr>l_speed := sp, l_count := 2 * n, last_stat := lst\<rparr> else l) (active ls)"
  by (induction g n sp lst ls rule: blink_set.induct) simp_all

lemma led_blink_step:
  assumes "led_inv s" "sp \<in> {0, 1}" "lst \<in> {0, 1}"
  shows "\<exists>s'. led_blink g n sp lst s = Some s' \<and> led_inv s' \<and> hz s' = hz s \<and> r_out s' = r_out s \<and>
    led_tab s' = blink_set g n sp lst (led_tab s)"
proof -
  have rows: "map gpio_pin (blink_set g n sp lst (led_tab s)) = map gpio_pin led_data"
    using assms(1) by (simp add: blink_set_rows(1) led_inv_def)
  let ?tab = "blink_set g n sp lst (led_tab s)"
  have act: "row_ok l" "l_count l > 0 \<Longrightarrow> l_speed l = 1 \<Longrightarrow> fast_running s \<or> sp = 1"
    "l_count l > 0 \<Longrightarrow> l_speed l \<noteq> 1 \<Longrightarrow> slow_running s \<or> sp = 0"
    if l: "l \<in> set (active ?tab)" for l
  proof -
    obtain k where k: "k \<in> set (active (led_tab s))"
      "l = (if gpio_pin k = g then k\<lparr>l_speed := sp, l_count := 2 * n, last_stat := lst\<rparr> else k)"
      using l by (auto simp: blink_set_rows(2))
    note ok = led_inv_rows [OF assms(1) k(1)]
    show "row_ok l" using k(2) ok(1) assms(2,3) by (auto simp: row_ok_def)
    show "l_count l > 0 \<Longrightarrow> l_speed l = 1 \<Longrightarrow> fast_running s \<or> sp = 1"
      "l_count l > 0 \<Longrightarrow> l_speed l \<noteq> 1 \<Longrightarrow> slow_running s \<or> sp = 0"
      using k(2) ok(2,3) assms(2) by (cases "gpio_pin k = g", auto)+
  qed
  have inv: "(fast_running s \<longleftrightarrow> fast_timer s \<noteq> None)" "(slow_running s \<longleftrightarrow> slow_timer s \<noteq> None)"
    "\<forall>t. fast_timer s = Some t \<longrightarrow> t_data t = 1 \<and> t_expires t \<le> jiffies s + FAST_INTERVAL s"
    "\<forall>t. slow_timer s = Some t \<longrightarrow> t_data t = 0 \<and> t_expires t \<le> jiffies s + SLOW_INTERVAL s"
    using assms(1) by (simp_all add: led_inv_def)
  consider (fast) "sp = 1" "\<not> fast_running s" | (slow) "sp = 0" "\<not> slow_running s"
    | (none) "sp = 1 \<and> fast_running s \<or> sp = 0 \<and> slow_running s"
    using assms(2) by auto
  then show ?thesis
  proof cases
    case fast
    let ?s' = "s\<lparr>led_tab := ?tab, fast_running := True, fast_timer := Some \<lparr>t_data = 1, t_expires = jiffies s + FAST_INTERVAL s\<rparr>\<rparr>"
    have "led_blink g n sp lst s = Some ?s'"
      using fast inv by (simp add: led_blink_def LED_FAST_def add_fast_timer_def FAST_INTERVAL_def)
    moreover have "led_inv ?s'"
      by (rule led_invI) (use fast inv rows act in \<open>auto simp: FAST_INTERVAL_def SLOW_INTERVAL_def\<close>)
    ultimately show ?thesis by simp
  next
    case slow
    let ?s' = "s\<lparr>led_tab := ?tab, slow_running := True, slow_timer := Some \<lparr>t_data = 0, t_expires = jiffies s + SLOW_INTERVAL s\<rparr>\<rparr>"
    have "led_blink g n sp lst s = Some ?s'"
      using slow inv by (simp add: led_blink_def LED_FAST_def LED_SLOW_def add_slow_timer_def SLOW_INTERVAL_def)
    moreover have "led_inv ?s'"
      by (rule led_invI) (use slow inv rows act in \<open>auto simp: FAST_INTERVAL_def SLOW_INTERVAL_def\<close>)
    ultimately show ?thesis by simp
  next
    case none
    let ?s' = "s\<lparr>led_tab := ?tab\<rparr>"
    have "led_blink g n sp lst s = Some ?s'"
      using none by (auto simp: led_blink_def LED_FAST_def LED_SLOW_def)
    moreover have "fast_running s \<or> sp \<noteq> 1" "slow_running s \<or> sp \<noteq> 0" using none by auto
    then have "led_inv ?s'"
      by (intro led_invI) (use inv rows act in \<open>auto simp: FAST_INTERVAL_def SLOW_INTERVAL_def\<close>)
    ultimately show ?thesis by simp
  qed
qed

definition led_ok :: "nat \<Rightarrow> led_state option \<Rightarrow> bool" where
  "led_ok rate x \<longleftrightarrow> (\<exists>s'. x = Some s' \<and> led_inv s' \<and> hz s' = rate)"

lemma led_ok_if: "led_ok h x \<Longrightarrow> led_ok h y \<Longrightarrow> led_ok h (if b then x else y)"
  by simp

lemma led_ok_blink:
  assumes "led_inv s" "sp \<in> {0, 1}" "lst \<in> {0, 1}" "hz s = h"
  shows "led_ok h (led_blink g n sp lst s)"
  using led_blink_step [OF assms(1-3), of g n] assms(4) by (auto simp: led_ok_def)

lemma command_ok:
  assumes "led_inv s"
  shows "led_ok (hz s) (led_command c line s)"
proof -
  have r: "led_inv (s\<lparr>r_out := r\<rparr>)" for r using assms by (auto simp: led_inv_def FAST_INTERVAL_def SLOW_INTERVAL_def)
  then have "led_ok (hz s) (Some (s\<lparr>r_out := r\<rparr>))" for r by (simp add: led_ok_def)
  moreover have "led_ok (hz s) (Some s)" using assms by (simp add: led_ok_def)
  moreover have "led_ok (hz s) (led_blink g n LED_SLOW 1 (s\<lparr>r_out := r\<rparr>))" for g n r
    by (rule led_ok_blink [OF r]) (simp_all add: LED_SLOW_def)
  moreover have "led_ok (hz s) (led_blink g n LED_FAST 1 s)" for g n
    by (rule led_ok_blink [OF assms]) (simp_all add: LED_FAST_def)
  moreover have "led_ok (hz s) (led_blink g n LED_SLOW 1 s)" "led_ok (hz s) (led_blink g n LED_SLOW 0 s)" for g n
    by (rule led_ok_blink [OF assms], simp_all add: LED_SLOW_def)+
  ultimately show ?thesis
    unfolding led_command_def Let_def by (intro led_ok_if)
qed

lemma write_step:
  assumes "led_inv s" "length buffer < 10"
  shows "\<exists>s'. proc_write_led_fops buffer s = Some (length buffer, s') \<and> led_inv s' \<and> hz s' = hz s"
  using command_ok [OF assms(1), of "hd buffer" "tl buffer @ [NUL]"] assms
  by (auto simp: proc_write_led_fops_def led_ok_def)

lemma fold_led_init:
  "led_tab (fold led_init ls s) = led_tab s" "fast_timer (fold led_init ls s) = fast_timer s"
  "slow_timer (fold led_init ls s) = slow_timer s" "fast_running (fold led_init ls s) = fast_running s"
  "slow_running (fold led_init ls s) = slow_running s"
  by (induction ls arbitrary: s) (simp_all add: led_init_def)

lemma init_inv: "led_inv (led_init_module oe r i now rate)"
  by (simp add: led_inv_def led_init_module_def fold_led_init)
    (simp add: led_data_def row_ok_def GPIO_NULL_def GPIO_POE_def GPIO_WIRELESS_def GPIO_POWER_GREEN_def)

lemma reach_inv: "led_reach s \<Longrightarrow> led_inv s"
proof (induction rule: led_reach.induct)
  case (written s buffer n s')
  then have "length buffer < 10" by (auto simp: proc_write_led_fops_def split: if_splits)
  from write_step [OF written.IH this] written.hyps show ?case by auto
next
  case (ticked s s')
  then show ?case using tick_step [OF ticked.IH] by auto
qed (rule init_inv)

subsection \<open>Safety and the end of blinking\<close>

text \<open>C36. In every state the driver can reach, the next tick of the clock runs without adding a timer that is still
  pending, and a write to \<open>/proc/led\<close> goes wrong exactly when it has ten bytes or more: then it overflows the
  array \<open>line\<close>.
\<close>

theorem led_driver_safe:
  assumes "led_reach s"
  shows "tick s \<noteq> None \<and> (proc_write_led_fops buffer s = None \<longleftrightarrow> 10 \<le> length buffer)"
  using tick_step [OF reach_inv [OF assms]] write_step [OF reach_inv [OF assms], of buffer]
  by (cases "10 \<le> length buffer") (auto simp: proc_write_led_fops_def)

text \<open>At rest no LED has blinking left.\<close>

lemma idle_settled:
  assumes "led_inv s" "idle s" "l \<in> set (active (led_tab s))"
  shows "settles l (r_out s) = lit l (r_out s)"
proof -
  have "\<not> fast_running s" "\<not> slow_running s" using assms(1,2) by (auto simp: led_inv_def idle_def)
  then have "l_count l = 0" using led_inv_rows [OF assms(1,3)] by (metis gr0I)
  then show ?thesis by (simp add: settles_def)
qed

lemma settles_at_rest:
  assumes "led_inv s"
  shows "\<exists>k s'. k \<le> time_left s \<and> ticks k s = Some s' \<and> idle s' \<and>
    (\<forall>l \<in> set (active (led_tab s)). lit l (r_out s') = (if l_count l > 0 then last_stat l = 1 else lit l (r_out s)))"
proof -
  obtain k s' where k: "k \<le> time_left s" "ticks k s = Some s'" "led_inv s'" "idle s'" "outcome s' = outcome s"
    using ticks_until_idle [OF assms] by blast
  have "lit l (r_out s') = settles l (r_out s)" if l: "l \<in> set (active (led_tab s))" for l
  proof -
    have "(gpio_pin l, settles l (r_out s)) \<in> set (outcome s')" using l unfolding k(5) by (auto simp: outcome_def)
    then obtain l' where l': "l' \<in> set (active (led_tab s'))" "gpio_pin l' = gpio_pin l"
      "settles l' (r_out s') = settles l (r_out s)"
      by (auto simp: outcome_def)
    then show ?thesis using idle_settled [OF k(3,4) l'(1)] by (simp add: lit_def)
  qed
  then show ?thesis using k by (auto simp: settles_def)
qed

text \<open>C18. Every blinking ends: within the time the counters and the running timers take, both timers stop, and each LED
  that was blinking is then in the state its command asked for last, while the others are as they were.
\<close>

theorem blinking_ends:
  assumes "led_reach s"
  shows "\<exists>k s'. k \<le> time_left s \<and> ticks k s = Some s' \<and> idle s' \<and>
    (\<forall>l \<in> set (active (led_tab s)). lit l (r_out s') = (if l_count l > 0 then last_stat l = 1 else lit l (r_out s)))"
  by (rule settles_at_rest [OF reach_inv [OF assms]])

text \<open>The request to switch the wireless LED off does not end its blinking: written while the LED blinks, it darkens
  the LED at once, but the timer goes on, and when it stops the LED is lit.
\<close>

theorem off_request_lost:
  assumes "led_reach s" "l \<in> set (active (led_tab s))" "gpio_pin l = GPIO_WIRELESS" "l_count l > 0" "last_stat l = 1"
  shows "\<exists>s1 k s'. proc_write_led_fops ''w0'' s = Some (2, s1) \<and> \<not> lit l (r_out s1) \<and> ticks k s1 = Some s' \<and>
    idle s' \<and> lit l (r_out s')"
proof -
  let ?s1 = "s\<lparr>r_out := led_off GPIO_WIRELESS (- 1) (r_out s)\<rparr>"
  have w: "proc_write_led_fops ''w0'' s = Some (2, ?s1)" by (simp add: proc_write_led_fops_def led_command_def)
  then have "led_reach ?s1" by (rule written [OF assms(1)])
  from settles_at_rest [OF reach_inv [OF this]] obtain k s' where
    "ticks k ?s1 = Some s'" "idle s'" "\<forall>l \<in> set (active (led_tab s)). lit l (r_out s') =
       (if l_count l > 0 then last_stat l = 1 else lit l (r_out ?s1))" by auto
  moreover have "\<not> lit l (r_out ?s1)" using assms(3) by (simp add: lit_def bit_led_off GPIO_WIRELESS_def)
  moreover have "lit l (r_out s')" using calculation(3) assms(2,4,5) by auto
  ultimately show ?thesis using w by blast
qed

subsection \<open>A concrete run\<close>

definition ex_led :: led_state where
  "ex_led = led_init_module 0 0 0 0 100"

lemma ex_led_reach: "led_reach ex_led"
  by (simp add: ex_led_def start)

lemma ex_led_tab: "led_tab ex_led = led_data"
  by (simp add: ex_led_def led_init_module_def fold_led_init)

definition ex_blinking :: led_state where
  "ex_blinking = snd (the (proc_write_led_fops ''w4'' ex_led))"

lemma ex_blinking_reach: "led_reach ex_blinking"
  and ex_blinking_tab: "led_tab ex_blinking = blink_set GPIO_WIRELESS 4 1 1 led_data"
proof -
  obtain s where s: "led_blink GPIO_WIRELESS 4 LED_FAST 1 ex_led = Some s" "led_tab s = blink_set GPIO_WIRELESS 4 1 1 (led_tab ex_led)"
    using led_blink_step [OF reach_inv [OF ex_led_reach], of 1 1 GPIO_WIRELESS 4] by (auto simp: LED_FAST_def)
  have "proc_write_led_fops ''w4'' ex_led = Some (2, s)"
    using s(1) by (simp add: proc_write_led_fops_def led_command_def led_atoi_def c_isdigit_def)
  then show "led_reach ex_blinking" "led_tab ex_blinking = blink_set GPIO_WIRELESS 4 1 1 led_data"
    using written [OF ex_led_reach] s(2) by (simp_all add: ex_blinking_def ex_led_tab)
qed

definition ex_row :: led_data_s where
  "ex_row = \<lparr>gpio_pin = GPIO_WIRELESS, l_count = 8, logic = - 1, l_speed = 1, last_stat = 1, l_init = False\<rparr>"

lemma ex_row_active: "ex_row \<in> set (active (led_tab ex_blinking))"
  by (simp add: ex_row_def ex_blinking_tab led_data_def GPIO_NULL_def GPIO_POE_def GPIO_WIRELESS_def GPIO_POWER_GREEN_def)

theorem led_driver_safe_witness: "tick ex_blinking \<noteq> None \<and> proc_write_led_fops ''w0'' ex_blinking \<noteq> None"
  using led_driver_safe [OF ex_blinking_reach, of "''w0''"] by simp

theorem blinking_ends_witness: "\<exists>k s'. ticks k ex_blinking = Some s' \<and> idle s' \<and> lit ex_row (r_out s')"
  using blinking_ends [OF ex_blinking_reach] ex_row_active by (fastforce simp: ex_row_def)

theorem off_request_lost_witness:
  "\<exists>s1 k s'. proc_write_led_fops ''w0'' ex_blinking = Some (2, s1) \<and> ticks k s1 = Some s' \<and> idle s' \<and> lit ex_row (r_out s')"
  using off_request_lost [OF ex_blinking_reach ex_row_active] by (auto simp: ex_row_def)

end
