(* ===== verification/Buttons.thy ===== *)
theory Buttons
  imports Util_Sys
begin

unbundle bit_operations_syntax

text \<open>
  The processes around the LEDs and buttons: the daemon that shows the wireless traffic
  (\<open>src/src/apps/apps_sc/led/led_ap.c\<close>), the driver of the reset button and the daemon that times how long it is held
  (\<open>push_button/push_button.c\<close>, \<open>pb_ap.c\<close>), and the WPS button (\<open>wps.c\<close>). Each endless loop is given by its body, one
  call of which ends in the pause.
\<close>

subsection \<open>The wireless LED\<close>

definition WLS_ERROR :: int where "WLS_ERROR = - 1"
definition WLS_OFF :: int where "WLS_OFF = 0"
definition WLS_ON :: int where "WLS_ON = 1"
definition WLS_TRANSMIT :: int where "WLS_TRANSMIT = 2"

record wls =
  wls_packets :: "64 word"
  wls_status :: int

text \<open>The lines after the heading: whether a wireless interface is there, and the packets sent. A line whose counters
  cannot be read counts the number of the line before again; a line without a colon is scanned past its end.\<close>

fun wls_scan :: "cstr list \<Rightarrow> bool \<Rightarrow> 64 word \<Rightarrow> 64 word \<Rightarrow> (bool \<times> 64 word) option" where
  "wls_scan [] is_on tmp cur = Some (is_on, cur)"
| "wls_scan (line # lines) is_on tmp cur =
     (if CHR '':'' \<notin> set line then None
      else do {
        ifname \<leftarrow> into_buf 32 (filter (\<lambda>c. \<not> c_isspace c) (takeWhile (\<lambda>c. c \<noteq> CHR '':'') line));
        if take 3 ifname \<noteq> ''ath'' then wls_scan lines is_on tmp cur
        else do {
          let v = scan_nums 16 (tl (dropWhile (\<lambda>c. c \<noteq> CHR '':'') line));
          let tmp = (if 10 \<le> length v then of_nat (v ! 9) else tmp);
          wls_scan lines True tmp (cur + tmp)
        }
      })"

definition get_wls_status :: "'a host_scheme \<Rightarrow> wls \<Rightarrow> (int \<times> wls) option" where
  "get_wls_status s w =
     (case files s ''/proc/net/dev'' of
        None \<Rightarrow> Some (WLS_ERROR, w)
      | Some b \<Rightarrow> do {
          (is_on, cur) \<leftarrow> wls_scan (drop 2 (fgets_all 1023 b)) False 0 0;
          Some (if \<not> is_on then (WLS_OFF, w)
            else if cur \<noteq> wls_packets w then (WLS_TRANSMIT, w\<lparr>wls_packets := cur\<rparr>)
            else (WLS_ON, w))
        })"

definition led_ap_poll :: "wls \<times> 'a host_scheme \<Rightarrow> (wls \<times> 'a host_scheme) option" where
  "led_ap_poll = (\<lambda>(w, s). do {
     (cur_status, w) \<leftarrow> get_wls_status s w;
     let s = (if cur_status = WLS_TRANSMIT then c_system ''echo w4 > /proc/led&'' s
        else if cur_status \<noteq> wls_status w then
          (if cur_status = WLS_OFF then c_system ''echo w0 > /proc/led&'' s
           else if cur_status = WLS_ON then c_system ''echo w1 > /proc/led&'' s
           else s)
        else s);
     Some (w\<lparr>wls_status := cur_status\<rparr>, s)
   })"

subsection \<open>The reset button\<close>

text \<open>The driver: what a read of \<open>/proc/push_button\<close> from the start returns, by the input register.\<close>

definition GPIO_RESET_BUTTON :: nat where "GPIO_RESET_BUTTON = 21"

definition buttonIsPushed :: "32 word \<Rightarrow> bool" where
  "buttonIsPushed gpio_in \<longleftrightarrow> push_bit GPIO_RESET_BUTTON 1 AND gpio_in = 0"

definition proc_read_push_button_fops :: "32 word \<Rightarrow> nat \<Rightarrow> bytes" where
  "proc_read_push_button_fops gpio_in offp =
     (if offp \<noteq> 0 then [] else (if buttonIsPushed gpio_in then ''RST '' else []) @ [NUL])"

text \<open>The daemon's read: \<open>cmd\<close> is not initialised.\<close>

definition ButtonIsPushed :: "'a host_scheme \<Rightarrow> bool option" where
  "ButtonIsPushed s =
     (case files s ''/proc/push_button'' of
        None \<Rightarrow> Some False
      | Some b \<Rightarrow>
          (let cmd = take 31 b in
           if cmd = [] then None
           else if hd cmd = NUL then Some False
           else if 4 \<le> length cmd then Some (take 4 cmd = ''RST '')
           else if take (length cmd) ''RST '' \<noteq> cmd then Some False
           else None))"

text \<open>\<open>timerinterval\<close>: microseconds, in a 32-bit \<open>long\<close>.\<close>

type_synonym timeval = "int \<times> int"

definition timerinterval :: "timeval \<Rightarrow> timeval \<Rightarrow> int option" where
  "timerinterval = (\<lambda>(tsec, tusec) (usec, uusec).
     let d = tsec - usec; m = d * 1000000; e = tusec - uusec in
     if int_range d \<and> int_range m \<and> int_range e \<and> int_range (m + e) then Some (m + e) else None)"

definition RESTORE_INTERVAL :: int where "RESTORE_INTERVAL = 4000000"
definition REBOOT_INTERVAL :: int where "REBOOT_INTERVAL = 1000000"

text \<open>\<open>STATE_PRESSED\<close> with the time the press began and whether the user has been told to release.\<close>

datatype pb_state = STATE_NORMAL | STATE_PRESSED timeval bool

definition led_echo :: "cstr \<Rightarrow> cstr" where
  "led_echo c = ''echo '' @ [CHR 0x22] @ c @ [CHR 0x22] @ '' > /proc/led&''"

text \<open>One round, with the time of day it would read, and whether the process exits.\<close>

definition pb_poll :: "timeval \<Rightarrow> pb_state \<times> 'a host_scheme \<Rightarrow> (bool \<times> pb_state \<times> 'a host_scheme) option" where
  "pb_poll now = (\<lambda>(st, s). do {
     pushed \<leftarrow> ButtonIsPushed s;
     (case (pushed, st) of
        (True, STATE_NORMAL) \<Rightarrow> Some (False, STATE_PRESSED now False, s)
      | (True, STATE_PRESSED beginTime flag) \<Rightarrow> do {
          interval \<leftarrow> timerinterval now beginTime;
          Some (if \<not> flag \<and> RESTORE_INTERVAL < interval
            then (False, STATE_PRESSED beginTime True, c_system (led_echo ''t2'') s)
            else (False, st, s))
        }
      | (False, STATE_NORMAL) \<Rightarrow> Some (False, st, s)
      | (False, STATE_PRESSED beginTime flag) \<Rightarrow> do {
          interval \<leftarrow> timerinterval now beginTime;
          Some (if RESTORE_INTERVAL < interval then
              (True, STATE_NORMAL,
               c_system ''/sbin/reboot &'' (c_system (led_echo ''d1'')
                 (sh_run ''/usr/sbin/nvram set restore_defaults=1'' (c_system (led_echo ''d100'') s))))
            else if REBOOT_INTERVAL < interval then
              (True, STATE_NORMAL, c_system ''/sbin/reboot &'' (c_system (led_echo ''r100'') s))
            else (False, STATE_NORMAL, c_system (led_echo ''t'') s))
        })
   })"

subsection \<open>The WPS button\<close>

definition wps_poll :: "'a host_scheme \<Rightarrow> 'a host_scheme option" where
  "wps_poll s = do {
     b \<leftarrow> files s ''/proc/wps_button'';
     let cmd = take 32 b;
     if NUL \<notin> set cmd then None
     else Some (if takeWhile (\<lambda>c. c \<noteq> NUL) cmd = ''Enable'' then c_system ''/bin/echo 1 > /proc/wsc_pushbutton&'' s else s)
   }"

subsection \<open>A press of the reset button\<close>

text \<open>The rounds of the daemon while the driver reports the given levels at the given times.\<close>

fun pb_rounds :: "(32 word \<times> timeval) list \<Rightarrow> pb_state \<times> 'a host_scheme \<Rightarrow> (bool \<times> pb_state \<times> 'a host_scheme) option" where
  "pb_rounds [] (st, s) = Some (False, st, s)"
| "pb_rounds ((gpio_in, now) # rounds) (st, s) = do {
     let s = s\<lparr>files := (files s)(''/proc/push_button'' \<mapsto> proc_read_push_button_fops gpio_in 0)\<rparr>;
     (exited, st, s) \<leftarrow> pb_poll now (st, s);
     if exited then Some (True, st, s) else pb_rounds rounds (st, s)
   }"

lemma masked_zero: "n < 32 \<Longrightarrow> push_bit n 1 AND w = 0 \<longleftrightarrow> \<not> bit w n" for w :: "32 word"
  using bit_eq_iff [of "push_bit n 1 AND w" 0] by (auto simp: bit_simps)

lemma button_seen:
  "files s ''/proc/push_button'' = Some (proc_read_push_button_fops gpio_in 0) \<Longrightarrow>
   ButtonIsPushed s = Some (\<not> bit gpio_in GPIO_RESET_BUTTON)"
  using masked_zero [of GPIO_RESET_BUTTON gpio_in]
  by (simp add: ButtonIsPushed_def proc_read_push_button_fops_def buttonIsPushed_def GPIO_RESET_BUTTON_def)

definition usecs :: "timeval \<Rightarrow> int" where
  "usecs t = fst t * 1000000 + snd t"

text \<open>Times of day within a few minutes, so that the interval is exact.\<close>

definition near :: "timeval \<Rightarrow> timeval \<Rightarrow> bool" where
  "near t u \<longleftrightarrow> 0 \<le> snd t \<and> snd t < 1000000 \<and> 0 \<le> snd u \<and> snd u < 1000000 \<and> \<bar>fst t - fst u\<bar> \<le> 2000"

lemma timerinterval_near: "near t u \<Longrightarrow> timerinterval t u = Some (usecs t - usecs u)"
  by (auto simp: near_def timerinterval_def usecs_def int_range_def INT_MAX_def INT_MIN_def Let_def split: prod.splits)

definition held :: "32 word \<Rightarrow> bool" where
  "held gpio_in \<longleftrightarrow> \<not> bit gpio_in GPIO_RESET_BUTTON"

definition prompted :: "timeval \<Rightarrow> (32 word \<times> timeval) list \<Rightarrow> bool" where
  "prompted t0 rs = list_ex (\<lambda>(g, t). usecs t - usecs t0 > RESTORE_INTERVAL) rs"

lemma prompted_simps [simp]:
  "\<not> prompted t0 []" "prompted t0 ((g, t) # rs) \<longleftrightarrow> usecs t - usecs t0 > RESTORE_INTERVAL \<or> prompted t0 rs"
  by (simp_all add: prompted_def)

text \<open>While the button is held, nothing happens but the prompt to release it, once, when the time for a restore is
  reached.\<close>

lemma rounds_held:
  assumes "\<forall>(g, t) \<in> set rs. held g \<and> near t t0"
  shows "\<exists>s'. pb_rounds (rs @ ms) (STATE_PRESSED t0 flag, s) =
      pb_rounds ms (STATE_PRESSED t0 (flag \<or> prompted t0 rs), s') \<and>
    cmds s' = cmds s @ (if \<not> flag \<and> prompted t0 rs then [led_echo ''t2''] else [])"
  using assms
proof (induction rs arbitrary: flag s)
  case Nil
  show ?case by (rule exI [of _ s]) simp
next
  case (Cons r rs)
  obtain g t where r: "r = (g, t)" by (cases r)
  let ?s = "s\<lparr>files := (files s)(''/proc/push_button'' \<mapsto> proc_read_push_button_fops g 0)\<rparr>"
  let ?late = "usecs t - usecs t0 > RESTORE_INTERVAL"
  have "ButtonIsPushed ?s = Some True" using button_seen [of ?s g] Cons.prems r by (simp add: held_def)
  moreover have "timerinterval t t0 = Some (usecs t - usecs t0)" using Cons.prems r by (simp add: timerinterval_near)
  ultimately have "pb_poll t (STATE_PRESSED t0 flag, ?s) =
      Some (False, STATE_PRESSED t0 (flag \<or> ?late), if \<not> flag \<and> ?late then c_system (led_echo ''t2'') ?s else ?s)"
    by (auto simp: pb_poll_def)
  then have step: "pb_rounds ((r # rs) @ ms) (STATE_PRESSED t0 flag, s) =
      pb_rounds (rs @ ms) (STATE_PRESSED t0 (flag \<or> ?late), if \<not> flag \<and> ?late then c_system (led_echo ''t2'') ?s else ?s)"
    by (simp add: r)
  show ?case
    using Cons.IH [of "flag \<or> ?late" "if \<not> flag \<and> ?late then c_system (led_echo ''t2'') ?s else ?s"] Cons.prems
    unfolding step by (auto simp: r disj_assoc split: if_splits)
qed

text \<open>C35. What a press of the reset button does depends on how long it was held: more than four seconds restore the
  factory settings and reboot, more than one second reboots, less only blinks the LED. A press seen for more than
  four seconds is answered, once, by the prompt to release. After a restore or a reboot the daemon exits.
\<close>

theorem reset_press:
  assumes "\<forall>(g, t) \<in> set ((g0, t0) # rs). held g \<and> near t t0" "\<not> held g1" "near t1 t0"
    and "d = usecs t1 - usecs t0"
  shows "\<exists>s'. pb_rounds ((g0, t0) # rs @ [(g1, t1)]) (STATE_NORMAL, s) = Some (d > REBOOT_INTERVAL, STATE_NORMAL, s') \<and>
    cmds s' = cmds s @
      (if prompted t0 rs then [led_echo ''t2''] else []) @
      (if d > RESTORE_INTERVAL then [led_echo ''d100'', ''/usr/sbin/nvram set restore_defaults=1'', led_echo ''d1'', ''/sbin/reboot &'']
       else if d > REBOOT_INTERVAL then [led_echo ''r100'', ''/sbin/reboot &'']
       else [led_echo ''t''])"
proof -
  let ?s0 = "s\<lparr>files := (files s)(''/proc/push_button'' \<mapsto> proc_read_push_button_fops g0 0)\<rparr>"
  have "ButtonIsPushed ?s0 = Some True" using button_seen [of ?s0 g0] assms(1) by (simp add: held_def)
  then have first: "pb_rounds ((g0, t0) # rs @ [(g1, t1)]) (STATE_NORMAL, s) =
      pb_rounds (rs @ [(g1, t1)]) (STATE_PRESSED t0 False, ?s0)"
    by (simp add: pb_poll_def)
  obtain s1 flag where s1: "pb_rounds (rs @ [(g1, t1)]) (STATE_PRESSED t0 False, ?s0) =
      pb_rounds [(g1, t1)] (STATE_PRESSED t0 flag, s1)"
    "cmds s1 = cmds s @ (if prompted t0 rs then [led_echo ''t2''] else [])"
    using rounds_held [of rs t0 "[(g1, t1)]" False ?s0] assms(1) by auto
  let ?s1 = "s1\<lparr>files := (files s1)(''/proc/push_button'' \<mapsto> proc_read_push_button_fops g1 0)\<rparr>"
  have "ButtonIsPushed ?s1 = Some False" using button_seen [of ?s1 g1] assms(2) by (simp add: held_def)
  moreover have "timerinterval t1 t0 = Some d" using assms(3,4) by (simp add: timerinterval_near)
  ultimately show ?thesis
    using s1(2) unfolding first s1(1) by (auto simp: pb_poll_def RESTORE_INTERVAL_def REBOOT_INTERVAL_def)
qed

theorem reset_press_witness:
  "\<exists>s'. pb_rounds [(0, (100, 0)), (0, (104, 500000)), (0x200000, (105, 0))] (STATE_NORMAL, ex_host (\<lambda>_. None)) =
      Some (True, STATE_NORMAL, s') \<and>
    cmds s' = [led_echo ''t2'', led_echo ''d100'', ''/usr/sbin/nvram set restore_defaults=1'', led_echo ''d1'', ''/sbin/reboot &'']"
proof -
  have "bit (0x200000 :: 32 word) 21" by (simp add: bit_iff_odd)
  then show ?thesis
    using reset_press [of 0 "(100, 0)" "[(0, (104, 500000))]" "0x200000" "(105, 0)" 5000000 "ex_host (\<lambda>_. None)"]
    by (simp add: held_def near_def usecs_def GPIO_RESET_BUTTON_def RESTORE_INTERVAL_def REBOOT_INTERVAL_def)
qed

end
