(* ===== verification/Util_V6.thy ===== *)
theory Util_V6
  imports Util_Sys Apcfg_Acl Apcfg_Checked
begin

text \<open>
  The parts of \<open>libs/libutility/utility.c\<close> that report the time of day and the IPv6 status of the
  management bridge. What the C library answers is part of the state: the broken-down local time, the
  text \<open>inet_ntop\<close> prints for the address \<open>inet_pton\<close> reads (none when the text is no address), and
  the conversion \<open>libiconv\<close> performs between two character sets, with the number it returns. The
  files under \<open>/proc/net\<close> are written by the kernel; a text that is not in the kernel's format is
  outside the model (\<open>None\<close>).
\<close>

record tm =
  tm_year :: int
  tm_mon :: int
  tm_mday :: int
  tm_wday :: int
  tm_hour :: int
  tm_min :: int
  tm_sec :: int

record env = lib +
  now :: tm
  inet6 :: "cstr \<Rightarrow> cstr option"
  iconv :: "cstr \<Rightarrow> cstr \<Rightarrow> bytes \<Rightarrow> int \<times> bytes"

subsection \<open>The time of day\<close>

definition week_day :: "bool \<Rightarrow> int \<Rightarrow> cstr" where
  "week_day multi d =
     (if 0 \<le> d \<and> d \<le> 6 then
        (if multi then
           ''<script language='' @ [CHR 0x22] @ ''javascript'' @ [CHR 0x22] @ '' type='' @ [CHR 0x22] @ ''text/javascript'' @
           [CHR 0x22] @ ''>dw(st_week_'' @ fmt_d (if d = 0 then 7 else d) @ '');</script>''
         else [''Sun'', ''Mon'', ''Tue'', ''Wed'', ''Thu'', ''Fri'', ''Sta''] ! nat d)
      else [])"

text \<open>\<open>timezone + 3\<close> of a text shorter than three characters is behind its end.\<close>

definition getTimeofDay :: "bool \<Rightarrow> nat \<Rightarrow> 'a env_scheme \<Rightarrow> (cstr \<times> 'a env_scheme) option" where
  "getTimeofDay multi n s = do {
     let st = now s;
     let add_year = (if tm_year st = 108 then 1903 else 1900);
     (tz, s) \<leftarrow> apCfgTimezoneOffsetGet s;
     timezone \<leftarrow> into_buf 20 tz;
     wday \<leftarrow> into_buf 128 (week_day multi (tm_wday st));
     (mode, s) \<leftarrow> apCfgTimeModeGet s;
     let t = fmt_d (tm_year st + add_year) @ ''/'' @ fmt_02d (tm_mon st + 1) @ ''/'' @ fmt_02d (tm_mday st) @ '' '' @
       wday @ '' '' @ fmt_02d (tm_hour st) @ '':'' @ fmt_02d (tm_min st) @ '':'' @ fmt_02d (tm_sec st);
     t \<leftarrow> (if mode = 0 then (if length timezone < 3 then None else Some (t @ '' ('' @ drop 3 timezone @ '')'')) else Some t);
     t \<leftarrow> into_buf n t;
     Some (t, s)
   }"

definition ws_words :: "cstr \<Rightarrow> cstr list" where
  "ws_words s = strtok_all (CHR '' '') (map (\<lambda>c. if c_isspace c then CHR '' '' else c) s)"

text \<open>
  The first word of \<open>/proc/uptime\<close>, a file the code does not test, into 20 bytes; \<open>localtime\<close> is a parameter. The hours are
  those of the local clock that many seconds after the epoch, so they contain the offset of the time zone.
\<close>

definition fmt_2d :: "int \<Rightarrow> cstr" where
  "fmt_2d v = (let t = fmt_d v in replicate (2 - length t) (CHR '' '') @ t)"

definition getUpTime :: "(int \<Rightarrow> tm) \<Rightarrow> 'a env_scheme \<Rightarrow> cstr option" where
  "getUpTime localtime s = do {
     b \<leftarrow> files s ''/proc/uptime'';
     w \<leftarrow> (case ws_words b of [] \<Rightarrow> None | w # _ \<Rightarrow> Some w);
     uptime \<leftarrow> into_buf 20 w;
     let tv_sec = atoi uptime;
     let days = tv_sec div (60 * 60 * 24);
     let ltm = localtime tv_sec;
     let t = fmt_2d (tm_hour ltm) @ '':'' @ fmt_02d (tm_min ltm) @ '':'' @ fmt_02d (tm_sec ltm);
     Some (if 0 < days then ''Day '' @ fmt_d days @ '', '' @ t else t)
   }"

subsection \<open>The IPv6 status\<close>

record if_infov6 =
  v6_ifname :: cstr
  v6_ipaddr :: cstr
  v6_gw :: cstr

text \<open>The eight groups with their colons.\<close>

fun v6_groups :: "nat \<Rightarrow> cstr \<Rightarrow> cstr" where
  "v6_groups 0 s = []"
| "v6_groups (Suc n) s = take 4 s @ (if n = 0 then [] else CHR '':'' # v6_groups n (drop 4 s))"

definition v6_text :: "cstr \<Rightarrow> nat \<Rightarrow> 'a env_scheme \<Rightarrow> cstr option" where
  "v6_text a plen s = do { t \<leftarrow> inet6 s a; t \<leftarrow> into_buf 46 t; into_buf 46 (t @ ''/'' @ fmt_d (int plen)) }"

fun inet6_scan :: "cstr \<Rightarrow> cstr list \<Rightarrow> 'a env_scheme \<Rightarrow> (int \<times> cstr option) option" where
  "inet6_scan ifname (a # idx # plen # scope # dad # dev # rest) s =
     (if length a \<noteq> 32 \<or> \<not> list_all (\<lambda>w. length w \<le> 2 \<and> list_all c_isxdigit w) [idx, plen, scope, dad] \<or> 20 \<le> length dev then None
      else if dev = ifname \<and> hex_val 0 scope \<noteq> 0x20 then do {
        t \<leftarrow> v6_text (v6_groups 8 a) (hex_val 0 plen) s;
        Some (0, Some t)
      } else inet6_scan ifname rest s)"
| "inet6_scan ifname [] s = Some (-1, None)"
| "inet6_scan ifname _ s = None"

definition getIP6Info :: "cstr \<Rightarrow> 'a env_scheme \<Rightarrow> (int \<times> cstr option) option" where
  "getIP6Info ifname s =
     (case files s ''/proc/net/if_inet6'' of
        None \<Rightarrow> Some (-1, None)
      | Some b \<Rightarrow> inet6_scan ifname (ws_words b) s)"

text \<open>
  The loop copies the 32 digits and eight colons into \<open>char addr6[40]\<close> and writes no terminator:
  \<open>inet_pton\<close> reads behind the array.
\<close>

fun gw6_copy :: "nat \<Rightarrow> nat \<Rightarrow> cstr \<Rightarrow> bytes \<Rightarrow> bytes option" where
  "gw6_copy 0 i p addr6 = Some addr6"
| "gw6_copy (Suc n) i p addr6 =
     (case p of [] \<Rightarrow> None
      | c # p' \<Rightarrow> do {
          addr6 \<leftarrow> buf_put i [c] addr6;
          (i, addr6) \<leftarrow> (if (i + 2) mod 5 = 0 then do { a \<leftarrow> buf_put (i + 1) [CHR '':''] addr6; Some (i + 2, a) }
                       else Some (i + 1, addr6));
          if i < 40 then gw6_copy n i p' addr6 else Some addr6
        })"

definition c_string :: "bytes \<Rightarrow> cstr option" where
  "c_string b = (if NUL \<in> set b then Some (c_read b) else None)"

fun route6_scan :: "cstr \<Rightarrow> cstr list \<Rightarrow> 'a env_scheme \<Rightarrow> (int \<times> cstr option) option" where
  "route6_scan ifname (d # plen # src # slen # nh # metric # use # refcnt # flags # iface # rest) s =
     (if length d \<noteq> 32 \<or> length nh \<noteq> 32 \<or>
        \<not> list_all (\<lambda>w. length w \<le> 8 \<and> list_all c_isxdigit w) [plen, slen, metric, use, refcnt, flags] \<or> 16 \<le> length iface then None
      else if take (length ifname) iface = ifname \<and> hex_val 0 metric = 1 then do {
        addr6 \<leftarrow> gw6_copy 40 0 d (replicate 40 (CHR ''-''));
        a \<leftarrow> c_string addr6;
        t \<leftarrow> v6_text a (hex_val 0 plen) s;
        Some (0, Some t)
      } else route6_scan ifname rest s)"
| "route6_scan ifname [] s = Some (-1, None)"
| "route6_scan ifname _ s = None"

definition getIP6GwInfo :: "cstr \<Rightarrow> 'a env_scheme \<Rightarrow> (int \<times> cstr option) option" where
  "getIP6GwInfo ifname s =
     (case files s ''/proc/net/ipv6_route'' of
        None \<Rightarrow> Some (-1, None)
      | Some b \<Rightarrow> route6_scan ifname (ws_words b) s)"

text \<open>
  Lines read one after the other into one array: at the end of the file the array keeps the line before,
  and in front of the first it is not initialised.
\<close>

definition kept_line :: "nat \<Rightarrow> cstr list \<Rightarrow> cstr option" where
  "kept_line i ls = (if ls = [] then None else Some (ls ! min i (length ls - 1)))"

text \<open>\<open>sscanf (buff, "Ip=%s", addr)\<close> into a cleared \<open>char addr[46]\<close>, and the text \<open>address/length\<close> printed again.\<close>

definition scan_prefixed :: "cstr \<Rightarrow> cstr \<Rightarrow> cstr option" where
  "scan_prefixed pre buff =
     (if take (length pre) buff = pre then into_buf 46 (takeWhile (\<lambda>c. \<not> c_isspace c) (dropWhile c_isspace (drop (length pre) buff)))
      else Some [])"

definition reprint6 :: "cstr \<Rightarrow> 'a env_scheme \<Rightarrow> cstr option" where
  "reprint6 a s =
     (case strtok_all (CHR ''/'') a of
        p # l # _ \<Rightarrow> do {
          temp \<leftarrow> inet6 s (takeWhile (\<lambda>c. c = CHR ''/'') a @ p);
          temp \<leftarrow> into_buf 46 temp;
          into_buf 46 (temp @ ''/'' @ fmt_d (atoi l))
        }
      | _ \<Rightarrow> None)"

text \<open>\<open>strtok\<close> returns the token behind the leading delimiters, but the address is read from the start of
  the array.\<close>

definition getIP6RadvdInfo :: "if_infov6 \<Rightarrow> 'a env_scheme \<Rightarrow> (int \<times> if_infov6) option" where
  "getIP6RadvdInfo info s =
     (case files s ''/proc/ipv6_info_cfb'' of
        None \<Rightarrow> Some (1, info)
      | Some b \<Rightarrow> do {
          let ls = map c_read (fgets_all 63 b);
          buff \<leftarrow> kept_line 1 ls;
          if take 7 buff \<noteq> ''Radvd=1'' then Some (-1, info)
          else do {
            buff \<leftarrow> kept_line 2 ls;
            addr \<leftarrow> scan_prefixed ''Ip='' buff;
            info \<leftarrow> (if addr \<noteq> [] then do { t \<leftarrow> reprint6 addr s; Some (info\<lparr>v6_ipaddr := t\<rparr>) } else Some info);
            buff \<leftarrow> kept_line 3 ls;
            route \<leftarrow> scan_prefixed ''Route='' buff;
            info \<leftarrow> (if route \<noteq> [] then do { t \<leftarrow> reprint6 route s; Some (info\<lparr>v6_gw := t\<rparr>) } else Some info);
            Some (1, info)
          }
        })"

definition getIP6dhcpInfo :: "if_infov6 \<Rightarrow> 'a env_scheme \<Rightarrow> ((int \<times> if_infov6) \<times> 'a env_scheme) option" where
  "getIP6dhcpInfo info s =
     (case files s ''/tmp/dhcp6c.lease'' of
        None \<Rightarrow> Some ((0, info), s)
      | Some b \<Rightarrow> do {
          buff \<leftarrow> kept_line 0 (map c_read (fgets_all 31 b));
          if take 1 buff = ''1'' then do {
            (a, s) \<leftarrow> apCfgIpv6AddrGet s;
            a \<leftarrow> into_buf 46 a;
            (g, s) \<leftarrow> apCfgGatewayv6AddrGet s;
            g \<leftarrow> into_buf 46 g;
            Some ((0, info\<lparr>v6_ipaddr := a, v6_gw := g\<rparr>), s)
          } else Some ((0, info), s)
        })"

definition getMgtBrv6Info :: "int \<Rightarrow> 'a env_scheme \<Rightarrow> ((int \<times> if_infov6) \<times> 'a env_scheme) option" where
  "getMgtBrv6Info status s = do {
     name \<leftarrow> mgt_bridge s;
     ifName \<leftarrow> into_buf 16 name;
     let info = \<lparr>v6_ifname = ifName, v6_ipaddr = [], v6_gw = []\<rparr>;
     (dhcp, s) \<leftarrow> (if status = 0 \<or> status = 1 then apCfgDhcp6EnableGet s else Some (0, s));
     if status = 0 \<and> dhcp = 0 then do {
       (ret, a) \<leftarrow> getIP6Info ifName s;
       (_, g) \<leftarrow> getIP6GwInfo ifName s;
       Some ((ret, info\<lparr>v6_ipaddr := (case a of Some t \<Rightarrow> t | None \<Rightarrow> []), v6_gw := (case g of Some t \<Rightarrow> t | None \<Rightarrow> [])\<rparr>), s)
     }
     else if status = 1 \<and> dhcp \<noteq> 0 then do {
       ((_, info), s) \<leftarrow> getIP6dhcpInfo info s;
       Some ((0, info), s)
     }
     else if status = 2 then do {
       (radvd, s) \<leftarrow> apCfgRadvdEnableGet s;
       if radvd \<noteq> 0 then do { (_, info) \<leftarrow> getIP6RadvdInfo info s; Some ((0, info), s) }
       else Some ((0, info), s)
     }
     else Some ((0, info), s)
   }"

end
