(* ===== verification/Edit_Vars.thy ===== *)
theory Edit_Vars
  imports Util_V6 Util_Valid Util_Country
begin

text \<open>
  The variables of \<open>libs/libeditapcfg/editapcfg.c\<close>: global arrays and numbers the settings are copied
  into before they are printed, and which the assign functions fill from a text. A variable is a
  named array of bytes; numbers of two bytes are stored in big-endian order. A pointer is a name with an
  offset, and a write that leaves the array is a run without defined behaviour (\<open>None\<close>).
\<close>

record edit = env +
  vars :: "string \<Rightarrow> bytes"

type_synonym ptr = "string \<times> nat"

subsection \<open>The declarations\<close>

definition var_sizes :: "(string \<times> nat) list" where
  "var_sizes =
     [(''APmac'', 6), (''APpin'', 9), (''APchecksum'', 9), (''APName'', 40), (''APDesc'', 40), (''APLang'', 4),
      (''dhcpF'', 1), (''dhcp6F'', 1), (''IPAddress4'', 4), (''subnet4'', 4), (''gateway4'', 4),
      (''dnsServer1'', 21), (''dnsServer2'', 21), (''IPv6'', 1), (''IPAddress6'', 45), (''prefixlen'', 1),
      (''gateway6'', 45), (''IPv6dnsServer1'', 45), (''IPv6dnsServer2'', 45),
      (''timesetting'', 1), (''date_p'', 15), (''time_p'', 10), (''timeZone'', 13), (''daylightSaving'', 1),
      (''usDefntp'', 1), (''ntpServer'', 21),
      (''htBonjour'', 1), (''htForce100m'', 1), (''htAutoNegotiation'', 1), (''htPortSpeed'', 1),
      (''htDuplexMode'', 1), (''htEthDataRate'', 1), (''htRedirect'', 1), (''htRedirectUrl'', 257),
      (''ethDot1xAuth'', 1), (''authViaMac'', 1), (''authName'', 64), (''authPasswd'', 64),
      (''wlsMode'', 1), (''channel'', 1), (''ssid'', 132), (''ssidBroadcast'', 4),
      (''authSIP1'', 4), (''authSPort1'', 2), (''authSSecret1'', 129), (''authSIP2'', 4), (''authSPort2'', 2),
      (''authSSecret2'', 129),
      (''vapIsolated'', 1), (''secSystem'', 4), (''wlsSeparation'', 4), (''authType'', 4), (''encrypt'', 4),
      (''keyNo'', 4), (''key1'', 132), (''key2'', 132), (''key3'', 132), (''key4'', 132), (''preShared'', 260),
      (''keyrenew'', 8),
      (''aclFlag'', 4), (''aclType'', 4), (''aclMac'', 480),
      (''vlan'', 1), (''nativeVid'', 2), (''manageVid'', 2), (''vlanTag'', 1), (''wdsTag'', 1), (''wdsVlanList'', 21),
      (''vapVlan'', 8), (''vapPri'', 4), (''vapWmm'', 4),
      (''worldwide'', 1), (''countryCode'', 2), (''channelBand'', 1), (''guardInter'', 1), (''ctsProtect'', 1),
      (''beaconInterval'', 2), (''dtimInter'', 1), (''rtsThreshold'', 2), (''fragLength'', 2), (''loadBalance'', 1),
      (''vapBalance'', 8),
      (''opMode'', 1), (''pxpMac'', 24), (''wdsRepeater'', 1), (''ucrRepeater'', 1), (''perfssid'', 33),
      (''noSecurity'', 1), (''illegalAp'', 1), (''rogueApMacList'', 4612),
      (''secShow'', 1), (''loginName'', 64), (''loginPasswd'', 64), (''httpsEnable'', 1), (''webAccess'', 1),
      (''secureSh'', 1), (''snmp'', 1), (''contact'', 33), (''snmplocal'', 33), (''snmpdevice'', 33), (''getCom'', 33),
      (''setCom'', 33), (''trapCom'', 33), (''snmpTrust'', 1), (''trapStartIp'', 4), (''trapRange'', 1),
      (''trapServerIp'', 4),
      (''mailAlert'', 1), (''smtpServ'', 65), (''mailAddr'', 65), (''logLength'', 2), (''logTime'', 2), (''syslogF'', 1),
      (''logIPAddr'', 4), (''unAthLogin'', 1), (''AthLogin'', 1), (''sysError'', 1), (''cfgChange'', 1)]"

definition var_size :: "string \<Rightarrow> nat" where
  "var_size x = (case map_of var_sizes x of Some n \<Rightarrow> n | None \<Rightarrow> 0)"

text \<open>Globals start as zeros; the two DHCP switches are initialised to 1.\<close>

definition initial_vars :: "string \<Rightarrow> bytes" where
  "initial_vars x = (if x = ''dhcpF'' \<or> x = ''dhcp6F'' then [CHR 0x01] else replicate (var_size x) NUL)"

definition vars_ok :: "'a edit_scheme \<Rightarrow> bool" where
  "vars_ok s \<longleftrightarrow> (\<forall>x. length (vars s x) = var_size x)"

lemma initial_vars_ok: "vars_ok (s\<lparr>vars := initial_vars\<rparr>)"
  by (auto simp: vars_ok_def initial_vars_def var_size_def var_sizes_def)

subsection \<open>Writing and reading through a pointer\<close>

definition put_at :: "ptr \<Rightarrow> bytes \<Rightarrow> 'a edit_scheme \<Rightarrow> 'a edit_scheme option" where
  "put_at p b s = do {
     a \<leftarrow> buf_put (snd p) b (vars s (fst p));
     Some (s\<lparr>vars := (vars s)(fst p := a)\<rparr>)
   }"

definition store_str :: "ptr \<Rightarrow> cstr \<Rightarrow> 'a edit_scheme \<Rightarrow> 'a edit_scheme option" where
  "store_str p v = put_at p (v @ [NUL])"

definition clear :: "ptr \<Rightarrow> nat \<Rightarrow> 'a edit_scheme \<Rightarrow> 'a edit_scheme option" where
  "clear p n = put_at p (replicate n NUL)"

text \<open>\<open>*((unsigned char *)var) = (unsigned char)t\<close> and the same for two bytes.\<close>

definition put_byte :: "ptr \<Rightarrow> int \<Rightarrow> 'a edit_scheme \<Rightarrow> 'a edit_scheme option" where
  "put_byte p t = put_at p [char_of (nat (t mod 256))]"

definition put_word :: "ptr \<Rightarrow> int \<Rightarrow> 'a edit_scheme \<Rightarrow> 'a edit_scheme option" where
  "put_word p t = put_at p (be16 (word_of_int t))"

definition rd :: "ptr \<Rightarrow> nat \<Rightarrow> 'a edit_scheme \<Rightarrow> bytes option" where
  "rd p n s =
     (let a = vars s (fst p) in if snd p + n \<le> length a then Some (take n (drop (snd p) a)) else None)"

definition rd_str :: "ptr \<Rightarrow> 'a edit_scheme \<Rightarrow> cstr option" where
  "rd_str p s = c_string (drop (snd p) (vars s (fst p)))"

definition rd_byte :: "ptr \<Rightarrow> 'a edit_scheme \<Rightarrow> nat option" where
  "rd_byte p s = do { b \<leftarrow> rd p 1 s; Some (code (hd b)) }"

definition rd_word :: "ptr \<Rightarrow> 'a edit_scheme \<Rightarrow> nat option" where
  "rd_word p s = do { b \<leftarrow> rd p 2 s; Some (unat (rd_be16 b)) }"

definition rd_dword :: "ptr \<Rightarrow> 'a edit_scheme \<Rightarrow> 32 word option" where
  "rd_dword p s = do { b \<leftarrow> rd p 4 s; Some (rd_be32 b) }"

lemma buf_put_length: "buf_put p b a = Some a' \<Longrightarrow> length a' = length a"
  by (auto simp: buf_put_def split: if_splits)

lemma put_Some_iff:
  "put_at p b s = Some s' \<longleftrightarrow> snd p + length b \<le> length (vars s (fst p)) \<and>
     s' = s\<lparr>vars := (vars s)(fst p := take (snd p) (vars s (fst p)) @ b @ drop (snd p + length b) (vars s (fst p)))\<rparr>"
  by (auto simp: put_at_def buf_put_def split: bind_splits if_splits)

lemma put_None_iff: "put_at p b s = None \<longleftrightarrow> length (vars s (fst p)) < snd p + length b"
  by (auto simp: put_at_def buf_put_def split: bind_splits if_splits)

lemma vars_ok_put: "vars_ok s \<Longrightarrow> put_at p b s = Some s' \<Longrightarrow> vars_ok s'"
  by (auto simp: put_Some_iff vars_ok_def split: if_splits)

lemma rd_put_same: "put_at p b s = Some s' \<Longrightarrow> rd p (length b) s' = Some b"
  by (auto simp: put_Some_iff rd_def Let_def)

lemma rd_put_other: "fst q \<noteq> fst p \<Longrightarrow> put_at p b s = Some s' \<Longrightarrow> rd q n s' = rd q n s"
  by (auto simp: put_Some_iff rd_def)

lemma rd_str_put_same: "put_at p (v @ [NUL]) s = Some s' \<Longrightarrow> cstr_ok v \<Longrightarrow> rd_str p s' = Some v"
  by (auto simp: put_Some_iff rd_str_def c_string_def c_read_def cstr_ok_def takeWhile_tail)

text \<open>Writing what is there changes nothing.\<close>

lemma put_id:
  assumes "rd p (length b) s = Some b"
  shows "put_at p b s = Some s"
proof -
  let ?a = "vars s (fst p)"
  have b: "snd p + length b \<le> length ?a" "take (length b) (drop (snd p) ?a) = b"
    using assms by (auto simp: rd_def Let_def split: if_splits)
  have "take (snd p) ?a @ b @ drop (snd p + length b) ?a
      = take (snd p) ?a @ take (length b) (drop (snd p) ?a) @ drop (length b) (drop (snd p) ?a)"
    by (simp only: b(2)) (simp add: add.commute)
  also have "\<dots> = ?a" by (simp only: append_take_drop_id)
  finally show ?thesis using b(1) by (simp add: put_at_def buf_put_def)
qed

end
