(* ===== verification/Edit_Assign.thy ===== *)
theory Edit_Assign
  imports Edit_Vars Apcfg_Services
begin

text \<open>
  The assign functions of \<open>libs/libeditapcfg/editapcfg.c\<close>: each takes the address of a variable and the
  text of a value, tests the text and stores it. A value that is refused leaves the variable as it
  is. The pointer that \<open>strtok\<close> returns for a missing token is dereferenced without a test, and
  numbers \<open>sscanf\<close> did not convert are read as they are: both are \<open>None\<close>.
\<close>

type_synonym 'a assign = "ptr \<Rightarrow> cstr \<Rightarrow> 'a edit_scheme \<Rightarrow> 'a edit_scheme option"

subsection \<open>Numbers\<close>

definition head_char :: "cstr \<Rightarrow> char" where
  "head_char v = (if v = [] then NUL else hd v)"

text \<open>\<open>unsigned char t = *((unsigned char *)value) - '0'\<close>.\<close>

definition digit8 :: "cstr \<Rightarrow> nat" where
  "digit8 v = (code (head_char v) + 208) mod 256"

definition assign_digit :: "nat \<Rightarrow> nat \<Rightarrow> 'a assign" where
  "assign_digit lo hi var v s =
     (let t = digit8 v in if lo \<le> t \<and> t \<le> hi then put_byte var (int t) s else Some s)"

definition Assign01 :: "'a assign" where "Assign01 = assign_digit 0 1"
definition Assign0To2 :: "'a assign" where "Assign0To2 = assign_digit 0 2"
definition Assign0To3 :: "'a assign" where "Assign0To3 = assign_digit 0 3"
definition Assign0To4 :: "'a assign" where "Assign0To4 = assign_digit 0 4"
definition Assign1To3 :: "'a assign" where "Assign1To3 = assign_digit 1 3"
definition Assign1To4 :: "'a assign" where "Assign1To4 = assign_digit 1 4"
definition Assign0To7 :: "'a assign" where "Assign0To7 = assign_digit 0 7"
definition Assign0To8 :: "'a assign" where "Assign0To8 = assign_digit 0 8"

text \<open>\<open>t = atoi (value)\<close> stored when it is in the range; the functions with the flag also demand that the
  text starts with a digit not below the given one.\<close>

definition assign_atoi :: "char option \<Rightarrow> int \<Rightarrow> int \<Rightarrow> (ptr \<Rightarrow> int \<Rightarrow> 'a edit_scheme \<Rightarrow> 'a edit_scheme option) \<Rightarrow>
    'a assign" where
  "assign_atoi first lo hi store var v s =
     (let c = head_char v; t = atoi v in
      if (case first of None \<Rightarrow> False | Some d \<Rightarrow> \<not> (code d \<le> code c \<and> c_isdigit c)) then Some s
      else if lo \<le> t \<and> t \<le> hi then store var t s else Some s)"

abbreviation (input) zero_up :: "char option" where "zero_up \<equiv> Some (CHR ''0'')"

definition Assign1To6 :: "'a assign" where "Assign1To6 = assign_atoi zero_up 1 6 put_word"
definition Assign0To14 :: "'a assign" where "Assign0To14 = assign_atoi zero_up 0 14 put_byte"
definition Assign0To64 :: "'a assign" where "Assign0To64 = assign_atoi zero_up 0 64 put_byte"
definition Assign0To99 :: "'a assign" where "Assign0To99 = assign_atoi zero_up 0 99 put_word"
definition Assign3To99 :: "'a assign" where "Assign3To99 = assign_atoi (Some (CHR ''3'')) 3 99 put_word"
definition Assign1To254 :: "'a assign" where "Assign1To254 = assign_atoi None 1 254 put_byte"

text \<open>There is no lower bound; the counter of the list of access points is reset in either case.\<close>

definition Assign0To255 :: "'a assign" where
  "Assign0To255 var v s = do {
     let t = atoi v;
     s \<leftarrow> (if t \<le> 255 then put_word var t s else Some s);
     put_word (''rogueApMacList'', 2) 0 s
   }"

definition Assign1To255 :: "'a assign" where "Assign1To255 = assign_atoi None 1 255 put_byte"
definition Assign1To500 :: "'a assign" where "Assign1To500 = assign_atoi None 1 500 put_word"
definition Assign10To600 :: "'a assign" where "Assign10To600 = assign_atoi None 10 600 put_word"
definition Assign60To600 :: "'a assign" where "Assign60To600 = assign_atoi None 60 600 put_word"
definition Assign20To1000 :: "'a assign" where "Assign20To1000 = assign_atoi None 20 1000 put_word"
definition Assign0To2347 :: "'a assign" where "Assign0To2347 = assign_atoi zero_up 0 2347 put_word"
definition Assign256To2346 :: "'a assign" where "Assign256To2346 = assign_atoi zero_up 256 2346 put_word"
definition Assign1To4094 :: "'a assign" where "Assign1To4094 = assign_atoi zero_up 1 4094 put_word"
definition AssignPrefix :: "'a assign" where "AssignPrefix = assign_atoi zero_up 0 128 put_byte"
definition AssignByte :: "'a assign" where "AssignByte = assign_atoi zero_up 0 255 put_byte"
definition AssignWord :: "'a assign" where "AssignWord = assign_atoi zero_up 0 65535 put_word"
definition AssignPort :: "'a assign" where "AssignPort = assign_atoi zero_up 1 65534 put_word"

definition AssignTrapPort :: "'a assign" where
  "AssignTrapPort var v s =
     (let t = atoi v in
      if \<not> c_isdigit (head_char v) then Some s
      else if 0 < t \<and> t < 65535 then (if isInvalidSnmpTrapPort t then Some s else put_word var t s)
      else Some s)"

definition AssignDateRate :: "'a assign" where
  "AssignDateRate var v s =
     (let t = atoi v in
      if \<not> c_isdigit (head_char v) then Some s
      else if t \<in> set [0, 1, 2, 5, 6, 9, 11, 12, 18, 24, 36, 48, 54] then put_byte var t s else Some s)"

definition AssignKeyLen :: "'a assign" where
  "AssignKeyLen var v s =
     (let t = atoi v in
      put_byte var
        (if t = 1 then WPA_CIPHER_TKIP else if t = 2 then WPA_CIPHER_AES else if t = 3 then WPA_CIPHER_AUTO
         else if t = 64 then 40 else if t = 128 then 104 else 40) s)"

subsection \<open>Time zone, date and time\<close>

text \<open>One \<open>%d\<close>, and \<open>sscanf (value, "%d%d:%d", ...)\<close>.\<close>

definition scan_d :: "cstr \<Rightarrow> (int \<times> cstr) option" where
  "scan_d s =
     (let t = dropWhile c_isspace s; u = (if t \<noteq> [] \<and> hd t \<in> {CHR ''-'', CHR ''+''} then tl t else t) in
      if takeWhile c_isdigit u = [] then None else Some (atoi t, dropWhile c_isdigit u))"

definition scan_tz :: "cstr \<Rightarrow> int list" where
  "scan_tz v =
     (case scan_d v of None \<Rightarrow> []
      | Some (i, r) \<Rightarrow>
          (case scan_d r of None \<Rightarrow> [i]
           | Some (h, r) \<Rightarrow>
               (case (if r \<noteq> [] \<and> hd r = CHR '':'' then scan_d (tl r) else None) of
                  None \<Rightarrow> [i, h] | Some (m, _) \<Rightarrow> [i, h, m])))"

text \<open>\<open>h != 3 || h != 4 || ...\<close> is true of every hour.\<close>

definition AssignTimeZone :: "'a assign" where
  "AssignTimeZone var v s =
     (if CFG_TIME_ZONE_LEN < length v then Some s
      else do {
        let n = scan_tz v;
        i \<leftarrow> (if 0 < length n then Some (n ! 0) else None);
        if i < 1 \<or> 75 < i then Some s
        else do {
          h \<leftarrow> (if 1 < length n then Some (n ! 1) else None);
          if h < -12 \<or> 13 < h then Some s
          else do {
            m \<leftarrow> (if 2 < length n then Some (n ! 2) else None);
            if m \<noteq> 0 \<and> m \<noteq> 30 \<and> m \<noteq> 45 then Some s
            else if m = 45 \<and> h \<noteq> 5 then Some s
            else if m = 30 \<and> (h \<noteq> 3 \<or> h \<noteq> 4 \<or> h \<noteq> 5 \<or> h \<noteq> 9) then Some s
            else store_str var v s
          }
        }
      })"

text \<open>The range tests of the three numbers are conjunctions no number satisfies.\<close>

definition AssignDate :: "'a assign" where
  "AssignDate var v s = do {
     buff \<leftarrow> into_buf 15 v;
     (case strtok_all (CHR ''/'') buff of
        [] \<Rightarrow> None
      | p # ps \<Rightarrow>
          if \<not> c_isdigit (head_char p) then Some s
          else if atoi p < 1970 \<and> 2100 < atoi p then Some s
          else (case ps of
             m # d # _ \<Rightarrow>
               if atoi m < 0 \<and> 12 < atoi m then Some s
               else if atoi d < 0 \<and> 31 < atoi d then Some s
               else store_str var v s
           | _ \<Rightarrow> None))
   }"

definition AssignTime :: "'a assign" where
  "AssignTime var v s = do {
     buff \<leftarrow> into_buf 128 v;
     (case strtok_all (CHR '':'') buff of
        [] \<Rightarrow> None
      | p # ps \<Rightarrow>
          if \<not> c_isdigit (head_char p) then Some s
          else if atoi p < 0 \<and> 59 < atoi p then Some s
          else do {
            s \<leftarrow> store_str var p s;
            (case ps of
               [] \<Rightarrow> None
             | m # ps \<Rightarrow>
                 if atoi m < 0 \<and> 59 < atoi m then Some s
                 else do {
                   s \<leftarrow> store_str var (p @ m) s;
                   (case ps of
                      [] \<Rightarrow> None
                    | sec # _ \<Rightarrow> if atoi sec < 0 \<and> 59 < atoi sec then Some s else store_str var v s)
                 })
          })
   }"


subsection \<open>Addresses and the country\<close>

text \<open>The four numbers, stored by \<open>sscanf\<close> through pointers to \<open>unsigned int\<close>.\<close>

definition scan4 :: "cstr \<Rightarrow> nat list option" where
  "scan4 v = (let l = scan_dotted 4 v in if length l \<noteq> 4 then None else Some (map (\<lambda>x. nat (x mod 2 ^ 32)) l))"

definition AssignIP :: "'a assign" where
  "AssignIP var v s =
     (case scan4 v of
        None \<Rightarrow> Some s
      | Some i \<Rightarrow>
          if (i ! 0 < 1 \<or> 254 < i ! 0) \<or> 255 < i ! 1 \<or> 255 < i ! 2 \<or> (i ! 3 < 1 \<or> 254 < i ! 3) then Some s
          else put_at var (map char_of i) s)"

definition AssignIPv6 :: "'a assign" where
  "AssignIPv6 var v s = (if \<not> scValidIPv6 v False then Some s else store_str var v s)"

definition AssignGWv6 :: "'a assign" where
  "AssignGWv6 var v s = do { ok \<leftarrow> scValidGWv6 v; if \<not> ok then Some s else store_str var v s }"

definition mask_ok :: "nat list \<Rightarrow> bool" where
  "mask_ok i =
     (if i ! 0 \<noteq> 255 then i ! 1 = 0 \<and> i ! 2 = 0 \<and> i ! 3 = 0 \<and> i ! 0 \<in> set [192, 224, 240, 248, 252, 254]
      else if i ! 1 \<noteq> 255 then i ! 2 = 0 \<and> i ! 3 = 0 \<and> i ! 1 \<in> set [0, 128, 192, 224, 240, 248, 252, 254]
      else if i ! 2 \<noteq> 255 then i ! 3 = 0 \<and> i ! 2 \<in> set [0, 128, 192, 224, 240, 248, 252, 254]
      else i ! 3 \<in> set [0, 128, 192, 224, 240, 248, 252])"

definition AssignMask :: "'a assign" where
  "AssignMask var v s =
     (case scan4 v of
        None \<Rightarrow> Some s
      | Some i \<Rightarrow> if mask_ok i then put_at var (map char_of i) s else Some s)"

text \<open>A line of the list names the value's country when the first two bytes behind its hyphen are those
  of the value.\<close>

definition country_hit :: "cstr \<Rightarrow> cstr \<Rightarrow> bool" where
  "country_hit v line =
     (case strtok_all (CHR ''-'') (c_read line) of
        _ # p # _ \<Rightarrow> take 2 (v @ [NUL]) = take 2 (p @ [NUL])
      | _ \<Rightarrow> False)"

definition AssignCountry :: "'a assign" where
  "AssignCountry var v s =
     (if \<not> c_isdigit (head_char v) then Some s
      else do {
        country \<leftarrow> sc_get_default_country s;
        let de_country = country mod 65536;
        if de_country \<in> set [CTRY_UNITED_STATES, CTRY_AUSTRALIA, CTRY_BRAZIL, CTRY_CHINA, CTRY_GERMANY, CTRY_MEXICO, CTRY_KOREA_ROC]
        then put_word var de_country s
        else if (case files s country_list of None \<Rightarrow> False | Some b \<Rightarrow> \<exists>l \<in> set (fgets_all 62 b). country_hit v l)
        then put_word var (atoi v) s
        else put_word var de_country s
      })"

subsection \<open>Texts\<close>

definition AssignSSID :: "'a assign" where
  "AssignSSID var v s = (if MAX_SSID < length v then Some s else put_at var (v @ replicate (MAX_SSID - length v) NUL) s)"

definition IsStarStr :: "cstr \<Rightarrow> bool" where
  "IsStarStr v \<longleftrightarrow> (\<forall>c \<in> set v. c = CHR ''*'')"

text \<open>
  The common end of the text functions: a value of more than \<open>lim\<close> characters is cut after \<open>n\<close>. The variable
  was cleared over the length of the whole value before.
\<close>

definition store_text :: "nat \<Rightarrow> nat \<Rightarrow> 'a assign" where
  "store_text lim n var v s =
     (if lim < length v then do { s \<leftarrow> put_at var (take n v) s; put_at (fst var, snd var + n) [NUL] s }
      else store_str var v s)"

definition assign_text :: "bool \<Rightarrow> nat \<Rightarrow> nat \<Rightarrow> 'a assign" where
  "assign_text stars lim n var v s = do {
     s \<leftarrow> clear var (length v + 1) s;
     if stars \<and> IsStarStr v then Some s else store_text lim n var v s
   }"

definition AssignStr15 :: "'a assign" where "AssignStr15 = assign_text False 15 15"
definition AssignStr32 :: "'a assign" where "AssignStr32 = assign_text False 32 32"
definition AssignStr40 :: "'a assign" where "AssignStr40 = assign_text False 39 40"
definition AssignStr64 :: "'a assign" where "AssignStr64 = assign_text False 63 64"
definition AssignServerStr :: "'a assign" where "AssignServerStr = assign_text False 20 20"
definition AssignSecret128 :: "'a assign" where "AssignSecret128 = assign_text True 128 128"

definition AssignPassword :: "'a assign" where
  "AssignPassword var v s = (if length v < 4 then Some s else assign_text True 63 64 var v s)"

definition AssignPreSharedKey :: "'a assign" where
  "AssignPreSharedKey var v s = (if length v < 8 \<or> 63 < length v then Some s else assign_text True 63 63 var v s)"

definition AssignMail :: "'a assign" where
  "AssignMail var v s =
     (if 64 < length v then Some s
      else do {
        buff \<leftarrow> into_buf 65 v;
        if \<not> scValidEmailAddr buff (length buff) then Some s else store_str var v s
      })"

definition AssignURL :: "'a assign" where
  "AssignURL var v s = do {
     let p = scToLows v;
     ok \<leftarrow> scValidUrl p;
     if \<not> ok then Some s else store_str var p s
   }"

definition Assignwdsvlist :: "'a assign" where
  "Assignwdsvlist var v s = do { ok \<leftarrow> scValidwdsVlanList v; if ok then store_str var v s else Some s }"

definition AssignSMTPServer :: "'a assign" where
  "AssignSMTPServer var v s =
     (if length v < 65 then do {
        ok \<leftarrow> scValidUrl v;
        if ok \<and> \<not> case_prefix ''http://'' v \<and> \<not> case_prefix ''https://'' v then store_str var v s else Some s
      } else Some s)"

subsection \<open>Keys and hardware addresses\<close>

text \<open>\<open>str + i\<close> starts with a pattern of stars. \<open>i == (l+1)/2 && flag ? ... : ...\<close> groups the condition first.\<close>

definition stars_at :: "cstr \<Rightarrow> nat \<Rightarrow> cstr \<Rightarrow> bool" where
  "stars_at str i pat = (take (length pat) (drop i str) = pat)"

definition hexit :: "cstr \<Rightarrow> nat \<Rightarrow> bool" where
  "hexit str i = (let c = c_at str i in c_isdigit c \<or> (65 \<le> code c \<and> code c \<le> 70) \<or> (97 \<le> code c \<and> code c \<le> 102))"

function is_hex_loop :: "cstr \<Rightarrow> nat \<Rightarrow> nat \<Rightarrow> nat \<Rightarrow> bool" where
  "is_hex_loop str l flag i =
     (if l \<le> i then True
      else if \<not> hexit str i then
        (if i = (l + 1) div 2 \<and> flag \<noteq> 0 then stars_at str i ''**:**:**'' else stars_at str i ''******'')
      else if l \<le> i + 1 then True
      else if hexit str (i + 1) then is_hex_loop str l flag (i + 2 + flag)
      else False)"
  by pat_completeness auto
termination by (relation "measure (\<lambda>(str, l, flag, i). l - i)") auto

declare is_hex_loop.simps [simp del]

definition IsHexStr :: "cstr \<Rightarrow> nat \<Rightarrow> nat \<Rightarrow> bool" where
  "IsHexStr str l flag = is_hex_loop str l flag 0"

text \<open>One digit in \<open>unsigned char\<close> arithmetic, and the byte of two.\<close>

definition hex_nib :: "char \<Rightarrow> nat" where
  "hex_nib c = (let v = (code c + 208) mod 256 in if 10 < v then v mod 16 + 9 else v)"

definition hex_pair :: "char \<Rightarrow> char \<Rightarrow> char" where
  "hex_pair a b = (char_of (unat ((push_bit 4 (of_nat (hex_nib a)) OR of_nat (hex_nib b)) :: 8 word)))"

definition hexcpy :: "cstr \<Rightarrow> nat \<Rightarrow> nat \<Rightarrow> bytes" where
  "hexcpy v l flag = map (\<lambda>i. hex_pair (c_at v (i * (2 + flag))) (c_at v (i * (2 + flag) + 1))) [0..<(l + 1 + flag) div (2 + flag)]"

definition AssignKey :: "'a assign" where
  "AssignKey var v s =
     (if v \<noteq> [] then
        (let l = length v in
         if l mod 2 = 1 then Some s
         else
           let l = min l 32 in
           if l \<noteq> 10 \<and> l \<noteq> 26 then Some s
           else if \<not> IsHexStr v l 0 then Some s
           else do {
             s \<leftarrow> clear var (l + 1) s;
             if IsStarStr v then Some s else put_at var (take l v) s
           })
      else clear var 33 s)"

definition AssignMac :: "'a assign" where
  "AssignMac var v s =
     (if v \<noteq> [] then
        (let l = length v; flag = (if l = 17 then 1 else 0) in
         if l \<noteq> 12 \<and> l \<noteq> 17 then Some s
         else if \<not> IsHexStr v l flag then Some s
         else put_at var (hexcpy v l flag) s)
      else clear var 6 s)"

text \<open>\<open>rogueAPMacList_s\<close>: \<open>no\<close>, \<open>outNo\<close>, then the entries of 18 bytes.\<close>

definition rogue_entry :: "ptr \<Rightarrow> nat \<Rightarrow> ptr" where
  "rogue_entry p i = (fst p, snd p + 4 + 18 * i)"

fun IsInScMacList :: "bytes \<Rightarrow> ptr \<Rightarrow> nat \<Rightarrow> nat \<Rightarrow> 'a edit_scheme \<Rightarrow> bool option" where
  "IsInScMacList d p 0 i s = Some False"
| "IsInScMacList d p (Suc n) i s = do {
     e \<leftarrow> rd (rogue_entry p i) 17 s;
     if e = d then Some True else IsInScMacList d p n (i + 1) s
   }"

definition AssignScMacList :: "'a assign" where
  "AssignScMacList p v s = do {
     let l = length v;
     no \<leftarrow> rd_word p s;
     outNo \<leftarrow> rd_word (fst p, snd p + 2) s;
     let flag = (if l = 17 then 1 else 0);
     if no \<le> outNo then Some s
     else if l \<noteq> 12 \<and> l \<noteq> 17 then Some s
     else if \<not> IsHexStr v l flag then Some s
     else do {
       mac \<leftarrow> (if l = 12 then scMacStr12ToStr17 v (CHR '':'') else Some v);
       found \<leftarrow> IsInScMacList mac p outNo 0 s;
       if found then put_word p (int no - 1) s
       else do {
         s \<leftarrow> put_word (fst p, snd p + 2) (int outNo + 1) s;
         put_at (rogue_entry p outNo) (take 17 (mac @ replicate 17 NUL)) s
       }
     }
   }"

end
