(* ===== verification/Edit_Percent.thy ===== *)
theory Edit_Percent
  imports Edit_Vars
begin

text \<open>
  The load thresholds of \<open>editapcfg.c\<close>: a share of 0 to 100 per cent is kept in hundredths in two bytes,
  printed with two digits behind the point, and read back through a \<open>float\<close> that is multiplied by 100.
  A \<open>float\<close> is the number \<open>m / 2 ^ j\<close> with 24 significant bits, rounded to nearest with ties to even;
  above 2 ^ 23 the result is only compared with 100. The conversions \<open>inf\<close>, \<open>nan\<close> and hexadecimal of
  \<open>sscanf\<close> are not modelled; a text that is no number leaves \<open>t\<close> uninitialised.
\<close>

subsection \<open>Single precision\<close>

definition round_even :: "nat \<Rightarrow> nat \<Rightarrow> nat" where
  "round_even n d = (let q = n div d; r = n mod d in if 2 * r < d \<or> (2 * r = d \<and> even q) then q else q + 1)"

function scale_up :: "nat \<Rightarrow> nat \<Rightarrow> nat \<Rightarrow> nat \<times> nat" where
  "scale_up d n j = (if n = 0 \<or> d * 2 ^ 23 \<le> n then (n, j) else scale_up d (2 * n) (j + 1))"
  by pat_completeness auto
termination by (relation "measure (\<lambda>(d, n, j). d * 2 ^ 23 - n)") auto

declare scale_up.simps [simp del]

definition fl_single :: "nat \<Rightarrow> nat \<Rightarrow> nat \<times> nat" where
  "fl_single n d = (let (n', j) = scale_up d n 0 in (round_even n' d, j))"

subsection \<open>The decimal text\<close>

text \<open>Sign, digits, fraction and exponent of \<open>%f\<close>: the sign and the fraction as two numbers.\<close>

definition scan_exp :: "cstr \<Rightarrow> int" where
  "scan_exp s =
     (if s \<noteq> [] \<and> hd s \<in> {CHR ''e'', CHR ''E''} then
        (let u = tl s; w = (if u \<noteq> [] \<and> hd u \<in> {CHR ''-'', CHR ''+''} then tl u else u) in
         if takeWhile c_isdigit w = [] then 0
         else if hd u = CHR ''-'' then - int (digits_val 0 w) else int (digits_val 0 w))
      else 0)"

definition scan_f :: "cstr \<Rightarrow> (bool \<times> nat \<times> nat) option" where
  "scan_f s =
     (let t = dropWhile c_isspace s; neg = (t \<noteq> [] \<and> hd t = CHR ''-'');
          u = (if t \<noteq> [] \<and> hd t \<in> {CHR ''-'', CHR ''+''} then tl t else t);
          a = takeWhile c_isdigit u; r = dropWhile c_isdigit u;
          f = (if r \<noteq> [] \<and> hd r = CHR ''.'' then takeWhile c_isdigit (tl r) else []);
          r' = (if r \<noteq> [] \<and> hd r = CHR ''.'' then dropWhile c_isdigit (tl r) else r);
          e = scan_exp r' - int (length f) in
      if a @ f = [] then None
      else Some (neg, digits_val 0 (a @ f) * 10 ^ nat e, 10 ^ nat (- e)))"

definition AssignPercent :: "ptr \<Rightarrow> cstr \<Rightarrow> 'a edit_scheme \<Rightarrow> 'a edit_scheme option" where
  "AssignPercent var v s = do {
     (neg, n, d) \<leftarrow> scan_f v;
     let (m, j) = fl_single n d;
     if (neg \<and> 0 < m) \<or> 100 * 2 ^ j < m then Some s
     else (let (m', j') = fl_single (m * 100) (2 ^ j) in put_word var (int (m' div 2 ^ j')) s)
   }"

text \<open>\<open>sprintf (buff, "%.2f %%", a / 100.0)\<close> in double precision: two decimals of a number of hundredths.\<close>

definition fmt_hundredths :: "nat \<Rightarrow> cstr" where
  "fmt_hundredths a = fmt_d (int (a div 100)) @ ''.'' @ (if a mod 100 < 10 then ''0'' else '''') @ fmt_d (int (a mod 100))"

definition OutputPercent :: "ptr \<Rightarrow> 'a edit_scheme \<Rightarrow> (cstr \<times> 'a edit_scheme) option" where
  "OutputPercent var s = do {
     a \<leftarrow> rd_word var s;
     Some (if a \<noteq> 0 then fmt_hundredths a @ '' %'' else [], s)
   }"

subsection \<open>Rounding\<close>

lemma scale_up_bounds:
  assumes "scale_up d n i = (n', j)" "0 < n" "n < d * 2 ^ 24"
  shows "i \<le> j \<and> n' = n * 2 ^ (j - i) \<and> d * 2 ^ 23 \<le> n' \<and> n' < d * 2 ^ 24"
  using assms
proof (induction d n i rule: scale_up.induct)
  case (1 d n i)
  show ?case
  proof (cases "d * 2 ^ 23 \<le> n")
    case True
    then show ?thesis using 1(2-4) by (simp add: scale_up.simps [of d n i])
  next
    case False
    then have r: "scale_up d (2 * n) (i + 1) = (n', j)" using 1(2,3) by (simp add: scale_up.simps [of d n i])
    have "2 * n < d * 2 ^ 24" using False by simp
    then have *: "i + 1 \<le> j" "n' = 2 * n * 2 ^ (j - (i + 1))" "d * 2 ^ 23 \<le> n'" "n' < d * 2 ^ 24"
      using 1(1) [OF _ r] 1(3) False by auto
    have "2 * (2::nat) ^ (j - (i + 1)) = 2 ^ (j - i)"
      using *(1) by (metis Suc_diff_le add.commute diff_Suc_Suc plus_1_eq_Suc power_Suc)
    then show ?thesis using * by (simp add: mult.assoc mult.left_commute)
  qed
qed

lemma round_even_bounds:
  assumes "0 < d"
  shows "2 * (round_even n d * d) \<le> 2 * n + d" "2 * n \<le> 2 * (round_even n d * d) + d"
proof -
  define q r where "q = n div d * d" and "r = n mod d"
  have n: "n = q + r" "r < d" using assms by (simp_all add: q_def r_def)
  have e: "round_even n d * d = q \<and> 2 * r \<le> d \<or> round_even n d * d = q + d \<and> d \<le> 2 * r"
    unfolding round_even_def Let_def by (auto simp: q_def r_def add_mult_distrib)
  show "2 * (round_even n d * d) \<le> 2 * n + d" "2 * n \<le> 2 * (round_even n d * d) + d"
    using e n by linarith+
qed

lemma fl_single_bounds:
  assumes "fl_single n d = (m, j)" "0 < n" "0 < d" "n < d * 2 ^ 23"
  shows "2 * (m * d) \<le> 2 * (n * 2 ^ j) + d" "2 * (n * 2 ^ j) \<le> 2 * (m * d) + d" "d * 2 ^ 23 \<le> n * 2 ^ j"
proof -
  obtain n' where s: "scale_up d n 0 = (n', j)" "m = round_even n' d"
    using assms(1) by (auto simp: fl_single_def split: prod.splits)
  have "n < d * 2 ^ 24" using assms(4) by simp
  with s(1) assms(2) have "n' = n * 2 ^ j" "d * 2 ^ 23 \<le> n'"
    using scale_up_bounds [of d n 0 n' j] by auto
  then show "2 * (m * d) \<le> 2 * (n * 2 ^ j) + d" "2 * (n * 2 ^ j) \<le> 2 * (m * d) + d" "d * 2 ^ 23 \<le> n * 2 ^ j"
    using round_even_bounds [OF assms(3), of n'] s(2) by simp_all
qed

text \<open>Two roundings of a hundredth and its hundredfold lose less than one.\<close>

lemma float_hundredfold:
  assumes a: "0 < a" "a \<le> 10000" and m: "fl_single a 100 = (m, j)" and m': "fl_single (m * 100) (2 ^ j) = (m', k)"
  shows "m \<le> 100 * 2 ^ j" "m' div 2 ^ k = a \<or> m' div 2 ^ k + 1 = a"
proof -
  define X Y where "X = (2::nat) ^ j" and "Y = (2::nat) ^ k"
  have b: "2 * (m * 100) \<le> 2 * (a * X) + 100" "2 * (a * X) \<le> 2 * (m * 100) + 100" "100 * 2 ^ 23 \<le> a * X"
    using fl_single_bounds [OF m] a by (simp_all add: X_def)
  have "a * X \<le> 10000 * X" using a(2) by simp
  with b(1) show "m \<le> 100 * 2 ^ j" unfolding X_def [symmetric] by linarith
  have "83886 \<le> X" using order_trans [OF b(3) \<open>a * X \<le> 10000 * X\<close>] by simp
  have Y: "1 \<le> Y" by (simp add: Y_def)
  have m0: "0 < m * 100" using b(2,3) by simp
  have "m * 100 \<le> 10000 * X + 50" using b(1) \<open>a * X \<le> 10000 * X\<close> by linarith
  also have "\<dots> < X * 2 ^ 23" using \<open>83886 \<le> X\<close> by simp
  finally have "m * 100 < X * 2 ^ 23" .
  then have c: "2 * (m' * X) \<le> 2 * (m * 100 * Y) + X" "2 * (m * 100 * Y) \<le> 2 * (m' * X) + X"
    using fl_single_bounds [OF m' m0] by (simp_all add: X_def Y_def)
  have p: "m * 100 * Y \<le> a * X * Y + 50 * Y" "a * X * Y \<le> m * 100 * Y + 50 * Y"
    using mult_le_mono1 [of "m * 100" "a * X + 50" Y] mult_le_mono1 [of "a * X" "m * 100 + 50" Y] b(1,2)
    by (simp_all add: add_mult_distrib)
  have q: "200 * Y \<le> X * Y" "X \<le> X * Y"
    using mult_le_mono1 [of 200 X Y] \<open>83886 \<le> X\<close> Y by simp_all
  have "2 * (m' * X) < 2 * (a * X * Y) + 2 * (X * Y)" using c(1) p(1) q \<open>83886 \<le> X\<close> Y by linarith
  then have "X * m' < X * ((a + 1) * Y)" by (simp add: algebra_simps)
  then have up: "m' < (a + 1) * Y" by simp
  obtain a' where a': "a = Suc a'" using a(1) by (cases a) auto
  have "2 * (a' * X * Y) + 2 * (X * Y) = 2 * (a * X * Y)" by (simp add: a' algebra_simps)
  then have "2 * (a' * X * Y) \<le> 2 * (m' * X)" using c(2) p(2) q by linarith
  then have "X * (a' * Y) \<le> X * m'" by (simp add: algebra_simps)
  then have lo: "a' * Y \<le> m'" using \<open>83886 \<le> X\<close> by simp
  have "a' \<le> m' div Y" "m' div Y < a + 1"
    using lo up Y by (simp_all add: less_eq_div_iff_mult_less_eq div_less_iff_less_mult)
  then show "m' div 2 ^ k = a \<or> m' div 2 ^ k + 1 = a" by (auto simp: a' Y_def)
qed

subsection \<open>The printed text\<close>

lemma digits_stop [simp]:
  "takeWhile c_isdigit (dec_digits n @ t) = dec_digits n @ takeWhile c_isdigit t"
  "dropWhile c_isdigit (dec_digits n @ t) = dropWhile c_isdigit t"
  using dec_digits_isdigit [of _ n] by (simp_all add: takeWhile_append2 dropWhile_append2)

lemma hd_dec_digits: "c_isdigit (hd (dec_digits n @ t))"
  using dec_digits_isdigit [of "hd (dec_digits n)" n] by (cases "dec_digits n") auto

lemma digit_zero: "digit_char 0 = CHR ''0''"
  by code_simp

lemma two_digits:
  "a < 100 \<Longrightarrow> (if a < 10 then ''0'' else '''') @ dec_digits a = [digit_char (a div 10), digit_char (a mod 10)]"
  using digit_zero by (auto simp: dec_digits.simps [of a] dec_digits.simps [of "a div 10"])

lemma scan_f_hundredths: "scan_f (fmt_hundredths a) = Some (False, a, 100)"
proof -
  define t where "t = [digit_char (a mod 100 div 10), digit_char (a mod 10)]"
  have mm: "a mod 100 mod 10 = a mod 10" by (simp add: mod_mod_cancel)
  have f: "fmt_hundredths a = dec_digits (a div 100) @ CHR ''.'' # t"
    using two_digits [of "a mod 100"]
    by (auto simp: fmt_hundredths_def fmt_d_def t_def mm nat_div_distrib nat_mod_distrib)
  have hd: "hd (dec_digits (a div 100) @ CHR ''.'' # t) \<notin> {CHR ''-'', CHR ''+''}"
    using hd_dec_digits [of "a div 100" "CHR ''.'' # t"] by auto
  have dot: "\<not> c_isdigit (CHR ''.'')" by (simp add: c_isdigit_def)
  have v: "digits_val 0 (dec_digits (a div 100) @ t) = a"
  proof -
    have "digits_val 0 (dec_digits (a div 100) @ t) = (a div 100 * 10 + a mod 100 div 10) * 10 + a mod 10"
      by (simp add: t_def digits_val_append dec_digits_isdigit digits_val_dec_digits)
    also have "\<dots> = a div 100 * 100 + (a mod 100 div 10 * 10 + a mod 100 mod 10)" by (simp only: mm add_mult_distrib)
    also have "\<dots> = a" by (simp only: div_mult_mod_eq)
    finally show ?thesis .
  qed
  show ?thesis
    unfolding f scan_f_def Let_def dropWhile_space_digits
    using hd v by (simp add: t_def dot scan_exp_def)
qed

lemma fmt_hundredths_blank: "takeWhile (\<lambda>c. c \<noteq> CHR '' '') (fmt_hundredths a @ '' %'') = fmt_hundredths a"
proof -
  have "c \<noteq> CHR '' ''" if "c \<in> set (dec_digits n)" for c n
    using dec_digits_isdigit [OF that] by (auto simp: c_isdigit_def)
  then have "\<forall>c \<in> set (fmt_hundredths a). c \<noteq> CHR '' ''" by (auto simp: fmt_hundredths_def fmt_d_def)
  then show ?thesis by (simp add: takeWhile_append2)
qed

lemma AssignPercent_hundredths:
  assumes "0 < a" "a \<le> 10000"
  shows "AssignPercent var (fmt_hundredths a) s = put_word var (int a) s \<or>
    AssignPercent var (fmt_hundredths a) s = put_word var (int a - 1) s"
proof -
  obtain m j where m: "fl_single a 100 = (m, j)" by fastforce
  obtain m' k where m': "fl_single (m * 100) (2 ^ j) = (m', k)" by fastforce
  have "m \<le> 100 * 2 ^ j" "m' div 2 ^ k = a \<or> m' div 2 ^ k + 1 = a"
    using float_hundredfold [OF assms m m'] by auto
  then show ?thesis using assms(1)
    by (auto simp: AssignPercent_def scan_f_hundredths m m')
qed

end
