(* ===== verification/Edit_Output.thy ===== *)
theory Edit_Output
  imports Edit_Assign Edit_Percent Util_Conv
begin

text \<open>
  The output functions of \<open>libs/libeditapcfg/editapcfg.c\<close>: each appends the printed form of a variable to
  the text. Two of them look beyond their own text or change a variable: the password function
  overwrites the variable with stars when the secrets are masked, and the list of access points
  repeats the beginning of the line it was called on and advances the counter kept in the list.
  The caller's buffer is taken to be large enough.
\<close>

type_synonym 'a out_fn = "ptr \<Rightarrow> bytes \<Rightarrow> 'a edit_scheme \<Rightarrow> (bytes \<times> 'a edit_scheme) option"

abbreviation (input) CR :: char where "CR \<equiv> CHR 0x0D"
abbreviation (input) LF :: char where "LF \<equiv> CHR 0x0A"

definition fmt_u :: "nat \<Rightarrow> cstr" where
  "fmt_u n = fmt_d (int n)"

definition OutputIP :: "'a out_fn" where
  "OutputIP var buff s = do {
     a \<leftarrow> rd var 4 s;
     Some (if a = replicate 4 NUL then buff
       else buff @ fmt_u (code (a ! 0)) @ ''.'' @ fmt_u (code (a ! 1)) @ ''.'' @ fmt_u (code (a ! 2)) @ ''.'' @ fmt_u (code (a ! 3)), s)
   }"

definition OutputIPv6 :: "'a out_fn" where "OutputIPv6 var buff s = Some (buff, s)"
definition OutputGWv6 :: "'a out_fn" where "OutputGWv6 var buff s = Some (buff, s)"

definition OutputByte :: "'a out_fn" where
  "OutputByte var buff s = do { a \<leftarrow> rd_byte var s; Some (buff @ fmt_u a, s) }"

definition OutputWord :: "'a out_fn" where
  "OutputWord var buff s = do { a \<leftarrow> rd_word var s; Some (buff @ fmt_u a, s) }"

text \<open>\<open>"%02X:%02X:..."\<close> of the six bytes.\<close>

definition mac_text :: "bytes \<Rightarrow> cstr" where
  "mac_text a = mac_join (CHR '':'') (map (\<lambda>c. of_nat (code c)) a)"

definition OutputMac :: "'a out_fn" where
  "OutputMac var buff s = do {
     a \<leftarrow> rd var 6 s;
     Some (if a = replicate 6 NUL then buff else buff @ mac_text a, s)
   }"

definition OutputStr :: "'a out_fn" where
  "OutputStr var buff s = do { v \<leftarrow> rd_str var s; Some (buff @ v, s) }"

definition OutputPass :: "'a out_fn" where
  "OutputPass var buff s = do {
     secShow \<leftarrow> rd_byte (''secShow'', 0) s;
     s \<leftarrow> (if secShow \<noteq> 0 then do { v \<leftarrow> rd_str var s; put_at var (replicate (length v) (CHR ''*'')) s } else Some s);
     OutputStr var buff s
   }"

definition OutputDR :: "'a out_fn" where
  "OutputDR var buff s = do {
     a \<leftarrow> rd_byte var s;
     Some (buff @ (if a \<noteq> 5 then fmt_u a else fmt_u a @ ''.5''), s)
   }"

definition OutputPercent' :: "'a out_fn" where
  "OutputPercent' var buff s = do { (t, s) \<leftarrow> OutputPercent var s; Some (buff @ t, s) }"

text \<open>The search for the line's beginning starts two characters back; \<open>temp\<close> has 80 bytes.\<close>

definition line_head :: "bytes \<Rightarrow> bytes option" where
  "line_head buff =
     (let r = rev buff; n = length (takeWhile (\<lambda>c. c \<noteq> LF) (tl r)) in
      if length r \<le> n + 2 \<or> NUL \<in> set (take n (tl r)) \<or> 80 < n + 3 then None else Some (rev (take (n + 3) r)))"

function mac_list_loop :: "ptr \<Rightarrow> bytes \<Rightarrow> nat \<Rightarrow> nat \<Rightarrow> bytes \<Rightarrow> 'a edit_scheme \<Rightarrow> (bytes \<times> 'a edit_scheme) option" where
  "mac_list_loop p temp no k buff s =
     (if 256 \<le> k then None
      else do {
        e \<leftarrow> rd (rogue_entry p k) 17 s;
        s \<leftarrow> put_word (fst p, snd p + 2) (int k + 1) s;
        if no = k + 1 then Some (buff @ e, s) else mac_list_loop p temp no (k + 1) (buff @ e @ temp) s
      })"
  by pat_completeness auto
termination by (relation "measure (\<lambda>(p, temp, no, k, buff, s). 256 - k)") auto

declare mac_list_loop.simps [simp del]

definition OutputScMacList :: "'a out_fn" where
  "OutputScMacList p buff s = do {
     no \<leftarrow> rd_word p s;
     if no = 0 then Some (buff, s)
     else do {
       temp \<leftarrow> line_head buff;
       outNo \<leftarrow> rd_word (fst p, snd p + 2) s;
       mac_list_loop p temp no outNo buff s
     }
   }"

subsection \<open>Lines\<close>

definition OutputGroup :: "cstr \<Rightarrow> bytes \<Rightarrow> bytes" where
  "OutputGroup gname buff = buff @ [CR, LF] @ ''['' @ gname @ '']'' @ [CR, LF]"

definition OutputAttr :: "cstr \<Rightarrow> bytes \<Rightarrow> bytes" where
  "OutputAttr attr buff = buff @ attr @ (if head_char attr \<noteq> CHR '';'' then ''='' else [])"

definition OutputComment :: "cstr \<Rightarrow> bytes \<Rightarrow> bytes" where
  "OutputComment comment buff = buff @ (if comment \<noteq> [] then '' '' @ comment else []) @ [CR, LF]"

definition read_only :: "cstr \<Rightarrow> cstr" where
  "read_only name = name @ ''. It'' @ [CHR 0xA1, CHR 0xAF] @ ''s read only''"

definition country_comments :: "cstr list" where
  "country_comments =
     [read_only '';840: United States'', read_only '';36: Australia'', read_only '';76: Brazil'', read_only '';156: China'',
      '';1702: Asia, 208: Denmark, 1276: Europe, 246: Finland, 250: France, 276: Germany,'' @ [CR, LF] @
      ''         372: Ireland, 380: Italy, 392: Japan, 528: Netherlands, 554: New Zealand, 578: Norway, '' @ [CR, LF] @
      ''         724: Spain, 752: Sweden, 756: Switzerland, 826: United Kingdom'',
      '';484: Mexico, 630: Puerto Rico, 1076: South America'', read_only '';410: South Korea'']"

definition country_comment :: "'a edit_scheme \<Rightarrow> cstr option" where
  "country_comment s = do {
     c \<leftarrow> sc_get_default_country s;
     let coLine = (if c = CTRY_UNITED_STATES then 0 else if c = CTRY_AUSTRALIA then 1 else if c = CTRY_BRAZIL then 2
       else if c = CTRY_CHINA then 3 else if c = CTRY_GERMANY then 4 else if c = CTRY_MEXICO then 5
       else if c = CTRY_KOREA_ROC then 6 else 0);
     Some (country_comments ! coLine)
   }"

definition OutputCountryComment :: "bytes \<Rightarrow> 'a edit_scheme \<Rightarrow> bytes option" where
  "OutputCountryComment buff s = do { comment \<leftarrow> country_comment s; Some (OutputComment comment buff) }"

end
