(* ===== verification/Edit_Table.thy ===== *)
theory Edit_Table
  imports Edit_Output
begin

text \<open>
  The tables of \<open>libs/libeditapcfg/editapcfg.c\<close>: for every group of the configuration file its
  attributes in order, each with the variable, the function that assigns a value read from a file, the
  function that prints the variable, the comment printed behind it and the kinds of export it belongs to.
\<close>

subsection \<open>The functions the tables name\<close>

datatype assign_fn =
  F_AssignStr40 | F_Assign01 | F_AssignIP | F_AssignMask | F_AssignStr15 | F_AssignIPv6
  | F_AssignPrefix | F_AssignGWv6 | F_AssignDate | F_AssignTime | F_AssignTimeZone | F_AssignServerStr
  | F_Assign0To2 | F_AssignURL | F_AssignStr64 | F_AssignPassword | F_Assign0To7 | F_Assign0To14
  | F_AssignSSID | F_AssignPort | F_AssignSecret128 | F_Assign0To8 | F_AssignKeyLen | F_Assign1To4
  | F_AssignKey | F_AssignPreSharedKey | F_AssignWord | F_AssignMac | F_Assign1To4094 | F_Assignwdsvlist
  | F_AssignCountry | F_Assign20To1000 | F_Assign1To255 | F_Assign0To2347 | F_Assign256To2346 | F_AssignPercent
  | F_Assign0To4 | F_Assign0To255 | F_AssignScMacList | F_AssignStr32 | F_Assign1To254 | F_AssignSMTPServer
  | F_AssignMail | F_Assign1To500 | F_Assign60To600

primrec run_assign :: "assign_fn \<Rightarrow> 'a assign" where
  "run_assign F_AssignStr40 = AssignStr40"
| "run_assign F_Assign01 = Assign01"
| "run_assign F_AssignIP = AssignIP"
| "run_assign F_AssignMask = AssignMask"
| "run_assign F_AssignStr15 = AssignStr15"
| "run_assign F_AssignIPv6 = AssignIPv6"
| "run_assign F_AssignPrefix = AssignPrefix"
| "run_assign F_AssignGWv6 = AssignGWv6"
| "run_assign F_AssignDate = AssignDate"
| "run_assign F_AssignTime = AssignTime"
| "run_assign F_AssignTimeZone = AssignTimeZone"
| "run_assign F_AssignServerStr = AssignServerStr"
| "run_assign F_Assign0To2 = Assign0To2"
| "run_assign F_AssignURL = AssignURL"
| "run_assign F_AssignStr64 = AssignStr64"
| "run_assign F_AssignPassword = AssignPassword"
| "run_assign F_Assign0To7 = Assign0To7"
| "run_assign F_Assign0To14 = Assign0To14"
| "run_assign F_AssignSSID = AssignSSID"
| "run_assign F_AssignPort = AssignPort"
| "run_assign F_AssignSecret128 = AssignSecret128"
| "run_assign F_Assign0To8 = Assign0To8"
| "run_assign F_AssignKeyLen = AssignKeyLen"
| "run_assign F_Assign1To4 = Assign1To4"
| "run_assign F_AssignKey = AssignKey"
| "run_assign F_AssignPreSharedKey = AssignPreSharedKey"
| "run_assign F_AssignWord = AssignWord"
| "run_assign F_AssignMac = AssignMac"
| "run_assign F_Assign1To4094 = Assign1To4094"
| "run_assign F_Assignwdsvlist = Assignwdsvlist"
| "run_assign F_AssignCountry = AssignCountry"
| "run_assign F_Assign20To1000 = Assign20To1000"
| "run_assign F_Assign1To255 = Assign1To255"
| "run_assign F_Assign0To2347 = Assign0To2347"
| "run_assign F_Assign256To2346 = Assign256To2346"
| "run_assign F_AssignPercent = AssignPercent"
| "run_assign F_Assign0To4 = Assign0To4"
| "run_assign F_Assign0To255 = Assign0To255"
| "run_assign F_AssignScMacList = AssignScMacList"
| "run_assign F_AssignStr32 = AssignStr32"
| "run_assign F_Assign1To254 = Assign1To254"
| "run_assign F_AssignSMTPServer = AssignSMTPServer"
| "run_assign F_AssignMail = AssignMail"
| "run_assign F_Assign1To500 = Assign1To500"
| "run_assign F_Assign60To600 = Assign60To600"

datatype output_fn =
  F_OutputStr | F_OutputByte | F_OutputIP | F_OutputWord | F_OutputPass | F_OutputMac | F_OutputPercent | F_OutputScMacList

primrec run_output :: "output_fn \<Rightarrow> 'a out_fn" where
  "run_output F_OutputStr = OutputStr"
| "run_output F_OutputByte = OutputByte"
| "run_output F_OutputIP = OutputIP"
| "run_output F_OutputWord = OutputWord"
| "run_output F_OutputPass = OutputPass"
| "run_output F_OutputMac = OutputMac"
| "run_output F_OutputPercent = OutputPercent'"
| "run_output F_OutputScMacList = OutputScMacList"

text \<open>The functions that are also called with an empty value, to clear the variable.\<close>

definition nvAssignFuncTbl :: "assign_fn list" where
  "nvAssignFuncTbl = [F_AssignKey, F_AssignMac, F_AssignSSID]"

definition isNvAssignFunc :: "assign_fn \<Rightarrow> bool" where
  "isNvAssignFunc f \<longleftrightarrow> f \<in> set nvAssignFuncTbl"

subsection \<open>Attributes and groups\<close>

record attr_s =
  attr_name :: cstr
  attr_var :: ptr
  assignfunc :: "assign_fn option"
  outputfunc :: "output_fn option"
  attr_comment :: cstr
  attr_type :: "8 word"

abbreviation CFG_TYPE_ALL :: "8 word" where "CFG_TYPE_ALL \<equiv> 0xFF"

definition attrib :: "cstr \<Rightarrow> ptr \<Rightarrow> assign_fn option \<Rightarrow> output_fn option \<Rightarrow> cstr \<Rightarrow> attr_s" where
  "attrib n v f g c = \<lparr>attr_name = n, attr_var = v, assignfunc = f, outputfunc = g, attr_comment = c, attr_type = CFG_TYPE_ALL\<rparr>"

definition zone_line :: "cstr \<Rightarrow> cstr \<Rightarrow> cstr" where
  "zone_line z n = [CHR 0x0D, CHR 0x0A] @ '';'' @ z @ '': '' @ [CHR 0x22] @ n @ [CHR 0x22]"

definition timeZoneStr :: cstr where
  "timeZoneStr = concat
     [zone_line ''001-12:00'' ''(GMT-12:00) International Date Line West'',
      zone_line ''002-11:00'' ''(GMT-11:00) Midway Island, Samoa'',
      zone_line ''003-10:00'' ''(GMT-10:00) Hawaii'',
      zone_line ''004-09:00'' ''(GMT-09:00) Alaska'',
      zone_line ''005-08:00'' ''(GMT-08:00) Pacific Time (US & Canada); Tijuana'',
      zone_line ''006-07:00'' ''(GMT-07:00) Arizona'',
      zone_line ''007-07:00'' ''(GMT-07:00) Chihuahua, La Paz, Mazatlan'',
      zone_line ''008-07:00'' ''(GMT-07:00) Mountain Time (US & Canada)'',
      zone_line ''009-06:00'' ''(GMT-06:00) Central America'',
      zone_line ''010-06:00'' ''(GMT-06:00) Central Time (US & Canada)'',
      zone_line ''011-06:00'' ''(GMT-06:00) Guadalajara, Mexico City, Monterrey'',
      zone_line ''012-06:00'' ''(GMT-06:00) Saskatchewan'',
      zone_line ''013-05:00'' ''(GMT-05:00) Bogota, Lima, Quito'',
      zone_line ''014-05:00'' ''(GMT-05:00) Eastern Time (US & Canada)'',
      zone_line ''015-05:00'' ''(GMT-05:00) Indiana (East)'',
      zone_line ''016-04:00'' ''(GMT-04:00) Atlantic Time (Canada)'',
      zone_line ''017-04:00'' ''(GMT-04:00) Caracas, La Paz'',
      zone_line ''018-04:00'' ''(GMT-04:00) Santiago'',
      zone_line ''019-03:00'' ''(GMT-03:00) Newfoundland'',
      zone_line ''020-03:00'' ''(GMT-03:00) Brasilia'',
      zone_line ''021-03:00'' ''(GMT-03:00) Buenos Aires, Georgetown'',
      zone_line ''022-03:00'' ''(GMT-03:00) Greenland'',
      zone_line ''023-02:00'' ''(GMT-02:00) Mid-Atlantic'',
      zone_line ''024-01:00'' ''(GMT-01:00) Azores'',
      zone_line ''025-01:00'' ''(GMT-01:00) Cape Verde Is.'',
      zone_line ''026+00:00'' ''(GMT) Casablanca, Monrovia'',
      zone_line ''027+00:00'' ''(GMT) Greenwich Mean Time : Dublin, Edinburgh, Lisbon, London'',
      zone_line ''028+01:00'' ''(GMT+01:00) Amsterdam, Berlin, Bern, Rome, Stockholm, Vienna'',
      zone_line ''029+01:00'' ''(GMT+01:00) Belgrade, Bratislava, Budapest, Ljubljana, Prague'',
      zone_line ''030+01:00'' ''(GMT+01:00) Brussels, Copenhagen, Madrid, Paris'',
      zone_line ''031+01:00'' ''(GMT+01:00) Sarajevo, Skopje, Warsaw, Zagreb'',
      zone_line ''032+01:00'' ''(GMT+01:00) West Central Africa'',
      zone_line ''033+02:00'' ''(GMT+02:00) Athens, Beirut, Istanbul, Minsk'',
      zone_line ''034+02:00'' ''(GMT+02:00) Bucharest'',
      zone_line ''035+02:00'' ''(GMT+02:00) Cairo'',
      zone_line ''036+02:00'' ''(GMT+02:00) Harare, Pretoria'',
      zone_line ''037+02:00'' ''(GMT+02:00) Helsinki, Kyiv, Riga, Sofia, Tallinn, Vilnius'',
      zone_line ''038+02:00'' ''(GMT+02:00) Jerusalem'',
      zone_line ''039+03:00'' ''(GMT+03:00) Baghdad'',
      zone_line ''040+03:00'' ''(GMT+03:00) Kuwait, Riyadh'',
      zone_line ''041+03:00'' ''(GMT+03:00) Moscow, St. Petersburg, Volgograd'',
      zone_line ''042+03:00'' ''(GMT+03:00) Nairobi'',
      zone_line ''043+03:30'' ''(GMT+03:30) Tehran'',
      zone_line ''044+04:00'' ''(GMT+04:00) Abu Dhabi, Muscat'',
      zone_line ''045+04:00'' ''(GMT+04:00) Baku, Tbilisi, Yerevan'',
      zone_line ''046+04:30'' ''(GMT+04:30) Kabul'',
      zone_line ''047+05:00'' ''(GMT+05:00) Ekaterinburg'',
      zone_line ''048+05:00'' ''(GMT+05:00) Islamabad, Karachi, Tashkent'',
      zone_line ''049+05:30'' ''(GMT+05:30) Chennai, Kolkata, Mumbai, New Delhi'',
      zone_line ''050+05:45'' ''(GMT+05:45) Kathmandu'',
      zone_line ''051+06:00'' ''(GMT+06:00) Almaty, Novosibirsk'',
      zone_line ''052+06:00'' ''(GMT+06:00) Astana, Dhaka'',
      zone_line ''053+06:00'' ''(GMT+06:00) Sri Jayawardenepura'',
      zone_line ''054+06:00'' ''(GMT+06:00) Rangoon'',
      zone_line ''055+07:00'' ''(GMT+07:00) Bangkok, Hanoi, Jakarta'',
      zone_line ''056+07:00'' ''(GMT+07:00) Krasnoyarsk'',
      zone_line ''057+08:00'' ''(GMT+08:00) China, Hong Kong, Australia Western'',
      zone_line ''058+08:00'' ''(GMT+08:00) Irkutsk, Ulaan Bataar'',
      zone_line ''059+08:00'' ''(GMT+08:00) Kuala Lumpur, Singapore'',
      zone_line ''060+08:00'' ''(GMT+08:00) Perth'',
      zone_line ''061+08:00'' ''(GMT+08:00) Taipei'',
      zone_line ''062+09:00'' ''(GMT+09:00) Osaka, Sapporo, Tokyo'',
      zone_line ''063+09:00'' ''(GMT+09:00) Seoul'',
      zone_line ''064+09:00'' ''(GMT+09:00) Yakutsk'',
      zone_line ''065+09:30'' ''(GMT+09:30) Adelaide'',
      zone_line ''066+09:30'' ''(GMT+09:30) Darwin'',
      zone_line ''067+10:00'' ''(GMT+10:00) Brisbane'',
      zone_line ''068+10:00'' ''(GMT+10:00) Canberra, Melbourne, Sydney'',
      zone_line ''069+10:00'' ''(GMT+10:00) Guam, Port Moresby'',
      zone_line ''070+10:00'' ''(GMT+10:00) Hobart'',
      zone_line ''071+10:00'' ''(GMT+10:00) Vladivostok'',
      zone_line ''072+11:00'' ''(GMT+11:00) Magadan, Solomon Ls., New Caledonia'',
      zone_line ''073+12:00'' ''(GMT+12:00) Auckland, Wellington'',
      zone_line ''074+12:00'' ''(GMT+12:00) Fiji, Kamchatka, Marshall ls.'',
      zone_line ''075+13:00'' (''(GMT+13:00) Nuku'' @ [CHR 0x60] @ ''alofa'')]"

definition Basic :: "attr_s list" where
  "Basic =
     [attrib ''Host_Name'' (''APName'', 0) (Some F_AssignStr40) (Some F_OutputStr) [],
      attrib ''Device_Name'' (''APDesc'', 0) (Some F_AssignStr40) (Some F_OutputStr) [],
      attrib ''Language'' (''APLang'', 0) (Some F_AssignStr40) (Some F_OutputStr) [],
      attrib ''IP_settings'' (''dhcpF'', 0) (Some F_Assign01) (Some F_OutputByte) '';0:static; 1:automatic'',
      attrib ''Ipv4_address'' (''IPAddress4'', 0) (Some F_AssignIP) (Some F_OutputIP) [],
      attrib ''Ipv4_subnet_mask'' (''subnet4'', 0) (Some F_AssignMask) (Some F_OutputIP) [],
      attrib ''IPv4_default_gateway'' (''gateway4'', 0) (Some F_AssignIP) (Some F_OutputIP) [],
      attrib ''IPv4_Primary_DNS'' (''dnsServer1'', 0) (Some F_AssignStr15) (Some F_OutputStr) [],
      attrib ''IPv4_Secondary_DNS'' (''dnsServer2'', 0) (Some F_AssignStr15) (Some F_OutputStr) [],
      attrib ''IPv6'' (''IPv6'', 0) (Some F_Assign01) (Some F_OutputByte) '';0:disabled; 1:enabled'',
      attrib ''IPv6_settings'' (''dhcp6F'', 0) (Some F_Assign01) (Some F_OutputByte) '';0:static; 1:automatic'',
      attrib ''Ipv6_address'' (''IPAddress6'', 0) (Some F_AssignIPv6) (Some F_OutputStr) [],
      attrib ''Ipv6_prefix_length'' (''prefixlen'', 0) (Some F_AssignPrefix) (Some F_OutputByte) [],
      attrib ''IPv6_default_gateway'' (''gateway6'', 0) (Some F_AssignGWv6) (Some F_OutputStr) [],
      attrib ''IPv6_Primary_DNS'' (''IPv6dnsServer1'', 0) (Some F_AssignIPv6) (Some F_OutputStr) [],
      attrib ''IPv6_Secondary_DNS'' (''IPv6dnsServer2'', 0) (Some F_AssignIPv6) (Some F_OutputStr) []]"

definition Time_attrs :: "attr_s list" where
  "Time_attrs =
     [attrib ''Time_setting'' (''timesetting'', 0) (Some F_Assign01) (Some F_OutputByte) '';0: manually, 1:automatically'',
      attrib ''Date'' (''date_p'', 0) (Some F_AssignDate) (Some F_OutputStr) '';yyyy/mm/dd'',
      attrib ''Time'' (''time_p'', 0) (Some F_AssignTime) (Some F_OutputStr) '';hh:mm:ss'',
      attrib ''Time_zone'' (''timeZone'', 0) (Some F_AssignTimeZone) (Some F_OutputStr) timeZoneStr,
      attrib ''daylight_saving'' (''daylightSaving'', 0) (Some F_Assign01) (Some F_OutputByte) '';0:disabled, 1:enabled'',
      attrib ''User_Defined_NTP'' (''usDefntp'', 0) (Some F_Assign01) (Some F_OutputByte) '';0:disabled, 1:enabled'',
      attrib ''User_NTP'' (''ntpServer'', 0) (Some F_AssignServerStr) (Some F_OutputStr) []]"

definition Setup_adv :: "attr_s list" where
  "Setup_adv =
     [attrib ''Force_Fast_Ethernet'' (''htForce100m'', 0) (Some F_Assign01) (Some F_OutputByte) '';0:disabled, 1:enabled'',
      attrib ''Ethernet_Auto_Negotiation'' (''htAutoNegotiation'', 0) (Some F_Assign01) (Some F_OutputByte) '';0:disabled, 1:enabled'',
      attrib ''Administrative_Port_Speed'' (''htPortSpeed'', 0) (Some F_Assign0To2) (Some F_OutputByte) '';0:10M, 1:100M, 2:1000M'',
      attrib ''Administrative_Duplex_Mode'' (''htDuplexMode'', 0) (Some F_Assign01) (Some F_OutputByte) '';0:Half Duplex, 1:Full Duplex'',
      attrib ''Bonjour'' (''htBonjour'', 0) (Some F_Assign01) (Some F_OutputByte) '';0:disabled, 1:enabled'',
      attrib ''HTTP_Redirect'' (''htRedirect'', 0) (Some F_Assign01) (Some F_OutputByte) '';0:disabled, 1:enabled'',
      attrib ''HTTP_Redirect_URL'' (''htRedirectUrl'', 0) (Some F_AssignURL) (Some F_OutputStr) [],
      attrib ''802.1x_supplicant'' (''ethDot1xAuth'', 0) (Some F_Assign01) (Some F_OutputByte) '';0:disabled, 1:enabled'',
      attrib ''Via_mac_authentication'' (''authViaMac'', 0) (Some F_Assign01) (Some F_OutputByte) '';0:disabled, 1:enabled'',
      attrib ''Username'' (''authName'', 0) (Some F_AssignStr64) (Some F_OutputStr) [],
      attrib ''Password'' (''authPasswd'', 0) (Some F_AssignPassword) (Some F_OutputStr) []]"

definition Wlan_Basic :: "attr_s list" where
  "Wlan_Basic =
     [attrib ''Network_mode'' (''wlsMode'', 0) (Some F_Assign0To7) (Some F_OutputByte) '';0:Disable; 1: b only; 2: g only; 3: n only; 4: B/G mixed; 7:B/G/N mixed'',
      attrib ''Channel'' (''channel'', 0) (Some F_Assign0To14) (Some F_OutputByte) ''; 0..14; 0: auto channel'',
      attrib ''SSID1'' (''ssid'', 0) (Some F_AssignSSID) (Some F_OutputStr) [],
      attrib ''SSID1_broadcast'' (''ssidBroadcast'', 0) (Some F_Assign01) (Some F_OutputByte) '';0:disabled, 1:enabled'',
      attrib ''SSID2'' (''ssid'', 33) (Some F_AssignSSID) (Some F_OutputStr) [],
      attrib ''SSID2_broadcast'' (''ssidBroadcast'', 1) (Some F_Assign01) (Some F_OutputByte) '';0:disabled, 1:enabled'',
      attrib ''SSID3'' (''ssid'', 66) (Some F_AssignSSID) (Some F_OutputStr) [],
      attrib ''SSID3_broadcast'' (''ssidBroadcast'', 2) (Some F_Assign01) (Some F_OutputByte) '';0:disabled, 1:enabled'',
      attrib ''SSID4'' (''ssid'', 99) (Some F_AssignSSID) (Some F_OutputStr) [],
      attrib ''SSID4_broadcast'' (''ssidBroadcast'', 3) (Some F_Assign01) (Some F_OutputByte) '';0:disabled, 1:enabled'']"

definition Radius_Server :: "attr_s list" where
  "Radius_Server =
     [attrib ''Primary_radius_server'' (''authSIP1'', 0) (Some F_AssignIP) (Some F_OutputIP) [],
      attrib ''Primary_port_no'' (''authSPort1'', 0) (Some F_AssignPort) (Some F_OutputWord) [],
      attrib ''Primary_shared_secret'' (''authSSecret1'', 0) (Some F_AssignSecret128) (Some F_OutputPass) [],
      attrib ''Secondary_radius_server'' (''authSIP2'', 0) (Some F_AssignIP) (Some F_OutputIP) [],
      attrib ''Secondary_port_no'' (''authSPort2'', 0) (Some F_AssignPort) (Some F_OutputWord) [],
      attrib ''Secondary_shared_secret'' (''authSSecret2'', 0) (Some F_AssignSecret128) (Some F_OutputPass) []]"

definition Wlan_sec_1 :: "attr_s list" where
  "Wlan_sec_1 =
     [attrib '';for SSID1'' ('''', 0) None None [],
      attrib ''ssid'' (''ssid'', 0) None (Some F_OutputStr) [],
      attrib ''isolation_between_SSID'' (''vapIsolated'', 0) (Some F_Assign01) (Some F_OutputByte) '';0:disabled, 1:enabled'',
      attrib ''security_mode'' (''secSystem'', 0) (Some F_Assign0To8) (Some F_OutputByte) ('';1: WEP, 2: WPA-Personal, 3: WPA2-Personal, 4: WPA2-Personal Mixed, 5: WPA-Enterprise,'' @ [CHR 0x0D, CHR 0x0A] @ ''    6: WPA2-Enterprise, 7: WPA2-Enterprise Mixed, 8:RADIUS, 0: Disabled''),
      attrib ''isolation_within_SSID'' (''wlsSeparation'', 0) (Some F_Assign01) (Some F_OutputByte) '';0:disabled, 1:enabled'',
      attrib ''authentication_type'' (''authType'', 0) (Some F_Assign0To2) (Some F_OutputByte) '';0:open system; 1:shared key'',
      attrib ''encryption'' (''encrypt'', 0) (Some F_AssignKeyLen) (Some F_OutputByte) '';64: 64 bit WEP, 128:128 bit WEP, 1: TKP, 2: AES, 3: AES+TKIP'',
      attrib ''Default_Tx_key'' (''keyNo'', 0) (Some F_Assign1To4) (Some F_OutputByte) ''; 1..4'',
      attrib ''key1'' (''key1'', 0) (Some F_AssignKey) (Some F_OutputPass) '';in Hex'',
      attrib ''key2'' (''key2'', 0) (Some F_AssignKey) (Some F_OutputPass) '';in Hex'',
      attrib ''key3'' (''key3'', 0) (Some F_AssignKey) (Some F_OutputPass) '';in Hex'',
      attrib ''key4'' (''key4'', 0) (Some F_AssignKey) (Some F_OutputPass) '';in Hex'',
      attrib ''PSK_key'' (''preShared'', 0) (Some F_AssignPreSharedKey) (Some F_OutputPass) '';in ASCII; The length of the key is from 8 to 64'',
      attrib ''Key_renew'' (''keyrenew'', 0) (Some F_AssignWord) (Some F_OutputWord) '';in seconds'']"

definition Wlan_sec_2 :: "attr_s list" where
  "Wlan_sec_2 =
     [attrib '';for SSID2'' ('''', 0) None None [],
      attrib ''ssid'' (''ssid'', 33) None (Some F_OutputStr) [],
      attrib ''isolation_between_SSID'' (''vapIsolated'', 0) (Some F_Assign01) (Some F_OutputByte) '';0:disabled, 1:enabled'',
      attrib ''security_mode'' (''secSystem'', 1) (Some F_Assign0To8) (Some F_OutputByte) ('';1: WEP, 2: WPA-Personal, 3: WPA2-Personal, 4: WPA2-Personal Mixed, 5: WPA-Enterprise,'' @ [CHR 0x0D, CHR 0x0A] @ ''    6: WPA2-Enterprise, 7: WPA2-Enterprise Mixed, 8:RADIUS, 0: Disabled''),
      attrib ''isolation_within_SSID'' (''wlsSeparation'', 1) (Some F_Assign01) (Some F_OutputByte) '';0:disabled, 1:enabled'',
      attrib ''authentication_type'' (''authType'', 1) (Some F_Assign0To2) (Some F_OutputByte) '';0:open system; 1:shared key'',
      attrib ''encryption'' (''encrypt'', 1) (Some F_AssignKeyLen) (Some F_OutputByte) '';64: 64 bit WEP, 128:128 bit WEP, 1: TKP, 2: AES, 3: AES+TKIP'',
      attrib ''Default_Tx_key'' (''keyNo'', 1) (Some F_Assign1To4) (Some F_OutputByte) ''; 1..4'',
      attrib ''key1'' (''key1'', 33) (Some F_AssignKey) (Some F_OutputPass) '';in Hex'',
      attrib ''key2'' (''key2'', 33) (Some F_AssignKey) (Some F_OutputPass) '';in Hex'',
      attrib ''key3'' (''key3'', 33) (Some F_AssignKey) (Some F_OutputPass) '';in Hex'',
      attrib ''key4'' (''key4'', 33) (Some F_AssignKey) (Some F_OutputPass) '';in Hex'',
      attrib ''PSK_key'' (''preShared'', 65) (Some F_AssignPreSharedKey) (Some F_OutputPass) '';in ASCII; The length of the key is from 8 to 63'',
      attrib ''Key_renew'' (''keyrenew'', 2) (Some F_AssignWord) (Some F_OutputWord) '';in seconds'']"

definition Wlan_sec_3 :: "attr_s list" where
  "Wlan_sec_3 =
     [attrib '';for SSID3'' ('''', 0) None None [],
      attrib ''ssid'' (''ssid'', 66) None (Some F_OutputStr) [],
      attrib ''isolation_between_SSID'' (''vapIsolated'', 0) (Some F_Assign01) (Some F_OutputByte) '';0:disabled, 1:enabled'',
      attrib ''security_mode'' (''secSystem'', 2) (Some F_Assign0To8) (Some F_OutputByte) ('';1: WEP, 2: WPA-Personal, 3: WPA2-Personal, 4: WPA2-Personal Mixed, 5: WPA-Enterprise,'' @ [CHR 0x0D, CHR 0x0A] @ ''    6: WPA2-Enterprise, 7: WPA2-Enterprise Mixed, 8:RADIUS, 0: Disabled''),
      attrib ''isolation_within_SSID'' (''wlsSeparation'', 2) (Some F_Assign01) (Some F_OutputByte) '';0:disabled, 1:enabled'',
      attrib ''authentication_type'' (''authType'', 2) (Some F_Assign0To2) (Some F_OutputByte) '';0:open system; 1:shared key'',
      attrib ''encryption'' (''encrypt'', 2) (Some F_AssignKeyLen) (Some F_OutputByte) '';64: 64 bit WEP, 128:128 bit WEP, 1: TKP, 2: AES, 3: AES+TKIP'',
      attrib ''Default_Tx_key'' (''keyNo'', 2) (Some F_Assign1To4) (Some F_OutputByte) ''; 1..4'',
      attrib ''key1'' (''key1'', 66) (Some F_AssignKey) (Some F_OutputPass) '';in Hex'',
      attrib ''key2'' (''key2'', 66) (Some F_AssignKey) (Some F_OutputPass) '';in Hex'',
      attrib ''key3'' (''key3'', 66) (Some F_AssignKey) (Some F_OutputPass) '';in Hex'',
      attrib ''key4'' (''key4'', 66) (Some F_AssignKey) (Some F_OutputPass) '';in Hex'',
      attrib ''PSK_key'' (''preShared'', 130) (Some F_AssignPreSharedKey) (Some F_OutputPass) '';in ASCII; The length of the key is from 8 to 63'',
      attrib ''Key_renew'' (''keyrenew'', 4) (Some F_AssignWord) (Some F_OutputWord) '';in seconds'']"

definition Wlan_sec_4 :: "attr_s list" where
  "Wlan_sec_4 =
     [attrib '';for SSID4'' ('''', 0) None None [],
      attrib ''ssid'' (''ssid'', 99) None (Some F_OutputStr) [],
      attrib ''isolation_between_SSID'' (''vapIsolated'', 0) (Some F_Assign01) (Some F_OutputByte) '';0:disabled, 1:enabled'',
      attrib ''security_mode'' (''secSystem'', 3) (Some F_Assign0To8) (Some F_OutputByte) ('';1: WEP, 2: WPA-Personal, 3: WPA2-Personal, 4: WPA2-Personal Mixed, 5: WPA-Enterprise,'' @ [CHR 0x0D, CHR 0x0A] @ ''    6: WPA2-Enterprise, 7: WPA2-Enterprise Mixed, 8:RADIUS, 0: Disabled''),
      attrib ''isolation_within_SSID'' (''wlsSeparation'', 3) (Some F_Assign01) (Some F_OutputByte) '';0:disabled, 1:enabled'',
      attrib ''authentication_type'' (''authType'', 3) (Some F_Assign0To2) (Some F_OutputByte) '';0:open system; 1:shared key'',
      attrib ''encryption'' (''encrypt'', 3) (Some F_AssignKeyLen) (Some F_OutputByte) '';64: 64 bit WEP, 128:128 bit WEP, 1: TKP, 2: AES, 3: AES+TKIP'',
      attrib ''Default_Tx_key'' (''keyNo'', 3) (Some F_Assign1To4) (Some F_OutputByte) ''; 1..4'',
      attrib ''key1'' (''key1'', 99) (Some F_AssignKey) (Some F_OutputPass) '';in Hex'',
      attrib ''key2'' (''key2'', 99) (Some F_AssignKey) (Some F_OutputPass) '';in Hex'',
      attrib ''key3'' (''key3'', 99) (Some F_AssignKey) (Some F_OutputPass) '';in Hex'',
      attrib ''key4'' (''key4'', 99) (Some F_AssignKey) (Some F_OutputPass) '';in Hex'',
      attrib ''PSK_key'' (''preShared'', 195) (Some F_AssignPreSharedKey) (Some F_OutputPass) '';in ASCII; The length of the key is from 8 to 63'',
      attrib ''Key_renew'' (''keyrenew'', 6) (Some F_AssignWord) (Some F_OutputWord) '';in seconds'']"

definition Wlan_Conn_Control_1 :: "attr_s list" where
  "Wlan_Conn_Control_1 =
     [attrib '';for SSID1'' ('''', 0) None None [],
      attrib ''Connection_Control'' (''aclFlag'', 0) (Some F_Assign0To2) (Some F_OutputByte) '';0: disabled, 1:local, 2: Radius'',
      attrib ''Control_type'' (''aclType'', 0) (Some F_Assign01) (Some F_OutputByte) '';0: allowed the following local mac, 1: prevent the following local mac'',
      attrib ''Mac_01'' (''aclMac'', 0) (Some F_AssignMac) (Some F_OutputMac) [],
      attrib ''Mac_02'' (''aclMac'', 6) (Some F_AssignMac) (Some F_OutputMac) [],
      attrib ''Mac_03'' (''aclMac'', 12) (Some F_AssignMac) (Some F_OutputMac) [],
      attrib ''Mac_04'' (''aclMac'', 18) (Some F_AssignMac) (Some F_OutputMac) [],
      attrib ''Mac_05'' (''aclMac'', 24) (Some F_AssignMac) (Some F_OutputMac) [],
      attrib ''Mac_06'' (''aclMac'', 30) (Some F_AssignMac) (Some F_OutputMac) [],
      attrib ''Mac_07'' (''aclMac'', 36) (Some F_AssignMac) (Some F_OutputMac) [],
      attrib ''Mac_08'' (''aclMac'', 42) (Some F_AssignMac) (Some F_OutputMac) [],
      attrib ''Mac_09'' (''aclMac'', 48) (Some F_AssignMac) (Some F_OutputMac) [],
      attrib ''Mac_10'' (''aclMac'', 54) (Some F_AssignMac) (Some F_OutputMac) [],
      attrib ''Mac_11'' (''aclMac'', 60) (Some F_AssignMac) (Some F_OutputMac) [],
      attrib ''Mac_12'' (''aclMac'', 66) (Some F_AssignMac) (Some F_OutputMac) [],
      attrib ''Mac_13'' (''aclMac'', 72) (Some F_AssignMac) (Some F_OutputMac) [],
      attrib ''Mac_14'' (''aclMac'', 78) (Some F_AssignMac) (Some F_OutputMac) [],
      attrib ''Mac_15'' (''aclMac'', 84) (Some F_AssignMac) (Some F_OutputMac) [],
      attrib ''Mac_16'' (''aclMac'', 90) (Some F_AssignMac) (Some F_OutputMac) [],
      attrib ''Mac_17'' (''aclMac'', 96) (Some F_AssignMac) (Some F_OutputMac) [],
      attrib ''Mac_18'' (''aclMac'', 102) (Some F_AssignMac) (Some F_OutputMac) [],
      attrib ''Mac_19'' (''aclMac'', 108) (Some F_AssignMac) (Some F_OutputMac) [],
      attrib ''Mac_20'' (''aclMac'', 114) (Some F_AssignMac) (Some F_OutputMac) []]"

definition Wlan_Conn_Control_2 :: "attr_s list" where
  "Wlan_Conn_Control_2 =
     [attrib '';for SSID2'' ('''', 0) None None [],
      attrib ''Connection_Control'' (''aclFlag'', 1) (Some F_Assign0To2) (Some F_OutputByte) '';0: disabled, 1:local, 2: Radius'',
      attrib ''Control_type'' (''aclType'', 1) (Some F_Assign01) (Some F_OutputByte) '';0: allowed the following local mac, 1: prevent the following local mac'',
      attrib ''Mac_01'' (''aclMac'', 120) (Some F_AssignMac) (Some F_OutputMac) [],
      attrib ''Mac_02'' (''aclMac'', 126) (Some F_AssignMac) (Some F_OutputMac) [],
      attrib ''Mac_03'' (''aclMac'', 132) (Some F_AssignMac) (Some F_OutputMac) [],
      attrib ''Mac_04'' (''aclMac'', 138) (Some F_AssignMac) (Some F_OutputMac) [],
      attrib ''Mac_05'' (''aclMac'', 144) (Some F_AssignMac) (Some F_OutputMac) [],
      attrib ''Mac_06'' (''aclMac'', 150) (Some F_AssignMac) (Some F_OutputMac) [],
      attrib ''Mac_07'' (''aclMac'', 156) (Some F_AssignMac) (Some F_OutputMac) [],
      attrib ''Mac_08'' (''aclMac'', 162) (Some F_AssignMac) (Some F_OutputMac) [],
      attrib ''Mac_09'' (''aclMac'', 168) (Some F_AssignMac) (Some F_OutputMac) [],
      attrib ''Mac_10'' (''aclMac'', 174) (Some F_AssignMac) (Some F_OutputMac) [],
      attrib ''Mac_11'' (''aclMac'', 180) (Some F_AssignMac) (Some F_OutputMac) [],
      attrib ''Mac_12'' (''aclMac'', 186) (Some F_AssignMac) (Some F_OutputMac) [],
      attrib ''Mac_13'' (''aclMac'', 192) (Some F_AssignMac) (Some F_OutputMac) [],
      attrib ''Mac_14'' (''aclMac'', 198) (Some F_AssignMac) (Some F_OutputMac) [],
      attrib ''Mac_15'' (''aclMac'', 204) (Some F_AssignMac) (Some F_OutputMac) [],
      attrib ''Mac_16'' (''aclMac'', 210) (Some F_AssignMac) (Some F_OutputMac) [],
      attrib ''Mac_17'' (''aclMac'', 216) (Some F_AssignMac) (Some F_OutputMac) [],
      attrib ''Mac_18'' (''aclMac'', 222) (Some F_AssignMac) (Some F_OutputMac) [],
      attrib ''Mac_19'' (''aclMac'', 228) (Some F_AssignMac) (Some F_OutputMac) [],
      attrib ''Mac_20'' (''aclMac'', 234) (Some F_AssignMac) (Some F_OutputMac) []]"

definition Wlan_Conn_Control_3 :: "attr_s list" where
  "Wlan_Conn_Control_3 =
     [attrib '';for SSID3'' ('''', 0) None None [],
      attrib ''Connection_Control'' (''aclFlag'', 2) (Some F_Assign0To2) (Some F_OutputByte) '';0: disabled, 1:local, 2: Radius'',
      attrib ''Control_type'' (''aclType'', 2) (Some F_Assign01) (Some F_OutputByte) '';0: allowed the following local mac, 1: prevent the following local mac'',
      attrib ''Mac_01'' (''aclMac'', 240) (Some F_AssignMac) (Some F_OutputMac) [],
      attrib ''Mac_02'' (''aclMac'', 246) (Some F_AssignMac) (Some F_OutputMac) [],
      attrib ''Mac_03'' (''aclMac'', 252) (Some F_AssignMac) (Some F_OutputMac) [],
      attrib ''Mac_04'' (''aclMac'', 258) (Some F_AssignMac) (Some F_OutputMac) [],
      attrib ''Mac_05'' (''aclMac'', 264) (Some F_AssignMac) (Some F_OutputMac) [],
      attrib ''Mac_06'' (''aclMac'', 270) (Some F_AssignMac) (Some F_OutputMac) [],
      attrib ''Mac_07'' (''aclMac'', 276) (Some F_AssignMac) (Some F_OutputMac) [],
      attrib ''Mac_08'' (''aclMac'', 282) (Some F_AssignMac) (Some F_OutputMac) [],
      attrib ''Mac_09'' (''aclMac'', 288) (Some F_AssignMac) (Some F_OutputMac) [],
      attrib ''Mac_10'' (''aclMac'', 294) (Some F_AssignMac) (Some F_OutputMac) [],
      attrib ''Mac_11'' (''aclMac'', 300) (Some F_AssignMac) (Some F_OutputMac) [],
      attrib ''Mac_12'' (''aclMac'', 306) (Some F_AssignMac) (Some F_OutputMac) [],
      attrib ''Mac_13'' (''aclMac'', 312) (Some F_AssignMac) (Some F_OutputMac) [],
      attrib ''Mac_14'' (''aclMac'', 318) (Some F_AssignMac) (Some F_OutputMac) [],
      attrib ''Mac_15'' (''aclMac'', 324) (Some F_AssignMac) (Some F_OutputMac) [],
      attrib ''Mac_16'' (''aclMac'', 330) (Some F_AssignMac) (Some F_OutputMac) [],
      attrib ''Mac_17'' (''aclMac'', 336) (Some F_AssignMac) (Some F_OutputMac) [],
      attrib ''Mac_18'' (''aclMac'', 342) (Some F_AssignMac) (Some F_OutputMac) [],
      attrib ''Mac_19'' (''aclMac'', 348) (Some F_AssignMac) (Some F_OutputMac) [],
      attrib ''Mac_20'' (''aclMac'', 354) (Some F_AssignMac) (Some F_OutputMac) []]"

definition Wlan_Conn_Control_4 :: "attr_s list" where
  "Wlan_Conn_Control_4 =
     [attrib '';for SSID4'' ('''', 0) None None [],
      attrib ''Connection_Control'' (''aclFlag'', 3) (Some F_Assign0To2) (Some F_OutputByte) '';0: disabled, 1:local, 2: Radius'',
      attrib ''Control_type'' (''aclType'', 3) (Some F_Assign01) (Some F_OutputByte) '';0: allowed the following local mac, 1: prevent the following local mac'',
      attrib ''Mac_01'' (''aclMac'', 360) (Some F_AssignMac) (Some F_OutputMac) [],
      attrib ''Mac_02'' (''aclMac'', 366) (Some F_AssignMac) (Some F_OutputMac) [],
      attrib ''Mac_03'' (''aclMac'', 372) (Some F_AssignMac) (Some F_OutputMac) [],
      attrib ''Mac_04'' (''aclMac'', 378) (Some F_AssignMac) (Some F_OutputMac) [],
      attrib ''Mac_05'' (''aclMac'', 384) (Some F_AssignMac) (Some F_OutputMac) [],
      attrib ''Mac_06'' (''aclMac'', 390) (Some F_AssignMac) (Some F_OutputMac) [],
      attrib ''Mac_07'' (''aclMac'', 396) (Some F_AssignMac) (Some F_OutputMac) [],
      attrib ''Mac_08'' (''aclMac'', 402) (Some F_AssignMac) (Some F_OutputMac) [],
      attrib ''Mac_09'' (''aclMac'', 408) (Some F_AssignMac) (Some F_OutputMac) [],
      attrib ''Mac_10'' (''aclMac'', 414) (Some F_AssignMac) (Some F_OutputMac) [],
      attrib ''Mac_11'' (''aclMac'', 420) (Some F_AssignMac) (Some F_OutputMac) [],
      attrib ''Mac_12'' (''aclMac'', 426) (Some F_AssignMac) (Some F_OutputMac) [],
      attrib ''Mac_13'' (''aclMac'', 432) (Some F_AssignMac) (Some F_OutputMac) [],
      attrib ''Mac_14'' (''aclMac'', 438) (Some F_AssignMac) (Some F_OutputMac) [],
      attrib ''Mac_15'' (''aclMac'', 444) (Some F_AssignMac) (Some F_OutputMac) [],
      attrib ''Mac_16'' (''aclMac'', 450) (Some F_AssignMac) (Some F_OutputMac) [],
      attrib ''Mac_17'' (''aclMac'', 456) (Some F_AssignMac) (Some F_OutputMac) [],
      attrib ''Mac_18'' (''aclMac'', 462) (Some F_AssignMac) (Some F_OutputMac) [],
      attrib ''Mac_19'' (''aclMac'', 468) (Some F_AssignMac) (Some F_OutputMac) [],
      attrib ''Mac_20'' (''aclMac'', 474) (Some F_AssignMac) (Some F_OutputMac) []]"

definition VLAN_QoS :: "attr_s list" where
  "VLAN_QoS =
     [attrib ''VLAN'' (''vlan'', 0) (Some F_Assign01) (Some F_OutputByte) '';0: disabled, 1:enabled'',
      attrib ''Default_VLAN_ID'' (''nativeVid'', 0) (Some F_Assign1To4094) (Some F_OutputWord) '';1..4094'',
      attrib ''VLAN_Tag'' (''vlanTag'', 0) (Some F_Assign0To2) (Some F_OutputByte) '';0:untagged, 1: tagged'',
      attrib ''AP_Management_VLAN'' (''manageVid'', 0) (Some F_Assign1To4094) (Some F_OutputWord) '';1..4094'',
      attrib ''VLAN_tag_over_WDS'' (''wdsTag'', 0) (Some F_Assign0To2) (Some F_OutputByte) '';0: disabled, 1:enabled'',
      attrib ''WDS_VLAN_List'' (''wdsVlanList'', 0) (Some F_Assignwdsvlist) (Some F_OutputStr) ('';a,b,...,'' @ [CHR 0x22] @ ''a'' @ [CHR 0x22] @ '' is a VLAN ID. Different IDs divided by '' @ [CHR 0x22] @ '','' @ [CHR 0x22] @ ''. 4 VLAN IDs should be set at most''),
      attrib ''VLAN_ID_4_SSID1'' (''vapVlan'', 0) (Some F_Assign1To4094) (Some F_OutputWord) '';1..4094'',
      attrib ''Priority_4_SSID1'' (''vapPri'', 0) (Some F_Assign0To7) (Some F_OutputByte) '';0..7'',
      attrib ''WMM_4_SSID1'' (''vapWmm'', 0) (Some F_Assign0To2) (Some F_OutputByte) '';0: disabled, 1:enabled'',
      attrib ''VLAN_ID_4_SSID2'' (''vapVlan'', 2) (Some F_Assign1To4094) (Some F_OutputWord) '';1..4094'',
      attrib ''Priority_4_SSID2'' (''vapPri'', 1) (Some F_Assign0To7) (Some F_OutputByte) '';0..7'',
      attrib ''WMM_4_SSID2'' (''vapWmm'', 1) (Some F_Assign0To2) (Some F_OutputByte) '';0: disabled, 1:enabled'',
      attrib ''VLAN_ID_4_SSID3'' (''vapVlan'', 4) (Some F_Assign1To4094) (Some F_OutputWord) '';1..4094'',
      attrib ''Priority_4_SSID3'' (''vapPri'', 2) (Some F_Assign0To7) (Some F_OutputByte) '';0..7'',
      attrib ''WMM_4_SSID3'' (''vapWmm'', 2) (Some F_Assign0To2) (Some F_OutputByte) '';0: disabled, 1:enabled'',
      attrib ''VLAN_ID_4_SSID4'' (''vapVlan'', 6) (Some F_Assign1To4094) (Some F_OutputWord) '';1..4094'',
      attrib ''Priority_4_SSID4'' (''vapPri'', 3) (Some F_Assign0To7) (Some F_OutputByte) '';0..7'',
      attrib ''WMM_4_SSID4'' (''vapWmm'', 3) (Some F_Assign0To2) (Some F_OutputByte) '';0: disabled, 1:enabled'']"

definition Wlan_Adv :: "attr_s list" where
  "Wlan_Adv =
     [attrib ''802.11d'' (''worldwide'', 0) (Some F_Assign01) (Some F_OutputByte) '';0: disabled, 1:enabled'',
      attrib ''Country_Region'' (''countryCode'', 0) (Some F_AssignCountry) (Some F_OutputWord) [],
      attrib ''Channel_bandwidth'' (''channelBand'', 0) (Some F_Assign0To2) (Some F_OutputByte) '';0: auto, 1: 20MHz, 2: 40MHz'',
      attrib ''Guard_Interval'' (''guardInter'', 0) (Some F_Assign0To2) (Some F_OutputByte) '';0: auto, 1: 400ns, 2: 800ns'',
      attrib ''CTS_Protection_Mode'' (''ctsProtect'', 0) (Some F_Assign01) (Some F_OutputByte) '';0: disable, 1: auto'',
      attrib ''beacon_interval'' (''beaconInterval'', 0) (Some F_Assign20To1000) (Some F_OutputWord) '';20..1000'',
      attrib ''DTIM_interval'' (''dtimInter'', 0) (Some F_Assign1To255) (Some F_OutputByte) '';1..255'',
      attrib ''rts_threshold'' (''rtsThreshold'', 0) (Some F_Assign0To2347) (Some F_OutputWord) '';1..2347'',
      attrib ''fragmentation_threshold'' (''fragLength'', 0) (Some F_Assign256To2346) (Some F_OutputWord) '';256..2346'',
      attrib ''Load_balance'' (''loadBalance'', 0) (Some F_Assign01) (Some F_OutputByte) '';0: disabled, 1:enabled'',
      attrib ''Load_threshold_4_SSD1'' (''vapBalance'', 0) (Some F_AssignPercent) (Some F_OutputPercent) [],
      attrib ''Load_threshold_4_SSD2'' (''vapBalance'', 2) (Some F_AssignPercent) (Some F_OutputPercent) [],
      attrib ''Load_threshold_4_SSD3'' (''vapBalance'', 4) (Some F_AssignPercent) (Some F_OutputPercent) [],
      attrib ''Load_threshold_4_SSD4'' (''vapBalance'', 6) (Some F_AssignPercent) (Some F_OutputPercent) []]"

definition AP_Mode :: "attr_s list" where
  "AP_Mode =
     [attrib ''AP_mode'' (''opMode'', 0) (Some F_Assign0To4) (Some F_OutputByte) '';0: Access Point, 1: WDS repeater, 2: WDS bridge, 3: Universal bridge, 4: Monitor'',
      attrib ''MAC1'' (''pxpMac'', 0) (Some F_AssignMac) (Some F_OutputMac) [],
      attrib ''MAC2'' (''pxpMac'', 6) (Some F_AssignMac) (Some F_OutputMac) [],
      attrib ''MAC3'' (''pxpMac'', 12) (Some F_AssignMac) (Some F_OutputMac) [],
      attrib ''MAC4'' (''pxpMac'', 18) (Some F_AssignMac) (Some F_OutputMac) [],
      attrib ''Allow_WDS_repeater'' (''wdsRepeater'', 0) (Some F_Assign01) (Some F_OutputByte) '';0:disabled, 1: enabled'',
      attrib ''Universal_repeater'' (''ucrRepeater'', 0) (Some F_Assign01) (Some F_OutputByte) '';0:disabled, 1: enabled'',
      attrib ''Preferred_SSID'' (''perfssid'', 0) (Some F_AssignSSID) (Some F_OutputStr) '';for universal bridge'',
      attrib ''No_Security'' (''noSecurity'', 0) (Some F_Assign01) (Some F_OutputByte) ('';1: view it as a rogue AP. 0: don'' @ [CHR 0xA1, CHR 0xAF] @ ''t''),
      attrib ''No_in_Legal_AP_List'' (''illegalAp'', 0) (Some F_Assign01) (Some F_OutputByte) ('';1: view it as a rogue AP. 0: don'' @ [CHR 0xA1, CHR 0xAF] @ ''t''),
      attrib ''Legal_AP_List_entry_no'' (''rogueApMacList'', 0) (Some F_Assign0To255) (Some F_OutputWord) '';0..255'',
      attrib ''Legal_AP'' (''rogueApMacList'', 0) (Some F_AssignScMacList) (Some F_OutputScMacList) []]"

definition Management :: "attr_s list" where
  "Management =
     [attrib ''secret_shown'' (''secShow'', 0) (Some F_Assign01) (Some F_OutputByte) '';0: show clear text, 1: just show ********'',
      attrib ''username'' (''loginName'', 0) (Some F_AssignStr64) (Some F_OutputStr) [],
      attrib ''AP_password'' (''loginPasswd'', 0) (Some F_AssignPassword) (Some F_OutputPass) [],
      attrib ''HTTPS_Access'' (''httpsEnable'', 0) (Some F_Assign01) (Some F_OutputByte) '';0:disabled, 1: enabled'',
      attrib ''Wireless_Web_Access'' (''webAccess'', 0) (Some F_Assign01) (Some F_OutputByte) '';0:disabled, 1: enabled'',
      attrib ''Secure_Shell'' (''secureSh'', 0) (Some F_Assign01) (Some F_OutputByte) '';0:disabled, 1: enabled'',
      attrib ''SNMP'' (''snmp'', 0) (Some F_Assign01) (Some F_OutputByte) '';0:disabled, 1: enabled'',
      attrib ''Contact'' (''contact'', 0) (Some F_AssignStr32) (Some F_OutputStr) [],
      attrib ''Device_Name'' (''snmpdevice'', 0) (Some F_AssignStr32) (Some F_OutputStr) [],
      attrib ''Location'' (''snmplocal'', 0) (Some F_AssignStr32) (Some F_OutputStr) [],
      attrib ''Get_Community'' (''getCom'', 0) (Some F_AssignStr32) (Some F_OutputStr) [],
      attrib ''Set_Community'' (''setCom'', 0) (Some F_AssignStr32) (Some F_OutputStr) [],
      attrib ''Trap_Community'' (''trapCom'', 0) (Some F_AssignStr32) (Some F_OutputStr) [],
      attrib ''SNMP_Trusted_Any_Host'' (''snmpTrust'', 0) (Some F_Assign01) (Some F_OutputByte) '';0:disabled, 1: enabled'',
      attrib ''SNMP_Trusted_Host_start_IP'' (''trapStartIp'', 0) (Some F_AssignIP) (Some F_OutputIP) [],
      attrib ''SNMP_Trusted_Host_range'' (''trapRange'', 0) (Some F_Assign1To254) (Some F_OutputByte) '';0..255'',
      attrib ''Trap_Destination'' (''trapServerIp'', 0) (Some F_AssignIP) (Some F_OutputIP) []]"

definition Log_attrs :: "attr_s list" where
  "Log_attrs =
     [attrib ''E-mail_alert'' (''mailAlert'', 0) (Some F_Assign01) (Some F_OutputByte) '';0:disabled, 1: enabled'',
      attrib ''SMTP_server'' (''smtpServ'', 0) (Some F_AssignSMTPServer) (Some F_OutputStr) [],
      attrib ''Email_address_for_logs'' (''mailAddr'', 0) (Some F_AssignMail) (Some F_OutputStr) [],
      attrib ''Log_queue_length'' (''logLength'', 0) (Some F_Assign1To500) (Some F_OutputWord) [],
      attrib ''Log_time_threshold'' (''logTime'', 0) (Some F_Assign60To600) (Some F_OutputWord) [],
      attrib ''Syslog'' (''syslogF'', 0) (Some F_Assign01) (Some F_OutputByte) '';0:disabled, 1: enabled'',
      attrib ''Syslog_server_IP'' (''logIPAddr'', 0) (Some F_AssignIP) (Some F_OutputIP) [],
      attrib ''Unathorized_login_attempt'' (''unAthLogin'', 0) (Some F_Assign01) (Some F_OutputByte) '';0:no log, 1: log'',
      attrib ''Authorized_Login'' (''AthLogin'', 0) (Some F_Assign01) (Some F_OutputByte) '';0:no log, 1: log'',
      attrib ''System_error_message'' (''sysError'', 0) (Some F_Assign01) (Some F_OutputByte) '';0:no log, 1: log'',
      attrib ''Configuration_changes'' (''cfgChange'', 0) (Some F_Assign01) (Some F_OutputByte) '';0:no log, 1: log'']"

record cfg_s =
  cfg_group :: cstr
  cfg_attrs :: "attr_s list"
  cfg_type :: "8 word"

definition cfg_grp :: "cstr \<Rightarrow> attr_s list \<Rightarrow> cfg_s" where
  "cfg_grp n a = \<lparr>cfg_group = n, cfg_attrs = a, cfg_type = CFG_TYPE_ALL\<rparr>"

text \<open>Without the empty first entry, which no loop visits.\<close>

definition CFGData :: "cfg_s list" where
  "CFGData =
     [cfg_grp ''BASIC'' Basic,
      cfg_grp ''Time'' Time_attrs,
      cfg_grp ''Setup_advanced'' Setup_adv,
      cfg_grp ''Wireless_Basic'' Wlan_Basic,
      cfg_grp ''Radius_Server'' Radius_Server,
      cfg_grp ''Wireless_security_1'' Wlan_sec_1,
      cfg_grp ''Wireless_security_2'' Wlan_sec_2,
      cfg_grp ''Wireless_security_3'' Wlan_sec_3,
      cfg_grp ''Wireless_security_4'' Wlan_sec_4,
      cfg_grp ''Wireless_Connection_Control_1'' Wlan_Conn_Control_1,
      cfg_grp ''Wireless_Connection_Control_2'' Wlan_Conn_Control_2,
      cfg_grp ''Wireless_Connection_Control_3'' Wlan_Conn_Control_3,
      cfg_grp ''Wireless_Connection_Control_4'' Wlan_Conn_Control_4,
      cfg_grp ''VLAN_QoS'' VLAN_QoS,
      cfg_grp ''Wireless_Advanced'' Wlan_Adv,
      cfg_grp ''AP_Mode'' AP_Mode,
      cfg_grp ''Management'' Management,
      cfg_grp ''Log'' Log_attrs]"

definition matchGroup :: "cstr \<Rightarrow> cfg_s option" where
  "matchGroup name = find (\<lambda>g. cfg_group g = name) CFGData"

definition matchAttr :: "cstr \<Rightarrow> attr_s list \<Rightarrow> attr_s option" where
  "matchAttr name attrs = find (\<lambda>a. attr_name a = name) attrs"

end
