(* ===== verification/Edit_Parse.thy ===== *)
theory Edit_Parse
  imports Edit_Table
begin

text \<open>
  Reading a configuration file (\<open>libs/libeditapcfg/editapcfg.c\<close>): \<open>GetaGroup\<close> looks for a line with a name
  in brackets, \<open>GetaAttr\<close> for a line with a name, an equals sign and a value, \<open>ParseNAssignValue\<close> hands
  the values of one group to the assign functions. The stream is the rest of the file and its
  end-of-file flag, which \<open>fgets\<close> sets when it meets the end and \<open>fseek\<close> resets.
\<close>

type_synonym stream = "bytes \<times> bool"

text \<open>\<open>fgets (buffer, 129, fp)\<close> after \<open>buffer[0] = 0\<close>.\<close>

definition get_line :: "bytes \<Rightarrow> cstr \<times> stream" where
  "get_line b = (let (l, r) = c_fgets 128 b in (c_read l, r, length l < 128 \<and> (l = [] \<or> last l \<noteq> LF)))"

definition stream_left :: "stream \<Rightarrow> nat" where
  "stream_left st = length (fst st) + (if snd st then 0 else 1)"

lemma get_line_left: "get_line b = (l, st) \<Longrightarrow> stream_left st < stream_left (b, False)"
proof (cases b)
  case (Cons c r)
  moreover assume "get_line b = (l, st)"
  ultimately show ?thesis
    using c_fgets_progress [of 127 c r]
    by (auto simp: get_line_def stream_left_def split: prod.splits)
qed (auto simp: get_line_def stream_left_def numeral_eq_Suc split: prod.splits)

subsection \<open>Groups\<close>

text \<open>The text between the first opening bracket of a line and the next closing one.\<close>

definition group_of :: "cstr \<Rightarrow> cstr" where
  "group_of buffer =
     (let r = tl (dropWhile (\<lambda>c. c \<noteq> CHR ''['') buffer) in
      if CHR '']'' \<in> set r then takeWhile (\<lambda>c. c \<noteq> CHR '']'') r else [])"

function GetaGroup :: "stream \<Rightarrow> cstr \<times> stream" where
  "GetaGroup (b, eof) =
     (if eof then ([], b, eof)
      else let (buffer, st) = get_line b; g = group_of buffer in if g \<noteq> [] then (g, st) else GetaGroup st)"
  by pat_completeness auto
termination
  by (relation "measure stream_left") (auto dest!: get_line_left [OF sym] simp: stream_left_def split: if_splits)

declare GetaGroup.simps [simp del]

subsection \<open>Attributes\<close>

text \<open>The position of the equals sign, 0 when a blank comes first or there is none.\<close>

definition findEQ :: "cstr \<Rightarrow> nat" where
  "findEQ buff =
     (let n = length (takeWhile (\<lambda>c. c \<noteq> CHR '' '' \<and> c \<noteq> CHR ''='') buff) in
      if n < length buff \<and> buff ! n = CHR ''='' then n else 0)"

text \<open>
  A value ends at the first character that is not printable or is a blank, except in the four names of
  the access points, which end at a carriage return. (The branch for a blank that asks for \<open>attribute[5] == '='\<close>
  only concerns a name of four characters, which no group has: a name contains no equals sign.)
\<close>

definition value_of :: "cstr \<Rightarrow> cstr \<Rightarrow> cstr" where
  "value_of attribute s =
     (if attribute \<in> set [''SSID1'', ''SSID2'', ''SSID3'', ''SSID4''] then takeWhile (\<lambda>c. c \<noteq> CR) s
      else takeWhile (\<lambda>c. 32 < code c \<and> code c < 127) s)"

function GetaAttr :: "stream \<Rightarrow> (cstr \<times> cstr) option \<times> stream" where
  "GetaAttr (b, eof) =
     (if eof then (None, b, eof)
      else let (buffer, st) = get_line b in
        if head_char buffer = CHR ''['' then (None, b, False)
        else if head_char buffer \<noteq> NUL \<and> head_char buffer \<noteq> CHR '' '' \<and> findEQ buffer \<noteq> 0 then
          (let j = findEQ buffer; attribute = take j buffer in (Some (attribute, value_of attribute (drop (j + 1) buffer)), st))
        else GetaAttr st)"
  by pat_completeness auto
termination
  by (relation "measure stream_left") (auto dest!: get_line_left [OF sym] simp: stream_left_def split: if_splits)

declare GetaAttr.simps [simp del]

text \<open>One round of each search.\<close>

lemma GetaAttr_eof [simp]: "GetaAttr (b, True) = (None, b, True)"
  by (simp add: GetaAttr.simps)

lemma GetaGroup_eof [simp]: "GetaGroup (b, True) = ([], b, True)"
  by (simp add: GetaGroup.simps)

lemma GetaAttr_stop: "get_line b = (l, st) \<Longrightarrow> head_char l = CHR ''['' \<Longrightarrow> GetaAttr (b, False) = (None, b, False)"
  by (simp add: GetaAttr.simps)

lemma GetaAttr_found:
  "get_line b = (l, st) \<Longrightarrow> head_char l \<notin> {CHR ''['', CHR '' '', NUL} \<Longrightarrow> findEQ l \<noteq> 0 \<Longrightarrow>
   GetaAttr (b, False) = (Some (take (findEQ l) l, value_of (take (findEQ l) l) (drop (findEQ l + 1) l)), st)"
  by (simp add: GetaAttr.simps Let_def)

lemma GetaAttr_skip:
  "get_line b = (l, st) \<Longrightarrow> head_char l \<noteq> CHR ''['' \<Longrightarrow> head_char l \<in> {CHR '' '', NUL} \<or> findEQ l = 0 \<Longrightarrow>
   GetaAttr (b, False) = GetaAttr st"
  by (auto simp: GetaAttr.simps [of b])

lemma GetaGroup_found: "get_line b = (l, st) \<Longrightarrow> group_of l \<noteq> [] \<Longrightarrow> GetaGroup (b, False) = (group_of l, st)"
  by (simp add: GetaGroup.simps Let_def)

lemma GetaGroup_skip: "get_line b = (l, st) \<Longrightarrow> group_of l = [] \<Longrightarrow> GetaGroup (b, False) = GetaGroup st"
  by (simp add: GetaGroup.simps [of b] Let_def)

text \<open>Each search consumes what it has read.\<close>

lemma GetaAttr_left:
  "GetaAttr st = (r, st') \<Longrightarrow> stream_left st' \<le> stream_left st \<and> (r \<noteq> None \<longrightarrow> stream_left st' < stream_left st)"
proof (induction "stream_left st" arbitrary: st r st' rule: less_induct)
  case less
  obtain b eof where st: "st = (b, eof)" by (cases st)
  obtain l st2 where g: "get_line b = (l, st2)" by (cases "get_line b")
  show ?case
  proof (cases eof)
    case False
    have lt: "stream_left st2 < stream_left st" using get_line_left [OF g] st False by simp
    consider "head_char l = CHR ''[''" | "head_char l \<notin> {CHR ''['', CHR '' '', NUL}" "findEQ l \<noteq> 0"
      | "head_char l \<noteq> CHR ''[''" "head_char l \<in> {CHR '' '', NUL} \<or> findEQ l = 0" by blast
    then show ?thesis
    proof cases
      case 1
      then show ?thesis using less(2) st False GetaAttr_stop [OF g] by auto
    next
      case 2
      then show ?thesis using less(2) st False lt GetaAttr_found [OF g] by auto
    next
      case 3
      then have "GetaAttr st2 = (r, st')" using less(2) st False GetaAttr_skip [OF g] by simp
      then show ?thesis using less(1) [OF lt] lt by (meson less_or_eq_imp_le order.strict_trans1)
    qed
  qed (use less(2) st in auto)
qed

lemma GetaGroup_left:
  "GetaGroup st = (g, st') \<Longrightarrow> stream_left st' \<le> stream_left st \<and> (\<not> snd st \<longrightarrow> stream_left st' < stream_left st)"
proof (induction "stream_left st" arbitrary: st g st' rule: less_induct)
  case less
  obtain b eof where st: "st = (b, eof)" by (cases st)
  obtain l st2 where l: "get_line b = (l, st2)" by (cases "get_line b")
  show ?case
  proof (cases eof)
    case False
    have lt: "stream_left st2 < stream_left st" using get_line_left [OF l] st False by simp
    show ?thesis
    proof (cases "group_of l = []")
      case True
      then have "GetaGroup st2 = (g, st')" using less(2) st False GetaGroup_skip [OF l] by simp
      then show ?thesis using less(1) [OF lt] lt by (meson less_or_eq_imp_le order.strict_trans1)
    next
      case grp: False
      then show ?thesis using less(2) st False lt GetaGroup_found [OF l] by auto
    qed
  qed (use less(2) st in auto)
qed

subsection \<open>Values\<close>

text \<open>The result tells whether a value was assigned.\<close>

function ParseNAssignValue :: "attr_s list \<Rightarrow> 8 word \<Rightarrow> stream \<Rightarrow> bool \<Rightarrow> 'a edit_scheme \<Rightarrow>
    (bool \<times> stream \<times> 'a edit_scheme) option" where
  "ParseNAssignValue attrs type st good s =
     (if snd st then Some (good, st, s)
      else case GetaAttr st of
        (None, st) \<Rightarrow> Some (good, st, s)
      | (Some (attr, v), st) \<Rightarrow>
          (case matchAttr attr attrs of
             None \<Rightarrow> ParseNAssignValue attrs type st good s
           | Some a \<Rightarrow>
               (case (if attr_type a AND type = 0 then None else assignfunc a) of
                  None \<Rightarrow> ParseNAssignValue attrs type st good s
                | Some f \<Rightarrow>
                    if v \<noteq> [] \<or> isNvAssignFunc f then
                      (case run_assign f (attr_var a) v s of
                         None \<Rightarrow> None
                       | Some s \<Rightarrow> ParseNAssignValue attrs type st True s)
                    else ParseNAssignValue attrs type st good s)))"
  by pat_completeness auto
termination
  by (relation "measure (\<lambda>(attrs, type, st, good, s). stream_left st)") (auto dest!: GetaAttr_left [OF sym])

declare ParseNAssignValue.simps [simp del]

lemma ParseNAssignValue_left:
  "ParseNAssignValue attrs type st good s = Some (g, st', s') \<Longrightarrow> stream_left st' \<le> stream_left st"
proof (induction "stream_left st" arbitrary: st good s rule: less_induct)
  case less
  obtain r st2 where ga: "GetaAttr st = (r, st2)" by (cases "GetaAttr st")
  show ?case
  proof (cases "snd st \<or> r = None")
    case True
    then show ?thesis using less(2) GetaAttr_left [OF ga] ga
      by (auto simp: ParseNAssignValue.simps [of attrs type st] split: if_splits)
  next
    case False
    then have lt: "stream_left st2 < stream_left st" using GetaAttr_left [OF ga] by simp
    obtain good2 s2 where "ParseNAssignValue attrs type st2 good2 s2 = Some (g, st', s')"
      using less(2) ga False
      by (auto simp: ParseNAssignValue.simps [of attrs type st] split: option.splits if_splits)
    then show ?thesis using less(1) [OF lt] lt by (meson less_or_eq_imp_le order.trans)
  qed
qed

subsection \<open>The file\<close>

text \<open>The loop of \<open>parseCFG\<close>: the number of groups in which a value was assigned.\<close>

function parse_groups :: "8 word \<Rightarrow> stream \<Rightarrow> nat \<Rightarrow> 'a edit_scheme \<Rightarrow> (nat \<times> 'a edit_scheme) option" where
  "parse_groups type st goodGroup s =
     (if snd st then Some (goodGroup, s)
      else let (name, st) = GetaGroup st in
        (case matchGroup name of
           None \<Rightarrow> parse_groups type st goodGroup s
         | Some g \<Rightarrow>
             if cfg_type g AND type = 0 then parse_groups type st goodGroup s
             else
               (case ParseNAssignValue (cfg_attrs g) type st False s of
                  None \<Rightarrow> None
                | Some (good, st, s) \<Rightarrow> parse_groups type st (goodGroup + (if good then 1 else 0)) s)))"
  by pat_completeness auto
termination
proof (relation "measure (\<lambda>(type, st, n, s). stream_left st)", goal_cases)
  case (4 type st goodGroup s x name st2 g r good y st3 s3)
  then show ?case
    using GetaGroup_left [of st name st2] ParseNAssignValue_left [of "cfg_attrs g" type st2 False s good st3 s3] by auto
qed (auto dest!: GetaGroup_left [OF sym])

declare parse_groups.simps [simp del]

subsection \<open>Corrections\<close>

text \<open>The number on the last line in front of \<open>current:\<close> is the highest channel.\<close>

definition max_channel :: "'a edit_scheme \<Rightarrow> int" where
  "max_channel s =
     (case files s ''/tmp/chan_list'' of
        None \<Rightarrow> 0
      | Some b \<Rightarrow>
          (let ls = takeWhile (\<lambda>l. l \<noteq> ''current:'' @ [LF]) (map c_read (fgets_all 30 b)) in
           if ls = [] then 0 else atoi (last ls)))"

definition correctVariables :: "'a edit_scheme \<Rightarrow> 'a edit_scheme option" where
  "correctVariables s = do {
     let maxChannel = max_channel s;
     channel \<leftarrow> rd_byte (''channel'', 0) s;
     s \<leftarrow> (if maxChannel < int channel then put_byte (''channel'', 0) 0 s else Some s);
     opMode \<leftarrow> rd_byte (''opMode'', 0) s;
     channel \<leftarrow> rd_byte (''channel'', 0) s;
     if opMode \<noteq> 0 \<and> channel = 0 then put_byte (''channel'', 0) maxChannel s else Some s
   }"

end
