(* ===== verification/Lca_Conv.thy ===== *)
theory Lca_Conv
  imports Util_V6
begin

text \<open>
  \<open>lca_conv.c\<close>, which \<open>libs/libeditapcfg\<close> and the shell's command line each have a copy of: the character set that belongs
  to the country, and the conversion of a name between it and UTF-8.
\<close>

definition convTable :: "(int \<times> cstr) list" where
  "convTable =
     [(840, ''CP1252''), (36, ''CP1252''), (76, ''CP1252''), (156, ''CP936''), (410, ''CP949''), (1702, ''CP1252''),
      (208, ''CP1252''), (1276, ''CP1252''), (246, ''CP1252''), (250, ''CP1252''), (276, ''CP1252''), (372, ''CP1252''),
      (380, ''CP1252''), (392, ''CP932''), (528, ''CP1252''), (554, ''CP1252''), (578, ''CP1252''), (724, ''CP1252''),
      (752, ''CP1252''), (756, ''CP1252''), (826, ''CP1252''), (484, ''CP1252''), (630, ''CP1252''), (1076, ''CP1252'')]"

text \<open>The result is what \<open>libiconv\<close> returns and the bytes it wrote, at most \<open>outbytesleft\<close> of them; a
  country without a character set is the error -1.\<close>

definition do_convert :: "bool \<Rightarrow> bytes \<Rightarrow> nat \<Rightarrow> 'a env_scheme \<Rightarrow> ((int \<times> bytes) \<times> 'a env_scheme) option" where
  "do_convert to_utf inbuf outbytesleft s = do {
     (CountryCode, s) \<leftarrow> apCfgCountryCodeGet s;
     (case map_of convTable CountryCode of
        None \<Rightarrow> Some ((-1, []), s)
      | Some charset \<Rightarrow>
          (let (ret, out) = (if to_utf then iconv s charset ''UTF-8'' inbuf else iconv s ''UTF-8'' charset inbuf) in
           Some ((ret, take outbytesleft out), s)))
   }"

end
