(* ===== verification/Edit_Get.thy ===== *)
theory Edit_Get
  imports Edit_Parse Apcfg_Checked Util_Defaults Lca_Conv
begin

text \<open>
  \<open>outputCFGGet\<close> of \<open>libs/libeditapcfg/editapcfg.c\<close>: the settings are read with the getters of
  \<open>libapcfg\<close> and copied into the variables, group by group in the order of the code. A condition that
  calls a getter anew for every comparison is modelled as the same sequence of calls.
\<close>

type_synonym 'a edit_step = "'a edit_scheme \<Rightarrow> 'a edit_scheme option"

primrec steps :: "'a edit_step list \<Rightarrow> 'a edit_step" where
  "steps [] s = Some s"
| "steps (f # fs) s = do { s \<leftarrow> f s; steps fs s }"

text \<open>The copies: \<open>strcpy (var, get ())\<close>, \<open>var = get ()\<close> in one or two bytes, \<open>memcpy (var, &ip, 4)\<close>.\<close>

definition load_str :: "ptr \<Rightarrow> ('a edit_scheme \<Rightarrow> (cstr \<times> 'a edit_scheme) option) \<Rightarrow> 'a edit_step" where
  "load_str p get s = do { (v, s) \<leftarrow> get s; store_str p v s }"

definition load_byte :: "ptr \<Rightarrow> ('a edit_scheme \<Rightarrow> (int \<times> 'a edit_scheme) option) \<Rightarrow> 'a edit_step" where
  "load_byte p get s = do { (v, s) \<leftarrow> get s; put_byte p v s }"

definition load_word :: "ptr \<Rightarrow> ('a edit_scheme \<Rightarrow> (int \<times> 'a edit_scheme) option) \<Rightarrow> 'a edit_step" where
  "load_word p get s = do { (v, s) \<leftarrow> get s; put_word p v s }"

definition load_ip :: "ptr \<Rightarrow> ('a edit_scheme \<Rightarrow> (32 word \<times> 'a edit_scheme) option) \<Rightarrow> 'a edit_step" where
  "load_ip p get s = do { (v, s) \<leftarrow> get s; put_at p (be32 v) s }"

text \<open>\<open>get () == x1 ? r1 : (get () == x2 ? r2 : ... d)\<close>.\<close>

primrec first_eq :: "('s \<Rightarrow> (int \<times> 's) option) \<Rightarrow> (int \<times> int) list \<Rightarrow> int \<Rightarrow> 's \<Rightarrow> (int \<times> 's) option" where
  "first_eq get [] d s = Some (d, s)"
| "first_eq get (xr # xs) d s = do { (v, s) \<leftarrow> get s; if v = fst xr then Some (snd xr, s) else first_eq get xs d s }"

definition if_var :: "string \<Rightarrow> 'a edit_step list \<Rightarrow> 'a edit_step" where
  "if_var x fs s = do { v \<leftarrow> rd_byte (x, 0) s; if v \<noteq> 0 then steps fs s else Some s }"

definition if_get :: "('a edit_scheme \<Rightarrow> (int \<times> 'a edit_scheme) option) \<Rightarrow> 'a edit_step list \<Rightarrow> 'a edit_step" where
  "if_get get fs s = do { (v, s) \<leftarrow> get s; if v \<noteq> 0 then steps fs s else Some s }"

definition c_not :: "('s \<Rightarrow> (int \<times> 's) option) \<Rightarrow> 's \<Rightarrow> (int \<times> 's) option" where
  "c_not get s = do { (v, s) \<leftarrow> get s; Some (if v = 0 then 1 else 0, s) }"

text \<open>\<open>scHexs2Chars (text, var, 6, 1)\<close>.\<close>

definition put_mac :: "ptr \<Rightarrow> cstr \<Rightarrow> 'a edit_step" where
  "put_mac p t s = do { m \<leftarrow> scHexs2Chars t 6 True; put_at p (map (\<lambda>w. char_of (unat w)) m) s }"

subsection \<open>Basic settings and time\<close>

definition get_ids :: "'a edit_step" where
  "get_ids s = do {
     s \<leftarrow> load_byte (''secShow'', 0) apCfgSecMaskGet s;
     ((_, info), s) \<leftarrow> getMgtBrInfo s;
     mac \<leftarrow> ii_mac info;
     s \<leftarrow> put_mac (''APmac'', 0) mac s;
     load_str (''APpin'', 0) (apCfgDevicePinGet 0 0) s
   }"

definition get_basic :: "'a edit_step" where
  "get_basic = steps
     [load_str (''APName'', 0) apCfgSysNameGet, load_str (''APDesc'', 0) apCfgDescGet, load_str (''APLang'', 0) apCfgSysLangGet,
      load_byte (''dhcpF'', 0) apCfgDhcpEnableGet, load_byte (''dhcp6F'', 0) apCfgDhcp6EnableGet,
      load_ip (''IPAddress4'', 0) apCfgIpAddrGet, load_ip (''subnet4'', 0) apCfgIpMaskGet, load_ip (''gateway4'', 0) apCfgGatewayAddrGet,
      load_str (''dnsServer1'', 0) apCfgNameSrvGet, load_str (''dnsServer2'', 0) apCfgNameSrv2Get]"

text \<open>\<open>ipv6Buf\<close> is not initialised: without an address from either source it has no value.\<close>

definition get_v6_auto :: "'a edit_scheme \<Rightarrow> (cstr option \<times> 'a edit_scheme) option" where
  "get_v6_auto s = do {
     ((_, info), s) \<leftarrow> getMgtBrv6Info 1 s;
     ((_, info), s) \<leftarrow> (if v6_ipaddr info = [] then getMgtBrv6Info 2 s else Some ((0, info), s));
     buf \<leftarrow> (if v6_ipaddr info \<noteq> [] then map_option Some (into_buf 45 (v6_ipaddr info)) else Some None);
     s \<leftarrow> (if v6_gw info \<noteq> [] then store_str (''gateway6'', 0) (v6_gw info) s else Some s);
     Some (buf, s)
   }"

definition get_v6_static :: "'a edit_scheme \<Rightarrow> (cstr option \<times> 'a edit_scheme) option" where
  "get_v6_static s = do {
     (a, s) \<leftarrow> apCfgIpv6AddrGet s;
     buf \<leftarrow> into_buf 45 a;
     s \<leftarrow> load_str (''gateway6'', 0) apCfgGatewayv6AddrGet s;
     Some (Some buf, s)
   }"

definition get_v6 :: "'a edit_step" where
  "get_v6 s = do {
     s \<leftarrow> load_byte (''IPv6'', 0) apCfgipv6modeGet s;
     IPv6 \<leftarrow> rd_byte (''IPv6'', 0) s;
     if IPv6 = 0 then Some s
     else do {
       (dhcp6, s) \<leftarrow> apCfgDhcp6EnableGet s;
       (buf, s) \<leftarrow> (if dhcp6 \<noteq> 0 then get_v6_auto s else get_v6_static s);
       s \<leftarrow> load_str (''IPv6dnsServer1'', 0) apCfgNameSrv61Get s;
       s \<leftarrow> load_str (''IPv6dnsServer2'', 0) apCfgNameSrv62Get s;
       ipv6Buf \<leftarrow> buf;
       (case strtok_all (CHR ''/'') ipv6Buf of
          [] \<Rightarrow> Some s
        | p # ps \<Rightarrow> do {
            s \<leftarrow> store_str (''IPAddress6'', 0) p s;
            (case ps of [] \<Rightarrow> Some s | l # _ \<Rightarrow> put_byte (''prefixlen'', 0) (atoi l) s)
          })
     }
   }"

text \<open>\<open>strtok\<close> takes the date, the weekday and the time out of the text.\<close>

definition get_time :: "'a edit_step" where
  "get_time s = do {
     s \<leftarrow> load_byte (''timesetting'', 0) apCfgTimeModeGet s;
     timesetting \<leftarrow> rd_byte (''timesetting'', 0) s;
     s \<leftarrow> put_byte (''timesetting'', 0) (if timesetting \<noteq> 0 then 0 else 1) s;
     (tpbuff, s) \<leftarrow> getTimeofDay False 128 s;
     (d, t) \<leftarrow> (case strtok_all (CHR '' '') tpbuff of d # _ # t # _ \<Rightarrow> Some (d, t) | _ \<Rightarrow> None);
     s \<leftarrow> store_str (''date_p'', 0) d s;
     s \<leftarrow> store_str (''time_p'', 0) t s;
     steps [load_str (''timeZone'', 0) apCfgTimezoneOffsetGet, load_byte (''usDefntp'', 0) apCfgNtpModeGet,
       load_byte (''daylightSaving'', 0) apCfgDaylightSavingGet, load_str (''ntpServer'', 0) apCfgNtpServerGet] s
   }"

definition get_setup :: "'a edit_step" where
  "get_setup = steps
     [load_byte (''htBonjour'', 0) apCfgBonjourGet, load_byte (''htForce100m'', 0) apCfgForce100mGet,
      load_byte (''htAutoNegotiation'', 0) apCfgAutonegoGet, load_byte (''htPortSpeed'', 0) apCfgPortspeedGet,
      load_byte (''htDuplexMode'', 0) apCfgDuplexmodeGet, load_byte (''htRedirect'', 0) apCfgRedirectModeGet,
      if_var ''htRedirect'' [load_str (''htRedirectUrl'', 0) apCfgRedirectUrlGet],
      load_byte (''ethDot1xAuth'', 0) scApCfgDot1xSuppEnableGet,
      if_var ''ethDot1xAuth''
        [load_byte (''authViaMac'', 0) scApCfgDot1xSuppMacEnableGet, load_str (''authName'', 0) scApCfgDot1xSuppUsernameGet,
         load_str (''authPasswd'', 0) scApCfgDot1xSuppPasswordGet]]"

subsection \<open>Wireless settings\<close>

definition get_radio :: "'a edit_step" where
  "get_radio = steps
     [load_byte (''wlsMode'', 0) (\<lambda>s. do {
        (on, s) \<leftarrow> apCfgWlanStateGet 0 s;
        if on = 0 then Some (0, s)
        else first_eq (apCfgFreqSpecGet 0)
          [(MODE_SELECT_11B, 1), (MODE_SELECT_11G, 2), (MODE_SELECT_11N, 3), (MODE_SELECT_11BG, 4)] 7 s
      }),
      (\<lambda>s. do {
        (auto, s) \<leftarrow> apCfgAutoChannelGet 0 s;
        if auto \<noteq> 0 then put_byte (''channel'', 0) 0 s else load_byte (''channel'', 0) (apCfgRadioChannelGet 0) s
      }),
      load_byte (''vapIsolated'', 0) (apCfgInterVapForwardingGet 0)]"

definition get_security :: "nat \<Rightarrow> 'a edit_step" where
  "get_security v = steps
     [load_byte (''secSystem'', v) (first_eq (apCfgAuthTypeGet 0 (int v))
        [(APCFG_AUTH_NONE, 0), (APCFG_AUTH_WPAPSK, 2), (APCFG_AUTH_WPA2PSK, 3), (APCFG_AUTH_WPA_AUTO_PSK, 4),
         (APCFG_AUTH_WPA, 5), (APCFG_AUTH_WPA2, 6), (APCFG_AUTH_WPA_AUTO, 7), (APCFG_AUTH_DOT1X, 8)] 1),
      load_byte (''authType'', v) (first_eq (apCfgAuthTypeGet 0 (int v)) [(APCFG_AUTH_AUTO, 0), (APCFG_AUTH_SHARED_KEY, 2)] 1),
      (\<lambda>s. do {
        sec \<leftarrow> rd_byte (''secSystem'', v) s;
        if sec = 1 then load_byte (''encrypt'', v) (first_eq (apCfgKeyBitLenGet 0 (int v)) [(40, 64)] 128) s
        else load_byte (''encrypt'', v) (first_eq (apCfgWPACipherGet 0 (int v)) [(WPA_CIPHER_TKIP, 1), (WPA_CIPHER_AES, 2)] 3) s
      }),
      load_byte (''keyNo'', v) (\<lambda>s. do { (k, s) \<leftarrow> apCfgDefKeyGet 0 (int v) s; Some (k - 1 + 1, s) }),
      clear (''key1'', 33 * v) 33, clear (''key2'', 33 * v) 33, clear (''key3'', 33 * v) 33, clear (''key4'', 33 * v) 33,
      clear (''preShared'', 65 * v) 65,
      load_str (''key1'', 33 * v) (apCfgKeyValGet 0 (int v) 1), load_str (''key2'', 33 * v) (apCfgKeyValGet 0 (int v) 2),
      load_str (''key3'', 33 * v) (apCfgKeyValGet 0 (int v) 3), load_str (''key4'', 33 * v) (apCfgKeyValGet 0 (int v) 4),
      load_str (''preShared'', 65 * v) (apCfgPassphraseGet 0 (int v)),
      load_word (''keyrenew'', 2 * v) (apCfgGroupKeyUpdateIntervalGet 0 (int v))]"

text \<open>At most 20 entries of the list; entries behind the list's end stay as they are.\<close>

fun put_macs :: "ptr \<Rightarrow> cstr list \<Rightarrow> 'a edit_step" where
  "put_macs p [] s = Some s"
| "put_macs p (m # ms) s = do { s \<leftarrow> put_mac p m s; put_macs (fst p, snd p + 6) ms s }"

definition get_acl :: "nat \<Rightarrow> 'a edit_step" where
  "get_acl v s = do {
     s \<leftarrow> load_byte (''aclFlag'', v) (apCfgAclModeGet 0 (int v)) s;
     s \<leftarrow> load_byte (''aclType'', v) (apCfgAclTypeGet 0 (int v)) s;
     (es, s) \<leftarrow> acl_wait 0 (int v) s;
     s \<leftarrow> put_macs (''aclMac'', 120 * v) (map acl_mac (take 20 es)) s;
     scAclBufFree 0 (int v) s
   }"

definition get_vap :: "nat \<Rightarrow> 'a edit_step" where
  "get_vap v s = do {
     (active, s) \<leftarrow> apCfgActiveModeGet 0 (int v) s;
     if active = 0 then Some s
     else steps
       [load_str (''ssid'', 33 * v) (apCfgSsidGet 0 (int v)),
        load_byte (''ssidBroadcast'', v) (c_not (apCfgSsidModeGet 0 (int v))),
        load_byte (''wlsSeparation'', v) (apCfgIntraVapForwardingGet 0 (int v)),
        get_security v, get_acl v,
        if_get apCfgVlanModeGet
          [load_word (''vapVlan'', 2 * v) (apCfgVlanPvidGet 0 (int v)), load_byte (''vapPri'', v) (apCfgPriorityGet 0 (int v))],
        load_byte (''vapWmm'', v) (apCfgWmeGet 0 (int v)),
        if_get (apCfgBalanceModeGet 0) [load_word (''vapBalance'', 2 * v) (apCfgLoadBalanceGet 0 (int v))]] s
   }"

definition get_vaps :: "'a edit_step" where
  "get_vaps = steps [get_vap 0, get_vap 1, get_vap 2, get_vap 3]"

text \<open>The dots become terminators, and the four numbers are read one behind the other: an address with
  less than three dots is read beyond its end.\<close>

fun split_dots :: "cstr \<Rightarrow> cstr list" where
  "split_dots [] = [[]]"
| "split_dots (c # s) = (if c = CHR ''.'' then [] # split_dots s else (case split_dots s of w # ws \<Rightarrow> (c # w) # ws | [] \<Rightarrow> [[c]]))"

definition acpcfg_edit_setip :: "ptr \<Rightarrow> cstr \<Rightarrow> 'a edit_step" where
  "acpcfg_edit_setip ipAddr ipStr s = do {
     ipstrtemp \<leftarrow> into_buf 20 ipStr;
     (case split_dots ipstrtemp of
        a # b # c # d # _ \<Rightarrow> put_at ipAddr (map (\<lambda>w. char_of (nat (atoi w mod 256))) [a, b, c, d]) s
      | _ \<Rightarrow> None)
   }"

definition load_setip :: "ptr \<Rightarrow> ('a edit_scheme \<Rightarrow> (cstr \<times> 'a edit_scheme) option) \<Rightarrow> 'a edit_step" where
  "load_setip p get s = do { (v, s) \<leftarrow> get s; acpcfg_edit_setip p v s }"

definition get_radius :: "'a edit_step" where
  "get_radius = steps
     [load_setip (''authSIP1'', 0) (apCfgRadiusServerGet 0 0), load_word (''authSPort1'', 0) (apCfgRadiusPortGet 0 0),
      load_str (''authSSecret1'', 0) (apCfgRadiusSecretGet 0 0),
      load_setip (''authSIP2'', 0) (apCfgBackupRadiusServerGet 0 0), load_word (''authSPort2'', 0) (apCfgBackupRadiusPortGet 0 0),
      load_str (''authSSecret2'', 0) (apCfgBackupRadiusSecretGet 0 0)]"

definition get_vlan :: "'a edit_step" where
  "get_vlan = steps
     [load_byte (''vlan'', 0) apCfgVlanModeGet,
      if_var ''vlan''
        [load_word (''nativeVid'', 0) apCfgNativeVlanIdGet, load_word (''manageVid'', 0) apCfgManagementVlanIdGet,
         load_byte (''vlanTag'', 0) apCfgNativeVlanTagGet, load_byte (''wdsTag'', 0) apCfgWdsVlanTagGet,
         load_str (''wdsVlanList'', 0) apCfgwdsVlanListGet]]"

definition get_advanced :: "'a edit_step" where
  "get_advanced = steps
     [load_byte (''worldwide'', 0) (scApCfg80211dEnabledGet 0), load_word (''countryCode'', 0) apCfgCountryCodeGet,
      load_byte (''channelBand'', 0) (first_eq (apCfgChannelWidthModeGet 0) [(CWM_MODE_20M, 1), (CWM_MODE_40M, 2)] 0),
      load_byte (''guardInter'', 0) (first_eq (scApCfgShortGIGet 0) [(SHORTGI_SHORT, 1), (SHORTGI_LONG, 2)] 0),
      load_byte (''ctsProtect'', 0) (apCfgCTSModeGet 0), load_word (''beaconInterval'', 0) (apCfgBeaconIntervalGet 0),
      load_byte (''dtimInter'', 0) (scApCfgDtimIntervalGet 0), load_word (''rtsThreshold'', 0) (apCfgRtsThresholdGet 0),
      load_word (''fragLength'', 0) (apCfgFragThresholdGet 0), load_byte (''loadBalance'', 0) (apCfgBalanceModeGet 0)]"

subsection \<open>Mode of operation and the lists of access points\<close>

definition no_mac :: cstr where "no_mac = ''00:00:00:00:00:00''"

definition put_remote :: "ptr \<Rightarrow> ('a edit_scheme \<Rightarrow> (cstr \<times> 'a edit_scheme) option) \<Rightarrow> 'a edit_step" where
  "put_remote p get s = do {
     (m, s) \<leftarrow> get s;
     remotemac \<leftarrow> into_buf 20 m;
     if remotemac \<noteq> no_mac then put_mac p remotemac s else Some s
   }"

definition get_bridges :: "'a edit_step" where
  "get_bridges = steps
     (concat (map (\<lambda>i. [clear (''pxpMac'', 6 * i) 6, put_remote (''pxpMac'', 6 * i) (apCfgRemoteWbrMacAddrGet 0 i)]) [0, 1, 2, 3]))"

text \<open>The name of the remote access point, in UTF-8 where it can be converted.\<close>

definition get_perfssid :: "'a edit_step" where
  "get_perfssid s = do {
     (pSrc, s) \<leftarrow> apCfgSsidGet 0 0 s;
     ((ret, out), s) \<leftarrow> do_convert True pSrc 128 s;
     if ret \<noteq> -1 then do {
       converted \<leftarrow> (if length out = 128 then c_string out else Some (c_read out));
       store_str (''perfssid'', 0) converted s
     }
     else store_str (''perfssid'', 0) pSrc s
   }"

fun put_legal :: "cstr list \<Rightarrow> nat \<Rightarrow> 'a edit_step" where
  "put_legal [] i s = Some s"
| "put_legal (m # ms) i s = do {
     s \<leftarrow> put_word (''rogueApMacList'', 0) (int i + 1) s;
     t \<leftarrow> scMacStr12ToStr17 m (CHR '':'');
     s \<leftarrow> put_at (rogue_entry (''rogueApMacList'', 0) i) (take 17 (t @ replicate 17 NUL) @ [NUL]) s;
     put_legal ms (i + 1) s
   }"

definition get_legal :: "'a edit_step" where
  "get_legal s = do {
     (pList, s) \<leftarrow> scApCfgLegalApListGet s;
     s \<leftarrow> clear (''rogueApMacList'', 0) 4 s;
     if pList = [] then Some s
     else (let ms = strtok_all (CHR '','') pList in if ms = [] then None else put_legal ms 0 s)
   }"

definition get_mode :: "'a edit_step" where
  "get_mode s = do {
     s \<leftarrow> load_byte (''opMode'', 0) (first_eq (apCfgOpModeGet 0)
       [(CFG_OP_MODE_AP_PTP, 1), (CFG_OP_MODE_MPT, 2), (CFG_OP_MODE_UC, 3), (CFG_OP_MODE_UR, 3), (CFG_OP_MODE_ROGAP, 4)] 0) s;
     s \<leftarrow> load_byte (''wdsRepeater'', 0) (first_eq (apCfgOpModeGet 0) [(CFG_OP_MODE_AP_PTMP, 1)] 0) s;
     s \<leftarrow> load_byte (''ucrRepeater'', 0) (first_eq (apCfgOpModeGet 0) [(CFG_OP_MODE_UR, 1)] 0) s;
     wdsRepeater \<leftarrow> rd_byte (''wdsRepeater'', 0) s;
     opMode \<leftarrow> rd_byte (''opMode'', 0) s;
     s \<leftarrow> (if wdsRepeater \<noteq> 0 \<or> opMode = 2 then get_bridges s
          else if opMode = 1 then put_remote (''pxpMac'', 0) (apCfgRemoteApMacAddrGet 0) s
          else if opMode = 3 then steps [get_perfssid, put_remote (''pxpMac'', 0) (apCfgUcrRemoteApMacAddrGet 0)] s
          else Some s);
     (flag, s) \<leftarrow> scApCfgRogueApTypeGet s;
     s \<leftarrow> put_byte (''noSecurity'', 0) (flag mod 2) s;
     s \<leftarrow> put_byte (''illegalAp'', 0) (flag div 2 mod 2) s;
     if opMode = 4 then get_legal s else Some s
   }"

subsection \<open>Management and log\<close>

text \<open>\<open>if (snmpTrust != 1);\<close> is an empty statement: the addresses are read in any case.\<close>

definition get_snmp :: "'a edit_step" where
  "get_snmp = steps
     [load_str (''contact'', 0) apCfgSnmpContactGet, load_str (''snmplocal'', 0) apCfgSnmpLocationGet,
      load_str (''snmpdevice'', 0) apCfgDescGet, load_str (''getCom'', 0) apCfgSnmpReadCommGet,
      load_str (''setCom'', 0) apCfgSnmpWriteCommGet, load_str (''trapCom'', 0) apCfgSnmpTrapCommunityGet,
      load_byte (''snmpTrust'', 0) apCfgSnmpAnyManagerGet, load_ip (''trapStartIp'', 0) apCfgSnmpManagerIpGet,
      load_byte (''trapRange'', 0) (\<lambda>s. do { (ip, s) \<leftarrow> apCfgSnmpManagerIpEndGet s; Some (uint ip mod 256, s) }),
      load_ip (''trapServerIp'', 0) apCfgSnmpTrapRecvIpGet]"

definition get_management :: "'a edit_step" where
  "get_management = steps
     [load_str (''loginName'', 0) apCfgLoginGet, load_str (''loginPasswd'', 0) apCfgPasswordGet,
      load_byte (''httpsEnable'', 0) apCfgHttpsModeGet, load_byte (''webAccess'', 0) apCfgWlanAccessGet,
      load_byte (''secureSh'', 0) apCfgSSHGet, load_byte (''snmp'', 0) apCfgSnmpModeGet, if_var ''snmp'' [get_snmp]]"

definition get_log :: "'a edit_step" where
  "get_log = steps
     [load_byte (''mailAlert'', 0) apCfgemailAlertsEnabledGet,
      if_var ''mailAlert''
        [load_str (''smtpServ'', 0) apCfgsmtpMailServerGet, load_str (''mailAddr'', 0) apCfgemailAddrForLogGet,
         load_word (''logLength'', 0) apCfgemailAlertsQlenGet, load_word (''logTime'', 0) scApCfgemailAlertsIntervalGet],
      load_byte (''syslogF'', 0) apCfgsysLogEnabledGet,
      load_ip (''logIPAddr'', 0) (\<lambda>s. do { (a, s) \<leftarrow> apCfgsysLogServerGet s; Some (inet_addr a, s) }),
      load_byte (''unAthLogin'', 0) apCfgDeauthGet, load_byte (''AthLogin'', 0) apCfgAuthLoginGet,
      load_byte (''sysError'', 0) apCfgChangeSysFucGet, load_byte (''cfgChange'', 0) apCfgChangeCfgGet]"

definition outputCFGGet :: "'a edit_step" where
  "outputCFGGet = steps
     [get_ids, get_basic, get_v6, get_time, get_setup, get_radio, get_vaps, get_radius, get_vlan, get_advanced, get_mode,
      get_management, get_log]"

end
