(* ===== verification/Edit_Set.thy ===== *)
theory Edit_Set
  imports Edit_Get
begin

text \<open>
  \<open>parseCFGSet\<close> of \<open>libs/libeditapcfg/editapcfg.c\<close>: the variables are handed to the setters of \<open>libapcfg\<close>,
  whose status is ignored, group by group in the order of the code; and the two entry points of the
  library, \<open>OutputCFG\<close>, which prints all settings, and \<open>parseCFG\<close>, which reads a file.
\<close>

definition call :: "('a edit_scheme \<Rightarrow> (a_status \<times> 'a edit_scheme) option) \<Rightarrow> 'a edit_step" where
  "call m s = do { (_, s) \<leftarrow> m s; Some s }"

text \<open>A setter applied to a variable.\<close>

definition save_byte :: "ptr \<Rightarrow> (int \<Rightarrow> 'a edit_scheme \<Rightarrow> (a_status \<times> 'a edit_scheme) option) \<Rightarrow> 'a edit_step" where
  "save_byte p m s = do { v \<leftarrow> rd_byte p s; call (m (int v)) s }"

definition save_not :: "ptr \<Rightarrow> (int \<Rightarrow> 'a edit_scheme \<Rightarrow> (a_status \<times> 'a edit_scheme) option) \<Rightarrow> 'a edit_step" where
  "save_not p m = save_byte p (\<lambda>v. m (if v = 0 then 1 else 0))"

definition save_word :: "ptr \<Rightarrow> (int \<Rightarrow> 'a edit_scheme \<Rightarrow> (a_status \<times> 'a edit_scheme) option) \<Rightarrow> 'a edit_step" where
  "save_word p m s = do { v \<leftarrow> rd_word p s; call (m (int v)) s }"

definition save_str :: "ptr \<Rightarrow> (cstr \<Rightarrow> 'a edit_scheme \<Rightarrow> (a_status \<times> 'a edit_scheme) option) \<Rightarrow> 'a edit_step" where
  "save_str p m s = do { v \<leftarrow> rd_str p s; call (m v) s }"

text \<open>\<open>if (strlen (var)) set (var)\<close>, and \<open>if (ipAddress != 0) set (ipAddress)\<close>.\<close>

definition save_some :: "ptr \<Rightarrow> (cstr \<Rightarrow> 'a edit_scheme \<Rightarrow> (a_status \<times> 'a edit_scheme) option) \<Rightarrow> 'a edit_step" where
  "save_some p m s = do { v \<leftarrow> rd_str p s; if v \<noteq> [] then call (m v) s else Some s }"

definition save_ip :: "bool \<Rightarrow> ptr \<Rightarrow> (32 word \<Rightarrow> 'a edit_scheme \<Rightarrow> (a_status \<times> 'a edit_scheme) option) \<Rightarrow> 'a edit_step" where
  "save_ip zero p m s = do { v \<leftarrow> rd_dword p s; if zero \<or> v \<noteq> 0 then call (m v) s else Some s }"

text \<open>\<open>sprintf (ipstrtemp, "%u.%u.%u.%u", ...)\<close> into 20 bytes.\<close>

definition save_dotted :: "ptr \<Rightarrow> (cstr \<Rightarrow> 'a edit_scheme \<Rightarrow> (a_status \<times> 'a edit_scheme) option) \<Rightarrow> 'a edit_step" where
  "save_dotted p m s = do {
     a \<leftarrow> rd p 4 s;
     let f = (\<lambda>i. fmt_u (code (a ! i)));
     ipstrtemp \<leftarrow> into_buf 20 (f 0 @ ''.'' @ f 1 @ ''.'' @ f 2 @ ''.'' @ f 3);
     call (m ipstrtemp) s
   }"

text \<open>A hardware address as text, in \<open>char macAddrStr[20]\<close>.\<close>

definition mac_str :: "bytes \<Rightarrow> cstr option" where
  "mac_str m = do {
     (_, b) \<leftarrow> macAddrToString (map (\<lambda>c. of_nat (code c)) m) (replicate 20 NUL) (Some '':'');
     Some (c_read b)
   }"

definition mac_or_none :: "ptr \<Rightarrow> 'a edit_scheme \<Rightarrow> cstr option" where
  "mac_or_none p s = do { m \<leftarrow> rd p 6 s; if m = replicate 6 NUL then Some no_mac else mac_str m }"

subsection \<open>Basic settings and time\<close>

definition set_basic :: "'a edit_step" where
  "set_basic = steps
     [(\<lambda>s. do {
        v \<leftarrow> rd_str (''APName'', 0) s;
        if v = [] then Some s
        else do { ok \<leftarrow> scValidHostName v (length v); if ok then call (apCfgSysNameSet v) s else Some s }
      }),
      save_some (''APDesc'', 0) apCfgDescSet, save_some (''APLang'', 0) apCfgSysLangSet,
      save_byte (''dhcpF'', 0) apCfgDhcpEnableSet, save_byte (''dhcp6F'', 0) apCfgDhcp6EnableSet,
      save_ip False (''IPAddress4'', 0) apCfgIpAddrSet, save_ip False (''subnet4'', 0) apCfgIpMaskSet,
      save_ip True (''gateway4'', 0) apCfgGatewayAddrSet,
      save_str (''dnsServer1'', 0) apCfgNameSrvSet, save_str (''dnsServer2'', 0) apCfgNameSrv2Set,
      save_byte (''IPv6'', 0) apCfgipv6modeSet]"

text \<open>When the address is refused and none is set, IPv6 is switched off.\<close>

definition set_v6 :: "'a edit_step" where
  "set_v6 s = do {
     a \<leftarrow> rd_str (''IPAddress6'', 0) s;
     n \<leftarrow> rd_byte (''prefixlen'', 0) s;
     ipv6Buf \<leftarrow> into_buf 45 (a @ ''/'' @ fmt_u n);
     (st, s) \<leftarrow> apCfgIpv6AddrSet ipv6Buf s;
     s \<leftarrow> (if st \<noteq> A_OK then do {
            (_, s) \<leftarrow> apCfgIpv6AddrGet s;
            (v, s) \<leftarrow> apCfgIpv6AddrGet s;
            (v, s) \<leftarrow> (if v = [] then Some (v, s) else apCfgIpv6AddrGet s);
            if v = [] then call (apCfgipv6modeSet 0) s else Some s
          } else Some s);
     steps [save_str (''gateway6'', 0) apCfgGatewayv6AddrSet, save_str (''IPv6dnsServer1'', 0) apCfgNameSrv61Set,
       save_str (''IPv6dnsServer2'', 0) apCfgNameSrv62Set] s
   }"

text \<open>\<open>strtok\<close> on the variable itself: the tokens, and the text with the delimiters behind them cut out.\<close>

fun strtok_n :: "nat \<Rightarrow> char \<Rightarrow> cstr \<Rightarrow> cstr list \<times> bytes" where
  "strtok_n 0 d s = ([], s)"
| "strtok_n (Suc n) d s =
     (let r = dropWhile (\<lambda>c. c = d) s; w = takeWhile (\<lambda>c. c \<noteq> d) r in
      if r = [] then ([], s)
      else (case dropWhile (\<lambda>c. c \<noteq> d) r of
          [] \<Rightarrow> ([w], s)
        | _ # q \<Rightarrow> (let (ts, b) = strtok_n n d q in (w # ts, takeWhile (\<lambda>c. c = d) s @ w @ NUL # b))))"

definition save_three :: "ptr \<Rightarrow> char \<Rightarrow> (int \<Rightarrow> 'a edit_scheme \<Rightarrow> (a_status \<times> 'a edit_scheme) option) list \<Rightarrow> 'a edit_step" where
  "save_three p d ms s = do {
     v \<leftarrow> rd_str p s;
     let (ts, b) = strtok_n 3 d v;
     s \<leftarrow> put_at p b s;
     if length ts < 3 then None else steps (map2 (\<lambda>m t. call (m (atoi t))) ms ts) s
   }"

definition set_time :: "'a edit_step" where
  "set_time s = do {
     s \<leftarrow> save_not (''timesetting'', 0) apCfgTimeModeSet s;
     timesetting \<leftarrow> rd_byte (''timesetting'', 0) s;
     s \<leftarrow> (if timesetting = 0 then steps
          [save_three (''date_p'', 0) (CHR ''/'') [apCfgTimeYearSet, apCfgTimeMonSet, apCfgTimeDaySet],
           save_three (''time_p'', 0) (CHR '':'') [apCfgTimeHourSet, apCfgTimeMinSet, apCfgTimeSecSet]] s else Some s);
     steps [save_str (''timeZone'', 0) apCfgTimezoneOffsetSet, save_byte (''usDefntp'', 0) apCfgNtpModeSet,
       save_str (''ntpServer'', 0) apCfgNtpServerSet, save_byte (''daylightSaving'', 0) apCfgDaylightSavingSet] s
   }"

definition set_setup :: "'a edit_step" where
  "set_setup = steps
     [save_byte (''htBonjour'', 0) apCfgBonjourSet, save_byte (''htForce100m'', 0) apCfgForce100mSet,
      save_byte (''htAutoNegotiation'', 0) apCfgAutonegoSet, save_byte (''htPortSpeed'', 0) apCfgPortspeedSet,
      save_byte (''htDuplexMode'', 0) apCfgDuplexmodeSet, save_byte (''htRedirect'', 0) apCfgRedirectModeSet,
      save_str (''htRedirectUrl'', 0) apCfgRedirectUrlSet, save_byte (''ethDot1xAuth'', 0) scApCfgDot1xSuppEnableSet,
      save_byte (''authViaMac'', 0) scApCfgDot1xSuppMacEnableSet, save_some (''authName'', 0) scApCfgDot1xSuppUsernameSet,
      save_some (''authPasswd'', 0) scApCfgDot1xSuppPasswordSet]"

definition set_vlan :: "'a edit_step" where
  "set_vlan = steps
     [save_byte (''vlan'', 0) apCfgVlanModeSet, call apCfgVlanListClear,
      if_var ''vlan''
        [save_word (''nativeVid'', 0) apCfgNativeVlanIdSet, save_word (''manageVid'', 0) apCfgManagementVlanIdSet,
         save_byte (''vlanTag'', 0) apCfgNativeVlanTagSet, save_byte (''wdsTag'', 0) apCfgWdsVlanTagSet,
         save_str (''wdsVlanList'', 0) apCfgwdsVlanListSet]]"

subsection \<open>Wireless settings\<close>

text \<open>The case \<open>default\<close> stands first and falls into the case 0.\<close>

definition set_radio :: "'a edit_step" where
  "set_radio s = do {
     wlsMode \<leftarrow> rd_byte (''wlsMode'', 0) s;
     s \<leftarrow> (if wlsMode \<noteq> 0 then call (apCfgWlanStateSet 0 1) s else Some s);
     s \<leftarrow> (if wlsMode = 0 then call (apCfgWlanStateSet 0 0) s
          else if wlsMode = 1 then call (apCfgFreqSpecSet 0 MODE_SELECT_11B) s
          else if wlsMode = 2 then call (apCfgFreqSpecSet 0 MODE_SELECT_11G) s
          else if wlsMode = 3 then call (apCfgFreqSpecSet 0 MODE_SELECT_11N) s
          else if wlsMode = 4 then call (apCfgFreqSpecSet 0 MODE_SELECT_11BG) s
          else if wlsMode = 7 then call (apCfgFreqSpecSet 0 MODE_SELECT_11BGN) s
          else steps [call (apCfgFreqSpecSet 0 MODE_SELECT_11BGN), call (apCfgWlanStateSet 0 0)] s);
     s \<leftarrow> save_not (''channel'', 0) (apCfgAutoChannelSet 0) s;
     channel \<leftarrow> rd_byte (''channel'', 0) s;
     s \<leftarrow> (if channel \<noteq> 0 then call (apCfgRadioChannelSet 0 (int channel)) s else Some s);
     save_byte (''vapIsolated'', 0) (apCfgInterVapForwardingSet 0) s
   }"

definition set_mode :: "'a edit_step" where
  "set_mode s = do {
     opMode \<leftarrow> rd_byte (''opMode'', 0) s;
     wdsRepeater \<leftarrow> rd_byte (''wdsRepeater'', 0) s;
     ucrRepeater \<leftarrow> rd_byte (''ucrRepeater'', 0) s;
     noSecurity \<leftarrow> rd_byte (''noSecurity'', 0) s;
     illegalAp \<leftarrow> rd_byte (''illegalAp'', 0) s;
     if opMode = 1 then call (apCfgOpModeSet 0 CFG_OP_MODE_AP_PTP) s
     else if opMode = 2 then call (apCfgOpModeSet 0 CFG_OP_MODE_MPT) s
     else if opMode = 3 then call (apCfgOpModeSet 0 (if ucrRepeater \<noteq> 0 then CFG_OP_MODE_UR else CFG_OP_MODE_UC)) s
     else if opMode = 4 then steps
       [call (apCfgOpModeSet 0 CFG_OP_MODE_ROGAP),
        call (scApCfgRogueApTypeSet (sint (of_nat noSecurity OR push_bit 1 (of_nat illegalAp) :: 8 word)))] s
     else call (apCfgOpModeSet 0 (if wdsRepeater \<noteq> 0 then CFG_OP_MODE_AP_PTMP else CFG_OP_MODE_AP)) s
   }"

text \<open>The case 1, WEP: only keys of the chosen length are set.\<close>

definition set_key :: "nat \<Rightarrow> nat \<Rightarrow> nat \<Rightarrow> 'a edit_step" where
  "set_key v len k s = do {
     key \<leftarrow> rd_str (''key'' @ fmt_d (int k), 33 * v) s;
     if key \<noteq> [] \<and> length key = len * 2 then call (apCfgKeyValSet 0 (int v) (int k) key) s else Some s
   }"

definition set_wep :: "nat \<Rightarrow> 'a edit_step" where
  "set_wep v s = do {
     encrypt \<leftarrow> rd_byte (''encrypt'', v) s;
     let len = encrypt div 8;
     s \<leftarrow> call (apCfgKeyBitLenSet 0 (int v) (int encrypt)) s;
     authType \<leftarrow> rd_byte (''authType'', v) s;
     s \<leftarrow> call (apCfgAuthTypeSet 0 (int v)
       (if authType = 0 then APCFG_AUTH_AUTO else if authType = 2 then APCFG_AUTH_SHARED_KEY else APCFG_AUTH_OPEN_SYSTEM)) s;
     s \<leftarrow> save_byte (''keyNo'', v) (\<lambda>k. apCfgDefKeySet 0 (int v) (k + 1 - 1)) s;
     steps [set_key v len 1, set_key v len 2, set_key v len 3, set_key v len 4] s
   }"

definition set_psk :: "nat \<Rightarrow> 'a edit_step" where
  "set_psk v = save_some (''preShared'', 65 * v) (apCfgPassphraseSet 0 (int v))"

definition set_renew :: "nat \<Rightarrow> 'a edit_step" where
  "set_renew v = save_word (''keyrenew'', 2 * v) (apCfgGroupKeyUpdateIntervalSet 0 (int v))"

definition set_auth :: "nat \<Rightarrow> int \<Rightarrow> 'a edit_step" where
  "set_auth v t = call (apCfgAuthTypeSet 0 (int v) t)"

definition set_cipher :: "nat \<Rightarrow> int option \<Rightarrow> 'a edit_step" where
  "set_cipher v c = (case c of None \<Rightarrow> save_byte (''encrypt'', v) (apCfgWPACipherSet 0 (int v)) | Some c \<Rightarrow> call (apCfgWPACipherSet 0 (int v) c))"

definition set_security :: "nat \<Rightarrow> 'a edit_step" where
  "set_security v s = do {
     m \<leftarrow> rd_byte (''secSystem'', v) s;
     steps (if m = 0 then [set_auth v APCFG_AUTH_NONE]
       else if m = 1 then [set_wep v]
       else if m = 2 then [set_auth v APCFG_AUTH_WPAPSK, set_cipher v None, set_psk v, set_renew v]
       else if m = 3 then [set_auth v APCFG_AUTH_WPA2PSK, set_cipher v (Some WPA_CIPHER_AES), set_psk v, set_renew v]
       else if m = 4 then [set_auth v APCFG_AUTH_WPA_AUTO_PSK, set_cipher v (Some WPA_CIPHER_AUTO), set_psk v, set_renew v]
       else if m = 5 then [set_auth v APCFG_AUTH_WPA, set_cipher v None, set_renew v]
       else if m = 6 then [set_auth v APCFG_AUTH_WPA2, set_cipher v (Some WPA_CIPHER_AES), set_renew v]
       else if m = 7 then [set_auth v APCFG_AUTH_WPA_AUTO, set_cipher v (Some WPA_CIPHER_AUTO), set_renew v]
       else if m = 8 then [set_auth v APCFG_AUTH_DOT1X]
       else []) s
   }"

definition set_station :: "nat \<Rightarrow> nat \<Rightarrow> 'a edit_step" where
  "set_station v i s = do {
     m \<leftarrow> rd (''aclMac'', 120 * v + 6 * i) 6 s;
     if m = replicate 6 NUL then Some s
     else do { t \<leftarrow> mac_str m; call (apCfgAclAdd 0 (int v) t ''unknown'' 1) s }
   }"

definition set_acl :: "nat \<Rightarrow> 'a edit_step" where
  "set_acl v = steps
     ([save_byte (''aclFlag'', v) (apCfgAclModeSet 0 (int v)), save_byte (''aclType'', v) (apCfgAclTypeSet 0 (int v)),
       call (apCfgAclClear 0 (int v))] @ map (set_station v) [0..<20])"

definition set_vap :: "nat \<Rightarrow> 'a edit_step" where
  "set_vap v s = do {
     name \<leftarrow> rd_str (''ssid'', 33 * v) s;
     if name = [] then call (scSetDefaultVap 0 (int v)) s
     else steps
       [call (apCfgActiveModeSet 0 (int v) 1), call (apCfgSsidSet 0 (int v) name),
        save_not (''ssidBroadcast'', v) (apCfgSsidModeSet 0 (int v)),
        save_byte (''wlsSeparation'', v) (apCfgIntraVapForwardingSet 0 (int v)),
        set_security v, set_acl v,
        save_word (''vapVlan'', 2 * v) (apCfgVlanPvidSet 0 (int v)), save_byte (''vapWmm'', v) (apCfgWmeSet 0 (int v)),
        save_byte (''vapPri'', v) (apCfgPrioritySet 0 (int v)), save_word (''vapBalance'', 2 * v) (apCfgLoadBalanceSet 0 (int v))] s
   }"

definition set_vaps :: "'a edit_step" where
  "set_vaps = steps [set_vap 0, set_vap 1, set_vap 2, set_vap 3, call (apCfgVlanListApply 0)]"

definition set_radius :: "'a edit_step" where
  "set_radius = steps
     [save_dotted (''authSIP1'', 0) (apCfgRadiusServerSet 0 0), save_word (''authSPort1'', 0) (apCfgRadiusPortSet 0 0),
      save_some (''authSSecret1'', 0) (apCfgRadiusSecretSet 0 0),
      save_dotted (''authSIP2'', 0) (apCfgBackupRadiusServerSet 0 0), save_word (''authSPort2'', 0) (apCfgBackupRadiusPortSet 0 0),
      save_some (''authSSecret2'', 0) (apCfgBackupRadiusSecretSet 0 0)]"

text \<open>\<open>(v == 2) ? set (v) : set (!v)\<close>.\<close>

definition two_or_not :: "int \<Rightarrow> int" where
  "two_or_not v = (if v = 2 then 2 else if v = 0 then 1 else 0)"

definition set_advanced :: "'a edit_step" where
  "set_advanced = steps
     [save_byte (''worldwide'', 0) (scApCfg80211dEnabledSet 0), save_word (''countryCode'', 0) apCfgCountryCodeSet,
      save_byte (''channelBand'', 0) (\<lambda>v. apCfgChannelWidthModeSet 0 (two_or_not v)),
      save_byte (''guardInter'', 0) (\<lambda>v. scApCfgShortGISet 0 (two_or_not v)),
      save_byte (''ctsProtect'', 0) (apCfgCTSModeSet 0), save_word (''beaconInterval'', 0) (apCfgBeaconIntervalSet 0),
      save_byte (''dtimInter'', 0) (scApCfgDtimIntervalSet 0), save_word (''rtsThreshold'', 0) (apCfgRtsThresholdSet 0),
      save_word (''fragLength'', 0) (apCfgFragThresholdSet 0), save_byte (''loadBalance'', 0) (apCfgBalanceModeSet 0)]"

subsection \<open>Other access points, management and log\<close>

definition set_bridge :: "nat \<Rightarrow> 'a edit_step" where
  "set_bridge i s = do { t \<leftarrow> mac_or_none (''pxpMac'', 6 * i) s; call (apCfgRemoteWbrMacAddrSet 0 i t) s }"

definition set_remote :: "'a edit_step" where
  "set_remote s = do {
     opMode \<leftarrow> rd_byte (''opMode'', 0) s;
     if opMode = 1 \<or> opMode = 3 then do {
       t \<leftarrow> mac_or_none (''pxpMac'', 0) s;
       s \<leftarrow> call (apCfgRemoteApMacAddrSet 0 t) s;
       if opMode = 3 then save_str (''perfssid'', 0) (apCfgSsidSet 0 0) s else Some s
     }
     else if opMode = 0 \<or> opMode = 2 then steps (map set_bridge [0, 1, 2, 3]) s
     else Some s
   }"

fun set_legal :: "nat \<Rightarrow> nat \<Rightarrow> 'a edit_step" where
  "set_legal 0 i s = Some s"
| "set_legal (Suc n) i s = do {
     e \<leftarrow> rd (rogue_entry (''rogueApMacList'', 0) i) 17 s;
     s \<leftarrow> (if e = replicate 17 NUL then Some s
          else do { t \<leftarrow> scMacStr17ToStr12 (c_read e); call (scApCfgLegalApListAdd t) s });
     set_legal n (i + 1) s
   }"

definition set_rogue :: "'a edit_step" where
  "set_rogue s = do {
     s \<leftarrow> call scApCfgLegalApListClear s;
     no \<leftarrow> rd_word (''rogueApMacList'', 0) s;
     set_legal no 0 s
   }"

text \<open>The end of the range: the first three numbers are those of its start.\<close>

definition set_managers :: "'a edit_step" where
  "set_managers s = do {
     s \<leftarrow> save_ip False (''trapStartIp'', 0) apCfgSnmpManagerIpSet s;
     range \<leftarrow> rd (''trapRange'', 0) 1 s;
     start \<leftarrow> rd (''trapStartIp'', 0) 4 s;
     let ipAddress = rd_be32 (take 3 start @ range);
     (from, s) \<leftarrow> (if ipAddress \<noteq> 0 then apCfgSnmpManagerIpGet s else Some (0, s));
     s \<leftarrow> (if ipAddress \<noteq> 0 \<and> from \<le> ipAddress then call (apCfgSnmpManagerIpEndSet ipAddress) s
          else do { (v, s) \<leftarrow> apCfgSnmpManagerIpGet s; call (apCfgSnmpManagerIpEndSet v) s });
     save_ip False (''trapServerIp'', 0) apCfgSnmpTrapRecvIpSet s
   }"

definition set_management :: "'a edit_step" where
  "set_management = steps
     [save_byte (''secShow'', 0) apCfgSecMaskSet, save_str (''loginName'', 0) apCfgLoginSet,
      save_some (''loginPasswd'', 0) apCfgPasswordSet, save_byte (''httpsEnable'', 0) apCfgAutohttpsModeSet,
      save_byte (''httpsEnable'', 0) apCfgHttpsModeSet, save_byte (''webAccess'', 0) apCfgWlanAccessSet,
      save_byte (''secureSh'', 0) apCfgSSHSet, save_byte (''snmp'', 0) apCfgSnmpModeSet,
      if_var ''snmp''
        [save_str (''contact'', 0) apCfgSnmpContactSet, save_str (''snmplocal'', 0) apCfgSnmpLocationSet,
         save_str (''snmpdevice'', 0) apCfgDescSet, save_str (''getCom'', 0) apCfgSnmpReadCommSet,
         save_str (''setCom'', 0) apCfgSnmpWriteCommSet, save_str (''trapCom'', 0) apCfgSnmpTrapCommunitySet,
         save_byte (''snmpTrust'', 0) apCfgSnmpAnyManagerSet, set_managers]]"

definition set_log :: "'a edit_step" where
  "set_log = steps
     [save_byte (''mailAlert'', 0) apCfgemailAlertsEnabledSet,
      if_var ''mailAlert''
        [save_str (''smtpServ'', 0) apCfgsmtpMailServerSet, save_str (''mailAddr'', 0) apCfgemailAddrForLogSet,
         save_word (''logLength'', 0) scApCfgemailAlertsQlenSet, save_word (''logTime'', 0) scApCfgemailAlertsIntervalSet],
      save_byte (''syslogF'', 0) apCfgsysLogEnabledSet, save_dotted (''logIPAddr'', 0) apCfgsysLogServerSet,
      save_byte (''unAthLogin'', 0) apCfgDeauthSet, save_byte (''AthLogin'', 0) apCfgAuthLoginSet,
      save_byte (''sysError'', 0) apCfgChangeSysFucSet, save_byte (''cfgChange'', 0) apCfgChangeCfgSet]"

definition parseCFGSet :: "'a edit_step" where
  "parseCFGSet = steps
     [set_basic, set_v6, set_time, set_setup, set_vlan, set_radio, set_mode, set_vaps, set_radius, set_advanced, set_remote,
      set_rogue, set_management, set_log]"

subsection \<open>Import\<close>

text \<open>The result is 0 when the file cannot be opened or no value was assigned.\<close>

definition parseCFG :: "string \<Rightarrow> 8 word \<Rightarrow> bool \<Rightarrow> 'a edit_scheme \<Rightarrow> (nat \<times> 'a edit_scheme) option" where
  "parseCFG path type setup s =
     (case files s path of
        None \<Rightarrow> Some (0, s)
      | Some b \<Rightarrow> do {
          s \<leftarrow> outputCFGGet s;
          (goodGroup, s) \<leftarrow> parse_groups type (b, False) 0 s;
          s \<leftarrow> correctVariables s;
          s \<leftarrow> (if goodGroup \<noteq> 0 \<and> setup then parseCFGSet s else Some s);
          Some (goodGroup, s)
        })"

end
