(* ===== verification/Edit_Cfg.thy ===== *)
theory Edit_Cfg
  imports Edit_Get
begin

text \<open>
  \<open>OutputCFG\<close> of \<open>libs/libeditapcfg/editapcfg.c\<close>: the title, every group with its attributes in order, and
  the checksum, the sum of the bytes behind the title, which is written over the zeros at the title's end.
\<close>

definition title_text :: "cstr \<Rightarrow> bytes \<Rightarrow> cstr \<Rightarrow> bytes" where
  "title_text version mac pin =
     '';WAP4410N Configuration File - Version: '' @ version @ [LF] @
     '';MAC address: '' @ mac_text mac @ [LF] @ '';WPS PIN: '' @ pin @ [LF] @ '';The checksum: 00000000'' @ [LF]"

text \<open>\<open>temp\<close> has no value when there is no version file.\<close>

definition OutputTitle :: "'a edit_scheme \<Rightarrow> bytes option" where
  "OutputTitle s = do {
     v \<leftarrow> getVersion 20 s;
     temp \<leftarrow> v;
     mac \<leftarrow> rd (''APmac'', 0) 6 s;
     pin \<leftarrow> rd_str (''APpin'', 0) s;
     Some (title_text temp mac pin)
   }"

definition out_comment :: "attr_s \<Rightarrow> bytes \<Rightarrow> 'a edit_scheme \<Rightarrow> bytes option" where
  "out_comment a buff s =
     (if take 14 (attr_name a) \<noteq> ''Country_Region'' then Some (OutputComment (attr_comment a) buff)
      else OutputCountryComment buff s)"

fun out_attrs :: "8 word \<Rightarrow> attr_s list \<Rightarrow> bytes \<Rightarrow> 'a edit_scheme \<Rightarrow> (bytes \<times> 'a edit_scheme) option" where
  "out_attrs type [] buff s = Some (buff, s)"
| "out_attrs type (a # as) buff s =
     (if attr_type a AND type = 0 then out_attrs type as buff s
      else do {
        let buff = OutputAttr (attr_name a) buff;
        (buff, s) \<leftarrow> (case outputfunc a of None \<Rightarrow> Some (buff, s) | Some f \<Rightarrow> run_output f (attr_var a) buff s);
        buff \<leftarrow> out_comment a buff s;
        out_attrs type as buff s
      })"

fun out_groups :: "8 word \<Rightarrow> cfg_s list \<Rightarrow> bytes \<Rightarrow> 'a edit_scheme \<Rightarrow> (bytes \<times> 'a edit_scheme) option" where
  "out_groups type [] buff s = Some (buff, s)"
| "out_groups type (g # gs) buff s =
     (if cfg_type g AND type = 0 then out_groups type gs buff s
      else do {
        (buff, s) \<leftarrow> out_attrs type (cfg_attrs g) (OutputGroup (cfg_group g) buff) s;
        out_groups type gs buff s
      })"

text \<open>The sum of the \<open>unsigned char\<close>s up to a zero byte, in an \<open>unsigned long\<close> of 32 bits; \<open>"%-8lu"\<close>.\<close>

definition byte_sum :: "bytes \<Rightarrow> nat" where
  "byte_sum b = sum_list (map code (c_read b)) mod 2 ^ 32"

definition fmt_8lu :: "nat \<Rightarrow> cstr" where
  "fmt_8lu n = (let t = fmt_d (int n) in t @ replicate (8 - length t) (CHR '' ''))"

text \<open>The end of \<open>OutputCFG\<close>, given the title and the whole text.\<close>

definition write_checksum :: "bytes \<Rightarrow> bytes \<Rightarrow> 'a edit_scheme \<Rightarrow> ((nat \<times> bytes) \<times> 'a edit_scheme) option" where
  "write_checksum title buff s = do {
     let chSumDate = byte_sum (drop (length title) buff);
     s \<leftarrow> store_str (''APchecksum'', 0) (fmt_8lu chSumDate) s;
     s \<leftarrow> put_at (''APchecksum'', 8) [LF] s;
     sum \<leftarrow> rd (''APchecksum'', 0) 9 s;
     buff \<leftarrow> buf_put (length title - 9) sum buff;
     Some ((length buff, buff), s)
   }"

definition OutputCFG :: "8 word \<Rightarrow> 'a edit_scheme \<Rightarrow> ((nat \<times> bytes) \<times> 'a edit_scheme) option" where
  "OutputCFG type s = do {
     s \<leftarrow> outputCFGGet s;
     title \<leftarrow> OutputTitle s;
     (buff, s) \<leftarrow> out_groups type CFGData title s;
     write_checksum title buff s
   }"

end
