(* ===== verification/Edit_Laws.thy ===== *)
theory Edit_Laws
  imports Edit_Set Edit_Cfg
begin

text \<open>
  What the assign functions of \<open>editapcfg.c\<close> guarantee: where a text is cut and where it leaves its
  variable, masked secrets, the time zones, the country, the list of known access points, the load
  thresholds, the corrected channel and the checksum of an exported file.
\<close>

text \<open>A station with no files and zeroed variables.\<close>

definition ex_edit :: edit where
  "ex_edit = \<lparr>files = (\<lambda>_. None), cmds = [], scfgd = True, sh_out = (\<lambda>_. []), sh_cwd = id, stack_word = 0,
     ifaces = (\<lambda>_. \<lparr>if_addr = None, if_hwaddr = None, if_netmask = None, if_mtu = None\<rparr>), sh_fx = (\<lambda>_ f. f),
     rd_fails = (\<lambda>_. False), stack_bytes = (\<lambda>_. NUL),
     scAclBufUsed = (\<lambda>_ _. False), now = \<lparr>tm_year = 126, tm_mon = 0, tm_mday = 1, tm_wday = 4, tm_hour = 0, tm_min = 0, tm_sec = 0\<rparr>,
     inet6 = (\<lambda>a. Some a), iconv = (\<lambda>_ _ b. (0, b)), vars = initial_vars\<rparr>"

lemma ex_edit_ok: "vars_ok ex_edit"
  using initial_vars_ok [of ex_edit] by (simp add: ex_edit_def)

subsection \<open>Pointers at the start of a variable\<close>

lemma put_None_var: "vars_ok s \<Longrightarrow> put_at (x, n) b s = None \<longleftrightarrow> var_size x < n + length b"
  by (simp add: put_None_iff vars_ok_def)

lemma put_Some_var: "vars_ok s \<Longrightarrow> n + length b \<le> var_size x \<Longrightarrow> \<exists>s'. put_at (x, n) b s = Some s' \<and> vars_ok s'"
  using put_None_var [of s x n b] vars_ok_put [of s "(x, n)" b] by (cases "put_at (x, n) b s") auto

lemma store_str_None_var: "vars_ok s \<Longrightarrow> store_str (x, n) v s = None \<longleftrightarrow> var_size x \<le> n + length v"
  by (auto simp: store_str_def put_None_var)

lemma clear_None_var: "vars_ok s \<Longrightarrow> clear (x, n) k s = None \<longleftrightarrow> var_size x < n + k"
  by (simp add: clear_def put_None_var)

lemma put_ok: "put_at p b s = Some s' \<Longrightarrow> vars_ok s \<Longrightarrow> vars_ok s'"
  by (rule vars_ok_put)

lemma clear_ok: "clear p k s = Some s' \<Longrightarrow> vars_ok s \<Longrightarrow> vars_ok s'"
  unfolding clear_def by (rule vars_ok_put)

text \<open>A write over a range that was just cleared or written.\<close>

lemma buf_put_twice:
  assumes "buf_put n b a = Some a'" "length b = length b'"
  shows "buf_put n b' a' = buf_put n b' a"
proof -
  have *: "n + length b' \<le> length a" "a' = take n a @ b @ drop (n + length b') a"
    using assms by (auto simp: buf_put_def split: if_splits)
  have "take n a' = take n a" "drop (n + length b') a' = drop (n + length b') a" "length a' = length a"
    using * assms(2) by simp_all
  then show ?thesis by (simp add: buf_put_def)
qed

lemma put_put_same:
  assumes "put_at p b s = Some s'" "length b = length b'"
  shows "put_at p b' s' = put_at p b' s"
proof -
  obtain a' where a': "buf_put (snd p) b (vars s (fst p)) = Some a'" "s' = s\<lparr>vars := (vars s)(fst p := a')\<rparr>"
    using assms(1) by (auto simp: put_at_def split: bind_splits)
  show ?thesis using buf_put_twice [OF a'(1) assms(2)] a'(2)
    by (cases "buf_put (snd p) b' (vars s (fst p))") (simp_all add: put_at_def)
qed

lemma rd_length: "rd p n s = Some b \<Longrightarrow> length b = n"
  by (auto simp: rd_def Let_def split: if_splits)

lemma be16_rd_be16:
  assumes "length b = 2"
  shows "be16 (rd_be16 b) = b"
proof -
  obtain x y where b: "b = [x, y]" using assms by (metis length_0_conv length_Suc_conv numeral_2_eq_2)
  have c: "code x < 256" "code y < 256" by simp_all
  have u: "unat (rd_be16 b) = code x * 256 + code y"
  proof -
    have "unat (rd_be16 b) = (code x * 256 + code y) mod 65536"
      unfolding b rd_be16.simps unat_of_nat by simp
    moreover have "code x * 256 + code y < 65536" using c by linarith
    ultimately show ?thesis by simp
  qed
  have "code (char_of ((code x * 256 + code y) div 256) :: char) = code x" "code (char_of (code x * 256 + code y) :: char) = code y"
    using c by simp_all
  then have "char_of ((code x * 256 + code y) div 256) = x" "char_of (code x * 256 + code y) = y"
    unfolding of_char_eq_iff by blast+
  then show ?thesis unfolding be16_def u by (simp add: b)
qed

subsection \<open>Texts\<close>

lemma store_text_None:
  assumes "vars_ok s" "n \<le> lim + 1" "length v < var_size x"
  shows "store_text lim n (x, 0) v s \<noteq> None"
proof (cases "lim < length v")
  case True
  then have "n \<le> length v" using assms(2) by simp
  moreover obtain s1 where s1: "put_at (x, 0) (take n v) s = Some s1" "vars_ok s1"
    using put_Some_var [of s 0 "take n v" x] assms(1,3) by (auto simp: min_le_iff_disj)
  ultimately have "put_at (x, n) [NUL] s1 \<noteq> None" using put_None_var [of s1 x n "[NUL]"] assms(3) by simp
  then show ?thesis using True s1 by (simp add: store_text_def)
next
  case False
  then show ?thesis using store_str_None_var [of s x 0 v] assms(1,3) by (auto simp: store_text_def)
qed

lemma assign_text_None:
  assumes "vars_ok s" "n \<le> lim + 1"
  shows "assign_text stars lim n (x, 0) v s = None \<longleftrightarrow> var_size x \<le> length v"
proof (cases "clear (x, 0) (length v + 1) s")
  case None
  then show ?thesis using clear_None_var [OF assms(1), of x 0 "length v + 1"] by (auto simp: assign_text_def)
next
  case (Some s1)
  then have "length v < var_size x" "vars_ok s1"
    using clear_None_var [OF assms(1), of x 0 "length v + 1"] clear_ok [OF Some assms(1)] by auto
  then show ?thesis using store_text_None [of s1 n lim v x] assms(2) Some by (auto simp: assign_text_def)
qed

text \<open>The functions that store a text clear the variable over the length of the whole text before they cut it, so
  the cut never protects anything: the call leaves the variable exactly when the text, with its terminator, is longer
  than the variable.\<close>

theorem text_overflow:
  fixes s :: "'a edit_scheme"
  assumes "vars_ok s"
    and "f \<in> {AssignStr15, AssignStr32, AssignStr40, AssignStr64, AssignServerStr, AssignSecret128 :: 'a assign}"
  shows "f (x, 0) v s = None \<longleftrightarrow> var_size x \<le> length v"
  using assms(2) assign_text_None [OF assms(1)]
  by (auto simp: AssignStr15_def AssignStr32_def AssignStr40_def AssignStr64_def AssignServerStr_def AssignSecret128_def)

theorem text_overflow_witness:
  "AssignStr40 (''APLang'', 0) ''french'' ex_edit = None"
  using text_overflow [of ex_edit AssignStr40 "''APLang''" "''french''"] ex_edit_ok by (simp add: var_size_def var_sizes_def)

subsection \<open>Masked secrets\<close>

lemma rd_str_cleared:
  assumes "put_at p b s = Some s'" "b \<noteq> []" "hd b = NUL"
  shows "rd_str p s' = Some []"
  using assms by (cases b) (auto simp: put_Some_iff rd_str_def c_string_def c_read_def)

lemma masked_assign:
  assumes "vars_ok s" "IsStarStr v" "snd p + length v < var_size (fst p)"
  shows "\<exists>s'. assign_text True lim n p v s = Some s' \<and> rd_str p s' = Some []"
proof -
  obtain x k where p: "p = (x, k)" by (cases p)
  then obtain s' where s': "clear p (length v + 1) s = Some s'"
    using clear_None_var [OF assms(1), of x k "length v + 1"] assms(3) by (cases "clear p (length v + 1) s") auto
  then have "rd_str p s' = Some []" unfolding clear_def by (rule rd_str_cleared) simp_all
  then show ?thesis using s' assms(2) by (simp add: assign_text_def)
qed

text \<open>A secret that was exported as stars is not set on import: the assign function empties the variable, and the
  setter of a secret is only called for a variable that is not empty, so the secret stays what it was.\<close>

theorem masked_secret_kept:
  fixes s :: "'a edit_scheme"
  assumes "vars_ok s" "\<forall>c \<in> set v. c = CHR ''*''" "8 \<le> length v" "length v \<le> 63"
    and "snd p + length v < var_size (fst p)"
    and "f \<in> {AssignSecret128, AssignPassword, AssignPreSharedKey :: 'a assign}"
  shows "\<exists>s'. f p v s = Some s' \<and> save_some p m s' = Some s'"
proof -
  have "IsStarStr v" using assms(2) by (simp add: IsStarStr_def)
  then have *: "\<exists>s'. assign_text True lim n p v s = Some s' \<and> rd_str p s' = Some []" for lim n
    using masked_assign [of s v p lim n] assms(1,5) by simp
  have "f p v s = assign_text True 128 128 p v s \<or> f p v s = assign_text True 63 64 p v s \<or>
    f p v s = assign_text True 63 63 p v s"
    using assms(3,4,6) by (auto simp: AssignSecret128_def AssignPassword_def AssignPreSharedKey_def)
  then show ?thesis using * [of 128 128] * [of 63 64] * [of 63 63] by (auto simp: save_some_def)
qed

theorem masked_secret_kept_witness:
  "\<exists>s'. AssignSecret128 (''authSSecret1'', 0) ''********'' ex_edit = Some s' \<and>
     save_some (''authSSecret1'', 0) (apCfgRadiusSecretSet 0 0) s' = Some s'"
  by (rule masked_secret_kept) (simp_all add: ex_edit_ok var_size_def var_sizes_def)

subsection \<open>Time zones and the country\<close>

text \<open>A time zone with a half hour is never stored, although the comment of the exported file lists five of them:
  the test for the hours that have one is true of every hour.\<close>

theorem half_hour_zone_refused:
  assumes "scan_tz v = [i, h, 30]"
  shows "AssignTimeZone p v s = Some s"
  using assms by (auto simp: AssignTimeZone_def Let_def)

theorem half_hour_zone_refused_witness:
  "AssignTimeZone (''timeZone'', 0) ''049+05:30'' ex_edit = Some ex_edit"
  by (rule half_hour_zone_refused [of _ 49 5]) code_simp

lemma quarter_hour_zone_stored:
  "AssignTimeZone p ''050+05:45'' s = store_str p ''050+05:45'' s"
proof -
  have "scan_tz ''050+05:45'' = [50, 5, 45]" by code_simp
  then show ?thesis by (simp add: AssignTimeZone_def)
qed

text \<open>On hardware of a domain with several countries, Europe or Latin America, the country in the file is ignored
  like on hardware with a single one: every number sets the domain's default.\<close>

theorem country_always_default:
  assumes "sc_get_default_country s = Some c" "c \<in> {CTRY_GERMANY, CTRY_MEXICO}" "c_isdigit (head_char v)"
  shows "AssignCountry p v s = put_word p c s"
  using assms by (auto simp: AssignCountry_def)

text \<open>Where the list is consulted, two characters decide.\<close>

lemma country_prefix: "country_hit ''39999'' (''Japan-392'' @ [LF])"
  by code_simp

subsection \<open>Load thresholds\<close>

text \<open>A load threshold that is exported and read back is the same or one hundredth of a per cent less, because the
  product of the \<open>float\<close> and 100 is cut to an integer.\<close>

theorem percent_drift:
  assumes "rd_word p s = Some a" "0 < a" "a \<le> 10000"
  shows "\<exists>t. OutputPercent' p [] s = Some (t, s) \<and>
    (AssignPercent p (takeWhile (\<lambda>c. c \<noteq> CHR '' '') t) s = Some s \<or>
     AssignPercent p (takeWhile (\<lambda>c. c \<noteq> CHR '' '') t) s = put_word p (int a - 1) s)"
proof -
  have o: "OutputPercent' p [] s = Some (fmt_hundredths a @ '' %'', s)"
    using assms by (simp add: OutputPercent'_def OutputPercent_def)
  obtain b where b: "rd p 2 s = Some b" "a = unat (rd_be16 b)" using assms(1) by (auto simp: rd_word_def split: bind_splits)
  have "be16 (word_of_int (int a)) = b" using b by (simp add: rd_length be16_rd_be16)
  then have "put_word p (int a) s = Some s" using put_id [of p b s] b(1) rd_length [OF b(1)] by (simp add: put_word_def)
  then show ?thesis using o AssignPercent_hundredths [OF assms(2,3), of p s] by (auto simp: fmt_hundredths_blank)
qed

definition ex_europe :: edit where
  "ex_europe = ex_edit\<lparr>files := [hw_domain \<mapsto> ''80'']\<rparr>"

lemma ex_europe_default: "sc_get_default_country ex_europe = Some CTRY_GERMANY"
proof -
  have "first_line 63 ''80'' = Some ''80''" by (simp add: first_line_def numeral_eq_Suc)
  moreover have "scan_x ''80'' = Some 128"
    by (simp add: scan_x_def c_isspace_def c_isxdigit_def c_isdigit_def Let_def)
  ultimately show ?thesis by (simp add: sc_get_default_country_def read_domain_def ex_europe_def)
qed

theorem country_always_default_witness:
  "AssignCountry (''countryCode'', 0) ''250'' ex_europe = put_word (''countryCode'', 0) 276 ex_europe"
proof -
  have "c_isdigit (head_char ''250'')" by (simp add: head_char_def c_isdigit_def)
  then show ?thesis by (intro country_always_default [OF ex_europe_default]) simp_all
qed

lemma percent_53: "AssignPercent p ''0.53'' s = put_word p 52 s"
proof -
  have "scan_f ''0.53'' = Some (False, 53, 100)" by code_simp
  moreover have "fl_single 53 100 = (8891924, 24)" "fl_single 889192400 16777216 = (13893631, 18)"
    by (simp_all add: fl_single_def scale_up.simps [of _ "Suc _"] scale_up.simps [of _ "numeral _"] round_even_def Let_def)
  ultimately show ?thesis by (simp add: AssignPercent_def)
qed

definition ex_balance :: edit where
  "ex_balance = ex_edit\<lparr>vars := initial_vars(''vapBalance'' := be16 53 @ replicate 6 NUL)\<rparr>"

theorem percent_drift_witness:
  "\<exists>t. OutputPercent' (''vapBalance'', 0) [] ex_balance = Some (t, ex_balance) \<and>
    (AssignPercent (''vapBalance'', 0) (takeWhile (\<lambda>c. c \<noteq> CHR '' '') t) ex_balance = Some ex_balance \<or>
     AssignPercent (''vapBalance'', 0) (takeWhile (\<lambda>c. c \<noteq> CHR '' '') t) ex_balance = put_word (''vapBalance'', 0) (int 53 - 1) ex_balance)"
  by (rule percent_drift) (simp_all add: ex_balance_def rd_word_def rd_def rd_be16_be16 [of _ "[]", simplified])

subsection \<open>The list of known access points\<close>

abbreviation (input) rogues :: ptr where "rogues \<equiv> (''rogueApMacList'', 0)"
abbreviation (input) rogues_out :: ptr where "rogues_out \<equiv> (''rogueApMacList'', 2)"

lemma rogue_size: "var_size ''rogueApMacList'' = 4612"
  by (simp add: var_size_def var_sizes_def)

lemma rd_Some_var: "vars_ok s \<Longrightarrow> n + k \<le> var_size x \<Longrightarrow> \<exists>b. rd (x, n) k s = Some b"
  by (simp add: rd_def vars_ok_def)

lemma IsInScMacList_Some:
  "vars_ok s \<Longrightarrow> i + n \<le> 256 \<Longrightarrow> \<exists>b. IsInScMacList d rogues n i s = Some b"
proof (induction n arbitrary: i)
  case (Suc n)
  have "\<exists>b. rd (rogue_entry rogues i) 17 s = Some b"
    unfolding rogue_entry_def fst_conv snd_conv using Suc.prems by (intro rd_Some_var) (simp_all add: rogue_size)
  then show ?case using Suc.IH [of "i + 1"] Suc.prems by auto
qed auto

lemma scMac12_Some: "length v = 12 \<Longrightarrow> \<exists>m. scMacStr12ToStr17 v c = Some m"
  by (simp add: scMacStr12ToStr17_def)

lemma rd_word_put_same: "put_word p t s = Some s' \<Longrightarrow> rd_word p s' = Some (unat (word_of_int t :: 16 word))"
  using rd_put_same [of p "be16 (word_of_int t)" s s'] rd_be16_be16 [of _ "[]"] by (simp add: put_word_def rd_word_def)

text \<open>A write behind or in front of a field leaves it alone.\<close>

lemma rd_put_apart:
  assumes "put_at p b s = Some s'" "snd q + n \<le> snd p \<or> snd p + length b \<le> snd q"
  shows "rd q n s' = rd q n s"
proof (cases "fst q = fst p")
  case True
  let ?a = "vars s (fst p)"
  have l: "snd p + length b \<le> length ?a"
    and s': "vars s' (fst p) = take (snd p) ?a @ b @ drop (snd p + length b) ?a"
    using assms(1) by (auto simp: put_Some_iff)
  have "take n (drop (snd q) (take (snd p) ?a @ b @ drop (snd p + length b) ?a)) = take n (drop (snd q) ?a)"
    using assms(2)
  proof
    assume A: "snd q + n \<le> snd p"
    have 1: "drop (snd q) (take (snd p) ?a @ x) = take (snd p - snd q) (drop (snd q) ?a) @ x" for x
      using A l by (simp add: drop_take)
    show ?thesis unfolding 1 using A l by (simp add: min_absorb1)
  next
    assume "snd p + length b \<le> snd q"
    then show ?thesis using l by (simp add: min_def)
  qed
  then show ?thesis using s' l True by (auto simp: rd_def Let_def)
qed (use assms(1) rd_put_other in metis)

lemma put_word_Some:
  assumes "vars_ok s" "n + 2 \<le> var_size x"
  shows "\<exists>s'. put_word (x, n) t s = Some s' \<and> vars_ok s'"
  using put_Some_var [OF assms(1), of n "be16 (word_of_int t)" x] assms(2) by (simp add: put_word_def)

lemma rd_word_apart:
  "put_at p b s = Some s' \<Longrightarrow> snd q + 2 \<le> snd p \<or> snd p + length b \<le> snd q \<Longrightarrow> rd_word q s' = rd_word q s"
  by (simp add: rd_word_def rd_put_apart)

lemma AssignScMacList_rogues:
  assumes "rd_word rogues s = Some no" "rd_word rogues_out s = Some out" "flag = (if length v = 17 then 1 else 0)"
  shows "AssignScMacList rogues v s =
    (if no \<le> out \<or> (length v \<noteq> 12 \<and> length v \<noteq> 17) \<or> \<not> IsHexStr v (length v) flag then Some s
     else do {
       mac \<leftarrow> (if length v = 12 then scMacStr12ToStr17 v (CHR '':'') else Some v);
       found \<leftarrow> IsInScMacList mac rogues out 0 s;
       if found then put_word rogues (int no - 1) s
       else do {
         s \<leftarrow> put_word rogues_out (int out + 1) s;
         put_at (rogue_entry rogues out) (take 17 (mac @ replicate 17 NUL)) s
       }
     })"
  unfolding AssignScMacList_def Let_def fst_conv snd_conv add_0 assms bind.bind_lunit by simp

text \<open>C33. As long as the number of entries the file announces is at most 256, the size of the array, a line of the list of
  known access points never leaves the variable and never raises the number, whatever the value is.\<close>

theorem legal_ap_bounded:
  assumes ok: "vars_ok s" and no: "rd_word rogues s = Some no" "no \<le> 256"
  shows "\<exists>s' no'. AssignScMacList rogues v s = Some s' \<and> vars_ok s' \<and> rd_word rogues s' = Some no' \<and> no' \<le> no"
proof -
  obtain out where out: "rd_word rogues_out s = Some out"
    using rd_Some_var [OF ok, of 2 2 "''rogueApMacList''"] by (auto simp: rd_word_def rogue_size)
  define flag :: nat where "flag = (if length v = 17 then 1 else 0)"
  note step = AssignScMacList_rogues [OF no(1) out flag_def]
  show ?thesis
  proof (cases "no \<le> out \<or> (length v \<noteq> 12 \<and> length v \<noteq> 17) \<or> \<not> IsHexStr v (length v) flag")
    case True
    then have "AssignScMacList rogues v s = Some s" unfolding step by simp
    then show ?thesis using ok no(1) by auto
  next
    case False
    then have lt: "out < no" by simp
    have "\<exists>m. (if length v = 12 then scMacStr12ToStr17 v (CHR '':'') else Some v) = Some m"
      using scMac12_Some by auto
    then obtain m where m: "(if length v = 12 then scMacStr12ToStr17 v (CHR '':'') else Some v) = Some m" by blast
    obtain b where b: "IsInScMacList m rogues out 0 s = Some b"
      using IsInScMacList_Some [OF ok, of 0 out m] lt no(2) by auto
    show ?thesis
    proof (cases b)
      case True
      obtain s' where s': "put_word rogues (int no - 1) s = Some s'" "vars_ok s'"
        using put_word_Some [OF ok, of 0 "''rogueApMacList''"] by (auto simp: rogue_size)
      have "AssignScMacList rogues v s = Some s'"
        unfolding step m using False b True s'(1) by auto
      moreover have "unat (word_of_int (int no - 1) :: 16 word) \<le> no"
      proof -
        have "int no - 1 = int (no - 1)" using lt by simp
        then have "unat (word_of_int (int no - 1) :: 16 word) = (no - 1) mod 2 ^ LENGTH(16)"
          by (simp only: of_int_of_nat_eq unat_of_nat)
        then show ?thesis by (simp add: le_trans [OF mod_less_eq_dividend])
      qed
      ultimately show ?thesis using s' rd_word_put_same by blast
    next
      case nb: False
      obtain s1 where s1: "put_word rogues_out (int out + 1) s = Some s1" "vars_ok s1"
        using put_word_Some [OF ok, of 2 "''rogueApMacList''"] by (auto simp: rogue_size)
      have "length (take 17 (m @ replicate 17 NUL)) = 17" by (auto simp: min_def)
      then have "4 + 18 * out + length (take 17 (m @ replicate 17 NUL)) \<le> var_size ''rogueApMacList''"
        using lt no(2) unfolding rogue_size by linarith
      then obtain s' where s': "put_at (rogue_entry rogues out) (take 17 (m @ replicate 17 NUL)) s1 = Some s'" "vars_ok s'"
        using put_Some_var [OF s1(2)] unfolding rogue_entry_def fst_conv snd_conv add_0 by blast
      have "AssignScMacList rogues v s = Some s'"
        unfolding step m using False b nb s1(1) s'(1) by auto
      moreover have "rd_word rogues s' = rd_word rogues s"
        using rd_word_apart [OF s'(1), of rogues] rd_word_apart [OF s1(1) [unfolded put_word_def], of rogues]
        by (simp add: rogue_entry_def)
      ultimately show ?thesis using s'(2) no(1) by auto
    qed
  qed
qed

definition ex_rogue :: edit where
  "ex_rogue = ex_edit\<lparr>vars := initial_vars(''rogueApMacList'' := be16 1 @ replicate 4610 NUL)\<rparr>"

lemma ex_rogue_ok: "vars_ok ex_rogue"
  using ex_edit_ok by (auto simp: ex_rogue_def ex_edit_def vars_ok_def rogue_size)

theorem legal_ap_bounded_witness:
  "\<exists>s' no'. AssignScMacList rogues ''00:0C:41:00:00:01'' ex_rogue = Some s' \<and> vars_ok s' \<and>
     rd_word rogues s' = Some no' \<and> no' \<le> 1"
  by (rule legal_ap_bounded [OF ex_rogue_ok])
    (simp_all add: ex_rogue_def rd_word_def rd_def rd_be16_be16 [of _ "[]", simplified])

text \<open>The number of entries is read without a lower bound, so that a negative one announces 65535.\<close>

lemma legal_ap_count_negative:
  assumes "vars_ok s"
  shows "\<exists>s'. Assign0To255 rogues ''-1'' s = Some s' \<and> rd_word rogues s' = Some 65535"
proof -
  obtain s1 where s1: "put_word rogues (-1) s = Some s1" "vars_ok s1"
    using put_word_Some [OF assms, of 0 "''rogueApMacList''"] by (auto simp: rogue_size)
  obtain s2 where s2: "put_word rogues_out 0 s1 = Some s2"
    using put_word_Some [OF s1(2), of 2 "''rogueApMacList''"] by (auto simp: rogue_size)
  have "atoi ''-1'' = -1" by (simp add: atoi_def c_isspace_def c_isdigit_def clamp_int_def INT_MIN_def INT_MAX_def)
  then have "Assign0To255 rogues ''-1'' s = Some s2"
    using s1 s2 by (simp add: Assign0To255_def Let_def)
  moreover have "unat (-1 :: 16 word) = 65535" by (simp add: unsigned_minus_1_eq_mask mask_eq_exp_minus_1)
  moreover from this have "rd_word rogues s2 = Some 65535"
    using rd_word_apart [OF s2 [unfolded put_word_def], of rogues] rd_word_put_same [OF s1(1)] by simp
  ultimately show ?thesis by blast
qed

subsection \<open>The corrected channel\<close>

lemma rd_byte_put_same: "put_byte p t s = Some s' \<Longrightarrow> rd_byte p s' = Some (nat (t mod 256))"
  using rd_put_same [of p "[char_of (nat (t mod 256))]" s s'] by (simp add: put_byte_def rd_byte_def)

lemma rd_byte_put_other: "put_byte p t s = Some s' \<Longrightarrow> fst q \<noteq> fst p \<Longrightarrow> rd_byte q s' = rd_byte q s"
  by (simp add: put_byte_def rd_byte_def rd_put_other)

lemma put_byte_Some:
  assumes "vars_ok s" "n < var_size x"
  shows "\<exists>s'. put_byte (x, n) t s = Some s' \<and> vars_ok s' \<and> files s' = files s"
  using put_Some_var [OF assms(1), of n "[char_of (nat (t mod 256))]" x] assms(2)
  by (auto simp: put_byte_def put_Some_iff)

lemma rd_byte_Some: "vars_ok s \<Longrightarrow> n < var_size x \<Longrightarrow> \<exists>b. rd_byte (x, n) s = Some b"
  using rd_Some_var [of s n 1 x] by (auto simp: rd_byte_def)

text \<open>C23. After an import the channel is corrected, and no other variable and no file changes. A channel above the last number
  of the list of channels (in front of the line \<open>current:\<close>; 0 without one) becomes 0, the automatic choice, and any
  other is kept, also a number that is not in the list. In every mode but that of an access point the automatic
  choice is then replaced by that last number, cut off to a byte.\<close>

theorem corrected_channel:
  assumes ok: "vars_ok s"
  shows "\<exists>c m c1. rd_byte (''channel'', 0) s = Some c \<and> rd_byte (''opMode'', 0) s = Some m \<and>
    c1 = (if max_channel s < int c then 0 else c) \<and>
    correctVariables s = Some (s\<lparr>vars := (vars s)(''channel'' :=
      [char_of (if m \<noteq> 0 \<and> c1 = 0 then nat (max_channel s mod 256) else c1)])\<rparr>)"
proof -
  have sz: "0 < var_size ''channel''" "0 < var_size ''opMode''" by (simp_all add: var_size_def var_sizes_def)
  have "length (vars s ''channel'') = 1" using ok by (simp add: vars_ok_def var_size_def var_sizes_def)
  then obtain x where x: "vars s ''channel'' = [x]" by (auto simp: length_Suc_conv)
  have put: "put_byte (''channel'', 0) n t = Some (t\<lparr>vars := (vars t)(''channel'' := [char_of (nat (n mod 256))])\<rparr>)"
    if "length (vars t ''channel'') = 1" for n and t :: "'a edit_scheme"
    using that by (auto simp: put_byte_def put_Some_iff length_Suc_conv)
  obtain m where m: "rd_byte (''opMode'', 0) s = Some m" using rd_byte_Some [OF ok sz(2)] by blast
  have c: "rd_byte (''channel'', 0) s = Some (code x)" by (simp add: rd_byte_def rd_def x)
  define c1 where "c1 = (if max_channel s < int (code x) then 0 else code x)"
  define s1 where "s1 = s\<lparr>vars := (vars s)(''channel'' := [char_of c1])\<rparr>"
  define c2 where "c2 = (if m \<noteq> 0 \<and> c1 = 0 then nat (max_channel s mod 256) else c1)"
  have "(vars s)(''channel'' := [char_of (code x)]) = vars s" using x by (intro fun_upd_idem) simp
  then have s1: "(if max_channel s < int (code x) then put_byte (''channel'', 0) 0 s else Some s) = Some s1"
    using put [of s 0] x by (simp add: s1_def c1_def)
  have c1: "c1 < 256" by (simp add: c1_def)
  have v1: "vars s1 ''channel'' = [char_of c1]" "vars s1 ''opMode'' = vars s ''opMode''" by (simp_all add: s1_def)
  have r: "rd_byte (''channel'', 0) s1 = Some c1" "rd_byte (''opMode'', 0) s1 = Some m"
    using m c1 by (simp_all add: rd_byte_def rd_def v1)
  have "correctVariables s = (if m \<noteq> 0 \<and> c1 = 0 then put_byte (''channel'', 0) (max_channel s) s1 else Some s1)"
    by (simp add: correctVariables_def Let_def c s1 r)
  also have "\<dots> = Some (s\<lparr>vars := (vars s)(''channel'' := [char_of c2])\<rparr>)"
    using put [of s1 "max_channel s"] v1(1) by (simp add: c2_def) (simp add: s1_def)
  finally show ?thesis using m c c1_def c2_def by blast
qed

definition ex_bridge :: edit where
  "ex_bridge = ex_edit\<lparr>files := [''/tmp/chan_list'' \<mapsto> ''11'' @ [LF]], vars := initial_vars(''opMode'' := [CHR 0x02], ''channel'' := [CHR 0x0D])\<rparr>"

lemma ex_bridge_ok: "vars_ok ex_bridge"
proof -
  have "var_size ''opMode'' = 1" "var_size ''channel'' = 1" by (simp_all add: var_size_def var_sizes_def)
  then show ?thesis using ex_edit_ok by (simp add: ex_bridge_def ex_edit_def vars_ok_def)
qed

lemma ex_bridge_max: "max_channel ex_bridge = 11"
proof -
  have "fgets_all 30 (''11'' @ [LF]) = [''11'' @ [LF]]" by (simp add: fgets_all.simps numeral_eq_Suc)
  moreover have "atoi (''11'' @ [LF]) = 11"
    by (simp add: atoi_def c_isspace_def c_isdigit_def clamp_int_def INT_MIN_def INT_MAX_def)
  ultimately show ?thesis by (simp add: max_channel_def ex_bridge_def c_read_def)
qed

text \<open>A bridge with channel 13 and a list up to 11: channel 11.\<close>

theorem corrected_channel_witness:
  "correctVariables ex_bridge = Some (ex_bridge\<lparr>vars := (vars ex_bridge)(''channel'' := [char_of (11 :: nat)])\<rparr>)"
proof -
  have "rd_byte (''channel'', 0) ex_bridge = Some 13" "rd_byte (''opMode'', 0) ex_bridge = Some 2"
    by (simp_all add: rd_byte_def rd_def ex_bridge_def)
  then show ?thesis using corrected_channel [OF ex_bridge_ok] by (simp add: ex_bridge_max)
qed

subsection \<open>The checksum\<close>

lemma length_fmt_8lu: "n < 100000000 \<Longrightarrow> length (fmt_8lu n) = 8"
  using length_fmt_d_nonneg [of "int n" 8] by (simp add: fmt_8lu_def Let_def)

lemma checksum_field:
  assumes "vars_ok s" "length t = 8"
  shows "\<exists>s1 s2. store_str (''APchecksum'', 0) t s = Some s1 \<and> put_at (''APchecksum'', 8) [LF] s1 = Some s2 \<and>
    rd (''APchecksum'', 0) 9 s2 = Some (t @ [LF])"
proof -
  have sz: "length (vars s ''APchecksum'') = 9"
    using assms(1) by (simp add: vars_ok_def var_size_def var_sizes_def)
  define s1 where "s1 = s\<lparr>vars := (vars s)(''APchecksum'' := t @ [NUL])\<rparr>"
  define s2 where "s2 = s\<lparr>vars := (vars s)(''APchecksum'' := t @ [LF])\<rparr>"
  have "store_str (''APchecksum'', 0) t s = Some s1" using sz assms(2) by (simp add: store_str_def put_Some_iff s1_def)
  moreover have "put_at (''APchecksum'', 8) [LF] s1 = Some s2"
    using assms(2) by (simp add: put_Some_iff s1_def s2_def)
  moreover have "rd (''APchecksum'', 0) 9 s2 = Some (t @ [LF])" using assms(2) by (simp add: rd_def s2_def)
  ultimately show ?thesis by blast
qed

text \<open>C24. The text of the checksum replaces the eight zeros of the title and nothing else: it is the sum of the bytes behind
  the title, padded to eight characters, and the length returned is that of the whole text.\<close>

theorem export_checksum:
  assumes ok: "vars_ok s" and b: "byte_sum rest < 100000000" and t: "length title \<ge> 9"
  shows "\<exists>s'. write_checksum title (title @ rest) s =
    Some ((length title + length rest, take (length title - 9) title @ fmt_8lu (byte_sum rest) @ [LF] @ rest), s')"
proof -
  let ?c = "fmt_8lu (byte_sum rest)"
  have l: "length ?c = 8" using b by (rule length_fmt_8lu)
  obtain s1 s2 where s: "store_str (''APchecksum'', 0) ?c s = Some s1" "put_at (''APchecksum'', 8) [LF] s1 = Some s2"
    "rd (''APchecksum'', 0) 9 s2 = Some (?c @ [LF])"
    using checksum_field [OF ok l] by blast
  have "buf_put (length title - 9) (?c @ [LF]) (title @ rest) = Some (take (length title - 9) title @ ?c @ [LF] @ rest)"
    using t l by (simp add: buf_put_def)
  then show ?thesis using s t l by (simp add: write_checksum_def Let_def)
qed

theorem export_checksum_witness:
  "\<exists>s'. write_checksum ''The checksum: 00000000.'' (''The checksum: 00000000.'' @ ''Log'') ex_edit =
    Some ((length ''The checksum: 00000000.'' + length ''Log'',
      take (length ''The checksum: 00000000.'' - 9) ''The checksum: 00000000.'' @ fmt_8lu (byte_sum ''Log'') @ [LF] @ ''Log''), s')"
  by (rule export_checksum [OF ex_edit_ok]) (simp_all add: byte_sum_def c_read_def)

end
