(* ===== verification/Edit_Round.thy ===== *)
theory Edit_Round
  imports Edit_Laws
begin

text \<open>
  Reading back what was written: the lines \<open>OutputCFG\<close> prints for a group are split by \<open>GetaAttr\<close> into the
  names and exactly the texts the output functions wrote, whatever comments stand behind them, so that importing
  an exported group is the assign functions applied to those texts; and for most attributes an assign function
  applied to its own output leaves the variables as they are.
\<close>

subsection \<open>Lines\<close>

definition clean :: "bytes \<Rightarrow> bool" where
  "clean l \<longleftrightarrow> LF \<notin> set l \<and> NUL \<notin> set l \<and> length l \<le> 127"

lemma c_fgets_clean: "LF \<notin> set l \<Longrightarrow> length l < n \<Longrightarrow> c_fgets n (l @ LF # r) = (l @ [LF], r)"
proof (induction l arbitrary: n)
  case Nil
  then show ?case by (cases n) auto
next
  case (Cons c l)
  then obtain k where "n = Suc k" by (cases n) auto
  then show ?case using Cons by auto
qed

lemma get_line_clean: "clean l \<Longrightarrow> get_line (l @ LF # r) = (l @ [LF], r, False)"
  using c_fgets_clean [of l 128 r]
  by (auto simp: get_line_def clean_def c_read_def takeWhile_append2)

definition skip_line :: "bytes \<Rightarrow> bool" where
  "skip_line l \<longleftrightarrow> head_char (l @ [LF]) \<noteq> CHR ''['' \<and> (head_char (l @ [LF]) = CHR '' '' \<or> findEQ (l @ [LF]) = 0)"

lemma GetaAttr_skip_line: "clean l \<Longrightarrow> skip_line l \<Longrightarrow> GetaAttr (l @ LF # r, False) = GetaAttr (r, False)"
  by (rule GetaAttr_skip [OF get_line_clean]) (auto simp: skip_line_def)

definition unlines :: "bytes list \<Rightarrow> bytes" where
  "unlines ls = concat (map (\<lambda>l. l @ [LF]) ls)"

lemma GetaAttr_skips:
  "\<forall>l \<in> set ls. clean l \<and> skip_line l \<Longrightarrow> GetaAttr (unlines ls @ r, False) = GetaAttr (r, False)"
  by (induction ls) (simp_all add: unlines_def GetaAttr_skip_line)

fun split_lf :: "bytes \<Rightarrow> bytes list" where
  "split_lf [] = []"
| "split_lf (c # s) = (if c = LF then [] # split_lf s else (case split_lf s of [] \<Rightarrow> [[c]] | l # ls \<Rightarrow> (c # l) # ls))"

lemma split_lf_not_Nil: "split_lf (x @ [LF]) \<noteq> []"
  by (induction x) (auto split: list.splits)

lemma unlines_split_lf: "unlines (split_lf (x @ [LF])) = x @ [LF]"
proof (induction x)
  case (Cons c x)
  obtain l ls where "split_lf (x @ [LF]) = l # ls" using split_lf_not_Nil [of x] by (auto simp: neq_Nil_conv)
  then show ?case using Cons by (simp add: unlines_def)
qed (simp add: unlines_def)

subsection \<open>One attribute\<close>

definition name_ok :: "cstr \<Rightarrow> bool" where
  "name_ok n \<longleftrightarrow> n \<noteq> [] \<and> hd n \<noteq> CHR ''['' \<and> (\<forall>c \<in> set n. c \<notin> {CHR '' '', CHR ''='', NUL})"

definition ssid_names :: "cstr list" where
  "ssid_names = [''SSID1'', ''SSID2'', ''SSID3'', ''SSID4'']"

text \<open>The characters that belong to a value, by the attribute's name.\<close>

definition value_char :: "cstr \<Rightarrow> char \<Rightarrow> bool" where
  "value_char n c \<longleftrightarrow> (if n \<in> set ssid_names then c \<noteq> CR else 32 < code c \<and> code c < 127)"

lemma value_of_takeWhile: "value_of n s = takeWhile (value_char n) s"
proof (cases "n \<in> set ssid_names")
  case True
  then have "value_char n = (\<lambda>c. c \<noteq> CR)" by (simp add: value_char_def fun_eq_iff)
  then show ?thesis using True by (simp add: value_of_def ssid_names_def)
next
  case False
  then have "value_char n = (\<lambda>c. 32 < code c \<and> code c < 127)" by (simp add: value_char_def fun_eq_iff)
  then show ?thesis using False by (simp add: value_of_def ssid_names_def)
qed

lemma findEQ_name: "name_ok n \<Longrightarrow> findEQ (n @ CHR ''='' # t) = length n"
  by (simp add: findEQ_def name_ok_def Let_def takeWhile_append2 nth_append)

text \<open>The value that is read ends with the first character that does not belong to it.\<close>

definition read_back :: "cstr \<Rightarrow> cstr \<Rightarrow> cstr" where
  "read_back n v = takeWhile (value_char n) v"

lemma read_back_all: "\<forall>c \<in> set v. value_char n c \<Longrightarrow> read_back n v = v"
  by (simp add: read_back_def)

lemma GetaAttr_line:
  assumes "name_ok n" "clean (n @ CHR ''='' # v @ t)" "t \<noteq> []" "\<not> value_char n (hd t)"
  shows "GetaAttr ((n @ CHR ''='' # v @ t) @ LF # r, False) = (Some (n, read_back n v), r, False)"
proof -
  let ?l = "n @ CHR ''='' # v @ t"
  have h: "head_char (?l @ [LF]) = hd n" "n \<noteq> []" using assms(1) by (auto simp: head_char_def name_ok_def)
  have e: "findEQ (?l @ [LF]) = length n" using findEQ_name [OF assms(1), of "v @ t @ [LF]"] by simp
  have "takeWhile (value_char n) (v @ t @ [LF]) = takeWhile (value_char n) v"
  proof (cases "\<forall>c \<in> set v. value_char n c")
    case True
    then show ?thesis using assms(3,4) by (cases t) (simp_all add: takeWhile_append2 takeWhile_eq_all_conv [THEN iffD2])
  next
    case False
    then show ?thesis by (auto simp: takeWhile_append1)
  qed
  then have "value_of n (drop (length n + 1) (?l @ [LF])) = read_back n v" by (simp add: value_of_takeWhile read_back_def)
  moreover have "hd n \<notin> {CHR ''['', CHR '' '', NUL}" using assms(1) by (auto simp: name_ok_def neq_Nil_conv)
  ultimately show ?thesis
    using GetaAttr_found [OF get_line_clean [OF assms(2)], of r] e h by simp
qed

text \<open>What \<open>OutputComment\<close> appends.\<close>

definition comment_text :: "cstr \<Rightarrow> bytes" where
  "comment_text c = (if c \<noteq> [] then CHR '' '' # c else []) @ [CR, LF]"

lemma OutputComment_text: "OutputComment c buff = buff @ comment_text c"
  by (simp add: OutputComment_def comment_text_def)

text \<open>The lines of a comment: the first one ends the line of the value, the others are passed over. The name of an
  attribute that is only a comment itself begins with a semicolon.\<close>

definition comment_shape :: "cstr \<Rightarrow> cstr \<Rightarrow> bool" where
  "comment_shape n c \<longleftrightarrow>
     (case split_lf (comment_text c) of
        [] \<Rightarrow> False
      | t # ls \<Rightarrow> list_all (\<lambda>l. clean l \<and> skip_line l) ls \<and> NUL \<notin> set t \<and> LF \<notin> set n \<and>
          (if hd n = CHR '';'' then clean (n @ t) \<and> skip_line (n @ t)
           else name_ok n \<and> (n \<in> set ssid_names \<longrightarrow> c = [])))"

text \<open>The text of a value: no line break or terminator in it, and at most 127 characters on its line.\<close>

definition text_fits :: "cstr \<Rightarrow> cstr \<Rightarrow> cstr \<Rightarrow> bool" where
  "text_fits n v c \<longleftrightarrow> LF \<notin> set v \<and> NUL \<notin> set v \<and> length n + length v + length (hd (split_lf (comment_text c))) \<le> 126"

definition line_fits :: "cstr \<Rightarrow> cstr \<Rightarrow> cstr \<Rightarrow> bool" where
  "line_fits n v c \<longleftrightarrow> comment_shape n c \<and> (if hd n = CHR '';'' then v = [] else text_fits n v c)"

lemma split_lf_line: "split_lf s = t # ls \<Longrightarrow> LF \<notin> set t"
  by (induction s arbitrary: t ls) (auto split: if_splits list.splits)

lemma first_comment_line:
  assumes "split_lf (comment_text c) = t # ls" "n \<in> set ssid_names \<longrightarrow> c = []"
  shows "t \<noteq> []" "\<not> value_char n (hd t)"
proof -
  have "hd t = (if c = [] then CR else CHR '' '') \<and> t \<noteq> []"
    using assms(1) by (cases "c = []") (auto simp: comment_text_def split: list.splits if_splits)
  then show "t \<noteq> []" "\<not> value_char n (hd t)" using assms(2) by (auto simp: value_char_def)
qed

lemma text_fits_clean:
  assumes "comment_shape n c" "text_fits n v c" "hd n \<noteq> CHR '';''" "split_lf (comment_text c) = t # ls"
  shows "clean (n @ CHR ''='' # v @ t)"
  using assms split_lf_line [OF assms(4)] by (auto simp: comment_shape_def text_fits_def clean_def name_ok_def)

definition row_text :: "cstr \<Rightarrow> cstr \<Rightarrow> cstr \<Rightarrow> bytes" where
  "row_text n v c = n @ (if head_char n \<noteq> CHR '';'' then ''='' else []) @ v @ comment_text c"

lemma comment_lines:
  assumes "split_lf (comment_text c) = t # ls"
  shows "comment_text c = t @ LF # unlines ls"
proof -
  have "comment_text c = ((if c \<noteq> [] then CHR '' '' # c else []) @ [CR]) @ [LF]" by (simp add: comment_text_def)
  then have "unlines (split_lf (comment_text c)) = comment_text c" by (metis unlines_split_lf)
  then show ?thesis using assms by (simp add: unlines_def)
qed

lemma GetaAttr_row:
  assumes "line_fits n v c" "n \<noteq> []"
  shows "hd n = CHR '';'' \<Longrightarrow> GetaAttr (row_text n v c @ r, False) = GetaAttr (r, False)"
    and "hd n \<noteq> CHR '';'' \<Longrightarrow>
      \<exists>r'. GetaAttr (row_text n v c @ r, False) = (Some (n, read_back n v), r', False) \<and> GetaAttr (r', False) = GetaAttr (r, False)"
proof -
  have shape: "comment_shape n c" using assms(1) by (simp add: line_fits_def)
  obtain t ls where t: "split_lf (comment_text c) = t # ls" "\<forall>l \<in> set ls. clean l \<and> skip_line l"
    using shape by (auto simp: comment_shape_def list_all_iff split: list.splits)
  note c = comment_lines [OF t(1)]
  { assume h: "hd n = CHR '';''"
    then have "row_text n v c @ r = (n @ t) @ LF # (unlines ls @ r)" "clean (n @ t)" "skip_line (n @ t)"
      using assms shape t(1) by (auto simp: line_fits_def comment_shape_def row_text_def c head_char_def)
    then show "GetaAttr (row_text n v c @ r, False) = GetaAttr (r, False)"
      using GetaAttr_skip_line GetaAttr_skips [OF t(2)] by metis }
  { assume h: "hd n \<noteq> CHR '';''"
    then have fits: "text_fits n v c" using assms(1) by (simp add: line_fits_def)
    have "name_ok n" "n \<in> set ssid_names \<longrightarrow> c = []" using shape h t(1) by (simp_all add: comment_shape_def)
    then have *: "row_text n v c @ r = (n @ CHR ''='' # v @ t) @ LF # (unlines ls @ r)" "name_ok n" "t \<noteq> []" "\<not> value_char n (hd t)"
      using h assms(2) first_comment_line [OF t(1)] by (auto simp: row_text_def c head_char_def)
    show "\<exists>r'. GetaAttr (row_text n v c @ r, False) = (Some (n, read_back n v), r', False) \<and> GetaAttr (r', False) = GetaAttr (r, False)"
      unfolding *(1) using GetaAttr_line [OF *(2) text_fits_clean [OF shape fits h t(1)] *(3,4)] GetaAttr_skips [OF t(2)] by blast }
qed

subsection \<open>One group\<close>

text \<open>A row: the attribute, the text printed for its variable, and the comment behind it.\<close>

type_synonym attr_row = "attr_s \<times> cstr \<times> cstr"

text \<open>The assign functions applied to the texts, and whether one was called.\<close>

fun assign_rows :: "attr_row list \<Rightarrow> bool \<Rightarrow> 'a edit_scheme \<Rightarrow> (bool \<times> 'a edit_scheme) option" where
  "assign_rows [] good s = Some (good, s)"
| "assign_rows ((a, v, c) # rs) good s =
     (case assignfunc a of
        None \<Rightarrow> assign_rows rs good s
      | Some f \<Rightarrow>
          if v \<noteq> [] \<or> isNvAssignFunc f then
            (case run_assign f (attr_var a) v s of None \<Rightarrow> None | Some s \<Rightarrow> assign_rows rs True s)
          else assign_rows rs good s)"

fun rows_text :: "attr_row list \<Rightarrow> bytes" where
  "rows_text [] = []"
| "rows_text ((a, v, c) # rs) = row_text (attr_name a) v c @ rows_text rs"

text \<open>The rows as they are read back.\<close>

definition read_row :: "attr_row \<Rightarrow> attr_row" where
  "read_row = (\<lambda>(a, v, c). (a, read_back (attr_name a) v, c))"

definition rows_ok :: "attr_s list \<Rightarrow> attr_row list \<Rightarrow> bool" where
  "rows_ok attrs rs \<longleftrightarrow>
     (\<forall>(a, v, c) \<in> set rs. a \<in> set attrs \<and> attr_name a \<noteq> [] \<and> line_fits (attr_name a) v c \<and>
        (hd (attr_name a) = CHR '';'' \<longrightarrow> assignfunc a = None))"

lemma ParseN_cong:
  "GetaAttr (b, False) = GetaAttr (b', False) \<Longrightarrow>
   ParseNAssignValue attrs type (b, False) good s = ParseNAssignValue attrs type (b', False) good s"
  by (simp add: ParseNAssignValue.simps [of attrs type "(b, False)"] ParseNAssignValue.simps [of attrs type "(b', False)"])

lemma matchAttr_distinct: "distinct (map attr_name attrs) \<Longrightarrow> a \<in> set attrs \<Longrightarrow> matchAttr (attr_name a) attrs = Some a"
  by (induction attrs) (auto simp: matchAttr_def image_iff)

text \<open>The group ends where the next one starts, or with the file.\<close>

lemma ParseN_group_end:
  "ParseNAssignValue attrs type ([CR, LF] @ CHR ''['' # q, False) good s = Some (good, (CHR ''['' # q, False), s)"
proof -
  have "clean [CR]" "skip_line [CR]" by (simp_all add: clean_def skip_line_def head_char_def findEQ_def)
  then have "GetaAttr ([CR, LF] @ CHR ''['' # q, False) = GetaAttr (CHR ''['' # q, False)"
    using GetaAttr_skip_line [of "[CR]" "CHR ''['' # q"] by simp
  also have "\<dots> = (None, CHR ''['' # q, False)"
  proof -
    obtain l r where "c_fgets 127 q = (l, r)" by fastforce
    then have "c_fgets 128 (CHR ''['' # q) = (CHR ''['' # l, r)" by (simp add: numeral_eq_Suc)
    then obtain st where "get_line (CHR ''['' # q) = (CHR ''['' # c_read l, st)" by (simp add: get_line_def c_read_def)
    then show ?thesis by (rule GetaAttr_stop) (simp add: head_char_def)
  qed
  finally show ?thesis by (simp add: ParseNAssignValue.simps)
qed

lemma parse_rows:
  fixes s :: "'a edit_scheme"
  assumes "distinct (map attr_name attrs)" "\<forall>a \<in> set attrs. attr_type a AND type \<noteq> 0" "rows_ok attrs rs"
  shows "ParseNAssignValue attrs type (rows_text rs @ [CR, LF] @ CHR ''['' # q, False) good s =
    (case assign_rows (map read_row rs) good s of None \<Rightarrow> None | Some (g, s') \<Rightarrow> Some (g, (CHR ''['' # q, False), s'))"
  using assms(3)
proof (induction rs arbitrary: good s)
  case Nil
  show ?case by (simp add: ParseN_group_end [simplified])
next
  case (Cons r rs)
  obtain a v c where r: "r = (a, v, c)" by (cases r)
  have ok: "a \<in> set attrs" "attr_name a \<noteq> []" "line_fits (attr_name a) v c" "rows_ok attrs rs"
    "hd (attr_name a) = CHR '';'' \<Longrightarrow> assignfunc a = None"
    using Cons.prems by (auto simp: rows_ok_def r)
  define rest where "rest = rows_text rs @ [CR, LF] @ CHR ''['' # q"
  have IH: "ParseNAssignValue attrs type (rest, False) g s =
    (case assign_rows (map read_row rs) g s of None \<Rightarrow> None | Some (g, s') \<Rightarrow> Some (g, (CHR ''['' # q, False), s'))" for g and s :: "'a edit_scheme"
    unfolding rest_def by (rule Cons.IH [OF ok(4)])
  have t: "rows_text (r # rs) @ [CR, LF] @ CHR ''['' # q = row_text (attr_name a) v c @ rest" by (simp add: r rest_def)
  show ?case
  proof (cases "hd (attr_name a) = CHR '';''")
    case True
    then show ?thesis unfolding t ParseN_cong [OF GetaAttr_row(1) [OF ok(3,2) True]] using IH ok(5) [OF True] by (simp add: r read_row_def)
  next
    case False
    let ?v = "read_back (attr_name a) v"
    obtain r' where r': "GetaAttr (row_text (attr_name a) v c @ rest, False) = (Some (attr_name a, read_back (attr_name a) v), r', False)"
      "GetaAttr (r', False) = GetaAttr (rest, False)"
      using GetaAttr_row(2) [OF ok(3,2) False] by blast
    have m: "matchAttr (attr_name a) attrs = Some a" using assms(1) ok(1) by (rule matchAttr_distinct)
    have ty: "attr_type a AND type \<noteq> 0" using assms(2) ok(1) by blast
    have nx: "ParseNAssignValue attrs type (r', False) g s = ParseNAssignValue attrs type (rest, False) g s"
      for g and s :: "'a edit_scheme" by (rule ParseN_cong) (rule r'(2))
    have "ParseNAssignValue attrs type (row_text (attr_name a) v c @ rest, False) good s =
      (case assignfunc a of
         None \<Rightarrow> ParseNAssignValue attrs type (rest, False) good s
       | Some f \<Rightarrow> if ?v \<noteq> [] \<or> isNvAssignFunc f then
           (case run_assign f (attr_var a) ?v s of None \<Rightarrow> None | Some s \<Rightarrow> ParseNAssignValue attrs type (rest, False) True s)
           else ParseNAssignValue attrs type (rest, False) good s)"
      by (subst ParseNAssignValue.simps) (simp add: r'(1) m ty nx split: option.split)
    then show ?thesis unfolding t by (simp add: IH r read_row_def split: option.splits)
  qed
qed

subsection \<open>The text of a group\<close>

definition comment_of :: "attr_s \<Rightarrow> 'a edit_scheme \<Rightarrow> cstr option" where
  "comment_of a s = (if take 14 (attr_name a) \<noteq> ''Country_Region'' then Some (attr_comment a) else country_comment s)"

lemma out_comment_text: "out_comment a buff s = map_option (\<lambda>c. buff @ comment_text c) (comment_of a s)"
  by (cases "country_comment s") (auto simp: out_comment_def comment_of_def OutputCountryComment_def OutputComment_text)

text \<open>The texts the output functions write, one attribute after the other.\<close>

fun exported :: "attr_s list \<Rightarrow> 'a edit_scheme \<Rightarrow> (attr_row list \<times> 'a edit_scheme) option" where
  "exported [] s = Some ([], s)"
| "exported (a # as) s = do {
     (v, s) \<leftarrow> (case outputfunc a of None \<Rightarrow> Some ([], s) | Some f \<Rightarrow> run_output f (attr_var a) [] s);
     c \<leftarrow> comment_of a s;
     (rs, s) \<leftarrow> exported as s;
     Some ((a, v, c) # rs, s)
   }"

text \<open>Except for the list of access points, what an output function appends does not depend on the text before.\<close>

lemma run_output_append:
  "f \<noteq> F_OutputScMacList \<Longrightarrow>
   run_output f p buff s = map_option (\<lambda>(v, s). (buff @ v, s)) (run_output f p [] s)"
  by (cases f)
    (auto simp: OutputStr_def OutputByte_def OutputIP_def OutputWord_def OutputPass_def OutputMac_def OutputPercent'_def
      split: bind_splits option.splits)

text \<open>What the import asks of a group: the names differ, no attribute is the list of access points, and the comments, the one of
  the country too, have their shape.\<close>

definition attr_shaped :: "attr_s \<Rightarrow> bool" where
  "attr_shaped a \<longleftrightarrow> outputfunc a \<noteq> Some F_OutputScMacList \<and> attr_name a \<noteq> [] \<and>
     (if take 14 (attr_name a) \<noteq> ''Country_Region'' then comment_shape (attr_name a) (attr_comment a)
      else list_all (comment_shape (attr_name a)) country_comments) \<and>
     (hd (attr_name a) = CHR '';'' \<longrightarrow> assignfunc a = None \<and> outputfunc a = None)"

definition attr_plain :: "8 word \<Rightarrow> attr_s \<Rightarrow> bool" where
  "attr_plain type a \<longleftrightarrow> attr_type a AND type \<noteq> 0 \<and> attr_shaped a"

definition plain_group :: "8 word \<Rightarrow> attr_s list \<Rightarrow> bool" where
  "plain_group type attrs \<longleftrightarrow> distinct (map attr_name attrs) \<and> list_all (attr_plain type) attrs"

lemma country_comment_in: "country_comment s = Some c \<Longrightarrow> c \<in> set country_comments"
  by (auto simp: country_comment_def bind_Some_iff Let_def country_comments_def split: if_splits)

lemma comment_of_shape:
  assumes "attr_plain type a" "comment_of a s = Some c"
  shows "comment_shape (attr_name a) c"
  using assms country_comment_in [of s c] by (auto simp: attr_plain_def attr_shaped_def comment_of_def list_all_iff split: if_splits)

lemma out_attrs_rows:
  "\<forall>a \<in> set attrs. attr_type a AND type \<noteq> 0 \<and> outputfunc a \<noteq> Some F_OutputScMacList \<Longrightarrow>
   out_attrs type attrs buff s = map_option (\<lambda>(rs, s). (buff @ rows_text rs, s)) (exported attrs s)"
proof (induction attrs arbitrary: buff s)
  case (Cons a as)
  define b where "b = OutputAttr (attr_name a) buff"
  define w where "w = (case outputfunc a of None \<Rightarrow> Some ([], s) | Some f \<Rightarrow> run_output f (attr_var a) [] s)"
  have w: "(case outputfunc a of None \<Rightarrow> Some (b, s) | Some f \<Rightarrow> run_output f (attr_var a) b s) = map_option (\<lambda>(v, s). (b @ v, s)) w"
  proof (cases "outputfunc a")
    case (Some f)
    then have "f \<noteq> F_OutputScMacList" using Cons.prems by auto
    then show ?thesis unfolding w_def Some option.case by (rule run_output_append)
  qed (simp add: w_def)
  have b: "b @ v @ comment_text c @ r = buff @ row_text (attr_name a) v c @ r" for v c r
    by (simp add: b_def OutputAttr_def row_text_def)
  have IH: "out_attrs type as buff s = map_option (\<lambda>(rs, s). (buff @ rows_text rs, s)) (exported as s)" for buff and s :: "'a edit_scheme"
    using Cons.prems by (intro Cons.IH) simp
  have ty: "attr_type a AND type \<noteq> 0" using Cons.prems by simp
  show ?case
  proof (cases w)
    case None
    then show ?thesis using ty by (simp add: b_def [symmetric] w w_def [symmetric])
  next
    case (Some p)
    obtain v s1 where p: "p = (v, s1)" by (cases p)
    show ?thesis
    proof (cases "comment_of a s1")
      case None
      then show ?thesis using ty by (simp add: b_def [symmetric] w w_def [symmetric] Some p out_comment_text)
    next
      case (Some c)
      then show ?thesis using ty \<open>w = Some p\<close>
        by (cases "exported as s1") (auto simp: b_def [symmetric] w w_def [symmetric] p out_comment_text IH b)
    qed
  qed
qed simp

lemma exported_attrs: "exported attrs s = Some (rs, s') \<Longrightarrow> map fst rs = attrs"
proof (induction attrs arbitrary: s rs)
  case (Cons a as)
  define w where "w = (case outputfunc a of None \<Rightarrow> Some ([], s) | Some f \<Rightarrow> run_output f (attr_var a) [] s)"
  have "w \<bind> (\<lambda>(v, s). comment_of a s \<bind> (\<lambda>c. exported as s \<bind> (\<lambda>(rs, s). Some ((a, v, c) # rs, s)))) = Some (rs, s')"
    using Cons.prems by (simp only: w_def exported.simps)
  then obtain v s1 where "comment_of a s1 \<bind> (\<lambda>c. exported as s1 \<bind> (\<lambda>(rs, s). Some ((a, v, c) # rs, s))) = Some (rs, s')"
    by (cases w) auto
  then obtain c where "exported as s1 \<bind> (\<lambda>(rs, s). Some ((a, v, c) # rs, s)) = Some (rs, s')"
    by (cases "comment_of a s1") auto
  then obtain rs1 where "exported as s1 = Some (rs1, s')" "rs = (a, v, c) # rs1"
    by (cases "exported as s1") auto
  then show ?case using Cons.IH by simp
qed simp

lemma exported_rows:
  "exported attrs s = Some (rs, s') \<Longrightarrow> (a, v, c) \<in> set rs \<Longrightarrow> list_all (attr_plain type) attrs \<Longrightarrow>
   a \<in> set attrs \<and> comment_shape (attr_name a) c \<and> (outputfunc a = None \<longrightarrow> v = [])"
proof (induction attrs arbitrary: s rs)
  case (Cons b as)
  define w where "w = (case outputfunc b of None \<Rightarrow> Some ([], s) | Some f \<Rightarrow> run_output f (attr_var b) [] s)"
  have "w \<bind> (\<lambda>(v, s). comment_of b s \<bind> (\<lambda>c. exported as s \<bind> (\<lambda>(rs, s). Some ((b, v, c) # rs, s)))) = Some (rs, s')"
    using Cons.prems(1) by (simp only: w_def exported.simps)
  then obtain v1 s1 where 1: "w = Some (v1, s1)"
    "comment_of b s1 \<bind> (\<lambda>c. exported as s1 \<bind> (\<lambda>(rs, s). Some ((b, v1, c) # rs, s))) = Some (rs, s')"
    by (cases w) auto
  then obtain c1 where c1: "comment_of b s1 = Some c1" "exported as s1 \<bind> (\<lambda>(rs, s). Some ((b, v1, c1) # rs, s)) = Some (rs, s')"
    by (cases "comment_of b s1") auto
  then obtain rs1 where rs1: "exported as s1 = Some (rs1, s')" "rs = (b, v1, c1) # rs1"
    by (cases "exported as s1") auto
  have b: "comment_shape (attr_name b) c1" using comment_of_shape [OF _ c1(1), of type] Cons.prems(3) by simp
  have "outputfunc b = None \<longrightarrow> v1 = []" using 1(1) by (auto simp: w_def)
  then show ?case using Cons.IH [OF rs1(1)] Cons.prems(2,3) b rs1(2) by auto
qed simp

lemma parse_of_exported:
  fixes s2 :: "'b edit_scheme"
  assumes "plain_group type attrs" "exported attrs s = Some (rs, s1)" "\<forall>(a, v, c) \<in> set rs. hd (attr_name a) = CHR '';'' \<or> text_fits (attr_name a) v c"
  shows "\<exists>t. out_attrs type attrs buff s = Some (buff @ t, s1) \<and>
    ParseNAssignValue attrs type (t @ [CR, LF] @ CHR ''['' # q, False) good s2 =
      (case assign_rows (map read_row rs) good s2 of None \<Rightarrow> None | Some (g, s3) \<Rightarrow> Some (g, (CHR ''['' # q, False), s3))"
proof -
  have p: "distinct (map attr_name attrs)" "list_all (attr_plain type) attrs" using assms(1) by (simp_all add: plain_group_def)
  have "rows_ok attrs rs" unfolding rows_ok_def
  proof clarify
    fix a v c
    assume r: "(a, v, c) \<in> set rs"
    have e: "a \<in> set attrs" "comment_shape (attr_name a) c" "outputfunc a = None \<longrightarrow> v = []"
      using exported_rows [OF assms(2) r p(2)] by simp_all
    moreover have "attr_plain type a" using p(2) e(1) by (simp add: list_all_iff)
    ultimately show "a \<in> set attrs \<and> attr_name a \<noteq> [] \<and> line_fits (attr_name a) v c \<and> (hd (attr_name a) = CHR '';'' \<longrightarrow> assignfunc a = None)"
      using assms(3) r by (fastforce simp: attr_plain_def attr_shaped_def line_fits_def)
  qed
  moreover have "\<forall>a \<in> set attrs. attr_type a AND type \<noteq> 0 \<and> outputfunc a \<noteq> Some F_OutputScMacList"
    using p(2) by (auto simp: list_all_iff attr_plain_def attr_shaped_def)
  moreover from this have "out_attrs type attrs buff s = Some (buff @ rows_text rs, s1)"
    using assms(2) out_attrs_rows [of attrs type buff s] by simp
  ultimately show ?thesis using parse_rows [OF p(1), of type rs q good s2] by auto
qed

end
