(* ===== verification/Edit_Restore.thy ===== *)
theory Edit_Restore
  imports Edit_Round
begin

text \<open>
  A backup: the text exported for a group, imported on another station whatever its variables hold, leaves the
  group there with the same text. It is shown attribute by attribute for the functions that are inverse to each
  other, put together for groups, and applied to the RADIUS servers.
\<close>

subsection \<open>One attribute\<close>

text \<open>The variables have their sizes, and the secrets are not masked.\<close>

definition ready :: "edit \<Rightarrow> bool" where
  "ready s \<longleftrightarrow> vars_ok s \<and> rd_byte (''secShow'', 0) s = Some 0"

definition reads_back :: "attr_s \<Rightarrow> cstr \<Rightarrow> edit \<Rightarrow> bool" where
  "reads_back a v s \<longleftrightarrow>
     (case outputfunc a of None \<Rightarrow> v = [] | Some g \<Rightarrow> run_output g (attr_var a) [] s = Some (v, s))"

definition same_but :: "string \<Rightarrow> edit \<Rightarrow> edit \<Rightarrow> bool" where
  "same_but x s s' \<longleftrightarrow> (\<forall>y. y \<noteq> x \<longrightarrow> vars s' y = vars s y)"

text \<open>The assign function stores the text in whatever state, so that the output function prints it again.\<close>

definition stores :: "attr_s \<Rightarrow> cstr \<Rightarrow> bool" where
  "stores a v \<longleftrightarrow>
     (\<forall>s. ready s \<longrightarrow> (\<exists>f s'. assignfunc a = Some f \<and> run_assign f (attr_var a) v s = Some s' \<and>
        reads_back a v s' \<and> ready s' \<and> same_but (fst (attr_var a)) s s'))"

lemma storesI:
  assumes "assignfunc a = Some f" "attr_var a = (x, n)"
    and "\<And>s. ready s \<Longrightarrow> \<exists>s'. run_assign f (x, n) v s = Some s' \<and> reads_back a v s' \<and> ready s' \<and> same_but x s s'"
  shows "stores a v"
  using assms unfolding stores_def by simp

lemma put_same_but: "put_at p b s = Some s' \<Longrightarrow> same_but (fst p) s s'"
  by (auto simp: put_Some_iff same_but_def)

lemma same_but_trans: "same_but x s s' \<Longrightarrow> same_but x s' s'' \<Longrightarrow> same_but x s s''"
  by (simp add: same_but_def)

lemma ready_same_but: "ready s \<Longrightarrow> vars_ok s' \<Longrightarrow> same_but x s s' \<Longrightarrow> x \<noteq> ''secShow'' \<Longrightarrow> ready s'"
  by (simp add: ready_def same_but_def rd_byte_def rd_def)

lemma ready_put:
  assumes "ready s" "fst p \<noteq> ''secShow''" "snd p + length b \<le> var_size (fst p)"
  shows "\<exists>s'. put_at p b s = Some s' \<and> ready s' \<and> same_but (fst p) s s' \<and> rd p (length b) s' = Some b"
proof -
  obtain s' where s': "put_at p b s = Some s'" "vars_ok s'"
    using put_Some_var [of s "snd p" b "fst p"] assms by (auto simp: ready_def)
  moreover have "ready s'" by (rule ready_same_but [OF assms(1) s'(2) put_same_but [OF s'(1)] assms(2)])
  ultimately show ?thesis using put_same_but [OF s'(1)] rd_put_same [OF s'(1)] by blast
qed

text \<open>What is printed for a variable depends on nothing else.\<close>

lemma reads_back_same:
  assumes "reads_back a v s" "ready s" "ready s'" "vars s' (fst (attr_var a)) = vars s (fst (attr_var a))"
    and "outputfunc a \<notin> {Some F_OutputScMacList, Some F_OutputPercent}"
  shows "reads_back a v s'"
proof (cases "outputfunc a")
  case (Some g)
  have r: "rd (attr_var a) n s' = rd (attr_var a) n s" "rd_str (attr_var a) s' = rd_str (attr_var a) s" for n
    using assms(4) by (simp_all add: rd_def rd_str_def)
  have "g \<noteq> F_OutputScMacList" "g \<noteq> F_OutputPercent" using assms(5) Some by auto
  then show ?thesis
    using assms(1-3) unfolding reads_back_def Some option.case
    by (cases g)
      (auto simp: OutputStr_def OutputByte_def OutputIP_def OutputWord_def OutputPass_def OutputMac_def rd_byte_def rd_word_def
        ready_def r split: bind_splits if_splits)
qed (use assms(1) in \<open>simp add: reads_back_def\<close>)

subsection \<open>Pairs of functions\<close>

lemma head_fmt_u: "c_isdigit (head_char (fmt_u n))" "48 \<le> code (head_char (fmt_u n))"
proof -
  show "c_isdigit (head_char (fmt_u n))"
    using dec_digits_isdigit [of "hd (dec_digits n)" n] by (simp add: head_char_def fmt_u_def fmt_d_nat)
  then show "48 \<le> code (head_char (fmt_u n))" by (simp add: c_isdigit_def)
qed

lemma atoi_fmt_u: "n \<le> 65535 \<Longrightarrow> atoi (fmt_u n) = int n"
  unfolding fmt_u_def by (rule atoi_fmt_d) (simp add: int_range_def INT_MIN_def INT_MAX_def)

lemma be16_read: "n \<le> 65535 \<Longrightarrow> unat (rd_be16 (be16 (word_of_int (int n)))) = n"
  using rd_be16_be16 [of "word_of_int (int n)" "[]"] by (simp add: unat_of_nat)

lemma stores_port:
  assumes "assignfunc a = Some F_AssignPort" "outputfunc a = Some F_OutputWord" "attr_var a = (x, 0)"
    and "x \<noteq> ''secShow''" "2 \<le> var_size x" "1 \<le> n" "n \<le> 65534"
  shows "stores a (fmt_u n)"
proof (rule storesI [OF assms(1,3)])
  fix s
  assume "ready s"
  then obtain s' where s': "put_word (x, 0) (int n) s = Some s'" "ready s'" "same_but x s s'"
    "rd (x, 0) 2 s' = Some (be16 (word_of_int (int n)))"
    using ready_put [of s "(x, 0)" "be16 (word_of_int (int n))"] assms(4,5) by (auto simp: put_word_def)
  have "run_assign F_AssignPort (x, 0) (fmt_u n) s = Some s'"
    using assms(6,7) head_fmt_u [of n] s'(1) by (simp add: AssignPort_def assign_atoi_def Let_def atoi_fmt_u)
  moreover have "reads_back a (fmt_u n) s'"
    using assms(2,3,7) s'(4) be16_read [of n] by (simp add: reads_back_def OutputWord_def rd_word_def)
  ultimately show "\<exists>s'. run_assign F_AssignPort (x, 0) (fmt_u n) s = Some s' \<and> reads_back a (fmt_u n) s' \<and> ready s' \<and> same_but x s s'"
    using s'(2,3) by blast
qed

definition ip_text :: "nat \<Rightarrow> nat \<Rightarrow> nat \<Rightarrow> nat \<Rightarrow> cstr" where
  "ip_text a b c d = fmt_u a @ ''.'' @ fmt_u b @ ''.'' @ fmt_u c @ ''.'' @ fmt_u d"

lemma scan4_ip_text:
  assumes "a < 256" "b < 256" "c < 256" "d < 256"
  shows "scan4 (ip_text a b c d) = Some [a, b, c, d]"
proof -
  have "scan_dotted (Suc (Suc (Suc (Suc 0)))) (ip_text a b c d) = [int a, int b, int c, int d]"
    unfolding ip_text_def fmt_u_def fmt_d_nat using assms by (simp add: scan_dotted_digits del: scan_dotted.simps)
  then have "scan_dotted 4 (ip_text a b c d) = [int a, int b, int c, int d]" by (simp add: numeral_eq_Suc del: scan_dotted.simps)
  then show ?thesis using assms by (simp add: scan4_def)
qed

lemma stores_ip:
  assumes "assignfunc t = Some F_AssignIP" "outputfunc t = Some F_OutputIP" "attr_var t = (x, 0)"
    and "x \<noteq> ''secShow''" "4 \<le> var_size x" "1 \<le> a" "a \<le> 254" "b < 256" "c < 256" "1 \<le> d" "d \<le> 254"
  shows "stores t (ip_text a b c d)"
proof (rule storesI [OF assms(1,3)])
  fix s
  assume "ready s"
  then obtain s' where s': "put_at (x, 0) (map char_of [a, b, c, d]) s = Some s'" "ready s'" "same_but x s s'"
    "rd (x, 0) 4 s' = Some (map char_of [a, b, c, d])"
    using ready_put [of s "(x, 0)" "map char_of [a, b, c, d]"] assms(4,5) by (auto simp: numeral_eq_Suc)
  have "run_assign F_AssignIP (x, 0) (ip_text a b c d) s = Some s'"
    using assms(6-11) s'(1) by (simp add: AssignIP_def scan4_ip_text)
  moreover have "char_of a \<noteq> NUL"
  proof
    assume "char_of a = NUL"
    then have "code (char_of a) = 0" by simp
    then show False using assms(6,7) by simp
  qed
  then have "map char_of [a, b, c, d] \<noteq> replicate 4 NUL" by (simp add: numeral_eq_Suc)
  then have "reads_back t (ip_text a b c d) s'"
    using assms(2,3,7-9,11) s'(4) by (simp add: reads_back_def OutputIP_def ip_text_def)
  ultimately show "\<exists>s'. run_assign F_AssignIP (x, 0) (ip_text a b c d) s = Some s' \<and> reads_back t (ip_text a b c d) s' \<and> ready s' \<and> same_but x s s'"
    using s'(2,3) by blast
qed

lemma stores_secret:
  assumes "assignfunc t = Some F_AssignSecret128" "outputfunc t = Some F_OutputPass" "attr_var t = (x, 0)"
    and "x \<noteq> ''secShow''" "129 \<le> var_size x" "cstr_ok v" "length v \<le> 128" "\<not> IsStarStr v"
  shows "stores t v"
proof (rule storesI [OF assms(1,3)])
  fix s
  assume s: "ready s"
  obtain s' where s': "put_at (x, 0) (v @ [NUL]) s = Some s'" "ready s'" "same_but x s s'"
    using ready_put [OF s, of "(x, 0)" "v @ [NUL]"] assms(4,5,7) by auto
  obtain s1 where s1: "put_at (x, 0) (replicate (length v + 1) NUL) s = Some s1"
    using ready_put [OF s, of "(x, 0)" "replicate (length v + 1) NUL"] assms(4,5,7) by auto
  have "put_at (x, 0) (v @ [NUL]) s1 = Some s'" using put_put_same [OF s1, of "v @ [NUL]"] s'(1) by simp
  then have "run_assign F_AssignSecret128 (x, 0) v s = Some s'"
    using assms(7,8) s1 by (simp add: AssignSecret128_def assign_text_def clear_def store_text_def store_str_def)
  moreover have "reads_back t v s'"
    using assms(2,3) s'(2) rd_str_put_same [OF s'(1) assms(6)]
    by (simp add: reads_back_def OutputPass_def OutputStr_def ready_def)
  ultimately show "\<exists>s'. run_assign F_AssignSecret128 (x, 0) v s = Some s' \<and> reads_back t v s' \<and> ready s' \<and> same_but x s s'"
    using s'(2,3) by blast
qed

subsection \<open>Groups\<close>

definition row_stores :: "attr_row \<Rightarrow> bool" where
  "row_stores r \<longleftrightarrow> (case r of (a, v, c) \<Rightarrow> v \<noteq> [] \<and> stores a v \<and>
     outputfunc a \<notin> {Some F_OutputScMacList, Some F_OutputPercent})"

definition row_var :: "attr_row \<Rightarrow> string" where
  "row_var r = fst (attr_var (fst r))"

text \<open>The rows that were assigned keep their texts while the others are.\<close>

lemma assign_rows_restore:
  assumes "\<forall>r \<in> set rs. row_stores r" "distinct (map row_var rs)" "ready s"
  shows "\<exists>s'. assign_rows rs good s = Some (good \<or> rs \<noteq> [], s') \<and> ready s' \<and>
    (\<forall>r \<in> set rs. reads_back (fst r) (fst (snd r)) s') \<and> (\<forall>x. x \<notin> row_var ` set rs \<longrightarrow> vars s' x = vars s x)"
  using assms
proof (induction rs arbitrary: good s)
  case (Cons r rs)
  obtain a v c where r: "r = (a, v, c)" by (cases r)
  have st: "v \<noteq> []" "stores a v" "outputfunc a \<notin> {Some F_OutputScMacList, Some F_OutputPercent}"
    using Cons.prems(1) by (simp_all add: row_stores_def r)
  obtain f s1 where s1: "assignfunc a = Some f" "run_assign f (attr_var a) v s = Some s1" "reads_back a v s1" "ready s1"
    "same_but (row_var r) s s1"
    using st(2) Cons.prems(3) unfolding stores_def row_var_def by (auto simp: r)
  obtain s' where s': "assign_rows rs True s1 = Some (True, s')" "ready s'" "\<forall>r \<in> set rs. reads_back (fst r) (fst (snd r)) s'"
    "\<And>x. x \<notin> row_var ` set rs \<Longrightarrow> vars s' x = vars s1 x"
    using Cons.IH [of s1 True] Cons.prems(1,2) s1(4) by auto
  have new: "row_var r \<notin> row_var ` set rs" using Cons.prems(2) by simp
  have "vars s' (fst (attr_var a)) = vars s1 (fst (attr_var a))" using s'(4) [OF new] by (simp add: row_var_def r)
  then have "reads_back a v s'" using reads_back_same [OF s1(3,4) s'(2)] st(3) by blast
  moreover have "vars s' x = vars s x" if "x \<notin> row_var ` set (r # rs)" for x
    using that s'(4) [of x] s1(5) by (simp add: same_but_def)
  ultimately show ?case using s'(1-3) s1(1,2) st(1) by (simp add: r)
qed simp

lemma exported_reads_back:
  assumes "\<forall>r \<in> set rs. reads_back (fst r) (fst (snd r)) s \<and> comment_of (fst r) s = Some (snd (snd r))"
  shows "exported (map fst rs) s = Some (rs, s)"
  using assms by (induction rs) (auto simp: reads_back_def split: option.splits)

subsection \<open>The RADIUS servers\<close>

definition printable :: "cstr \<Rightarrow> bool" where
  "printable v \<longleftrightarrow> (\<forall>c \<in> set v. 32 < code c \<and> code c < 127)"

lemma printable_no_controls: "printable v \<Longrightarrow> LF \<notin> set v \<and> NUL \<notin> set v"
  by (auto simp: printable_def)

text \<open>A row without a comment whose text is read back as it is.\<close>

definition row_reads :: "attr_row \<Rightarrow> bool" where
  "row_reads r \<longleftrightarrow> text_fits (attr_name (fst r)) (fst (snd r)) (snd (snd r)) \<and> read_row r = r"

lemma row_reads_plain:
  assumes "n \<notin> set ssid_names" "printable v" "length n + length v \<le> 125"
  shows "text_fits n v []" "read_back n v = v"
proof -
  have "value_char n = (\<lambda>c. 32 < code c \<and> code c < 127)" using assms(1) by (simp add: value_char_def fun_eq_iff)
  then show "read_back n v = v" using assms(2) by (intro read_back_all) (simp add: printable_def)
  show "text_fits n v []" using assms(3) printable_no_controls [OF assms(2)] by (simp add: text_fits_def comment_text_def)
qed

lemma printable_fmt_u: "printable (fmt_u n)"
  using dec_digits_isdigit unfolding printable_def fmt_u_def fmt_d_nat by (fastforce simp: c_isdigit_def)

lemma printable_ip_text: "printable (ip_text a b c d)"
  using printable_fmt_u by (auto simp: printable_def ip_text_def)

lemma length_fmt_u: "n < 256 \<Longrightarrow> length (fmt_u n) \<le> 3" "n \<le> 65535 \<Longrightarrow> length (fmt_u n) \<le> 5"
  using length_dec_digits_less [of n 3] length_dec_digits_less [of n 5] by (simp_all add: fmt_u_def fmt_d_nat)

lemma length_ip_text: "a < 256 \<Longrightarrow> b < 256 \<Longrightarrow> c < 256 \<Longrightarrow> d < 256 \<Longrightarrow> length (ip_text a b c d) \<le> 15"
  using length_fmt_u(1) [of a] length_fmt_u(1) [of b] length_fmt_u(1) [of c] length_fmt_u(1) [of d] by (simp add: ip_text_def)

text \<open>A server that is set: an address and a port the assign functions take, and a secret that fits a line.\<close>

definition server_set :: "string \<Rightarrow> string \<Rightarrow> string \<Rightarrow> edit \<Rightarrow> bool" where
  "server_set ip port secret s \<longleftrightarrow>
     (case rd (ip, 0) 4 s of
        Some [a, b, c, d] \<Rightarrow> 1 \<le> code a \<and> code a \<le> 254 \<and> 1 \<le> code d \<and> code d \<le> 254
      | _ \<Rightarrow> False) \<and>
     (case rd_word (port, 0) s of Some n \<Rightarrow> 1 \<le> n \<and> n \<le> 65534 | None \<Rightarrow> False) \<and>
     (case rd_str (secret, 0) s of Some k \<Rightarrow> \<not> IsStarStr k \<and> printable k \<and> length k \<le> 100 | None \<Rightarrow> False)"

text \<open>The three rows of a server.\<close>

definition server_attrs :: "cstr \<Rightarrow> string \<Rightarrow> cstr \<Rightarrow> string \<Rightarrow> cstr \<Rightarrow> string \<Rightarrow> attr_s list" where
  "server_attrs n1 ip n2 port n3 secret =
     [attrib n1 (ip, 0) (Some F_AssignIP) (Some F_OutputIP) [],
      attrib n2 (port, 0) (Some F_AssignPort) (Some F_OutputWord) [],
      attrib n3 (secret, 0) (Some F_AssignSecret128) (Some F_OutputPass) []]"

definition plain_name :: "cstr \<Rightarrow> bool" where
  "plain_name n \<longleftrightarrow> name_ok n \<and> hd n \<noteq> CHR '';'' \<and> n \<notin> set ssid_names \<and> LF \<notin> set n \<and> length n \<le> 25 \<and>
     take 14 n \<noteq> ''Country_Region''"

lemma plain_row:
  assumes "plain_name n" "printable v" "length v \<le> 100"
  shows "row_reads (attrib n p f g [], v, [])" "comment_of (attrib n p f g []) s = Some []"
  using assms row_reads_plain [of n v] by (auto simp: plain_name_def comment_of_def attrib_def row_reads_def read_row_def)

lemma server_rows:
  assumes "server_set ip port secret s" "ready s" "\<forall>x \<in> {ip, port, secret}. x \<noteq> ''secShow''"
    and "4 \<le> var_size ip" "2 \<le> var_size port" "129 \<le> var_size secret" "plain_name n1" "plain_name n2" "plain_name n3"
  shows "\<exists>rs. map fst rs = server_attrs n1 ip n2 port n3 secret \<and>
    (\<forall>r \<in> set rs. row_stores r \<and> row_reads r \<and>
       reads_back (fst r) (fst (snd r)) s \<and> snd (snd r) = [] \<and> plain_name (attr_name (fst r)))"
proof -
  let ?a1 = "attrib n1 (ip, 0) (Some F_AssignIP) (Some F_OutputIP) []"
  let ?a2 = "attrib n2 (port, 0) (Some F_AssignPort) (Some F_OutputWord) []"
  let ?a3 = "attrib n3 (secret, 0) (Some F_AssignSecret128) (Some F_OutputPass) []"
  obtain a b c d where ip: "rd (ip, 0) 4 s = Some [a, b, c, d]" "1 \<le> code a" "code a \<le> 254" "1 \<le> code d" "code d \<le> 254"
    using assms(1) unfolding server_set_def by (auto split: option.splits list.splits)
  obtain n where port: "rd_word (port, 0) s = Some n" "1 \<le> n" "n \<le> 65534"
    using assms(1) unfolding server_set_def by (auto split: option.splits)
  obtain k where key: "rd_str (secret, 0) s = Some k" "\<not> IsStarStr k" "printable k" "length k \<le> 100"
    using assms(1) unfolding server_set_def by (auto split: option.splits)
  let ?ip = "ip_text (code a) (code b) (code c) (code d)"
  have less: "code x < 256" for x by simp
  have "stores ?a1 ?ip" by (rule stores_ip) (use assms(3,4) ip less in \<open>auto simp: attrib_def\<close>)
  moreover have "stores ?a2 (fmt_u n)" by (rule stores_port) (use assms(3,5) port in \<open>auto simp: attrib_def\<close>)
  moreover have "cstr_ok k" using printable_no_controls [OF key(3)] by (simp add: cstr_ok_def)
  then have "stores ?a3 k" by (intro stores_secret) (use assms(3,6) key in \<open>auto simp: attrib_def\<close>)
  moreover have "k \<noteq> []" using key(2) by (auto simp: IsStarStr_def)
  moreover have "row_reads (?a1, ?ip, [])"
    using plain_row(1) [OF assms(7) printable_ip_text] length_ip_text [OF less less less less, of a b c d] by simp
  moreover have "row_reads (?a2, fmt_u n, [])" using plain_row(1) [OF assms(8) printable_fmt_u] length_fmt_u(2) [of n] port(3) by simp
  moreover have "row_reads (?a3, k, [])" by (rule plain_row(1) [OF assms(9) key(3,4)])
  moreover have "[a, b, c, d] \<noteq> replicate 4 NUL" using ip(2) by (auto simp: numeral_eq_Suc)
  then have "reads_back ?a1 ?ip s" using ip(1) by (simp add: reads_back_def attrib_def OutputIP_def ip_text_def)
  moreover have "reads_back ?a2 (fmt_u n) s" using port(1) by (simp add: reads_back_def attrib_def OutputWord_def)
  moreover have "reads_back ?a3 k s" using key(1) assms(2) by (simp add: reads_back_def attrib_def OutputPass_def OutputStr_def ready_def)
  ultimately show ?thesis
    using assms(7-9)
    by (intro exI [of _ "[(?a1, ?ip, []), (?a2, fmt_u n, []), (?a3, k, [])]"])
      (simp add: server_attrs_def row_stores_def attrib_def fmt_u_def ip_text_def)
qed

lemma Radius_Server_attrs:
  "Radius_Server =
     server_attrs ''Primary_radius_server'' ''authSIP1'' ''Primary_port_no'' ''authSPort1'' ''Primary_shared_secret'' ''authSSecret1'' @
     server_attrs ''Secondary_radius_server'' ''authSIP2'' ''Secondary_port_no'' ''authSPort2'' ''Secondary_shared_secret'' ''authSSecret2''"
  by (simp add: Radius_Server_def server_attrs_def)

lemma Radius_Server_names: "n \<in> set (map attr_name Radius_Server) \<Longrightarrow> plain_name n"
  by (auto simp: Radius_Server_def attrib_def plain_name_def name_ok_def ssid_names_def)

subsection \<open>The list of time zones\<close>

text \<open>The one long comment: a line for each zone, which the reader passes over.\<close>

lemma split_lf_append: "LF \<notin> set x \<Longrightarrow> split_lf (x @ LF # y) = x # split_lf y"
  by (induction x) auto

lemma split_lines:
  "LF \<notin> set x \<Longrightarrow> \<forall>t \<in> set ts. LF \<notin> set t \<Longrightarrow>
   split_lf (x @ concat (map (\<lambda>t. CR # LF # t) ts) @ [CR, LF]) = (x @ [CR]) # map (\<lambda>t. t @ [CR]) ts"
proof (induction ts arbitrary: x)
  case Nil
  then show ?case using split_lf_append [of "x @ [CR]" "[]"] by simp
next
  case (Cons t ts)
  let ?r = "concat (map (\<lambda>t. CR # LF # t) ts) @ [CR, LF]"
  have e: "x @ concat (map (\<lambda>t. CR # LF # t) (t # ts)) @ [CR, LF] = (x @ [CR]) @ LF # (t @ ?r)"
    by (simp only: list.map concat.simps append_assoc append_Cons append_Nil)
  have "split_lf ((x @ [CR]) @ LF # (t @ ?r)) = (x @ [CR]) # split_lf (t @ ?r)"
    using Cons.prems by (intro split_lf_append) simp
  moreover have "split_lf (t @ ?r) = (t @ [CR]) # map (\<lambda>t. t @ [CR]) ts" using Cons.prems by (intro Cons.IH) simp_all
  ultimately show ?case unfolding e by (simp only: list.map)
qed

definition zone_text_ok :: "cstr \<Rightarrow> bool" where
  "zone_text_ok t \<longleftrightarrow> t \<noteq> [] \<and> hd t = CHR '';'' \<and> length t \<le> 120 \<and> list_all (\<lambda>c. c \<noteq> LF \<and> c \<noteq> NUL \<and> c \<noteq> CHR ''='') t"

lemma findEQ_none: "CHR ''='' \<notin> set b \<Longrightarrow> findEQ b = 0"
proof -
  assume e: "CHR ''='' \<notin> set b"
  have "(n < length b \<and> b ! n = CHR ''='') = False" for n using e nth_mem [of n b] by metis
  then show ?thesis by (simp only: findEQ_def Let_def if_False)
qed

lemma zone_text_skipped:
  assumes "zone_text_ok t"
  shows "clean (t @ [CR])" "skip_line (t @ [CR])"
proof -
  have t: "\<forall>c \<in> set t. c \<noteq> LF \<and> c \<noteq> NUL \<and> c \<noteq> CHR ''=''" "t \<noteq> []" "hd t = CHR '';''" "length t \<le> 120"
    using assms by (simp_all add: zone_text_ok_def list_all_iff)
  show "clean (t @ [CR])" using t by (auto simp: clean_def)
  have "CHR ''='' \<notin> set (t @ [CR] @ [LF])" using t by auto
  then have "findEQ (t @ [CR] @ [LF]) = 0" by (rule findEQ_none)
  then show "skip_line (t @ [CR])" using t by (simp add: skip_line_def head_char_def)
qed

definition zones_ok :: "cstr \<Rightarrow> bool" where
  "zones_ok s \<longleftrightarrow> (\<exists>ts. s = concat (map (\<lambda>t. CR # LF # t) ts) \<and> (\<forall>t \<in> set ts. zone_text_ok t))"

lemma zones_Nil: "zones_ok []"
  unfolding zones_ok_def by (intro exI [of _ "[]"]) simp

lemma zones_Cons:
  assumes "zone_text_ok ('';'' @ z @ '': '' @ [CHR 0x22] @ n @ [CHR 0x22])" "zones_ok s"
  shows "zones_ok (zone_line z n @ s)"
proof -
  let ?t = "'';'' @ z @ '': '' @ [CHR 0x22] @ n @ [CHR 0x22]"
  obtain ts where "s = concat (map (\<lambda>t. CR # LF # t) ts)" "\<forall>t \<in> set ts. zone_text_ok t" using assms(2) by (auto simp: zones_ok_def)
  then have "zone_line z n @ s = concat (map (\<lambda>t. CR # LF # t) (?t # ts)) \<and> (\<forall>t \<in> set (?t # ts). zone_text_ok t)"
    using assms(1) by (simp add: zone_line_def)
  then show ?thesis unfolding zones_ok_def by blast
qed

lemma timeZoneStr_ok: "zones_ok timeZoneStr"
  unfolding timeZoneStr_def concat.simps by (intro zones_Cons zones_Nil; code_simp)

lemma time_zone_shape: "comment_shape ''Time_zone'' timeZoneStr"
proof -
  obtain ts where ts: "timeZoneStr = concat (map (\<lambda>t. CR # LF # t) ts)" "\<forall>t \<in> set ts. zone_text_ok t"
    using timeZoneStr_ok by (auto simp: zones_ok_def)
  have "timeZoneStr \<noteq> []" by (simp add: timeZoneStr_def zone_line_def)
  then have c: "comment_text timeZoneStr = [CHR '' ''] @ concat (map (\<lambda>t. CR # LF # t) ts) @ [CR, LF]"
    by (simp add: comment_text_def ts(1))
  have "\<forall>t \<in> set ts. LF \<notin> set t" using ts(2) by (auto simp: zone_text_ok_def list_all_iff)
  then have "split_lf (comment_text timeZoneStr) = ('' '' @ [CR]) # map (\<lambda>t. t @ [CR]) ts"
    unfolding c using split_lines [of "[CHR '' '']" ts] by simp
  then show ?thesis
    using ts(2) zone_text_skipped by (auto simp: comment_shape_def list_all_iff name_ok_def ssid_names_def)
qed

subsection \<open>The groups of the file\<close>

text \<open>In every group but the one with the list of known access points the names differ and the comments have their shape.\<close>

lemma basic_shaped [simp]:
  "list_all attr_shaped Basic" "list_all attr_shaped Setup_adv"
  "list_all attr_shaped Wlan_Basic" "list_all attr_shaped Radius_Server"
  by code_simp+

lemma security_shaped [simp]:
  "list_all attr_shaped Wlan_sec_1" "list_all attr_shaped Wlan_sec_2"
  "list_all attr_shaped Wlan_sec_3" "list_all attr_shaped Wlan_sec_4"
  by code_simp+

lemma connection_shaped [simp]:
  "list_all attr_shaped Wlan_Conn_Control_1" "list_all attr_shaped Wlan_Conn_Control_2"
  "list_all attr_shaped Wlan_Conn_Control_3" "list_all attr_shaped Wlan_Conn_Control_4"
  by code_simp+

lemma other_shaped [simp]:
  "list_all attr_shaped VLAN_QoS" "list_all attr_shaped Wlan_Adv"
  "list_all attr_shaped Management" "list_all attr_shaped Log_attrs"
  by code_simp+

lemma Time_attrs_shaped [simp]: "list_all attr_shaped Time_attrs"
proof -
  have "list_all attr_shaped (filter (\<lambda>a. attr_name a \<noteq> ''Time_zone'') Time_attrs)" by code_simp
  moreover have "attr_shaped a" if "a \<in> set Time_attrs" "attr_name a = ''Time_zone''" for a
    using that time_zone_shape by (auto simp: Time_attrs_def attrib_def attr_shaped_def)
  ultimately show ?thesis by (auto simp: list_all_iff)
qed

lemma names_distinct: "list_all (\<lambda>g. distinct (map attr_name (cfg_attrs g))) CFGData"
  by code_simp

lemma CFGData_shaped: "list_all (\<lambda>g. cfg_group g = ''AP_Mode'' \<or> list_all attr_shaped (cfg_attrs g)) CFGData"
  by (simp add: CFGData_def cfg_grp_def)

lemma CFGData_types: "list_all (\<lambda>g. list_all (\<lambda>a. attr_type a = CFG_TYPE_ALL) (cfg_attrs g)) CFGData"
  by (simp add: CFGData_def cfg_grp_def Basic_def Time_attrs_def AP_Mode_def Setup_adv_def Wlan_Basic_def Radius_Server_def Wlan_sec_1_def Wlan_sec_2_def Wlan_sec_3_def Wlan_sec_4_def Wlan_Conn_Control_1_def Wlan_Conn_Control_2_def Wlan_Conn_Control_3_def Wlan_Conn_Control_4_def VLAN_QoS_def Wlan_Adv_def Management_def Log_attrs_def attrib_def)

lemma CFG_group_plain:
  assumes "g \<in> set CFGData" "cfg_group g \<noteq> ''AP_Mode''" "type \<noteq> 0"
  shows "plain_group type (cfg_attrs g)"
proof -
  have p: "list_all attr_shaped (cfg_attrs g)" "distinct (map attr_name (cfg_attrs g))"
    and ty: "\<forall>a \<in> set (cfg_attrs g). attr_type a = CFG_TYPE_ALL"
    using CFGData_shaped names_distinct CFGData_types assms(1,2) unfolding list_all_iff by blast+
  have "CFG_TYPE_ALL AND type = type"
  proof -
    have m: "(0xFF :: 8 word) = - 1" by simp
    show ?thesis unfolding m by (rule and.left_neutral)
  qed
  then show ?thesis using p ty assms(3) by (simp add: plain_group_def list_all_iff attr_plain_def)
qed

lemma Radius_Server_plain: "plain_group CFG_TYPE_ALL Radius_Server"
  using CFG_group_plain [of "cfg_grp ''Radius_Server'' Radius_Server" CFG_TYPE_ALL] by (simp add: CFGData_def cfg_grp_def)

definition radius_vars :: "string list" where
  "radius_vars = [''authSIP1'', ''authSPort1'', ''authSSecret1'', ''authSIP2'', ''authSPort2'', ''authSSecret2'']"

lemma radius_sizes:
  "4 \<le> var_size ''authSIP1''" "2 \<le> var_size ''authSPort1''" "129 \<le> var_size ''authSSecret1''"
  "4 \<le> var_size ''authSIP2''" "2 \<le> var_size ''authSPort2''" "129 \<le> var_size ''authSSecret2''"
  "\<forall>x \<in> {''authSIP1'', ''authSPort1'', ''authSSecret1''}. x \<noteq> ''secShow''"
  "\<forall>x \<in> {''authSIP2'', ''authSPort2'', ''authSSecret2''}. x \<noteq> ''secShow''"
  by (simp_all add: var_size_def var_sizes_def)

lemma Radius_Server_rows:
  assumes "ready s" "server_set ''authSIP1'' ''authSPort1'' ''authSSecret1'' s" "server_set ''authSIP2'' ''authSPort2'' ''authSSecret2'' s"
  shows "\<exists>rs. map fst rs = Radius_Server \<and>
    (\<forall>r \<in> set rs. row_stores r \<and> row_reads r \<and>
       reads_back (fst r) (fst (snd r)) s \<and> snd (snd r) = [] \<and> plain_name (attr_name (fst r)))"
proof -
  have n: "plain_name ''Primary_radius_server''" "plain_name ''Primary_port_no''" "plain_name ''Primary_shared_secret''"
    "plain_name ''Secondary_radius_server''" "plain_name ''Secondary_port_no''" "plain_name ''Secondary_shared_secret''"
    by (rule Radius_Server_names, simp add: Radius_Server_def attrib_def)+
  obtain r1 where r1:
    "map fst r1 = server_attrs ''Primary_radius_server'' ''authSIP1'' ''Primary_port_no'' ''authSPort1'' ''Primary_shared_secret'' ''authSSecret1''"
    "(\<forall>r \<in> set r1. row_stores r \<and> row_reads r \<and>
       reads_back (fst r) (fst (snd r)) s \<and> snd (snd r) = [] \<and> plain_name (attr_name (fst r)))"
    using server_rows [OF assms(2,1) _ _ _ _ n(1-3)] radius_sizes by blast
  obtain r2 where r2:
    "map fst r2 = server_attrs ''Secondary_radius_server'' ''authSIP2'' ''Secondary_port_no'' ''authSPort2'' ''Secondary_shared_secret'' ''authSSecret2''"
    "(\<forall>r \<in> set r2. row_stores r \<and> row_reads r \<and>
       reads_back (fst r) (fst (snd r)) s \<and> snd (snd r) = [] \<and> plain_name (attr_name (fst r)))"
    using server_rows [OF assms(3,1) _ _ _ _ n(4-6)] radius_sizes by blast
  have "\<forall>r \<in> set r1 \<union> set r2. row_stores r \<and> row_reads r \<and>
       reads_back (fst r) (fst (snd r)) s \<and> snd (snd r) = [] \<and> plain_name (attr_name (fst r))"
    using r1(2) r2(2) by blast
  then show ?thesis unfolding Radius_Server_attrs by (intro exI [of _ "r1 @ r2"] conjI; simp only: map_append set_append r1(1) r2(1))
qed

lemma Radius_Server_exported:
  assumes "ready s" "server_set ''authSIP1'' ''authSPort1'' ''authSSecret1'' s" "server_set ''authSIP2'' ''authSPort2'' ''authSSecret2'' s"
  shows "\<exists>rs. exported Radius_Server s = Some (rs, s) \<and> map fst rs = Radius_Server \<and> (\<forall>r \<in> set rs. row_stores r) \<and>
    (\<forall>r \<in> set rs. row_reads r) \<and> (\<forall>r \<in> set rs. \<forall>s'. comment_of (fst r) (s' :: edit) = Some (snd (snd r)))"
proof -
  obtain rs where rs: "map fst rs = Radius_Server"
    "\<forall>r \<in> set rs. row_stores r \<and> row_reads r \<and>
       reads_back (fst r) (fst (snd r)) s \<and> snd (snd r) = [] \<and> plain_name (attr_name (fst r))"
    using Radius_Server_rows [OF assms] by blast
  have com: "comment_of (fst r) s' = Some (snd (snd r))" if "r \<in> set rs" for r and s' :: edit
  proof -
    have "fst r \<in> set Radius_Server" using that unfolding rs(1) [symmetric] by simp
    then show ?thesis using rs(2) that by (auto simp: Radius_Server_def comment_of_def attrib_def)
  qed
  have "exported Radius_Server s = Some (rs, s)"
    unfolding rs(1) [symmetric] by (rule exported_reads_back) (use rs(2) com in blast)
  moreover have "\<forall>r \<in> set rs. row_reads r" using rs(2) by fastforce
  ultimately show ?thesis using rs com by blast
qed


definition ex_radius_map :: "string \<Rightarrow> bytes" where
  "ex_radius_map = initial_vars(
     ''authSIP1'' := [CHR 0x0A, CHR 0x00, CHR 0x00, CHR 0x01], ''authSPort1'' := [CHR 0x07, CHR 0x14],
     ''authSSecret1'' := ''testing123'' @ NUL # replicate 118 NUL,
     ''authSIP2'' := [CHR 0x0A, CHR 0x00, CHR 0x00, CHR 0x02], ''authSPort2'' := [CHR 0x07, CHR 0x14],
     ''authSSecret2'' := ''fallback'' @ NUL # replicate 120 NUL)"

definition ex_radius :: edit where
  "ex_radius = ex_edit\<lparr>vars := ex_radius_map\<rparr>"

lemma ex_edit_ready: "ready ex_edit"
  using ex_edit_ok by (simp add: ready_def ex_edit_def rd_byte_def rd_def initial_vars_def var_size_def var_sizes_def)

lemma sizes_upd:
  "\<forall>x. length (m x) = var_size x \<Longrightarrow> length b = var_size y \<Longrightarrow> \<forall>x. length ((m(y := b)) x) = var_size x"
  by simp

lemma ex_radius_ok: "vars_ok ex_radius"
proof -
  have "\<forall>x. length (initial_vars x) = var_size x" using ex_edit_ok by (simp add: vars_ok_def ex_edit_def)
  then have "\<forall>x. length (ex_radius_map x) = var_size x"
    unfolding ex_radius_map_def
    by (intro sizes_upd) (simp_all add: var_size_def var_sizes_def)
  then show ?thesis by (simp add: vars_ok_def ex_radius_def)
qed

lemma ex_radius_vars:
  "vars ex_radius ''authSIP1'' = [CHR 0x0A, CHR 0x00, CHR 0x00, CHR 0x01]" "vars ex_radius ''authSPort1'' = [CHR 0x07, CHR 0x14]"
  "vars ex_radius ''authSSecret1'' = ''testing123'' @ NUL # replicate 118 NUL"
  "vars ex_radius ''authSIP2'' = [CHR 0x0A, CHR 0x00, CHR 0x00, CHR 0x02]" "vars ex_radius ''authSPort2'' = [CHR 0x07, CHR 0x14]"
  "vars ex_radius ''authSSecret2'' = ''fallback'' @ NUL # replicate 120 NUL"
  "vars ex_radius ''secShow'' = [NUL]"
  by (simp_all add: ex_radius_def ex_radius_map_def initial_vars_def var_size_def var_sizes_def)

lemma ex_radius_reads:
  "rd (''authSIP1'', 0) 4 ex_radius = Some [CHR 0x0A, CHR 0x00, CHR 0x00, CHR 0x01]"
  "rd_word (''authSPort1'', 0) ex_radius = Some 1812" "rd_str (''authSSecret1'', 0) ex_radius = Some ''testing123''"
  "rd (''authSIP2'', 0) 4 ex_radius = Some [CHR 0x0A, CHR 0x00, CHR 0x00, CHR 0x02]"
  "rd_word (''authSPort2'', 0) ex_radius = Some 1812" "rd_str (''authSSecret2'', 0) ex_radius = Some ''fallback''"
  "rd_byte (''secShow'', 0) ex_radius = Some 0"
  by (simp_all add: rd_def rd_word_def rd_byte_def rd_str_def c_string_def c_read_def ex_radius_vars)

lemma ex_radius_ready: "ready ex_radius"
  using ex_radius_ok ex_radius_reads(7) by (simp add: ready_def)

lemma ex_radius_set:
  "server_set ''authSIP1'' ''authSPort1'' ''authSSecret1'' ex_radius"
  "server_set ''authSIP2'' ''authSPort2'' ''authSSecret2'' ex_radius"
  by (simp_all add: server_set_def ex_radius_reads IsStarStr_def printable_def)


text \<open>The general statement at the same group, exported by the station with the two servers.\<close>

lemma fmt_u_examples: "fmt_u 0 = ''0''" "fmt_u (Suc 0) = ''1''" "fmt_u (Suc (Suc 0)) = ''2''" "fmt_u 10 = ''10''" "fmt_u 1812 = ''1812''"
  by code_simp+

lemma no_address: "replicate 4 NUL = [NUL, NUL, NUL, NUL]"
  by (simp add: numeral_eq_Suc)

lemma ex_radius_exported:
  "exported Radius_Server ex_radius =
     Some (map2 (\<lambda>a v. (a, v, [])) Radius_Server [''10.0.0.1'', ''1812'', ''testing123'', ''10.0.0.2'', ''1812'', ''fallback''], ex_radius)"
  by (simp add: Radius_Server_def attrib_def OutputIP_def OutputWord_def OutputPass_def OutputStr_def ex_radius_reads comment_of_def
      no_address fmt_u_examples)

text \<open>C10. For every group of the configuration file but the one of the list of known access points, whose rows depend on each other, and every kind of
  export: when the texts the output functions wrote have no line break and end within the 127 characters the
  reader takes for a line (counting name, equals sign and the first line of the comment), importing the exported text in
  whatever state applies the group's assign functions in order to the texts as they are read back. That is each
  text up to its first blank, control or non-ASCII character (for the SSIDs: up to its first carriage return), and so exactly the text that
  was written if it has none; the comments of the group, which stand between the values in one or several lines, have no influence. The reader
  stops at the title of the next group.\<close>

theorem import_of_export:
  fixes s2 :: "'b edit_scheme"
  assumes "g \<in> set CFGData" "cfg_group g \<noteq> ''AP_Mode''" "type \<noteq> 0" "exported (cfg_attrs g) s = Some (rs, s1)"
    and "\<forall>(a, v, c) \<in> set rs. hd (attr_name a) = CHR '';'' \<or> text_fits (attr_name a) v c"
  shows "\<exists>t. out_attrs type (cfg_attrs g) buff s = Some (buff @ t, s1) \<and>
    ParseNAssignValue (cfg_attrs g) type (t @ [CR, LF] @ CHR ''['' # q, False) good s2 =
      (case assign_rows (map (\<lambda>(a, v, c). (a, read_back (attr_name a) v, c)) rs) good s2 of
         None \<Rightarrow> None | Some (g, s3) \<Rightarrow> Some (g, (CHR ''['' # q, False), s3)) \<and>
    (\<forall>n v. (\<forall>x \<in> set v. if n \<in> set ssid_names then x \<noteq> CR else 32 < code x \<and> code x < 127) \<longrightarrow> read_back n v = v)"
  using parse_of_exported [OF CFG_group_plain [OF assms(1-3)] assms(4,5), of buff q good s2] read_back_all
  by (simp add: read_row_def value_char_def)

lemma import_of_export_witness:
  "\<exists>t. out_attrs CFG_TYPE_ALL Radius_Server [] ex_radius = Some (t, ex_radius) \<and>
     ParseNAssignValue Radius_Server CFG_TYPE_ALL (t @ [CR, LF] @ CHR ''['' # ''Log]'', False) False ex_edit =
       (case assign_rows (map2 (\<lambda>a v. (a, v, []))
          Radius_Server [''10.0.0.1'', ''1812'', ''testing123'', ''10.0.0.2'', ''1812'', ''fallback'']) False ex_edit
        of None \<Rightarrow> None | Some (g, s3) \<Rightarrow> Some (g, (CHR ''['' # ''Log]'', False), s3))"
proof -
  obtain rs where rs: "exported Radius_Server ex_radius = Some (rs, ex_radius)" "\<forall>r \<in> set rs. row_reads r"
    using Radius_Server_exported [OF ex_radius_ready ex_radius_set] by blast
  have fits: "\<forall>(a, v, c) \<in> set rs. hd (attr_name a) = CHR '';'' \<or> text_fits (attr_name a) v c" using rs(2) by (fastforce simp: row_reads_def)
  have id: "map (\<lambda>(a, v, c). (a, read_back (attr_name a) v, c)) rs = rs"
    using rs(2) unfolding read_row_def [symmetric] by (intro map_idI) (simp add: row_reads_def)
  have g: "cfg_grp ''Radius_Server'' Radius_Server \<in> set CFGData" "cfg_group (cfg_grp ''Radius_Server'' Radius_Server) \<noteq> ''AP_Mode''"
    "cfg_attrs (cfg_grp ''Radius_Server'' Radius_Server) = Radius_Server"
    by (simp_all add: CFGData_def cfg_grp_def)
  show ?thesis
    using import_of_export [of "cfg_grp ''Radius_Server'' Radius_Server" CFG_TYPE_ALL ex_radius rs ex_radius "[]" "''Log]''" False ex_edit]
      rs(1) ex_radius_exported fits g by (simp add: id) blast
qed

end
