(* ===== verification/Cli_Base.thy ===== *)
theory Cli_Base
  imports Lca_Conv
begin

text \<open>
  The command line interface of the access point, \<open>busybox-1.1.0/shell/linksysCli.c\<close>, which the shell includes: its state
  \<open>struct cli_s\<close>, the entries of the parse tables, and the ring of tokens.

  A pointer into a table is the rest of the table from there on; a handler is known by its C function's name. What \<open>printf\<close>
  writes is appended to \<open>printed\<close>. The tokens point into \<open>buf\<close> of \<open>sccli_parser\<close> and are kept as strings. \<open>localtime\<close> and
  what \<open>/dev/urandom\<close> gives, if it can be opened, are parameters. \<open>opMode\<close> is stored and never used, \<open>pToken\<close>, \<open>pToken0\<close>,
  \<open>token_count\<close>, \<open>autoLogOff\<close> and \<open>keyLast\<close> are written and never read.
\<close>

subsection \<open>Tables and state\<close>

datatype entry =
  Entry (pCmd: cstr) (pHelpText: "cstr option") (fHandler: string) (pNxtParseTbl: "entry list option") (pProtected: "cstr option")

datatype parse_rc =
  CLI_PARSE_OK | CLI_PARSE_ERROR | CLI_PARSE_NO_TBL | CLI_PARSE_NO_VALUE | CLI_PARSE_TOO_FEW | CLI_PARSE_UNKNOWN |
  CLI_PARSE_INVALID_PARAMETER | CLI_EXIT

abbreviation (input) MAX_TOKEN :: nat where "MAX_TOKEN \<equiv> 50"
abbreviation (input) CLI_INBUF :: nat where "CLI_INBUF \<equiv> 512"
abbreviation (input) CLI_SUPERUSER :: cstr where "CLI_SUPERUSER \<equiv> ''superuser''"
abbreviation (input) CLI_HIDDENCMD :: cstr where "CLI_HIDDENCMD \<equiv> ''.''"
abbreviation (input) RADIO_24G :: int where "RADIO_24G \<equiv> 0"

record cli = env +
  ParseTbl :: "entry list list"
  securityCheck :: bool
  cli_unit :: int
  cli_vap :: int
  token :: "cstr option list"
  tokenIdx :: nat
  tokenLvl :: nat
  ibuf :: cstr
  pCurTokenTbl :: "entry list"
  printed :: cstr
  localtime :: "int \<Rightarrow> tm"
  urandom :: "bytes option"

type_synonym 'a cmd = "'a cli_scheme \<Rightarrow> (parse_rc \<times> 'a cli_scheme) option"

text \<open>\<open>exit\<close> is the result \<open>CLI_EXIT\<close>, after which nothing runs.\<close>

definition sccli_Init :: "'a cli_scheme \<Rightarrow> 'a cli_scheme" where
  "sccli_Init s = s\<lparr>ParseTbl := [], token := replicate MAX_TOKEN None, tokenIdx := 0, tokenLvl := 0, ibuf := [],
     cli_vap := 0, cli_unit := RADIO_24G, securityCheck := True\<rparr>"

definition sccli_IsSuperUser :: bool where
  "sccli_IsSuperUser = True"

definition sccli_tokenInit :: "'a cli_scheme \<Rightarrow> 'a cli_scheme" where
  "sccli_tokenInit s = s\<lparr>token := replicate MAX_TOKEN None, tokenIdx := 0, tokenLvl := 0, ParseTbl := []\<rparr>"

definition sccli_tokenCurTblSet :: "entry list \<Rightarrow> 'a cli_scheme \<Rightarrow> 'a cli_scheme" where
  "sccli_tokenCurTblSet t s = s\<lparr>pCurTokenTbl := t\<rparr>"

definition sccli_tokenCurTblGet :: "'a cli_scheme \<Rightarrow> entry list" where
  "sccli_tokenCurTblGet s = pCurTokenTbl s"

subsection \<open>The ring of tokens\<close>

text \<open>The slots in the order in which the loops visit them: from \<open>tokenIdx\<close> on, around the end of the array.\<close>

definition ring :: "'a cli_scheme \<Rightarrow> cstr option list" where
  "ring s = drop (tokenIdx s) (token s) @ take (tokenIdx s) (token s)"

definition sccli_tokenCount :: "'a cli_scheme \<Rightarrow> nat" where
  "sccli_tokenCount s = length (filter (\<lambda>i. token s ! i \<noteq> None) (map (\<lambda>i. (tokenIdx s + i) mod MAX_TOKEN) [0..<MAX_TOKEN]))"

text \<open>The first slot in use, and the token in it.\<close>

fun scan_slots :: "nat \<Rightarrow> nat \<Rightarrow> cstr option list \<Rightarrow> (nat \<times> cstr) option" where
  "scan_slots 0 idx ts = None"
| "scan_slots (Suc n) idx ts =
     (case ts ! idx of Some p \<Rightarrow> Some (idx, p) | None \<Rightarrow> scan_slots n ((idx + 1) mod MAX_TOKEN) ts)"

definition sccli_tokenPop :: "'a cli_scheme \<Rightarrow> cstr option \<times> 'a cli_scheme" where
  "sccli_tokenPop s =
     (case scan_slots MAX_TOKEN (tokenIdx s) (token s) of
        None \<Rightarrow> (None, s)
      | Some (idx, p) \<Rightarrow> (Some p, s\<lparr>token := (token s)[idx := None]\<rparr>))"

definition sccli_tokenPush :: "cstr \<Rightarrow> 'a cli_scheme \<Rightarrow> 'a cli_scheme" where
  "sccli_tokenPush p s = s\<lparr>token := (token s)[tokenIdx s := Some p], tokenIdx := (tokenIdx s + 1) mod MAX_TOKEN\<rparr>"

definition c_tolower :: "char \<Rightarrow> char" where
  "c_tolower c = (if 65 \<le> code c \<and> code c \<le> 90 then char_of (code c + 32) else c)"

text \<open>The token is copied into \<open>ibuf\<close> in lower case.\<close>

definition sccli_tokenPopWoCase :: "'a cli_scheme \<Rightarrow> cstr option \<times> 'a cli_scheme" where
  "sccli_tokenPopWoCase s =
     (case sccli_tokenPop s of
        (None, s) \<Rightarrow> (None, s)
      | (Some p, s) \<Rightarrow> (let p = map c_tolower p in (Some p, s\<lparr>ibuf := p\<rparr>)))"

subsection \<open>Output\<close>

abbreviation NL :: char where "NL \<equiv> CHR 0x0A"

definition print :: "cstr \<Rightarrow> 'a cli_scheme \<Rightarrow> 'a cli_scheme" where
  "print t s = s\<lparr>printed := printed s @ t\<rparr>"

text \<open>\<open>printf ("...\n")\<close>, alone and before \<open>return\<close>.\<close>

definition say :: "cstr \<Rightarrow> 'a cli_scheme \<Rightarrow> 'a cli_scheme" where
  "say t s = print (t @ [NL]) s"

definition reply :: "cstr \<Rightarrow> 'a cmd" where
  "reply t s = Some (CLI_PARSE_OK, say t s)"

definition refuse :: "cstr \<Rightarrow> 'a cmd" where
  "refuse t s = Some (CLI_PARSE_ERROR, say t s)"

text \<open>A string out of a constant array of strings.\<close>

definition pick_str :: "cstr list \<Rightarrow> int \<Rightarrow> cstr option" where
  "pick_str xs i = (if 0 \<le> i \<and> nat i < length xs then Some (xs ! nat i) else None)"

definition pAbleStr :: "cstr list" where "pAbleStr = [''disabled'', ''enabled'']"
definition pEthAutoNegoStr :: "cstr list" where "pEthAutoNegoStr = [''disabled'', ''enabled'']"
definition pEthDuplexModeStr :: "cstr list" where "pEthDuplexModeStr = [''Half Duplex'', ''Full Duplex'']"
definition pEthDataRateStr :: "cstr list" where "pEthDataRateStr = [''Auto'', ''1000Mbps'', ''100Mbps'', ''10Mbps'']"

definition pSecurityStr :: "cstr list" where
  "pSecurityStr = [''None'', ''WEP'', ''WPA-PSK'', ''WPA2-PSK'', ''WPA-PSK and WPA2-PSK'', ''WPA with RADIUS'',
     ''WPA2 with RADIUS'', ''WPA and WPA2 with RADIUS'', ''802.1x'']"

definition pAuthStr :: "cstr list" where "pAuthStr = [''Automatic'', ''Open System'', ''Shared Key'']"
definition pEncryStr :: "cstr list" where "pEncryStr = [''TKIP'', ''AES'', ''TKIP or AES'']"

subsection \<open>Numbers and addresses on the command line\<close>

text \<open>\<open>strtoul\<close> with a base of at most 10, 32 bits wide: blanks, a sign, digits; the value is cut off at the largest one and
  negated after that. The result is the value and what follows the digits, or nothing when there are no digits.\<close>

fun base_digits :: "nat \<Rightarrow> nat \<Rightarrow> cstr \<Rightarrow> nat \<times> cstr" where
  "base_digits b v [] = (v, [])"
| "base_digits b v (c # cs) =
     (if c_isdigit c \<and> code c - 48 < b then base_digits b (v * b + (code c - 48)) cs else (v, c # cs))"

definition strtoul :: "cstr \<Rightarrow> (32 word \<times> cstr) option" where
  "strtoul p =
     (let q = dropWhile c_isspace p;
          (neg, d) = (case q of c # cs \<Rightarrow> if c = CHR ''-'' then (True, cs) else if c = CHR ''+'' then (False, cs) else (False, q) | [] \<Rightarrow> (False, q));
          (v, r) = base_digits 10 0 d;
          w = (if v < 2 ^ 32 then of_nat v else - 1) in
      if length r = length d then None else Some (if neg \<and> v < 2 ^ 32 then - w else w, r))"

text \<open>The status, and the number that is stored in \<open>*pV\<close>: nothing without a token, something too when the input is refused.\<close>

definition sccli_tokenPopNum :: "'a cli_scheme \<Rightarrow> (parse_rc \<times> int option) \<times> 'a cli_scheme" where
  "sccli_tokenPopNum s =
     (case sccli_tokenPop (s\<lparr>tokenLvl := tokenLvl s + 1\<rparr>) of
        (None, s) \<Rightarrow> ((CLI_PARSE_ERROR, None), s)
      | (Some p, s) \<Rightarrow>
          (case strtoul p of
             None \<Rightarrow> ((CLI_PARSE_ERROR, Some 0), say ''Invalid input'' s)
           | Some (v, r) \<Rightarrow>
               if r \<noteq> [] then ((CLI_PARSE_ERROR, Some (sint v)), say ''Invalid input'' s)
               else ((CLI_PARSE_OK, Some (sint v)), s)))"

text \<open>The four parts of a dotted address: a part that ends in front of another character has to be below 256 (as a signed number)
  and to have a digit when it is 0; only the fourth may end the text. The pointer is put behind the character where it stopped,
  behind the terminator too, but then the loop is over.\<close>

fun addr_parts :: "nat \<Rightarrow> cstr \<Rightarrow> bool" where
  "addr_parts 0 q = True"
| "addr_parts (Suc n) q =
     (let (v, r) = (case strtoul q of Some (v, r) \<Rightarrow> (sint v, r) | None \<Rightarrow> (0, q)) in
      if r \<noteq> [] then (256 > v \<and> \<not> (v = 0 \<and> r = q) \<and> addr_parts n (tl r))
      else n = 0)"

definition sccli_tokenGetNetAddrHandler :: "'a cli_scheme \<Rightarrow> 32 word option \<times> 'a cli_scheme" where
  "sccli_tokenGetNetAddrHandler s =
     (case sccli_tokenPop (s\<lparr>tokenLvl := tokenLvl s + 1\<rparr>) of
        (None, s) \<Rightarrow> (None, say ''No value specified'' s)
      | (Some p, s) \<Rightarrow> (if addr_parts 4 p \<and> inet_addr p \<noteq> - 1 then Some (inet_addr p) else None, s))"

end
