(* ===== verification/Cli_Shapes.thy ===== *)
theory Cli_Shapes
  imports Cli_Base Util_Defaults
begin

text \<open>
  The steps the handlers of \<open>linksysCli.c\<close> have in common: printing what a getter returns, calling a setter and printing, and
  the ways of taking the arguments off the ring. A condition that calls a getter once for each comparison is modelled as the
  same sequence of calls.
\<close>

abbreviation TAB :: char where "TAB \<equiv> CHR 0x09"

type_synonym ('v, 'a) rd = "'a cli_scheme \<Rightarrow> ('v \<times> 'a cli_scheme) option"
type_synonym 'a wr = "'a cli_scheme \<Rightarrow> (a_status \<times> 'a cli_scheme) option"

subsection \<open>Printing a setting\<close>

definition show_str :: "cstr \<Rightarrow> (cstr, 'a) rd \<Rightarrow> 'a cmd" where
  "show_str l get s = do { (v, s) \<leftarrow> get s; reply (l @ v) s }"

definition show_int :: "cstr \<Rightarrow> (int, 'a) rd \<Rightarrow> cstr \<Rightarrow> 'a cmd" where
  "show_int l get r s = do { (v, s) \<leftarrow> get s; reply (l @ fmt_d v @ r) s }"

definition show_able :: "cstr \<Rightarrow> (int, 'a) rd \<Rightarrow> 'a cmd" where
  "show_able l get s = do { (v, s) \<leftarrow> get s; t \<leftarrow> pick_str pAbleStr v; reply (l @ t) s }"

text \<open>\<open>strcpy (netstr, inet_ntoa (iaddr))\<close> into 20 bytes.\<close>

definition netstr :: "32 word \<Rightarrow> cstr option" where
  "netstr a = into_buf 20 (inet_ntoa a)"

definition show_ip :: "cstr \<Rightarrow> (32 word, 'a) rd \<Rightarrow> 'a cmd" where
  "show_ip l get s = do { (a, s) \<leftarrow> get s; t \<leftarrow> netstr a; reply (l @ t) s }"

text \<open>\<open>get () == x1 ? t1 : (get () == x2 ? t2 : ... d)\<close> and \<open>get () == x1 || get () == x2 ...\<close>.\<close>

primrec first_of :: "(int, 'a) rd \<Rightarrow> (int \<times> 'v) list \<Rightarrow> 'v \<Rightarrow> ('v, 'a) rd" where
  "first_of get [] d s = Some (d, s)"
| "first_of get (xt # xs) d s = do { (v, s) \<leftarrow> get s; if v = fst xt then Some (snd xt, s) else first_of get xs d s }"

definition get_in :: "(int, 'a) rd \<Rightarrow> int list \<Rightarrow> (bool, 'a) rd" where
  "get_in get xs = first_of get (map (\<lambda>x. (x, True)) xs) False"

subsection \<open>Writing a setting\<close>

text \<open>The setter's status is not looked at; or it is, and another status than \<open>A_OK\<close> is an error.\<close>

definition put_then :: "'a wr \<Rightarrow> 'a cmd \<Rightarrow> 'a cmd" where
  "put_then wr k s = do { (_, s) \<leftarrow> wr s; k s }"

definition put_checked :: "'a wr \<Rightarrow> cstr \<Rightarrow> 'a cmd \<Rightarrow> 'a cmd" where
  "put_checked wr err k s = do { (rc, s) \<leftarrow> wr s; if rc = A_OK then k s else refuse err s }"

text \<open>A status other than \<open>A_OK\<close> is only reported.\<close>

definition put_warn :: "'a wr \<Rightarrow> cstr \<Rightarrow> 'a cmd \<Rightarrow> 'a cmd" where
  "put_warn wr err k s = do { (rc, s) \<leftarrow> wr s; k (if rc = A_OK then s else say err s) }"

subsection \<open>Taking arguments\<close>

definition error :: "'a cmd" where
  "error s = Some (CLI_PARSE_ERROR, s)"

text \<open>\<open>if (sccli_tokenPopNum (pCli, &v, 10) != A_ERROR) if (sccli_tokenCount (pCli) == 0) ...\<close>; what follows otherwise.\<close>

definition with_num :: "(int \<Rightarrow> 'a cmd) \<Rightarrow> 'a cmd \<Rightarrow> 'a cmd" where
  "with_num f otherwise s =
     (case sccli_tokenPopNum s of
        ((CLI_PARSE_OK, Some v), s) \<Rightarrow> if sccli_tokenCount s = 0 then f v s else otherwise s
      | (_, s) \<Rightarrow> otherwise s)"

definition with_addr :: "(32 word \<Rightarrow> 'a cmd) \<Rightarrow> 'a cmd \<Rightarrow> 'a cmd" where
  "with_addr f otherwise s =
     (case sccli_tokenGetNetAddrHandler s of
        (Some a, s) \<Rightarrow> if sccli_tokenCount s = 0 then f a s else otherwise s
      | (None, s) \<Rightarrow> otherwise s)"

text \<open>The next token, which the code has counted before.\<close>

definition pop_then :: "(cstr \<Rightarrow> 'a cmd) \<Rightarrow> 'a cmd" where
  "pop_then f s = (case sccli_tokenPop s of (Some p, s) \<Rightarrow> f p s | (None, s) \<Rightarrow> None)"

text \<open>\<open>switch (sccli_tokenCount (pCli)) { case 0: return CLI_PARSE_NO_VALUE; case 1: ... } return CLI_PARSE_ERROR;\<close>.\<close>

definition one_word :: "(cstr \<Rightarrow> 'a cmd) \<Rightarrow> 'a cmd" where
  "one_word f s =
     (if sccli_tokenCount s = 0 then Some (CLI_PARSE_NO_VALUE, s)
      else if sccli_tokenCount s = 1 then pop_then f s
      else Some (CLI_PARSE_ERROR, s))"

text \<open>The first of at least one word; all of at least one word, put together with blanks in an array of \<open>n\<close> bytes.\<close>

definition first_word :: "(cstr \<Rightarrow> 'a cmd) \<Rightarrow> 'a cmd" where
  "first_word f s = (if sccli_tokenCount s = 0 then Some (CLI_PARSE_NO_VALUE, s) else pop_then f s)"

fun joined :: "cstr list \<Rightarrow> cstr" where
  "joined [] = []"
| "joined [p] = p"
| "joined (p # ps) = p @ CHR '' '' # joined ps"

primrec pop_n :: "nat \<Rightarrow> 'a cli_scheme \<Rightarrow> cstr list \<times> 'a cli_scheme" where
  "pop_n 0 s = ([], s)"
| "pop_n (Suc n) s =
     (case sccli_tokenPop s of (None, s) \<Rightarrow> ([], s) | (Some p, s) \<Rightarrow> (let (ps, s) = pop_n n s in (p # ps, s)))"

text \<open>The loops that pop until there is no token: the ring holds at most \<open>MAX_TOKEN\<close>.\<close>

definition pop_all :: "'a cli_scheme \<Rightarrow> cstr list \<times> 'a cli_scheme" where
  "pop_all s = pop_n MAX_TOKEN s"

definition all_words :: "nat \<Rightarrow> (cstr \<Rightarrow> 'a cmd) \<Rightarrow> 'a cmd" where
  "all_words n f s =
     (if sccli_tokenCount s = 0 then Some (CLI_PARSE_NO_VALUE, s)
      else do { let (ps, s) = pop_all s; buf \<leftarrow> into_buf n (joined ps); f buf s })"

text \<open>A MAC address of 12 or 17 characters, as 12 hexadecimal digits. \<open>Some None\<close> is an invalid one.\<close>

definition mac_digits :: "cstr \<Rightarrow> cstr option option" where
  "mac_digits p =
     (if length p \<noteq> 12 \<and> length p \<noteq> 17 then Some None
      else do {
        m \<leftarrow> (if length p = 17 then scMacStr17ToStr12 p else Some p);
        ok \<leftarrow> scValidHexs m 12;
        Some (if ok then Some m else None)
      })"

text \<open>\<open>value = strtok (...); rc = set (atoi (value)); if (rc != A_OK) return CLI_PARSE_ERROR;\<close>, once for each setter.\<close>

fun put_parts :: "(int \<Rightarrow> 'a wr) list \<Rightarrow> cstr list \<Rightarrow> 'a cmd \<Rightarrow> 'a cmd" where
  "put_parts [] ps k s = k s"
| "put_parts (f # fs) [] k s = None"
| "put_parts (f # fs) (p # ps) k s = do { (rc, s) \<leftarrow> f (atoi p) s; if rc = A_OK then put_parts fs ps k s else error s }"

end
