(* ===== verification/Cli_Parse.thy ===== *)
theory Cli_Parse
  imports Cli_Shapes
begin

text \<open>
  The parser of the command line interface, \<open>linksysCli.c\<close>: the list of commands a table gives, the choice of the entry that
  a token stands for, and the parse of the tokens along nested tables. The handlers of the commands are a parameter: the
  function that runs the one of a given name. \<open>genericCmdHandler\<close> and \<open>genericCliCmdSet\<close>, which parse the next token
  with the entry's own table, belong to the parser.
\<close>

subsection \<open>Properties of an entry\<close>

definition sccli_tokenIsValidOpMode :: "entry \<Rightarrow> bool" where
  "sccli_tokenIsValidOpMode e = True"

definition sccli_tokenIsProtected :: "entry \<Rightarrow> bool" where
  "sccli_tokenIsProtected e \<longleftrightarrow> pProtected e = Some CLI_SUPERUSER"

definition sccli_tokenIsHidden :: "entry \<Rightarrow> bool" where
  "sccli_tokenIsHidden e \<longleftrightarrow> pProtected e = Some CLI_HIDDENCMD"

text \<open>The first \<open>n\<close> characters are the same in lower case (the C function returns 0).\<close>

definition sccli_tokencmp :: "cstr \<Rightarrow> cstr \<Rightarrow> nat \<Rightarrow> bool" where
  "sccli_tokencmp p1 p2 n \<longleftrightarrow> map c_tolower (take n p1) = map c_tolower (take n p2)"

subsection \<open>Help\<close>

text \<open>\<open>bcmp (pCmd, pFilter, strlen (pFilter)) == 0\<close>, and no filter at all.\<close>

definition filter_ok :: "cstr option \<Rightarrow> entry \<Rightarrow> bool" where
  "filter_ok pFilter e = (case pFilter of None \<Rightarrow> True | Some f \<Rightarrow> take (length f) (pCmd e) = f)"

definition help_line :: "cstr \<Rightarrow> cstr \<Rightarrow> cstr" where
  "help_line buf h = buf @ replicate (35 - length buf) (CHR '' '') @ '' -- '' @ h @ [NL]"

lemma size_nxt: "pNxtParseTbl e = Some t \<Longrightarrow> size_list size t < size e"
  by (cases e) auto

text \<open>The lines that are printed; \<open>buf\<close> has 132 bytes.\<close>

function sccli_helpCmdScan :: "bool \<Rightarrow> entry list \<Rightarrow> cstr \<Rightarrow> cstr option \<Rightarrow> nat \<Rightarrow> cstr option" where
  "sccli_helpCmdScan sc [] pTxt pFilter verbose = Some []"
| "sccli_helpCmdScan sc (e # es) pTxt pFilter verbose = do {
     h \<leftarrow> (if sc \<and> (sccli_tokenIsProtected e \<and> \<not> sccli_IsSuperUser \<or> sccli_tokenIsHidden e \<or> \<not> sccli_tokenIsValidOpMode e)
          then Some []
          else do {
            buf \<leftarrow> into_buf 132 (pTxt @ '' '' @ pCmd e);
            (case pNxtParseTbl e of
               Some t \<Rightarrow>
                 if verbose = 1 then (if filter_ok pFilter e then sccli_helpCmdScan sc t buf None 0 else Some [])
                 else if 10 \<le> verbose then sccli_helpCmdScan sc t buf None verbose
                 else if verbose \<noteq> 0 then Some []
                 else (case pHelpText e of
                     Some h \<Rightarrow> Some (if filter_ok pFilter e then help_line buf h else []) | None \<Rightarrow> Some [])
             | None \<Rightarrow>
                 (case pHelpText e of
                     Some h \<Rightarrow> Some (if filter_ok pFilter e then help_line buf h else []) | None \<Rightarrow> Some []))
          });
     r \<leftarrow> sccli_helpCmdScan sc es pTxt pFilter verbose;
     Some (h @ r)
   }"
  by pat_completeness auto
termination by (relation "measure (\<lambda>(_, t, _). size_list size t)") (auto dest: size_nxt)

definition show_help :: "entry list option \<Rightarrow> cstr \<Rightarrow> cstr option \<Rightarrow> nat \<Rightarrow> 'a cli_scheme \<Rightarrow> 'a cli_scheme option" where
  "show_help t pTxt pFilter verbose s =
     (case t of None \<Rightarrow> Some s
      | Some t \<Rightarrow> map_option (\<lambda>h. print h s) (sccli_helpCmdScan (securityCheck s) t pTxt pFilter verbose))"

definition sccli_helpCmdHandler :: "entry list \<Rightarrow> 'a cmd" where
  "sccli_helpCmdHandler cmdTbl s =
     (let s = say ''List of Access Point CLI commands:'' s;
          (verbose, s) = (if sccli_tokenCount s \<noteq> 0 then (10, snd (sccli_tokenPop s)) else (1, s)) in
      do { s \<leftarrow> show_help (Some cmdTbl) [] None verbose s; Some (CLI_PARSE_OK, s) })"

subsection \<open>The entry a token stands for\<close>

text \<open>The length of the common prefix, which the loop over \<open>k\<close> counts in \<open>abbrevMatchCnt\<close>; upper and lower case differ.\<close>

fun common_len :: "cstr \<Rightarrow> cstr \<Rightarrow> nat" where
  "common_len (c # p) (d # q) = (if c = d then Suc (common_len p q) else 0)"
| "common_len _ _ = 0"

definition abbrevMatchCnt :: "bool \<Rightarrow> cstr \<Rightarrow> entry \<Rightarrow> nat" where
  "abbrevMatchCnt sc p e =
     (if sc \<and> sccli_tokenIsProtected e \<and> \<not> sccli_IsSuperUser \<or> sccli_tokenIsHidden e \<or> \<not> sccli_tokenIsValidOpMode e then 0
      else common_len p (pCmd e))"

definition exact_match :: "cstr \<Rightarrow> entry \<Rightarrow> bool" where
  "exact_match p e \<longleftrightarrow> length p = length (pCmd e) \<and> sccli_tokenIsValidOpMode e \<and> sccli_tokencmp p (pCmd e) (length p)"

definition stands_for :: "bool \<Rightarrow> cstr \<Rightarrow> entry \<Rightarrow> bool" where
  "stands_for sc p e \<longleftrightarrow>
     length p \<le> length (pCmd e) \<and> sccli_tokencmp p (pCmd e) (length p) \<and>
     (\<not> sc \<or> sccli_IsSuperUser \<or> \<not> sccli_tokenIsProtected e)"

text \<open>The rest of the table from the chosen entry on, and whether it was chosen as the only candidate. An exact match comes
  first, hidden or not. Otherwise the visible entries whose first character is the token's are counted: a single one is
  taken if the token is a prefix of it; of several, the first with the longest common prefix.\<close>

datatype choice = No_choice | Choice bool "entry list"

definition sccli_choose :: "bool \<Rightarrow> cstr \<Rightarrow> entry list \<Rightarrow> choice" where
  "sccli_choose sc p tbl =
     (case dropWhile (\<lambda>e. \<not> exact_match p e) tbl of
        e # r \<Rightarrow> if stands_for sc p e then Choice True (e # r) else No_choice
      | [] \<Rightarrow>
          (let cnt = abbrevMatchCnt sc p in
           case filter (\<lambda>e. cnt e \<noteq> 0) tbl of
             [] \<Rightarrow> No_choice
           | [_] \<Rightarrow>
               (case dropWhile (\<lambda>e. \<not> (cnt e \<noteq> 0 \<and> stands_for sc p e)) tbl of [] \<Rightarrow> No_choice | t \<Rightarrow> Choice True t)
           | _ \<Rightarrow>
               (let best = foldr max (map cnt tbl) 0 in
                case dropWhile (\<lambda>e. cnt e \<noteq> best) tbl of
                  e # r \<Rightarrow> if stands_for sc p e then Choice False (e # r) else No_choice
                | [] \<Rightarrow> No_choice)))"

subsection \<open>The parser\<close>

text \<open>The token is not in the table. The first entry of a table is named \<open>#...\<close> nowhere.\<close>

definition no_match :: "cstr \<Rightarrow> 'a cmd" where
  "no_match p s =
     (let s = print ((if 1 < tokenLvl s then ''Invalid parameter: '' else ''Unknown command: '') @ p) s;
          (ps, s) = pop_all s;
          s = say (concat (map (\<lambda>p. '' '' @ p) ps)) s;
          s = (if \<not> (length (ParseTbl s) = 1 \<and> (case hd (ParseTbl s) of e # _ \<Rightarrow> take 1 (pCmd e) = ''#'' | [] \<Rightarrow> False))
               then (if tokenLvl s \<le> 2 then say (''Type '' @ [CHR 0x22] @ ''help'' @ [CHR 0x22] @ '' for a list of valid commands.'') s
                     else say ''List of valid parameter(s):'' s)
               else s) in
      Some (if tokenLvl s \<le> 2 then CLI_PARSE_UNKNOWN else CLI_PARSE_INVALID_PARAMETER, s))"

text \<open>What follows the handler's return: the help, and the code for the caller. Nested parses have pushed their tables on
  \<open>ParseTbl\<close> and have overwritten \<open>ibuf\<close>, to which \<open>pFilter\<close> points.\<close>

definition after_handler :: "bool \<Rightarrow> entry \<Rightarrow> parse_rc \<Rightarrow> 'a cmd" where
  "after_handler single e rc s =
     (if rc = CLI_PARSE_NO_VALUE then do {
        s \<leftarrow> show_help (pNxtParseTbl e) (pCmd e) None 1 s;
        Some (CLI_PARSE_TOO_FEW, s)
      }
      else if single \<and> rc = CLI_PARSE_INVALID_PARAMETER then do {
        s \<leftarrow> show_help (Some (hd (ParseTbl s))) [] None 1 s;
        Some (CLI_PARSE_ERROR, s)
      }
      else if single \<and> rc = CLI_PARSE_UNKNOWN then do {
        s \<leftarrow> show_help (Some (hd (ParseTbl s))) (pCmd e) (Some (ibuf s)) 1 s;
        Some (CLI_PARSE_ERROR, s)
      }
      else Some (rc, s))"

definition genericCmdHandler :: "(entry list \<Rightarrow> 'a cmd) \<Rightarrow> entry list option \<Rightarrow> 'a cmd" where
  "genericCmdHandler parse pTbl s =
     (if sccli_tokenCount s \<noteq> 0 then (case pTbl of Some t \<Rightarrow> parse t s | None \<Rightarrow> Some (CLI_PARSE_NO_TBL, s))
      else Some (CLI_PARSE_NO_VALUE, s))"

definition genericCliCmdSet :: "(entry list \<Rightarrow> 'a cmd) \<Rightarrow> entry list option \<Rightarrow> 'a cmd" where
  "genericCliCmdSet parse pTbl s = do {
     (rc, s) \<leftarrow> genericCmdHandler parse pTbl s;
     Some (rc, if rc = CLI_PARSE_OK then apcfg_submit s else s)
   }"

type_synonym 'a runner = "string \<Rightarrow> cstr \<Rightarrow> 'a cmd"

text \<open>\<open>(*pTblx->fHandler) (pCli, p, pTblx->pNxtParseTbl)\<close>.\<close>

definition run_entry :: "'a runner \<Rightarrow> (entry list \<Rightarrow> 'a cmd) \<Rightarrow> entry \<Rightarrow> cstr \<Rightarrow> 'a cmd" where
  "run_entry call parse e p s =
     (if fHandler e = ''genericCmdHandler'' then genericCmdHandler parse (pNxtParseTbl e) s
      else if fHandler e = ''genericCliCmdSet'' then genericCliCmdSet parse (pNxtParseTbl e) s
      else call (fHandler e) p s)"

lemma run_entry_cong [fundef_cong]:
  assumes "call = call'" "e = e'" "p = p'" "s = s'"
    and "\<And>t u. pNxtParseTbl e' = Some t \<Longrightarrow> parse t u = parse' t u"
  shows "run_entry call parse e p s = run_entry call' parse' e' p' s'"
  using assms(1-4) assms(5) by (auto simp: run_entry_def genericCmdHandler_def genericCliCmdSet_def split: option.split)

lemma sccli_choose_in:
  assumes "sccli_choose sc p tbl = Choice b (e # r)" shows "e \<in> set tbl"
proof -
  have dw: "dropWhile P tbl = e # r \<Longrightarrow> e \<in> set tbl" for P
    using set_dropWhileD [of e P tbl] by simp
  from assms show ?thesis
    by (auto simp: sccli_choose_def Let_def dw split: list.splits if_splits)
qed

lemma size_nxt_in: "e \<in> set tbl \<Longrightarrow> pNxtParseTbl e = Some t \<Longrightarrow> size_list size t < size_list size tbl"
  by (induction tbl) (auto dest: size_nxt)

function sccli_tokenParser :: "'a runner \<Rightarrow> entry list \<Rightarrow> 'a cmd" where
  "sccli_tokenParser call tbl s =
     (if MAX_TOKEN \<le> length (ParseTbl s) then None
      else case sccli_tokenPopWoCase (s\<lparr>tokenLvl := tokenLvl s + 1, ParseTbl := tbl # ParseTbl s\<rparr>) of
        (None, s) \<Rightarrow> Some (CLI_PARSE_OK, s)
      | (Some p, s) \<Rightarrow>
          (case sccli_choose (securityCheck s) p tbl of
             Choice single (e # r) \<Rightarrow> do {
               (rc, s) \<leftarrow> run_entry call (sccli_tokenParser call) e p (sccli_tokenCurTblSet (e # r) s);
               after_handler single e rc s
             }
           | _ \<Rightarrow> no_match p s))"
  by pat_completeness auto
termination
  by (relation "measure (\<lambda>(_, t, _). size_list size t)") (auto dest: sccli_choose_in size_nxt_in)

declare sccli_tokenParser.simps [simp del]

text \<open>\<open>buf\<close> has \<open>CLI_INBUF\<close> bytes for the words and their terminators; an empty word is no token.\<close>

definition sccli_parser :: "'a runner \<Rightarrow> entry list \<Rightarrow> cstr list \<Rightarrow> 'a cmd" where
  "sccli_parser call tbl argv s =
     (if CLI_INBUF < sum_list (map (\<lambda>a. length a + 1) argv) then None
      else sccli_tokenParser call tbl (fold sccli_tokenPush (filter (\<lambda>a. a \<noteq> []) argv) (sccli_tokenInit s)))"

text \<open>\<open>prompt\<close> has 64 bytes.\<close>

definition sccli_getPrompt :: "'a cli_scheme \<Rightarrow> (cstr \<times> 'a cli_scheme) option" where
  "sccli_getPrompt s = do {
     (n, s) \<leftarrow> apCfgSysNameGet s;
     p \<leftarrow> into_buf 64 (''[VAP'' @ fmt_d (cli_vap s) @ '' @ '' @ n @ '']# '');
     Some (p, s)
   }"

end
