(* ===== verification/Cli_Ring.thy ===== *)
theory Cli_Ring
  imports Cli_Parse
begin

text \<open>
  The ring of tokens of \<open>linksysCli.c\<close> is a queue that keeps the last \<open>MAX_TOKEN\<close> words. The contract of such a queue is a
  locale, interpreted by the ring; words that were pushed come out in their order.
\<close>

subsection \<open>A bounded queue\<close>

text \<open>The last \<open>n\<close> elements.\<close>

definition keep :: "nat \<Rightarrow> 'w list \<Rightarrow> 'w list" where
  "keep n ws = drop (length ws - n) ws"

lemma keep_all [simp]: "length ws \<le> n \<Longrightarrow> keep n ws = ws"
  by (simp add: keep_def)

lemma keep_keep: "keep n (keep n xs @ ys) = keep n (xs @ ys)"
  by (cases "length xs \<le> n") (simp_all add: keep_def add.commute)

text \<open>\<open>abs\<close> are the words in the queue; a push that finds no room drops the oldest one.\<close>

locale token_queue =
  fixes inv :: "'s \<Rightarrow> bool" and abs :: "'s \<Rightarrow> 'w list" and push :: "'w \<Rightarrow> 's \<Rightarrow> 's"
    and pop :: "'s \<Rightarrow> 'w option \<times> 's" and room :: nat
  assumes push_inv: "inv s \<Longrightarrow> inv (push w s)"
    and push_abs: "inv s \<Longrightarrow> abs (push w s) = keep room (abs s @ [w])"
    and pop_empty: "inv s \<Longrightarrow> abs s = [] \<Longrightarrow> pop s = (None, s)"
    and pop_abs: "inv s \<Longrightarrow> abs s = w # ws \<Longrightarrow> \<exists>t. pop s = (Some w, t) \<and> inv t \<and> abs t = ws"
    and abs_room: "inv s \<Longrightarrow> length (abs s) \<le> room"
begin

lemma fold_push_inv: "inv s \<Longrightarrow> inv (fold push ws s)"
  by (induction ws arbitrary: s) (simp_all add: push_inv)

lemma fold_push_abs: "inv s \<Longrightarrow> abs (fold push ws s) = keep room (abs s @ ws)"
proof (induction ws arbitrary: s)
  case Nil
  then show ?case using abs_room [of s] by simp
next
  case (Cons w ws)
  then show ?case
    using keep_keep [of room "abs s @ [w]" ws] by (simp add: push_inv push_abs)
qed

lemma pop_returns_oldest:
  assumes "inv s" "abs s \<noteq> []"
  shows "fst (pop s) = Some (hd (abs s))" "abs (snd (pop s)) = tl (abs s)" "inv (snd (pop s))"
  using pop_abs [OF assms(1), of "hd (abs s)" "tl (abs s)"] assms(2) by auto

end

subsection \<open>The ring\<close>

definition words_left :: "'a cli_scheme \<Rightarrow> cstr list" where
  "words_left s = map the (filter (\<lambda>t. t \<noteq> None) (ring s))"

text \<open>From \<open>tokenIdx\<close> on there are free slots and then the words.\<close>

definition ring_ok :: "'a cli_scheme \<Rightarrow> bool" where
  "ring_ok s \<longleftrightarrow> length (token s) = MAX_TOKEN \<and> tokenIdx s < MAX_TOKEN \<and>
     ring s = replicate (MAX_TOKEN - length (words_left s)) None @ map Some (words_left s)"

lemma mod_once: "a < n \<Longrightarrow> b < n \<Longrightarrow> (a + b) mod n = (if a + b < n then a + b else a + b - n)" for a b n :: nat
  by (simp add: mod_if)

lemma mod_once_inj: "a < n \<Longrightarrow> b < n \<Longrightarrow> c < n \<Longrightarrow> (a + b) mod n = (a + c) mod n \<longleftrightarrow> b = c" for a b c n :: nat
  by (auto simp: mod_once split: if_splits)

lemma ring_nth:
  assumes "length (token s) = MAX_TOKEN" "tokenIdx s < MAX_TOKEN" "j < MAX_TOKEN"
  shows "ring s ! j = token s ! ((tokenIdx s + j) mod MAX_TOKEN)"
proof (cases "j < MAX_TOKEN - tokenIdx s")
  case True
  then show ?thesis using assms by (simp add: ring_def nth_append)
next
  case False
  then have "(tokenIdx s + j) mod MAX_TOKEN = j - (MAX_TOKEN - tokenIdx s)"
    using mod_once [OF assms(2,3)] assms(2) by (auto simp: not_less)
  then show ?thesis using False assms by (simp add: ring_def nth_append)
qed

lemma length_ring: "tokenIdx s \<le> length (token s) \<Longrightarrow> length (ring s) = length (token s)"
  by (simp add: ring_def)

lemma ring_push:
  assumes "length (token s) = MAX_TOKEN" "tokenIdx s < MAX_TOKEN"
  shows "ring (sccli_tokenPush p s) = tl (ring s) @ [Some p]"
proof (rule nth_equalityI)
  show "length (ring (sccli_tokenPush p s)) = length (tl (ring s) @ [Some p])"
    using assms by (simp add: length_ring sccli_tokenPush_def)
next
  fix j assume "j < length (ring (sccli_tokenPush p s))"
  then have j: "j < MAX_TOKEN" using assms by (simp add: length_ring sccli_tokenPush_def)
  have t: "length (token (sccli_tokenPush p s)) = MAX_TOKEN" "tokenIdx (sccli_tokenPush p s) < MAX_TOKEN"
    using assms by (simp_all add: sccli_tokenPush_def)
  have i: "((tokenIdx s + 1) mod MAX_TOKEN + j) mod MAX_TOKEN = (tokenIdx s + Suc j) mod MAX_TOKEN"
    by (simp add: mod_simps)
  show "ring (sccli_tokenPush p s) ! j = (tl (ring s) @ [Some p]) ! j"
  proof (cases "Suc j < MAX_TOKEN")
    case True
    then have "(tokenIdx s + Suc j) mod MAX_TOKEN \<noteq> tokenIdx s"
      using mod_once_inj [OF assms(2) True, of 0] assms(2) by simp
    then show ?thesis
      using True j i assms ring_nth [OF assms True] ring_nth [OF t j]
      by (simp add: sccli_tokenPush_def nth_append nth_tl length_ring)
  next
    case False
    then have "j = MAX_TOKEN - 1" using j by simp
    then show ?thesis
      using i assms ring_nth [OF t j]
      by (simp add: sccli_tokenPush_def nth_append nth_tl length_ring)
  qed
qed

lemma ring_clear:
  assumes "length (token s) = MAX_TOKEN" "tokenIdx s < MAX_TOKEN" "k < MAX_TOKEN"
  shows "ring (s\<lparr>token := (token s)[(tokenIdx s + k) mod MAX_TOKEN := x]\<rparr>) = (ring s)[k := x]" (is "ring ?t = _")
proof (rule nth_equalityI)
  show "length (ring ?t) = length ((ring s)[k := x])" using assms by (simp add: length_ring)
next
  fix j assume "j < length (ring ?t)"
  then have j: "j < MAX_TOKEN" using assms by (simp add: length_ring)
  have t: "length (token ?t) = MAX_TOKEN" "tokenIdx ?t < MAX_TOKEN" using assms by simp_all
  have "(tokenIdx s + k) mod MAX_TOKEN = (tokenIdx s + j) mod MAX_TOKEN \<longleftrightarrow> k = j"
    by (rule mod_once_inj [OF assms(2,3) j])
  then show "ring ?t ! j = (ring s)[k := x] ! j"
    using j assms ring_nth [OF t j] ring_nth [OF assms(1,2) j] by (auto simp: nth_list_update length_ring)
qed

lemma scan_slots_free: "\<forall>j < n. ts ! ((idx + j) mod MAX_TOKEN) = None \<Longrightarrow> idx < MAX_TOKEN \<Longrightarrow> scan_slots n idx ts = None"
proof (induction n arbitrary: idx)
  case (Suc n)
  have "ts ! (((idx + 1) mod MAX_TOKEN + j) mod MAX_TOKEN) = None" if "j < n" for j
    using Suc.prems(1) [rule_format, of "Suc j"] that by (simp add: mod_simps)
  then show ?case using Suc.IH [of "(idx + 1) mod MAX_TOKEN"] Suc.prems(1) [rule_format, of 0] Suc.prems(2) by simp
qed simp

lemma scan_slots_used:
  assumes "k < n" "\<forall>j < k. ts ! ((idx + j) mod MAX_TOKEN) = None" "ts ! ((idx + k) mod MAX_TOKEN) = Some p" "idx < MAX_TOKEN"
  shows "scan_slots n idx ts = Some ((idx + k) mod MAX_TOKEN, p)"
  using assms
proof (induction n arbitrary: idx k)
  case (Suc n)
  show ?case
  proof (cases k)
    case 0
    then show ?thesis using Suc.prems by simp
  next
    case (Suc k')
    have "ts ! (((idx + 1) mod MAX_TOKEN + j) mod MAX_TOKEN) = None" if "j < k'" for j
      using Suc.prems(2) [rule_format, of "Suc j"] Suc that by (simp add: mod_simps)
    moreover have "ts ! (((idx + 1) mod MAX_TOKEN + k') mod MAX_TOKEN) = Some p"
      using Suc.prems(3) Suc by (simp add: mod_simps)
    ultimately show ?thesis
      using Suc.IH [of k' "(idx + 1) mod MAX_TOKEN"] Suc.prems Suc Suc.prems(2) [rule_format, of 0] by (simp add: mod_simps)
  qed
qed simp

lemma words_left_form:
  assumes "ring s = replicate n None @ map Some ws"
  shows "words_left s = ws"
  using assms by (simp add: words_left_def filter_map comp_def)

lemma ring_okI:
  assumes "length (token s) = MAX_TOKEN" "tokenIdx s < MAX_TOKEN" "ring s = replicate n None @ map Some ws"
  shows "ring_ok s"
  using assms words_left_form [OF assms(3)] length_ring [of s] by (simp add: ring_ok_def)

lemma length_words_left: "ring_ok s \<Longrightarrow> length (words_left s) \<le> MAX_TOKEN"
  using length_filter_le [of "\<lambda>t. t \<noteq> None" "ring s"] length_ring [of s]
  by (simp add: ring_ok_def words_left_def)

lemma ring_ok_init: "ring_ok (sccli_tokenInit s)" "words_left (sccli_tokenInit s) = []"
proof -
  have "ring (sccli_tokenInit s) = replicate MAX_TOKEN None @ map Some []" by (simp add: ring_def sccli_tokenInit_def)
  from words_left_form [OF this] ring_okI [OF _ _ this]
  show "ring_ok (sccli_tokenInit s)" "words_left (sccli_tokenInit s) = []" by (simp_all add: sccli_tokenInit_def)
qed

lemma ring_ok_push:
  assumes "ring_ok s"
  shows "ring_ok (sccli_tokenPush p s)" "words_left (sccli_tokenPush p s) = keep MAX_TOKEN (words_left s @ [p])"
proof -
  let ?ws = "words_left s" and ?t = "sccli_tokenPush p s"
  have b: "length (token s) = MAX_TOKEN" "tokenIdx s < MAX_TOKEN"
    and r: "ring s = replicate (MAX_TOKEN - length ?ws) None @ map Some ?ws"
    using assms by (simp_all add: ring_ok_def)
  have "ring ?t = replicate (MAX_TOKEN - length ?ws - 1) None @ map Some (keep MAX_TOKEN (?ws @ [p]))"
  proof (cases "length ?ws < MAX_TOKEN")
    case True
    then have "replicate (MAX_TOKEN - length ?ws) None = None # replicate (MAX_TOKEN - length ?ws - 1) (None :: cstr option)"
      by (cases "MAX_TOKEN - length ?ws") simp_all
    then show ?thesis using True r by (simp add: ring_push [OF b])
  next
    case False
    then have l: "length ?ws = MAX_TOKEN" using length_words_left [OF assms] by simp
    then have "?ws \<noteq> []" by auto
    then show ?thesis using r l by (simp add: ring_push [OF b] keep_def map_tl drop_Suc)
  qed
  from words_left_form [OF this] ring_okI [OF _ _ this] b
  show "ring_ok ?t" "words_left ?t = keep MAX_TOKEN (?ws @ [p])" by (simp_all add: sccli_tokenPush_def)
qed

lemma ring_ok_slots:
  assumes "ring_ok s"
  shows "j < MAX_TOKEN - length (words_left s) \<Longrightarrow> token s ! ((tokenIdx s + j) mod MAX_TOKEN) = None"
    and "words_left s = p # ps \<Longrightarrow> token s ! ((tokenIdx s + (MAX_TOKEN - length (words_left s))) mod MAX_TOKEN) = Some p"
proof -
  let ?k = "MAX_TOKEN - length (words_left s)"
  have b: "length (token s) = MAX_TOKEN" "tokenIdx s < MAX_TOKEN"
    and r: "ring s = replicate ?k None @ map Some (words_left s)"
    using assms by (simp_all add: ring_ok_def)
  show "token s ! ((tokenIdx s + j) mod MAX_TOKEN) = None" if "j < ?k"
    using ring_nth [OF b, of j] r that by (simp add: nth_append)
  show "token s ! ((tokenIdx s + ?k) mod MAX_TOKEN) = Some p" if "words_left s = p # ps"
    using ring_nth [OF b, of ?k] r that length_words_left [OF assms] by (simp add: nth_append)
qed

lemma ring_ok_pop_empty:
  assumes "ring_ok s" "words_left s = []"
  shows "sccli_tokenPop s = (None, s)"
  using scan_slots_free [of MAX_TOKEN "token s" "tokenIdx s"] ring_ok_slots(1) [OF assms(1)] assms
  by (simp add: sccli_tokenPop_def ring_ok_def)

lemma ring_ok_pop:
  assumes "ring_ok s" "words_left s = p # ps"
  shows "\<exists>t. sccli_tokenPop s = (Some p, t) \<and> ring_ok t \<and> words_left t = ps"
proof -
  let ?k = "MAX_TOKEN - length (words_left s)" and ?i = "(tokenIdx s + (MAX_TOKEN - length (words_left s))) mod MAX_TOKEN"
  have b: "length (token s) = MAX_TOKEN" "tokenIdx s < MAX_TOKEN"
    and r: "ring s = replicate ?k None @ map Some (words_left s)"
    using assms(1) by (simp_all add: ring_ok_def)
  have k: "?k < MAX_TOKEN" using assms(2) by simp
  have scan: "scan_slots MAX_TOKEN (tokenIdx s) (token s) = Some (?i, p)"
    using scan_slots_used [OF k, of "token s" "tokenIdx s" p] ring_ok_slots [OF assms(1)] assms(2) b by simp
  let ?t = "s\<lparr>token := (token s)[?i := None]\<rparr>"
  have "ring ?t = replicate (Suc ?k) None @ map Some ps"
    using ring_clear [OF b k, of None] r assms(2) by (simp add: list_update_append replicate_append_same)
  from words_left_form [OF this] ring_okI [OF _ _ this] b
  have "ring_ok ?t" "words_left ?t = ps" by simp_all
  then show ?thesis using scan by (simp add: sccli_tokenPop_def)
qed

interpretation ring: token_queue ring_ok words_left sccli_tokenPush sccli_tokenPop MAX_TOKEN
  by unfold_locales
    (simp_all add: ring_ok_push ring_ok_pop_empty ring_ok_pop length_words_left)

end
