(* ===== verification/Cli_Dispatch.thy ===== *)
theory Cli_Dispatch
  imports Cli_Ring
begin

text \<open>
  What the parser of \<open>linksysCli.c\<close> does with a line: the entry a full name and an abbreviation stand for, and, for words that
  name a path through the tables, that the handler at its end runs with the words that are left, after which a path through
  \<open>genericCliCmdSet\<close> stores the settings in flash.
\<close>

subsection \<open>Names\<close>

abbreviation lower :: "cstr \<Rightarrow> cstr" where "lower \<equiv> map c_tolower"

lemma c_tolower_idem [simp]: "c_tolower (c_tolower c) = c_tolower c"
  by (simp add: c_tolower_def)

lemma lower_lower [simp]: "lower (lower w) = lower w"
  by (induction w) simp_all

lemma exact_match_lower: "exact_match (lower w) e \<longleftrightarrow> lower w = lower (pCmd e)"
proof
  assume e: "lower w = lower (pCmd e)"
  then have "length w = length (pCmd e)" by (rule map_eq_imp_length_eq)
  then show "exact_match (lower w) e" using e by (simp add: exact_match_def sccli_tokenIsValidOpMode_def sccli_tokencmp_def)
qed (simp add: exact_match_def sccli_tokencmp_def comp_def)

lemma stands_for_same: "lower w = lower (pCmd e) \<Longrightarrow> stands_for sc (lower w) e"
  using exact_match_lower [of w e] by (simp add: exact_match_def stands_for_def sccli_IsSuperUser_def)

text \<open>The entry of a full name, in upper or lower case, hidden or not.\<close>

definition named :: "cstr \<Rightarrow> entry list \<Rightarrow> entry option" where
  "named w tbl = find (\<lambda>e. lower w = lower (pCmd e)) tbl"

lemma named_dropWhile:
  "named w tbl = Some e \<Longrightarrow> \<exists>r. dropWhile (\<lambda>e. lower w \<noteq> lower (pCmd e)) tbl = e # r \<and> lower w = lower (pCmd e)"
  by (induction tbl) (auto simp: named_def split: if_splits)

lemma choose_full:
  assumes "named w tbl = Some e"
  shows "sccli_choose sc (lower w) tbl = Choice True (dropWhile (\<lambda>e. lower w \<noteq> lower (pCmd e)) tbl)"
  using named_dropWhile [OF assms] by (auto simp: sccli_choose_def exact_match_lower stands_for_same)

lemma choose_named:
  "named w tbl = Some e \<Longrightarrow> \<exists>r. sccli_choose sc (lower w) tbl = Choice True (e # r) \<and> lower w = lower (pCmd e)"
  using choose_full [of w tbl e sc] named_dropWhile [of w tbl e] by auto

lemma named_distinct: "distinct (map (\<lambda>e. lower (pCmd e)) tbl) \<Longrightarrow> e \<in> set tbl \<Longrightarrow> named (pCmd e) tbl = Some e"
proof (induction tbl)
  case (Cons a tbl)
  have "lower (pCmd a) \<notin> (\<lambda>e. lower (pCmd e)) ` set tbl" using Cons.prems(1) by simp
  then have "lower (pCmd e) \<noteq> lower (pCmd a)" if "e \<in> set tbl" using imageI [OF that, of "\<lambda>e. lower (pCmd e)"] by metis
  then show ?case using Cons by (auto simp: named_def)
qed simp

lemma named_cong: "lower w = lower v \<Longrightarrow> named w tbl = named v tbl"
  by (simp add: named_def)

subsection \<open>Abbreviations\<close>

definition begins_with :: "cstr \<Rightarrow> entry \<Rightarrow> bool" where
  "begins_with p e \<longleftrightarrow> take (length p) (pCmd e) = p"

text \<open>The names of visible entries that begin with \<open>p\<close> but for their capital letters do begin with it. A capital letter in a
  name cannot be matched in an abbreviation: the token is in lower case when it is compared.\<close>

definition plain_for :: "cstr \<Rightarrow> entry list \<Rightarrow> bool" where
  "plain_for p tbl \<longleftrightarrow>
     list_all (\<lambda>e. \<not> sccli_tokenIsHidden e \<and> take (length p) (lower (pCmd e)) = p \<longrightarrow> begins_with p e) tbl"

text \<open>A visible entry whose name the token begins.\<close>

definition begun :: "cstr \<Rightarrow> entry \<Rightarrow> bool" where
  "begun p e \<longleftrightarrow> \<not> sccli_tokenIsHidden e \<and> begins_with p e"

lemma common_len_le: "common_len p q \<le> length p"
  by (induction p q rule: common_len.induct) simp_all

lemma common_len_full: "common_len p q = length p \<longleftrightarrow> take (length p) q = p"
  by (induction p q rule: common_len.induct) auto

lemma common_len_pos: "p \<noteq> [] \<Longrightarrow> take (length p) q = p \<Longrightarrow> common_len p q \<noteq> 0"
  using common_len_full [of p q] by simp

lemma dropWhile_cong_set: "(\<And>x. x \<in> set xs \<Longrightarrow> P x = Q x) \<Longrightarrow> dropWhile P xs = dropWhile Q xs"
  by (rule dropWhile_cong) auto

lemma foldr_max_ge: "(x :: nat) \<in> set xs \<Longrightarrow> x \<le> foldr max xs 0"
  by (induction xs) auto

lemma foldr_max_le: "(\<And>x. x \<in> set xs \<Longrightarrow> x \<le> (b :: nat)) \<Longrightarrow> foldr max xs 0 \<le> b"
  by (induction xs) auto

lemma foldr_max_in: "foldr max xs (0 :: nat) \<noteq> 0 \<Longrightarrow> foldr max xs 0 \<in> set xs"
  by (induction xs) (auto simp: max_def)

text \<open>An abbreviation of none of the names in full stands for the first visible entry whose name it begins.\<close>

definition first_begun :: "cstr \<Rightarrow> entry list \<Rightarrow> entry list" where
  "first_begun p tbl = dropWhile (\<lambda>e. \<not> begun p e) tbl"

fun chosen :: "choice \<Rightarrow> entry list" where
  "chosen No_choice = []"
| "chosen (Choice b t) = t"

lemma stands_for_lower:
  assumes "lower p = p"
  shows "stands_for sc p e \<longleftrightarrow> take (length p) (lower (pCmd e)) = p"
proof -
  have "length p \<le> length (pCmd e)" if "take (length p) (lower (pCmd e)) = p"
    using that by (metis length_map length_take min.cobounded1)
  then show ?thesis using assms by (auto simp: stands_for_def sccli_tokencmp_def sccli_IsSuperUser_def take_map)
qed

lemma count_visible: "abbrevMatchCnt sc p e = (if sccli_tokenIsHidden e then 0 else common_len p (pCmd e))"
  by (simp add: abbrevMatchCnt_def sccli_IsSuperUser_def sccli_tokenIsValidOpMode_def)

text \<open>Whatever is chosen is named by the token in full, or visible and begun by it but for capital letters.\<close>

lemma chosen_stands:
  assumes "lower p = p" "chosen (sccli_choose sc p tbl) = e # r"
  shows "p = lower (pCmd e) \<or> \<not> sccli_tokenIsHidden e \<and> take (length p) (lower (pCmd e)) = p"
proof -
  let ?cnt = "abbrevMatchCnt sc p"
  have exact: "exact_match p x \<longleftrightarrow> p = lower (pCmd x)" for x using exact_match_lower [of p x] assms(1) by simp
  have visible: "\<not> sccli_tokenIsHidden x" if "?cnt x \<noteq> 0" for x using that by (simp add: count_visible split: if_splits)
  note st = stands_for_lower [OF assms(1)]
  have drop: "\<not> P x" if "dropWhile P tbl = x # xs" for P x xs using hd_dropWhile [of P tbl] that by simp
  show ?thesis
  proof (cases "dropWhile (\<lambda>e. \<not> exact_match p e) tbl")
    case (Cons x xs)
    then show ?thesis using assms(2) drop [OF Cons] exact by (auto simp: sccli_choose_def split: if_splits)
  next
    case Nil
    show ?thesis
    proof (cases "filter (\<lambda>e. ?cnt e \<noteq> 0) tbl")
      case (Cons y ys)
      show ?thesis
      proof (cases ys)
        case Nil
        then have "dropWhile (\<lambda>e. ?cnt e = 0 \<or> \<not> stands_for sc p e) tbl = e # r"
          using assms(2) Cons \<open>dropWhile _ tbl = []\<close> by (auto simp: sccli_choose_def split: list.splits)
        from drop [OF this] show ?thesis using visible st by auto
      next
        case (Cons z zs)
        let ?best = "foldr max (map ?cnt tbl) 0"
        have e: "dropWhile (\<lambda>e. ?cnt e \<noteq> ?best) tbl = e # r" "stands_for sc p e"
          using assms(2) Cons \<open>filter _ tbl = y # ys\<close> \<open>dropWhile _ tbl = []\<close>
          by (auto simp: sccli_choose_def Let_def split: list.splits if_splits)
        have "y \<in> set (filter (\<lambda>e. ?cnt e \<noteq> 0) tbl)" using \<open>filter _ tbl = y # ys\<close> by simp
        then have "?best \<noteq> 0" using foldr_max_ge [of "?cnt y" "map ?cnt tbl"] by auto
        then show ?thesis using drop [OF e(1)] e(2) visible [of e] st by auto
      qed
    qed (use assms(2) Nil in \<open>simp add: sccli_choose_def\<close>)
  qed
qed

lemma abbreviation_choice:
  assumes "plain_for p tbl" "lower p = p" "p \<noteq> []" "named p tbl = None"
  shows "chosen (sccli_choose sc p tbl) = first_begun p tbl"
proof -
  let ?cnt = "abbrevMatchCnt sc p"
  have full: "?cnt e = length p \<longleftrightarrow> begun p e" if "e \<in> set tbl" for e
    using assms(3) by (simp add: count_visible common_len_full begins_with_def begun_def)
  have le: "?cnt e \<le> length p" for e using common_len_le by (simp add: count_visible)
  have pos: "?cnt e \<noteq> 0" if "e \<in> set tbl" "begun p e" for e using full [OF that(1)] that(2) assms(3) by simp
  have sf: "stands_for sc p e \<longleftrightarrow> begun p e" if "e \<in> set tbl" "?cnt e \<noteq> 0" for e
  proof -
    have "\<not> sccli_tokenIsHidden e" using that(2) by (simp add: count_visible split: if_splits)
    moreover have "take (length p) (lower (pCmd e)) = p" if "begins_with p e"
      using that assms(2) by (simp add: begins_with_def take_map)
    ultimately show ?thesis using that(1) assms(1) stands_for_lower [OF assms(2)] by (auto simp: plain_for_def list_all_iff begun_def)
  qed
  have no: "dropWhile (\<lambda>e. \<not> exact_match p e) tbl = []"
    using assms(4) exact_match_lower [of p] assms(2) by (auto simp: named_def find_None_iff)
  let ?best = "foldr max (map ?cnt tbl) 0"
  have one: "dropWhile (\<lambda>e. ?cnt e = 0 \<or> \<not> stands_for sc p e) tbl = first_begun p tbl"
    unfolding first_begun_def by (rule dropWhile_cong_set) (use pos sf in blast)
  have none: "first_begun p tbl = []" if "\<And>e. e \<in> set tbl \<Longrightarrow> \<not> begun p e"
    using that by (simp add: first_begun_def)
  have several: "chosen (case dropWhile (\<lambda>e. ?cnt e \<noteq> ?best) tbl of
      e # r \<Rightarrow> if stands_for sc p e then Choice False (e # r) else No_choice | [] \<Rightarrow> No_choice) = first_begun p tbl"
    (is "chosen (case ?d of _ # _ \<Rightarrow> _ | [] \<Rightarrow> _) = _") if best: "?best \<noteq> 0"
  proof (cases "\<exists>e \<in> set tbl. begun p e")
    case True
    then have "length p \<in> set (map ?cnt tbl)" using full by force
    then have "?best = length p" using le by (intro le_antisym foldr_max_le foldr_max_ge) auto
    then have "?d = first_begun p tbl"
      unfolding first_begun_def by (intro dropWhile_cong_set) (use full in auto)
    moreover obtain e r where "first_begun p tbl = e # r" using True by (cases "first_begun p tbl") (auto simp: first_begun_def)
    moreover have "begun p e" "e \<in> set tbl" if "first_begun p tbl = e # r" for e r
      using that hd_dropWhile [of "\<lambda>e. \<not> begun p e" tbl] set_dropWhileD [of e "\<lambda>e. \<not> begun p e" tbl]
      by (auto simp: first_begun_def)
    ultimately show ?thesis using sf pos by simp
  next
    case False
    have "\<not> stands_for sc p e" if "?d = e # r" for e r
      using that set_dropWhileD [of e "\<lambda>e. ?cnt e \<noteq> ?best" tbl] hd_dropWhile [of "\<lambda>e. ?cnt e \<noteq> ?best" tbl] best sf [of e] False
      by simp
    then show ?thesis using none False by (auto split: list.split)
  qed
  show ?thesis
  proof (cases "filter (\<lambda>e. ?cnt e \<noteq> 0) tbl")
    case Nil
    then have "first_begun p tbl = []" using pos by (intro none) (auto simp: filter_empty_conv)
    then show ?thesis using Nil by (simp add: sccli_choose_def no)
  next
    case (Cons e es)
    then have "e \<in> set (filter (\<lambda>e. ?cnt e \<noteq> 0) tbl)" by simp
    then have "?best \<noteq> 0" using foldr_max_ge [of "?cnt e" "map ?cnt tbl"] by auto
    note several = several [OF this]
    show ?thesis
    proof (cases es)
      case Nil
      then show ?thesis using Cons by (simp add: sccli_choose_def no one split: list.split)
    next
      case (Cons _ _)
      then show ?thesis using \<open>filter _ tbl = e # es\<close> several by (simp add: sccli_choose_def no Let_def)
    qed
  qed
qed

text \<open>The reference: a full name first, hidden or not, else the first visible name the token begins.\<close>

definition lookup_entry :: "cstr \<Rightarrow> entry list \<Rightarrow> entry list" where
  "lookup_entry p tbl =
     (case named p tbl of Some _ \<Rightarrow> dropWhile (\<lambda>e. lower p \<noteq> lower (pCmd e)) tbl | None \<Rightarrow> first_begun p tbl)"

lemma choose_lookup:
  assumes "plain_for p tbl" "lower p = p" "p \<noteq> []"
  shows "chosen (sccli_choose sc p tbl) = lookup_entry p tbl"
proof (cases "named p tbl")
  case None
  then show ?thesis using abbreviation_choice [OF assms None] by (simp add: lookup_entry_def)
next
  case (Some e)
  then show ?thesis using choose_full [OF Some, of sc] assms(2) by (simp add: lookup_entry_def)
qed

subsection \<open>The fields the parser keeps for itself\<close>

definition forget :: "'a cli_scheme \<Rightarrow> 'a cli_scheme" where
  "forget s = s\<lparr>ParseTbl := [], token := [], tokenIdx := 0, tokenLvl := 0, ibuf := [], pCurTokenTbl := []\<rparr>"

definition parsed :: "'a cli_scheme \<Rightarrow> 'a cli_scheme \<Rightarrow> bool" where
  "parsed s t \<longleftrightarrow> forget t = forget s"

lemma parsed_trans: "parsed s t \<Longrightarrow> parsed t u \<Longrightarrow> parsed s u"
  by (simp add: parsed_def)

lemma ring_cong:
  assumes "token t = token s" "tokenIdx t = tokenIdx s"
  shows "ring t = ring s" "words_left t = words_left s" "ring_ok t = ring_ok s"
proof -
  show "ring t = ring s" using assms by (simp add: ring_def)
  then show "words_left t = words_left s" "ring_ok t = ring_ok s" using assms by (simp_all add: words_left_def ring_ok_def)
qed

lemma pop_fields:
  assumes "sccli_tokenPop s = (p, t)"
  shows "parsed s t" "ParseTbl t = ParseTbl s" "securityCheck t = securityCheck s" "tokenLvl t = tokenLvl s"
  using assms by (auto simp: sccli_tokenPop_def parsed_def forget_def split: option.splits)

lemma push_fields: "parsed s (sccli_tokenPush p s)" "ParseTbl (sccli_tokenPush p s) = ParseTbl s"
  "tokenLvl (sccli_tokenPush p s) = tokenLvl s"
  by (simp_all add: parsed_def forget_def sccli_tokenPush_def)

lemma pop_word:
  assumes "ring_ok s" "words_left s = w # ws"
  shows "\<exists>t. sccli_tokenPopWoCase s = (Some (lower w), t) \<and> ring_ok t \<and> words_left t = ws \<and> parsed s t \<and>
    ParseTbl t = ParseTbl s \<and> tokenLvl t = tokenLvl s"
proof -
  obtain t where t: "sccli_tokenPop s = (Some w, t)" "ring_ok t" "words_left t = ws"
    using ring_ok_pop [OF assms] by blast
  have "parsed t (t\<lparr>ibuf := lower w\<rparr>)" by (simp add: parsed_def forget_def)
  then show ?thesis
    using t ring_cong [of "t\<lparr>ibuf := lower w\<rparr>" t] pop_fields [OF t(1)] parsed_trans
    by (auto simp: sccli_tokenPopWoCase_def Let_def)
qed

lemma start_line:
  fixes s :: "'a cli_scheme" and ws :: "cstr list"
  defines "t \<equiv> fold sccli_tokenPush ws (sccli_tokenInit s)"
  shows "ring_ok t" "words_left t = keep MAX_TOKEN ws" "parsed s t" "ParseTbl t = []" "tokenLvl t = 0"
proof -
  have f: "parsed u (fold sccli_tokenPush ws u) \<and> ParseTbl (fold sccli_tokenPush ws u) = ParseTbl u \<and>
    tokenLvl (fold sccli_tokenPush ws u) = tokenLvl u" for ws and u :: "'a cli_scheme"
    by (induction ws arbitrary: u) (auto simp: parsed_def push_fields(2,3) push_fields(1) [unfolded parsed_def])
  have i: "parsed s (sccli_tokenInit s)" "ParseTbl (sccli_tokenInit s) = []" "tokenLvl (sccli_tokenInit s) = 0"
    by (simp_all add: sccli_tokenInit_def parsed_def forget_def)
  show "ring_ok t" "words_left t = keep MAX_TOKEN ws"
    using ring.fold_push_inv [OF ring_ok_init(1)] ring.fold_push_abs [OF ring_ok_init(1)] by (simp_all add: t_def ring_ok_init)
  show "parsed s t" "ParseTbl t = []" "tokenLvl t = 0" using f [of "sccli_tokenInit s" ws] i parsed_trans by (auto simp: t_def)
qed

lemma count_words:
  assumes "ring_ok s"
  shows "sccli_tokenCount s = length (words_left s)"
proof -
  have b: "length (token s) = MAX_TOKEN" "tokenIdx s < MAX_TOKEN" using assms by (simp_all add: ring_ok_def)
  have "ring s = map (\<lambda>i. token s ! ((tokenIdx s + i) mod MAX_TOKEN)) [0..<MAX_TOKEN]"
    by (rule nth_equalityI) (use b ring_nth [OF b] in \<open>simp_all add: length_ring\<close>)
  then have "length (filter (\<lambda>t. t \<noteq> None) (ring s)) = sccli_tokenCount s"
    by (simp add: sccli_tokenCount_def filter_map comp_def del: upt_conv_Cons_Cons)
  then show ?thesis by (simp add: words_left_def)
qed

subsection \<open>Commands\<close>

text \<open>The path of entries that the first words name in full, and the words that are left for the handler at its end.\<close>

definition goes_on :: "entry \<Rightarrow> bool" where
  "goes_on e \<longleftrightarrow> fHandler e = ''genericCmdHandler'' \<or> fHandler e = ''genericCliCmdSet''"

fun command_of :: "entry list \<Rightarrow> cstr list \<Rightarrow> (entry list \<times> cstr list) option" where
  "command_of tbl [] = None"
| "command_of tbl (w # ws) =
     (case named w tbl of
        None \<Rightarrow> None
      | Some e \<Rightarrow>
          if goes_on e then
            (case pNxtParseTbl e of
               Some t \<Rightarrow> if ws = [] then None else map_option (\<lambda>(es, args). (e # es, args)) (command_of t ws)
             | None \<Rightarrow> None)
          else Some ([e], ws))"

text \<open>The settings are stored once for each entry of the path that runs \<open>genericCliCmdSet\<close>.\<close>

primrec submitted :: "entry list \<Rightarrow> 'a cli_scheme \<Rightarrow> 'a cli_scheme" where
  "submitted [] u = u"
| "submitted (e # es) u = (if fHandler e = ''genericCliCmdSet'' then apcfg_submit (submitted es u) else submitted es u)"

definition plain_rc :: "parse_rc \<Rightarrow> bool" where
  "plain_rc rc \<longleftrightarrow> rc \<noteq> CLI_PARSE_NO_VALUE \<and> rc \<noteq> CLI_PARSE_INVALID_PARAMETER \<and> rc \<noteq> CLI_PARSE_UNKNOWN"

lemma after_plain: "plain_rc rc \<Longrightarrow> after_handler single e rc s = Some (rc, s)"
  by (simp add: after_handler_def plain_rc_def)

text \<open>What follows a handler's return: the result is never one of the three that ask for help, and is \<open>CLI_PARSE_OK\<close> for that
  one only.\<close>

lemma after_result:
  assumes "after_handler True e rc s = Some (rc', u)"
  shows "plain_rc rc'" "rc' = CLI_PARSE_OK \<longleftrightarrow> rc = CLI_PARSE_OK"
  using assms by (auto simp: after_handler_def plain_rc_def bind_Some_iff split: if_splits)

lemma command_of_length: "command_of tbl ws = Some (es, args) \<Longrightarrow> es \<noteq> [] \<and> length es + length args = length ws"
proof (induction tbl ws arbitrary: es rule: command_of.induct)
  case (2 tbl w ws)
  then show ?case by (auto split: option.splits if_splits)
qed simp

text \<open>The state in which the handler of the chosen entry starts.\<close>

lemma parser_step:
  assumes "ring_ok s" "words_left s = w # ws" "named w tbl = Some e" "length (ParseTbl s) < MAX_TOKEN"
  shows "\<exists>t. parsed s t \<and> ring_ok t \<and> words_left t = ws \<and> ParseTbl t = tbl # ParseTbl s \<and>
    sccli_tokenParser call tbl s =
      do { (rc, u) \<leftarrow> run_entry call (sccli_tokenParser call) e (lower (pCmd e)) t; after_handler True e rc u }"
proof -
  let ?s = "s\<lparr>tokenLvl := tokenLvl s + 1, ParseTbl := tbl # ParseTbl s\<rparr>"
  have s: "ring_ok ?s" "words_left ?s = w # ws" "parsed s ?s"
    using assms ring_cong [of ?s s] by (simp_all add: parsed_def forget_def)
  obtain t where t: "sccli_tokenPopWoCase ?s = (Some (lower w), t)" "ring_ok t" "words_left t = ws" "parsed ?s t"
    "ParseTbl t = tbl # ParseTbl s"
    using pop_word [OF s(1,2)] by auto
  obtain r where r: "sccli_choose (securityCheck t) (lower w) tbl = Choice True (e # r)" "lower w = lower (pCmd e)"
    using choose_named [OF assms(3)] by blast
  let ?t = "sccli_tokenCurTblSet (e # r) t"
  have "ring_ok ?t" "words_left ?t = ws" "parsed t ?t" "ParseTbl ?t = tbl # ParseTbl s"
    using t ring_cong [of ?t t] by (simp_all add: sccli_tokenCurTblSet_def parsed_def forget_def)
  moreover have "sccli_tokenParser call tbl s =
      do { (rc, u) \<leftarrow> run_entry call (sccli_tokenParser call) e (lower (pCmd e)) ?t; after_handler True e rc u }"
    using assms(4) t(1) r by (subst sccli_tokenParser.simps) simp
  ultimately show ?thesis using parsed_trans [OF s(3) parsed_trans [OF t(4)]] by blast
qed

text \<open>The end of a line whose path is \<open>es\<close>, for each result of the handler.\<close>

definition finish :: "entry list \<Rightarrow> parse_rc \<times> 'a cli_scheme \<Rightarrow> (parse_rc \<times> 'a cli_scheme) option" where
  "finish es = (\<lambda>(rc, u). do {
     (rc', w) \<leftarrow> after_handler True (last es) rc u;
     Some (rc', if rc' = CLI_PARSE_OK then submitted es w else w)
   })"

lemma finish_plain: "plain_rc rc \<Longrightarrow> finish es (rc, u) = Some (rc, if rc = CLI_PARSE_OK then submitted es u else u)"
  by (simp add: finish_def after_plain)

lemma finish_result: "finish es x = Some (rc, w) \<Longrightarrow> plain_rc rc"
  by (auto simp: finish_def bind_Some_iff split_beta dest: after_result(1))

lemma finish_Cons:
  assumes "es \<noteq> []"
  shows "finish (e # es) x = do {
    (rc, w) \<leftarrow> finish es x;
    Some (rc, if rc = CLI_PARSE_OK \<and> fHandler e = ''genericCliCmdSet'' then apcfg_submit w else w) }"
  using assms by (cases x; cases "after_handler True (last es) (fst x) (snd x)") (auto simp: finish_def)

text \<open>\<open>P\<close> is kept on the way down the tables, and holds of those on the stack when the handler starts.\<close>

lemma parse_command:
  fixes s :: "'a cli_scheme"
  assumes "command_of tbl (words_left s) = Some (es, args)" "ring_ok s" "length (ParseTbl s) + length es \<le> MAX_TOKEN"
    and "P tbl" "list_all P (ParseTbl s)" "\<And>t e u. P t \<Longrightarrow> e \<in> set t \<Longrightarrow> pNxtParseTbl e = Some u \<Longrightarrow> P u"
  shows "\<exists>t. parsed s t \<and> ring_ok t \<and> words_left t = args \<and> list_all P (ParseTbl t) \<and> ParseTbl t \<noteq> [] \<and>
    last es \<in> set (hd (ParseTbl t)) \<and>
    sccli_tokenParser call tbl s = Option.bind (call (fHandler (last es)) (lower (pCmd (last es))) t) (finish es)"
  using assms(1-5)
proof (induction tbl "words_left s" arbitrary: s es rule: command_of.induct)
  case (2 tbl w ws)
  note words = 2(2) [symmetric]
  obtain e where e: "named w tbl = Some e" using 2(3) unfolding words by (auto split: option.splits)
  have etbl: "e \<in> set tbl" using e by (auto simp: named_def find_Some_iff)
  have "es \<noteq> []" using command_of_length [OF 2(3)] by simp
  then have room: "length (ParseTbl s) < MAX_TOKEN" using 2(5) by (cases es) auto
  obtain t where t: "parsed s t" "ring_ok t" "words_left t = ws" "ParseTbl t = tbl # ParseTbl s"
    "sccli_tokenParser call tbl s =
      do { (rc, u) \<leftarrow> run_entry call (sccli_tokenParser call) e (lower (pCmd e)) t; after_handler True e rc u }"
    using parser_step [OF 2(4) words e room, of call] by (elim exE conjE) rule
  have tP: "list_all P (ParseTbl t)" using t(4) 2(6,7) by simp
  show ?case
  proof (cases "goes_on e")
    case False
    then have es: "es = [e]" "args = ws" using 2(3) e unfolding words by simp_all
    have "after_handler True e rc u = finish [e] (rc, u)" for rc and u :: "'a cli_scheme"
      using False by (cases "after_handler True e rc u") (auto simp: finish_def goes_on_def)
    then have "sccli_tokenParser call tbl s = Option.bind (call (fHandler (last es)) (lower (pCmd (last es))) t) (finish es)"
      using t(5) False es by (simp add: run_entry_def goes_on_def split_beta)
    then show ?thesis using t es tP etbl by auto
  next
    case True
    then obtain n es' where n: "pNxtParseTbl e = Some n" "ws \<noteq> []" "command_of n ws = Some (es', args)" "es = e # es'"
      using 2(3) e unfolding words by (auto split: option.splits if_splits)
    have "\<exists>u. parsed t u \<and> ring_ok u \<and> words_left u = args \<and> list_all P (ParseTbl u) \<and> ParseTbl u \<noteq> [] \<and>
      last es' \<in> set (hd (ParseTbl u)) \<and>
      sccli_tokenParser call n t = Option.bind (call (fHandler (last es')) (lower (pCmd (last es'))) u) (finish es')"
      by (rule 2(1)) (use e True n t 2(5) tP assms(6) [OF 2(6) etbl] in simp_all)
    then obtain u where u: "parsed t u" "ring_ok u" "words_left u = args" "list_all P (ParseTbl u)" "ParseTbl u \<noteq> []"
      "last es' \<in> set (hd (ParseTbl u))"
      "sccli_tokenParser call n t = Option.bind (call (fHandler (last es')) (lower (pCmd (last es'))) u) (finish es')"
      by blast
    have l: "es' \<noteq> []" "last es = last es'" using n(3,4) command_of_length [OF n(3)] by simp_all
    have c: "sccli_tokenCount t \<noteq> 0" using t n(2) by (simp add: count_words)
    let ?h = "call (fHandler (last es')) (lower (pCmd (last es'))) u"
    have "sccli_tokenParser call tbl s = Option.bind ?h (finish es)"
    proof (cases "Option.bind ?h (finish es')")
      case None
      then have "Option.bind ?h (finish es) = None" unfolding n(4) finish_Cons [OF l(1)] by (cases ?h) simp_all
      then show ?thesis using None True [unfolded goes_on_def] u(7) t(5) c n(1)
        by (elim disjE) (simp_all add: run_entry_def genericCmdHandler_def genericCliCmdSet_def)
    next
      case (Some x)
      obtain rc w where x: "x = (rc, w)" by (cases x)
      have "plain_rc rc" using Some x finish_result by (auto simp: bind_Some_iff)
      moreover have "Option.bind ?h (finish es) =
          Some (rc, if rc = CLI_PARSE_OK \<and> fHandler e = ''genericCliCmdSet'' then apcfg_submit w else w)"
        using Some x unfolding n(4) finish_Cons [OF l(1)] by (cases ?h) simp_all
      ultimately show ?thesis using Some x True [unfolded goes_on_def] u(7) t(5) c n(1)
        by (elim disjE) (simp_all add: run_entry_def genericCmdHandler_def genericCliCmdSet_def after_plain)
    qed
    then show ?thesis using u(2-6) parsed_trans [OF t(1) u(1)] unfolding l(2) by (intro exI [of _ u] conjI)
  qed
qed simp

lemma line_finish:
  fixes s :: "'a cli_scheme"
  assumes "sum_list (map (\<lambda>a. length a + 1) argv) \<le> CLI_INBUF"
    and "command_of tbl (keep MAX_TOKEN (filter (\<lambda>a. a \<noteq> []) argv)) = Some (es, args)"
    and "P tbl" "\<And>t e u. P t \<Longrightarrow> e \<in> set t \<Longrightarrow> pNxtParseTbl e = Some u \<Longrightarrow> P u"
  shows "\<exists>t. parsed s t \<and> ring_ok t \<and> words_left t = args \<and> list_all P (ParseTbl t) \<and> ParseTbl t \<noteq> [] \<and>
    last es \<in> set (hd (ParseTbl t)) \<and>
    sccli_parser call tbl argv s = Option.bind (call (fHandler (last es)) (lower (pCmd (last es))) t) (finish es)"
proof -
  let ?ws = "filter (\<lambda>a. a \<noteq> []) argv"
  let ?s = "fold sccli_tokenPush ?ws (sccli_tokenInit s)"
  have w: "words_left ?s = keep MAX_TOKEN ?ws" "ring_ok ?s" and p: "parsed s ?s" "ParseTbl ?s = []" by (simp_all add: start_line)
  have "length es \<le> MAX_TOKEN"
    using command_of_length [OF assms(2)] length_words_left [OF w(2)] w(1) by simp
  then have "\<exists>t. parsed ?s t \<and> ring_ok t \<and> words_left t = args \<and> list_all P (ParseTbl t) \<and> ParseTbl t \<noteq> [] \<and>
    last es \<in> set (hd (ParseTbl t)) \<and>
    sccli_tokenParser call tbl ?s = Option.bind (call (fHandler (last es)) (lower (pCmd (last es))) t) (finish es)"
    by (intro parse_command [where P = P, OF _ _ _ assms(3) _ assms(4)]) (simp_all add: w assms(2) p)
  then obtain t where t: "parsed ?s t" "ring_ok t" "words_left t = args" "list_all P (ParseTbl t)" "ParseTbl t \<noteq> []"
    "last es \<in> set (hd (ParseTbl t))"
    "sccli_tokenParser call tbl ?s = Option.bind (call (fHandler (last es)) (lower (pCmd (last es))) t) (finish es)"
    by blast
  moreover have "sccli_parser call tbl argv s = sccli_tokenParser call tbl ?s" using assms(1) by (simp add: sccli_parser_def)
  ultimately show ?thesis using parsed_trans [OF p(1) t(1)] by (intro exI [of _ t]) simp
qed

lemma line_runs:
  assumes "sum_list (map (\<lambda>a. length a + 1) argv) \<le> CLI_INBUF"
    and "command_of tbl (keep MAX_TOKEN (filter (\<lambda>a. a \<noteq> []) argv)) = Some (es, args)"
  shows "\<exists>t. parsed s t \<and> ring_ok t \<and> words_left t = args \<and>
    (\<forall>rc u. call (fHandler (last es)) (lower (pCmd (last es))) t = Some (rc, u) \<longrightarrow> plain_rc rc \<longrightarrow>
      sccli_parser call tbl argv s = Some (rc, if rc = CLI_PARSE_OK then submitted es u else u))"
  using line_finish [OF assms, of "\<lambda>_. True" s call] by (auto simp: finish_plain)

end
