(* ===== verification/Cli_Device.thy ===== *)
theory Cli_Device
  imports Cli_Shapes
begin

text \<open>
  Handlers of \<open>linksysCli.c\<close> for the device: the regulatory domain in flash, the virtual access point the commands are about, the
  radio's 802.11n modes, access control, the activity of an access point, date and time, the country, and the IPv4 addresses.
\<close>

subsection \<open>The regulatory domain\<close>

text \<open>One byte of \<open>/dev/mtdblock0\<close> at \<open>DOMAIN_OFFSET\<close>. Seeking behind the end of the device fails; a byte written at the end
  is dropped.\<close>

abbreviation (input) BOOT_MTD_DEV :: string where "BOOT_MTD_DEV \<equiv> ''/dev/mtdblock0''"
definition DOMAIN_OFFSET :: nat where "DOMAIN_OFFSET = 0x00040000 - 0x80"

definition ModifySKUInFlash :: "char \<Rightarrow> 'a host_scheme \<Rightarrow> int \<times> 'a host_scheme" where
  "ModifySKUInFlash domain s =
     (case files s BOOT_MTD_DEV of
        None \<Rightarrow> (- 1, s)
      | Some b \<Rightarrow> if length b < DOMAIN_OFFSET then (- 1, s) else (0, f_write BOOT_MTD_DEV (b[DOMAIN_OFFSET := domain]) s))"

text \<open>The byte, or nothing: then \<open>*domain\<close> is left alone.\<close>

definition GetSKUFromFlash :: "'a host_scheme \<Rightarrow> char option" where
  "GetSKUFromFlash s =
     (case files s BOOT_MTD_DEV of None \<Rightarrow> None | Some b \<Rightarrow> if length b \<le> DOMAIN_OFFSET then None else Some (b ! DOMAIN_OFFSET))"

definition change_sku :: "char \<Rightarrow> cstr \<Rightarrow> 'a cmd" where
  "change_sku domain n s =
     (let (ret, s) = ModifySKUInFlash domain s in
      if ret \<noteq> 0 then reply (''Fail change SKU to '' @ n @ ''.'') s
      else reply ''Please reboot the device to take effect.'' (say (''SKU is changed to '' @ n @ ''.'') s))"

abbreviation (input) SKU_US :: char where "SKU_US \<equiv> CHR 0x10"
abbreviation (input) SKU_AU :: char where "SKU_AU \<equiv> CHR 0x35"
abbreviation (input) SKU_JP :: char where "SKU_JP \<equiv> CHR 0x40"
abbreviation (input) SKU_LA :: char where "SKU_LA \<equiv> CHR 0x50"
abbreviation (input) SKU_BR :: char where "SKU_BR \<equiv> CHR 0x51"
abbreviation (input) SKU_CN :: char where "SKU_CN \<equiv> CHR 0x70"
abbreviation (input) SKU_KR :: char where "SKU_KR \<equiv> CHR 0x75"
abbreviation (input) SKU_G5 :: char where "SKU_G5 \<equiv> CHR 0x80"

definition changeSKUToUS :: "'a cmd" where
  "changeSKUToUS s = change_sku SKU_US ''SKU_US'' s"

definition changeSKUToAU :: "'a cmd" where
  "changeSKUToAU s = change_sku SKU_AU ''SKU_AU'' s"

definition changeSKUToJP :: "'a cmd" where
  "changeSKUToJP s = change_sku SKU_JP ''SKU_JP'' s"

definition changeSKUToLA :: "'a cmd" where
  "changeSKUToLA s = change_sku SKU_LA ''SKU_LA'' s"

definition changeSKUToBR :: "'a cmd" where
  "changeSKUToBR s = change_sku SKU_BR ''SKU_BR'' s"

definition changeSKUToCN :: "'a cmd" where
  "changeSKUToCN s = change_sku SKU_CN ''SKU_CN'' s"

definition changeSKUToKR :: "'a cmd" where
  "changeSKUToKR s = change_sku SKU_KR ''SKU_KR'' s"

definition changeSKUToG5 :: "'a cmd" where
  "changeSKUToG5 s = change_sku SKU_G5 ''SKU_G5'' s"

definition skuCliCmdGet :: "'a cmd" where
  "skuCliCmdGet s = (let domain = (case GetSKUFromFlash s of Some d \<Rightarrow> d | None \<Rightarrow> SKU_US) in
     case map_of [(SKU_US, ''US''), (SKU_KR, ''KR''), (SKU_CN, ''CN''), (SKU_BR, ''BR''), (SKU_LA, ''LA''), (SKU_JP, ''JP''),
       (SKU_AU, ''AU''), (SKU_G5, ''G5'')] domain of
       Some n \<Rightarrow> reply (''Current SKU: '' @ n) s
     | None \<Rightarrow> Some (CLI_PARSE_OK, s))"

subsection \<open>The virtual access point and the radio\<close>

definition configCliCmdVap :: "'a cmd" where
  "configCliCmdVap s = with_num (\<lambda>v s. do {
       (m, s) \<leftarrow> apCfgOpModeGet RADIO_24G s;
       let s = (if m = CFG_OP_MODE_AP then
                  (if v < 0 \<or> WLAN_MAX_VAP \<le> v then say (''Invalid wlan bss number '' @ fmt_d v) s else s\<lparr>cli_vap := v\<rparr>)
                else say ''In WDS mode, only vap 0 could be configed.'' s);
       reply (''Current virtual AP: '' @ fmt_d (cli_vap s)) s
     }) error s"

definition dot11nGuardIntervalCliCmdGet :: "'a cmd" where
  "dot11nGuardIntervalCliCmdGet s = show_str ''11n Guard Interval: '' (first_of (scApCfgShortGIGet (cli_unit s)) [(1, ''Auto''), (0, ''Short'')] ''Long'') s"

definition dot11nGuardIntervalCmdAuto :: "'a cmd" where
  "dot11nGuardIntervalCmdAuto s = put_then (scApCfgShortGISet (cli_unit s) 1) (reply ''11n Guard Interval: Auto'') s"

definition dot11nGuardIntervalCmdShort :: "'a cmd" where
  "dot11nGuardIntervalCmdShort s = put_then (scApCfgShortGISet (cli_unit s) 0) (reply ''11n Guard Interval: Short'') s"

definition dot11nGuardIntervalCmdLong :: "'a cmd" where
  "dot11nGuardIntervalCmdLong s = put_then (scApCfgShortGISet (cli_unit s) 2) (reply ''11n Guard Interval: Long'') s"

definition dot11nRadioBandCliCmdGet :: "'a cmd" where
  "dot11nRadioBandCliCmdGet s = show_str ''11n Channel Bandwidth: ''
       (first_of (apCfgChannelWidthModeGet (cli_unit s)) [(0, ''Standard-20MHz Channel''), (1, ''Auto-20/40MHz Channel'')] ''Wide-40MHz Channel'') s"

definition dot11nRadioBandCmdStandard :: "'a cmd" where
  "dot11nRadioBandCmdStandard s = put_then (apCfgChannelWidthModeSet (cli_unit s) 0) (reply ''11n Channel Bandwidth: Standard-20MHz Channel'') s"

text \<open>The client modes refuse the wider bands.\<close>

definition client_mode :: "int \<Rightarrow> (bool, 'a) rd" where
  "client_mode unit = get_in (apCfgOpModeGet unit) [CFG_OP_MODE_ROGAP, CFG_OP_MODE_UC, CFG_OP_MODE_UR]"

definition dot11nRadioBandCmdAuto :: "'a cmd" where
  "dot11nRadioBandCmdAuto s = do {
     (b, s) \<leftarrow> client_mode (cli_unit s) s;
     if b then refuse (''On '' @ [CHR 0x22] @ ''Wireless Client/Repeater'' @ [CHR 0x22] @ '' Mode, '' @ [CHR 0x22] @ ''Auto-20/40MHz Channel'' @ [CHR 0x22] @ '' is not support!'') s
     else put_then (apCfgChannelWidthModeSet (cli_unit s) 1) (reply ''11n Channel Bandwidth: Auto-20/40MHz Channel'') s
   }"

definition dot11nRadioBandCmdWide :: "'a cmd" where
  "dot11nRadioBandCmdWide s = do {
     (b, s) \<leftarrow> client_mode (cli_unit s) s;
     if b then refuse (''On '' @ [CHR 0x22] @ ''Wireless Client/Repeater'' @ [CHR 0x22] @ '' Mode, '' @ [CHR 0x22] @ ''Wide-40MHz Channel'' @ [CHR 0x22] @ '' is not support!'') s
     else put_then (apCfgChannelWidthModeSet (cli_unit s) 2) (reply ''11n Channel Bandwidth: Wide-40MHz Channel'') s
   }"

definition dot11dModeCliCmdGet :: "'a cmd" where
  "dot11dModeCliCmdGet s = show_able ''802.11d Mode: '' (scApCfg80211dEnabledGet (cli_unit s)) s"

definition dot11dModeCmdEnable :: "'a cmd" where
  "dot11dModeCmdEnable s = put_then (scApCfg80211dEnabledSet (cli_unit s) 1) (show_able ''802.11d Mode: '' (scApCfg80211dEnabledGet (cli_unit s))) s"

definition dot11dModeCmdDisable :: "'a cmd" where
  "dot11dModeCmdDisable s = put_then (scApCfg80211dEnabledSet (cli_unit s) 0) (show_able ''802.11d Mode: '' (scApCfg80211dEnabledGet (cli_unit s))) s"

definition dtimModeCliCmdGet :: "'a cmd" where
  "dtimModeCliCmdGet s = show_int ''DTIM Interval: '' (scApCfgDtimIntervalGet (cli_unit s)) [] s"

text \<open>With tokens left over the interval is shown and not set; without a number nothing happens; both are \<open>CLI_PARSE_OK\<close>.\<close>

definition dtimModeCliCmdSet :: "'a cmd" where
  "dtimModeCliCmdSet s = (case sccli_tokenPopNum s of
       ((CLI_PARSE_OK, Some v), s) \<Rightarrow>
         if sccli_tokenCount s = 0 then
           (if v < 1 \<or> 255 < v then refuse ''Invalid DTIM Interval Range: 1 ~ 255'' s
            else put_checked (scApCfgDtimIntervalSet (cli_unit s) v) (''Invalid DTIM Interval: '' @ fmt_d v)
              (show_int ''DTIM Interval: '' (scApCfgDtimIntervalGet (cli_unit s)) []) s)
         else show_int ''DTIM Interval: '' (scApCfgDtimIntervalGet (cli_unit s)) [] s
     | (_, s) \<Rightarrow> Some (CLI_PARSE_OK, s))"

subsection \<open>Access control\<close>

text \<open>\<open>while (!scAclBufGet (unit, pCli->vap, &pScAcl))\<close> never ends when the list is in use.\<close>

definition aclCliCmdGet :: "'a cmd" where
  "aclCliCmdGet s = do {
     (t, s) \<leftarrow> first_of (apCfgAclModeGet (cli_unit s) 0) [(APCFG_ACL_DISABLED, ''Disabled''), (APCFG_ACL_LOCAL, ''Local'')] ''Radius'' s;
     let s = say (''Access Control: '' @ t) s;
     (m, s) \<leftarrow> apCfgAclModeGet (cli_unit s) 0 s;
     if m \<noteq> APCFG_ACL_LOCAL then Some (CLI_PARSE_OK, s)
     else do {
       let s = print ''     Trusted Stations List: '' s;
       ((free, es), s) \<leftarrow> scAclBufGet (cli_unit s) (cli_vap s) s;
       if \<not>  free then None
       else do {
         let s = (if es \<noteq> [] then print (([NL] @ [TAB] @ ''===MAC Address==='' @ [NL]) @ concat (map (\<lambda>e. ([TAB]) @ acl_mac e @ ([NL])) es)) s else say ''None'' s);
         s \<leftarrow> scAclBufFree (cli_unit s) (cli_vap s) s;
         Some (CLI_PARSE_OK, s)
       }
     }
   }"

definition aclCliCmdDisable :: "'a cmd" where
  "aclCliCmdDisable s = put_then (apCfgAclModeSet (cli_unit s) 0 APCFG_ACL_DISABLED) (reply ''Access Control: Disabled'') s"

definition aclCliCmdLocal :: "'a cmd" where
  "aclCliCmdLocal s = put_then (apCfgAclModeSet (cli_unit s) 0 APCFG_ACL_LOCAL) (reply ''Access Control: Local'') s"

definition aclCliCmdRadius :: "'a cmd" where
  "aclCliCmdRadius s = put_then (apCfgAclModeSet (cli_unit s) 0 APCFG_ACL_RADIUS) (reply ''Access Control: Radius'') s"

definition aclCliCmdAdd :: "'a cmd" where
  "aclCliCmdAdd s = (if sccli_tokenCount s \<noteq> 1 then refuse (''set acl add '' @ [CHR 0x22] @ ''MAC Address'' @ [CHR 0x22] @ '' '') s
     else pop_then (\<lambda>p s. do {
       m \<leftarrow> mac_digits p;
       (case m of
          None \<Rightarrow> refuse ''Invalid Input'' s
        | Some m \<Rightarrow> do {
            macStr17 \<leftarrow> scMacStr12ToStr17 m (CHR '':'');
            (rc, s) \<leftarrow> apCfgAclAdd (cli_unit s) 0 macStr17 ''Unknown'' 1 s;
            if rc = A_OK then reply (macStr17 @ '' had added to trusted list.'') s
            else refuse (''The ACL MAC List had Full.'' @ [NL] @ ''You must remove some MAC before add it.'') s
          })
     }) s)"

definition aclCliCmdDel :: "'a cmd" where
  "aclCliCmdDel s = (if sccli_tokenCount s \<noteq> 1 then refuse (''set acl del '' @ [CHR 0x22] @ ''MAC Address'' @ [CHR 0x22]) s
     else pop_then (\<lambda>p s. do {
       m \<leftarrow> mac_digits p;
       (case m of
          None \<Rightarrow> refuse ''Invalid Input'' s
        | Some m \<Rightarrow> do {
            macStr17 \<leftarrow> scMacStr12ToStr17 m (CHR '':'');
            (rc, s) \<leftarrow> apCfgAclDel (cli_unit s) 0 macStr17 s;
            if rc = A_OK then reply (macStr17 @ '' had deleted from trusted list.'') s
            else if rc = A_ENOENT then refuse (macStr17 @ '' is not in trusted list.'') s
            else refuse (''set acl del '' @ [CHR 0x22] @ ''MAC Address'' @ [CHR 0x22]) s
          })
     }) s)"

definition activeModeCliCmdGet :: "'a cmd" where
  "activeModeCliCmdGet s = show_able ''VAP Active (up) Mode: '' (apCfgActiveModeGet (cli_unit s) (cli_vap s)) s"

definition activeModeCliCmdDisable :: "'a cmd" where
  "activeModeCliCmdDisable s = (if (cli_vap s) = 0 then reply ''VAP 0 could not be disabled'' s
     else put_then (apCfgActiveModeSet (cli_unit s) (cli_vap s) 0) (put_then (scSetDefaultVap (cli_unit s) (cli_vap s)) (reply ''VAP Active Mode: disabled'')) s)"

definition activeModeCliCmdEnable :: "'a cmd" where
  "activeModeCliCmdEnable s = put_then (apCfgActiveModeSet (cli_unit s) (cli_vap s) 1) (reply ''VAP Active Mode: enabled'') s"

definition agingCliCmdGet :: "'a cmd" where
  "agingCliCmdGet s = show_int ''Idle Timeout Interval: '' (scApCfgIdleTimeoutIntervalGet (cli_unit s)) '' Minutes'' s"

definition agingCliCmdSet :: "'a cmd" where
  "agingCliCmdSet s = with_num (\<lambda>v s. do {
       s \<leftarrow> (if v < SC_MIN_IDLETIMEOUT_INTERVAL \<or> SC_MAX_IDLETIMEOUT_INTERVAL < v
             then Some (say ''Idle timeout interval is invalid. Valid range is 0 ~ 99'' s)
             else map_option snd (scApCfgIdleTimeoutIntervalSet (cli_unit s) v s));
       show_int ''Idle Timeout Interval: '' (scApCfgIdleTimeoutIntervalGet (cli_unit s)) '' Minutes'' s
     }) error s"

subsection \<open>Positions in the arrays of names\<close>

definition cliGetAutoNego :: "(int, 'a) rd" where
  "cliGetAutoNego s = do { (v, s) \<leftarrow> apCfgAutonegoGet s; Some (if v = 1 then 1 else 0, s) }"

definition cliGetEthDataRate :: "(int, 'a) rd" where
  "cliGetEthDataRate s = do { (v, s) \<leftarrow> apCfgEthDataRateGet s; Some (if v = 1000 then 1 else if v = 100 then 2 else if v = 10 then 3 else 0, s) }"

definition cliSetEthDataRate :: "int \<Rightarrow> 'a wr" where
  "cliSetEthDataRate index = apCfgEthDataRateSet (if index = 1 then 1000 else if index = 2 then 100 else if index = 3 then 10 else 0)"

definition cliGetWirelessSecurity :: "int \<Rightarrow> int \<Rightarrow> (int, 'a) rd" where
  "cliGetWirelessSecurity unit pro s = do {
     (v, s) \<leftarrow> apCfgAuthTypeGet unit pro s;
     Some (if v = APCFG_AUTH_NONE then 0 else if v = APCFG_AUTH_WPAPSK then 2 else if v = APCFG_AUTH_WPA2PSK then 3
       else if v = APCFG_AUTH_WPA_AUTO_PSK then 4 else if v = APCFG_AUTH_WPA then 5 else if v = APCFG_AUTH_WPA2 then 6
       else if v = APCFG_AUTH_WPA_AUTO then 7 else if v = APCFG_AUTH_DOT1X then 8 else 1, s)
   }"

text \<open>\<open>APCFG_AUTH_DOT1X | DOT1X_MODE_DYNAMIC\<close> is \<open>APCFG_AUTH_DOT1X\<close>, 10 with the bit 2. The kinds whose encryption is
  fixed set the cipher too.\<close>

definition cliSetWirelessSecurity :: "int \<Rightarrow> int \<Rightarrow> int \<Rightarrow> 'a wr" where
  "cliSetWirelessSecurity unit vap index s =
     (case map_of [(0, (APCFG_AUTH_NONE, None)), (1, (APCFG_AUTH_OPEN_SYSTEM, None)), (2, (APCFG_AUTH_WPAPSK, None)),
        (3, (APCFG_AUTH_WPA2PSK, Some WPA_CIPHER_AES)), (4, (APCFG_AUTH_WPA_AUTO_PSK, Some WPA_CIPHER_AUTO)),
        (5, (APCFG_AUTH_WPA, None)), (6, (APCFG_AUTH_WPA2, Some WPA_CIPHER_AES)),
        (7, (APCFG_AUTH_WPA_AUTO, Some WPA_CIPHER_AUTO)), (8, (APCFG_AUTH_DOT1X, None))] index of
        None \<Rightarrow> Some (A_OK, s)
      | Some (a, cipher) \<Rightarrow> do {
          (rc, s) \<leftarrow> apCfgAuthTypeSet unit vap a s;
          (case cipher of None \<Rightarrow> Some (rc, s) | Some c \<Rightarrow> apCfgWPACipherSet unit vap c s)
        })"

definition cliGetWEPAuth :: "int \<Rightarrow> int \<Rightarrow> (int, 'a) rd" where
  "cliGetWEPAuth unit pro s = do {
     (v, s) \<leftarrow> apCfgAuthTypeGet unit pro s;
     Some (if v = APCFG_AUTH_SHARED_KEY then 2 else if v = APCFG_AUTH_OPEN_SYSTEM then 1 else if v = APCFG_AUTH_AUTO then 0 else 1, s)
   }"

definition cliSetWEPAuth :: "int \<Rightarrow> int \<Rightarrow> int \<Rightarrow> 'a wr" where
  "cliSetWEPAuth unit pro index s =
     (case map_of [(0, APCFG_AUTH_AUTO), (1, APCFG_AUTH_OPEN_SYSTEM), (2, APCFG_AUTH_SHARED_KEY)] index of
        None \<Rightarrow> Some (A_OK, s) | Some a \<Rightarrow> apCfgAuthTypeSet unit pro a s)"

subsection \<open>Version, date and time\<close>

text \<open>Without a version file \<open>versionStr\<close> is not initialised.\<close>

definition fwversionCmdGet :: "'a cmd" where
  "fwversionCmdGet s = do { v \<leftarrow> getVersion 30 s; t \<leftarrow> v; reply (''Software Version: '' @ t) s }"

definition todCliCmdGet :: "'a cmd" where
  "todCliCmdGet s = show_str ''System Time: '' (getTimeofDay False 80) s"

definition fmt_04d :: "int \<Rightarrow> cstr" where
  "fmt_04d v = (let t = fmt_d \<bar>v\<bar> in if v < 0 then CHR ''-'' # replicate (3 - length t) (CHR ''0'') @ t else replicate (4 - length t) (CHR ''0'') @ t)"

text \<open>The three parts of a date or a time, in an array of 32 bytes; \<open>atoi\<close> of a part that is not there has no result. The
  setters that have returned \<open>A_OK\<close> before one that fails have written.\<close>

definition set_clock :: "cstr list \<Rightarrow> char \<Rightarrow> (int \<Rightarrow> 'a wr) list \<Rightarrow> 'a cmd \<Rightarrow> 'a cmd" where
  "set_clock usage sep sets k s =
     (if sccli_tokenCount s \<noteq> 1 then error (fold say usage s)
      else do {
        (m, s) \<leftarrow> apCfgTimeModeGet s;
        if m \<noteq> 1 then refuse ''Please set Time mode to Manually First.'' (say ''Time Mode: Automatically'' s)
        else pop_then (\<lambda>p s. do { d \<leftarrow> into_buf 32 p; put_parts sets (strtok_all sep d) k s }) s
      })"

definition todCliCmdSet :: "'a cmd" where
  "todCliCmdSet s = set_clock [''USEAGE for Date:'', ([TAB] @ ''Foramt : xxxx/xx/xx(year/month/day)'')] (CHR ''/'')
       [apCfgTimeYearSet, apCfgTimeMonSet, apCfgTimeDaySet]
       (\<lambda>s. do {
         (y, s) \<leftarrow> apCfgTimeYearGet s; (m, s) \<leftarrow> apCfgTimeMonGet s; (d, s) \<leftarrow> apCfgTimeDayGet s;
         reply (''Date Set:'' @ fmt_04d y @ ''/'' @ fmt_02d m @ ''/'' @ fmt_02d d) s
       }) s"

definition tocCliCmdSet :: "'a cmd" where
  "tocCliCmdSet s = set_clock [''USEAGE for Time:'', ([TAB] @ ''Foramt : xx:xx:xx(hour:minute:second)'')] (CHR '':'')
       [apCfgTimeHourSet, apCfgTimeMinSet, apCfgTimeSecSet]
       (\<lambda>s. do {
         (h, s) \<leftarrow> apCfgTimeHourGet s; (m, s) \<leftarrow> apCfgTimeMinGet s; (d, s) \<leftarrow> apCfgTimeSecGet s;
         reply (''Time Set: '' @ fmt_02d h @ '':'' @ fmt_02d m @ '':'' @ fmt_02d d) s
       }) s"

definition uptimeCliCmdGet :: "'a cmd" where
  "uptimeCliCmdGet s = do { t \<leftarrow> getUpTime (localtime s) s; t \<leftarrow> into_buf 80 t; reply (''AP Uptime: '' @ t) s }"

subsection \<open>The country\<close>

lemma c_fgets_shorter: "(l, r) = c_fgets n b \<Longrightarrow> b \<noteq> [] \<Longrightarrow> 0 < n \<Longrightarrow> length r < length b"
  using c_fgets_progress [of "n - 1" "hd b" "tl b" l r] by (cases b; cases n) (simp_all only: list.sel diff_Suc_1 list.size, simp_all)

text \<open>\<open>while (!feof (fp)) { fgets (buffer, 63, fp); ... }\<close>: the part of the line in front of a dash, when the number behind it is the
  country's. A line without a dash has no number, and behind the last newline there is one more round with an empty line:
  \<open>atoi (NULL)\<close>.\<close>

function country_find :: "bytes \<Rightarrow> (cstr option, 'a) rd" where
  "country_find b s =
     (if b = [] then None
      else let (l, r) = c_fgets 62 b in
        (case strtok_all (CHR ''-'') (c_read l) of
           c # p # _ \<Rightarrow> do {
             (v, s) \<leftarrow> apCfgCountryCodeGet s;
             if atoi p = v then Some (Some c, s)
             else if length l < 62 \<and> last l \<noteq> NL then Some (None, s)
             else country_find r s
           }
         | _ \<Rightarrow> None))"
  by pat_completeness auto
termination
by (relation "measure (length o fst)") (auto dest: c_fgets_shorter)

definition countryCodeCliCmdGet :: "'a cmd" where
  "countryCodeCliCmdGet s = do {
     b \<leftarrow> files s country_list;
     (c, s) \<leftarrow> country_find b s;
     reply (''Country/Domain: '' @ (case c of Some c \<Rightarrow> c | None \<Rightarrow> ''Error'')) s
   }"

text \<open>The first blank is taken out with \<open>memmove (p, p + 1, strlen (p + 1))\<close>, which leaves the terminator where it was: the last
  character is there twice. The result is the number behind the country's name.\<close>

definition drop_blank :: "cstr \<Rightarrow> cstr" where
  "drop_blank l =
     (case dropWhile (\<lambda>c. c \<noteq> CHR '' '') l of
        [] \<Rightarrow> l
      | _ # r \<Rightarrow> takeWhile (\<lambda>c. c \<noteq> CHR '' '') l @ (if r = [] then '' '' else r @ [last r]))"

fun country_code :: "cstr \<Rightarrow> cstr list \<Rightarrow> cstr option option option" where
  "country_code n [] = Some None"
| "country_code n (l # ls) =
     (case strtok_all (CHR ''-'') (drop_blank l) of
        [] \<Rightarrow> None
      | c # ps \<Rightarrow> if take (length n) c = n then Some (Some (case ps of [] \<Rightarrow> None | p # _ \<Rightarrow> Some p)) else country_code n ls)"

text \<open>The rest of the table from the chosen entry on is searched for a name that the token begins with, so an abbreviation is not
  enough here. The setter's status is not looked at.\<close>

definition countryCodeCliCmdSet :: "cstr \<Rightarrow> 'a cmd" where
  "countryCodeCliCmdSet pToken s = do {
     b \<leftarrow> files s country_list;
     (case (if sccli_tokenCount s = 0
            then dropWhile (\<lambda>e. \<not>  (map c_tolower (take (length (pCmd e)) pToken) = map c_tolower (pCmd e))) (sccli_tokenCurTblGet s) else []) of
        e # _ \<Rightarrow> do {
          code \<leftarrow> country_code (pCmd e) (fgets_all 62 b);
          (case code of
             None \<Rightarrow> refuse ''Invalid Country/Region. The Country isn't in current Domain.'' s
           | Some p \<Rightarrow> do {
               p \<leftarrow> p;
               put_then (apCfgCountryCodeSet (atoi p)) (reply (''Country/Region: '' @ pCmd e)) s
             })
        }
      | [] \<Rightarrow> refuse ''Invalid Country/Region.'' s)
   }"

subsection \<open>Addresses\<close>

definition dhcpModeCliCmdGet :: "'a cmd" where
  "dhcpModeCliCmdGet s = do {
     (c, s) \<leftarrow> apCfgDhcpEnableGet s;
     if c \<noteq> 0 then reply ''DHCPv4 Mode: Client'' s
     else do { (d, s) \<leftarrow> apCfgDhcpServerEnableGet s; reply (''DHCPv4 Mode: '' @ (if d \<noteq> 0 then ''Server'' else ''Disabled'')) s }
   }"

definition dhcpv6ModeCliCmdGet :: "'a cmd" where
  "dhcpv6ModeCliCmdGet s = do { (c, s) \<leftarrow> apCfgDhcp6EnableGet s; reply (''DHCPv6 Mode: '' @ (if c \<noteq> 0 then ''Client'' else ''Disabled'')) s }"

definition dhcpCliCmdDisable :: "'a cmd" where
  "dhcpCliCmdDisable s = put_then (apCfgDhcpEnableSet 0) (put_then (apCfgDhcpServerEnableSet 0) (reply ''DHCPv4 Mode: disabled'')) s"

definition dhcpv6CliCmdDisable :: "'a cmd" where
  "dhcpv6CliCmdDisable s = put_then (apCfgDhcp6EnableSet 0) (reply ''DHCPv6 Mode: disabled'') s"

definition dhcpCliCmdClient :: "'a cmd" where
  "dhcpCliCmdClient s = put_then (apCfgDhcpEnableSet 1) (put_then (apCfgDhcpServerEnableSet 0) (reply ''DHCPv4 Mode: Client'')) s"

definition dhcpv6CliCmdClient :: "'a cmd" where
  "dhcpv6CliCmdClient s = put_then (apCfgDhcp6EnableSet 1) (reply ''DHCPv6 Mode: Client'') s"

definition ipAddrCliCmdGet :: "'a cmd" where
  "ipAddrCliCmdGet s = show_ip ''IP Address: '' apCfgIpAddrGet s"

definition ipAddrCliCmdSet :: "'a cmd" where
  "ipAddrCliCmdSet s = with_addr (\<lambda>a s. do {
       t \<leftarrow> netstr a;
       ok \<leftarrow> (if a \<noteq> 0 then scValidIpAddress a else Some False);
       if ok then do {
         (_, s) \<leftarrow> apCfgIpAddrSet a s;
         let s = say (''IP Address: '' @ t) s;
         (m, s) \<leftarrow> apCfgIpMaskGet s;
         (g, s) \<leftarrow> apCfgGatewayAddrGet s;
         Some (CLI_PARSE_OK, if \<not>  scValidIpMaskGateWay a m g
           then say ''Warning: Gateway in different subnet. Please check the Gateway IP and Subnet Mask. '' s else s)
       }
       else refuse ''Invalid IP Address'' (say (''Invalid IP Address '' @ t) s)
     }) (refuse ''Invalid IP Address'') s"

definition ipMaskCliCmdGet :: "'a cmd" where
  "ipMaskCliCmdGet s = show_ip ''IP Subnet Mask: '' apCfgIpMaskGet s"

definition ipMaskCliCmdSet :: "'a cmd" where
  "ipMaskCliCmdSet s = with_addr (\<lambda>m s. do {
       t \<leftarrow> netstr m;
       (ok, _) \<leftarrow> scValidIpMask m;
       if ok then do {
         (a, s) \<leftarrow> apCfgIpAddrGet s;
         (g, s) \<leftarrow> apCfgGatewayAddrGet s;
         if scValidIpMaskGateWay a m g then put_then (apCfgIpMaskSet m) (reply (''IP Subnet Mask: '' @ t)) s
         else refuse ''Invalid IP Subnet Mask'' s
       }
       else refuse ''Invalid IP Subnet Mask'' s
     }) (refuse ''Invalid IP Subnet Mask'') s"

definition gatewayCliCmdGet :: "'a cmd" where
  "gatewayCliCmdGet s = show_ip ''Gateway IP Address: '' apCfgGatewayAddrGet s"

definition gatewayCliCmdSet :: "'a cmd" where
  "gatewayCliCmdSet s = with_addr (\<lambda>g s. do {
       t \<leftarrow> netstr g;
       let t = (if g = 0 then [] else t);
       ok \<leftarrow> scValidIpAddress g;
       if ok then do {
         (a, s) \<leftarrow> apCfgIpAddrGet s;
         (m, s) \<leftarrow> apCfgIpMaskGet s;
         if scValidIpMaskGateWay a m g then put_then (apCfgGatewayAddrSet g) (reply (''Gateway IP Address: '' @ t)) s
         else refuse ''Invalid Gateway IP Address'' s
       }
       else refuse ''Invalid Gateway IP Address'' s
     }) (refuse ''Invalid Gateway IP Address'') s"

definition nameSrvCliCmdGet :: "'a cmd" where
  "nameSrvCliCmdGet s = show_str ''DNS Server IP Address: '' apCfgNameSrvGet s"

text \<open>The name servers: one address, \<open>0.0.0.0\<close> for none.\<close>

definition set_name_server :: "(cstr \<Rightarrow> 'a wr) \<Rightarrow> 'a cmd" where
  "set_name_server set_srv s =
     (if sccli_tokenCount s = 0 then Some (CLI_PARSE_NO_VALUE, s)
      else if sccli_tokenCount s = 1 then
        with_addr (\<lambda>a s. do {
          t \<leftarrow> netstr a;
          let t = (if a = 0 then [] else t);
          put_checked (set_srv t) ''Name server address too long.'' (reply (''Name Server IP Address: '' @ t)) s
        }) (refuse ''Invalid Name Server IP Address'') s
      else error s)"

definition nameSrvCliCmdSet :: "'a cmd" where
  "nameSrvCliCmdSet s = set_name_server apCfgNameSrvSet s"

definition ntpServerCliCmdGet :: "'a cmd" where
  "ntpServerCliCmdGet s = show_str ''SNTP/NTP Server IP Address: '' apCfgNtpServerGet s"

definition ntpServerCliCmdSet :: "'a cmd" where
  "ntpServerCliCmdSet s = (case sccli_tokenGetNetAddrHandler s of
       (None, s) \<Rightarrow> refuse ''Invalid IP Address'' s
     | (Some a, s) \<Rightarrow>
         if sccli_tokenCount s = 0 then do {
           t \<leftarrow> netstr a;
           if a \<noteq> 0 then put_then (apCfgNtpServerSet t) (show_str ''SNTP/NTP Server IP Address: '' apCfgNtpServerGet) s
           else refuse (''Invalid IP Address '' @ t) s
         }
         else error s)"

end
