(* ===== verification/Cli_Services.thy ===== *)
theory Cli_Services
  imports Cli_Shapes
begin

text \<open>
  Handlers of \<open>linksysCli.c\<close> for the client modes and the remote access point, SNMP names, the daily reboot, e-mail and logs,
  names and the WPS PIN, IPv6, the time mode, and the services that are switched on and off.
\<close>

subsection \<open>Client modes and the remote access point\<close>

definition opModeCliCmdUc :: "'a cmd" where
  "opModeCliCmdUc s = put_then (apCfgOpModeSet (cli_unit s) CFG_OP_MODE_UC) (reply ''Operating as Bridge(Unversal Client)'') s"

definition opModeCliCmdUr :: "'a cmd" where
  "opModeCliCmdUr s = put_then (apCfgOpModeSet (cli_unit s) CFG_OP_MODE_UR) (reply ''Operating as Bridge(UnversalRepeater)'') s"

definition opModeCliCmdRogueAp :: "'a cmd" where
  "opModeCliCmdRogueAp s = put_then (apCfgOpModeSet (cli_unit s) CFG_OP_MODE_ROGAP) (reply ''Operating as Wireless Monitor'') s"

text \<open>The name of an access point in UTF-8, where it can be converted. \<open>converted_text\<close> has 128 bytes, which hold \<open>old\<close> before the
  conversion and zeros behind it.\<close>

definition converted :: "bytes \<Rightarrow> bytes \<Rightarrow> cstr option" where
  "converted old out = (let b = out @ drop (length out) old in if length b = 128 then c_string b else Some (c_read b))"

definition show_ssid :: "cstr \<Rightarrow> int \<Rightarrow> bytes \<Rightarrow> 'a cmd" where
  "show_ssid l bss old s = do {
     (pSrc, s) \<leftarrow> apCfgSsidGet (cli_unit s) bss s;
     ((ret, out), s) \<leftarrow> do_convert True pSrc 128 s;
     if ret \<noteq> - 1 then do { t \<leftarrow> converted old out; reply (l @ t) s } else reply (l @ pSrc) s
   }"

text \<open>The words put together with blanks, as long as they and their separators have at most \<open>n\<close> characters.\<close>

primrec ssid_words :: "nat \<Rightarrow> nat \<Rightarrow> cstr \<Rightarrow> 'a cli_scheme \<Rightarrow> (nat \<times> cstr) option \<times> 'a cli_scheme" where
  "ssid_words 0 len buf s = (Some (len, buf), s)"
| "ssid_words (Suc k) len buf s =
     (case sccli_tokenPop s of
        (None, s) \<Rightarrow> (Some (len, buf), s)
      | (Some p, s) \<Rightarrow>
          let len = len + length p + 1 in
          if MAX_SSID + 1 < len then (None, s) else ssid_words k len (if buf \<noteq> [] then buf @ CHR '' '' # p else p) s)"

text \<open>\<open>strncpy (buf, converted_text, MAX_SSID)\<close> writes no terminator when there are 32 bytes or more; then the one of the old text
  has to be there.\<close>

definition into_lan :: "cstr \<Rightarrow> 'a cli_scheme \<Rightarrow> ((cstr \<times> bytes) \<times> 'a cli_scheme) option" where
  "into_lan buf s = do {
     ((ret, out), s) \<leftarrow> do_convert False buf 128 s;
     if ret \<noteq> - 1 then do {
       t \<leftarrow> converted [] out;
       t \<leftarrow> (if length t < MAX_SSID then Some t else if length buf = MAX_SSID then Some (take MAX_SSID t) else None);
       Some ((t, out), s)
     }
     else Some ((buf, out), s)
   }"

definition remotessidCliCmdGet :: "'a cmd" where
  "remotessidCliCmdGet s = show_ssid ''Remote SSID: '' 0 [] s"

definition remotessidCliCmdSet :: "'a cmd" where
  "remotessidCliCmdSet s = (if sccli_tokenCount s = 0 then Some (CLI_PARSE_NO_VALUE, s)
     else case ssid_words MAX_TOKEN 0 [] s of
       (None, s) \<Rightarrow> refuse ''SSID string is too long'' s
     | (Some (_, buf), s) \<Rightarrow> do {
         ((buf, old), s) \<leftarrow> into_lan buf s;
         put_checked (apCfgSsidSet (cli_unit s) 0 buf) ''SSID is invalid.'' (show_ssid ''Remote SSID: '' 0 old) s
       })"

definition remoteUcrMacAddrCliCmdGet :: "'a cmd" where
  "remoteUcrMacAddrCliCmdGet s = show_str ''Remote AP MAC Address: '' (apCfgRemoteApMacAddrGet (cli_unit s)) s"

text \<open>The second digit has to be an even one, but not \<open>A\<close>, \<open>C\<close> or \<open>E\<close>.\<close>

definition unicast_digit :: "cstr \<Rightarrow> bool" where
  "unicast_digit m \<longleftrightarrow> m ! 1 \<in> set ''24680''"

definition remoteUcrMacAddrCliCmdSet :: "'a cmd" where
  "remoteUcrMacAddrCliCmdSet s = (if sccli_tokenCount s \<noteq> 1 then refuse ''Invalid Input'' s
     else pop_then (\<lambda>p s. do {
       (b, s) \<leftarrow> get_in (apCfgOpModeGet (cli_unit s)) [CFG_OP_MODE_UC, CFG_OP_MODE_UR] s;
       if \<not>  b then refuse ''Operation mode must be UC/UR.'' s
       else do {
         m \<leftarrow> mac_digits p;
         (case m of
            None \<Rightarrow> refuse ''Invalid Input'' s
          | Some m \<Rightarrow>
              if \<not>  unicast_digit m then refuse ''Invalid Input'' s
              else do {
                macStr17 \<leftarrow> scMacStr12ToStr17 m (CHR '':'');
                put_checked (apCfgRemoteApMacAddrSet (cli_unit s) macStr17) ''Invalid Input'' (reply (''Remote AP MAC Address: '' @ macStr17)) s
              })
       }
     }) s)"

subsection \<open>SNMP names and the daily reboot\<close>

definition snmpContactCliCmdGet :: "'a cmd" where
  "snmpContactCliCmdGet s = show_str ''SNMP Contact: '' apCfgSnmpContactGet s"

definition snmpContactCliCmdSet :: "'a cmd" where
  "snmpContactCliCmdSet s = one_word (\<lambda>p. put_checked (apCfgSnmpContactSet p) ''SNMP Contact is too long'' (show_str ''SNMP Contact: '' apCfgSnmpContactGet)) s"

definition snmpDeviceNameCliCmdGet :: "'a cmd" where
  "snmpDeviceNameCliCmdGet s = show_str ''SNMP Device Name: '' apCfgDescGet s"

definition snmpDeviceNameCliCmdSet :: "'a cmd" where
  "snmpDeviceNameCliCmdSet s = one_word (\<lambda>p. put_checked (apCfgDescSet p) ''SNMP Device Name is too long'' (show_str ''SNMP Device Name: '' apCfgDescGet)) s"

definition snmpLocationCliCmdGet :: "'a cmd" where
  "snmpLocationCliCmdGet s = show_str ''SNMP Location: '' apCfgSnmpLocationGet s"

definition snmpLocationCliCmdSet :: "'a cmd" where
  "snmpLocationCliCmdSet s = one_word (\<lambda>p. put_checked (apCfgSnmpLocationSet p) ''SNMP Location is too long'' (show_str ''SNMP Location: '' apCfgSnmpLocationGet)) s"

definition snmpTrapComCliCmdGet :: "'a cmd" where
  "snmpTrapComCliCmdGet s = show_str ''SNMP Trap Community: '' apCfgSnmpTrapCommunityGet s"

definition snmpTrapComCliCmdSet :: "'a cmd" where
  "snmpTrapComCliCmdSet s = one_word (\<lambda>p. put_checked (apCfgSnmpTrapCommunitySet p) ''SNMP Trap Community is too long'' (show_str ''SNMP Trap Community: '' apCfgSnmpTrapCommunityGet)) s"

definition AutoRebootCliCmdGet :: "'a cmd" where
  "AutoRebootCliCmdGet s = show_able ''Daily Reboot: '' apCfgAutoRebootModeGet s"

definition show_reboot_time :: "'a cmd" where
  "show_reboot_time s = do { ((h, m), s) \<leftarrow> apCfgAutoRebootTimeGet s; reply (''Time of Daily Reboot: '' @ fmt_02d h @ '':'' @ fmt_02d m) s }"

text \<open>\<open>sscanf (pStr, "%d:%d", &hour, &min)\<close> of digits and colons; what is not read stays 0.\<close>

definition scan_clock :: "cstr \<Rightarrow> int \<times> int" where
  "scan_clock p = (let h = takeWhile c_isdigit p in if h = [] then (0, 0) else (atoi h, atoi (takeWhile c_isdigit (drop (length h + 1) p))))"

definition AutoRebootStartTimeCliCmdGet :: "'a cmd" where
  "AutoRebootStartTimeCliCmdGet s = show_reboot_time s"

definition AutoRebootStartTimeCliCmdSet :: "'a cmd" where
  "AutoRebootStartTimeCliCmdSet s = one_word (%p s.
       let bad = ''Bad format, correct format is 'Hour:Minute'. Hour: 0-23, Minute: 0-59.'' in
       if CHR '':'' \<notin> set p \<or> (\<exists>c \<in> set p. \<not>  c_isdigit c \<and> c \<noteq> CHR '':'') then refuse bad s
       else put_checked (scApCfgAutoRebootTimeSet (fst (scan_clock p)) (snd (scan_clock p))) bad show_reboot_time s) s"

definition AutoRebootCliCmdDisable :: "'a cmd" where
  "AutoRebootCliCmdDisable s = put_then (apCfgAutoRebootModeSet 0) (reply ''Daily Reboot: disabled'') s"

definition AutoRebootCliCmdEnable :: "'a cmd" where
  "AutoRebootCliCmdEnable s = put_then (apCfgAutoRebootModeSet 1) (reply ''Daily Reboot: enabled'') s"

subsection \<open>E-mail and logs\<close>

definition emailAlertCliCmdGet :: "'a cmd" where
  "emailAlertCliCmdGet s = show_able ''Email Alert: '' apCfgemailAlertsEnabledGet s"

definition emailAlertCliCmdDisable :: "'a cmd" where
  "emailAlertCliCmdDisable s = put_then (apCfgemailAlertsEnabledSet 0) (reply ''Email Alert: disabled'') s"

definition emailAlertCliCmdEnable :: "'a cmd" where
  "emailAlertCliCmdEnable s = put_then (apCfgemailAlertsEnabledSet 1) (reply ''Email Alert: enabled'') s"

definition emailServerCliCmdGet :: "'a cmd" where
  "emailServerCliCmdGet s = show_str ''SMTP Server: '' apCfgsmtpMailServerGet s"

text \<open>\<open>strncasecmp\<close> with a lower-case text.\<close>

definition begins :: "cstr \<Rightarrow> cstr \<Rightarrow> bool" where
  "begins t p \<longleftrightarrow> map c_tolower (take (length t) p) = t"

text \<open>Every word is checked and set, so the last one stays; the words before an invalid one have been written.\<close>

primrec smtp_words :: "nat \<Rightarrow> 'a cmd" where
  "smtp_words 0 s = Some (CLI_PARSE_OK, s)"
| "smtp_words (Suc k) s =
     (case sccli_tokenPop s of
        (None, s) \<Rightarrow> Some (CLI_PARSE_OK, s)
      | (Some p, s) \<Rightarrow>
          if 64 < length p then refuse ''SMTP Server string is too long'' s
          else do {
            ok \<leftarrow> scValidUrl p;
            if ok \<and> \<not> begins ''http://'' p \<and> \<not> begins ''https://'' p then do {
              (_, s) \<leftarrow> apCfgsmtpMailServerSet p s;
              (v, s) \<leftarrow> apCfgsmtpMailServerGet s;
              smtp_words k (say (''SMTP Server: '' @ v) s)
            }
            else refuse ''SMTP Server is invalid'' s
          })"

definition emailServerCliCmdSet :: "'a cmd" where
  "emailServerCliCmdSet s = (if sccli_tokenCount s = 0 then Some (CLI_PARSE_NO_VALUE, s) else smtp_words MAX_TOKEN s)"

definition emailAddressCliCmdGet :: "'a cmd" where
  "emailAddressCliCmdGet s = show_str ''E-Mail Address for Logs: '' apCfgemailAddrForLogGet s"

text \<open>Each word is checked with the length of all words so far: for the second one that is behind its terminator, which is not a
  valid character.\<close>

primrec mail_words :: "nat \<Rightarrow> nat \<Rightarrow> cstr \<Rightarrow> 'a cmd" where
  "mail_words 0 len buff s = put_checked (apCfgemailAddrForLogSet buff) ''Email Address is invalid.'' (show_str ''Email Address: '' apCfgemailAddrForLogGet) s"
| "mail_words (Suc k) len buff s =
     (case sccli_tokenPop s of
        (None, s) \<Rightarrow> put_checked (apCfgemailAddrForLogSet buff) ''Email Address is invalid.'' (show_str ''Email Address: '' apCfgemailAddrForLogGet) s
      | (Some p, s) \<Rightarrow>
          let len = len + length p + 1 in
          if 65 < len then refuse ''Email Address string is too long'' s
          else if \<not> scValidEmailAddr p (len - 1) then refuse ''Email Address string is Invalid.'' s
          else mail_words k len p s)"

definition emailAddressCliCmdSet :: "'a cmd" where
  "emailAddressCliCmdSet s = (if sccli_tokenCount s = 0 then Some (CLI_PARSE_NO_VALUE, s) else mail_words MAX_TOKEN 0 [] s)"

definition emailQueueLengthCliCmdGet :: "'a cmd" where
  "emailQueueLengthCliCmdGet s = show_int ''Log Queue Length: '' apCfgemailAlertsQlenGet [] s"

definition emailQueueLengthCliCmdSet :: "'a cmd" where
  "emailQueueLengthCliCmdSet s = with_num (\<lambda>v s. do {
       s \<leftarrow> (if v < 1 \<or> 500 < v then Some (say ''Log Queue Length is invalid. Valid range is 1 ~ 500'' s) else map_option snd (scApCfgemailAlertsQlenSet v s));
       show_int ''Log Queue Length: '' apCfgemailAlertsQlenGet [] s
     }) error s"

definition emailSendPeriodCliCmdGet :: "'a cmd" where
  "emailSendPeriodCliCmdGet s = show_int ''Log Time Threshold: '' scApCfgemailAlertsIntervalGet [] s"

definition emailSendPeriodCliCmdSet :: "'a cmd" where
  "emailSendPeriodCliCmdSet s = with_num (\<lambda>v s. do {
       s \<leftarrow> (if v < 60 \<or> 600 < v then Some (say ''Log Time Threshold is invalid. Valid range is 60 ~ 600'' s) else map_option snd (scApCfgemailAlertsIntervalSet v s));
       show_int ''Log Time Threshold: '' scApCfgemailAlertsIntervalGet [] s
     }) error s"

definition loginSuccessCliCmdGet :: "'a cmd" where
  "loginSuccessCliCmdGet s = show_able ''Authorized Login: '' apCfgAuthLoginGet s"

definition loginSuccessCliCmdDisable :: "'a cmd" where
  "loginSuccessCliCmdDisable s = put_then (apCfgAuthLoginSet 0) (reply ''Authorized Login: disabled'') s"

definition loginSuccessCliCmdEnable :: "'a cmd" where
  "loginSuccessCliCmdEnable s = put_then (apCfgAuthLoginSet 1) (reply ''Authorized Login: enabled'') s"

definition loginFailCliCmdGet :: "'a cmd" where
  "loginFailCliCmdGet s = show_able ''Unauthorized Login Attempt: '' apCfgDeauthGet s"

definition loginFailCliCmdDisable :: "'a cmd" where
  "loginFailCliCmdDisable s = put_then (apCfgDeauthSet 0) (reply ''Unauthorized Login Attempt: disabled'') s"

definition loginFailCliCmdEnable :: "'a cmd" where
  "loginFailCliCmdEnable s = put_then (apCfgDeauthSet 1) (reply ''Unauthorized Login Attempt: enabled'') s"

definition sysErrorCliCmdGet :: "'a cmd" where
  "sysErrorCliCmdGet s = show_able ''System Error Messages: '' apCfgChangeSysFucGet s"

definition sysErrorCliCmdDisable :: "'a cmd" where
  "sysErrorCliCmdDisable s = put_then (apCfgChangeSysFucSet 0) (reply ''System Error Messages: disabled'') s"

definition sysErrorCliCmdEnable :: "'a cmd" where
  "sysErrorCliCmdEnable s = put_then (apCfgChangeSysFucSet 1) (reply ''System Error Messages: enabled'') s"

definition confChangeCliCmdGet :: "'a cmd" where
  "confChangeCliCmdGet s = show_able ''Configuration Changes: '' apCfgChangeCfgGet s"

definition confChangeCliCmdDisable :: "'a cmd" where
  "confChangeCliCmdDisable s = put_then (apCfgChangeCfgSet 0) (reply ''Configuration Changes: disabled'') s"

definition confChangeCliCmdEnable :: "'a cmd" where
  "confChangeCliCmdEnable s = put_then (apCfgChangeCfgSet 1) (reply ''Configuration Changes: enabled'') s"

subsection \<open>Names and the WPS PIN\<close>

definition hostnameCliCmdGet :: "'a cmd" where
  "hostnameCliCmdGet s = show_str ''Host Name: '' apCfgSysNameGet s"

definition hostnameCliCmdSet :: "'a cmd" where
  "hostnameCliCmdSet s = all_words CLI_INBUF (\<lambda>buf s. do {
       ok \<leftarrow> scValidHostName buf (length buf);
       if \<not>  ok then refuse (''Access Point Host Name is invalid. Host Name is:'' @ [NL] @ '' 1) contains only letters, digits and hyphens.'' @ [NL] @ '' 2) can't begin or end with a hyphen.'' @ [NL] @ '' 3) doesn't allow all digits string.'') s
       else put_warn (apCfgSysNameSet buf) ''host name too long!'' (show_str ''Host Name: '' apCfgSysNameGet) s
     }) s"

definition WpsPinCliCmdGet :: "'a cmd" where
  "WpsPinCliCmdGet s = show_str ''WPS PIN: '' (apCfgDevicePinGet 0 0) s"

text \<open>The number has 32 bits; the weighted sum of its last eight digits is a multiple of ten.\<close>

definition ValidateChecksum :: "nat \<Rightarrow> bool" where
  "ValidateChecksum PIN \<longleftrightarrow>
     (3 * (PIN div 10000000 mod 10) + PIN div 1000000 mod 10 + 3 * (PIN div 100000 mod 10) + PIN div 10000 mod 10 +
      3 * (PIN div 1000 mod 10) + PIN div 100 mod 10 + 3 * (PIN div 10 mod 10) + PIN mod 10) mod 10 = 0"

text \<open>Only the first eight characters are looked at; the number is that of all leading digits. \<open>atol\<close> stops at the largest
  number of 31 bits.\<close>

definition IsValidWpsPin :: "cstr \<Rightarrow> bool" where
  "IsValidWpsPin wps_pin \<longleftrightarrow>
     WPS_PIN_LEN \<le> length wps_pin \<and> (\<forall>c \<in> set (take WPS_PIN_LEN wps_pin). c_isdigit c) \<and> ValidateChecksum (nat (atoi wps_pin))"

definition WpsPinCliCmdSet :: "'a cmd" where
  "WpsPinCliCmdSet s = all_words CLI_INBUF (%buf s.
       if \<not>  IsValidWpsPin buf then refuse ''Invalid PIN Code'' s
       else put_warn (apCfgDevicePinSet 0 0 buf) ''Invalid PIN Code'' (show_str ''WPS PIN: '' (apCfgDevicePinGet 0 0)) s) s"

definition devicenameCliCmdGet :: "'a cmd" where
  "devicenameCliCmdGet s = show_str ''Device Name: '' apCfgDescGet s"

definition devicenameCliCmdSet :: "'a cmd" where
  "devicenameCliCmdSet s = all_words CLI_INBUF (\<lambda>buf s. do {
       ok \<leftarrow> scValidNetbiosName buf (length buf);
       if \<not>  ok then refuse ''Access Point Device Name is invalid. Do not use punctuation or special characters.'' s
       else put_warn (apCfgDescSet buf) ''device name too long!'' (show_str ''Device Name: '' apCfgDescGet) s
     }) s"

end
