(* ===== verification/Cli_Net.thy ===== *)
theory Cli_Net
  imports Cli_Device Cli_Services
begin

text \<open>
  Handlers of \<open>linksysCli.c\<close> for IPv6, the time mode, the services that are switched on and off, the load balance, the VLANs and
  the 802.1x supplicant.
\<close>

definition show_if :: "cstr \<Rightarrow> (int, 'a) rd \<Rightarrow> cstr \<Rightarrow> cstr \<Rightarrow> 'a cmd" where
  "show_if l get a b s = do { (v, s) \<leftarrow> get s; reply (l @ (if v \<noteq> 0 then a else b)) s }"

subsection \<open>The second name server and IPv6\<close>

definition nameSrv2CliCmdGet :: "'a cmd" where
  "nameSrv2CliCmdGet s = show_str ''Secondary DNS Server IP Address: '' apCfgNameSrv2Get s"

definition nameSrv2CliCmdSet :: "'a cmd" where
  "nameSrv2CliCmdSet s = set_name_server apCfgNameSrv2Set s"

definition ipv6ModeCliCmdGet :: "'a cmd" where
  "ipv6ModeCliCmdGet s = show_able ''IPv6: '' apCfgipv6modeGet s"

definition ipv6ModeCliCmdDisable :: "'a cmd" where
  "ipv6ModeCliCmdDisable s = put_then (apCfgipv6modeSet 0) (reply ''IPv6: disabled'') s"

definition ipv6ModeCliCmdEnable :: "'a cmd" where
  "ipv6ModeCliCmdEnable s = do {
     (a, s) \<leftarrow> apCfgIpv6AddrGet s;
     if a = [] then refuse ''Invalid Ipv6 address,Address can not be blank'' s
     else do {
       (a, s) \<leftarrow> apCfgIpv6AddrGet s;
       if length (dropWhile (\<lambda>c. c \<noteq> CHR ''/'') a) \<le> 1 then refuse ''Invalid Ipv6 Prefix Length'' s
       else put_then (apCfgipv6modeSet 1) (reply ''IPv6: enabled'') s
     }
   }"

text \<open>The static setting, or what DHCPv6 and the router advertisements gave: nothing at all when the DHCPv6 mode is another number.\<close>

definition show_v6_auto :: "(if_infov6 \<Rightarrow> cstr) \<Rightarrow> 'a cli_scheme \<Rightarrow> 'a cli_scheme option" where
  "show_v6_auto f s = do {
     ((_, i), s) \<leftarrow> getMgtBrv6Info 1 s;
     let (count, s) = (if f i \<noteq> [] then (1, print (f i) s) else (0::nat, s));
     (r, s) \<leftarrow> apCfgRadvdEnableGet s;
     if r \<noteq> 1 then Some s
     else do {
       ((_, i), s) \<leftarrow> getMgtBrv6Info 2 s;
       Some (if f i = [] then s else if count = 0 then print (f i) s else print ([TAB, TAB, TAB] @ '' '' @ f i) s)
     }
   }"

definition show_v6 :: "cstr \<Rightarrow> (cstr, 'a) rd \<Rightarrow> (if_infov6 \<Rightarrow> cstr) \<Rightarrow> 'a cmd" where
  "show_v6 l static f s = do {
     (m, s) \<leftarrow> apCfgipv6modeGet s;
     if m = 0 then reply ''IPv6 Disable.'' s
     else do {
       let s = print l s;
       (d, s) \<leftarrow> apCfgDhcp6EnableGet s;
       s \<leftarrow> (if d = 0 then do { (a, s) \<leftarrow> static s; Some (print a s) }
             else do { (d, s) \<leftarrow> apCfgDhcp6EnableGet s; if d = 1 then show_v6_auto f s else Some s });
       reply [] s
     }
   }"

definition set_v6_text :: "(cstr \<Rightarrow> bool option) \<Rightarrow> (cstr \<Rightarrow> 'a wr) \<Rightarrow> cstr \<Rightarrow> 'a cmd \<Rightarrow> 'a cmd" where
  "set_v6_text valid set_it bad k = first_word (\<lambda>p s. do { ok \<leftarrow> valid p; if \<not> ok then refuse bad s else put_checked (set_it p) bad k s })"

definition ipv6AddrCliCmdGet :: "'a cmd" where
  "ipv6AddrCliCmdGet s = show_v6 ''IPv6 Address: '' apCfgIpv6AddrGet v6_ipaddr s"

definition ipv6AddrCliCmdSet :: "'a cmd" where
  "ipv6AddrCliCmdSet s = set_v6_text (\<lambda>p. Some (scValidIPv6 p True)) apCfgIpv6AddrSet ''Input Ipv6 Address is wrong!'' (show_str ''IPv6 Address: '' apCfgIpv6AddrGet) s"

definition ipv6dns1CliCmdGet :: "'a cmd" where
  "ipv6dns1CliCmdGet s = show_str ''IPv6 Primary DNS: '' apCfgNameSrv61Get s"

definition ipv6dns1CliCmdSet :: "'a cmd" where
  "ipv6dns1CliCmdSet s = set_v6_text (\<lambda>p. Some (scValidIPv6 p False)) apCfgNameSrv61Set ''Input Primary DNS is wrong!'' (show_str ''IPv6 Primary DNS: '' apCfgNameSrv61Get) s"

definition ipv6dns2CliCmdGet :: "'a cmd" where
  "ipv6dns2CliCmdGet s = show_str ''IPv6 Secondary DNS: '' apCfgNameSrv62Get s"

definition ipv6dns2CliCmdSet :: "'a cmd" where
  "ipv6dns2CliCmdSet s = set_v6_text (\<lambda>p. Some (scValidIPv6 p False)) apCfgNameSrv62Set ''Input Secondary DNS is wrong!'' (show_str ''IPv6 Secondary DNS: '' apCfgNameSrv62Get) s"

definition ipv6gatewayCliCmdGet :: "'a cmd" where
  "ipv6gatewayCliCmdGet s = show_v6 ''IPv6 Default Gateway: '' apCfgGatewayv6AddrGet v6_gw s"

definition ipv6gatewayCliCmdSet :: "'a cmd" where
  "ipv6gatewayCliCmdSet s = set_v6_text scValidGWv6 apCfgGatewayv6AddrSet ''Input Default Gateway is wrong!'' (show_str ''IPv6 Default Gateway: '' apCfgGatewayv6AddrGet) s"

subsection \<open>Services\<close>

definition timeModeCliCmdGet :: "'a cmd" where
  "timeModeCliCmdGet s = show_if ''Time Mode: '' apCfgTimeModeGet ''Manually'' ''Automatically'' s"

definition timeModeCliCmdDisable :: "'a cmd" where
  "timeModeCliCmdDisable s = put_then (apCfgTimeModeSet 0) (reply ''Time Mode: Automatically'') s"

definition timeModeCliCmdEnable :: "'a cmd" where
  "timeModeCliCmdEnable s = put_then (apCfgTimeModeSet 1) (reply ''Time Mode: Manually'') s"

definition ntpModeCliCmdGet :: "'a cmd" where
  "ntpModeCliCmdGet s = show_able ''NTP Mode: '' apCfgNtpModeGet s"

definition ntpModeCliCmdDisable :: "'a cmd" where
  "ntpModeCliCmdDisable s = put_then (apCfgNtpModeSet 0) (reply ''NTP Mode: disabled'') s"

definition ntpModeCliCmdEnable :: "'a cmd" where
  "ntpModeCliCmdEnable s = put_then (apCfgNtpModeSet 1) (reply ''NTP Mode: enabled'') s"

definition BonjourModeCliCmdGet :: "'a cmd" where
  "BonjourModeCliCmdGet s = show_able ''Bonjour Mode: '' apCfgBonjourGet s"

definition BonjourModeCliCmdDisable :: "'a cmd" where
  "BonjourModeCliCmdDisable s = put_then (apCfgBonjourSet 0) (reply ''Bonjour Mode: disabled'') s"

definition BonjourModeCliCmdEnable :: "'a cmd" where
  "BonjourModeCliCmdEnable s = put_then (apCfgBonjourSet 1) (reply ''Bonjour Mode: enabled'') s"

definition WpsModeCliCmdGet :: "'a cmd" where
  "WpsModeCliCmdGet s = show_able ''WPS Mode: '' (apCfgWpsModeGet 0) s"

definition WpsModeCliCmdDisable :: "'a cmd" where
  "WpsModeCliCmdDisable s = put_then (apCfgWpsModeSet 0 0) (reply ''WPS Mode: disabled'') s"

definition WpsModeCliCmdEnable :: "'a cmd" where
  "WpsModeCliCmdEnable s = put_then (apCfgWpsModeSet 0 1) (reply ''WPS Mode: enabled'') s"

definition WpsPinERCliCmdGet :: "'a cmd" where
  "WpsPinERCliCmdGet s = show_able ''WPS PIN External Registrar: '' (apCfgWpsPinERGet 0) s"

definition WpsPinERCliCmdDisable :: "'a cmd" where
  "WpsPinERCliCmdDisable s = put_then (apCfgWpsPinERSet 0 0) (reply ''WPS PIN External Registrar: disabled'') s"

definition WpsPinERCliCmdEnable :: "'a cmd" where
  "WpsPinERCliCmdEnable s = put_then (apCfgWpsPinERSet 0 1) (reply ''WPS PIN External Registrar: enabled'') s"

definition force100mModeCliCmdGet :: "'a cmd" where
  "force100mModeCliCmdGet s = show_able ''Force LAN Port Speed to 100M: '' apCfgForce100mGet s"

definition force100mModeCliCmdDisable :: "'a cmd" where
  "force100mModeCliCmdDisable s = put_then (apCfgForce100mSet 0) (reply ''Force LAN Port Speed to 100M: disabled'') s"

definition force100mModeCliCmdEnable :: "'a cmd" where
  "force100mModeCliCmdEnable s = put_then (apCfgForce100mSet 1) (reply ''Force LAN Port Speed to 100M: enabled'') s"

definition httpRDModeCliCmdGet :: "'a cmd" where
  "httpRDModeCliCmdGet s = show_able ''HTTP Redirect Mode: '' apCfgRedirectModeGet s"

definition httpRDModeCliCmdDisable :: "'a cmd" where
  "httpRDModeCliCmdDisable s = put_then (apCfgRedirectModeSet 0) (reply ''HTTP Redirect Mode: disabled'') s"

definition httpRDModeCliCmdEnable :: "'a cmd" where
  "httpRDModeCliCmdEnable s = put_then (apCfgRedirectModeSet 1) (reply ''HTTP Redirect Mode: enabled'') s"

definition httpURLCliCmdGet :: "'a cmd" where
  "httpURLCliCmdGet s = show_str ''HTTP Redirect URL: '' apCfgRedirectUrlGet s"

definition httpURLCliCmdSet :: "'a cmd" where
  "httpURLCliCmdSet s = first_word (\<lambda>p s. do {
       buf \<leftarrow> into_buf 128 p;
       if take 5 p = ''https'' then refuse ''https can not support by http Redirect.'' s
       else do {
         ok \<leftarrow> scValidUrl p;
         if \<not>  ok then refuse ''HTTP Redirect URL is invalid.'' s
         else put_checked (apCfgRedirectUrlSet buf) ''HTTP Redirect URL is invalid.'' (show_str ''HTTP Redirect URL: '' apCfgRedirectUrlGet) s
       }
     }) s"

definition wlanAccessModeCliCmdGet :: "'a cmd" where
  "wlanAccessModeCliCmdGet s = show_able ''Wireless Web Access Mode: '' apCfgWlanAccessGet s"

definition wlanAccessModeCliCmdDisable :: "'a cmd" where
  "wlanAccessModeCliCmdDisable s = put_then (apCfgWlanAccessSet 0) (reply ''Wireless Web Access: disabled'') s"

definition wlanAccessModeCliCmdEnable :: "'a cmd" where
  "wlanAccessModeCliCmdEnable s = put_then (apCfgWlanAccessSet 1) (reply ''Wireless Web Access: enabled'') s"

definition sshModeCliCmdGet :: "'a cmd" where
  "sshModeCliCmdGet s = show_able ''SSH Mode: '' apCfgSSHGet s"

definition sshModeCliCmdDisable :: "'a cmd" where
  "sshModeCliCmdDisable s = put_then (apCfgSSHSet 0) (reply ''SSH: disabled'') s"

definition sshModeCliCmdEnable :: "'a cmd" where
  "sshModeCliCmdEnable s = put_then (apCfgSSHSet 1) (reply ''SSH: enabled'') s"

definition aclLocalModeCliCmdGet :: "'a cmd" where
  "aclLocalModeCliCmdGet s = show_if ''Access Control Local Mode: '' (apCfgAclTypeGet (cli_unit s) (cli_vap s)) ''Prevent'' ''Allow'' s"

definition aclLocalModeCliCmdAllow :: "'a cmd" where
  "aclLocalModeCliCmdAllow s = put_then (apCfgAclTypeSet (cli_unit s) (cli_vap s) 0) (reply ''Access Control Local Mode: Allow'') s"

definition aclLocalModeCliCmdPrevent :: "'a cmd" where
  "aclLocalModeCliCmdPrevent s = put_then (apCfgAclTypeSet (cli_unit s) (cli_vap s) 1) (reply ''Access Control Local Mode: Prevent'') s"

definition ctsProtectModeCliCmdGet :: "'a cmd" where
  "ctsProtectModeCliCmdGet s = show_able ''CTS Protection Mode: '' (apCfgCTSModeGet (cli_unit s)) s"

definition ctsProtectModeCliCmdDisable :: "'a cmd" where
  "ctsProtectModeCliCmdDisable s = put_then (apCfgCTSModeSet (cli_unit s) 0) (reply ''CTS Protection: disabled'') s"

definition ctsProtectModeCliCmdAuto :: "'a cmd" where
  "ctsProtectModeCliCmdAuto s = put_then (apCfgCTSModeSet (cli_unit s) 1) (reply ''CTS Protection: Auto'') s"

subsection \<open>Load balance\<close>

text \<open>\<open>"%.2f"\<close> of a hundredth, and \<open>(int) atof (value)\<close>: blanks, a sign, digits, a fraction and an exponent, cut off towards zero.
  The rounding of a fraction of more than fifteen digits to a \<open>double\<close> is not modelled, and neither are infinities, hexadecimal
  numbers and values that an \<open>int\<close> cannot hold: no result.\<close>

definition fmt_2f :: "int \<Rightarrow> cstr" where
  "fmt_2f b = (if b < 0 then ''-'' else []) @ fmt_d (\<bar>b\<bar> div 100) @ ''.'' @ fmt_02d (\<bar>b\<bar> mod 100)"

definition exponent :: "cstr \<Rightarrow> int" where
  "exponent r =
     (case r of
        e # r \<Rightarrow>
          if c_tolower e \<noteq> CHR ''e'' then 0
          else (case r of
              c # d \<Rightarrow> if c = CHR ''-'' then - int (digits_val 0 (takeWhile c_isdigit d))
                else if c = CHR ''+'' then int (digits_val 0 (takeWhile c_isdigit d)) else int (digits_val 0 (takeWhile c_isdigit r))
            | [] \<Rightarrow> 0)
      | [] \<Rightarrow> 0)"

definition atof_int :: "cstr \<Rightarrow> int option" where
  "atof_int p =
     (let q = dropWhile c_isspace p;
          (neg, d) = (case q of c # cs \<Rightarrow> if c = CHR ''-'' then (True, cs) else if c = CHR ''+'' then (False, cs) else (False, q) | [] \<Rightarrow> (False, q));
          i = takeWhile c_isdigit d;
          r = dropWhile c_isdigit d;
          (f, r) = (if take 1 r = ''.'' then (takeWhile c_isdigit (tl r), dropWhile c_isdigit (tl r)) else ([], r));
          e = (if i @ f = [] then 0 else exponent r) - int (length f);
          m = int (digits_val 0 (i @ f));
          v = (if 0 \<le> e then m * 10 ^ nat e else m div 10 ^ nat (- e)) in
      if begins ''inf'' d \<or> begins ''nan'' d \<or> begins ''0x'' d \<or> \<not> int_range v then None else Some (if neg then - v else v))"

definition loadBalanceModeCliCmdGet :: "'a cmd" where
  "loadBalanceModeCliCmdGet s = show_able ''Load Balancing Mode: '' (apCfgBalanceModeGet (cli_unit s)) s"

definition loadBalanceModeCliCmdDisable :: "'a cmd" where
  "loadBalanceModeCliCmdDisable s = put_then (apCfgBalanceModeSet (cli_unit s) 0) (reply ''Load Balancing: disabled'') s"

definition loadBalanceModeCliCmdEnable :: "'a cmd" where
  "loadBalanceModeCliCmdEnable s = put_then (apCfgBalanceModeSet (cli_unit s) 1) (reply ''Load Balancing: enabled'') s"

definition loadBalanceSSIDCliCmdGet :: "'a cmd" where
  "loadBalanceSSIDCliCmdGet s = do {
     (b, s) \<leftarrow> apCfgLoadBalanceGet (cli_unit s) (cli_vap s) s;
     reply (''Load Balancing SSID '' @ fmt_d (cli_vap s) @ '': '' @ fmt_2f b @ ''%'') s
   }"

definition loadBalanceSSIDCliCmdSet :: "'a cmd" where
  "loadBalanceSSIDCliCmdSet s = (if sccli_tokenCount s \<noteq> 1 then refuse ''Invalid Input'' s
     else pop_then (\<lambda>p s. do {
       a \<leftarrow> atof_int p;
       let v = a * 100;
       if \<not>  int_range v then None
       else if v < 0 \<or> 10000 < v then refuse ''Load Balancing 0% ~ 100%'' s
       else do {
         (_, s) \<leftarrow> apCfgLoadBalanceSet (cli_unit s) (cli_vap s) v s;
         (b, s) \<leftarrow> apCfgLoadBalanceGet (cli_unit s) (cli_vap s) s;
         reply (''Set Load Balancing SSID '' @ fmt_d (cli_vap s) @ '': '' @ fmt_2f b @ ''%: '') s
       }
     }) s)"

subsection \<open>VLANs\<close>

text \<open>A VLAN that applies to all access points: the list of VLANs is computed anew.\<close>

definition set_vlan_num :: "cstr \<Rightarrow> cstr \<Rightarrow> (int \<Rightarrow> 'a wr) \<Rightarrow> (int, 'a) rd \<Rightarrow> 'a cmd" where
  "set_vlan_num l shown set_id get = with_num (\<lambda>v s.
     if v < VLAN_TAG_MIN \<or> VLAN_TAG_MAX < v then refuse (''range of '' @ l @ '' 1 ~ 4094'') s
     else put_then (set_id v) (\<lambda>s. put_then (apCfgVlanListApply (cli_unit s)) (show_int shown get []) s) s)
     (refuse ''Invalid Vlan'')"

definition magvlanCliCmdGet :: "'a cmd" where
  "magvlanCliCmdGet s = show_int ''AP Management VLAN: '' apCfgManagementVlanIdGet [] s"

definition magvlanCliCmdSet :: "'a cmd" where
  "magvlanCliCmdSet s = set_vlan_num ''AP Management VLAN'' ''Set AP Management VLAN: '' apCfgManagementVlanIdSet apCfgManagementVlanIdGet s"

definition defaultvlanCliCmdGet :: "'a cmd" where
  "defaultvlanCliCmdGet s = show_int ''Default VLAN: '' apCfgNativeVlanIdGet [] s"

definition defaultvlanCliCmdSet :: "'a cmd" where
  "defaultvlanCliCmdSet s = set_vlan_num ''Default VLAN'' ''Set Default VLAN: '' apCfgNativeVlanIdSet apCfgNativeVlanIdGet s"

definition vlanTagModeCliCmdGet :: "'a cmd" where
  "vlanTagModeCliCmdGet s = show_if ''Vlan Tag Mode: '' apCfgNativeVlanTagGet ''Tagged'' ''Untagged'' s"

definition vlanTagModeCliCmdDisable :: "'a cmd" where
  "vlanTagModeCliCmdDisable s = put_then (apCfgNativeVlanTagSet 0) (reply ''Vlan Tag: Untagged'') s"

definition vlanTagModeCliCmdEnable :: "'a cmd" where
  "vlanTagModeCliCmdEnable s = put_then (apCfgNativeVlanTagSet 1) (reply ''Vlan Tag: Tagged'') s"

definition vlanWDSTagModeCliCmdGet :: "'a cmd" where
  "vlanWDSTagModeCliCmdGet s = show_able ''VLAN Tag over WDS Mode: '' apCfgWdsVlanTagGet s"

definition vlanWDSTagModeCliCmdDisable :: "'a cmd" where
  "vlanWDSTagModeCliCmdDisable s = put_then (apCfgWdsVlanTagSet 0) (reply ''VLAN Tag over WDS: disabled'') s"

definition vlanWDSTagModeCliCmdEnable :: "'a cmd" where
  "vlanWDSTagModeCliCmdEnable s = put_then (apCfgWdsVlanTagSet 1) (reply ''VLAN Tag over WDS: enabled'') s"

definition priorityCliCmdGet :: "'a cmd" where
  "priorityCliCmdGet s = show_int ''Priority: '' (apCfgPriorityGet (cli_unit s) (cli_vap s)) [] s"

definition priorityCliCmdSet :: "'a cmd" where
  "priorityCliCmdSet s = with_num (%v s.
       if v < 0 \<or> 7 < v then refuse ''range of Priority 0 ~ 7'' s
       else put_then (apCfgPrioritySet (cli_unit s) (cli_vap s) v) (show_int ''Set Priority: '' (apCfgPriorityGet (cli_unit s) (cli_vap s)) []) s)
     (refuse ''Invalid Priority'') s"

definition vlanModeCliCmdGet :: "'a cmd" where
  "vlanModeCliCmdGet s = show_able ''VLAN Operational State: '' apCfgVlanModeGet s"

definition vlanModeCliCmdDisable :: "'a cmd" where
  "vlanModeCliCmdDisable s = put_then (apCfgVlanModeSet 0) (reply ''VLAN Operational State: disabled'') s"

definition vlanModeCliCmdEnable :: "'a cmd" where
  "vlanModeCliCmdEnable s = put_then (apCfgVlanModeSet 1) (reply ''VLAN Operational State: enabled'') s"

definition nativeVlanIdCliCmdGet :: "'a cmd" where
  "nativeVlanIdCliCmdGet s = show_int ''Native VLAN ID: '' apCfgManagementVlanIdGet [] s"

definition nativeVlanIdCliCmdSet :: "'a cmd" where
  "nativeVlanIdCliCmdSet s = with_num (\<lambda>v. put_warn (apCfgManagementVlanIdSet v) ''Unable to set the VLAN ID.'' (show_int ''Native VLAN ID: '' apCfgManagementVlanIdGet [])) error s"

definition wdsVlanListCliCmdGet :: "'a cmd" where
  "wdsVlanListCliCmdGet s = show_str ''WDS VLAN List: '' apCfgwdsVlanListGet s"

definition wdsVlanListCliCmdSet :: "'a cmd" where
  "wdsVlanListCliCmdSet s = (if sccli_tokenCount s = 0 then put_then (apCfgwdsVlanListSet []) (reply ''Cleanup WDS VLAN List!'') s
     else pop_then (%p s.
       if 21 \<le> length p then error s
       else do {
         ok \<leftarrow> scValidwdsVlanList p;
         if \<not>  ok then refuse ''Invalid WDS VLAN List! '' s
         else do {
           (rc, s) \<leftarrow> apCfgwdsVlanListSet p s;
           reply (if rc \<noteq> A_OK then ''Error happened when setting WDS VLAN List!'' else ''Set WDS VLAN List: '' @ p) s
         }
       }) s)"

definition vlanPvidCliCmdGet :: "'a cmd" where
  "vlanPvidCliCmdGet s = show_int ''VLAN ID: '' (apCfgVlanPvidGet (cli_unit s) (cli_vap s)) [] s"

definition vlanPvidCliCmdSet :: "'a cmd" where
  "vlanPvidCliCmdSet s = with_num (%v s.
       if v < VLAN_TAG_MIN \<or> VLAN_TAG_MAX < v then refuse ''range of vap VLAN 1 ~ 4094'' s
       else put_checked (apCfgVlanPvidSet (cli_unit s) (cli_vap s) v) ''Unable to set the VLAN Id.''
         (put_then (apCfgVlanListApply (cli_unit s)) (show_int ''VLAN Id: '' (apCfgVlanPvidGet (cli_unit s) (cli_vap s)) [])) s) error s"

subsection \<open>The 802.1x supplicant\<close>

definition dot1xSuppCliCmdGet :: "'a cmd" where
  "dot1xSuppCliCmdGet s = show_able ''802.1x MD5 Supplicant: '' scApCfgDot1xSuppEnableGet s"

definition dot1xSuppCliCmdDisable :: "'a cmd" where
  "dot1xSuppCliCmdDisable s = put_then (scApCfgDot1xSuppEnableSet 0) (show_able ''802.1x MD5 Supplicant: '' scApCfgDot1xSuppEnableGet) s"

definition dot1xSuppCliCmdEnable :: "'a cmd" where
  "dot1xSuppCliCmdEnable s = put_then (scApCfgDot1xSuppEnableSet 1) (show_able ''802.1x MD5 Supplicant: '' scApCfgDot1xSuppEnableGet) s"

definition dot1xSuppTypeCliCmdGet :: "'a cmd" where
  "dot1xSuppTypeCliCmdGet s = show_if ''802.1x MD5 Supplicant Type: '' scApCfgDot1xSuppMacEnableGet ''mac'' ''user'' s"

definition dot1xSuppTypeCliCmdUser :: "'a cmd" where
  "dot1xSuppTypeCliCmdUser s = put_then (scApCfgDot1xSuppMacEnableSet 0) (reply ''802.1x MD5 Supplicant Type: user'') s"

definition dot1xSuppTypeCliCmdMac :: "'a cmd" where
  "dot1xSuppTypeCliCmdMac s = put_then (scApCfgDot1xSuppMacEnableSet 1) (reply ''802.1x MD5 Supplicant Type: mac'') s"

definition dot1xSuppUserCliCmdGet :: "'a cmd" where
  "dot1xSuppUserCliCmdGet s = show_str ''802.1x Supplicant MD5 Name: '' scApCfgDot1xSuppUsernameGet s"

definition dot1xSuppUserCliCmdSet :: "'a cmd" where
  "dot1xSuppUserCliCmdSet s = one_word (\<lambda>p. put_warn (scApCfgDot1xSuppUsernameSet p) ''802.1x Supplicant MD5 Name is too long''
       (show_str ''802.1x Supplicant MD5 Name: '' scApCfgDot1xSuppUsernameGet)) s"

definition dot1xSuppPassCliCmdGet :: "'a cmd" where
  "dot1xSuppPassCliCmdGet s = show_str ''802.1x Supplicant MD5 Password: '' scApCfgDot1xSuppPasswordGet s"

definition dot1xSuppPassCliCmdSet :: "'a cmd" where
  "dot1xSuppPassCliCmdSet s = (if sccli_tokenCount s = 0
       then put_then (scApCfgDot1xSuppPasswordSet []) (show_str ''802.1x Supplicant MD5 Password: '' scApCfgDot1xSuppPasswordGet) s
     else one_word (\<lambda>p. put_warn (scApCfgDot1xSuppPasswordSet p) ''802.1x Supplicant MD5 Password is too long''
       (show_str ''802.1x Supplicant MD5 Password: '' scApCfgDot1xSuppPasswordGet)) s)"

end
