(* ===== verification/Cli_Wlan.thy ===== *)
theory Cli_Wlan
  imports Cli_Net
begin

text \<open>
  Handlers of \<open>linksysCli.c\<close> for the wireless and operation modes, the remote access points, the channel, the radio's thresholds,
  generated PINs and keys, the name of the network, and the Ethernet port.
\<close>

subsection \<open>Modes\<close>

text \<open>The frequencies are read once for each comparison, and not at all when the radio is off.\<close>

definition wirelessModeCliCmdGet :: "'a cmd" where
  "wirelessModeCliCmdGet s = do {
     (on, s) \<leftarrow> apCfgWlanStateGet (cli_unit s) s;
     if on = 0 then reply ''Wireless Mode: Disabled'' s
     else show_str ''Wireless Mode: '' (first_of (apCfgFreqSpecGet (cli_unit s))
       [(MODE_SELECT_11G, ''11ng''), (MODE_SELECT_11B, ''11b''), (MODE_SELECT_11BG, ''11bg''), (MODE_SELECT_11N, ''11n'')] ''11nbg'') s
   }"

definition wirelessModeCliCmdDisable :: "'a cmd" where
  "wirelessModeCliCmdDisable s = put_then (apCfgWlanStateSet (cli_unit s) 0) (reply ''Wireless Mode: Disabled'') s"

definition wireless_mode :: "int \<Rightarrow> cstr \<Rightarrow> 'a cmd" where
  "wireless_mode m t s = put_then (apCfgWlanStateSet (cli_unit s) 1) (\<lambda>s. put_then (apCfgFreqSpecSet (cli_unit s) m) (reply (''Wireless Mode: '' @ t)) s) s"

definition wirelessModeCliCmd11bgn :: "'a cmd" where
  "wirelessModeCliCmd11bgn s = wireless_mode MODE_SELECT_11NG ''11nbg'' s"

definition wirelessModeCliCmd11n :: "'a cmd" where
  "wirelessModeCliCmd11n s = wireless_mode MODE_SELECT_11N ''11n'' s"

definition wirelessModeCliCmd11b :: "'a cmd" where
  "wirelessModeCliCmd11b s = wireless_mode MODE_SELECT_11B ''11b'' s"

definition wirelessModeCliCmd11g :: "'a cmd" where
  "wirelessModeCliCmd11g s = wireless_mode MODE_SELECT_11G ''11g'' s"

definition wirelessModeCliCmd11bg :: "'a cmd" where
  "wirelessModeCliCmd11bg s = wireless_mode MODE_SELECT_11BG ''11bg'' s"

definition opModeCliCmdGet :: "'a cmd" where
  "opModeCliCmdGet s = show_str ''Operation Mode: '' (first_of (apCfgOpModeGet (cli_unit s))
       [(CFG_OP_MODE_AP, ''Access Point''), (CFG_OP_MODE_PPT, ''Bridge(Point-to-Point)''), (CFG_OP_MODE_MPT, ''Wireless WDS Bridge.''),
        (CFG_OP_MODE_AP_PTP, ''Wireless WDS Repeater.''), (CFG_OP_MODE_AP_PTMP, ''Wireless signal repeater.''),
        (CFG_OP_MODE_UC, ''Bridge(Unversal Client)''), (CFG_OP_MODE_UR, ''Bridge(Unversal Repeater)'')] ''Rogue AP'') s"

definition opModeCliCmdAp :: "'a cmd" where
  "opModeCliCmdAp s = put_then (apCfgOpModeSet (cli_unit s) CFG_OP_MODE_AP) (reply ''Operating as Access Point'') s"

definition opModeCliCmdMpt :: "'a cmd" where
  "opModeCliCmdMpt s = put_then (apCfgOpModeSet (cli_unit s) CFG_OP_MODE_MPT) (reply ''Operating as Wireless WDS Bridge.'') s"

definition opModeCliCmdApPtp :: "'a cmd" where
  "opModeCliCmdApPtp s = put_then (apCfgOpModeSet (cli_unit s) CFG_OP_MODE_AP_PTP) (reply ''Operating as Wireless WDS Repeater.'') s"

definition opModeCliCmdApPtmp :: "'a cmd" where
  "opModeCliCmdApPtmp s = put_then (apCfgOpModeSet (cli_unit s) CFG_OP_MODE_AP_PTMP) (reply ''Operating as Wireless signal repeater.'') s"

subsection \<open>Remote access points\<close>

definition remotePtpMacAddrCliCmdGet :: "'a cmd" where
  "remotePtpMacAddrCliCmdGet s = do {
     (m, s) \<leftarrow> apCfgOpModeGet (cli_unit s) s;
     if m \<noteq> CFG_OP_MODE_AP_PTP then refuse ''Operation mode must WDS repeater.'' s
     else show_str ''Remote AP MAC Address: '' (apCfgRemoteApMacAddrGet (cli_unit s)) s
   }"

text \<open>An address as it is accepted for a remote access point, with colons.\<close>

definition remote_mac :: "cstr \<Rightarrow> cstr option option" where
  "remote_mac p = do {
     m \<leftarrow> mac_digits p;
     (case m of
        None \<Rightarrow> Some None
      | Some m \<Rightarrow> if \<not> unicast_digit m then Some None else map_option Some (scMacStr12ToStr17 m (CHR '':'')))
   }"

definition remotePtpMacAddrCliCmdSet :: "'a cmd" where
  "remotePtpMacAddrCliCmdSet s = do {
     (m, s) \<leftarrow> apCfgOpModeGet (cli_unit s) s;
     if m \<noteq> CFG_OP_MODE_AP_PTP then refuse ''Operation mode must WDS repeater.'' s
     else if sccli_tokenCount s \<noteq> 1 then refuse ''Invalid Input'' s
     else pop_then (\<lambda>p s. do {
       m \<leftarrow> remote_mac p;
       (case m of
          None \<Rightarrow> refuse ''Invalid Input'' s
        | Some m \<Rightarrow> put_checked (apCfgRemoteApMacAddrSet (cli_unit s) m) ''Invalid Input'' (reply (''Remote AP MAC Address: '' @ m)) s)
     }) s
   }"

definition max_remote :: "int \<Rightarrow> (int, 'a) rd" where
  "max_remote unit = first_of (apCfgOpModeGet unit) [(CFG_OP_MODE_MPT, 4), (CFG_OP_MODE_AP_PTMP, 3)] 0"

fun list_remote :: "nat list \<Rightarrow> 'a cmd" where
  "list_remote [] s = Some (CLI_PARSE_OK, s)"
| "list_remote (i # is) s = do {
     (m, s) \<leftarrow> apCfgRemoteWbrMacAddrGet (cli_unit s) i s;
     list_remote is (say (TAB # fmt_d (int i + 1) @ TAB # m) s)
   }"

definition remotePtmpMacListCliCmdGet :: "'a cmd" where
  "remotePtmpMacListCliCmdGet s = do {
     (n, s) \<leftarrow> max_remote (cli_unit s) s;
     if n = 0 then refuse ''Operation Mode must be Bridge mode or Wireless signal repeater..'' s
     else list_remote [0..<nat n] (say ''Bridge's Remote Mac Address List: '' s)
   }"

text \<open>The entry named by the token is looked for from the chosen one on. The condition on the index is as in the code, where it
  never holds: an index may be larger than the mode allows.\<close>

definition remotePtmpMacListCliCmdSet :: "cstr \<Rightarrow> 'a cmd" where
  "remotePtmpMacListCliCmdSet pToken s = (case (if sccli_tokenCount s = 1 then dropWhile (\<lambda>e. pCmd e \<noteq> pToken) (sccli_tokenCurTblGet s) else []) of
       [] \<Rightarrow> refuse ''Invalid Remote Mac Address'' s
     | _ \<Rightarrow> do {
         (maxMAC, s) \<leftarrow> max_remote (cli_unit s) s;
         let index = atoi pToken - 1;
         if index < 0 \<and> maxMAC \<le> index then error s
         else pop_then (\<lambda>p s. do {
           m \<leftarrow> remote_mac p;
           (case m of
              None \<Rightarrow> refuse ''Invalid Input'' s
            | Some m \<Rightarrow> put_checked (apCfgRemoteWbrMacAddrSet (cli_unit s) (nat index) m) ''Invalid Remote Mac Address'' (reply (''Remote MAC Address: '' @ m)) s)
         }) s
       })"

subsection \<open>The channel\<close>

text \<open>\<open>while (!feof (fp)) { buffer[0] = 0; fgets (buffer, 31, fp); }\<close>: the buffer at the end, which is empty when the file ends
  with a newline.\<close>

function last_read :: "bytes \<Rightarrow> cstr" where
  "last_read b =
     (if b = [] then []
      else let (l, r) = c_fgets 30 b in if length l < 30 \<and> last l \<noteq> NL then c_read l else last_read r)"
  by pat_completeness auto
termination by (relation "measure length") (auto dest: c_fgets_shorter)

declare last_read.simps [simp del]

definition chanCliCmdGet :: "'a cmd" where
  "chanCliCmdGet s = do {
     (a, s) \<leftarrow> apCfgAutoChannelGet (cli_unit s) s;
     if a = 1 then do {
       b \<leftarrow> files s ''/tmp/chan_curr'';
       let n = atoi (last_read b);
       reply (if n = 0 then ''Channel: (Automatic)'' else ''Channel: '' @ fmt_d n @ '' (Automatic)'') s
     }
     else show_int ''Channel: '' (apCfgRadioChannelGet (cli_unit s)) [] s
   }"

text \<open>The number in the line in front of \<open>current:\<close>; without such a line that of the last line, or 0 behind a last newline.\<close>

function cli_max_channel :: "bytes \<Rightarrow> int \<Rightarrow> int" where
  "cli_max_channel b n =
     (if b = [] then 0
      else let (l, r) = c_fgets 30 b in
        if c_read l = ''current:'' @ [NL] then n
        else if length l < 30 \<and> last l \<noteq> NL then atoi (c_read l)
        else cli_max_channel r (atoi (c_read l)))"
  by pat_completeness auto
termination by (relation "measure (length o fst)") (auto dest: c_fgets_shorter)

declare cli_max_channel.simps [simp del]

definition chanCliCmdSet :: "'a cmd" where
  "chanCliCmdSet s = do {
     b \<leftarrow> files s ''/tmp/chan_list'';
     let Max_channel = cli_max_channel b 0;
     let bad = ''The valid channel: 0~'' @ fmt_d Max_channel @ '' (0 means Automatic)'';
     with_num (%v s.
       if v < 0 \<or> Max_channel < v then refuse bad s
       else do {
         (rc, s) \<leftarrow> (if v \<noteq> 0 then do { (_, s) \<leftarrow> apCfgAutoChannelSet (cli_unit s) 0 s; apCfgRadioChannelSet (cli_unit s) v s } else apCfgAutoChannelSet (cli_unit s) 1 s);
         let s = (if rc \<noteq> A_OK then say (''Invalid Channel: '' @ fmt_d v) s else s);
         if v = 0 then reply ''Channel: (Automatic)'' s else show_int ''Channel: '' (apCfgRadioChannelGet (cli_unit s)) [] s
       }) (refuse bad) s
   }"

definition sepCliCmdGet :: "'a cmd" where
  "sepCliCmdGet s = show_able ''Wireless Isolation(within SSID): '' (apCfgIntraVapForwardingGet (cli_unit s) (cli_vap s)) s"

definition sepCliCmdEnable :: "'a cmd" where
  "sepCliCmdEnable s = put_then (apCfgIntraVapForwardingSet (cli_unit s) (cli_vap s) 1) (reply ''Wireless Isolation(within SSID): enabled'') s"

definition sepCliCmdDisable :: "'a cmd" where
  "sepCliCmdDisable s = put_then (apCfgIntraVapForwardingSet (cli_unit s) (cli_vap s) 0) (reply ''Wireless Isolation(within SSID): disabled'') s"

definition wmeCliCmdGet :: "'a cmd" where
  "wmeCliCmdGet s = show_able ''WMM Mode: '' (apCfgWmeGet (cli_unit s) (cli_vap s)) s"

definition wmeCliCmdDisable :: "'a cmd" where
  "wmeCliCmdDisable s = put_then (apCfgWmeSet (cli_unit s) (cli_vap s) 0) (reply ''WMM: disabled'') s"

definition wmeCliCmdEnable :: "'a cmd" where
  "wmeCliCmdEnable s = put_then (apCfgWmeSet (cli_unit s) (cli_vap s) 1) (reply ''WMM: enabled'') s"

definition wmmpsCliCmdGet :: "'a cmd" where
  "wmmpsCliCmdGet s = show_able ''WMM PowerSaving Mode: '' (apCfgWmmpsGet (cli_unit s) (cli_vap s)) s"

definition wmmpsCliCmdDisable :: "'a cmd" where
  "wmmpsCliCmdDisable s = put_then (apCfgWmmpsSet (cli_unit s) (cli_vap s) 0) (reply ''WMM PowerSaving: disabled'') s"

definition wmmpsCliCmdEnable :: "'a cmd" where
  "wmmpsCliCmdEnable s = put_then (apCfgWmmpsSet (cli_unit s) (cli_vap s) 1) (reply ''WMM PowerSaving: enabled'') s"

definition outPowerCliCmdGet :: "'a cmd" where
  "outPowerCliCmdGet s = do {
     (i, s) \<leftarrow> apCfgPowerGet 0 s;
     reply (''Out Power: '' @ fmt_d ([100, 79, 63, 50, 40, 32, 25, 20, 16, 13, 10, 8, 6, 5, 4, 3, 3, 2, 2, 1, 1] ! (if i < 0 \<or> 20 < i then 0 else nat i)) @ ''%'') s
   }"

subsection \<open>Firmware, factory settings, and generated secrets\<close>

definition tftp_usage :: "'a cmd" where
  "tftp_usage s = refuse ''    Upload/Download Config: TFTP [serverip/name] [filename] [up/down]''
     (say ''    Upgrade Firmware:       TFTP [serverip/name] [filename]'' (say ''USEAGE For TFTP '' s))"

text \<open>The words go into the command line of the shell as they are.\<close>

definition tftpCmdHandler :: "'a cmd" where
  "tftpCmdHandler s = (if sccli_tokenCount s < 2 then tftp_usage s
     else pop_then (\<lambda>hostname. pop_then (%filename s.
       if 32 < length hostname then refuse ''serverip/name string is too long.'' s
       else if 32 < length filename then refuse ''filename string is too long.'' s
       else if sccli_tokenCount s = 1 then
         pop_then (%action s.
           if action = ''up'' \<or> action = ''down''
           then Some (CLI_PARSE_OK, SYSTEM (''tftp_cmd '' @ hostname @ '' '' @ filename @ '' '' @ action) s)
           else error s) s
       else if sccli_tokenCount s = 0 then Some (CLI_PARSE_OK, SYSTEM (''tftp_cmd '' @ hostname @ '' '' @ filename) s)
       else tftp_usage s)) s)"

definition factoryCmdHandler :: "'a cmd" where
  "factoryCmdHandler s = do { (_, s) \<leftarrow> apCfgFactoryRestore s; Some (CLI_PARSE_OK, COMMAND ''reboot&'' (apcfg_submit s)) }"

text \<open>Seven random digits and the one that makes the checksum right. Without \<open>/dev/urandom\<close> the text stays empty; bytes that
  were not read are not initialised.\<close>

definition pin_check :: "nat list \<Rightarrow> nat" where
  "pin_check d = (10 - (3 * (d ! 0) + d ! 1 + 3 * (d ! 2) + d ! 3 + 3 * (d ! 4) + d ! 5 + 3 * (d ! 6)) mod 10) mod 10"

definition generate_pin :: "bytes option \<Rightarrow> cstr option" where
  "generate_pin rnd =
     (case rnd of
        None \<Rightarrow> Some []
      | Some b \<Rightarrow>
          if length b < 7 then None
          else (let d = map (\<lambda>c. code c mod 10) (take 7 b) in Some (map digit_char (d @ [pin_check d]))))"

definition genWpsPinCmdHandler :: "'a cmd" where
  "genWpsPinCmdHandler s = do {
     p \<leftarrow> generate_pin (urandom s);
     reply ''You may use 'set wps_pin' to assign it into device.'' (say (''PIN Code: '' @ p) s)
   }"

definition get_random_num :: "bytes option \<Rightarrow> nat \<Rightarrow> nat \<Rightarrow> nat list option" where
  "get_random_num rnd num char_len =
     (case rnd of
        None \<Rightarrow> Some (replicate num 0)
      | Some b \<Rightarrow> if length b < num then None else Some (map (\<lambda>c. code c mod (char_len - 1)) (take num b)))"

definition char_list :: cstr where
  "char_list = CHR 0x60 # ''1234567890-=~!@#$%^&*()_+qwertyuiop[]{}|asdfghjkl;'' @ [CHR 0x27] @ '':zxcvbnm,./<>?''"

text \<open>64 digits stand for 32 bytes, each the code of a character of the list.\<close>

definition psk_text :: "bool \<Rightarrow> nat list \<Rightarrow> cstr" where
  "psk_text hex rs =
     (let cs = map (\<lambda>r. char_list ! r) rs in
      if hex then concat (map (\<lambda>c. [hex_char True (code c div 16), hex_char True (code c mod 16)]) cs) else cs)"

definition genWpaPskCmdHandler :: "'a cmd" where
  "genWpaPskCmdHandler s = (case sccli_tokenPopNum s of
       ((CLI_PARSE_OK, Some v), s) \<Rightarrow>
         if v < 8 \<or> 64 < v then reply ''Invalid PSK length, valid rang is from 8 to 64.'' s
         else do {
           rs \<leftarrow> get_random_num (urandom s) (if v = 64 then 32 else nat v) (length char_list);
           reply ''You may use 'set psk' to assign it into VAPs.'' (say (''New PSK: '' @ psk_text (v = 64) rs) s)
         }
     | (_, s) \<Rightarrow> reply ''Usage: gen_wpa_psk <key length>.'' s)"

subsection \<open>Thresholds\<close>

definition fragCliCmdGet :: "'a cmd" where
  "fragCliCmdGet s = show_int ''Fragmentation Length: '' (apCfgFragThresholdGet (cli_unit s)) [] s"

text \<open>The result is \<open>CLI_PARSE_ERROR\<close> in any case.\<close>

definition fragCliCmdSet :: "'a cmd" where
  "fragCliCmdSet s = with_num (\<lambda>v s. do {
       (rc, s) \<leftarrow> apCfgFragThresholdSet (cli_unit s) v s;
       let s = (if rc \<noteq> A_OK then say (''Invalid Fragmentation Threshold: '' @ fmt_d v @ '' (must be between 256 and 2346)'') s else s);
       (w, s) \<leftarrow> apCfgFragThresholdGet (cli_unit s) s;
       refuse (''Fragmentation Length: '' @ fmt_d w) s
     }) error s"

definition beaconCliCmdGet :: "'a cmd" where
  "beaconCliCmdGet s = show_int ''Beacon Interval: '' (apCfgBeaconIntervalGet (cli_unit s)) [] s"

definition beaconCliCmdSet :: "'a cmd" where
  "beaconCliCmdSet s = with_num (\<lambda>v. put_warn (apCfgBeaconIntervalSet (cli_unit s) v) (''Invalid Beacon Interval: '' @ fmt_d v) (show_int ''Beacon Interval: '' (apCfgBeaconIntervalGet (cli_unit s)) [])) error s"

definition rtsCliCmdGet :: "'a cmd" where
  "rtsCliCmdGet s = show_int ''RTS Threshold: '' (apCfgRtsThresholdGet (cli_unit s)) [] s"

text \<open>The message prints \<open>v\<close>, which is not initialised without a token.\<close>

definition rtsCliCmdSet :: "'a cmd" where
  "rtsCliCmdSet s = (case sccli_tokenPopNum s of
       ((rc, v), s) \<Rightarrow>
         if rc = CLI_PARSE_OK \<and> sccli_tokenCount s = 0 then do {
           v \<leftarrow> v;
           put_checked (apCfgRtsThresholdSet (cli_unit s) v) (''Invalid RTS Threshold '' @ fmt_d v) (show_int ''RTS Threshold: '' (apCfgRtsThresholdGet (cli_unit s)) []) s
         }
         else do { v \<leftarrow> v; refuse (''Invalid RTS Threshold '' @ fmt_d v) s })"

definition shortPreambleCliCmdGet :: "'a cmd" where
  "shortPreambleCliCmdGet s = show_able ''Short Preamble: '' (apCfgShortPreambleGet (cli_unit s)) s"

definition shortPreambleCliCmdEnable :: "'a cmd" where
  "shortPreambleCliCmdEnable s = put_then (apCfgShortPreambleSet (cli_unit s) 1) (reply ''Short Preamble: enabled'') s"

definition shortPreambleCliCmdDisable :: "'a cmd" where
  "shortPreambleCliCmdDisable s = put_then (apCfgShortPreambleSet (cli_unit s) 0) (reply ''Short Preamble: disabled'') s"

definition interVapForwardingCliCmdGet :: "'a cmd" where
  "interVapForwardingCliCmdGet s = show_able ''Wireless Isolation (between SSID): '' (apCfgInterVapForwardingGet (cli_unit s)) s"

definition interVapForwardingCliCmdDisable :: "'a cmd" where
  "interVapForwardingCliCmdDisable s = put_then (apCfgInterVapForwardingSet (cli_unit s) 0) (reply ''Wireless Isolation (between SSID): disabled'') s"

definition interVapForwardingCliCmdEnable :: "'a cmd" where
  "interVapForwardingCliCmdEnable s = put_then (apCfgInterVapForwardingSet (cli_unit s) 1) (reply ''Wireless Isolation (between SSID): enabled'') s"

definition out_power :: "int \<Rightarrow> 'a cmd" where
  "out_power i = put_then (apCfgPowerSet 0 i) (\<lambda>s. Some (CLI_PARSE_OK, s))"

definition outPowerCliCmd5 :: "'a cmd" where
  "outPowerCliCmd5 s = out_power 13 s"

definition outPowerCliCmd6 :: "'a cmd" where
  "outPowerCliCmd6 s = out_power 12 s"

definition outPowerCliCmd8 :: "'a cmd" where
  "outPowerCliCmd8 s = out_power 11 s"

definition outPowerCliCmd10 :: "'a cmd" where
  "outPowerCliCmd10 s = out_power 10 s"

definition outPowerCliCmd13 :: "'a cmd" where
  "outPowerCliCmd13 s = out_power 9 s"

definition outPowerCliCmd16 :: "'a cmd" where
  "outPowerCliCmd16 s = out_power 8 s"

definition outPowerCliCmd20 :: "'a cmd" where
  "outPowerCliCmd20 s = out_power 7 s"

definition outPowerCliCmd25 :: "'a cmd" where
  "outPowerCliCmd25 s = out_power 6 s"

definition outPowerCliCmd32 :: "'a cmd" where
  "outPowerCliCmd32 s = out_power 5 s"

definition outPowerCliCmd40 :: "'a cmd" where
  "outPowerCliCmd40 s = out_power 4 s"

definition outPowerCliCmd50 :: "'a cmd" where
  "outPowerCliCmd50 s = out_power 3 s"

definition outPowerCliCmd63 :: "'a cmd" where
  "outPowerCliCmd63 s = out_power 2 s"

definition outPowerCliCmd79 :: "'a cmd" where
  "outPowerCliCmd79 s = out_power 1 s"

definition outPowerCliCmd100 :: "'a cmd" where
  "outPowerCliCmd100 s = out_power 0 s"

subsection \<open>The name of the network\<close>

definition ssidCliCmdGet :: "'a cmd" where
  "ssidCliCmdGet s = show_ssid ''SSID: '' (cli_vap s) [] s"

text \<open>A new name switches the access point on and its broadcast too.\<close>

definition ssidCliCmdSet :: "'a cmd" where
  "ssidCliCmdSet s = (if sccli_tokenCount s = 0 then Some (CLI_PARSE_NO_VALUE, s)
     else case ssid_words MAX_TOKEN 0 [] s of
       (None, s) \<Rightarrow> refuse ''SSID string is too long'' s
     | (Some (ssidLen, buf), s) \<Rightarrow> do {
         ((buf, old), s) \<leftarrow> into_lan buf s;
         put_checked (apCfgSsidSet (cli_unit s) (cli_vap s) buf) ''SSID is invalid.''
           (\<lambda>s. if ssidLen = 0 then do { (_, s) \<leftarrow> activeModeCliCmdDisable s; Some (CLI_PARSE_OK, s) }
             else put_then (apCfgActiveModeSet (cli_unit s) (cli_vap s) 1) (put_then (apCfgSsidModeSet (cli_unit s) (cli_vap s) 0) (show_ssid ''SSID: '' (cli_vap s) old)) s) s
       })"

definition ssidModeCliCmdGet :: "'a cmd" where
  "ssidModeCliCmdGet s = do { (v, s) \<leftarrow> apCfgSsidModeGet (cli_unit s) (cli_vap s) s; t \<leftarrow> pick_str pAbleStr (if v + 1 < 0 then - (- (v + 1) mod 2) else (v + 1) mod 2); reply (''SSID Broadcast Mode: '' @ t) s }"

definition ssidModeCliCmdDisable :: "'a cmd" where
  "ssidModeCliCmdDisable s = put_then (apCfgSsidModeSet (cli_unit s) (cli_vap s) 1) (reply ''SSID Broadcast Mode: disabled'') s"

definition ssidModeCliCmdEnable :: "'a cmd" where
  "ssidModeCliCmdEnable s = put_then (apCfgSsidModeSet (cli_unit s) (cli_vap s) 0) (reply ''SSID Broadcast Mode: enabled'') s"

definition lltdModeCliCmdGet :: "'a cmd" where
  "lltdModeCliCmdGet s = show_able ''LLTD Mode: '' apCfglltdGet s"

definition lltdModeCliCmdDisable :: "'a cmd" where
  "lltdModeCliCmdDisable s = put_then (apCfglltdSet 0) (reply ''LLTD Mode: disabled'') s"

definition lltdModeCliCmdEnable :: "'a cmd" where
  "lltdModeCliCmdEnable s = put_then (apCfglltdSet 1) (reply ''LLTD Mode: enabled'') s"

subsection \<open>The Ethernet port\<close>

text \<open>A forced speed, and the automatic negotiation for the duplex mode, keep the port's settings from being changed; the result is
  \<open>CLI_PARSE_OK\<close> all the same.\<close>

definition unless_set :: "(int, 'a) rd list \<Rightarrow> cstr \<Rightarrow> 'a cmd \<Rightarrow> 'a cmd" where
  "unless_set gets warning k = foldr (\<lambda>get k s. do { (v, s) \<leftarrow> get s; if v \<noteq> 0 then reply warning s else k s }) gets k"

definition show_pick :: "cstr \<Rightarrow> cstr list \<Rightarrow> (int, 'a) rd \<Rightarrow> 'a cmd" where
  "show_pick l xs get s = do { (i, s) \<leftarrow> get s; t \<leftarrow> pick_str xs i; reply (l @ t) s }"

definition eth_nego :: "int \<Rightarrow> 'a cmd" where
  "eth_nego i = unless_set [apCfgForce100mGet]
     ''Warning: Force LAN Port Speed to 100M is enabled, disable it first to set Auto Negotiation Mode here.''
     (put_then (apCfgAutonegoSet i) (show_pick ''Ethernet Auto Negotiation Mode: '' pEthAutoNegoStr (\<lambda>s. Some (i, s))))"

definition eth_duplex :: "int \<Rightarrow> 'a cmd" where
  "eth_duplex i = unless_set [apCfgForce100mGet, apCfgAutonegoGet]
     ''Warning: Force LAN Port Speed to 100M is enabled Or Auto Negotiation is ebabled, disable it first to set Duplex Mode here.''
     (put_then (apCfgDuplexmodeSet i) (show_pick ''Ethernet Duplex Mode: '' pEthDuplexModeStr (\<lambda>s. Some (i, s))))"

definition eth_rate :: "int \<Rightarrow> 'a cmd" where
  "eth_rate i = unless_set [apCfgForce100mGet]
     ''Warning: Force LAN Port Speed to 100M is enabled, disable it first to set ethernet data rate here.''
     (put_then (cliSetEthDataRate i) (show_pick ''Ethernet Data Rate: '' pEthDataRateStr (\<lambda>s. Some (i, s))))"

definition ethAutoNego :: "'a cmd" where
  "ethAutoNego s = show_pick ''Ethernet Auto Negotiation: '' pEthAutoNegoStr cliGetAutoNego s"

definition ethDuplexModeGet :: "'a cmd" where
  "ethDuplexModeGet s = show_pick ''Ethernet Duplex Mode: '' pEthDuplexModeStr apCfgDuplexmodeGet s"

definition ethAutoNegoCliCmdEnable :: "'a cmd" where
  "ethAutoNegoCliCmdEnable s = eth_nego 1 s"

definition ethAutoNegoCliCmdDisable :: "'a cmd" where
  "ethAutoNegoCliCmdDisable s = eth_nego 0 s"

definition ethDuplexModeCliCmdFull :: "'a cmd" where
  "ethDuplexModeCliCmdFull s = eth_duplex 1 s"

definition ethDuplexModeCliCmdHalf :: "'a cmd" where
  "ethDuplexModeCliCmdHalf s = eth_duplex 0 s"

definition ethDataRateCliCmdGet :: "'a cmd" where
  "ethDataRateCliCmdGet s = show_pick ''Ethernet Data Rate: '' pEthDataRateStr cliGetEthDataRate s"

definition ethDataRateCliCmdAuto :: "'a cmd" where
  "ethDataRateCliCmdAuto s = eth_rate 0 s"

definition ethDataRateCliCmd1000 :: "'a cmd" where
  "ethDataRateCliCmd1000 s = eth_rate 1 s"

definition ethDataRateCliCmd100 :: "'a cmd" where
  "ethDataRateCliCmd100 s = eth_rate 2 s"

definition ethDataRateCliCmd10 :: "'a cmd" where
  "ethDataRateCliCmd10 s = eth_rate 3 s"

end
