(* ===== verification/Cli_Manage.thy ===== *)
theory Cli_Manage
  imports Cli_Wlan
begin

text \<open>
  Handlers of \<open>linksysCli.c\<close> for the wireless security and its keys, the RADIUS servers, the login, the web server, the time zone,
  SNMP, the system log, and the list of known access points.
\<close>

subsection \<open>Wireless security\<close>

text \<open>A kind of security, unless it is one with a RADIUS server and the device is a wireless client.\<close>

definition choose_security :: "bool \<Rightarrow> int \<Rightarrow> 'a cmd" where
  "choose_security radius index s = do {
     (b, s) \<leftarrow> (if radius then get_in (apCfgOpModeGet (cli_unit s)) [CFG_OP_MODE_UC, CFG_OP_MODE_UR] s else Some (False, s));
     t \<leftarrow> pick_str pSecurityStr index;
     if b then refuse (''In '' @ [CHR 0x22] @ ''Wireless Client/Repeater'' @ [CHR 0x22] @ '' Mode, '' @ t @ '' is not support!'') s
     else put_then (cliSetWirelessSecurity (cli_unit s) (cli_vap s) index) (reply (''Wireless Seucrity Mode: '' @ t)) s
   }"

definition secCliCmdGet :: "'a cmd" where
  "secCliCmdGet s = show_pick ''Wireless Seucrity Mode: '' pSecurityStr (cliGetWirelessSecurity (cli_unit s) (cli_vap s)) s"

definition secCliCmdNone :: "'a cmd" where
  "secCliCmdNone s = choose_security False 0 s"

definition secCliCmdWpapsk :: "'a cmd" where
  "secCliCmdWpapsk s = choose_security False 2 s"

definition secCliCmdWpa2psk :: "'a cmd" where
  "secCliCmdWpa2psk s = choose_security False 3 s"

definition secCliCmdWpapskauto :: "'a cmd" where
  "secCliCmdWpapskauto s = choose_security False 4 s"

definition secCliCmdWpa :: "'a cmd" where
  "secCliCmdWpa s = choose_security True 5 s"

definition secCliCmdWpa2 :: "'a cmd" where
  "secCliCmdWpa2 s = choose_security True 6 s"

definition secCliCmdWpaauto :: "'a cmd" where
  "secCliCmdWpaauto s = choose_security True 7 s"

definition secCliCmdRadius :: "'a cmd" where
  "secCliCmdRadius s = choose_security True 8 s"

definition authCliCmdGet :: "'a cmd" where
  "authCliCmdGet s = show_pick ''Authentication Type: '' pAuthStr (cliGetWEPAuth (cli_unit s) (cli_vap s)) s"

definition authCliCmdOpen :: "'a cmd" where
  "authCliCmdOpen s = put_then (cliSetWEPAuth (cli_unit s) (cli_vap s) 1) (reply ''Authentication Type: Open System'') s"

definition authCliCmdShared :: "'a cmd" where
  "authCliCmdShared s = put_then (cliSetWEPAuth (cli_unit s) (cli_vap s) 2) (reply ''Authentication Type: Shared Key'') s"

definition encryptionCliCmdGet :: "'a cmd" where
  "encryptionCliCmdGet s = show_pick ''Encryption Algorithm Type: '' pEncryStr (apCfgWPACipherGet (cli_unit s) (cli_vap s)) s"

definition choose_cipher :: "int \<Rightarrow> cstr \<Rightarrow> 'a cmd" where
  "choose_cipher c t s = do {
     (b, s) \<leftarrow> get_in (apCfgAuthTypeGet (cli_unit s) (cli_vap s)) [APCFG_AUTH_WPAPSK, APCFG_AUTH_WPA] s;
     if b then put_then (apCfgWPACipherSet (cli_unit s) (cli_vap s) c) (reply (''Encryption Algorithm Type: '' @ t)) s
     else refuse ''This Authentication Type is not allow change Encryption Algorithm Type'' s
   }"

definition encryCliCmdTkip :: "'a cmd" where
  "encryCliCmdTkip s = choose_cipher WPA_CIPHER_TKIP ''TKIP'' s"

definition encryCliCmdAes :: "'a cmd" where
  "encryCliCmdAes s = choose_cipher WPA_CIPHER_AES ''AES'' s"

definition keyLengthCliCmdGet :: "'a cmd" where
  "keyLengthCliCmdGet s = show_int ''WEP Key Length: '' (apCfgKeyBitLenGet (cli_unit s) (cli_vap s)) [] s"

definition keyLengthCliCmdSet :: "'a cmd" where
  "keyLengthCliCmdSet s = with_num (%v s.
       if v = 40 \<or> v = 104 then put_then (apCfgDot1xKeyLenSet (cli_unit s) (cli_vap s) v)
         (put_checked (apCfgKeyBitLenSet (cli_unit s) (cli_vap s) v) ''Usage: set keylength 40 | 104'' (show_int ''WEP Key Length: '' (apCfgKeyBitLenGet (cli_unit s) (cli_vap s)) [])) s
       else refuse ''Usage: set keylength 40 | 104'' s) (refuse ''Usage: set keylength 40 | 104'') s"

definition defaultKeyCliCmdGet :: "'a cmd" where
  "defaultKeyCliCmdGet s = show_int ''Default Key Index: '' (apCfgDefKeyGet (cli_unit s) (cli_vap s)) [] s"

definition defaultKeyCliCmdSet :: "'a cmd" where
  "defaultKeyCliCmdSet s = with_num (%v s.
       if 0 < v \<and> v < 5 then put_checked (apCfgDefKeySet (cli_unit s) (cli_vap s) v) ''Usage: set defaultkey (1-4)'' (show_int ''Default Key Index: '' (apCfgDefKeyGet (cli_unit s) (cli_vap s)) []) s
       else refuse ''Usage: set defaultkey (1-4)'' s) (refuse ''Usage: set defaultkey (1-4)'') s"

fun list_keys :: "int list \<Rightarrow> 'a cmd" where
  "list_keys [] s = Some (CLI_PARSE_OK, s)"
| "list_keys (i # is) s = do {
     (k, s) \<leftarrow> apCfgKeyValGet (cli_unit s) (cli_vap s) i s;
     list_keys is (say (''   '' @ fmt_d i @ ''    '' @ k) s)
   }"

definition is_hex :: "char \<Rightarrow> bool" where
  "is_hex c \<longleftrightarrow> c_isdigit c \<or> (65 \<le> code c \<and> code c \<le> 70) \<or> (97 \<le> code c \<and> code c \<le> 102)"

definition keyCliCmdGet :: "'a cmd" where
  "keyCliCmdGet s = list_keys [1, 2, 3, 4] (say ''=Index= ===Value==='' s)"

definition keyCliCmdSet :: "'a cmd" where
  "keyCliCmdSet s = (let usage = refuse ''Usage: set key index(1-4) value(HEX)'' in
     if sccli_tokenCount s \<noteq> 2 then usage s
     else case sccli_tokenPopNum s of
       ((CLI_PARSE_OK, Some v), s) \<Rightarrow>
         if \<not>  (0 < v \<and> v < 5) then usage (say ''Invalid key index.'' s)
         else pop_then (%k s.
           if \<exists>c \<in> set k. \<not>  is_hex c then refuse ''value is not HEX'' s
           else if length k = 10 \<or> length k = 26 then do {
             (rc, s) \<leftarrow> apCfgKeyValSet (cli_unit s) (cli_vap s) v k s;
             if rc = A_OK then show_str (''Key '' @ fmt_d v @ '': '') (apCfgKeyValGet (cli_unit s) (cli_vap s) v) s else usage s
           }
           else usage (say ''Invalid key length.'' s)) s
     | (_, s) \<Rightarrow> usage s)"

definition pskCliCmdGet :: "'a cmd" where
  "pskCliCmdGet s = show_str ''Pre-shared Key: '' (apCfgPassphraseGet (cli_unit s) (cli_vap s)) s"

text \<open>\<open>passphrase\<close> has \<open>CLI_INBUF\<close> bytes, so its check for overflow never fails.\<close>

definition pskCliCmdSet :: "'a cmd" where
  "pskCliCmdSet s = one_word (%p s.
       if CLI_INBUF < length p then refuse ''Input Phrase is too long'' s
       else if length p < 8 then refuse ''Input Phrase is too short, should be minimum of 8 characters long.'' s
       else if CFG_MAX_PASSPHRASE < length p then refuse ''Input Phrase is too long, should be max of 64 characters long.'' s
       else if length p = CFG_MAX_PASSPHRASE \<and> fst (asciiToPassphraseKey p CFG_MAX_PASSPHRASE) \<noteq> Key_OK
       then refuse ''A_ERROR: Invalid HEX passphrase'' s
       else put_warn (apCfgPassphraseSet (cli_unit s) (cli_vap s) p) ''Pre-shared Key is too long'' (show_str ''Pre-shared Key: '' (apCfgPassphraseGet (cli_unit s) (cli_vap s))) s) s"

definition groupKeyUpdateIntervalCliCmdGet :: "'a cmd" where
  "groupKeyUpdateIntervalCliCmdGet s = show_int ''Group Key Update Interval: '' (apCfgGroupKeyUpdateIntervalGet (cli_unit s) (cli_vap s)) '' Seconds'' s"

definition groupKeyUpdateIntervalCliCmdSet :: "'a cmd" where
  "groupKeyUpdateIntervalCliCmdSet s = with_num (\<lambda>v. put_checked (apCfgGroupKeyUpdateIntervalSet (cli_unit s) (cli_vap s) v) ''Group Key Update Interval range invalid.''
       (show_int ''Group Key Update Interval: '' (apCfgGroupKeyUpdateIntervalGet (cli_unit s) (cli_vap s)) '' seconds'')) error s"

definition AutoRebootIntervalCliCmdGet :: "'a cmd" where
  "AutoRebootIntervalCliCmdGet s = show_int ''Auto Reboot Interval: '' apCfgAutoRebootIntervalGet '' hours'' s"

definition AutoRebootIntervalCliCmdSet :: "'a cmd" where
  "AutoRebootIntervalCliCmdSet s = with_num (\<lambda>v. put_checked (scApCfgAutoRebootIntervalSet v) ''Auto Reboot Interval is invalid.''
       (show_int ''Auto Reboot Interval: '' apCfgAutoRebootIntervalGet '' hours'')) error s"

subsection \<open>RADIUS servers\<close>

text \<open>The server and its port are set for all access points.\<close>

fun each_vap :: "(int \<Rightarrow> 'a wr) \<Rightarrow> int list \<Rightarrow> 'a cmd \<Rightarrow> 'a cmd" where
  "each_vap f [] k s = k s"
| "each_vap f (v # vs) k s = put_then (f v) (each_vap f vs k) s"

definition set_radius_server :: "(int \<Rightarrow> cstr \<Rightarrow> 'a wr) \<Rightarrow> cstr \<Rightarrow> (cstr, 'a) rd \<Rightarrow> 'a cmd" where
  "set_radius_server set_srv l get s =
     (if sccli_tokenCount s = 1 then
        with_addr (\<lambda>a s. do {
          t \<leftarrow> netstr a;
          if a \<noteq> 0 then each_vap (\<lambda>v. set_srv v t) [0, 1, 2, 3] (show_str l get) s
          else refuse ''Invalid RADIUS Server IP Address'' s
        }) (refuse ''Invalid RADIUS Server IP Address'') s
      else error s)"

definition one_num :: "(int \<Rightarrow> 'a cmd) \<Rightarrow> 'a cmd" where
  "one_num f s =
     (if sccli_tokenCount s = 0 then Some (CLI_PARSE_NO_VALUE, s)
      else if sccli_tokenCount s = 1 then
        (case sccli_tokenPopNum s of ((CLI_PARSE_OK, Some v), s) \<Rightarrow> f v s | (_, s) \<Rightarrow> error s)
      else error s)"

definition radiusSrvCliCmdGetPri :: "'a cmd" where
  "radiusSrvCliCmdGetPri s = show_str ''Primary RADIUS Address: '' (apCfgRadiusServerGet (cli_unit s) (cli_vap s)) s"

definition radiusSrvCliCmdSetPri :: "'a cmd" where
  "radiusSrvCliCmdSetPri s = (if sccli_tokenCount s = 0 then Some (CLI_PARSE_NO_VALUE, say ''Input Null.'' s)
     else set_radius_server (apCfgRadiusServerSet (cli_unit s)) ''RADIUS Server IP Address: '' (apCfgRadiusServerGet (cli_unit s) (cli_vap s)) s)"

definition radiusSrvCliCmdGetBck :: "'a cmd" where
  "radiusSrvCliCmdGetBck s = show_str ''Backup RADIUS Address: '' (apCfgBackupRadiusServerGet (cli_unit s) (cli_vap s)) s"

definition radiusSrvCliCmdSetBck :: "'a cmd" where
  "radiusSrvCliCmdSetBck s = (if sccli_tokenCount s = 0 then Some (CLI_PARSE_NO_VALUE, s)
     else set_radius_server (apCfgBackupRadiusServerSet (cli_unit s)) ''Backup RADIUS Server IP Address: '' (apCfgBackupRadiusServerGet (cli_unit s) (cli_vap s)) s)"

definition radiusPortCliCmdGetPri :: "'a cmd" where
  "radiusPortCliCmdGetPri s = show_int ''Primary RADIUS Port: '' (apCfgRadiusPortGet (cli_unit s) (cli_vap s)) [] s"

definition radiusPortCliCmdSetPri :: "'a cmd" where
  "radiusPortCliCmdSetPri s = one_num (%port s.
       if port < 1 \<or> 65534 < port then refuse ''Invalid value! it should be 1..65534'' s
       else each_vap (\<lambda>v. apCfgRadiusPortSet (cli_unit s) v port) [0, 1, 2, 3] (show_int ''Primary RADIUS Port Number: '' (apCfgRadiusPortGet (cli_unit s) (cli_vap s)) []) s) s"

definition radiusPortCliCmdGetBck :: "'a cmd" where
  "radiusPortCliCmdGetBck s = show_int ''Backup RADIUS Port: '' (apCfgBackupRadiusPortGet (cli_unit s) (cli_vap s)) [] s"

definition radiusPortCliCmdSetBck :: "'a cmd" where
  "radiusPortCliCmdSetBck s = one_num (%port s.
       each_vap (\<lambda>v. apCfgBackupRadiusPortSet (cli_unit s) v port) [0, 1, 2, 3] (show_int ''Backup RADIUS Port Number: '' (apCfgBackupRadiusPortGet (cli_unit s) (cli_vap s)) []) s) s"

definition radiusSecretCliCmdGetPri :: "'a cmd" where
  "radiusSecretCliCmdGetPri s = show_str ''Primary RADIUS Server secret: '' (apCfgRadiusSecretGet (cli_unit s) (cli_vap s)) s"

definition radiusSecretCliCmdSetPri :: "'a cmd" where
  "radiusSecretCliCmdSetPri s = one_word (\<lambda>p. put_checked (apCfgRadiusSecretSet (cli_unit s) (cli_vap s) p) ''Primary Radius Server secret is too long''
       (show_str ''Primary Radius Server secret: '' (apCfgRadiusSecretGet (cli_unit s) (cli_vap s)))) s"

definition radiusSecretCliCmdGetBck :: "'a cmd" where
  "radiusSecretCliCmdGetBck s = show_str ''Backup RADIUS Server secret: '' (apCfgBackupRadiusSecretGet (cli_unit s) (cli_vap s)) s"

definition radiusSecretCliCmdSetBck :: "'a cmd" where
  "radiusSecretCliCmdSetBck s = one_word (\<lambda>p. put_checked (apCfgBackupRadiusSecretSet (cli_unit s) (cli_vap s) p) ''Backup Radius Server secret is too long''
       (show_str ''Backup Radius Server secret: '' (apCfgBackupRadiusSecretGet (cli_unit s) (cli_vap s)))) s"

definition dot1xKeyLifeCliCmdGet :: "'a cmd" where
  "dot1xKeyLifeCliCmdGet s = show_int ''802.1x Dynamic Key Update Interval: '' (apCfgGroupKeyUpdateIntervalGet (cli_unit s) (cli_vap s)) '' Seconds'' s"

definition dot1xKeyLifeCliCmdSet :: "'a cmd" where
  "dot1xKeyLifeCliCmdSet s = one_num (\<lambda>v. put_checked (apCfgGroupKeyUpdateIntervalSet (cli_unit s) (cli_vap s) v) ''802.1x dynamic Key update interval range invalid''
       (show_int ''802.1x Dynamic Key Update Interval: '' (apCfgGroupKeyUpdateIntervalGet (cli_unit s) (cli_vap s)) '' Seconds'')) s"

subsection \<open>Login and web server\<close>

abbreviation (input) CLI_TOKEN_NULL_STRING :: cstr where "CLI_TOKEN_NULL_STRING \<equiv> [CHR 0x22, CHR 0x22]"

definition usernameCliCmdGet :: "'a cmd" where
  "usernameCliCmdGet s = show_str ''Login Username: '' apCfgLoginGet s"

definition usernameCliCmdSet :: "'a cmd" where
  "usernameCliCmdSet s = one_word (%p s.
       if p = CLI_TOKEN_NULL_STRING then refuse ''Username can't be blank'' s
       else put_warn (apCfgLoginSet p) ''Username is too long'' (show_str ''Login Username: '' apCfgLoginGet) s) s"

definition passwordCliCmdGet :: "'a cmd" where
  "passwordCliCmdGet s = show_str ''Login Password: '' apCfgPasswordGet s"

definition passwordCliCmdSet :: "'a cmd" where
  "passwordCliCmdSet s = one_word (%p s.
       if p = CLI_TOKEN_NULL_STRING then refuse ''Login Password can't be blank'' s
       else put_warn (apCfgPasswordSet p) ''Login Password is too long'' (show_str ''Login Password: '' apCfgPasswordGet) s) s"

definition httpCliCmdGet :: "'a cmd" where
  "httpCliCmdGet s = show_able ''HTTP: '' apCfgHttpModeGet s"

definition httpsCliCmdGet :: "'a cmd" where
  "httpsCliCmdGet s = show_able ''HTTPS: '' apCfgAutohttpsModeGet s"

definition menhanceCliCmdGet :: "'a cmd" where
  "menhanceCliCmdGet s = show_able ''Multicast Packets Enhancement: '' apCfgMultiEnhanceGet s"

definition hwversionCliCmdGet :: "'a cmd" where
  "hwversionCliCmdGet s = do { t \<leftarrow> into_buf 32 (getHwVersion s); reply (''PID VID: '' @ t) s }"

definition httpCliCmdDisable :: "'a cmd" where
  "httpCliCmdDisable s = put_then (apCfgHttpModeSet 0) (reply ''HTTP: disabled'') s"

definition httpCliCmdEnable :: "'a cmd" where
  "httpCliCmdEnable s = put_then (apCfgHttpModeSet 1) (reply ''HTTP: enabled'') s"

definition httpsCliCmdDisable :: "'a cmd" where
  "httpsCliCmdDisable s = put_then (apCfgAutohttpsModeSet 0) (put_then (apCfgHttpsModeSet 0) (reply ''HTTPS: disabled'')) s"

definition httpsCliCmdEnable :: "'a cmd" where
  "httpsCliCmdEnable s = put_then (apCfgAutohttpsModeSet 1) (put_then (apCfgHttpsModeSet 1) (reply ''HTTPS: enabled'')) s"

definition multienhanceDisable :: "'a cmd" where
  "multienhanceDisable s = put_then (apCfgMultiEnhanceSet 0) (reply ''Multicast Packets Enhancement: disabled'') s"

definition multienhanceEnable :: "'a cmd" where
  "multienhanceEnable s = put_then (apCfgMultiEnhanceSet 1) (reply ''Multicast Packets Enhancement: enabled'') s"

definition timezoneCliCmdGet :: "'a cmd" where
  "timezoneCliCmdGet s = show_str ''Time Zone: '' apCfgTimezoneOffsetGet s"

text \<open>The token, in upper case in its buffer, has to be a whole name; it is looked for from the chosen entry on.\<close>

definition timezoneCliCmdSet :: "cstr \<Rightarrow> 'a cmd" where
  "timezoneCliCmdSet pToken s = (let s = s\<lparr>ibuf := scToUppers (ibuf s)\<rparr>; p = scToUppers pToken in
     case (if sccli_tokenCount s = 0 then dropWhile (\<lambda>e. pCmd e \<noteq> p) (sccli_tokenCurTblGet s) else []) of
       e # _ \<Rightarrow> put_then (apCfgTimezoneOffsetSet (pCmd e)) (show_str ''Time Zone: '' apCfgTimezoneOffsetGet) s
     | [] \<Rightarrow> refuse ''Invalid Time Zone'' s)"

definition daylightModeCliCmdGet :: "'a cmd" where
  "daylightModeCliCmdGet s = show_able ''Daylight Mode: '' apCfgDaylightSavingGet s"

definition daylightCliCmdDisable :: "'a cmd" where
  "daylightCliCmdDisable s = put_then (apCfgDaylightSavingSet 0) (reply ''daylight: disabled'') s"

definition daylightCliCmdEnable :: "'a cmd" where
  "daylightCliCmdEnable s = put_then (apCfgDaylightSavingSet 1) (reply ''daylight: enabled'') s"

subsection \<open>SNMP\<close>

definition snmpReadComCliCmdGet :: "'a cmd" where
  "snmpReadComCliCmdGet s = show_str ''SNMP Read Community: '' apCfgSnmpReadCommGet s"

definition snmpReadComCliCmdSet :: "'a cmd" where
  "snmpReadComCliCmdSet s = one_word (\<lambda>p. put_checked (apCfgSnmpReadCommSet p) ''SNMP Read Community is too long'' (show_str ''SNMP Read Community: '' apCfgSnmpReadCommGet)) s"

definition snmpWriteComCliCmdGet :: "'a cmd" where
  "snmpWriteComCliCmdGet s = show_str ''SNMP Write Community: '' apCfgSnmpWriteCommGet s"

definition snmpWriteComCliCmdSet :: "'a cmd" where
  "snmpWriteComCliCmdSet s = one_word (\<lambda>p. put_checked (apCfgSnmpWriteCommSet p) ''SNMP Write Community is too long'' (show_str ''SNMP Write Community: '' apCfgSnmpWriteCommGet)) s"

definition snmpModeCliCmdGet :: "'a cmd" where
  "snmpModeCliCmdGet s = show_able ''SNMP Mode: '' apCfgSnmpModeGet s"

definition snmpCliCmdEnable :: "'a cmd" where
  "snmpCliCmdEnable s = put_then (apCfgSnmpModeSet 1) (reply ''SNMP: enabled'') s"

definition snmpCliCmdDisable :: "'a cmd" where
  "snmpCliCmdDisable s = put_then (apCfgSnmpModeSet 0) (reply ''SNMP: disabled'') s"

definition snmpManageCliCmdGet :: "'a cmd" where
  "snmpManageCliCmdGet s = do {
     (any, s) \<leftarrow> apCfgSnmpAnyManagerGet s;
     if any \<noteq> 0 then reply ''SNMP Manager: Any Station'' s
     else do {
       (a, s) \<leftarrow> apCfgSnmpManagerIpGet s;
       t \<leftarrow> netstr a;
       let s = (if a \<noteq> 0 then print (''SNMP Manager IP Address from: '' @ t) s else s);
       (a, s) \<leftarrow> apCfgSnmpManagerIpEndGet s;
       t \<leftarrow> netstr a;
       Some (CLI_PARSE_OK, if a \<noteq> 0 then say ('' to '' @ t) s else s)
     }
   }"

definition snmpManageCliCmdAny :: "'a cmd" where
  "snmpManageCliCmdAny s = put_then (apCfgSnmpAnyManagerSet 1) (reply ''SNMP Manager: Any Station'') s"

text \<open>One address. The ends of the range are compared as signed numbers.\<close>

definition one_addr :: "(32 word \<Rightarrow> 'a cmd) \<Rightarrow> cstr \<Rightarrow> 'a cmd" where
  "one_addr f bad s =
     (if sccli_tokenCount s = 0 then Some (CLI_PARSE_NO_VALUE, s)
      else if sccli_tokenCount s = 1 then
        (case sccli_tokenGetNetAddrHandler s of (Some a, s) \<Rightarrow> f a s | (None, s) \<Rightarrow> refuse bad s)
      else error s)"

definition snmpManageCliCmdIpStart :: "'a cmd" where
  "snmpManageCliCmdIpStart s = one_addr (\<lambda>a s. do {
       t \<leftarrow> netstr a;
       if a = 0 then refuse (''Invalid Start IP Address '' @ t) s
       else do {
         (b, s) \<leftarrow> apCfgSnmpManagerIpEndGet s;
         if sint a \<le> sint b then put_then (apCfgSnmpManagerIpSet a) (reply (''SNMP Manager IP Address Start: '' @ t)) s
         else refuse ''Start IP is bigger than End IP'' s
       }
     }) ''Invalid Start IP Address'' s"

definition snmpManageCliCmdIpEnd :: "'a cmd" where
  "snmpManageCliCmdIpEnd s = one_addr (\<lambda>a s. do {
       t \<leftarrow> netstr a;
       if a = 0 then refuse (''Invalid End IP Address '' @ t) s
       else do {
         (b, s) \<leftarrow> apCfgSnmpManagerIpGet s;
         if sint b \<le> sint a then put_then (apCfgSnmpManagerIpEndSet a) (reply (''SNMP Manager IP Address End: '' @ t)) s
         else refuse ''Start IP is bigger than End IP'' s
       }
     }) ''Invalid End IP Address'' s"

definition snmpTrapCliCmdGet :: "'a cmd" where
  "snmpTrapCliCmdGet s = do {
     (any, s) \<leftarrow> apCfgSnmpAnyManagerGet s;
     if any \<noteq> 0 then reply ''SNMP Manager: Any Station'' s
     else do {
       (a, s) \<leftarrow> apCfgSnmpManagerIpGet s;
       t \<leftarrow> netstr a;
       if a \<noteq> 0 then reply (''SNMP Manager: '' @ t) s
       else put_then (apCfgSnmpAnyManagerSet 1) (\<lambda>s. Some (CLI_PARSE_OK, s)) (say ''SNMP Manager: Any Station'' s)
     }
   }"

definition snmpTrapCliCmdBroadcast :: "'a cmd" where
  "snmpTrapCliCmdBroadcast s = put_then (apCfgSnmpTrapRecvIpSet (inet_addr ''255.255.255.255'')) (reply ''SNMP Trap: broadcast'') s"

definition snmpTrapCliCmdUnicast :: "'a cmd" where
  "snmpTrapCliCmdUnicast s = one_addr (\<lambda>a s. do {
       t \<leftarrow> netstr a;
       if a = 0 then refuse (''Invalid IP Address '' @ t) s
       else put_then (apCfgSnmpTrapRecvIpSet a) (reply (''SNMP Trap to IP Address: '' @ t)) s
     }) ''Invalid IP Address'' s"

subsection \<open>System log\<close>

definition syslogCliCmdGet :: "'a cmd" where
  "syslogCliCmdGet s = show_able ''Syslog: '' apCfgsysLogEnabledGet s"

definition syslogCliCmdDisable :: "'a cmd" where
  "syslogCliCmdDisable s = put_then (apCfgsysLogEnabledSet 0) (reply ''Syslog: disabled'') s"

definition syslogCliCmdEnable :: "'a cmd" where
  "syslogCliCmdEnable s = put_then (apCfgsysLogEnabledSet 1) (put_then (apCfgsysLogSeveritySet 6) (reply ''Syslog: enabled'')) s"

definition syslogSrvCliCmdGet :: "'a cmd" where
  "syslogSrvCliCmdGet s = do {
     (v, s) \<leftarrow> apCfgsysLogServerGet s;
     if v \<noteq> [] then show_str ''Syslog Server: '' apCfgsysLogServerGet s else reply ''Syslog server: None'' s
   }"

definition syslogSrvCliCmdSet :: "'a cmd" where
  "syslogSrvCliCmdSet s = one_word (\<lambda>p. put_checked (apCfgsysLogServerSet p) ''Invalid Syslog Server Address'' (show_str ''Syslog Server Address: '' apCfgsysLogServerGet)) s"

subsection \<open>Rogue and legal access points\<close>

definition rogue_type :: "int \<Rightarrow> cstr" where
  "rogue_type t = (if t = 2 then ''Not in Legal AP List'' else if t = 3 then ''No Security and Not in Legal AP List'' else ''No Security'')"

definition set_rogue_type :: "int \<Rightarrow> 'a cmd" where
  "set_rogue_type t s = do {
     (_, s) \<leftarrow> scApCfgRogueApTypeSet t s;
     (v, s) \<leftarrow> scApCfgRogueApTypeGet s;
     if v = t then reply (''Rogue AP type: '' @ rogue_type t) s else refuse (''failed to define Rogue AP type as '' @ rogue_type t) s
   }"

definition roguetypeCmdGet :: "'a cmd" where
  "roguetypeCmdGet s = do { (t, s) \<leftarrow> scApCfgRogueApTypeGet s; reply (''Rogue AP type: '' @ rogue_type t) s }"

definition roguetype1CliCmdEnable :: "'a cmd" where
  "roguetype1CliCmdEnable s = set_rogue_type 1 s"

definition roguetype2CliCmdEnable :: "'a cmd" where
  "roguetype2CliCmdEnable s = set_rogue_type 2 s"

definition roguetype3CliCmdEnable :: "'a cmd" where
  "roguetype3CliCmdEnable s = set_rogue_type 3 s"

definition roguelegalCmdGet :: "'a cmd" where
  "roguelegalCmdGet s = do {
     (pList, s) \<leftarrow> scApCfgLegalApListGet s;
     if pList = [] then reply ''Legal AP/OUI List is empty'' s
     else (case strtok_all (CHR '','') pList of
         [] \<Rightarrow> None
       | ms \<Rightarrow> Some (CLI_PARSE_OK, print (concat (map (\<lambda>m. ([TAB]) @ m @ ([NL])) ms)) (say ''Legal AP/OUI List:'' s)))
   }"

text \<open>An address or its first three bytes, with or without colons, as twelve characters: the rest of a prefix is \<open>*\<close>.
  \<open>Some None\<close> is an invalid one.\<close>

definition mac_or_oui :: "cstr \<Rightarrow> cstr option option" where
  "mac_or_oui p =
     (let n = length p in
      if n \<noteq> 6 \<and> n \<noteq> 8 \<and> n \<noteq> 12 \<and> n \<noteq> 17 then Some None
      else do {
        let t = (if n = 6 then p @ ''******'' else if n = 8 then p @ '':**:**:**'' else p);
        m \<leftarrow> (if n = 8 \<or> n = 17 then scMacStr17ToStr12 t else Some t);
        ok \<leftarrow> scValidHexs m (if n < 10 then 6 else 12);
        Some (if ok then Some (scToUppers m) else None)
      })"

definition change_legal :: "(cstr \<Rightarrow> 'a wr) \<Rightarrow> cstr \<Rightarrow> cstr \<Rightarrow> 'a cmd" where
  "change_legal f bad good s =
     (if sccli_tokenCount s \<noteq> 1 then error s
      else pop_then (\<lambda>p s. do {
        m \<leftarrow> mac_or_oui p;
        (case m of None \<Rightarrow> refuse ''Invalid input'' s | Some m \<Rightarrow> put_checked (f m) bad (reply (good @ m)) s)
      }) s)"

definition roguelegalCmdAdd :: "'a cmd" where
  "roguelegalCmdAdd s = change_legal scApCfgLegalApListAdd ''Add legal Mac/Oui Failed'' ''Add legal Mac/Oui :'' s"

definition roguelegalCmdDel :: "'a cmd" where
  "roguelegalCmdDel s = change_legal scApCfgLegalApListDel ''Delete legal Mac/Oui Failed'' (''Delete legal Mac/Oui :'' @ [TAB]) s"

end
