(* ===== verification/Cli_Table.thy ===== *)
theory Cli_Table
  imports Cli_Parse Cli_Manage
begin

text \<open>
  The parse tables of \<open>linksysCli.c\<close>, in the order of the file and without the empty last entry that ends each of them; the
  handlers by the names under which the tables list them; and the shell command that parses its words with \<open>cmdTbl\<close>. Entries
  in comments or behind \<open>#if 0\<close> and \<open>#ifdef DAILY_REBOOT\<close> are left out, as the compiler leaves them out.
\<close>

abbreviation (input) leaf :: "cstr \<Rightarrow> cstr \<Rightarrow> string \<Rightarrow> entry" where
  "leaf c h f \<equiv> Entry c (Some h) f None None"

abbreviation (input) branch :: "cstr \<Rightarrow> cstr \<Rightarrow> entry list \<Rightarrow> entry" where
  "branch c h t \<equiv> Entry c (Some h) ''genericCmdHandler'' (Some t) None"

definition configCmdTbl :: "entry list" where
  "configCmdTbl =
     [leaf ''vap'' ''Config Virtual AP X'' ''configCliCmdVap'']"

definition acllocalmodeCmdTbl :: "entry list" where
  "acllocalmodeCmdTbl =
     [leaf ''allow'' ''Allow only following MAC addresses to connect to wireless network'' ''aclLocalModeCliCmdAllow'',
      leaf ''prevent'' ''Prevent following MAC addresses from connecting to wireless network'' ''aclLocalModeCliCmdPrevent'']"

definition aclCmdTbl :: "entry list" where
  "aclCmdTbl =
     [leaf ''disable'' ''Disable Access Control'' ''aclCliCmdDisable'',
      leaf ''local'' ''Enable Local Access Control'' ''aclCliCmdLocal'',
      branch ''type'' ''Set Access Control Local Mode'' acllocalmodeCmdTbl,
      leaf ''radius'' ''Enable Radius Access Control'' ''aclCliCmdRadius'',
      leaf ''add'' ''Add a Trusted MAC Address'' ''aclCliCmdAdd'',
      leaf ''del'' ''Delete a Trusted MAC Address'' ''aclCliCmdDel'']"

definition activeModeCmdTbl :: "entry list" where
  "activeModeCmdTbl =
     [leaf ''enable'' ''Active Current VAP'' ''activeModeCliCmdEnable'',
      leaf ''disable'' ''Disable Current VAP'' ''activeModeCliCmdDisable'']"

definition dhcpCmdTbl :: "entry list" where
  "dhcpCmdTbl =
     [leaf ''static'' ''Set DHCPv4 Disable'' ''dhcpCliCmdDisable'',
      leaf ''automatic'' ''Set DHCPv4 Client'' ''dhcpCliCmdClient'']"

definition dhcpv6CmdTbl :: "entry list" where
  "dhcpv6CmdTbl =
     [leaf ''static'' ''Set DHCPv6 Disable'' ''dhcpv6CliCmdDisable'',
      leaf ''automatic'' ''Set DHCPv6 Client'' ''dhcpv6CliCmdClient'']"

definition dot1xSuppCmdTbl :: "entry list" where
  "dot1xSuppCmdTbl =
     [leaf ''disable'' ''Disable 802.1x Client on Ethernet'' ''dot1xSuppCliCmdDisable'',
      leaf ''enable'' ''Enable 802.1x Client on Ethernet'' ''dot1xSuppCliCmdEnable'']"

definition dot1xSuppTypeCmdTbl :: "entry list" where
  "dot1xSuppTypeCmdTbl =
     [leaf ''user'' ''Use Manual Username/Password'' ''dot1xSuppTypeCliCmdUser'',
      leaf ''mac'' ''Use MAC Address As Username/Password'' ''dot1xSuppTypeCliCmdMac'']"

definition vlanModeCmdTbl :: "entry list" where
  "vlanModeCmdTbl =
     [leaf ''disable'' ''Disable VLAN Operation'' ''vlanModeCliCmdDisable'',
      leaf ''enable'' ''Enable VLAN Operation'' ''vlanModeCliCmdEnable'']"

definition wirelessModeCmdTbl :: "entry list" where
  "wirelessModeCmdTbl =
     [leaf ''disable'' ''Disable Current Radio'' ''wirelessModeCliCmdDisable'',
      leaf ''11b'' ''802.11b only'' ''wirelessModeCliCmd11b'',
      leaf ''11g'' ''802.11g only'' ''wirelessModeCliCmd11g'',
      leaf ''11n'' ''802.11n only'' ''wirelessModeCliCmd11n'',
      leaf ''11bg'' ''802.11b and 802.11g'' ''wirelessModeCliCmd11bg'',
      leaf ''11bgn'' ''Mixed 802.11n,802.11b and 802.11g'' ''wirelessModeCliCmd11bgn'']"

definition opModeCmdTbl :: "entry list" where
  "opModeCmdTbl =
     [leaf ''ap'' ''Operating as Access Point.'' ''opModeCliCmdAp'',
      leaf ''wdsBridge'' ''Operating as Wireless WDS Bridge.'' ''opModeCliCmdMpt'',
      leaf ''wdsRepeater'' ''Operating as Wireless WDS Repeater.'' ''opModeCliCmdApPtp'',
      leaf ''apRepeater'' ''Operating as Allow wireless signal repeater.'' ''opModeCliCmdApPtmp'',
      leaf ''uc'' ''Operating as Bridge(Wireless Client).'' ''opModeCliCmdUc'',
      leaf ''ur'' ''Operating as Bridge(Wireless Repeater).'' ''opModeCliCmdUr'',
      leaf ''rogueAp'' ''Operating as Rogue AP.'' ''opModeCliCmdRogueAp'']"

definition radiusSrvCliCmdGetTbl :: "entry list" where
  "radiusSrvCliCmdGetTbl =
     [leaf ''primary'' ''Display primary RADIUS Server IP Address'' ''radiusSrvCliCmdGetPri'',
      leaf ''backup'' ''Display backup RADIUS Server IP Address'' ''radiusSrvCliCmdGetBck'']"

definition radiusSrvCliCmdSetTbl :: "entry list" where
  "radiusSrvCliCmdSetTbl =
     [leaf ''primary'' ''Set primary RADIUS Server IP Address'' ''radiusSrvCliCmdSetPri'',
      leaf ''backup'' ''Set backup RADIUS Server IP Address'' ''radiusSrvCliCmdSetBck'']"

definition radiusPortCliCmdGetTbl :: "entry list" where
  "radiusPortCliCmdGetTbl =
     [leaf ''primary'' ''Display primary RADIUS Server Port Number'' ''radiusPortCliCmdGetPri'',
      leaf ''backup'' ''Display backup RADIUS Server Port Number'' ''radiusPortCliCmdGetBck'']"

definition radiusPortCliCmdSetTbl :: "entry list" where
  "radiusPortCliCmdSetTbl =
     [leaf ''primary'' ''Set primary RADIUS Server Port Number'' ''radiusPortCliCmdSetPri'',
      leaf ''backup'' ''Set backup RADIUS Server Port Number'' ''radiusPortCliCmdSetBck'']"

definition radiusSecretCliCmdGetTbl :: "entry list" where
  "radiusSecretCliCmdGetTbl =
     [leaf ''primary'' ''Display primary RADIUS Server Shared Secret'' ''radiusSecretCliCmdGetPri'',
      leaf ''backup'' ''Display backup RADIUS Server Shared Secret'' ''radiusSecretCliCmdGetBck'']"

definition radiusSecretCliCmdSetTbl :: "entry list" where
  "radiusSecretCliCmdSetTbl =
     [leaf ''primary'' ''Set primary RADIUS Server Shared Secret'' ''radiusSecretCliCmdSetPri'',
      leaf ''backup'' ''Set backup RADIUS Server Shared Secret'' ''radiusSecretCliCmdSetBck'']"

definition remotePtmpMacListCmdTbl :: "entry list" where
  "remotePtmpMacListCmdTbl =
     [leaf ''1'' ''Remote Mac Address 1'' ''remotePtmpMacListCliCmdSet'',
      leaf ''2'' ''Remote Mac Address 2'' ''remotePtmpMacListCliCmdSet'',
      leaf ''3'' ''Remote Mac Address 3'' ''remotePtmpMacListCliCmdSet'',
      leaf ''4'' ''Remote Mac Address 4'' ''remotePtmpMacListCliCmdSet'']"

definition sepCmdTbl :: "entry list" where
  "sepCmdTbl =
     [leaf ''disable'' ''Disable Isolation within SSID'' ''sepCliCmdDisable'',
      leaf ''enable'' ''Enable Isolation within SSID'' ''sepCliCmdEnable'']"

definition dot11nGuardIntervalCmdTbl :: "entry list" where
  "dot11nGuardIntervalCmdTbl =
     [leaf ''auto'' ''Set Auto 11n Guard Interval'' ''dot11nGuardIntervalCmdAuto'',
      leaf ''short'' ''Set Short 11n Guard Interval'' ''dot11nGuardIntervalCmdShort'',
      leaf ''long'' ''Set Long 11n Guard Interval'' ''dot11nGuardIntervalCmdLong'']"

definition dot11nRadioBandCmdTbl :: "entry list" where
  "dot11nRadioBandCmdTbl =
     [leaf ''standard'' ''Set Channel Bandwidth to Standard-20MHz Channel'' ''dot11nRadioBandCmdStandard'',
      leaf ''auto'' ''Set Channel Bandwidth to Auto-20/40MHz Channel'' ''dot11nRadioBandCmdAuto'',
      leaf ''wide'' ''Set Channel Bandwidth to Wide-40MHz Channel'' ''dot11nRadioBandCmdWide'']"

definition skuCmdTbl :: "entry list" where
  "skuCmdTbl =
     [leaf ''SKU_US'' ''Change SKU to US.'' ''changeSKUToUS'',
      leaf ''SKU_AU'' ''Change SKU to AU.'' ''changeSKUToAU'',
      leaf ''SKU_JP'' ''Change SKU to JP.'' ''changeSKUToJP'',
      leaf ''SKU_LA'' ''Change SKU to AU.'' ''changeSKUToAU'',
      leaf ''SKU_BR'' ''Change SKU to BR.'' ''changeSKUToBR'',
      leaf ''SKU_CN'' ''Change SKU to CN.'' ''changeSKUToCN'',
      leaf ''SKU_KR'' ''Change SKU to KR.'' ''changeSKUToKR'',
      leaf ''SKU_G5'' ''Change SKU to G5.'' ''changeSKUToG5'']"

definition dot11dModeCmdTbl :: "entry list" where
  "dot11dModeCmdTbl =
     [leaf ''disable'' ''Disable 802.11d Mode'' ''dot11dModeCmdDisable'',
      leaf ''enable'' ''Enable 802.11d Mode'' ''dot11dModeCmdEnable'']"

definition wmeCmdTbl :: "entry list" where
  "wmeCmdTbl =
     [leaf ''disable'' ''Disable WMM'' ''wmeCliCmdDisable'',
      leaf ''enable'' ''Enable WMM'' ''wmeCliCmdEnable'']"

definition wmmpsCmdTbl :: "entry list" where
  "wmmpsCmdTbl =
     [leaf ''disable'' ''Disable WMM PowerSaving'' ''wmmpsCliCmdDisable'',
      leaf ''enable'' ''Enable WMM PowerSaving'' ''wmmpsCliCmdEnable'']"

definition outPowerCmdTbl :: "entry list" where
  "outPowerCmdTbl =
     [leaf ''100%'' ''100% of Maximum Out Power'' ''outPowerCliCmd100'',
      leaf ''79%'' ''79% of Maximum Out Power'' ''outPowerCliCmd79'',
      leaf ''63%'' ''63% of Maximum Out Power'' ''outPowerCliCmd63'',
      leaf ''50%'' ''50% of Maximum Out Power'' ''outPowerCliCmd50'',
      leaf ''40%'' ''40% of Maximum Out Power'' ''outPowerCliCmd40'',
      leaf ''32%'' ''32% of Maximum Out Power'' ''outPowerCliCmd32'',
      leaf ''25%'' ''25% of Maximum Out Power'' ''outPowerCliCmd25'',
      leaf ''20%'' ''20% of Maximum Out Power'' ''outPowerCliCmd20'',
      leaf ''16%'' ''16% of Maximum Out Power'' ''outPowerCliCmd16'',
      leaf ''13%'' ''13% of Maximum Out Power'' ''outPowerCliCmd13'',
      leaf ''10%'' ''10% of Maximum Out Power'' ''outPowerCliCmd10'',
      leaf ''8%'' ''8% of Maximum Out Power'' ''outPowerCliCmd8'',
      leaf ''6%'' ''6% of Maximum Out Power'' ''outPowerCliCmd6'',
      leaf ''5%'' ''5% of Maximum Out Power'' ''outPowerCliCmd5'']"

definition shortPreambleCmdTbl :: "entry list" where
  "shortPreambleCmdTbl =
     [leaf ''disable'' ''Disable Short Preamble (Use Only Long)'' ''shortPreambleCliCmdDisable'',
      leaf ''enable'' ''Enable Short and Long Preamble'' ''shortPreambleCliCmdEnable'']"

definition interVapForwardingCmdTbl :: "entry list" where
  "interVapForwardingCmdTbl =
     [leaf ''disable'' ''Disable Isolate Between SSID'' ''interVapForwardingCliCmdDisable'',
      leaf ''enable'' ''Enable Isolate Between SSID'' ''interVapForwardingCliCmdEnable'']"

definition ssidModeCmdTbl :: "entry list" where
  "ssidModeCmdTbl =
     [leaf ''disable'' ''Disable SSID Broadcast'' ''ssidModeCliCmdDisable'',
      leaf ''enable'' ''Enable SSID Broadcast'' ''ssidModeCliCmdEnable'']"

definition lltdModeCmdTbl :: "entry list" where
  "lltdModeCmdTbl =
     [leaf ''disable'' ''Disable LLTD'' ''lltdModeCliCmdDisable'',
      leaf ''enable'' ''Enable LLTD'' ''lltdModeCliCmdEnable'']"

definition authCmdTbl :: "entry list" where
  "authCmdTbl =
     [leaf ''open'' ''Select Open-System Authentication Type'' ''authCliCmdOpen'',
      leaf ''shared'' ''Select Shared-Key Authentication Type'' ''authCliCmdShared'']"

definition encryCmdTbl :: "entry list" where
  "encryCmdTbl =
     [leaf ''TKIP'' ''Select TKIP Encryption Algorithm Type'' ''encryCliCmdTkip'',
      leaf ''AES'' ''Select AES Encryption Algorithm Type'' ''encryCliCmdAes'']"

definition secCmdTbl :: "entry list" where
  "secCmdTbl =
     [branch ''wep'' ''WEP Mode(Open/Share)'' authCmdTbl,
      leaf ''wpapsk'' ''WPA-Personal Mode'' ''secCliCmdWpapsk'',
      leaf ''wpa2psk'' ''WPA2-Personal Mode'' ''secCliCmdWpa2psk'',
      leaf ''wpa2pskmixed'' ''WPA/WPA2-Personal Mixed Mode'' ''secCliCmdWpapskauto'',
      leaf ''wparadius'' ''WPA-Enterprise Mode'' ''secCliCmdWpa'',
      leaf ''wpa2radius'' ''WPA2-Enterprise Mode'' ''secCliCmdWpa2'',
      leaf ''wpa2radiusmixed'' ''WPA/WPA2-Enterprise Mixed Mode'' ''secCliCmdWpaauto'',
      leaf ''radius'' ''RADIUS Mode'' ''secCliCmdRadius'',
      leaf ''disable'' ''None Security Mode'' ''secCliCmdNone'']"

definition ethAutoNegoCmdTbl :: "entry list" where
  "ethAutoNegoCmdTbl =
     [leaf ''1'' ''Auto Negotiation Enable'' ''ethAutoNegoCliCmdEnable'',
      leaf ''0'' ''Auto Negotiation Disable'' ''ethAutoNegoCliCmdDisable'']"

definition ethDuplexModeCmdTbl :: "entry list" where
  "ethDuplexModeCmdTbl =
     [leaf ''1'' ''Full Duplex Mode'' ''ethDuplexModeCliCmdFull'',
      leaf ''0'' ''Half Duplex Mode'' ''ethDuplexModeCliCmdHalf'']"

definition ethDataRateCmdTbl :: "entry list" where
  "ethDataRateCmdTbl =
     [leaf ''auto'' ''Auto detect'' ''ethDataRateCliCmdAuto'',
      leaf ''1000'' ''1000Mbps'' ''ethDataRateCliCmd1000'',
      leaf ''100'' ''100Mbps'' ''ethDataRateCliCmd100'',
      leaf ''10'' ''10Mbps'' ''ethDataRateCliCmd10'']"

definition countryCodeCmdTbl :: "entry list" where
  "countryCodeCmdTbl =
     [leaf ''UnitedStates'' ''Country Code: 840'' ''countryCodeCliCmdSet'',
      leaf ''Australia'' ''Country Code: 36'' ''countryCodeCliCmdSet'',
      leaf ''Brazil'' ''Country Code: 76'' ''countryCodeCliCmdSet'',
      leaf ''China'' ''Country Code: 156'' ''countryCodeCliCmdSet'',
      leaf ''Asia'' ''Country Code: 1702'' ''countryCodeCliCmdSet'',
      leaf ''Denmark'' ''Country Code: 208'' ''countryCodeCliCmdSet'',
      leaf ''Europe'' ''Country Code: 1276'' ''countryCodeCliCmdSet'',
      leaf ''Finland'' ''Country Code: 246'' ''countryCodeCliCmdSet'',
      leaf ''France'' ''Country Code: 250'' ''countryCodeCliCmdSet'',
      leaf ''Germany'' ''Country Code: 276'' ''countryCodeCliCmdSet'',
      leaf ''ireland'' ''Country Code: 372'' ''countryCodeCliCmdSet'',
      leaf ''Italy'' ''Country Code: 380'' ''countryCodeCliCmdSet'',
      leaf ''Japan'' ''Country Code: 392'' ''countryCodeCliCmdSet'',
      leaf ''Netherlands'' ''Country Code: 528'' ''countryCodeCliCmdSet'',
      leaf ''NewZealand'' ''Country Code: 554'' ''countryCodeCliCmdSet'',
      leaf ''Norway'' ''Country Code: 578'' ''countryCodeCliCmdSet'',
      leaf ''Spain'' ''Country Code: 724'' ''countryCodeCliCmdSet'',
      leaf ''Sweden'' ''Country Code: 752'' ''countryCodeCliCmdSet'',
      leaf ''Switzerland'' ''Country Code: 756'' ''countryCodeCliCmdSet'',
      leaf ''UnitedKingdom'' ''Country Code: 826'' ''countryCodeCliCmdSet'',
      leaf ''Mexico'' ''Country Code: 484'' ''countryCodeCliCmdSet'',
      leaf ''PuertoRico'' ''Country Code: 630'' ''countryCodeCliCmdSet'',
      leaf ''SouthAmerica'' ''Country Code: 1076'' ''countryCodeCliCmdSet'']"

definition httpCmdTbl :: "entry list" where
  "httpCmdTbl =
     [leaf ''disable'' ''Disable HTTP'' ''httpCliCmdDisable'',
      leaf ''enable'' ''Enable HTTP'' ''httpCliCmdEnable'']"

definition httpsCmdTbl :: "entry list" where
  "httpsCmdTbl =
     [leaf ''disable'' ''Disable HTTPS'' ''httpsCliCmdDisable'',
      leaf ''enable'' ''Enable HTTPS'' ''httpsCliCmdEnable'']"

definition multienhanceCmdTbl :: "entry list" where
  "multienhanceCmdTbl =
     [leaf ''disable'' ''Disable Multicast Packets Enhancement'' ''multienhanceDisable'',
      leaf ''enable'' ''Enable Multicast Packets Enhancement'' ''multienhanceEnable'']"

definition emailalertCmdTbl :: "entry list" where
  "emailalertCmdTbl =
     [leaf ''disable'' ''Disable Email Alert'' ''emailAlertCliCmdDisable'',
      leaf ''enable'' ''Enable Email Alert'' ''emailAlertCliCmdEnable'']"

definition loginsuccessCmdTbl :: "entry list" where
  "loginsuccessCmdTbl =
     [leaf ''disable'' ''Disable Unauthorized Login Attempt'' ''loginSuccessCliCmdDisable'',
      leaf ''enable'' ''Enable Unauthorized Login Attempt'' ''loginSuccessCliCmdEnable'']"

definition loginfailCmdTbl :: "entry list" where
  "loginfailCmdTbl =
     [leaf ''disable'' ''Disable Authorized Login'' ''loginFailCliCmdDisable'',
      leaf ''enable'' ''Enable Authorized Login'' ''loginFailCliCmdEnable'']"

definition syserrorCmdTbl :: "entry list" where
  "syserrorCmdTbl =
     [leaf ''disable'' ''Disable System Error Messages'' ''sysErrorCliCmdDisable'',
      leaf ''enable'' ''Enable System Error Messages'' ''sysErrorCliCmdEnable'']"

definition confchangeCmdTbl :: "entry list" where
  "confchangeCmdTbl =
     [leaf ''disable'' ''Disable Configuration Changes'' ''confChangeCliCmdDisable'',
      leaf ''enable'' ''Enable Configuration Changes'' ''confChangeCliCmdEnable'']"

definition bonjourmodeCmdTbl :: "entry list" where
  "bonjourmodeCmdTbl =
     [leaf ''disable'' ''Disable Bonjour'' ''BonjourModeCliCmdDisable'',
      leaf ''enable'' ''Enable Bonjour'' ''BonjourModeCliCmdEnable'']"

definition wpsmodeCmdTbl :: "entry list" where
  "wpsmodeCmdTbl =
     [leaf ''disable'' ''Disable WPS'' ''WpsModeCliCmdDisable'',
      leaf ''enable'' ''Enable WPS'' ''WpsModeCliCmdEnable'']"

definition wpsPinERCmdTbl :: "entry list" where
  "wpsPinERCmdTbl =
     [leaf ''disable'' ''Disable WPS PIN External Registrar'' ''WpsPinERCliCmdDisable'',
      leaf ''enable'' ''Enable WPS PIN External Registrar'' ''WpsPinERCliCmdEnable'']"

definition autoRebootCmdTbl :: "entry list" where
  "autoRebootCmdTbl =
     [leaf ''disable'' ''Disable Daily Reboot'' ''AutoRebootCliCmdDisable'',
      leaf ''enable'' ''Enable Daily Reboot'' ''AutoRebootCliCmdEnable'']"

definition force100mmodeCmdTbl :: "entry list" where
  "force100mmodeCmdTbl =
     [leaf ''disable'' ''Disable Force LAN Port Speed to 100M'' ''force100mModeCliCmdDisable'',
      leaf ''enable'' ''Enable Force LAN Port Speed to 100M'' ''force100mModeCliCmdEnable'']"

definition httpredirectmodeCmdTbl :: "entry list" where
  "httpredirectmodeCmdTbl =
     [leaf ''disable'' ''Disable HTTP Redirct'' ''httpRDModeCliCmdDisable'',
      leaf ''enable'' ''Enable HTTP Redirct'' ''httpRDModeCliCmdEnable'']"

definition ipv6modeCmdTbl :: "entry list" where
  "ipv6modeCmdTbl =
     [leaf ''disable'' ''Disable IPv6'' ''ipv6ModeCliCmdDisable'',
      leaf ''enable'' ''Enable IPv6'' ''ipv6ModeCliCmdEnable'']"

definition timemodeCmdTbl :: "entry list" where
  "timemodeCmdTbl =
     [leaf ''auto'' ''Disable Manual'' ''timeModeCliCmdDisable'',
      leaf ''manual'' ''Enable Manual'' ''timeModeCliCmdEnable'']"

definition ntpmodeCmdTbl :: "entry list" where
  "ntpmodeCmdTbl =
     [leaf ''disable'' ''Disable NTP'' ''ntpModeCliCmdDisable'',
      leaf ''enable'' ''Enable NTP'' ''ntpModeCliCmdEnable'']"

definition wlanaccessmodeCmdTbl :: "entry list" where
  "wlanaccessmodeCmdTbl =
     [leaf ''disable'' ''Disable Wireless Web Access'' ''wlanAccessModeCliCmdDisable'',
      leaf ''enable'' ''Enable Wireless Web Access'' ''wlanAccessModeCliCmdEnable'']"

definition sshmodeCmdTbl :: "entry list" where
  "sshmodeCmdTbl =
     [leaf ''disable'' ''Disable SSH'' ''sshModeCliCmdDisable'',
      leaf ''enable'' ''Enable SSH'' ''sshModeCliCmdEnable'']"

definition ctsprotectmodeCmdTbl :: "entry list" where
  "ctsprotectmodeCmdTbl =
     [leaf ''disable'' ''Disable CTS Protection'' ''ctsProtectModeCliCmdDisable'',
      leaf ''enable'' ''Auto CTS Protection'' ''ctsProtectModeCliCmdAuto'']"

definition loadbalancemodeCmdTbl :: "entry list" where
  "loadbalancemodeCmdTbl =
     [leaf ''disable'' ''Disable Load Balance'' ''loadBalanceModeCliCmdDisable'',
      leaf ''enable'' ''Enable Load Balance'' ''loadBalanceModeCliCmdEnable'']"

definition vlantagmodeCmdTbl :: "entry list" where
  "vlantagmodeCmdTbl =
     [leaf ''untagged'' ''Untagged Vlan Tag'' ''vlanTagModeCliCmdDisable'',
      leaf ''tagged'' ''Tagged Vlan Tag'' ''vlanTagModeCliCmdEnable'']"

definition vlanWDStagmodeCmdTbl :: "entry list" where
  "vlanWDStagmodeCmdTbl =
     [leaf ''disable'' ''Disable Vlan Tag'' ''vlanWDSTagModeCliCmdDisable'',
      leaf ''enable'' ''Enable Vlan Tag'' ''vlanWDSTagModeCliCmdEnable'']"

definition timesetCmdTbl :: "entry list" where
  "timesetCmdTbl =
     [leaf ''date'' ''Set Current System Dtae. Foramt : xxxx/xx/xx(year/month/day)'' ''todCliCmdSet'',
      leaf ''clock'' ''Set Current System Time. Foramt : xx:xx:xx(hour:minute:second)'' ''tocCliCmdSet'']"

definition timezoneCmdTbl :: "entry list" where
  "timezoneCmdTbl =
     [leaf ''001-12:00'' ''(GMT-12:00) International Date Line West'' ''timezoneCliCmdSet'',
      leaf ''002-11:00'' ''(GMT-11:00) Midway Island, Samoa'' ''timezoneCliCmdSet'',
      leaf ''003-10:00'' ''(GMT-10:00) Hawaii'' ''timezoneCliCmdSet'',
      leaf ''004-09:00'' ''(GMT-09:00) Alaska'' ''timezoneCliCmdSet'',
      leaf ''005-08:00'' ''(GMT-08:00) Pacific Time (US & Canada); Tijuana'' ''timezoneCliCmdSet'',
      leaf ''006-07:00'' ''(GMT-07:00) Arizona'' ''timezoneCliCmdSet'',
      leaf ''007-07:00'' ''(GMT-07:00) Chihuahua, La Paz, Mazatlan'' ''timezoneCliCmdSet'',
      leaf ''008-07:00'' ''(GMT-06:00) Mountain Time (US & Canada)'' ''timezoneCliCmdSet'',
      leaf ''009-06:00'' ''(GMT-06:00) Central America'' ''timezoneCliCmdSet'',
      leaf ''010-06:00'' ''(GMT-06:00) Central Time (US & Canada)'' ''timezoneCliCmdSet'',
      leaf ''011-06:00'' ''(GMT-06:00) Guadalajara, Mexico City, Monterrey'' ''timezoneCliCmdSet'',
      leaf ''012-06:00'' ''(GMT-06:00) Saskatchewan'' ''timezoneCliCmdSet'',
      leaf ''013-05:00'' ''(GMT-05:00) Bogota, Lima, Quito'' ''timezoneCliCmdSet'',
      leaf ''014-05:00'' ''(GMT-05:00) Eastern Time (US & Canada)'' ''timezoneCliCmdSet'',
      leaf ''015-05:00'' ''(GMT-05:00) Indiana (East)'' ''timezoneCliCmdSet'',
      leaf ''016-04:00'' ''(GMT-04:00) Atlantic Time (Canada)'' ''timezoneCliCmdSet'',
      leaf ''017-04:00'' ''(GMT-04:00) Caracas, La Paz'' ''timezoneCliCmdSet'',
      leaf ''018-04:00'' ''(GMT-04:00) Santiago'' ''timezoneCliCmdSet'',
      leaf ''019-03:00'' ''(GMT-03:00) Newfoundland'' ''timezoneCliCmdSet'',
      leaf ''020-03:00'' ''(GMT-03:00) Brasilia'' ''timezoneCliCmdSet'',
      leaf ''021-03:00'' ''(GMT-03:00) Buenos Aires, Georgetown'' ''timezoneCliCmdSet'',
      leaf ''022-03:00'' ''(GMT-03:00) Greenland'' ''timezoneCliCmdSet'',
      leaf ''023-02:00'' ''(GMT-02:00) Mid-Atlantic'' ''timezoneCliCmdSet'',
      leaf ''024-01:00'' ''(GMT-01:00) Azores'' ''timezoneCliCmdSet'',
      leaf ''025-01:00'' ''(GMT-01:00) Cape Verde Is.'' ''timezoneCliCmdSet'',
      leaf ''026+00:00'' ''(GMT) Casablanca, Monrovia'' ''timezoneCliCmdSet'',
      leaf ''027+00:00'' ''(GMT) Greenwich Mean Time : Dublin, Edinburgh, Lisbon, London'' ''timezoneCliCmdSet'',
      leaf ''028+01:00'' ''(GMT+01:00) Amsterdam, Berlin, Bern, Rome, Stockholm, Vienna'' ''timezoneCliCmdSet'',
      leaf ''029+01:00'' ''(GMT+01:00) Belgrade, Bratislava, Budapest, Ljubljana, Prague'' ''timezoneCliCmdSet'',
      leaf ''030+01:00'' ''(GMT+01:00) Brussels, Copenhagen, Madrid, Paris'' ''timezoneCliCmdSet'',
      leaf ''031+01:00'' ''(GMT+01:00) Sarajevo, Skopje, Warsaw, Zagreb'' ''timezoneCliCmdSet'',
      leaf ''032+01:00'' ''(GMT+01:00) West Central Africa'' ''timezoneCliCmdSet'',
      leaf ''033+02:00'' ''(GMT+02:00) Athens, Beirut, Istanbul, Minsk'' ''timezoneCliCmdSet'',
      leaf ''034+02:00'' ''(GMT+02:00) Bucharest'' ''timezoneCliCmdSet'',
      leaf ''035+02:00'' ''(GMT+02:00) Cairo'' ''timezoneCliCmdSet'',
      leaf ''036+02:00'' ''(GMT+02:00) Harare, Pretoria'' ''timezoneCliCmdSet'',
      leaf ''037+02:00'' ''(GMT+02:00) Helsinki, Kyiv, Riga, Sofia, Tallinn, Vilnius'' ''timezoneCliCmdSet'',
      leaf ''038+02:00'' ''(GMT+02:00) Jerusalem'' ''timezoneCliCmdSet'',
      leaf ''039+03:00'' ''(GMT+03:00) Baghdad'' ''timezoneCliCmdSet'',
      leaf ''040+03:00'' ''(GMT+03:00) Kuwait, Riyadh'' ''timezoneCliCmdSet'',
      leaf ''041+03:00'' ''(GMT+03:00) Moscow, St. Petersburg, Volgograd'' ''timezoneCliCmdSet'',
      leaf ''042+03:00'' ''(GMT+03:00) Nairobi'' ''timezoneCliCmdSet'',
      leaf ''043+03:30'' ''(GMT+03:30) Tehran'' ''timezoneCliCmdSet'',
      leaf ''044+04:00'' ''(GMT+03:30) Tehran'' ''timezoneCliCmdSet'',
      leaf ''045+04:00'' ''(GMT+04:00) Baku, Tbilisi, Yerevan'' ''timezoneCliCmdSet'',
      leaf ''046+04:30'' ''(GMT+04:30) Kabul'' ''timezoneCliCmdSet'',
      leaf ''047+05:00'' ''(GMT+05:00) Ekaterinburg'' ''timezoneCliCmdSet'',
      leaf ''048+05:00'' ''(GMT+05:00) Islamabad, Karachi, Tashkent'' ''timezoneCliCmdSet'',
      leaf ''049+05:30'' ''(GMT+05:30) Chennai, Kolkata, Mumbai, New Delhi'' ''timezoneCliCmdSet'',
      leaf ''050+05:45'' ''(GMT+05:45) Kathmandu'' ''timezoneCliCmdSet'',
      leaf ''051+06:00'' ''(GMT+06:00) Almaty, Novosibirsk'' ''timezoneCliCmdSet'',
      leaf ''052+06:00'' ''(GMT+06:00) Astana, Dhaka'' ''timezoneCliCmdSet'',
      leaf ''053+06:00'' ''(GMT+06:00) Sri Jayawardenepura'' ''timezoneCliCmdSet'',
      leaf ''054+06:00'' ''(GMT+06:00) Rangoon'' ''timezoneCliCmdSet'',
      leaf ''055+07:00'' ''(GMT+07:00) Bangkok, Hanoi, Jakarta'' ''timezoneCliCmdSet'',
      leaf ''056+07:00'' ''(GMT+07:00) Krasnoyarsk'' ''timezoneCliCmdSet'',
      leaf ''057+08:00'' ''(GMT+08:00) China, Hong Kong, Australia Western'' ''timezoneCliCmdSet'',
      leaf ''058+08:00'' ''(GMT+08:00) Irkutsk, Ulaan Bataar'' ''timezoneCliCmdSet'',
      leaf ''059+08:00'' ''(GMT+08:00) Kuala Lumpur, Singapore'' ''timezoneCliCmdSet'',
      leaf ''060+08:00'' ''(GMT+08:00) Perth'' ''timezoneCliCmdSet'',
      leaf ''061+08:00'' ''(GMT+08:00) Taipei'' ''timezoneCliCmdSet'',
      leaf ''062+09:00'' ''(GMT+09:00) Osaka, Sapporo, Tokyo'' ''timezoneCliCmdSet'',
      leaf ''063+09:00'' ''(GMT+09:00) Seoul'' ''timezoneCliCmdSet'',
      leaf ''064+09:00'' ''(GMT+09:00) Yakutsk'' ''timezoneCliCmdSet'',
      leaf ''065+09:30'' ''(GMT+09:30) Adelaide'' ''timezoneCliCmdSet'',
      leaf ''066+09:30'' ''(GMT+09:30) Darwin'' ''timezoneCliCmdSet'',
      leaf ''067+10:00'' ''(GMT+10:00) Brisbane'' ''timezoneCliCmdSet'',
      leaf ''068+10:00'' ''(GMT+10:00) Canberra, Melbourne, Sydney'' ''timezoneCliCmdSet'',
      leaf ''069+10:00'' ''(GMT+10:00) Guam, Port Moresby'' ''timezoneCliCmdSet'',
      leaf ''070+10:00'' ''(GMT+10:00) Hobart'' ''timezoneCliCmdSet'',
      leaf ''071+10:00'' ''(GMT+10:00) Vladivostok'' ''timezoneCliCmdSet'',
      leaf ''072+11:00'' ''(GMT+11:00) Magadan, Solomon Ls., New Caledonia'' ''timezoneCliCmdSet'',
      leaf ''073+12:00'' ''(GMT+12:00) Auckland, Wellington'' ''timezoneCliCmdSet'',
      leaf ''074+12:00'' ''(GMT+12:00) Fiji, Kamchatka, Marshall ls.'' ''timezoneCliCmdSet'',
      leaf ''075+13:00'' ''(GMT+13:00) Nuku alofa'' ''timezoneCliCmdSet'']"

definition daylightModeCmdTbl :: "entry list" where
  "daylightModeCmdTbl =
     [leaf ''disable'' ''Disable daylight'' ''daylightCliCmdDisable'',
      leaf ''enable'' ''Enable daylight'' ''daylightCliCmdEnable'']"

definition snmpModeCmdTbl :: "entry list" where
  "snmpModeCmdTbl =
     [leaf ''disable'' ''Disable SNMP'' ''snmpCliCmdDisable'',
      leaf ''enable'' ''Enable SNMP'' ''snmpCliCmdEnable'']"

definition snmpManageCmdTbl :: "entry list" where
  "snmpManageCmdTbl =
     [leaf ''any'' ''Any Station'' ''snmpManageCliCmdAny'',
      leaf ''ipstart'' ''from this Station'' ''snmpManageCliCmdIpStart'',
      leaf ''ipend'' ''to this Station'' ''snmpManageCliCmdIpEnd'']"

definition snmpTrapModeCmdTbl :: "entry list" where
  "snmpTrapModeCmdTbl =
     [leaf ''broadcast'' ''Broadcast the SNMP Trap'' ''snmpTrapCliCmdBroadcast'',
      leaf ''unicast'' ''Unicast the SNMP Trap'' ''snmpTrapCliCmdUnicast'']"

definition syslogCmdTbl :: "entry list" where
  "syslogCmdTbl =
     [leaf ''disable'' ''Disable Syslog'' ''syslogCliCmdDisable'',
      leaf ''enable'' ''Enable Syslog'' ''syslogCliCmdEnable'']"

definition roguetypeCmdTbl :: "entry list" where
  "roguetypeCmdTbl =
     [leaf ''inseurity'' ''Set Rogue AP Type as No Security'' ''roguetype1CliCmdEnable'',
      leaf ''illegal'' ''Set Rogue AP Type as Not in Legal AP List'' ''roguetype2CliCmdEnable'',
      leaf ''both'' ''Set Rogue AP Type as Both No Security and Not in Legal AP List'' ''roguetype3CliCmdEnable'']"

definition roguelegalCmdTbl :: "entry list" where
  "roguelegalCmdTbl =
     [leaf ''add'' ''Add a AP MAC/OUI into Legal AP List'' ''roguelegalCmdAdd'',
      leaf ''delete'' ''Delete a AP MAC/OUI from Legal AP List'' ''roguelegalCmdDel'']"

subsection \<open>The commands\<close>

definition getCmdTbl :: "entry list" where
  "getCmdTbl =
     [leaf ''11nguardinterval'' ''Set 11n Guard Interval Mode'' ''dot11nGuardIntervalCliCmdGet'',
      leaf ''11nchanbandwidth'' ''Set 11n Channel Bandwidth'' ''dot11nRadioBandCliCmdGet'',
      leaf ''802_11d'' ''Display 802.11d Mode'' ''dot11dModeCliCmdGet'',
      leaf ''acl'' ''Display Access Control Status'' ''aclCliCmdGet'',
      leaf ''acltype'' ''Display Access Control Local Mode'' ''aclLocalModeCliCmdGet'',
      leaf ''active'' ''Display VAP Active (up) Mode'' ''activeModeCliCmdGet'',
      leaf ''authentication'' ''Display Authentication Type of WEP'' ''authCliCmdGet'',
      leaf ''beaconinterval'' ''Display Beacon Interval,(Range:20 ~ 1000)'' ''beaconCliCmdGet'',
      leaf ''channel'' ''Display Radio Channel'' ''chanCliCmdGet'',
      leaf ''country'' ''Display Country/Domain'' ''countryCodeCliCmdGet'',
      leaf ''ethdatarate'' ''Display Ethernet Data Rate'' ''ethDataRateCliCmdGet'',
      leaf ''ethAutoNegotiation'' ''Display Ethernet Negotiation Mode'' ''ethAutoNego'',
      leaf ''ethDuplexMode'' ''Display Ethernet Duplex Mode'' ''ethDuplexModeGet'',
      leaf ''ctsprotect'' ''Display CTS Protect Mode'' ''ctsProtectModeCliCmdGet'',
      leaf ''defaultkey'' ''Display Default Key Index'' ''defaultKeyCliCmdGet'',
      leaf ''devicename'' ''Display Access Point Dvice Name'' ''devicenameCliCmdGet'',
      leaf ''dhcp'' ''Display DHCPv4 Mode'' ''dhcpModeCliCmdGet'',
      leaf ''dhcpv6'' ''Display DHCPv6 Mode'' ''dhcpv6ModeCliCmdGet'',
      leaf ''dns2server'' ''Display IP Address of Secondary DNS Server'' ''nameSrv2CliCmdGet'',
      leaf ''dnsserver'' ''Display IP Address of DNS Server'' ''nameSrvCliCmdGet'',
      leaf ''dot1xdynkeylife'' ''Display 802.1x Dynamic Key Life Time (in Seconds)'' ''dot1xKeyLifeCliCmdGet'',
      leaf ''dtiminterval'' ''Display DTIM interval,(Range:1 ~ 255)'' ''dtimModeCliCmdGet'',
      leaf ''emailaddress'' ''Display Email Address for Log'' ''emailAddressCliCmdGet'',
      leaf ''emailalert'' ''Display Email Alert Mode'' ''emailAlertCliCmdGet'',
      leaf ''emailinterval'' ''Display Email Time Threshold'' ''emailSendPeriodCliCmdGet'',
      leaf ''emailqueue'' ''Display Email Queue Length'' ''emailQueueLengthCliCmdGet'',
      leaf ''emailserver'' ''Display Email Alert Server'' ''emailServerCliCmdGet'',
      leaf ''encryption'' ''WPA encryption Algorithm(TKIP/AES)'' ''encryptionCliCmdGet'',
      leaf ''fragthreshold'' ''Display Fragment Threshold,(Default: 2346, Range: 256 ~ 2346)'' ''fragCliCmdGet'',
      leaf ''fwversion'' ''Display Firmware Version'' ''fwversionCmdGet'',
      leaf ''gateway'' ''Display Gateway IP Address'' ''gatewayCliCmdGet'',
      leaf ''hostname'' ''Display Access Point Host Name'' ''hostnameCliCmdGet'',
      leaf ''bonjour'' ''Display Bonjour Mode'' ''BonjourModeCliCmdGet'',
      leaf ''wps'' ''Display WPS Status'' ''WpsModeCliCmdGet'',
      leaf ''wps_pin'' ''Display WPS PIN'' ''WpsPinCliCmdGet'',
      leaf ''wps_pin_er'' ''Display WPS PIN External Registrar'' ''WpsPinERCliCmdGet'',
      leaf ''forcelan100m'' ''Display Force LAN Port Speed to 100M'' ''force100mModeCliCmdGet'',
      leaf ''httpredirect'' ''Display HTTP Redirect Mode'' ''httpRDModeCliCmdGet'',
      leaf ''httpredirectURL'' ''Display HTTP Redirect URL'' ''httpURLCliCmdGet'',
      leaf ''https'' ''Display HTTPS Mode'' ''httpsCliCmdGet'',
      leaf ''pidvid'' ''Display PID VID'' ''hwversionCliCmdGet'',
      leaf ''ipaddr'' ''Display IP Address'' ''ipAddrCliCmdGet'',
      leaf ''ipmask'' ''Display IP Subnet Mask'' ''ipMaskCliCmdGet'',
      leaf ''ipv6'' ''Display IPv6 Mode'' ''ipv6ModeCliCmdGet'',
      leaf ''ipv6addr'' ''Display IPv6 Local Address'' ''ipv6AddrCliCmdGet'',
      leaf ''ipv6dns1'' ''Display IPv6 Primary DNS Server'' ''ipv6dns1CliCmdGet'',
      leaf ''ipv6dns2'' ''Display IPv6 Secondary DNS Server'' ''ipv6dns2CliCmdGet'',
      leaf ''ipv6gateway'' ''Display IPv6 Default Gateway'' ''ipv6gatewayCliCmdGet'',
      leaf ''isolationbetweenssid'' ''Display Isolate All Virtual APs State'' ''interVapForwardingCliCmdGet'',
      leaf ''isolationwithinssid'' ''Display Isolation within VAP'' ''sepCliCmdGet'',
      leaf ''key'' ''Display WEP Key Value'' ''keyCliCmdGet'',
      leaf ''keylength'' ''Display WEP Key Length'' ''keyLengthCliCmdGet'',
      leaf ''keyrenew'' ''Display Group Key Update Interval (in Seconds)'' ''groupKeyUpdateIntervalCliCmdGet'',
      leaf ''lltd'' ''Display LLTD Mode'' ''lltdModeCliCmdGet'',
      leaf ''loadbalance'' ''Display Load Balance Mode'' ''loadBalanceModeCliCmdGet'',
      leaf ''loadbalancessid'' ''Display Load Balance SSID'' ''loadBalanceSSIDCliCmdGet'',
      leaf ''logconfchange'' ''Display Log Configuration Changes Mode'' ''confChangeCliCmdGet'',
      leaf ''logfail'' ''Display Log Authorized Login Mode'' ''loginFailCliCmdGet'',
      leaf ''logsuccess'' ''Display Log Unauthorized Login Attempt Mode'' ''loginSuccessCliCmdGet'',
      leaf ''logsyserror'' ''Display Log System Error Messages Mode'' ''sysErrorCliCmdGet'',
      leaf ''mcastenhance'' ''Display Multicast Packets Enhancement Mode'' ''menhanceCliCmdGet'',
      leaf ''md5supplicant'' ''Display 802.1x MD5 Supplicant Mode'' ''dot1xSuppCliCmdGet'',
      leaf ''md5suppname'' ''Display 802.1x Supplicant MD5 Name'' ''dot1xSuppUserCliCmdGet'',
      leaf ''md5supppassword'' ''Display 802.1x Supplicant MD5 Password'' ''dot1xSuppPassCliCmdGet'',
      leaf ''md5supptype'' ''Display 802.1x MD5 Supplicant Type'' ''dot1xSuppTypeCliCmdGet'',
      leaf ''nativevlanid'' ''Display Native VLAN ID'' ''nativeVlanIdCliCmdGet'',
      leaf ''ntp'' ''Display NTP Mode'' ''ntpModeCliCmdGet'',
      leaf ''ntpserver'' ''Display NTP Server IP Address'' ''ntpServerCliCmdGet'',
      leaf ''operationmode'' ''Display Operation Mode'' ''opModeCliCmdGet'',
      leaf ''password'' ''Display Login Password'' ''passwordCliCmdGet'',
      leaf ''priority'' ''Display Priority'' ''priorityCliCmdGet'',
      leaf ''psk'' ''Display Pre-shared Key'' ''pskCliCmdGet'',
      branch ''radiusserver'' ''Display RADIUS Server IP Address'' radiusSrvCliCmdGetTbl,
      branch ''radiusport'' ''Display RADIUS Port Number'' radiusPortCliCmdGetTbl,
      branch ''radiussecret'' ''Display RADIUS Shared Secret'' radiusSecretCliCmdGetTbl,
      leaf ''bridgemac'' ''Display WDS Bridge's Remote MAC Address List'' ''remotePtmpMacListCliCmdGet'',
      leaf ''repeatermac'' ''Display WDS Repeater's Remote MAC Address'' ''remotePtpMacAddrCliCmdGet'',
      leaf ''remotessid'' ''Display UC/UR's Remote SSID'' ''remotessidCliCmdGet'',
      leaf ''remoteucr'' ''Display UC/UR's Remote MAC Address'' ''remoteUcrMacAddrCliCmdGet'',
      leaf ''roguelegal'' ''Display Legal AP List of Legal AP'' ''roguelegalCmdGet'',
      leaf ''roguetype'' ''Display Rogue AP Definition'' ''roguetypeCmdGet'',
      leaf ''rtsthreshold'' ''Display RTS Threshold,(Default: 2347, Range: 1 ~ 2347)'' ''rtsCliCmdGet'',
      leaf ''security'' ''Display Wireless Security Mode'' ''secCliCmdGet'',
      leaf ''snmpcontact'' ''Display SNMP Contact'' ''snmpContactCliCmdGet'',
      leaf ''snmpdevice'' ''Display SNMP Devic Name'' ''snmpDeviceNameCliCmdGet'',
      leaf ''snmplocation'' ''Display SNMP Location'' ''snmpLocationCliCmdGet'',
      leaf ''snmpreadcommunity'' ''Display SNMP Read Community'' ''snmpReadComCliCmdGet'',
      leaf ''snmptrapcommunity'' ''Display SNMP Trap Community'' ''snmpTrapComCliCmdGet'',
      leaf ''snmpwritecommunity'' ''Display SNMP Write Community'' ''snmpWriteComCliCmdGet'',
      leaf ''snmpmode'' ''Display SNMP Mode'' ''snmpModeCliCmdGet'',
      leaf ''ssh'' ''Display SSH Mode'' ''sshModeCliCmdGet'',
      leaf ''ssid'' ''Display Service Set ID'' ''ssidCliCmdGet'',
      leaf ''ssidbroadcast'' ''Display SSID Broadcast Mode'' ''ssidModeCliCmdGet'',
      leaf ''syslog'' ''Display Syslog Mode'' ''syslogCliCmdGet'',
      leaf ''syslogserver'' ''Display Unicast Syslog Server Address'' ''syslogSrvCliCmdGet'',
      leaf ''time'' ''Display Current System Time'' ''todCliCmdGet'',
      leaf ''timemode'' ''Display Time Mode'' ''timeModeCliCmdGet'',
      leaf ''timezone'' ''Display Time Zone Setting'' ''timezoneCliCmdGet'',
      leaf ''daylight'' ''Display Automatically adjust clock for daylight saving changes'' ''daylightModeCliCmdGet'',
      leaf ''uptime'' ''Display Access Point Up Time'' ''uptimeCliCmdGet'',
      leaf ''username'' ''Display Login User Name'' ''usernameCliCmdGet'',
      leaf ''vlan'' ''Display VLAN Operational State'' ''vlanModeCliCmdGet'',
      leaf ''vlandefault'' ''Display AP Default VLAN'' ''defaultvlanCliCmdGet'',
      leaf ''vlanid'' ''Display the VLAN ID'' ''vlanPvidCliCmdGet'',
      leaf ''vlanmanagement'' ''Display AP Management VLAN'' ''magvlanCliCmdGet'',
      leaf ''vlantag'' ''Display Vlan Tag Mode'' ''vlanTagModeCliCmdGet'',
      leaf ''vlantagoverwds'' ''Display Vlan Tag Over WDS Mode'' ''vlanWDSTagModeCliCmdGet'',
      leaf ''wlanaccess'' ''Display Wireless Web Access Mode'' ''wlanAccessModeCliCmdGet'',
      leaf ''wirelessmode'' ''Display Wireless LAN Mode'' ''wirelessModeCliCmdGet'',
      leaf ''wmm'' ''Display WMM Mode'' ''wmeCliCmdGet'',
      leaf ''wmmps'' ''Display WMM PowerSaving Mode'' ''wmmpsCliCmdGet'']"

definition setCmdTbl :: "entry list" where
  "setCmdTbl =
     [branch ''11nguardinterval'' ''Set 11n Guard Interval Mode'' dot11nGuardIntervalCmdTbl,
      branch ''11nchanbandwidth'' ''Set 11n Channel Bandwidth'' dot11nRadioBandCmdTbl,
      branch ''802_11d'' ''Set 802.11d Mode'' dot11dModeCmdTbl,
      branch ''acl'' ''Set Access Control'' aclCmdTbl,
      branch ''active'' ''Set Active (up) Mode'' activeModeCmdTbl,
      branch ''authentication'' ''Set Authentication Type of WEP'' authCmdTbl,
      leaf ''beaconinterval'' ''Set Beacon Interval'' ''beaconCliCmdSet'',
      branch ''bridgemac'' ''Set Bridge's Remote MAC Address List'' remotePtmpMacListCmdTbl,
      leaf ''channel'' ''Set Radio Channel'' ''chanCliCmdSet'',
      branch ''country'' ''Set Country/Domain'' countryCodeCmdTbl,
      branch ''ethdatarate'' ''Set Ethernet Data Rate'' ethDataRateCmdTbl,
      branch ''ethAutoNegotiation'' ''Set Ethernet Auto Negotiation Mode'' ethAutoNegoCmdTbl,
      branch ''ethDuplexMode'' ''Set Ethernet Duplex Mode'' ethDuplexModeCmdTbl,
      branch ''ctsprotect'' ''Set CTS Protect Mode'' ctsprotectmodeCmdTbl,
      branch ''daylight'' ''Set Automatically adjust clock for daylight saving changes'' daylightModeCmdTbl,
      leaf ''defaultkey'' ''Set Default Key Index'' ''defaultKeyCliCmdSet'',
      leaf ''devicename'' ''Set Access Point Dvice Name'' ''devicenameCliCmdSet'',
      branch ''dhcp'' ''Set DHCPv4 Mode'' dhcpCmdTbl,
      branch ''dhcpv6'' ''Set DHCPv6 Mode'' dhcpv6CmdTbl,
      leaf ''dns2server'' ''Set IP Address of Secondary DNS Server'' ''nameSrv2CliCmdSet'',
      leaf ''dnsserver'' ''Set DNS Server IP Address'' ''nameSrvCliCmdSet'',
      leaf ''dot1xdynkeylife'' ''Set 802.1x Dynamic Key Life Time (in Seconds)'' ''dot1xKeyLifeCliCmdSet'',
      leaf ''dtiminterval'' ''Set DTIM interval,(Range:1 ~ 255)'' ''dtimModeCliCmdSet'',
      leaf ''emailaddress'' ''Set Email Address for Log'' ''emailAddressCliCmdSet'',
      branch ''emailalert'' ''Set Email Alert Mode'' emailalertCmdTbl,
      leaf ''emailinterval'' ''Set Email Time Threshold'' ''emailSendPeriodCliCmdSet'',
      leaf ''emailqueue'' ''Set Email Queue Length'' ''emailQueueLengthCliCmdSet'',
      leaf ''emailserver'' ''Set Email Alert Server'' ''emailServerCliCmdSet'',
      branch ''encryption'' ''Set WPA encryption Algorithm(TKIP/AES)'' encryCmdTbl,
      leaf ''fragthreshold'' ''Set Fragment Threshold'' ''fragCliCmdSet'',
      leaf ''gateway'' ''Set Gateway IP Address'' ''gatewayCliCmdSet'',
      leaf ''hostname'' ''Set Access Point Host Name'' ''hostnameCliCmdSet'',
      branch ''bonjour'' ''Set Bonjour Mode'' bonjourmodeCmdTbl,
      branch ''wps'' ''Set WPS Mode'' wpsmodeCmdTbl,
      leaf ''wps_pin'' ''Set WPS PIN'' ''WpsPinCliCmdSet'',
      branch ''wps_pin_er'' ''Set WPS PIN External Registrar'' wpsPinERCmdTbl,
      branch ''forcelan100m'' ''Set Force LAN Port Speed to 100M'' force100mmodeCmdTbl,
      branch ''httpredirect'' ''Set HTTP Redirect Mode'' httpredirectmodeCmdTbl,
      leaf ''httpredirectURL'' ''Set HTTP Redirect URL'' ''httpURLCliCmdSet'',
      branch ''https'' ''Set HTTPS Enable/Disable'' httpsCmdTbl,
      leaf ''ipaddr'' ''Set IP Address'' ''ipAddrCliCmdSet'',
      leaf ''ipmask'' ''Set IP Subnet Mask'' ''ipMaskCliCmdSet'',
      branch ''ipv6'' ''Set IPv6 Mode'' ipv6modeCmdTbl,
      leaf ''ipv6addr'' ''Set IPv6 Local Address'' ''ipv6AddrCliCmdSet'',
      leaf ''ipv6dns1'' ''Set IPv6 Primary DNS Server'' ''ipv6dns1CliCmdSet'',
      leaf ''ipv6dns2'' ''Set IPv6 Secondary DNS Server'' ''ipv6dns2CliCmdSet'',
      leaf ''ipv6gateway'' ''Set IPv6 Default Gateway'' ''ipv6gatewayCliCmdSet'',
      branch ''isolationbetweenssid'' ''Set Isolate All Virtual APs State'' interVapForwardingCmdTbl,
      branch ''isolationwithinssid'' ''Set Isolation within VAP'' sepCmdTbl,
      leaf ''key'' ''Set WEP Key Value'' ''keyCliCmdSet'',
      leaf ''keylength'' ''Set WEP Key Length'' ''keyLengthCliCmdSet'',
      leaf ''keyrenew'' ''Set Group Key Update Interval (in Seconds)'' ''groupKeyUpdateIntervalCliCmdSet'',
      branch ''lltd'' ''Set LLTD Mode'' lltdModeCmdTbl,
      branch ''loadbalance'' ''Set Load Balance Mode'' loadbalancemodeCmdTbl,
      leaf ''loadbalancessid'' ''Set Load Balance SSID'' ''loadBalanceSSIDCliCmdSet'',
      branch ''logconfchange'' ''Set Log Configuration Changes Mode'' confchangeCmdTbl,
      branch ''logfail'' ''Set Log Authorized Login Mode'' loginfailCmdTbl,
      branch ''logsuccess'' ''Set Log Unauthorized Login Attempt Mode'' loginsuccessCmdTbl,
      branch ''logsyserror'' ''Set Log System Error Messages Mode'' syserrorCmdTbl,
      branch ''mcastenhance'' ''Set Multicast Packets Enhancement Enable/Disable'' multienhanceCmdTbl,
      branch ''md5supplicant'' ''Set 802.1x MD5 Supplicant Mode'' dot1xSuppCmdTbl,
      leaf ''md5suppname'' ''Set 802.1x Supplicant MD5 Name'' ''dot1xSuppUserCliCmdSet'',
      leaf ''md5supppassword'' ''Set 802.1x Supplicant MD5 Password'' ''dot1xSuppPassCliCmdSet'',
      branch ''md5supptype'' ''Set 802.1x MD5 Supplicant Type'' dot1xSuppTypeCmdTbl,
      leaf ''nativevlanid'' ''Set Native VLAN ID'' ''nativeVlanIdCliCmdSet'',
      branch ''ntp'' ''Set NTP Mode'' ntpmodeCmdTbl,
      leaf ''ntpserver'' ''Set NTP Server IP Address'' ''ntpServerCliCmdSet'',
      branch ''operationmode'' ''Set operation Mode'' opModeCmdTbl,
      leaf ''password'' ''Modify Login Password'' ''passwordCliCmdSet'',
      leaf ''priority'' ''Set Priority'' ''priorityCliCmdSet'',
      leaf ''psk'' (''Modify Pre-shared Key. For example, set psk '' @ [CHR 0x22] @ ''12345678'' @ [CHR 0x22] @ ''.'') ''pskCliCmdSet'',
      branch ''radiusserver'' ''Set RADIUS IP Address'' radiusSrvCliCmdSetTbl,
      branch ''radiusport'' ''Set RADIUS Port Number'' radiusPortCliCmdSetTbl,
      branch ''radiussecret'' ''Set RADIUS Shared Secret'' radiusSecretCliCmdSetTbl,
      leaf ''remotessid'' ''Set UC/UR's Remote SSID'' ''remotessidCliCmdSet'',
      leaf ''remoteucr'' ''Set UC/UR's Remote MAC Address'' ''remoteUcrMacAddrCliCmdSet'',
      leaf ''repeatermac'' ''Set Repeater's MAC Address'' ''remotePtpMacAddrCliCmdSet'',
      branch ''roguelegal'' ''Add/Delete Legal AP MAC/OUI'' roguelegalCmdTbl,
      branch ''roguetype'' ''Set Rogue AP Definition'' roguetypeCmdTbl,
      leaf ''rtsthreshold'' ''Set RTS/CTS Threshold'' ''rtsCliCmdSet'',
      branch ''security'' ''Set Wireless Security Mode'' secCmdTbl,
      branch ''shortpreamble'' ''Set Short Preamble'' shortPreambleCmdTbl,
      leaf ''snmpcontact'' ''Set SNMP Contact'' ''snmpContactCliCmdSet'',
      leaf ''snmpdevice'' ''Set SNMP Devic Name'' ''snmpDeviceNameCliCmdSet'',
      leaf ''snmplocation'' ''Set SNMP Location'' ''snmpLocationCliCmdSet'',
      leaf ''snmpreadcommunity'' ''Set SNMP Read Community'' ''snmpReadComCliCmdSet'',
      leaf ''snmptrapcommunity'' ''Set SNMP Trap Community'' ''snmpTrapComCliCmdSet'',
      leaf ''snmpwritecommunity'' ''Set SNMP Write Community'' ''snmpWriteComCliCmdSet'',
      branch ''snmpmode'' ''Set SNMP Mode'' snmpModeCmdTbl,
      branch ''ssh'' ''Set SSH Mode'' sshmodeCmdTbl,
      leaf ''ssid'' ''Set Service Set ID'' ''ssidCliCmdSet'',
      branch ''ssidbroadcast'' ''Set SSID Broadcast Mode'' ssidModeCmdTbl,
      branch ''syslog'' ''Set Syslog Mode'' syslogCmdTbl,
      leaf ''syslogserver'' ''Set Unicast Syslog Server Address'' ''syslogSrvCliCmdSet'',
      branch ''time'' ''Set Current System Time'' timesetCmdTbl,
      branch ''timemode'' ''Set Time Mode'' timemodeCmdTbl,
      branch ''timezone'' ''Set Time Zone Setting'' timezoneCmdTbl,
      leaf ''username'' ''Modify Login User Name'' ''usernameCliCmdSet'',
      branch ''vlan'' ''Set VLAN Operational State'' vlanModeCmdTbl,
      leaf ''vlandefault'' ''Set AP Native VLAN'' ''defaultvlanCliCmdSet'',
      leaf ''vlanid'' ''Set VAP VLAN id'' ''vlanPvidCliCmdSet'',
      leaf ''vlanmanagement'' ''Set AP Management VLAN'' ''magvlanCliCmdSet'',
      branch ''vlantag'' ''Set Vlan Tag Mode'' vlantagmodeCmdTbl,
      branch ''vlantagoverwds'' ''Set Vlan Tag Over WDS Mode'' vlanWDStagmodeCmdTbl,
      branch ''wlanaccess'' ''Set Wireless Web Access Mode'' wlanaccessmodeCmdTbl,
      branch ''wirelessmode'' ''Set Wireless LAN Mode'' wirelessModeCmdTbl,
      branch ''wmm'' ''Set WMM Mode'' wmeCmdTbl,
      branch ''wmmps'' ''Set WMM PowerSaving Mode'' wmmpsCmdTbl]"

definition cmdTbl :: "entry list" where
  "cmdTbl =
     [branch ''config'' ''Config WLAN X or Virtual AP X'' configCmdTbl,
      Entry ''?'' (Some ''Display CLI Command List'') ''sccli_helpCmdHandler'' None (Some CLI_HIDDENCMD),
      Entry ''help'' (Some ''Display CLI Command List'') ''sccli_helpCmdHandler'' None (Some CLI_HIDDENCMD),
      Entry ''get'' None ''genericCmdHandler'' (Some getCmdTbl) None,
      Entry ''set'' None ''genericCliCmdSet'' (Some setCmdTbl) None,
      leaf ''tftp'' ''Software upgrade/download via TFTP'' ''tftpCmdHandler'',
      leaf ''factoryrestore'' ''Restore to Default Factory Settings'' ''factoryCmdHandler'',
      leaf ''gen_wps_pin'' ''Generate a new WPS PIN.'' ''genWpsPinCmdHandler'',
      leaf ''gen_wpa_psk'' ''Generate a new WPA/WPA2 PSK.'' ''genWpaPskCmdHandler'',
      leaf ''apply'' ''To make the changes take effect'' ''applyCmdHandler'',
      leaf ''exit'' ''Quit the Remove Console'' ''sccli_exitCmdHandler'']"

subsection \<open>The handlers\<close>

definition applyCmdHandler :: "'a cmd" where
  "applyCmdHandler s = Some (CLI_PARSE_OK, COMMAND ''sleep 1; scapply action'' s)"

definition sccli_exitCmdHandler :: "'a cmd" where
  "sccli_exitCmdHandler s = Some (CLI_EXIT, s)"

text \<open>Three handlers look at the token.\<close>

definition handlers :: "(string \<times> (cstr \<Rightarrow> 'a cmd)) list" where
  "handlers =
     [(''configCliCmdVap'', \<lambda>_. configCliCmdVap),
      (''aclLocalModeCliCmdAllow'', \<lambda>_. aclLocalModeCliCmdAllow),
      (''aclLocalModeCliCmdPrevent'', \<lambda>_. aclLocalModeCliCmdPrevent),
      (''aclCliCmdDisable'', \<lambda>_. aclCliCmdDisable),
      (''aclCliCmdLocal'', \<lambda>_. aclCliCmdLocal),
      (''aclCliCmdRadius'', \<lambda>_. aclCliCmdRadius),
      (''aclCliCmdAdd'', \<lambda>_. aclCliCmdAdd),
      (''aclCliCmdDel'', \<lambda>_. aclCliCmdDel),
      (''activeModeCliCmdEnable'', \<lambda>_. activeModeCliCmdEnable),
      (''activeModeCliCmdDisable'', \<lambda>_. activeModeCliCmdDisable),
      (''dhcpCliCmdDisable'', \<lambda>_. dhcpCliCmdDisable),
      (''dhcpCliCmdClient'', \<lambda>_. dhcpCliCmdClient),
      (''dhcpv6CliCmdDisable'', \<lambda>_. dhcpv6CliCmdDisable),
      (''dhcpv6CliCmdClient'', \<lambda>_. dhcpv6CliCmdClient),
      (''dot1xSuppCliCmdDisable'', \<lambda>_. dot1xSuppCliCmdDisable),
      (''dot1xSuppCliCmdEnable'', \<lambda>_. dot1xSuppCliCmdEnable),
      (''dot1xSuppTypeCliCmdUser'', \<lambda>_. dot1xSuppTypeCliCmdUser),
      (''dot1xSuppTypeCliCmdMac'', \<lambda>_. dot1xSuppTypeCliCmdMac),
      (''vlanModeCliCmdDisable'', \<lambda>_. vlanModeCliCmdDisable),
      (''vlanModeCliCmdEnable'', \<lambda>_. vlanModeCliCmdEnable),
      (''wirelessModeCliCmdDisable'', \<lambda>_. wirelessModeCliCmdDisable),
      (''wirelessModeCliCmd11b'', \<lambda>_. wirelessModeCliCmd11b),
      (''wirelessModeCliCmd11g'', \<lambda>_. wirelessModeCliCmd11g),
      (''wirelessModeCliCmd11n'', \<lambda>_. wirelessModeCliCmd11n),
      (''wirelessModeCliCmd11bg'', \<lambda>_. wirelessModeCliCmd11bg),
      (''wirelessModeCliCmd11bgn'', \<lambda>_. wirelessModeCliCmd11bgn),
      (''opModeCliCmdAp'', \<lambda>_. opModeCliCmdAp),
      (''opModeCliCmdMpt'', \<lambda>_. opModeCliCmdMpt),
      (''opModeCliCmdApPtp'', \<lambda>_. opModeCliCmdApPtp),
      (''opModeCliCmdApPtmp'', \<lambda>_. opModeCliCmdApPtmp),
      (''opModeCliCmdUc'', \<lambda>_. opModeCliCmdUc),
      (''opModeCliCmdUr'', \<lambda>_. opModeCliCmdUr),
      (''opModeCliCmdRogueAp'', \<lambda>_. opModeCliCmdRogueAp),
      (''radiusSrvCliCmdGetPri'', \<lambda>_. radiusSrvCliCmdGetPri),
      (''radiusSrvCliCmdGetBck'', \<lambda>_. radiusSrvCliCmdGetBck),
      (''radiusSrvCliCmdSetPri'', \<lambda>_. radiusSrvCliCmdSetPri),
      (''radiusSrvCliCmdSetBck'', \<lambda>_. radiusSrvCliCmdSetBck),
      (''radiusPortCliCmdGetPri'', \<lambda>_. radiusPortCliCmdGetPri),
      (''radiusPortCliCmdGetBck'', \<lambda>_. radiusPortCliCmdGetBck),
      (''radiusPortCliCmdSetPri'', \<lambda>_. radiusPortCliCmdSetPri),
      (''radiusPortCliCmdSetBck'', \<lambda>_. radiusPortCliCmdSetBck),
      (''radiusSecretCliCmdGetPri'', \<lambda>_. radiusSecretCliCmdGetPri),
      (''radiusSecretCliCmdGetBck'', \<lambda>_. radiusSecretCliCmdGetBck),
      (''radiusSecretCliCmdSetPri'', \<lambda>_. radiusSecretCliCmdSetPri),
      (''radiusSecretCliCmdSetBck'', \<lambda>_. radiusSecretCliCmdSetBck),
      (''remotePtmpMacListCliCmdSet'', remotePtmpMacListCliCmdSet),
      (''sepCliCmdDisable'', \<lambda>_. sepCliCmdDisable),
      (''sepCliCmdEnable'', \<lambda>_. sepCliCmdEnable),
      (''dot11nGuardIntervalCmdAuto'', \<lambda>_. dot11nGuardIntervalCmdAuto),
      (''dot11nGuardIntervalCmdShort'', \<lambda>_. dot11nGuardIntervalCmdShort),
      (''dot11nGuardIntervalCmdLong'', \<lambda>_. dot11nGuardIntervalCmdLong),
      (''dot11nRadioBandCmdStandard'', \<lambda>_. dot11nRadioBandCmdStandard),
      (''dot11nRadioBandCmdAuto'', \<lambda>_. dot11nRadioBandCmdAuto),
      (''dot11nRadioBandCmdWide'', \<lambda>_. dot11nRadioBandCmdWide),
      (''changeSKUToUS'', \<lambda>_. changeSKUToUS),
      (''changeSKUToAU'', \<lambda>_. changeSKUToAU),
      (''changeSKUToJP'', \<lambda>_. changeSKUToJP),
      (''changeSKUToBR'', \<lambda>_. changeSKUToBR),
      (''changeSKUToCN'', \<lambda>_. changeSKUToCN),
      (''changeSKUToKR'', \<lambda>_. changeSKUToKR),
      (''changeSKUToG5'', \<lambda>_. changeSKUToG5),
      (''dot11dModeCmdDisable'', \<lambda>_. dot11dModeCmdDisable),
      (''dot11dModeCmdEnable'', \<lambda>_. dot11dModeCmdEnable),
      (''wmeCliCmdDisable'', \<lambda>_. wmeCliCmdDisable),
      (''wmeCliCmdEnable'', \<lambda>_. wmeCliCmdEnable),
      (''wmmpsCliCmdDisable'', \<lambda>_. wmmpsCliCmdDisable),
      (''wmmpsCliCmdEnable'', \<lambda>_. wmmpsCliCmdEnable),
      (''outPowerCliCmd100'', \<lambda>_. outPowerCliCmd100),
      (''outPowerCliCmd79'', \<lambda>_. outPowerCliCmd79),
      (''outPowerCliCmd63'', \<lambda>_. outPowerCliCmd63),
      (''outPowerCliCmd50'', \<lambda>_. outPowerCliCmd50),
      (''outPowerCliCmd40'', \<lambda>_. outPowerCliCmd40),
      (''outPowerCliCmd32'', \<lambda>_. outPowerCliCmd32),
      (''outPowerCliCmd25'', \<lambda>_. outPowerCliCmd25),
      (''outPowerCliCmd20'', \<lambda>_. outPowerCliCmd20),
      (''outPowerCliCmd16'', \<lambda>_. outPowerCliCmd16),
      (''outPowerCliCmd13'', \<lambda>_. outPowerCliCmd13),
      (''outPowerCliCmd10'', \<lambda>_. outPowerCliCmd10),
      (''outPowerCliCmd8'', \<lambda>_. outPowerCliCmd8),
      (''outPowerCliCmd6'', \<lambda>_. outPowerCliCmd6),
      (''outPowerCliCmd5'', \<lambda>_. outPowerCliCmd5),
      (''shortPreambleCliCmdDisable'', \<lambda>_. shortPreambleCliCmdDisable),
      (''shortPreambleCliCmdEnable'', \<lambda>_. shortPreambleCliCmdEnable),
      (''interVapForwardingCliCmdDisable'', \<lambda>_. interVapForwardingCliCmdDisable),
      (''interVapForwardingCliCmdEnable'', \<lambda>_. interVapForwardingCliCmdEnable),
      (''ssidModeCliCmdDisable'', \<lambda>_. ssidModeCliCmdDisable),
      (''ssidModeCliCmdEnable'', \<lambda>_. ssidModeCliCmdEnable),
      (''lltdModeCliCmdDisable'', \<lambda>_. lltdModeCliCmdDisable),
      (''lltdModeCliCmdEnable'', \<lambda>_. lltdModeCliCmdEnable),
      (''authCliCmdOpen'', \<lambda>_. authCliCmdOpen),
      (''authCliCmdShared'', \<lambda>_. authCliCmdShared),
      (''encryCliCmdTkip'', \<lambda>_. encryCliCmdTkip),
      (''encryCliCmdAes'', \<lambda>_. encryCliCmdAes),
      (''secCliCmdWpapsk'', \<lambda>_. secCliCmdWpapsk),
      (''secCliCmdWpa2psk'', \<lambda>_. secCliCmdWpa2psk),
      (''secCliCmdWpapskauto'', \<lambda>_. secCliCmdWpapskauto),
      (''secCliCmdWpa'', \<lambda>_. secCliCmdWpa),
      (''secCliCmdWpa2'', \<lambda>_. secCliCmdWpa2),
      (''secCliCmdWpaauto'', \<lambda>_. secCliCmdWpaauto),
      (''secCliCmdRadius'', \<lambda>_. secCliCmdRadius),
      (''secCliCmdNone'', \<lambda>_. secCliCmdNone),
      (''ethAutoNegoCliCmdEnable'', \<lambda>_. ethAutoNegoCliCmdEnable),
      (''ethAutoNegoCliCmdDisable'', \<lambda>_. ethAutoNegoCliCmdDisable),
      (''ethDuplexModeCliCmdFull'', \<lambda>_. ethDuplexModeCliCmdFull),
      (''ethDuplexModeCliCmdHalf'', \<lambda>_. ethDuplexModeCliCmdHalf),
      (''ethDataRateCliCmdAuto'', \<lambda>_. ethDataRateCliCmdAuto),
      (''ethDataRateCliCmd1000'', \<lambda>_. ethDataRateCliCmd1000),
      (''ethDataRateCliCmd100'', \<lambda>_. ethDataRateCliCmd100),
      (''ethDataRateCliCmd10'', \<lambda>_. ethDataRateCliCmd10),
      (''countryCodeCliCmdSet'', countryCodeCliCmdSet),
      (''httpCliCmdDisable'', \<lambda>_. httpCliCmdDisable),
      (''httpCliCmdEnable'', \<lambda>_. httpCliCmdEnable),
      (''httpsCliCmdDisable'', \<lambda>_. httpsCliCmdDisable),
      (''httpsCliCmdEnable'', \<lambda>_. httpsCliCmdEnable),
      (''multienhanceDisable'', \<lambda>_. multienhanceDisable),
      (''multienhanceEnable'', \<lambda>_. multienhanceEnable),
      (''emailAlertCliCmdDisable'', \<lambda>_. emailAlertCliCmdDisable),
      (''emailAlertCliCmdEnable'', \<lambda>_. emailAlertCliCmdEnable),
      (''loginSuccessCliCmdDisable'', \<lambda>_. loginSuccessCliCmdDisable),
      (''loginSuccessCliCmdEnable'', \<lambda>_. loginSuccessCliCmdEnable),
      (''loginFailCliCmdDisable'', \<lambda>_. loginFailCliCmdDisable),
      (''loginFailCliCmdEnable'', \<lambda>_. loginFailCliCmdEnable),
      (''sysErrorCliCmdDisable'', \<lambda>_. sysErrorCliCmdDisable),
      (''sysErrorCliCmdEnable'', \<lambda>_. sysErrorCliCmdEnable),
      (''confChangeCliCmdDisable'', \<lambda>_. confChangeCliCmdDisable),
      (''confChangeCliCmdEnable'', \<lambda>_. confChangeCliCmdEnable),
      (''BonjourModeCliCmdDisable'', \<lambda>_. BonjourModeCliCmdDisable),
      (''BonjourModeCliCmdEnable'', \<lambda>_. BonjourModeCliCmdEnable),
      (''WpsModeCliCmdDisable'', \<lambda>_. WpsModeCliCmdDisable),
      (''WpsModeCliCmdEnable'', \<lambda>_. WpsModeCliCmdEnable),
      (''WpsPinERCliCmdDisable'', \<lambda>_. WpsPinERCliCmdDisable),
      (''WpsPinERCliCmdEnable'', \<lambda>_. WpsPinERCliCmdEnable),
      (''AutoRebootCliCmdDisable'', \<lambda>_. AutoRebootCliCmdDisable),
      (''AutoRebootCliCmdEnable'', \<lambda>_. AutoRebootCliCmdEnable),
      (''force100mModeCliCmdDisable'', \<lambda>_. force100mModeCliCmdDisable),
      (''force100mModeCliCmdEnable'', \<lambda>_. force100mModeCliCmdEnable),
      (''httpRDModeCliCmdDisable'', \<lambda>_. httpRDModeCliCmdDisable),
      (''httpRDModeCliCmdEnable'', \<lambda>_. httpRDModeCliCmdEnable),
      (''ipv6ModeCliCmdDisable'', \<lambda>_. ipv6ModeCliCmdDisable),
      (''ipv6ModeCliCmdEnable'', \<lambda>_. ipv6ModeCliCmdEnable),
      (''timeModeCliCmdDisable'', \<lambda>_. timeModeCliCmdDisable),
      (''timeModeCliCmdEnable'', \<lambda>_. timeModeCliCmdEnable),
      (''ntpModeCliCmdDisable'', \<lambda>_. ntpModeCliCmdDisable),
      (''ntpModeCliCmdEnable'', \<lambda>_. ntpModeCliCmdEnable),
      (''wlanAccessModeCliCmdDisable'', \<lambda>_. wlanAccessModeCliCmdDisable),
      (''wlanAccessModeCliCmdEnable'', \<lambda>_. wlanAccessModeCliCmdEnable),
      (''sshModeCliCmdDisable'', \<lambda>_. sshModeCliCmdDisable),
      (''sshModeCliCmdEnable'', \<lambda>_. sshModeCliCmdEnable),
      (''ctsProtectModeCliCmdDisable'', \<lambda>_. ctsProtectModeCliCmdDisable),
      (''ctsProtectModeCliCmdAuto'', \<lambda>_. ctsProtectModeCliCmdAuto),
      (''loadBalanceModeCliCmdDisable'', \<lambda>_. loadBalanceModeCliCmdDisable),
      (''loadBalanceModeCliCmdEnable'', \<lambda>_. loadBalanceModeCliCmdEnable),
      (''vlanTagModeCliCmdDisable'', \<lambda>_. vlanTagModeCliCmdDisable),
      (''vlanTagModeCliCmdEnable'', \<lambda>_. vlanTagModeCliCmdEnable),
      (''vlanWDSTagModeCliCmdDisable'', \<lambda>_. vlanWDSTagModeCliCmdDisable),
      (''vlanWDSTagModeCliCmdEnable'', \<lambda>_. vlanWDSTagModeCliCmdEnable),
      (''todCliCmdSet'', \<lambda>_. todCliCmdSet),
      (''tocCliCmdSet'', \<lambda>_. tocCliCmdSet),
      (''timezoneCliCmdSet'', timezoneCliCmdSet),
      (''daylightCliCmdDisable'', \<lambda>_. daylightCliCmdDisable),
      (''daylightCliCmdEnable'', \<lambda>_. daylightCliCmdEnable),
      (''snmpCliCmdDisable'', \<lambda>_. snmpCliCmdDisable),
      (''snmpCliCmdEnable'', \<lambda>_. snmpCliCmdEnable),
      (''snmpManageCliCmdAny'', \<lambda>_. snmpManageCliCmdAny),
      (''snmpManageCliCmdIpStart'', \<lambda>_. snmpManageCliCmdIpStart),
      (''snmpManageCliCmdIpEnd'', \<lambda>_. snmpManageCliCmdIpEnd),
      (''snmpTrapCliCmdBroadcast'', \<lambda>_. snmpTrapCliCmdBroadcast),
      (''snmpTrapCliCmdUnicast'', \<lambda>_. snmpTrapCliCmdUnicast),
      (''syslogCliCmdDisable'', \<lambda>_. syslogCliCmdDisable),
      (''syslogCliCmdEnable'', \<lambda>_. syslogCliCmdEnable),
      (''roguetype1CliCmdEnable'', \<lambda>_. roguetype1CliCmdEnable),
      (''roguetype2CliCmdEnable'', \<lambda>_. roguetype2CliCmdEnable),
      (''roguetype3CliCmdEnable'', \<lambda>_. roguetype3CliCmdEnable),
      (''roguelegalCmdAdd'', \<lambda>_. roguelegalCmdAdd),
      (''roguelegalCmdDel'', \<lambda>_. roguelegalCmdDel),
      (''dot11nGuardIntervalCliCmdGet'', \<lambda>_. dot11nGuardIntervalCliCmdGet),
      (''dot11nRadioBandCliCmdGet'', \<lambda>_. dot11nRadioBandCliCmdGet),
      (''dot11dModeCliCmdGet'', \<lambda>_. dot11dModeCliCmdGet),
      (''aclCliCmdGet'', \<lambda>_. aclCliCmdGet),
      (''aclLocalModeCliCmdGet'', \<lambda>_. aclLocalModeCliCmdGet),
      (''activeModeCliCmdGet'', \<lambda>_. activeModeCliCmdGet),
      (''authCliCmdGet'', \<lambda>_. authCliCmdGet),
      (''beaconCliCmdGet'', \<lambda>_. beaconCliCmdGet),
      (''chanCliCmdGet'', \<lambda>_. chanCliCmdGet),
      (''countryCodeCliCmdGet'', \<lambda>_. countryCodeCliCmdGet),
      (''ethDataRateCliCmdGet'', \<lambda>_. ethDataRateCliCmdGet),
      (''ethAutoNego'', \<lambda>_. ethAutoNego),
      (''ethDuplexModeGet'', \<lambda>_. ethDuplexModeGet),
      (''ctsProtectModeCliCmdGet'', \<lambda>_. ctsProtectModeCliCmdGet),
      (''defaultKeyCliCmdGet'', \<lambda>_. defaultKeyCliCmdGet),
      (''devicenameCliCmdGet'', \<lambda>_. devicenameCliCmdGet),
      (''dhcpModeCliCmdGet'', \<lambda>_. dhcpModeCliCmdGet),
      (''dhcpv6ModeCliCmdGet'', \<lambda>_. dhcpv6ModeCliCmdGet),
      (''nameSrv2CliCmdGet'', \<lambda>_. nameSrv2CliCmdGet),
      (''nameSrvCliCmdGet'', \<lambda>_. nameSrvCliCmdGet),
      (''dot1xKeyLifeCliCmdGet'', \<lambda>_. dot1xKeyLifeCliCmdGet),
      (''dtimModeCliCmdGet'', \<lambda>_. dtimModeCliCmdGet),
      (''emailAddressCliCmdGet'', \<lambda>_. emailAddressCliCmdGet),
      (''emailAlertCliCmdGet'', \<lambda>_. emailAlertCliCmdGet),
      (''emailSendPeriodCliCmdGet'', \<lambda>_. emailSendPeriodCliCmdGet),
      (''emailQueueLengthCliCmdGet'', \<lambda>_. emailQueueLengthCliCmdGet),
      (''emailServerCliCmdGet'', \<lambda>_. emailServerCliCmdGet),
      (''encryptionCliCmdGet'', \<lambda>_. encryptionCliCmdGet),
      (''fragCliCmdGet'', \<lambda>_. fragCliCmdGet),
      (''fwversionCmdGet'', \<lambda>_. fwversionCmdGet),
      (''gatewayCliCmdGet'', \<lambda>_. gatewayCliCmdGet),
      (''hostnameCliCmdGet'', \<lambda>_. hostnameCliCmdGet),
      (''BonjourModeCliCmdGet'', \<lambda>_. BonjourModeCliCmdGet),
      (''WpsModeCliCmdGet'', \<lambda>_. WpsModeCliCmdGet),
      (''WpsPinCliCmdGet'', \<lambda>_. WpsPinCliCmdGet),
      (''WpsPinERCliCmdGet'', \<lambda>_. WpsPinERCliCmdGet),
      (''force100mModeCliCmdGet'', \<lambda>_. force100mModeCliCmdGet),
      (''httpRDModeCliCmdGet'', \<lambda>_. httpRDModeCliCmdGet),
      (''httpURLCliCmdGet'', \<lambda>_. httpURLCliCmdGet),
      (''httpsCliCmdGet'', \<lambda>_. httpsCliCmdGet),
      (''hwversionCliCmdGet'', \<lambda>_. hwversionCliCmdGet),
      (''ipAddrCliCmdGet'', \<lambda>_. ipAddrCliCmdGet),
      (''ipMaskCliCmdGet'', \<lambda>_. ipMaskCliCmdGet),
      (''ipv6ModeCliCmdGet'', \<lambda>_. ipv6ModeCliCmdGet),
      (''ipv6AddrCliCmdGet'', \<lambda>_. ipv6AddrCliCmdGet),
      (''ipv6dns1CliCmdGet'', \<lambda>_. ipv6dns1CliCmdGet),
      (''ipv6dns2CliCmdGet'', \<lambda>_. ipv6dns2CliCmdGet),
      (''ipv6gatewayCliCmdGet'', \<lambda>_. ipv6gatewayCliCmdGet),
      (''interVapForwardingCliCmdGet'', \<lambda>_. interVapForwardingCliCmdGet),
      (''sepCliCmdGet'', \<lambda>_. sepCliCmdGet),
      (''keyCliCmdGet'', \<lambda>_. keyCliCmdGet),
      (''keyLengthCliCmdGet'', \<lambda>_. keyLengthCliCmdGet),
      (''groupKeyUpdateIntervalCliCmdGet'', \<lambda>_. groupKeyUpdateIntervalCliCmdGet),
      (''lltdModeCliCmdGet'', \<lambda>_. lltdModeCliCmdGet),
      (''loadBalanceModeCliCmdGet'', \<lambda>_. loadBalanceModeCliCmdGet),
      (''loadBalanceSSIDCliCmdGet'', \<lambda>_. loadBalanceSSIDCliCmdGet),
      (''confChangeCliCmdGet'', \<lambda>_. confChangeCliCmdGet),
      (''loginFailCliCmdGet'', \<lambda>_. loginFailCliCmdGet),
      (''loginSuccessCliCmdGet'', \<lambda>_. loginSuccessCliCmdGet),
      (''sysErrorCliCmdGet'', \<lambda>_. sysErrorCliCmdGet),
      (''menhanceCliCmdGet'', \<lambda>_. menhanceCliCmdGet),
      (''dot1xSuppCliCmdGet'', \<lambda>_. dot1xSuppCliCmdGet),
      (''dot1xSuppUserCliCmdGet'', \<lambda>_. dot1xSuppUserCliCmdGet),
      (''dot1xSuppPassCliCmdGet'', \<lambda>_. dot1xSuppPassCliCmdGet),
      (''dot1xSuppTypeCliCmdGet'', \<lambda>_. dot1xSuppTypeCliCmdGet),
      (''nativeVlanIdCliCmdGet'', \<lambda>_. nativeVlanIdCliCmdGet),
      (''ntpModeCliCmdGet'', \<lambda>_. ntpModeCliCmdGet),
      (''ntpServerCliCmdGet'', \<lambda>_. ntpServerCliCmdGet),
      (''opModeCliCmdGet'', \<lambda>_. opModeCliCmdGet),
      (''passwordCliCmdGet'', \<lambda>_. passwordCliCmdGet),
      (''priorityCliCmdGet'', \<lambda>_. priorityCliCmdGet),
      (''pskCliCmdGet'', \<lambda>_. pskCliCmdGet),
      (''remotePtmpMacListCliCmdGet'', \<lambda>_. remotePtmpMacListCliCmdGet),
      (''remotePtpMacAddrCliCmdGet'', \<lambda>_. remotePtpMacAddrCliCmdGet),
      (''remotessidCliCmdGet'', \<lambda>_. remotessidCliCmdGet),
      (''remoteUcrMacAddrCliCmdGet'', \<lambda>_. remoteUcrMacAddrCliCmdGet),
      (''roguelegalCmdGet'', \<lambda>_. roguelegalCmdGet),
      (''roguetypeCmdGet'', \<lambda>_. roguetypeCmdGet),
      (''rtsCliCmdGet'', \<lambda>_. rtsCliCmdGet),
      (''secCliCmdGet'', \<lambda>_. secCliCmdGet),
      (''snmpContactCliCmdGet'', \<lambda>_. snmpContactCliCmdGet),
      (''snmpDeviceNameCliCmdGet'', \<lambda>_. snmpDeviceNameCliCmdGet),
      (''snmpLocationCliCmdGet'', \<lambda>_. snmpLocationCliCmdGet),
      (''snmpReadComCliCmdGet'', \<lambda>_. snmpReadComCliCmdGet),
      (''snmpTrapComCliCmdGet'', \<lambda>_. snmpTrapComCliCmdGet),
      (''snmpWriteComCliCmdGet'', \<lambda>_. snmpWriteComCliCmdGet),
      (''snmpModeCliCmdGet'', \<lambda>_. snmpModeCliCmdGet),
      (''sshModeCliCmdGet'', \<lambda>_. sshModeCliCmdGet),
      (''ssidCliCmdGet'', \<lambda>_. ssidCliCmdGet),
      (''ssidModeCliCmdGet'', \<lambda>_. ssidModeCliCmdGet),
      (''syslogCliCmdGet'', \<lambda>_. syslogCliCmdGet),
      (''syslogSrvCliCmdGet'', \<lambda>_. syslogSrvCliCmdGet),
      (''todCliCmdGet'', \<lambda>_. todCliCmdGet),
      (''timeModeCliCmdGet'', \<lambda>_. timeModeCliCmdGet),
      (''timezoneCliCmdGet'', \<lambda>_. timezoneCliCmdGet),
      (''daylightModeCliCmdGet'', \<lambda>_. daylightModeCliCmdGet),
      (''uptimeCliCmdGet'', \<lambda>_. uptimeCliCmdGet),
      (''usernameCliCmdGet'', \<lambda>_. usernameCliCmdGet),
      (''vlanModeCliCmdGet'', \<lambda>_. vlanModeCliCmdGet),
      (''defaultvlanCliCmdGet'', \<lambda>_. defaultvlanCliCmdGet),
      (''vlanPvidCliCmdGet'', \<lambda>_. vlanPvidCliCmdGet),
      (''magvlanCliCmdGet'', \<lambda>_. magvlanCliCmdGet),
      (''vlanTagModeCliCmdGet'', \<lambda>_. vlanTagModeCliCmdGet),
      (''vlanWDSTagModeCliCmdGet'', \<lambda>_. vlanWDSTagModeCliCmdGet),
      (''wlanAccessModeCliCmdGet'', \<lambda>_. wlanAccessModeCliCmdGet),
      (''wirelessModeCliCmdGet'', \<lambda>_. wirelessModeCliCmdGet),
      (''wmeCliCmdGet'', \<lambda>_. wmeCliCmdGet),
      (''wmmpsCliCmdGet'', \<lambda>_. wmmpsCliCmdGet),
      (''beaconCliCmdSet'', \<lambda>_. beaconCliCmdSet),
      (''chanCliCmdSet'', \<lambda>_. chanCliCmdSet),
      (''defaultKeyCliCmdSet'', \<lambda>_. defaultKeyCliCmdSet),
      (''devicenameCliCmdSet'', \<lambda>_. devicenameCliCmdSet),
      (''nameSrv2CliCmdSet'', \<lambda>_. nameSrv2CliCmdSet),
      (''nameSrvCliCmdSet'', \<lambda>_. nameSrvCliCmdSet),
      (''dot1xKeyLifeCliCmdSet'', \<lambda>_. dot1xKeyLifeCliCmdSet),
      (''dtimModeCliCmdSet'', \<lambda>_. dtimModeCliCmdSet),
      (''emailAddressCliCmdSet'', \<lambda>_. emailAddressCliCmdSet),
      (''emailSendPeriodCliCmdSet'', \<lambda>_. emailSendPeriodCliCmdSet),
      (''emailQueueLengthCliCmdSet'', \<lambda>_. emailQueueLengthCliCmdSet),
      (''emailServerCliCmdSet'', \<lambda>_. emailServerCliCmdSet),
      (''fragCliCmdSet'', \<lambda>_. fragCliCmdSet),
      (''gatewayCliCmdSet'', \<lambda>_. gatewayCliCmdSet),
      (''hostnameCliCmdSet'', \<lambda>_. hostnameCliCmdSet),
      (''WpsPinCliCmdSet'', \<lambda>_. WpsPinCliCmdSet),
      (''httpURLCliCmdSet'', \<lambda>_. httpURLCliCmdSet),
      (''ipAddrCliCmdSet'', \<lambda>_. ipAddrCliCmdSet),
      (''ipMaskCliCmdSet'', \<lambda>_. ipMaskCliCmdSet),
      (''ipv6AddrCliCmdSet'', \<lambda>_. ipv6AddrCliCmdSet),
      (''ipv6dns1CliCmdSet'', \<lambda>_. ipv6dns1CliCmdSet),
      (''ipv6dns2CliCmdSet'', \<lambda>_. ipv6dns2CliCmdSet),
      (''ipv6gatewayCliCmdSet'', \<lambda>_. ipv6gatewayCliCmdSet),
      (''keyCliCmdSet'', \<lambda>_. keyCliCmdSet),
      (''keyLengthCliCmdSet'', \<lambda>_. keyLengthCliCmdSet),
      (''groupKeyUpdateIntervalCliCmdSet'', \<lambda>_. groupKeyUpdateIntervalCliCmdSet),
      (''loadBalanceSSIDCliCmdSet'', \<lambda>_. loadBalanceSSIDCliCmdSet),
      (''dot1xSuppUserCliCmdSet'', \<lambda>_. dot1xSuppUserCliCmdSet),
      (''dot1xSuppPassCliCmdSet'', \<lambda>_. dot1xSuppPassCliCmdSet),
      (''nativeVlanIdCliCmdSet'', \<lambda>_. nativeVlanIdCliCmdSet),
      (''ntpServerCliCmdSet'', \<lambda>_. ntpServerCliCmdSet),
      (''passwordCliCmdSet'', \<lambda>_. passwordCliCmdSet),
      (''priorityCliCmdSet'', \<lambda>_. priorityCliCmdSet),
      (''pskCliCmdSet'', \<lambda>_. pskCliCmdSet),
      (''remotessidCliCmdSet'', \<lambda>_. remotessidCliCmdSet),
      (''remoteUcrMacAddrCliCmdSet'', \<lambda>_. remoteUcrMacAddrCliCmdSet),
      (''remotePtpMacAddrCliCmdSet'', \<lambda>_. remotePtpMacAddrCliCmdSet),
      (''rtsCliCmdSet'', \<lambda>_. rtsCliCmdSet),
      (''snmpContactCliCmdSet'', \<lambda>_. snmpContactCliCmdSet),
      (''snmpDeviceNameCliCmdSet'', \<lambda>_. snmpDeviceNameCliCmdSet),
      (''snmpLocationCliCmdSet'', \<lambda>_. snmpLocationCliCmdSet),
      (''snmpReadComCliCmdSet'', \<lambda>_. snmpReadComCliCmdSet),
      (''snmpTrapComCliCmdSet'', \<lambda>_. snmpTrapComCliCmdSet),
      (''snmpWriteComCliCmdSet'', \<lambda>_. snmpWriteComCliCmdSet),
      (''ssidCliCmdSet'', \<lambda>_. ssidCliCmdSet),
      (''syslogSrvCliCmdSet'', \<lambda>_. syslogSrvCliCmdSet),
      (''usernameCliCmdSet'', \<lambda>_. usernameCliCmdSet),
      (''defaultvlanCliCmdSet'', \<lambda>_. defaultvlanCliCmdSet),
      (''vlanPvidCliCmdSet'', \<lambda>_. vlanPvidCliCmdSet),
      (''magvlanCliCmdSet'', \<lambda>_. magvlanCliCmdSet),
      (''sccli_helpCmdHandler'', \<lambda>_. sccli_helpCmdHandler cmdTbl),
      (''tftpCmdHandler'', \<lambda>_. tftpCmdHandler),
      (''factoryCmdHandler'', \<lambda>_. factoryCmdHandler),
      (''genWpsPinCmdHandler'', \<lambda>_. genWpsPinCmdHandler),
      (''genWpaPskCmdHandler'', \<lambda>_. genWpaPskCmdHandler),
      (''applyCmdHandler'', \<lambda>_. applyCmdHandler),
      (''sccli_exitCmdHandler'', \<lambda>_. sccli_exitCmdHandler)]"

definition call_handler :: "'a runner" where
  "call_handler h p s = (case map_of handlers h of Some f \<Rightarrow> f p s | None \<Rightarrow> None)"

subsection \<open>The shell command\<close>

text \<open>\<open>argv[0]\<close> is the name of the command; the shell takes no notice of the result.\<close>

definition sercomm_cmd :: "cstr list \<Rightarrow> 'a cmd" where
  "sercomm_cmd argv s = sccli_parser call_handler cmdTbl argv s"

end
