(* ===== verification/Cli_Names.thy ===== *)
theory Cli_Names
  imports Cli_Dispatch Cli_Table
begin

text \<open>
  The tables of the command line interface: in each table that can be reached from \<open>cmdTbl\<close> the names differ, in upper and
  lower case too, so every command can be given by its full name.
\<close>

inductive reachable :: "entry list \<Rightarrow> bool" where
  reachable_root: "reachable cmdTbl"
| reachable_sub: "reachable t \<Longrightarrow> e \<in> set t \<Longrightarrow> pNxtParseTbl e = Some u \<Longrightarrow> reachable u"

function all_distinct :: "entry list \<Rightarrow> bool" where
  "all_distinct t \<longleftrightarrow> distinct (map (\<lambda>e. lower (pCmd e)) t) \<and> (\<forall>e \<in> set t. \<forall>u. pNxtParseTbl e = Some u \<longrightarrow> all_distinct u)"
  by pat_completeness auto
termination by (relation "measure (size_list size)") (auto dest: size_nxt_in)

declare all_distinct.simps [simp del]

lemmas entry_names = all_distinct.simps [of "_ # _"] all_distinct.simps [of "[]"] c_tolower_def

text \<open>The tables below the third level, the second, and the first.\<close>

lemma small_tables [simp]:
  "all_distinct configCmdTbl"
  "all_distinct acllocalmodeCmdTbl"
  "all_distinct activeModeCmdTbl"
  "all_distinct dhcpCmdTbl"
  "all_distinct dhcpv6CmdTbl"
  "all_distinct dot1xSuppCmdTbl"
  "all_distinct dot1xSuppTypeCmdTbl"
  "all_distinct vlanModeCmdTbl"
  "all_distinct wirelessModeCmdTbl"
  "all_distinct opModeCmdTbl"
  "all_distinct radiusSrvCliCmdGetTbl"
  "all_distinct radiusSrvCliCmdSetTbl"
  "all_distinct radiusPortCliCmdGetTbl"
  "all_distinct radiusPortCliCmdSetTbl"
  "all_distinct radiusSecretCliCmdGetTbl"
  "all_distinct radiusSecretCliCmdSetTbl"
  "all_distinct remotePtmpMacListCmdTbl"
  "all_distinct sepCmdTbl"
  "all_distinct dot11nGuardIntervalCmdTbl"
  "all_distinct dot11nRadioBandCmdTbl"
  "all_distinct skuCmdTbl"
  "all_distinct dot11dModeCmdTbl"
  "all_distinct wmeCmdTbl"
  "all_distinct wmmpsCmdTbl"
  "all_distinct outPowerCmdTbl"
  "all_distinct shortPreambleCmdTbl"
  "all_distinct interVapForwardingCmdTbl"
  "all_distinct ssidModeCmdTbl"
  "all_distinct lltdModeCmdTbl"
  "all_distinct authCmdTbl"
  "all_distinct encryCmdTbl"
  "all_distinct secCmdTbl"
  "all_distinct ethAutoNegoCmdTbl"
  "all_distinct ethDuplexModeCmdTbl"
  "all_distinct ethDataRateCmdTbl"
  "all_distinct countryCodeCmdTbl"
  "all_distinct httpCmdTbl"
  "all_distinct httpsCmdTbl"
  "all_distinct multienhanceCmdTbl"
  "all_distinct emailalertCmdTbl"
  "all_distinct loginsuccessCmdTbl"
  "all_distinct loginfailCmdTbl"
  "all_distinct syserrorCmdTbl"
  "all_distinct confchangeCmdTbl"
  "all_distinct bonjourmodeCmdTbl"
  "all_distinct wpsmodeCmdTbl"
  "all_distinct wpsPinERCmdTbl"
  "all_distinct autoRebootCmdTbl"
  "all_distinct force100mmodeCmdTbl"
  "all_distinct httpredirectmodeCmdTbl"
  "all_distinct ipv6modeCmdTbl"
  "all_distinct timemodeCmdTbl"
  "all_distinct ntpmodeCmdTbl"
  "all_distinct wlanaccessmodeCmdTbl"
  "all_distinct sshmodeCmdTbl"
  "all_distinct ctsprotectmodeCmdTbl"
  "all_distinct loadbalancemodeCmdTbl"
  "all_distinct vlantagmodeCmdTbl"
  "all_distinct vlanWDStagmodeCmdTbl"
  "all_distinct timesetCmdTbl"
  "all_distinct daylightModeCmdTbl"
  "all_distinct snmpModeCmdTbl"
  "all_distinct snmpManageCmdTbl"
  "all_distinct snmpTrapModeCmdTbl"
  "all_distinct syslogCmdTbl"
  "all_distinct roguetypeCmdTbl"
  "all_distinct roguelegalCmdTbl"
  by (simp_all add: entry_names configCmdTbl_def
    acllocalmodeCmdTbl_def
    activeModeCmdTbl_def
    dhcpCmdTbl_def
    dhcpv6CmdTbl_def
    dot1xSuppCmdTbl_def
    dot1xSuppTypeCmdTbl_def
    vlanModeCmdTbl_def
    wirelessModeCmdTbl_def
    opModeCmdTbl_def
    radiusSrvCliCmdGetTbl_def
    radiusSrvCliCmdSetTbl_def
    radiusPortCliCmdGetTbl_def
    radiusPortCliCmdSetTbl_def
    radiusSecretCliCmdGetTbl_def
    radiusSecretCliCmdSetTbl_def
    remotePtmpMacListCmdTbl_def
    sepCmdTbl_def
    dot11nGuardIntervalCmdTbl_def
    dot11nRadioBandCmdTbl_def
    skuCmdTbl_def
    dot11dModeCmdTbl_def
    wmeCmdTbl_def
    wmmpsCmdTbl_def
    outPowerCmdTbl_def
    shortPreambleCmdTbl_def
    interVapForwardingCmdTbl_def
    ssidModeCmdTbl_def
    lltdModeCmdTbl_def
    authCmdTbl_def
    encryCmdTbl_def
    secCmdTbl_def
    ethAutoNegoCmdTbl_def
    ethDuplexModeCmdTbl_def
    ethDataRateCmdTbl_def
    countryCodeCmdTbl_def
    httpCmdTbl_def
    httpsCmdTbl_def
    multienhanceCmdTbl_def
    emailalertCmdTbl_def
    loginsuccessCmdTbl_def
    loginfailCmdTbl_def
    syserrorCmdTbl_def
    confchangeCmdTbl_def
    bonjourmodeCmdTbl_def
    wpsmodeCmdTbl_def
    wpsPinERCmdTbl_def
    autoRebootCmdTbl_def
    force100mmodeCmdTbl_def
    httpredirectmodeCmdTbl_def
    ipv6modeCmdTbl_def
    timemodeCmdTbl_def
    ntpmodeCmdTbl_def
    wlanaccessmodeCmdTbl_def
    sshmodeCmdTbl_def
    ctsprotectmodeCmdTbl_def
    loadbalancemodeCmdTbl_def
    vlantagmodeCmdTbl_def
    vlanWDStagmodeCmdTbl_def
    timesetCmdTbl_def
    daylightModeCmdTbl_def
    snmpModeCmdTbl_def
    snmpManageCmdTbl_def
    snmpTrapModeCmdTbl_def
    syslogCmdTbl_def
    roguetypeCmdTbl_def
    roguelegalCmdTbl_def)

lemma aclCmdTbl_distinct [simp]: "all_distinct aclCmdTbl"
  by (simp add: entry_names aclCmdTbl_def)

text \<open>The names in the three large tables are compared one by one.\<close>

lemmas string_distinct = distinct.simps list.set insert_iff empty_iff list.inject char.inject list.distinct simp_thms

lemma all_distinctI:
  assumes "distinct (map (\<lambda>e. lower (pCmd e)) t)" "list_all (\<lambda>n. case n of None \<Rightarrow> True | Some u \<Rightarrow> all_distinct u) (map pNxtParseTbl t)"
  shows "all_distinct t"
  using assms by (auto simp: all_distinct.simps [of t] list_all_iff)

lemma timezoneCmdTbl_lower:
  "map (\<lambda>e. lower (pCmd e)) timezoneCmdTbl =
     [''001-12:00'', ''002-11:00'', ''003-10:00'', ''004-09:00'', ''005-08:00'', ''006-07:00'', ''007-07:00'',
      ''008-07:00'', ''009-06:00'', ''010-06:00'', ''011-06:00'', ''012-06:00'', ''013-05:00'', ''014-05:00'',
      ''015-05:00'', ''016-04:00'', ''017-04:00'', ''018-04:00'', ''019-03:00'', ''020-03:00'', ''021-03:00'',
      ''022-03:00'', ''023-02:00'', ''024-01:00'', ''025-01:00'', ''026+00:00'', ''027+00:00'', ''028+01:00'',
      ''029+01:00'', ''030+01:00'', ''031+01:00'', ''032+01:00'', ''033+02:00'', ''034+02:00'', ''035+02:00'',
      ''036+02:00'', ''037+02:00'', ''038+02:00'', ''039+03:00'', ''040+03:00'', ''041+03:00'', ''042+03:00'',
      ''043+03:30'', ''044+04:00'', ''045+04:00'', ''046+04:30'', ''047+05:00'', ''048+05:00'', ''049+05:30'',
      ''050+05:45'', ''051+06:00'', ''052+06:00'', ''053+06:00'', ''054+06:00'', ''055+07:00'', ''056+07:00'',
      ''057+08:00'', ''058+08:00'', ''059+08:00'', ''060+08:00'', ''061+08:00'', ''062+09:00'', ''063+09:00'',
      ''064+09:00'', ''065+09:30'', ''066+09:30'', ''067+10:00'', ''068+10:00'', ''069+10:00'', ''070+10:00'',
      ''071+10:00'', ''072+11:00'', ''073+12:00'', ''074+12:00'', ''075+13:00'']"
  unfolding timezoneCmdTbl_def by (simp add: c_tolower_def char_of_def bit_Suc_0_iff)

lemma timezoneCmdTbl_names: "distinct (map (\<lambda>e. lower (pCmd e)) timezoneCmdTbl)"
  unfolding timezoneCmdTbl_lower by (simp only: string_distinct)

lemma timezoneCmdTbl_below: "list_all (\<lambda>n. case n of None \<Rightarrow> True | Some u \<Rightarrow> all_distinct u) (map pNxtParseTbl timezoneCmdTbl)"
  unfolding timezoneCmdTbl_def list.map entry.sel by simp

lemma timezoneCmdTbl_distinct [simp]: "all_distinct timezoneCmdTbl"
  by (rule all_distinctI [OF timezoneCmdTbl_names timezoneCmdTbl_below])

lemma getCmdTbl_lower:
  "map (\<lambda>e. lower (pCmd e)) getCmdTbl =
     [''11nguardinterval'', ''11nchanbandwidth'', ''802_11d'', ''acl'', ''acltype'', ''active'', ''authentication'',
      ''beaconinterval'', ''channel'', ''country'', ''ethdatarate'', ''ethautonegotiation'', ''ethduplexmode'',
      ''ctsprotect'', ''defaultkey'', ''devicename'', ''dhcp'', ''dhcpv6'', ''dns2server'', ''dnsserver'',
      ''dot1xdynkeylife'', ''dtiminterval'', ''emailaddress'', ''emailalert'', ''emailinterval'', ''emailqueue'',
      ''emailserver'', ''encryption'', ''fragthreshold'', ''fwversion'', ''gateway'', ''hostname'', ''bonjour'',
      ''wps'', ''wps_pin'', ''wps_pin_er'', ''forcelan100m'', ''httpredirect'', ''httpredirecturl'', ''https'',
      ''pidvid'', ''ipaddr'', ''ipmask'', ''ipv6'', ''ipv6addr'', ''ipv6dns1'', ''ipv6dns2'', ''ipv6gateway'',
      ''isolationbetweenssid'', ''isolationwithinssid'', ''key'', ''keylength'', ''keyrenew'', ''lltd'',
      ''loadbalance'', ''loadbalancessid'', ''logconfchange'', ''logfail'', ''logsuccess'', ''logsyserror'',
      ''mcastenhance'', ''md5supplicant'', ''md5suppname'', ''md5supppassword'', ''md5supptype'', ''nativevlanid'',
      ''ntp'', ''ntpserver'', ''operationmode'', ''password'', ''priority'', ''psk'', ''radiusserver'',
      ''radiusport'', ''radiussecret'', ''bridgemac'', ''repeatermac'', ''remotessid'', ''remoteucr'',
      ''roguelegal'', ''roguetype'', ''rtsthreshold'', ''security'', ''snmpcontact'', ''snmpdevice'',
      ''snmplocation'', ''snmpreadcommunity'', ''snmptrapcommunity'', ''snmpwritecommunity'', ''snmpmode'', ''ssh'',
      ''ssid'', ''ssidbroadcast'', ''syslog'', ''syslogserver'', ''time'', ''timemode'', ''timezone'', ''daylight'',
      ''uptime'', ''username'', ''vlan'', ''vlandefault'', ''vlanid'', ''vlanmanagement'', ''vlantag'',
      ''vlantagoverwds'', ''wlanaccess'', ''wirelessmode'', ''wmm'', ''wmmps'']"
  unfolding getCmdTbl_def by (simp add: c_tolower_def char_of_def bit_Suc_0_iff)

lemma getCmdTbl_names: "distinct (map (\<lambda>e. lower (pCmd e)) getCmdTbl)"
  unfolding getCmdTbl_lower by (simp only: string_distinct)

lemma getCmdTbl_below: "list_all (\<lambda>n. case n of None \<Rightarrow> True | Some u \<Rightarrow> all_distinct u) (map pNxtParseTbl getCmdTbl)"
  unfolding getCmdTbl_def list.map entry.sel by simp

lemma getCmdTbl_distinct [simp]: "all_distinct getCmdTbl"
  by (rule all_distinctI [OF getCmdTbl_names getCmdTbl_below])

lemma setCmdTbl_lower:
  "map (\<lambda>e. lower (pCmd e)) setCmdTbl =
     [''11nguardinterval'', ''11nchanbandwidth'', ''802_11d'', ''acl'', ''active'', ''authentication'',
      ''beaconinterval'', ''bridgemac'', ''channel'', ''country'', ''ethdatarate'', ''ethautonegotiation'',
      ''ethduplexmode'', ''ctsprotect'', ''daylight'', ''defaultkey'', ''devicename'', ''dhcp'', ''dhcpv6'',
      ''dns2server'', ''dnsserver'', ''dot1xdynkeylife'', ''dtiminterval'', ''emailaddress'', ''emailalert'',
      ''emailinterval'', ''emailqueue'', ''emailserver'', ''encryption'', ''fragthreshold'', ''gateway'',
      ''hostname'', ''bonjour'', ''wps'', ''wps_pin'', ''wps_pin_er'', ''forcelan100m'', ''httpredirect'',
      ''httpredirecturl'', ''https'', ''ipaddr'', ''ipmask'', ''ipv6'', ''ipv6addr'', ''ipv6dns1'', ''ipv6dns2'',
      ''ipv6gateway'', ''isolationbetweenssid'', ''isolationwithinssid'', ''key'', ''keylength'', ''keyrenew'',
      ''lltd'', ''loadbalance'', ''loadbalancessid'', ''logconfchange'', ''logfail'', ''logsuccess'',
      ''logsyserror'', ''mcastenhance'', ''md5supplicant'', ''md5suppname'', ''md5supppassword'', ''md5supptype'',
      ''nativevlanid'', ''ntp'', ''ntpserver'', ''operationmode'', ''password'', ''priority'', ''psk'',
      ''radiusserver'', ''radiusport'', ''radiussecret'', ''remotessid'', ''remoteucr'', ''repeatermac'',
      ''roguelegal'', ''roguetype'', ''rtsthreshold'', ''security'', ''shortpreamble'', ''snmpcontact'',
      ''snmpdevice'', ''snmplocation'', ''snmpreadcommunity'', ''snmptrapcommunity'', ''snmpwritecommunity'',
      ''snmpmode'', ''ssh'', ''ssid'', ''ssidbroadcast'', ''syslog'', ''syslogserver'', ''time'', ''timemode'',
      ''timezone'', ''username'', ''vlan'', ''vlandefault'', ''vlanid'', ''vlanmanagement'', ''vlantag'',
      ''vlantagoverwds'', ''wlanaccess'', ''wirelessmode'', ''wmm'', ''wmmps'']"
  unfolding setCmdTbl_def by (simp add: c_tolower_def char_of_def bit_Suc_0_iff)

lemma setCmdTbl_names: "distinct (map (\<lambda>e. lower (pCmd e)) setCmdTbl)"
  unfolding setCmdTbl_lower by (simp only: string_distinct)

lemma setCmdTbl_below: "list_all (\<lambda>n. case n of None \<Rightarrow> True | Some u \<Rightarrow> all_distinct u) (map pNxtParseTbl setCmdTbl)"
  unfolding setCmdTbl_def list.map entry.sel by simp

lemma setCmdTbl_distinct [simp]: "all_distinct setCmdTbl"
  by (rule all_distinctI [OF setCmdTbl_names setCmdTbl_below])

lemma cmdTbl_distinct [simp]: "all_distinct cmdTbl"
  by (simp add: entry_names cmdTbl_def)

lemma reachable_distinct: "reachable t \<Longrightarrow> all_distinct t"
  by (induction rule: reachable.induct) (auto simp: all_distinct.simps [of cmdTbl] dest: all_distinct.simps [THEN iffD1])

text \<open>C16. Every entry of every table that can be reached is chosen by its full name, in any mixture of upper and lower case, hidden
  or not, whatever other names it abbreviates.\<close>

theorem full_name_chooses:
  assumes "reachable t" and "e \<in> set t" and "lower w = lower (pCmd e)"
  shows "\<exists>r. sccli_choose sc (lower w) t = Choice True (e # r)"
proof -
  have "distinct (map (\<lambda>e. lower (pCmd e)) t)"
    using reachable_distinct [OF assms(1)] by (simp add: all_distinct.simps [of t])
  from named_distinct [OF this assms(2)] have "named w t = Some e" using named_cong [OF assms(3)] by simp
  then show ?thesis using choose_named by blast
qed

lemma full_name_chooses_witness:
  "\<exists>r. sccli_choose True (lower ''GET'') cmdTbl = Choice True (Entry ''get'' None ''genericCmdHandler'' (Some getCmdTbl) None # r)"
  by (rule full_name_chooses [OF reachable_root]) (simp_all add: cmdTbl_def c_tolower_def char_of_def bit_Suc_0_iff)

text \<open>Names without capital letters are plain for every token.\<close>

lemma plain_for_lower:
  "list_all (\<lambda>e. sccli_tokenIsHidden e \<or> lower (pCmd e) = pCmd e) tbl \<Longrightarrow> plain_for p tbl"
  by (auto simp: plain_for_def list_all_iff begins_with_def)

lemma plain_for_cmdTbl: "plain_for p cmdTbl"
  by (rule plain_for_lower) (simp add: cmdTbl_def c_tolower_def sccli_tokenIsHidden_def)

text \<open>C15. What a token, not empty and in lower case as the parser compares it, stands for. In every table, whatever is chosen is
  an entry whose full name it is (hidden or not), or a visible entry whose name, in lower case, it begins. Where no visible
  entry's name begins with the token only when its capital letters are read as small ones (\<open>plain_for\<close>: always so
  in a table without capital letters, as \<open>cmdTbl\<close>), the choice is the reference: the first entry of that full name and
  otherwise the first visible entry whose name the token begins, so an abbreviation of several names is not refused but
  runs the first of them; and nothing when there is neither. (The code counts common prefixes; the reference looks
  for the name.)\<close>

theorem token_stands_for_first:
  assumes "lower p = p" and "p \<noteq> []"
  shows "(\<forall>e r. chosen (sccli_choose sc p tbl) = e # r \<longrightarrow> e \<in> set tbl \<and>
      (p = lower (pCmd e) \<or> \<not> sccli_tokenIsHidden e \<and> take (length p) (lower (pCmd e)) = p)) \<and>
    (plain_for p tbl \<longrightarrow> chosen (sccli_choose sc p tbl) = lookup_entry p tbl)"
proof -
  have "e \<in> set tbl" if "chosen (sccli_choose sc p tbl) = e # r" for e r
    using that sccli_choose_in [of sc p tbl] by (cases "sccli_choose sc p tbl") auto
  then show ?thesis using chosen_stands [OF assms(1)] choose_lookup [OF _ assms] by blast
qed

lemma token_stands_for_first_witness:
  "chosen (sccli_choose True ''g'' cmdTbl) = lookup_entry ''g'' cmdTbl \<and> pCmd (hd (lookup_entry ''g'' cmdTbl)) = ''get'' \<and>
   chosen (sccli_choose True ''?'' cmdTbl) = lookup_entry ''?'' cmdTbl \<and> pCmd (hd (lookup_entry ''?'' cmdTbl)) = ''?'' \<and>
   chosen (sccli_choose True ''hel'' cmdTbl) = []"
proof -
  have l: "lower p = p \<Longrightarrow> p \<noteq> [] \<Longrightarrow> chosen (sccli_choose True p cmdTbl) = lookup_entry p cmdTbl" for p
    using token_stands_for_first [of p True cmdTbl] plain_for_cmdTbl by blast
  have "lookup_entry ''hel'' cmdTbl = []" "pCmd (hd (lookup_entry ''g'' cmdTbl)) = ''get''" "pCmd (hd (lookup_entry ''?'' cmdTbl)) = ''?''"
    by (simp_all add: lookup_entry_def named_def first_begun_def begun_def begins_with_def cmdTbl_def c_tolower_def
        sccli_tokenIsHidden_def)
  then show ?thesis using l [of "''hel''"] l [of "''g''"] l [of "''?''"] by (simp add: c_tolower_def)
qed

end
