(* ===== verification/Cli_Switch.thy ===== *)
theory Cli_Switch
  imports Cli_Names Apcfg_Laws
begin

text \<open>
  From the command line to the configuration: the commands that switch a setting on and off, from the words of the line through
  the parser, the handler, the setter, the daemon and the request file to the flash, and back to what \<open>get\<close> prints.
\<close>

subsection \<open>What the parser leaves alone\<close>

lemma same_host:
  assumes "files t = files s" "scfgd t = scfgd s"
  shows "cfg_inv t = cfg_inv s" "nvram_view t = nvram_view s" "pending t = pending s"
  using assms client_inv_cong [of t s] nvram_view_cong [of t s] pending_cong [of t s]
  by (simp_all add: cfg_inv_def f_exists_def flags_wf_def)

lemma parsed_host:
  assumes "parsed s t"
  shows "files t = files s" "scfgd t = scfgd s" "cli_unit t = cli_unit s" "cli_vap t = cli_vap s"
proof -
  have f: "files (forget t) = files t" "scfgd (forget t) = scfgd t" "cli_unit (forget t) = cli_unit t" "cli_vap (forget t) = cli_vap t"
    for t :: "'a cli_scheme"
    by (simp_all add: forget_def)
  show "files t = files s" "scfgd t = scfgd s" "cli_unit t = cli_unit s" "cli_vap t = cli_vap s"
    using f [of s] f [of t] assms by (simp_all add: parsed_def)
qed

lemma parsed_cfg:
  assumes "parsed s t"
  shows "cfg_inv t = cfg_inv s" "nvram_view t = nvram_view s" "pending t = pending s"
  using parsed_host [OF assms] same_host [of t s] by simp_all

lemma say_cfg [simp]:
  "cfg_inv (say x s) = cfg_inv s" "nvram_view (say x s) = nvram_view s" "pending (say x s) = pending s"
  by (rule same_host; simp add: say_def print_def)+

lemma submit_cfg [simp]:
  "cfg_inv (apcfg_submit s) = cfg_inv s" "nvram_view (apcfg_submit s) = nvram_view s" "pending (apcfg_submit s) = pending s"
proof -
  have f: "files (apcfg_submit s) p = files s p" if "p \<noteq> NVRAM_PATH" for p
    using that by (simp add: apcfg_submit_def nvram_commit_def f_write_def c_system_def Let_def split: option.split)
  have d: "scfgd (apcfg_submit s) = scfgd s"
    by (simp add: apcfg_submit_def nvram_commit_def f_write_def c_system_def Let_def split: option.split)
  have n: "NVRAM_TMP_PATH \<noteq> NVRAM_PATH" "NVRAM_DEFAULT \<noteq> NVRAM_PATH" "APL_FLAG \<noteq> NVRAM_PATH" "APL_CLOSED \<noteq> NVRAM_PATH"
    "APL_PARSING \<noteq> NVRAM_PATH"
    by (simp_all add: NVRAM_PATH_def NVRAM_TMP_PATH_def NVRAM_DEFAULT_def APL_FLAG_def APL_CLOSED_def APL_PARSING_def)
  show "nvram_view (apcfg_submit s) = nvram_view s" "pending (apcfg_submit s) = pending s"
    using f n nvram_view_cong [of "apcfg_submit s" s] pending_cong [of "apcfg_submit s" s] by simp_all
  show "cfg_inv (apcfg_submit s) = cfg_inv s"
    using f n d client_inv_cong [of "apcfg_submit s" s] by (simp add: cfg_inv_def f_exists_def flags_wf_def)
qed

subsection \<open>One switch\<close>

lemma onoff_updates:
  assumes "cfg_inv s" "onoff_entry (n, sf, gf, is)" "v \<in> {0, 1}"
  shows "\<exists>s1. sf v s = Some (A_OK, s1) \<and> cfg_inv s1 \<and> (\<forall>n'. n' \<noteq> n \<longrightarrow> nvram_view s1 n' = nvram_view s n') \<and>
    (nvram_view s1 n = ENABLE \<longleftrightarrow> v = 1) \<and> pending s1 = pending s @ (if nvram_view s n = ENABLE \<longleftrightarrow> v = 1 then [] else is)"
proof -
  have e: "sf = (\<lambda>v. if_changed (get_bool n) v (write_var n (onoff v) is))" "var_name n" "\<forall>i \<in> set is. cfg_flag i"
    using assms(2) by (auto simp: onoff_entry_def)
  let ?old = "if nvram_view s n = ENABLE then 1 else 0 :: int"
  have "updates (sf v) s A_OK (if v \<noteq> ?old then (nvram_view s)(n := onoff v) else nvram_view s) (if v \<noteq> ?old then is else [])"
    unfolding e(1)
    by (rule updates_if_changed [OF reads_simple(1) [OF assms(1) e(2)]])
      (metis updates_write_var [OF _ e(2) _ e(3)] client_value_onoff)
  then obtain s1 where s1: "sf v s = Some (A_OK, s1)" "cfg_inv s1"
    "nvram_view s1 = (if v \<noteq> ?old then (nvram_view s)(n := onoff v) else nvram_view s)"
    "pending s1 = pending s @ (if v \<noteq> ?old then is else [])"
    unfolding updates_def by blast
  have "nvram_view s1 n = ENABLE \<longleftrightarrow> v = 1" using s1(3) assms(3) by (auto simp: onoff_def split: if_splits)
  moreover have "\<forall>n'. n' \<noteq> n \<longrightarrow> nvram_view s1 n' = nvram_view s n'" using s1(3) by simp
  moreover have "pending s1 = pending s @ (if nvram_view s n = ENABLE \<longleftrightarrow> v = 1 then [] else is)" using s1(4) assms(3) by auto
  ultimately show ?thesis using s1(1,2) by blast
qed

text \<open>A line of the words of one path, without arguments.\<close>

lemma path_line:
  fixes s :: "'a cli_scheme"
  assumes "command_of cmdTbl ws = Some (es, [])" "[] \<notin> set ws" "sum_list (map (\<lambda>a. length a + 1) ws) \<le> CLI_INBUF"
    and "length ws \<le> MAX_TOKEN"
  shows "\<exists>t. parsed s t \<and> (\<forall>rc u. call_handler (fHandler (last es)) (lower (pCmd (last es))) t = Some (rc, u) \<longrightarrow> plain_rc rc \<longrightarrow>
    sercomm_cmd ws s = Some (rc, if rc = CLI_PARSE_OK then submitted es u else u))"
proof -
  have "filter (\<lambda>a. a \<noteq> []) ws = ws" using assms(2) by (auto simp: filter_id_conv)
  then have "command_of cmdTbl (keep MAX_TOKEN (filter (\<lambda>a. a \<noteq> []) ws)) = Some (es, [])" using assms(1,4) by simp
  from line_runs [OF assms(3) this, of s call_handler] show ?thesis by (auto simp: sercomm_cmd_def)
qed

lemma switch_line:
  fixes s :: "'a cli_scheme" and sf :: "int \<Rightarrow> 'a wr"
  assumes "command_of cmdTbl ws = Some ([a, b, e], [])" "fHandler a = ''genericCliCmdSet''"
    "fHandler b = ''genericCmdHandler''" "fHandler e \<noteq> ''genericCliCmdSet''"
    and ws: "[] \<notin> set ws" "sum_list (map (\<lambda>a. length a + 1) ws) \<le> CLI_INBUF" "length ws \<le> MAX_TOKEN"
    and h: "\<And>p t. call_handler (fHandler e) p t = put_then (sf v) (reply x) t"
    and e: "onoff_entry (n, sf, gf, is)" "v \<in> {0, 1}" and inv: "cfg_inv s"
  shows "\<exists>u. sercomm_cmd ws s = Some (CLI_PARSE_OK, apcfg_submit u) \<and> cfg_inv u \<and>
    (\<forall>n'. n' \<noteq> n \<longrightarrow> nvram_view u n' = nvram_view s n') \<and> (nvram_view u n = ENABLE \<longleftrightarrow> v = 1) \<and>
    pending u = pending s @ (if nvram_view s n = ENABLE \<longleftrightarrow> v = 1 then [] else is)"
proof -
  obtain t where t: "parsed s t"
    "\<And>rc u. call_handler (fHandler e) (lower (pCmd e)) t = Some (rc, u) \<Longrightarrow> plain_rc rc \<Longrightarrow>
      sercomm_cmd ws s = Some (rc, if rc = CLI_PARSE_OK then submitted [a, b, e] u else u)"
    using path_line [OF assms(1) ws, of s] by auto
  obtain s1 where s1: "sf v t = Some (A_OK, s1)" "cfg_inv s1"
    "\<forall>n'. n' \<noteq> n \<longrightarrow> nvram_view s1 n' = nvram_view s n'" "nvram_view s1 n = ENABLE \<longleftrightarrow> v = 1"
    "pending s1 = pending s @ (if nvram_view s n = ENABLE \<longleftrightarrow> v = 1 then [] else is)"
    using onoff_updates [OF _ e, of t] parsed_cfg [OF t(1)] inv by auto
  have "call_handler (fHandler e) (lower (pCmd e)) t = Some (CLI_PARSE_OK, say x s1)"
    using s1(1) by (simp add: h put_then_def reply_def)
  from t(2) [OF this] have "sercomm_cmd ws s = Some (CLI_PARSE_OK, apcfg_submit (say x s1))"
    using assms(2-4) by (simp add: plain_rc_def)
  then show ?thesis using s1(2-5) by (intro exI [of _ "say x s1"]) simp
qed

lemma show_line:
  fixes s :: "'a cli_scheme" and gf :: "(int, 'a) rd"
  assumes "command_of cmdTbl ws = Some ([a, e], [])" "fHandler a = ''genericCmdHandler''" "fHandler e \<noteq> ''genericCliCmdSet''"
    and ws: "[] \<notin> set ws" "sum_list (map (\<lambda>a. length a + 1) ws) \<le> CLI_INBUF" "length ws \<le> MAX_TOKEN"
    and h: "\<And>p t. call_handler (fHandler e) p t = show_able x gf t"
    and e: "onoff_entry (n, sf, gf, is)" and inv: "cfg_inv s"
  shows "\<exists>u. sercomm_cmd ws s = Some (CLI_PARSE_OK, say (x @ (if nvram_view s n = ENABLE then ''enabled'' else ''disabled'')) u) \<and>
    cfg_inv u \<and> nvram_view u = nvram_view s \<and> pending u = pending s"
proof -
  obtain t where t: "parsed s t"
    "\<And>rc u. call_handler (fHandler e) (lower (pCmd e)) t = Some (rc, u) \<Longrightarrow> plain_rc rc \<Longrightarrow>
      sercomm_cmd ws s = Some (rc, if rc = CLI_PARSE_OK then submitted [a, e] u else u)"
    using path_line [OF assms(1) ws, of s] by auto
  have g: "gf = get_bool n" "var_name n" using e by (auto simp: onoff_entry_def)
  have "reads gf t (if nvram_view s n = ENABLE then 1 else 0)"
    using reads_simple(1) [of t n] g parsed_cfg [OF t(1)] inv by simp
  then obtain u where u: "gf t = Some (if nvram_view s n = ENABLE then 1 else 0, u)" "cfg_inv u" "nvram_view u = nvram_view s"
    "pending u = pending s"
    using parsed_cfg [OF t(1)] by (auto simp: reads_def)
  have "call_handler (fHandler e) (lower (pCmd e)) t =
      Some (CLI_PARSE_OK, say (x @ (if nvram_view s n = ENABLE then ''enabled'' else ''disabled'')) u)"
    using u(1) by (simp add: h show_able_def reply_def pick_str_def pAbleStr_def)
  from t(2) [OF this] assms(2,3) u(2-4) show ?thesis by (auto simp: plain_rc_def)
qed

subsection \<open>The table of switches\<close>

definition able_word :: "int \<Rightarrow> cstr" where
  "able_word v = (if v = 1 then ''enable'' else ''disable'')"

text \<open>The word of the command, the variable, the items to be applied when it changes, and what \<open>get\<close> prints in front.\<close>

type_synonym switch = "cstr \<times> cstr \<times> nat list \<times> cstr"

definition switch_works :: "switch \<Rightarrow> int \<Rightarrow> 'a cli_scheme \<Rightarrow> bool" where
  "switch_works = (\<lambda>(c, n, is, label) v s. \<exists>u w.
     sercomm_cmd [''set'', c, able_word v] s = Some (CLI_PARSE_OK, apcfg_submit u) \<and> cfg_inv u \<and>
     (\<forall>n'. n' \<noteq> n \<longrightarrow> nvram_view u n' = nvram_view s n') \<and>
     pending u = pending s @ (if nvram_view s n = ENABLE \<longleftrightarrow> v = 1 then [] else is) \<and>
     sercomm_cmd [''get'', c] (apcfg_submit u) = Some (CLI_PARSE_OK, say (label @ able_word v @ ''d'') w) \<and>
     nvram_view w = nvram_view u \<and> pending w = pending u)"

lemma named_in: "all_distinct t \<Longrightarrow> Entry c h f n p \<in> set t \<Longrightarrow> named c t = Some (Entry c h f n p)"
  using named_distinct [of t "Entry c h f n p"] by (simp add: all_distinct.simps [of t])

lemma top_entries:
  "named ''set'' cmdTbl = Some (Entry ''set'' None ''genericCliCmdSet'' (Some setCmdTbl) None)"
  "named ''get'' cmdTbl = Some (Entry ''get'' None ''genericCmdHandler'' (Some getCmdTbl) None)"
  by (rule named_in [OF cmdTbl_distinct], simp add: cmdTbl_def)+

definition leaf_handler :: "string \<Rightarrow> bool" where
  "leaf_handler f \<longleftrightarrow> f \<noteq> ''genericCmdHandler'' \<and> f \<noteq> ''genericCliCmdSet''"

lemma set_path:
  assumes "Entry c h ''genericCmdHandler'' (Some t) None \<in> set setCmdTbl" "all_distinct t" "Entry w h' f None None \<in> set t"
    "leaf_handler f"
  shows "command_of cmdTbl [''set'', c, w] = Some ([Entry ''set'' None ''genericCliCmdSet'' (Some setCmdTbl) None,
    Entry c h ''genericCmdHandler'' (Some t) None, Entry w h' f None None], [])"
  using named_in [OF setCmdTbl_distinct assms(1)] named_in [OF assms(2,3)] assms(4)
  by (simp add: top_entries goes_on_def leaf_handler_def)

lemma get_path:
  assumes "Entry c h f None None \<in> set getCmdTbl" "leaf_handler f"
  shows "command_of cmdTbl [''get'', c] = Some ([Entry ''get'' None ''genericCmdHandler'' (Some getCmdTbl) None, Entry c h f None None], [])"
  using named_in [OF getCmdTbl_distinct assms(1)] assms(2) by (simp add: top_entries goes_on_def leaf_handler_def)

lemma switch_row:
  fixes s :: "'a cli_scheme" and sf :: "int \<Rightarrow> 'a wr" and gf :: "(int, 'a) rd"
  assumes o: "(n, sf, gf, is) \<in> set onoff_settings"
    and b: "Entry c h ''genericCmdHandler'' (Some t) None \<in> set setCmdTbl" "all_distinct t"
    and e: "Entry ''disable'' h0 f0 None None \<in> set t" "Entry ''enable'' h1 f1 None None \<in> set t"
    and g: "Entry c hg fg None None \<in> set getCmdTbl"
    and f: "map_of handlers f0 = Some (\<lambda>_. k0)" "map_of handlers f1 = Some (\<lambda>_. k1)" "map_of handlers fg = Some (\<lambda>_. kg)"
    and k: "\<And>s. k0 s = put_then (sf 0) (reply x0) s" "\<And>s. k1 s = put_then (sf 1) (reply x1) s" "\<And>s. kg s = show_able label gf s"
    and c: "c \<noteq> []" "length c < 100" and l: "list_all leaf_handler [f0, f1, fg]"
    and s: "cfg_inv s" "v \<in> {0, 1}"
  shows "switch_works (c, n, is, label) v s"
proof -
  have o: "onoff_entry (n, sf, gf, is)" using o onoff_entries by (auto simp: list_all_iff)
  have "\<exists>u. sercomm_cmd [''set'', c, able_word v] s = Some (CLI_PARSE_OK, apcfg_submit u) \<and> cfg_inv u \<and>
    (\<forall>n'. n' \<noteq> n \<longrightarrow> nvram_view u n' = nvram_view s n') \<and> (nvram_view u n = ENABLE \<longleftrightarrow> v = 1) \<and>
    pending u = pending s @ (if nvram_view s n = ENABLE \<longleftrightarrow> v = 1 then [] else is)"
  proof (cases "v = 1")
    case True
    then have w: "able_word v = ''enable''" by (simp add: able_word_def)
    show ?thesis
      unfolding w by (rule switch_line [OF set_path [OF b e(2)], where sf = sf and x = x1])
        (use True f k o c l s in \<open>simp_all add: call_handler_def leaf_handler_def\<close>)
  next
    case False
    then have v: "v = 0" "able_word v = ''disable''" using s(2) by (simp_all add: able_word_def)
    show ?thesis
      unfolding v(2) by (rule switch_line [OF set_path [OF b e(1)], where sf = sf and x = x0])
        (use v f k o c l s in \<open>simp_all add: call_handler_def leaf_handler_def\<close>)
  qed
  then obtain u where u: "sercomm_cmd [''set'', c, able_word v] s = Some (CLI_PARSE_OK, apcfg_submit u)" "cfg_inv u"
    "\<forall>n'. n' \<noteq> n \<longrightarrow> nvram_view u n' = nvram_view s n'" "nvram_view u n = ENABLE \<longleftrightarrow> v = 1"
    "pending u = pending s @ (if nvram_view s n = ENABLE \<longleftrightarrow> v = 1 then [] else is)"
    by blast
  have d: "(if nvram_view (apcfg_submit u) n = ENABLE then ''enabled'' else ''disabled'') = able_word v @ ''d''"
    using u(4) by (simp add: able_word_def)
  have "\<exists>w. sercomm_cmd [''get'', c] (apcfg_submit u) =
      Some (CLI_PARSE_OK, say (label @ (if nvram_view (apcfg_submit u) n = ENABLE then ''enabled'' else ''disabled'')) w) \<and>
      cfg_inv w \<and> nvram_view w = nvram_view (apcfg_submit u) \<and> pending w = pending (apcfg_submit u)"
    by (rule show_line [OF get_path [OF g], where gf = gf])
      (use f k o c l u(2) in \<open>simp_all add: call_handler_def leaf_handler_def\<close>)
  then obtain w where "sercomm_cmd [''get'', c] (apcfg_submit u) = Some (CLI_PARSE_OK, say (label @ able_word v @ ''d'') w)"
    "nvram_view w = nvram_view u" "pending w = pending u"
    unfolding d by auto
  then show ?thesis using u(1-3,5) unfolding switch_works_def prod.case by blast
qed

definition switches :: "switch list" where
  "switches =
     [(''daylight'', ''timezone_daylightsaving'', [APL_NTP], ''Daylight Mode: ''),
      (''emailalert'', ''email_alert'', [APL_LOG], ''Email Alert: ''),
      (''bonjour'', ''bonjour_enable'', [APL_BONJOUR], ''Bonjour Mode: ''),
      (''httpredirect'', ''rediret_mode'', [APL_HTTPREDIRECT], ''HTTP Redirect Mode: ''),
      (''lltd'', ''lltd'', [APL_LLTD], ''LLTD Mode: ''),
      (''logconfchange'', ''log_conf_change'', [APL_LOG], ''Configuration Changes: ''),
      (''logfail'', ''log_login_fail'', [APL_LOG], ''Unauthorized Login Attempt: ''),
      (''logsuccess'', ''log_login_success'', [APL_LOG], ''Authorized Login: ''),
      (''logsyserror'', ''log_system_errors'', [APL_LOG], ''System Error Messages: ''),
      (''snmpmode'', ''snmp_mode'', [APL_SNMP], ''SNMP Mode: ''),
      (''ssh'', ''SSH'', [APL_SSH, APL_BONJOUR], ''SSH Mode: ''),
      (''vlan'', ''vlan_mode'', [APL_VLAN], ''VLAN Operational State: ''),
      (''vlantagoverwds'', ''vlan_wds_tag'', [APL_VLAN], ''VLAN Tag over WDS Mode: ''),
      (''wlanaccess'', ''wlan_manage'', [APL_HTTPD], ''Wireless Web Access Mode: '')]"

lemma map_of_hit: "n = h \<Longrightarrow> map_of ((n, f) # xs) h = Some f"
  by simp

lemma map_of_skip: "(n = h) = False \<Longrightarrow> map_of xs h = r \<Longrightarrow> map_of ((n, f) # xs) h = r"
  by simp

lemma switch_lookups_1:
  "map_of handlers ''daylightCliCmdDisable'' = Some (\<lambda>_. daylightCliCmdDisable)"
  "map_of handlers ''daylightCliCmdEnable'' = Some (\<lambda>_. daylightCliCmdEnable)"
  "map_of handlers ''daylightModeCliCmdGet'' = Some (\<lambda>_. daylightModeCliCmdGet)"
  "map_of handlers ''emailAlertCliCmdDisable'' = Some (\<lambda>_. emailAlertCliCmdDisable)"
  "map_of handlers ''emailAlertCliCmdEnable'' = Some (\<lambda>_. emailAlertCliCmdEnable)"
  "map_of handlers ''emailAlertCliCmdGet'' = Some (\<lambda>_. emailAlertCliCmdGet)"
  "map_of handlers ''BonjourModeCliCmdDisable'' = Some (\<lambda>_. BonjourModeCliCmdDisable)"
  "map_of handlers ''BonjourModeCliCmdEnable'' = Some (\<lambda>_. BonjourModeCliCmdEnable)"
  "map_of handlers ''BonjourModeCliCmdGet'' = Some (\<lambda>_. BonjourModeCliCmdGet)"
  "map_of handlers ''httpRDModeCliCmdDisable'' = Some (\<lambda>_. httpRDModeCliCmdDisable)"
  "map_of handlers ''httpRDModeCliCmdEnable'' = Some (\<lambda>_. httpRDModeCliCmdEnable)"
  "map_of handlers ''httpRDModeCliCmdGet'' = Some (\<lambda>_. httpRDModeCliCmdGet)"
  by (subst handlers_def, ((rule map_of_hit, rule refl) | (rule map_of_skip, simp only: list.inject char.inject list.distinct simp_thms))+)+

lemma switch_lookups_2:
  "map_of handlers ''lltdModeCliCmdDisable'' = Some (\<lambda>_. lltdModeCliCmdDisable)"
  "map_of handlers ''lltdModeCliCmdEnable'' = Some (\<lambda>_. lltdModeCliCmdEnable)"
  "map_of handlers ''lltdModeCliCmdGet'' = Some (\<lambda>_. lltdModeCliCmdGet)"
  "map_of handlers ''confChangeCliCmdDisable'' = Some (\<lambda>_. confChangeCliCmdDisable)"
  "map_of handlers ''confChangeCliCmdEnable'' = Some (\<lambda>_. confChangeCliCmdEnable)"
  "map_of handlers ''confChangeCliCmdGet'' = Some (\<lambda>_. confChangeCliCmdGet)"
  "map_of handlers ''loginFailCliCmdDisable'' = Some (\<lambda>_. loginFailCliCmdDisable)"
  "map_of handlers ''loginFailCliCmdEnable'' = Some (\<lambda>_. loginFailCliCmdEnable)"
  "map_of handlers ''loginFailCliCmdGet'' = Some (\<lambda>_. loginFailCliCmdGet)"
  "map_of handlers ''loginSuccessCliCmdDisable'' = Some (\<lambda>_. loginSuccessCliCmdDisable)"
  "map_of handlers ''loginSuccessCliCmdEnable'' = Some (\<lambda>_. loginSuccessCliCmdEnable)"
  "map_of handlers ''loginSuccessCliCmdGet'' = Some (\<lambda>_. loginSuccessCliCmdGet)"
  by (subst handlers_def, ((rule map_of_hit, rule refl) | (rule map_of_skip, simp only: list.inject char.inject list.distinct simp_thms))+)+

lemma switch_lookups_3:
  "map_of handlers ''sysErrorCliCmdDisable'' = Some (\<lambda>_. sysErrorCliCmdDisable)"
  "map_of handlers ''sysErrorCliCmdEnable'' = Some (\<lambda>_. sysErrorCliCmdEnable)"
  "map_of handlers ''sysErrorCliCmdGet'' = Some (\<lambda>_. sysErrorCliCmdGet)"
  "map_of handlers ''snmpCliCmdDisable'' = Some (\<lambda>_. snmpCliCmdDisable)"
  "map_of handlers ''snmpCliCmdEnable'' = Some (\<lambda>_. snmpCliCmdEnable)"
  "map_of handlers ''snmpModeCliCmdGet'' = Some (\<lambda>_. snmpModeCliCmdGet)"
  "map_of handlers ''sshModeCliCmdDisable'' = Some (\<lambda>_. sshModeCliCmdDisable)"
  "map_of handlers ''sshModeCliCmdEnable'' = Some (\<lambda>_. sshModeCliCmdEnable)"
  "map_of handlers ''sshModeCliCmdGet'' = Some (\<lambda>_. sshModeCliCmdGet)"
  "map_of handlers ''vlanModeCliCmdDisable'' = Some (\<lambda>_. vlanModeCliCmdDisable)"
  "map_of handlers ''vlanModeCliCmdEnable'' = Some (\<lambda>_. vlanModeCliCmdEnable)"
  "map_of handlers ''vlanModeCliCmdGet'' = Some (\<lambda>_. vlanModeCliCmdGet)"
  by (subst handlers_def, ((rule map_of_hit, rule refl) | (rule map_of_skip, simp only: list.inject char.inject list.distinct simp_thms))+)+

lemma switch_lookups_4:
  "map_of handlers ''vlanWDSTagModeCliCmdDisable'' = Some (\<lambda>_. vlanWDSTagModeCliCmdDisable)"
  "map_of handlers ''vlanWDSTagModeCliCmdEnable'' = Some (\<lambda>_. vlanWDSTagModeCliCmdEnable)"
  "map_of handlers ''vlanWDSTagModeCliCmdGet'' = Some (\<lambda>_. vlanWDSTagModeCliCmdGet)"
  "map_of handlers ''wlanAccessModeCliCmdDisable'' = Some (\<lambda>_. wlanAccessModeCliCmdDisable)"
  "map_of handlers ''wlanAccessModeCliCmdEnable'' = Some (\<lambda>_. wlanAccessModeCliCmdEnable)"
  "map_of handlers ''wlanAccessModeCliCmdGet'' = Some (\<lambda>_. wlanAccessModeCliCmdGet)"
  by (subst handlers_def, ((rule map_of_hit, rule refl) | (rule map_of_skip, simp only: list.inject char.inject list.distinct simp_thms))+)+

lemmas switch_lookups = switch_lookups_1 switch_lookups_2 switch_lookups_3 switch_lookups_4

lemma switch_set_entries:
  "Entry ''daylight'' (Some ''Set Automatically adjust clock for daylight saving changes'') ''genericCmdHandler'' (Some daylightModeCmdTbl) None \<in> set setCmdTbl"
  "Entry ''emailalert'' (Some ''Set Email Alert Mode'') ''genericCmdHandler'' (Some emailalertCmdTbl) None \<in> set setCmdTbl"
  "Entry ''bonjour'' (Some ''Set Bonjour Mode'') ''genericCmdHandler'' (Some bonjourmodeCmdTbl) None \<in> set setCmdTbl"
  "Entry ''httpredirect'' (Some ''Set HTTP Redirect Mode'') ''genericCmdHandler'' (Some httpredirectmodeCmdTbl) None \<in> set setCmdTbl"
  "Entry ''lltd'' (Some ''Set LLTD Mode'') ''genericCmdHandler'' (Some lltdModeCmdTbl) None \<in> set setCmdTbl"
  "Entry ''logconfchange'' (Some ''Set Log Configuration Changes Mode'') ''genericCmdHandler'' (Some confchangeCmdTbl) None \<in> set setCmdTbl"
  "Entry ''logfail'' (Some ''Set Log Authorized Login Mode'') ''genericCmdHandler'' (Some loginfailCmdTbl) None \<in> set setCmdTbl"
  "Entry ''logsuccess'' (Some ''Set Log Unauthorized Login Attempt Mode'') ''genericCmdHandler'' (Some loginsuccessCmdTbl) None \<in> set setCmdTbl"
  "Entry ''logsyserror'' (Some ''Set Log System Error Messages Mode'') ''genericCmdHandler'' (Some syserrorCmdTbl) None \<in> set setCmdTbl"
  "Entry ''snmpmode'' (Some ''Set SNMP Mode'') ''genericCmdHandler'' (Some snmpModeCmdTbl) None \<in> set setCmdTbl"
  "Entry ''ssh'' (Some ''Set SSH Mode'') ''genericCmdHandler'' (Some sshmodeCmdTbl) None \<in> set setCmdTbl"
  "Entry ''vlan'' (Some ''Set VLAN Operational State'') ''genericCmdHandler'' (Some vlanModeCmdTbl) None \<in> set setCmdTbl"
  "Entry ''vlantagoverwds'' (Some ''Set Vlan Tag Over WDS Mode'') ''genericCmdHandler'' (Some vlanWDStagmodeCmdTbl) None \<in> set setCmdTbl"
  "Entry ''wlanaccess'' (Some ''Set Wireless Web Access Mode'') ''genericCmdHandler'' (Some wlanaccessmodeCmdTbl) None \<in> set setCmdTbl"
  unfolding setCmdTbl_def by (rule list.set_intros)+

lemma switch_get_entries:
  "Entry ''daylight'' (Some ''Display Automatically adjust clock for daylight saving changes'') ''daylightModeCliCmdGet'' None None \<in> set getCmdTbl"
  "Entry ''emailalert'' (Some ''Display Email Alert Mode'') ''emailAlertCliCmdGet'' None None \<in> set getCmdTbl"
  "Entry ''bonjour'' (Some ''Display Bonjour Mode'') ''BonjourModeCliCmdGet'' None None \<in> set getCmdTbl"
  "Entry ''httpredirect'' (Some ''Display HTTP Redirect Mode'') ''httpRDModeCliCmdGet'' None None \<in> set getCmdTbl"
  "Entry ''lltd'' (Some ''Display LLTD Mode'') ''lltdModeCliCmdGet'' None None \<in> set getCmdTbl"
  "Entry ''logconfchange'' (Some ''Display Log Configuration Changes Mode'') ''confChangeCliCmdGet'' None None \<in> set getCmdTbl"
  "Entry ''logfail'' (Some ''Display Log Authorized Login Mode'') ''loginFailCliCmdGet'' None None \<in> set getCmdTbl"
  "Entry ''logsuccess'' (Some ''Display Log Unauthorized Login Attempt Mode'') ''loginSuccessCliCmdGet'' None None \<in> set getCmdTbl"
  "Entry ''logsyserror'' (Some ''Display Log System Error Messages Mode'') ''sysErrorCliCmdGet'' None None \<in> set getCmdTbl"
  "Entry ''snmpmode'' (Some ''Display SNMP Mode'') ''snmpModeCliCmdGet'' None None \<in> set getCmdTbl"
  "Entry ''ssh'' (Some ''Display SSH Mode'') ''sshModeCliCmdGet'' None None \<in> set getCmdTbl"
  "Entry ''vlan'' (Some ''Display VLAN Operational State'') ''vlanModeCliCmdGet'' None None \<in> set getCmdTbl"
  "Entry ''vlantagoverwds'' (Some ''Display Vlan Tag Over WDS Mode'') ''vlanWDSTagModeCliCmdGet'' None None \<in> set getCmdTbl"
  "Entry ''wlanaccess'' (Some ''Display Wireless Web Access Mode'') ''wlanAccessModeCliCmdGet'' None None \<in> set getCmdTbl"
  unfolding getCmdTbl_def by (rule list.set_intros)+

lemma switch_leaves:
  "Entry ''disable'' (Some ''Disable daylight'') ''daylightCliCmdDisable'' None None \<in> set daylightModeCmdTbl"
  "Entry ''enable'' (Some ''Enable daylight'') ''daylightCliCmdEnable'' None None \<in> set daylightModeCmdTbl"
  "Entry ''disable'' (Some ''Disable Email Alert'') ''emailAlertCliCmdDisable'' None None \<in> set emailalertCmdTbl"
  "Entry ''enable'' (Some ''Enable Email Alert'') ''emailAlertCliCmdEnable'' None None \<in> set emailalertCmdTbl"
  "Entry ''disable'' (Some ''Disable Bonjour'') ''BonjourModeCliCmdDisable'' None None \<in> set bonjourmodeCmdTbl"
  "Entry ''enable'' (Some ''Enable Bonjour'') ''BonjourModeCliCmdEnable'' None None \<in> set bonjourmodeCmdTbl"
  "Entry ''disable'' (Some ''Disable HTTP Redirct'') ''httpRDModeCliCmdDisable'' None None \<in> set httpredirectmodeCmdTbl"
  "Entry ''enable'' (Some ''Enable HTTP Redirct'') ''httpRDModeCliCmdEnable'' None None \<in> set httpredirectmodeCmdTbl"
  "Entry ''disable'' (Some ''Disable LLTD'') ''lltdModeCliCmdDisable'' None None \<in> set lltdModeCmdTbl"
  "Entry ''enable'' (Some ''Enable LLTD'') ''lltdModeCliCmdEnable'' None None \<in> set lltdModeCmdTbl"
  "Entry ''disable'' (Some ''Disable Configuration Changes'') ''confChangeCliCmdDisable'' None None \<in> set confchangeCmdTbl"
  "Entry ''enable'' (Some ''Enable Configuration Changes'') ''confChangeCliCmdEnable'' None None \<in> set confchangeCmdTbl"
  "Entry ''disable'' (Some ''Disable Authorized Login'') ''loginFailCliCmdDisable'' None None \<in> set loginfailCmdTbl"
  "Entry ''enable'' (Some ''Enable Authorized Login'') ''loginFailCliCmdEnable'' None None \<in> set loginfailCmdTbl"
  "Entry ''disable'' (Some ''Disable Unauthorized Login Attempt'') ''loginSuccessCliCmdDisable'' None None \<in> set loginsuccessCmdTbl"
  "Entry ''enable'' (Some ''Enable Unauthorized Login Attempt'') ''loginSuccessCliCmdEnable'' None None \<in> set loginsuccessCmdTbl"
  "Entry ''disable'' (Some ''Disable System Error Messages'') ''sysErrorCliCmdDisable'' None None \<in> set syserrorCmdTbl"
  "Entry ''enable'' (Some ''Enable System Error Messages'') ''sysErrorCliCmdEnable'' None None \<in> set syserrorCmdTbl"
  "Entry ''disable'' (Some ''Disable SNMP'') ''snmpCliCmdDisable'' None None \<in> set snmpModeCmdTbl"
  "Entry ''enable'' (Some ''Enable SNMP'') ''snmpCliCmdEnable'' None None \<in> set snmpModeCmdTbl"
  "Entry ''disable'' (Some ''Disable SSH'') ''sshModeCliCmdDisable'' None None \<in> set sshmodeCmdTbl"
  "Entry ''enable'' (Some ''Enable SSH'') ''sshModeCliCmdEnable'' None None \<in> set sshmodeCmdTbl"
  "Entry ''disable'' (Some ''Disable VLAN Operation'') ''vlanModeCliCmdDisable'' None None \<in> set vlanModeCmdTbl"
  "Entry ''enable'' (Some ''Enable VLAN Operation'') ''vlanModeCliCmdEnable'' None None \<in> set vlanModeCmdTbl"
  "Entry ''disable'' (Some ''Disable Vlan Tag'') ''vlanWDSTagModeCliCmdDisable'' None None \<in> set vlanWDStagmodeCmdTbl"
  "Entry ''enable'' (Some ''Enable Vlan Tag'') ''vlanWDSTagModeCliCmdEnable'' None None \<in> set vlanWDStagmodeCmdTbl"
  "Entry ''disable'' (Some ''Disable Wireless Web Access'') ''wlanAccessModeCliCmdDisable'' None None \<in> set wlanaccessmodeCmdTbl"
  "Entry ''enable'' (Some ''Enable Wireless Web Access'') ''wlanAccessModeCliCmdEnable'' None None \<in> set wlanaccessmodeCmdTbl"
  unfolding daylightModeCmdTbl_def emailalertCmdTbl_def bonjourmodeCmdTbl_def httpredirectmodeCmdTbl_def lltdModeCmdTbl_def confchangeCmdTbl_def loginfailCmdTbl_def loginsuccessCmdTbl_def syserrorCmdTbl_def snmpModeCmdTbl_def sshmodeCmdTbl_def vlanModeCmdTbl_def vlanWDStagmodeCmdTbl_def wlanaccessmodeCmdTbl_def
  by (rule list.set_intros)+

lemma switch_settings:
  "(''timezone_daylightsaving'', apCfgDaylightSavingSet, apCfgDaylightSavingGet, [APL_NTP]) \<in> set onoff_settings"
  "(''email_alert'', apCfgemailAlertsEnabledSet, apCfgemailAlertsEnabledGet, [APL_LOG]) \<in> set onoff_settings"
  "(''bonjour_enable'', apCfgBonjourSet, apCfgBonjourGet, [APL_BONJOUR]) \<in> set onoff_settings"
  "(''rediret_mode'', apCfgRedirectModeSet, apCfgRedirectModeGet, [APL_HTTPREDIRECT]) \<in> set onoff_settings"
  "(''lltd'', apCfglltdSet, apCfglltdGet, [APL_LLTD]) \<in> set onoff_settings"
  "(''log_conf_change'', apCfgChangeCfgSet, apCfgChangeCfgGet, [APL_LOG]) \<in> set onoff_settings"
  "(''log_login_fail'', apCfgDeauthSet, apCfgDeauthGet, [APL_LOG]) \<in> set onoff_settings"
  "(''log_login_success'', apCfgAuthLoginSet, apCfgAuthLoginGet, [APL_LOG]) \<in> set onoff_settings"
  "(''log_system_errors'', apCfgChangeSysFucSet, apCfgChangeSysFucGet, [APL_LOG]) \<in> set onoff_settings"
  "(''snmp_mode'', apCfgSnmpModeSet, apCfgSnmpModeGet, [APL_SNMP]) \<in> set onoff_settings"
  "(''SSH'', apCfgSSHSet, apCfgSSHGet, [APL_SSH, APL_BONJOUR]) \<in> set onoff_settings"
  "(''vlan_mode'', apCfgVlanModeSet, apCfgVlanModeGet, [APL_VLAN]) \<in> set onoff_settings"
  "(''vlan_wds_tag'', apCfgWdsVlanTagSet, apCfgWdsVlanTagGet, [APL_VLAN]) \<in> set onoff_settings"
  "(''wlan_manage'', apCfgWlanAccessSet, apCfgWlanAccessGet, [APL_HTTPD]) \<in> set onoff_settings"
  unfolding onoff_settings_def by (rule list.set_intros)+

lemmas switch_bodies =
  daylightCliCmdDisable_def daylightCliCmdEnable_def daylightModeCliCmdGet_def
  emailAlertCliCmdDisable_def emailAlertCliCmdEnable_def emailAlertCliCmdGet_def
  BonjourModeCliCmdDisable_def BonjourModeCliCmdEnable_def BonjourModeCliCmdGet_def
  httpRDModeCliCmdDisable_def httpRDModeCliCmdEnable_def httpRDModeCliCmdGet_def
  lltdModeCliCmdDisable_def lltdModeCliCmdEnable_def lltdModeCliCmdGet_def
  confChangeCliCmdDisable_def confChangeCliCmdEnable_def confChangeCliCmdGet_def
  loginFailCliCmdDisable_def loginFailCliCmdEnable_def loginFailCliCmdGet_def
  loginSuccessCliCmdDisable_def loginSuccessCliCmdEnable_def loginSuccessCliCmdGet_def
  sysErrorCliCmdDisable_def sysErrorCliCmdEnable_def sysErrorCliCmdGet_def
  snmpCliCmdDisable_def snmpCliCmdEnable_def snmpModeCliCmdGet_def
  sshModeCliCmdDisable_def sshModeCliCmdEnable_def sshModeCliCmdGet_def
  vlanModeCliCmdDisable_def vlanModeCliCmdEnable_def vlanModeCliCmdGet_def
  vlanWDSTagModeCliCmdDisable_def vlanWDSTagModeCliCmdEnable_def vlanWDSTagModeCliCmdGet_def
  wlanAccessModeCliCmdDisable_def wlanAccessModeCliCmdEnable_def wlanAccessModeCliCmdGet_def

lemma all_switches:
  assumes "cfg_inv s" "v \<in> {0, 1}"
  shows "\<forall>r \<in> set switches. switch_works r v s"
  unfolding switches_def list.set ball_simps
  by (intro conjI TrueI;
    (rule switch_row, rule switch_settings, rule switch_set_entries, simp, rule switch_leaves, rule switch_leaves,
     rule switch_get_entries, rule switch_lookups, rule switch_lookups, rule switch_lookups, rule switch_bodies,
     rule switch_bodies, rule switch_bodies, simp, simp, simp add: leaf_handler_def, rule assms(1), rule assms(2)))

text \<open>C4. For every switch of the table, \<open>set <name> enable\<close> and \<open>set <name> disable\<close>, given to the shell on a consistent device,
  succeed, change the switch's variable and no other, request the items of the switch exactly when it was not in that
  position, and store the settings in flash; \<open>get <name>\<close> then prints the new position and changes nothing.\<close>

theorem switch_commands:
  assumes "cfg_inv s" and "v \<in> {0, 1}" and "r \<in> set switches"
  shows "switch_works r v s"
  using all_switches [OF assms(1,2)] assms(3) by (rule bspec)

text \<open>The device of the other examples, with a shell.\<close>

definition ex_tm :: tm where
  "ex_tm = \<lparr>tm_year = 100, tm_mon = 0, tm_mday = 1, tm_wday = 6, tm_hour = 0, tm_min = 0, tm_sec = 0\<rparr>"

definition ex_cli :: cli where
  "ex_cli = \<lparr>files = files ex_ap, cmds = cmds ex_ap, scfgd = scfgd ex_ap, sh_out = sh_out ex_ap, sh_cwd = sh_cwd ex_ap,
     stack_word = stack_word ex_ap, ifaces = ifaces ex_ap, sh_fx = sh_fx ex_ap, rd_fails = rd_fails ex_ap, stack_bytes = stack_bytes ex_ap, scAclBufUsed = (\<lambda>_ _. False),
     now = ex_tm, inet6 = (\<lambda>_. None),
     iconv = (\<lambda>_ _ b. (0, b)), ParseTbl = [], securityCheck = True, cli_unit = 0, cli_vap = 0,
     token = replicate MAX_TOKEN None, tokenIdx = 0, tokenLvl = 0, ibuf = [], pCurTokenTbl = [], printed = [],
     localtime = (\<lambda>_. ex_tm),
     urandom = None\<rparr>"

lemma ex_cli_inv: "cfg_inv ex_cli"
proof -
  have "files ex_cli = files ex_ap" "scfgd ex_cli = scfgd ex_ap" by (simp_all add: ex_cli_def)
  then show ?thesis
    using ex_ap_inv by (simp add: cfg_inv_def client_inv_def nvram_inv_def f_exists_def flags_wf_def)
qed

lemma switch_commands_witness: "switch_works (''ssh'', ''SSH'', [APL_SSH, APL_BONJOUR], ''SSH Mode: '') 1 ex_cli"
  by (rule switch_commands [OF ex_cli_inv]) (simp_all add: switches_def)

end
