(* ===== verification/Cli_Result.thy ===== *)
theory Cli_Result
  imports Cli_Table
begin

text \<open>
  No handler of \<open>linksysCli.c\<close> returns the two results with which the parser reports a token it does not know: what the
  parser prints for these is printed for its own finds only.
\<close>

definition settled :: "(parse_rc \<times> 'a cli_scheme) option \<Rightarrow> bool" where
  "settled x \<longleftrightarrow> (case x of None \<Rightarrow> True | Some (rc, _) \<Rightarrow> rc \<noteq> CLI_PARSE_UNKNOWN \<and> rc \<noteq> CLI_PARSE_INVALID_PARAMETER)"

lemma settledD: "settled x \<Longrightarrow> x = Some (rc, s) \<Longrightarrow> rc \<notin> {CLI_PARSE_UNKNOWN, CLI_PARSE_INVALID_PARAMETER}"
  by (simp add: settled_def)

named_theorems settled_rules

subsection \<open>The steps\<close>

lemma settled_basic:
  "settled None" "settled (Some (CLI_PARSE_OK, s))" "settled (Some (CLI_PARSE_ERROR, s))" "settled (Some (CLI_PARSE_NO_VALUE, s))"
  "settled (Some (CLI_PARSE_TOO_FEW, s))" "settled (Some (CLI_PARSE_NO_TBL, s))" "settled (Some (CLI_EXIT, s))"
  "settled (reply t s)" "settled (refuse t s)" "settled (error s)"
  by (simp_all add: settled_def reply_def refuse_def error_def)

lemma settled_bind: "(\<And>v. settled (f v)) \<Longrightarrow> settled (Option.bind x f)"
  by (cases x) (simp_all add: settled_def)

lemma settled_cases:
  "(\<And>a b. settled (f a b)) \<Longrightarrow> settled (case p of (a, b) \<Rightarrow> f a b)"
  "(\<And>a b. settled (g a b s)) \<Longrightarrow> settled ((case p of (a, b) \<Rightarrow> g a b) s)"
  "settled x \<Longrightarrow> settled y \<Longrightarrow> settled (if c then x else y)"
  "settled x \<Longrightarrow> (\<And>v. settled (h v)) \<Longrightarrow> settled (case o' of None \<Rightarrow> x | Some v \<Rightarrow> h v)"
  "settled x \<Longrightarrow> (\<And>v vs. settled (k v vs)) \<Longrightarrow> settled (case xs of [] \<Rightarrow> x | v # vs \<Rightarrow> k v vs)"
  "settled (f' v') \<Longrightarrow> settled (Let v' f')"
  by (cases p; cases o'; cases xs; auto)+

lemma settled_rc:
  "settled a \<Longrightarrow> settled b \<Longrightarrow> settled c \<Longrightarrow> settled d \<Longrightarrow> settled e \<Longrightarrow> settled f \<Longrightarrow> settled g \<Longrightarrow> settled h \<Longrightarrow>
   settled (case_parse_rc a b c d e f g h rc)"
  by (cases rc) simp_all

lemmas settled_plain = settled_basic settled_bind settled_cases settled_rc

lemma settled_show [settled_rules]:
  "settled (show_str l g s)" "settled (show_int l h r s)" "settled (show_able l h s)" "settled (show_ip l a s)"
  unfolding show_str_def show_int_def show_able_def show_ip_def by (intro settled_plain)+

lemma settled_put [settled_rules]:
  "(\<And>s. settled (k s)) \<Longrightarrow> settled (put_then wr k s)" "(\<And>s. settled (k s)) \<Longrightarrow> settled (put_checked wr err k s)"
  "(\<And>s. settled (k s)) \<Longrightarrow> settled (put_warn wr err k s)"
  unfolding put_then_def put_checked_def put_warn_def by (intro settled_plain; assumption)+

lemma settled_args [settled_rules]:
  "(\<And>v s. settled (f v s)) \<Longrightarrow> (\<And>s. settled (k s)) \<Longrightarrow> settled (with_num f k s)"
  "(\<And>v s. settled (f' v s)) \<Longrightarrow> (\<And>s. settled (k s)) \<Longrightarrow> settled (with_addr f' k s)"
  "(\<And>p s. settled (h p s)) \<Longrightarrow> settled (pop_then h s)" "(\<And>p s. settled (h p s)) \<Longrightarrow> settled (one_word h s)"
  "(\<And>p s. settled (h p s)) \<Longrightarrow> settled (first_word h s)" "(\<And>p s. settled (h p s)) \<Longrightarrow> settled (all_words n h s)"
  unfolding with_num_def with_addr_def pop_then_def one_word_def first_word_def all_words_def
  by (intro settled_plain; assumption)+

lemma settled_parts [settled_rules]: "(\<And>s. settled (k s)) \<Longrightarrow> settled (put_parts fs ps k s)"
proof (induction fs arbitrary: ps s)
  case (Cons f fs)
  note IH = Cons.IH [OF Cons.prems]
  show ?case by (cases ps; simp only: put_parts.simps; intro settled_plain IH)
qed simp

lemma settled_loops [settled_rules]:
  "settled (smtp_words n s)" "settled (mail_words n l b s)" "settled (list_remote is s)" "settled (list_keys js s)"
proof -
  show "settled (smtp_words n s)"
    by (induction n arbitrary: s; unfold smtp_words.simps; intro settled_plain settled_rules; assumption?)
  show "settled (mail_words n l b s)"
    by (induction n arbitrary: l b s; unfold mail_words.simps; intro settled_plain settled_rules; assumption?)
  show "settled (list_remote is s)"
    by (induction "is" arbitrary: s; unfold list_remote.simps; intro settled_plain settled_rules; assumption?)
  show "settled (list_keys js s)"
    by (induction js arbitrary: s; unfold list_keys.simps; intro settled_plain settled_rules; assumption?)
qed

lemma settled_vaps [settled_rules]: "(\<And>s. settled (k s)) \<Longrightarrow> settled (each_vap f vs k s)"
  by (induction vs arbitrary: s) (auto intro: settled_rules)

lemma settled_unless [settled_rules]: "(\<And>s. settled (k s)) \<Longrightarrow> settled (unless_set gs w k s)"
  unfolding unless_set_def by (induction gs arbitrary: s) (auto intro!: settled_plain)

subsection \<open>Handlers for the device\<close>

lemma settled_device_steps [settled_rules]:
  "settled (change_sku d1 n2 s)"
  "(\<And>s. settled (k s)) \<Longrightarrow> settled (set_clock u p fs k s)"
  "settled (set_name_server a11 s)"
  unfolding change_sku_def set_clock_def set_name_server_def
  by (intro settled_plain settled_rules | assumption | split prod.split option.split parse_rc.split)+

lemma settled_device_1 [settled_rules]:
  "settled (configCliCmdVap s)" "settled (aclCliCmdDisable s)" "settled (aclCliCmdLocal s)" "settled (aclCliCmdRadius s)"
  "settled (aclCliCmdAdd s)" "settled (aclCliCmdDel s)" "settled (activeModeCliCmdEnable s)"
  "settled (activeModeCliCmdDisable s)" "settled (dhcpCliCmdDisable s)" "settled (dhcpCliCmdClient s)"
  "settled (dhcpv6CliCmdDisable s)" "settled (dhcpv6CliCmdClient s)" "settled (dot11nGuardIntervalCmdAuto s)"
  "settled (dot11nGuardIntervalCmdShort s)" "settled (dot11nGuardIntervalCmdLong s)"
  "settled (dot11nRadioBandCmdStandard s)" "settled (dot11nRadioBandCmdAuto s)" "settled (dot11nRadioBandCmdWide s)"
  "settled (changeSKUToUS s)" "settled (changeSKUToAU s)" "settled (changeSKUToJP s)" "settled (changeSKUToBR s)"
  "settled (changeSKUToCN s)" "settled (changeSKUToKR s)" "settled (changeSKUToG5 s)" "settled (dot11dModeCmdDisable s)"
  "settled (dot11dModeCmdEnable s)" "settled (todCliCmdSet s)"
  unfolding configCliCmdVap_def aclCliCmdDisable_def aclCliCmdLocal_def aclCliCmdRadius_def aclCliCmdAdd_def aclCliCmdDel_def
    activeModeCliCmdEnable_def activeModeCliCmdDisable_def dhcpCliCmdDisable_def dhcpCliCmdClient_def
    dhcpv6CliCmdDisable_def dhcpv6CliCmdClient_def dot11nGuardIntervalCmdAuto_def dot11nGuardIntervalCmdShort_def
    dot11nGuardIntervalCmdLong_def dot11nRadioBandCmdStandard_def dot11nRadioBandCmdAuto_def dot11nRadioBandCmdWide_def
    changeSKUToUS_def changeSKUToAU_def changeSKUToJP_def changeSKUToBR_def changeSKUToCN_def changeSKUToKR_def
    changeSKUToG5_def dot11dModeCmdDisable_def dot11dModeCmdEnable_def todCliCmdSet_def
  by (intro settled_plain settled_rules | split prod.split option.split parse_rc.split)+

lemma settled_device_2 [settled_rules]:
  "settled (tocCliCmdSet s)" "settled (dot11nGuardIntervalCliCmdGet s)" "settled (dot11nRadioBandCliCmdGet s)"
  "settled (dot11dModeCliCmdGet s)" "settled (aclCliCmdGet s)" "settled (activeModeCliCmdGet s)"
  "settled (countryCodeCliCmdGet s)" "settled (dhcpModeCliCmdGet s)" "settled (dhcpv6ModeCliCmdGet s)"
  "settled (nameSrvCliCmdGet s)" "settled (dtimModeCliCmdGet s)" "settled (fwversionCmdGet s)"
  "settled (gatewayCliCmdGet s)" "settled (ipAddrCliCmdGet s)" "settled (ipMaskCliCmdGet s)"
  "settled (ntpServerCliCmdGet s)" "settled (todCliCmdGet s)" "settled (uptimeCliCmdGet s)"
  "settled (nameSrvCliCmdSet s)" "settled (dtimModeCliCmdSet s)" "settled (gatewayCliCmdSet s)"
  "settled (ipAddrCliCmdSet s)" "settled (ipMaskCliCmdSet s)" "settled (ntpServerCliCmdSet s)"
  "settled (countryCodeCliCmdSet p s)"
  unfolding tocCliCmdSet_def dot11nGuardIntervalCliCmdGet_def dot11nRadioBandCliCmdGet_def dot11dModeCliCmdGet_def
    aclCliCmdGet_def activeModeCliCmdGet_def countryCodeCliCmdGet_def dhcpModeCliCmdGet_def dhcpv6ModeCliCmdGet_def
    nameSrvCliCmdGet_def dtimModeCliCmdGet_def fwversionCmdGet_def gatewayCliCmdGet_def ipAddrCliCmdGet_def
    ipMaskCliCmdGet_def ntpServerCliCmdGet_def todCliCmdGet_def uptimeCliCmdGet_def nameSrvCliCmdSet_def
    dtimModeCliCmdSet_def gatewayCliCmdSet_def ipAddrCliCmdSet_def ipMaskCliCmdSet_def ntpServerCliCmdSet_def
    countryCodeCliCmdSet_def
  by (intro settled_plain settled_rules | split prod.split option.split parse_rc.split)+

subsection \<open>Handlers for the services\<close>

lemma settled_services_steps [settled_rules]:
  "settled (show_ssid a1 b2 c3 s)"
  "settled (show_reboot_time s)"
  unfolding show_ssid_def show_reboot_time_def
  by (intro settled_plain settled_rules | assumption | split prod.split option.split parse_rc.split)+

lemma settled_services_1 [settled_rules]:
  "settled (opModeCliCmdUc s)" "settled (opModeCliCmdUr s)" "settled (opModeCliCmdRogueAp s)"
  "settled (emailAlertCliCmdDisable s)" "settled (emailAlertCliCmdEnable s)" "settled (loginSuccessCliCmdDisable s)"
  "settled (loginSuccessCliCmdEnable s)" "settled (loginFailCliCmdDisable s)" "settled (loginFailCliCmdEnable s)"
  "settled (sysErrorCliCmdDisable s)" "settled (sysErrorCliCmdEnable s)" "settled (confChangeCliCmdDisable s)"
  "settled (confChangeCliCmdEnable s)" "settled (AutoRebootCliCmdDisable s)" "settled (AutoRebootCliCmdEnable s)"
  "settled (devicenameCliCmdGet s)" "settled (emailAddressCliCmdGet s)" "settled (emailAlertCliCmdGet s)"
  "settled (emailSendPeriodCliCmdGet s)" "settled (emailQueueLengthCliCmdGet s)" "settled (emailServerCliCmdGet s)"
  "settled (hostnameCliCmdGet s)" "settled (WpsPinCliCmdGet s)" "settled (confChangeCliCmdGet s)"
  "settled (loginFailCliCmdGet s)" "settled (loginSuccessCliCmdGet s)" "settled (sysErrorCliCmdGet s)"
  "settled (remotessidCliCmdGet s)"
  unfolding opModeCliCmdUc_def opModeCliCmdUr_def opModeCliCmdRogueAp_def emailAlertCliCmdDisable_def
    emailAlertCliCmdEnable_def loginSuccessCliCmdDisable_def loginSuccessCliCmdEnable_def loginFailCliCmdDisable_def
    loginFailCliCmdEnable_def sysErrorCliCmdDisable_def sysErrorCliCmdEnable_def confChangeCliCmdDisable_def
    confChangeCliCmdEnable_def AutoRebootCliCmdDisable_def AutoRebootCliCmdEnable_def devicenameCliCmdGet_def
    emailAddressCliCmdGet_def emailAlertCliCmdGet_def emailSendPeriodCliCmdGet_def emailQueueLengthCliCmdGet_def
    emailServerCliCmdGet_def hostnameCliCmdGet_def WpsPinCliCmdGet_def confChangeCliCmdGet_def loginFailCliCmdGet_def
    loginSuccessCliCmdGet_def sysErrorCliCmdGet_def remotessidCliCmdGet_def
  by (intro settled_plain settled_rules | split prod.split option.split parse_rc.split)+

lemma settled_services_2 [settled_rules]:
  "settled (remoteUcrMacAddrCliCmdGet s)" "settled (snmpContactCliCmdGet s)" "settled (snmpDeviceNameCliCmdGet s)"
  "settled (snmpLocationCliCmdGet s)" "settled (snmpTrapComCliCmdGet s)" "settled (devicenameCliCmdSet s)"
  "settled (emailAddressCliCmdSet s)" "settled (emailSendPeriodCliCmdSet s)" "settled (emailQueueLengthCliCmdSet s)"
  "settled (emailServerCliCmdSet s)" "settled (hostnameCliCmdSet s)" "settled (WpsPinCliCmdSet s)"
  "settled (remotessidCliCmdSet s)" "settled (remoteUcrMacAddrCliCmdSet s)" "settled (snmpContactCliCmdSet s)"
  "settled (snmpDeviceNameCliCmdSet s)" "settled (snmpLocationCliCmdSet s)" "settled (snmpTrapComCliCmdSet s)"
  unfolding remoteUcrMacAddrCliCmdGet_def snmpContactCliCmdGet_def snmpDeviceNameCliCmdGet_def snmpLocationCliCmdGet_def
    snmpTrapComCliCmdGet_def devicenameCliCmdSet_def emailAddressCliCmdSet_def emailSendPeriodCliCmdSet_def
    emailQueueLengthCliCmdSet_def emailServerCliCmdSet_def hostnameCliCmdSet_def WpsPinCliCmdSet_def
    remotessidCliCmdSet_def remoteUcrMacAddrCliCmdSet_def snmpContactCliCmdSet_def snmpDeviceNameCliCmdSet_def
    snmpLocationCliCmdSet_def snmpTrapComCliCmdSet_def
  by (intro settled_plain settled_rules | split prod.split option.split parse_rc.split)+

subsection \<open>Handlers for the network\<close>

lemma settled_net_steps [settled_rules]:
  "settled (show_if a1 b2 c3 d4 s)"
  "settled (show_v6 a11 b12 c13 s)"
  "(\<And>s. settled (k s)) \<Longrightarrow> settled (set_v6_text v w x k s)"
  "settled (set_vlan_num a21 b22 c23 d24 s)"
  unfolding show_if_def show_v6_def set_v6_text_def set_vlan_num_def
  by (intro settled_plain settled_rules | assumption | split prod.split option.split parse_rc.split)+

lemma settled_net_1 [settled_rules]:
  "settled (aclLocalModeCliCmdAllow s)" "settled (aclLocalModeCliCmdPrevent s)" "settled (dot1xSuppCliCmdDisable s)"
  "settled (dot1xSuppCliCmdEnable s)" "settled (dot1xSuppTypeCliCmdUser s)" "settled (dot1xSuppTypeCliCmdMac s)"
  "settled (vlanModeCliCmdDisable s)" "settled (vlanModeCliCmdEnable s)" "settled (BonjourModeCliCmdDisable s)"
  "settled (BonjourModeCliCmdEnable s)" "settled (WpsModeCliCmdDisable s)" "settled (WpsModeCliCmdEnable s)"
  "settled (WpsPinERCliCmdDisable s)" "settled (WpsPinERCliCmdEnable s)" "settled (force100mModeCliCmdDisable s)"
  "settled (force100mModeCliCmdEnable s)" "settled (httpRDModeCliCmdDisable s)" "settled (httpRDModeCliCmdEnable s)"
  "settled (ipv6ModeCliCmdDisable s)" "settled (ipv6ModeCliCmdEnable s)" "settled (timeModeCliCmdDisable s)"
  "settled (timeModeCliCmdEnable s)" "settled (ntpModeCliCmdDisable s)" "settled (ntpModeCliCmdEnable s)"
  "settled (wlanAccessModeCliCmdDisable s)" "settled (wlanAccessModeCliCmdEnable s)" "settled (sshModeCliCmdDisable s)"
  "settled (sshModeCliCmdEnable s)"
  unfolding aclLocalModeCliCmdAllow_def aclLocalModeCliCmdPrevent_def dot1xSuppCliCmdDisable_def dot1xSuppCliCmdEnable_def
    dot1xSuppTypeCliCmdUser_def dot1xSuppTypeCliCmdMac_def vlanModeCliCmdDisable_def vlanModeCliCmdEnable_def
    BonjourModeCliCmdDisable_def BonjourModeCliCmdEnable_def WpsModeCliCmdDisable_def WpsModeCliCmdEnable_def
    WpsPinERCliCmdDisable_def WpsPinERCliCmdEnable_def force100mModeCliCmdDisable_def force100mModeCliCmdEnable_def
    httpRDModeCliCmdDisable_def httpRDModeCliCmdEnable_def ipv6ModeCliCmdDisable_def ipv6ModeCliCmdEnable_def
    timeModeCliCmdDisable_def timeModeCliCmdEnable_def ntpModeCliCmdDisable_def ntpModeCliCmdEnable_def
    wlanAccessModeCliCmdDisable_def wlanAccessModeCliCmdEnable_def sshModeCliCmdDisable_def sshModeCliCmdEnable_def
  by (intro settled_plain settled_rules | split prod.split option.split parse_rc.split)+

lemma settled_net_2 [settled_rules]:
  "settled (ctsProtectModeCliCmdDisable s)" "settled (ctsProtectModeCliCmdAuto s)"
  "settled (loadBalanceModeCliCmdDisable s)" "settled (loadBalanceModeCliCmdEnable s)"
  "settled (vlanTagModeCliCmdDisable s)" "settled (vlanTagModeCliCmdEnable s)" "settled (vlanWDSTagModeCliCmdDisable s)"
  "settled (vlanWDSTagModeCliCmdEnable s)" "settled (aclLocalModeCliCmdGet s)" "settled (ctsProtectModeCliCmdGet s)"
  "settled (nameSrv2CliCmdGet s)" "settled (BonjourModeCliCmdGet s)" "settled (WpsModeCliCmdGet s)"
  "settled (WpsPinERCliCmdGet s)" "settled (force100mModeCliCmdGet s)" "settled (httpRDModeCliCmdGet s)"
  "settled (httpURLCliCmdGet s)" "settled (ipv6ModeCliCmdGet s)" "settled (ipv6AddrCliCmdGet s)"
  "settled (ipv6dns1CliCmdGet s)" "settled (ipv6dns2CliCmdGet s)" "settled (ipv6gatewayCliCmdGet s)"
  "settled (loadBalanceModeCliCmdGet s)" "settled (loadBalanceSSIDCliCmdGet s)" "settled (dot1xSuppCliCmdGet s)"
  "settled (dot1xSuppUserCliCmdGet s)" "settled (dot1xSuppPassCliCmdGet s)" "settled (dot1xSuppTypeCliCmdGet s)"
  unfolding ctsProtectModeCliCmdDisable_def ctsProtectModeCliCmdAuto_def loadBalanceModeCliCmdDisable_def
    loadBalanceModeCliCmdEnable_def vlanTagModeCliCmdDisable_def vlanTagModeCliCmdEnable_def
    vlanWDSTagModeCliCmdDisable_def vlanWDSTagModeCliCmdEnable_def aclLocalModeCliCmdGet_def
    ctsProtectModeCliCmdGet_def nameSrv2CliCmdGet_def BonjourModeCliCmdGet_def WpsModeCliCmdGet_def
    WpsPinERCliCmdGet_def force100mModeCliCmdGet_def httpRDModeCliCmdGet_def httpURLCliCmdGet_def ipv6ModeCliCmdGet_def
    ipv6AddrCliCmdGet_def ipv6dns1CliCmdGet_def ipv6dns2CliCmdGet_def ipv6gatewayCliCmdGet_def
    loadBalanceModeCliCmdGet_def loadBalanceSSIDCliCmdGet_def dot1xSuppCliCmdGet_def dot1xSuppUserCliCmdGet_def
    dot1xSuppPassCliCmdGet_def dot1xSuppTypeCliCmdGet_def
  by (intro settled_plain settled_rules | split prod.split option.split parse_rc.split)+

lemma settled_net_3 [settled_rules]:
  "settled (nativeVlanIdCliCmdGet s)" "settled (ntpModeCliCmdGet s)" "settled (priorityCliCmdGet s)"
  "settled (sshModeCliCmdGet s)" "settled (timeModeCliCmdGet s)" "settled (vlanModeCliCmdGet s)"
  "settled (defaultvlanCliCmdGet s)" "settled (vlanPvidCliCmdGet s)" "settled (magvlanCliCmdGet s)"
  "settled (vlanTagModeCliCmdGet s)" "settled (vlanWDSTagModeCliCmdGet s)" "settled (wlanAccessModeCliCmdGet s)"
  "settled (nameSrv2CliCmdSet s)" "settled (httpURLCliCmdSet s)" "settled (ipv6AddrCliCmdSet s)"
  "settled (ipv6dns1CliCmdSet s)" "settled (ipv6dns2CliCmdSet s)" "settled (ipv6gatewayCliCmdSet s)"
  "settled (loadBalanceSSIDCliCmdSet s)" "settled (dot1xSuppUserCliCmdSet s)" "settled (dot1xSuppPassCliCmdSet s)"
  "settled (nativeVlanIdCliCmdSet s)" "settled (priorityCliCmdSet s)" "settled (defaultvlanCliCmdSet s)"
  "settled (vlanPvidCliCmdSet s)" "settled (magvlanCliCmdSet s)"
  unfolding nativeVlanIdCliCmdGet_def ntpModeCliCmdGet_def priorityCliCmdGet_def sshModeCliCmdGet_def timeModeCliCmdGet_def
    vlanModeCliCmdGet_def defaultvlanCliCmdGet_def vlanPvidCliCmdGet_def magvlanCliCmdGet_def vlanTagModeCliCmdGet_def
    vlanWDSTagModeCliCmdGet_def wlanAccessModeCliCmdGet_def nameSrv2CliCmdSet_def httpURLCliCmdSet_def
    ipv6AddrCliCmdSet_def ipv6dns1CliCmdSet_def ipv6dns2CliCmdSet_def ipv6gatewayCliCmdSet_def
    loadBalanceSSIDCliCmdSet_def dot1xSuppUserCliCmdSet_def dot1xSuppPassCliCmdSet_def nativeVlanIdCliCmdSet_def
    priorityCliCmdSet_def defaultvlanCliCmdSet_def vlanPvidCliCmdSet_def magvlanCliCmdSet_def
  by (intro settled_plain settled_rules | split prod.split option.split parse_rc.split)+

subsection \<open>Handlers for the radio\<close>

lemma settled_wlan_steps [settled_rules]:
  "settled (tftp_usage s)"
  "settled (show_pick a11 b12 c13 s)"
  "settled (wireless_mode a21 b22 s)"
  "settled (out_power a31 s)"
  "settled (eth_nego a41 s)"
  "settled (eth_duplex a51 s)"
  "settled (eth_rate a61 s)"
  unfolding tftp_usage_def show_pick_def wireless_mode_def out_power_def eth_nego_def eth_duplex_def eth_rate_def
  by (intro settled_plain settled_rules | assumption | split prod.split option.split parse_rc.split)+

lemma settled_wlan_1 [settled_rules]:
  "settled (wirelessModeCliCmdDisable s)" "settled (wirelessModeCliCmd11b s)" "settled (wirelessModeCliCmd11g s)"
  "settled (wirelessModeCliCmd11n s)" "settled (wirelessModeCliCmd11bg s)" "settled (wirelessModeCliCmd11bgn s)"
  "settled (opModeCliCmdAp s)" "settled (opModeCliCmdMpt s)" "settled (opModeCliCmdApPtp s)"
  "settled (opModeCliCmdApPtmp s)" "settled (sepCliCmdDisable s)" "settled (sepCliCmdEnable s)"
  "settled (wmeCliCmdDisable s)" "settled (wmeCliCmdEnable s)" "settled (wmmpsCliCmdDisable s)"
  "settled (wmmpsCliCmdEnable s)" "settled (outPowerCliCmd100 s)" "settled (outPowerCliCmd79 s)"
  "settled (outPowerCliCmd63 s)" "settled (outPowerCliCmd50 s)" "settled (outPowerCliCmd40 s)"
  "settled (outPowerCliCmd32 s)" "settled (outPowerCliCmd25 s)" "settled (outPowerCliCmd20 s)"
  "settled (outPowerCliCmd16 s)" "settled (outPowerCliCmd13 s)" "settled (outPowerCliCmd10 s)"
  "settled (outPowerCliCmd8 s)"
  unfolding wirelessModeCliCmdDisable_def wirelessModeCliCmd11b_def wirelessModeCliCmd11g_def wirelessModeCliCmd11n_def
    wirelessModeCliCmd11bg_def wirelessModeCliCmd11bgn_def opModeCliCmdAp_def opModeCliCmdMpt_def opModeCliCmdApPtp_def
    opModeCliCmdApPtmp_def sepCliCmdDisable_def sepCliCmdEnable_def wmeCliCmdDisable_def wmeCliCmdEnable_def
    wmmpsCliCmdDisable_def wmmpsCliCmdEnable_def outPowerCliCmd100_def outPowerCliCmd79_def outPowerCliCmd63_def
    outPowerCliCmd50_def outPowerCliCmd40_def outPowerCliCmd32_def outPowerCliCmd25_def outPowerCliCmd20_def
    outPowerCliCmd16_def outPowerCliCmd13_def outPowerCliCmd10_def outPowerCliCmd8_def
  by (intro settled_plain settled_rules | split prod.split option.split parse_rc.split)+

lemma settled_wlan_2 [settled_rules]:
  "settled (outPowerCliCmd6 s)" "settled (outPowerCliCmd5 s)" "settled (shortPreambleCliCmdDisable s)"
  "settled (shortPreambleCliCmdEnable s)" "settled (interVapForwardingCliCmdDisable s)"
  "settled (interVapForwardingCliCmdEnable s)" "settled (ssidModeCliCmdDisable s)" "settled (ssidModeCliCmdEnable s)"
  "settled (lltdModeCliCmdDisable s)" "settled (lltdModeCliCmdEnable s)" "settled (ethAutoNegoCliCmdEnable s)"
  "settled (ethAutoNegoCliCmdDisable s)" "settled (ethDuplexModeCliCmdFull s)" "settled (ethDuplexModeCliCmdHalf s)"
  "settled (ethDataRateCliCmdAuto s)" "settled (ethDataRateCliCmd1000 s)" "settled (ethDataRateCliCmd100 s)"
  "settled (ethDataRateCliCmd10 s)" "settled (beaconCliCmdGet s)" "settled (chanCliCmdGet s)"
  "settled (ethDataRateCliCmdGet s)" "settled (ethAutoNego s)" "settled (ethDuplexModeGet s)" "settled (fragCliCmdGet s)"
  "settled (interVapForwardingCliCmdGet s)" "settled (sepCliCmdGet s)" "settled (lltdModeCliCmdGet s)"
  "settled (opModeCliCmdGet s)"
  unfolding outPowerCliCmd6_def outPowerCliCmd5_def shortPreambleCliCmdDisable_def shortPreambleCliCmdEnable_def
    interVapForwardingCliCmdDisable_def interVapForwardingCliCmdEnable_def ssidModeCliCmdDisable_def
    ssidModeCliCmdEnable_def lltdModeCliCmdDisable_def lltdModeCliCmdEnable_def ethAutoNegoCliCmdEnable_def
    ethAutoNegoCliCmdDisable_def ethDuplexModeCliCmdFull_def ethDuplexModeCliCmdHalf_def ethDataRateCliCmdAuto_def
    ethDataRateCliCmd1000_def ethDataRateCliCmd100_def ethDataRateCliCmd10_def beaconCliCmdGet_def chanCliCmdGet_def
    ethDataRateCliCmdGet_def ethAutoNego_def ethDuplexModeGet_def fragCliCmdGet_def interVapForwardingCliCmdGet_def
    sepCliCmdGet_def lltdModeCliCmdGet_def opModeCliCmdGet_def
  by (intro settled_plain settled_rules | split prod.split option.split parse_rc.split)+

lemma settled_wlan_3 [settled_rules]:
  "settled (remotePtmpMacListCliCmdGet s)" "settled (remotePtpMacAddrCliCmdGet s)" "settled (rtsCliCmdGet s)"
  "settled (ssidCliCmdGet s)" "settled (ssidModeCliCmdGet s)" "settled (wirelessModeCliCmdGet s)"
  "settled (wmeCliCmdGet s)" "settled (wmmpsCliCmdGet s)" "settled (beaconCliCmdSet s)" "settled (chanCliCmdSet s)"
  "settled (fragCliCmdSet s)" "settled (remotePtpMacAddrCliCmdSet s)" "settled (rtsCliCmdSet s)"
  "settled (ssidCliCmdSet s)" "settled (tftpCmdHandler s)" "settled (factoryCmdHandler s)"
  "settled (genWpsPinCmdHandler s)" "settled (genWpaPskCmdHandler s)" "settled (remotePtmpMacListCliCmdSet p s)"
  unfolding remotePtmpMacListCliCmdGet_def remotePtpMacAddrCliCmdGet_def rtsCliCmdGet_def ssidCliCmdGet_def
    ssidModeCliCmdGet_def wirelessModeCliCmdGet_def wmeCliCmdGet_def wmmpsCliCmdGet_def beaconCliCmdSet_def
    chanCliCmdSet_def fragCliCmdSet_def remotePtpMacAddrCliCmdSet_def rtsCliCmdSet_def ssidCliCmdSet_def
    tftpCmdHandler_def factoryCmdHandler_def genWpsPinCmdHandler_def genWpaPskCmdHandler_def
    remotePtmpMacListCliCmdSet_def
  by (intro settled_plain settled_rules | split prod.split option.split parse_rc.split)+

subsection \<open>Handlers for management\<close>

lemma settled_manage_steps [settled_rules]:
  "settled (choose_security a1 b2 s)"
  "settled (choose_cipher a11 b12 s)"
  "settled (set_radius_server a21 b22 c23 s)"
  "settled (set_rogue_type a31 s)"
  "settled (change_legal a41 b42 c43 s)"
  "(\<And>v s. settled (f v s)) \<Longrightarrow> settled (one_num f s)"
  "(\<And>w s. settled (g w s)) \<Longrightarrow> settled (one_addr g l s)"
  unfolding choose_security_def choose_cipher_def set_radius_server_def set_rogue_type_def change_legal_def one_num_def one_addr_def
  by (intro settled_plain settled_rules | assumption | split prod.split option.split parse_rc.split)+

lemma settled_manage_1 [settled_rules]:
  "settled (radiusSrvCliCmdGetPri s)" "settled (radiusSrvCliCmdGetBck s)" "settled (radiusSrvCliCmdSetPri s)"
  "settled (radiusSrvCliCmdSetBck s)" "settled (radiusPortCliCmdGetPri s)" "settled (radiusPortCliCmdGetBck s)"
  "settled (radiusPortCliCmdSetPri s)" "settled (radiusPortCliCmdSetBck s)" "settled (radiusSecretCliCmdGetPri s)"
  "settled (radiusSecretCliCmdGetBck s)" "settled (radiusSecretCliCmdSetPri s)" "settled (radiusSecretCliCmdSetBck s)"
  "settled (authCliCmdOpen s)" "settled (authCliCmdShared s)" "settled (encryCliCmdTkip s)" "settled (encryCliCmdAes s)"
  "settled (secCliCmdWpapsk s)" "settled (secCliCmdWpa2psk s)" "settled (secCliCmdWpapskauto s)"
  "settled (secCliCmdWpa s)" "settled (secCliCmdWpa2 s)" "settled (secCliCmdWpaauto s)" "settled (secCliCmdRadius s)"
  "settled (secCliCmdNone s)" "settled (httpCliCmdDisable s)" "settled (httpCliCmdEnable s)"
  "settled (httpsCliCmdDisable s)" "settled (httpsCliCmdEnable s)"
  unfolding radiusSrvCliCmdGetPri_def radiusSrvCliCmdGetBck_def radiusSrvCliCmdSetPri_def radiusSrvCliCmdSetBck_def
    radiusPortCliCmdGetPri_def radiusPortCliCmdGetBck_def radiusPortCliCmdSetPri_def radiusPortCliCmdSetBck_def
    radiusSecretCliCmdGetPri_def radiusSecretCliCmdGetBck_def radiusSecretCliCmdSetPri_def radiusSecretCliCmdSetBck_def
    authCliCmdOpen_def authCliCmdShared_def encryCliCmdTkip_def encryCliCmdAes_def secCliCmdWpapsk_def
    secCliCmdWpa2psk_def secCliCmdWpapskauto_def secCliCmdWpa_def secCliCmdWpa2_def secCliCmdWpaauto_def
    secCliCmdRadius_def secCliCmdNone_def httpCliCmdDisable_def httpCliCmdEnable_def httpsCliCmdDisable_def
    httpsCliCmdEnable_def
  by (intro settled_plain settled_rules | split prod.split option.split parse_rc.split)+

lemma settled_manage_2 [settled_rules]:
  "settled (multienhanceDisable s)" "settled (multienhanceEnable s)" "settled (daylightCliCmdDisable s)"
  "settled (daylightCliCmdEnable s)" "settled (snmpCliCmdDisable s)" "settled (snmpCliCmdEnable s)"
  "settled (snmpManageCliCmdAny s)" "settled (snmpManageCliCmdIpStart s)" "settled (snmpManageCliCmdIpEnd s)"
  "settled (snmpTrapCliCmdBroadcast s)" "settled (snmpTrapCliCmdUnicast s)" "settled (syslogCliCmdDisable s)"
  "settled (syslogCliCmdEnable s)" "settled (roguetype1CliCmdEnable s)" "settled (roguetype2CliCmdEnable s)"
  "settled (roguetype3CliCmdEnable s)" "settled (roguelegalCmdAdd s)" "settled (roguelegalCmdDel s)"
  "settled (authCliCmdGet s)" "settled (defaultKeyCliCmdGet s)" "settled (dot1xKeyLifeCliCmdGet s)"
  "settled (encryptionCliCmdGet s)" "settled (httpsCliCmdGet s)" "settled (hwversionCliCmdGet s)"
  "settled (keyCliCmdGet s)" "settled (keyLengthCliCmdGet s)" "settled (groupKeyUpdateIntervalCliCmdGet s)"
  "settled (menhanceCliCmdGet s)"
  unfolding multienhanceDisable_def multienhanceEnable_def daylightCliCmdDisable_def daylightCliCmdEnable_def
    snmpCliCmdDisable_def snmpCliCmdEnable_def snmpManageCliCmdAny_def snmpManageCliCmdIpStart_def
    snmpManageCliCmdIpEnd_def snmpTrapCliCmdBroadcast_def snmpTrapCliCmdUnicast_def syslogCliCmdDisable_def
    syslogCliCmdEnable_def roguetype1CliCmdEnable_def roguetype2CliCmdEnable_def roguetype3CliCmdEnable_def
    roguelegalCmdAdd_def roguelegalCmdDel_def authCliCmdGet_def defaultKeyCliCmdGet_def dot1xKeyLifeCliCmdGet_def
    encryptionCliCmdGet_def httpsCliCmdGet_def hwversionCliCmdGet_def keyCliCmdGet_def keyLengthCliCmdGet_def
    groupKeyUpdateIntervalCliCmdGet_def menhanceCliCmdGet_def
  by (intro settled_plain settled_rules | split prod.split option.split parse_rc.split)+

lemma settled_manage_3 [settled_rules]:
  "settled (passwordCliCmdGet s)" "settled (pskCliCmdGet s)" "settled (roguelegalCmdGet s)" "settled (roguetypeCmdGet s)"
  "settled (secCliCmdGet s)" "settled (snmpReadComCliCmdGet s)" "settled (snmpWriteComCliCmdGet s)"
  "settled (snmpModeCliCmdGet s)" "settled (syslogCliCmdGet s)" "settled (syslogSrvCliCmdGet s)"
  "settled (timezoneCliCmdGet s)" "settled (daylightModeCliCmdGet s)" "settled (usernameCliCmdGet s)"
  "settled (defaultKeyCliCmdSet s)" "settled (dot1xKeyLifeCliCmdSet s)" "settled (keyCliCmdSet s)"
  "settled (keyLengthCliCmdSet s)" "settled (groupKeyUpdateIntervalCliCmdSet s)" "settled (passwordCliCmdSet s)"
  "settled (pskCliCmdSet s)" "settled (snmpReadComCliCmdSet s)" "settled (snmpWriteComCliCmdSet s)"
  "settled (syslogSrvCliCmdSet s)" "settled (usernameCliCmdSet s)" "settled (timezoneCliCmdSet p s)"
  unfolding passwordCliCmdGet_def pskCliCmdGet_def roguelegalCmdGet_def roguetypeCmdGet_def secCliCmdGet_def
    snmpReadComCliCmdGet_def snmpWriteComCliCmdGet_def snmpModeCliCmdGet_def syslogCliCmdGet_def syslogSrvCliCmdGet_def
    timezoneCliCmdGet_def daylightModeCliCmdGet_def usernameCliCmdGet_def defaultKeyCliCmdSet_def
    dot1xKeyLifeCliCmdSet_def keyCliCmdSet_def keyLengthCliCmdSet_def groupKeyUpdateIntervalCliCmdSet_def
    passwordCliCmdSet_def pskCliCmdSet_def snmpReadComCliCmdSet_def snmpWriteComCliCmdSet_def syslogSrvCliCmdSet_def
    usernameCliCmdSet_def timezoneCliCmdSet_def
  by (intro settled_plain settled_rules | split prod.split option.split parse_rc.split)+

subsection \<open>All handlers\<close>

lemma settled_table [settled_rules]:
  "settled (sccli_helpCmdHandler t s)" "settled (applyCmdHandler s)" "settled (sccli_exitCmdHandler s)"
  unfolding sccli_helpCmdHandler_def applyCmdHandler_def sccli_exitCmdHandler_def
  by (intro settled_plain)+

lemma handlers_settled: "list_all (\<lambda>(n, f). \<forall>p s. settled (f p s)) handlers"
  unfolding handlers_def list.pred_inject(2) prod.case
  by (intro conjI allI settled_rules list.pred_inject(1))

theorem handler_result: "call_handler h p s = Some (rc, u) \<Longrightarrow> rc \<notin> {CLI_PARSE_UNKNOWN, CLI_PARSE_INVALID_PARAMETER}"
proof -
  assume h: "call_handler h p s = Some (rc, u)"
  then obtain f where f: "map_of handlers h = Some f" "f p s = Some (rc, u)" by (auto simp: call_handler_def split: option.splits)
  have "(h, f) \<in> set handlers" by (rule map_of_SomeD [OF f(1)])
  then have "settled (f p s)" using handlers_settled unfolding list_all_iff by fastforce
  then show ?thesis using settledD [OF _ f(2)] by simp
qed

end
