(* ===== verification/Cli_Laws.thy ===== *)
theory Cli_Laws
  imports Cli_Names Cli_Result
begin

text \<open>
  The words of a line reach the handlers in their order, and the parser itself stays within its arrays: the tables are shallow
  and their names short, so no path overflows the line of the help or the stack of tables.
\<close>

subsection \<open>The words of a line\<close>

lemma pop_n_words: "ring_ok s \<Longrightarrow> fst (pop_n n s) = take n (words_left s)"
proof (induction n arbitrary: s)
  case (Suc n)
  show ?case
  proof (cases "words_left s")
    case Nil
    then show ?thesis using ring_ok_pop_empty [OF Suc.prems] by simp
  next
    case (Cons p ps)
    then obtain t where t: "sccli_tokenPop s = (Some p, t)" "ring_ok t" "words_left t = ps"
      using ring_ok_pop [OF Suc.prems] by blast
    then show ?thesis using Suc.IH [OF t(2)] Cons by (simp add: split_def Let_def)
  qed
qed simp

text \<open>C13. The words pushed since the ring was emptied come out in their order; of more than fifty the first ones are lost.\<close>

theorem words_in_order: "fst (pop_all (fold sccli_tokenPush ws (sccli_tokenInit s))) = keep MAX_TOKEN ws"
proof -
  let ?s = "fold sccli_tokenPush ws (sccli_tokenInit s)"
  have "ring_ok ?s" "words_left ?s = keep MAX_TOKEN ws" by (rule start_line)+
  then show ?thesis using pop_n_words [of ?s MAX_TOKEN] length_words_left [of ?s] by (simp add: pop_all_def)
qed

subsection \<open>The size of the tables\<close>

text \<open>Names of at most twenty characters and at most \<open>n\<close> levels of tables below.\<close>

primrec shallow :: "nat \<Rightarrow> entry list \<Rightarrow> bool" where
  "shallow 0 t = list_all (\<lambda>e. length (pCmd e) \<le> 20 \<and> pNxtParseTbl e = None) t"
| "shallow (Suc n) t = list_all (\<lambda>e. length (pCmd e) \<le> 20 \<and> (case pNxtParseTbl e of None \<Rightarrow> True | Some u \<Rightarrow> shallow n u)) t"

lemma shallow_Cons:
  "shallow n []" "shallow 0 (e # t) \<longleftrightarrow> length (pCmd e) \<le> 20 \<and> pNxtParseTbl e = None \<and> shallow 0 t"
  "shallow (Suc n) (e # t) \<longleftrightarrow> length (pCmd e) \<le> 20 \<and> (case pNxtParseTbl e of None \<Rightarrow> True | Some u \<Rightarrow> shallow n u) \<and> shallow (Suc n) t"
  by (cases n) auto

lemma shallowD:
  "shallow n t \<Longrightarrow> e \<in> set t \<Longrightarrow> length (pCmd e) \<le> 20"
  "shallow n t \<Longrightarrow> e \<in> set t \<Longrightarrow> pNxtParseTbl e = Some u \<Longrightarrow> \<exists>m. n = Suc m \<and> shallow m u"
  by (cases n; auto simp: list_all_iff)+

declare shallow.simps [simp del]

lemma shallow_Suc: "shallow n t \<Longrightarrow> shallow (Suc n) t"
proof (induction n arbitrary: t)
  case 0
  then show ?case by (auto simp: shallow.simps list_all_iff split: option.splits)
next
  case (Suc n)
  from Suc.prems have "list_all (\<lambda>e. length (pCmd e) \<le> 20 \<and> (case pNxtParseTbl e of None \<Rightarrow> True | Some u \<Rightarrow> shallow n u)) t"
    by (simp add: shallow.simps(2) [of n])
  then have "list_all (\<lambda>e. length (pCmd e) \<le> 20 \<and> (case pNxtParseTbl e of None \<Rightarrow> True | Some u \<Rightarrow> shallow (Suc n) u)) t"
    by (rule list.pred_mono_strong) (auto split: option.splits intro: Suc.IH)
  then show ?case by (simp add: shallow.simps(2) [of "Suc n"])
qed

lemma shallow_leaves [simp]:
  "shallow 0 configCmdTbl"
  "shallow 0 acllocalmodeCmdTbl"
  "shallow 0 activeModeCmdTbl"
  "shallow 0 dhcpCmdTbl"
  "shallow 0 dhcpv6CmdTbl"
  "shallow 0 dot1xSuppCmdTbl"
  "shallow 0 dot1xSuppTypeCmdTbl"
  "shallow 0 vlanModeCmdTbl"
  "shallow 0 wirelessModeCmdTbl"
  "shallow 0 opModeCmdTbl"
  "shallow 0 radiusSrvCliCmdGetTbl"
  "shallow 0 radiusSrvCliCmdSetTbl"
  "shallow 0 radiusPortCliCmdGetTbl"
  "shallow 0 radiusPortCliCmdSetTbl"
  "shallow 0 radiusSecretCliCmdGetTbl"
  "shallow 0 radiusSecretCliCmdSetTbl"
  "shallow 0 remotePtmpMacListCmdTbl"
  "shallow 0 sepCmdTbl"
  "shallow 0 dot11nGuardIntervalCmdTbl"
  "shallow 0 dot11nRadioBandCmdTbl"
  "shallow 0 skuCmdTbl"
  "shallow 0 dot11dModeCmdTbl"
  "shallow 0 wmeCmdTbl"
  "shallow 0 wmmpsCmdTbl"
  "shallow 0 outPowerCmdTbl"
  "shallow 0 shortPreambleCmdTbl"
  "shallow 0 interVapForwardingCmdTbl"
  "shallow 0 ssidModeCmdTbl"
  "shallow 0 lltdModeCmdTbl"
  "shallow 0 authCmdTbl"
  "shallow 0 encryCmdTbl"
  "shallow 0 ethAutoNegoCmdTbl"
  "shallow 0 ethDuplexModeCmdTbl"
  "shallow 0 ethDataRateCmdTbl"
  "shallow 0 countryCodeCmdTbl"
  "shallow 0 httpCmdTbl"
  "shallow 0 httpsCmdTbl"
  "shallow 0 multienhanceCmdTbl"
  "shallow 0 emailalertCmdTbl"
  "shallow 0 loginsuccessCmdTbl"
  "shallow 0 loginfailCmdTbl"
  "shallow 0 syserrorCmdTbl"
  "shallow 0 confchangeCmdTbl"
  "shallow 0 bonjourmodeCmdTbl"
  "shallow 0 wpsmodeCmdTbl"
  "shallow 0 wpsPinERCmdTbl"
  "shallow 0 autoRebootCmdTbl"
  "shallow 0 force100mmodeCmdTbl"
  "shallow 0 httpredirectmodeCmdTbl"
  "shallow 0 ipv6modeCmdTbl"
  "shallow 0 timemodeCmdTbl"
  "shallow 0 ntpmodeCmdTbl"
  "shallow 0 wlanaccessmodeCmdTbl"
  "shallow 0 sshmodeCmdTbl"
  "shallow 0 ctsprotectmodeCmdTbl"
  "shallow 0 loadbalancemodeCmdTbl"
  "shallow 0 vlantagmodeCmdTbl"
  "shallow 0 vlanWDStagmodeCmdTbl"
  "shallow 0 timesetCmdTbl"
  "shallow 0 timezoneCmdTbl"
  "shallow 0 daylightModeCmdTbl"
  "shallow 0 snmpModeCmdTbl"
  "shallow 0 snmpManageCmdTbl"
  "shallow 0 snmpTrapModeCmdTbl"
  "shallow 0 syslogCmdTbl"
  "shallow 0 roguetypeCmdTbl"
  "shallow 0 roguelegalCmdTbl"
  by (simp_all add: shallow_Cons configCmdTbl_def
    acllocalmodeCmdTbl_def
    activeModeCmdTbl_def
    dhcpCmdTbl_def
    dhcpv6CmdTbl_def
    dot1xSuppCmdTbl_def
    dot1xSuppTypeCmdTbl_def
    vlanModeCmdTbl_def
    wirelessModeCmdTbl_def
    opModeCmdTbl_def
    radiusSrvCliCmdGetTbl_def
    radiusSrvCliCmdSetTbl_def
    radiusPortCliCmdGetTbl_def
    radiusPortCliCmdSetTbl_def
    radiusSecretCliCmdGetTbl_def
    radiusSecretCliCmdSetTbl_def
    remotePtmpMacListCmdTbl_def
    sepCmdTbl_def
    dot11nGuardIntervalCmdTbl_def
    dot11nRadioBandCmdTbl_def
    skuCmdTbl_def
    dot11dModeCmdTbl_def
    wmeCmdTbl_def
    wmmpsCmdTbl_def
    outPowerCmdTbl_def
    shortPreambleCmdTbl_def
    interVapForwardingCmdTbl_def
    ssidModeCmdTbl_def
    lltdModeCmdTbl_def
    authCmdTbl_def
    encryCmdTbl_def
    ethAutoNegoCmdTbl_def
    ethDuplexModeCmdTbl_def
    ethDataRateCmdTbl_def
    countryCodeCmdTbl_def
    httpCmdTbl_def
    httpsCmdTbl_def
    multienhanceCmdTbl_def
    emailalertCmdTbl_def
    loginsuccessCmdTbl_def
    loginfailCmdTbl_def
    syserrorCmdTbl_def
    confchangeCmdTbl_def
    bonjourmodeCmdTbl_def
    wpsmodeCmdTbl_def
    wpsPinERCmdTbl_def
    autoRebootCmdTbl_def
    force100mmodeCmdTbl_def
    httpredirectmodeCmdTbl_def
    ipv6modeCmdTbl_def
    timemodeCmdTbl_def
    ntpmodeCmdTbl_def
    wlanaccessmodeCmdTbl_def
    sshmodeCmdTbl_def
    ctsprotectmodeCmdTbl_def
    loadbalancemodeCmdTbl_def
    vlantagmodeCmdTbl_def
    vlanWDStagmodeCmdTbl_def
    timesetCmdTbl_def
    timezoneCmdTbl_def
    daylightModeCmdTbl_def
    snmpModeCmdTbl_def
    snmpManageCmdTbl_def
    snmpTrapModeCmdTbl_def
    syslogCmdTbl_def
    roguetypeCmdTbl_def
    roguelegalCmdTbl_def)

lemmas shallow_leaves_1 [simp] = shallow_leaves [THEN shallow_Suc]

lemma shallow_middle [simp]: "shallow (Suc 0) aclCmdTbl" "shallow (Suc 0) secCmdTbl"
  by (simp_all add: shallow_Cons aclCmdTbl_def secCmdTbl_def)

lemma shallow_large [simp]: "shallow (Suc (Suc 0)) getCmdTbl" "shallow (Suc (Suc 0)) setCmdTbl"
  by (simp_all add: shallow_Cons getCmdTbl_def setCmdTbl_def)

lemma shallow_cmdTbl: "shallow 3 cmdTbl"
  by (simp add: numeral_3_eq_3 shallow_Cons cmdTbl_def shallow_leaves_1 [THEN shallow_Suc])

subsection \<open>The help\<close>

lemma help_total:
  "shallow n t \<Longrightarrow> length pTxt + 21 * (n + 1) < 132 \<Longrightarrow> \<exists>r. sccli_helpCmdScan sc t pTxt f v = Some r"
proof (induction t arbitrary: n pTxt f v rule: measure_induct_rule [of "size_list size"])
  case (less t)
  show ?case
  proof (cases t)
    case (Cons e es)
    let ?buf = "pTxt @ '' '' @ pCmd e"
    have e: "length (pCmd e) \<le> 20" using shallowD(1) [OF less.prems(1), of e] Cons by simp
    have "shallow n es" using less.prems(1) Cons by (cases n) (simp_all add: shallow_Cons)
    then obtain r where r: "sccli_helpCmdScan sc es pTxt f v = Some r"
      using less.IH [of es n pTxt f v] less.prems(2) Cons by auto
    have b: "into_buf 132 ?buf = Some ?buf" using e less.prems(2) by (intro into_buf_fits) simp
    have sub: "\<exists>r. sccli_helpCmdScan sc u ?buf f' v' = Some r" if u: "pNxtParseTbl e = Some u" for u f' v'
    proof -
      obtain m where "n = Suc m" "shallow m u" using shallowD(2) [OF less.prems(1) _ u] Cons by auto
      then show ?thesis using less.IH [of u m ?buf f' v'] less.prems(2) size_nxt [OF u] e Cons by auto
    qed
    show ?thesis
    proof (cases "pNxtParseTbl e")
      case None
      then show ?thesis unfolding Cons sccli_helpCmdScan.simps(2) r b by (auto split: option.split)
    next
      case (Some u)
      then obtain r1 r2 where "sccli_helpCmdScan sc u ?buf None 0 = Some r1" "sccli_helpCmdScan sc u ?buf None v = Some r2"
        using sub by blast
      with Some show ?thesis unfolding Cons sccli_helpCmdScan.simps(2) r b by (auto split: option.split)
    qed
  qed simp
qed

lemma show_help_total:
  assumes "\<And>t. o' = Some t \<Longrightarrow> shallow 3 t" "length pTxt \<le> 20"
  shows "\<exists>u. show_help o' pTxt f v s = Some u \<and> ParseTbl u = ParseTbl s"
proof (cases o')
  case (Some t)
  then obtain r where "sccli_helpCmdScan (securityCheck s) t pTxt f v = Some r"
    using help_total [of 3 t pTxt] assms by fastforce
  then show ?thesis using Some by (simp add: show_help_def print_def)
qed (simp add: show_help_def)

subsection \<open>The parser\<close>

lemma pop_n_ParseTbl [simp]: "ParseTbl (snd (pop_n n s)) = ParseTbl s"
proof (induction n arbitrary: s)
  case (Suc n)
  show ?case
  proof (cases "sccli_tokenPop s")
    case (Pair p t)
    then show ?thesis using Suc.IH [of t] pop_fields(2) [OF Pair] by (simp add: split_def Let_def split: option.split)
  qed
qed simp

lemma print_ParseTbl [simp]: "ParseTbl (print x s) = ParseTbl s" "ParseTbl (say x s) = ParseTbl s"
  by (simp_all add: say_def print_def)

lemma no_match_total: "\<exists>rc u. no_match p s = Some (rc, u) \<and> ParseTbl u = ParseTbl s"
  by (simp add: no_match_def pop_all_def split_def Let_def)

lemma submit_ParseTbl: "ParseTbl (apcfg_submit s) = ParseTbl s"
  by (simp add: apcfg_submit_def nvram_commit_def f_write_def c_system_def Let_def split: option.split)

lemma pop_lower_ParseTbl: "sccli_tokenPopWoCase s = (p, t) \<Longrightarrow> ParseTbl t = ParseTbl s"
  by (auto simp: sccli_tokenPopWoCase_def Let_def split: prod.splits option.splits dest: pop_fields(2))

lemma shallow_mono: "shallow n t \<Longrightarrow> n \<le> m \<Longrightarrow> shallow m t"
  by (induction m) (auto simp: le_Suc_eq intro: shallow_Suc)

text \<open>A table below a shallow one.\<close>

lemma shallow_below: "shallow 3 t \<Longrightarrow> e \<in> set t \<Longrightarrow> pNxtParseTbl e = Some u \<Longrightarrow> shallow 3 u"
  using shallowD(2) [of 3 t e u] shallow_mono [of _ u 3] by auto

text \<open>What follows the handler fits: it only looks at the stack of tables when the handler did not know its token.\<close>

definition asks_stack :: "parse_rc \<Rightarrow> bool" where
  "asks_stack rc \<longleftrightarrow> rc = CLI_PARSE_UNKNOWN \<or> rc = CLI_PARSE_INVALID_PARAMETER"

lemma after_handler_total:
  assumes "shallow 3 t" "e \<in> set t" "asks_stack rc \<Longrightarrow> list_all (shallow 3) (ParseTbl s) \<and> ParseTbl s \<noteq> []"
  shows "\<exists>rc' u. after_handler single e rc s = Some (rc', u) \<and> ParseTbl u = ParseTbl s \<and> (asks_stack rc' \<longrightarrow> asks_stack rc)"
proof -
  have n: "length (pCmd e) \<le> 20" by (rule shallowD(1) [OF assms(1,2)])
  have u: "shallow 3 u" if "pNxtParseTbl e = Some u" for u by (rule shallow_below [OF assms(1,2) that])
  have h: "shallow 3 (hd (ParseTbl s))" if "asks_stack rc" using assms(3) [OF that] by (cases "ParseTbl s") simp_all
  show ?thesis
    using show_help_total [of "pNxtParseTbl e" "pCmd e" None 1 s] show_help_total [of "Some (hd (ParseTbl s))" "[]" None 1 s]
      show_help_total [of "Some (hd (ParseTbl s))" "pCmd e" "Some (ibuf s)" 1 s] n u h
    by (auto simp: after_handler_def asks_stack_def)
qed

text \<open>How a parse ends: by itself, the same for all handlers, or in the call of one handler, with the stack of tables \<open>ts\<close> on top
  of the one before. Then it returns whenever that handler does.\<close>

definition ends_alone :: "('a runner \<Rightarrow> (parse_rc \<times> 'a cli_scheme) option) \<Rightarrow> nat \<Rightarrow> entry list list \<Rightarrow> bool" where
  "ends_alone R n stack \<longleftrightarrow> (\<exists>rc u ts. (\<forall>call. R call = Some (rc, u)) \<and> ParseTbl u = ts @ stack \<and> ts \<noteq> [] \<and> length ts \<le> n \<and>
     list_all (shallow 3) ts)"

definition ends_in :: "entry \<Rightarrow> cstr \<Rightarrow> 'a cli_scheme \<Rightarrow> ('a runner \<Rightarrow> (parse_rc \<times> 'a cli_scheme) option) \<Rightarrow> bool" where
  "ends_in e p v R \<longleftrightarrow> (\<forall>call.
     (call (fHandler e) p v = None \<longrightarrow> R call = None) \<and>
     (\<forall>rc u. call (fHandler e) p v = Some (rc, u) \<longrightarrow> (asks_stack rc \<longrightarrow> ParseTbl u = ParseTbl v) \<longrightarrow>
        (\<exists>rc' w. R call = Some (rc', w) \<and> (asks_stack rc' \<longrightarrow> ParseTbl w = ParseTbl v))))"

definition ends_in_call :: "('a runner \<Rightarrow> (parse_rc \<times> 'a cli_scheme) option) \<Rightarrow> nat \<Rightarrow> entry list list \<Rightarrow> bool" where
  "ends_in_call R n stack \<longleftrightarrow> (\<exists>e p v ts. ParseTbl v = ts @ stack \<and> ts \<noteq> [] \<and> length ts \<le> n \<and> list_all (shallow 3) ts \<and>
     e \<in> set (hd ts) \<and> ends_in e p v R)"

lemma ends_alone_after:
  assumes "ends_alone R n (t # stack) \<or> (\<exists>rc u. (\<forall>call. R call = Some (rc, u)) \<and> ParseTbl u = t # stack)"
    and "\<And>call. R' call = Option.bind (R call) (\<lambda>(rc, u). after_handler single e rc u)"
    and t: "shallow 3 t" "e \<in> set t" "list_all (shallow 3) stack"
  shows "ends_alone R' (Suc n) stack"
proof -
  obtain rc u ts where u: "\<And>call. R call = Some (rc, u)" "ParseTbl u = ts @ t # stack" "length ts \<le> n" "list_all (shallow 3) ts"
    using assms(1) by (fastforce simp: ends_alone_def intro: that [where ts = "[]"])
  obtain rc' x where "after_handler single e rc u = Some (rc', x)" "ParseTbl x = ParseTbl u"
    using after_handler_total [OF t(1,2), of rc u single] u t by auto
  then show ?thesis using u t(1) assms(2) unfolding ends_alone_def
    by (intro exI [of _ rc'] exI [of _ x] exI [of _ "ts @ [t]"]) simp
qed

lemma ends_in_after:
  assumes "ends_in e p v R" "\<And>call. R' call = Option.bind (R call) (\<lambda>(rc, u). after_handler single d rc (g rc u))"
    and "\<And>rc u. ParseTbl (g rc u) = ParseTbl u" "shallow 3 t" "d \<in> set t" "list_all (shallow 3) (ParseTbl v)" "ParseTbl v \<noteq> []"
  shows "ends_in e p v R'"
  unfolding ends_in_def
proof (intro allI conjI impI)
  fix call :: "'a runner"
  show "R' call = None" if "call (fHandler e) p v = None" using that assms(1,2) by (simp add: ends_in_def)
  fix rc u
  assume "call (fHandler e) p v = Some (rc, u)" "asks_stack rc \<longrightarrow> ParseTbl u = ParseTbl v"
  then obtain rc1 w where w: "R call = Some (rc1, w)" "asks_stack rc1 \<longrightarrow> ParseTbl w = ParseTbl v"
    using assms(1) unfolding ends_in_def by blast
  obtain rc' x where "after_handler single d rc1 (g rc1 w) = Some (rc', x)" "ParseTbl x = ParseTbl (g rc1 w)" "asks_stack rc' \<longrightarrow> asks_stack rc1"
    using after_handler_total [OF assms(4,5), of rc1 "g rc1 w" single] w(2) assms(3,6,7) by auto
  then show "\<exists>rc' w. R' call = Some (rc', w) \<and> (asks_stack rc' \<longrightarrow> ParseTbl w = ParseTbl v)"
    using assms(2,3) w by auto
qed

lemma parser_ends:
  fixes s :: "'a cli_scheme"
  shows "shallow n t \<Longrightarrow> n \<le> 3 \<Longrightarrow> length (ParseTbl s) + n < 49 \<Longrightarrow> list_all (shallow 3) (ParseTbl s) \<Longrightarrow>
    ends_alone (\<lambda>call. sccli_tokenParser call t s) (Suc n) (ParseTbl s) \<or>
    ends_in_call (\<lambda>call. sccli_tokenParser call t s) (Suc n) (ParseTbl s)"
proof (induction t arbitrary: n s rule: measure_induct_rule [of "size_list size"])
  case (less t)
  let ?R = "\<lambda>call. sccli_tokenParser call t s"
  have t3: "shallow 3 t" by (rule shallow_mono [OF less.prems(1,2)])
  obtain p u where p: "sccli_tokenPopWoCase (s\<lparr>tokenLvl := tokenLvl s + 1, ParseTbl := t # ParseTbl s\<rparr>) = (p, u)" by fastforce
  have u: "ParseTbl u = t # ParseTbl s" using pop_lower_ParseTbl [OF p] by simp
  have unf: "?R call = (case p of None \<Rightarrow> Some (CLI_PARSE_OK, u) | Some p \<Rightarrow>
      (case sccli_choose (securityCheck u) p t of
         Choice single (e # r) \<Rightarrow> do {
           (rc, s) \<leftarrow> run_entry call (sccli_tokenParser call) e p (sccli_tokenCurTblSet (e # r) u); after_handler single e rc s }
       | _ \<Rightarrow> no_match p u))" for call
    using less.prems(3) p by (subst sccli_tokenParser.simps) (simp split: option.split)
  show ?case
  proof (cases "\<exists>q single e r. p = Some q \<and> sccli_choose (securityCheck u) q t = Choice single (e # r)")
    case False
    have "\<exists>rc v. (\<forall>call. ?R call = Some (rc, v)) \<and> ParseTbl v = ParseTbl u"
    proof (cases p)
      case None
      then show ?thesis unfolding unf by simp
    next
      case (Some q)
      then have "?R call = no_match q u" for call using False unfolding unf by (auto split: choice.split list.split)
      then show ?thesis using no_match_total [of q u] by metis
    qed
    then show ?thesis using u t3 unfolding ends_alone_def by (auto intro!: exI [of _ "[t]"])
  next
    case True
    then obtain q single e r where c: "p = Some q" "sccli_choose (securityCheck u) q t = Choice single (e # r)" by blast
    have e: "e \<in> set t" by (rule sccli_choose_in [OF c(2)])
    let ?v = "sccli_tokenCurTblSet (e # r) u"
    have v: "ParseTbl ?v = t # ParseTbl s" using u by (simp add: sccli_tokenCurTblSet_def)
    let ?run = "\<lambda>call. run_entry call (sccli_tokenParser call) e q ?v"
    have R: "?R call = Option.bind (?run call) (\<lambda>(rc, u). after_handler single e rc u)" for call unfolding unf using c by simp
    show ?thesis
    proof (cases "goes_on e")
      case False
      then have "?run call = call (fHandler e) q ?v" for call by (simp add: run_entry_def goes_on_def)
      then have "ends_in e q ?v ?run" by (simp add: ends_in_def)
      from ends_in_after [OF this, of ?R single e "\<lambda>_ s. s" t] have "ends_in e q ?v ?R" using R t3 e v less.prems(4) by simp
      then show ?thesis using v t3 unfolding ends_in_call_def by (intro disjI2 exI [of _ e] exI [of _ q] exI [of _ ?v] exI [of _ "[t]"]) (simp add: e)
    next
      case True
      let ?g = "\<lambda>rc w. if fHandler e = ''genericCliCmdSet'' \<and> rc = CLI_PARSE_OK then apcfg_submit w else w"
      have g: "ParseTbl (?g rc w) = ParseTbl w" for rc and w :: "'a cli_scheme" by (simp add: submit_ParseTbl)
      show ?thesis
      proof (cases "sccli_tokenCount ?v \<noteq> 0 \<and> pNxtParseTbl e \<noteq> None")
        case False
        then obtain rc where "?run call = Some (rc, ?v)" "rc = CLI_PARSE_NO_VALUE \<or> rc = CLI_PARSE_NO_TBL" for call
          using \<open>goes_on e\<close> by (cases "sccli_tokenCount ?v") (auto simp: run_entry_def goes_on_def genericCmdHandler_def genericCliCmdSet_def)
        then have "\<exists>rc u. (\<forall>call. ?run call = Some (rc, u)) \<and> ParseTbl u = t # ParseTbl s" using v by blast
        from ends_alone_after [OF disjI2 [OF this] R t3 e less.prems(4), of n] show ?thesis by blast
      next
        case True
        then obtain x where x: "pNxtParseTbl e = Some x" "sccli_tokenCount ?v \<noteq> 0" by auto
        obtain m where m: "n = Suc m" "shallow m x" using shallowD(2) [OF less.prems(1) e x(1)] by auto
        let ?P = "\<lambda>call. sccli_tokenParser call x ?v"
        have run: "?run call = Option.bind (?P call) (\<lambda>(rc, w). Some (rc, ?g rc w))" for call
          using \<open>goes_on e\<close> x by (cases "?P call") (auto simp: run_entry_def goes_on_def genericCmdHandler_def genericCliCmdSet_def)
        have R': "?R call = Option.bind (?P call) (\<lambda>(rc, w). after_handler single e rc (?g rc w))" for call
          unfolding R run by (cases "?P call") auto
        from less.IH [OF size_nxt_in [OF e x(1)] m(2), of ?v] less.prems(2-4) t3 v m(1)
        have "ends_alone ?P n (t # ParseTbl s) \<or> ends_in_call ?P n (t # ParseTbl s)" by auto
        then show ?thesis
        proof
          assume "ends_alone ?P n (t # ParseTbl s)"
          then have "ends_alone ?run n (t # ParseTbl s)" unfolding ends_alone_def run using g by fastforce
          from ends_alone_after [OF disjI1 [OF this] R t3 e less.prems(4)] show ?thesis by blast
        next
          assume "ends_in_call ?P n (t # ParseTbl s)"
          then obtain d pp w ts where d: "ParseTbl w = ts @ t # ParseTbl s" "length ts \<le> n" "list_all (shallow 3) ts" "ends_in d pp w ?P"
            "ts \<noteq> []" "d \<in> set (hd ts)"
            unfolding ends_in_call_def by blast
          have "ends_in d pp w ?R" by (rule ends_in_after [OF d(4) R' g t3 e]) (use d(1,3) t3 less.prems(4) in simp_all)
          then show ?thesis using d(1-3,5,6) t3 unfolding ends_in_call_def
            by (intro disjI2 exI [of _ d] exI [of _ pp] exI [of _ w] exI [of _ "ts @ [t]"]) (simp add: d(4) \<open>ends_in d pp w ?R\<close>)
        qed
      qed
    qed
  qed
qed

text \<open>C11. The parser of \<open>cmdTbl\<close> stays within its own arrays (the stack of fifty tables, the 132 bytes of a help line, the 512 bytes of
  the buffer of words) for every line of at most 512 bytes with the terminators of its words, whatever the tokens are. Either it returns without calling any
  handler; or it calls one handler, with at most four tables on the stack, and returns whenever that handler returns (a handler that returned one of the two
  results for an unknown token would also have to leave the stack of tables alone; none of the program's does). So \<open>sercomm_cmd\<close>
  returns for such a line exactly when the one handler it calls, if any, does: a line can only overrun
  something by what the handler does with it. A longer line overruns the buffer of words itself.\<close>

theorem parser_stays_inside:
  fixes s :: "'a cli_scheme"
  shows "(if CLI_INBUF < sum_list (map (\<lambda>a. length a + 1) argv) then \<forall>call. sccli_parser call cmdTbl argv s = None
    else (\<exists>rc u. \<forall>call. sccli_parser call cmdTbl argv s = Some (rc, u)) \<or>
      (\<exists>e p t. length (ParseTbl t) \<in> {1..4} \<and> e \<in> set (hd (ParseTbl t)) \<and>
        (\<forall>call. (call (fHandler e) p t = None \<longrightarrow> sccli_parser call cmdTbl argv s = None) \<and>
           (\<forall>rc u. call (fHandler e) p t = Some (rc, u) \<longrightarrow>
              rc \<notin> {CLI_PARSE_UNKNOWN, CLI_PARSE_INVALID_PARAMETER} \<or> ParseTbl u = ParseTbl t \<longrightarrow>
              sccli_parser call cmdTbl argv s \<noteq> None)) \<and>
        (sercomm_cmd argv s = None \<longleftrightarrow> call_handler (fHandler e) p t = None)))"
proof (cases "CLI_INBUF < sum_list (map (\<lambda>a. length a + 1) argv)")
  case False
  let ?s = "fold sccli_tokenPush (filter (\<lambda>a. a \<noteq> []) argv) (sccli_tokenInit s)"
  let ?R = "\<lambda>call. sccli_parser call cmdTbl argv s"
  have s: "ParseTbl ?s = []" by (rule start_line)
  have R: "?R call = sccli_tokenParser call cmdTbl ?s" for call using False by (simp add: sccli_parser_def)
  from parser_ends [OF shallow_cmdTbl, of ?s] s have "ends_alone ?R 4 [] \<or> ends_in_call ?R 4 []" unfolding R by simp
  then show ?thesis
  proof
    assume "ends_alone ?R 4 []"
    then show ?thesis using False by (auto simp: ends_alone_def)
  next
    assume "ends_in_call ?R 4 []"
    then obtain e p t where t: "ParseTbl t \<noteq> []" "length (ParseTbl t) \<le> 4" "ends_in e p t ?R"
      "e \<in> set (hd (ParseTbl t))" by (auto simp: ends_in_call_def)
    have l: "length (ParseTbl t) \<in> {1..4}" using t(1,2) by (cases "ParseTbl t") simp_all
    have none: "?R call = None" if "call (fHandler e) p t = None" for call using that t(3) by (simp add: ends_in_def)
    have some: "?R call \<noteq> None"
      if "call (fHandler e) p t = Some (rc, u)" "rc \<notin> {CLI_PARSE_UNKNOWN, CLI_PARSE_INVALID_PARAMETER} \<or> ParseTbl u = ParseTbl t" for call rc u
    proof -
      have "asks_stack rc \<longrightarrow> ParseTbl u = ParseTbl t" using that(2) by (auto simp: asks_stack_def)
      then show ?thesis using that(1) t(3) unfolding ends_in_def by blast
    qed
    have "sercomm_cmd argv s = None \<longleftrightarrow> call_handler (fHandler e) p t = None"
    proof (cases "call_handler (fHandler e) p t")
      case None
      then show ?thesis using none [of call_handler, OF None] None by (simp add: sercomm_cmd_def)
    next
      case (Some x)
      obtain rc u where x: "x = (rc, u)" by (cases x)
      then show ?thesis using some [of call_handler rc u] handler_result [of "fHandler e" p t rc u] Some by (simp add: sercomm_cmd_def)
    qed
    then have "(\<forall>call. (call (fHandler e) p t = None \<longrightarrow> ?R call = None) \<and>
           (\<forall>rc u. call (fHandler e) p t = Some (rc, u) \<longrightarrow>
              rc \<notin> {CLI_PARSE_UNKNOWN, CLI_PARSE_INVALID_PARAMETER} \<or> ParseTbl u = ParseTbl t \<longrightarrow> ?R call \<noteq> None)) \<and>
        (sercomm_cmd argv s = None \<longleftrightarrow> call_handler (fHandler e) p t = None)"
      using none some by blast
    with l t(4) show ?thesis unfolding if_not_P [OF False] by (intro disjI2 exI [of _ e] exI [of _ p] exI [of _ t] conjI) blast+
  qed
qed (simp add: sccli_parser_def)

lemma parser_stays_inside_witness:
  "\<forall>s :: cli. sccli_parser (\<lambda>_ _. applyCmdHandler) cmdTbl [''set'', ''security'', ''wep'', ''open''] s \<noteq> None \<and>
    sercomm_cmd [replicate 512 CHR ''a''] s = None"
proof
  fix s :: cli
  let ?l = "[''set'', ''security'', ''wep'', ''open'']"
  have "applyCmdHandler t = Some (CLI_PARSE_OK, COMMAND ''sleep 1; scapply action'' t)" for t :: cli
    by (simp add: applyCmdHandler_def)
  then have "sccli_parser (\<lambda>_ _. applyCmdHandler) cmdTbl ?l s \<noteq> None" using parser_stays_inside [of ?l s] by auto
  moreover have "sercomm_cmd [replicate 512 CHR ''a''] s = None"
    using parser_stays_inside [of "[replicate 512 CHR ''a'']" s] by (simp add: sercomm_cmd_def)
  ultimately show "sccli_parser (\<lambda>_ _. applyCmdHandler) cmdTbl ?l s \<noteq> None \<and> sercomm_cmd [replicate 512 CHR ''a''] s = None" ..
qed

subsection \<open>A command and its result\<close>

lemma parsed_printed:
  assumes "parsed s t"
  shows "printed t = printed s" "files t = files s" "cmds t = cmds s" "securityCheck t = securityCheck s"
proof -
  have f: "printed (forget t) = printed t" "files (forget t) = files t" "cmds (forget t) = cmds t"
    "securityCheck (forget t) = securityCheck t" for t :: "'a cli_scheme"
    by (simp_all add: forget_def)
  show "printed t = printed s" "files t = files s" "cmds t = cmds s" "securityCheck t = securityCheck s"
    using f [of s] f [of t] assms by (simp_all add: parsed_def)
qed

lemma show_help_prints: "show_help t pTxt f v s = Some u \<Longrightarrow> \<exists>h. u = print h s"
  by (cases t) (auto simp: show_help_def print_def intro: exI [of _ "[]"])

lemma after_handler_help:
  assumes "shallow 3 t" "e \<in> set t" "\<not> plain_rc rc" "asks_stack rc \<Longrightarrow> list_all (shallow 3) (ParseTbl s) \<and> ParseTbl s \<noteq> []"
  shows "\<exists>h. after_handler True e rc s = Some (if rc = CLI_PARSE_NO_VALUE then CLI_PARSE_TOO_FEW else CLI_PARSE_ERROR, print h s)"
proof -
  obtain rc' u where "after_handler True e rc s = Some (rc', u)" using after_handler_total [OF assms(1,2,4)] by blast
  then show ?thesis using assms(3) show_help_prints
    by (fastforce simp: after_handler_def plain_rc_def bind_Some_iff split: if_splits)
qed

text \<open>C6. A line of words that fits the buffer of 512 bytes, of which the last fifty name a command of \<open>cmdTbl\<close> in full, in upper or lower
  case: the handler at the end of the path runs with exactly the words that are left, in a state that differs from the one
  before only in the parser's own fields, and the result of the line is decided by the handler's. A handler that does not return leaves the line without result.
  For \<open>CLI_PARSE_NO_VALUE\<close> the help of the entry is printed, the line's result is \<open>CLI_PARSE_TOO_FEW\<close> and nothing is stored; for the
  two results that no handler of the program gives, \<open>CLI_PARSE_UNKNOWN\<close> and \<open>CLI_PARSE_INVALID_PARAMETER\<close>, likewise with \<open>CLI_PARSE_ERROR\<close> (if
  the stack of tables is left alone). Every other result is the line's result, and the settings are stored, once for
  each \<open>genericCliCmdSet\<close> on the path, exactly when it is \<open>CLI_PARSE_OK\<close>.\<close>

theorem command_line_runs:
  assumes "sum_list (map (\<lambda>a. length a + 1) argv) \<le> CLI_INBUF"
    and "command_of cmdTbl (keep MAX_TOKEN (filter (\<lambda>a. a \<noteq> []) argv)) = Some (es, args)"
  shows "\<exists>t. parsed s t \<and> ring_ok t \<and> words_left t = args \<and>
    (case call (fHandler (last es)) (lower (pCmd (last es))) t of
       None \<Rightarrow> sccli_parser call cmdTbl argv s = None
     | Some (rc, u) \<Rightarrow>
         if rc = CLI_PARSE_NO_VALUE then \<exists>h. sccli_parser call cmdTbl argv s = Some (CLI_PARSE_TOO_FEW, print h u)
         else if rc \<in> {CLI_PARSE_UNKNOWN, CLI_PARSE_INVALID_PARAMETER} then
           ParseTbl u = ParseTbl t \<longrightarrow> (\<exists>h. sccli_parser call cmdTbl argv s = Some (CLI_PARSE_ERROR, print h u))
         else sccli_parser call cmdTbl argv s = Some (rc, if rc = CLI_PARSE_OK then submitted es u else u))"
proof -
  have ex: "\<exists>t. parsed s t \<and> ring_ok t \<and> words_left t = args \<and> list_all (shallow 3) (ParseTbl t) \<and> ParseTbl t \<noteq> [] \<and>
    last es \<in> set (hd (ParseTbl t)) \<and>
    sccli_parser call cmdTbl argv s = Option.bind (call (fHandler (last es)) (lower (pCmd (last es))) t) (finish es)"
    by (rule line_finish [where P = "shallow 3"]) (use assms shallow_cmdTbl shallow_below in blast)+
  obtain t where t: "parsed s t" "ring_ok t" "words_left t = args" "list_all (shallow 3) (ParseTbl t)" "ParseTbl t \<noteq> []"
    "last es \<in> set (hd (ParseTbl t))"
    "sccli_parser call cmdTbl argv s = Option.bind (call (fHandler (last es)) (lower (pCmd (last es))) t) (finish es)"
    using ex by blast
  have top: "shallow 3 (hd (ParseTbl t))" using t(4,5) by (cases "ParseTbl t") simp_all
  show ?thesis
  proof (intro exI [of _ t] conjI t(1-3))
    show "case call (fHandler (last es)) (lower (pCmd (last es))) t of
       None \<Rightarrow> sccli_parser call cmdTbl argv s = None
     | Some (rc, u) \<Rightarrow>
         if rc = CLI_PARSE_NO_VALUE then \<exists>h. sccli_parser call cmdTbl argv s = Some (CLI_PARSE_TOO_FEW, print h u)
         else if rc \<in> {CLI_PARSE_UNKNOWN, CLI_PARSE_INVALID_PARAMETER} then
           ParseTbl u = ParseTbl t \<longrightarrow> (\<exists>h. sccli_parser call cmdTbl argv s = Some (CLI_PARSE_ERROR, print h u))
         else sccli_parser call cmdTbl argv s = Some (rc, if rc = CLI_PARSE_OK then submitted es u else u)"
    proof (cases "call (fHandler (last es)) (lower (pCmd (last es))) t")
      case None
      then show ?thesis using t(7) by simp
    next
      case (Some x)
      obtain rc u where x: "x = (rc, u)" by (cases x)
      show ?thesis
      proof (cases "plain_rc rc")
        case True
        have "sccli_parser call cmdTbl argv s = Some (rc, if rc = CLI_PARSE_OK then submitted es u else u)"
          using Some x t(7) finish_plain [OF True, of es u] by simp
        then show ?thesis using Some x True by (auto simp: plain_rc_def)
      next
        case False
        have h: "\<exists>h. finish es (rc, u) = Some (if rc = CLI_PARSE_NO_VALUE then CLI_PARSE_TOO_FEW else CLI_PARSE_ERROR, print h u)"
          if "asks_stack rc \<Longrightarrow> ParseTbl u = ParseTbl t"
          using after_handler_help [OF top t(6) False, of u] that t(4,5) by (auto simp: finish_def)
        then show ?thesis using Some x t(7) False by (auto simp: plain_rc_def asks_stack_def)
      qed
    qed
  qed
qed

lemma apply_command:
  "command_of cmdTbl [''Apply''] =
     Some ([Entry ''apply'' (Some ''To make the changes take effect'') ''applyCmdHandler'' None None], [])"
  by (simp add: named_def cmdTbl_def c_tolower_def goes_on_def char_of_def bit_Suc_0_iff)

lemma command_line_runs_witness:
  "\<forall>s :: cli. (\<exists>u. sccli_parser (\<lambda>_ _. applyCmdHandler) cmdTbl [''Apply''] s = Some (CLI_PARSE_OK, u)) \<and>
    (\<exists>t h. sccli_parser (\<lambda>_ _ t. Some (CLI_PARSE_NO_VALUE, t)) cmdTbl [''Apply''] s = Some (CLI_PARSE_TOO_FEW, print h t) \<and> files t = files s)"
proof (intro allI conjI)
  fix s :: cli
  show "\<exists>u. sccli_parser (\<lambda>_ _. applyCmdHandler) cmdTbl [''Apply''] s = Some (CLI_PARSE_OK, u)"
    using command_line_runs [of "[''Apply'']" _ _ s "\<lambda>_ _. applyCmdHandler"] apply_command
    by (auto simp: applyCmdHandler_def)
  show "\<exists>t h. sccli_parser (\<lambda>_ _ t. Some (CLI_PARSE_NO_VALUE, t)) cmdTbl [''Apply''] s = Some (CLI_PARSE_TOO_FEW, print h t) \<and>
      files t = files s"
    using command_line_runs [of "[''Apply'']" _ _ s "\<lambda>_ _ t. Some (CLI_PARSE_NO_VALUE, t)"] apply_command parsed_printed(2) [of s]
    by fastforce
qed

subsection \<open>Unknown commands\<close>

lemma pop_n_parsed: "parsed s (snd (pop_n n s)) \<and> tokenLvl (snd (pop_n n s)) = tokenLvl s"
proof (induction n arbitrary: s)
  case (Suc n)
  show ?case
  proof (cases "sccli_tokenPop s")
    case (Pair p t)
    then have "parsed s t" "tokenLvl t = tokenLvl s" using pop_fields(1,4) [OF Pair] by simp_all
    then show ?thesis using Suc.IH [of t] Pair parsed_trans by (auto simp: split_def Let_def split: option.split)
  qed
qed (simp add: parsed_def)

text \<open>C25. A line whose first word names no command and begins none is reported with all its words, and nothing else happens: no
  file changes and no command is given to the shell.\<close>

theorem unknown_command_reported:
  assumes "sum_list (map (\<lambda>a. length a + 1) argv) \<le> CLI_INBUF" and "keep MAX_TOKEN (filter (\<lambda>a. a \<noteq> []) argv) = w # ws"
    and "chosen (sccli_choose (securityCheck s) (lower w) cmdTbl) = []"
  shows "\<exists>u. sccli_parser call cmdTbl argv s = Some (CLI_PARSE_UNKNOWN, u) \<and> files u = files s \<and> cmds u = cmds s \<and>
    printed u = printed s @ ''Unknown command: '' @ lower w @ concat (map (\<lambda>x. '' '' @ x) ws) @ [NL] @
      ''Type '' @ [CHR 0x22] @ ''help'' @ [CHR 0x22] @ '' for a list of valid commands.'' @ [NL]"
proof -
  let ?s = "fold sccli_tokenPush (filter (\<lambda>a. a \<noteq> []) argv) (sccli_tokenInit s)"
  let ?t = "?s\<lparr>tokenLvl := 1, ParseTbl := [cmdTbl]\<rparr>"
  note st = start_line [where s = s and ws = "filter (\<lambda>a. a \<noteq> []) argv"]
  have t: "ring_ok ?t" "words_left ?t = w # ws" "parsed s ?t"
    using st ring_cong [of ?t ?s] assms(2) by (simp_all add: parsed_def forget_def)
  obtain v where v: "sccli_tokenPopWoCase ?t = (Some (lower w), v)" "ring_ok v" "words_left v = ws" "parsed ?t v"
    "ParseTbl v = [cmdTbl]" "tokenLvl v = 1"
    using pop_word [OF t(1,2)] by auto
  have pr: "printed v = printed s" "files v = files s" "cmds v = cmds s" "securityCheck v = securityCheck s"
    using parsed_printed [OF parsed_trans [OF t(3) v(4)]] by simp_all
  have "sccli_tokenParser call cmdTbl ?s = no_match (lower w) v"
    using st(4,5) v(1) assms(3) pr(4)
    by (subst sccli_tokenParser.simps) (auto split: choice.split list.split)
  moreover have "\<exists>u. no_match (lower w) v = Some (CLI_PARSE_UNKNOWN, u) \<and> files u = files s \<and> cmds u = cmds s \<and>
    printed u = printed s @ ''Unknown command: '' @ lower w @ concat (map (\<lambda>x. '' '' @ x) ws) @ [NL] @
      ''Type '' @ [CHR 0x22] @ ''help'' @ [CHR 0x22] @ '' for a list of valid commands.'' @ [NL]"
  proof -
    let ?m = "print (''Unknown command: '' @ lower w) v"
    let ?n = "snd (pop_n MAX_TOKEN ?m)"
    have m: "ring_ok ?m" "words_left ?m = ws" using v ring_cong [of ?m v] by (simp_all add: print_def)
    have "length ws \<le> MAX_TOKEN" using length_words_left [OF m(1)] m(2) by simp
    then have ws: "fst (pop_n MAX_TOKEN ?m) = ws" using pop_n_words [OF m(1), of MAX_TOKEN] m(2) by simp
    have n: "parsed ?m ?n" "tokenLvl ?n = 1" "ParseTbl ?n = [cmdTbl]" using pop_n_parsed [of ?m MAX_TOKEN] v by (simp_all add: print_def)
    have "\<not> (case cmdTbl of e # _ \<Rightarrow> take 1 (pCmd e) = ''#'' | [] \<Rightarrow> False)" by (simp add: cmdTbl_def)
    moreover have "printed ?n = printed ?m" "files ?n = files ?m" "cmds ?n = cmds ?m" using parsed_printed [OF n(1)] by simp_all
    ultimately show ?thesis
      using n(2,3) v(6) ws pr by (simp add: no_match_def pop_all_def split_def Let_def) (simp add: say_def print_def)
  qed
  ultimately show ?thesis using assms(1) by (simp add: sccli_parser_def)
qed

lemma unknown_command_reported_witness:
  "\<forall>s :: cli. \<exists>u. sccli_parser call_handler cmdTbl [''reboot'', ''now''] s = Some (CLI_PARSE_UNKNOWN, u) \<and> files u = files s"
proof
  fix s :: cli
  have "chosen (sccli_choose (securityCheck s) (lower ''reboot'') cmdTbl) = []"
    by (simp add: sccli_choose_def cmdTbl_def exact_match_def sccli_tokenIsValidOpMode_def c_tolower_def sccli_tokencmp_def
        abbrevMatchCnt_def sccli_IsSuperUser_def sccli_tokenIsHidden_def)
  from unknown_command_reported [OF _ _ this, where call = call_handler and argv = "[''reboot'', ''now'']" and ws = "[''now'']"]
  show "\<exists>u. sccli_parser call_handler cmdTbl [''reboot'', ''now''] s = Some (CLI_PARSE_UNKNOWN, u) \<and> files u = files s"
    by auto
qed

subsection \<open>A command whose setting is not stored\<close>

text \<open>The handler of \<open>set fragthreshold\<close> returns an error when it has changed the setting, too, so the change is never stored.\<close>

lemma frag_never_ok: "fragCliCmdSet s = Some (rc, u) \<Longrightarrow> rc = CLI_PARSE_ERROR"
  by (auto simp: fragCliCmdSet_def with_num_def error_def refuse_def Let_def
      split: prod.splits parse_rc.splits option.splits if_splits bind_splits)

text \<open>The last character of \<open>char_list\<close> is never drawn: the remainder is taken by one less than their number.\<close>

lemma psk_never_last:
  assumes "get_random_num (Some b) n (length char_list) = Some rs"
  shows "last char_list \<notin> set (psk_text False rs)"
proof -
  have d: "distinct char_list" "length char_list = 66" by (simp_all add: char_list_def)
  have "char_list ! r \<noteq> last char_list" if "r \<in> set rs" for r
  proof -
    have "r < 65" using that assms d(2) by (auto simp: get_random_num_def split: if_splits)
    moreover have "last char_list = char_list ! 65" using last_conv_nth [of char_list] d(2) by force
    ultimately show ?thesis using d nth_eq_iff_index_eq [OF d(1), of r 65] by simp
  qed
  then show ?thesis by (simp add: psk_text_def image_iff) metis
qed

end
