(* ===== verification/Cli_Pin.thy ===== *)
theory Cli_Pin
  imports Cli_Wlan
begin

text \<open>
  The PIN codes of WPS: the code \<open>generate_pin\<close> makes is one \<open>IsValidWpsPin\<close> accepts, and the checksum finds a wrong digit.
\<close>

subsection \<open>The checksum on digits\<close>

definition weights :: "nat list" where
  "weights = [3, 1, 3, 1, 3, 1, 3, 1]"

definition weighted :: "nat list \<Rightarrow> nat" where
  "weighted ds = sum_list (map2 (*) weights ds)"

definition pin_digits :: "nat list \<Rightarrow> bool" where
  "pin_digits ds \<longleftrightarrow> length ds = 8 \<and> (\<forall>d \<in> set ds. d < 10)"

lemma length_8: "length ds = 8 \<longleftrightarrow> (\<exists>a b c d e f g h. ds = [a, b, c, d, e, f, g, h])"
  by (auto simp: numeral_eq_Suc length_Suc_conv)

lemma div_tens:
  "n div 100 = n div 10 div 10" "n div 1000 = n div 100 div 10" "n div 10000 = n div 1000 div 10"
  "n div 100000 = n div 10000 div 10" "n div 1000000 = n div 100000 div 10" "n div 10000000 = n div 1000000 div 10"
  for n :: nat
  by (simp_all flip: div_mult2_eq)

lemma horner_step: "n = v * 10 + d \<Longrightarrow> d < 10 \<Longrightarrow> n div 10 = v \<and> n mod 10 = d" for n v d :: nat
  by simp

lemma checksum_horner:
  assumes "n = g' * 10 + h" "g' = f' * 10 + g" "f' = e' * 10 + f" "e' = d' * 10 + e" "d' = c' * 10 + d" "c' = b' * 10 + c"
    "b' = a * 10 + b"
    and "a < 10" "b < 10" "c < 10" "d < 10" "e < 10" "f < 10" "g < 10" "h < 10"
  shows "ValidateChecksum n \<longleftrightarrow> (3 * a + b + 3 * c + d + 3 * e + f + 3 * g + h) mod 10 = 0"
proof -
  have "n div 10 = g'" "n mod 10 = h" "g' div 10 = f'" "g' mod 10 = g" "f' div 10 = e'" "f' mod 10 = f" "e' div 10 = d'"
    "e' mod 10 = e" "d' div 10 = c'" "d' mod 10 = d" "c' div 10 = b'" "c' mod 10 = c" "b' div 10 = a" "b' mod 10 = b"
    using horner_step [OF assms(1,15)] horner_step [OF assms(2,14)] horner_step [OF assms(3,13)] horner_step [OF assms(4,12)]
      horner_step [OF assms(5,11)] horner_step [OF assms(6,10)] horner_step [OF assms(7,9)] by blast+
  then show ?thesis using assms(8) by (simp only: ValidateChecksum_def div_tens mod_less)
qed

lemma pin_valid:
  assumes "pin_digits ds"
  shows "IsValidWpsPin (map digit_char ds) \<longleftrightarrow> weighted ds mod 10 = 0"
proof -
  obtain a b c d e f g h where ds: "ds = [a, b, c, d, e, f, g, h]" using assms by (auto simp: pin_digits_def length_8)
  then have l: "a < 10" "b < 10" "c < 10" "d < 10" "e < 10" "f < 10" "g < 10" "h < 10" using assms by (simp_all add: pin_digits_def)
  define n where "n = digits_val 0 (map digit_char ds)"
  have n: "n = ((((((a * 10 + b) * 10 + c) * 10 + d) * 10 + e) * 10 + f) * 10 + g) * 10 + h"
    using l by (simp add: n_def ds)
  have "n < 100000000" unfolding n using l by simp
  moreover have "signed_val (dropWhile c_isspace (map digit_char ds)) = int n"
    using l by (simp add: n_def ds signed_val_digits del: digits_val.simps)
  ultimately have "nat (atoi (map digit_char ds)) = n" by (simp add: atoi_def clamp_int_def INT_MAX_def INT_MIN_def)
  moreover have "ValidateChecksum n \<longleftrightarrow> (3 * a + b + 3 * c + d + 3 * e + f + 3 * g + h) mod 10 = 0"
    by (rule checksum_horner [OF n refl refl refl refl refl refl l])
  moreover have "weighted ds = 3 * a + b + 3 * c + d + 3 * e + f + 3 * g + h" by (simp add: weighted_def weights_def ds)
  moreover have "\<forall>c \<in> set (take 8 (map digit_char ds)). c_isdigit c" using l by (simp add: ds)
  ultimately show ?thesis by (simp add: IsValidWpsPin_def ds)
qed

subsection \<open>One wrong digit\<close>

lemma mod10_cancel:
  fixes a b r w :: nat
  assumes "(w * a + r) mod 10 = 0" "(w * b + r) mod 10 = 0" "w = 1 \<or> w = 3" "a < 10" "b < 10"
  shows "a = b"
proof -
  have "int (w * a + r) mod 10 = int (w * b + r) mod 10"
    using assms(1,2) by (metis of_nat_mod of_nat_numeral)
  then have "10 dvd int w * (int a - int b)"
    by (simp add: mod_eq_dvd_iff right_diff_distrib)
  then obtain k where "int w * (int a - int b) = 10 * k" by (auto simp: dvd_def)
  then have "int a - int b = 10 * k \<or> 3 * (int a - int b) = 10 * k" using assms(3) by auto
  moreover have "- 10 < int a - int b" "int a - int b < 10" using assms(4,5) by simp_all
  ultimately have "int a - int b = 0" by presburger
  then show ?thesis by simp
qed

lemma length_weights: "length weights = 8"
  by (simp add: weights_def)

lemma weighted_update:
  assumes "length ds = 8" "i < 8"
  shows "weighted (ds[i := d]) = weights ! i * d + (\<Sum>j \<in> {..<8} - {i}. weights ! j * ds ! j)"
proof -
  have "weighted (ds[i := d]) = (\<Sum>j < 8. weights ! j * ds[i := d] ! j)"
    using assms(1) by (simp add: weighted_def sum_list_sum_nth length_weights atLeast0LessThan)
  also have "\<dots> = weights ! i * d + (\<Sum>j \<in> {..<8} - {i}. weights ! j * ds[i := d] ! j)"
    using assms by (subst sum.remove [of _ i]) simp_all
  also have "(\<Sum>j \<in> {..<8} - {i}. weights ! j * ds[i := d] ! j) = (\<Sum>j \<in> {..<8} - {i}. weights ! j * ds ! j)"
    by (rule sum.cong) auto
  finally show ?thesis .
qed

lemma weights_nth: "i < 8 \<Longrightarrow> weights ! i = 1 \<or> weights ! i = 3"
proof -
  have "set weights = {1, 3}" by (auto simp: weights_def)
  moreover assume "i < 8"
  ultimately show ?thesis using nth_mem [of i weights] by (auto simp: weights_def)
qed

lemma wrong_digit:
  assumes "pin_digits ds" "weighted ds mod 10 = 0" "i < 8" "d < 10" "d \<noteq> ds ! i"
  shows "weighted (ds[i := d]) mod 10 \<noteq> 0"
proof
  assume 1: "weighted (ds[i := d]) mod 10 = 0"
  have l: "length ds = 8" "ds ! i < 10" using assms(1,3) by (auto simp: pin_digits_def)
  have 0: "weighted (ds[i := ds ! i]) mod 10 = 0" using assms(2) by simp
  show False
    using mod10_cancel [OF 1 [unfolded weighted_update [OF l(1) assms(3)]] 0 [unfolded weighted_update [OF l(1) assms(3)]]
        weights_nth [OF assms(3)] assms(4) l(2)] assms(5) by simp
qed

lemma checked_digits:
  assumes "length d = 7" "\<forall>x \<in> set d. x < 10"
  shows "pin_digits (d @ [pin_check d])" "weighted (d @ [pin_check d]) mod 10 = 0"
proof -
  obtain x0 x1 x2 x3 x4 x5 x6 where d: "d = [x0, x1, x2, x3, x4, x5, x6]"
    using assms(1) by (auto simp: numeral_eq_Suc length_Suc_conv)
  show "pin_digits (d @ [pin_check d])" using assms by (auto simp: pin_digits_def pin_check_def)
  let ?v = "3 * x0 + x1 + 3 * x2 + x3 + 3 * x4 + x5 + 3 * x6"
  have "(?v + (10 - ?v mod 10) mod 10) mod 10 = (?v mod 10 + (10 - ?v mod 10)) mod 10" by (simp only: mod_simps)
  also have "\<dots> = 0" by simp
  finally show "weighted (d @ [pin_check d]) mod 10 = 0"
    by (simp only: weighted_def weights_def pin_check_def d) (simp add: add.assoc)
qed

lemma digit_char_inj: "d < 10 \<Longrightarrow> e < 10 \<Longrightarrow> digit_char d = digit_char e \<longleftrightarrow> d = e"
  by (metis code_digit_char add_left_cancel)

text \<open>C17. The PIN that \<open>gen_wps_pin\<close> proposes has eight digits, \<open>set wps_pin\<close> accepts it, and refuses it when any one of its
  digits has been mistyped.\<close>

theorem generated_pin_checked:
  assumes "generate_pin (Some b) = Some p"
  shows "length p = WPS_PIN_LEN \<and> IsValidWpsPin p \<and>
    (\<forall>i < WPS_PIN_LEN. \<forall>d < 10. digit_char d \<noteq> p ! i \<longrightarrow> \<not> IsValidWpsPin (p[i := digit_char d]))"
proof -
  define ds where "ds = map (\<lambda>c. code c mod 10) (take 7 b) @ [pin_check (map (\<lambda>c. code c mod 10) (take 7 b))]"
  have b: "7 \<le> length b" and p: "p = map digit_char ds"
    using assms by (simp_all add: generate_pin_def Let_def ds_def split: if_splits)
  have ds: "pin_digits ds" "weighted ds mod 10 = 0"
    unfolding ds_def by (rule checked_digits; use b in auto)+
  have upd: "\<not> IsValidWpsPin (p[i := digit_char d])" if "i < 8" "d < 10" "digit_char d \<noteq> p ! i" for i d
  proof -
    have "length ds = 8" "ds ! i < 10" using ds(1) that(1) by (auto simp: pin_digits_def)
    then have "d \<noteq> ds ! i" using that by (auto simp: p)
    then have "weighted (ds[i := d]) mod 10 \<noteq> 0" by (rule wrong_digit [OF ds that(1,2)])
    moreover have "pin_digits (ds[i := d])"
      using ds(1) that(2) set_update_subset_insert [of ds i d] by (auto simp: pin_digits_def)
    ultimately show ?thesis using pin_valid [of "ds[i := d]"] by (simp add: p map_update)
  qed
  have "length p = 8" "IsValidWpsPin p" using ds pin_valid [OF ds(1)] by (simp_all add: p pin_digits_def)
  then show ?thesis using upd by blast
qed

lemma generated_pin_checked_witness: "IsValidWpsPin ''46264848'' \<and> \<not> IsValidWpsPin ''46264948''"
proof -
  have "generate_pin (Some [CHR 0x04, CHR 0x06, CHR 0x02, CHR 0x06, CHR 0x04, CHR 0x08, CHR 0x04]) = Some ''46264848''"
    by (simp add: generate_pin_def pin_check_def digit_char_def char_of_def bit_Suc_0_iff)
  note g = generated_pin_checked [OF this]
  have "\<not> IsValidWpsPin (''46264848''[5 := digit_char 9])"
    by (rule g [THEN conjunct2, THEN conjunct2, rule_format]) (simp_all add: digit_char_def char_of_def bit_Suc_0_iff)
  then show ?thesis using g by (simp add: digit_char_def char_of_def bit_Suc_0_iff)
qed

end
