(* ===== verification/Spec2Isabelle.thy ===== *)
theory Spec2Isabelle
  imports Nvram_Flash Vlan_List Apcfg_Modes Apcfg_Steps Apcfg_Limits Apcfg_Checked Util_Country Util_Defaults
    Wifi_Channel Wifi_Laws Apply_Tree Led_Laws Buttons Edit_Restore Cli_Switch Cli_Laws Cli_Pin
begin

text \<open>
  Verification of the first-party user-space code of the WAP4410N access point: the C sources below
  \<open>src/src/apps/apps_sc\<close> (paths in what follows are relative to it) and the command line interface that the vendor added to
  the shell, \<open>src/src/apps/busybox-1.1.0/shell/linksysCli.c\<close>. The device is a big-endian 32-bit MIPS with
  uClibc; the build defines \<open>LINKSYS\<close>, \<open>WAP4410N\<close>, \<open>LINUX_WSC\<close>, \<open>WSC_UPNP\<close>, \<open>_BONJOUR_\<close> and \<open>APL_DEBUG\<close>.

  THE PROGRAM. Every setting of the access point is a variable \<open>name=value\<close> in one file, the running
  configuration. \<open>libs/libnv\<close> reads and rewrites that file and copies it to and from the flash.
  \<open>libs/libscfg\<close> is a daemon that performs the writes for its clients over a socket. \<open>libs/libapcfg/apcfg.c\<close> has a
  getter and a setter for each setting; a setter that changes a value writes the variable through the daemon and
  records in a request file which part of the system is to be restarted. \<open>libs/libapcfg/apply.c\<close> reads the requests
  and runs the handler of every item due, \<open>libs/libapcfg/wifiuti.c\<close> writes the scripts and configuration files
  for the wireless interfaces that these handlers run, and \<open>libs/libutility\<close> has the validators and conversions
  that all of them share. \<open>libs/libeditapcfg\<close> exports all settings as a text that can be edited, and imports it.
  \<open>linksysCli.c\<close>, included by the shell, gives every setting a command: it parses the words of a line with nested tables, runs
  the handler of the entry found, and stores the settings in flash after a \<open>set\<close> that succeeded.

  THE STATE. A \<open>host\<close> (theory \<open>Host\<close>) is the part of the machine the code sees: the files, the commands given to
  the shell so far, the status the next commands return, the network interfaces and, as parameters, what the awaited commands do to
  the files (\<open>sh_fx\<close>: the commands are programs outside this code), for which files the daemon's \<open>read\<close> fails (\<open>rd_fails\<close>) and what its
  uninitialised buffer holds (\<open>stack_bytes\<close>). An operation is a function from
  host to \<open>option\<close>: \<open>None\<close> is undefined behaviour of the C program (an overflow of an array, a read of an
  uninitialised or a null object) or a loop that never ends; failures the code reports are values. C strings are
  lists of characters without NUL, their arrays appear as the bound in \<open>into_buf\<close>, \<open>get_str\<close> and their like, and
  integers have their width wherever the code can reach it. \<open>Apcfg_Acl\<close> extends the host by the static buffers of
  the library, \<open>Util_V6\<close> by the clock and the conversions of other libraries (parameters), and \<open>Edit_Vars\<close> by the global
  variables of \<open>editapcfg.c\<close>, each an array of bytes of its declared size; \<open>Cli_Base\<close> extends the state of \<open>Util_V6\<close> by
  \<open>struct cli_s\<close>, what has been printed, and two parameters, \<open>localtime\<close> and the bytes \<open>/dev/urandom\<close> gives.

  THE THEORIES.
  \<open>Sc_Prelude\<close>, \<open>C_Lib\<close>, \<open>C_Inet\<close>: named theorems, character codes, the functions of the C library the code uses
  (\<open>atoi\<close>, \<open>sprintf\<close> of numbers, \<open>strstr\<close>, \<open>strtok\<close>, \<open>fgets\<close>, \<open>inet_addr\<close>, \<open>inet_ntoa\<close>).
  \<open>Config_Store\<close>: the contract between the settings and whatever keeps them, as two locales: a store of variables
  (reading does not show, writing is an update of one variable) and its extension by requests. It is
  interpreted by the file of \<open>libnv\<close> (\<open>nv\<close> in \<open>Nvram\<close>), by the daemon (\<open>sc\<close> in \<open>Scfg\<close>) and by the daemon with the
  request file (\<open>cfg\<close> in \<open>Apl_Flags\<close>), and the getters and setters rest on the last.
  \<open>Nvram_Crc\<close>, \<open>Nvram\<close>, \<open>Nvram_Flash\<close> (\<open>libs/libnv/nvram.c\<close>): the checksum is the reflected CRC-32;
  \<open>nvram_set\<close> is the update of one variable and stays within its heap block; the flash image round trip and the
  rejection of every one-byte corruption.
  \<open>Scfg\<close> (\<open>libs/libscfg\<close>): messages, one request of the daemon, the client calls; a set through the daemon
  refines the update of the variable. The error branches are there with their lengths: a payload too large for \<open>malloc\<close> or \<open>write\<close>, a
  file that cannot be read, and the refused seek on \<open>/proc\<close>, after which the answer announces bytes that do not follow.
  \<open>Apl_Flags\<close> (\<open>libs/libapcfg/apply.c\<close>): the request file.
  \<open>Apcfg_Base\<close>, \<open>Apcfg_Hoare\<close>: the shapes the getters and setters share, and triples over them.
  \<open>Apcfg_Lan\<close>, \<open>Apcfg_Services\<close>, \<open>Apcfg_Wlan\<close>, \<open>Vlan_List\<close>, \<open>Apcfg_Acl\<close>, \<open>Apcfg_Checked\<close>
  (\<open>libs/libapcfg/apcfg.c\<close>): the settings of the system and the wired network, of the services, of the
  wireless network, the VLAN list, the access control list, and the setters that use the validators.
  \<open>Apcfg_Laws\<close> proves for tables of settings that each reads back and disturbs nothing else, \<open>Apcfg_Steps\<close> and
  \<open>Apcfg_Modes\<close> that sequences of setter calls (inductive step relations) keep the invariants,
  \<open>Apcfg_Limits\<close> where arrays and names are too short.
  \<open>Util_Conv\<close>, \<open>Util_Sort\<close>, \<open>Util_Valid\<close>, \<open>Util_Country\<close>, \<open>Util_Sys\<close>, \<open>Util_Defaults\<close>
  (\<open>libs/libutility/utility.c\<close>): conversions with their round trips, the sorter, the validators, the country
  list, version and interface information, the defaults; \<open>Util_V6\<close>: the time of day and the IPv6 status.
  \<open>Edit_Vars\<close>, \<open>Edit_Assign\<close>, \<open>Edit_Percent\<close>, \<open>Edit_Output\<close>, \<open>Edit_Table\<close>, \<open>Edit_Parse\<close>, \<open>Edit_Get\<close>, \<open>Edit_Set\<close>, \<open>Edit_Cfg\<close>
  (\<open>libs/libeditapcfg\<close>): the variables, the functions that assign and print them, the tables of groups and attributes, the
  reader of the text, the copies between settings and variables (\<open>outputCFGGet\<close>, \<open>parseCFGSet\<close>), and the two entry points
  \<open>OutputCFG\<close> and \<open>parseCFG\<close>. \<open>Edit_Laws\<close> shows what the functions guarantee and where they do not, \<open>Edit_Round\<close> that the
  reader finds in an exported group the texts that were written, each as far as the reader takes a value, and \<open>Edit_Restore\<close> for every group but the list of known access points that
  importing is assigning those texts, and that a backup of the RADIUS servers restores them on another station.
  \<open>Wifi_Script\<close>, \<open>Wifi_Security\<close>, \<open>Wifi_Start\<close> (\<open>libs/libapcfg/wifiuti.c\<close>): the scripts line by line.
  \<open>Wifi_Channel\<close> proves the correction of the channel, \<open>Wifi_Laws\<close> the quoting of names, the hardware address
  and the limits of the start.
  \<open>Apply\<close>, \<open>Apply_Tree\<close> (\<open>libs/libapcfg/apply.c\<close>): the table of items and its handlers, the walk over the tree;
  which items an apply runs and in which order, and that it consumes the requests before the first item runs, whatever the commands do.
  \<open>Led\<close>, \<open>Led_Laws\<close>, \<open>Buttons\<close> (\<open>led\<close>, \<open>push_button\<close>): the LED driver as a machine of writes and clock ticks over the
  GPIO registers and two timers, with its invariant, that every blinking ends, and what it loses; the daemons of the
  wireless LED and of the buttons, round by round, and what a press of the reset button does.

  \<open>Cli_Base\<close>, \<open>Cli_Shapes\<close>, \<open>Cli_Parse\<close>, \<open>Cli_Device\<close>, \<open>Cli_Services\<close>, \<open>Cli_Net\<close>, \<open>Cli_Wlan\<close>, \<open>Cli_Manage\<close>, \<open>Cli_Table\<close>
  (\<open>linksysCli.c\<close>, with \<open>Lca_Conv\<close> for the copy of \<open>lca_conv.c\<close> it shares with \<open>libeditapcfg\<close>): the state and the ring of
  words, the steps the handlers share, the parser, the handlers under the names of their C functions, and the tables. The
  parser takes the function that runs a handler of a given name as an argument; \<open>call_handler\<close> is the one of the tables.
  \<open>Cli_Ring\<close> states a bounded queue as a locale and interprets it by the ring. \<open>Cli_Dispatch\<close> relates the parser to what a line
  names: full names, abbreviations, the path of a command. \<open>Cli_Names\<close> shows it for the real tables, \<open>Cli_Result\<close> that no
  handler of the program returns one of the two results for an unknown token, \<open>Cli_Laws\<close> what a line that names a command does for
  every result of its handler, that the parser stays within its arrays and ends with the handler it calls, and what an unknown command does, \<open>Cli_Switch\<close> that the commands for on/off settings work from the
  words of the line to the flash, and \<open>Cli_Pin\<close> the checksum of WPS PIN codes.

  BOUNDS. Recursion over the table of items ends because children and brothers have larger identifiers; the loops of
  the C code over strings are recursion over lists whose length decreases, each proved to terminate. No
  definition takes fuel: the parser recurses into the table of an entry, which is smaller than the one it stands in (four
  levels at most, of fifty the stack holds), the ring is searched for at most its fifty slots, and the one loop that may not end, in \<open>socket_read\<close>, consumes the list of segments the
  connection delivers, and is \<open>None\<close> when it would spin on a closed connection. The parameter \<open>room\<close> of \<open>wlanStart\<close> and of the apply
  is the size of its array \<open>vapStr\<close>: with the declared 5 bytes nothing starts without overflow, so the theorems about
  the walk hold for every size.

  NOT MODELLED. Locking and the accept loop of the daemon (one process at a time is modelled); the debug log, but for
  the array reads it makes; failure of \<open>malloc\<close> for blocks below 2 GiB and
  of the socket calls (\<open>get_sockfd\<close>); \<open>printApplyTree\<close>, which prints
  the table; percentages written as \<open>inf\<close>, \<open>nan\<close> or in hexadecimal, and the size of the buffer the caller
  gives to \<open>OutputCFG\<close>; the WPS LED of another product (\<open>ifndef WAP4410N\<close>); the \<open>fork\<close> of the daemons; commands of
  \<open>linksysCli.c\<close> that are not compiled (\<open>#if 0\<close>, \<open>DAILY_REBOOT\<close>), and the shell that calls it; the vendor's changes to packages
  that are otherwise third-party (\<open>net-snmp\<close>'s MIB modules, \<open>syslogd\<close>, \<open>mini_httpd\<close>); and the vendored packages themselves, the
  kernel, the wireless driver and the boot loader.
\<close>

end
